(* ===== verification/Prelude.thy ===== *)
theory Prelude
  imports Main "HOL-Library.AList" "HOL-Library.Char_ord" "HOL-Library.List_Lexorder"
    "HOL-Library.Product_Lexorder" "HOL-Library.Sublist" "HOL-Library.Multiset"
begin

section \<open>Shared vocabulary of the development\<close>

text \<open>
  What every component of the model uses: the Go string operations of package
  \<open>strings\<close> on byte strings, Go maps as association lists whose order stands for one
  (arbitrary) iteration order, \<open>sort.Slice\<close> with the comparison function written in
  the source, errors as values and computations that may fail, and the generic lemmas on
  them.  A Go string is a sequence of bytes, so \<^typ>\<open>string\<close> (a list of 8-bit
  characters) represents it exactly; the order on \<^typ>\<open>string\<close> is the bytewise
  lexicographic order, which is Go's \<open><\<close> on strings.
\<close>

named_theorems go_string \<open>evaluation rules of the Go string operations\<close>
named_theorems go_map \<open>lookup rules of the Go map operations\<close>
named_theorems go_err \<open>unfolding rules of the error plumbing\<close>

subsection \<open>Package strings\<close>

text \<open>
  The UTF-8 encodings of the code points for which \<open>unicode.IsSpace\<close> holds
  (U+0009 to U+000D, U+0020, U+0085, U+00A0, U+1680, U+2000 to U+200A, U+2028, U+2029,
  U+202F, U+205F, U+3000).  \<open>strings.TrimSpace\<close> removes them at both ends.
\<close>

definition spaceRunes :: "string list" where
  "spaceRunes =
     [[CHR 0x20], [CHR 0x09], [CHR 0x0A], [CHR 0x0B], [CHR 0x0C], [CHR 0x0D],
      [CHR 0xC2, CHR 0x85], [CHR 0xC2, CHR 0xA0], [CHR 0xE1, CHR 0x9A, CHR 0x80],
      [CHR 0xE2, CHR 0x80, CHR 0x80], [CHR 0xE2, CHR 0x80, CHR 0x81],
      [CHR 0xE2, CHR 0x80, CHR 0x82], [CHR 0xE2, CHR 0x80, CHR 0x83],
      [CHR 0xE2, CHR 0x80, CHR 0x84], [CHR 0xE2, CHR 0x80, CHR 0x85],
      [CHR 0xE2, CHR 0x80, CHR 0x86], [CHR 0xE2, CHR 0x80, CHR 0x87],
      [CHR 0xE2, CHR 0x80, CHR 0x88], [CHR 0xE2, CHR 0x80, CHR 0x89],
      [CHR 0xE2, CHR 0x80, CHR 0x8A], [CHR 0xE2, CHR 0x80, CHR 0xA8],
      [CHR 0xE2, CHR 0x80, CHR 0xA9], [CHR 0xE2, CHR 0x80, CHR 0xAF],
      [CHR 0xE2, CHR 0x81, CHR 0x9F], [CHR 0xE3, CHR 0x80, CHR 0x80]]"

definition leadingRune :: "string list \<Rightarrow> string \<Rightarrow> nat" where
  "leadingRune rs s = (case find (\<lambda>r. r \<noteq> [] \<and> prefix r s) rs of None \<Rightarrow> 0 | Some r \<Rightarrow> length r)"

function stripRunes :: "string list \<Rightarrow> string \<Rightarrow> string" where
  "stripRunes rs s =
     (if leadingRune rs s = 0 then s else stripRunes rs (drop (leadingRune rs s) s))"
  by pat_completeness auto

lemma leadingRune_le: "leadingRune rs s \<le> length s"
  by (auto simp: leadingRune_def find_Some_iff split: option.splits dest: prefix_length_le)

termination stripRunes
proof (relation "measure (\<lambda>(rs, s). length s)")
  fix rs s assume "leadingRune rs s \<noteq> 0"
  with leadingRune_le [of rs s] show "((rs, drop (leadingRune rs s) s), (rs, s)) \<in> measure (\<lambda>(rs, s). length s)"
    by auto
qed simp

declare stripRunes.simps [simp del]

definition TrimSpace :: "string \<Rightarrow> string" where
  "TrimSpace s = rev (stripRunes (map rev spaceRunes) (rev (stripRunes spaceRunes s)))"

text \<open>
  \<open>strings.ToLower\<close> and \<open>strings.EqualFold\<close>, on the ASCII letters; bytes from
  0x80 on are left alone, which is exact for ASCII strings and for scripts without case.
\<close>

definition lowerChar :: "char \<Rightarrow> char" where
  "lowerChar c = (let n = (of_char c :: nat) in if 65 \<le> n \<and> n \<le> 90 then char_of (n + 32) else c)"

definition ToLower :: "string \<Rightarrow> string" where
  "ToLower s = map lowerChar s"

definition EqualFold :: "string \<Rightarrow> string \<Rightarrow> bool" where
  "EqualFold s t \<longleftrightarrow> ToLower s = ToLower t"

definition HasPrefix :: "string \<Rightarrow> string \<Rightarrow> bool" where
  "HasPrefix s p \<longleftrightarrow> prefix p s"

definition HasSuffix :: "string \<Rightarrow> string \<Rightarrow> bool" where
  "HasSuffix s p \<longleftrightarrow> suffix p s"

definition TrimPrefix :: "string \<Rightarrow> string \<Rightarrow> string" where
  "TrimPrefix s p = (if prefix p s then drop (length p) s else s)"

definition TrimSuffix :: "string \<Rightarrow> string \<Rightarrow> string" where
  "TrimSuffix s p = (if suffix p s then take (length s - length p) s else s)"

fun JoinStrings :: "string list \<Rightarrow> string \<Rightarrow> string" where
  "JoinStrings [] sep = []"
| "JoinStrings [x] sep = x"
| "JoinStrings (x # y # zs) sep = x @ sep @ JoinStrings (y # zs) sep"

text \<open>\<open>strings.Contains(s, sub)\<close>: some suffix of \<open>s\<close> starts with \<open>sub\<close>.\<close>

definition ContainsString :: "string \<Rightarrow> string \<Rightarrow> bool" where
  "ContainsString s sub \<longleftrightarrow> list_ex (prefix sub) (suffixes s)"

text \<open>\<open>strings.TrimRight(s, "/")\<close>.\<close>

definition TrimRightSlash :: "string \<Rightarrow> string" where
  "TrimRightSlash s = rev (dropWhile (\<lambda>c. c = CHR ''/'') (rev s))"


subsection \<open>Go maps\<close>

text \<open>
  A Go map is an association list with distinct keys; the order of the list is one of the
  iteration orders \<open>range\<close> may take.  Assignment is \<^const>\<open>AList.update\<close>,
  \<open>delete\<close> is \<^const>\<open>AList.delete\<close>, a lookup is \<^const>\<open>map_of\<close>.
\<close>

type_synonym ('k, 'v) gomap = "('k \<times> 'v) list"

abbreviation mapWf :: "('k, 'v) gomap \<Rightarrow> bool" where
  "mapWf m \<equiv> distinct (map fst m)"

text \<open>The value of a map at a key that may be absent: Go's zero value.\<close>

definition mapGet :: "'v \<Rightarrow> ('k, 'v) gomap \<Rightarrow> 'k \<Rightarrow> 'v" where
  "mapGet zero m k = (case map_of m k of None \<Rightarrow> zero | Some v \<Rightarrow> v)"

definition hasKey :: "('k, 'v) gomap \<Rightarrow> 'k \<Rightarrow> bool" where
  "hasKey m k \<longleftrightarrow> map_of m k \<noteq> None"

text \<open>A map built by a loop of assignments, later entries overwriting earlier ones.\<close>

fun putAll :: "('k, 'v) gomap \<Rightarrow> ('k \<times> 'v) list \<Rightarrow> ('k, 'v) gomap" where
  "putAll m [] = m"
| "putAll m ((k, v) # kvs) = putAll (AList.update k v m) kvs"

subsection \<open>sort.Slice and sort.Strings\<close>

text \<open>
  \<open>sort.Slice(xs, less)\<close> with the comparison of the source.  The library's sort is not
  stable; the locale \<open>slice_order\<close> below shows that the result does not depend on
  that, nor on the iteration order of the map the slice was collected from, when the
  comparison separates the elements.
\<close>

fun insertSlice :: "('a \<Rightarrow> 'a \<Rightarrow> bool) \<Rightarrow> 'a \<Rightarrow> 'a list \<Rightarrow> 'a list" where
  "insertSlice lt x [] = [x]"
| "insertSlice lt x (y # ys) = (if lt y x then y # insertSlice lt x ys else x # y # ys)"

definition sortSlice :: "('a \<Rightarrow> 'a \<Rightarrow> bool) \<Rightarrow> 'a list \<Rightarrow> 'a list" where
  "sortSlice lt xs = foldr (insertSlice lt) xs []"

definition sortStrings :: "string list \<Rightarrow> string list" where
  "sortStrings xs = sort xs"

subsection \<open>Errors as values\<close>

text \<open>
  \<open>apperror.AppError\<close> with its kind, code and parameters, and the plain errors made by
  \<open>errors.New\<close> and \<open>fmt.Errorf\<close> (kept as the format and its arguments).
\<close>

datatype ErrorKind = KindBadRequest | KindForbidden | KindConflict | KindNotFound | KindInternal
  | KindUnauthorized | KindUnavailable

datatype go_error =
    AppError ErrorKind string "(string \<times> string) list"
  | Errorf string "string list"

type_synonym 'a res = "go_error + 'a"

definition bind :: "'a res \<Rightarrow> ('a \<Rightarrow> 'b res) \<Rightarrow> 'b res" where
  "bind r f = (case r of Inl e \<Rightarrow> Inl e | Inr x \<Rightarrow> f x)"

definition guardErr :: "bool \<Rightarrow> go_error \<Rightarrow> 'a res \<Rightarrow> 'a res" where
  "guardErr ok e r = (if ok then r else Inl e)"

fun mapRes :: "('a \<Rightarrow> 'b res) \<Rightarrow> 'a list \<Rightarrow> 'b list res" where
  "mapRes f [] = Inr []"
| "mapRes f (x # xs) = bind (f x) (\<lambda>y. bind (mapRes f xs) (\<lambda>ys. Inr (y # ys)))"

fun foldRes :: "('s \<Rightarrow> 'a \<Rightarrow> 's res) \<Rightarrow> 's \<Rightarrow> 'a list \<Rightarrow> 's res" where
  "foldRes f s [] = Inr s"
| "foldRes f s (x # xs) = bind (f s x) (\<lambda>s'. foldRes f s' xs)"

text \<open>The code of an error, as \<open>apperror.CodeOf\<close> reads it.\<close>

fun CodeOf :: "go_error \<Rightarrow> string" where
  "CodeOf (AppError k c ps) = c"
| "CodeOf (Errorf f as) = []"

section \<open>Lemmas\<close>

subsection \<open>Trimming\<close>

lemma stripRunes_fix: "leadingRune rs (stripRunes rs s) = 0"
  by (induction rs s rule: stripRunes.induct) (metis stripRunes.simps)

lemma stripRunes_id: "leadingRune rs s = 0 \<Longrightarrow> stripRunes rs s = s"
  by (subst stripRunes.simps) simp

lemma stripRunes_idem [simp]: "stripRunes rs (stripRunes rs s) = stripRunes rs s"
  by (rule stripRunes_id [OF stripRunes_fix])

lemma stripRunes_suffix: "suffix (stripRunes rs s) s"
proof (induction rs s rule: stripRunes.induct)
  case (1 rs s)
  show ?case
  proof (cases "leadingRune rs s = 0")
    case False
    then have "suffix (stripRunes rs (drop (leadingRune rs s) s)) (drop (leadingRune rs s) s)"
      by (rule "1.IH")
    also have "suffix (drop (leadingRune rs s) s) s" by (rule suffix_drop)
    finally show ?thesis using False by (subst stripRunes.simps) simp
  qed (simp add: stripRunes_id)
qed

lemma leadingRune_zero_iff: "leadingRune rs s = 0 \<longleftrightarrow> (\<forall>r \<in> set rs. r \<noteq> [] \<longrightarrow> \<not> prefix r s)"
proof
  assume z: "leadingRune rs s = 0"
  have "find (\<lambda>r. r \<noteq> [] \<and> prefix r s) rs = None"
  proof (rule ccontr)
    assume "find (\<lambda>r. r \<noteq> [] \<and> prefix r s) rs \<noteq> None"
    then obtain r where r: "find (\<lambda>r. r \<noteq> [] \<and> prefix r s) rs = Some r" by blast
    then have "r \<noteq> []" by (auto simp: find_Some_iff)
    with z r show False by (simp add: leadingRune_def)
  qed
  then show "\<forall>r \<in> set rs. r \<noteq> [] \<longrightarrow> \<not> prefix r s" by (auto simp: find_None_iff)
next
  assume "\<forall>r \<in> set rs. r \<noteq> [] \<longrightarrow> \<not> prefix r s"
  then have "find (\<lambda>r. r \<noteq> [] \<and> prefix r s) rs = None" by (auto simp: find_None_iff)
  then show "leadingRune rs s = 0" by (simp add: leadingRune_def)
qed

lemma leadingRune_prefix: "leadingRune rs s = 0 \<Longrightarrow> prefix t s \<Longrightarrow> leadingRune rs t = 0"
  by (auto simp: leadingRune_zero_iff dest: prefix_order.trans)

lemma TrimSpace_idem [simp]: "TrimSpace (TrimSpace s) = TrimSpace s"
proof -
  let ?l = "stripRunes spaceRunes s"
  let ?r = "stripRunes (map rev spaceRunes) (rev ?l)"
  have "prefix (rev ?r) ?l"
    using stripRunes_suffix [of "map rev spaceRunes" "rev ?l"] by (simp add: suffix_to_prefix)
  then have "leadingRune spaceRunes (rev ?r) = 0"
    by (rule leadingRune_prefix [OF stripRunes_fix])
  then have "stripRunes spaceRunes (rev ?r) = rev ?r" by (rule stripRunes_id)
  then show ?thesis by (simp add: TrimSpace_def)
qed

lemma TrimSpace_Nil [simp]: "TrimSpace [] = []"
  by (simp add: TrimSpace_def stripRunes_id leadingRune_zero_iff)

lemma EqualFold_refl [simp]: "EqualFold s s"
  by (simp add: EqualFold_def)

lemma EqualFold_sym: "EqualFold s t \<longleftrightarrow> EqualFold t s"
  by (auto simp: EqualFold_def)

lemma EqualFold_trans: "EqualFold s t \<Longrightarrow> EqualFold t u \<Longrightarrow> EqualFold s u"
  by (simp add: EqualFold_def)

lemma ToLower_eq_Nil [simp]: "ToLower s = [] \<longleftrightarrow> s = []"
  by (simp add: ToLower_def)

subsection \<open>Maps\<close>

lemma map_of_update [simp, go_map]: "map_of (AList.update k v m) = (map_of m)(k \<mapsto> v)"
  by (rule update_conv')

lemma map_of_delete [simp, go_map]: "map_of (AList.delete k m) = (map_of m)(k := None)"
  by (rule delete_conv')

lemma mapWf_update [simp]: "mapWf m \<Longrightarrow> mapWf (AList.update k v m)"
  by (rule distinct_update)

lemma mapWf_delete [simp]: "mapWf m \<Longrightarrow> mapWf (AList.delete k m)"
  by (rule distinct_delete)

lemma mapWf_filter [simp]: "mapWf m \<Longrightarrow> mapWf (filter P m)"
  by (rule distinct_map_filter)

lemma mapWf_entry: "mapWf m \<Longrightarrow> (k, v) \<in> set m \<longleftrightarrow> map_of m k = Some v"
  by (metis map_of_SomeD map_of_is_SomeI)

lemma map_of_filter [go_map]:
  "mapWf m \<Longrightarrow> map_of (filter P m) k =
     (case map_of m k of None \<Rightarrow> None | Some v \<Rightarrow> if P (k, v) then Some v else None)"
  by (induction m) (auto split: option.splits dest: map_of_SomeD simp: rev_image_eqI)

lemma mapWf_map_snd [simp]: "mapWf (map (\<lambda>(k, v). (k, f k v)) m) \<longleftrightarrow> mapWf m"
  by (induction m) (auto simp: case_prod_beta image_iff)

lemma map_of_map_snd [go_map]:
  "map_of (map (\<lambda>(k, v). (k, f k v)) m) k = map_option (f k) (map_of m k)"
  by (induction m) auto

lemma mapWf_putAll [simp]: "mapWf m \<Longrightarrow> mapWf (putAll m kvs)"
  by (induction m kvs rule: putAll.induct) auto

lemma map_of_putAll: "map_of (putAll m kvs) k =
    (case map_of (rev kvs) k of None \<Rightarrow> map_of m k | Some v \<Rightarrow> Some v)"
  by (induction m kvs rule: putAll.induct) (auto simp: map_of_append split: option.splits)

lemma map_of_putAll_notin: "k \<notin> fst ` set kvs \<Longrightarrow> map_of (putAll m kvs) k = map_of m k"
  by (induction m kvs rule: putAll.induct) auto

lemma map_of_putAll_distinct:
  "distinct (map fst kvs) \<Longrightarrow> map_of (putAll m kvs) k = (case map_of kvs k of None \<Rightarrow> map_of m k | Some v \<Rightarrow> Some v)"
  by (induction m kvs rule: putAll.induct) (auto simp: map_of_putAll_notin split: option.splits, force)

lemma map_of_putAll_Some: "map_of (putAll [] kvs) k = Some v \<Longrightarrow> (k, v) \<in> set kvs"
  by (auto simp: map_of_putAll split: option.splits dest: map_of_SomeD)

lemma dom_putAll: "dom (map_of (putAll m kvs)) = dom (map_of m) \<union> fst ` set kvs"
  by (induction m kvs rule: putAll.induct) auto

subsection \<open>Sorting\<close>

lemma mset_insertSlice [simp]: "mset (insertSlice lt x ys) = add_mset x (mset ys)"
  by (induction ys) auto

lemma mset_sortSlice [simp]: "mset (sortSlice lt xs) = mset xs"
  by (induction xs) (auto simp: sortSlice_def)

lemma set_sortSlice [simp]: "set (sortSlice lt xs) = set xs"
  by (metis mset_sortSlice set_mset_mset)

lemma length_sortSlice [simp]: "length (sortSlice lt xs) = length xs"
  by (metis mset_sortSlice size_mset)

lemma distinct_sortSlice [simp]: "distinct (sortSlice lt xs) = distinct xs"
  by (metis mset_eq_imp_distinct_iff mset_sortSlice)

lemma sortSlice_Nil [simp]: "sortSlice lt [] = []"
  by (simp add: sortSlice_def)

lemma set_sortStrings [simp]: "set (sortStrings xs) = set xs"
  by (simp add: sortStrings_def)

lemma sorted_sortStrings [simp]: "sorted (sortStrings xs)"
  by (simp add: sortStrings_def)

lemma distinct_sortStrings [simp]: "distinct (sortStrings xs) = distinct xs"
  by (simp add: sortStrings_def)

text \<open>
  The contract between a comparison function and \<open>sort.Slice\<close>: a strict order that
  separates elements with different identity.
\<close>

locale slice_order =
  fixes lt :: "'v \<Rightarrow> 'v \<Rightarrow> bool" and ident :: "'v \<Rightarrow> 'k"
  assumes lt_irrefl: "\<not> lt x x"
    and lt_trans: "lt x y \<Longrightarrow> lt y z \<Longrightarrow> lt x z"
    and lt_total: "ident x \<noteq> ident y \<Longrightarrow> lt x y \<or> lt y x"
begin

lemma sorted_insertSlice:
  "sorted_wrt lt ys \<Longrightarrow> inj_on ident (insert x (set ys)) \<Longrightarrow> x \<notin> set ys \<Longrightarrow>
   sorted_wrt lt (insertSlice lt x ys)"
proof (induction ys)
  case (Cons y ys)
  have ids: "\<forall>z \<in> set (y # ys). ident x \<noteq> ident z"
    using Cons.prems(2,3) by (auto simp: inj_on_def)
  have set_ins: "set (insertSlice lt x ys) = insert x (set ys)"
    by (metis mset_insertSlice set_mset_mset set_mset_add_mset_insert)
  show ?case
  proof (cases "lt y x")
    case True
    moreover have "sorted_wrt lt (insertSlice lt x ys)"
      using Cons by (auto simp: inj_on_def)
    ultimately show ?thesis using Cons.prems(1) by (auto simp: set_ins)
  next
    case False
    with ids have "lt x y" using lt_total by fastforce
    with Cons.prems(1) show ?thesis using False by (auto intro: lt_trans)
  qed
qed simp

lemma sorted_sortSlice: "inj_on ident (set xs) \<Longrightarrow> distinct xs \<Longrightarrow> sorted_wrt lt (sortSlice lt xs)"
proof (induction xs)
  case (Cons x xs)
  have "set (sortSlice lt xs) = set xs" by simp
  with Cons show ?case
    using sorted_insertSlice [of "sortSlice lt xs" x] by (auto simp: sortSlice_def)
qed simp

lemma sorted_unique:
  "sorted_wrt lt xs \<Longrightarrow> sorted_wrt lt ys \<Longrightarrow> mset xs = mset ys \<Longrightarrow> xs = ys"
proof (induction xs arbitrary: ys)
  case (Cons x xs)
  then obtain y ys' where ys: "ys = y # ys'" by (cases ys) auto
  have "x = y"
  proof (rule ccontr)
    assume ne: "x \<noteq> y"
    have "set (x # xs) = set ys" using Cons.prems(3) by (metis set_mset_mset)
    with ne ys have "x \<in> set ys'" "y \<in> set xs" by auto
    with Cons.prems(1,2) ys have "lt y x" "lt x y" by auto
    then show False using lt_irrefl lt_trans by blast
  qed
  with Cons ys show ?case by auto
qed simp

lemma order_independent:
  "mset xs = mset ys \<Longrightarrow> inj_on ident (set xs) \<Longrightarrow> distinct xs \<Longrightarrow> sortSlice lt xs = sortSlice lt ys"
  by (metis mset_eq_setD mset_eq_imp_distinct_iff mset_sortSlice sorted_sortSlice sorted_unique)

lemma any_sort:
  "mset ys = mset xs \<Longrightarrow> sorted_wrt lt ys \<Longrightarrow> inj_on ident (set xs) \<Longrightarrow> distinct xs \<Longrightarrow>
   ys = sortSlice lt xs"
  by (metis mset_sortSlice sorted_sortSlice sorted_unique)

end

subsection \<open>Fallible computations\<close>

lemma bind_simps [simp, go_err]:
  "bind (Inl e) f = Inl e"
  "bind (Inr x) f = f x"
  by (simp_all add: bind_def)

lemma bind_Inr_iff: "bind r f = Inr y \<longleftrightarrow> (\<exists>x. r = Inr x \<and> f x = Inr y)"
  by (cases r) auto

lemma bind_InrE [elim!]: "bind r f = Inr y \<Longrightarrow> (\<And>x. r = Inr x \<Longrightarrow> f x = Inr y \<Longrightarrow> P) \<Longrightarrow> P"
  by (auto simp: bind_Inr_iff)

lemma bind_Inl_iff: "bind r f = Inl e \<longleftrightarrow> r = Inl e \<or> (\<exists>x. r = Inr x \<and> f x = Inl e)"
  by (cases r) auto

lemma guardErr_Inr_iff [simp]: "guardErr ok e r = Inr x \<longleftrightarrow> ok \<and> r = Inr x"
  by (simp add: guardErr_def)

lemma mapRes_Inr_length: "mapRes f xs = Inr ys \<Longrightarrow> length ys = length xs"
  by (induction xs arbitrary: ys) auto

lemma mapRes_Inr_nth: "mapRes f xs = Inr ys \<Longrightarrow> list_all2 (\<lambda>x y. f x = Inr y) xs ys"
  by (induction xs arbitrary: ys) auto

lemma foldRes_invariant:
  assumes "foldRes f s xs = Inr s'" "P s" "\<And>s x s'. x \<in> set xs \<Longrightarrow> P s \<Longrightarrow> f s x = Inr s' \<Longrightarrow> P s'"
  shows "P s'"
  using assms
proof (induction xs arbitrary: s)
  case (Cons x xs)
  from Cons.prems(1) obtain s1 where s1: "f s x = Inr s1" "foldRes f s1 xs = Inr s'" by auto
  have "P s1" by (rule Cons.prems(3) [OF _ Cons.prems(2) s1(1)]) simp
  with Cons.IH [OF s1(2)] Cons.prems(3) show ?case by auto
qed simp

end
