(* ===== verification/GoTime.thy ===== *)
theory GoTime
  imports Prelude
begin

section \<open>Time stamps: time.Parse and Format for RFC 3339\<close>

text \<open>
  The time stamps of the program are strings.  \<open>time.Parse(time.RFC3339, s)\<close> is modelled
  chunk by chunk as package \<open>time\<close> reads the layout
  \<open>2006-01-02T15:04:05Z07:00\<close>: a one-digit hour and an optional fraction after a dot
  or a comma are accepted, the day is checked against the month, the zone is \<open>Z\<close> or a
  signed \<open>hh:mm\<close> with \<open>hh \<le> 24\<close> and \<open>mm \<le> 60\<close>.  An instant is
  the number of nanoseconds since the epoch.  The clock of a request is a civil date and
  time in UTC; \<open>Format\<close> prints it.
\<close>

record civil =
  civ_year :: nat
  civ_month :: nat
  civ_day :: nat
  civ_hour :: nat
  civ_min :: nat
  civ_sec :: nat
  civ_nsec :: nat

definition isLeap :: "nat \<Rightarrow> bool" where
  "isLeap y \<longleftrightarrow> y mod 4 = 0 \<and> (y mod 100 \<noteq> 0 \<or> y mod 400 = 0)"

definition daysIn :: "nat \<Rightarrow> nat \<Rightarrow> nat" where
  "daysIn m y = (if m = 2 then (if isLeap y then 29 else 28)
                 else if m \<in> {4, 6, 9, 11} then 30 else 31)"

text \<open>Days from 1970-01-01, by the usual count of leap days before a year.\<close>

definition daysBeforeYear :: "nat \<Rightarrow> int" where
  "daysBeforeYear y = (let p = int y - 1 in 365 * int y + p div 4 - p div 100 + p div 400)"

definition daysBeforeMonth :: "nat \<Rightarrow> nat \<Rightarrow> int" where
  "daysBeforeMonth m y = sum_list (map (\<lambda>k. int (daysIn k y)) [1..<m])"

definition civilInstant :: "civil \<Rightarrow> int" where
  "civilInstant c =
     ((((daysBeforeYear (civ_year c) - daysBeforeYear 1970 + daysBeforeMonth (civ_month c) (civ_year c)
         + int (civ_day c) - 1) * 24 + int (civ_hour c)) * 60 + int (civ_min c)) * 60
       + int (civ_sec c)) * 1000000000 + int (civ_nsec c)"

definition validCivil :: "civil \<Rightarrow> bool" where
  "validCivil c \<longleftrightarrow> civ_year c < 10000 \<and> 1 \<le> civ_month c \<and> civ_month c \<le> 12
     \<and> 1 \<le> civ_day c \<and> civ_day c \<le> daysIn (civ_month c) (civ_year c)
     \<and> civ_hour c < 24 \<and> civ_min c < 60 \<and> civ_sec c < 60 \<and> civ_nsec c < 1000000000"

subsection \<open>Parsing\<close>

definition digitVal :: "char \<Rightarrow> nat option" where
  "digitVal c = (let n = (of_char c :: nat) in if 48 \<le> n \<and> n \<le> 57 then Some (n - 48) else None)"

text \<open>\<open>getnum(s, fixed)\<close>: one or two digits, two when \<open>fixed\<close>.\<close>

fun getnum :: "string \<Rightarrow> bool \<Rightarrow> (nat \<times> string) option" where
  "getnum [] fixed = None"
| "getnum [c] fixed = (case digitVal c of None \<Rightarrow> None | Some d \<Rightarrow> if fixed then None else Some (d, []))"
| "getnum (c # c' # cs) fixed =
     (case digitVal c of None \<Rightarrow> None
      | Some d \<Rightarrow> (case digitVal c' of
            None \<Rightarrow> if fixed then None else Some (d, c' # cs)
          | Some d' \<Rightarrow> Some (10 * d + d', cs)))"

text \<open>The year: exactly four digits.\<close>

definition getyear :: "string \<Rightarrow> (nat \<times> string) option" where
  "getyear s = Option.bind (getnum s True) (\<lambda>(h, s'). Option.bind (getnum s' True) (\<lambda>(l, r). Some (100 * h + l, r)))"

fun skipChar :: "char \<Rightarrow> string \<Rightarrow> string option" where
  "skipChar c [] = None"
| "skipChar c (x # xs) = (if x = c then Some xs else None)"

text \<open>The digits of a fraction, as nanoseconds: nine digits count, further ones are dropped.\<close>

definition fracNanos :: "nat list \<Rightarrow> nat" where
  "fracNanos ds = foldl (\<lambda>a d. 10 * a + d) 0 (take 9 (ds @ replicate 9 0))"

definition takeFraction :: "string \<Rightarrow> nat \<times> string" where
  "takeFraction s = (case s of
      c # d # cs \<Rightarrow>
        (if (c = CHR ''.'' \<or> c = CHR '','') \<and> digitVal d \<noteq> None
         then (fracNanos (map (\<lambda>x. the (digitVal x)) (takeWhile (\<lambda>x. digitVal x \<noteq> None) (d # cs))),
               dropWhile (\<lambda>x. digitVal x \<noteq> None) (d # cs))
         else (0, s))
    | _ \<Rightarrow> (0, s))"

text \<open>The zone: its offset from UTC in seconds and the rest of the value.\<close>

definition takeZone :: "string \<Rightarrow> (int \<times> string) option" where
  "takeZone s = (case s of
      [] \<Rightarrow> None
    | c # cs \<Rightarrow>
       (if c = CHR ''Z'' then Some (0, cs)
        else Option.bind (getnum cs True) (\<lambda>(h, r1).
             Option.bind (skipChar CHR '':'' r1) (\<lambda>r2.
             Option.bind (getnum r2 True) (\<lambda>(m, r3).
               if h > 24 \<or> m > 60 then None
               else if c = CHR ''+'' then Some (int ((h * 60 + m) * 60), r3)
               else if c = CHR ''-'' then Some (- int ((h * 60 + m) * 60), r3)
               else None)))))"

definition parseDate :: "string \<Rightarrow> (nat \<times> nat \<times> nat \<times> string) option" where
  "parseDate s =
     Option.bind (getyear s) (\<lambda>(y, s1).
     Option.bind (skipChar CHR ''-'' s1) (\<lambda>s2.
     Option.bind (getnum s2 True) (\<lambda>(mo, s3).
     if mo = 0 \<or> 12 < mo then None else
     Option.bind (skipChar CHR ''-'' s3) (\<lambda>s4.
     Option.bind (getnum s4 True) (\<lambda>(d, s5). Some (y, mo, d, s5))))))"

definition parseRFC3339 :: "string \<Rightarrow> int option" where
  "parseRFC3339 s =
     Option.bind (parseDate s) (\<lambda>(y, mo, d, s1).
     Option.bind (skipChar CHR ''T'' s1) (\<lambda>s2.
     Option.bind (getnum s2 False) (\<lambda>(h, s3).
     if 24 \<le> h then None else
     Option.bind (skipChar CHR '':'' s3) (\<lambda>s4.
     Option.bind (getnum s4 True) (\<lambda>(mi, s5).
     if 60 \<le> mi then None else
     Option.bind (skipChar CHR '':'' s5) (\<lambda>s6.
     Option.bind (getnum s6 True) (\<lambda>(se, s7).
     if 60 \<le> se then None else
     (case takeFraction s7 of (ns, s8) \<Rightarrow>
     Option.bind (takeZone s8) (\<lambda>(off, s9).
     if s9 \<noteq> [] \<or> d < 1 \<or> daysIn mo y < d then None
     else Some (civilInstant \<lparr>civ_year = y, civ_month = mo, civ_day = d, civ_hour = h, civ_min = mi,
                              civ_sec = se, civ_nsec = ns\<rparr> - off * 1000000000))))))))))"

text \<open>\<open>time.Parse("2006-01-02", s)\<close> succeeds.\<close>

definition validDateOnly :: "string \<Rightarrow> bool" where
  "validDateOnly s = (case parseDate s of
     None \<Rightarrow> False | Some (y, mo, d, r) \<Rightarrow> r = [] \<and> 1 \<le> d \<and> d \<le> daysIn mo y)"

subsection \<open>Formatting\<close>

definition digitChar :: "nat \<Rightarrow> char" where
  "digitChar d = char_of (48 + d)"

definition twoDigits :: "nat \<Rightarrow> string" where
  "twoDigits n = [digitChar (n div 10), digitChar (n mod 10)]"

definition formatRFC3339 :: "civil \<Rightarrow> string" where
  "formatRFC3339 c =
     twoDigits (civ_year c div 100) @ twoDigits (civ_year c mod 100) @ ''-'' @
     twoDigits (civ_month c) @ ''-'' @ twoDigits (civ_day c) @ ''T'' @
     twoDigits (civ_hour c) @ '':'' @ twoDigits (civ_min c) @ '':'' @ twoDigits (civ_sec c) @ ''Z''"

section \<open>Round trip\<close>

lemma digitVal_digitChar [simp]: "d < 10 \<Longrightarrow> digitVal (digitChar d) = Some d"
  by (simp add: digitVal_def digitChar_def)

lemma getnum_twoDigits [simp]: "n < 100 \<Longrightarrow> getnum (twoDigits n @ r) fixed = Some (n, r)"
  by (simp add: twoDigits_def)

lemma getyear_digits: "y < 10000 \<Longrightarrow> getyear (twoDigits (y div 100) @ twoDigits (y mod 100) @ r) = Some (y, r)"
  by (simp add: getyear_def)

lemma daysIn_le: "daysIn m y \<le> 31"
  by (simp add: daysIn_def)

text \<open>What \<open>Format\<close> writes is read back as the same second.\<close>

lemma parse_format:
  assumes "validCivil c"
  shows "parseRFC3339 (formatRFC3339 c) = Some (civilInstant (c\<lparr>civ_nsec := 0\<rparr>))"
proof -
  have b: "civ_day c < 100" "civ_month c < 100" "civ_hour c < 100" "civ_min c < 100" "civ_sec c < 100"
    using assms daysIn_le [of "civ_month c" "civ_year c"] by (auto simp: validCivil_def)
  have z: "takeFraction ''Z'' = (0, ''Z'')" "takeZone ''Z'' = Some (0, [])"
    by (simp_all add: takeFraction_def takeZone_def)
  have i: "civilInstant \<lparr>civ_year = civ_year c, civ_month = civ_month c, civ_day = civ_day c, civ_hour = civ_hour c,
       civ_min = civ_min c, civ_sec = civ_sec c, civ_nsec = 0\<rparr> = civilInstant (c\<lparr>civ_nsec := 0\<rparr>)"
    by (simp add: civilInstant_def)
  show ?thesis
    using assms by (simp add: parseRFC3339_def parseDate_def formatRFC3339_def getyear_digits b z i validCivil_def)
qed

section \<open>From instants back to civil time\<close>

text \<open>
  \<open>time.Now().Add(d)\<close> is an instant; \<open>Format\<close> needs its civil date in
  UTC.  The year is found by stepping up from a year that is certainly not too late, the
  month by stepping through the year.  A day is counted from the first day of year 0.
\<close>

lemma div_step: "0 < n \<Longrightarrow> (q + 1) div n = q div n + (if n dvd q + 1 then 1 else (0::int))"
proof -
  assume n: "0 < n"
  have q: "q = n * (q div n) + q mod n" by simp
  show ?thesis
  proof (cases "q mod n + 1 = n")
    case True
    have e: "q + 1 = n * (q div n + 1)" unfolding distrib_left using q True by linarith
    with n show ?thesis by (metis dvd_triv_left nonzero_mult_div_cancel_left less_irrefl)
  next
    case False
    have b: "0 \<le> q mod n + 1" "q mod n + 1 < n" "0 < q mod n + 1"
      using False pos_mod_bound [OF n, of q] pos_mod_sign [OF n, of q] by simp_all
    have e: "q + 1 = n * (q div n) + (q mod n + 1)" using q by simp
    then have "(q + 1) mod n = q mod n + 1" "(q + 1) div n = q div n"
      using int_mod_pos_eq [OF e b(1,2)] int_div_pos_eq [OF e b(1,2)] by simp_all
    with b(3) show ?thesis by (simp add: dvd_eq_mod_eq_0)
  qed
qed

lemma daysBeforeYear_Suc: "daysBeforeYear (Suc y) = daysBeforeYear y + (if isLeap y then 366 else 365)"
proof -
  define q where "q = int y - 1"
  have m: "(4 dvd q + 1) = (y mod 4 = 0)" "(100 dvd q + 1) = (y mod 100 = 0)" "(400 dvd q + 1) = (y mod 400 = 0)"
    by (simp_all add: q_def dvd_eq_mod_eq_0 zmod_int [symmetric, of _ "Suc _", simplified]) (presburger+)
  have n: "y mod 400 = 0 \<Longrightarrow> y mod 100 = 0" "y mod 100 = 0 \<Longrightarrow> y mod 4 = 0"
    by (auto simp flip: dvd_eq_mod_eq_0 elim!: dvdE)
  have "daysBeforeYear (Suc y) = 365 * (int y + 1) + (q + 1) div 4 - (q + 1) div 100 + (q + 1) div 400"
    by (simp add: daysBeforeYear_def q_def Let_def)
  also have "\<dots> = daysBeforeYear y + (if isLeap y then 366 else 365)"
    unfolding div_step [of 4 q, simplified] div_step [of 100 q, simplified] div_step [of 400 q, simplified] m
    using n by (auto simp: daysBeforeYear_def q_def Let_def isLeap_def)
  finally show ?thesis .
qed

lemma daysBeforeYear_mono: "daysBeforeYear y < daysBeforeYear (Suc y)"
  by (simp add: daysBeforeYear_Suc)

lemma daysBeforeYear_monotone: "y \<le> y' \<Longrightarrow> daysBeforeYear y \<le> daysBeforeYear y'"
  by (induction y' rule: dec_induct) (auto intro: order_trans less_imp_le [OF daysBeforeYear_mono])

lemma daysBeforeYear_le: "daysBeforeYear y \<le> 366 * int y"
  by (induction y) (simp_all add: daysBeforeYear_Suc, simp add: daysBeforeYear_def)

function yearFrom :: "nat \<Rightarrow> int \<Rightarrow> nat" where
  "yearFrom y d = (if daysBeforeYear (Suc y) \<le> d then yearFrom (Suc y) d else y)"
  by pat_completeness auto
termination
  by (relation "measure (\<lambda>(y, d). nat (d - daysBeforeYear y))") (auto intro: less_le_trans [OF daysBeforeYear_mono])

declare yearFrom.simps [simp del]

fun monthFrom :: "nat \<Rightarrow> nat \<Rightarrow> nat \<Rightarrow> int \<Rightarrow> nat" where
  "monthFrom 0 m y k = m"
| "monthFrom (Suc n) m y k = (if daysBeforeMonth (Suc m) y \<le> k then monthFrom n (Suc m) y k else m)"

definition civilOf :: "int \<Rightarrow> civil" where
  "civilOf t =
     (let secs = t div 1000000000; day = secs div 86400 + daysBeforeYear 1970; sod = nat (secs mod 86400);
          y = yearFrom (nat (day div 366)) day; k = day - daysBeforeYear y; m = monthFrom 11 1 y k
      in \<lparr>civ_year = y, civ_month = m, civ_day = nat (k - daysBeforeMonth m y) + 1,
         civ_hour = sod div 3600, civ_min = sod div 60 mod 60, civ_sec = sod mod 60,
         civ_nsec = nat (t mod 1000000000)\<rparr>)"

definition formatInstant :: "int \<Rightarrow> string" where
  "formatInstant t = formatRFC3339 (civilOf t)"

text \<open>The instants of the years 0 to 9999, which is what the layout can print.\<close>

definition printable :: "int \<Rightarrow> bool" where
  "printable t \<longleftrightarrow> (- daysBeforeYear 1970) * 86400000000000 \<le> t
     \<and> t < (daysBeforeYear 10000 - daysBeforeYear 1970) * 86400000000000"

lemma yearFrom_bounds:
  assumes "daysBeforeYear y \<le> d"
  shows "daysBeforeYear (yearFrom y d) \<le> d \<and> d < daysBeforeYear (Suc (yearFrom y d))"
  using assms
proof (induction y d rule: yearFrom.induct)
  case (1 y d)
  then show ?case by (subst (1 2) yearFrom.simps) auto
qed

lemma daysBeforeMonth_Suc: "1 \<le> m \<Longrightarrow> daysBeforeMonth (Suc m) y = daysBeforeMonth m y + int (daysIn m y)"
  by (simp add: daysBeforeMonth_def)

lemma daysBeforeMonth_13: "daysBeforeMonth 13 y = (if isLeap y then 366 else 365)"
proof -
  have "[1..<13] = [1, 2, 3, 4, 5, 6, 7, 8, 9, 10, 11, 12 :: nat]" by code_simp
  then show ?thesis by (simp add: daysBeforeMonth_def daysIn_def)
qed

lemma monthFrom_bounds:
  assumes "1 \<le> m" "daysBeforeMonth m y \<le> k" "k < daysBeforeMonth (Suc (m + n)) y"
  shows "m \<le> monthFrom n m y k \<and> monthFrom n m y k \<le> m + n
    \<and> daysBeforeMonth (monthFrom n m y k) y \<le> k \<and> k < daysBeforeMonth (Suc (monthFrom n m y k)) y"
  using assms by (induction n m y k rule: monthFrom.induct) fastforce+

lemma sod_nat: "((n div 3600) * 60 + n div 60 mod 60) * 60 + n mod 60 = (n::nat)"
proof -
  have "n div 3600 = n div 60 div 60" by (simp flip: div_mult2_eq)
  then have "(n div 3600) * 60 + n div 60 mod 60 = n div 60" by simp
  then show ?thesis by simp
qed

lemma sod_split: "0 \<le> (s::int) \<Longrightarrow>
    (int (nat s div 3600) * 60 + int (nat s div 60 mod 60)) * 60 + int (nat s mod 60) = s"
  using arg_cong [OF sod_nat [of "nat s"], of int] by (simp only: of_nat_add of_nat_mult of_nat_numeral int_nat_eq if_True)

lemma day_bounds:
  "a * 86400000000000 \<le> (t::int) \<Longrightarrow> a \<le> t div 1000000000 div 86400"
  "t < b * 86400000000000 \<Longrightarrow> t div 1000000000 div 86400 < b"
proof -
  have d: "t div 1000000000 div 86400 = t div 86400000000000" using zdiv_zmult2_eq [of 86400 t 1000000000] by simp
  have e: "t = 86400000000000 * (t div 86400000000000) + t mod 86400000000000" by simp
  have r: "0 \<le> t mod 86400000000000" "t mod 86400000000000 < 86400000000000" by simp_all
  show "a * 86400000000000 \<le> t \<Longrightarrow> a \<le> t div 1000000000 div 86400"
    unfolding d using e r by linarith
  show "t < b * 86400000000000 \<Longrightarrow> t div 1000000000 div 86400 < b"
    unfolding d using e r by linarith
qed

lemma civilOf_printable:
  assumes "printable t"
  shows "validCivil (civilOf t)" and "civilInstant (civilOf t) = t"
proof -
  define secs where "secs = t div 1000000000"
  define day where "day = secs div 86400 + daysBeforeYear 1970"
  define y where "y = yearFrom (nat (day div 366)) day"
  define k where "k = day - daysBeforeYear y"
  define m where "m = monthFrom 11 1 y k"
  define sod where "sod = secs mod 86400"
  have t: "t = secs * 1000000000 + t mod 1000000000" "secs = secs div 86400 * 86400 + sod"
    by (simp_all add: secs_def sod_def)
  have y70: "daysBeforeYear 1970 = 719527" "daysBeforeYear 10000 = 3652424" by (simp_all add: daysBeforeYear_def)
  have day0: "0 \<le> day" "day < 3652424"
    using day_bounds [of "- daysBeforeYear 1970" t] day_bounds [of t "daysBeforeYear 10000 - daysBeforeYear 1970"] assms y70
    by (simp_all add: printable_def day_def secs_def)
  have "daysBeforeYear (nat (day div 366)) \<le> day"
    using daysBeforeYear_le [of "nat (day div 366)"] day0(1) pos_mod_sign [of 366 day] div_mult_mod_eq [of day 366]
    by (simp add: pos_imp_zdiv_nonneg_iff)
  from yearFrom_bounds [OF this] have yb: "daysBeforeYear y \<le> day" "day < daysBeforeYear (Suc y)" by (simp_all add: y_def)
  have y: "y < 10000"
  proof (rule ccontr)
    assume "\<not> y < 10000"
    then have "daysBeforeYear 10000 \<le> daysBeforeYear y" by (intro daysBeforeYear_monotone) simp
    with yb(1) day0(2) y70 show False by simp
  qed
  have kb: "daysBeforeMonth 1 y \<le> k" "k < daysBeforeMonth (Suc (1 + 11)) y"
    using yb by (simp_all add: k_def daysBeforeYear_Suc daysBeforeMonth_13) (simp add: daysBeforeMonth_def)
  have mb: "1 \<le> m" "m \<le> 12" "daysBeforeMonth m y \<le> k" "k < daysBeforeMonth m y + int (daysIn m y)"
    using monthFrom_bounds [OF _ kb] daysBeforeMonth_Suc [of m y] by (simp_all add: m_def)
  have sb: "0 \<le> sod" "sod < 86400" by (simp_all add: sod_def)
  have c: "civilOf t = \<lparr>civ_year = y, civ_month = m, civ_day = nat (k - daysBeforeMonth m y) + 1,
         civ_hour = nat sod div 3600, civ_min = nat sod div 60 mod 60, civ_sec = nat sod mod 60,
         civ_nsec = nat (t mod 1000000000)\<rparr>"
    by (simp add: civilOf_def secs_def day_def y_def k_def m_def sod_def Let_def)
  have "nat sod div 3600 < 24" using sb by (simp add: less_mult_imp_div_less)
  then show "validCivil (civilOf t)"
    using y mb by (simp add: c validCivil_def) linarith
  show "civilInstant (civilOf t) = t"
    using mb(3) sod_split [OF sb(1)] t yb y70 by (simp add: c civilInstant_def k_def day_def)
qed

text \<open>What \<open>Format\<close> prints of an instant, \<open>Parse\<close> reads back to the second.\<close>

lemma civ_nsec_civilOf: "int (civ_nsec (civilOf t)) = t mod 1000000000"
  by (simp add: civilOf_def Let_def)

lemma parse_formatInstant:
  assumes "printable t"
  shows "parseRFC3339 (formatInstant t) = Some (t - t mod 1000000000)"
proof -
  have "civilInstant (civilOf t\<lparr>civ_nsec := 0\<rparr>) = civilInstant (civilOf t) - int (civ_nsec (civilOf t))"
    by (simp add: civilInstant_def)
  with civilOf_printable [OF assms] show ?thesis
    by (simp add: formatInstant_def parse_format civ_nsec_civilOf)
qed

end
