(* ===== verification/IdentityModel.thy ===== *)
theory IdentityModel
  imports GoTime
begin

section \<open>The identity data model\<close>

text \<open>
  The structs of package \<open>identitymodel\<close> as records, with the source's field names
  behind a prefix per struct.  Go's named string types (statuses, account types, data
  scopes) are strings, as in the source, because code compares them with values outside
  the declared constants (the status \<open>erased\<close>, for instance).  Code outside the
  repository (the Identity SDK's grant validation and policy normalisation, the
  foundation's parameter sanitiser, the mail-address parser, the time-zone database,
  SHA-256 and JSON encodings) is the parameter record \<open>env\<close>, which also carries the
  clock of the request and a number that selects the order in which \<open>range\<close> visits a
  map literal.
\<close>

type_synonym IdentityStatus = string
type_synonym IdentityDataScope = string

text \<open>An SDK policy value is opaque here and is carried as its encoding.\<close>

type_synonym ProjectDataPolicy = string

abbreviation IdentityStatusActive :: IdentityStatus where "IdentityStatusActive \<equiv> ''active''"
abbreviation IdentityStatusDisabled :: IdentityStatus where "IdentityStatusDisabled \<equiv> ''disabled''"
abbreviation IdentityStatusErased :: IdentityStatus where "IdentityStatusErased \<equiv> ''erased''"
abbreviation IdentityAccountHuman :: string where "IdentityAccountHuman \<equiv> ''human''"
abbreviation IdentityAccountService :: string where "IdentityAccountService \<equiv> ''service''"
abbreviation IdentityAccountAutomation :: string where "IdentityAccountAutomation \<equiv> ''automation''"
abbreviation IdentityWorkTerminated :: string where "IdentityWorkTerminated \<equiv> ''terminated''"
abbreviation IdentityDataScopeAll :: IdentityDataScope where "IdentityDataScopeAll \<equiv> ''all''"
abbreviation IdentityDataScopeOwner :: IdentityDataScope where "IdentityDataScopeOwner \<equiv> ''owner''"
abbreviation IdentityDataScopeOrg :: IdentityDataScope where "IdentityDataScopeOrg \<equiv> ''org''"
abbreviation IdentityDataScopeOrgChild :: IdentityDataScope where "IdentityDataScopeOrgChild \<equiv> ''org_child''"
abbreviation IdentityDataScopeTargetOrg :: IdentityDataScope where "IdentityDataScopeTargetOrg \<equiv> ''target_org''"
abbreviation IdentityRoleAudienceAny :: string where "IdentityRoleAudienceAny \<equiv> ''any''"
abbreviation IdentityRoleAudienceUser :: string where "IdentityRoleAudienceUser \<equiv> ''user''"
abbreviation IdentityRoleAudienceBusiness :: string where "IdentityRoleAudienceBusiness \<equiv> ''business_profile''"
abbreviation IdentityRoleAudienceService :: string where "IdentityRoleAudienceService \<equiv> ''service''"
abbreviation IdentityRoleAssignmentManual :: string where "IdentityRoleAssignmentManual \<equiv> ''manual''"
abbreviation IdentityRoleAssignmentRequestOnly :: string where "IdentityRoleAssignmentRequestOnly \<equiv> ''request_only''"
abbreviation IdentityRoleAssignmentSystemManaged :: string where "IdentityRoleAssignmentSystemManaged \<equiv> ''system_managed''"
abbreviation IdentityRoleRiskNormal :: string where "IdentityRoleRiskNormal \<equiv> ''normal''"
abbreviation IdentityRoleRiskElevated :: string where "IdentityRoleRiskElevated \<equiv> ''elevated''"
abbreviation IdentityRoleRiskPrivileged :: string where "IdentityRoleRiskPrivileged \<equiv> ''privileged''"

definition IdentityOrganizationUnitType_Valid :: "string \<Rightarrow> bool" where
  "IdentityOrganizationUnitType_Valid v \<longleftrightarrow>
     v \<in> {''company'', ''region'', ''store'', ''department'', ''team'', ''warehouse''}"

record IdentityOrganizationUnit =
  unit_ID :: string
  unit_Code :: string
  unit_Name :: string
  unit_NodeType :: string
  unit_ParentID :: "string option"
  unit_Path :: string
  unit_AncestorIDs :: "string list"
  unit_Depth :: int
  unit_SortOrder :: int
  unit_Status :: IdentityStatus

record IdentityUser =
  user_ID :: string
  user_Name :: string
  user_GivenName :: string
  user_MiddleName :: string
  user_FamilyName :: string
  user_NamePrefix :: string
  user_NameSuffix :: string
  user_NativeName :: string
  user_NameLocale :: string
  user_Email :: string
  user_Phone :: string
  user_AccountType :: string
  user_Locale :: string
  user_Timezone :: string
  user_OrgID :: string
  user_SupportOrgID :: string
  user_ManagerUserID :: string
  user_ReportingPath :: string
  user_WorkerNo :: string
  user_WorkerType :: string
  user_WorkStatus :: string
  user_StartDate :: string
  user_EndDate :: string
  user_Status :: IdentityStatus
  user_Version :: int
  user_CreatedAt :: string
  user_UpdatedAt :: string

text \<open>
  Of a permission definition the model keeps the key, the two facts that decide whether the
  permission is executable and its owner; the display columns are left out, as are the
  translated texts (\<open>I18n\<close>) of a role.
\<close>

record IdentityPermissionDefinition =
  perm_Key :: string
  perm_DefinitionStatus :: string
  perm_Enabled :: bool
  perm_SourceOwner :: string

record IdentityRole =
  role_ID :: string
  role_Key :: string
  role_Label :: string
  role_Description :: string
  role_Status :: IdentityStatus

record IdentityMenu =
  menu_ID :: string
  menu_Key :: string
  menu_Label :: string
  menu_Description :: string
  menu_Route :: string
  menu_Icon :: string
  menu_ParentID :: string
  menu_SortOrder :: int
  menu_Status :: IdentityStatus

record IdentityRoleMenuAssignment =
  rma_RoleID :: string
  rma_MenuID :: string

record IdentityUserRoleAssignment =
  asg_UserID :: string
  asg_RoleID :: string
  asg_BindingKey :: string
  asg_ProfileID :: string
  asg_Source :: string
  asg_Status :: string
  asg_ValidFrom :: string
  asg_ValidUntil :: string
  asg_GrantedBy :: string
  asg_GrantReason :: string
  asg_RevokedBy :: string
  asg_RevokedAt :: string
  asg_RevokeReason :: string
  asg_CreatedAt :: string
  asg_UpdatedAt :: string
  asg_ExpiresAt :: "string option"

record IdentityRoleRequest =
  req_ID :: string
  req_UserID :: string
  req_RequestedBy :: string
  req_Provider :: string
  req_ProviderSubject :: string
  req_RoleIDs :: "string list"
  req_Status :: string
  req_Reason :: string
  req_CreatedAt :: string
  req_UpdatedAt :: string
  req_ReviewedBy :: string
  req_ReviewedAt :: string
  req_ReviewNote :: string

record IdentityCredential =
  cred_UserID :: string
  cred_PasswordHash :: string
  cred_PasswordUpdatedAt :: string
  cred_FailedLoginCount :: int
  cred_LockedUntil :: string
  cred_LastLoginAt :: string
  cred_MustChangePassword :: bool

record AuthRefreshToken =
  tok_ID :: string
  tok_UserID :: string
  tok_SessionID :: string
  tok_Audience :: string
  tok_AuthenticationTime :: int
  tok_AuthenticationMethods :: "string list"
  tok_AssuranceLevel :: string
  tok_TokenHash :: string
  tok_ExpiresAt :: string
  tok_RevokedAt :: string
  tok_ReplacedByID :: string
  tok_CreatedAt :: string
  tok_LastUsedAt :: string

record IdentityExternalAccount =
  acc_ID :: string
  acc_UserID :: string
  acc_Provider :: string
  acc_ProviderSubject :: string
  acc_Email :: string
  acc_Phone :: string
  acc_DisplayName :: string
  acc_AvatarURL :: string
  acc_Metadata :: string
  acc_LinkedAt :: string

record IdentityEntitlementBatchItem =
  item_Operation :: string
  item_UserID :: string
  item_RoleID :: string
  item_BindingKey :: string
  item_ProfileID :: string
  item_ValidFrom :: string
  item_ValidUntil :: string
  item_Reason :: string

record IdentityEntitlementBatchMutation =
  mut_WorkspaceID :: string
  mut_ActorID :: string
  mut_IdempotencyKey :: string
  mut_RequestFingerprint :: string
  mut_Items :: "IdentityEntitlementBatchItem list"
  mut_Assignments :: "IdentityUserRoleAssignment list"

record IdentityEntitlementBatchReceipt =
  rcpt_ID :: string
  rcpt_WorkspaceID :: string
  rcpt_ActorID :: string
  rcpt_IdempotencyKey :: string
  rcpt_RequestFingerprint :: string
  rcpt_Items :: "IdentityEntitlementBatchItem list"
  rcpt_Replayed :: bool
  rcpt_CreatedAt :: string

record IdentityWorkflowWorkloadBinding =
  wl_WorkspaceID :: string
  wl_ApplicationKey :: string
  wl_SubjectID :: string
  wl_WorkflowKey :: string
  wl_DefinitionVersionID :: string
  wl_DefinitionVersion :: int
  wl_RoleKey :: string
  wl_ActionKeys :: "string list"
  wl_ReleaseID :: string
  wl_ReleaseDigest :: string
  wl_SourceKind :: string
  wl_SourceID :: string
  wl_Status :: string
  wl_CreatedAt :: string
  wl_UpdatedAt :: string
  wl_DeactivatedAt :: string

record IdentityWorkflowWorkloadRelease =
  rel_WorkspaceID :: string
  rel_ApplicationKey :: string
  rel_ReleaseID :: string
  rel_ReleaseDigest :: string
  rel_Bindings :: "IdentityWorkflowWorkloadBinding list"

record IdentityProfileBinding =
  bnd_WorkspaceID :: string
  bnd_BindingKey :: string
  bnd_ObjectKey :: string
  bnd_ProfileID :: string
  bnd_IdentityUserID :: string
  bnd_Status :: string
  bnd_InvitationChannel :: string
  bnd_ClaimProofType :: string
  bnd_Version :: int
  bnd_CreatedAt :: string
  bnd_UpdatedAt :: string

subsection \<open>Roles and grants\<close>

record RolePermission =
  grant_PermissionKey :: string
  grant_DataScope :: IdentityDataScope
  grant_DataPolicy :: "ProjectDataPolicy option"
  grant_AuditDenial :: bool

record IdentityPolicyRelationSegment =
  seg_Direction :: string
  seg_RelationFieldKey :: string
  seg_TargetObjectKey :: string

datatype IdentityPolicyExpression =
  PolicyExpression (pe_Operator: string) (pe_Path: "IdentityPolicyRelationSegment list")
    (pe_FieldKey: string) (pe_ValueSource: string) (pe_ClaimKey: string) (pe_Values: "string list")
    (pe_Children: "IdentityPolicyExpression list")

record FieldMaskStrategy =
  mask_Type :: string
  mask_LastN :: int

record ContextualFieldPolicyRule =
  cfp_Key :: string
  cfp_Priority :: int
  cfp_Actions :: "string list"
  cfp_Effect :: string
  cfp_Predicate :: "IdentityPolicyExpression option"
  cfp_MaskStrategy :: "FieldMaskStrategy option"
  cfp_AuditDenial :: bool

record FieldPermission =
  fp_ObjectKey :: string
  fp_FieldKey :: string
  fp_Read :: bool
  fp_Write :: bool
  fp_Export :: bool
  fp_Masked :: bool
  fp_Reason :: string
  fp_AuditDenial :: bool
  fp_Policies :: "ContextualFieldPolicyRule list"

record ReferencePermission =
  rp_SourceObjectKey :: string
  rp_RelationFieldKey :: string
  rp_TargetObjectKey :: string
  rp_DisplayFields :: "string list"
  rp_Mode :: string
  rp_Reason :: string

record ExportRule =
  er_ObjectKey :: string
  er_Mode :: string
  er_Fields :: "string list"

record IdentityDataRestriction =
  dr_ObjectKey :: string
  dr_Actions :: "string list"
  dr_Reason :: string

record IdentityFieldRestriction =
  fr_ObjectKey :: string
  fr_FieldKey :: string
  fr_Actions :: "string list"
  fr_Reason :: string

record IdentityGuardrailPolicy =
  gr_Key :: string
  gr_Name :: string
  gr_Description :: string
  gr_DeniedPermissionKeys :: "string list"
  gr_DataRestrictions :: "IdentityDataRestriction list"
  gr_FieldRestrictions :: "IdentityFieldRestriction list"

record RoleSchema =
  rs_Key :: string
  rs_Name :: string
  rs_Description :: string
  rs_Permissions :: "RolePermission list"
  rs_FieldPermissions :: "FieldPermission list"
  rs_ReferencePermissions :: "ReferencePermission list"
  rs_ExportRules :: "ExportRule list"
  rs_Audience :: string
  rs_RequiredBindingKey :: string
  rs_AssignmentMode :: string
  rs_RiskLevel :: string
  rs_ConflictRoleKeys :: "string list"
  rs_GrantableRoleKeys :: "string list"
  rs_PermissionSetKeys :: "string list"
  rs_PermissionSetGroups :: "string list"
  rs_GuardrailKeys :: "string list"
  rs_Guardrails :: "IdentityGuardrailPolicy list"
  rs_ProvisionToWorkspaces :: bool

definition zeroRoleSchema :: RoleSchema where
  "zeroRoleSchema = \<lparr>rs_Key = [], rs_Name = [], rs_Description = [], rs_Permissions = [],
     rs_FieldPermissions = [], rs_ReferencePermissions = [], rs_ExportRules = [], rs_Audience = [],
     rs_RequiredBindingKey = [], rs_AssignmentMode = [], rs_RiskLevel = [], rs_ConflictRoleKeys = [],
     rs_GrantableRoleKeys = [], rs_PermissionSetKeys = [], rs_PermissionSetGroups = [],
     rs_GuardrailKeys = [], rs_Guardrails = [], rs_ProvisionToWorkspaces = False\<rparr>"

subsection \<open>The environment of a call\<close>

text \<open>
  The encodings used as sorting keys and as the input of revision hashes: the JSON text of
  a value, and the hexadecimal SHA-256 digest of the JSON text of the authorization facts
  and of the permission states.  The code relies on their being functions of the value;
  laws beyond that are hypotheses of the theorems that need them.
\<close>

record codec =
  cod_FieldPermission :: "FieldPermission \<Rightarrow> string"
  cod_ReferencePermission :: "ReferencePermission \<Rightarrow> string"
  cod_ExportRule :: "ExportRule \<Rightarrow> string"
  cod_Guardrail :: "IdentityGuardrailPolicy \<Rightarrow> string"
  cod_Policy :: "ProjectDataPolicy option \<Rightarrow> string"
  cod_Assignment :: "IdentityUserRoleAssignment \<Rightarrow> string"
  cod_Role :: "IdentityRole \<Rightarrow> string"
  cod_Revision :: "IdentityUser \<times> string list \<times> string list \<times> string list \<times> IdentityUserRoleAssignment list
     \<times> IdentityRole list \<times> RoleSchema \<times> string \<Rightarrow> string"
  cod_PermissionStates :: "(string \<times> string \<times> bool) list \<Rightarrow> string"

record env =
  env_Now :: civil
  env_GrantValid :: "RolePermission \<Rightarrow> bool"
  env_ScopeValid :: "string \<Rightarrow> bool"
  env_NormalizePolicy :: "ProjectDataPolicy \<Rightarrow> ProjectDataPolicy option"
  env_SanitizeParams :: "(string \<times> string) list \<Rightarrow> (string \<times> string) list"
  env_ParseAddress :: "string \<Rightarrow> string option"
  env_LocationKnown :: "string \<Rightarrow> bool"
  env_RangeOrder :: nat
  env_Codec :: codec

text \<open>The order in which \<open>range\<close> visits a map literal: some permutation of its entries.\<close>

fun rangeOrder :: "nat \<Rightarrow> 'a list \<Rightarrow> 'a list" where
  "rangeOrder n [] = []"
| "rangeOrder n (x # xs) = (let i = n mod length (x # xs) in
     (x # xs) ! i # rangeOrder (n div length (x # xs)) (take i (x # xs) @ drop (Suc i) (x # xs)))"

definition rangeMap :: "env \<Rightarrow> (string \<times> 'a) list \<Rightarrow> (string \<times> 'a) list" where
  "rangeMap e xs = rangeOrder (env_RangeOrder e) xs"

definition nowString :: "env \<Rightarrow> string" where
  "nowString e = formatRFC3339 (env_Now e)"

definition nowInstant :: "env \<Rightarrow> int" where
  "nowInstant e = civilInstant (env_Now e)"

lemma mset_rangeOrder [simp]: "mset (rangeOrder n xs) = mset xs"
proof (induction n xs rule: rangeOrder.induct)
  case (2 n x xs)
  let ?i = "n mod length (x # xs)"
  have i: "?i < length (x # xs)" by simp
  have "mset (x # xs) = mset (take ?i (x # xs) @ (x # xs) ! ?i # drop (Suc ?i) (x # xs))"
    using id_take_nth_drop [OF i] by simp
  with 2 show ?case by (simp add: Let_def)
qed simp

lemma set_rangeMap [simp]: "set (rangeMap e xs) = set xs"
  using mset_rangeOrder [of "env_RangeOrder e" xs] by (metis mset_eq_setD rangeMap_def)

end
