(* ===== verification/AccessContract.thy ===== *)
theory AccessContract
  imports IdentityModel
begin

section \<open>Workspace scopes, data scopes and the access contract\<close>

text \<open>
  \<open>model/identity_workspace_scope.go\<close> and \<open>identity_system_scope.go\<close> (tenant and
  system boundaries), \<open>model/identity_data_scope_contract.go\<close> (filters and grants),
  \<open>contract/identity_access_contract.go\<close> and \<open>identity_authorization_contract.go\<close>
  (what a principal's role allows).
\<close>

subsection \<open>Workspace identifiers and scopes\<close>

definition ErrWorkspaceIDRequired :: go_error where
  "ErrWorkspaceIDRequired = Errorf ''workspace id is required'' []"

definition ErrWorkspaceIDReserved :: go_error where
  "ErrWorkspaceIDReserved = Errorf ''default workspace id is reserved and cannot identify a tenant'' []"

definition ErrSystemScopeRequired :: go_error where
  "ErrSystemScopeRequired = Errorf ''valid system scope is required'' []"

definition ErrPrincipalScopeRequired :: go_error where
  "ErrPrincipalScopeRequired = Errorf ''authenticated principal scope is required'' []"

definition NewWorkspaceID :: "string \<Rightarrow> string res" where
  "NewWorkspaceID v = (let value = TrimSpace v in
     if value = [] then Inl ErrWorkspaceIDRequired
     else if EqualFold value ''default'' then Inl ErrWorkspaceIDReserved
     else Inr value)"

definition WorkspaceID_Valid :: "string \<Rightarrow> bool" where
  "WorkspaceID_Valid w \<longleftrightarrow> w \<noteq> []"

record SystemScope =
  sys_Kind :: string
  sys_Purpose :: string

definition zeroSystemScope :: SystemScope where
  "zeroSystemScope = \<lparr>sys_Kind = [], sys_Purpose = []\<rparr>"

definition NewSystemScope :: "string \<Rightarrow> string \<Rightarrow> SystemScope" where
  "NewSystemScope kind purpose = \<lparr>sys_Kind = kind, sys_Purpose = TrimSpace purpose\<rparr>"

definition SystemScope_Valid :: "SystemScope \<Rightarrow> bool" where
  "SystemScope_Valid sc \<longleftrightarrow>
     (if sys_Kind sc \<in> {''runtime_global'', ''bootstrap'', ''installation''} then sys_Purpose sc \<noteq> [] else False)"

text \<open>\<open>CommandScope\<close> and \<open>QueryScope\<close> have the same fields and operations.\<close>

record CommandScope =
  cs_workspace :: string
  cs_system :: SystemScope

definition NewWorkspaceCommandScope :: "string \<Rightarrow> CommandScope res" where
  "NewWorkspaceCommandScope w = bind (NewWorkspaceID w) (\<lambda>i. Inr \<lparr>cs_workspace = i, cs_system = zeroSystemScope\<rparr>)"

definition NewSystemCommandScope :: "SystemScope \<Rightarrow> CommandScope res" where
  "NewSystemCommandScope sy =
     (if \<not> SystemScope_Valid sy then Inl ErrSystemScopeRequired
      else Inr \<lparr>cs_workspace = [], cs_system = sy\<rparr>)"

definition CommandScope_Valid :: "CommandScope \<Rightarrow> bool" where
  "CommandScope_Valid sc \<longleftrightarrow> WorkspaceID_Valid (cs_workspace sc) \<noteq> SystemScope_Valid (cs_system sc)"

text \<open>
  The principal of a request.  Correlation identifiers, business profiles and the
  automation fields are not set by the modelled code and are left out.
\<close>

record Principal =
  prin_UserID :: string
  prin_WorkspaceID :: string
  prin_SystemScope :: SystemScope
  prin_OrgID :: string
  prin_OrgScopeIDs :: "string list"
  prin_SupportOrgID :: string
  prin_SupportOrgScopeIDs :: "string list"
  prin_ReportingScopeUserIDs :: "string list"
  prin_OrganizationPath :: string
  prin_Role :: RoleSchema
  prin_Known :: bool
  prin_AuthorizationRevision :: string

definition zeroPrincipal :: Principal where
  "zeroPrincipal = \<lparr>prin_UserID = [], prin_WorkspaceID = [], prin_SystemScope = zeroSystemScope,
     prin_OrgID = [], prin_OrgScopeIDs = [], prin_SupportOrgID = [], prin_SupportOrgScopeIDs = [],
     prin_ReportingScopeUserIDs = [], prin_OrganizationPath = [], prin_Role = zeroRoleSchema,
     prin_Known = False, prin_AuthorizationRevision = []\<rparr>"

definition NewSystemPrincipal :: "string \<Rightarrow> SystemScope \<Rightarrow> RoleSchema \<Rightarrow> Principal" where
  "NewSystemPrincipal userID sc role = zeroPrincipal\<lparr>prin_UserID := TrimSpace userID,
     prin_SystemScope := sc, prin_Role := role, prin_Known := SystemScope_Valid sc\<rparr>"

definition CommandScopeForPrincipal :: "Principal \<Rightarrow> CommandScope res" where
  "CommandScopeForPrincipal p =
     (if \<not> prin_Known p then Inl ErrPrincipalScopeRequired
      else if SystemScope_Valid (prin_SystemScope p) then NewSystemCommandScope (prin_SystemScope p)
      else NewWorkspaceCommandScope (prin_WorkspaceID p))"

subsection \<open>Data-scope filters\<close>

record IdentityDataScopeFilter =
  flt_Unrestricted :: bool
  flt_OwnerUserIDs :: "string list"
  flt_OwnerOrgIDs :: "string list"

definition zeroFilter :: IdentityDataScopeFilter where
  "zeroFilter = \<lparr>flt_Unrestricted = False, flt_OwnerUserIDs = [], flt_OwnerOrgIDs = []\<rparr>"

definition unrestrictedFilter :: IdentityDataScopeFilter where
  "unrestrictedFilter = \<lparr>flt_Unrestricted = True, flt_OwnerUserIDs = [], flt_OwnerOrgIDs = []\<rparr>"

definition Filter_Denied :: "IdentityDataScopeFilter \<Rightarrow> bool" where
  "Filter_Denied f \<longleftrightarrow> \<not> flt_Unrestricted f \<and> flt_OwnerUserIDs f = [] \<and> flt_OwnerOrgIDs f = []"

text \<open>The keys of the \<open>seen\<close> set, sorted.\<close>

definition normalizedIdentityScopeIDs :: "string list \<Rightarrow> string list" where
  "normalizedIdentityScopeIDs values = sortStrings (remdups (filter (\<lambda>v. v \<noteq> []) (map TrimSpace values)))"

definition Filter_Normalized :: "IdentityDataScopeFilter \<Rightarrow> IdentityDataScopeFilter" where
  "Filter_Normalized f =
     (if flt_Unrestricted f then unrestrictedFilter
      else f\<lparr>flt_OwnerUserIDs := normalizedIdentityScopeIDs (flt_OwnerUserIDs f),
             flt_OwnerOrgIDs := normalizedIdentityScopeIDs (flt_OwnerOrgIDs f)\<rparr>)"

subsection \<open>Grants\<close>

definition CanonicalIdentityDataScope :: "env \<Rightarrow> string \<Rightarrow> IdentityDataScope option" where
  "CanonicalIdentityDataScope e value = (if \<not> env_ScopeValid e value then None else Some value)"

definition RolePermissionsWithScope :: "IdentityDataScope \<Rightarrow> string list \<Rightarrow> RolePermission list" where
  "RolePermissionsWithScope scope keys =
     map (\<lambda>k. \<lparr>grant_PermissionKey = k, grant_DataScope = scope, grant_DataPolicy = None, grant_AuditDenial = False\<rparr>)
       (filter (\<lambda>k. k \<noteq> []) (map TrimSpace keys))"

definition RolePermissionKeys :: "RolePermission list \<Rightarrow> string list" where
  "RolePermissionKeys values = filter (\<lambda>k. k \<noteq> []) (map (\<lambda>v. TrimSpace (grant_PermissionKey v)) values)"

text \<open>One iteration of the loop of \<open>NormalizeRolePermissions\<close>; \<open>None\<close> is its early \<open>return nil, false\<close>.\<close>

definition normalizeRolePermissionStep ::
  "env \<Rightarrow> (string, RolePermission) gomap \<Rightarrow> RolePermission \<Rightarrow> (string, RolePermission) gomap option" where
  "normalizeRolePermissionStep e byKey value0 =
     (let key = TrimSpace (grant_PermissionKey value0); value = value0\<lparr>grant_PermissionKey := key\<rparr> in
      if key = [] \<or> \<not> env_GrantValid e value then None
      else if hasKey byKey key then None
      else (case grant_DataPolicy value of
          Some policy \<Rightarrow>
            (case env_NormalizePolicy e policy of
               None \<Rightarrow> None
             | Some p \<Rightarrow> Some (AList.update key (value\<lparr>grant_DataScope := [], grant_DataPolicy := Some p\<rparr>) byKey))
        | None \<Rightarrow>
            (case CanonicalIdentityDataScope e (TrimSpace (grant_DataScope value)) of
               None \<Rightarrow> None
             | Some scope \<Rightarrow> Some (AList.update key (value\<lparr>grant_DataScope := scope\<rparr>) byKey))))"

fun normalizeRolePermissionsLoop ::
  "env \<Rightarrow> (string, RolePermission) gomap \<Rightarrow> RolePermission list \<Rightarrow> (string, RolePermission) gomap option" where
  "normalizeRolePermissionsLoop e byKey [] = Some byKey"
| "normalizeRolePermissionsLoop e byKey (v # vs) =
     (case normalizeRolePermissionStep e byKey v of
        None \<Rightarrow> None
      | Some byKey' \<Rightarrow> normalizeRolePermissionsLoop e byKey' vs)"

definition NormalizeRolePermissions :: "env \<Rightarrow> RolePermission list \<Rightarrow> RolePermission list option" where
  "NormalizeRolePermissions e values =
     (case normalizeRolePermissionsLoop e [] values of
        None \<Rightarrow> None
      | Some byKey \<Rightarrow> Some (map (\<lambda>k. the (map_of byKey k)) (sortStrings (map fst byKey))))"

definition RolePermissionForKey :: "env \<Rightarrow> RolePermission list \<Rightarrow> string \<Rightarrow> RolePermission option" where
  "RolePermissionForKey e values key =
     find (\<lambda>v. TrimSpace (grant_PermissionKey v) = TrimSpace key \<and> env_GrantValid e v) values"

definition RolePermissionsForKey :: "env \<Rightarrow> RolePermission list \<Rightarrow> string \<Rightarrow> RolePermission list" where
  "RolePermissionsForKey e values key =
     filter (\<lambda>v. TrimSpace (grant_PermissionKey v) = TrimSpace key \<and> env_GrantValid e v) values"

text \<open>\<open>strings.LastIndex(key, ".")\<close>, \<open>None\<close> for -1.\<close>

definition lastDot :: "string \<Rightarrow> nat option" where
  "lastDot s = (case filter (\<lambda>i. s ! i = CHR ''.'') [0..<length s] of [] \<Rightarrow> None | is \<Rightarrow> Some (last is))"

definition RolePermissionResource :: "string \<Rightarrow> string" where
  "RolePermissionResource permissionKey = (let key = TrimSpace permissionKey in
     case lastDot key of
       None \<Rightarrow> []
     | Some separator \<Rightarrow>
         (if separator \<le> 0 \<or> separator = length key - 1 then [] else take separator key))"

subsection \<open>Guardrails and role checks\<close>

definition deniedKeyMatches :: "string \<Rightarrow> string \<Rightarrow> bool" where
  "deniedKeyMatches denied0 key = (let denied = TrimSpace denied0 in
     denied = ''*'' \<or> denied = key \<or>
     HasSuffix denied ''.*'' \<and> HasPrefix key (TrimSuffix denied ''.*'' @ ''.''))"

definition IdentityRoleGuardrailDeniesPermission :: "RoleSchema \<Rightarrow> string \<Rightarrow> bool" where
  "IdentityRoleGuardrailDeniesPermission role key =
     list_ex (\<lambda>g. list_ex (\<lambda>denied. deniedKeyMatches denied (TrimSpace key)) (gr_DeniedPermissionKeys g))
       (rs_Guardrails role)"

definition identityNormalizePermissionAction :: "string \<Rightarrow> string" where
  "identityNormalizePermissionAction action = TrimSpace action"

definition identityGuardrailActionMatches :: "string list \<Rightarrow> string \<Rightarrow> bool" where
  "identityGuardrailActionMatches actions action =
     list_ex (\<lambda>c. identityNormalizePermissionAction c = ''*'' \<or> identityNormalizePermissionAction c = action) actions"

definition IdentityRoleGuardrailDeniesData :: "RoleSchema \<Rightarrow> string \<Rightarrow> string \<Rightarrow> bool" where
  "IdentityRoleGuardrailDeniesData role objectKey action =
     list_ex (\<lambda>g. list_ex (\<lambda>r. TrimSpace (dr_ObjectKey r) = TrimSpace objectKey
         \<and> identityGuardrailActionMatches (dr_Actions r) (identityNormalizePermissionAction action))
       (gr_DataRestrictions g)) (rs_Guardrails role)"

definition IdentityRoleGuardrailDeniesField :: "RoleSchema \<Rightarrow> string \<Rightarrow> string \<Rightarrow> string \<Rightarrow> bool" where
  "IdentityRoleGuardrailDeniesField role objectKey fieldKey action =
     list_ex (\<lambda>g. list_ex (\<lambda>r. TrimSpace (fr_ObjectKey r) = TrimSpace objectKey
         \<and> TrimSpace (fr_FieldKey r) = TrimSpace fieldKey
         \<and> identityGuardrailActionMatches (fr_Actions r) (identityNormalizePermissionAction action))
       (gr_FieldRestrictions g)) (rs_Guardrails role)"

definition IdentityRoleHasPermissionKey :: "env \<Rightarrow> RoleSchema \<Rightarrow> string \<Rightarrow> bool" where
  "IdentityRoleHasPermissionKey e role key0 = (let key = TrimSpace key0 in
     if key = [] then False
     else if IdentityRoleGuardrailDeniesPermission role key then False
     else list_ex (\<lambda>p. TrimSpace (grant_PermissionKey p) = key \<and> env_GrantValid e p) (rs_Permissions role))"

definition IdentityRoleAllows :: "env \<Rightarrow> RoleSchema \<Rightarrow> string \<Rightarrow> string \<Rightarrow> bool" where
  "IdentityRoleAllows e role objectKey action =
     IdentityRoleHasPermissionKey e role (TrimSpace objectKey @ ''.'' @ identityNormalizePermissionAction action)"

definition IdentityRoleAllowsData :: "env \<Rightarrow> RoleSchema \<Rightarrow> string \<Rightarrow> string \<Rightarrow> bool" where
  "IdentityRoleAllowsData e role resource action =
     (if IdentityRoleGuardrailDeniesData role resource action then False
      else length (RolePermissionsForKey e (rs_Permissions role)
             (TrimSpace resource @ ''.'' @ identityNormalizePermissionAction action)) \<noteq> 0)"

text \<open>The scopes in order of first occurrence.\<close>

definition IdentityDataScopesForAction :: "env \<Rightarrow> RoleSchema \<Rightarrow> string \<Rightarrow> string \<Rightarrow> IdentityDataScope list" where
  "IdentityDataScopesForAction e role resource action =
     (if IdentityRoleGuardrailDeniesData role resource action then []
      else rev (remdups (rev (map grant_DataScope (RolePermissionsForKey e (rs_Permissions role)
             (TrimSpace resource @ ''.'' @ identityNormalizePermissionAction action))))))"

subsection \<open>The filter of a principal for one permission\<close>

fun dataScopeFilterLoop :: "Principal \<Rightarrow> IdentityDataScopeFilter \<Rightarrow> RolePermission list \<Rightarrow> IdentityDataScopeFilter" where
  "dataScopeFilterLoop p f [] = Filter_Normalized f"
| "dataScopeFilterLoop p f (g # gs) =
     (if grant_DataScope g = IdentityDataScopeAll then unrestrictedFilter
      else if grant_DataScope g = IdentityDataScopeOwner then
        dataScopeFilterLoop p (f\<lparr>flt_OwnerUserIDs := flt_OwnerUserIDs f @ [prin_UserID p]\<rparr>) gs
      else if grant_DataScope g = IdentityDataScopeOrg then
        dataScopeFilterLoop p (f\<lparr>flt_OwnerOrgIDs := flt_OwnerOrgIDs f @ [prin_OrgID p]\<rparr>) gs
      else if grant_DataScope g = IdentityDataScopeOrgChild then
        dataScopeFilterLoop p (f\<lparr>flt_OwnerOrgIDs := flt_OwnerOrgIDs f @ prin_OrgScopeIDs p\<rparr>) gs
      else if grant_DataScope g = IdentityDataScopeTargetOrg then
        dataScopeFilterLoop p (f\<lparr>flt_OwnerOrgIDs := flt_OwnerOrgIDs f @ prin_SupportOrgScopeIDs p\<rparr>) gs
      else dataScopeFilterLoop p f gs)"

definition IdentityPermissionDataScopeFilter :: "env \<Rightarrow> Principal \<Rightarrow> string \<Rightarrow> IdentityDataScopeFilter" where
  "IdentityPermissionDataScopeFilter e p permissionKey =
     (if \<not> prin_Known p then zeroFilter
      else dataScopeFilterLoop p zeroFilter
             (RolePermissionsForKey e (rs_Permissions (prin_Role p)) (TrimSpace permissionKey)))"

record IdentityResourceFacts =
  fact_RecordID :: string
  fact_OwnerUserID :: string
  fact_OwnerOrgID :: string

definition identityStringContains :: "string list \<Rightarrow> string \<Rightarrow> bool" where
  "identityStringContains values expected0 = (let expected = TrimSpace expected0 in
     if expected = [] then False else list_ex (\<lambda>v. TrimSpace v = expected) values)"

definition IdentityPermissionDataScopeAllows :: "env \<Rightarrow> Principal \<Rightarrow> string \<Rightarrow> IdentityResourceFacts \<Rightarrow> bool" where
  "IdentityPermissionDataScopeAllows e p permissionKey facts =
     (let f = IdentityPermissionDataScopeFilter e p permissionKey in
      if flt_Unrestricted f then True
      else identityStringContains (flt_OwnerUserIDs f) (fact_OwnerUserID facts)
         \<or> identityStringContains (flt_OwnerOrgIDs f) (fact_OwnerOrgID facts))"

subsection \<open>Specification: what one grant contributes to the filter\<close>

definition grantUsers :: "Principal \<Rightarrow> RolePermission \<Rightarrow> string list" where
  "grantUsers p g = (if grant_DataScope g = IdentityDataScopeOwner then [prin_UserID p] else [])"

definition grantOrgs :: "Principal \<Rightarrow> RolePermission \<Rightarrow> string list" where
  "grantOrgs p g =
     (if grant_DataScope g = IdentityDataScopeOrg then [prin_OrgID p]
      else if grant_DataScope g = IdentityDataScopeOrgChild then prin_OrgScopeIDs p
      else if grant_DataScope g = IdentityDataScopeTargetOrg then prin_SupportOrgScopeIDs p else [])"

section \<open>Lemmas\<close>

subsection \<open>Workspace scopes\<close>

lemma NewWorkspaceID_Inr_iff:
  "NewWorkspaceID v = Inr w \<longleftrightarrow> w = TrimSpace v \<and> w \<noteq> [] \<and> \<not> EqualFold w ''default''"
  by (auto simp: NewWorkspaceID_def Let_def)

lemma NewWorkspaceID_canonical: "NewWorkspaceID v = Inr w \<Longrightarrow> NewWorkspaceID w = Inr w"
  by (auto simp: NewWorkspaceID_Inr_iff)

lemma zeroSystemScope_invalid [simp]: "\<not> SystemScope_Valid zeroSystemScope"
  by (simp add: SystemScope_Valid_def zeroSystemScope_def)

subsection \<open>Filters\<close>

lemma set_normalizedIdentityScopeIDs [simp]:
  "set (normalizedIdentityScopeIDs vs) = TrimSpace ` set vs - {[]}"
  by (auto simp: normalizedIdentityScopeIDs_def)

lemma sorted_normalizedIdentityScopeIDs: "sorted (normalizedIdentityScopeIDs vs)"
  by (simp add: normalizedIdentityScopeIDs_def)

lemma distinct_normalizedIdentityScopeIDs: "distinct (normalizedIdentityScopeIDs vs)"
  by (simp add: normalizedIdentityScopeIDs_def)

lemma normalizedIdentityScopeIDs_idem [simp]:
  "normalizedIdentityScopeIDs (normalizedIdentityScopeIDs vs) = normalizedIdentityScopeIDs vs"
proof -
  have "TrimSpace ` (TrimSpace ` set vs - {[]}) = id ` (TrimSpace ` set vs - {[]})"
    by (rule image_cong) auto
  then have "set (normalizedIdentityScopeIDs (normalizedIdentityScopeIDs vs)) = set (normalizedIdentityScopeIDs vs)"
    by simp
  then show ?thesis
    by (metis sorted_distinct_set_unique sorted_normalizedIdentityScopeIDs distinct_normalizedIdentityScopeIDs)
qed

lemma normalizedIdentityScopeIDs_Nil [simp]: "normalizedIdentityScopeIDs [] = []"
  by (simp add: normalizedIdentityScopeIDs_def sortStrings_def)

lemma unrestrictedFilter_simps [simp]:
  "flt_Unrestricted unrestrictedFilter" "flt_OwnerUserIDs unrestrictedFilter = []" "flt_OwnerOrgIDs unrestrictedFilter = []"
  by (simp_all add: unrestrictedFilter_def)

lemma zeroFilter_simps [simp]:
  "\<not> flt_Unrestricted zeroFilter" "flt_OwnerUserIDs zeroFilter = []" "flt_OwnerOrgIDs zeroFilter = []"
  by (simp_all add: zeroFilter_def)

lemma Filter_Normalized_idem [simp]: "Filter_Normalized (Filter_Normalized f) = Filter_Normalized f"
  by (simp add: Filter_Normalized_def)

lemma Filter_Normalized_simps [simp]:
  "flt_Unrestricted (Filter_Normalized f) = flt_Unrestricted f"
  "\<not> flt_Unrestricted f \<Longrightarrow> flt_OwnerUserIDs (Filter_Normalized f) = normalizedIdentityScopeIDs (flt_OwnerUserIDs f)"
  "\<not> flt_Unrestricted f \<Longrightarrow> flt_OwnerOrgIDs (Filter_Normalized f) = normalizedIdentityScopeIDs (flt_OwnerOrgIDs f)"
  by (simp_all add: Filter_Normalized_def)

subsection \<open>What one grant contributes\<close>

lemma dataScopeFilterLoop_eq:
  "\<not> flt_Unrestricted f \<Longrightarrow> dataScopeFilterLoop p f gs =
     (if list_ex (\<lambda>g. grant_DataScope g = IdentityDataScopeAll) gs then unrestrictedFilter
      else Filter_Normalized (f\<lparr>flt_OwnerUserIDs := flt_OwnerUserIDs f @ concat (map (grantUsers p) gs),
                                flt_OwnerOrgIDs := flt_OwnerOrgIDs f @ concat (map (grantOrgs p) gs)\<rparr>))"
  by (induction p f gs rule: dataScopeFilterLoop.induct) (auto simp: grantUsers_def grantOrgs_def)

lemma DataScopeFilter_unrestricted_iff:
  "flt_Unrestricted (IdentityPermissionDataScopeFilter e p k) \<longleftrightarrow>
     prin_Known p \<and> (\<exists>g \<in> set (RolePermissionsForKey e (rs_Permissions (prin_Role p)) k).
        grant_DataScope g = IdentityDataScopeAll)"
  by (auto simp: IdentityPermissionDataScopeFilter_def dataScopeFilterLoop_eq list_ex_iff RolePermissionsForKey_def)

lemma DataScopeFilter_sets:
  assumes "\<not> flt_Unrestricted (IdentityPermissionDataScopeFilter e p k)" "prin_Known p"
  shows "set (flt_OwnerUserIDs (IdentityPermissionDataScopeFilter e p k)) =
           TrimSpace ` (\<Union>g \<in> set (RolePermissionsForKey e (rs_Permissions (prin_Role p)) k). set (grantUsers p g)) - {[]}"
    and "set (flt_OwnerOrgIDs (IdentityPermissionDataScopeFilter e p k)) =
           TrimSpace ` (\<Union>g \<in> set (RolePermissionsForKey e (rs_Permissions (prin_Role p)) k). set (grantOrgs p g)) - {[]}"
proof -
  have t: "RolePermissionsForKey e gs (TrimSpace k) = RolePermissionsForKey e gs k" for gs
    by (simp add: RolePermissionsForKey_def)
  show "set (flt_OwnerUserIDs (IdentityPermissionDataScopeFilter e p k)) =
           TrimSpace ` (\<Union>g \<in> set (RolePermissionsForKey e (rs_Permissions (prin_Role p)) k). set (grantUsers p g)) - {[]}"
    and "set (flt_OwnerOrgIDs (IdentityPermissionDataScopeFilter e p k)) =
           TrimSpace ` (\<Union>g \<in> set (RolePermissionsForKey e (rs_Permissions (prin_Role p)) k). set (grantOrgs p g)) - {[]}"
    using assms by (auto simp: IdentityPermissionDataScopeFilter_def dataScopeFilterLoop_eq t split: if_splits)
qed

lemma DataScopeFilter_unknown [simp]:
  "\<not> prin_Known p \<Longrightarrow> IdentityPermissionDataScopeFilter e p k = zeroFilter"
  by (simp add: IdentityPermissionDataScopeFilter_def)

lemma DataScopeFilter_normalized [simp]:
  "Filter_Normalized (IdentityPermissionDataScopeFilter e p k) = IdentityPermissionDataScopeFilter e p k"
proof (cases "prin_Known p")
  case True
  then show ?thesis
    by (simp add: IdentityPermissionDataScopeFilter_def dataScopeFilterLoop_eq) (simp add: Filter_Normalized_def)
qed (simp add: Filter_Normalized_def)

lemma identityStringContains_iff:
  "identityStringContains vs x \<longleftrightarrow> TrimSpace x \<noteq> [] \<and> TrimSpace x \<in> TrimSpace ` set vs"
  by (auto simp: identityStringContains_def Let_def list_ex_iff image_iff) metis+

subsection \<open>Normalisation of grants\<close>

lemma normalizeRolePermissionStep_Some:
  assumes "normalizeRolePermissionStep e m v = Some m'"
  defines "k \<equiv> TrimSpace (grant_PermissionKey v)"
  obtains w where "m' = AList.update k w m" "k \<noteq> []" "map_of m k = None" "grant_PermissionKey w = k"
    "grant_AuditDenial w = grant_AuditDenial v"
    "env_GrantValid e (v\<lparr>grant_PermissionKey := k\<rparr>)"
  using assms by (auto simp: normalizeRolePermissionStep_def Let_def hasKey_def split: if_splits option.splits)

lemma AList_update_notin: "map_of m k = None \<Longrightarrow> AList.update k v m = m @ [(k, v)]"
  by (induction m) (auto split: if_splits)

lemma normalizeRolePermissionsLoop_Some:
  assumes "normalizeRolePermissionsLoop e m vs = Some m'" "mapWf m"
    "\<forall>(k, g) \<in> set m. grant_PermissionKey g = k \<and> k \<noteq> []"
  shows "map fst m' = map fst m @ map (\<lambda>v. TrimSpace (grant_PermissionKey v)) vs \<and> mapWf m'
    \<and> (\<forall>(k, g) \<in> set m'. grant_PermissionKey g = k \<and> k \<noteq> [])"
  using assms
proof (induction e m vs rule: normalizeRolePermissionsLoop.induct)
  case (2 e m v vs)
  then obtain m1 where m1: "normalizeRolePermissionStep e m v = Some m1"
      "normalizeRolePermissionsLoop e m1 vs = Some m'"
    by (auto split: option.splits)
  then obtain w where w: "m1 = AList.update (TrimSpace (grant_PermissionKey v)) w m"
      "TrimSpace (grant_PermissionKey v) \<noteq> []" "map_of m (TrimSpace (grant_PermissionKey v)) = None"
      "grant_PermissionKey w = TrimSpace (grant_PermissionKey v)"
    by (elim normalizeRolePermissionStep_Some)
  have m1_eq: "m1 = m @ [(TrimSpace (grant_PermissionKey v), w)]"
    unfolding w(1) using w(3) by (rule AList_update_notin)
  have wf: "mapWf m1" unfolding w(1) using "2.prems"(2) by (rule mapWf_update)
  have keyed: "\<forall>(k, g) \<in> set m1. grant_PermissionKey g = k \<and> k \<noteq> []"
    unfolding m1_eq using "2.prems"(3) w(2,4) by auto
  have eq: "map fst m1 @ map (\<lambda>v. TrimSpace (grant_PermissionKey v)) vs =
        map fst m @ map (\<lambda>v. TrimSpace (grant_PermissionKey v)) (v # vs)"
    unfolding m1_eq by simp
  from "2.IH" [OF m1(1) m1(2) wf keyed] show ?case unfolding eq .
qed auto

lemma NormalizeRolePermissions_Some:
  assumes "NormalizeRolePermissions e vs = Some out"
  shows "map grant_PermissionKey out = sort (map (\<lambda>v. TrimSpace (grant_PermissionKey v)) vs)"
    and "distinct (map grant_PermissionKey out)" and "[] \<notin> set (map grant_PermissionKey out)"
proof -
  from assms obtain m where m: "normalizeRolePermissionsLoop e [] vs = Some m"
    and out: "out = map (\<lambda>k. the (map_of m k)) (sortStrings (map fst m))"
    by (auto simp: NormalizeRolePermissions_def split: option.splits)
  have inv: "map fst m = map (\<lambda>v. TrimSpace (grant_PermissionKey v)) vs" "mapWf m"
    "\<forall>(k, g) \<in> set m. grant_PermissionKey g = k \<and> k \<noteq> []"
    using normalizeRolePermissionsLoop_Some [OF m] by auto
  have key: "grant_PermissionKey (the (map_of m k)) = k \<and> k \<noteq> []" if "k \<in> set (map fst m)" for k
  proof -
    from that obtain g where g: "(k, g) \<in> set m" by auto
    with inv(2) have "map_of m k = Some g" by (rule map_of_is_SomeI)
    with bspec [OF inv(3) g] show ?thesis by simp
  qed
  have "map grant_PermissionKey out = map id (sortStrings (map fst m))"
    unfolding out map_map by (rule map_cong) (use key in \<open>auto simp: sortStrings_def\<close>)
  then have eq: "map grant_PermissionKey out = sort (map fst m)" by (simp add: sortStrings_def)
  then show "map grant_PermissionKey out = sort (map (\<lambda>v. TrimSpace (grant_PermissionKey v)) vs)"
    by (simp add: inv(1))
  show "distinct (map grant_PermissionKey out)"
    unfolding eq using inv(2) by simp
  show "[] \<notin> set (map grant_PermissionKey out)"
    unfolding eq using key [of "[]"] by (metis set_sort)
qed

subsection \<open>Wildcards of guardrails\<close>

lemma deniedKeyMatches_wildcard:
  assumes "TrimSpace (base @ ''.*'') = base @ ''.*''"
  shows "deniedKeyMatches (base @ ''.*'') key \<longleftrightarrow> base @ ''.*'' = ''*'' \<or> base @ ''.*'' = key \<or> prefix (base @ ''.'') key"
  using assms by (simp add: deniedKeyMatches_def HasSuffix_def HasPrefix_def TrimSuffix_def suffix_def)

end
