(* ===== verification/MemoryStore.thy ===== *)
theory MemoryStore
  imports AccessContract
begin

section \<open>The in-memory identity store: state, keys and users\<close>

text \<open>
  \<open>memory_identity_store.go\<close> and \<open>identity_store_memory_users.go\<close>.  Every table
  is a Go map keyed by \<open>workspace NUL id\<close>; the prefix up to the NUL selects the rows
  of a workspace.  An operation holds the store's mutex for its whole body, so it is one
  step: it takes the store and returns its result with the new store, also when it fails
  (a failing batch may have written some rows).
\<close>

definition NUL :: string where
  "NUL = [CHR 0x00]"

definition identityWorkspacePrefix :: "string \<Rightarrow> string res" where
  "identityWorkspacePrefix workspaceID = bind (NewWorkspaceID workspaceID) (\<lambda>w. Inr (w @ NUL))"

definition identityWorkspaceKey :: "string \<Rightarrow> string list \<Rightarrow> string res" where
  "identityWorkspaceKey workspaceID values =
     bind (identityWorkspacePrefix workspaceID) (\<lambda>pre. Inr (pre @ JoinStrings values NUL))"

record MemoryIdentityStore =
  st_organizationUnits :: "(string, IdentityOrganizationUnit) gomap"
  st_users :: "(string, IdentityUser) gomap"
  st_roles :: "(string, IdentityRole) gomap"
  st_userRoles :: "(string, IdentityUserRoleAssignment) gomap"
  st_entitlementReceipts :: "(string, IdentityEntitlementBatchReceipt) gomap"
  st_roleRequests :: "(string, IdentityRoleRequest) gomap"
  st_menus :: "(string, IdentityMenu) gomap"
  st_roleMenus :: "(string, string list) gomap"
  st_credentials :: "(string, IdentityCredential) gomap"
  st_refreshTokens :: "(string, AuthRefreshToken) gomap"
  st_externalAccounts :: "(string, IdentityExternalAccount) gomap"
  st_workflowWorkloads :: "(string, IdentityWorkflowWorkloadBinding) gomap"

type_synonym store = MemoryIdentityStore

definition NewMemoryIdentityStore :: store where
  "NewMemoryIdentityStore = \<lparr>st_organizationUnits = [], st_users = [], st_roles = [], st_userRoles = [],
     st_entitlementReceipts = [], st_roleRequests = [], st_menus = [], st_roleMenus = [],
     st_credentials = [], st_refreshTokens = [], st_externalAccounts = [], st_workflowWorkloads = []\<rparr>"

definition uniqueSortedStrings :: "string list \<Rightarrow> string list" where
  "uniqueSortedStrings values = sortStrings (remdups (filter (\<lambda>v. v \<noteq> []) values))"

text \<open>The rows of a table whose key starts with the workspace prefix, in iteration order.\<close>

definition rowsWithPrefix :: "string \<Rightarrow> (string, 'v) gomap \<Rightarrow> 'v list" where
  "rowsWithPrefix pre m = map snd (filter (\<lambda>(k, v). HasPrefix k pre) m)"

subsection \<open>Reading users\<close>

definition identityUserMatchesDataScope :: "IdentityUser \<Rightarrow> IdentityDataScopeFilter \<Rightarrow> bool" where
  "identityUserMatchesDataScope user scope0 = (let scope = Filter_Normalized scope0 in
     if flt_Unrestricted scope then True
     else list_ex (\<lambda>i. user_ID user = i) (flt_OwnerUserIDs scope)
        \<or> list_ex (\<lambda>i. user_OrgID user = i) (flt_OwnerOrgIDs scope))"

definition userLess :: "IdentityUser \<Rightarrow> IdentityUser \<Rightarrow> bool" where
  "userLess a b \<longleftrightarrow> user_ID a < user_ID b"

definition ListIdentityUsersWithinDataScope :: "store \<Rightarrow> string \<Rightarrow> IdentityDataScopeFilter \<Rightarrow> IdentityUser list res" where
  "ListIdentityUsersWithinDataScope s workspaceID scope =
     bind (identityWorkspacePrefix workspaceID) (\<lambda>pre.
       Inr (sortSlice userLess
         (filter (\<lambda>u. identityUserMatchesDataScope u scope) (rowsWithPrefix pre (st_users s)))))"

definition ListIdentityUsers :: "store \<Rightarrow> string \<Rightarrow> IdentityUser list res" where
  "ListIdentityUsers s workspaceID = ListIdentityUsersWithinDataScope s workspaceID unrestrictedFilter"

text \<open>The in-memory store keeps no profile bindings.\<close>

definition ListIdentityProfileBindingsByUser :: "store \<Rightarrow> string \<Rightarrow> string \<Rightarrow> IdentityProfileBinding list res" where
  "ListIdentityProfileBindingsByUser s workspaceID userID =
     bind (identityWorkspacePrefix workspaceID) (\<lambda>_. Inr [])"

definition GetIdentityUserWithinDataScope ::
  "store \<Rightarrow> string \<Rightarrow> string \<Rightarrow> IdentityDataScopeFilter \<Rightarrow> IdentityUser option res" where
  "GetIdentityUserWithinDataScope s workspaceID userID scope =
     bind (identityWorkspaceKey workspaceID [userID]) (\<lambda>key.
       (case map_of (st_users s) key of
          None \<Rightarrow> Inr None
        | Some user \<Rightarrow> if \<not> identityUserMatchesDataScope user scope then Inr None else Inr (Some user)))"

definition GetIdentityUser :: "store \<Rightarrow> string \<Rightarrow> string \<Rightarrow> IdentityUser option res" where
  "GetIdentityUser s workspaceID userID = GetIdentityUserWithinDataScope s workspaceID userID unrestrictedFilter"

subsection \<open>Writing users\<close>

text \<open>The two default assignments every write repeats.\<close>

definition userDefaults :: "IdentityUser \<Rightarrow> IdentityUser" where
  "userDefaults u =
     (let u1 = (if user_Status u = [] then u\<lparr>user_Status := IdentityStatusActive\<rparr> else u) in
      if user_AccountType u1 = [] then u1\<lparr>user_AccountType := IdentityAccountHuman\<rparr> else u1)"

definition erasedError :: go_error where
  "erasedError = Errorf ''identity subject is erased'' []"

definition userIDRequired :: go_error where
  "userIDRequired = Errorf ''user id is required'' []"

text \<open>
  The body shared by the upserts: refuse an erased subject, take version and creation time
  from the existing row, stamp the update time, write.  \<open>Inl\<close> leaves the table alone.
\<close>

definition stampUser :: "env \<Rightarrow> IdentityUser option \<Rightarrow> IdentityUser \<Rightarrow> IdentityUser" where
  "stampUser e existing u = (case existing of
      Some x \<Rightarrow> u\<lparr>user_Version := user_Version x + 1, user_CreatedAt := user_CreatedAt x, user_UpdatedAt := nowString e\<rparr>
    | None \<Rightarrow> u\<lparr>user_Version := 1, user_CreatedAt := nowString e, user_UpdatedAt := nowString e\<rparr>)"

definition isErased :: "IdentityUser option \<Rightarrow> bool" where
  "isErased x = (case x of None \<Rightarrow> False | Some u \<Rightarrow> user_Status u = IdentityStatusErased)"

definition UpsertIdentityUser :: "env \<Rightarrow> store \<Rightarrow> string \<Rightarrow> IdentityUser \<Rightarrow> unit res \<times> store" where
  "UpsertIdentityUser e s workspaceID user =
     (case identityWorkspaceKey workspaceID [user_ID user] of
        Inl err \<Rightarrow> (Inl err, s)
      | Inr key \<Rightarrow>
          if user_ID user = [] then (Inl userIDRequired, s)
          else (let u = userDefaults user; existing = map_of (st_users s) key in
            if isErased existing then (Inl erasedError, s)
            else (Inr (), s\<lparr>st_users := AList.update key (stampUser e existing u) (st_users s)\<rparr>)))"

definition CreateIdentityUser :: "env \<Rightarrow> store \<Rightarrow> string \<Rightarrow> IdentityUser \<Rightarrow> unit res \<times> store" where
  "CreateIdentityUser e s workspaceID user =
     (case identityWorkspaceKey workspaceID [user_ID user] of
        Inl err \<Rightarrow> (Inl err, s)
      | Inr key \<Rightarrow>
          if TrimSpace (user_ID user) = [] then (Inl userIDRequired, s)
          else (let u = userDefaults user in
            if hasKey (st_users s) key then (Inl (Errorf ''identity user %q already exists'' [user_ID user]), s)
            else (Inr (), s\<lparr>st_users := AList.update key
                   (u\<lparr>user_Version := 1, user_CreatedAt := nowString e, user_UpdatedAt := nowString e\<rparr>) (st_users s)\<rparr>)))"

definition UpdateIdentityUserLocale ::
  "store \<Rightarrow> string \<Rightarrow> string \<Rightarrow> string \<Rightarrow> int \<Rightarrow> IdentityUser option res \<times> store" where
  "UpdateIdentityUserLocale s workspaceID userID locale expectedVersion =
     (case identityWorkspaceKey workspaceID [userID] of
        Inl err \<Rightarrow> (Inl err, s)
      | Inr key \<Rightarrow>
         (case map_of (st_users s) key of
            None \<Rightarrow> (Inr None, s)
          | Some user \<Rightarrow>
              if user_Status user = IdentityStatusErased \<or> user_Version user \<noteq> expectedVersion then (Inr None, s)
              else (let u = user\<lparr>user_Locale := locale, user_Version := user_Version user + 1\<rparr> in
                (Inr (Some u), s\<lparr>st_users := AList.update key u (st_users s)\<rparr>))))"

text \<open>
  The write loop of the batch upsert: it stops at the first erased row it meets, with the
  rows before it written.
\<close>

fun upsertUsersLoop ::
  "env \<Rightarrow> string \<Rightarrow> (string, IdentityUser) gomap \<Rightarrow> IdentityUser list \<Rightarrow> unit res \<times> (string, IdentityUser) gomap" where
  "upsertUsersLoop e pre m [] = (Inr (), m)"
| "upsertUsersLoop e pre m (user # us) =
     (let u = userDefaults user; key = pre @ user_ID u; existing = map_of m key in
      if isErased existing then (Inl erasedError, m)
      else upsertUsersLoop e pre (AList.update key (stampUser e existing u) m) us)"

definition UpsertIdentityUsersAtomically :: "env \<Rightarrow> store \<Rightarrow> string \<Rightarrow> IdentityUser list \<Rightarrow> unit res \<times> store" where
  "UpsertIdentityUsersAtomically e s workspaceID users =
     (case identityWorkspacePrefix workspaceID of
        Inl err \<Rightarrow> (Inl err, s)
      | Inr pre \<Rightarrow>
          if list_ex (\<lambda>u. user_ID u = []) users then (Inl userIDRequired, s)
          else if list_ex (\<lambda>u. isErased (map_of (st_users s) (pre @ user_ID u))) users then (Inl erasedError, s)
          else (case upsertUsersLoop e pre (st_users s) users of (r, m) \<Rightarrow> (r, s\<lparr>st_users := m\<rparr>)))"

text \<open>
  Writing the rows of a scoped update: \<open>existing\<close> is read again for each row, as the
  zero value when the key is absent.
\<close>

definition stampExisting :: "env \<Rightarrow> IdentityUser option \<Rightarrow> IdentityUser \<Rightarrow> IdentityUser" where
  "stampExisting e existing u =
     u\<lparr>user_Version := (case existing of None \<Rightarrow> 0 | Some x \<Rightarrow> user_Version x) + 1,
       user_CreatedAt := (case existing of None \<Rightarrow> [] | Some x \<Rightarrow> user_CreatedAt x), user_UpdatedAt := nowString e\<rparr>"

fun updateUsersLoop ::
  "env \<Rightarrow> string \<Rightarrow> (string, IdentityUser) gomap \<Rightarrow> IdentityUser list \<Rightarrow> (string, IdentityUser) gomap" where
  "updateUsersLoop e pre m [] = m"
| "updateUsersLoop e pre m (user # us) =
     updateUsersLoop e pre
       (AList.update (pre @ user_ID user) (stampExisting e (map_of m (pre @ user_ID user)) (userDefaults user)) m) us"

definition userInScope :: "IdentityDataScopeFilter \<Rightarrow> IdentityUser option \<Rightarrow> bool" where
  "userInScope scope x = (case x of None \<Rightarrow> False
     | Some u \<Rightarrow> user_Status u \<noteq> IdentityStatusErased \<and> identityUserMatchesDataScope u scope)"

definition UpdateIdentityUsersWithinDataScopeAtomically ::
  "env \<Rightarrow> store \<Rightarrow> string \<Rightarrow> IdentityUser list \<Rightarrow> IdentityDataScopeFilter \<Rightarrow> bool res \<times> store" where
  "UpdateIdentityUsersWithinDataScopeAtomically e s workspaceID users scope =
     (case identityWorkspacePrefix workspaceID of
        Inl err \<Rightarrow> (Inl err, s)
      | Inr pre \<Rightarrow>
          if list_ex (\<lambda>u. TrimSpace (user_ID u) = []) users then (Inl userIDRequired, s)
          else if list_ex (\<lambda>u. \<not> userInScope scope (map_of (st_users s) (pre @ user_ID u))) users then (Inr False, s)
          else (Inr True, s\<lparr>st_users := updateUsersLoop e pre (st_users s) users\<rparr>))"

subsection \<open>Users together with their role assignments\<close>

definition assignmentDefaults :: "string \<Rightarrow> IdentityUserRoleAssignment \<Rightarrow> IdentityUserRoleAssignment" where
  "assignmentDefaults source a =
     (let a1 = (if asg_Source a = [] then a\<lparr>asg_Source := source\<rparr> else a) in
      if asg_Status a1 = [] then a1\<lparr>asg_Status := ''active''\<rparr> else a1)"

definition replaceUserRoles ::
  "string \<Rightarrow> string \<Rightarrow> IdentityUserRoleAssignment list \<Rightarrow> (string, IdentityUserRoleAssignment) gomap
   \<Rightarrow> (string, IdentityUserRoleAssignment) gomap" where
  "replaceUserRoles pre userID assignments m =
     putAll (filter (\<lambda>(k, a). \<not> (HasPrefix k pre \<and> asg_UserID a = userID)) m)
       (map (\<lambda>a. (pre @ asg_UserID a @ NUL @ asg_RoleID a, assignmentDefaults ''manual'' a)) assignments)"

definition assignmentsForUser :: "string \<Rightarrow> IdentityUserRoleAssignment list \<Rightarrow> bool" where
  "assignmentsForUser userID assignments = list_all (\<lambda>a. asg_UserID a = userID \<and> asg_RoleID a \<noteq> []) assignments"

definition userRoleIDsRequired :: go_error where
  "userRoleIDsRequired = Errorf ''user id and role id are required'' []"

definition UpsertIdentityUserWithRoleAssignmentsAtomically ::
  "env \<Rightarrow> store \<Rightarrow> string \<Rightarrow> IdentityUser \<Rightarrow> IdentityUserRoleAssignment list \<Rightarrow> unit res \<times> store" where
  "UpsertIdentityUserWithRoleAssignmentsAtomically e s workspaceID user assignments =
     (case identityWorkspacePrefix workspaceID of
        Inl err \<Rightarrow> (Inl err, s)
      | Inr pre \<Rightarrow>
          if user_ID user = [] then (Inl userIDRequired, s)
          else if \<not> assignmentsForUser (user_ID user) assignments then (Inl userRoleIDsRequired, s)
          else (let u = userDefaults user; key = pre @ user_ID u; existing = map_of (st_users s) key in
            if isErased existing then (Inl erasedError, s)
            else (Inr (), s\<lparr>st_users := AList.update key (stampUser e existing u) (st_users s),
                             st_userRoles := replaceUserRoles pre (user_ID u) assignments (st_userRoles s)\<rparr>)))"

definition UpsertIdentityUserWithRoleAssignmentsWithinDataScopeAtomically ::
  "env \<Rightarrow> store \<Rightarrow> string \<Rightarrow> IdentityUser \<Rightarrow> IdentityUserRoleAssignment list \<Rightarrow> IdentityDataScopeFilter
   \<Rightarrow> bool res \<times> store" where
  "UpsertIdentityUserWithRoleAssignmentsWithinDataScopeAtomically e s workspaceID user assignments scope =
     (case identityWorkspacePrefix workspaceID of
        Inl err \<Rightarrow> (Inl err, s)
      | Inr pre \<Rightarrow>
          if user_ID user = [] then (Inl userIDRequired, s)
          else if \<not> assignmentsForUser (user_ID user) assignments then (Inl userRoleIDsRequired, s)
          else (let key = pre @ user_ID user; existing = map_of (st_users s) key in
            if \<not> userInScope scope existing then (Inr False, s)
            else (let u = stampExisting e existing (userDefaults user) in
              (Inr True, s\<lparr>st_userRoles := replaceUserRoles pre (user_ID u) assignments (st_userRoles s),
                           st_users := AList.update key u (st_users s)\<rparr>))))"

subsection \<open>Removing users and changing their status\<close>

definition RemoveIdentityUserWithinDataScope ::
  "store \<Rightarrow> string \<Rightarrow> string \<Rightarrow> IdentityDataScopeFilter \<Rightarrow> bool res \<times> store" where
  "RemoveIdentityUserWithinDataScope s workspaceID userID scope =
     (case identityWorkspaceKey workspaceID [userID] of
        Inl err \<Rightarrow> (Inl err, s)
      | Inr key \<Rightarrow>
         (case identityWorkspacePrefix workspaceID of
            Inl err \<Rightarrow> (Inl err, s)
          | Inr pre \<Rightarrow>
             if \<not> userInScope scope (map_of (st_users s) key) then (Inr False, s)
             else (Inr True, s\<lparr>st_users := AList.delete key (st_users s),
                     st_credentials := AList.delete key (st_credentials s),
                     st_userRoles := filter (\<lambda>(k, a). \<not> (HasPrefix k pre \<and> asg_UserID a = userID)) (st_userRoles s),
                     st_externalAccounts := filter (\<lambda>(k, a). \<not> (HasPrefix k pre \<and> acc_UserID a = userID)) (st_externalAccounts s),
                     st_refreshTokens := filter (\<lambda>(k, t). \<not> (HasPrefix k pre \<and> tok_UserID t = userID)) (st_refreshTokens s)\<rparr>)))"

definition userNotFound :: "string \<Rightarrow> go_error" where
  "userNotFound userID = Errorf ''identity user %q not found'' [userID]"

definition RemoveIdentityUser :: "store \<Rightarrow> string \<Rightarrow> string \<Rightarrow> unit res \<times> store" where
  "RemoveIdentityUser s workspaceID userID =
     (case RemoveIdentityUserWithinDataScope s workspaceID userID unrestrictedFilter of
        (Inl err, s') \<Rightarrow> (Inl err, s')
      | (Inr removed, s') \<Rightarrow> if \<not> removed then (Inl (userNotFound userID), s') else (Inr (), s'))"

definition SetIdentityUserStatusWithinDataScope ::
  "env \<Rightarrow> store \<Rightarrow> string \<Rightarrow> string \<Rightarrow> IdentityStatus \<Rightarrow> IdentityDataScopeFilter \<Rightarrow> bool res \<times> store" where
  "SetIdentityUserStatusWithinDataScope e s workspaceID userID status scope =
     (case identityWorkspaceKey workspaceID [userID] of
        Inl err \<Rightarrow> (Inl err, s)
      | Inr key \<Rightarrow>
         (case map_of (st_users s) key of
            None \<Rightarrow> (Inr False, s)
          | Some user \<Rightarrow>
             if \<not> userInScope scope (Some user) then (Inr False, s)
             else (Inr True, s\<lparr>st_users := AList.update key
                    (user\<lparr>user_Status := status, user_Version := user_Version user + 1, user_UpdatedAt := nowString e\<rparr>)
                    (st_users s)\<rparr>)))"

definition SetIdentityUserStatus :: "env \<Rightarrow> store \<Rightarrow> string \<Rightarrow> string \<Rightarrow> IdentityStatus \<Rightarrow> unit res \<times> store" where
  "SetIdentityUserStatus e s workspaceID userID status =
     (case SetIdentityUserStatusWithinDataScope e s workspaceID userID status unrestrictedFilter of
        (Inl err, s') \<Rightarrow> (Inl err, s')
      | (Inr updated, s') \<Rightarrow> if \<not> updated then (Inl (userNotFound userID), s') else (Inr (), s'))"

end
