(* ===== verification/MemoryTables.thy ===== *)
theory MemoryTables
  imports MemoryStore
begin

section \<open>The in-memory identity store: the other tables\<close>

text \<open>
  \<open>identity_store_memory_roles.go\<close>, \<open>_organization_units.go\<close>,
  \<open>_policies.go\<close>, \<open>_auth.go\<close>, \<open>_sessions.go\<close> and
  \<open>identity_workload_memory.go\<close>: roles, assignments, role requests, entitlement
  batches, organization units, menus, credentials, refresh tokens, external accounts and
  workflow workloads.
\<close>

subsection \<open>Roles\<close>

definition roleLess :: "IdentityRole \<Rightarrow> IdentityRole \<Rightarrow> bool" where
  "roleLess a b \<longleftrightarrow> role_ID a < role_ID b"

definition ListIdentityRoles :: "store \<Rightarrow> string \<Rightarrow> IdentityRole list res" where
  "ListIdentityRoles s workspaceID =
     bind (identityWorkspacePrefix workspaceID) (\<lambda>pre. Inr (sortSlice roleLess (rowsWithPrefix pre (st_roles s))))"

definition UpsertIdentityRole :: "store \<Rightarrow> string \<Rightarrow> IdentityRole \<Rightarrow> unit res \<times> store" where
  "UpsertIdentityRole s workspaceID role =
     (case identityWorkspaceKey workspaceID [role_ID role] of
        Inl err \<Rightarrow> (Inl err, s)
      | Inr key \<Rightarrow>
          if role_ID role = [] then (Inl (Errorf ''role id is required'' []), s)
          else (let r = (if role_Status role = [] then role\<lparr>role_Status := IdentityStatusActive\<rparr> else role) in
            (Inr (), s\<lparr>st_roles := AList.update key r (st_roles s)\<rparr>)))"

definition RemoveIdentityRole :: "store \<Rightarrow> string \<Rightarrow> string \<Rightarrow> unit res \<times> store" where
  "RemoveIdentityRole s workspaceID roleID =
     (case (identityWorkspaceKey workspaceID [roleID], identityWorkspacePrefix workspaceID) of
        (Inr key, Inr pre) \<Rightarrow>
          (Inr (), s\<lparr>st_roles := AList.delete key (st_roles s),
                     st_roleMenus := AList.delete key (st_roleMenus s),
                     st_userRoles := filter (\<lambda>(k, a). \<not> (HasPrefix k pre \<and> asg_RoleID a = roleID)) (st_userRoles s)\<rparr>)
      | (Inl err, _) \<Rightarrow> (Inl err, s)
      | (Inr _, Inl err) \<Rightarrow> (Inl err, s))"

subsection \<open>Role assignments\<close>

text \<open>The trimming and defaulting of an assignment before it is stored.\<close>

definition trimAssignment :: "string \<Rightarrow> IdentityUserRoleAssignment \<Rightarrow> IdentityUserRoleAssignment" where
  "trimAssignment source a =
     (let a1 = a\<lparr>asg_Source := TrimSpace (asg_Source a)\<rparr>;
          a2 = (if asg_Source a1 = [] then a1\<lparr>asg_Source := source\<rparr> else a1);
          a3 = a2\<lparr>asg_Status := TrimSpace (asg_Status a2)\<rparr> in
      if asg_Status a3 = [] then a3\<lparr>asg_Status := ''active''\<rparr> else a3)"

definition fillValidUntil :: "IdentityUserRoleAssignment \<Rightarrow> IdentityUserRoleAssignment" where
  "fillValidUntil a =
     (if asg_ValidUntil a = [] then
        (case asg_ExpiresAt a of None \<Rightarrow> a | Some x \<Rightarrow> a\<lparr>asg_ValidUntil := TrimSpace x\<rparr>)
      else a)"

definition AssignIdentityUserRole :: "store \<Rightarrow> string \<Rightarrow> IdentityUserRoleAssignment \<Rightarrow> unit res \<times> store" where
  "AssignIdentityUserRole s workspaceID assignment =
     (case identityWorkspaceKey workspaceID [asg_UserID assignment, asg_RoleID assignment] of
        Inl err \<Rightarrow> (Inl err, s)
      | Inr key \<Rightarrow>
          if asg_UserID assignment = [] \<or> asg_RoleID assignment = [] then (Inl userRoleIDsRequired, s)
          else (Inr (), s\<lparr>st_userRoles := AList.update key
                 (fillValidUntil (trimAssignment ''manual'' assignment)) (st_userRoles s)\<rparr>))"

text \<open>The user lookup of the scoped assignment operations (an erased user still matches).\<close>

definition userMatches :: "store \<Rightarrow> string \<Rightarrow> string \<Rightarrow> IdentityDataScopeFilter \<Rightarrow> bool" where
  "userMatches s workspaceID userID scope =
     (case identityWorkspaceKey workspaceID [userID] of
        Inl err \<Rightarrow> False
      | Inr userKey \<Rightarrow>
         (case map_of (st_users s) userKey of None \<Rightarrow> False | Some u \<Rightarrow> identityUserMatchesDataScope u scope))"

definition AssignIdentityUserRoleWithinDataScope ::
  "store \<Rightarrow> string \<Rightarrow> IdentityUserRoleAssignment \<Rightarrow> IdentityDataScopeFilter \<Rightarrow> bool res \<times> store" where
  "AssignIdentityUserRoleWithinDataScope s workspaceID assignment scope =
     (case identityWorkspaceKey workspaceID [asg_UserID assignment, asg_RoleID assignment] of
        Inl err \<Rightarrow> (Inl err, s)
      | Inr key \<Rightarrow>
          if asg_UserID assignment = [] \<or> asg_RoleID assignment = [] then (Inl userRoleIDsRequired, s)
          else if \<not> userMatches s workspaceID (asg_UserID assignment) scope then (Inr False, s)
          else (Inr True, s\<lparr>st_userRoles := AList.update key
                 (fillValidUntil (trimAssignment ''manual'' assignment)) (st_userRoles s)\<rparr>))"

definition RemoveIdentityUserRole :: "store \<Rightarrow> string \<Rightarrow> string \<Rightarrow> string \<Rightarrow> unit res \<times> store" where
  "RemoveIdentityUserRole s workspaceID userID roleID =
     (case identityWorkspaceKey workspaceID [userID, roleID] of
        Inl err \<Rightarrow> (Inl err, s)
      | Inr key \<Rightarrow> (Inr (), s\<lparr>st_userRoles := AList.delete key (st_userRoles s)\<rparr>))"

definition RemoveIdentityUserRoleWithinDataScope ::
  "store \<Rightarrow> string \<Rightarrow> string \<Rightarrow> string \<Rightarrow> IdentityDataScopeFilter \<Rightarrow> bool res \<times> store" where
  "RemoveIdentityUserRoleWithinDataScope s workspaceID userID roleID scope =
     (case identityWorkspaceKey workspaceID [userID, roleID] of
        Inl err \<Rightarrow> (Inl err, s)
      | Inr key \<Rightarrow>
          if \<not> userMatches s workspaceID userID scope then (Inr False, s)
          else (Inr True, s\<lparr>st_userRoles := AList.delete key (st_userRoles s)\<rparr>))"

definition assignmentLess :: "IdentityUserRoleAssignment \<Rightarrow> IdentityUserRoleAssignment \<Rightarrow> bool" where
  "assignmentLess a b \<longleftrightarrow>
     (if asg_UserID a = asg_UserID b then asg_RoleID a < asg_RoleID b else asg_UserID a < asg_UserID b)"

definition ListIdentityUserRoleAssignmentsWithinDataScope ::
  "store \<Rightarrow> string \<Rightarrow> string \<Rightarrow> IdentityDataScopeFilter \<Rightarrow> IdentityUserRoleAssignment list res" where
  "ListIdentityUserRoleAssignmentsWithinDataScope s workspaceID userID scope =
     bind (identityWorkspacePrefix workspaceID) (\<lambda>pre.
       Inr (sortSlice assignmentLess (filter
         (\<lambda>a. (userID = [] \<or> asg_UserID a = userID)
            \<and> (flt_Unrestricted scope \<or> userMatches s workspaceID (asg_UserID a) scope))
         (rowsWithPrefix pre (st_userRoles s)))))"

definition ListIdentityUserRoleAssignments :: "store \<Rightarrow> string \<Rightarrow> string \<Rightarrow> IdentityUserRoleAssignment list res" where
  "ListIdentityUserRoleAssignments s workspaceID userID =
     ListIdentityUserRoleAssignmentsWithinDataScope s workspaceID userID unrestrictedFilter"

subsection \<open>Role requests\<close>

definition requestConflict :: go_error where
  "requestConflict = AppError KindConflict ''backend.identity.role_request_concurrent_decision'' []"

definition assignmentIDsMissing :: "IdentityUserRoleAssignment list \<Rightarrow> bool" where
  "assignmentIDsMissing assignments = list_ex (\<lambda>a. asg_UserID a = [] \<or> asg_RoleID a = []) assignments"

text \<open>The keys of the prepared assignments with the assignments as they are stored.\<close>

definition decisionRows :: "string \<Rightarrow> IdentityUserRoleAssignment list \<Rightarrow> (string \<times> IdentityUserRoleAssignment) list" where
  "decisionRows pre assignments =
     map (\<lambda>a. (pre @ JoinStrings [asg_UserID a, asg_RoleID a] NUL, trimAssignment ''governance_request'' a)) assignments"

definition ApplyIdentityRoleRequestDecision ::
  "store \<Rightarrow> string \<Rightarrow> IdentityRoleRequest \<Rightarrow> IdentityUserRoleAssignment list \<Rightarrow> string \<Rightarrow> unit res \<times> store" where
  "ApplyIdentityRoleRequestDecision s workspaceID request assignments expectedStatus =
     (case identityWorkspacePrefix workspaceID of
        Inl err \<Rightarrow> (Inl err, s)
      | Inr pre \<Rightarrow>
          if assignmentIDsMissing assignments then (Inl userRoleIDsRequired, s)
          else (case map_of (st_roleRequests s) (pre @ req_ID request) of
              None \<Rightarrow> (Inl requestConflict, s)
            | Some current \<Rightarrow>
                if req_Status current \<noteq> expectedStatus then (Inl requestConflict, s)
                else (Inr (), s\<lparr>st_userRoles := putAll (st_userRoles s) (decisionRows pre assignments),
                       st_roleRequests := AList.update (pre @ req_ID request) request (st_roleRequests s)\<rparr>)))"

definition ApplyIdentityRoleRequestDecisionWithinDataScope ::
  "store \<Rightarrow> string \<Rightarrow> IdentityRoleRequest \<Rightarrow> IdentityUserRoleAssignment list \<Rightarrow> string \<Rightarrow> IdentityDataScopeFilter
   \<Rightarrow> bool res \<times> store" where
  "ApplyIdentityRoleRequestDecisionWithinDataScope s workspaceID request assignments expectedStatus scope =
     (case identityWorkspacePrefix workspaceID of
        Inl err \<Rightarrow> (Inl err, s)
      | Inr pre \<Rightarrow>
          if assignmentIDsMissing assignments then (Inl userRoleIDsRequired, s)
          else (case map_of (st_roleRequests s) (pre @ req_ID request) of
              None \<Rightarrow> (Inr False, s)
            | Some current \<Rightarrow>
                if \<not> userMatches s workspaceID (req_UserID current) scope then (Inr False, s)
                else if req_Status current \<noteq> expectedStatus then (Inl requestConflict, s)
                else (Inr True, s\<lparr>st_userRoles := putAll (st_userRoles s) (decisionRows pre assignments),
                       st_roleRequests := AList.update (pre @ req_ID request) request (st_roleRequests s)\<rparr>)))"

definition CreateIdentityRoleRequest :: "store \<Rightarrow> string \<Rightarrow> IdentityRoleRequest \<Rightarrow> IdentityRoleRequest res \<times> store" where
  "CreateIdentityRoleRequest s workspaceID request =
     (case identityWorkspaceKey workspaceID [req_ID request] of
        Inl err \<Rightarrow> (Inl err, s)
      | Inr key \<Rightarrow>
          if req_ID request = [] \<or> req_UserID request = [] \<or> req_RoleIDs request = []
          then (Inl (Errorf ''role request id, user id, and roles are required'' []), s)
          else (let r1 = request\<lparr>req_RoleIDs := uniqueSortedStrings (req_RoleIDs request)\<rparr>;
                    r2 = (if req_Status r1 = [] then r1\<lparr>req_Status := ''pending''\<rparr> else r1) in
            (Inr r2, s\<lparr>st_roleRequests := AList.update key r2 (st_roleRequests s)\<rparr>)))"

definition requestLess :: "IdentityRoleRequest \<Rightarrow> IdentityRoleRequest \<Rightarrow> bool" where
  "requestLess a b \<longleftrightarrow>
     (if req_CreatedAt a = req_CreatedAt b then req_ID a < req_ID b else req_CreatedAt b < req_CreatedAt a)"

definition ListIdentityRoleRequestsWithinDataScope ::
  "store \<Rightarrow> string \<Rightarrow> string \<Rightarrow> string \<Rightarrow> IdentityDataScopeFilter \<Rightarrow> IdentityRoleRequest list res" where
  "ListIdentityRoleRequestsWithinDataScope s workspaceID status0 userID0 scope =
     bind (identityWorkspacePrefix workspaceID) (\<lambda>pre.
       (let status = TrimSpace status0; userID = TrimSpace userID0 in
        Inr (sortSlice requestLess (filter
         (\<lambda>r. (status = [] \<or> req_Status r = status) \<and> (userID = [] \<or> req_UserID r = userID)
            \<and> (flt_Unrestricted scope \<or> userMatches s workspaceID (req_UserID r) scope))
         (rowsWithPrefix pre (st_roleRequests s))))))"

definition ListIdentityRoleRequests :: "store \<Rightarrow> string \<Rightarrow> string \<Rightarrow> string \<Rightarrow> IdentityRoleRequest list res" where
  "ListIdentityRoleRequests s workspaceID status userID =
     ListIdentityRoleRequestsWithinDataScope s workspaceID status userID unrestrictedFilter"

definition UpdateIdentityRoleRequest :: "store \<Rightarrow> string \<Rightarrow> IdentityRoleRequest \<Rightarrow> unit res \<times> store" where
  "UpdateIdentityRoleRequest s workspaceID request =
     (case identityWorkspaceKey workspaceID [req_ID request] of
        Inl err \<Rightarrow> (Inl err, s)
      | Inr key \<Rightarrow>
          if req_ID request = [] then (Inl (Errorf ''role request id is required'' []), s)
          else if \<not> hasKey (st_roleRequests s) key then (Inl (Errorf ''role request %q not found'' [req_ID request]), s)
          else (Inr (), s\<lparr>st_roleRequests := AList.update key request (st_roleRequests s)\<rparr>))"

end
