(* ===== verification/MemoryDirectory.thy ===== *)
theory MemoryDirectory
  imports MemoryTables
begin

section \<open>The in-memory identity store: entitlement batches, organization, menus, sessions\<close>

text \<open>
  The rest of \<open>identity_store_memory_roles.go\<close> (entitlement batches), and
  \<open>_organization_units.go\<close>, \<open>_policies.go\<close>, \<open>_auth.go\<close>,
  \<open>_sessions.go\<close>, \<open>identity_workload_memory.go\<close>.
\<close>

subsection \<open>Entitlement batches\<close>

text \<open>\<open>identityID\<close> of \<open>identity_store_values.go\<close>.\<close>

definition identityID :: "string list \<Rightarrow> string" where
  "identityID parts = map (\<lambda>c. if c = CHR ''.'' \<or> c = CHR '':'' \<or> c = CHR ''/'' then CHR ''_'' else c)
     (JoinStrings parts ''_'')"

definition GetIdentityEntitlementBatchReceipt :: "store \<Rightarrow> string \<Rightarrow> string \<Rightarrow> IdentityEntitlementBatchReceipt option res" where
  "GetIdentityEntitlementBatchReceipt s workspaceID idempotencyKey =
     bind (identityWorkspaceKey workspaceID [TrimSpace idempotencyKey]) (\<lambda>key.
       Inr (map_of (st_entitlementReceipts s) key))"

definition receiptInScope :: "store \<Rightarrow> string \<Rightarrow> IdentityDataScopeFilter \<Rightarrow> IdentityEntitlementBatchReceipt \<Rightarrow> bool" where
  "receiptInScope s workspaceID scope receipt =
     list_all (\<lambda>i. userMatches s workspaceID (item_UserID i) scope) (rcpt_Items receipt)"

definition GetIdentityEntitlementBatchReceiptWithinDataScope ::
  "store \<Rightarrow> string \<Rightarrow> string \<Rightarrow> IdentityDataScopeFilter \<Rightarrow> IdentityEntitlementBatchReceipt option res" where
  "GetIdentityEntitlementBatchReceiptWithinDataScope s workspaceID idempotencyKey scope =
     bind (identityWorkspaceKey workspaceID [TrimSpace idempotencyKey]) (\<lambda>key.
       (case map_of (st_entitlementReceipts s) key of
          None \<Rightarrow> Inr None
        | Some receipt \<Rightarrow> if receiptInScope s workspaceID scope receipt then Inr (Some receipt) else Inr None))"

definition batchInvalid :: go_error where
  "batchInvalid = Errorf ''identity entitlement batch mutation is invalid'' []"

definition keyReused :: go_error where
  "keyReused = AppError KindConflict ''backend.idempotency_key_reused'' []"

definition batchMalformed :: "IdentityEntitlementBatchMutation \<Rightarrow> bool" where
  "batchMalformed m \<longleftrightarrow> TrimSpace (mut_ActorID m) = [] \<or> TrimSpace (mut_IdempotencyKey m) = []
     \<or> TrimSpace (mut_RequestFingerprint m) = [] \<or> length (mut_Items m) = 0
     \<or> length (mut_Items m) \<noteq> length (mut_Assignments m)"

definition batchReceipt :: "env \<Rightarrow> IdentityEntitlementBatchMutation \<Rightarrow> IdentityEntitlementBatchReceipt" where
  "batchReceipt e m = \<lparr>rcpt_ID = identityID [''identity_entitlement_batch'', mut_WorkspaceID m, mut_IdempotencyKey m],
     rcpt_WorkspaceID = mut_WorkspaceID m, rcpt_ActorID = mut_ActorID m, rcpt_IdempotencyKey = mut_IdempotencyKey m,
     rcpt_RequestFingerprint = mut_RequestFingerprint m, rcpt_Items = mut_Items m, rcpt_Replayed = False,
     rcpt_CreatedAt = nowString e\<rparr>"

text \<open>The copy \<open>next\<close> of the assignments with the batch applied.\<close>

fun batchRows ::
  "string \<Rightarrow> (string, IdentityUserRoleAssignment) gomap \<Rightarrow> IdentityUserRoleAssignment list
   \<Rightarrow> (string, IdentityUserRoleAssignment) gomap res" where
  "batchRows pre m [] = Inr m"
| "batchRows pre m (a # as) =
     (if asg_UserID a = [] \<or> asg_RoleID a = [] then Inl userRoleIDsRequired
      else batchRows pre (AList.update (pre @ JoinStrings [asg_UserID a, asg_RoleID a] NUL) a m) as)"

definition ApplyIdentityEntitlementBatch ::
  "env \<Rightarrow> store \<Rightarrow> IdentityEntitlementBatchMutation \<Rightarrow> IdentityEntitlementBatchReceipt res \<times> store" where
  "ApplyIdentityEntitlementBatch e s m =
     (case identityWorkspacePrefix (mut_WorkspaceID m) of
        Inl err \<Rightarrow> (Inl err, s)
      | Inr pre \<Rightarrow> (let receiptKey = pre @ TrimSpace (mut_IdempotencyKey m) in
          if batchMalformed m then (Inl batchInvalid, s)
          else (case map_of (st_entitlementReceipts s) receiptKey of
              Some receipt \<Rightarrow>
                if rcpt_RequestFingerprint receipt \<noteq> mut_RequestFingerprint m then (Inl keyReused, s)
                else (Inr (receipt\<lparr>rcpt_Replayed := True\<rparr>), s)
            | None \<Rightarrow>
               (case batchRows pre (st_userRoles s) (mut_Assignments m) of
                  Inl err \<Rightarrow> (Inl err, s)
                | Inr rows \<Rightarrow> (Inr (batchReceipt e m),
                    s\<lparr>st_userRoles := rows,
                      st_entitlementReceipts := AList.update receiptKey (batchReceipt e m) (st_entitlementReceipts s)\<rparr>)))))"

text \<open>The scoped variant checks the target user of every assignment; \<open>Inr None\<close> is its \<open>false\<close> result.\<close>

fun batchRowsScoped ::
  "store \<Rightarrow> string \<Rightarrow> IdentityDataScopeFilter \<Rightarrow> string \<Rightarrow> (string, IdentityUserRoleAssignment) gomap
   \<Rightarrow> IdentityUserRoleAssignment list \<Rightarrow> (string, IdentityUserRoleAssignment) gomap option res" where
  "batchRowsScoped s w scope pre m [] = Inr (Some m)"
| "batchRowsScoped s w scope pre m (a # as) =
     (if asg_UserID a = [] \<or> asg_RoleID a = [] then Inl userRoleIDsRequired
      else if \<not> userMatches s w (asg_UserID a) scope then Inr None
      else batchRowsScoped s w scope pre (AList.update (pre @ JoinStrings [asg_UserID a, asg_RoleID a] NUL) a m) as)"

definition ApplyIdentityEntitlementBatchWithinDataScope ::
  "env \<Rightarrow> store \<Rightarrow> IdentityEntitlementBatchMutation \<Rightarrow> IdentityDataScopeFilter
   \<Rightarrow> IdentityEntitlementBatchReceipt option res \<times> store" where
  "ApplyIdentityEntitlementBatchWithinDataScope e s m scope =
     (case identityWorkspacePrefix (mut_WorkspaceID m) of
        Inl err \<Rightarrow> (Inl err, s)
      | Inr pre \<Rightarrow> (let receiptKey = pre @ TrimSpace (mut_IdempotencyKey m) in
          if batchMalformed m then (Inl batchInvalid, s)
          else (case map_of (st_entitlementReceipts s) receiptKey of
              Some receipt \<Rightarrow>
                if rcpt_RequestFingerprint receipt \<noteq> mut_RequestFingerprint m then (Inl keyReused, s)
                else if \<not> receiptInScope s (mut_WorkspaceID m) scope receipt then (Inr None, s)
                else (Inr (Some (receipt\<lparr>rcpt_Replayed := True\<rparr>)), s)
            | None \<Rightarrow>
               (case batchRowsScoped s (mut_WorkspaceID m) scope pre (st_userRoles s) (mut_Assignments m) of
                  Inl err \<Rightarrow> (Inl err, s)
                | Inr None \<Rightarrow> (Inr None, s)
                | Inr (Some rows) \<Rightarrow> (Inr (Some (batchReceipt e m)),
                    s\<lparr>st_userRoles := rows,
                      st_entitlementReceipts := AList.update receiptKey (batchReceipt e m) (st_entitlementReceipts s)\<rparr>)))))"

subsection \<open>Organization units\<close>

definition identityOrganizationUnitParentID :: "string option \<Rightarrow> string" where
  "identityOrganizationUnitParentID v = (case v of None \<Rightarrow> [] | Some x \<Rightarrow> x)"

definition unitLess :: "IdentityOrganizationUnit \<Rightarrow> IdentityOrganizationUnit \<Rightarrow> bool" where
  "unitLess a b =
     (let leftParent = identityOrganizationUnitParentID (unit_ParentID a);
          rightParent = identityOrganizationUnitParentID (unit_ParentID b) in
      if leftParent = rightParent then
        (if unit_SortOrder a = unit_SortOrder b then unit_ID a < unit_ID b else unit_SortOrder a < unit_SortOrder b)
      else if unit_Depth a = unit_Depth b then leftParent < rightParent
      else unit_Depth a < unit_Depth b)"

definition ListIdentityOrganizationUnits :: "store \<Rightarrow> string \<Rightarrow> IdentityOrganizationUnit list res" where
  "ListIdentityOrganizationUnits s workspaceID =
     bind (identityWorkspacePrefix workspaceID) (\<lambda>pre.
       Inr (sortSlice unitLess (rowsWithPrefix pre (st_organizationUnits s))))"

definition ListIdentityOrganizationUnitsWithinDataScope ::
  "store \<Rightarrow> string \<Rightarrow> IdentityDataScopeFilter \<Rightarrow> IdentityOrganizationUnit list res" where
  "ListIdentityOrganizationUnitsWithinDataScope s workspaceID scope =
     bind (ListIdentityOrganizationUnits s workspaceID) (\<lambda>items.
       if flt_Unrestricted scope then Inr items
       else Inr (filter (\<lambda>u. unit_ID u \<in> set (flt_OwnerOrgIDs (Filter_Normalized scope))) items))"

definition GetIdentityOrganizationUnitWithinDataScope ::
  "store \<Rightarrow> string \<Rightarrow> string \<Rightarrow> IdentityDataScopeFilter \<Rightarrow> IdentityOrganizationUnit option res" where
  "GetIdentityOrganizationUnitWithinDataScope s workspaceID organizationUnitID scope =
     bind (ListIdentityOrganizationUnitsWithinDataScope s workspaceID scope) (\<lambda>items.
       Inr (find (\<lambda>u. unit_ID u = TrimSpace organizationUnitID) items))"

definition prepareUnit :: "string \<Rightarrow> IdentityOrganizationUnit \<Rightarrow> (string \<times> IdentityOrganizationUnit) res" where
  "prepareUnit workspaceID u =
     bind (identityWorkspaceKey workspaceID [unit_ID u]) (\<lambda>key.
       if unit_ID u = [] then Inl (Errorf ''organization unit id is required'' [])
       else Inr (key, if unit_Status u = [] then u\<lparr>unit_Status := IdentityStatusActive\<rparr> else u))"

definition UpsertIdentityOrganizationUnitsAtomically ::
  "store \<Rightarrow> string \<Rightarrow> IdentityOrganizationUnit list \<Rightarrow> unit res \<times> store" where
  "UpsertIdentityOrganizationUnitsAtomically s workspaceID organizationUnits =
     (case mapRes (prepareUnit workspaceID) organizationUnits of
        Inl err \<Rightarrow> (Inl err, s)
      | Inr rows \<Rightarrow> (Inr (), s\<lparr>st_organizationUnits := putAll (st_organizationUnits s) (putAll [] rows)\<rparr>))"

definition UpsertIdentityOrganizationUnit :: "store \<Rightarrow> string \<Rightarrow> IdentityOrganizationUnit \<Rightarrow> unit res \<times> store" where
  "UpsertIdentityOrganizationUnit s workspaceID organizationUnit =
     UpsertIdentityOrganizationUnitsAtomically s workspaceID [organizationUnit]"

definition unitMutationDenied ::
  "IdentityOrganizationUnit list \<Rightarrow> string list \<Rightarrow> IdentityOrganizationUnit \<Rightarrow> bool" where
  "unitMutationDenied current allowed item =
     (let parentID = identityOrganizationUnitParentID (unit_ParentID item);
          parents = putAll [] (map (\<lambda>u. (unit_ID u, identityOrganizationUnitParentID (unit_ParentID u))) current);
          existing = hasKey parents (unit_ID item);
          parentChanged = (\<not> existing \<or> mapGet [] parents (unit_ID item) \<noteq> parentID) in
      existing \<and> unit_ID item \<notin> set allowed
        \<or> parentChanged \<and> (parentID = [] \<or> parentID \<notin> set allowed))"

definition UpsertIdentityOrganizationUnitsWithinDataScopeAtomically ::
  "store \<Rightarrow> string \<Rightarrow> IdentityOrganizationUnit list \<Rightarrow> IdentityDataScopeFilter \<Rightarrow> bool res \<times> store" where
  "UpsertIdentityOrganizationUnitsWithinDataScopeAtomically s workspaceID organizationUnits scope =
     (let write = (case UpsertIdentityOrganizationUnitsAtomically s workspaceID organizationUnits of
                     (Inl err, s') \<Rightarrow> (Inl err, s') | (Inr _, s') \<Rightarrow> (Inr True, s')) in
      if flt_Unrestricted scope then write
      else (case ListIdentityOrganizationUnits s workspaceID of
              Inl err \<Rightarrow> (Inl err, s)
            | Inr current \<Rightarrow>
               if list_ex (unitMutationDenied current (flt_OwnerOrgIDs (Filter_Normalized scope))) organizationUnits
               then (Inr False, s) else write))"

subsection \<open>Menus\<close>

definition menuNotFound :: "string \<Rightarrow> go_error" where
  "menuNotFound menuID = Errorf ''menu not found: %s'' [menuID]"

text \<open>Dropping removed menus from the menu lists of the workspace's roles.\<close>

definition dropRoleMenus :: "string \<Rightarrow> string set \<Rightarrow> (string, string list) gomap \<Rightarrow> (string, string list) gomap" where
  "dropRoleMenus pre removed m =
     map (\<lambda>(k, ids). (k, if HasPrefix k pre then filter (\<lambda>i. i \<notin> removed) ids else ids)) m"

definition RemoveIdentityMenusAtomically :: "store \<Rightarrow> string \<Rightarrow> IdentityMenu list \<Rightarrow> unit res \<times> store" where
  "RemoveIdentityMenusAtomically s workspaceID menus =
     (case identityWorkspacePrefix workspaceID of
        Inl err \<Rightarrow> (Inl err, s)
      | Inr pre \<Rightarrow>
         (case find (\<lambda>m. \<not> hasKey (st_menus s) (pre @ menu_ID m)) menus of
            Some m \<Rightarrow> (Inl (menuNotFound (menu_ID m)), s)
          | None \<Rightarrow> (Inr (), s\<lparr>st_menus := foldl (\<lambda>t m. AList.delete (pre @ menu_ID m) t) (st_menus s) menus,
                 st_roleMenus := dropRoleMenus pre (set (map menu_ID menus @ map menu_Key menus)) (st_roleMenus s)\<rparr>)))"

definition menuLess :: "IdentityMenu \<Rightarrow> IdentityMenu \<Rightarrow> bool" where
  "menuLess a b \<longleftrightarrow>
     (if menu_SortOrder a = menu_SortOrder b then menu_Key a < menu_Key b else menu_SortOrder a < menu_SortOrder b)"

definition ListIdentityMenus :: "store \<Rightarrow> string \<Rightarrow> IdentityMenu list res" where
  "ListIdentityMenus s workspaceID =
     bind (identityWorkspacePrefix workspaceID) (\<lambda>pre. Inr (sortSlice menuLess (rowsWithPrefix pre (st_menus s))))"

definition UpsertIdentityMenu :: "store \<Rightarrow> string \<Rightarrow> IdentityMenu \<Rightarrow> unit res \<times> store" where
  "UpsertIdentityMenu s workspaceID menu =
     (case identityWorkspaceKey workspaceID [menu_ID menu] of
        Inl err \<Rightarrow> (Inl err, s)
      | Inr key \<Rightarrow>
          if menu_ID menu = [] then (Inl (Errorf ''menu id is required'' []), s)
          else (let m1 = (if menu_Key menu = [] then menu\<lparr>menu_Key := menu_ID menu\<rparr> else menu);
                    m2 = (if menu_Status m1 = [] then m1\<lparr>menu_Status := IdentityStatusActive\<rparr> else m1) in
            (Inr (), s\<lparr>st_menus := AList.update key m2 (st_menus s)\<rparr>)))"

definition RemoveIdentityMenu :: "store \<Rightarrow> string \<Rightarrow> string \<Rightarrow> unit res \<times> store" where
  "RemoveIdentityMenu s workspaceID menuID =
     (case identityWorkspacePrefix workspaceID of
        Inl err \<Rightarrow> (Inl err, s)
      | Inr pre \<Rightarrow>
         (case map_of (st_menus s) (pre @ menuID) of
            None \<Rightarrow> (Inl (menuNotFound menuID), s)
          | Some menu \<Rightarrow> (Inr (), s\<lparr>st_menus := AList.delete (pre @ menuID) (st_menus s),
                st_roleMenus := dropRoleMenus pre {menu_ID menu, menu_Key menu} (st_roleMenus s)\<rparr>)))"

definition SetIdentityRoleMenus :: "store \<Rightarrow> string \<Rightarrow> string \<Rightarrow> string list \<Rightarrow> unit res \<times> store" where
  "SetIdentityRoleMenus s workspaceID roleID menuIDs =
     (case identityWorkspaceKey workspaceID [roleID] of
        Inl err \<Rightarrow> (Inl err, s)
      | Inr key \<Rightarrow> (Inr (), s\<lparr>st_roleMenus := AList.update key (uniqueSortedStrings menuIDs) (st_roleMenus s)\<rparr>))"

definition roleMenuRows :: "string \<Rightarrow> string list \<Rightarrow> IdentityRoleMenuAssignment list" where
  "roleMenuRows roleID menuIDs = map (\<lambda>m. \<lparr>rma_RoleID = roleID, rma_MenuID = m\<rparr>) menuIDs"

definition ListIdentityRoleMenuAssignments :: "store \<Rightarrow> string \<Rightarrow> string \<Rightarrow> IdentityRoleMenuAssignment list res" where
  "ListIdentityRoleMenuAssignments s workspaceID roleID =
     bind (identityWorkspacePrefix workspaceID) (\<lambda>pre.
       if TrimSpace roleID \<noteq> [] then Inr (roleMenuRows roleID (mapGet [] (st_roleMenus s) (pre @ roleID)))
       else Inr (concat (map (\<lambda>r. roleMenuRows r (mapGet [] (st_roleMenus s) (pre @ r)))
              (sortStrings (map (\<lambda>(k, v). TrimPrefix k pre) (filter (\<lambda>(k, v). HasPrefix k pre) (st_roleMenus s)))))))"

end
