(* ===== verification/MemorySessions.thy ===== *)
theory MemorySessions
  imports MemoryDirectory
begin

section \<open>The in-memory identity store: credentials, sessions and workloads\<close>

text \<open>
  \<open>identity_store_memory_auth.go\<close>, \<open>identity_store_memory_sessions.go\<close> and
  \<open>identity_workload_memory.go\<close>.  Credentials are keyed by user, refresh tokens by
  their hash, external accounts by their identifier, and workflow workloads by workspace,
  application and workflow.
\<close>

subsection \<open>Credentials\<close>

definition zeroCredential :: IdentityCredential where
  "zeroCredential = \<lparr>cred_UserID = [], cred_PasswordHash = [], cred_PasswordUpdatedAt = [],
     cred_FailedLoginCount = 0, cred_LockedUntil = [], cred_LastLoginAt = [], cred_MustChangePassword = False\<rparr>"

definition getIdentityCredential :: "store \<Rightarrow> string \<Rightarrow> IdentityCredential option" where
  "getIdentityCredential s userID = map_of (st_credentials s) userID"

definition upsertIdentityCredential :: "store \<Rightarrow> IdentityCredential \<Rightarrow> unit res \<times> store" where
  "upsertIdentityCredential s credential =
     (if cred_UserID credential = [] then (Inl (Errorf ''credential user id is required'' []), s)
      else (Inr (), s\<lparr>st_credentials := AList.update (cred_UserID credential) credential (st_credentials s)\<rparr>))"

definition recordIdentityLoginFailure :: "store \<Rightarrow> string \<Rightarrow> store" where
  "recordIdentityLoginFailure s userID =
     (let c = mapGet zeroCredential (st_credentials s) userID in
      s\<lparr>st_credentials := AList.update userID
          (c\<lparr>cred_UserID := userID, cred_FailedLoginCount := cred_FailedLoginCount c + 1\<rparr>) (st_credentials s)\<rparr>)"

definition recordIdentityLoginSuccess :: "store \<Rightarrow> string \<Rightarrow> string \<Rightarrow> store" where
  "recordIdentityLoginSuccess s userID at =
     (let c = mapGet zeroCredential (st_credentials s) userID in
      s\<lparr>st_credentials := AList.update userID
          (c\<lparr>cred_UserID := userID, cred_FailedLoginCount := 0, cred_LockedUntil := [], cred_LastLoginAt := at\<rparr>)
          (st_credentials s)\<rparr>)"

subsection \<open>Refresh tokens\<close>

definition createAuthRefreshToken :: "store \<Rightarrow> AuthRefreshToken \<Rightarrow> unit res \<times> store" where
  "createAuthRefreshToken s token =
     (if tok_ID token = [] \<or> tok_TokenHash token = [] \<or> tok_UserID token = []
      then (Inl (Errorf ''refresh token id, hash, and user id are required'' []), s)
      else (Inr (), s\<lparr>st_refreshTokens := AList.update (tok_TokenHash token) token (st_refreshTokens s)\<rparr>))"

definition getAuthRefreshTokenByHash :: "store \<Rightarrow> string \<Rightarrow> AuthRefreshToken option" where
  "getAuthRefreshTokenByHash s tokenHash = map_of (st_refreshTokens s) tokenHash"

text \<open>The loop ends at the first token with the identifier in the iteration order of the map.\<close>

fun revokeFirst :: "string \<Rightarrow> string \<Rightarrow> string \<Rightarrow> (string, AuthRefreshToken) gomap \<Rightarrow> (string, AuthRefreshToken) gomap" where
  "revokeFirst tokenID revokedAt replacedByID [] = []"
| "revokeFirst tokenID revokedAt replacedByID ((h, t) # ts) =
     (if tok_ID t \<noteq> tokenID then (h, t) # revokeFirst tokenID revokedAt replacedByID ts
      else (h, t\<lparr>tok_RevokedAt := revokedAt, tok_ReplacedByID := replacedByID, tok_LastUsedAt := revokedAt\<rparr>) # ts)"

definition revokeAuthRefreshToken :: "store \<Rightarrow> string \<Rightarrow> string \<Rightarrow> string \<Rightarrow> store" where
  "revokeAuthRefreshToken s tokenID revokedAt replacedByID =
     s\<lparr>st_refreshTokens := revokeFirst tokenID revokedAt replacedByID (st_refreshTokens s)\<rparr>"

definition listAuthRefreshTokensForUser :: "store \<Rightarrow> string \<Rightarrow> AuthRefreshToken list" where
  "listAuthRefreshTokensForUser s userID = filter (\<lambda>t. tok_UserID t = userID) (map snd (st_refreshTokens s))"

definition liveTokenOf :: "string \<Rightarrow> AuthRefreshToken \<Rightarrow> bool" where
  "liveTokenOf userID t \<longleftrightarrow> tok_UserID t = userID \<and> tok_RevokedAt t = []"

definition revokeAuthRefreshTokensForUser :: "store \<Rightarrow> string \<Rightarrow> string \<Rightarrow> nat \<times> store" where
  "revokeAuthRefreshTokensForUser s userID revokedAt =
     (length (filter (\<lambda>(h, t). liveTokenOf userID t) (st_refreshTokens s)),
      s\<lparr>st_refreshTokens := map (\<lambda>(h, t). (h,
          if liveTokenOf userID t then t\<lparr>tok_RevokedAt := revokedAt, tok_LastUsedAt := revokedAt\<rparr> else t))
          (st_refreshTokens s)\<rparr>)"

subsection \<open>External accounts\<close>

definition accountLess :: "IdentityExternalAccount \<Rightarrow> IdentityExternalAccount \<Rightarrow> bool" where
  "accountLess a b \<longleftrightarrow>
     (if acc_Provider a = acc_Provider b then acc_ProviderSubject a < acc_ProviderSubject b
      else acc_Provider a < acc_Provider b)"

definition listIdentityExternalAccounts :: "store \<Rightarrow> string \<Rightarrow> IdentityExternalAccount list" where
  "listIdentityExternalAccounts s userID =
     sortSlice accountLess (filter (\<lambda>a. userID = [] \<or> acc_UserID a = userID) (map snd (st_externalAccounts s)))"

definition upsertIdentityExternalAccount :: "store \<Rightarrow> IdentityExternalAccount \<Rightarrow> unit res \<times> store" where
  "upsertIdentityExternalAccount s account =
     (if acc_ID account = [] \<or> acc_UserID account = [] \<or> acc_Provider account = [] \<or> acc_ProviderSubject account = []
      then (Inl (Errorf ''external account id, user id, provider, and subject are required'' []), s)
      else (Inr (), s\<lparr>st_externalAccounts := AList.update (acc_ID account) account (st_externalAccounts s)\<rparr>))"

definition removeIdentityExternalAccount :: "store \<Rightarrow> string \<Rightarrow> store" where
  "removeIdentityExternalAccount s accountID =
     s\<lparr>st_externalAccounts := AList.delete accountID (st_externalAccounts s)\<rparr>"

subsection \<open>Workflow workloads\<close>

text \<open>
  A release first deactivates the application's active bindings, then writes its own.  The
  key is built from the workspace as given, after its trimmed form has been validated.
\<close>

definition workloadPrefix :: "string \<Rightarrow> string \<Rightarrow> string" where
  "workloadPrefix workspaceID applicationKey = workspaceID @ NUL @ applicationKey @ NUL"

definition deactivateWorkloads ::
  "env \<Rightarrow> string \<Rightarrow> (string, IdentityWorkflowWorkloadBinding) gomap \<Rightarrow> (string, IdentityWorkflowWorkloadBinding) gomap" where
  "deactivateWorkloads e pre m = map (\<lambda>(k, b). (k,
     if HasPrefix k pre \<and> wl_Status b = ''active''
     then b\<lparr>wl_Status := ''inactive'', wl_UpdatedAt := nowString e, wl_DeactivatedAt := nowString e\<rparr> else b)) m"

definition activateBinding ::
  "env \<Rightarrow> IdentityWorkflowWorkloadBinding option \<Rightarrow> IdentityWorkflowWorkloadBinding \<Rightarrow> IdentityWorkflowWorkloadBinding" where
  "activateBinding e previous b =
     b\<lparr>wl_Status := ''active'',
       wl_CreatedAt := (case previous of None \<Rightarrow> nowString e
          | Some p \<Rightarrow> if wl_CreatedAt p \<noteq> [] then wl_CreatedAt p else nowString e),
       wl_UpdatedAt := nowString e, wl_DeactivatedAt := []\<rparr>"

fun releaseLoop ::
  "env \<Rightarrow> string \<Rightarrow> (string, IdentityWorkflowWorkloadBinding) gomap \<Rightarrow> IdentityWorkflowWorkloadBinding list
   \<Rightarrow> IdentityWorkflowWorkloadBinding list \<times> (string, IdentityWorkflowWorkloadBinding) gomap" where
  "releaseLoop e pre m [] = ([], m)"
| "releaseLoop e pre m (b # bs) =
     (let key = pre @ wl_WorkflowKey b; b' = activateBinding e (map_of m key) b;
          (out, m') = releaseLoop e pre (AList.update key b' m) bs in (b' # out, m'))"

definition ApplyIdentityWorkflowWorkloadRelease ::
  "env \<Rightarrow> store \<Rightarrow> IdentityWorkflowWorkloadRelease \<Rightarrow> IdentityWorkflowWorkloadBinding list res \<times> store" where
  "ApplyIdentityWorkflowWorkloadRelease e s release =
     (case NewWorkspaceID (rel_WorkspaceID release) of
        Inl err \<Rightarrow> (Inl err, s)
      | Inr _ \<Rightarrow>
         (let pre = workloadPrefix (rel_WorkspaceID release) (rel_ApplicationKey release);
              (out, m) = releaseLoop e pre (deactivateWorkloads e pre (st_workflowWorkloads s)) (rel_Bindings release) in
          (Inr out, s\<lparr>st_workflowWorkloads := m\<rparr>)))"

definition GetIdentityWorkflowWorkloadBinding ::
  "store \<Rightarrow> string \<Rightarrow> string \<Rightarrow> string \<Rightarrow> IdentityWorkflowWorkloadBinding option res" where
  "GetIdentityWorkflowWorkloadBinding s workspaceID applicationKey workflowKey =
     bind (NewWorkspaceID workspaceID) (\<lambda>_.
       Inr (map_of (st_workflowWorkloads s) (workloadPrefix workspaceID applicationKey @ workflowKey)))"

end
