(* ===== verification/MemoryLaws.thy ===== *)
theory MemoryLaws
  imports MemorySessions
begin

section \<open>Laws of the in-memory identity store\<close>

text \<open>
  The tenant operations of the store as one step relation, the invariant of its tables,
  the isolation of workspaces, and an abstract specification of the user table: a row is
  inserted with version 1, rewritten with the next version, or deleted, and an erased row
  is frozen.
\<close>

subsection \<open>Keys and views\<close>

definition nulFree :: "string \<Rightarrow> bool" where
  "nulFree w \<longleftrightarrow> CHR 0x00 \<notin> set w"

definition viewTable :: "string \<Rightarrow> (string, 'v) gomap \<Rightarrow> (string, 'v) gomap" where
  "viewTable w m = filter (\<lambda>(k, v). HasPrefix k (w @ NUL)) m"

text \<open>All that the keys of one workspace reach.\<close>

definition workspaceView :: "string \<Rightarrow> store \<Rightarrow> store" where
  "workspaceView w s = \<lparr>st_organizationUnits = viewTable w (st_organizationUnits s),
     st_users = viewTable w (st_users s), st_roles = viewTable w (st_roles s),
     st_userRoles = viewTable w (st_userRoles s), st_entitlementReceipts = viewTable w (st_entitlementReceipts s),
     st_roleRequests = viewTable w (st_roleRequests s), st_menus = viewTable w (st_menus s),
     st_roleMenus = viewTable w (st_roleMenus s), st_credentials = viewTable w (st_credentials s),
     st_refreshTokens = viewTable w (st_refreshTokens s), st_externalAccounts = viewTable w (st_externalAccounts s),
     st_workflowWorkloads = viewTable w (st_workflowWorkloads s)\<rparr>"

text \<open>A table whose rows stand under the key made of their workspace and their identity.\<close>

definition tableKeyed :: "('v \<Rightarrow> string) \<Rightarrow> (string, 'v) gomap \<Rightarrow> bool" where
  "tableKeyed ident m \<longleftrightarrow> distinct (map fst m) \<and>
     (\<forall>(k, v) \<in> set m. \<exists>w. NewWorkspaceID w = Inr w \<and> nulFree w \<and> k = w @ NUL @ ident v)"

definition assignmentIdent :: "IdentityUserRoleAssignment \<Rightarrow> string" where
  "assignmentIdent a = asg_UserID a @ NUL @ asg_RoleID a"

definition receiptIdent :: "IdentityEntitlementBatchReceipt \<Rightarrow> string" where
  "receiptIdent r = TrimSpace (rcpt_IdempotencyKey r)"

definition storeWf :: "store \<Rightarrow> bool" where
  "storeWf s \<longleftrightarrow> tableKeyed unit_ID (st_organizationUnits s) \<and> tableKeyed user_ID (st_users s)
     \<and> tableKeyed role_ID (st_roles s) \<and> tableKeyed assignmentIdent (st_userRoles s)
     \<and> tableKeyed receiptIdent (st_entitlementReceipts s) \<and> tableKeyed req_ID (st_roleRequests s)
     \<and> tableKeyed menu_ID (st_menus s) \<and> mapWf (st_roleMenus s) \<and> mapWf (st_workflowWorkloads s)"

subsection \<open>The tenant operations as steps\<close>

inductive storeStep :: "env \<Rightarrow> string \<Rightarrow> store \<Rightarrow> store \<Rightarrow> bool" where
  UpsertUser: "storeStep e w s (snd (UpsertIdentityUser e s w u))"
| CreateUser: "storeStep e w s (snd (CreateIdentityUser e s w u))"
| UpdateLocale: "storeStep e w s (snd (UpdateIdentityUserLocale s w i l v))"
| UpsertUsers: "storeStep e w s (snd (UpsertIdentityUsersAtomically e s w us))"
| UpdateUsers: "storeStep e w s (snd (UpdateIdentityUsersWithinDataScopeAtomically e s w us sc))"
| UserWithRoles: "storeStep e w s (snd (UpsertIdentityUserWithRoleAssignmentsAtomically e s w u as))"
| UserWithRolesScoped:
    "storeStep e w s (snd (UpsertIdentityUserWithRoleAssignmentsWithinDataScopeAtomically e s w u as sc))"
| RemoveUser: "storeStep e w s (snd (RemoveIdentityUser s w i))"
| RemoveUserScoped: "storeStep e w s (snd (RemoveIdentityUserWithinDataScope s w i sc))"
| SetStatus: "storeStep e w s (snd (SetIdentityUserStatus e s w i st))"
| SetStatusScoped: "storeStep e w s (snd (SetIdentityUserStatusWithinDataScope e s w i st sc))"
| UpsertRole: "storeStep e w s (snd (UpsertIdentityRole s w r))"
| RemoveRole: "storeStep e w s (snd (RemoveIdentityRole s w i))"
| AssignRole: "storeStep e w s (snd (AssignIdentityUserRole s w a))"
| AssignRoleScoped: "storeStep e w s (snd (AssignIdentityUserRoleWithinDataScope s w a sc))"
| RemoveAssignment: "storeStep e w s (snd (RemoveIdentityUserRole s w i r))"
| RemoveAssignmentScoped: "storeStep e w s (snd (RemoveIdentityUserRoleWithinDataScope s w i r sc))"
| CreateRequest: "storeStep e w s (snd (CreateIdentityRoleRequest s w q))"
| UpdateRequest: "storeStep e w s (snd (UpdateIdentityRoleRequest s w q))"
| DecideRequest: "storeStep e w s (snd (ApplyIdentityRoleRequestDecision s w q as st))"
| DecideRequestScoped: "storeStep e w s (snd (ApplyIdentityRoleRequestDecisionWithinDataScope s w q as st sc))"
| Batch: "mut_WorkspaceID m = w \<Longrightarrow> storeStep e w s (snd (ApplyIdentityEntitlementBatch e s m))"
| BatchScoped:
    "mut_WorkspaceID m = w \<Longrightarrow> storeStep e w s (snd (ApplyIdentityEntitlementBatchWithinDataScope e s m sc))"
| UpsertUnits: "storeStep e w s (snd (UpsertIdentityOrganizationUnitsAtomically s w ous))"
| UpsertUnitsScoped: "storeStep e w s (snd (UpsertIdentityOrganizationUnitsWithinDataScopeAtomically s w ous sc))"
| UpsertMenu: "storeStep e w s (snd (UpsertIdentityMenu s w mn))"
| RemoveMenu: "storeStep e w s (snd (RemoveIdentityMenu s w i))"
| RemoveMenus: "storeStep e w s (snd (RemoveIdentityMenusAtomically s w ms))"
| SetRoleMenus: "storeStep e w s (snd (SetIdentityRoleMenus s w r is))"
| ApplyRelease: "rel_WorkspaceID rl = w \<Longrightarrow> storeStep e w s (snd (ApplyIdentityWorkflowWorkloadRelease e s rl))"

text \<open>Runs of the store: any sequence of operations on workspaces without a NUL byte.\<close>

inductive storeRun :: "store \<Rightarrow> store \<Rightarrow> bool" where
  Start: "storeRun s s"
| Step: "storeRun s t \<Longrightarrow> storeStep e w t u \<Longrightarrow> nulFree w \<Longrightarrow> storeRun s u"

subsection \<open>Abstract specification of the user table\<close>

definition erasedKeys :: "(string, IdentityUser) gomap \<Rightarrow> string set" where
  "erasedKeys m = {k. isErased (map_of m k)}"

inductive userRows ::
  "string set \<Rightarrow> (string, IdentityUser) gomap \<Rightarrow> (string, IdentityUser) gomap \<Rightarrow> bool" for F m where
  Unchanged: "userRows F m m"
| Deleted: "k \<notin> F \<Longrightarrow> userRows F m (AList.delete k m)"
| Inserted: "userRows F m m' \<Longrightarrow> k \<notin> F \<Longrightarrow> map_of m k = None \<Longrightarrow> map_of m' k = None \<Longrightarrow>
     user_Version u = 1 \<Longrightarrow>
     userRows F m (AList.update k u m')"
| Rewritten: "userRows F m m' \<Longrightarrow> k \<notin> F \<Longrightarrow> map_of m' k = Some x \<Longrightarrow> user_Version u = user_Version x + 1 \<Longrightarrow>
     user_CreatedAt u = user_CreatedAt x \<Longrightarrow> userRows F m (AList.update k u m')"

section \<open>Lemmas\<close>

subsection \<open>Keys\<close>

lemma set_TrimSpace: "set (TrimSpace s) \<subseteq> set s"
proof -
  have "set (stripRunes rs t) \<subseteq> set t" for rs t
    using stripRunes_suffix [of rs t] by (auto dest: set_mono_suffix)
  then have "set (stripRunes (map rev spaceRunes) (rev (stripRunes spaceRunes s))) \<subseteq> set (rev (stripRunes spaceRunes s))"
    "set (stripRunes spaceRunes s) \<subseteq> set s" by blast+
  then show ?thesis by (auto simp: TrimSpace_def)
qed

lemma nulFree_TrimSpace [simp]: "nulFree w \<Longrightarrow> nulFree (TrimSpace w)"
  using set_TrimSpace [of w] by (auto simp: nulFree_def)

lemma append_NUL_inj: "nulFree v \<Longrightarrow> nulFree w \<Longrightarrow> v @ NUL @ x = w @ NUL @ y \<longleftrightarrow> v = w \<and> x = y"
proof (induction v arbitrary: w)
  case Nil
  then show ?case by (cases w) (auto simp: NUL_def nulFree_def)
next
  case (Cons c v)
  then show ?case by (cases w) (auto simp: NUL_def nulFree_def)
qed

lemma HasPrefix_key: "nulFree v \<Longrightarrow> nulFree w \<Longrightarrow> HasPrefix (v @ NUL @ x) (w @ NUL) \<longleftrightarrow> v = w"
proof
  assume "nulFree v" "nulFree w" "HasPrefix (v @ NUL @ x) (w @ NUL)"
  then obtain y where "v @ NUL @ x = w @ NUL @ y" by (auto simp: HasPrefix_def prefix_def)
  then show "v = w" using \<open>nulFree v\<close> \<open>nulFree w\<close> by (simp add: append_NUL_inj)
qed (auto simp: HasPrefix_def prefix_def)

lemma identityWorkspacePrefix_Inr_iff:
  "identityWorkspacePrefix w = Inr pre \<longleftrightarrow> pre = TrimSpace w @ NUL \<and> NewWorkspaceID w = Inr (TrimSpace w)"
  by (auto simp: identityWorkspacePrefix_def NewWorkspaceID_Inr_iff bind_Inr_iff)

lemma identityWorkspaceKey_Inr_iff:
  "identityWorkspaceKey w vs = Inr key \<longleftrightarrow>
     key = TrimSpace w @ NUL @ JoinStrings vs NUL \<and> NewWorkspaceID w = Inr (TrimSpace w)"
  by (auto simp: identityWorkspaceKey_def identityWorkspacePrefix_Inr_iff bind_Inr_iff)

lemmas key_iffs = identityWorkspacePrefix_Inr_iff identityWorkspaceKey_Inr_iff

subsection \<open>Views of a workspace\<close>

lemma HasPrefix_foreign:
  "nulFree v \<Longrightarrow> nulFree w \<Longrightarrow> v \<noteq> w \<Longrightarrow> HasPrefix k (w @ NUL) \<Longrightarrow> \<not> HasPrefix k (v @ NUL)"
  by (auto simp: HasPrefix_def prefix_def append_NUL_inj)

lemma viewTable_update: "\<not> HasPrefix k (w @ NUL) \<Longrightarrow> viewTable w (AList.update k v m) = viewTable w m"
  by (induction m) (auto simp: viewTable_def)

lemma viewTable_delete: "\<not> HasPrefix k (w @ NUL) \<Longrightarrow> viewTable w (AList.delete k m) = viewTable w m"
  by (induction m) (auto simp: viewTable_def)

lemma viewTable_filter:
  "(\<And>k v. HasPrefix k (w @ NUL) \<Longrightarrow> P (k, v)) \<Longrightarrow> viewTable w (filter P m) = viewTable w m"
  by (induction m) (auto simp: viewTable_def)

lemma viewTable_map:
  "(\<And>k v. HasPrefix k (w @ NUL) \<Longrightarrow> f k v = v) \<Longrightarrow> viewTable w (map (\<lambda>(k, v). (k, f k v)) m) = viewTable w m"
  by (induction m) (auto simp: viewTable_def)

lemma viewTable_putAll:
  "(\<And>k. k \<in> fst ` set kvs \<Longrightarrow> \<not> HasPrefix k (w @ NUL)) \<Longrightarrow> viewTable w (putAll m kvs) = viewTable w m"
  by (induction m kvs rule: putAll.induct) (auto simp: viewTable_update)

lemma rowsWithPrefix_view: "rowsWithPrefix (w @ NUL) m = map snd (viewTable w m)"
  by (simp add: rowsWithPrefix_def viewTable_def)

lemma map_of_view: "map_of (viewTable w m) (w @ NUL @ x) = map_of m (w @ NUL @ x)"
  by (induction m) (auto simp: viewTable_def HasPrefix_def prefix_def)

subsection \<open>Keyed tables\<close>

lemma tableKeyed_Nil [simp]: "tableKeyed f []"
  by (simp add: tableKeyed_def)

lemma set_update_subset: "set (AList.update k v m) \<subseteq> insert (k, v) (set m)"
  by (induction m) auto

lemma tableKeyed_update:
  assumes "tableKeyed f m" "NewWorkspaceID w = Inr w" "nulFree w" "k = w @ NUL @ f v"
  shows "tableKeyed f (AList.update k v m)"
  using assms set_update_subset [of k v m] by (fastforce simp: tableKeyed_def distinct_update)

lemma tableKeyed_subset: "tableKeyed f m \<Longrightarrow> mapWf m' \<Longrightarrow> set m' \<subseteq> set m \<Longrightarrow> tableKeyed f m'"
  by (auto simp: tableKeyed_def)

lemma tableKeyed_delete: "tableKeyed f m \<Longrightarrow> tableKeyed f (AList.delete k m)"
  by (rule tableKeyed_subset) (auto simp: tableKeyed_def AList.delete_eq distinct_map_filter)

lemma tableKeyed_filter: "tableKeyed f m \<Longrightarrow> tableKeyed f (filter P m)"
  by (rule tableKeyed_subset) (auto simp: tableKeyed_def distinct_map_filter)

lemma tableKeyed_putAll:
  assumes "tableKeyed f m" "NewWorkspaceID w = Inr w" "nulFree w"
    "\<And>k v. (k, v) \<in> set kvs \<Longrightarrow> k = w @ NUL @ f v"
  shows "tableKeyed f (putAll m kvs)"
  using assms by (induction m kvs rule: putAll.induct) (auto intro: tableKeyed_update)

lemma tableKeyed_entry:
  assumes "tableKeyed f m" "(w @ NUL @ x, v) \<in> set m" "nulFree w"
  shows "f v = x"
  using assms by (fastforce simp: tableKeyed_def append_NUL_inj)

text \<open>The identities of the rows of one workspace are distinct.\<close>

lemma tableKeyed_rows_distinct:
  assumes "tableKeyed f m" "nulFree w"
  shows "distinct (map f (rowsWithPrefix (w @ NUL) m))"
proof -
  have "map (\<lambda>kv. w @ NUL @ f (snd kv)) (viewTable w m) = map fst (viewTable w m)"
  proof (rule map_cong, simp)
    fix kv assume "kv \<in> set (viewTable w m)"
    then obtain k v where kv: "kv = (k, v)" "(k, v) \<in> set m" "HasPrefix k (w @ NUL)"
      by (auto simp: viewTable_def)
    then obtain x where "k = w @ NUL @ x" by (auto simp: HasPrefix_def prefix_def)
    with kv tableKeyed_entry [OF assms(1), of w x v] assms(2) show "w @ NUL @ f (snd kv) = fst kv" by auto
  qed
  moreover have "distinct (map fst (viewTable w m))"
    using assms(1) by (auto simp: tableKeyed_def viewTable_def distinct_map_filter)
  ultimately have "distinct (map (\<lambda>kv. w @ NUL @ f (snd kv)) (viewTable w m))" by (simp only:)
  then have "distinct (map (\<lambda>i. w @ NUL @ i) (map f (rowsWithPrefix (w @ NUL) m)))"
    by (simp add: rowsWithPrefix_view comp_def)
  then show ?thesis by (auto simp: distinct_map inj_on_def)
qed

end
