(* ===== verification/MemoryIsolation.thy ===== *)
theory MemoryIsolation
  imports MemoryLaws
begin

section \<open>Isolation of workspaces in the in-memory store\<close>

text \<open>
  An operation on one workspace leaves every row of another workspace as it was, in every
  table: the view of the other workspace is unchanged, and what the read operations
  return for it depends on that view only.
\<close>

lemma view_eqI:
  assumes "viewTable w (st_organizationUnits s') = viewTable w (st_organizationUnits s)"
    "viewTable w (st_users s') = viewTable w (st_users s)"
    "viewTable w (st_roles s') = viewTable w (st_roles s)"
    "viewTable w (st_userRoles s') = viewTable w (st_userRoles s)"
    "viewTable w (st_entitlementReceipts s') = viewTable w (st_entitlementReceipts s)"
    "viewTable w (st_roleRequests s') = viewTable w (st_roleRequests s)"
    "viewTable w (st_menus s') = viewTable w (st_menus s)"
    "viewTable w (st_roleMenus s') = viewTable w (st_roleMenus s)"
    "viewTable w (st_credentials s') = viewTable w (st_credentials s)"
    "viewTable w (st_refreshTokens s') = viewTable w (st_refreshTokens s)"
    "viewTable w (st_externalAccounts s') = viewTable w (st_externalAccounts s)"
    "viewTable w (st_workflowWorkloads s') = viewTable w (st_workflowWorkloads s)"
  shows "workspaceView w s' = workspaceView w s"
  using assms by (simp add: workspaceView_def)

text \<open>The two facts about the keys of another workspace that every operation uses.\<close>

definition foreignKeys :: "string \<Rightarrow> string \<Rightarrow> bool" where
  "foreignKeys own other \<longleftrightarrow> (\<forall>x. \<not> HasPrefix (own @ NUL @ x) (other @ NUL))
     \<and> (\<forall>k. HasPrefix k (other @ NUL) \<longrightarrow> \<not> HasPrefix k (own @ NUL))"

lemma foreignKeysI: "nulFree v \<Longrightarrow> nulFree w \<Longrightarrow> v \<noteq> w \<Longrightarrow> foreignKeys v w"
  by (auto simp: foreignKeys_def HasPrefix_key dest: HasPrefix_foreign)

lemma foreignKeys_key [simp]: "foreignKeys v w \<Longrightarrow> \<not> HasPrefix (v @ NUL @ x) (w @ NUL)"
  by (simp add: foreignKeys_def)

lemma foreignKeys_prefix: "foreignKeys v w \<Longrightarrow> HasPrefix k (w @ NUL) \<Longrightarrow> \<not> HasPrefix k (v @ NUL)"
  by (simp add: foreignKeys_def)

lemma viewTable_own_rows:
  "foreignKeys v w \<Longrightarrow> viewTable w (filter (\<lambda>(k, a). \<not> (HasPrefix k (v @ NUL) \<and> P a)) m) = viewTable w m"
  by (rule viewTable_filter) (auto dest: foreignKeys_prefix)

lemma viewTable_own_rows_imp:
  "foreignKeys v w \<Longrightarrow> viewTable w (filter (\<lambda>(k, a). HasPrefix k (v @ NUL) \<longrightarrow> P a) m) = viewTable w m"
  by (rule viewTable_filter) (auto dest: foreignKeys_prefix)

lemma viewTable_update_own [simp]:
  "foreignKeys v w \<Longrightarrow> viewTable w (AList.update (v @ NUL @ x) a m) = viewTable w m"
  by (simp add: viewTable_update)

lemma viewTable_delete_own [simp]:
  "foreignKeys v w \<Longrightarrow> viewTable w (AList.delete (v @ NUL @ x) m) = viewTable w m"
  by (simp add: viewTable_delete)

lemma viewTable_putAll_own:
  "foreignKeys v w \<Longrightarrow> (\<And>k. k \<in> fst ` set kvs \<Longrightarrow> \<exists>x. k = v @ NUL @ x) \<Longrightarrow> viewTable w (putAll m kvs) = viewTable w m"
  by (rule viewTable_putAll) fastforce

lemma upsertUsersLoop_view:
  "foreignKeys v w \<Longrightarrow> upsertUsersLoop e (v @ NUL) m us = (r, m') \<Longrightarrow> viewTable w m' = viewTable w m"
  by (induction e "v @ NUL" m us rule: upsertUsersLoop.induct) (auto simp: Let_def split: if_splits)

lemma updateUsersLoop_view:
  "foreignKeys v w \<Longrightarrow> viewTable w (updateUsersLoop e (v @ NUL) m us) = viewTable w m"
  by (induction e "v @ NUL" m us rule: updateUsersLoop.induct) auto

lemma replaceUserRoles_view:
  assumes "foreignKeys v w"
  shows "viewTable w (replaceUserRoles (v @ NUL) i as m) = viewTable w m"
proof -
  have "viewTable w (replaceUserRoles (v @ NUL) i as m) =
      viewTable w (filter (\<lambda>(k, a). \<not> (HasPrefix k (v @ NUL) \<and> asg_UserID a = i)) m)"
    unfolding replaceUserRoles_def by (rule viewTable_putAll_own [OF assms]) auto
  then show ?thesis by (simp only: viewTable_own_rows [OF assms])
qed

lemma decisionRows_view:
  "foreignKeys v w \<Longrightarrow> viewTable w (putAll m (decisionRows (v @ NUL) as)) = viewTable w m"
  by (rule viewTable_putAll_own) (auto simp: decisionRows_def)

lemma batchRows_view:
  "foreignKeys v w \<Longrightarrow> batchRows (v @ NUL) m as = Inr m' \<Longrightarrow> viewTable w m' = viewTable w m"
  by (induction "v @ NUL" m as rule: batchRows.induct) (auto split: if_splits)

lemma batchRowsScoped_view:
  "foreignKeys v w \<Longrightarrow> batchRowsScoped s u sc (v @ NUL) m as = Inr (Some m') \<Longrightarrow> viewTable w m' = viewTable w m"
  by (induction s u sc "v @ NUL" m as rule: batchRowsScoped.induct) (auto split: if_splits)

lemma dropRoleMenus_view: "foreignKeys v w \<Longrightarrow> viewTable w (dropRoleMenus (v @ NUL) R m) = viewTable w m"
  unfolding dropRoleMenus_def by (rule viewTable_map) (simp add: foreignKeys_prefix)

lemma deleteMenus_view:
  "foreignKeys v w \<Longrightarrow> viewTable w (foldl (\<lambda>t mn. AList.delete (v @ NUL @ menu_ID mn) t) m ms) = viewTable w m"
  by (induction ms arbitrary: m) auto

lemma prepareUnit_keys:
  "mapRes (prepareUnit u) ous = Inr rows \<Longrightarrow> (k, x) \<in> set rows \<Longrightarrow> \<exists>i. k = TrimSpace u @ NUL @ i"
proof -
  assume "mapRes (prepareUnit u) ous = Inr rows" "(k, x) \<in> set rows"
  then obtain y where "prepareUnit u y = Inr (k, x)"
    by (auto dest!: mapRes_Inr_nth simp: list_all2_conv_all_nth in_set_conv_nth) (metis)
  then show ?thesis by (auto simp: prepareUnit_def identityWorkspaceKey_Inr_iff split: if_splits)
qed

lemma fst_putAll: "fst ` set (putAll m kvs) = fst ` set m \<union> fst ` set kvs"
  using dom_putAll [of m kvs] by (simp add: dom_map_of_conv_image_fst)

lemma upsertUnits_view:
  assumes "foreignKeys (TrimSpace u) w"
  shows "workspaceView w (snd (UpsertIdentityOrganizationUnitsAtomically s u ous)) = workspaceView w s"
proof (cases "mapRes (prepareUnit u) ous")
  case (Inr rows)
  have "viewTable w (putAll (st_organizationUnits s) (putAll [] rows)) = viewTable w (st_organizationUnits s)"
    by (rule viewTable_putAll_own [OF assms]) (use prepareUnit_keys [OF Inr] in \<open>auto simp: fst_putAll\<close>)
  with Inr show ?thesis by (simp add: UpsertIdentityOrganizationUnitsAtomically_def workspaceView_def)
qed (simp add: UpsertIdentityOrganizationUnitsAtomically_def)

lemma deactivateWorkloads_view:
  "foreignKeys v w \<Longrightarrow> viewTable w (deactivateWorkloads e (workloadPrefix v a) m) = viewTable w m"
proof -
  assume f: "foreignKeys v w"
  have "HasPrefix k (workloadPrefix v a) \<Longrightarrow> HasPrefix k (v @ NUL)" for k
    by (auto simp: HasPrefix_def workloadPrefix_def prefix_def)
  with foreignKeys_prefix [OF f] show ?thesis
    unfolding deactivateWorkloads_def by (intro viewTable_map) auto
qed

lemma releaseLoop_view:
  "foreignKeys v w \<Longrightarrow> releaseLoop e (workloadPrefix v a) m bs = (out, m') \<Longrightarrow> viewTable w m' = viewTable w m"
  by (induction e "workloadPrefix v a" m bs arbitrary: out rule: releaseLoop.induct)
    (auto simp: Let_def workloadPrefix_def split: prod.splits)

lemmas view_laws = workspaceView_def viewTable_own_rows_imp replaceUserRoles_view decisionRows_view
  dropRoleMenus_view deleteMenus_view updateUsersLoop_view

text \<open>Users.\<close>

lemma userOps_view:
  assumes "foreignKeys (TrimSpace w) w'"
  shows "workspaceView w' (snd (UpsertIdentityUser e s w u)) = workspaceView w' s"
    and "workspaceView w' (snd (CreateIdentityUser e s w u)) = workspaceView w' s"
    and "workspaceView w' (snd (UpdateIdentityUserLocale s w i l v)) = workspaceView w' s"
    and "workspaceView w' (snd (UpdateIdentityUsersWithinDataScopeAtomically e s w us sc)) = workspaceView w' s"
    and "workspaceView w' (snd (UpsertIdentityUserWithRoleAssignmentsAtomically e s w u as)) = workspaceView w' s"
    and "workspaceView w' (snd (UpsertIdentityUserWithRoleAssignmentsWithinDataScopeAtomically e s w u as sc)) = workspaceView w' s"
    and "workspaceView w' (snd (RemoveIdentityUserWithinDataScope s w i sc)) = workspaceView w' s"
    and "workspaceView w' (snd (SetIdentityUserStatusWithinDataScope e s w i st sc)) = workspaceView w' s"
  using assms
  by (simp_all add: UpsertIdentityUser_def CreateIdentityUser_def UpdateIdentityUserLocale_def
      UpdateIdentityUsersWithinDataScopeAtomically_def UpsertIdentityUserWithRoleAssignmentsAtomically_def
      UpsertIdentityUserWithRoleAssignmentsWithinDataScopeAtomically_def RemoveIdentityUserWithinDataScope_def
      SetIdentityUserStatusWithinDataScope_def Let_def view_laws key_iffs split: sum.split option.split)

lemma userBatchOps_view:
  assumes "foreignKeys (TrimSpace w) w'"
  shows "workspaceView w' (snd (UpsertIdentityUsersAtomically e s w us)) = workspaceView w' s"
    and "workspaceView w' (snd (RemoveIdentityUser s w i)) = workspaceView w' s"
    and "workspaceView w' (snd (SetIdentityUserStatus e s w i st)) = workspaceView w' s"
proof -
  show "workspaceView w' (snd (UpsertIdentityUsersAtomically e s w us)) = workspaceView w' s"
    using assms by (auto simp: UpsertIdentityUsersAtomically_def key_iffs workspaceView_def
        split: sum.split prod.split dest: upsertUsersLoop_view)
  show "workspaceView w' (snd (RemoveIdentityUser s w i)) = workspaceView w' s"
    using userOps_view(7) [OF assms, of s i unrestrictedFilter]
    by (auto simp: RemoveIdentityUser_def split: prod.split sum.split)
  show "workspaceView w' (snd (SetIdentityUserStatus e s w i st)) = workspaceView w' s"
    using userOps_view(8) [OF assms, of e s i st unrestrictedFilter]
    by (auto simp: SetIdentityUserStatus_def split: prod.split sum.split)
qed

text \<open>Roles, assignments and requests.\<close>

lemma roleOps_view:
  assumes "foreignKeys (TrimSpace w) w'"
  shows "workspaceView w' (snd (UpsertIdentityRole s w r)) = workspaceView w' s"
    and "workspaceView w' (snd (RemoveIdentityRole s w i)) = workspaceView w' s"
    and "workspaceView w' (snd (AssignIdentityUserRole s w a)) = workspaceView w' s"
    and "workspaceView w' (snd (AssignIdentityUserRoleWithinDataScope s w a sc)) = workspaceView w' s"
    and "workspaceView w' (snd (RemoveIdentityUserRole s w i r')) = workspaceView w' s"
    and "workspaceView w' (snd (RemoveIdentityUserRoleWithinDataScope s w i r' sc)) = workspaceView w' s"
    and "workspaceView w' (snd (CreateIdentityRoleRequest s w q)) = workspaceView w' s"
    and "workspaceView w' (snd (UpdateIdentityRoleRequest s w q)) = workspaceView w' s"
    and "workspaceView w' (snd (ApplyIdentityRoleRequestDecision s w q as st)) = workspaceView w' s"
    and "workspaceView w' (snd (ApplyIdentityRoleRequestDecisionWithinDataScope s w q as st sc)) = workspaceView w' s"
  using assms
  by (simp_all add: UpsertIdentityRole_def RemoveIdentityRole_def AssignIdentityUserRole_def
      AssignIdentityUserRoleWithinDataScope_def RemoveIdentityUserRole_def RemoveIdentityUserRoleWithinDataScope_def
      CreateIdentityRoleRequest_def UpdateIdentityRoleRequest_def ApplyIdentityRoleRequestDecision_def
      ApplyIdentityRoleRequestDecisionWithinDataScope_def Let_def view_laws key_iffs split: sum.split option.split)

text \<open>Batches, organization units, menus and workloads.\<close>

lemma directoryOps_view:
  assumes "foreignKeys (TrimSpace w) w'"
  shows "workspaceView w' (snd (UpsertIdentityMenu s w mn)) = workspaceView w' s"
    and "workspaceView w' (snd (RemoveIdentityMenu s w i)) = workspaceView w' s"
    and "workspaceView w' (snd (RemoveIdentityMenusAtomically s w ms)) = workspaceView w' s"
    and "workspaceView w' (snd (SetIdentityRoleMenus s w r is)) = workspaceView w' s"
  using assms
  by (simp_all add: UpsertIdentityMenu_def RemoveIdentityMenu_def RemoveIdentityMenusAtomically_def
      SetIdentityRoleMenus_def Let_def view_laws key_iffs split: sum.split option.split)

lemma batchOps_view:
  assumes "foreignKeys (TrimSpace (mut_WorkspaceID m)) w'"
  shows "workspaceView w' (snd (ApplyIdentityEntitlementBatch e s m)) = workspaceView w' s"
    and "workspaceView w' (snd (ApplyIdentityEntitlementBatchWithinDataScope e s m sc)) = workspaceView w' s"
  using assms
  by (auto simp: ApplyIdentityEntitlementBatch_def ApplyIdentityEntitlementBatchWithinDataScope_def Let_def
      workspaceView_def key_iffs split: sum.split option.split dest: batchRows_view batchRowsScoped_view)

lemma unitOps_view:
  assumes "foreignKeys (TrimSpace u) w"
  shows "workspaceView w (snd (UpsertIdentityOrganizationUnitsWithinDataScopeAtomically s u ous sc)) = workspaceView w s"
  using upsertUnits_view [OF assms, of s ous]
  by (auto simp: UpsertIdentityOrganizationUnitsWithinDataScopeAtomically_def Let_def split: sum.split prod.split)

lemma releaseOps_view:
  assumes "foreignKeys (rel_WorkspaceID rl) w"
  shows "workspaceView w (snd (ApplyIdentityWorkflowWorkloadRelease e s rl)) = workspaceView w s"
  using assms by (auto simp: ApplyIdentityWorkflowWorkloadRelease_def Let_def workspaceView_def
      deactivateWorkloads_view split: sum.split prod.split dest!: releaseLoop_view [OF assms])

lemma storeStep_view:
  assumes "storeStep e w s s'" "nulFree w" "nulFree w'" "NewWorkspaceID w' = Inr w'" "TrimSpace w \<noteq> w'"
  shows "workspaceView w' s' = workspaceView w' s"
proof -
  have own: "foreignKeys (TrimSpace w) w'" by (rule foreignKeysI) (use assms in simp_all)
  have "w \<noteq> w'" using assms(4,5) by (auto simp: NewWorkspaceID_Inr_iff)
  then have raw: "foreignKeys w w'" using assms by (intro foreignKeysI)
  show ?thesis using assms(1) own raw
    by (cases rule: storeStep.cases)
      (simp_all add: userOps_view userBatchOps_view roleOps_view directoryOps_view batchOps_view
        upsertUnits_view unitOps_view releaseOps_view)
qed

end
