(* ===== verification/MemoryInvariants.thy ===== *)
theory MemoryInvariants
  imports MemoryIsolation
begin

section \<open>Invariants of the in-memory store\<close>

text \<open>
  Every operation keeps the tables keyed by workspace and identity, and changes the user
  table the way its abstract specification allows.
\<close>

subsection \<open>Well-formedness\<close>

lemma NewWorkspaceID_TrimSpace: "NewWorkspaceID w = Inr (TrimSpace w) \<Longrightarrow> NewWorkspaceID (TrimSpace w) = Inr (TrimSpace w)"
  by (rule NewWorkspaceID_canonical)

lemma storeWf_New: "storeWf NewMemoryIdentityStore"
  by (simp add: storeWf_def NewMemoryIdentityStore_def)

lemma tableKeyed_put:
  assumes "tableKeyed f m" "NewWorkspaceID w = Inr (TrimSpace w)" "nulFree w" "f v = i"
  shows "tableKeyed f (AList.update (TrimSpace w @ NUL @ i) v m)"
  by (rule tableKeyed_update [OF assms(1) NewWorkspaceID_TrimSpace [OF assms(2)]]) (use assms in auto)

lemma tableKeyed_putRows:
  assumes "tableKeyed f m" "NewWorkspaceID w = Inr (TrimSpace w)" "nulFree w"
    "\<And>k v. (k, v) \<in> set kvs \<Longrightarrow> k = TrimSpace w @ NUL @ f v"
  shows "tableKeyed f (putAll m kvs)"
  by (rule tableKeyed_putAll [OF assms(1) NewWorkspaceID_TrimSpace [OF assms(2)]]) (use assms in auto)

lemma user_ID_stamps [simp]:
  "user_ID (userDefaults u) = user_ID u" "user_ID (stampUser e x u) = user_ID u"
  "user_ID (stampExisting e x u) = user_ID u"
  by (auto simp: userDefaults_def stampUser_def stampExisting_def Let_def split: option.split)

lemma assignmentIdent_defaults [simp]:
  "assignmentIdent (assignmentDefaults src a) = assignmentIdent a"
  "assignmentIdent (trimAssignment src a) = assignmentIdent a"
  "assignmentIdent (fillValidUntil a) = assignmentIdent a"
  by (auto simp: assignmentIdent_def assignmentDefaults_def trimAssignment_def fillValidUntil_def Let_def
      split: option.split)

lemma upsertUsersLoop_keyed:
  "upsertUsersLoop e (TrimSpace w @ NUL) m us = (r, m') \<Longrightarrow> tableKeyed user_ID m \<Longrightarrow>
   NewWorkspaceID w = Inr (TrimSpace w) \<Longrightarrow> nulFree w \<Longrightarrow> tableKeyed user_ID m'"
  by (induction e "TrimSpace w @ NUL" m us rule: upsertUsersLoop.induct)
    (auto simp: Let_def tableKeyed_put split: if_splits)

lemma updateUsersLoop_keyed:
  "tableKeyed user_ID m \<Longrightarrow> NewWorkspaceID w = Inr (TrimSpace w) \<Longrightarrow> nulFree w \<Longrightarrow>
   tableKeyed user_ID (updateUsersLoop e (TrimSpace w @ NUL) m us)"
  by (induction e "TrimSpace w @ NUL" m us rule: updateUsersLoop.induct) (auto simp: tableKeyed_put)

lemma replaceUserRoles_keyed:
  assumes "tableKeyed assignmentIdent m" "NewWorkspaceID w = Inr (TrimSpace w)" "nulFree w"
  shows "tableKeyed assignmentIdent (replaceUserRoles (TrimSpace w @ NUL) i as m)"
  unfolding replaceUserRoles_def
  by (rule tableKeyed_putRows [OF tableKeyed_filter [OF assms(1)] assms(2,3)]) (auto, simp add: assignmentIdent_def)

lemma decisionRows_keyed:
  assumes "tableKeyed assignmentIdent m" "NewWorkspaceID w = Inr (TrimSpace w)" "nulFree w"
  shows "tableKeyed assignmentIdent (putAll m (decisionRows (TrimSpace w @ NUL) as))"
  by (rule tableKeyed_putRows [OF assms]) (auto simp: decisionRows_def, simp add: assignmentIdent_def)

lemma batchRows_keyed:
  "batchRows (TrimSpace w @ NUL) m as = Inr m' \<Longrightarrow> tableKeyed assignmentIdent m \<Longrightarrow>
   NewWorkspaceID w = Inr (TrimSpace w) \<Longrightarrow> nulFree w \<Longrightarrow> tableKeyed assignmentIdent m'"
  by (induction "TrimSpace w @ NUL" m as rule: batchRows.induct)
    (auto simp: tableKeyed_put assignmentIdent_def split: if_splits)

lemma batchRowsScoped_keyed:
  "batchRowsScoped s u sc (TrimSpace w @ NUL) m as = Inr (Some m') \<Longrightarrow> tableKeyed assignmentIdent m \<Longrightarrow>
   NewWorkspaceID w = Inr (TrimSpace w) \<Longrightarrow> nulFree w \<Longrightarrow> tableKeyed assignmentIdent m'"
  by (induction s u sc "TrimSpace w @ NUL" m as rule: batchRowsScoped.induct)
    (auto simp: tableKeyed_put assignmentIdent_def split: if_splits)

lemma dropRoleMenus_keyed: "mapWf m \<Longrightarrow> mapWf (dropRoleMenus pre R m)"
  unfolding dropRoleMenus_def by (subst mapWf_map_snd)

lemma deleteMenus_keyed:
  "tableKeyed f m \<Longrightarrow> tableKeyed f (foldl (\<lambda>t mn. AList.delete (g mn) t) m ms)"
  by (induction ms arbitrary: m) (auto simp: tableKeyed_delete)

lemma prepareUnit_rows:
  "mapRes (prepareUnit w) ous = Inr rows \<Longrightarrow> (k, x) \<in> set rows \<Longrightarrow>
   k = TrimSpace w @ NUL @ unit_ID x \<and> NewWorkspaceID w = Inr (TrimSpace w)"
proof -
  assume "mapRes (prepareUnit w) ous = Inr rows" "(k, x) \<in> set rows"
  then obtain y where "prepareUnit w y = Inr (k, x)"
    by (auto dest!: mapRes_Inr_nth simp: list_all2_conv_all_nth in_set_conv_nth) (metis)
  then show ?thesis by (auto simp: prepareUnit_def identityWorkspaceKey_Inr_iff split: if_splits)
qed

lemma set_putAll_subset: "set (putAll m kvs) \<subseteq> set m \<union> set kvs"
  by (induction m kvs rule: putAll.induct) (use set_update_subset in fastforce)+

lemma upsertUnits_storeWf:
  assumes "storeWf s" "nulFree w"
  shows "storeWf (snd (UpsertIdentityOrganizationUnitsAtomically s w ous))"
proof (cases "mapRes (prepareUnit w) ous")
  case (Inr rows)
  have "tableKeyed unit_ID (putAll (st_organizationUnits s) (putAll [] rows))"
  proof (cases "rows = []")
    case False
    then obtain k x where "(k, x) \<in> set rows" by (cases rows) auto
    then have w: "NewWorkspaceID w = Inr (TrimSpace w)" using prepareUnit_rows [OF Inr] by blast
    show ?thesis
      by (rule tableKeyed_putRows [OF _ w assms(2)])
        (use assms(1) prepareUnit_rows [OF Inr] set_putAll_subset [of "[]" rows] in \<open>auto simp: storeWf_def\<close>)
  qed (use assms in \<open>simp add: storeWf_def\<close>)
  with assms Inr show ?thesis by (simp add: UpsertIdentityOrganizationUnitsAtomically_def storeWf_def)
qed (simp add: UpsertIdentityOrganizationUnitsAtomically_def assms)

lemma releaseLoop_mapWf: "releaseLoop e pre m bs = (out, m') \<Longrightarrow> mapWf m \<Longrightarrow> mapWf m'"
  by (induction e pre m bs arbitrary: out rule: releaseLoop.induct)
    (auto simp: Let_def distinct_update split: prod.splits)

lemma deactivateWorkloads_mapWf: "mapWf m \<Longrightarrow> mapWf (deactivateWorkloads e pre m)"
  unfolding deactivateWorkloads_def by (subst mapWf_map_snd)

lemmas wf_laws = storeWf_def tableKeyed_put tableKeyed_delete tableKeyed_filter replaceUserRoles_keyed
  decisionRows_keyed updateUsersLoop_keyed dropRoleMenus_keyed deleteMenus_keyed distinct_update distinct_delete

lemma userOps_storeWf:
  assumes "storeWf s" "nulFree w"
  shows "storeWf (snd (UpsertIdentityUser e s w u))"
    and "storeWf (snd (CreateIdentityUser e s w u))"
    and "storeWf (snd (UpdateIdentityUsersWithinDataScopeAtomically e s w us sc))"
    and "storeWf (snd (UpsertIdentityUserWithRoleAssignmentsAtomically e s w u as))"
    and "storeWf (snd (UpsertIdentityUserWithRoleAssignmentsWithinDataScopeAtomically e s w u as sc))"
    and "storeWf (snd (RemoveIdentityUserWithinDataScope s w i sc))"
  using assms
  by (simp_all add: UpsertIdentityUser_def CreateIdentityUser_def
      UpdateIdentityUsersWithinDataScopeAtomically_def UpsertIdentityUserWithRoleAssignmentsAtomically_def
      UpsertIdentityUserWithRoleAssignmentsWithinDataScopeAtomically_def RemoveIdentityUserWithinDataScope_def
      Let_def wf_laws key_iffs split: sum.split option.split)

text \<open>A row found under a key carries the identity of that key.\<close>

lemma tableKeyed_lookup:
  "tableKeyed f m \<Longrightarrow> map_of m (w @ NUL @ x) = Some v \<Longrightarrow> nulFree w \<Longrightarrow> f v = x"
  by (rule tableKeyed_entry) (auto dest: map_of_SomeD)

lemma userRewrites_storeWf:
  assumes "storeWf s" "nulFree w"
  shows "storeWf (snd (UpdateIdentityUserLocale s w i l v))"
    and "storeWf (snd (SetIdentityUserStatusWithinDataScope e s w i st sc))"
proof -
  have "tableKeyed user_ID (st_users s)" using assms(1) by (simp add: storeWf_def)
  note id = tableKeyed_lookup [OF this, of "TrimSpace w" i]
  show "storeWf (snd (UpdateIdentityUserLocale s w i l v))"
    using assms id
    by (simp add: UpdateIdentityUserLocale_def Let_def wf_laws key_iffs split: sum.split option.split)
  show "storeWf (snd (SetIdentityUserStatusWithinDataScope e s w i st sc))"
    using assms id
    by (simp add: SetIdentityUserStatusWithinDataScope_def Let_def wf_laws key_iffs split: sum.split option.split)
qed

lemma userBatchOps_storeWf:
  assumes "storeWf s" "nulFree w"
  shows "storeWf (snd (UpsertIdentityUsersAtomically e s w us))"
    and "storeWf (snd (RemoveIdentityUser s w i))"
    and "storeWf (snd (SetIdentityUserStatus e s w i st))"
proof -
  show "storeWf (snd (UpsertIdentityUsersAtomically e s w us))"
    using assms by (auto simp: UpsertIdentityUsersAtomically_def key_iffs storeWf_def
        split: sum.split prod.split dest: upsertUsersLoop_keyed)
  show "storeWf (snd (RemoveIdentityUser s w i))"
    using userOps_storeWf(6) [OF assms, of i unrestrictedFilter]
    by (auto simp: RemoveIdentityUser_def split: prod.split sum.split)
  show "storeWf (snd (SetIdentityUserStatus e s w i st))"
    using userRewrites_storeWf(2) [OF assms, of e i st unrestrictedFilter]
    by (auto simp: SetIdentityUserStatus_def split: prod.split sum.split)
qed

lemma roleOps_storeWf:
  assumes "storeWf s" "nulFree w"
  shows "storeWf (snd (UpsertIdentityRole s w r))"
    and "storeWf (snd (RemoveIdentityRole s w i))"
    and "storeWf (snd (AssignIdentityUserRole s w a))"
    and "storeWf (snd (AssignIdentityUserRoleWithinDataScope s w a sc))"
    and "storeWf (snd (RemoveIdentityUserRole s w i r'))"
    and "storeWf (snd (RemoveIdentityUserRoleWithinDataScope s w i r' sc))"
    and "storeWf (snd (CreateIdentityRoleRequest s w q))"
    and "storeWf (snd (UpdateIdentityRoleRequest s w q))"
    and "storeWf (snd (ApplyIdentityRoleRequestDecision s w q as st))"
    and "storeWf (snd (ApplyIdentityRoleRequestDecisionWithinDataScope s w q as st sc))"
  using assms
  by (simp_all add: UpsertIdentityRole_def RemoveIdentityRole_def AssignIdentityUserRole_def
      AssignIdentityUserRoleWithinDataScope_def RemoveIdentityUserRole_def RemoveIdentityUserRoleWithinDataScope_def
      CreateIdentityRoleRequest_def UpdateIdentityRoleRequest_def ApplyIdentityRoleRequestDecision_def
      ApplyIdentityRoleRequestDecisionWithinDataScope_def Let_def wf_laws key_iffs
      flip: assignmentIdent_def split: sum.split option.split)

lemma directoryOps_storeWf:
  assumes "storeWf s" "nulFree w"
  shows "storeWf (snd (UpsertIdentityMenu s w mn))"
    and "storeWf (snd (RemoveIdentityMenu s w i))"
    and "storeWf (snd (RemoveIdentityMenusAtomically s w ms))"
    and "storeWf (snd (SetIdentityRoleMenus s w r is))"
    and "storeWf (snd (UpsertIdentityOrganizationUnitsWithinDataScopeAtomically s w ous sc))"
proof -
  show "storeWf (snd (UpsertIdentityMenu s w mn))" "storeWf (snd (RemoveIdentityMenu s w i))"
    "storeWf (snd (RemoveIdentityMenusAtomically s w ms))" "storeWf (snd (SetIdentityRoleMenus s w r is))"
    using assms by (simp_all add: UpsertIdentityMenu_def RemoveIdentityMenu_def RemoveIdentityMenusAtomically_def
      SetIdentityRoleMenus_def Let_def wf_laws key_iffs split: sum.split option.split)
  show "storeWf (snd (UpsertIdentityOrganizationUnitsWithinDataScopeAtomically s w ous sc))"
    using assms upsertUnits_storeWf [OF assms, of ous]
    by (auto simp: UpsertIdentityOrganizationUnitsWithinDataScopeAtomically_def Let_def split: sum.split prod.split)
qed

lemma batchOps_storeWf:
  assumes "storeWf s" "nulFree (mut_WorkspaceID m)"
  shows "storeWf (snd (ApplyIdentityEntitlementBatch e s m))"
    and "storeWf (snd (ApplyIdentityEntitlementBatchWithinDataScope e s m sc))"
  using assms
  by (auto simp: ApplyIdentityEntitlementBatch_def ApplyIdentityEntitlementBatchWithinDataScope_def Let_def
      storeWf_def key_iffs receiptIdent_def batchReceipt_def
      split: sum.split option.split intro: batchRows_keyed batchRowsScoped_keyed intro!: tableKeyed_put)

lemma releaseOps_storeWf:
  assumes "storeWf s"
  shows "storeWf (snd (ApplyIdentityWorkflowWorkloadRelease e s rl))"
  using assms by (auto simp: ApplyIdentityWorkflowWorkloadRelease_def Let_def storeWf_def
      split: sum.split prod.split dest: releaseLoop_mapWf [OF _ deactivateWorkloads_mapWf])

lemma storeStep_storeWf:
  assumes "storeStep e w s s'" "nulFree w" "storeWf s"
  shows "storeWf s'"
  using assms by (cases rule: storeStep.cases)
    (simp_all add: userOps_storeWf userRewrites_storeWf userBatchOps_storeWf roleOps_storeWf directoryOps_storeWf
      batchOps_storeWf upsertUnits_storeWf releaseOps_storeWf)

end
