(* ===== verification/MemoryHistory.thy ===== *)
theory MemoryHistory
  imports MemoryInvariants
begin

section \<open>History of the user table and order of the listings\<close>

text \<open>
  The store refines the abstract specification \<open>userRows\<close> of its user table; the
  comparison functions of the listings are interpreted as strict orders on the identities
  the keyed tables keep distinct.
\<close>

subsection \<open>The abstract user table\<close>

inductive_cases userRowsE: "userRows F m m'"

lemma userRows_frozen: "userRows F m m' \<Longrightarrow> k \<in> F \<Longrightarrow> map_of m' k = map_of m k"
  by (induction rule: userRows.induct) auto

lemma userRows_version:
  "userRows F m m' \<Longrightarrow> map_of m k = Some x \<Longrightarrow> map_of m' k = Some y \<Longrightarrow>
   y = x \<or> user_Version x < user_Version y \<and> user_CreatedAt y = user_CreatedAt x"
proof (induction arbitrary: y rule: userRows.induct)
  case (Rewritten m' j z u)
  show ?case
  proof (cases "j = k")
    case True
    then have "y = u" "map_of m' k = Some z" using Rewritten by auto
    with Rewritten show ?thesis by fastforce
  qed (use Rewritten in auto)
qed (auto split: if_splits)

lemma userRows_write:
  assumes "k \<notin> F" "userRows F m m'" "map_of m' k = None \<longrightarrow> map_of m k = None"
  shows "userRows F m (AList.update k (stampUser e (map_of m' k) u) m')"
proof (cases "map_of m' k")
  case None
  with assms show ?thesis by (intro userRows.Inserted) (auto simp: stampUser_def)
next
  case (Some x)
  with assms show ?thesis by (intro userRows.Rewritten [OF assms(2,1) Some]) (auto simp: stampUser_def)
qed

lemma upsertUsersLoop_rows:
  assumes "upsertUsersLoop e pre m' us = (r, m'')" "userRows F m m'" "dom (map_of m) \<subseteq> dom (map_of m')"
    "\<And>u. u \<in> set us \<Longrightarrow> pre @ user_ID u \<notin> F"
  shows "userRows F m m''"
  using assms
proof (induction e pre m' us rule: upsertUsersLoop.induct)
  case (2 e pre m' user us)
  let ?k = "pre @ user_ID user" and ?v = "stampUser e (map_of m' (pre @ user_ID user)) (userDefaults user)"
  show ?case
  proof (cases "isErased (map_of m' ?k)")
    case False
    have "userRows F m (AList.update ?k ?v m')"
      by (rule userRows_write) (use "2.prems" in \<open>auto simp: domIff subset_iff\<close>)
    moreover have "upsertUsersLoop e pre (AList.update ?k ?v m') us = (r, m'')"
      using "2.prems"(1) False by (simp add: Let_def)
    moreover have "dom (map_of m) \<subseteq> dom (map_of (AList.update ?k ?v m'))"
      using "2.prems"(3) by auto
    ultimately show ?thesis using "2.IH" [OF refl _ refl] "2.prems"(4) False by (simp del: map_of_update)
  qed (use "2.prems" in \<open>auto simp: Let_def\<close>)
qed auto

lemma updateUsersLoop_rows:
  assumes "userRows F m m'" "\<And>u. u \<in> set us \<Longrightarrow> pre @ user_ID u \<notin> F \<and> map_of m' (pre @ user_ID u) \<noteq> None"
  shows "userRows F m (updateUsersLoop e pre m' us)"
  using assms
proof (induction e pre m' us rule: updateUsersLoop.induct)
  case (2 e pre m' user us)
  let ?k = "pre @ user_ID user" and ?v = "stampExisting e (map_of m' (pre @ user_ID user)) (userDefaults user)"
  obtain x where x: "map_of m' ?k = Some x" using "2.prems"(2) [of user] by auto
  have "userRows F m (AList.update ?k ?v m')"
    by (rule userRows.Rewritten [OF "2.prems"(1) _ x]) (use "2.prems"(2) [of user] x in \<open>auto simp: stampExisting_def\<close>)
  with "2.IH" show ?case using "2.prems"(2) by auto
qed auto

subsection \<open>The store refines it\<close>

lemma userInScope_not_erased: "userInScope sc x \<Longrightarrow> \<not> isErased x"
  by (auto simp: userInScope_def isErased_def split: option.splits)

lemma userInScope_Some: "userInScope sc x \<Longrightarrow> x \<noteq> None"
  by (auto simp: userInScope_def split: option.splits)

lemma stampExisting_row:
  assumes "userInScope sc (map_of m k)"
  shows "userRows (erasedKeys m) m (AList.update k (stampExisting e (map_of m k) u) m)"
proof -
  obtain x where x: "map_of m k = Some x" using userInScope_Some [OF assms] by auto
  show ?thesis
    by (rule userRows.Rewritten [OF userRows.Unchanged _ x])
      (use assms x in \<open>auto simp: erasedKeys_def stampExisting_def dest: userInScope_not_erased\<close>)
qed

lemma stampUser_row:
  "\<not> isErased (map_of m k) \<Longrightarrow> userRows (erasedKeys m) m (AList.update k (stampUser e (map_of m k) u) m)"
  by (rule userRows_write) (auto simp: erasedKeys_def intro: userRows.Unchanged)

lemma created_row:
  "map_of m k = None \<Longrightarrow> user_Version u = 1 \<Longrightarrow> userRows (erasedKeys m) m (AList.update k u m)"
  by (rule userRows.Inserted [OF userRows.Unchanged]) (auto simp: erasedKeys_def isErased_def)

lemma rewritten_row:
  "map_of m k = Some x \<Longrightarrow> user_Status x \<noteq> IdentityStatusErased \<Longrightarrow> user_Version u = user_Version x + 1 \<Longrightarrow>
   user_CreatedAt u = user_CreatedAt x \<Longrightarrow> userRows (erasedKeys m) m (AList.update k u m)"
  by (rule userRows.Rewritten [OF userRows.Unchanged]) (auto simp: erasedKeys_def isErased_def)

lemma deleted_row: "userInScope sc (map_of m k) \<Longrightarrow> userRows (erasedKeys m) m (AList.delete k m)"
  by (rule userRows.Deleted) (auto simp: erasedKeys_def dest: userInScope_not_erased)

lemma userOps_rows:
  fixes s :: store
  defines "F \<equiv> erasedKeys (st_users s)"
  shows "userRows F (st_users s) (st_users (snd (UpsertIdentityUser e s w u)))"
    and "userRows F (st_users s) (st_users (snd (CreateIdentityUser e s w u)))"
    and "userRows F (st_users s) (st_users (snd (UpdateIdentityUserLocale s w i l v)))"
    and "userRows F (st_users s) (st_users (snd (UpsertIdentityUserWithRoleAssignmentsAtomically e s w u as)))"
    and "userRows F (st_users s) (st_users (snd (UpsertIdentityUserWithRoleAssignmentsWithinDataScopeAtomically e s w u as sc)))"
    and "userRows F (st_users s) (st_users (snd (RemoveIdentityUserWithinDataScope s w i sc)))"
    and "userRows F (st_users s) (st_users (snd (SetIdentityUserStatusWithinDataScope e s w i st sc)))"
proof -
  show "userRows F (st_users s) (st_users (snd (UpdateIdentityUserLocale s w i l v)))"
    unfolding F_def by (auto simp: UpdateIdentityUserLocale_def Let_def userRows.Unchanged
        intro: rewritten_row split: sum.split option.split)
  show "userRows F (st_users s) (st_users (snd (SetIdentityUserStatusWithinDataScope e s w i st sc)))"
    unfolding F_def by (auto simp: SetIdentityUserStatusWithinDataScope_def userInScope_def Let_def userRows.Unchanged
        intro: rewritten_row split: sum.split option.split)
qed (auto simp: F_def UpsertIdentityUser_def CreateIdentityUser_def
      UpsertIdentityUserWithRoleAssignmentsAtomically_def
      UpsertIdentityUserWithRoleAssignmentsWithinDataScopeAtomically_def RemoveIdentityUserWithinDataScope_def
      Let_def hasKey_def userRows.Unchanged
      intro: stampUser_row created_row stampExisting_row deleted_row split: sum.split option.split)

lemma upsertUsers_rows:
  "userRows (erasedKeys (st_users s)) (st_users s) (st_users (snd (UpsertIdentityUsersAtomically e s w us)))"
proof (cases "identityWorkspacePrefix w")
  case (Inr pre)
  obtain r m where loop: "upsertUsersLoop e pre (st_users s) us = (r, m)" by fastforce
  show ?thesis
  proof (cases "list_ex (\<lambda>u. isErased (map_of (st_users s) (pre @ user_ID u))) us")
    case False
    then have "userRows (erasedKeys (st_users s)) (st_users s) m"
      by (intro upsertUsersLoop_rows [OF loop userRows.Unchanged]) (auto simp: list_ex_iff erasedKeys_def)
    with Inr loop show ?thesis by (simp add: UpsertIdentityUsersAtomically_def userRows.Unchanged)
  qed (simp add: UpsertIdentityUsersAtomically_def Inr userRows.Unchanged)
qed (simp add: UpsertIdentityUsersAtomically_def userRows.Unchanged)

lemma updateUsers_rows:
  "userRows (erasedKeys (st_users s)) (st_users s)
     (st_users (snd (UpdateIdentityUsersWithinDataScopeAtomically e s w us sc)))"
proof (cases "identityWorkspacePrefix w")
  case (Inr pre)
  show ?thesis
  proof (cases "list_ex (\<lambda>u. \<not> userInScope sc (map_of (st_users s) (pre @ user_ID u))) us")
    case False
    then have "pre @ user_ID u \<notin> erasedKeys (st_users s) \<and> map_of (st_users s) (pre @ user_ID u) \<noteq> None"
      if "u \<in> set us" for u
      using that userInScope_not_erased userInScope_Some unfolding list_ex_iff erasedKeys_def by blast
    from updateUsersLoop_rows [OF userRows.Unchanged this]
    show ?thesis by (simp add: UpdateIdentityUsersWithinDataScopeAtomically_def Inr userRows.Unchanged)
  qed (simp add: UpdateIdentityUsersWithinDataScopeAtomically_def Inr userRows.Unchanged)
qed (simp add: UpdateIdentityUsersWithinDataScopeAtomically_def userRows.Unchanged)

lemma userStatusOps_rows:
  "userRows (erasedKeys (st_users s)) (st_users s) (st_users (snd (RemoveIdentityUser s w i)))"
  "userRows (erasedKeys (st_users s)) (st_users s) (st_users (snd (SetIdentityUserStatus e s w i st)))"
  using userOps_rows(6) [of s w i unrestrictedFilter] userOps_rows(7) [of s e w i st unrestrictedFilter]
  by (auto simp: RemoveIdentityUser_def SetIdentityUserStatus_def split: prod.split sum.split)

text \<open>The operations on the other tables do not touch the users.\<close>

lemma otherOps_users:
  "st_users (snd (UpsertIdentityRole s w r)) = st_users s"
  "st_users (snd (RemoveIdentityRole s w i)) = st_users s"
  "st_users (snd (AssignIdentityUserRole s w a)) = st_users s"
  "st_users (snd (AssignIdentityUserRoleWithinDataScope s w a sc)) = st_users s"
  "st_users (snd (RemoveIdentityUserRole s w i r')) = st_users s"
  "st_users (snd (RemoveIdentityUserRoleWithinDataScope s w i r' sc)) = st_users s"
  "st_users (snd (CreateIdentityRoleRequest s w q)) = st_users s"
  "st_users (snd (UpdateIdentityRoleRequest s w q)) = st_users s"
  "st_users (snd (ApplyIdentityRoleRequestDecision s w q as st)) = st_users s"
  "st_users (snd (ApplyIdentityRoleRequestDecisionWithinDataScope s w q as st sc)) = st_users s"
  "st_users (snd (ApplyIdentityEntitlementBatch e s m)) = st_users s"
  "st_users (snd (ApplyIdentityEntitlementBatchWithinDataScope e s m sc)) = st_users s"
  "st_users (snd (UpsertIdentityMenu s w mn)) = st_users s"
  "st_users (snd (RemoveIdentityMenu s w i)) = st_users s"
  "st_users (snd (RemoveIdentityMenusAtomically s w ms)) = st_users s"
  "st_users (snd (SetIdentityRoleMenus s w i is)) = st_users s"
  "st_users (snd (ApplyIdentityWorkflowWorkloadRelease e s rl)) = st_users s"
  "st_users (snd (UpsertIdentityOrganizationUnitsAtomically s w ous)) = st_users s"
  by (auto simp: UpsertIdentityRole_def RemoveIdentityRole_def AssignIdentityUserRole_def
      AssignIdentityUserRoleWithinDataScope_def RemoveIdentityUserRole_def RemoveIdentityUserRoleWithinDataScope_def
      CreateIdentityRoleRequest_def UpdateIdentityRoleRequest_def ApplyIdentityRoleRequestDecision_def
      ApplyIdentityRoleRequestDecisionWithinDataScope_def ApplyIdentityEntitlementBatch_def
      ApplyIdentityEntitlementBatchWithinDataScope_def UpsertIdentityMenu_def RemoveIdentityMenu_def
      RemoveIdentityMenusAtomically_def SetIdentityRoleMenus_def ApplyIdentityWorkflowWorkloadRelease_def
      UpsertIdentityOrganizationUnitsAtomically_def Let_def split: sum.split option.split prod.split)

lemma unitsScoped_users:
  "st_users (snd (UpsertIdentityOrganizationUnitsWithinDataScopeAtomically s w ous sc)) = st_users s"
  using otherOps_users(18) [of s w ous]
  by (auto simp: UpsertIdentityOrganizationUnitsWithinDataScopeAtomically_def Let_def split: sum.split prod.split)

lemma storeStep_userRows:
  assumes "storeStep e w s s'"
  shows "userRows (erasedKeys (st_users s)) (st_users s) (st_users s')"
  using assms by (cases rule: storeStep.cases)
    (simp_all add: userOps_rows upsertUsers_rows updateUsers_rows userStatusOps_rows otherOps_users
      unitsScoped_users userRows.Unchanged)

subsection \<open>Listings\<close>

text \<open>
  A table whose listing sorts by a comparison that separates the identities of its rows.
  What a listing returns is then a function of the table as a set of rows, and is strictly
  sorted; the order in which \<open>range\<close> visits the map does not matter.
\<close>

locale tenant_table = slice_order lt ident for lt :: "'v \<Rightarrow> 'v \<Rightarrow> bool" and ident :: "'v \<Rightarrow> string"
begin

lemma rows_ok:
  assumes "tableKeyed ident m" "nulFree w"
  shows "distinct (filter P (rowsWithPrefix (w @ NUL) m))"
    and "inj_on ident (set (filter P (rowsWithPrefix (w @ NUL) m)))"
  using tableKeyed_rows_distinct [OF assms] by (auto simp: distinct_map inj_on_def)

lemma listing_sorted:
  assumes "tableKeyed ident m" "nulFree w"
  shows "sorted_wrt lt (sortSlice lt (filter P (rowsWithPrefix (w @ NUL) m)))"
  by (rule sorted_sortSlice [OF rows_ok(2,1) [OF assms]])

lemma listing_any_order:
  assumes "tableKeyed ident m" "nulFree w" "mset m = mset m'"
  shows "sortSlice lt (filter P (rowsWithPrefix (w @ NUL) m)) = sortSlice lt (filter P (rowsWithPrefix (w @ NUL) m'))"
proof -
  have "mset (filter P (rowsWithPrefix (w @ NUL) m)) = mset (filter P (rowsWithPrefix (w @ NUL) m'))"
    using assms(3) by (simp add: rowsWithPrefix_def mset_map [symmetric] mset_filter [symmetric] del: mset_map mset_filter)
      (metis mset_filter mset_map)
  then show ?thesis by (rule order_independent [OF _ rows_ok(2,1) [OF assms(1,2)]])
qed

lemma listing_put:
  assumes "tableKeyed ident m" "nulFree w" "ident v = i"
  shows "set (rowsWithPrefix (w @ NUL) (AList.update (w @ NUL @ i) v m)) =
    insert v {r \<in> set (rowsWithPrefix (w @ NUL) m). ident r \<noteq> i}"
proof -
  have wf: "distinct (map fst m)" "distinct (map fst (AList.update (w @ NUL @ i) v m))"
    using assms(1) by (auto simp: tableKeyed_def distinct_update)
  have rows: "r \<in> set (rowsWithPrefix (w @ NUL) t) \<longleftrightarrow> (\<exists>x. map_of t (w @ NUL @ x) = Some r)"
    if "distinct (map fst t)" for t :: "(string, 'v) gomap" and r
    using mapWf_entry [OF that] by (force simp: rowsWithPrefix_def HasPrefix_def prefix_def)
  have id: "map_of m (w @ NUL @ x) = Some r \<Longrightarrow> ident r = x" for x r
    by (rule tableKeyed_lookup [OF assms(1) _ assms(2)])
  have "r \<in> set (rowsWithPrefix (w @ NUL) (AList.update (w @ NUL @ i) v m)) \<longleftrightarrow>
      r = v \<or> r \<in> set (rowsWithPrefix (w @ NUL) m) \<and> ident r \<noteq> i" for r
    unfolding rows [OF wf(1)] rows [OF wf(2)] using assms(3) id by (auto split: if_splits)
  then show ?thesis by blast
qed

end

text \<open>The comparison functions of the source.\<close>

interpretation users: tenant_table userLess user_ID
  by unfold_locales (auto simp: userLess_def)

interpretation roles: tenant_table roleLess role_ID
  by unfold_locales (auto simp: roleLess_def)

interpretation requests: tenant_table requestLess req_ID
  by unfold_locales (auto simp: requestLess_def split: if_splits)

interpretation assignments: tenant_table assignmentLess assignmentIdent
  by unfold_locales (auto simp: assignmentLess_def assignmentIdent_def split: if_splits)

text \<open>Menus are separated by their place and key only, external accounts by provider and subject.\<close>

interpretation menus: slice_order menuLess "\<lambda>m. (menu_SortOrder m, menu_Key m)"
  by unfold_locales (auto simp: menuLess_def split: if_splits)

interpretation accounts: slice_order accountLess "\<lambda>a. (acc_Provider a, acc_ProviderSubject a)"
  by unfold_locales (auto simp: accountLess_def split: if_splits)

end
