(* ===== verification/Samples.thy ===== *)
theory Samples
  imports MemoryHistory
begin

section \<open>Concrete inputs\<close>

text \<open>
  Small concrete environments, records and stores at which the properties are applied.
  The environment instantiates the code outside the repository with plain functions.
\<close>

definition sampleClock :: civil where
  "sampleClock = \<lparr>civ_year = 2024, civ_month = 2, civ_day = 29, civ_hour = 12, civ_min = 30, civ_sec = 5, civ_nsec = 0\<rparr>"

definition sampleScopes :: "string list" where
  "sampleScopes = [''all'', ''owner'', ''org'', ''org_child'', ''target_org'']"

text \<open>Encodings for samples: the key fields of a value.\<close>

definition sampleCodec :: codec where
  "sampleCodec = \<lparr>cod_FieldPermission = (\<lambda>p. fp_ObjectKey p @ ''.'' @ fp_FieldKey p),
     cod_ReferencePermission = (\<lambda>p. rp_SourceObjectKey p @ ''.'' @ rp_RelationFieldKey p),
     cod_ExportRule = er_ObjectKey, cod_Guardrail = gr_Key,
     cod_Policy = (\<lambda>p. case p of None \<Rightarrow> ''null'' | Some x \<Rightarrow> x),
     cod_Assignment = (\<lambda>a. asg_UserID a @ NUL @ asg_RoleID a), cod_Role = role_ID,
     cod_Revision = (\<lambda>(u, a, b, c, as, rs, r, f). user_ID u @ rs_Key r @ f),
     cod_PermissionStates = (\<lambda>xs. concat (map fst xs))\<rparr>"

definition sampleEnv :: env where
  "sampleEnv = \<lparr>env_Now = sampleClock,
     env_GrantValid = (\<lambda>g. grant_PermissionKey g \<noteq> [] \<and>
        (case grant_DataPolicy g of Some _ \<Rightarrow> grant_DataScope g = [] | None \<Rightarrow> grant_DataScope g \<in> set sampleScopes)),
     env_ScopeValid = (\<lambda>v. v \<in> set sampleScopes), env_NormalizePolicy = Some,
     env_SanitizeParams = (\<lambda>ps. ps), env_ParseAddress = (\<lambda>a. if CHR ''@'' \<in> set a then Some a else None),
     env_LocationKnown = (\<lambda>z. z = ''UTC''), env_RangeOrder = 0, env_Codec = sampleCodec\<rparr>"

definition blankUser :: IdentityUser where
  "blankUser = \<lparr>user_ID = [], user_Name = [], user_GivenName = [], user_MiddleName = [], user_FamilyName = [],
     user_NamePrefix = [], user_NameSuffix = [], user_NativeName = [], user_NameLocale = [], user_Email = [],
     user_Phone = [], user_AccountType = [], user_Locale = [], user_Timezone = [], user_OrgID = [],
     user_SupportOrgID = [], user_ManagerUserID = [], user_ReportingPath = [], user_WorkerNo = [],
     user_WorkerType = [], user_WorkStatus = [], user_StartDate = [], user_EndDate = [], user_Status = [],
     user_Version = 0, user_CreatedAt = [], user_UpdatedAt = []\<rparr>"

definition sampleUser :: "string \<Rightarrow> IdentityUser" where
  "sampleUser i = blankUser\<lparr>user_ID := i, user_Name := ''Ada'', user_OrgID := ''hq''\<rparr>"

definition sampleRole :: "string \<Rightarrow> IdentityRole" where
  "sampleRole i = \<lparr>role_ID = i, role_Key = i, role_Label = i, role_Description = [], role_Status = ''active''\<rparr>"

definition sampleAssignment :: "string \<Rightarrow> string \<Rightarrow> IdentityUserRoleAssignment" where
  "sampleAssignment u r = \<lparr>asg_UserID = u, asg_RoleID = r, asg_BindingKey = [], asg_ProfileID = [],
     asg_Source = ''manual'', asg_Status = ''active'', asg_ValidFrom = [], asg_ValidUntil = [], asg_GrantedBy = [],
     asg_GrantReason = [], asg_RevokedBy = [], asg_RevokedAt = [], asg_RevokeReason = [], asg_CreatedAt = [],
     asg_UpdatedAt = [], asg_ExpiresAt = None\<rparr>"

definition sampleRequest :: "string \<Rightarrow> IdentityRoleRequest" where
  "sampleRequest status = \<lparr>req_ID = ''q1'', req_UserID = ''u1'', req_RequestedBy = ''u1'', req_Provider = [],
     req_ProviderSubject = [], req_RoleIDs = [''r1''], req_Status = status, req_Reason = [], req_CreatedAt = [],
     req_UpdatedAt = [], req_ReviewedBy = [], req_ReviewedAt = [], req_ReviewNote = []\<rparr>"

definition sampleItem :: IdentityEntitlementBatchItem where
  "sampleItem = \<lparr>item_Operation = ''grant'', item_UserID = ''u1'', item_RoleID = ''r1'', item_BindingKey = [],
     item_ProfileID = [], item_ValidFrom = [], item_ValidUntil = [], item_Reason = ''joiner''\<rparr>"

definition sampleBatch :: IdentityEntitlementBatchMutation where
  "sampleBatch = \<lparr>mut_WorkspaceID = ''acme'', mut_ActorID = ''admin'', mut_IdempotencyKey = ''k1'',
     mut_RequestFingerprint = ''f1'', mut_Items = [sampleItem], mut_Assignments = [sampleAssignment ''u1'' ''r1'']\<rparr>"

definition sampleStore :: store where
  "sampleStore = NewMemoryIdentityStore\<lparr>
     st_users := [(''acme'' @ NUL @ ''u1'', (sampleUser ''u1'')\<lparr>user_Status := ''active'', user_Version := 1\<rparr>)],
     st_roles := [(''acme'' @ NUL @ ''r1'', sampleRole ''r1'')],
     st_userRoles := [(''acme'' @ NUL @ ''u1'' @ NUL @ ''r1'', sampleAssignment ''u1'' ''r1'')],
     st_roleRequests := [(''acme'' @ NUL @ ''q1'', sampleRequest ''pending'')]\<rparr>"

lemmas sample_defs = sampleCodec_def sampleClock_def sampleScopes_def sampleEnv_def blankUser_def sampleUser_def sampleRole_def
  sampleAssignment_def sampleRequest_def sampleItem_def sampleBatch_def sampleStore_def NewMemoryIdentityStore_def

lemma acme_workspace [simp]:
  "NewWorkspaceID ''acme'' = Inr ''acme''" "TrimSpace ''acme'' = ''acme''" "nulFree ''acme''"
  by code_simp+

lemma other_workspace [simp]:
  "NewWorkspaceID ''globex'' = Inr ''globex''" "TrimSpace ''globex'' = ''globex''" "nulFree ''globex''"
  by code_simp+

lemma acme_keys [simp]:
  "identityWorkspacePrefix ''acme'' = Inr (''acme'' @ NUL)"
  "identityWorkspaceKey ''acme'' vs = Inr (''acme'' @ NUL @ JoinStrings vs NUL)"
  by (simp_all add: key_iffs)

lemma sampleStore_wf: "storeWf sampleStore"
proof -
  have "tableKeyed f [(''acme'' @ NUL @ f v, v)]" for f :: "'v \<Rightarrow> string" and v
    by (auto simp: tableKeyed_def intro!: exI [of _ "''acme''"])
  from this [of user_ID "(sampleUser ''u1'')\<lparr>user_Status := ''active'', user_Version := 1\<rparr>"]
    this [of role_ID "sampleRole ''r1''"] this [of assignmentIdent "sampleAssignment ''u1'' ''r1''"]
    this [of req_ID "sampleRequest ''pending''"]
  show ?thesis by (simp add: storeWf_def sample_defs assignmentIdent_def)
qed

end
