(* ===== verification/StoreProperties.thy ===== *)
theory StoreProperties
  imports Samples
begin

section \<open>What the in-memory store guarantees\<close>

text \<open>
  The properties of the store's operations over the laws of the preceding theories: tenant
  isolation, the keyed-table invariant, the history of a user, all-or-nothing writes,
  cascading removals, idempotent batches and compare-and-set decisions.
\<close>

subsection \<open>Reads depend on the view of the workspace only\<close>

lemma userMatches_view: "NewWorkspaceID w = Inr w \<Longrightarrow> userMatches (workspaceView w s) w i sc = userMatches s w i sc"
  by (auto simp: userMatches_def identityWorkspaceKey_def identityWorkspacePrefix_def workspaceView_def map_of_view)

lemma rows_of_view: "rowsWithPrefix (w @ NUL) (viewTable w m) = rowsWithPrefix (w @ NUL) m"
  by (simp add: rowsWithPrefix_view viewTable_def)

lemma reads_view:
  assumes "NewWorkspaceID w = Inr w"
  shows "ListIdentityUsersWithinDataScope (workspaceView w s) w sc = ListIdentityUsersWithinDataScope s w sc"
    and "GetIdentityUserWithinDataScope (workspaceView w s) w i sc = GetIdentityUserWithinDataScope s w i sc"
    and "ListIdentityRoles (workspaceView w s) w = ListIdentityRoles s w"
    and "ListIdentityUserRoleAssignmentsWithinDataScope (workspaceView w s) w i sc =
         ListIdentityUserRoleAssignmentsWithinDataScope s w i sc"
    and "ListIdentityRoleRequestsWithinDataScope (workspaceView w s) w q i sc =
         ListIdentityRoleRequestsWithinDataScope s w q i sc"
    and "ListIdentityOrganizationUnits (workspaceView w s) w = ListIdentityOrganizationUnits s w"
    and "ListIdentityMenus (workspaceView w s) w = ListIdentityMenus s w"
    and "GetIdentityEntitlementBatchReceipt (workspaceView w s) w k = GetIdentityEntitlementBatchReceipt s w k"
  using assms
  by (simp_all add: ListIdentityUsersWithinDataScope_def GetIdentityUserWithinDataScope_def ListIdentityRoles_def
      ListIdentityUserRoleAssignmentsWithinDataScope_def ListIdentityRoleRequestsWithinDataScope_def
      ListIdentityOrganizationUnits_def ListIdentityMenus_def GetIdentityEntitlementBatchReceipt_def
      userMatches_view identityWorkspacePrefix_def identityWorkspaceKey_def rows_of_view map_of_view Let_def)
    (simp_all add: workspaceView_def rows_of_view map_of_view)

lemma reads_same_view:
  assumes "NewWorkspaceID w = Inr w" "workspaceView w s' = workspaceView w s"
  shows "ListIdentityUsersWithinDataScope s' w sc = ListIdentityUsersWithinDataScope s w sc"
    and "GetIdentityUserWithinDataScope s' w i sc = GetIdentityUserWithinDataScope s w i sc"
    and "ListIdentityRoles s' w = ListIdentityRoles s w"
    and "ListIdentityUserRoleAssignmentsWithinDataScope s' w i sc = ListIdentityUserRoleAssignmentsWithinDataScope s w i sc"
    and "ListIdentityRoleRequestsWithinDataScope s' w q i sc = ListIdentityRoleRequestsWithinDataScope s w q i sc"
    and "ListIdentityOrganizationUnits s' w = ListIdentityOrganizationUnits s w"
    and "ListIdentityMenus s' w = ListIdentityMenus s w"
    and "GetIdentityEntitlementBatchReceipt s' w k = GetIdentityEntitlementBatchReceipt s w k"
  using reads_view [OF assms(1), of s'] reads_view [OF assms(1), of s] by (simp_all add: assms(2))

subsection \<open>Properties\<close>

text \<open>
  C1 (tenant isolation).  An operation on one workspace, whatever its arguments and its
  outcome, leaves all that another workspace can read as it was: users, roles,
  assignments, requests, organization units, menus and batch receipts.
\<close>

theorem workspace_isolation:
  assumes "storeStep e w s s'" "nulFree w" "nulFree w'" "NewWorkspaceID w' = Inr w'" "TrimSpace w \<noteq> w'"
  shows "workspaceView w' s' = workspaceView w' s
    \<and> ListIdentityUsersWithinDataScope s' w' sc = ListIdentityUsersWithinDataScope s w' sc
    \<and> GetIdentityUserWithinDataScope s' w' i sc = GetIdentityUserWithinDataScope s w' i sc
    \<and> ListIdentityRoles s' w' = ListIdentityRoles s w'
    \<and> ListIdentityUserRoleAssignmentsWithinDataScope s' w' i sc = ListIdentityUserRoleAssignmentsWithinDataScope s w' i sc
    \<and> ListIdentityRoleRequestsWithinDataScope s' w' q i sc = ListIdentityRoleRequestsWithinDataScope s w' q i sc
    \<and> ListIdentityOrganizationUnits s' w' = ListIdentityOrganizationUnits s w'
    \<and> ListIdentityMenus s' w' = ListIdentityMenus s w'
    \<and> GetIdentityEntitlementBatchReceipt s' w' k = GetIdentityEntitlementBatchReceipt s w' k"
  using storeStep_view [OF assms] reads_same_view [OF assms(4) storeStep_view [OF assms]] by simp

theorem workspace_isolation_witness:
  "ListIdentityRoles (snd (RemoveIdentityRole sampleStore ''globex'' ''r1'')) ''acme'' = ListIdentityRoles sampleStore ''acme''"
  using workspace_isolation [OF storeStep.RemoveRole [of sampleEnv "''globex''" sampleStore "''r1''"],
      where w' = "''acme''" and sc = zeroFilter and i = "[]" and q = "[]" and k = "[]"] by simp

text \<open>
  The tables that \<open>storeWf\<close> leaves open.  Menus of roles stand under a workspace and a role,
  workloads under a workspace, an application and their workflow; credentials, refresh tokens
  and external accounts stand under their user, hash and identifier alone, whatever the
  workspace.
\<close>

definition rowsKeyed :: "(string \<Rightarrow> 'v \<Rightarrow> bool) \<Rightarrow> (string, 'v) gomap \<Rightarrow> bool" where
  "rowsKeyed Q m \<longleftrightarrow> distinct (map fst m) \<and> (\<forall>(k, v) \<in> set m. Q k v)"

definition roleMenuKey :: "string \<Rightarrow> string list \<Rightarrow> bool" where
  "roleMenuKey k ids \<longleftrightarrow> (\<exists>w roleID. NewWorkspaceID w = Inr w \<and> nulFree w \<and> k = w @ NUL @ roleID)"

definition workloadKey :: "string \<Rightarrow> IdentityWorkflowWorkloadBinding \<Rightarrow> bool" where
  "workloadKey k b \<longleftrightarrow>
     (\<exists>w app. NewWorkspaceID w = Inr (TrimSpace w) \<and> nulFree w \<and> k = workloadPrefix w app @ wl_WorkflowKey b)"

definition sideKeyed :: "store \<Rightarrow> bool" where
  "sideKeyed s \<longleftrightarrow> rowsKeyed roleMenuKey (st_roleMenus s) \<and> rowsKeyed workloadKey (st_workflowWorkloads s)
     \<and> rowsKeyed (\<lambda>k c. k = cred_UserID c) (st_credentials s) \<and> rowsKeyed (\<lambda>k t. k = tok_TokenHash t) (st_refreshTokens s)
     \<and> rowsKeyed (\<lambda>k a. k = acc_ID a) (st_externalAccounts s)"

text \<open>The operations on credentials, refresh tokens and external accounts.\<close>

inductive sessionStep :: "store \<Rightarrow> store \<Rightarrow> bool" where
  Credential: "sessionStep s (snd (upsertIdentityCredential s c))"
| LoginFailure: "sessionStep s (recordIdentityLoginFailure s i)"
| LoginSuccess: "sessionStep s (recordIdentityLoginSuccess s i at)"
| Token: "sessionStep s (snd (createAuthRefreshToken s t))"
| Revoke: "sessionStep s (revokeAuthRefreshToken s i at replacement)"
| RevokeAll: "sessionStep s (snd (revokeAuthRefreshTokensForUser s i at))"
| Account: "sessionStep s (snd (upsertIdentityExternalAccount s a))"
| RemoveAccount: "sessionStep s (removeIdentityExternalAccount s i)"

text \<open>Any sequence of the operations of both kinds, on workspaces without a NUL byte.\<close>

inductive memoryRun :: "store \<Rightarrow> store \<Rightarrow> bool" where
  begins: "memoryRun s s"
| tenant: "memoryRun s t \<Longrightarrow> storeStep e w t u \<Longrightarrow> nulFree w \<Longrightarrow> memoryRun s u"
| session: "memoryRun s t \<Longrightarrow> sessionStep t u \<Longrightarrow> memoryRun s u"

lemma rowsKeyed_update: "rowsKeyed Q m \<Longrightarrow> Q k v \<Longrightarrow> rowsKeyed Q (AList.update k v m)"
  using set_update_subset [of k v m] by (fastforce simp: rowsKeyed_def distinct_update)

lemma rowsKeyed_subset: "rowsKeyed Q m \<Longrightarrow> distinct (map fst m') \<Longrightarrow> set m' \<subseteq> set m \<Longrightarrow> rowsKeyed Q m'"
  by (auto simp: rowsKeyed_def)

lemma rowsKeyed_filter: "rowsKeyed Q m \<Longrightarrow> rowsKeyed Q (filter P m)"
  by (rule rowsKeyed_subset) (auto simp: rowsKeyed_def distinct_map_filter)

lemma rowsKeyed_delete: "rowsKeyed Q m \<Longrightarrow> rowsKeyed Q (AList.delete k m)"
  by (rule rowsKeyed_subset) (auto simp: rowsKeyed_def AList.delete_eq distinct_map_filter)

lemma rowsKeyed_map:
  assumes "rowsKeyed Q m" "\<And>k v. Q k v \<Longrightarrow> Q k (g k v)"
  shows "rowsKeyed Q (map (\<lambda>(k, v). (k, g k v)) m)"
proof -
  have "map fst (map (\<lambda>(k, v). (k, g k v)) m) = map fst m" by (induction m) auto
  with assms show ?thesis by (auto simp: rowsKeyed_def simp del: map_map)
qed

lemma revokeFirst_keyed:
  "rowsKeyed (\<lambda>k t. k = tok_TokenHash t) m \<Longrightarrow> rowsKeyed (\<lambda>k t. k = tok_TokenHash t) (revokeFirst i at by' m)"
proof -
  have "map fst (revokeFirst i at by' m) = map fst m" by (induction i at by' m rule: revokeFirst.induct) auto
  moreover have "(h, t) \<in> set (revokeFirst i at by' m) \<Longrightarrow> \<exists>t'. (h, t') \<in> set m \<and> tok_TokenHash t' = tok_TokenHash t" for h t
    by (induction i at by' m rule: revokeFirst.induct) (auto split: if_splits)
  ultimately show "rowsKeyed (\<lambda>k t. k = tok_TokenHash t) m \<Longrightarrow> rowsKeyed (\<lambda>k t. k = tok_TokenHash t) (revokeFirst i at by' m)"
    by (fastforce simp: rowsKeyed_def)
qed

lemma releaseLoop_keyed:
  assumes "NewWorkspaceID w = Inr (TrimSpace w)" "nulFree w"
  shows "rowsKeyed workloadKey m \<Longrightarrow> rowsKeyed workloadKey (snd (releaseLoop e (workloadPrefix w app) m bs))"
proof (induction bs arbitrary: m)
  case (Cons b bs)
  let ?k = "workloadPrefix w app @ wl_WorkflowKey b" and ?b = "activateBinding e (map_of m (workloadPrefix w app @ wl_WorkflowKey b)) b"
  have "workloadKey ?k ?b" using assms by (auto simp: workloadKey_def activateBinding_def)
  from Cons.IH [OF rowsKeyed_update [OF Cons.prems this]] show ?case by (simp add: Let_def case_prod_beta)
qed simp

lemma deactivateWorkloads_keyed: "rowsKeyed workloadKey m \<Longrightarrow> rowsKeyed workloadKey (deactivateWorkloads e pre m)"
  unfolding deactivateWorkloads_def by (erule rowsKeyed_map) (simp add: workloadKey_def)

lemma roleMenuKey_put: "NewWorkspaceID w = Inr (TrimSpace w) \<Longrightarrow> nulFree w \<Longrightarrow> roleMenuKey (TrimSpace w @ NUL @ i) v"
  unfolding roleMenuKey_def using NewWorkspaceID_TrimSpace [of w] nulFree_TrimSpace [of w] by blast

lemma roleMenusKeyed_drop: "rowsKeyed roleMenuKey m \<Longrightarrow> rowsKeyed roleMenuKey (dropRoleMenus pre R m)"
  unfolding dropRoleMenus_def by (erule rowsKeyed_map) (simp add: roleMenuKey_def)

definition sideTables where
  "sideTables s = (st_roleMenus s, st_workflowWorkloads s, st_credentials s, st_refreshTokens s, st_externalAccounts s)"

lemma sideKeyed_same: "sideTables s' = sideTables s \<Longrightarrow> sideKeyed s \<Longrightarrow> sideKeyed s'"
  by (simp add: sideKeyed_def sideTables_def)

lemma userOps_side:
  "sideTables (snd (UpsertIdentityUser e s w u)) = sideTables s"
  "sideTables (snd (CreateIdentityUser e s w u)) = sideTables s"
  "sideTables (snd (UpdateIdentityUserLocale s w i l v)) = sideTables s"
  "sideTables (snd (UpsertIdentityUsersAtomically e s w us)) = sideTables s"
  "sideTables (snd (UpdateIdentityUsersWithinDataScopeAtomically e s w us sc)) = sideTables s"
  "sideTables (snd (UpsertIdentityUserWithRoleAssignmentsAtomically e s w u as)) = sideTables s"
  "sideTables (snd (UpsertIdentityUserWithRoleAssignmentsWithinDataScopeAtomically e s w u as sc)) = sideTables s"
  "sideTables (snd (SetIdentityUserStatus e s w i st)) = sideTables s"
  "sideTables (snd (SetIdentityUserStatusWithinDataScope e s w i st sc)) = sideTables s"
  by (auto simp: sideTables_def UpsertIdentityUser_def CreateIdentityUser_def UpdateIdentityUserLocale_def
      UpsertIdentityUsersAtomically_def UpdateIdentityUsersWithinDataScopeAtomically_def
      UpsertIdentityUserWithRoleAssignmentsAtomically_def
      UpsertIdentityUserWithRoleAssignmentsWithinDataScopeAtomically_def SetIdentityUserStatus_def
      SetIdentityUserStatusWithinDataScope_def Let_def split: sum.split option.split prod.split)

lemma roleOps_side:
  "sideTables (snd (UpsertIdentityRole s w r)) = sideTables s"
  "sideTables (snd (AssignIdentityUserRole s w a)) = sideTables s"
  "sideTables (snd (AssignIdentityUserRoleWithinDataScope s w a sc)) = sideTables s"
  "sideTables (snd (RemoveIdentityUserRole s w i r')) = sideTables s"
  "sideTables (snd (RemoveIdentityUserRoleWithinDataScope s w i r' sc)) = sideTables s"
  "sideTables (snd (CreateIdentityRoleRequest s w q)) = sideTables s"
  "sideTables (snd (UpdateIdentityRoleRequest s w q)) = sideTables s"
  "sideTables (snd (ApplyIdentityRoleRequestDecision s w q as st)) = sideTables s"
  "sideTables (snd (ApplyIdentityRoleRequestDecisionWithinDataScope s w q as st sc)) = sideTables s"
  "sideTables (snd (ApplyIdentityEntitlementBatch e s m)) = sideTables s"
  "sideTables (snd (ApplyIdentityEntitlementBatchWithinDataScope e s m sc)) = sideTables s"
  "sideTables (snd (UpsertIdentityMenu s w mn)) = sideTables s"
  "sideTables (snd (UpsertIdentityOrganizationUnitsAtomically s w ous)) = sideTables s"
  by (auto simp: sideTables_def UpsertIdentityRole_def AssignIdentityUserRole_def
      AssignIdentityUserRoleWithinDataScope_def RemoveIdentityUserRole_def RemoveIdentityUserRoleWithinDataScope_def
      CreateIdentityRoleRequest_def UpdateIdentityRoleRequest_def ApplyIdentityRoleRequestDecision_def
      ApplyIdentityRoleRequestDecisionWithinDataScope_def ApplyIdentityEntitlementBatch_def
      ApplyIdentityEntitlementBatchWithinDataScope_def UpsertIdentityMenu_def
      UpsertIdentityOrganizationUnitsAtomically_def Let_def split: sum.split option.split prod.split)

lemma unitsScoped_side: "sideTables (snd (UpsertIdentityOrganizationUnitsWithinDataScopeAtomically s w ous sc)) = sideTables s"
  using roleOps_side(13) [of s w ous]
  by (auto simp: UpsertIdentityOrganizationUnitsWithinDataScopeAtomically_def Let_def split: sum.split prod.split)

lemmas side_laws = sideKeyed_def rowsKeyed_update roleMenuKey_put roleMenusKeyed_drop rowsKeyed_filter rowsKeyed_delete

lemma sideOps_keyed:
  assumes "sideKeyed s" "nulFree w"
  shows "sideKeyed (snd (RemoveIdentityUser s w i))"
    and "sideKeyed (snd (RemoveIdentityUserWithinDataScope s w i sc))"
    and "sideKeyed (snd (RemoveIdentityRole s w i))"
    and "sideKeyed (snd (RemoveIdentityMenu s w i))"
    and "sideKeyed (snd (RemoveIdentityMenusAtomically s w ms))"
    and "sideKeyed (snd (SetIdentityRoleMenus s w r is))"
proof -
  show scoped: "sideKeyed (snd (RemoveIdentityUserWithinDataScope s w i sc))" for sc
    using assms by (simp add: RemoveIdentityUserWithinDataScope_def side_laws split: sum.split)
  show "sideKeyed (snd (RemoveIdentityUser s w i))"
    using scoped [of unrestrictedFilter] by (auto simp: RemoveIdentityUser_def split: prod.split sum.split)
qed (use assms in \<open>simp_all add: RemoveIdentityRole_def RemoveIdentityMenu_def RemoveIdentityMenusAtomically_def
    SetIdentityRoleMenus_def Let_def side_laws key_iffs split: sum.split option.split\<close>)

lemma release_keyed:
  assumes "sideKeyed s" "nulFree (rel_WorkspaceID rl)"
  shows "sideKeyed (snd (ApplyIdentityWorkflowWorkloadRelease e s rl))"
proof (cases "NewWorkspaceID (rel_WorkspaceID rl)")
  case (Inr w)
  then have "NewWorkspaceID (rel_WorkspaceID rl) = Inr (TrimSpace (rel_WorkspaceID rl))" by (auto simp: NewWorkspaceID_Inr_iff)
  from releaseLoop_keyed [OF this assms(2) deactivateWorkloads_keyed] assms(1) Inr show ?thesis
    by (simp add: ApplyIdentityWorkflowWorkloadRelease_def sideKeyed_def Let_def case_prod_beta)
qed (use assms(1) in \<open>simp add: ApplyIdentityWorkflowWorkloadRelease_def\<close>)

lemma storeStep_side: "storeStep e w s s' \<Longrightarrow> nulFree w \<Longrightarrow> sideKeyed s \<Longrightarrow> sideKeyed s'"
  by (cases rule: storeStep.cases)
    (auto simp: sideOps_keyed release_keyed intro: sideKeyed_same userOps_side roleOps_side unitsScoped_side)

lemma sessionStep_keyed: "sessionStep s s' \<Longrightarrow> storeWf s \<and> sideKeyed s \<Longrightarrow> storeWf s' \<and> sideKeyed s'"
  by (cases rule: sessionStep.cases)
    (auto simp: storeWf_def sideKeyed_def upsertIdentityCredential_def recordIdentityLoginFailure_def recordIdentityLoginSuccess_def
      createAuthRefreshToken_def revokeAuthRefreshToken_def revokeAuthRefreshTokensForUser_def upsertIdentityExternalAccount_def
      removeIdentityExternalAccount_def Let_def intro!: rowsKeyed_update rowsKeyed_delete rowsKeyed_map revokeFirst_keyed)

text \<open>
  C2 (keyed tables).  In every store that the tenant operations and those on credentials,
  tokens and accounts reach, in workspaces without a NUL byte, each table has one row per
  key.  Users, roles, assignments, requests, menus, units and batch receipts stand under the
  key made of a canonical workspace and the row's own identity, menus of a role under a
  workspace and the role, workloads under a workspace, an application and their workflow;
  credentials, refresh tokens and external accounts under their user, hash and identifier
  alone.
\<close>

theorem reachable_store_keyed:
  "memoryRun NewMemoryIdentityStore s \<Longrightarrow> storeWf s \<and> sideKeyed s"
proof (induction NewMemoryIdentityStore s rule: memoryRun.induct)
  case begins
  show ?case using storeWf_New
    by (simp add: sideKeyed_def NewMemoryIdentityStore_def rowsKeyed_def)
next
  case (tenant t e w u)
  then show ?case using storeStep_storeWf storeStep_side by blast
next
  case (session t u)
  then show ?case using sessionStep_keyed by blast
qed

theorem reachable_store_keyed_witness:
  "let s = snd (SetIdentityRoleMenus (recordIdentityLoginFailure
       (snd (UpsertIdentityUser sampleEnv NewMemoryIdentityStore ''acme'' (sampleUser ''u1''))) ''u1'') ''acme'' ''r1'' [''m1''])
   in storeWf s \<and> sideKeyed s"
proof -
  note user = memoryRun.tenant [OF memoryRun.begins storeStep.UpsertUser]
  note failure = memoryRun.session [OF user sessionStep.LoginFailure]
  note menus = memoryRun.tenant [OF failure storeStep.SetRoleMenus]
  show ?thesis unfolding Let_def by (rule reachable_store_keyed, rule menus) simp_all
qed

text \<open>
  C3 (erasure is final).  Once a user row is erased, no sequence of operations changes or
  removes it.
\<close>

theorem erased_is_final:
  assumes "storeRun s s'" "map_of (st_users s) k = Some u" "user_Status u = IdentityStatusErased"
  shows "map_of (st_users s') k = Some u"
  using assms
proof (induction rule: storeRun.induct)
  case (Step s t e w t')
  then have "k \<in> erasedKeys (st_users t)" by (simp add: erasedKeys_def isErased_def)
  with userRows_frozen [OF storeStep_userRows [OF Step.hyps(2)]] Step show ?case by simp
qed auto

theorem erased_is_final_witness:
  "map_of (st_users (snd (UpsertIdentityUser sampleEnv
       (snd (SetIdentityUserStatus sampleEnv sampleStore ''acme'' ''u1'' ''erased'')) ''acme'' (sampleUser ''u1''))))
     (''acme'' @ NUL @ ''u1'') =
   map_of (st_users (snd (SetIdentityUserStatus sampleEnv sampleStore ''acme'' ''u1'' ''erased''))) (''acme'' @ NUL @ ''u1'')"
proof -
  let ?s = "snd (SetIdentityUserStatus sampleEnv sampleStore ''acme'' ''u1'' ''erased'')"
  obtain u where u: "map_of (st_users ?s) (''acme'' @ NUL @ ''u1'') = Some u" "user_Status u = IdentityStatusErased"
    by (simp add: SetIdentityUserStatus_def SetIdentityUserStatusWithinDataScope_def userInScope_def
        identityUserMatchesDataScope_def unrestrictedFilter_def Filter_Normalized_def sample_defs)
  have "storeRun ?s (snd (UpsertIdentityUser sampleEnv ?s ''acme'' (sampleUser ''u1'')))"
    by (rule storeRun.Step [OF storeRun.Start storeStep.UpsertUser]) simp
  from erased_is_final [OF this u] u(1) show ?thesis by simp
qed

text \<open>
  C4 (version history).  When an operation leaves a user in place it either leaves the row
  as it was or writes one with a higher version and the same creation time, so a version
  read earlier identifies the row it was read from.
\<close>

theorem user_version_grows:
  assumes "storeStep e w s s'" "map_of (st_users s) k = Some x" "map_of (st_users s') k = Some y"
  shows "y = x \<or> user_Version x < user_Version y \<and> user_CreatedAt y = user_CreatedAt x"
  by (rule userRows_version [OF storeStep_userRows [OF assms(1)] assms(2,3)])

theorem user_version_grows_witness:
  "\<exists>y. map_of (st_users (snd (SetIdentityUserStatus sampleEnv sampleStore ''acme'' ''u1'' ''disabled'')))
      (''acme'' @ NUL @ ''u1'') = Some y \<and> 1 < user_Version y"
proof -
  let ?s' = "snd (SetIdentityUserStatus sampleEnv sampleStore ''acme'' ''u1'' ''disabled'')"
  let ?x = "(sampleUser ''u1'')\<lparr>user_Status := ''active'', user_Version := 1\<rparr>"
  have x: "map_of (st_users sampleStore) (''acme'' @ NUL @ ''u1'') = Some ?x" by (simp add: sample_defs)
  obtain y where y: "map_of (st_users ?s') (''acme'' @ NUL @ ''u1'') = Some y" "y \<noteq> ?x"
    by (simp add: SetIdentityUserStatus_def SetIdentityUserStatusWithinDataScope_def userInScope_def
        identityUserMatchesDataScope_def unrestrictedFilter_def Filter_Normalized_def sample_defs)
  from user_version_grows [OF storeStep.SetStatus x y(1)] y show ?thesis by auto
qed

text \<open>
  C5 (read your writes).  A successful upsert is what the next read returns, with defaults,
  version and times filled in from the row it replaced; the listing is the old one with
  that row put in, strictly sorted by identifier.
\<close>

theorem upsert_user_read_back:
  assumes "storeWf s" "nulFree w" "UpsertIdentityUser e s w u = (Inr (), s')"
  shows "\<exists>old rows rows'. GetIdentityUser s w (user_ID u) = Inr old \<and> \<not> isErased old
    \<and> GetIdentityUser s' w (user_ID u) = Inr (Some (stampUser e old (userDefaults u)))
    \<and> ListIdentityUsers s w = Inr rows \<and> ListIdentityUsers s' w = Inr rows'
    \<and> set rows' = insert (stampUser e old (userDefaults u)) {r \<in> set rows. user_ID r \<noteq> user_ID u}
    \<and> sorted_wrt userLess rows'"
proof -
  let ?k = "TrimSpace w @ NUL @ user_ID u" and ?t = "st_users s"
  have ws: "NewWorkspaceID w = Inr (TrimSpace w)" and ne: "\<not> isErased (map_of ?t ?k)"
    and s': "s' = s\<lparr>st_users := AList.update ?k (stampUser e (map_of ?t ?k) (userDefaults u)) ?t\<rparr>"
    using assms(3) by (auto simp: UpsertIdentityUser_def key_iffs Let_def split: sum.splits if_splits)
  have keyed: "tableKeyed user_ID ?t" "tableKeyed user_ID (st_users s')"
    using assms(1,2) ws by (auto simp: storeWf_def s' intro!: tableKeyed_put)
  have all: "filter (\<lambda>r. identityUserMatchesDataScope r unrestrictedFilter) rows = rows" for rows
    by (simp add: identityUserMatchesDataScope_def)
  have pre: "identityWorkspacePrefix w = Inr (TrimSpace w @ NUL)" "identityWorkspaceKey w [i] = Inr (TrimSpace w @ NUL @ i)" for i
    using ws by (simp_all add: key_iffs)
  have lists: "ListIdentityUsers t w = Inr (sortSlice userLess (rowsWithPrefix (TrimSpace w @ NUL) (st_users t)))" for t
    by (simp add: ListIdentityUsers_def ListIdentityUsersWithinDataScope_def pre all)
  have gets: "GetIdentityUser t w i = Inr (map_of (st_users t) (TrimSpace w @ NUL @ i))" for t i
    by (simp add: GetIdentityUser_def GetIdentityUserWithinDataScope_def pre identityUserMatchesDataScope_def
        split: option.split)
  have "set (rowsWithPrefix (TrimSpace w @ NUL) (st_users s')) =
      insert (stampUser e (map_of ?t ?k) (userDefaults u)) {r \<in> set (rowsWithPrefix (TrimSpace w @ NUL) ?t). user_ID r \<noteq> user_ID u}"
    using users.listing_put [OF keyed(1), of "TrimSpace w" "stampUser e (map_of ?t ?k) (userDefaults u)" "user_ID u"] assms(2)
    by (simp add: s')
  moreover have "sorted_wrt userLess (sortSlice userLess (rowsWithPrefix (TrimSpace w @ NUL) (st_users s')))"
    using users.listing_sorted [OF keyed(2), of "TrimSpace w" "\<lambda>_. True"] assms(2) by simp
  ultimately show ?thesis using ne by (simp add: gets lists) (simp add: s')
qed

theorem upsert_user_read_back_witness:
  "\<exists>s' rows'. UpsertIdentityUser sampleEnv sampleStore ''acme'' (sampleUser ''u2'') = (Inr (), s')
     \<and> ListIdentityUsers s' ''acme'' = Inr rows' \<and> sorted_wrt userLess rows'"
proof -
  obtain s' where s': "UpsertIdentityUser sampleEnv sampleStore ''acme'' (sampleUser ''u2'') = (Inr (), s')"
    by (simp add: UpsertIdentityUser_def sample_defs isErased_def Let_def)
  from upsert_user_read_back [OF sampleStore_wf _ s'] s' show ?thesis by auto
qed

text \<open>
  C6 (deterministic listings).  Two stores that hold the same rows list them in the same
  order, whatever order their maps are visited in.
\<close>

theorem listings_ignore_map_order:
  assumes "storeWf s" "nulFree w" "mset (st_users s) = mset (st_users s')" "mset (st_roles s) = mset (st_roles s')"
    "mset (st_userRoles s) = mset (st_userRoles s')" "mset (st_roleRequests s) = mset (st_roleRequests s')"
  shows "ListIdentityUsersWithinDataScope s w sc = ListIdentityUsersWithinDataScope s' w sc
    \<and> ListIdentityRoles s w = ListIdentityRoles s' w
    \<and> ListIdentityUserRoleAssignments s w i = ListIdentityUserRoleAssignments s' w i
    \<and> ListIdentityRoleRequests s w q i = ListIdentityRoleRequests s' w q i"
proof (cases "identityWorkspacePrefix w")
  case (Inr pre)
  then have pre: "pre = TrimSpace w @ NUL" by (simp add: key_iffs)
  have w: "nulFree (TrimSpace w)" using assms(2) by simp
  have keyed: "tableKeyed user_ID (st_users s)" "tableKeyed role_ID (st_roles s)"
    "tableKeyed assignmentIdent (st_userRoles s)" "tableKeyed req_ID (st_roleRequests s)"
    using assms(1) by (simp_all add: storeWf_def)
  show ?thesis
    unfolding ListIdentityUsersWithinDataScope_def ListIdentityRoles_def ListIdentityUserRoleAssignments_def
      ListIdentityUserRoleAssignmentsWithinDataScope_def ListIdentityRoleRequests_def
      ListIdentityRoleRequestsWithinDataScope_def Inr pre
    using users.listing_any_order [OF keyed(1) w assms(3)]
      roles.listing_any_order [OF keyed(2) w assms(4), of "\<lambda>_. True"]
      assignments.listing_any_order [OF keyed(3) w assms(5)] requests.listing_any_order [OF keyed(4) w assms(6)]
    by (simp add: Let_def)
qed (simp add: ListIdentityUsersWithinDataScope_def ListIdentityRoles_def ListIdentityUserRoleAssignments_def
      ListIdentityUserRoleAssignmentsWithinDataScope_def ListIdentityRoleRequests_def
      ListIdentityRoleRequestsWithinDataScope_def)

theorem listings_ignore_map_order_witness:
  "ListIdentityUsersWithinDataScope (snd (UpsertIdentityUser sampleEnv sampleStore ''acme'' (sampleUser ''u2''))) ''acme'' unrestrictedFilter =
   ListIdentityUsersWithinDataScope
     ((snd (UpsertIdentityUser sampleEnv sampleStore ''acme'' (sampleUser ''u2'')))
        \<lparr>st_users := rev (st_users (snd (UpsertIdentityUser sampleEnv sampleStore ''acme'' (sampleUser ''u2''))))\<rparr>)
     ''acme'' unrestrictedFilter"
  using listings_ignore_map_order [OF userOps_storeWf(1) [OF sampleStore_wf, of "''acme''" sampleEnv "sampleUser ''u2''"],
      where w = "''acme''" and i = "[]" and q = "[]" and sc = unrestrictedFilter
        and s' = "(snd (UpsertIdentityUser sampleEnv sampleStore ''acme'' (sampleUser ''u2'')))
        \<lparr>st_users := rev (st_users (snd (UpsertIdentityUser sampleEnv sampleStore ''acme'' (sampleUser ''u2''))))\<rparr>"]
  by simp

text \<open>
  C7 (scoped updates are all or nothing).  A batch update inside a data scope succeeds
  exactly when every identifier is present, belongs to a user the scope admits and is not
  erased; in every other case the store is unchanged.
\<close>

theorem scoped_update_all_or_nothing:
  assumes "NewWorkspaceID w = Inr (TrimSpace w)"
    "UpdateIdentityUsersWithinDataScopeAtomically e s w us sc = (r, s')"
  shows "(r = Inr True \<longleftrightarrow> (\<forall>u \<in> set us. TrimSpace (user_ID u) \<noteq> []
      \<and> (\<exists>x. map_of (st_users s) (TrimSpace w @ NUL @ user_ID u) = Some x
            \<and> user_Status x \<noteq> IdentityStatusErased \<and> identityUserMatchesDataScope x sc)))
    \<and> (r \<noteq> Inr True \<longrightarrow> s' = s)"
proof -
  have pre: "identityWorkspacePrefix w = Inr (TrimSpace w @ NUL)" using assms(1) by (simp add: key_iffs)
  have sc: "userInScope sc (map_of m k) \<longleftrightarrow> (\<exists>x. map_of m k = Some x
      \<and> user_Status x \<noteq> IdentityStatusErased \<and> identityUserMatchesDataScope x sc)" for m k
    by (auto simp: userInScope_def split: option.split)
  show ?thesis using assms(2)
    by (auto simp: UpdateIdentityUsersWithinDataScopeAtomically_def pre list_ex_iff sc split: if_splits)
qed

theorem scoped_update_all_or_nothing_witness:
  "snd (UpdateIdentityUsersWithinDataScopeAtomically sampleEnv sampleStore ''acme''
     [sampleUser ''u1'', sampleUser ''nobody''] unrestrictedFilter) = sampleStore"
proof -
  obtain r s' where up: "UpdateIdentityUsersWithinDataScopeAtomically sampleEnv sampleStore ''acme''
     [sampleUser ''u1'', sampleUser ''nobody''] unrestrictedFilter = (r, s')" by fastforce
  have "map_of (st_users sampleStore) (''acme'' @ NUL @ ''nobody'') = None" by (simp add: sample_defs NUL_def)
  with scoped_update_all_or_nothing [OF _ up] up show ?thesis by (simp add: sampleUser_def blankUser_def)
qed

text \<open>
  C8 (removing a role).  Afterwards the workspace has no such role, no menus for it and no
  assignment of it, and the assignments of every other role are kept.
\<close>

theorem remove_role_cascades:
  assumes "storeWf s" "nulFree w" "TrimSpace roleID \<noteq> []" "RemoveIdentityRole s w roleID = (Inr (), s')"
  shows "ListIdentityRoleMenuAssignments s' w roleID = Inr []
    \<and> (\<exists>rs. ListIdentityRoles s' w = Inr rs \<and> roleID \<notin> role_ID ` set rs)
    \<and> (\<exists>as as'. ListIdentityUserRoleAssignments s w [] = Inr as \<and> ListIdentityUserRoleAssignments s' w [] = Inr as'
        \<and> set as' = {a \<in> set as. asg_RoleID a \<noteq> roleID})"
proof -
  have ws: "NewWorkspaceID w = Inr (TrimSpace w)"
    and s': "s' = s\<lparr>st_roles := AList.delete (TrimSpace w @ NUL @ roleID) (st_roles s),
                     st_roleMenus := AList.delete (TrimSpace w @ NUL @ roleID) (st_roleMenus s),
                     st_userRoles := filter (\<lambda>(k, a). \<not> (HasPrefix k (TrimSpace w @ NUL) \<and> asg_RoleID a = roleID)) (st_userRoles s)\<rparr>"
    using assms(4) by (auto simp: RemoveIdentityRole_def key_iffs split: sum.splits)
  have pre: "identityWorkspacePrefix w = Inr (TrimSpace w @ NUL)" using ws by (simp add: key_iffs)
  have keyed: "tableKeyed role_ID (st_roles s)" using assms(1) by (simp add: storeWf_def)
  have "roleID \<notin> role_ID ` set (rowsWithPrefix (TrimSpace w @ NUL) (AList.delete (TrimSpace w @ NUL @ roleID) (st_roles s)))"
  proof
    assume "roleID \<in> role_ID ` set (rowsWithPrefix (TrimSpace w @ NUL) (AList.delete (TrimSpace w @ NUL @ roleID) (st_roles s)))"
    then obtain x r where r: "(TrimSpace w @ NUL @ x, r) \<in> set (st_roles s)" "x \<noteq> roleID" "role_ID r = roleID"
      by (auto simp: rowsWithPrefix_def AList.delete_eq HasPrefix_def prefix_def) blast
    with tableKeyed_entry [OF keyed r(1)] assms(2) show False by simp
  qed
  moreover have "set (rowsWithPrefix p (filter (\<lambda>(k, a). \<not> (HasPrefix k p \<and> asg_RoleID a = roleID)) m)) =
      {a \<in> set (rowsWithPrefix p m). asg_RoleID a \<noteq> roleID}" for p m
    by (auto simp: rowsWithPrefix_def)
  ultimately show ?thesis
    by (auto simp: ListIdentityRoles_def ListIdentityRoleMenuAssignments_def ListIdentityUserRoleAssignments_def
        ListIdentityUserRoleAssignmentsWithinDataScope_def pre s' mapGet_def roleMenuRows_def assms(3))
qed

theorem remove_role_cascades_witness:
  "\<exists>as'. ListIdentityUserRoleAssignments (snd (RemoveIdentityRole sampleStore ''acme'' ''r1'')) ''acme'' [] = Inr as'
     \<and> (\<forall>a \<in> set as'. asg_RoleID a \<noteq> ''r1'')"
proof -
  obtain s' where s': "RemoveIdentityRole sampleStore ''acme'' ''r1'' = (Inr (), s')" by (simp add: RemoveIdentityRole_def)
  have "TrimSpace ''r1'' \<noteq> []" by code_simp
  from remove_role_cascades [OF sampleStore_wf _ this s'] s' show ?thesis by auto
qed

text \<open>
  C9 (idempotent entitlement batches).  Repeating a batch that succeeded, with the same
  idempotency key and fingerprint, returns the first receipt marked as replayed and
  changes nothing; the same key with another fingerprint is refused as a conflict and
  changes nothing.
\<close>

theorem batch_replay:
  assumes "ApplyIdentityEntitlementBatch e s m = (Inr receipt, s')" "rcpt_Replayed receipt = False"
    "mut_WorkspaceID m' = mut_WorkspaceID m" "mut_IdempotencyKey m' = mut_IdempotencyKey m" "\<not> batchMalformed m'"
  shows "ApplyIdentityEntitlementBatch e' s' m' =
     (if mut_RequestFingerprint m' = mut_RequestFingerprint m then (Inr (receipt\<lparr>rcpt_Replayed := True\<rparr>), s')
      else (Inl keyReused, s'))
    \<and> receipt = batchReceipt e m"
  using assms by (auto simp: ApplyIdentityEntitlementBatch_def Let_def batchReceipt_def split: sum.splits option.splits if_splits)

theorem batch_replay_witness:
  "\<exists>receipt s'. ApplyIdentityEntitlementBatch sampleEnv sampleStore sampleBatch = (Inr receipt, s')
     \<and> ApplyIdentityEntitlementBatch sampleEnv s' sampleBatch = (Inr (receipt\<lparr>rcpt_Replayed := True\<rparr>), s')
     \<and> ApplyIdentityEntitlementBatch sampleEnv s' (sampleBatch\<lparr>mut_RequestFingerprint := ''f2''\<rparr>) = (Inl keyReused, s')"
proof -
  have t: "TrimSpace ''admin'' = ''admin''" "TrimSpace ''k1'' = ''k1''" "TrimSpace ''f1'' = ''f1''" "TrimSpace ''f2'' = ''f2''"
    by code_simp+
  obtain receipt s' where a: "ApplyIdentityEntitlementBatch sampleEnv sampleStore sampleBatch = (Inr receipt, s')"
      "rcpt_Replayed receipt = False"
    by (simp add: ApplyIdentityEntitlementBatch_def sample_defs batchMalformed_def batchReceipt_def t Let_def)
  have "\<not> batchMalformed sampleBatch" "\<not> batchMalformed (sampleBatch\<lparr>mut_RequestFingerprint := ''f2''\<rparr>)"
    by (simp_all add: batchMalformed_def sample_defs t)
  with batch_replay [OF a, of sampleBatch sampleEnv]
    batch_replay [OF a, of "sampleBatch\<lparr>mut_RequestFingerprint := ''f2''\<rparr>" sampleEnv] a
  show ?thesis by (auto simp: sample_defs)
qed

text \<open>
  C10 (one decision per request).  When a decision that moves a request away from its
  expected status has been applied, a second decision that expects the same status fails
  with the concurrency conflict and leaves the store as the first one made it.
\<close>

theorem decision_compare_and_set:
  assumes "ApplyIdentityRoleRequestDecision s w q as st = (Inr (), s')" "req_Status q \<noteq> st"
    "req_ID q' = req_ID q" "\<not> assignmentIDsMissing as'"
  shows "ApplyIdentityRoleRequestDecision s' w q' as' st = (Inl requestConflict, s')"
  using assms by (auto simp: ApplyIdentityRoleRequestDecision_def split: sum.splits option.splits if_splits)

theorem decision_compare_and_set_witness:
  "\<exists>s'. ApplyIdentityRoleRequestDecision sampleStore ''acme'' (sampleRequest ''approved'')
        [sampleAssignment ''u1'' ''r1''] ''pending'' = (Inr (), s')
     \<and> ApplyIdentityRoleRequestDecision s' ''acme'' (sampleRequest ''rejected'') [] ''pending'' = (Inl requestConflict, s')"
proof -
  obtain s' where a: "ApplyIdentityRoleRequestDecision sampleStore ''acme'' (sampleRequest ''approved'')
        [sampleAssignment ''u1'' ''r1''] ''pending'' = (Inr (), s')"
    by (simp add: ApplyIdentityRoleRequestDecision_def assignmentIDsMissing_def sample_defs)
  from decision_compare_and_set [OF a, of "sampleRequest ''rejected''" "[]"] a show ?thesis
    by (auto simp: sampleRequest_def assignmentIDsMissing_def)
qed

end
