(* ===== verification/Configuration.thy ===== *)
theory Configuration
  imports MemoryHistory
begin

section \<open>The identity domain service: errors and configuration rules\<close>

text \<open>
  \<open>service/identity_errors.go\<close> and \<open>service/identity_configuration_domain_service.go\<close>:
  the validation rules for users, organization units and role assignments.  The
  repository behind the service is the in-memory store.  Loops along the manager chain and
  the parent chain carry the set of identifiers seen, as in the source.
\<close>

subsection \<open>Errors\<close>

fun paramPairs :: "string list \<Rightarrow> (string \<times> string) list" where
  "paramPairs (k # v # r) = (if TrimSpace k \<noteq> [] then (TrimSpace k, v) # paramPairs r else paramPairs r)"
| "paramPairs _ = []"

definition identityDomainError :: "env \<Rightarrow> ErrorKind \<Rightarrow> string \<Rightarrow> string list \<Rightarrow> go_error" where
  "identityDomainError e kind code params = AppError kind code (env_SanitizeParams e (putAll [] (paramPairs params)))"

definition badRequest :: "env \<Rightarrow> string \<Rightarrow> string list \<Rightarrow> go_error" where
  "badRequest e code params = identityDomainError e KindBadRequest code params"

definition forbidden :: "env \<Rightarrow> string \<Rightarrow> string list \<Rightarrow> go_error" where
  "forbidden e code params = identityDomainError e KindForbidden code params"

definition conflict :: "env \<Rightarrow> string \<Rightarrow> string list \<Rightarrow> go_error" where
  "conflict e code params = identityDomainError e KindConflict code params"

definition notFound :: "env \<Rightarrow> string \<Rightarrow> string list \<Rightarrow> go_error" where
  "notFound e code params = identityDomainError e KindNotFound code params"

definition internalError :: "string \<Rightarrow> go_error" where
  "internalError message = AppError KindInternal ''backend.internal'' [(''operation'', message)]"

definition valueOrDefault :: "string \<Rightarrow> string \<Rightarrow> string" where
  "valueOrDefault value fallback = (if TrimSpace value \<noteq> [] then TrimSpace value else fallback)"

subsection \<open>Issues\<close>

record IdentityGovernanceValidationIssue =
  issue_Section :: string
  issue_FieldPath :: string
  issue_ErrorCode :: string
  issue_MessageKey :: string
  issue_CapabilityKey :: string
  issue_ContractVersion :: string
  issue_Params :: "(string, string) gomap"

type_synonym issue = IdentityGovernanceValidationIssue

definition identityConfigurationIssue :: "string \<Rightarrow> string \<Rightarrow> string \<Rightarrow> (string, string) gomap \<Rightarrow> issue" where
  "identityConfigurationIssue fieldPath code capability params =
     \<lparr>issue_Section = takeWhile (\<lambda>c. c \<noteq> CHR ''.'') fieldPath, issue_FieldPath = fieldPath, issue_ErrorCode = code,
      issue_MessageKey = code, issue_CapabilityKey = capability,
      issue_ContractVersion = ''runtime-authoring-v2'', issue_Params = params\<rparr>"

definition identityConfigurationParentID :: "string option \<Rightarrow> string" where
  "identityConfigurationParentID value = (case value of None \<Rightarrow> [] | Some v \<Rightarrow> TrimSpace v)"

text \<open>\<open>None\<close> is the nil error of a configuration without issues.\<close>

definition FirstConfigurationError :: "env \<Rightarrow> issue list \<Rightarrow> go_error option" where
  "FirstConfigurationError e issues =
     (case issues of
        [] \<Rightarrow> None
      | i # _ \<Rightarrow> Some (badRequest e (issue_ErrorCode i)
          ([''field_path'', issue_FieldPath i] @
           concat (map (\<lambda>k. [k, mapGet [] (issue_Params i) k]) (sortStrings (map fst (issue_Params i)))))))"

definition issueIf :: "bool \<Rightarrow> issue \<Rightarrow> issue list" where
  "issueIf c i = (if c then [i] else [])"

subsection \<open>Users\<close>

definition userIssue :: "string \<Rightarrow> string \<Rightarrow> (string, string) gomap \<Rightarrow> issue" where
  "userIssue field code params = identityConfigurationIssue field code ''identity.user'' params"

text \<open>The checks that read the user record only, in the order of the source.\<close>

definition userIDIssues :: "IdentityUser \<Rightarrow> issue list" where
  "userIDIssues user =
     (if user_ID user = [] then [userIssue ''user.id'' ''backend.identity.user_required'' [(''actual'', user_ID user)]]
      else issueIf (ContainsString (user_ID user) ''/'')
        (userIssue ''user.id'' ''backend.identity.user_path_unsafe'' [(''actual'', user_ID user)]))"

definition userEmailIssues :: "env \<Rightarrow> IdentityUser \<Rightarrow> issue list" where
  "userEmailIssues e user =
     (if user_Email user = []
      then [userIssue ''user.email'' ''backend.identity.user_email_required'' [(''actual'', user_Email user)]]
      else issueIf (case env_ParseAddress e (user_Email user) of None \<Rightarrow> True | Some a \<Rightarrow> \<not> EqualFold a (user_Email user))
        (userIssue ''user.email'' ''backend.identity.user_email_invalid'' [(''actual'', user_Email user), (''expected'', ''email'')]))"

definition userEnumIssues :: "IdentityUser \<Rightarrow> issue list" where
  "userEnumIssues user =
     issueIf (user_Status user \<notin> {[], ''active'', ''disabled''})
       (userIssue ''user.status'' ''backend.identity.user_status_invalid''
          [(''actual'', user_Status user), (''allowed'', ''active,disabled'')])
   @ issueIf (user_AccountType user \<notin> {[], ''human'', ''service'', ''automation''})
       (userIssue ''user.account_type'' ''backend.identity.user_account_type_invalid''
          [(''actual'', user_AccountType user), (''allowed'', ''human,service,automation'')])
   @ issueIf (user_WorkerType user \<notin> {[], ''employee'', ''contractor'', ''partner_staff'', ''temporary''})
       (userIssue ''user.worker_type'' ''backend.identity.user_worker_type_invalid'' [(''actual'', user_WorkerType user)])
   @ issueIf (user_WorkStatus user \<notin> {[], ''pending'', ''active'', ''suspended'', ''terminated''})
       (userIssue ''user.work_status'' ''backend.identity.user_work_status_invalid'' [(''actual'', user_WorkStatus user)])"

definition userDateIssues :: "env \<Rightarrow> IdentityUser \<Rightarrow> issue list" where
  "userDateIssues e user =
     concat (map (\<lambda>(field, value). issueIf (TrimSpace value \<noteq> [] \<and> \<not> validDateOnly (TrimSpace value))
         (userIssue field ''backend.identity.user_work_date_invalid'' [(''actual'', TrimSpace value)]))
       (rangeMap e [(''user.start_date'', user_StartDate user), (''user.end_date'', user_EndDate user)]))
   @ issueIf (TrimSpace (user_StartDate user) \<noteq> [] \<and> TrimSpace (user_EndDate user) \<noteq> [] \<and> user_EndDate user < user_StartDate user)
       (userIssue ''user.end_date'' ''backend.identity.user_work_period_invalid'' [])"

definition userOrgIssues :: "store \<Rightarrow> string \<Rightarrow> IdentityUser \<Rightarrow> issue list res" where
  "userOrgIssues s workspace user =
     (let org = TrimSpace (user_OrgID user); support = TrimSpace (user_SupportOrgID user) in
      if org = [] \<and> support = [] then Inr []
      else bind (ListIdentityOrganizationUnits s workspace) (\<lambda>units.
        (let unitsByID = putAll [] (map (\<lambda>u. (TrimSpace (unit_ID u), u)) units) in
         Inr (issueIf (org \<noteq> [] \<and> map_of unitsByID org = None)
                (userIssue ''user.org_id'' ''backend.identity.organization_unit_not_found'' [(''actual'', org)])
            @ issueIf (support \<noteq> [] \<and> (case map_of unitsByID support of None \<Rightarrow> True
                   | Some u \<Rightarrow> unit_Status u = IdentityStatusDisabled))
                (userIssue ''user.support_org_id'' ''backend.identity.support_organization_unit_not_found'' [(''actual'', support)])))))"

definition userTimezoneIssues :: "env \<Rightarrow> IdentityUser \<Rightarrow> issue list" where
  "userTimezoneIssues e user = (let timezone = TrimSpace (user_Timezone user) in
     issueIf (timezone \<noteq> [] \<and> \<not> env_LocationKnown e timezone)
       (userIssue ''user.timezone'' ''backend.identity.user_timezone_invalid''
          [(''actual'', timezone), (''expected'', ''IANA timezone'')]))"

text \<open>Users by identifier; a later row with the same identifier replaces an earlier one.\<close>

definition userIndex :: "IdentityUser list \<Rightarrow> (string, IdentityUser) gomap" where
  "userIndex users = putAll [] (map (\<lambda>u. (user_ID u, u)) users)"

text \<open>How many entries of a map have not been visited: the measure of the chain loops.\<close>

definition unvisited :: "string list \<Rightarrow> (string, 'v) gomap \<Rightarrow> nat" where
  "unvisited visited m = length (filter (\<lambda>kv. fst kv \<notin> set visited) m)"

lemma unvisited_Cons:
  assumes "map_of m k = Some v" "k \<notin> set visited"
  shows "unvisited (k # visited) m < unvisited visited m"
proof -
  have "unvisited (k # visited) m = length (filter (\<lambda>kv. fst kv \<noteq> k) (filter (\<lambda>kv. fst kv \<notin> set visited) m))"
    by (simp add: unvisited_def conj_commute)
  moreover have "(k, v) \<in> set (filter (\<lambda>kv. fst kv \<notin> set visited) m)"
    using assms by (auto dest: map_of_SomeD)
  then have "length (filter (\<lambda>kv. fst kv \<noteq> k) (filter (\<lambda>kv. fst kv \<notin> set visited) m)) < unvisited visited m"
    unfolding unvisited_def by (rule length_filter_less) simp
  ultimately show ?thesis by simp
qed

text \<open>The walk up the manager chain: the issue it ends with, or \<open>None\<close>.\<close>

function managerChainIssue ::
  "(string, IdentityUser) gomap \<Rightarrow> string \<Rightarrow> string list \<Rightarrow> string \<Rightarrow> issue option" where
  "managerChainIssue byID managerUserID visited cursor =
     (if cursor = [] then None
      else if cursor \<in> set visited
        then Some (userIssue ''user.manager_user_id'' ''backend.identity.user_reporting_cycle'' [(''actual'', managerUserID)])
      else (case map_of byID cursor of
          None \<Rightarrow> Some (userIssue ''user.manager_user_id'' ''backend.identity.user_manager_invalid'' [(''actual'', cursor)])
        | Some ancestor \<Rightarrow> managerChainIssue byID managerUserID (cursor # visited) (TrimSpace (user_ManagerUserID ancestor))))"
  by pat_completeness auto

termination managerChainIssue
  by (relation "measure (\<lambda>(byID, i, visited, cursor). unvisited visited byID)") (auto simp: unvisited_Cons)

declare managerChainIssue.simps [simp del]

definition userManagerIssues :: "IdentityUser \<Rightarrow> IdentityUser list \<Rightarrow> issue list" where
  "userManagerIssues user users =
     (let managerUserID = TrimSpace (user_ManagerUserID user); byID = userIndex users in
      if managerUserID = [] then []
      else if managerUserID = user_ID user
        then [userIssue ''user.manager_user_id'' ''backend.identity.user_manager_self_reference'' [(''actual'', managerUserID)]]
      else (case map_of byID managerUserID of
          None \<Rightarrow> [userIssue ''user.manager_user_id'' ''backend.identity.user_manager_invalid'' [(''actual'', managerUserID)]]
        | Some manager \<Rightarrow>
            if user_Status manager \<noteq> IdentityStatusActive \<or> user_WorkStatus manager = IdentityWorkTerminated
            then [userIssue ''user.manager_user_id'' ''backend.identity.user_manager_invalid'' [(''actual'', managerUserID)]]
            else (case managerChainIssue byID managerUserID [user_ID user] managerUserID of None \<Rightarrow> [] | Some i \<Rightarrow> [i])))"

definition validateUserUniqueness :: "IdentityUser \<Rightarrow> IdentityUser list \<Rightarrow> issue list" where
  "validateUserUniqueness user users =
     concat (map (\<lambda>existing.
       if user_ID existing = user_ID user then []
       else issueIf (user_Email user \<noteq> [] \<and> EqualFold (TrimSpace (user_Email existing)) (user_Email user))
              (userIssue ''user.email'' ''backend.identity.user_email_exists'' [(''actual'', user_Email user)])
          @ issueIf (TrimSpace (user_WorkerNo user) \<noteq> []
                \<and> EqualFold (TrimSpace (user_WorkerNo existing)) (TrimSpace (user_WorkerNo user)))
              (userIssue ''user.worker_no'' ''backend.identity.user_worker_no_exists'' [(''actual'', user_WorkerNo user)])) users)"

definition ValidateUserConfiguration :: "env \<Rightarrow> store \<Rightarrow> string \<Rightarrow> IdentityUser \<Rightarrow> issue list res" where
  "ValidateUserConfiguration e s workspace user0 =
     (let user = user0\<lparr>user_ID := TrimSpace (user_ID user0), user_Name := TrimSpace (user_Name user0),
                       user_Email := ToLower (TrimSpace (user_Email user0))\<rparr> in
      bind (userOrgIssues s workspace user) (\<lambda>orgIssues.
      bind (ListIdentityUsers s workspace) (\<lambda>users.
        Inr (userIDIssues user
           @ issueIf (user_Name user = []) (userIssue ''user.name'' ''backend.identity.user_name_required'' [(''actual'', user_Name user)])
           @ userEmailIssues e user @ userEnumIssues user @ userDateIssues e user @ orgIssues
           @ userTimezoneIssues e user @ userManagerIssues user users @ validateUserUniqueness user users))))"

subsection \<open>Organization units\<close>

definition unitIssue :: "string \<Rightarrow> string \<Rightarrow> (string, string) gomap \<Rightarrow> issue" where
  "unitIssue field code params = identityConfigurationIssue field code ''identity.organization_unit'' params"

definition unitIndex :: "IdentityOrganizationUnit list \<Rightarrow> (string, IdentityOrganizationUnit) gomap" where
  "unitIndex units = putAll [] (map (\<lambda>u. (unit_ID u, u)) units)"

lemma unitIndex_Some: "map_of (unitIndex units) k = Some u \<Longrightarrow> u \<in> set units \<and> unit_ID u = k"
  unfolding unitIndex_def by (drule map_of_putAll_Some) auto

text \<open>The loop up the parent chain: \<open>parent\<close> is the unit it stands at.\<close>

function parentChainIssue ::
  "IdentityOrganizationUnit list \<Rightarrow> string \<Rightarrow> string list \<Rightarrow> IdentityOrganizationUnit \<Rightarrow> issue option" where
  "parentChainIssue units parentID seen parent =
     (if unit_ID parent \<in> set seen
      then Some (unitIssue ''organization_unit.parent_id'' ''backend.identity.organization_unit_cycle'' [(''actual'', parentID)])
      else (let nextID = identityConfigurationParentID (unit_ParentID parent) in
        if nextID = [] then None
        else (case map_of (unitIndex units) nextID of
            None \<Rightarrow> Some (unitIssue ''organization_unit.parent_id''
                      ''backend.identity.parent_organization_unit_not_found'' [(''actual'', nextID)])
          | Some next \<Rightarrow> parentChainIssue units parentID (unit_ID parent # seen) next)))"
  by pat_completeness auto

text \<open>Units not yet seen, and one more step when the chain starts outside the list.\<close>

definition chainMeasure :: "IdentityOrganizationUnit list \<Rightarrow> string list \<Rightarrow> IdentityOrganizationUnit \<Rightarrow> nat" where
  "chainMeasure units seen parent =
     length (filter (\<lambda>u. unit_ID u \<notin> set seen) units) + (if unit_ID parent \<in> unit_ID ` set units then 0 else 1)"

lemma chainMeasure_step:
  assumes "unit_ID parent \<notin> set seen" "next \<in> set units"
  shows "chainMeasure units (unit_ID parent # seen) next < chainMeasure units seen parent"
proof (cases "unit_ID parent \<in> unit_ID ` set units")
  case True
  then obtain u where u: "u \<in> set (filter (\<lambda>u. unit_ID u \<notin> set seen) units)" "unit_ID u = unit_ID parent"
    using assms(1) by auto
  have "length (filter (\<lambda>u. unit_ID u \<noteq> unit_ID parent) (filter (\<lambda>u. unit_ID u \<notin> set seen) units)) <
      length (filter (\<lambda>u. unit_ID u \<notin> set seen) units)"
    by (rule length_filter_less [OF u(1)]) (simp add: u(2))
  with True assms(2) show ?thesis by (simp add: chainMeasure_def conj_commute)
next
  case False
  then have "filter (\<lambda>u. unit_ID u \<notin> set (unit_ID parent # seen)) units = filter (\<lambda>u. unit_ID u \<notin> set seen) units"
    by (intro filter_cong) (auto simp: image_iff)
  with False assms(2) show ?thesis by (simp add: chainMeasure_def)
qed

termination parentChainIssue
  by (relation "measure (\<lambda>(units, i, seen, parent). chainMeasure units seen parent)")
    (auto intro!: chainMeasure_step dest: unitIndex_Some)

declare parentChainIssue.simps [simp del]

definition validateOrganizationUnitParent ::
  "IdentityOrganizationUnit \<Rightarrow> IdentityOrganizationUnit list \<Rightarrow> issue list" where
  "validateOrganizationUnitParent organizationUnit organizationUnits =
     (let parentID = identityConfigurationParentID (unit_ParentID organizationUnit) in
      if parentID = [] then []
      else if parentID = unit_ID organizationUnit
        then [unitIssue ''organization_unit.parent_id'' ''backend.identity.organization_unit_parent_self'' [(''actual'', parentID)]]
      else (case map_of (unitIndex organizationUnits) parentID of
          None \<Rightarrow> [unitIssue ''organization_unit.parent_id''
                    ''backend.identity.parent_organization_unit_not_found'' [(''actual'', parentID)]]
        | Some parent \<Rightarrow>
           (case parentChainIssue organizationUnits parentID [unit_ID organizationUnit] parent of None \<Rightarrow> [] | Some i \<Rightarrow> [i])))"

definition unitDuplicateIssues :: "IdentityOrganizationUnit \<Rightarrow> IdentityOrganizationUnit list \<Rightarrow> issue list" where
  "unitDuplicateIssues u units = concat (map (\<lambda>existing.
      issueIf (unit_ID existing \<noteq> unit_ID u
            \<and> identityConfigurationParentID (unit_ParentID existing) = identityConfigurationParentID (unit_ParentID u)
            \<and> EqualFold (TrimSpace (unit_Name existing)) (unit_Name u))
        (unitIssue ''organization_unit.name'' ''backend.identity.organization_unit_name_exists'' [(''actual'', unit_Name u)])
    @ issueIf (unit_ID existing \<noteq> unit_ID u \<and> EqualFold (TrimSpace (unit_Code existing)) (unit_Code u))
        (unitIssue ''organization_unit.code'' ''backend.identity.organization_unit_code_exists'' [(''actual'', unit_Code u)])) units)"

definition ValidateOrganizationUnitConfiguration ::
  "store \<Rightarrow> string \<Rightarrow> IdentityOrganizationUnit \<Rightarrow> issue list res" where
  "ValidateOrganizationUnitConfiguration s workspace unit0 =
     (let u = unit0\<lparr>unit_ID := TrimSpace (unit_ID unit0), unit_Code := TrimSpace (unit_Code unit0),
                    unit_Name := TrimSpace (unit_Name unit0)\<rparr> in
      bind (ListIdentityOrganizationUnits s workspace) (\<lambda>units.
        Inr (issueIf (unit_ID u = []) (unitIssue ''organization_unit.id'' ''backend.identity.org_id_required'' [(''actual'', unit_ID u)])
           @ issueIf (unit_Code u = []) (unitIssue ''organization_unit.code'' ''backend.identity.organization_unit_code_required'' [])
           @ issueIf (unit_Name u = [])
               (unitIssue ''organization_unit.name'' ''backend.identity.organization_unit_name_required'' [(''actual'', unit_Name u)])
           @ issueIf (\<not> IdentityOrganizationUnitType_Valid (unit_NodeType u))
               (unitIssue ''organization_unit.node_type'' ''backend.identity.organization_unit_type_invalid'' [(''actual'', unit_NodeType u)])
           @ issueIf (unit_Status u \<notin> {[], ''active'', ''disabled''})
               (unitIssue ''organization_unit.status'' ''backend.identity.organization_unit_status_invalid''
                  [(''actual'', unit_Status u), (''allowed'', ''active,disabled'')])
           @ validateOrganizationUnitParent u units @ unitDuplicateIssues u units)))"

subsection \<open>Role assignments\<close>

definition assignmentIssue :: "string \<Rightarrow> string \<Rightarrow> (string, string) gomap \<Rightarrow> issue" where
  "assignmentIssue field code params = identityConfigurationIssue field code ''identity.user_role_assignment'' params"

definition rfc3339Layout :: string where
  "rfc3339Layout = ''2006-01-02T15:04:05Z07:00''"

definition identityRoleByID :: "store \<Rightarrow> string \<Rightarrow> string \<Rightarrow> IdentityRole option res" where
  "identityRoleByID s workspace roleID =
     bind (ListIdentityRoles s workspace) (\<lambda>roles. Inr (find (\<lambda>r. role_ID r = roleID) roles))"

definition assignmentTimeIssues :: "env \<Rightarrow> IdentityUserRoleAssignment \<Rightarrow> issue list" where
  "assignmentTimeIssues e a =
     (case asg_ExpiresAt a of None \<Rightarrow> []
      | Some x \<Rightarrow> issueIf (TrimSpace x \<noteq> [] \<and> parseRFC3339 (TrimSpace x) = None)
          (assignmentIssue ''role_assignment.expires_at'' ''backend.identity.assignment_expires_at_invalid''
             [(''actual'', x), (''expected'', rfc3339Layout)]))
   @ concat (map (\<lambda>(field, value). issueIf (TrimSpace value \<noteq> [] \<and> parseRFC3339 (TrimSpace value) = None)
         (assignmentIssue field ''backend.identity.assignment_time_invalid''
             [(''actual'', TrimSpace value), (''expected'', rfc3339Layout)]))
       (rangeMap e [(''role_assignment.valid_from'', asg_ValidFrom a), (''role_assignment.valid_until'', asg_ValidUntil a),
                    (''role_assignment.revoked_at'', asg_RevokedAt a)]))"

definition assignmentEnumIssues :: "IdentityUserRoleAssignment \<Rightarrow> issue list" where
  "assignmentEnumIssues a =
     issueIf (TrimSpace (asg_Source a) \<notin>
         {[], ''manual'', ''profile_binding'', ''idp_sync'', ''governance_request'', ''import'', ''bootstrap''})
       (assignmentIssue ''role_assignment.source'' ''backend.identity.assignment_source_invalid'' [(''actual'', TrimSpace (asg_Source a))])
   @ issueIf (TrimSpace (asg_Status a) \<notin> {[], ''pending'', ''active'', ''suspended'', ''revoked'', ''expired''})
       (assignmentIssue ''role_assignment.status'' ''backend.identity.assignment_status_invalid'' [(''actual'', TrimSpace (asg_Status a))])"

definition ValidateRoleAssignmentConfiguration ::
  "env \<Rightarrow> store \<Rightarrow> string \<Rightarrow> IdentityUserRoleAssignment \<Rightarrow> issue list res" where
  "ValidateRoleAssignmentConfiguration e s workspace a =
     bind (GetIdentityUser s workspace (TrimSpace (asg_UserID a))) (\<lambda>user.
     bind (identityRoleByID s workspace (TrimSpace (asg_RoleID a))) (\<lambda>role.
       Inr (issueIf (user = None) (assignmentIssue ''role_assignment.user_id'' ''backend.identity.user_not_found'' [(''actual'', asg_UserID a)])
          @ issueIf (role = None) (assignmentIssue ''role_assignment.role_id'' ''backend.identity.role_not_found'' [(''actual'', asg_RoleID a)])
          @ assignmentTimeIssues e a @ assignmentEnumIssues a)))"

end
