(* ===== verification/OrganizationUnits.thy ===== *)
theory OrganizationUnits
  imports Configuration
begin

section \<open>The identity domain service: organization units\<close>

text \<open>
  The organization part of \<open>service/identity_organization_units_users.go\<close>: validation
  of the parent chain, derivation of path, ancestors and depth for the whole subtree of
  the changed unit, and the atomic write.  One loop of the source has no cycle guard of
  its own; it is a partial function, and that it returns is a theorem.
\<close>

subsection \<open>Derivation of the hierarchy facts\<close>

definition identityParentID :: "string option \<Rightarrow> string" where
  "identityParentID value = (case value of None \<Rightarrow> [] | Some v \<Rightarrow> TrimSpace v)"

definition rootFacts :: "IdentityOrganizationUnit \<Rightarrow> IdentityOrganizationUnit" where
  "rootFacts item = item\<lparr>unit_Path := ''/'' @ unit_ID item, unit_AncestorIDs := [], unit_Depth := 0\<rparr>"

definition childFacts :: "IdentityOrganizationUnit \<Rightarrow> IdentityOrganizationUnit \<Rightarrow> IdentityOrganizationUnit" where
  "childFacts parent item =
     item\<lparr>unit_AncestorIDs := unit_AncestorIDs parent @ [unit_ID parent],
          unit_Depth := int (length (unit_AncestorIDs parent @ [unit_ID parent])),
          unit_Path := TrimRightSlash (unit_Path parent) @ ''/'' @ unit_ID item\<rparr>"

text \<open>The closure \<open>derive\<close>, with the memo table \<open>derived\<close> passed through.\<close>

function derive ::
  "env \<Rightarrow> (string, IdentityOrganizationUnit) gomap \<Rightarrow> string list \<Rightarrow> (string, IdentityOrganizationUnit) gomap \<Rightarrow> string
   \<Rightarrow> (IdentityOrganizationUnit \<times> (string, IdentityOrganizationUnit) gomap) res" where
  "derive e byID visiting derived i =
     (case map_of derived i of
        Some item \<Rightarrow> Inr (item, derived)
      | None \<Rightarrow>
         (case map_of byID i of
            None \<Rightarrow> Inl (badRequest e ''backend.identity.parent_organization_unit_not_found'' [''organization_unit'', i])
          | Some item \<Rightarrow>
             if i \<in> set visiting then Inl (badRequest e ''backend.identity.organization_unit_cycle'' [])
             else (let parentID = identityParentID (unit_ParentID item) in
               if parentID = [] then Inr (rootFacts item, AList.update i (rootFacts item) derived)
               else bind (derive e byID (i # visiting) derived parentID) (\<lambda>(parent, derived').
                      Inr (childFacts parent item, AList.update i (childFacts parent item) derived')))))"
  by pat_completeness auto

termination derive
  by (relation "measure (\<lambda>(e, byID, visiting, derived, i). unvisited visiting byID)") (auto simp: unvisited_Cons)

declare derive.simps [simp del]

definition childIDs :: "(string, IdentityOrganizationUnit) gomap \<Rightarrow> string \<Rightarrow> string list" where
  "childIDs byID p = (if p = [] then []
     else sortStrings (map fst (filter (\<lambda>(k, item). identityParentID (unit_ParentID item) = p) byID)))"

lemma derive_keys:
  assumes "derive e byID visiting derived i = Inr (item, derived')"
  shows "fst ` set derived' \<subseteq> fst ` set byID \<union> fst ` set derived \<and> i \<in> fst ` set byID \<union> fst ` set derived"
  using assms
proof (induction e byID visiting derived i arbitrary: item derived' rule: derive.induct)
  case (1 e byID visiting derived i)
  have key: "map_of m k = Some v \<Longrightarrow> k \<in> fst ` set m" for m :: "(string, IdentityOrganizationUnit) gomap" and k v
    by (force dest: map_of_SomeD)
  show ?case
  proof (cases "map_of derived i")
    case None
    from "1.prems" None obtain it where it: "map_of byID i = Some it" "i \<notin> set visiting"
      by (subst (asm) derive.simps) (auto split: option.splits if_splits)
    show ?thesis
    proof (cases "identityParentID (unit_ParentID it) = []")
      case True
      with "1.prems" None it have "derived' = AList.update i (rootFacts it) derived"
        by (subst (asm) derive.simps) (auto simp: Let_def)
      with key [OF it(1)] show ?thesis by (auto simp: dom_update)
    next
      case False
      with "1.prems" None it obtain parent d where d:
        "derive e byID (i # visiting) derived (identityParentID (unit_ParentID it)) = Inr (parent, d)"
        "derived' = AList.update i (childFacts parent it) d"
        by (subst (asm) derive.simps) (auto simp: Let_def)
      from "1.IH" [OF None it(1) it(2) refl False d(1)] key [OF it(1)] d(2) show ?thesis
        by (auto simp: dom_update)
    qed
  next
    case (Some x)
    with "1.prems" key [OF Some] show ?thesis by (subst (asm) derive.simps) auto
  qed
qed

text \<open>The breadth-first loop over the subtree of the changed unit.\<close>

function subtreeLoop ::
  "env \<Rightarrow> (string, IdentityOrganizationUnit) gomap \<Rightarrow> (string, IdentityOrganizationUnit) gomap \<Rightarrow> string list \<Rightarrow> string list
   \<Rightarrow> IdentityOrganizationUnit list res" where
  "subtreeLoop e byID derived seen [] = Inr []"
| "subtreeLoop e byID derived seen (i # queue) =
     (if i \<in> set seen then subtreeLoop e byID derived seen queue
      else (case derive e byID [] derived i of
          Inl err \<Rightarrow> Inl err
        | Inr (item, derived') \<Rightarrow>
            bind (subtreeLoop e byID derived' (i # seen) (queue @ childIDs byID i)) (\<lambda>rest. Inr (item # rest))))"
  by pat_completeness auto

lemma subtree_measure:
  assumes "derive e byID [] derived i = Inr (item, derived')" "i \<notin> set seen"
  shows "card (fst ` set byID \<union> fst ` set derived' - set (i # seen)) < card (fst ` set byID \<union> fst ` set derived - set seen)"
proof (rule psubset_card_mono)
  show "fst ` set byID \<union> fst ` set derived' - set (i # seen) \<subset> fst ` set byID \<union> fst ` set derived - set seen"
    using derive_keys [OF assms(1)] assms(2) by auto
qed simp

termination subtreeLoop
  by (relation "measures [\<lambda>(e, byID, derived, seen, queue). card (fst ` set byID \<union> fst ` set derived - set seen),
      \<lambda>(e, byID, derived, seen, queue). length queue]")
    (auto dest: subtree_measure)

declare subtreeLoop.simps [simp del]

definition updateLess :: "IdentityOrganizationUnit \<Rightarrow> IdentityOrganizationUnit \<Rightarrow> bool" where
  "updateLess a b \<longleftrightarrow> (if unit_Depth a = unit_Depth b then unit_ID a < unit_ID b else unit_Depth a < unit_Depth b)"

definition identityOrganizationUnitSubtreeUpdates ::
  "env \<Rightarrow> IdentityOrganizationUnit \<Rightarrow> IdentityOrganizationUnit list \<Rightarrow> IdentityOrganizationUnit list res" where
  "identityOrganizationUnitSubtreeUpdates e root0 existing =
     (let root = root0\<lparr>unit_Path := [], unit_AncestorIDs := [], unit_Depth := 0\<rparr>;
          byID = AList.update (unit_ID root) root (unitIndex existing) in
      bind (subtreeLoop e byID [] [] [unit_ID root]) (\<lambda>updates. Inr (sortSlice updateLess updates)))"

subsection \<open>Preparing and writing a unit\<close>

text \<open>
  The loop of \<open>prepareOrganizationUnitUpsert\<close> up the parent chain, without a guard
  against a cycle that does not pass through the unit itself: \<open>Some True\<close> when it meets
  the unit, \<open>Some False\<close> when it reaches the top or a missing parent.
\<close>

partial_function (option) parentLoop ::
  "(string, IdentityOrganizationUnit) gomap \<Rightarrow> string \<Rightarrow> IdentityOrganizationUnit \<Rightarrow> bool option" where
  "parentLoop byID i parent =
     (if unit_ID parent = i then Some True
      else (case unit_ParentID parent of
          None \<Rightarrow> Some False
        | Some p \<Rightarrow>
            if TrimSpace p = [] then Some False
            else (case map_of byID (TrimSpace p) of
                None \<Rightarrow> Some False
              | Some nextParent \<Rightarrow> parentLoop byID i nextParent)))"

declare parentLoop.simps [code]

text \<open>The parent of the unit with blank parents made absent; \<open>None\<close> when the loop does not return.\<close>

definition prepareParent ::
  "env \<Rightarrow> (string, IdentityOrganizationUnit) gomap \<Rightarrow> IdentityOrganizationUnit \<Rightarrow> IdentityOrganizationUnit res option" where
  "prepareParent e byID u =
     (case unit_ParentID u of
        None \<Rightarrow> Some (Inr u)
      | Some p \<Rightarrow>
         (let parentID = TrimSpace p in
          if parentID = [] then Some (Inr (u\<lparr>unit_ParentID := None\<rparr>))
          else (case map_of byID parentID of
              None \<Rightarrow> Some (Inl (badRequest e ''backend.identity.parent_organization_unit_not_found'' [''organization_unit'', parentID]))
            | Some parent \<Rightarrow>
               (case parentLoop byID (unit_ID u) parent of
                  None \<Rightarrow> None
                | Some True \<Rightarrow> Some (Inl (badRequest e ''backend.identity.organization_unit_cycle'' []))
                | Some False \<Rightarrow> Some (Inr (u\<lparr>unit_ParentID := Some parentID\<rparr>))))))"

definition siblingNameTaken :: "IdentityOrganizationUnit \<Rightarrow> IdentityOrganizationUnit list \<Rightarrow> bool" where
  "siblingNameTaken u units = list_ex (\<lambda>x. unit_ID x \<noteq> unit_ID u
      \<and> identityParentID (unit_ParentID x) = identityParentID (unit_ParentID u)
      \<and> EqualFold (TrimSpace (unit_Name x)) (unit_Name u)) units"

definition prepareOrganizationUnitUpsert ::
  "env \<Rightarrow> store \<Rightarrow> string \<Rightarrow> IdentityOrganizationUnit \<Rightarrow> IdentityOrganizationUnit list res option" where
  "prepareOrganizationUnitUpsert e s workspace unit0 =
     (let u = unit0\<lparr>unit_ID := TrimSpace (unit_ID unit0), unit_Code := TrimSpace (unit_Code unit0),
                    unit_Name := TrimSpace (unit_Name unit0)\<rparr> in
      case ValidateOrganizationUnitConfiguration s workspace u of
        Inl err \<Rightarrow> Some (Inl err)
      | Inr issues \<Rightarrow>
         (case FirstConfigurationError e issues of
            Some err \<Rightarrow> Some (Inl err)
          | None \<Rightarrow>
             (let u1 = (if unit_Status u = [] then u\<lparr>unit_Status := IdentityStatusActive\<rparr> else u) in
              case ListIdentityOrganizationUnits s workspace of
                Inl err \<Rightarrow> Some (Inl err)
              | Inr units \<Rightarrow>
                 (case prepareParent e (unitIndex units) u1 of
                    None \<Rightarrow> None
                  | Some (Inl err) \<Rightarrow> Some (Inl err)
                  | Some (Inr u2) \<Rightarrow>
                      if siblingNameTaken u2 units
                      then Some (Inl (badRequest e ''backend.identity.organization_unit_name_exists'' [''organization_unit'', unit_Name u2]))
                      else Some (identityOrganizationUnitSubtreeUpdates e u2 units)))))"

definition UpsertOrganizationUnit ::
  "env \<Rightarrow> store \<Rightarrow> string \<Rightarrow> IdentityOrganizationUnit \<Rightarrow> (unit res \<times> store) option" where
  "UpsertOrganizationUnit e s workspace u =
     (case prepareOrganizationUnitUpsert e s workspace u of
        None \<Rightarrow> None
      | Some (Inl err) \<Rightarrow> Some (Inl err, s)
      | Some (Inr updates) \<Rightarrow> Some (UpsertIdentityOrganizationUnitsAtomically s workspace updates))"

definition PrepareOrganizationUnitForAtomicDelivery ::
  "env \<Rightarrow> store \<Rightarrow> string \<Rightarrow> IdentityOrganizationUnit \<Rightarrow> (IdentityOrganizationUnit \<times> IdentityOrganizationUnit list) res option" where
  "PrepareOrganizationUnitForAtomicDelivery e s workspace u =
     (case prepareOrganizationUnitUpsert e s workspace u of
        None \<Rightarrow> None
      | Some (Inl err) \<Rightarrow> Some (Inl err)
      | Some (Inr updates) \<Rightarrow>
         (case find (\<lambda>x. unit_ID x = TrimSpace (unit_ID u)) updates of
            None \<Rightarrow> Some (Inl (internalError ''prepared organization unit missing''))
          | Some root \<Rightarrow> Some (Inr (root, filter (\<lambda>x. unit_ID x \<noteq> unit_ID root) updates))))"

definition UpsertOrganizationUnitWithinDataScope ::
  "env \<Rightarrow> store \<Rightarrow> string \<Rightarrow> IdentityOrganizationUnit \<Rightarrow> Principal \<Rightarrow> string \<Rightarrow> (unit res \<times> store) option" where
  "UpsertOrganizationUnitWithinDataScope e s workspace u actor permissionKey =
     (case prepareOrganizationUnitUpsert e s workspace u of
        None \<Rightarrow> None
      | Some (Inl err) \<Rightarrow> Some (Inl err, s)
      | Some (Inr updates) \<Rightarrow>
         (case UpsertIdentityOrganizationUnitsWithinDataScopeAtomically s workspace updates
                 (IdentityPermissionDataScopeFilter e actor permissionKey) of
            (Inl err, s') \<Rightarrow> Some (Inl err, s')
          | (Inr allowed, s') \<Rightarrow>
              if \<not> allowed then Some (Inl (forbidden e ''auth.permission_denied'' []), s') else Some (Inr (), s')))"

definition ListOrganizationUnits :: "store \<Rightarrow> string \<Rightarrow> IdentityOrganizationUnit list res" where
  "ListOrganizationUnits s workspace = ListIdentityOrganizationUnits s workspace"

definition ListOrganizationUnitsWithinDataScope ::
  "env \<Rightarrow> store \<Rightarrow> string \<Rightarrow> Principal \<Rightarrow> string \<Rightarrow> IdentityOrganizationUnit list res" where
  "ListOrganizationUnitsWithinDataScope e s workspace actor permissionKey =
     ListIdentityOrganizationUnitsWithinDataScope s workspace (IdentityPermissionDataScopeFilter e actor permissionKey)"

definition OrganizationUnitByIDWithinDataScope ::
  "env \<Rightarrow> store \<Rightarrow> string \<Rightarrow> string \<Rightarrow> Principal \<Rightarrow> string \<Rightarrow> IdentityOrganizationUnit option res" where
  "OrganizationUnitByIDWithinDataScope e s workspace organizationUnitID actor permissionKey =
     GetIdentityOrganizationUnitWithinDataScope s workspace (TrimSpace organizationUnitID)
       (IdentityPermissionDataScopeFilter e actor permissionKey)"

end
