(* ===== verification/Hierarchy.thy ===== *)
theory Hierarchy
  imports OrganizationUnits
begin

section \<open>The organization hierarchy\<close>

text \<open>
  Specification of the derived hierarchy facts: the ancestors of a unit are the
  identifiers on its parent chain from the top, its depth is their number, its path is
  built from them.  The breadth-first update re-derives exactly the subtree of the changed
  unit, and writing it keeps every unit's facts right.
\<close>

definition parentOf :: "(string, IdentityOrganizationUnit) gomap \<Rightarrow> string \<Rightarrow> string option" where
  "parentOf byID i = map_option (\<lambda>u. identityParentID (unit_ParentID u)) (map_of byID i)"

inductive ancestorChain :: "(string \<Rightarrow> string option) \<Rightarrow> string \<Rightarrow> string list \<Rightarrow> bool" for par where
  Top: "par i = Some [] \<Longrightarrow> ancestorChain par i []"
| Below: "par i = Some p \<Longrightarrow> p \<noteq> [] \<Longrightarrow> ancestorChain par p anc \<Longrightarrow> ancestorChain par i (anc @ [p])"

definition unitPath :: "string list \<Rightarrow> string" where
  "unitPath ids = foldl (\<lambda>path i. TrimRightSlash path @ ''/'' @ i) [] ids"

definition factsOk :: "(string \<Rightarrow> string option) \<Rightarrow> IdentityOrganizationUnit \<Rightarrow> bool" where
  "factsOk par u \<longleftrightarrow> ancestorChain par (unit_ID u) (unit_AncestorIDs u)
     \<and> unit_Depth u = int (length (unit_AncestorIDs u)) \<and> unit_Path u = unitPath (unit_AncestorIDs u @ [unit_ID u])"

definition hierarchyOk :: "IdentityOrganizationUnit list \<Rightarrow> bool" where
  "hierarchyOk units \<longleftrightarrow> (\<forall>u \<in> set units. factsOk (parentOf (unitIndex units)) u)"

subsection \<open>The parent loop returns\<close>

lemma parentLoop_returns:
  "parentChainIssue units parentID seen parent = None \<Longrightarrow> i \<in> set seen \<Longrightarrow>
   parentLoop (unitIndex units) i parent = Some False"
proof (induction units parentID seen parent rule: parentChainIssue.induct)
  case (1 units parentID seen parent)
  from "1.prems"(1) have unseen: "unit_ID parent \<notin> set seen"
    by (subst (asm) parentChainIssue.simps) (auto split: if_splits)
  then have ne: "unit_ID parent \<noteq> i" using "1.prems"(2) by auto
  show ?case
  proof (cases "identityConfigurationParentID (unit_ParentID parent) = []")
    case True
    with ne show ?thesis
      by (subst parentLoop.simps) (auto simp: identityConfigurationParentID_def split: option.splits)
  next
    case False
    then obtain p where p: "unit_ParentID parent = Some p" "TrimSpace p \<noteq> []"
      "identityConfigurationParentID (unit_ParentID parent) = TrimSpace p"
      by (auto simp: identityConfigurationParentID_def split: option.splits)
    with "1.prems"(1) unseen obtain nxt where nxt: "map_of (unitIndex units) (TrimSpace p) = Some nxt"
        "parentChainIssue units parentID (unit_ID parent # seen) nxt = None"
      by (subst (asm) parentChainIssue.simps) (auto simp: Let_def split: option.splits)
    have "parentLoop (unitIndex units) i nxt = Some False"
      using "1.IH" [OF unseen p(3) [symmetric] p(2) nxt(1) nxt(2)] "1.prems"(2) by simp
    with ne p nxt show ?thesis by (subst parentLoop.simps) simp
  qed
qed

lemma FirstConfigurationError_None [simp]: "FirstConfigurationError e issues = None \<longleftrightarrow> issues = []"
  by (auto simp: FirstConfigurationError_def split: list.splits)

lemma FirstConfigurationError_Nil [simp]: "FirstConfigurationError e [] = None"
  by simp

lemma identityConfigurationParentID_eq: "identityConfigurationParentID = identityParentID"
  by (rule ext) (simp add: identityConfigurationParentID_def identityParentID_def)

lemma validateOrganizationUnitParent_cong:
  "unit_ID u = unit_ID v \<Longrightarrow> unit_ParentID u = unit_ParentID v \<Longrightarrow>
   validateOrganizationUnitParent u units = validateOrganizationUnitParent v units"
  by (simp only: validateOrganizationUnitParent_def)

lemma prepareParent_valid:
  assumes "validateOrganizationUnitParent u units = []"
  shows "prepareParent e (unitIndex units) u =
    Some (Inr (u\<lparr>unit_ParentID := (if identityParentID (unit_ParentID u) = [] then None
                 else Some (identityParentID (unit_ParentID u)))\<rparr>))"
proof (cases "unit_ParentID u")
  case None
  have "u\<lparr>unit_ParentID := None\<rparr> = u" using None by simp
  with None show ?thesis by (simp add: prepareParent_def identityParentID_def)
next
  case (Some p)
  show ?thesis
  proof (cases "TrimSpace p = []")
    case False
    with assms Some obtain parent where "map_of (unitIndex units) (TrimSpace p) = Some parent"
      "parentChainIssue units (TrimSpace p) [unit_ID u] parent = None"
      by (auto simp: validateOrganizationUnitParent_def identityConfigurationParentID_def Let_def
          split: if_splits option.splits)
    with parentLoop_returns [OF this(2), of "unit_ID u"] Some False show ?thesis
      by (simp add: prepareParent_def identityParentID_def)
  qed (simp add: Some prepareParent_def identityParentID_def)
qed

text \<open>What the preparation amounts to once the configuration has no issue.\<close>

lemma prepareOrganizationUnitUpsert_Inr:
  assumes "prepareOrganizationUnitUpsert e s w u0 = Some (Inr updates)"
  obtains u units where "ListIdentityOrganizationUnits s w = Inr units"
    "unit_ID u = TrimSpace (unit_ID u0)" "identityOrganizationUnitSubtreeUpdates e u units = Inr updates"
  using assms
  by (auto simp: prepareOrganizationUnitUpsert_def Let_def prepareParent_def
      split: sum.splits option.splits if_splits bool.splits) (force)+

lemma prepareOrganizationUnitUpsert_returns: "\<exists>r. prepareOrganizationUnitUpsert e s w u = Some r"
proof -
  let ?u = "u\<lparr>unit_ID := TrimSpace (unit_ID u), unit_Code := TrimSpace (unit_Code u), unit_Name := TrimSpace (unit_Name u)\<rparr>"
  show ?thesis
  proof (cases "ValidateOrganizationUnitConfiguration s w ?u")
    case (Inr issues)
    show ?thesis
    proof (cases "issues = []")
      case True
      with Inr obtain units where units: "ListIdentityOrganizationUnits s w = Inr units"
        "validateOrganizationUnitParent ?u units = []"
        by (auto simp: ValidateOrganizationUnitConfiguration_def Let_def)
      have "validateOrganizationUnitParent (if unit_Status ?u = [] then ?u\<lparr>unit_Status := IdentityStatusActive\<rparr> else ?u) units = []"
        using units(2) validateOrganizationUnitParent_cong [of "?u\<lparr>unit_Status := IdentityStatusActive\<rparr>" ?u units]
        by (cases "unit_Status ?u = []") simp_all
      from prepareParent_valid [OF this] obtain v where "prepareParent e (unitIndex units)
          (if unit_Status ?u = [] then ?u\<lparr>unit_Status := IdentityStatusActive\<rparr> else ?u) = Some (Inr v)"
        by blast
      with Inr True units(1) show ?thesis unfolding prepareOrganizationUnitUpsert_def Let_def
        by (simp only: sum.case option.case FirstConfigurationError_Nil) auto
    next
      case False
      then show ?thesis using Inr
        by (cases "FirstConfigurationError e issues") (auto simp: prepareOrganizationUnitUpsert_def Let_def)
    qed
  qed (simp add: prepareOrganizationUnitUpsert_def Let_def)
qed

subsection \<open>Derivation\<close>

definition sameUnit :: "IdentityOrganizationUnit \<Rightarrow> IdentityOrganizationUnit \<Rightarrow> bool" where
  "sameUnit v u \<longleftrightarrow> v\<lparr>unit_Path := [], unit_AncestorIDs := [], unit_Depth := 0\<rparr> =
     u\<lparr>unit_Path := [], unit_AncestorIDs := [], unit_Depth := 0\<rparr>"

definition indexKeyed :: "(string, IdentityOrganizationUnit) gomap \<Rightarrow> bool" where
  "indexKeyed byID \<longleftrightarrow> (\<forall>k u. map_of byID k = Some u \<longrightarrow> unit_ID u = k)"

text \<open>A derived row: the unit of the index with the right facts.\<close>

definition rowOk :: "(string, IdentityOrganizationUnit) gomap \<Rightarrow> string \<Rightarrow> IdentityOrganizationUnit \<Rightarrow> bool" where
  "rowOk byID i v \<longleftrightarrow> (\<exists>u. map_of byID i = Some u \<and> sameUnit v u) \<and> unit_ID v = i \<and> factsOk (parentOf byID) v"

lemma rowOk_root:
  assumes "indexKeyed byID" "map_of byID i = Some u" "identityParentID (unit_ParentID u) = []"
  shows "rowOk byID i (rootFacts u)"
proof -
  have "unit_ID u = i" using assms by (simp add: indexKeyed_def)
  moreover have "ancestorChain (parentOf byID) i []"
    by (rule ancestorChain.Top) (simp add: parentOf_def assms)
  ultimately show ?thesis
    using assms(2) by (auto simp: rowOk_def rootFacts_def sameUnit_def factsOk_def unitPath_def TrimRightSlash_def)
qed

lemma rowOk_child:
  assumes "indexKeyed byID" "map_of byID i = Some u" "identityParentID (unit_ParentID u) = p" "p \<noteq> []" "rowOk byID p parent"
  shows "rowOk byID i (childFacts parent u)"
proof -
  have ids: "unit_ID u = i" "unit_ID parent = p" using assms by (auto simp: indexKeyed_def rowOk_def)
  have "ancestorChain (parentOf byID) i (unit_AncestorIDs parent @ [p])"
    by (rule ancestorChain.Below) (use assms ids in \<open>auto simp: parentOf_def rowOk_def factsOk_def\<close>)
  moreover have "unit_Path parent = unitPath (unit_AncestorIDs parent @ [p])"
    using assms(5) ids by (simp add: rowOk_def factsOk_def)
  ultimately show ?thesis using assms(2) ids
    by (auto simp: rowOk_def childFacts_def sameUnit_def factsOk_def unitPath_def)
qed

definition memoOk :: "(string, IdentityOrganizationUnit) gomap \<Rightarrow> (string, IdentityOrganizationUnit) gomap \<Rightarrow> bool" where
  "memoOk byID derived \<longleftrightarrow> (\<forall>k v. map_of derived k = Some v \<longrightarrow> rowOk byID k v)"

lemma derive_ok:
  assumes "derive e byID visiting derived i = Inr (item, derived')" "indexKeyed byID" "memoOk byID derived"
  shows "rowOk byID i item \<and> memoOk byID derived'"
  using assms
proof (induction e byID visiting derived i arbitrary: item derived' rule: derive.induct)
  case (1 e byID visiting derived i)
  show ?case
  proof (cases "map_of derived i")
    case None
    from "1.prems"(1) None obtain u where u: "map_of byID i = Some u" "i \<notin> set visiting"
      by (subst (asm) derive.simps) (auto split: option.splits if_splits)
    show ?thesis
    proof (cases "identityParentID (unit_ParentID u) = []")
      case True
      with "1.prems"(1) None u have "item = rootFacts u" "derived' = AList.update i (rootFacts u) derived"
        by (subst (asm) derive.simps; simp add: Let_def)+
      with rowOk_root [OF "1.prems"(2) u(1) True] "1.prems"(3) show ?thesis by (auto simp: memoOk_def)
    next
      case False
      with "1.prems"(1) None u obtain parent d where d:
        "derive e byID (i # visiting) derived (identityParentID (unit_ParentID u)) = Inr (parent, d)"
        "derived' = AList.update i (childFacts parent u) d" "item = childFacts parent u"
        by (subst (asm) derive.simps) (auto simp: Let_def)
      from "1.IH" [OF None u refl False d(1) "1.prems"(2,3)]
      have "rowOk byID (identityParentID (unit_ParentID u)) parent" "memoOk byID d" by auto
      with rowOk_child [OF "1.prems"(2) u(1) refl False] d show ?thesis by (auto simp: memoOk_def)
    qed
  next
    case (Some x)
    with "1.prems" show ?thesis by (subst (asm) derive.simps) (auto simp: memoOk_def)
  qed
qed

lemma childIDs_iff:
  assumes "mapWf byID" "p \<noteq> []"
  shows "c \<in> set (childIDs byID p) \<longleftrightarrow> parentOf byID c = Some p"
proof -
  have "c \<in> set (childIDs byID p) \<longleftrightarrow> (\<exists>u. (c, u) \<in> set byID \<and> identityParentID (unit_ParentID u) = p)"
    using assms(2) by (force simp: childIDs_def)
  then show ?thesis by (auto simp: mapWf_entry [OF assms(1)] parentOf_def)
qed

lemma subtreeLoop_ok:
  assumes "subtreeLoop e byID derived seen queue = Inr out" "indexKeyed byID" "memoOk byID derived"
  shows "(\<forall>x \<in> set out. rowOk byID (unit_ID x) x)
    \<and> set queue \<subseteq> unit_ID ` set out \<union> set seen
    \<and> (\<forall>x \<in> set out. set (childIDs byID (unit_ID x)) \<subseteq> unit_ID ` set out \<union> set seen)
    \<and> distinct (map unit_ID out) \<and> unit_ID ` set out \<inter> set seen = {}"
  using assms
proof (induction e byID derived seen queue arbitrary: out rule: subtreeLoop.induct)
  case (1 e byID derived seen)
  then show ?case by (simp add: subtreeLoop.simps)
next
  case (2 e byID derived seen i queue)
  show ?case
  proof (cases "i \<in> set seen")
    case True
    with "2.prems"(1) have "subtreeLoop e byID derived seen queue = Inr out" by (simp add: subtreeLoop.simps)
    from "2.IH"(1) [OF True this "2.prems"(2,3)] True show ?thesis by auto
  next
    case False
    with "2.prems"(1) obtain item derived' rest where
      d: "derive e byID [] derived i = Inr (item, derived')"
      and r: "subtreeLoop e byID derived' (i # seen) (queue @ childIDs byID i) = Inr rest" "out = item # rest"
      by (subst (asm) subtreeLoop.simps) (auto split: sum.splits prod.splits)
    from derive_ok [OF d "2.prems"(2,3)] have ok: "rowOk byID i item" "memoOk byID derived'" by auto
    then have "unit_ID item = i" by (simp add: rowOk_def)
    with "2.IH"(2) [OF False d refl r(1) "2.prems"(2) ok(2)] ok(1) r(2) False show ?thesis by auto
  qed
qed

subsection \<open>The index of a listing\<close>

lemma map_of_index:
  assumes "distinct (map unit_ID units)"
  shows "map_of (unitIndex units) i = Some u \<longleftrightarrow> u \<in> set units \<and> unit_ID u = i"
proof -
  have d: "distinct (map fst (map (\<lambda>u. (unit_ID u, u)) units))" using assms by (simp add: comp_def)
  have "map_of (unitIndex units) i = map_of (map (\<lambda>u. (unit_ID u, u)) units) i"
    using map_of_putAll_distinct [OF d] by (simp add: unitIndex_def split: option.split)
  then show ?thesis using d by (auto simp: map_of_eq_Some_iff)
qed

lemma unitIndex_keyed: "indexKeyed (unitIndex units)"
  by (auto simp: indexKeyed_def dest: unitIndex_Some)

lemma unitIndex_mapWf: "mapWf (unitIndex units)"
  unfolding unitIndex_def by (rule mapWf_putAll) simp

lemma listing_units:
  assumes "ListIdentityOrganizationUnits s w = Inr units" "storeWf s" "nulFree w"
  shows "distinct (map unit_ID units)"
    and "map_of (unitIndex units) i = map_of (st_organizationUnits s) (TrimSpace w @ NUL @ i)"
proof -
  let ?t = "st_organizationUnits s" and ?w = "TrimSpace w"
  have keyed: "tableKeyed unit_ID ?t" using assms(2) by (simp add: storeWf_def)
  have wf: "distinct (map fst ?t)" using keyed by (simp add: tableKeyed_def)
  have units: "units = sortSlice unitLess (rowsWithPrefix (?w @ NUL) ?t)"
    using assms(1) by (auto simp: ListIdentityOrganizationUnits_def key_iffs bind_Inr_iff)
  have "distinct (map unit_ID (rowsWithPrefix (?w @ NUL) ?t))"
    using tableKeyed_rows_distinct [OF keyed, of ?w] assms(3) by simp
  then show d: "distinct (map unit_ID units)"
    unfolding units by (metis distinct_map distinct_sortSlice set_sortSlice)
  have "u \<in> set units \<and> unit_ID u = i \<longleftrightarrow> map_of ?t (?w @ NUL @ i) = Some u" for u
  proof
    assume "u \<in> set units \<and> unit_ID u = i"
    then obtain x where x: "(?w @ NUL @ x, u) \<in> set ?t" "unit_ID u = i"
      unfolding units by (auto simp: rowsWithPrefix_def HasPrefix_def prefix_def)
    then have "x = i" using tableKeyed_entry [OF keyed x(1)] assms(3) by simp
    with x(1) show "map_of ?t (?w @ NUL @ i) = Some u" using mapWf_entry [OF wf] by blast
  next
    assume u: "map_of ?t (?w @ NUL @ i) = Some u"
    have "unit_ID u = i" by (rule tableKeyed_lookup [OF keyed u]) (simp add: assms(3))
    with map_of_SomeD [OF u] show "u \<in> set units \<and> unit_ID u = i"
      unfolding units by (force simp: rowsWithPrefix_def HasPrefix_def prefix_def)
  qed
  then show "map_of (unitIndex units) i = map_of ?t (?w @ NUL @ i)"
    using map_of_index [OF d, of i] by (metis option.exhaust)
qed

subsection \<open>Writing the updates keeps the facts\<close>

text \<open>Chains that do not enter the rewritten subtree are unchanged by moving its root.\<close>

lemma ancestorChain_outside:
  assumes "ancestorChain par i anc" "i \<notin> D" "r \<in> D" "\<And>k. k \<noteq> r \<Longrightarrow> par' k = par k"
    "\<And>c p. par' c = Some p \<Longrightarrow> p \<noteq> [] \<Longrightarrow> p \<in> D \<Longrightarrow> c \<in> D"
  shows "ancestorChain par' i anc"
  using assms
proof (induction rule: ancestorChain.induct)
  case (Top i)
  then have "par' i = Some []" by metis
  then show ?case by (rule ancestorChain.Top)
next
  case (Below i p anc)
  then have "i \<noteq> r" by auto
  with Below have par': "par' i = Some p" by auto
  with Below have "p \<notin> D" by blast
  with Below have "ancestorChain par' p anc" by blast
  with par' Below.hyps show ?case by (auto intro: ancestorChain.Below)
qed

lemma factsOk_cong:
  "factsOk par u \<Longrightarrow> par = par' \<Longrightarrow> unit_ID v = unit_ID u \<Longrightarrow> unit_AncestorIDs v = unit_AncestorIDs u \<Longrightarrow>
   unit_Depth v = unit_Depth u \<Longrightarrow> unit_Path v = unit_Path u \<Longrightarrow> factsOk par' v"
  by (simp add: factsOk_def)

lemma subtreeUpdates_ok:
  assumes "identityOrganizationUnitSubtreeUpdates e u units = Inr updates"
  defines "byID \<equiv> AList.update (unit_ID u) (u\<lparr>unit_Path := [], unit_AncestorIDs := [], unit_Depth := 0\<rparr>) (unitIndex units)"
  shows "\<forall>x \<in> set updates. rowOk byID (unit_ID x) x" and "unit_ID u \<in> unit_ID ` set updates"
    and "\<And>c p. parentOf byID c = Some p \<Longrightarrow> p \<noteq> [] \<Longrightarrow> p \<in> unit_ID ` set updates \<Longrightarrow> c \<in> unit_ID ` set updates"
    and "distinct (map unit_ID updates)"
proof -
  have wf: "distinct (map fst byID)" unfolding byID_def by (rule distinct_update) (rule unitIndex_mapWf)
  have keyed: "indexKeyed byID" using unitIndex_keyed [of units] by (auto simp: indexKeyed_def byID_def)
  obtain out where out: "subtreeLoop e byID [] [] [unit_ID u] = Inr out" "updates = sortSlice updateLess out"
    using assms(1) unfolding identityOrganizationUnitSubtreeUpdates_def byID_def by (auto simp: Let_def)
  have ids: "unit_ID ` set updates = unit_ID ` set out" "set updates = set out" by (simp_all add: out(2))
  note ok = subtreeLoop_ok [OF out(1) keyed]
  show "\<forall>x \<in> set updates. rowOk byID (unit_ID x) x" "unit_ID u \<in> unit_ID ` set updates"
    using ok unfolding ids by (auto simp: memoOk_def)
  show "c \<in> unit_ID ` set updates" if c: "parentOf byID c = Some p" "p \<noteq> []" "p \<in> unit_ID ` set updates" for c p
  proof -
    have "c \<in> set (childIDs byID p)" using childIDs_iff [OF wf c(2)] c(1) by blast
    then show ?thesis using ok c(3) unfolding ids by (auto simp: memoOk_def)
  qed
  show "distinct (map unit_ID updates)"
    using ok unfolding out(2) by (metis distinct_map distinct_sortSlice set_sortSlice memoOk_def map_of.simps(1) option.distinct(1))
qed

text \<open>What the atomic write leaves under each key of the workspace.\<close>

definition unitDefaults :: "IdentityOrganizationUnit \<Rightarrow> IdentityOrganizationUnit" where
  "unitDefaults u = (if unit_Status u = [] then u\<lparr>unit_Status := IdentityStatusActive\<rparr> else u)"

lemma unitDefaults_simps [simp]:
  "unit_ID (unitDefaults u) = unit_ID u" "unit_ParentID (unitDefaults u) = unit_ParentID u"
  "unit_AncestorIDs (unitDefaults u) = unit_AncestorIDs u" "unit_Depth (unitDefaults u) = unit_Depth u"
  "unit_Path (unitDefaults u) = unit_Path u"
  by (simp_all add: unitDefaults_def)

lemma prepareUnit_Inr: "prepareUnit w u = Inr kv \<Longrightarrow> kv = (TrimSpace w @ NUL @ unit_ID u, unitDefaults u)"
  by (auto simp: prepareUnit_def unitDefaults_def key_iffs split: if_splits)

lemma prepareUnits_Inr:
  "mapRes (prepareUnit w) us = Inr rows \<Longrightarrow> rows = map (\<lambda>u. (TrimSpace w @ NUL @ unit_ID u, unitDefaults u)) us"
  by (induction us arbitrary: rows) (auto dest: prepareUnit_Inr)

lemma upsertUnits_lookup:
  assumes "UpsertIdentityOrganizationUnitsAtomically s w us = (Inr (), s')" "distinct (map unit_ID us)"
  shows "map_of (st_organizationUnits s') (TrimSpace w @ NUL @ i) =
     (case find (\<lambda>u. unit_ID u = i) us of
        None \<Rightarrow> map_of (st_organizationUnits s) (TrimSpace w @ NUL @ i) | Some u \<Rightarrow> Some (unitDefaults u))"
proof -
  let ?kvs = "map (\<lambda>u. (TrimSpace w @ NUL @ unit_ID u, unitDefaults u)) us"
  have s': "st_organizationUnits s' = putAll (st_organizationUnits s) (putAll [] ?kvs)"
    using assms(1) by (auto simp: UpsertIdentityOrganizationUnitsAtomically_def split: sum.splits dest: prepareUnits_Inr)
  have d: "distinct (map fst ?kvs)" using assms(2) by (auto simp: distinct_map comp_def inj_on_def)
  have wf: "distinct (map fst (putAll [] ?kvs))" by (rule mapWf_putAll) simp
  have "map_of ?kvs (TrimSpace w @ NUL @ i) = map_option unitDefaults (find (\<lambda>u. unit_ID u = i) us)"
    by (induction us) auto
  then show ?thesis
    unfolding s' map_of_putAll_distinct [OF wf] map_of_putAll_distinct [OF d] by (auto split: option.splits)
qed

lemma upsertUnits_hierarchy:
  assumes "storeWf s" "nulFree w" "ListIdentityOrganizationUnits s w = Inr units" "hierarchyOk units"
    "identityOrganizationUnitSubtreeUpdates e u units = Inr updates"
    "UpsertIdentityOrganizationUnitsAtomically s w updates = (Inr (), s')"
    "ListIdentityOrganizationUnits s' w = Inr units'" "storeWf s'"
  shows "hierarchyOk units'"
proof -
  let ?root = "u\<lparr>unit_Path := [], unit_AncestorIDs := [], unit_Depth := 0\<rparr>"
  let ?byID = "AList.update (unit_ID u) ?root (unitIndex units)" and ?D = "unit_ID ` set updates"
  note up = subtreeUpdates_ok [OF assms(5)]
  note old = listing_units(2) [OF assms(3,1,2)] and new = listing_units(2) [OF assms(7,8,2)]
  have lookup: "map_of (unitIndex units') i = (case find (\<lambda>x. unit_ID x = i) updates of
      None \<Rightarrow> map_of (unitIndex units) i | Some x \<Rightarrow> Some (unitDefaults x))" for i
    by (simp only: old new upsertUnits_lookup [OF assms(6) up(4)])
  have find: "find (\<lambda>x. unit_ID x = i) updates = None \<longleftrightarrow> i \<notin> ?D" for i
    by (auto simp: find_None_iff)
  have row: "rowOk ?byID i x" "unit_ID x = i" if "find (\<lambda>x. unit_ID x = i) updates = Some x" for i x
    using that up(1) by (auto simp: find_Some_iff)
  have par: "parentOf (unitIndex units') = parentOf ?byID"
  proof
    fix i
    show "parentOf (unitIndex units') i = parentOf ?byID i"
    proof (cases "find (\<lambda>x. unit_ID x = i) updates")
      case None
      then have "i \<noteq> unit_ID u" using find up(2) by auto
      with None show ?thesis by (simp add: parentOf_def lookup)
    next
      case (Some x)
      with row(1) [OF Some] obtain v where "map_of ?byID i = Some v" "sameUnit x v" by (auto simp: rowOk_def)
      moreover then have "unit_ParentID x = unit_ParentID v" unfolding sameUnit_def
        by (metis (no_types, lifting) IdentityOrganizationUnit.select_convs(5) IdentityOrganizationUnit.surjective IdentityOrganizationUnit.update_convs(6,7,8))
      ultimately show ?thesis using Some by (simp add: parentOf_def lookup del: map_of_update)
    qed
  qed
  have "factsOk (parentOf ?byID) v" if "v \<in> set units'" for v
  proof -
    have at: "map_of (unitIndex units') (unit_ID v) = Some v"
      using map_of_index [OF listing_units(1) [OF assms(7,8,2)]] that by blast
    show ?thesis
    proof (cases "find (\<lambda>x. unit_ID x = unit_ID v) updates")
      case (Some x)
      then have "v = unitDefaults x" using at by (simp add: lookup)
      with row(1) [OF Some] show ?thesis by (auto simp: rowOk_def factsOk_def)
    next
      case None
      then have "map_of (unitIndex units) (unit_ID v) = Some v" using at by (simp add: lookup)
      then have "v \<in> set units" by (auto dest: unitIndex_Some)
      then have f: "factsOk (parentOf (unitIndex units)) v" using assms(4) by (simp add: hierarchyOk_def)
      have "ancestorChain (parentOf ?byID) (unit_ID v) (unit_AncestorIDs v)"
      proof (rule ancestorChain_outside)
        show "ancestorChain (parentOf (unitIndex units)) (unit_ID v) (unit_AncestorIDs v)" using f by (simp add: factsOk_def)
        show "unit_ID v \<notin> ?D" using None find by simp
        show "unit_ID u \<in> ?D" by (rule up(2))
        show "parentOf ?byID k = parentOf (unitIndex units) k" if "k \<noteq> unit_ID u" for k
          using that by (simp add: parentOf_def)
        show "c \<in> ?D" if "parentOf ?byID c = Some p" "p \<noteq> []" "p \<in> ?D" for c p
          by (rule up(3) [OF that])
      qed
      with f show ?thesis by (simp add: factsOk_def)
    qed
  qed
  then show ?thesis by (simp add: hierarchyOk_def par)
qed

end
