(* ===== verification/DomainService.thy ===== *)
theory DomainService
  imports Configuration
begin

section \<open>The identity domain service: state and published definitions\<close>

text \<open>
  The state of \<open>IdentityDomainService\<close> (\<open>service/identity_domain_service.go\<close>): the
  workspace it is scoped to, the published role definitions, permission definitions,
  permission sets and guardrails, and the optional resolvers of the host application,
  which are parameters.  Locks are not modelled: each operation that takes one is one step.
\<close>

record IdentityPermissionSet =
  pset_Key :: string
  pset_Name :: string
  pset_Description :: string
  pset_FieldPermissions :: "FieldPermission list"
  pset_ReferencePermissions :: "ReferencePermission list"
  pset_ExportRules :: "ExportRule list"

record IdentityPermissionSetGroup =
  pgrp_Key :: string
  pgrp_Name :: string
  pgrp_Description :: string
  pgrp_PermissionSetKeys :: "string list"

record IdentityBusinessProfile =
  prof_BindingKey :: string
  prof_ProfileID :: string

record IdentityDomainService =
  svc_workspace :: string
  svc_role :: "(string, RoleSchema) gomap"
  svc_permissions :: "(string, IdentityPermissionDefinition) gomap"
  svc_workspacePermissions :: "(string \<Rightarrow> (string, IdentityPermissionDefinition) gomap res) option"
  svc_permissionSets :: "(string, IdentityPermissionSet) gomap"
  svc_permissionSetGroups :: "(string, IdentityPermissionSetGroup) gomap"
  svc_guardrails :: "(string, IdentityGuardrailPolicy) gomap"
  svc_bindingEligibility :: "(string \<Rightarrow> string \<Rightarrow> string \<Rightarrow> string \<Rightarrow> bool res) option"
  svc_businessProfiles :: "(string \<Rightarrow> string \<Rightarrow> IdentityBusinessProfile list res) option"

type_synonym svc = IdentityDomainService

subsection \<open>Scoping and resolvers\<close>

definition ForWorkspace :: "svc \<Rightarrow> string \<Rightarrow> svc res" where
  "ForWorkspace v workspaceID = bind (NewWorkspaceID workspaceID) (\<lambda>w. Inr (v\<lparr>svc_workspace := w\<rparr>))"

definition UseRoleBindingEligibility :: "svc \<Rightarrow> (string \<Rightarrow> string \<Rightarrow> string \<Rightarrow> string \<Rightarrow> bool res) \<Rightarrow> svc" where
  "UseRoleBindingEligibility v resolver = v\<lparr>svc_bindingEligibility := Some resolver\<rparr>"

definition businessProfileBindingEligibility ::
  "(string \<Rightarrow> string \<Rightarrow> IdentityBusinessProfile list res) \<Rightarrow> string \<Rightarrow> string \<Rightarrow> string \<Rightarrow> string \<Rightarrow> bool res" where
  "businessProfileBindingEligibility resolver workspaceID bindingKey profileID userID =
     bind (resolver workspaceID userID) (\<lambda>profiles.
       Inr (list_ex (\<lambda>p. TrimSpace (prof_BindingKey p) = TrimSpace bindingKey
              \<and> TrimSpace (prof_ProfileID p) = TrimSpace profileID) profiles))"

definition UseBusinessProfileResolver :: "svc \<Rightarrow> (string \<Rightarrow> string \<Rightarrow> IdentityBusinessProfile list res) \<Rightarrow> svc" where
  "UseBusinessProfileResolver v resolver =
     v\<lparr>svc_businessProfiles := Some resolver, svc_bindingEligibility := Some (businessProfileBindingEligibility resolver)\<rparr>"

subsection \<open>Published definitions\<close>

text \<open>A catalog built from a list: entries with a blank key are dropped, keys are trimmed, later entries win.\<close>

definition catalog :: "('v \<Rightarrow> string) \<Rightarrow> (string \<Rightarrow> 'v \<Rightarrow> 'v) \<Rightarrow> 'v list \<Rightarrow> (string, 'v) gomap" where
  "catalog key setKey vs =
     putAll [] (map (\<lambda>v. (TrimSpace (key v), setKey (TrimSpace (key v)) v)) (filter (\<lambda>v. TrimSpace (key v) \<noteq> []) vs))"

definition ReplaceRoleDefinitions :: "svc \<Rightarrow> RoleSchema list \<Rightarrow> svc" where
  "ReplaceRoleDefinitions v roles = v\<lparr>svc_role := catalog rs_Key (\<lambda>k r. r\<lparr>rs_Key := k\<rparr>) roles\<rparr>"

definition ReplacePermissionDefinitions :: "svc \<Rightarrow> IdentityPermissionDefinition list \<Rightarrow> svc" where
  "ReplacePermissionDefinitions v permissions =
     v\<lparr>svc_permissions := catalog perm_Key (\<lambda>k p. p\<lparr>perm_Key := k\<rparr>) permissions\<rparr>"

definition ReplaceAuthorizationPolicies ::
  "svc \<Rightarrow> IdentityPermissionSet list \<Rightarrow> IdentityPermissionSetGroup list \<Rightarrow> IdentityGuardrailPolicy list \<Rightarrow> svc" where
  "ReplaceAuthorizationPolicies v sets groups guardrails =
     v\<lparr>svc_permissionSets := catalog pset_Key (\<lambda>k x. x\<lparr>pset_Key := k\<rparr>) sets,
       svc_permissionSetGroups := catalog pgrp_Key (\<lambda>k x. x\<lparr>pgrp_Key := k\<rparr>) groups,
       svc_guardrails := catalog gr_Key (\<lambda>k x. x\<lparr>gr_Key := k\<rparr>) guardrails\<rparr>"

definition PublishedPermissionSets :: "svc \<Rightarrow> IdentityPermissionSet list" where
  "PublishedPermissionSets v = sortSlice (\<lambda>a b. pset_Key a < pset_Key b) (map snd (svc_permissionSets v))"

definition PublishedPermissionSetGroups :: "svc \<Rightarrow> IdentityPermissionSetGroup list" where
  "PublishedPermissionSetGroups v = sortSlice (\<lambda>a b. pgrp_Key a < pgrp_Key b) (map snd (svc_permissionSetGroups v))"

definition PublishedGuardrails :: "svc \<Rightarrow> IdentityGuardrailPolicy list" where
  "PublishedGuardrails v = sortSlice (\<lambda>a b. gr_Key a < gr_Key b) (map snd (svc_guardrails v))"

definition PublishedRoleDefinitions :: "svc \<Rightarrow> RoleSchema list" where
  "PublishedRoleDefinitions v = sortSlice (\<lambda>a b. rs_Key a < rs_Key b) (map snd (svc_role v))"

definition publishedRoleDefinition :: "svc \<Rightarrow> IdentityRole \<Rightarrow> RoleSchema option" where
  "publishedRoleDefinition v role =
     (let lookup = (\<lambda>key. if key = [] then None else map_of (svc_role v) key) in
      case lookup (TrimSpace (role_Key role)) of
        Some published \<Rightarrow> Some published
      | None \<Rightarrow> lookup (TrimSpace (role_ID role)))"

definition publishedRoleByKey :: "svc \<Rightarrow> string \<Rightarrow> RoleSchema option" where
  "publishedRoleByKey v key = (if TrimSpace key = [] then None else map_of (svc_role v) (TrimSpace key))"

definition withWorkspacePermissions :: "svc \<Rightarrow> svc res" where
  "withWorkspacePermissions v =
     (case svc_workspacePermissions v of
        None \<Rightarrow> Inr v
      | Some source \<Rightarrow> bind (source (svc_workspace v)) (\<lambda>definitions.
          Inr (v\<lparr>svc_permissions := definitions, svc_workspacePermissions := None\<rparr>)))"

definition ListPermissions :: "svc \<Rightarrow> IdentityPermissionDefinition list" where
  "ListPermissions v =
     (case withWorkspacePermissions v of
        Inl _ \<Rightarrow> []
      | Inr v' \<Rightarrow> sortSlice (\<lambda>a b. perm_Key a < perm_Key b) (map snd (svc_permissions v')))"

section \<open>Lemmas\<close>

lemma catalog_Some:
  assumes "map_of (catalog key setKey vs) k = Some x"
  obtains v where "v \<in> set vs" "TrimSpace (key v) = k" "k \<noteq> []" "x = setKey k v"
  using map_of_putAll_Some [OF assms [unfolded catalog_def]] by auto

lemma catalog_mapWf: "mapWf (catalog key setKey vs)"
  unfolding catalog_def by (rule mapWf_putAll) simp

lemma catalog_values_distinct:
  assumes "\<And>k v. key (setKey k v) = k"
  shows "distinct (map key (map snd (catalog key setKey vs)))"
proof -
  have "map key (map snd (catalog key setKey vs)) = map fst (catalog key setKey vs)"
  proof (rule nth_equalityI)
    fix i assume "i < length (map key (map snd (catalog key setKey vs)))"
    then have "catalog key setKey vs ! i \<in> set (catalog key setKey vs)" by simp
    then obtain k x where kx: "catalog key setKey vs ! i = (k, x)" "map_of (catalog key setKey vs) k = Some x"
      using mapWf_entry [OF catalog_mapWf] by (metis surj_pair)
    then show "map key (map snd (catalog key setKey vs)) ! i = map fst (catalog key setKey vs) ! i"
      using assms \<open>i < _\<close> by (auto elim!: catalog_Some)
  qed simp
  then show ?thesis using catalog_mapWf [of key setKey vs] by (simp only:)
qed

text \<open>The catalog listings sort by key; the comparison is a strict order that separates keys.\<close>

interpretation permissionSets: slice_order "\<lambda>a b. pset_Key a < pset_Key b" pset_Key
  by unfold_locales auto

interpretation permissionSetGroups: slice_order "\<lambda>a b. pgrp_Key a < pgrp_Key b" pgrp_Key
  by unfold_locales auto

interpretation guardrails: slice_order "\<lambda>a b. gr_Key a < gr_Key b" gr_Key
  by unfold_locales auto

interpretation roleDefinitions: slice_order "\<lambda>a b. rs_Key a < rs_Key b" rs_Key
  by unfold_locales auto

end
