(* ===== verification/Users.thy ===== *)
theory Users
  imports OrganizationUnits DomainService
begin

section \<open>The identity domain service: users\<close>

text \<open>
  The user part of \<open>service/identity_organization_units_users.go\<close>: normalisation and
  validation of a user, the reporting path along the manager chain and its update for all
  reports, creation, update, removal, status and locale changes, inside a data scope or
  without one.
\<close>

subsection \<open>Reading\<close>

definition userByID :: "store \<Rightarrow> string \<Rightarrow> string \<Rightarrow> IdentityUser option res" where
  "userByID s workspace userID =
     bind (ListIdentityUsers s workspace) (\<lambda>users. Inr (find (\<lambda>u. user_ID u = userID) users))"

definition UserByID :: "store \<Rightarrow> string \<Rightarrow> string \<Rightarrow> IdentityUser option res" where
  "UserByID s workspace userID = userByID s workspace (TrimSpace userID)"

definition ListUsers :: "store \<Rightarrow> string \<Rightarrow> IdentityUser list res" where
  "ListUsers s workspace = ListIdentityUsers s workspace"

definition ListUsersWithinDataScope :: "env \<Rightarrow> store \<Rightarrow> string \<Rightarrow> Principal \<Rightarrow> string \<Rightarrow> IdentityUser list res" where
  "ListUsersWithinDataScope e s workspace actor permissionKey =
     ListIdentityUsersWithinDataScope s workspace (IdentityPermissionDataScopeFilter e actor permissionKey)"

definition UserByIDWithinDataScope ::
  "env \<Rightarrow> store \<Rightarrow> string \<Rightarrow> string \<Rightarrow> Principal \<Rightarrow> string \<Rightarrow> IdentityUser option res" where
  "UserByIDWithinDataScope e s workspace userID actor permissionKey =
     GetIdentityUserWithinDataScope s workspace (TrimSpace userID) (IdentityPermissionDataScopeFilter e actor permissionKey)"

definition UserByLogin :: "store \<Rightarrow> string \<Rightarrow> string \<Rightarrow> IdentityUser option res" where
  "UserByLogin s workspace login0 =
     (let login = ToLower (TrimSpace login0) in
      if login = [] then Inr None
      else bind (ListIdentityUsers s workspace) (\<lambda>users.
        Inr (find (\<lambda>u. ToLower (TrimSpace (user_ID u)) = login \<or> ToLower (TrimSpace (user_Email u)) = login) users)))"

subsection \<open>Reporting paths\<close>

text \<open>The identifiers collected by the loop, from the user upwards.\<close>

function reportingChain :: "(string, IdentityUser) gomap \<Rightarrow> string list \<Rightarrow> string \<Rightarrow> string list" where
  "reportingChain users visited cursor =
     (if cursor = [] \<or> cursor \<in> set visited then []
      else (case map_of users cursor of
          None \<Rightarrow> []
        | Some user \<Rightarrow> user_ID user # reportingChain users (cursor # visited) (TrimSpace (user_ManagerUserID user))))"
  by pat_completeness auto

termination reportingChain
  by (relation "measure (\<lambda>(users, visited, cursor). unvisited visited users)") (auto simp: unvisited_Cons)

declare reportingChain.simps [simp del]

definition identityUserReportingPath :: "string \<Rightarrow> (string, IdentityUser) gomap \<Rightarrow> string" where
  "identityUserReportingPath userID users =
     (let path = rev (reportingChain users [] (TrimSpace userID)) in
      if path = [] then [] else ''/'' @ JoinStrings path ''/'')"

definition rebuildUserReportingPathReferences :: "store \<Rightarrow> string \<Rightarrow> string \<Rightarrow> string \<Rightarrow> IdentityUser list res" where
  "rebuildUserReportingPathReferences s workspace oldPath0 newPath0 =
     (let oldPath = TrimRightSlash (TrimSpace oldPath0); newPath = TrimRightSlash (TrimSpace newPath0) in
      if oldPath = [] \<or> newPath = [] \<or> oldPath = newPath then Inr []
      else bind (ListIdentityUsers s workspace) (\<lambda>users.
        Inr (map (\<lambda>d. d\<lparr>user_ReportingPath :=
                   newPath @ TrimPrefix (TrimRightSlash (TrimSpace (user_ReportingPath d))) oldPath\<rparr>)
               (filter (\<lambda>d. HasPrefix (TrimRightSlash (TrimSpace (user_ReportingPath d))) (oldPath @ ''/'')) users))))"

subsection \<open>Preparing a user\<close>

definition normalizeUser :: "IdentityUser \<Rightarrow> IdentityUser" where
  "normalizeUser u =
     (let account = ToLower (TrimSpace (user_AccountType u));
          accountType = (if account = [] then IdentityAccountHuman else account);
          workerType = TrimSpace (user_WorkerType u); workStatus = TrimSpace (user_WorkStatus u) in
      u\<lparr>user_ID := TrimSpace (user_ID u), user_Name := TrimSpace (user_Name u),
        user_GivenName := TrimSpace (user_GivenName u), user_MiddleName := TrimSpace (user_MiddleName u),
        user_FamilyName := TrimSpace (user_FamilyName u), user_NamePrefix := TrimSpace (user_NamePrefix u),
        user_NameSuffix := TrimSpace (user_NameSuffix u), user_NativeName := TrimSpace (user_NativeName u),
        user_NameLocale := TrimSpace (user_NameLocale u), user_AccountType := accountType,
        user_Locale := TrimSpace (user_Locale u), user_Timezone := TrimSpace (user_Timezone u),
        user_OrgID := TrimSpace (user_OrgID u), user_SupportOrgID := TrimSpace (user_SupportOrgID u),
        user_ManagerUserID := TrimSpace (user_ManagerUserID u), user_WorkerNo := TrimSpace (user_WorkerNo u),
        user_WorkerType := (if accountType = IdentityAccountHuman \<and> workerType = [] then ''employee'' else workerType),
        user_WorkStatus := (if accountType = IdentityAccountHuman \<and> workStatus = [] then ''active'' else workStatus),
        user_StartDate := TrimSpace (user_StartDate u), user_EndDate := TrimSpace (user_EndDate u),
        user_Email := ToLower (TrimSpace (user_Email u))\<rparr>)"

text \<open>Locale and version from the first listed row with the same identifier, then the defaults.\<close>

definition inheritUser :: "IdentityUser list \<Rightarrow> IdentityUser \<Rightarrow> IdentityUser" where
  "inheritUser users u =
     (let u1 = (case find (\<lambda>x. user_ID x = user_ID u) users of
                  None \<Rightarrow> u
                | Some x \<Rightarrow>
                    (let a = (if TrimSpace (user_Locale u) = [] then u\<lparr>user_Locale := user_Locale x\<rparr> else u) in
                     if user_Version a < 1 then a\<lparr>user_Version := user_Version x\<rparr> else a));
          u2 = (if TrimSpace (user_Locale u1) = [] then u1\<lparr>user_Locale := ''en-US''\<rparr> else u1) in
      if user_Version u2 < 1 then u2\<lparr>user_Version := 1\<rparr> else u2)"

definition emailTaken :: "IdentityUser list \<Rightarrow> IdentityUser \<Rightarrow> bool" where
  "emailTaken users u = list_ex (\<lambda>x. user_ID x \<noteq> user_ID u \<and> EqualFold (TrimSpace (user_Email x)) (user_Email u)) users"

definition withReportingPath :: "IdentityUser list \<Rightarrow> IdentityUser \<Rightarrow> IdentityUser" where
  "withReportingPath users u =
     (let own = ''/'' @ user_ID u;
          managerPath = identityUserReportingPath (user_ManagerUserID u) (userIndex users) in
      u\<lparr>user_ReportingPath :=
          (if user_ManagerUserID u \<noteq> [] \<and> managerPath \<noteq> []
           then TrimRightSlash managerPath @ ''/'' @ user_ID u else own)\<rparr>)"

definition prepareUser :: "env \<Rightarrow> store \<Rightarrow> string \<Rightarrow> IdentityUser \<Rightarrow> IdentityUser res" where
  "prepareUser e s workspace user0 =
     (let u = normalizeUser user0 in
      bind (ValidateUserConfiguration e s workspace u) (\<lambda>issues.
        (case FirstConfigurationError e issues of
           Some err \<Rightarrow> Inl err
         | None \<Rightarrow>
             bind (ListIdentityUsers s workspace) (\<lambda>users.
               (let u1 = inheritUser users u in
                if emailTaken users u1
                then Inl (badRequest e ''backend.identity.user_email_exists'' [''email'', user_Email u1])
                else (let u2 = withReportingPath users u1 in
                  Inr (u2\<lparr>user_Phone := TrimSpace (user_Phone u2)\<rparr>)))))))"

definition PrepareUserForAtomicDelivery ::
  "env \<Rightarrow> store \<Rightarrow> string \<Rightarrow> IdentityUser \<Rightarrow> (IdentityUser \<times> IdentityUser list) res" where
  "PrepareUserForAtomicDelivery e s workspace user =
     bind (GetIdentityUser s workspace (TrimSpace (user_ID user))) (\<lambda>existing.
     bind (prepareUser e s workspace user) (\<lambda>prepared.
       (case existing of
          None \<Rightarrow> Inr (prepared, [])
        | Some x \<Rightarrow>
            if user_ReportingPath x = user_ReportingPath prepared then Inr (prepared, [])
            else bind (rebuildUserReportingPathReferences s workspace (user_ReportingPath x) (user_ReportingPath prepared))
                   (\<lambda>related. Inr (prepared, related)))))"

subsection \<open>Writing\<close>

text \<open>The rows of an update: the user, and its reports when the reporting path moved.\<close>

definition userUpdates :: "store \<Rightarrow> string \<Rightarrow> IdentityUser option \<Rightarrow> IdentityUser \<Rightarrow> IdentityUser list res" where
  "userUpdates s workspace existing user =
     (case existing of
        None \<Rightarrow> Inr [user]
      | Some x \<Rightarrow>
          if user_ReportingPath x \<noteq> user_ReportingPath user
          then bind (rebuildUserReportingPathReferences s workspace (user_ReportingPath x) (user_ReportingPath user))
                 (\<lambda>descendants. Inr (user # descendants))
          else Inr [user])"

definition UpsertUser :: "env \<Rightarrow> store \<Rightarrow> string \<Rightarrow> IdentityUser \<Rightarrow> unit res \<times> store" where
  "UpsertUser e s workspace user0 =
     (case bind (GetIdentityUser s workspace (TrimSpace (user_ID user0))) (\<lambda>existing.
           bind (prepareUser e s workspace user0) (\<lambda>user. userUpdates s workspace existing user)) of
        Inl err \<Rightarrow> (Inl err, s)
      | Inr updates \<Rightarrow> UpsertIdentityUsersAtomically e s workspace updates)"

definition identityStringValueIn :: "string list \<Rightarrow> string \<Rightarrow> bool" where
  "identityStringValueIn values expected = list_ex (\<lambda>v. TrimSpace v = TrimSpace expected) values"

definition createScopeCheck ::
  "env \<Rightarrow> store \<Rightarrow> string \<Rightarrow> IdentityDataScopeFilter \<Rightarrow> IdentityUser \<Rightarrow> IdentityUser res" where
  "createScopeCheck e s workspace scope user =
     (if flt_Unrestricted scope then Inr user
      else (let u = user\<lparr>user_OrgID := TrimSpace (user_OrgID user)\<rparr> in
        if user_OrgID u = [] \<or> \<not> identityStringValueIn (flt_OwnerOrgIDs scope) (user_OrgID u)
        then Inl (forbidden e ''auth.permission_denied'' [])
        else bind (ListIdentityOrganizationUnits s workspace) (\<lambda>units.
          if \<not> list_ex (\<lambda>x. unit_ID x = user_OrgID u) units
          then Inl (notFound e ''backend.identity.organization_unit_not_found'' [''organization_unit'', user_OrgID u])
          else Inr u)))"

definition CreateUserWithinDataScope ::
  "env \<Rightarrow> store \<Rightarrow> string \<Rightarrow> IdentityUser \<Rightarrow> Principal \<Rightarrow> string \<Rightarrow> unit res \<times> store" where
  "CreateUserWithinDataScope e s workspace user0 actor permissionKey =
     (let user = user0\<lparr>user_ID := TrimSpace (user_ID user0)\<rparr> in
      if user_ID user = [] then (Inl (badRequest e ''backend.identity.user_required'' [''user'', []]), s)
      else (case bind (GetIdentityUser s workspace (user_ID user)) (\<lambda>existing.
              if existing \<noteq> None then Inl (conflict e ''backend.identity.user_already_exists'' [''user'', user_ID user])
              else bind (createScopeCheck e s workspace (IdentityPermissionDataScopeFilter e actor permissionKey) user)
                     (\<lambda>u. prepareUser e s workspace u)) of
          Inl err \<Rightarrow> (Inl err, s)
        | Inr prepared \<Rightarrow> CreateIdentityUser e s workspace prepared))"

text \<open>The mapping of a boolean repository result to an error, used by every scoped mutation.\<close>

definition requireDone :: "go_error \<Rightarrow> bool res \<times> store \<Rightarrow> unit res \<times> store" where
  "requireDone err r = (case r of
      (Inl e, s) \<Rightarrow> (Inl e, s)
    | (Inr b, s) \<Rightarrow> if \<not> b then (Inl err, s) else (Inr (), s))"

definition serviceUserNotFound :: "env \<Rightarrow> string \<Rightarrow> go_error" where
  "serviceUserNotFound e userID = notFound e ''backend.identity.user_not_found'' [''user'', userID]"

definition UpdateUserWithinDataScope ::
  "env \<Rightarrow> store \<Rightarrow> string \<Rightarrow> IdentityUser \<Rightarrow> Principal \<Rightarrow> string \<Rightarrow> unit res \<times> store" where
  "UpdateUserWithinDataScope e s workspace user0 actor permissionKey =
     (let u0 = user0\<lparr>user_ID := TrimSpace (user_ID user0)\<rparr>; scope = IdentityPermissionDataScopeFilter e actor permissionKey in
      case bind (GetIdentityUserWithinDataScope s workspace (user_ID u0) scope) (\<lambda>existing.
             if existing = None then Inl (serviceUserNotFound e (user_ID u0))
             else bind (prepareUser e s workspace u0) (\<lambda>user.
               bind (userUpdates s workspace existing user) (\<lambda>updates. Inr (user, updates)))) of
        Inl err \<Rightarrow> (Inl err, s)
      | Inr (user, updates) \<Rightarrow>
          requireDone (serviceUserNotFound e (user_ID user))
            (UpdateIdentityUsersWithinDataScopeAtomically e s workspace updates scope))"

definition UpdateUserLocale ::
  "env \<Rightarrow> store \<Rightarrow> string \<Rightarrow> string \<Rightarrow> string \<Rightarrow> int \<Rightarrow> IdentityUser res \<times> store" where
  "UpdateUserLocale e s workspaceID userID0 locale0 expectedVersion =
     (case NewWorkspaceCommandScope workspaceID of
        Inl _ \<Rightarrow> (Inl (forbidden e ''backend.workspace_scope_required'' []), s)
      | Inr scope \<Rightarrow>
         (let userID = TrimSpace userID0; locale = TrimSpace locale0; w = cs_workspace scope in
          if userID = [] then (Inl (forbidden e ''auth.token_required'' []), s)
          else if locale = [] then (Inl (badRequest e ''backend.identity.user_locale_required'' []), s)
          else if expectedVersion < 1 then (Inl (badRequest e ''backend.identity.user_version_required'' []), s)
          else (case UpdateIdentityUserLocale s w userID locale expectedVersion of
              (Inl err, s') \<Rightarrow> (Inl err, s')
            | (Inr (Some updated), s') \<Rightarrow> (Inr updated, s')
            | (Inr None, s') \<Rightarrow>
                (case GetIdentityUser s' w userID of
                   Inl err \<Rightarrow> (Inl err, s')
                 | Inr None \<Rightarrow> (Inl (serviceUserNotFound e userID), s')
                 | Inr (Some _) \<Rightarrow> (Inl (conflict e ''backend.identity.user_version_conflict'' [''user'', userID]), s')))))"

text \<open>The lookup that precedes a removal or an impact report.\<close>

definition userVisible :: "env \<Rightarrow> store \<Rightarrow> string \<Rightarrow> string \<Rightarrow> IdentityDataScopeFilter \<Rightarrow> unit res" where
  "userVisible e s workspace userID scope =
     bind (if flt_Unrestricted scope then userByID s workspace userID
           else GetIdentityUserWithinDataScope s workspace userID scope)
       (\<lambda>found. if found = None then Inl (serviceUserNotFound e userID) else Inr ())"

definition removeUser ::
  "env \<Rightarrow> store \<Rightarrow> string \<Rightarrow> string \<Rightarrow> IdentityDataScopeFilter \<Rightarrow> unit res \<times> store" where
  "removeUser e s workspace userID0 scope =
     (let userID = TrimSpace userID0 in
      if userID = [] then (Inl (badRequest e ''backend.identity.user_required'' [''user'', []]), s)
      else (case bind (userVisible e s workspace userID scope) (\<lambda>_.
              bind (ListIdentityProfileBindingsByUser s workspace userID) (\<lambda>bindings.
                if bindings \<noteq> [] then Inl (conflict e ''backend.identity.user_profile_bindings_exist''
                    [''user'', userID, ''profiles'', JoinStrings (map (\<lambda>b. bnd_ObjectKey b @ '':'' @ bnd_ProfileID b) bindings) '',''])
                else bind (ListIdentityUsers s workspace) (\<lambda>users.
                  (case find (\<lambda>u. TrimSpace (user_ManagerUserID u) = userID) users of
                     Some u \<Rightarrow> Inl (conflict e ''backend.identity.user_direct_reports_exist''
                                [''user'', userID, ''direct_report'', user_ID u])
                   | None \<Rightarrow> Inr ())))) of
          Inl err \<Rightarrow> (Inl err, s)
        | Inr _ \<Rightarrow>
            if flt_Unrestricted scope then RemoveIdentityUser s workspace userID
            else requireDone (serviceUserNotFound e userID) (RemoveIdentityUserWithinDataScope s workspace userID scope)))"

definition RemoveUser :: "env \<Rightarrow> store \<Rightarrow> string \<Rightarrow> string \<Rightarrow> unit res \<times> store" where
  "RemoveUser e s workspace userID = removeUser e s workspace userID unrestrictedFilter"

definition RemoveUserWithinDataScope ::
  "env \<Rightarrow> store \<Rightarrow> string \<Rightarrow> string \<Rightarrow> Principal \<Rightarrow> string \<Rightarrow> unit res \<times> store" where
  "RemoveUserWithinDataScope e s workspace userID actor permissionKey =
     removeUser e s workspace userID (IdentityPermissionDataScopeFilter e actor permissionKey)"

definition SetUserStatus :: "env \<Rightarrow> store \<Rightarrow> string \<Rightarrow> string \<Rightarrow> IdentityStatus \<Rightarrow> unit res \<times> store" where
  "SetUserStatus e s workspace userID status = SetIdentityUserStatus e s workspace userID status"

definition SetUserStatusWithinDataScope ::
  "env \<Rightarrow> store \<Rightarrow> string \<Rightarrow> string \<Rightarrow> IdentityStatus \<Rightarrow> Principal \<Rightarrow> string \<Rightarrow> unit res \<times> store" where
  "SetUserStatusWithinDataScope e s workspace userID0 status actor permissionKey =
     (let userID = TrimSpace userID0; scope = IdentityPermissionDataScopeFilter e actor permissionKey in
      case GetIdentityUserWithinDataScope s workspace userID scope of
        Inl err \<Rightarrow> (Inl err, s)
      | Inr None \<Rightarrow> (Inl (serviceUserNotFound e userID), s)
      | Inr (Some _) \<Rightarrow>
          requireDone (serviceUserNotFound e userID)
            (SetIdentityUserStatusWithinDataScope e s workspace userID status scope))"

subsection \<open>Role assignments in force\<close>

definition identityAssignmentActive :: "IdentityUserRoleAssignment \<Rightarrow> int \<Rightarrow> bool" where
  "identityAssignmentActive a now =
     (let status = TrimSpace (asg_Status a); validFrom = TrimSpace (asg_ValidFrom a);
          until0 = TrimSpace (asg_ValidUntil a);
          validUntil = (if until0 = [] then (case asg_ExpiresAt a of None \<Rightarrow> until0 | Some x \<Rightarrow> TrimSpace x) else until0) in
      if status \<noteq> [] \<and> status \<noteq> ''active'' then False
      else if validFrom \<noteq> [] \<and> (case parseRFC3339 validFrom of None \<Rightarrow> True | Some t \<Rightarrow> now < t) then False
      else if validUntil \<noteq> [] \<and> (case parseRFC3339 validUntil of None \<Rightarrow> True | Some t \<Rightarrow> \<not> now < t) then False
      else True)"

record IdentityUserDeletionImpact =
  impact_UserID :: string
  impact_ProfileBindings :: "IdentityProfileBinding list"
  impact_ActiveRoleIDs :: "string list"
  impact_CredentialsAndSessionsRevoked :: bool
  impact_CanDelete :: bool

definition bindingLess :: "IdentityProfileBinding \<Rightarrow> IdentityProfileBinding \<Rightarrow> bool" where
  "bindingLess a b \<longleftrightarrow>
     (if bnd_ObjectKey a = bnd_ObjectKey b then bnd_ProfileID a < bnd_ProfileID b else bnd_ObjectKey a < bnd_ObjectKey b)"

definition userDeletionImpact ::
  "env \<Rightarrow> store \<Rightarrow> string \<Rightarrow> string \<Rightarrow> IdentityDataScopeFilter \<Rightarrow> IdentityUserDeletionImpact res" where
  "userDeletionImpact e s workspace userID0 scope =
     (let userID = TrimSpace userID0 in
      if userID = [] then Inl (badRequest e ''backend.identity.user_required'' [])
      else bind (userVisible e s workspace userID scope) (\<lambda>_.
        bind (ListIdentityProfileBindingsByUser s workspace userID) (\<lambda>bindings.
        bind (ListIdentityUserRoleAssignments s workspace userID) (\<lambda>assignments.
          Inr \<lparr>impact_UserID = userID, impact_ProfileBindings = sortSlice bindingLess bindings,
               impact_ActiveRoleIDs = sortStrings (map asg_RoleID
                 (filter (\<lambda>a. identityAssignmentActive a (nowInstant e)) assignments)),
               impact_CredentialsAndSessionsRevoked = True, impact_CanDelete = (bindings = [])\<rparr>))))"

end
