(* ===== verification/Roles.thy ===== *)
theory Roles
  imports Users
begin

section \<open>The identity domain service: role assignments\<close>

text \<open>
  \<open>service/identity_roles_requests.go\<close>: manual and system-managed assignment of roles,
  eligibility, conflicts between roles, revocation, and the roles an actor may assign.
\<close>

abbreviation IdentityUserRoleAssignmentsRevokePermission :: string where
  "IdentityUserRoleAssignmentsRevokePermission \<equiv> ''identity.user_role_assignments.revoke''"
abbreviation IdentityUserRoleAssignmentsAssignableRolesPermission :: string where
  "IdentityUserRoleAssignmentsAssignableRolesPermission \<equiv> ''identity.user_role_assignments.assignable_roles''"

definition RoleByID :: "store \<Rightarrow> string \<Rightarrow> string \<Rightarrow> IdentityRole option res" where
  "RoleByID s workspace roleID =
     bind (ListIdentityRoles s workspace) (\<lambda>roles. Inr (find (\<lambda>r. role_ID r = roleID) roles))"

definition identityStringSliceContains :: "string list \<Rightarrow> string \<Rightarrow> bool" where
  "identityStringSliceContains values expected = list_ex (\<lambda>v. TrimSpace v = TrimSpace expected) values"

text \<open>The definition of a role without a published one.\<close>

definition unpublishedRole :: "string \<Rightarrow> string \<Rightarrow> RoleSchema" where
  "unpublishedRole key risk = zeroRoleSchema\<lparr>rs_Key := key, rs_Audience := IdentityRoleAudienceAny,
     rs_AssignmentMode := IdentityRoleAssignmentManual, rs_RiskLevel := risk\<rparr>"

subsection \<open>Eligibility and conflicts\<close>

definition validateRoleEligibilityWithoutConflicts ::
  "env \<Rightarrow> svc \<Rightarrow> IdentityUserRoleAssignment \<Rightarrow> RoleSchema \<Rightarrow> bool \<Rightarrow> unit res" where
  "validateRoleEligibilityWithoutConflicts e v assignment role fromApprovedRequest =
     (let mode = (if rs_AssignmentMode role = [] then IdentityRoleAssignmentManual else rs_AssignmentMode role);
          audience = (if rs_Audience role = [] then IdentityRoleAudienceAny else rs_Audience role);
          notEligible = Inl (forbidden e ''backend.identity.business_role_eligibility_required'' []) in
      if mode = IdentityRoleAssignmentSystemManaged
      then Inl (forbidden e ''backend.identity.system_managed_role_assignment_denied'' [])
      else if mode = IdentityRoleAssignmentRequestOnly \<and> \<not> fromApprovedRequest
      then Inl (forbidden e ''backend.identity.role_request_required'' [])
      else if audience = IdentityRoleAudienceBusiness then
        (if TrimSpace (asg_BindingKey assignment) \<noteq> TrimSpace (rs_RequiredBindingKey role)
            \<or> TrimSpace (asg_ProfileID assignment) = [] then notEligible
         else (case svc_bindingEligibility v of
             None \<Rightarrow> notEligible
           | Some bindingActive \<Rightarrow>
               bind (bindingActive (svc_workspace v) (asg_BindingKey assignment) (asg_ProfileID assignment) (asg_UserID assignment))
                 (\<lambda>active. if active then Inr () else notEligible)))
      else Inr ())"

definition publishedByID :: "svc \<Rightarrow> IdentityRole list \<Rightarrow> (string, RoleSchema) gomap" where
  "publishedByID v roles =
     putAll [] (concat (map (\<lambda>r. case publishedRoleDefinition v r of None \<Rightarrow> [] | Some d \<Rightarrow> [(role_ID r, d)]) roles))"

definition rolesConflict :: "RoleSchema \<Rightarrow> RoleSchema \<Rightarrow> bool" where
  "rolesConflict a b \<longleftrightarrow> identityStringSliceContains (rs_ConflictRoleKeys a) (rs_Key b)
     \<or> identityStringSliceContains (rs_ConflictRoleKeys b) (rs_Key a)"

definition validateRoleConflictsAgainstAssignments ::
  "env \<Rightarrow> svc \<Rightarrow> RoleSchema \<Rightarrow> IdentityUserRoleAssignment list \<Rightarrow> IdentityRole list \<Rightarrow> unit res" where
  "validateRoleConflictsAgainstAssignments e v target assignments roles =
     (let byID = publishedByID v roles in
      if list_ex (\<lambda>a. identityAssignmentActive a (nowInstant e) \<and>
            (case map_of byID (asg_RoleID a) of
               None \<Rightarrow> False
             | Some existing \<Rightarrow> rs_Key existing \<in> TrimSpace ` set (rs_ConflictRoleKeys target)
                 \<or> identityStringSliceContains (rs_ConflictRoleKeys existing) (rs_Key target))) assignments
      then Inl (forbidden e ''backend.identity.role_conflict'' []) else Inr ())"

definition validateRoleConflicts :: "env \<Rightarrow> svc \<Rightarrow> store \<Rightarrow> string \<Rightarrow> RoleSchema \<Rightarrow> unit res" where
  "validateRoleConflicts e v s userID target =
     bind (ListIdentityUserRoleAssignments s (svc_workspace v) userID) (\<lambda>assignments.
     bind (ListIdentityRoles s (svc_workspace v)) (\<lambda>roles.
       validateRoleConflictsAgainstAssignments e v target assignments roles))"

definition validateRoleEligibility ::
  "env \<Rightarrow> svc \<Rightarrow> store \<Rightarrow> IdentityUserRoleAssignment \<Rightarrow> RoleSchema \<Rightarrow> bool \<Rightarrow> unit res" where
  "validateRoleEligibility e v s assignment role fromApprovedRequest =
     bind (validateRoleEligibilityWithoutConflicts e v assignment role fromApprovedRequest) (\<lambda>_.
       validateRoleConflicts e v s (asg_UserID assignment) role)"

subsection \<open>Assigning\<close>

definition configurationOf :: "env \<Rightarrow> issue list res \<Rightarrow> unit res" where
  "configurationOf e r = bind r (\<lambda>issues. case FirstConfigurationError e issues of Some err \<Rightarrow> Inl err | None \<Rightarrow> Inr ())"

definition prepareManualRoleAssignment ::
  "env \<Rightarrow> svc \<Rightarrow> store \<Rightarrow> IdentityUserRoleAssignment \<Rightarrow> bool \<Rightarrow> (IdentityUserRoleAssignment \<times> RoleSchema) res" where
  "prepareManualRoleAssignment e v s assignment deferConflictCheck =
     bind (configurationOf e (ValidateRoleAssignmentConfiguration e s (svc_workspace v) assignment)) (\<lambda>_.
     bind (RoleByID s (svc_workspace v) (TrimSpace (asg_RoleID assignment))) (\<lambda>found.
       (case found of
          None \<Rightarrow> Inl (badRequest e ''backend.identity.role_not_found'' [''role'', asg_RoleID assignment])
        | Some role \<Rightarrow>
           (let definition = (case publishedRoleDefinition v role of
                  Some d \<Rightarrow> d
                | None \<Rightarrow> unpublishedRole (valueOrDefault (role_Key role) (role_ID role)) IdentityRoleRiskNormal) in
            bind (validateRoleEligibilityWithoutConflicts e v assignment definition False) (\<lambda>_.
            bind (if deferConflictCheck then Inr () else validateRoleConflicts e v s (asg_UserID assignment) definition) (\<lambda>_.
              Inr (assignment\<lparr>asg_Source := ''manual'', asg_Status := ''active''\<rparr>, definition)))))))"

definition AssignUserRole :: "env \<Rightarrow> svc \<Rightarrow> store \<Rightarrow> IdentityUserRoleAssignment \<Rightarrow> unit res \<times> store" where
  "AssignUserRole e v s assignment =
     (case prepareManualRoleAssignment e v s assignment False of
        Inl err \<Rightarrow> (Inl err, s)
      | Inr (prepared, _) \<Rightarrow> AssignIdentityUserRole s (svc_workspace v) prepared)"

definition dataScopeDenied :: "env \<Rightarrow> go_error" where
  "dataScopeDenied e = forbidden e ''backend.identity.data_scope_denied'' []"

definition AssignUserRoleWithinDataScope ::
  "env \<Rightarrow> svc \<Rightarrow> store \<Rightarrow> IdentityUserRoleAssignment \<Rightarrow> IdentityDataScopeFilter \<Rightarrow> unit res \<times> store" where
  "AssignUserRoleWithinDataScope e v s assignment scope =
     (case prepareManualRoleAssignment e v s assignment False of
        Inl err \<Rightarrow> (Inl err, s)
      | Inr (prepared, _) \<Rightarrow>
          requireDone (dataScopeDenied e) (AssignIdentityUserRoleWithinDataScope s (svc_workspace v) prepared scope))"

definition assignSystemManagedRole ::
  "env \<Rightarrow> svc \<Rightarrow> store \<Rightarrow> IdentityUserRoleAssignment \<Rightarrow> bool \<Rightarrow> unit res \<times> store" where
  "assignSystemManagedRole e v s assignment bindingAlreadyResolved =
     (let notEligible = forbidden e ''backend.identity.business_role_eligibility_required'' [] in
      case bind (RoleByID s (svc_workspace v) (TrimSpace (asg_RoleID assignment))) (\<lambda>found.
        (case found of
           None \<Rightarrow> Inl (badRequest e ''backend.identity.role_not_found'' [''role'', asg_RoleID assignment])
         | Some role \<Rightarrow>
            (case publishedRoleDefinition v role of
               None \<Rightarrow> Inl (forbidden e ''backend.identity.system_managed_role_required'' [])
             | Some definition \<Rightarrow>
                if rs_AssignmentMode definition \<noteq> IdentityRoleAssignmentSystemManaged
                   \<or> rs_Audience definition \<noteq> IdentityRoleAudienceBusiness
                then Inl (forbidden e ''backend.identity.system_managed_role_required'' [])
                else if TrimSpace (asg_BindingKey assignment) \<noteq> TrimSpace (rs_RequiredBindingKey definition)
                   \<or> TrimSpace (asg_ProfileID assignment) = [] then Inl notEligible
                else bind (if bindingAlreadyResolved then Inr True
                           else (case svc_bindingEligibility v of
                               None \<Rightarrow> Inl notEligible
                             | Some bindingActive \<Rightarrow>
                                 bindingActive (svc_workspace v) (asg_BindingKey assignment) (asg_ProfileID assignment) (asg_UserID assignment)))
                       (\<lambda>active. if \<not> active then Inl notEligible
                         else validateRoleConflicts e v s (asg_UserID assignment) definition)))) of
        Inl err \<Rightarrow> (Inl err, s)
      | Inr _ \<Rightarrow> AssignIdentityUserRole s (svc_workspace v)
                  (assignment\<lparr>asg_Source := ''profile_binding'', asg_Status := ''active''\<rparr>))"

definition AssignSystemManagedRole :: "env \<Rightarrow> svc \<Rightarrow> store \<Rightarrow> IdentityUserRoleAssignment \<Rightarrow> unit res \<times> store" where
  "AssignSystemManagedRole e v s assignment = assignSystemManagedRole e v s assignment False"

subsection \<open>Revoking\<close>

definition systemManagedRole :: "svc \<Rightarrow> IdentityRole option \<Rightarrow> bool" where
  "systemManagedRole v found =
     (case found of None \<Rightarrow> False
      | Some role \<Rightarrow> (case publishedRoleDefinition v role of None \<Rightarrow> False
          | Some d \<Rightarrow> rs_AssignmentMode d = IdentityRoleAssignmentSystemManaged))"

definition revokedAssignment :: "env \<Rightarrow> string \<Rightarrow> string \<Rightarrow> IdentityUserRoleAssignment \<Rightarrow> IdentityUserRoleAssignment" where
  "revokedAssignment e actorID reason a =
     a\<lparr>asg_Status := ''revoked'', asg_RevokedAt := nowString e, asg_RevokedBy := TrimSpace actorID,
       asg_RevokeReason := valueOrDefault (TrimSpace reason) ''manual_removal''\<rparr>"

definition removeUserRole :: "env \<Rightarrow> svc \<Rightarrow> store \<Rightarrow> string \<Rightarrow> string \<Rightarrow> string \<Rightarrow> string \<Rightarrow> unit res \<times> store" where
  "removeUserRole e v s userID roleID actorID reason =
     (case bind (RoleByID s (svc_workspace v) (TrimSpace roleID)) (\<lambda>found.
             if systemManagedRole v found
             then Inl (forbidden e ''backend.identity.system_managed_role_assignment_denied'' [])
             else ListIdentityUserRoleAssignments s (svc_workspace v) userID) of
        Inl err \<Rightarrow> (Inl err, s)
      | Inr assignments \<Rightarrow>
         (case find (\<lambda>a. asg_RoleID a = roleID \<and> identityAssignmentActive a (nowInstant e)) assignments of
            Some a \<Rightarrow> AssignIdentityUserRole s (svc_workspace v) (revokedAssignment e actorID reason a)
          | None \<Rightarrow> RemoveIdentityUserRole s (svc_workspace v) userID roleID))"

definition RemoveUserRole :: "env \<Rightarrow> svc \<Rightarrow> store \<Rightarrow> string \<Rightarrow> string \<Rightarrow> unit res \<times> store" where
  "RemoveUserRole e v s userID roleID = removeUserRole e v s userID roleID [] ''manual_removal''"

definition removeUserRoleWithinDataScope ::
  "env \<Rightarrow> svc \<Rightarrow> store \<Rightarrow> string \<Rightarrow> string \<Rightarrow> string \<Rightarrow> string \<Rightarrow> IdentityDataScopeFilter \<Rightarrow> unit res \<times> store" where
  "removeUserRoleWithinDataScope e v s userID roleID actorID reason scope =
     (case bind (RoleByID s (svc_workspace v) (TrimSpace roleID)) (\<lambda>found.
             if systemManagedRole v found
             then Inl (forbidden e ''backend.identity.system_managed_role_assignment_denied'' [])
             else ListIdentityUserRoleAssignmentsWithinDataScope s (svc_workspace v) userID scope) of
        Inl err \<Rightarrow> (Inl err, s)
      | Inr assignments \<Rightarrow>
         (case find (\<lambda>a. asg_RoleID a = roleID \<and> identityAssignmentActive a (nowInstant e)) assignments of
            Some a \<Rightarrow> requireDone (dataScopeDenied e)
              (AssignIdentityUserRoleWithinDataScope s (svc_workspace v) (revokedAssignment e actorID reason a) scope)
          | None \<Rightarrow> requireDone (dataScopeDenied e)
              (RemoveIdentityUserRoleWithinDataScope s (svc_workspace v) userID roleID scope)))"

definition RemoveUserRoleGoverned ::
  "env \<Rightarrow> svc \<Rightarrow> store \<Rightarrow> string \<Rightarrow> string \<Rightarrow> string \<Rightarrow> Principal \<Rightarrow> unit res \<times> store" where
  "RemoveUserRoleGoverned e v s userID roleID reason actor =
     (case UserByIDWithinDataScope e s (svc_workspace v) (TrimSpace userID) actor IdentityUserRoleAssignmentsRevokePermission of
        Inl err \<Rightarrow> (Inl err, s)
      | Inr None \<Rightarrow> (Inl (badRequest e ''backend.identity.user_not_found'' [''user'', userID]), s)
      | Inr (Some _) \<Rightarrow> removeUserRoleWithinDataScope e v s userID roleID (prin_UserID actor) reason
          (IdentityPermissionDataScopeFilter e actor IdentityUserRoleAssignmentsRevokePermission))"

subsection \<open>Roles an actor may assign\<close>

definition identityPrivilegedAutoAssignableRole :: "svc \<Rightarrow> IdentityRole \<Rightarrow> bool" where
  "identityPrivilegedAutoAssignableRole v role =
     (case publishedRoleDefinition v role of None \<Rightarrow> False | Some d \<Rightarrow> rs_RiskLevel d = IdentityRoleRiskPrivileged)"

definition mayGrant :: "Principal \<Rightarrow> RoleSchema \<Rightarrow> bool" where
  "mayGrant actor definition \<longleftrightarrow> identityStringSliceContains (rs_GrantableRoleKeys (prin_Role actor)) ''*''
     \<or> identityStringSliceContains (rs_GrantableRoleKeys (prin_Role actor)) (rs_Key definition)"

definition riskOf :: "RoleSchema \<Rightarrow> string" where
  "riskOf d = (if rs_RiskLevel d = [] then IdentityRoleRiskNormal else rs_RiskLevel d)"

text \<open>Whether a published role passes the filters of the listing before the conflict check.\<close>

definition roleOffered :: "svc \<Rightarrow> Principal \<Rightarrow> string \<Rightarrow> string list \<Rightarrow> IdentityRole \<Rightarrow> RoleSchema \<Rightarrow> bool" where
  "roleOffered v actor targetUserID activeBindings role definition \<longleftrightarrow>
     \<not> identityPrivilegedAutoAssignableRole v role
     \<and> rs_AssignmentMode definition \<noteq> IdentityRoleAssignmentSystemManaged
     \<and> rs_AssignmentMode definition \<noteq> IdentityRoleAssignmentRequestOnly
     \<and> \<not> (riskOf definition \<noteq> IdentityRoleRiskNormal \<and> \<not> mayGrant actor definition)
     \<and> \<not> (riskOf definition = IdentityRoleRiskPrivileged \<and> prin_UserID actor = targetUserID)
     \<and> (if rs_Audience definition = IdentityRoleAudienceBusiness
        then TrimSpace (rs_RequiredBindingKey definition) \<in> set activeBindings
        else rs_Audience definition \<noteq> IdentityRoleAudienceService)"

fun offerLoop ::
  "env \<Rightarrow> svc \<Rightarrow> Principal \<Rightarrow> string \<Rightarrow> string list \<Rightarrow> IdentityUserRoleAssignment list \<Rightarrow> IdentityRole list \<Rightarrow> IdentityRole list
   \<Rightarrow> IdentityRole list res" where
  "offerLoop e v actor target bindings assignments roles [] = Inr []"
| "offerLoop e v actor target bindings assignments roles (r # rs) =
     (case publishedRoleDefinition v r of
        None \<Rightarrow> offerLoop e v actor target bindings assignments roles rs
      | Some d \<Rightarrow>
          if \<not> roleOffered v actor target bindings r d then offerLoop e v actor target bindings assignments roles rs
          else (case validateRoleConflictsAgainstAssignments e v d assignments roles of
              Inl err \<Rightarrow> if CodeOf err = ''backend.identity.role_conflict''
                         then offerLoop e v actor target bindings assignments roles rs else Inl err
            | Inr _ \<Rightarrow> bind (offerLoop e v actor target bindings assignments roles rs) (\<lambda>out. Inr (r # out))))"

definition offeredLess :: "IdentityRole \<Rightarrow> IdentityRole \<Rightarrow> bool" where
  "offeredLess a b \<longleftrightarrow> (if role_Label a = role_Label b then role_Key a < role_Key b else role_Label a < role_Label b)"

definition ListUserRoleAssignmentsWithinDataScope ::
  "env \<Rightarrow> svc \<Rightarrow> store \<Rightarrow> string \<Rightarrow> Principal \<Rightarrow> string \<Rightarrow> IdentityUserRoleAssignment list res" where
  "ListUserRoleAssignmentsWithinDataScope e v s userID actor permissionKey =
     ListIdentityUserRoleAssignmentsWithinDataScope s (svc_workspace v) (TrimSpace userID)
       (IdentityPermissionDataScopeFilter e actor permissionKey)"

definition ListAssignableRoles :: "env \<Rightarrow> svc \<Rightarrow> store \<Rightarrow> string \<Rightarrow> Principal \<Rightarrow> IdentityRole list res" where
  "ListAssignableRoles e v s targetUserID0 actor =
     (let targetUserID = TrimSpace targetUserID0; w = svc_workspace v in
      if targetUserID = [] then Inl (badRequest e ''backend.identity.user_required'' [])
      else bind (UserByIDWithinDataScope e s w targetUserID actor IdentityUserRoleAssignmentsAssignableRolesPermission) (\<lambda>target.
        (case target of
           None \<Rightarrow> Inr []
         | Some user \<Rightarrow>
            if user_Status user \<noteq> IdentityStatusActive then Inr []
            else bind (ListIdentityProfileBindingsByUser s w targetUserID) (\<lambda>bindings.
              bind (ListIdentityRoles s w) (\<lambda>roles.
              bind (ListUserRoleAssignmentsWithinDataScope e v s targetUserID actor
                      IdentityUserRoleAssignmentsAssignableRolesPermission) (\<lambda>assignments.
              bind (offerLoop e v actor targetUserID
                      (map (\<lambda>b. TrimSpace (bnd_BindingKey b)) (filter (\<lambda>b. bnd_Status b = ''active'') bindings))
                      assignments roles roles) (\<lambda>out.
                Inr (sortSlice offeredLess out))))))))"

subsection \<open>Reconciliation of system-managed roles\<close>

definition reconcilesRole :: "svc \<Rightarrow> string \<Rightarrow> IdentityRole \<Rightarrow> bool" where
  "reconcilesRole v bindingKey role =
     (case publishedRoleDefinition v role of
        None \<Rightarrow> False
      | Some d \<Rightarrow> \<not> identityPrivilegedAutoAssignableRole v role
          \<and> rs_AssignmentMode d = IdentityRoleAssignmentSystemManaged
          \<and> rs_Audience d = IdentityRoleAudienceBusiness \<and> TrimSpace (rs_RequiredBindingKey d) = bindingKey)"

definition profileAssignment :: "string \<Rightarrow> string \<Rightarrow> string \<Rightarrow> string \<Rightarrow> IdentityUserRoleAssignment" where
  "profileAssignment userID roleID bindingKey profileID =
     \<lparr>asg_UserID = userID, asg_RoleID = roleID, asg_BindingKey = bindingKey, asg_ProfileID = profileID, asg_Source = [],
      asg_Status = [], asg_ValidFrom = [], asg_ValidUntil = [], asg_GrantedBy = [], asg_GrantReason = [],
      asg_RevokedBy = [], asg_RevokedAt = [], asg_RevokeReason = [], asg_CreatedAt = [], asg_UpdatedAt = [], asg_ExpiresAt = None\<rparr>"

fun reconcileLoop :: "env \<Rightarrow> svc \<Rightarrow> store \<Rightarrow> IdentityUserRoleAssignment list \<Rightarrow> unit res \<times> store" where
  "reconcileLoop e v s [] = (Inr (), s)"
| "reconcileLoop e v s (a # as) =
     (case assignSystemManagedRole e v s a True of
        (Inl err, s') \<Rightarrow> (Inl err, s')
      | (Inr _, s') \<Rightarrow> reconcileLoop e v s' as)"

definition ReconcileSystemManagedBusinessRoles :: "env \<Rightarrow> svc \<Rightarrow> store \<Rightarrow> string \<Rightarrow> unit res \<times> store" where
  "ReconcileSystemManagedBusinessRoles e v s userID0 =
     (let userID = TrimSpace userID0 in
      case svc_businessProfiles v of
        None \<Rightarrow> (Inr (), s)
      | Some resolver \<Rightarrow>
          if userID = [] then (Inr (), s)
          else (case bind (resolver (svc_workspace v) userID) (\<lambda>profiles.
                   bind (ListIdentityRoles s (svc_workspace v)) (\<lambda>roles. Inr (profiles, roles))) of
              Inl err \<Rightarrow> (Inl err, s)
            | Inr (profiles, roles) \<Rightarrow>
                reconcileLoop e v s (concat (map (\<lambda>p.
                  (let bindingKey = TrimSpace (prof_BindingKey p); profileID = TrimSpace (prof_ProfileID p) in
                   if bindingKey = [] \<or> profileID = [] then []
                   else map (\<lambda>r. profileAssignment userID (role_ID r) bindingKey profileID)
                          (filter (reconcilesRole v bindingKey) roles))) profiles))))"

end
