(* ===== verification/Entitlements.thy ===== *)
theory Entitlements
  imports Roles
begin

section \<open>The identity domain service: role requests and entitlement batches\<close>

text \<open>
  \<open>service/identity_role_request_service.go\<close>, \<open>service/identity_entitlement_batch.go\<close>
  and \<open>service/identity_user_roles_atomic.go\<close>: the request and review of roles, the
  preparation of a batch of grants and revocations, and the replacement of a user's exact
  set of roles.
\<close>

abbreviation IdentityRoleRequestsApprovePermission :: string where
  "IdentityRoleRequestsApprovePermission \<equiv> ''identity.role_requests.approve''"
abbreviation IdentityRoleRequestsRejectPermission :: string where
  "IdentityRoleRequestsRejectPermission \<equiv> ''identity.role_requests.reject''"
abbreviation IdentityEntitlementsBatchPermission :: string where
  "IdentityEntitlementsBatchPermission \<equiv> ''identity.entitlements.batch''"
abbreviation IdentityUserRoleAssignmentsAccountUpdatePermission :: string where
  "IdentityUserRoleAssignmentsAccountUpdatePermission \<equiv> ''identity.user_role_assignments.account_and_roles_update''"

subsection \<open>Final state of a set of assignments\<close>

definition identityEntitlementAssignmentKey :: "string \<Rightarrow> string \<Rightarrow> string" where
  "identityEntitlementAssignmentKey userID roleID = TrimSpace userID @ NUL @ TrimSpace roleID"

text \<open>The nested loops over the sorted roles: some pair conflicts.\<close>

fun somePairConflicts :: "RoleSchema list \<Rightarrow> bool" where
  "somePairConflicts [] = False"
| "somePairConflicts (d # ds) = (list_ex (rolesConflict d) ds \<or> somePairConflicts ds)"

definition activeDefinitions ::
  "(string, IdentityUserRoleAssignment) gomap \<Rightarrow> (string, RoleSchema) gomap \<Rightarrow> int \<Rightarrow> string \<Rightarrow> RoleSchema list" where
  "activeDefinitions final definitions now userID =
     concat (map (\<lambda>(k, a). if identityAssignmentActive a now \<and> asg_UserID a = userID
       then (case map_of definitions (asg_RoleID a) of None \<Rightarrow> [] | Some d \<Rightarrow> [d]) else []) final)"

definition validateIdentityEntitlementFinalState ::
  "env \<Rightarrow> (string, IdentityUserRoleAssignment) gomap \<Rightarrow> (string, RoleSchema) gomap \<Rightarrow> int \<Rightarrow> unit res" where
  "validateIdentityEntitlementFinalState e final definitions now =
     (if list_ex (\<lambda>u. somePairConflicts (sortSlice (\<lambda>a b. rs_Key a < rs_Key b) (activeDefinitions final definitions now u)))
           (remdups (map (\<lambda>(k, a). asg_UserID a) final))
      then Inl (forbidden e ''backend.identity.role_conflict'' []) else Inr ())"

definition finalAssignments ::
  "IdentityUserRoleAssignment list \<Rightarrow> IdentityUserRoleAssignment list \<Rightarrow> (string, IdentityUserRoleAssignment) gomap" where
  "finalAssignments current assignments =
     putAll [] (map (\<lambda>a. (identityEntitlementAssignmentKey (asg_UserID a) (asg_RoleID a), a)) (current @ assignments))"

subsection \<open>Requesting roles\<close>

definition ListRequestableRoles :: "svc \<Rightarrow> store \<Rightarrow> IdentityRole list res" where
  "ListRequestableRoles v s =
     bind (ListIdentityRoles s (svc_workspace v)) (\<lambda>roles.
       Inr (filter (\<lambda>r. case publishedRoleDefinition v r of
              None \<Rightarrow> False
            | Some d \<Rightarrow> rs_AssignmentMode d \<noteq> IdentityRoleAssignmentSystemManaged
                \<and> \<not> (identityPrivilegedAutoAssignableRole v r \<and> rs_AssignmentMode d \<noteq> IdentityRoleAssignmentRequestOnly)) roles))"

fun requestedRoleIDs :: "env \<Rightarrow> (string, IdentityRole) gomap \<Rightarrow> string list \<Rightarrow> string list \<Rightarrow> string list res" where
  "requestedRoleIDs e assignable seen [] = Inr []"
| "requestedRoleIDs e assignable seen (r # rs) =
     (case map_of assignable (TrimSpace r) of
        None \<Rightarrow> Inl (badRequest e ''backend.identity.role_not_found'' [''role'', TrimSpace r])
      | Some role \<Rightarrow>
          if role_ID role \<in> set seen then requestedRoleIDs e assignable seen rs
          else bind (requestedRoleIDs e assignable (role_ID role # seen) rs) (\<lambda>out. Inr (role_ID role # out)))"

definition CreateRoleRequest :: "env \<Rightarrow> svc \<Rightarrow> store \<Rightarrow> IdentityRoleRequest \<Rightarrow> IdentityRoleRequest res \<times> store" where
  "CreateRoleRequest e v s request0 =
     (let request = request0\<lparr>req_UserID := TrimSpace (req_UserID request0)\<rparr> in
      if req_UserID request = [] then (Inl (badRequest e ''backend.identity.user_required'' []), s)
      else (case bind (userByID s (svc_workspace v) (req_UserID request)) (\<lambda>found.
              (case found of
                 None \<Rightarrow> Inl (forbidden e ''auth.user_disabled'' [])
               | Some user \<Rightarrow>
                  if user_Status user \<noteq> IdentityStatusActive then Inl (forbidden e ''auth.user_disabled'' [])
                  else bind (ListRequestableRoles v s) (\<lambda>roles.
                    bind (requestedRoleIDs e
                            (putAll [] (concat (map (\<lambda>r. [(role_ID r, r), (role_Key r, r)]) roles))) [] (req_RoleIDs request))
                      (\<lambda>ids. if ids = [] then Inl (badRequest e ''backend.identity.role_required'' []) else Inr ids)))) of
          Inl err \<Rightarrow> (Inl err, s)
        | Inr roleIDs \<Rightarrow> CreateIdentityRoleRequest s (svc_workspace v)
            (request\<lparr>req_RoleIDs := roleIDs,
                     req_RequestedBy := valueOrDefault (TrimSpace (req_RequestedBy request)) (req_UserID request),
                     req_Provider := TrimSpace (req_Provider request),
                     req_ProviderSubject := TrimSpace (req_ProviderSubject request),
                     req_Status := valueOrDefault (TrimSpace (req_Status request)) ''pending'',
                     req_Reason := TrimSpace (req_Reason request)\<rparr>)))"

definition ListRoleRequests :: "svc \<Rightarrow> store \<Rightarrow> string \<Rightarrow> string \<Rightarrow> IdentityRoleRequest list res" where
  "ListRoleRequests v s status userID =
     ListIdentityRoleRequests s (svc_workspace v) (TrimSpace status) (TrimSpace userID)"

definition ListRoleRequestsWithinDataScope ::
  "env \<Rightarrow> svc \<Rightarrow> store \<Rightarrow> string \<Rightarrow> string \<Rightarrow> Principal \<Rightarrow> string \<Rightarrow> IdentityRoleRequest list res" where
  "ListRoleRequestsWithinDataScope e v s status userID actor permissionKey =
     ListIdentityRoleRequestsWithinDataScope s (svc_workspace v) (TrimSpace status) (TrimSpace userID)
       (IdentityPermissionDataScopeFilter e actor permissionKey)"

subsection \<open>Reviewing requests\<close>

text \<open>\<open>reviewer\<close> is the optional principal; with it the lookup and the decision are scoped.\<close>

definition roleRequestFor ::
  "env \<Rightarrow> svc \<Rightarrow> store \<Rightarrow> string \<Rightarrow> Principal option \<Rightarrow> string \<Rightarrow> IdentityRoleRequest option res" where
  "roleRequestFor e v s requestID0 reviewer permissionKey =
     (let requestID = TrimSpace requestID0 in
      if requestID = [] then Inr None
      else bind (case reviewer of
                   None \<Rightarrow> ListIdentityRoleRequests s (svc_workspace v) [] []
                 | Some actor \<Rightarrow> ListRoleRequestsWithinDataScope e v s [] [] actor permissionKey)
             (\<lambda>requests. Inr (find (\<lambda>r. req_ID r = requestID) requests)))"

definition pendingRequest ::
  "env \<Rightarrow> svc \<Rightarrow> store \<Rightarrow> string \<Rightarrow> Principal option \<Rightarrow> string \<Rightarrow> IdentityRoleRequest res" where
  "pendingRequest e v s requestID reviewer permissionKey =
     bind (roleRequestFor e v s requestID reviewer permissionKey) (\<lambda>found.
       (case found of
          None \<Rightarrow> Inl (badRequest e ''backend.identity.role_request_not_found'' [])
        | Some request \<Rightarrow>
            if req_Status request \<noteq> ''pending'' then Inl (badRequest e ''backend.identity.role_request_not_pending'' [])
            else Inr request))"

definition highRisk :: "RoleSchema \<Rightarrow> bool" where
  "highRisk d \<longleftrightarrow> rs_RiskLevel d = IdentityRoleRiskElevated \<or> rs_RiskLevel d = IdentityRoleRiskPrivileged"

definition reviewerCheck ::
  "env \<Rightarrow> IdentityRoleRequest \<Rightarrow> string \<Rightarrow> Principal option \<Rightarrow> RoleSchema \<Rightarrow> unit res" where
  "reviewerCheck e request reviewerID reviewer definition =
     (if \<not> highRisk definition then Inr ()
      else if reviewerID = TrimSpace (req_RequestedBy request)
      then Inl (forbidden e ''backend.identity.role_request_maker_checker_required'' [])
      else (case reviewer of
          None \<Rightarrow> Inl (forbidden e ''backend.identity.role_request_reviewer_principal_required'' [])
        | Some p \<Rightarrow>
            if \<not> prin_Known p \<or> TrimSpace (prin_UserID p) \<noteq> reviewerID
            then Inl (forbidden e ''backend.identity.role_request_reviewer_principal_required'' [])
            else if \<not> mayGrant p definition then Inl (forbidden e ''backend.identity.role_grant_ceiling_exceeded'' [])
            else Inr ()))"

definition requestAssignment :: "IdentityRoleRequest \<Rightarrow> string \<Rightarrow> string \<Rightarrow> IdentityUserRoleAssignment" where
  "requestAssignment request reviewerID roleID =
     (profileAssignment (req_UserID request) roleID [] [])\<lparr>asg_Source := ''governance_request'', asg_Status := ''active'',
        asg_GrantedBy := reviewerID, asg_GrantReason := req_Reason request\<rparr>"

text \<open>One iteration of the loop over the requested roles.\<close>

definition approveRole ::
  "env \<Rightarrow> svc \<Rightarrow> store \<Rightarrow> IdentityRoleRequest \<Rightarrow> string \<Rightarrow> Principal option \<Rightarrow> string
   \<Rightarrow> (IdentityUserRoleAssignment \<times> RoleSchema) res" where
  "approveRole e v s request reviewerID reviewer roleID =
     bind (RoleByID s (svc_workspace v) roleID) (\<lambda>found.
       (case found of
          None \<Rightarrow> Inl (badRequest e ''backend.identity.role_not_found'' [''role'', roleID])
        | Some role \<Rightarrow>
           (let definition = (case publishedRoleDefinition v role of
                  Some d \<Rightarrow> d | None \<Rightarrow> unpublishedRole (valueOrDefault (role_Key role) (role_ID role)) []);
                assignment = requestAssignment request reviewerID roleID in
            if rs_AssignmentMode definition = IdentityRoleAssignmentSystemManaged
            then Inl (forbidden e ''backend.identity.system_managed_role_assignment_denied'' [])
            else bind (reviewerCheck e request reviewerID reviewer definition) (\<lambda>_.
              bind (configurationOf e (ValidateRoleAssignmentConfiguration e s (svc_workspace v) assignment)) (\<lambda>_.
              bind (validateRoleEligibilityWithoutConflicts e v assignment definition True) (\<lambda>_.
                Inr (assignment, definition)))))))"

definition approvalDefinitions ::
  "svc \<Rightarrow> (string \<times> RoleSchema) list \<Rightarrow> IdentityRole list \<Rightarrow> (string, RoleSchema) gomap" where
  "approvalDefinitions v chosen roles =
     foldl (\<lambda>m r. if hasKey m (role_ID r) then m
                  else (case publishedRoleDefinition v r of None \<Rightarrow> m | Some d \<Rightarrow> AList.update (role_ID r) d m))
       (putAll [] chosen) roles"

definition decidedRequest :: "env \<Rightarrow> string \<Rightarrow> string \<Rightarrow> string \<Rightarrow> IdentityRoleRequest \<Rightarrow> IdentityRoleRequest" where
  "decidedRequest e status reviewerID note request =
     request\<lparr>req_Status := status, req_ReviewedBy := reviewerID, req_ReviewedAt := nowString e,
             req_ReviewNote := TrimSpace note, req_UpdatedAt := nowString e\<rparr>"

definition applyDecision ::
  "env \<Rightarrow> svc \<Rightarrow> store \<Rightarrow> IdentityRoleRequest \<Rightarrow> IdentityUserRoleAssignment list \<Rightarrow> Principal option \<Rightarrow> string
   \<Rightarrow> IdentityRoleRequest res \<times> store" where
  "applyDecision e v s request assignments reviewer permissionKey =
     (case (case reviewer of
              None \<Rightarrow> ApplyIdentityRoleRequestDecision s (svc_workspace v) request assignments ''pending''
            | Some p \<Rightarrow> requireDone (dataScopeDenied e)
                (ApplyIdentityRoleRequestDecisionWithinDataScope s (svc_workspace v) request assignments ''pending''
                   (IdentityPermissionDataScopeFilter e p permissionKey))) of
        (Inl err, s') \<Rightarrow> (Inl err, s')
      | (Inr _, s') \<Rightarrow> (Inr request, s'))"

definition prepareApproval ::
  "env \<Rightarrow> svc \<Rightarrow> store \<Rightarrow> string \<Rightarrow> string \<Rightarrow> Principal option
   \<Rightarrow> (IdentityRoleRequest \<times> IdentityUserRoleAssignment list) res" where
  "prepareApproval e v s requestID reviewerID reviewer =
     bind (pendingRequest e v s requestID reviewer IdentityRoleRequestsApprovePermission) (\<lambda>request.
       if reviewerID = [] \<or> reviewerID = TrimSpace (req_UserID request)
       then Inl (forbidden e ''backend.identity.role_request_self_approval_denied'' [])
       else bind (mapRes (approveRole e v s request reviewerID reviewer) (req_RoleIDs request)) (\<lambda>prepared.
         bind (case reviewer of
                 Some p \<Rightarrow> ListIdentityUserRoleAssignmentsWithinDataScope s (svc_workspace v) (req_UserID request)
                             (IdentityPermissionDataScopeFilter e p IdentityRoleRequestsApprovePermission)
               | None \<Rightarrow> ListIdentityUserRoleAssignments s (svc_workspace v) (req_UserID request)) (\<lambda>current.
         bind (ListIdentityRoles s (svc_workspace v)) (\<lambda>roles.
         bind (validateIdentityEntitlementFinalState e (finalAssignments current (map fst prepared))
                 (approvalDefinitions v (zip (req_RoleIDs request) (map snd prepared)) roles) (nowInstant e)) (\<lambda>_.
           Inr (request, map fst prepared))))))"

definition ApproveRoleRequest ::
  "env \<Rightarrow> svc \<Rightarrow> store \<Rightarrow> string \<Rightarrow> string \<Rightarrow> string \<Rightarrow> Principal option \<Rightarrow> IdentityRoleRequest res \<times> store" where
  "ApproveRoleRequest e v s requestID reviewerID0 note reviewer =
     (let reviewerID = TrimSpace reviewerID0 in
      case prepareApproval e v s requestID reviewerID reviewer of
        Inl err \<Rightarrow> (Inl err, s)
      | Inr (request, assignments) \<Rightarrow>
          applyDecision e v s (decidedRequest e ''approved'' reviewerID note request) assignments reviewer
            IdentityRoleRequestsApprovePermission)"

definition rejectRoleRequest ::
  "env \<Rightarrow> svc \<Rightarrow> store \<Rightarrow> string \<Rightarrow> string \<Rightarrow> string \<Rightarrow> Principal option \<Rightarrow> IdentityRoleRequest res \<times> store" where
  "rejectRoleRequest e v s requestID reviewerID note reviewer =
     (case pendingRequest e v s requestID reviewer IdentityRoleRequestsRejectPermission of
        Inl err \<Rightarrow> (Inl err, s)
      | Inr request \<Rightarrow>
          applyDecision e v s (decidedRequest e ''rejected'' (TrimSpace reviewerID) note request) [] reviewer
            IdentityRoleRequestsRejectPermission)"

subsection \<open>Entitlement batches\<close>

definition normalizeIdentityEntitlementBatchItem :: "IdentityEntitlementBatchItem \<Rightarrow> IdentityEntitlementBatchItem" where
  "normalizeIdentityEntitlementBatchItem i =
     \<lparr>item_Operation = TrimSpace (item_Operation i), item_UserID = TrimSpace (item_UserID i),
      item_RoleID = TrimSpace (item_RoleID i), item_BindingKey = TrimSpace (item_BindingKey i),
      item_ProfileID = TrimSpace (item_ProfileID i), item_ValidFrom = TrimSpace (item_ValidFrom i),
      item_ValidUntil = TrimSpace (item_ValidUntil i), item_Reason = TrimSpace (item_Reason i)\<rparr>"

definition validateIdentityEntitlementGrantCeiling ::
  "env \<Rightarrow> Principal \<Rightarrow> IdentityUserRoleAssignment \<Rightarrow> RoleSchema \<Rightarrow> unit res" where
  "validateIdentityEntitlementGrantCeiling e actor assignment definition =
     (if riskOf definition = IdentityRoleRiskPrivileged \<and> TrimSpace (prin_UserID actor) = TrimSpace (asg_UserID assignment)
      then Inl (forbidden e ''backend.identity.privileged_self_grant_denied'' [])
      else if riskOf definition \<noteq> IdentityRoleRiskNormal \<and> \<not> mayGrant actor definition
      then Inl (forbidden e ''backend.identity.role_grant_ceiling_exceeded'' [])
      else Inr ())"

definition roleDefinitionOf :: "svc \<Rightarrow> IdentityRole \<Rightarrow> RoleSchema" where
  "roleDefinitionOf v role = (case publishedRoleDefinition v role of
      Some d \<Rightarrow> d | None \<Rightarrow> unpublishedRole (valueOrDefault (role_Key role) (role_ID role)) IdentityRoleRiskNormal)"

definition grantAssignment :: "Principal \<Rightarrow> IdentityEntitlementBatchItem \<Rightarrow> IdentityUserRoleAssignment" where
  "grantAssignment actor item =
     (profileAssignment (item_UserID item) (item_RoleID item) (item_BindingKey item) (item_ProfileID item))
       \<lparr>asg_ValidFrom := item_ValidFrom item, asg_ValidUntil := item_ValidUntil item,
        asg_GrantedBy := prin_UserID actor, asg_GrantReason := item_Reason item\<rparr>"

text \<open>The assignment one item leads to, given the final state so far.\<close>

definition batchAssignment ::
  "env \<Rightarrow> svc \<Rightarrow> store \<Rightarrow> Principal \<Rightarrow> (string, IdentityUserRoleAssignment) gomap \<Rightarrow> IdentityRole \<Rightarrow> IdentityEntitlementBatchItem
   \<Rightarrow> IdentityUserRoleAssignment res" where
  "batchAssignment e v s actor final role item =
     (if item_Operation item = ''grant'' then
        bind (prepareManualRoleAssignment e v s (grantAssignment actor item) True) (\<lambda>(assignment, definition).
        bind (validateIdentityEntitlementGrantCeiling e actor assignment definition) (\<lambda>_. Inr assignment))
      else if item_Operation item = ''revoke'' then
        (if rs_AssignmentMode (roleDefinitionOf v role) = IdentityRoleAssignmentSystemManaged
         then Inl (forbidden e ''backend.identity.system_managed_role_assignment_denied'' [])
         else (case map_of final (identityEntitlementAssignmentKey (item_UserID item) (item_RoleID item)) of
             None \<Rightarrow> Inl (badRequest e ''backend.identity.entitlement_not_active'' [''role'', role_ID role])
           | Some existing \<Rightarrow>
               if \<not> identityAssignmentActive existing (nowInstant e)
               then Inl (badRequest e ''backend.identity.entitlement_not_active'' [''role'', role_ID role])
               else Inr (existing\<lparr>asg_Status := ''revoked'', asg_RevokedBy := prin_UserID actor,
                      asg_RevokedAt := nowString e, asg_RevokeReason := item_Reason item\<rparr>)))
      else Inl (badRequest e ''backend.identity.entitlement_batch_operation_invalid'' [''operation'', item_Operation item]))"

text \<open>
  The loop over the items.  The cache of loaded users only saves repeated lookups of the
  same user inside the same scope and is left out.
\<close>

fun batchLoop ::
  "env \<Rightarrow> svc \<Rightarrow> store \<Rightarrow> Principal \<Rightarrow> IdentityDataScopeFilter \<Rightarrow> IdentityRole list \<Rightarrow> string list
   \<Rightarrow> (string, IdentityUserRoleAssignment) gomap \<Rightarrow> IdentityEntitlementBatchItem list
   \<Rightarrow> ((IdentityEntitlementBatchItem \<times> IdentityUserRoleAssignment) list \<times> (string, IdentityUserRoleAssignment) gomap) res" where
  "batchLoop e v s actor scope roles seen final [] = Inr ([], final)"
| "batchLoop e v s actor scope roles seen final (raw # items) =
     (let item = normalizeIdentityEntitlementBatchItem raw;
          key = identityEntitlementAssignmentKey (item_UserID item) (item_RoleID item) in
      if item_UserID item = [] \<or> item_RoleID item = [] \<or> key \<in> set seen
      then Inl (badRequest e ''backend.identity.entitlement_batch_item_invalid'' [''role'', item_RoleID item])
      else bind (GetIdentityUserWithinDataScope s (svc_workspace v) (item_UserID item) scope) (\<lambda>target.
        if target = None then Inl (badRequest e ''backend.identity.user_not_found'' [''user'', item_UserID item])
        else (case map_of (putAll [] (map (\<lambda>r. (role_ID r, r)) roles)) (item_RoleID item) of
            None \<Rightarrow> Inl (badRequest e ''backend.identity.role_not_found'' [''role'', item_RoleID item])
          | Some role \<Rightarrow>
              bind (batchAssignment e v s actor final role item) (\<lambda>assignment.
              bind (batchLoop e v s actor scope roles (key # seen) (AList.update key assignment final) items) (\<lambda>(rest, final').
                Inr ((item, assignment) # rest, final'))))))"

definition PrepareIdentityEntitlementBatchForPermission ::
  "env \<Rightarrow> svc \<Rightarrow> store \<Rightarrow> IdentityEntitlementBatchItem list \<Rightarrow> Principal \<Rightarrow> string
   \<Rightarrow> (IdentityEntitlementBatchItem list \<times> IdentityUserRoleAssignment list) res" where
  "PrepareIdentityEntitlementBatchForPermission e v s items actor permissionKey =
     (let scope = IdentityPermissionDataScopeFilter e actor permissionKey in
      if \<not> prin_Known actor \<or> TrimSpace (prin_UserID actor) = []
      then Inl (forbidden e ''backend.identity.entitlement_actor_required'' [])
      else if items = [] then Inl (badRequest e ''backend.identity.entitlement_batch_empty'' [''items'', []])
      else bind (ListIdentityUserRoleAssignmentsWithinDataScope s (svc_workspace v) [] scope) (\<lambda>current.
        bind (ListIdentityRoles s (svc_workspace v)) (\<lambda>roles.
        bind (batchLoop e v s actor scope roles [] (finalAssignments current []) items) (\<lambda>(prepared, final).
        bind (validateIdentityEntitlementFinalState e final
                (putAll [] (map (\<lambda>r. (role_ID r, roleDefinitionOf v r)) roles)) (nowInstant e)) (\<lambda>_.
          Inr (map fst prepared, map snd prepared))))))"

definition PrepareIdentityEntitlementBatch ::
  "env \<Rightarrow> svc \<Rightarrow> store \<Rightarrow> IdentityEntitlementBatchItem list \<Rightarrow> Principal
   \<Rightarrow> (IdentityEntitlementBatchItem list \<times> IdentityUserRoleAssignment list) res" where
  "PrepareIdentityEntitlementBatch e v s items actor =
     PrepareIdentityEntitlementBatchForPermission e v s items actor IdentityEntitlementsBatchPermission"

subsection \<open>The exact set of a user's roles\<close>

fun exactRolesLoop ::
  "env \<Rightarrow> svc \<Rightarrow> store \<Rightarrow> Principal \<Rightarrow> string \<Rightarrow> string list \<Rightarrow> IdentityUserRoleAssignment list
   \<Rightarrow> (IdentityUserRoleAssignment \<times> RoleSchema) list res" where
  "exactRolesLoop e v s actor userID seen [] = Inr []"
| "exactRolesLoop e v s actor userID seen (raw # as) =
     (let a = raw\<lparr>asg_UserID := userID, asg_RoleID := TrimSpace (asg_RoleID raw)\<rparr> in
      if asg_RoleID a = [] then Inl (badRequest e ''backend.identity.role_required'' [])
      else if asg_RoleID a \<in> set seen then exactRolesLoop e v s actor userID seen as
      else bind (configurationOf e (bind (ValidateRoleAssignmentConfiguration e s (svc_workspace v) a) (\<lambda>issues.
             Inr (filter (\<lambda>i. issue_ErrorCode i \<noteq> ''backend.identity.user_not_found'') issues)))) (\<lambda>_.
        bind (RoleByID s (svc_workspace v) (asg_RoleID a)) (\<lambda>found.
          (case found of
             None \<Rightarrow> Inl (badRequest e ''backend.identity.role_not_found'' [''role'', asg_RoleID a])
           | Some role \<Rightarrow>
              (let definition = (case publishedRoleDefinition v role of
                     Some d \<Rightarrow> d | None \<Rightarrow> unpublishedRole (role_Key role) IdentityRoleRiskNormal) in
               bind (validateRoleEligibilityWithoutConflicts e v a definition False) (\<lambda>_.
                 if riskOf definition = IdentityRoleRiskPrivileged \<and> prin_UserID actor = userID
                 then Inl (forbidden e ''backend.identity.privileged_self_grant_denied'' [])
                 else if riskOf definition \<noteq> IdentityRoleRiskNormal \<and> \<not> mayGrant actor definition
                 then Inl (forbidden e ''backend.identity.role_grant_ceiling_exceeded'' [])
                 else bind (exactRolesLoop e v s actor userID (asg_RoleID a # seen) as) (\<lambda>rest.
                   Inr ((a\<lparr>asg_Source := ''manual'', asg_Status := ''active'', asg_GrantedBy := prin_UserID actor\<rparr>, definition) # rest)))))))) "

definition PrepareUserWithExactRoles ::
  "env \<Rightarrow> svc \<Rightarrow> store \<Rightarrow> IdentityUser \<Rightarrow> IdentityUserRoleAssignment list \<Rightarrow> Principal
   \<Rightarrow> (IdentityUser \<times> IdentityUserRoleAssignment list) res" where
  "PrepareUserWithExactRoles e v s user0 assignments actor =
     bind (prepareUser e s (svc_workspace v) user0) (\<lambda>user.
       if \<not> prin_Known actor \<or> TrimSpace (prin_UserID actor) = []
       then Inl (forbidden e ''backend.identity.entitlement_actor_required'' [])
       else bind (exactRolesLoop e v s actor (user_ID user) [] assignments) (\<lambda>prepared.
         if somePairConflicts (map snd prepared) then Inl (forbidden e ''backend.identity.role_conflict'' [])
         else Inr (user, map fst prepared)))"

definition UpsertUserWithRoles ::
  "env \<Rightarrow> svc \<Rightarrow> store \<Rightarrow> IdentityUser \<Rightarrow> IdentityUserRoleAssignment list \<Rightarrow> Principal \<Rightarrow> unit res \<times> store" where
  "UpsertUserWithRoles e v s user0 assignments actor =
     (let w = svc_workspace v in
      case bind (PrepareUserWithExactRoles e v s user0 assignments actor) (\<lambda>(user, prepared).
             bind (UserByIDWithinDataScope e s w (user_ID user) actor IdentityUserRoleAssignmentsAccountUpdatePermission) (\<lambda>found.
               if found = None then Inl (dataScopeDenied e) else Inr (user, prepared))) of
        Inl err \<Rightarrow> (Inl err, s)
      | Inr (user, prepared) \<Rightarrow>
          requireDone (dataScopeDenied e)
            (UpsertIdentityUserWithRoleAssignmentsWithinDataScopeAtomically e s w user prepared
               (IdentityPermissionDataScopeFilter e actor IdentityUserRoleAssignmentsAccountUpdatePermission)))"

end
