(* ===== verification/Principals.thy ===== *)
theory Principals
  imports Entitlements
begin

section \<open>The identity domain service: principals\<close>

text \<open>
  \<open>service/identity_principal.go\<close>, \<open>identity_authorization.go\<close>,
  \<open>identity_principal_context.go\<close> and \<open>identity_principal_domain_service.go\<close>: the
  compilation of a user's active assignments and published roles into the principal that
  authorizes a request, with its organization, support and reporting scopes.
\<close>

subsection \<open>Tree scopes\<close>

text \<open>Child lists by parent, in the order the pairs are met.\<close>

definition childMap :: "(string \<times> string) list \<Rightarrow> (string, string list) gomap" where
  "childMap pairs = foldl (\<lambda>m (p, c). AList.update p (mapGet [] m p @ [c]) m) [] pairs"

definition allChildren :: "(string, string list) gomap \<Rightarrow> string set" where
  "allChildren children = (\<Union>(k, cs) \<in> set children. set cs)"

lemma mapGet_children: "set (mapGet [] children c) \<subseteq> allChildren children"
proof (cases "map_of children c")
  case (Some cs)
  then have "(c, cs) \<in> set children" by (rule map_of_SomeD)
  then show ?thesis unfolding allChildren_def by (force simp: mapGet_def Some)
qed (simp add: mapGet_def)

function scopeLoop :: "(string, string list) gomap \<Rightarrow> string list \<Rightarrow> string list \<Rightarrow> string list" where
  "scopeLoop children seen [] = seen"
| "scopeLoop children seen (current # queue) =
     (if current = [] \<or> current \<in> set seen then scopeLoop children seen queue
      else scopeLoop children (current # seen) (queue @ mapGet [] children current))"
  by pat_completeness auto

lemma scope_measure:
  assumes "current \<notin> set seen"
  shows "card (set (queue @ mapGet [] children current) \<union> allChildren children - set (current # seen)) <
    card (set (current # queue) \<union> allChildren children - set seen)"
proof (rule psubset_card_mono)
  show "finite (set (current # queue) \<union> allChildren children - set seen)" by (auto simp: allChildren_def)
  show "set (queue @ mapGet [] children current) \<union> allChildren children - set (current # seen)
      \<subset> set (current # queue) \<union> allChildren children - set seen"
    using assms mapGet_children [of children current] by auto
qed

lemma scope_measure_skip:
  "card (set queue \<union> allChildren children - set seen) \<le> card (set (current # queue) \<union> allChildren children - set seen)"
  by (rule card_mono) (auto simp: allChildren_def)

termination scopeLoop
proof (relation "measures [\<lambda>(children, seen, queue). card (set queue \<union> allChildren children - set seen),
    \<lambda>(children, seen, queue). length queue]", goal_cases)
  case (2 children seen current queue)
  show ?case using scope_measure_skip [of queue children seen current] by auto
next
  case (3 children seen current queue)
  then show ?case using scope_measure [of current seen queue children] by simp
qed simp

declare scopeLoop.simps [simp del]

definition identityTreeScopeIDs :: "string \<Rightarrow> (string, string list) gomap \<Rightarrow> string list" where
  "identityTreeScopeIDs rootID0 children =
     (let rootID = TrimSpace rootID0 in
      if rootID = [] then [] else sortStrings (scopeLoop children [] [rootID]))"

definition activeStatus :: "IdentityStatus \<Rightarrow> bool" where
  "activeStatus st \<longleftrightarrow> st = [] \<or> st = IdentityStatusActive"

definition resolveUserOrganization :: "svc \<Rightarrow> store \<Rightarrow> IdentityUser \<Rightarrow> (string \<times> string) res" where
  "resolveUserOrganization v s user =
     (let i = TrimSpace (user_OrgID user) in
      if i = [] then Inr ([], [])
      else bind (ListIdentityOrganizationUnits s (svc_workspace v)) (\<lambda>units.
        (case find (\<lambda>u. TrimSpace (unit_ID u) = i \<and> activeStatus (unit_Status u)) units of
           None \<Rightarrow> Inr ([], [])
         | Some u \<Rightarrow> Inr (i, TrimSpace (unit_Path u)))))"

text \<open>The (parent, child) pairs of the organization units, all of them or the active ones.\<close>

definition unitEdges :: "IdentityOrganizationUnit list \<Rightarrow> (string \<times> string) list" where
  "unitEdges units = map (\<lambda>u. (identityParentID (unit_ParentID u), TrimSpace (unit_ID u)))
     (filter (\<lambda>u. TrimSpace (unit_ID u) \<noteq> [] \<and> identityParentID (unit_ParentID u) \<noteq> []) units)"

definition activeUnits :: "IdentityOrganizationUnit list \<Rightarrow> IdentityOrganizationUnit list" where
  "activeUnits units = filter (\<lambda>u. activeStatus (unit_Status u)) units"

definition reportingEdges :: "IdentityUser list \<Rightarrow> (string \<times> string) list" where
  "reportingEdges users = map (\<lambda>u. (TrimSpace (user_ManagerUserID u), TrimSpace (user_ID u)))
     (filter (\<lambda>u. TrimSpace (user_ManagerUserID u) \<noteq> [] \<and> TrimSpace (user_ID u) \<noteq> []) users)"

definition resolvePrincipalScopeIDs ::
  "svc \<Rightarrow> store \<Rightarrow> string \<Rightarrow> string \<Rightarrow> string \<Rightarrow> (string list \<times> string list \<times> string list) res" where
  "resolvePrincipalScopeIDs v s userID orgID supportOrgID0 =
     bind (if TrimSpace orgID \<noteq> [] \<or> TrimSpace supportOrgID0 \<noteq> []
           then ListIdentityOrganizationUnits s (svc_workspace v) else Inr []) (\<lambda>units.
     bind (ListIdentityUsers s (svc_workspace v)) (\<lambda>users.
       (let supportOrgID = TrimSpace supportOrgID0;
            activeOrgIDs = putAll [] (map (\<lambda>u. (TrimSpace (unit_ID u), activeStatus (unit_Status u)))
                             (filter (\<lambda>u. TrimSpace (unit_ID u) \<noteq> []) units)) in
        Inr (identityTreeScopeIDs (TrimSpace orgID) (childMap (unitEdges units)),
             if mapGet False activeOrgIDs supportOrgID
             then identityTreeScopeIDs supportOrgID (childMap (unitEdges (activeUnits units))) else [],
             identityTreeScopeIDs (TrimSpace userID) (childMap (reportingEdges users))))))"

subsection \<open>Canonical roles\<close>

definition identityUniqueSortedStrings :: "string list \<Rightarrow> string list" where
  "identityUniqueSortedStrings values = sortStrings (remdups (filter (\<lambda>v. v \<noteq> []) (map TrimSpace values)))"

type_synonym grantKey = "string \<times> string \<times> string"

definition grantKeyOf :: "env \<Rightarrow> RolePermission \<Rightarrow> grantKey" where
  "grantKeyOf e g = (grant_PermissionKey g, grant_DataScope g, cod_Policy (env_Codec e) (grant_DataPolicy g))"

definition canonicalGrantStep ::
  "env \<Rightarrow> (grantKey, RolePermission) gomap \<Rightarrow> RolePermission \<Rightarrow> (grantKey, RolePermission) gomap" where
  "canonicalGrantStep e byKey value0 =
     (let value = value0\<lparr>grant_PermissionKey := TrimSpace (grant_PermissionKey value0)\<rparr>;
          put = (\<lambda>value.
            AList.update (grantKeyOf e value)
              (value\<lparr>grant_AuditDenial := grant_AuditDenial value
                 \<or> (case map_of byKey (grantKeyOf e value) of None \<Rightarrow> False | Some current \<Rightarrow> grant_AuditDenial current)\<rparr>) byKey) in
      if grant_PermissionKey value = [] \<or> \<not> env_GrantValid e value then byKey
      else (case grant_DataPolicy value of
          None \<Rightarrow> put value
        | Some policy \<Rightarrow>
            (case env_NormalizePolicy e policy of None \<Rightarrow> byKey | Some p \<Rightarrow> put (value\<lparr>grant_DataPolicy := Some p\<rparr>))))"

definition grantLess :: "env \<Rightarrow> RolePermission \<Rightarrow> RolePermission \<Rightarrow> bool" where
  "grantLess e a b \<longleftrightarrow>
     (if grant_PermissionKey a = grant_PermissionKey b then
        (if grant_DataScope a \<noteq> grant_DataScope b then grant_DataScope a < grant_DataScope b
         else cod_Policy (env_Codec e) (grant_DataPolicy a) < cod_Policy (env_Codec e) (grant_DataPolicy b))
      else grant_PermissionKey a < grant_PermissionKey b)"

definition identityCanonicalRolePermissions :: "env \<Rightarrow> RolePermission list \<Rightarrow> RolePermission list" where
  "identityCanonicalRolePermissions e values =
     sortSlice (grantLess e) (map snd (foldl (canonicalGrantStep e) [] values))"

text \<open>Sorting by encoding, and dropping a value whose encoding equals that of its predecessor.\<close>

definition sortByCode :: "('a \<Rightarrow> string) \<Rightarrow> 'a list \<Rightarrow> 'a list" where
  "sortByCode code xs = sortSlice (\<lambda>a b. code a < code b) xs"

fun dropRepeated :: "('a \<Rightarrow> string) \<Rightarrow> string \<Rightarrow> 'a list \<Rightarrow> 'a list" where
  "dropRepeated code prev [] = []"
| "dropRepeated code prev (x # xs) =
     (if code x \<noteq> prev then x # dropRepeated code (code x) xs else dropRepeated code prev xs)"

definition identityCanonicalizeEffectiveRole :: "env \<Rightarrow> RoleSchema \<Rightarrow> RoleSchema" where
  "identityCanonicalizeEffectiveRole e role = (let c = env_Codec e in
     role\<lparr>rs_Permissions := identityCanonicalRolePermissions e (rs_Permissions role),
          rs_FieldPermissions := sortByCode (cod_FieldPermission c) (rs_FieldPermissions role),
          rs_ReferencePermissions := dropRepeated (cod_ReferencePermission c) []
             (sortByCode (cod_ReferencePermission c) (rs_ReferencePermissions role)),
          rs_ExportRules := sortByCode (cod_ExportRule c) (rs_ExportRules role),
          rs_Guardrails := sortByCode (cod_Guardrail c) (rs_Guardrails role),
          rs_GrantableRoleKeys := identityUniqueSortedStrings (rs_GrantableRoleKeys role)\<rparr>)"

definition executableGrant :: "env \<Rightarrow> svc \<Rightarrow> RolePermission \<Rightarrow> bool" where
  "executableGrant e v grant =
     (case map_of (svc_permissions v) (TrimSpace (grant_PermissionKey grant)) of
        None \<Rightarrow> False
      | Some d \<Rightarrow> perm_DefinitionStatus d = ''active'' \<and> perm_Enabled d \<and> env_GrantValid e grant)"

definition identityFilterExecutablePermissions :: "env \<Rightarrow> svc \<Rightarrow> RolePermission list \<Rightarrow> RolePermission list" where
  "identityFilterExecutablePermissions e v grants =
     identityCanonicalRolePermissions e
       (map (\<lambda>g. g\<lparr>grant_PermissionKey := TrimSpace (grant_PermissionKey g)\<rparr>) (filter (executableGrant e v) grants))"

definition identityFilterGuardrailDeniedPermissions :: "RoleSchema \<Rightarrow> RolePermission list" where
  "identityFilterGuardrailDeniedPermissions role =
     filter (\<lambda>p. \<not> IdentityRoleGuardrailDeniesPermission role (grant_PermissionKey p)) (rs_Permissions role)"

text \<open>Canonical collections, then executable grants, then the guardrails.\<close>

definition compileRole :: "env \<Rightarrow> svc \<Rightarrow> RoleSchema \<Rightarrow> RoleSchema" where
  "compileRole e v role =
     (let r1 = identityCanonicalizeEffectiveRole e role;
          r2 = r1\<lparr>rs_Permissions := identityFilterExecutablePermissions e v (rs_Permissions r1)\<rparr> in
      r2\<lparr>rs_Permissions := identityFilterGuardrailDeniedPermissions r2\<rparr>)"

subsection \<open>Revisions\<close>

definition identityPermissionStateFingerprint :: "env \<Rightarrow> (string, IdentityPermissionDefinition) gomap \<Rightarrow> string" where
  "identityPermissionStateFingerprint e definitions =
     cod_PermissionStates (env_Codec e) (sortSlice (\<lambda>a b. fst a < fst b)
       (map (\<lambda>(k, d). (TrimSpace k, TrimSpace (perm_DefinitionStatus d), perm_Enabled d))
          (filter (\<lambda>(k, d). TrimSpace k \<noteq> []) definitions)))"

definition identityAuthorizationRevision ::
  "env \<Rightarrow> IdentityUser \<Rightarrow> string list \<Rightarrow> string list \<Rightarrow> string list \<Rightarrow> IdentityUserRoleAssignment list
   \<Rightarrow> IdentityRole list \<Rightarrow> RoleSchema \<Rightarrow> string \<Rightarrow> string" where
  "identityAuthorizationRevision e user orgs supportOrgs reports assignments roles role fingerprint =
     cod_Revision (env_Codec e) (user, orgs, supportOrgs, reports, sortByCode (cod_Assignment (env_Codec e)) assignments,
       sortByCode (cod_Role (env_Codec e)) roles, role, fingerprint)"

subsection \<open>Active assignments\<close>

definition identityRoleAssignmentActive :: "svc \<Rightarrow> IdentityUserRoleAssignment \<Rightarrow> int \<Rightarrow> bool res" where
  "identityRoleAssignmentActive v a now =
     (if \<not> identityAssignmentActive a now then Inr False
      else if TrimSpace (asg_BindingKey a) = [] \<and> TrimSpace (asg_ProfileID a) = [] then Inr True
      else if TrimSpace (asg_BindingKey a) = [] \<or> TrimSpace (asg_ProfileID a) = [] then Inr False
      else (case svc_bindingEligibility v of
          None \<Rightarrow> Inr False
        | Some bindingActive \<Rightarrow> bindingActive (svc_workspace v) (asg_BindingKey a) (asg_ProfileID a) (asg_UserID a)))"

fun filterRes :: "('a \<Rightarrow> bool res) \<Rightarrow> 'a list \<Rightarrow> 'a list res" where
  "filterRes f [] = Inr []"
| "filterRes f (x # xs) = bind (f x) (\<lambda>keep. bind (filterRes f xs) (\<lambda>ys. Inr (if keep then x # ys else ys)))"

definition ResolveEffectiveRoleAssignments :: "env \<Rightarrow> svc \<Rightarrow> store \<Rightarrow> string \<Rightarrow> IdentityUserRoleAssignment list res" where
  "ResolveEffectiveRoleAssignments e v s userID =
     bind (ListIdentityUserRoleAssignments s (svc_workspace v) userID) (\<lambda>assignments.
       filterRes (\<lambda>a. identityRoleAssignmentActive v a (nowInstant e))
         (filter (\<lambda>a. TrimSpace (asg_UserID a) = TrimSpace userID) assignments))"

definition effectiveLess :: "IdentityRole \<Rightarrow> IdentityRole \<Rightarrow> bool" where
  "effectiveLess a b \<longleftrightarrow> role_Key a @ role_ID a < role_Key b @ role_ID b"

definition effectiveRolesFromAssignments ::
  "svc \<Rightarrow> IdentityUserRoleAssignment list \<Rightarrow> IdentityRole list \<Rightarrow> IdentityRole list" where
  "effectiveRolesFromAssignments v assignments roles =
     sortSlice effectiveLess (filter (\<lambda>r. role_ID r \<in> asg_RoleID ` set assignments
        \<and> activeStatus (role_Status r) \<and> publishedRoleDefinition v r \<noteq> None) roles)"

definition ResolveEffectiveRoles :: "env \<Rightarrow> svc \<Rightarrow> store \<Rightarrow> string \<Rightarrow> IdentityRole list res" where
  "ResolveEffectiveRoles e v s userID =
     bind (ResolveEffectiveRoleAssignments e v s userID) (\<lambda>assignments.
     bind (ListIdentityRoles s (svc_workspace v)) (\<lambda>roles. Inr (effectiveRolesFromAssignments v assignments roles)))"

definition ActiveRolesForUser :: "env \<Rightarrow> svc \<Rightarrow> store \<Rightarrow> string \<Rightarrow> IdentityRole list res" where
  "ActiveRolesForUser e v s userID = ResolveEffectiveRoles e v s userID"

subsection \<open>Building a principal\<close>

text \<open>The facts a context resolution captures besides the principal.\<close>

record IdentityPrincipalContext =
  ctx_Principal :: Principal
  ctx_User :: "IdentityUser option"
  ctx_EffectiveRoles :: "IdentityRole list"
  ctx_Assignments :: "IdentityUserRoleAssignment list"
  ctx_ProjectionRoles :: "IdentityRole list"

definition bareContext :: "Principal \<Rightarrow> IdentityUser option \<Rightarrow> IdentityPrincipalContext" where
  "bareContext p user = \<lparr>ctx_Principal = p, ctx_User = user, ctx_EffectiveRoles = [], ctx_Assignments = [],
     ctx_ProjectionRoles = []\<rparr>"

definition unknownPrincipal :: "string \<Rightarrow> Principal" where
  "unknownPrincipal userID = zeroPrincipal\<lparr>prin_UserID := userID\<rparr>"

definition capturePrincipalContext ::
  "svc \<Rightarrow> string \<Rightarrow> IdentityUserRoleAssignment list \<Rightarrow> IdentityRole list \<Rightarrow> IdentityPrincipalContext \<Rightarrow> IdentityPrincipalContext" where
  "capturePrincipalContext v userID assignments roles facts =
     (let own = filter (\<lambda>a. TrimSpace (asg_UserID a) = TrimSpace userID) assignments in
      facts\<lparr>ctx_Assignments := own, ctx_ProjectionRoles := roles,
            ctx_EffectiveRoles := effectiveRolesFromAssignments v own roles\<rparr>)"

definition activePublished :: "svc \<Rightarrow> string set \<Rightarrow> IdentityRole list \<Rightarrow> (IdentityRole \<times> RoleSchema) list" where
  "activePublished v activeRoleIDs roles =
     concat (map (\<lambda>r. if activeStatus (role_Status r) \<and> role_ID r \<in> activeRoleIDs
       then (case publishedRoleDefinition v r of None \<Rightarrow> [] | Some d \<Rightarrow> [(r, d)]) else []) roles)"

definition mergedRole :: "RoleSchema list \<Rightarrow> RoleSchema" where
  "mergedRole ds = zeroRoleSchema\<lparr>rs_Key := ''identity_effective'', rs_Name := ''Identity Effective'',
     rs_Permissions := concat (map rs_Permissions ds), rs_FieldPermissions := concat (map rs_FieldPermissions ds),
     rs_ReferencePermissions := concat (map rs_ReferencePermissions ds), rs_ExportRules := concat (map rs_ExportRules ds),
     rs_GrantableRoleKeys := concat (map rs_GrantableRoleKeys ds), rs_Guardrails := concat (map rs_Guardrails ds)\<rparr>"

definition namedRole :: "IdentityRole \<Rightarrow> RoleSchema \<Rightarrow> RoleSchema" where
  "namedRole r d = d\<lparr>rs_Key := valueOrDefault (rs_Key d) (role_Key r), rs_Name := valueOrDefault (rs_Name d) (role_Label r)\<rparr>"

text \<open>One active role keeps its own identity; otherwise the active roles are merged.\<close>

definition effectiveRole :: "env \<Rightarrow> svc \<Rightarrow> (IdentityRole \<times> RoleSchema) list \<Rightarrow> RoleSchema" where
  "effectiveRole e v published =
     (case published of
        [(r, d)] \<Rightarrow> compileRole e v (namedRole r d)
      | _ \<Rightarrow> compileRole e v (mergedRole (map snd published)))"

record principalScopes =
  psc_OrgID :: string
  psc_Path :: string
  psc_Orgs :: "string list"
  psc_SupportOrgID :: string
  psc_SupportOrgs :: "string list"
  psc_Reports :: "string list"

definition principalScopesOf :: "svc \<Rightarrow> store \<Rightarrow> IdentityUser \<Rightarrow> principalScopes res" where
  "principalScopesOf v s user =
     bind (resolveUserOrganization v s user) (\<lambda>(orgID, path).
     bind (resolvePrincipalScopeIDs v s (user_ID user) orgID (user_SupportOrgID user)) (\<lambda>(orgs, supportOrgs, reports).
       Inr \<lparr>psc_OrgID = orgID, psc_Path = path, psc_Orgs = orgs,
            psc_SupportOrgID = (if supportOrgs = [] then [] else TrimSpace (user_SupportOrgID user)),
            psc_SupportOrgs = supportOrgs, psc_Reports = reports\<rparr>))"

definition knownPrincipal ::
  "env \<Rightarrow> svc \<Rightarrow> IdentityUser \<Rightarrow> principalScopes \<Rightarrow> IdentityUserRoleAssignment list \<Rightarrow> IdentityRole list \<Rightarrow> RoleSchema \<Rightarrow> Principal" where
  "knownPrincipal e v user sc assignments roles role =
     zeroPrincipal\<lparr>prin_UserID := user_ID user, prin_WorkspaceID := svc_workspace v, prin_OrgID := psc_OrgID sc,
       prin_OrgScopeIDs := psc_Orgs sc, prin_SupportOrgID := psc_SupportOrgID sc, prin_SupportOrgScopeIDs := psc_SupportOrgs sc,
       prin_ReportingScopeUserIDs := psc_Reports sc, prin_OrganizationPath := psc_Path sc, prin_Role := role, prin_Known := True,
       prin_AuthorizationRevision := identityAuthorizationRevision e user (psc_Orgs sc) (psc_SupportOrgs sc) (psc_Reports sc)
         assignments roles role (identityPermissionStateFingerprint e (svc_permissions v))\<rparr>"

definition buildPrincipal :: "env \<Rightarrow> svc \<Rightarrow> store \<Rightarrow> string \<Rightarrow> IdentityPrincipalContext res" where
  "buildPrincipal e v0 s userID0 =
     bind (withWorkspacePermissions v0) (\<lambda>v.
       (let userID = TrimSpace userID0 in
        if userID = [] then Inr (bareContext zeroPrincipal None)
        else bind (GetIdentityUser s (svc_workspace v) userID) (\<lambda>found.
          (case found of
             None \<Rightarrow> Inr (bareContext (unknownPrincipal userID) None)
           | Some user \<Rightarrow>
              if user_Status user \<noteq> IdentityStatusActive then Inr (bareContext (unknownPrincipal userID) None)
              else bind (principalScopesOf v s user) (\<lambda>sc.
                bind (ListIdentityUserRoleAssignments s (svc_workspace v) (user_ID user)) (\<lambda>assignments.
                bind (ListIdentityRoles s (svc_workspace v)) (\<lambda>roles.
                bind (filterRes (\<lambda>a. identityRoleAssignmentActive v a (nowInstant e)) assignments) (\<lambda>active.
                  (let published = activePublished v (asg_RoleID ` set active) roles;
                       principal = knownPrincipal e v user sc active (map fst published) (effectiveRole e v published) in
                   Inr (capturePrincipalContext v (user_ID user) active roles
                          (bareContext principal (Some user))))))))))))"

text \<open>
  The assignments inspected for one role: all of them when facts are captured, otherwise
  only up to the first active assignment of the role.
\<close>

fun firstActiveFor ::
  "svc \<Rightarrow> int \<Rightarrow> string \<Rightarrow> IdentityUserRoleAssignment list \<Rightarrow> IdentityUserRoleAssignment option res" where
  "firstActiveFor v now roleID [] = Inr None"
| "firstActiveFor v now roleID (a # as) =
     bind (identityRoleAssignmentActive v a now) (\<lambda>active.
       if asg_RoleID a = roleID \<and> active then Inr (Some a) else firstActiveFor v now roleID as)"

definition assignmentForRole ::
  "svc \<Rightarrow> int \<Rightarrow> bool \<Rightarrow> string \<Rightarrow> IdentityUserRoleAssignment list
   \<Rightarrow> (IdentityUserRoleAssignment option \<times> IdentityUserRoleAssignment list) res" where
  "assignmentForRole v now capture roleID assignments =
     (if capture then bind (filterRes (\<lambda>a. identityRoleAssignmentActive v a now) assignments) (\<lambda>active.
        Inr (find (\<lambda>a. asg_RoleID a = roleID) active, active))
      else bind (firstActiveFor v now roleID assignments) (\<lambda>found. Inr (found, [])))"

definition buildPrincipalForRole ::
  "env \<Rightarrow> svc \<Rightarrow> store \<Rightarrow> string \<Rightarrow> string \<Rightarrow> bool \<Rightarrow> IdentityPrincipalContext res" where
  "buildPrincipalForRole e v0 s userID0 roleKey0 capture =
     bind (withWorkspacePermissions v0) (\<lambda>v.
       (let userID = TrimSpace userID0; roleKey = TrimSpace roleKey0 in
        if userID = [] then Inr (bareContext zeroPrincipal None)
        else bind (GetIdentityUser s (svc_workspace v) userID) (\<lambda>found.
          (case found of
             None \<Rightarrow> Inr (bareContext (unknownPrincipal userID) None)
           | Some user \<Rightarrow>
              if user_Status user \<noteq> IdentityStatusActive \<or> roleKey = []
              then Inr (bareContext (unknownPrincipal userID) None)
              else bind (principalScopesOf v s user) (\<lambda>sc.
                bind (ListIdentityUserRoleAssignments s (svc_workspace v) (user_ID user)) (\<lambda>assignments.
                bind (ListIdentityRoles s (svc_workspace v)) (\<lambda>roles.
                  (case find (\<lambda>r. activeStatus (role_Status r) \<and> (role_ID r = roleKey \<or> role_Key r = roleKey)) roles of
                     None \<Rightarrow> Inr (bareContext (unknownPrincipal (user_ID user)) (Some user))
                   | Some identityRole \<Rightarrow>
                      bind (assignmentForRole v (nowInstant e) capture (role_ID identityRole) assignments) (\<lambda>(assigned, active).
                        (let captured = (\<lambda>p. if capture then capturePrincipalContext v (user_ID user) active roles
                                                (bareContext p (Some user)) else bareContext p (Some user)) in
                         case (assigned, publishedRoleDefinition v identityRole) of
                           (Some a, Some d) \<Rightarrow>
                             Inr (captured (knownPrincipal e v user sc [a] [identityRole]
                                    (compileRole e v (namedRole identityRole d))))
                         | _ \<Rightarrow> Inr (captured (unknownPrincipal (user_ID user)))))))))))))"

definition BuildPrincipal :: "env \<Rightarrow> svc \<Rightarrow> store \<Rightarrow> string \<Rightarrow> Principal res" where
  "BuildPrincipal e v s userID = bind (buildPrincipal e v s userID) (\<lambda>facts. Inr (ctx_Principal facts))"

definition BuildPrincipalForRole :: "env \<Rightarrow> svc \<Rightarrow> store \<Rightarrow> string \<Rightarrow> string \<Rightarrow> Principal res" where
  "BuildPrincipalForRole e v s userID roleKey =
     bind (buildPrincipalForRole e v s userID roleKey False) (\<lambda>facts. Inr (ctx_Principal facts))"

definition ResolvePrincipalContext :: "env \<Rightarrow> svc \<Rightarrow> store \<Rightarrow> string \<Rightarrow> string \<Rightarrow> IdentityPrincipalContext res" where
  "ResolvePrincipalContext e v s userID roleKey =
     (if TrimSpace roleKey \<noteq> [] then buildPrincipalForRole e v s userID (TrimSpace roleKey) True
      else buildPrincipal e v s userID)"

definition EffectivePermissionKeys :: "env \<Rightarrow> svc \<Rightarrow> store \<Rightarrow> string \<Rightarrow> string list res" where
  "EffectivePermissionKeys e v s userID =
     bind (BuildPrincipal e v s userID) (\<lambda>p.
       if \<not> prin_Known p then Inr []
       else Inr (identityUniqueSortedStrings (RolePermissionKeys (rs_Permissions (prin_Role p)))))"

subsection \<open>Principals from definitions only\<close>

text \<open>
  \<open>IdentityPrincipalDomainService.Resolve\<close>; the workspace of the request context and the
  two callbacks are arguments.
\<close>

definition Resolve ::
  "string \<Rightarrow> RoleSchema list \<Rightarrow> string option \<Rightarrow> string \<Rightarrow> string \<Rightarrow> string \<Rightarrow> Principal" where
  "Resolve contextWorkspace roles defaultRoleKey userID0 roleKey0 alternateRoleKey =
     (let userID = TrimSpace userID0 in
      if userID = [] then zeroPrincipal
      else (case NewWorkspaceID contextWorkspace of
          Inl _ \<Rightarrow> unknownPrincipal userID
        | Inr workspaceID \<Rightarrow>
           (let roleKey1 = (if TrimSpace roleKey0 = [] then alternateRoleKey else roleKey0);
                roleKey = (if TrimSpace roleKey1 = [] then (case defaultRoleKey of None \<Rightarrow> roleKey1 | Some k \<Rightarrow> k) else roleKey1) in
            case find (\<lambda>r. rs_Key r = TrimSpace roleKey) roles of
              None \<Rightarrow> (unknownPrincipal userID)\<lparr>prin_WorkspaceID := workspaceID\<rparr>
            | Some role \<Rightarrow> (unknownPrincipal userID)\<lparr>prin_WorkspaceID := workspaceID, prin_Role := role, prin_Known := True\<rparr>)))"

end
