(* ===== verification/ServiceSamples.thy ===== *)
theory ServiceSamples
  imports Samples Principals
begin

section \<open>Concrete inputs for the services\<close>

text \<open>A workspace with a small organization, users with managers, and published roles.\<close>

definition sampleUnit :: "string \<Rightarrow> string option \<Rightarrow> IdentityOrganizationUnit" where
  "sampleUnit i parent = \<lparr>unit_ID = i, unit_Code = i, unit_Name = i, unit_NodeType = ''team'', unit_ParentID = parent,
     unit_Path = [], unit_AncestorIDs = [], unit_Depth = 0, unit_SortOrder = 0, unit_Status = ''active''\<rparr>"

definition sampleHq :: IdentityOrganizationUnit where
  "sampleHq = (sampleUnit ''hq'' None)\<lparr>unit_Path := ''/hq''\<rparr>"

definition orgStore :: store where
  "orgStore = NewMemoryIdentityStore\<lparr>st_organizationUnits := [(''acme'' @ NUL @ ''hq'', sampleHq)]\<rparr>"

lemmas org_defs = sampleUnit_def sampleHq_def orgStore_def sample_defs

lemma tableKeyed_acme: "tableKeyed f [(''acme'' @ NUL @ f v, v)]"
  by (auto simp: tableKeyed_def intro!: exI [of _ "''acme''"])

lemma orgStore_wf: "storeWf orgStore"
  using tableKeyed_acme [of unit_ID sampleHq] by (simp add: storeWf_def org_defs)

lemma orgStore_units: "ListIdentityOrganizationUnits orgStore ''acme'' = Inr [sampleHq]"
  by code_simp

text \<open>Two published roles, one permission, and a store in which \<open>u1\<close> holds the first role.\<close>

definition sampleDefinition :: "string \<Rightarrow> RoleSchema" where
  "sampleDefinition key = zeroRoleSchema\<lparr>rs_Key := key, rs_Name := key, rs_AssignmentMode := ''manual'',
     rs_RiskLevel := ''normal'', rs_Permissions := [\<lparr>grant_PermissionKey = ''doc.read'', grant_DataScope = ''all'',
       grant_DataPolicy = None, grant_AuditDenial = False\<rparr>]\<rparr>"

definition bareSvc :: svc where
  "bareSvc = \<lparr>svc_workspace = ''acme'', svc_role = [], svc_permissions = [], svc_workspacePermissions = None,
     svc_permissionSets = [], svc_permissionSetGroups = [], svc_guardrails = [], svc_bindingEligibility = None,
     svc_businessProfiles = None\<rparr>"

definition samplePermission :: IdentityPermissionDefinition where
  "samplePermission = \<lparr>perm_Key = ''doc.read'', perm_DefinitionStatus = ''active'', perm_Enabled = True, perm_SourceOwner = ''app''\<rparr>"

definition sampleSvc :: svc where
  "sampleSvc = ReplaceRoleDefinitions (ReplacePermissionDefinitions bareSvc [samplePermission])
     [sampleDefinition ''r1'', sampleDefinition ''r2'']"

lemma sampleSvc_workspace [simp]: "svc_workspace sampleSvc = ''acme''"
  by (simp add: sampleSvc_def ReplaceRoleDefinitions_def ReplacePermissionDefinitions_def bareSvc_def)

definition roleStore :: store where
  "roleStore = sampleStore\<lparr>st_roles := [(''acme'' @ NUL @ ''r1'', sampleRole ''r1''), (''acme'' @ NUL @ ''r2'', sampleRole ''r2'')]\<rparr>"

lemma roleStore_wf: "storeWf roleStore"
proof -
  have "tableKeyed role_ID [(''acme'' @ NUL @ ''r1'', sampleRole ''r1''), (''acme'' @ NUL @ ''r2'', sampleRole ''r2'')]"
    using tableKeyed_acme [of role_ID "sampleRole ''r1''"] tableKeyed_acme [of role_ID "sampleRole ''r2''"]
    by (simp add: tableKeyed_def sampleRole_def)
  with sampleStore_wf show ?thesis by (simp add: storeWf_def roleStore_def)
qed

lemma fst_Inr: "fst r = Inr x \<Longrightarrow> r = (Inr x, snd r)"
  by (cases r) simp

end
