(* ===== verification/OrganizationProperties.thy ===== *)
theory OrganizationProperties
  imports Hierarchy ServiceSamples
begin

section \<open>What the organization service guarantees\<close>

text \<open>
  Upserting a unit returns on every store, also on one whose rows form a cycle, and keeps
  the derived facts of the whole tree right; the tree stays free of cycles.
\<close>

inductive_cases ancestorChainE: "ancestorChain par i anc"

lemma ancestorChain_unique: "ancestorChain par i a \<Longrightarrow> ancestorChain par i b \<Longrightarrow> a = b"
proof (induction arbitrary: b rule: ancestorChain.induct)
  case (Top i)
  from Top(2,1) show ?case by (auto elim: ancestorChainE)
next
  case (Below i p anc)
  from Below.prems Below.hyps(1,2) obtain anc' where "ancestorChain par p anc'" "b = anc' @ [p]"
    by (auto elim: ancestorChainE)
  with Below.IH show ?case by simp
qed

lemma ancestorChain_member:
  "ancestorChain par i anc \<Longrightarrow> j \<in> set anc \<Longrightarrow> \<exists>a. ancestorChain par j a \<and> length a < length anc"
proof (induction rule: ancestorChain.induct)
  case (Below i p anc)
  then show ?case by (cases "j = p") (auto intro: less_SucI)
qed simp

lemma ancestorChain_acyclic: "ancestorChain par i anc \<Longrightarrow> i \<notin> set anc"
  using ancestorChain_member ancestorChain_unique by blast

lemma hierarchyOk_acyclic: "hierarchyOk units \<Longrightarrow> u \<in> set units \<Longrightarrow> unit_ID u \<notin> set (unit_AncestorIDs u)"
  by (auto simp: hierarchyOk_def factsOk_def dest: ancestorChain_acyclic)

lemma UpsertOrganizationUnit_Inr:
  assumes "UpsertOrganizationUnit e s w u0 = Some (Inr (), s')"
  obtains u units updates where "ListIdentityOrganizationUnits s w = Inr units"
    "unit_ID u = TrimSpace (unit_ID u0)" "identityOrganizationUnitSubtreeUpdates e u units = Inr updates"
    "UpsertIdentityOrganizationUnitsAtomically s w updates = (Inr (), s')"
proof -
  from assms obtain updates where "prepareOrganizationUnitUpsert e s w u0 = Some (Inr updates)"
      "UpsertIdentityOrganizationUnitsAtomically s w updates = (Inr (), s')"
    by (auto simp: UpsertOrganizationUnit_def split: option.splits sum.splits)
  then show ?thesis using that prepareOrganizationUnitUpsert_Inr by metis
qed

subsection \<open>The rows of an upsert\<close>

text \<open>The breadth-first loop rewrites only the unit and what stands below it.\<close>

lemma subtreeLoop_below:
  assumes "subtreeLoop e byID derived seen queue = Inr out" "indexKeyed byID" "memoOk byID derived" "\<forall>i \<in> set queue. R i"
    "\<And>i c. R i \<Longrightarrow> c \<in> set (childIDs byID i) \<Longrightarrow> R c"
  shows "\<forall>x \<in> set out. R (unit_ID x)"
  using assms
proof (induction e byID derived seen queue arbitrary: out rule: subtreeLoop.induct)
  case (1 e byID derived seen)
  then show ?case by (simp add: subtreeLoop.simps)
next
  case (2 e byID derived seen i queue)
  show ?case
  proof (cases "i \<in> set seen")
    case True
    with "2.prems" "2.IH"(1) [OF True] show ?thesis by (simp add: subtreeLoop.simps)
  next
    case False
    with "2.prems"(1) obtain item derived' rest where
      d: "derive e byID [] derived i = Inr (item, derived')"
      and r: "subtreeLoop e byID derived' (i # seen) (queue @ childIDs byID i) = Inr rest" "out = item # rest"
      by (subst (asm) subtreeLoop.simps) (auto split: sum.splits prod.splits)
    from derive_ok [OF d "2.prems"(2,3)] have ok: "rowOk byID i item" "memoOk byID derived'" by auto
    have "\<forall>x \<in> set rest. R (unit_ID x)"
      by (rule "2.IH"(2) [OF False d refl r(1) "2.prems"(2) ok(2)]) (use "2.prems"(4,5) in auto)
    then show ?thesis using ok(1) r(2) "2.prems"(4) by (auto simp: rowOk_def)
  qed
qed

lemma ancestorChain_avoids:
  "ancestorChain par i anc \<Longrightarrow> r \<noteq> i \<Longrightarrow> r \<notin> set anc \<Longrightarrow> (\<And>k. k \<noteq> r \<Longrightarrow> par' k = par k) \<Longrightarrow> ancestorChain par' i anc"
proof (induction rule: ancestorChain.induct)
  case (Top i)
  then show ?case by (metis ancestorChain.Top)
next
  case (Below i p anc)
  then show ?case by (auto intro!: ancestorChain.Below)
qed

lemma subtreeUpdates_below:
  assumes "identityOrganizationUnitSubtreeUpdates e u units = Inr updates"
    "ancestorChain (parentOf (unitIndex units)) i anc" "unit_ID u \<notin> insert i (set anc)"
  shows "i \<notin> unit_ID ` set updates"
proof
  let ?byID = "AList.update (unit_ID u) (u\<lparr>unit_Path := [], unit_AncestorIDs := [], unit_Depth := 0\<rparr>) (unitIndex units)"
  let ?R = "\<lambda>i. \<forall>anc. ancestorChain (parentOf ?byID) i anc \<longrightarrow> unit_ID u \<in> insert i (set anc)"
  obtain out where out: "subtreeLoop e ?byID [] [] [unit_ID u] = Inr out" "set updates = set out"
    using assms(1) unfolding identityOrganizationUnitSubtreeUpdates_def by (auto simp: Let_def)
  have keyed: "indexKeyed ?byID" using unitIndex_keyed [of units] by (auto simp: indexKeyed_def)
  have wf: "distinct (map fst ?byID)" by (rule distinct_update) (rule unitIndex_mapWf)
  have "\<forall>x \<in> set out. ?R (unit_ID x)"
  proof (rule subtreeLoop_below [OF out(1) keyed])
    fix i c assume R: "?R i" and c: "c \<in> set (childIDs ?byID i)"
    then have "i \<noteq> []" by (auto simp: childIDs_def)
    with c have par: "parentOf ?byID c = Some i" using childIDs_iff [OF wf] by blast
    show "?R c"
    proof (intro allI impI)
      fix anc assume "ancestorChain (parentOf ?byID) c anc"
      then obtain anc' where "ancestorChain (parentOf ?byID) i anc'" "anc = anc' @ [i]"
        using par \<open>i \<noteq> []\<close> by (cases rule: ancestorChain.cases) simp_all
      with R show "unit_ID u \<in> insert c (set anc)" by (simp del: map_of_update)
    qed
  qed (auto simp: memoOk_def)
  moreover have "ancestorChain (parentOf ?byID) i anc"
    by (rule ancestorChain_avoids [OF assms(2), of "unit_ID u"]) (use assms(3) in \<open>auto simp: parentOf_def\<close>)
  moreover assume "i \<in> unit_ID ` set updates"
  ultimately show False using out(2) assms(3) by auto
qed

lemma upsertUnits_index:
  assumes "identityOrganizationUnitSubtreeUpdates e u units = Inr updates"
    "UpsertIdentityOrganizationUnitsAtomically s w updates = (Inr (), s')"
    "ListIdentityOrganizationUnits s' w = Inr units'" "storeWf s'" "nulFree w"
  shows "v \<in> set units' \<longleftrightarrow> (case find (\<lambda>x. unit_ID x = unit_ID v) updates of
     None \<Rightarrow> map_of (st_organizationUnits s) (TrimSpace w @ NUL @ unit_ID v) = Some v | Some x \<Rightarrow> v = unitDefaults x)"
proof -
  have "v \<in> set units' \<longleftrightarrow> map_of (unitIndex units') (unit_ID v) = Some v"
    using map_of_index [OF listing_units(1) [OF assms(3-5)]] by blast
  then show ?thesis
    by (simp only: listing_units(2) [OF assms(3-5)] upsertUnits_lookup [OF assms(2) subtreeUpdates_ok(4) [OF assms(1)]])
      (auto split: option.splits)
qed

lemma upsertUnits_listed:
  assumes "identityOrganizationUnitSubtreeUpdates e u units = Inr updates"
    "UpsertIdentityOrganizationUnitsAtomically s w updates = (Inr (), s')"
    "ListIdentityOrganizationUnits s' w = Inr units'" "storeWf s'" "nulFree w"
  shows "unit_ID u \<in> unit_ID ` set units'"
proof -
  have "find (\<lambda>x. unit_ID x = unit_ID u) updates \<noteq> None"
    using subtreeUpdates_ok(2) [OF assms(1)] by (auto simp: find_None_iff)
  then obtain x where x: "find (\<lambda>x. unit_ID x = unit_ID u) updates = Some x" by blast
  then have "unit_ID x = unit_ID u" by (auto simp: find_Some_iff)
  with x have "unitDefaults x \<in> set units'" by (simp add: upsertUnits_index [OF assms])
  with \<open>unit_ID x = unit_ID u\<close> show ?thesis by (metis imageI unitDefaults_simps(1))
qed

lemma upsertUnits_frame:
  assumes "storeWf s" "nulFree w" "ListIdentityOrganizationUnits s w = Inr units" "hierarchyOk units"
    "identityOrganizationUnitSubtreeUpdates e u units = Inr updates"
    "UpsertIdentityOrganizationUnitsAtomically s w updates = (Inr (), s')"
    "ListIdentityOrganizationUnits s' w = Inr units'" "storeWf s'"
    "v \<in> set units" "unit_ID u \<notin> insert (unit_ID v) (set (unit_AncestorIDs v))"
  shows "v \<in> set units'"
proof -
  have "ancestorChain (parentOf (unitIndex units)) (unit_ID v) (unit_AncestorIDs v)"
    using assms(4,9) by (simp add: hierarchyOk_def factsOk_def)
  from subtreeUpdates_below [OF assms(5) this assms(10)]
  have "find (\<lambda>x. unit_ID x = unit_ID v) updates = None" by (metis (mono_tags, lifting) find_None_iff imageI)
  moreover have "map_of (unitIndex units) (unit_ID v) = Some v"
    using map_of_index [OF listing_units(1) [OF assms(3,1,2)]] assms(9) by blast
  ultimately show ?thesis
    by (simp add: upsertUnits_index [OF assms(5-8,2)] listing_units(2) [OF assms(3,1,2)])
qed

subsection \<open>Properties\<close>

text \<open>
  C11 (the upsert returns).  One loop of the preparation walks the parent chain without a
  guard against cycles.  It always returns: whatever the rows of the store, the validation
  that runs before it has already rejected a chain that never ends.
\<close>

theorem upsert_unit_returns: "\<exists>r s'. UpsertOrganizationUnit e s w u = Some (r, s')"
  using prepareOrganizationUnitUpsert_returns [of e s w u]
  by (auto simp: UpsertOrganizationUnit_def split: sum.splits)

text \<open>
  C12 (derived hierarchy).  When every unit of the workspace carries the ancestors, depth
  and path of its parent chain, the same holds after a successful upsert, also of the units
  below the changed one; no unit is among its own ancestors, the upserted unit is listed,
  and the units that are not below it keep their rows.
\<close>

theorem hierarchy_preserved:
  assumes "storeWf s" "nulFree w" "ListIdentityOrganizationUnits s w = Inr units" "hierarchyOk units"
    "UpsertOrganizationUnit e s w u0 = Some (Inr (), s')"
  shows "\<exists>units'. ListIdentityOrganizationUnits s' w = Inr units' \<and> hierarchyOk units'
    \<and> (\<forall>v \<in> set units'. unit_ID v \<notin> set (unit_AncestorIDs v))
    \<and> TrimSpace (unit_ID u0) \<in> unit_ID ` set units'
    \<and> (\<forall>v \<in> set units. TrimSpace (unit_ID u0) \<notin> insert (unit_ID v) (set (unit_AncestorIDs v)) \<longrightarrow> v \<in> set units')"
proof -
  obtain u updates where up: "unit_ID u = TrimSpace (unit_ID u0)"
      "identityOrganizationUnitSubtreeUpdates e u units = Inr updates"
      "UpsertIdentityOrganizationUnitsAtomically s w updates = (Inr (), s')"
    using UpsertOrganizationUnit_Inr [OF assms(5)] assms(3) by (metis sum.inject(2))
  have wf: "storeWf s'" using upsertUnits_storeWf [OF assms(1,2), of updates] up(3) by simp
  obtain units' where units': "ListIdentityOrganizationUnits s' w = Inr units'"
    using assms(3) by (auto simp: ListIdentityOrganizationUnits_def)
  have ok: "hierarchyOk units'"
    by (rule upsertUnits_hierarchy [OF assms(1,2,3,4) up(2,3) units' wf])
  note ok' = hierarchyOk_acyclic [OF ok] upsertUnits_listed [OF up(2,3) units' wf assms(2)]
    upsertUnits_frame [OF assms(1,2,3,4) up(2,3) units' wf]
  show ?thesis using units' ok ok' unfolding up(1) by blast
qed

theorem hierarchy_preserved_witness:
  "\<exists>units'. ListIdentityOrganizationUnits (snd (the (UpsertOrganizationUnit sampleEnv orgStore ''acme''
       (sampleUnit '' eu '' (Some ''hq''))))) ''acme'' = Inr units' \<and> hierarchyOk units' \<and> sampleHq \<in> set units'"
proof -
  let ?r = "UpsertOrganizationUnit sampleEnv orgStore ''acme'' (sampleUnit '' eu '' (Some ''hq''))"
  have r: "?r = Some (Inr (), snd (the ?r))"
  proof -
    have "map_option fst ?r = Some (Inr ())" by code_simp
    then show ?thesis by (cases ?r) (auto simp: prod_eq_iff)
  qed
  have ok: "hierarchyOk [sampleHq]"
  proof -
    have "ancestorChain (parentOf (unitIndex [sampleHq])) ''hq'' []"
      by (rule ancestorChain.Top) (simp add: parentOf_def unitIndex_def org_defs identityParentID_def)
    then show ?thesis by (simp add: hierarchyOk_def factsOk_def unitPath_def org_defs TrimRightSlash_def)
  qed
  have "TrimSpace '' eu '' = ''eu''" by code_simp
  with hierarchy_preserved [OF orgStore_wf acme_workspace(3) orgStore_units ok r] show ?thesis
    by (auto simp: org_defs)
qed

text \<open>
  The prepared delivery: when the preparation succeeds, the delivery variant always finds
  the unit among the prepared rows: it returns the unit and the other rows, each once, and
  together they are exactly the rows the direct upsert writes.
\<close>

theorem delivery_partitions_updates:
  assumes "prepareOrganizationUnitUpsert e s w u = Some (Inr updates)"
  shows "\<exists>root related. PrepareOrganizationUnitForAtomicDelivery e s w u = Some (Inr (root, related))
    \<and> unit_ID root = TrimSpace (unit_ID u) \<and> set (root # related) = set updates
    \<and> distinct (map unit_ID (root # related))
    \<and> UpsertOrganizationUnit e s w u = Some (UpsertIdentityOrganizationUnitsAtomically s w updates)"
proof -
  obtain v units where v: "unit_ID v = TrimSpace (unit_ID u)"
      "identityOrganizationUnitSubtreeUpdates e v units = Inr updates"
    using prepareOrganizationUnitUpsert_Inr [OF assms] by metis
  note up = subtreeUpdates_ok(2,4) [OF v(2)]
  have "find (\<lambda>x. unit_ID x = TrimSpace (unit_ID u)) updates \<noteq> None"
    using up(1) v(1) by (metis (mono_tags, lifting) find_None_iff imageE)
  then obtain root where root: "find (\<lambda>x. unit_ID x = TrimSpace (unit_ID u)) updates = Some root" by blast
  then have mem: "root \<in> set updates" "unit_ID root = TrimSpace (unit_ID u)" by (auto simp: find_Some_iff)
  let ?related = "filter (\<lambda>x. unit_ID x \<noteq> unit_ID root) updates"
  have "x = root" if "x \<in> set updates" "unit_ID x = unit_ID root" for x
    using up(2) that mem(1) by (simp add: distinct_map inj_on_def)
  then have "set (root # ?related) = set updates" using mem(1) by auto
  moreover have "distinct (map unit_ID (root # ?related))"
    using up(2) by (auto simp: distinct_map_filter)
  ultimately show ?thesis using root mem(2) assms
    by (simp add: PrepareOrganizationUnitForAtomicDelivery_def UpsertOrganizationUnit_def)
qed

theorem delivery_partitions_updates_witness:
  "\<exists>root related. PrepareOrganizationUnitForAtomicDelivery sampleEnv orgStore ''acme'' (sampleUnit ''eu'' (Some ''hq'')) =
     Some (Inr (root, related)) \<and> unit_ID root = ''eu''"
proof -
  let ?u = "sampleUnit ''eu'' (Some ''hq'')"
  have "map_option isl (prepareOrganizationUnitUpsert sampleEnv orgStore ''acme'' ?u) = Some False" by code_simp
  then obtain updates where "prepareOrganizationUnitUpsert sampleEnv orgStore ''acme'' ?u = Some (Inr updates)"
    by (auto simp: isl_def) (metis sum.exhaust)
  from delivery_partitions_updates [OF this] have "TrimSpace ''eu'' = ''eu'' \<Longrightarrow> ?thesis"
    by (auto simp: sampleUnit_def)
  moreover have "TrimSpace ''eu'' = ''eu''" by code_simp
  ultimately show ?thesis by blast
qed

end
