(* ===== verification/UserLaws.thy ===== *)
theory UserLaws
  imports OrganizationProperties
begin

section \<open>Users: listings, updates and the reporting lines\<close>

text \<open>
  What a listing of users says about the table, which rows an update writes, and the
  manager of each user as a function of the store, on which the reporting chains are
  defined.
\<close>

subsection \<open>Listings and the table\<close>

lemma rows_lookup:
  assumes "tableKeyed f m" "nulFree w"
  shows "r \<in> set (rowsWithPrefix (w @ NUL) m) \<longleftrightarrow> map_of m (w @ NUL @ f r) = Some r"
proof -
  have wf: "distinct (map fst m)" using assms(1) by (simp add: tableKeyed_def)
  show ?thesis
  proof
    assume "r \<in> set (rowsWithPrefix (w @ NUL) m)"
    then obtain x where x: "(w @ NUL @ x, r) \<in> set m" by (auto simp: rowsWithPrefix_def HasPrefix_def prefix_def)
    with tableKeyed_entry [OF assms(1) x assms(2)] show "map_of m (w @ NUL @ f r) = Some r"
      using mapWf_entry [OF wf] by blast
  next
    assume "map_of m (w @ NUL @ f r) = Some r"
    from map_of_SomeD [OF this] show "r \<in> set (rowsWithPrefix (w @ NUL) m)"
      by (force simp: rowsWithPrefix_def HasPrefix_def prefix_def)
  qed
qed

lemma index_lookup:
  assumes "distinct (map f xs)"
  shows "map_of (putAll [] (map (\<lambda>u. (f u, u)) xs)) i = Some u \<longleftrightarrow> u \<in> set xs \<and> f u = i"
proof -
  have d: "distinct (map fst (map (\<lambda>u. (f u, u)) xs))" using assms by (simp add: comp_def)
  have "map_of (putAll [] (map (\<lambda>u. (f u, u)) xs)) i = map_of (map (\<lambda>u. (f u, u)) xs) i"
    using map_of_putAll_distinct [OF d] by (simp split: option.split)
  then show ?thesis using d by (auto simp: map_of_eq_Some_iff)
qed

definition userTable :: "store \<Rightarrow> string \<Rightarrow> string \<Rightarrow> IdentityUser option" where
  "userTable s w i = map_of (st_users s) (TrimSpace w @ NUL @ i)"

lemma userTable_ID: "storeWf s \<Longrightarrow> nulFree w \<Longrightarrow> userTable s w i = Some u \<Longrightarrow> user_ID u = i"
  using tableKeyed_lookup [of user_ID "st_users s" "TrimSpace w" i u] by (simp add: storeWf_def userTable_def)

lemma GetIdentityUser_Inr: "GetIdentityUser s w i = Inr r \<Longrightarrow> r = userTable s w i"
  by (auto simp: GetIdentityUser_def GetIdentityUserWithinDataScope_def userTable_def key_iffs
      identityUserMatchesDataScope_def split: option.splits)

lemma GetIdentityUser_eq: "NewWorkspaceID w = Inr (TrimSpace w) \<Longrightarrow> GetIdentityUser s w i = Inr (userTable s w i)"
  by (auto simp: GetIdentityUser_def GetIdentityUserWithinDataScope_def userTable_def identityWorkspaceKey_def
      identityWorkspacePrefix_def identityUserMatchesDataScope_def split: option.splits)

lemma users_listed:
  assumes "ListIdentityUsers s w = Inr users" "storeWf s" "nulFree w"
  shows "u \<in> set users \<longleftrightarrow> userTable s w (user_ID u) = Some u" and "distinct (map user_ID users)"
proof -
  let ?rows = "rowsWithPrefix (TrimSpace w @ NUL) (st_users s)"
  have keyed: "tableKeyed user_ID (st_users s)" using assms(2) by (simp add: storeWf_def)
  have users: "users = sortSlice userLess ?rows"
    using assms(1) by (auto simp: ListIdentityUsers_def ListIdentityUsersWithinDataScope_def key_iffs
        identityUserMatchesDataScope_def)
  have w: "nulFree (TrimSpace w)" using assms(3) by simp
  show "u \<in> set users \<longleftrightarrow> userTable s w (user_ID u) = Some u"
    unfolding users userTable_def using rows_lookup [OF keyed w] by simp
  show "distinct (map user_ID users)" using tableKeyed_rows_distinct [OF keyed w]
    unfolding users by (metis distinct_map distinct_sortSlice set_sortSlice)
qed

lemma userIndex_table:
  assumes "ListIdentityUsers s w = Inr users" "storeWf s" "nulFree w"
  shows "map_of (userIndex users) i = userTable s w i"
proof -
  have "map_of (userIndex users) i = Some u \<longleftrightarrow> u \<in> set users \<and> user_ID u = i" for u
    unfolding userIndex_def by (rule index_lookup) (rule users_listed(2) [OF assms])
  moreover have "u \<in> set users \<and> user_ID u = i \<longleftrightarrow> userTable s w i = Some u" for u
    using users_listed(1) [OF assms] userTable_ID [OF assms(2,3)] by blast
  ultimately show ?thesis by (metis option.exhaust)
qed

lemma stamp_simps [simp]:
  "user_ManagerUserID (userDefaults u) = user_ManagerUserID u" "user_ManagerUserID (stampUser e x u) = user_ManagerUserID u"
  "user_Email (userDefaults u) = user_Email u" "user_Email (stampUser e x u) = user_Email u"
  "user_ReportingPath (userDefaults u) = user_ReportingPath u" "user_ReportingPath (stampUser e x u) = user_ReportingPath u"
  by (auto simp: userDefaults_def stampUser_def Let_def split: option.split)

lemma upsertUsersLoop_lookup:
  "upsertUsersLoop e pre m us = (Inr (), m') \<Longrightarrow> distinct (map user_ID us) \<Longrightarrow>
   map_of m' (pre @ i) = (case find (\<lambda>u. user_ID u = i) us of
     None \<Rightarrow> map_of m (pre @ i) | Some u \<Rightarrow> Some (stampUser e (map_of m (pre @ i)) (userDefaults u)))"
proof (induction e pre m us rule: upsertUsersLoop.induct)
  case (2 e pre m user us)
  let ?m = "AList.update (pre @ user_ID user) (stampUser e (map_of m (pre @ user_ID user)) (userDefaults user)) m"
  from "2.prems" have us: "upsertUsersLoop e pre ?m us = (Inr (), m')" "distinct (map user_ID us)"
      "user_ID user \<notin> user_ID ` set us" "\<not> isErased (map_of m (pre @ user_ID user))"
    by (auto simp: Let_def split: if_splits)
  have IH: "map_of m' (pre @ i) = (case find (\<lambda>u. user_ID u = i) us of
     None \<Rightarrow> map_of ?m (pre @ i) | Some u \<Rightarrow> Some (stampUser e (map_of ?m (pre @ i)) (userDefaults u)))"
    using "2.IH" [OF refl refl refl] us by (simp cong: option.case_cong)
  show ?case
  proof (cases "user_ID user = i")
    case True
    then have "find (\<lambda>u. user_ID u = i) us = None" using us(3) by (metis (mono_tags, lifting) find_None_iff imageI)
    with IH True show ?thesis by simp
  qed (simp add: IH split: option.split)
qed simp

lemma upsertUsers_lookup:
  assumes "UpsertIdentityUsersAtomically e s w us = (Inr (), s')" "distinct (map user_ID us)"
  shows "userTable s' w i = (case find (\<lambda>u. user_ID u = i) us of
     None \<Rightarrow> userTable s w i | Some u \<Rightarrow> Some (stampUser e (userTable s w i) (userDefaults u)))"
    and "NewWorkspaceID w = Inr (TrimSpace w)"
proof -
  obtain m where m: "upsertUsersLoop e (TrimSpace w @ NUL) (st_users s) us = (Inr (), m)" "s' = s\<lparr>st_users := m\<rparr>"
      and w: "NewWorkspaceID w = Inr (TrimSpace w)"
    using assms(1) by (auto simp: UpsertIdentityUsersAtomically_def key_iffs split: sum.splits if_splits prod.splits)
  show "NewWorkspaceID w = Inr (TrimSpace w)" by (rule w)
  show "userTable s' w i = (case find (\<lambda>u. user_ID u = i) us of
     None \<Rightarrow> userTable s w i | Some u \<Rightarrow> Some (stampUser e (userTable s w i) (userDefaults u)))"
    using upsertUsersLoop_lookup [OF m(1) assms(2), of i] m(2) by (simp add: userTable_def cong: option.case_cong)
qed

subsection \<open>The rows of an update\<close>

text \<open>Every row after the first is a listed one with another reporting path.\<close>

definition movedRow :: "IdentityUser \<Rightarrow> IdentityUser \<Rightarrow> bool" where
  "movedRow x d \<longleftrightarrow> (\<exists>p. d = x\<lparr>user_ReportingPath := p\<rparr>)"

lemma rebuild_rows:
  assumes "rebuildUserReportingPathReferences s w old new = Inr ds" "storeWf s" "nulFree w"
  shows "\<forall>d \<in> set ds. \<exists>x. userTable s w (user_ID d) = Some x \<and> movedRow x d
      \<and> HasPrefix (TrimRightSlash (TrimSpace (user_ReportingPath x))) (TrimRightSlash (TrimSpace old) @ ''/'')"
    and "distinct (map user_ID ds)"
proof -
  let ?o = "TrimRightSlash (TrimSpace old)" and ?n = "TrimRightSlash (TrimSpace new)"
  let ?f = "\<lambda>d. d\<lparr>user_ReportingPath := ?n @ TrimPrefix (TrimRightSlash (TrimSpace (user_ReportingPath d))) ?o\<rparr>"
  let ?P = "\<lambda>d. HasPrefix (TrimRightSlash (TrimSpace (user_ReportingPath d))) (?o @ ''/'')"
  have "ds = [] \<or> (\<exists>users. ListIdentityUsers s w = Inr users \<and> ds = map ?f (filter ?P users))"
    using assms(1) by (auto simp: rebuildUserReportingPathReferences_def Let_def split: if_splits)
  then show "\<forall>d \<in> set ds. \<exists>x. userTable s w (user_ID d) = Some x \<and> movedRow x d \<and> ?P x"
    using users_listed(1) [OF _ assms(2,3)] by (fastforce simp: movedRow_def)
  have "distinct (map user_ID (filter ?P users))" if "ListIdentityUsers s w = Inr users" for users
    using users_listed(2) [OF that assms(2,3)] by (simp add: distinct_map_filter)
  then show "distinct (map user_ID ds)"
    using \<open>ds = [] \<or> _\<close> by (auto simp: comp_def)
qed

lemma userUpdates_rows:
  assumes "userUpdates s w (userTable s w (user_ID u)) u = Inr us" "storeWf s" "nulFree w"
  shows "\<exists>ds. us = u # ds \<and> distinct (map user_ID us)
    \<and> (\<forall>d \<in> set ds. \<exists>x. userTable s w (user_ID d) = Some x \<and> movedRow x d)"
proof -
  consider "us = [u]" | x ds where "userTable s w (user_ID u) = Some x" "us = u # ds"
      "rebuildUserReportingPathReferences s w (user_ReportingPath x) (user_ReportingPath u) = Inr ds"
    using assms(1) by (auto simp: userUpdates_def split: option.splits if_splits)
  then show ?thesis
  proof cases
    case (2 x ds)
    note rows = rebuild_rows [OF 2(3) assms(2,3)]
    have "user_ID u \<notin> user_ID ` set ds"
    proof
      assume "user_ID u \<in> user_ID ` set ds"
      with rows(1) 2(1) have "HasPrefix (TrimRightSlash (TrimSpace (user_ReportingPath x)))
          (TrimRightSlash (TrimSpace (user_ReportingPath x)) @ ''/'')" by fastforce
      then show False by (auto simp: HasPrefix_def prefix_def)
    qed
    with rows 2(2) show ?thesis by auto
  qed simp
qed

subsection \<open>Preparation\<close>

lemma userManagerIssues_cong:
  "user_ID a = user_ID b \<Longrightarrow> TrimSpace (user_ManagerUserID a) = TrimSpace (user_ManagerUserID b) \<Longrightarrow>
   userManagerIssues a users = userManagerIssues b users"
  by (simp only: userManagerIssues_def)

lemma prepareUser_Inr:
  assumes "prepareUser e s w u0 = Inr u"
  obtains users where "ListIdentityUsers s w = Inr users" "user_ID u = TrimSpace (user_ID u0)"
    "user_ManagerUserID u = TrimSpace (user_ManagerUserID u0)" "user_Email u = ToLower (TrimSpace (user_Email u0))"
    "userManagerIssues u users = []" "\<not> emailTaken users u" "u = withReportingPath users u" "user_OrgID u = TrimSpace (user_OrgID u0)"
proof -
  let ?v = "normalizeUser u0"
  obtain users where l: "ListIdentityUsers s w = Inr users" and v: "ValidateUserConfiguration e s w ?v = Inr []"
    and t: "\<not> emailTaken users (inheritUser users ?v)"
    and u: "u = (withReportingPath users (inheritUser users ?v))\<lparr>user_Phone := TrimSpace (user_Phone (withReportingPath users (inheritUser users ?v)))\<rparr>"
    using assms by (auto simp: prepareUser_def Let_def split: option.splits if_splits)
  have inh: "user_ID (inheritUser users x) = user_ID x" "user_ManagerUserID (inheritUser users x) = user_ManagerUserID x"
      "user_Email (inheritUser users x) = user_Email x" "user_OrgID (inheritUser users x) = user_OrgID x" for x
    by (simp_all add: inheritUser_def Let_def split: option.split)
  have fields: "user_ID u = TrimSpace (user_ID u0)" "user_ManagerUserID u = TrimSpace (user_ManagerUserID u0)"
      "user_Email u = ToLower (TrimSpace (user_Email u0))" "user_OrgID u = TrimSpace (user_OrgID u0)"
    unfolding u by (simp_all add: withReportingPath_def Let_def inh normalizeUser_def)
  have "userManagerIssues (?v\<lparr>user_ID := TrimSpace (user_ID ?v), user_Name := TrimSpace (user_Name ?v),
      user_Email := ToLower (TrimSpace (user_Email ?v))\<rparr>) users = []"
    using v l by (auto simp: ValidateUserConfiguration_def Let_def)
  then have "userManagerIssues u users = []"
    by (subst userManagerIssues_cong [of u]) (auto simp: fields normalizeUser_def Let_def)
  moreover have "\<not> emailTaken users u" using t
    by (simp add: emailTaken_def fields inh normalizeUser_def Let_def)
  moreover have "u = withReportingPath users u" unfolding u by (simp add: withReportingPath_def Let_def)
  ultimately show ?thesis using that l fields by blast
qed

lemma UpsertUser_Inr:
  assumes "UpsertUser e s w u0 = (Inr (), s')" "storeWf s" "nulFree w"
  obtains u ds where "prepareUser e s w u0 = Inr u" "distinct (map user_ID (u # ds))"
    "\<forall>d \<in> set ds. \<exists>x. userTable s w (user_ID d) = Some x \<and> movedRow x d"
    "UpsertIdentityUsersAtomically e s w (u # ds) = (Inr (), s')"
proof -
  obtain u us where u: "prepareUser e s w u0 = Inr u" "userUpdates s w (userTable s w (TrimSpace (user_ID u0))) u = Inr us"
      "UpsertIdentityUsersAtomically e s w us = (Inr (), s')"
    using assms(1) by (auto simp: UpsertUser_def split: sum.splits dest!: GetIdentityUser_Inr)
  have "user_ID u = TrimSpace (user_ID u0)" using prepareUser_Inr [OF u(1)] by metis
  with u(2) obtain ds where ds: "us = u # ds" "distinct (map user_ID us)"
      "\<forall>d \<in> set ds. \<exists>x. userTable s w (user_ID d) = Some x \<and> movedRow x d"
    using userUpdates_rows [OF _ assms(2,3)] by metis
  show ?thesis by (rule that [OF u(1) _ ds(3)]) (use ds(1,2) u(3) in simp_all)
qed

text \<open>A user after the upsert: the prepared one, or the old row with another reporting path.\<close>

lemma upsertUser_table:
  assumes "UpsertIdentityUsersAtomically e s w (u # ds) = (Inr (), s')" "distinct (map user_ID (u # ds))"
    "\<forall>d \<in> set ds. \<exists>x. userTable s w (user_ID d) = Some x \<and> movedRow x d"
  shows "userTable s' w (user_ID u) = Some (stampUser e (userTable s w (user_ID u)) (userDefaults u))"
    and "i \<noteq> user_ID u \<Longrightarrow> map_option user_ManagerUserID (userTable s' w i) = map_option user_ManagerUserID (userTable s w i)"
    and "i \<noteq> user_ID u \<Longrightarrow> map_option user_Email (userTable s' w i) = map_option user_Email (userTable s w i)"
proof -
  note look = upsertUsers_lookup(1) [OF assms(1,2)]
  show "userTable s' w (user_ID u) = Some (stampUser e (userTable s w (user_ID u)) (userDefaults u))"
    by (simp add: look)
  have other: "map_option g (userTable s' w i) = map_option g (userTable s w i)"
    if ne: "i \<noteq> user_ID u" and g: "\<And>x p. g (x\<lparr>user_ReportingPath := p\<rparr>) = g x"
      "\<And>x y. g (stampUser e x (userDefaults y)) = g y" for g :: "IdentityUser \<Rightarrow> string"
  proof (cases "find (\<lambda>d. user_ID d = i) ds")
    case (Some d)
    then have "d \<in> set ds" "user_ID d = i" by (auto simp: find_Some_iff)
    with assms(3) obtain x p where "userTable s w i = Some x" "d = x\<lparr>user_ReportingPath := p\<rparr>"
      by (auto simp: movedRow_def)
    with Some ne show ?thesis by (simp add: look g)
  qed (use ne in \<open>simp add: look\<close>)
  show "i \<noteq> user_ID u \<Longrightarrow> map_option user_ManagerUserID (userTable s' w i) = map_option user_ManagerUserID (userTable s w i)"
    by (rule other) simp_all
  show "i \<noteq> user_ID u \<Longrightarrow> map_option user_Email (userTable s' w i) = map_option user_Email (userTable s w i)"
    by (rule other) simp_all
qed

end
