(* ===== verification/ReportingLines.thy ===== *)
theory ReportingLines
  imports UserLaws
begin

section \<open>Reporting lines\<close>

text \<open>
  The manager of each user as a function of the store; what the validation of the manager
  chain means for it, and that the reporting path spells out that chain.
\<close>

definition managerOf :: "store \<Rightarrow> string \<Rightarrow> string \<Rightarrow> string option" where
  "managerOf s w i = map_option (\<lambda>u. TrimSpace (user_ManagerUserID u)) (userTable s w i)"

text \<open>Every user's managers form a chain that ends with a user without a manager.\<close>

definition managerForest :: "store \<Rightarrow> string \<Rightarrow> bool" where
  "managerForest s w \<longleftrightarrow> (\<forall>i u. userTable s w i = Some u \<longrightarrow> (\<exists>managers. ancestorChain (managerOf s w) i managers))"

definition reportPath :: "string list \<Rightarrow> string \<Rightarrow> string" where
  "reportPath managers i =
     (if managers = [] then ''/'' @ i else TrimRightSlash (''/'' @ JoinStrings managers ''/'') @ ''/'' @ i)"

definition indexManager :: "(string, IdentityUser) gomap \<Rightarrow> string \<Rightarrow> string option" where
  "indexManager byID i = map_option (\<lambda>u. TrimSpace (user_ManagerUserID u)) (map_of byID i)"

text \<open>A chain without an issue ends at the top, stays clear of the visited users.\<close>

lemma managerChain_None:
  "managerChainIssue byID m visited cursor = None \<Longrightarrow> cursor \<noteq> [] \<Longrightarrow>
   \<exists>anc. ancestorChain (indexManager byID) cursor anc \<and> set (anc @ [cursor]) \<inter> set visited = {}"
proof (induction byID m visited cursor rule: managerChainIssue.induct)
  case (1 byID m visited cursor)
  from "1.prems" have fresh: "cursor \<notin> set visited"
    by (subst (asm) managerChainIssue.simps) (auto split: if_splits)
  with "1.prems" obtain u where u: "map_of byID cursor = Some u"
      "managerChainIssue byID m (cursor # visited) (TrimSpace (user_ManagerUserID u)) = None"
    by (subst (asm) managerChainIssue.simps) (auto split: option.splits)
  let ?p = "TrimSpace (user_ManagerUserID u)"
  have par: "indexManager byID cursor = Some ?p" using u(1) by (simp add: indexManager_def)
  show ?case
  proof (cases "?p = []")
    case True
    with par fresh show ?thesis by (intro exI [of _ "[]"]) (auto intro: ancestorChain.Top)
  next
    case False
    from "1.IH" [OF "1.prems"(2) fresh u(1) u(2) False] obtain anc where
      anc: "ancestorChain (indexManager byID) ?p anc" "set (anc @ [?p]) \<inter> set (cursor # visited) = {}" by blast
    from ancestorChain.Below [OF par False anc(1)] anc(2) fresh show ?thesis
      by (intro exI [of _ "anc @ [?p]"]) auto
  qed
qed

lemma reportingChain_eq:
  "ancestorChain (indexManager byID) i anc \<Longrightarrow> \<forall>k u. map_of byID k = Some u \<longrightarrow> user_ID u = k \<Longrightarrow> i \<noteq> [] \<Longrightarrow>
   set (anc @ [i]) \<inter> set visited = {} \<Longrightarrow> reportingChain byID visited i = rev (anc @ [i])"
proof (induction arbitrary: visited rule: ancestorChain.induct)
  case (Top i)
  then obtain u where "map_of byID i = Some u" "TrimSpace (user_ManagerUserID u) = []"
    by (auto simp: indexManager_def)
  with Top show ?case by (subst reportingChain.simps) (auto simp: reportingChain.simps)
next
  case (Below i p anc)
  then obtain u where u: "map_of byID i = Some u" "TrimSpace (user_ManagerUserID u) = p"
    by (auto simp: indexManager_def)
  have "ancestorChain (indexManager byID) i (anc @ [p])" using Below.hyps by (rule ancestorChain.Below)
  then have "i \<notin> set (anc @ [p])" by (rule ancestorChain_acyclic)
  with Below.IH [of "i # visited"] Below.prems Below.hyps(2)
  have "reportingChain byID (i # visited) p = rev (anc @ [p])" by auto
  with u Below.prems show ?case by (subst reportingChain.simps) auto
qed

lemma managerOf_index:
  assumes "ListIdentityUsers s w = Inr users" "storeWf s" "nulFree w"
  shows "indexManager (userIndex users) = managerOf s w"
  by (rule ext) (simp add: indexManager_def managerOf_def userIndex_table [OF assms])

text \<open>What a prepared user says about the chain of its manager.\<close>

lemma prepareUser_chain:
  assumes "prepareUser e s w u0 = Inr u" "storeWf s" "nulFree w"
  shows "\<exists>anc. (if user_ManagerUserID u = [] then anc = []
      else \<exists>anc'. anc = anc' @ [user_ManagerUserID u] \<and> ancestorChain (managerOf s w) (user_ManagerUserID u) anc')
    \<and> user_ID u \<notin> set anc \<and> user_ReportingPath u = reportPath anc (user_ID u)"
proof -
  let ?m = "user_ManagerUserID u"
  obtain users where users: "ListIdentityUsers s w = Inr users" and trim: "?m = TrimSpace (user_ManagerUserID u0)"
    and ok: "userManagerIssues u users = []" and path: "u = withReportingPath users u"
    using prepareUser_Inr [OF assms(1)] by metis
  have m: "TrimSpace ?m = ?m" by (simp add: trim)
  have rp: "user_ReportingPath u = user_ReportingPath (withReportingPath users u)" using path by simp
  show ?thesis
  proof (cases "?m = []")
    case True
    then show ?thesis using rp by (simp add: withReportingPath_def Let_def reportPath_def)
  next
    case False
    with ok m have "managerChainIssue (userIndex users) ?m [user_ID u] ?m = None"
      by (auto simp: userManagerIssues_def Let_def split: if_splits option.splits)
    from managerChain_None [OF this False] obtain anc where
      anc: "ancestorChain (indexManager (userIndex users)) ?m anc" "user_ID u \<notin> set (anc @ [?m])" by auto
    have keyed: "\<forall>k x. map_of (userIndex users) k = Some x \<longrightarrow> user_ID x = k"
      by (auto simp: userIndex_table [OF users assms(2,3)] dest: userTable_ID [OF assms(2,3)])
    have "identityUserReportingPath ?m (userIndex users) = ''/'' @ JoinStrings (anc @ [?m]) ''/''"
      using reportingChain_eq [OF anc(1) keyed False, of "[]"] by (simp add: identityUserReportingPath_def Let_def m)
    with False rp have "user_ReportingPath u = reportPath (anc @ [?m]) (user_ID u)"
      by (simp add: withReportingPath_def Let_def reportPath_def)
    with anc False show ?thesis
      by (intro exI [of _ "anc @ [?m]"]) (auto simp: managerOf_index [OF users assms(2,3)])
  qed
qed

lemma managerOf_upsert:
  assumes "UpsertIdentityUsersAtomically e s w (u # ds) = (Inr (), s')" "distinct (map user_ID (u # ds))"
    "\<forall>d \<in> set ds. \<exists>x. userTable s w (user_ID d) = Some x \<and> movedRow x d"
  shows "managerOf s' w i = (if i = user_ID u then Some (TrimSpace (user_ManagerUserID u)) else managerOf s w i)"
proof (cases "i = user_ID u")
  case False
  from upsertUser_table(2) [OF assms False]
  have "map_option TrimSpace (map_option user_ManagerUserID (userTable s' w i)) =
      map_option TrimSpace (map_option user_ManagerUserID (userTable s w i))" by (simp only:)
  with False show ?thesis by (simp add: managerOf_def option.map_comp comp_def)
qed (simp add: managerOf_def upsertUser_table(1) [OF assms])

text \<open>Giving one user a manager chain that avoids it keeps all chains ending at the top.\<close>

lemma chain_repoint:
  assumes "ancestorChain par i anc" "\<And>k. k \<noteq> r \<Longrightarrow> par' k = par k" "ancestorChain par' r ranc"
  shows "\<exists>anc'. ancestorChain par' i anc'"
  using assms
proof (induction rule: ancestorChain.induct)
  case (Top i)
  show ?case
  proof (cases "i = r")
    case False
    with Top have "par' i = Some []" by simp
    then show ?thesis by (blast intro: ancestorChain.Top)
  qed (use Top.prems in blast)
next
  case (Below i p anc)
  show ?case
  proof (cases "i = r")
    case False
    with Below show ?thesis by (metis ancestorChain.Below)
  qed (use Below.prems in blast)
qed

lemma ancestorChain_parent: "ancestorChain par i anc \<Longrightarrow> r \<in> set anc \<Longrightarrow> r \<noteq> [] \<and> (\<exists>k. par k = Some r)"
  by (induction rule: ancestorChain.induct) auto

subsection \<open>Removing a user\<close>

lemma removeUser_Inr:
  assumes "removeUser e s w i sc = (Inr (), s')" "storeWf s" "nulFree w"
  shows "\<forall>k u. userTable s w k = Some u \<longrightarrow> TrimSpace (user_ManagerUserID u) \<noteq> TrimSpace i"
    and "userTable s w (TrimSpace i) \<noteq> None"
    and "st_users s' = AList.delete (TrimSpace w @ NUL @ TrimSpace i) (st_users s)"
    and "st_userRoles s' = filter (\<lambda>(k, a). \<not> (HasPrefix k (TrimSpace w @ NUL) \<and> asg_UserID a = TrimSpace i)) (st_userRoles s)"
    and "NewWorkspaceID w = Inr (TrimSpace w)"
proof -
  obtain users sc' where users: "ListIdentityUsers s w = Inr users"
    and none: "find (\<lambda>u. TrimSpace (user_ManagerUserID u) = TrimSpace i) users = None"
    and rm: "RemoveIdentityUserWithinDataScope s w (TrimSpace i) sc' = (Inr True, s')"
    using assms(1) by (auto simp: removeUser_def Let_def RemoveIdentityUser_def requireDone_def
        split: if_splits sum.splits prod.splits option.splits)
  have tab: "userTable s w k = Some u \<Longrightarrow> u \<in> set users" for k u
    using users_listed(1) [OF users assms(2,3)] userTable_ID [OF assms(2,3)] by blast
  then show "\<forall>k u. userTable s w k = Some u \<longrightarrow> TrimSpace (user_ManagerUserID u) \<noteq> TrimSpace i"
    using none by (auto simp: find_None_iff)
  show "userTable s w (TrimSpace i) \<noteq> None"
    "st_users s' = AList.delete (TrimSpace w @ NUL @ TrimSpace i) (st_users s)"
    "st_userRoles s' = filter (\<lambda>(k, a). \<not> (HasPrefix k (TrimSpace w @ NUL) \<and> asg_UserID a = TrimSpace i)) (st_userRoles s)"
    "NewWorkspaceID w = Inr (TrimSpace w)"
    using rm by (auto simp: RemoveIdentityUserWithinDataScope_def key_iffs userTable_def userInScope_def
        split: sum.splits if_splits option.splits)
qed

subsection \<open>Case folding commutes with trimming\<close>

lemma lowerChar_other:
  assumes "of_char c < (65 :: nat) \<or> 122 < (of_char c :: nat)"
  shows "lowerChar d = c \<longleftrightarrow> d = c"
proof (cases "65 \<le> (of_char d :: nat) \<and> (of_char d :: nat) \<le> 90")
  case True
  then have n: "(of_char (lowerChar d) :: nat) = of_char d + 32" by (simp add: lowerChar_def)
  with True assms show ?thesis by auto
qed (auto simp: lowerChar_def Let_def)

lemma spaceRunes_bytes: "\<forall>r \<in> set spaceRunes. \<forall>c \<in> set r. of_char c < (65 :: nat) \<or> 122 < (of_char c :: nat)"
  by (simp add: spaceRunes_def)

lemma prefix_lower:
  "\<forall>c \<in> set r. of_char c < (65 :: nat) \<or> 122 < (of_char c :: nat) \<Longrightarrow> prefix r (map lowerChar s) \<longleftrightarrow> prefix r s"
proof (induction r arbitrary: s)
  case (Cons c r)
  then have "c = lowerChar d \<longleftrightarrow> c = d" for d using lowerChar_other [of c d] by auto
  with Cons show ?case by (cases s) simp_all
qed simp

lemma leadingRune_lower:
  assumes "\<forall>r \<in> set rs. \<forall>c \<in> set r. of_char c < (65 :: nat) \<or> 122 < (of_char c :: nat)"
  shows "leadingRune rs (map lowerChar s) = leadingRune rs s"
proof -
  have "find (\<lambda>r. r \<noteq> [] \<and> prefix r (map lowerChar s)) rs = find (\<lambda>r. r \<noteq> [] \<and> prefix r s) rs"
    using assms by (intro find_cong) (auto simp: prefix_lower)
  then show ?thesis by (simp only: leadingRune_def)
qed

lemma stripRunes_lower:
  assumes "\<forall>r \<in> set rs. \<forall>c \<in> set r. of_char c < (65 :: nat) \<or> 122 < (of_char c :: nat)"
  shows "stripRunes rs (map lowerChar s) = map lowerChar (stripRunes rs s)"
  using assms
proof (induction rs s rule: stripRunes.induct)
  case (1 rs s)
  then show ?case
    by (subst (1 2) stripRunes.simps) (simp add: leadingRune_lower drop_map)
qed

lemma TrimSpace_ToLower: "TrimSpace (ToLower s) = ToLower (TrimSpace s)"
proof -
  have rev: "\<forall>r \<in> set (map rev spaceRunes). \<forall>c \<in> set r. of_char c < (65 :: nat) \<or> 122 < (of_char c :: nat)"
    using spaceRunes_bytes by auto
  show ?thesis
    by (simp add: TrimSpace_def ToLower_def stripRunes_lower [OF spaceRunes_bytes] stripRunes_lower [OF rev] rev_map)
qed

end
