(* ===== verification/UserProperties.thy ===== *)
theory UserProperties
  imports ReportingLines
begin

section \<open>What the user service guarantees\<close>

text \<open>
  Reporting lines stay free of cycles under updates and removals, emails stay unique,
  concurrent locale changes do not overwrite each other, and the scoped operations keep
  inside the data scope of the actor.
\<close>

subsection \<open>Concrete users\<close>

definition sampleMail :: "string \<Rightarrow> string \<Rightarrow> IdentityUser" where
  "sampleMail i manager = blankUser\<lparr>user_ID := i, user_Name := i, user_Email := i @ ''@acme.test'', user_ManagerUserID := manager,
     user_Status := ''active'', user_ReportingPath := ''/'' @ i, user_Version := 1\<rparr>"

definition teamStore :: store where
  "teamStore = NewMemoryIdentityStore\<lparr>
     st_organizationUnits := [(''acme'' @ NUL @ ''hq'', sampleHq)],
     st_users := [(''acme'' @ NUL @ ''boss'', sampleMail ''boss'' [])]\<rparr>"

lemmas team_defs = sampleMail_def teamStore_def org_defs

lemma teamStore_wf: "storeWf teamStore"
  using tableKeyed_acme [of user_ID "sampleMail ''boss'' []"] tableKeyed_acme [of unit_ID sampleHq]
  by (simp add: storeWf_def team_defs)

lemma teamStore_table: "userTable teamStore ''acme'' i = (if i = ''boss'' then Some (sampleMail ''boss'' []) else None)"
  by (simp add: userTable_def teamStore_def)

lemma teamStore_forest: "managerForest teamStore ''acme''"
proof -
  have "ancestorChain (managerOf teamStore ''acme'') ''boss'' []"
    by (rule ancestorChain.Top) (simp add: managerOf_def teamStore_table sampleMail_def blankUser_def)
  then show ?thesis by (auto simp: managerForest_def teamStore_table)
qed

subsection \<open>Properties\<close>

text \<open>
  C14 (reporting lines).  When the manager chain of every user of the workspace ends at a
  user without a manager, it still does after a successful upsert, which may give the user
  another manager; the stored user is not among its own managers and its reporting path
  spells out its chain.
\<close>

theorem upsert_keeps_reporting_lines:
  assumes "storeWf s" "nulFree w" "managerForest s w" "UpsertUser e s w u0 = (Inr (), s')"
  shows "managerForest s' w \<and> (\<exists>row managers. GetIdentityUser s' w (TrimSpace (user_ID u0)) = Inr (Some row)
    \<and> ancestorChain (managerOf s' w) (user_ID row) managers \<and> user_ID row \<notin> set managers
    \<and> user_ReportingPath row = reportPath managers (user_ID row))"
proof -
  obtain u ds where u: "prepareUser e s w u0 = Inr u" and up: "distinct (map user_ID (u # ds))"
      "\<forall>d \<in> set ds. \<exists>x. userTable s w (user_ID d) = Some x \<and> movedRow x d"
      "UpsertIdentityUsersAtomically e s w (u # ds) = (Inr (), s')"
    using UpsertUser_Inr [OF assms(4,1,2)] by metis
  note par = managerOf_upsert [OF up(3,1,2)]
  have id: "user_ID u = TrimSpace (user_ID u0)" and trim: "TrimSpace (user_ManagerUserID u) = user_ManagerUserID u"
    using prepareUser_Inr [OF u] by (metis, metis TrimSpace_idem)
  obtain anc where anc: "if user_ManagerUserID u = [] then anc = []
      else \<exists>anc'. anc = anc' @ [user_ManagerUserID u] \<and> ancestorChain (managerOf s w) (user_ManagerUserID u) anc'"
    "user_ID u \<notin> set anc" "user_ReportingPath u = reportPath anc (user_ID u)"
    using prepareUser_chain [OF u assms(1,2)] by blast
  have chain: "ancestorChain (managerOf s' w) (user_ID u) anc"
  proof (cases "user_ManagerUserID u = []")
    case True
    with anc(1) show ?thesis by (auto intro!: ancestorChain.Top simp: par)
  next
    case False
    with anc(1) obtain anc' where a: "anc = anc' @ [user_ManagerUserID u]"
        "ancestorChain (managerOf s w) (user_ManagerUserID u) anc'" by auto
    have "ancestorChain (managerOf s' w) (user_ManagerUserID u) anc'"
      by (rule ancestorChain_avoids [OF a(2), of "user_ID u"]) (use anc(2) a(1) par in auto)
    then show ?thesis unfolding a(1) by (rule ancestorChain.Below [rotated 2]) (use False in \<open>simp_all add: par trim\<close>)
  qed
  have "\<exists>managers. ancestorChain (managerOf s' w) i managers" if "userTable s' w i = Some v" for i v
  proof (cases "i = user_ID u")
    case False
    have "userTable s w i \<noteq> None"
      using upsertUser_table(2) [OF up(3,1,2) False] that by (metis option.map_disc_iff option.distinct(1))
    then obtain c where "ancestorChain (managerOf s w) i c" using assms(3) by (auto simp: managerForest_def)
    then show ?thesis by (rule chain_repoint [OF _ _ chain]) (simp add: par)
  qed (use chain in blast)
  then have "managerForest s' w" by (simp add: managerForest_def)
  moreover have "GetIdentityUser s' w (user_ID u) = Inr (Some (stampUser e (userTable s w (user_ID u)) (userDefaults u)))"
    using GetIdentityUser_eq [OF upsertUsers_lookup(2) [OF up(3,1)]] upsertUser_table(1) [OF up(3,1,2)] by simp
  ultimately show ?thesis using chain anc(2,3) unfolding id by (metis id stamp_simps(5,6) user_ID_stamps(1,2))
qed

theorem upsert_keeps_reporting_lines_witness:
  "managerForest (snd (UpsertUser sampleEnv teamStore ''acme'' (sampleMail ''ann'' ''boss''))) ''acme''"
proof -
  have "fst (UpsertUser sampleEnv teamStore ''acme'' (sampleMail ''ann'' ''boss'')) = Inr ()" by code_simp
  from upsert_keeps_reporting_lines [OF teamStore_wf acme_workspace(3) teamStore_forest fst_Inr [OF this]]
  show ?thesis by blast
qed

text \<open>
  C15 (removal).  A successful removal, scoped or not, was of a user nobody reports to;
  afterwards the user and its role assignments are gone, every other user is as before, no
  user names the removed one as manager, and the reporting lines still end.
\<close>

theorem remove_leaves_no_dangling_reports:
  assumes "storeWf s" "nulFree w" "managerForest s w" "removeUser e s w i sc = (Inr (), s')"
  shows "managerForest s' w \<and> GetIdentityUser s' w (TrimSpace i) = Inr None
    \<and> (\<forall>k. k \<noteq> TrimSpace i \<longrightarrow> GetIdentityUser s' w k = GetIdentityUser s w k)
    \<and> (\<forall>users. ListIdentityUsers s' w = Inr users \<longrightarrow> (\<forall>u \<in> set users. TrimSpace (user_ManagerUserID u) \<noteq> TrimSpace i))
    \<and> (\<forall>as. ListIdentityUserRoleAssignments s' w [] = Inr as \<longrightarrow> (\<forall>a \<in> set as. asg_UserID a \<noteq> TrimSpace i))"
proof -
  note rm = removeUser_Inr [OF assms(4,1,2)]
  have tab: "userTable s' w k = (if k = TrimSpace i then None else userTable s w k)" for k
    by (simp add: userTable_def rm(3) append_NUL_inj)
  have par: "managerOf s' w k = (if k = TrimSpace i then None else managerOf s w k)" for k
    by (simp add: managerOf_def tab)
  have nobody: "managerOf s w k \<noteq> Some (TrimSpace i)" for k using rm(1) by (auto simp: managerOf_def)
  have "\<exists>managers. ancestorChain (managerOf s' w) k managers" if "userTable s' w k = Some v" for k v
  proof -
    have k: "k \<noteq> TrimSpace i" "userTable s w k = Some v" using that tab by (auto split: if_splits)
    then obtain c where c: "ancestorChain (managerOf s w) k c" using assms(3) by (auto simp: managerForest_def)
    have "ancestorChain (managerOf s' w) k c"
      by (rule ancestorChain_avoids [OF c, of "TrimSpace i"]) (use k ancestorChain_parent [OF c] nobody par in auto)
    then show ?thesis by blast
  qed
  then have "managerForest s' w" by (simp add: managerForest_def)
  moreover have "TrimSpace (user_ManagerUserID u) \<noteq> TrimSpace i"
    if "ListIdentityUsers s' w = Inr users" "u \<in> set users" for users u
  proof -
    have "u \<in> set (rowsWithPrefix (TrimSpace w @ NUL) (AList.delete (TrimSpace w @ NUL @ TrimSpace i) (st_users s)))"
      using that by (auto simp: ListIdentityUsers_def ListIdentityUsersWithinDataScope_def key_iffs rm(3))
    then have "u \<in> set (rowsWithPrefix (TrimSpace w @ NUL) (st_users s))"
      by (auto simp: rowsWithPrefix_def AList.delete_eq)
    then have "userTable s w (user_ID u) = Some u"
      using rows_lookup [of user_ID "st_users s" "TrimSpace w" u] assms(1,2) by (simp add: storeWf_def userTable_def)
    with rm(1) show ?thesis by blast
  qed
  moreover have "asg_UserID a \<noteq> TrimSpace i"
    if "ListIdentityUserRoleAssignments s' w [] = Inr as" "a \<in> set as" for as a
    using that by (auto simp: ListIdentityUserRoleAssignments_def ListIdentityUserRoleAssignmentsWithinDataScope_def
        key_iffs rm(4) rowsWithPrefix_def)
  ultimately show ?thesis by (simp add: GetIdentityUser_eq [OF rm(5)] tab)
qed

theorem remove_leaves_no_dangling_reports_witness:
  "GetIdentityUser (snd (removeUser sampleEnv teamStore ''acme'' '' boss '' unrestrictedFilter)) ''acme'' ''boss'' = Inr None"
proof -
  have "fst (removeUser sampleEnv teamStore ''acme'' '' boss '' unrestrictedFilter) = Inr ()" by code_simp
  moreover have "TrimSpace '' boss '' = ''boss''" by code_simp
  ultimately show ?thesis
    using remove_leaves_no_dangling_reports [OF teamStore_wf acme_workspace(3) teamStore_forest fst_Inr] by fastforce
qed

definition emailsUnique :: "store \<Rightarrow> string \<Rightarrow> bool" where
  "emailsUnique s w \<longleftrightarrow> (\<forall>i j u v. userTable s w i = Some u \<longrightarrow> userTable s w j = Some v \<longrightarrow> i \<noteq> j \<longrightarrow>
     \<not> EqualFold (TrimSpace (user_Email u)) (TrimSpace (user_Email v)))"

lemma emailsUnique_one:
  assumes "emailsUnique s w" "\<And>i. i \<noteq> r \<Longrightarrow> map_option user_Email (userTable s' w i) = map_option user_Email (userTable s w i)"
    "userTable s' w r = Some u"
    "\<And>i v. i \<noteq> r \<Longrightarrow> userTable s w i = Some v \<Longrightarrow> \<not> EqualFold (TrimSpace (user_Email v)) (TrimSpace (user_Email u))"
  shows "emailsUnique s' w"
  unfolding emailsUnique_def
proof (intro allI impI)
  fix i j x y assume x: "userTable s' w i = Some x" and y: "userTable s' w j = Some y" and ne: "i \<noteq> j"
  have old: "\<exists>v. userTable s w k = Some v \<and> user_Email v = user_Email z" if "userTable s' w k = Some z" "k \<noteq> r" for k z
    using assms(2) [OF that(2)] that(1) by (cases "userTable s w k") auto
  consider "i = r" | "j = r" | "i \<noteq> r" "j \<noteq> r" by blast
  then show "\<not> EqualFold (TrimSpace (user_Email x)) (TrimSpace (user_Email y))"
  proof cases
    case 1
    then have "x = u" "j \<noteq> r" using x ne assms(3) by auto
    with old [OF y] assms(4) show ?thesis using EqualFold_sym by metis
  next
    case 2
    then have "y = u" "i \<noteq> r" using y ne assms(3) by auto
    with old [OF x] assms(4) show ?thesis by metis
  next
    case 3
    with old [OF x] old [OF y] ne assms(1) show ?thesis unfolding emailsUnique_def by metis
  qed
qed

text \<open>
  C16 (unique emails).  When no two users of the workspace have the same email, up to case
  and surrounding space, the same holds after a successful upsert.
\<close>

theorem upsert_keeps_emails_unique:
  assumes "storeWf s" "nulFree w" "emailsUnique s w" "UpsertUser e s w u0 = (Inr (), s')"
  shows "emailsUnique s' w"
proof -
  obtain u ds where u: "prepareUser e s w u0 = Inr u" and up: "distinct (map user_ID (u # ds))"
      "\<forall>d \<in> set ds. \<exists>x. userTable s w (user_ID d) = Some x \<and> movedRow x d"
      "UpsertIdentityUsersAtomically e s w (u # ds) = (Inr (), s')"
    using UpsertUser_Inr [OF assms(4,1,2)] by metis
  obtain users where users: "ListIdentityUsers s w = Inr users" and mail: "user_Email u = ToLower (TrimSpace (user_Email u0))"
      and free: "\<not> emailTaken users u"
    using prepareUser_Inr [OF u] by metis
  show ?thesis
  proof (rule emailsUnique_one [OF assms(3) upsertUser_table(3) [OF up(3,1,2)] upsertUser_table(1) [OF up(3,1,2)]])
    fix i v assume i: "i \<noteq> user_ID u" and v: "userTable s w i = Some v"
    then have "v \<in> set users" "user_ID v \<noteq> user_ID u"
      using users_listed(1) [OF users assms(1,2)] userTable_ID [OF assms(1,2) v] by auto
    then show "\<not> EqualFold (TrimSpace (user_Email v))
        (TrimSpace (user_Email (stampUser e (userTable s w (user_ID u)) (userDefaults u))))"
      using free by (auto simp: emailTaken_def list_ex_iff mail TrimSpace_ToLower)
  qed
qed

theorem upsert_keeps_emails_unique_witness:
  "emailsUnique (snd (UpsertUser sampleEnv teamStore ''acme'' (sampleMail ''ann'' ''boss''))) ''acme''"
proof -
  have u: "emailsUnique teamStore ''acme''" by (simp add: emailsUnique_def teamStore_table)
  have "fst (UpsertUser sampleEnv teamStore ''acme'' (sampleMail ''ann'' ''boss'')) = Inr ()" by code_simp
  from upsert_keeps_emails_unique [OF teamStore_wf acme_workspace(3) u fst_Inr [OF this]] show ?thesis .
qed

text \<open>
  C17 (no lost locale update).  After a successful locale change the row has the trimmed
  locale and the next version; a second change that still expects the old version is
  refused with a version conflict and writes nothing, whatever its locale.
\<close>

theorem locale_update_compare_and_set:
  assumes "storeWf s" "nulFree w" "UpdateUserLocale e s w i l v = (Inr u, s')" "TrimSpace l' \<noteq> []"
  shows "user_Version u = v + 1 \<and> user_Locale u = TrimSpace l
    \<and> GetIdentityUser s' w (TrimSpace i) = Inr (Some u)
    \<and> UpdateUserLocale e s' w i l' v = (Inl (conflict e ''backend.identity.user_version_conflict'' [''user'', TrimSpace i]), s')"
proof -
  let ?k = "TrimSpace w @ NUL @ TrimSpace i"
  have ok: "NewWorkspaceID w = Inr (TrimSpace w)" "TrimSpace i \<noteq> []" "\<not> v < 1" "TrimSpace l \<noteq> []"
    and up: "UpdateIdentityUserLocale s (TrimSpace w) (TrimSpace i) (TrimSpace l) v = (Inr (Some u), s')"
    using assms(3) by (auto simp: UpdateUserLocale_def NewWorkspaceCommandScope_def NewWorkspaceID_Inr_iff Let_def bind_Inr_iff
        split: sum.splits if_splits prod.splits option.splits)
  have key: "identityWorkspaceKey (TrimSpace w) [TrimSpace i] = Inr ?k"
    using NewWorkspaceID_TrimSpace [OF ok(1)] by (simp add: key_iffs)
  obtain x where x: "map_of (st_users s) ?k = Some x" "user_Version x = v" "user_Status x \<noteq> IdentityStatusErased"
    "u = x\<lparr>user_Locale := TrimSpace l, user_Version := user_Version x + 1\<rparr>"
    "s' = s\<lparr>st_users := AList.update ?k u (st_users s)\<rparr>"
    using up key by (auto simp: UpdateIdentityUserLocale_def Let_def split: option.splits if_splits)
  have tab: "userTable s' w (TrimSpace i) = Some u" by (simp add: userTable_def x(5))
  have second: "UpdateIdentityUserLocale s' (TrimSpace w) (TrimSpace i) (TrimSpace l') v = (Inr None, s')"
    using key x(2,4,5) by (simp add: UpdateIdentityUserLocale_def)
  have get: "GetIdentityUser s' (TrimSpace w) (TrimSpace i) = Inr (Some u)"
    using GetIdentityUser_eq [of "TrimSpace w" s' "TrimSpace i"] NewWorkspaceID_TrimSpace [OF ok(1)] tab
    by (simp add: userTable_def)
  show ?thesis
    using x GetIdentityUser_eq [OF ok(1)] tab ok assms(4) get second
    by (simp add: UpdateUserLocale_def NewWorkspaceCommandScope_def Let_def)
qed

theorem locale_update_compare_and_set_witness:
  "fst (UpdateUserLocale sampleEnv (snd (UpdateUserLocale sampleEnv teamStore ''acme'' ''boss'' ''de-DE'' 1)) ''acme'' ''boss'' ''fr-FR'' 1) =
     Inl (conflict sampleEnv ''backend.identity.user_version_conflict'' [''user'', TrimSpace ''boss''])"
proof -
  let ?r = "UpdateUserLocale sampleEnv teamStore ''acme'' ''boss'' ''de-DE'' 1"
  have "isl (fst ?r) = False" by code_simp
  then obtain u where "?r = (Inr u, snd ?r)" by (cases ?r; cases "fst ?r") auto
  moreover have "TrimSpace ''fr-FR'' \<noteq> []" by code_simp
  ultimately show ?thesis
    using locale_update_compare_and_set [OF teamStore_wf acme_workspace(3)] by fastforce
qed

subsection \<open>Scoped writes\<close>

lemma normalized_OrgIDs:
  "x \<in> set (flt_OwnerOrgIDs (IdentityPermissionDataScopeFilter e actor k)) \<Longrightarrow> TrimSpace x = x"
proof -
  let ?f = "IdentityPermissionDataScopeFilter e actor k"
  have "flt_OwnerOrgIDs (Filter_Normalized ?f) = flt_OwnerOrgIDs ?f" by simp
  then have "flt_OwnerOrgIDs ?f = normalizedIdentityScopeIDs (flt_OwnerOrgIDs ?f)"
    by (simp del: DataScopeFilter_normalized add: Filter_Normalized_def split: if_splits)
  moreover assume "x \<in> set (flt_OwnerOrgIDs ?f)"
  ultimately have "x \<in> set (normalizedIdentityScopeIDs (flt_OwnerOrgIDs ?f))" by metis
  then show ?thesis by auto
qed

lemma createScopeCheck_Inr:
  assumes "createScopeCheck e s w scope u = Inr v"
  shows "user_ID v = user_ID u \<and> (flt_Unrestricted scope \<or>
    TrimSpace (user_OrgID v) = user_OrgID v \<and> user_OrgID v \<in> TrimSpace ` set (flt_OwnerOrgIDs scope))"
proof (cases "flt_Unrestricted scope")
  case False
  let ?o = "TrimSpace (user_OrgID u)"
  have "v = u\<lparr>user_OrgID := ?o\<rparr>" "identityStringValueIn (flt_OwnerOrgIDs scope) ?o"
    using assms False by (auto simp: createScopeCheck_def Let_def split: if_splits)
  moreover from this obtain x where "x \<in> set (flt_OwnerOrgIDs scope)" "?o = TrimSpace x"
    by (auto simp: identityStringValueIn_def list_ex_iff)
  ultimately show ?thesis by simp
qed (use assms in \<open>simp add: createScopeCheck_def\<close>)

lemma prepareUser_OrgID: "prepareUser e s w u0 = Inr u \<Longrightarrow> user_OrgID u = TrimSpace (user_OrgID u0)"
  using prepareUser_Inr by metis

text \<open>
  Creation inside the scope: a successful scoped creation was of an identifier not in
  use, writes one row with version 1, changes no other user, and the new user is inside the
  data scope of the actor: a restricted actor can read what it created.
\<close>

theorem create_stays_in_scope:
  assumes "CreateUserWithinDataScope e s w u0 actor key = (Inr (), s')"
  shows "GetIdentityUser s w (TrimSpace (user_ID u0)) = Inr None
    \<and> (\<exists>row. GetIdentityUserWithinDataScope s' w (TrimSpace (user_ID u0)) (IdentityPermissionDataScopeFilter e actor key) = Inr (Some row)
        \<and> user_ID row = TrimSpace (user_ID u0) \<and> user_Version row = 1)
    \<and> (\<forall>k. k \<noteq> TrimSpace (user_ID u0) \<longrightarrow> GetIdentityUser s' w k = GetIdentityUser s w k)"
proof -
  let ?i = "TrimSpace (user_ID u0)" and ?f = "IdentityPermissionDataScopeFilter e actor key"
  obtain v p where none: "GetIdentityUser s w ?i = Inr None" and v: "createScopeCheck e s w ?f (u0\<lparr>user_ID := ?i\<rparr>) = Inr v"
    and p: "prepareUser e s w v = Inr p" and c: "CreateIdentityUser e s w p = (Inr (), s')"
    using assms by (auto simp: CreateUserWithinDataScope_def Let_def split: if_splits sum.splits)
  have id: "user_ID p = ?i" using prepareUser_Inr [OF p] createScopeCheck_Inr [OF v]
    by (metis IdentityUser.select_convs(1) IdentityUser.surjective IdentityUser.update_convs(1) TrimSpace_idem)
  let ?row = "(userDefaults p)\<lparr>user_Version := 1, user_CreatedAt := nowString e, user_UpdatedAt := nowString e\<rparr>"
  have s': "st_users s' = AList.update (TrimSpace w @ NUL @ ?i) ?row (st_users s)" and w: "NewWorkspaceID w = Inr (TrimSpace w)"
    using c id by (auto simp: CreateIdentityUser_def Let_def key_iffs split: sum.splits if_splits)
  have "user_OrgID p \<in> set (flt_OwnerOrgIDs ?f)" if "\<not> flt_Unrestricted ?f"
    using createScopeCheck_Inr [OF v] that prepareUser_OrgID [OF p] normalized_OrgIDs by fastforce
  then have "identityUserMatchesDataScope ?row ?f"
    by (auto simp: identityUserMatchesDataScope_def list_ex_iff userDefaults_def Let_def)
  then have "GetIdentityUserWithinDataScope s' w ?i ?f = Inr (Some ?row)"
    using w by (simp add: GetIdentityUserWithinDataScope_def identityWorkspaceKey_def identityWorkspacePrefix_def s')
  moreover have "GetIdentityUser s' w k = GetIdentityUser s w k" if "k \<noteq> ?i" for k
    using that by (simp add: GetIdentityUser_eq [OF w] userTable_def s')
  ultimately show ?thesis using none id by auto
qed

text \<open>An actor that may create users in its own organization.\<close>

definition hqAdmin :: Principal where
  "hqAdmin = zeroPrincipal\<lparr>prin_UserID := ''admin'', prin_WorkspaceID := ''acme'', prin_OrgID := ''hq'', prin_OrgScopeIDs := [''hq''], prin_Known := True,
     prin_Role := zeroRoleSchema\<lparr>rs_Permissions := [\<lparr>grant_PermissionKey = ''identity.users.create'', grant_DataScope = ''org'',
       grant_DataPolicy = None, grant_AuditDenial = False\<rparr>]\<rparr>\<rparr>"

theorem create_stays_in_scope_witness:
  "GetIdentityUser teamStore ''acme'' ''ann'' = Inr None \<and>
   (\<exists>row. GetIdentityUserWithinDataScope (snd (CreateUserWithinDataScope sampleEnv teamStore ''acme''
       ((sampleMail ''ann'' ''boss'')\<lparr>user_OrgID := ''hq''\<rparr>) hqAdmin ''identity.users.create'')) ''acme'' ''ann''
       (IdentityPermissionDataScopeFilter sampleEnv hqAdmin ''identity.users.create'') = Inr (Some row))"
proof -
  let ?u = "(sampleMail ''ann'' ''boss'')\<lparr>user_OrgID := ''hq''\<rparr>"
  have "fst (CreateUserWithinDataScope sampleEnv teamStore ''acme'' ?u hqAdmin ''identity.users.create'') = Inr ()" by code_simp
  note c = create_stays_in_scope [OF fst_Inr [OF this]]
  have "TrimSpace (user_ID ?u) = ''ann''" by code_simp
  with c show ?thesis by (simp only:) blast
qed

text \<open>
  C19 (updates inside the scope).  A scoped update, whatever its outcome, changes only the
  table of users, and there only rows that existed, were not erased and were inside the
  data scope of the actor before it; when it fails nothing is written.
\<close>

theorem update_stays_in_scope:
  assumes "UpdateUserWithinDataScope e s w u0 actor key = (r, s')"
  shows "s' = s\<lparr>st_users := st_users s'\<rparr> \<and> (r \<noteq> Inr () \<longrightarrow> s' = s)
    \<and> (\<forall>k. map_of (st_users s') k \<noteq> map_of (st_users s) k \<longrightarrow>
        userInScope (IdentityPermissionDataScopeFilter e actor key) (map_of (st_users s) k))"
proof -
  let ?f = "IdentityPermissionDataScopeFilter e actor key"
  have loop: "map_of (updateUsersLoop e pre m us) k = map_of m k" if "k \<notin> (\<lambda>u. pre @ user_ID u) ` set us" for pre m us k
    using that by (induction e pre m us rule: updateUsersLoop.induct) auto
  have scoped: "s2 = s\<lparr>st_users := st_users s2\<rparr> \<and> (b \<noteq> Inr True \<longrightarrow> s2 = s)
      \<and> (\<forall>k. map_of (st_users s2) k \<noteq> map_of (st_users s) k \<longrightarrow> userInScope ?f (map_of (st_users s) k))"
    if "UpdateIdentityUsersWithinDataScopeAtomically e s w us ?f = (b, s2)" for us b s2
  proof (cases "b = Inr True")
    case True
    with that obtain pre where s2: "s2 = s\<lparr>st_users := updateUsersLoop e pre (st_users s) us\<rparr>"
        "\<forall>u \<in> set us. userInScope ?f (map_of (st_users s) (pre @ user_ID u))"
      by (auto simp: UpdateIdentityUsersWithinDataScopeAtomically_def list_ex_iff split: sum.splits if_splits)
    have "k \<in> (\<lambda>u. pre @ user_ID u) ` set us" if "map_of (st_users s2) k \<noteq> map_of (st_users s) k" for k
      using that loop [of k pre us "st_users s"] s2(1) by force
    with s2(2) have "userInScope ?f (map_of (st_users s) k)" if "map_of (st_users s2) k \<noteq> map_of (st_users s) k" for k
      using that by blast
    then show ?thesis using True s2(1) by simp
  next
    case False
    with that show ?thesis
      by (auto simp: UpdateIdentityUsersWithinDataScopeAtomically_def split: sum.splits if_splits)
  qed
  from assms consider "s' = s" | us b where "UpdateIdentityUsersWithinDataScopeAtomically e s w us ?f = (b, s')"
      "r \<noteq> Inr () \<longrightarrow> b \<noteq> Inr True"
    by (auto simp: UpdateUserWithinDataScope_def Let_def requireDone_def split: sum.splits prod.splits if_splits)
  then show ?thesis
  proof cases
    case (2 us b)
    from scoped [OF 2(1)] 2(2) show ?thesis by blast
  qed simp
qed

theorem update_stays_in_scope_witness:
  "snd (UpdateUserWithinDataScope sampleEnv teamStore ''acme'' (sampleMail ''boss'' []) zeroPrincipal ''identity.users.update'') = teamStore"
proof -
  let ?r = "UpdateUserWithinDataScope sampleEnv teamStore ''acme'' (sampleMail ''boss'' []) zeroPrincipal ''identity.users.update''"
  have "isl (fst ?r)" by code_simp
  then have "fst ?r \<noteq> Inr ()" by auto
  with update_stays_in_scope [of sampleEnv teamStore "''acme''" _ zeroPrincipal _ "fst ?r" "snd ?r"] show ?thesis by simp
qed

end
