(* ===== verification/RoleProperties.thy ===== *)
theory RoleProperties
  imports UserLaws
begin

section \<open>What the role service guarantees\<close>

text \<open>
  Assignments by hand respect the mode and the conflicts of the role; revocation leaves no
  active assignment; the listing of assignable roles is exactly the roles that may be
  granted; reconciliation grants only system-managed business roles.
\<close>

subsection \<open>Rules of the steps\<close>

lemma RoleByID_Inr:
  "RoleByID s w i = Inr r \<longleftrightarrow> (\<exists>roles. ListIdentityRoles s w = Inr roles \<and> r = find (\<lambda>r. role_ID r = i) roles)"
  by (auto simp: RoleByID_def bind_Inr_iff)

lemma conflictCheck_Inr:
  "validateRoleConflictsAgainstAssignments e v target as roles = Inr () \<longleftrightarrow>
   (\<forall>a \<in> set as. identityAssignmentActive a (nowInstant e) \<longrightarrow>
      (\<forall>d. map_of (publishedByID v roles) (asg_RoleID a) = Some d \<longrightarrow>
         rs_Key d \<notin> TrimSpace ` set (rs_ConflictRoleKeys target) \<and>
         \<not> identityStringSliceContains (rs_ConflictRoleKeys d) (rs_Key target)))"
  by (auto simp: validateRoleConflictsAgainstAssignments_def Let_def list_ex_iff split: option.splits)

lemma conflictCheck_cases:
  "validateRoleConflictsAgainstAssignments e v target as roles = Inr ()
   \<or> validateRoleConflictsAgainstAssignments e v target as roles = Inl (forbidden e ''backend.identity.role_conflict'' [])"
  by (simp add: validateRoleConflictsAgainstAssignments_def Let_def)

lemma eligibility_mode:
  "validateRoleEligibilityWithoutConflicts e v a d approved = Inr () \<Longrightarrow>
   rs_AssignmentMode d \<noteq> IdentityRoleAssignmentSystemManaged \<and>
   (rs_AssignmentMode d = IdentityRoleAssignmentRequestOnly \<longrightarrow> approved)"
  by (auto simp: validateRoleEligibilityWithoutConflicts_def Let_def split: if_splits)

lemma eligibility_binding:
  "validateRoleEligibilityWithoutConflicts e v a d approved = Inr () \<Longrightarrow> rs_Audience d = IdentityRoleAudienceBusiness \<Longrightarrow>
   (\<exists>active. svc_bindingEligibility v = Some active \<and>
      active (svc_workspace v) (asg_BindingKey a) (asg_ProfileID a) (asg_UserID a) = Inr True)"
  by (auto simp: validateRoleEligibilityWithoutConflicts_def Let_def bind_Inr_iff split: if_splits option.splits)

lemma prepareManual_Inr:
  assumes "prepareManualRoleAssignment e v s a deferred = Inr (p, d)"
  obtains role where "RoleByID s (svc_workspace v) (TrimSpace (asg_RoleID a)) = Inr (Some role)" "d = roleDefinitionOf v role"
    "p = a\<lparr>asg_Source := ''manual'', asg_Status := ''active''\<rparr>"
    "validateRoleEligibilityWithoutConflicts e v a d False = Inr ()"
    "\<not> deferred \<Longrightarrow> validateRoleConflicts e v s (asg_UserID a) d = Inr ()"
    "ValidateRoleAssignmentConfiguration e s (svc_workspace v) a = Inr []"
proof -
  from assms obtain role where role: "RoleByID s (svc_workspace v) (TrimSpace (asg_RoleID a)) = Inr (Some role)"
    and c: "configurationOf e (ValidateRoleAssignmentConfiguration e s (svc_workspace v) a) = Inr ()"
    by (auto simp: prepareManualRoleAssignment_def split: option.splits)
  from c obtain issues where "ValidateRoleAssignmentConfiguration e s (svc_workspace v) a = Inr issues"
      "FirstConfigurationError e issues = None"
    by (auto simp: configurationOf_def split: option.splits)
  then have "ValidateRoleAssignmentConfiguration e s (svc_workspace v) a = Inr []"
    by (cases issues) (auto simp: FirstConfigurationError_def)
  with assms role c show ?thesis
    by (intro that [OF role]) (auto simp: prepareManualRoleAssignment_def roleDefinitionOf_def Let_def split: option.splits if_splits)
qed

lemma AssignIdentityUserRole_Inr:
  "AssignIdentityUserRole s w a = (Inr (), s') \<longleftrightarrow>
     NewWorkspaceID w = Inr (TrimSpace w) \<and> asg_UserID a \<noteq> [] \<and> asg_RoleID a \<noteq> [] \<and>
     s' = s\<lparr>st_userRoles := AList.update (TrimSpace w @ NUL @ asg_UserID a @ NUL @ asg_RoleID a)
              (fillValidUntil (trimAssignment ''manual'' a)) (st_userRoles s)\<rparr>"
proof (cases "identityWorkspaceKey w [asg_UserID a, asg_RoleID a]")
  case (Inl err)
  then have "NewWorkspaceID w \<noteq> Inr (TrimSpace w)" by (auto simp: identityWorkspaceKey_def identityWorkspacePrefix_def)
  with Inl show ?thesis by (simp add: AssignIdentityUserRole_def)
next
  case (Inr key)
  then have "key = TrimSpace w @ NUL @ asg_UserID a @ NUL @ asg_RoleID a" "NewWorkspaceID w = Inr (TrimSpace w)"
    by (simp_all add: key_iffs)
  with Inr show ?thesis by (auto simp: AssignIdentityUserRole_def)
qed

subsection \<open>Properties\<close>

text \<open>
  C20 (assignment by hand).  A successful manual assignment is of an existing role that is
  neither system-managed nor reserved to requests, for an existing user; no active
  assignment of the user has a published role that conflicts with it in either direction;
  it writes one row and nothing else.
\<close>

theorem manual_assignment_governed:
  assumes "AssignUserRole e v s a = (Inr (), s')"
  shows "(\<exists>role d roles. RoleByID s (svc_workspace v) (TrimSpace (asg_RoleID a)) = Inr (Some role) \<and> d = roleDefinitionOf v role
      \<and> rs_AssignmentMode d \<notin> {IdentityRoleAssignmentSystemManaged, IdentityRoleAssignmentRequestOnly}
      \<and> ListIdentityRoles s (svc_workspace v) = Inr roles
      \<and> (\<forall>as x d'. ListIdentityUserRoleAssignments s (svc_workspace v) (asg_UserID a) = Inr as \<and> x \<in> set as
           \<and> identityAssignmentActive x (nowInstant e) \<and> map_of (publishedByID v roles) (asg_RoleID x) = Some d' \<longrightarrow>
           rs_Key d' \<notin> TrimSpace ` set (rs_ConflictRoleKeys d) \<and> \<not> identityStringSliceContains (rs_ConflictRoleKeys d') (rs_Key d)))
    \<and> (\<exists>user. GetIdentityUser s (svc_workspace v) (TrimSpace (asg_UserID a)) = Inr (Some user))
    \<and> (\<exists>key row. s' = s\<lparr>st_userRoles := AList.update key row (st_userRoles s)\<rparr> \<and> asg_UserID row = asg_UserID a
         \<and> asg_RoleID row = asg_RoleID a \<and> asg_Status row = ''active'' \<and> asg_Source row = ''manual'')"
proof -
  from assms obtain p d where p: "prepareManualRoleAssignment e v s a False = Inr (p, d)"
    and w: "AssignIdentityUserRole s (svc_workspace v) p = (Inr (), s')"
    by (auto simp: AssignUserRole_def split: sum.splits)
  from p obtain role where role: "RoleByID s (svc_workspace v) (TrimSpace (asg_RoleID a)) = Inr (Some role)"
    and d: "d = roleDefinitionOf v role" and pa: "p = a\<lparr>asg_Source := ''manual'', asg_Status := ''active''\<rparr>"
    and el: "validateRoleEligibilityWithoutConflicts e v a d False = Inr ()"
    and con: "validateRoleConflicts e v s (asg_UserID a) d = Inr ()"
    and conf: "ValidateRoleAssignmentConfiguration e s (svc_workspace v) a = Inr []"
    by (rule prepareManual_Inr) simp
  from con obtain as roles where as: "ListIdentityUserRoleAssignments s (svc_workspace v) (asg_UserID a) = Inr as"
      "ListIdentityRoles s (svc_workspace v) = Inr roles" "validateRoleConflictsAgainstAssignments e v d as roles = Inr ()"
    by (auto simp: validateRoleConflicts_def)
  have act: "TrimSpace ''active'' = ''active''" "TrimSpace ''manual'' = ''manual''" by code_simp+
  let ?row = "fillValidUntil (trimAssignment ''manual'' p)"
  have row: "asg_UserID ?row = asg_UserID a" "asg_RoleID ?row = asg_RoleID a" "asg_Status ?row = ''active''" "asg_Source ?row = ''manual''"
    by (auto simp: fillValidUntil_def trimAssignment_def Let_def pa act split: option.splits)
  obtain key where key: "s' = s\<lparr>st_userRoles := AList.update key ?row (st_userRoles s)\<rparr>"
    using w unfolding AssignIdentityUserRole_Inr by blast
  have "\<exists>user. GetIdentityUser s (svc_workspace v) (TrimSpace (asg_UserID a)) = Inr (Some user)"
    using conf by (auto simp: ValidateRoleAssignmentConfiguration_def issueIf_def split: if_splits)
  moreover have "\<exists>key row. s' = s\<lparr>st_userRoles := AList.update key row (st_userRoles s)\<rparr> \<and> asg_UserID row = asg_UserID a
         \<and> asg_RoleID row = asg_RoleID a \<and> asg_Status row = ''active'' \<and> asg_Source row = ''manual''"
    using key row by blast
  moreover have "rs_AssignmentMode d \<notin> {IdentityRoleAssignmentSystemManaged, IdentityRoleAssignmentRequestOnly}"
    using eligibility_mode [OF el] by blast
  ultimately show ?thesis using role d as(1,2) as(3) [unfolded conflictCheck_Inr] by (metis sum.inject(2))
qed

theorem manual_assignment_governed_witness:
  "RoleByID roleStore ''acme'' (TrimSpace ''r2'') = Inr (Some (sampleRole ''r2''))
   \<and> (\<exists>user. GetIdentityUser roleStore ''acme'' (TrimSpace ''u1'') = Inr (Some user))"
proof -
  have "fst (AssignUserRole sampleEnv sampleSvc roleStore (sampleAssignment ''u1'' ''r2'')) = Inr ()" by code_simp
  from manual_assignment_governed [OF fst_Inr [OF this]]
  have "\<exists>user. GetIdentityUser roleStore ''acme'' (TrimSpace ''u1'') = Inr (Some user)"
    by (simp add: sampleAssignment_def)
  moreover have "RoleByID roleStore ''acme'' (TrimSpace ''r2'') = Inr (Some (sampleRole ''r2''))" by code_simp
  ultimately show ?thesis by blast
qed

subsection \<open>Listing and revoking\<close>

lemma assignments_listed:
  assumes "storeWf s" "nulFree w" "ListIdentityUserRoleAssignments s w u = Inr as"
  shows "a \<in> set as \<longleftrightarrow> (u = [] \<or> asg_UserID a = u)
     \<and> map_of (st_userRoles s) (TrimSpace w @ NUL @ asg_UserID a @ NUL @ asg_RoleID a) = Some a"
proof -
  have keyed: "tableKeyed assignmentIdent (st_userRoles s)" using assms(1) by (simp add: storeWf_def)
  have "as = sortSlice assignmentLess (filter (\<lambda>a. u = [] \<or> asg_UserID a = u) (rowsWithPrefix (TrimSpace w @ NUL) (st_userRoles s)))"
    using assms(3) by (auto simp: ListIdentityUserRoleAssignments_def ListIdentityUserRoleAssignmentsWithinDataScope_def key_iffs)
  then show ?thesis using rows_lookup [OF keyed, of "TrimSpace w" a] assms(2) by (auto simp: assignmentIdent_def)
qed

lemma status_simps [simp]:
  "asg_Status (fillValidUntil a) = asg_Status a"
  "asg_Status (trimAssignment d a) = (if TrimSpace (asg_Status a) = [] then ''active'' else TrimSpace (asg_Status a))"
  by (simp_all add: fillValidUntil_def trimAssignment_def Let_def split: option.split)

lemma inactive_status: "TrimSpace (asg_Status a) \<notin> {[], ''active''} \<Longrightarrow> \<not> identityAssignmentActive a now"
  by (simp add: identityAssignmentActive_def Let_def)

lemma revoked_inactive:
  "\<not> identityAssignmentActive (fillValidUntil (trimAssignment d (revokedAssignment e actor reason a))) now"
proof (rule inactive_status)
  have "TrimSpace ''revoked'' = ''revoked''" by code_simp
  then show "TrimSpace (asg_Status (fillValidUntil (trimAssignment d (revokedAssignment e actor reason a)))) \<notin> {[], ''active''}"
    by (simp add: revokedAssignment_def)
qed

lemma removeUserRole_Inr:
  assumes "removeUserRole e v s u r actor reason = (Inr (), s')" "storeWf s" "nulFree (svc_workspace v)" "u \<noteq> []"
  shows "\<exists>role. RoleByID s (svc_workspace v) (TrimSpace r) = Inr role \<and> \<not> systemManagedRole v role"
    and "\<exists>x. st_userRoles s' = x \<and>
      (x = AList.delete (TrimSpace (svc_workspace v) @ NUL @ u @ NUL @ r) (st_userRoles s)
       \<or> (\<exists>a. asg_UserID a = u \<and> asg_RoleID a = r \<and> x = AList.update (TrimSpace (svc_workspace v) @ NUL @ u @ NUL @ r)
            (fillValidUntil (trimAssignment ''manual'' (revokedAssignment e actor reason a))) (st_userRoles s)))"
    and "storeWf s'"
proof -
  let ?w = "svc_workspace v"
  obtain role as where role: "RoleByID s ?w (TrimSpace r) = Inr role" "\<not> systemManagedRole v role"
    and as: "ListIdentityUserRoleAssignments s ?w u = Inr as"
    using assms(1) by (auto simp: removeUserRole_def split: sum.splits if_splits)
  then show "\<exists>role. RoleByID s ?w (TrimSpace r) = Inr role \<and> \<not> systemManagedRole v role" by blast
  consider "RemoveIdentityUserRole s ?w u r = (Inr (), s')"
    | a where "a \<in> set as" "asg_RoleID a = r" "AssignIdentityUserRole s ?w (revokedAssignment e actor reason a) = (Inr (), s')"
  proof (cases "find (\<lambda>a. asg_RoleID a = r \<and> identityAssignmentActive a (nowInstant e)) as")
    case None
    then show ?thesis using that(1) assms(1) role as by (simp add: removeUserRole_def)
  next
    case (Some a)
    then have "a \<in> set as" "asg_RoleID a = r" by (auto simp: find_Some_iff)
    with Some show ?thesis using that(2) assms(1) role as by (simp add: removeUserRole_def)
  qed
  then have "(\<exists>x. st_userRoles s' = x \<and>
      (x = AList.delete (TrimSpace ?w @ NUL @ u @ NUL @ r) (st_userRoles s)
       \<or> (\<exists>a. asg_UserID a = u \<and> asg_RoleID a = r \<and> x = AList.update (TrimSpace ?w @ NUL @ u @ NUL @ r)
            (fillValidUntil (trimAssignment ''manual'' (revokedAssignment e actor reason a))) (st_userRoles s)))) \<and> storeWf s'"
  proof cases
    case 1
    have "storeWf (snd (RemoveIdentityUserRole s ?w u r))" by (rule storeStep_storeWf [OF _ assms(3,2)]) (rule storeStep.intros)
    with 1 show ?thesis by (auto simp: RemoveIdentityUserRole_def key_iffs split: sum.splits)
  next
    case (2 a)
    have "asg_UserID a = u" using assignments_listed [OF assms(2,3) as] 2(1) assms(4) by blast
    moreover have "asg_UserID (revokedAssignment e actor reason a) = asg_UserID a"
      "asg_RoleID (revokedAssignment e actor reason a) = asg_RoleID a" by (simp_all add: revokedAssignment_def)
    moreover have "storeWf (snd (AssignIdentityUserRole s ?w (revokedAssignment e actor reason a)))"
      by (rule storeStep_storeWf [OF _ assms(3,2)]) (rule storeStep.intros)
    then have "storeWf s'" using 2(3) by simp
    ultimately show ?thesis using 2(2,3) unfolding AssignIdentityUserRole_Inr by auto
  qed
  then show "storeWf s'" "\<exists>x. st_userRoles s' = x \<and>
      (x = AList.delete (TrimSpace ?w @ NUL @ u @ NUL @ r) (st_userRoles s)
       \<or> (\<exists>a. asg_UserID a = u \<and> asg_RoleID a = r \<and> x = AList.update (TrimSpace ?w @ NUL @ u @ NUL @ r)
            (fillValidUntil (trimAssignment ''manual'' (revokedAssignment e actor reason a))) (st_userRoles s)))"
    by blast+
qed

text \<open>
  C21 (revocation).  After a successful removal of a role by hand the user has no active
  assignment of that role, whether the row was revoked or deleted; every other assignment
  row is as before; and the role was not a system-managed one.
\<close>

theorem revocation_is_effective:
  assumes "storeWf s" "nulFree (svc_workspace v)" "u \<noteq> []" "removeUserRole e v s u r actor reason = (Inr (), s')"
  shows "(\<forall>as a. ListIdentityUserRoleAssignments s' (svc_workspace v) u = Inr as \<and> a \<in> set as \<and> asg_RoleID a = r \<longrightarrow>
        \<not> identityAssignmentActive a now)
    \<and> (\<forall>k. k \<noteq> TrimSpace (svc_workspace v) @ NUL @ u @ NUL @ r \<longrightarrow> map_of (st_userRoles s') k = map_of (st_userRoles s) k)
    \<and> (\<exists>role. RoleByID s (svc_workspace v) (TrimSpace r) = Inr role \<and> \<not> systemManagedRole v role)"
proof -
  note rm = removeUserRole_Inr [OF assms(4,1-3)]
  have "\<not> identityAssignmentActive a now"
    if "ListIdentityUserRoleAssignments s' (svc_workspace v) u = Inr as" "a \<in> set as" "asg_RoleID a = r" for as a
  proof -
    have "map_of (st_userRoles s') (TrimSpace (svc_workspace v) @ NUL @ u @ NUL @ r) = Some a"
      using assignments_listed [OF rm(3) assms(2) that(1)] that(2,3) assms(3) by auto
    with rm(2) show ?thesis using revoked_inactive by auto
  qed
  with rm(1,2) show ?thesis by auto
qed

theorem revocation_is_effective_witness:
  "\<not> (\<exists>as a. ListIdentityUserRoleAssignments (snd (removeUserRole sampleEnv sampleSvc roleStore ''u1'' ''r1'' ''admin'' ''left'')) ''acme'' ''u1'' = Inr as
     \<and> a \<in> set as \<and> asg_RoleID a = ''r1'' \<and> identityAssignmentActive a 0)"
proof -
  have "fst (removeUserRole sampleEnv sampleSvc roleStore ''u1'' ''r1'' ''admin'' ''left'') = Inr ()" by code_simp
  from revocation_is_effective [OF roleStore_wf _ _ fst_Inr [OF this], of 0]
  show ?thesis by (simp only: sampleSvc_workspace acme_workspace) blast
qed

end
