(* ===== verification/Encodings.thy ===== *)
theory Encodings
  imports GoTime
begin

section \<open>Encodings of the standard library\<close>

text \<open>
  Byte strings are strings.  \<open>base64.RawURLEncoding\<close> and the unpadded
  \<open>base32.StdEncoding\<close> work on groups of three and five bytes; decoding skips line
  breaks, rejects a character outside the alphabet and, for base64, a single left-over
  character.  \<open>utf8.DecodeRune\<close> turns bytes into code points, one
  \<open>U+FFFD\<close> for every byte that starts no valid sequence.  \<open>fmt\<close> prints
  decimals with or without leading zeros.
\<close>

abbreviation byte :: "char \<Rightarrow> nat" where "byte c \<equiv> of_char c"
abbreviation chr :: "nat \<Rightarrow> char" where "chr n \<equiv> char_of n"

lemma byte_less [simp]: "byte c < 256"
  by (cases c) (simp add: of_char_def horner_sum_simps; auto split: if_splits)

definition stripNewlines :: "string \<Rightarrow> string" where
  "stripNewlines s = filter (\<lambda>c. byte c \<noteq> 10 \<and> byte c \<noteq> 13) s"

definition alphabetIndex :: "string \<Rightarrow> char \<Rightarrow> nat option" where
  "alphabetIndex alphabet c = (case filter (\<lambda>(i, x). x = c) (enumerate 0 alphabet) of
     [] \<Rightarrow> None | (i, x) # _ \<Rightarrow> Some i)"

fun alphabetValues :: "string \<Rightarrow> string \<Rightarrow> nat list option" where
  "alphabetValues alphabet [] = Some []"
| "alphabetValues alphabet (c # cs) =
     (case alphabetIndex alphabet c of None \<Rightarrow> None
      | Some v \<Rightarrow> map_option (\<lambda>vs. v # vs) (alphabetValues alphabet cs))"

subsection \<open>base64.RawURLEncoding\<close>

definition base64Alphabet :: string where
  "base64Alphabet = ''ABCDEFGHIJKLMNOPQRSTUVWXYZabcdefghijklmnopqrstuvwxyz0123456789-_''"

fun sextets :: "nat list \<Rightarrow> nat list" where
  "sextets (a # b # c # r) =
     a div 4 # (a mod 4 * 16 + b div 16) # (b mod 16 * 4 + c div 64) # c mod 64 # sextets r"
| "sextets [a, b] = [a div 4, a mod 4 * 16 + b div 16, b mod 16 * 4]"
| "sextets [a] = [a div 4, a mod 4 * 16]"
| "sextets [] = []"

fun unsextets :: "nat list \<Rightarrow> nat list option" where
  "unsextets (v # w # x # y # r) =
     map_option (\<lambda>bs. (v * 4 + w div 16) # (w mod 16 * 16 + x div 4) # (x mod 4 * 64 + y) # bs) (unsextets r)"
| "unsextets [v, w, x] = Some [v * 4 + w div 16, w mod 16 * 16 + x div 4]"
| "unsextets [v, w] = Some [v * 4 + w div 16]"
| "unsextets [v] = None"
| "unsextets [] = Some []"

definition base64Encode :: "string \<Rightarrow> string" where
  "base64Encode s = map ((!) base64Alphabet) (sextets (map byte s))"

definition base64Decode :: "string \<Rightarrow> string option" where
  "base64Decode s = Option.bind (alphabetValues base64Alphabet (stripNewlines s)) (\<lambda>vs. map_option (map chr) (unsextets vs))"

subsection \<open>base32.StdEncoding.WithPadding(base32.NoPadding)\<close>

text \<open>
  A last group of one, three or six characters is no whole number of bytes; the decoder
  writes nothing for it.
\<close>

definition base32Alphabet :: string where
  "base32Alphabet = ''ABCDEFGHIJKLMNOPQRSTUVWXYZ234567''"

fun quintets :: "nat list \<Rightarrow> nat list" where
  "quintets (a # b # c # d # e # r) =
     a div 8 # (a mod 8 * 4 + b div 64) # (b div 2 mod 32) # (b mod 2 * 16 + c div 16) # (c mod 16 * 2 + d div 128)
       # (d div 4 mod 32) # (d mod 4 * 8 + e div 32) # e mod 32 # quintets r"
| "quintets [a, b, c, d] = [a div 8, a mod 8 * 4 + b div 64, b div 2 mod 32, b mod 2 * 16 + c div 16,
     c mod 16 * 2 + d div 128, d div 4 mod 32, d mod 4 * 8]"
| "quintets [a, b, c] = [a div 8, a mod 8 * 4 + b div 64, b div 2 mod 32, b mod 2 * 16 + c div 16, c mod 16 * 2]"
| "quintets [a, b] = [a div 8, a mod 8 * 4 + b div 64, b div 2 mod 32, b mod 2 * 16]"
| "quintets [a] = [a div 8, a mod 8 * 4]"
| "quintets [] = []"

fun unquintets :: "nat list \<Rightarrow> nat list" where
  "unquintets (v # w # x # y # z # p # q # t # r) =
     (v * 8 + w div 4) # (w mod 4 * 64 + x * 2 + y div 16) # (y mod 16 * 16 + z div 2)
       # (z mod 2 * 128 + p * 4 + q div 8) # (q mod 8 * 32 + t) # unquintets r"
| "unquintets [v, w, x, y, z, p, q] =
     [v * 8 + w div 4, w mod 4 * 64 + x * 2 + y div 16, y mod 16 * 16 + z div 2, z mod 2 * 128 + p * 4 + q div 8]"
| "unquintets [v, w, x, y, z] = [v * 8 + w div 4, w mod 4 * 64 + x * 2 + y div 16, y mod 16 * 16 + z div 2]"
| "unquintets [v, w, x, y] = [v * 8 + w div 4, w mod 4 * 64 + x * 2 + y div 16]"
| "unquintets [v, w] = [v * 8 + w div 4]"
| "unquintets _ = []"

definition base32Encode :: "string \<Rightarrow> string" where
  "base32Encode s = map ((!) base32Alphabet) (quintets (map byte s))"

definition base32Decode :: "string \<Rightarrow> string option" where
  "base32Decode s = map_option (\<lambda>vs. map chr (unquintets vs)) (alphabetValues base32Alphabet (stripNewlines s))"

subsection \<open>UTF-8\<close>

definition continuation :: "nat \<Rightarrow> nat \<Rightarrow> char list \<Rightarrow> nat option" where
  "continuation lo hi bs = (case bs of [] \<Rightarrow> None
     | b # _ \<Rightarrow> if lo \<le> byte b \<and> byte b \<le> hi then Some (byte b mod 64) else None)"

text \<open>The code point at the head of a string and the number of bytes it takes.\<close>

definition decodeRune :: "char \<Rightarrow> string \<Rightarrow> nat \<times> nat" where
  "decodeRune c cs =
     (let b = byte c; more = (\<lambda>i. continuation 128 191 (drop i cs)); bad = (65533, 1) in
      if b < 128 then (b, 1)
      else if 194 \<le> b \<and> b \<le> 223 then
        (case continuation 128 191 cs of Some x \<Rightarrow> (b mod 32 * 64 + x, 2) | None \<Rightarrow> bad)
      else if 224 \<le> b \<and> b \<le> 239 then
        (case (continuation (if b = 224 then 160 else 128) (if b = 237 then 159 else 191) cs, more 1) of
           (Some x, Some y) \<Rightarrow> (b mod 16 * 4096 + x * 64 + y, 3) | _ \<Rightarrow> bad)
      else if 240 \<le> b \<and> b \<le> 244 then
        (case (continuation (if b = 240 then 144 else 128) (if b = 244 then 143 else 191) cs, more 1, more 2) of
           (Some x, Some y, Some z) \<Rightarrow> (b mod 8 * 262144 + x * 4096 + y * 64 + z, 4) | _ \<Rightarrow> bad)
      else bad)"

lemma decodeRune_pos: "0 < snd (decodeRune c cs)"
  by (simp add: decodeRune_def Let_def split: option.split)

function runesOf :: "string \<Rightarrow> nat list" where
  "runesOf [] = []"
| "runesOf (c # cs) = fst (decodeRune c cs) # runesOf (drop (snd (decodeRune c cs) - 1) cs)"
  by pat_completeness auto
termination by (relation "measure length") auto

subsection \<open>Decimals\<close>

fun decimal :: "nat \<Rightarrow> string" where
  "decimal n = (if n < 10 then [digitChar n] else decimal (n div 10) @ [digitChar (n mod 10)])"

declare decimal.simps [simp del]

text \<open>\<open>%0wd\<close>: leading zeros up to the width.\<close>

definition paddedDecimal :: "nat \<Rightarrow> nat \<Rightarrow> string" where
  "paddedDecimal w n = replicate (w - length (decimal n)) CHR ''0'' @ decimal n"

subsection \<open>Format(time.RFC3339Nano)\<close>

text \<open>As \<open>formatInstant\<close>, with the fraction of the second and no zeros at its end.\<close>

definition formatInstantNano :: "int \<Rightarrow> string" where
  "formatInstantNano t =
     (let digits = rev (dropWhile (\<lambda>c. c = CHR ''0'') (rev (paddedDecimal 9 (nat (t mod 1000000000))))) in
      butlast (formatInstant t) @ (if digits = [] then [] else ''.'' @ digits) @ ''Z'')"

subsection \<open>hex.EncodeToString\<close>

definition hexDigit :: "nat \<Rightarrow> char" where
  "hexDigit d = ''0123456789abcdef'' ! d"

definition hexEncode :: "string \<Rightarrow> string" where
  "hexEncode s = concat (map (\<lambda>c. [hexDigit (byte c div 16), hexDigit (byte c mod 16)]) s)"

section \<open>Round trips\<close>

lemma alphabetIndex_nth:
  "distinct alphabet \<Longrightarrow> i < length alphabet \<Longrightarrow> alphabetIndex alphabet (alphabet ! i) = Some i"
proof -
  assume a: "distinct alphabet" "i < length alphabet"
  have "filter (\<lambda>(j, x). x = alphabet ! i) (enumerate 0 alphabet) = [(i, alphabet ! i)]"
  proof -
    have "enumerate 0 alphabet = take i (enumerate 0 alphabet) @ (i, alphabet ! i) # drop (Suc i) (enumerate 0 alphabet)"
      using a(2) by (subst id_take_nth_drop [of i]) (simp_all add: nth_enumerate_eq)
    moreover have "filter (\<lambda>(j, x). x = alphabet ! i) (take i (enumerate 0 alphabet)) = []"
      using a by (auto simp: filter_empty_conv in_set_conv_nth nth_enumerate_eq nth_eq_iff_index_eq)
    moreover have "filter (\<lambda>(j, x). x = alphabet ! i) (drop (Suc i) (enumerate 0 alphabet)) = []"
      using a by (auto simp: filter_empty_conv in_set_conv_nth nth_enumerate_eq nth_eq_iff_index_eq)
    ultimately show ?thesis by (metis (mono_tags, lifting) append.left_neutral case_prod_conv filter.simps(2) filter_append)
  qed
  then show ?thesis by (simp add: alphabetIndex_def)
qed

lemma alphabetValues_map:
  "distinct alphabet \<Longrightarrow> \<forall>v \<in> set vs. v < length alphabet \<Longrightarrow>
     alphabetValues alphabet (map ((!) alphabet) vs) = Some vs"
  by (induction vs) (simp_all add: alphabetIndex_nth)

lemma sextets_less: "\<forall>b \<in> set bs. b < 256 \<Longrightarrow> \<forall>v \<in> set (sextets bs). v < 64"
  by (induction bs rule: sextets.induct) auto

lemma quintets_less: "\<forall>b \<in> set bs. b < 256 \<Longrightarrow> \<forall>v \<in> set (quintets bs). v < 32"
  by (induction bs rule: quintets.induct) auto

lemma unsextets_sextets: "\<forall>b \<in> set bs. b < 256 \<Longrightarrow> unsextets (sextets bs) = Some bs"
  by (induction bs rule: sextets.induct) auto

lemma three_parts: "b div (m * k) * (m * k) + b div m mod k * m + b mod m = (b::nat)"
proof -
  have "b div (m * k) * (m * k) + b div m mod k * m = (b div m div k * k + b div m mod k) * m"
    unfolding div_mult2_eq distrib_right by simp
  then show ?thesis by simp
qed

lemma unquintets_quintets: "\<forall>b \<in> set bs. b < 256 \<Longrightarrow> unquintets (quintets bs) = bs"
  using three_parts [of _ 2 32] three_parts [of _ 4 32] by (induction bs rule: quintets.induct) auto

lemma stripNewlines_id: "\<forall>c \<in> set s. byte c \<noteq> 10 \<and> byte c \<noteq> 13 \<Longrightarrow> stripNewlines s = s"
  by (simp add: stripNewlines_def)

lemma stripNewlines_alphabet:
  assumes "\<forall>v \<in> set vs. v < length alphabet" "list_all (\<lambda>c. byte c \<noteq> 10 \<and> byte c \<noteq> 13) alphabet"
  shows "stripNewlines (map ((!) alphabet) vs) = map ((!) alphabet) vs"
  using assms by (intro stripNewlines_id) (auto simp: list_all_iff)

lemma base64Alphabet_facts:
  "distinct base64Alphabet" "length base64Alphabet = 64" "list_all (\<lambda>c. byte c \<noteq> 10 \<and> byte c \<noteq> 13) base64Alphabet"
  by code_simp+

lemma base32Alphabet_facts:
  "distinct base32Alphabet" "length base32Alphabet = 32" "list_all (\<lambda>c. byte c \<noteq> 10 \<and> byte c \<noteq> 13) base32Alphabet"
  by code_simp+

lemma map_chr_byte [simp]: "map chr (map byte s) = s"
  by (induction s) auto

lemma base64_round_trip: "base64Decode (base64Encode s) = Some s"
proof -
  have b: "\<forall>b \<in> set (map byte s). b < 256" by simp
  show ?thesis
    using sextets_less [OF b] unsextets_sextets [OF b]
    by (simp add: base64Decode_def base64Encode_def stripNewlines_alphabet alphabetValues_map base64Alphabet_facts del: map_map)
qed

lemma base32_round_trip: "base32Decode (base32Encode s) = Some s"
proof -
  have b: "\<forall>b \<in> set (map byte s). b < 256" by simp
  show ?thesis
    using quintets_less [OF b] unquintets_quintets [OF b]
    by (simp add: base32Decode_def base32Encode_def stripNewlines_alphabet alphabetValues_map base32Alphabet_facts del: map_map)
qed

lemma base64Encode_chars: "set (base64Encode s) \<subseteq> set base64Alphabet"
proof -
  have "\<forall>b \<in> set (map byte s). b < 256" by simp
  from sextets_less [OF this] show ?thesis
    using base64Alphabet_facts(2) by (auto simp: base64Encode_def)
qed

subsection \<open>Decimals\<close>

definition isDigit :: "char \<Rightarrow> bool" where
  "isDigit c \<longleftrightarrow> 48 \<le> byte c \<and> byte c \<le> 57"

lemma isDigit_digitChar [simp]: "d < 10 \<Longrightarrow> isDigit (digitChar d)"
  by (simp add: isDigit_def digitChar_def)

lemma decimal_digits: "list_all isDigit (decimal n)"
  by (induction n rule: decimal.induct) (subst decimal.simps, auto)

lemma decimal_length: "n < 10 ^ Suc k \<Longrightarrow> length (decimal n) \<le> Suc k"
proof (induction k arbitrary: n)
  case 0 then show ?case by (simp add: decimal.simps)
next
  case (Suc k)
  then show ?case by (subst decimal.simps) (auto simp: less_mult_imp_div_less)
qed

lemma paddedDecimal_length: "n < 10 ^ Suc k \<Longrightarrow> length (paddedDecimal (Suc k) n) = Suc k"
  using decimal_length [of n k] by (simp add: paddedDecimal_def)

lemma paddedDecimal_digits: "list_all isDigit (paddedDecimal w n)"
  using decimal_digits [of n] by (auto simp: paddedDecimal_def list_all_iff isDigit_def)

end
