(* ===== verification/AuthModel.thy ===== *)
theory AuthModel
  imports Encodings IdentityModel
begin

section \<open>The authentication data model\<close>

text \<open>
  The structs of \<open>internal/domain/auth/model\<close> and of the auth projections.  A value of
  type \<open>any\<close> is one of the shapes the provider configuration looks for; anything else
  is \<open>AnyOther\<close>.  A slice that may be \<open>nil\<close> and is tested for it is an
  option.
\<close>

record AuthServiceGrant =
  grantRes :: string
  grantAct :: string

record AuthClaims =
  cl_Issuer :: string
  cl_Audience :: string
  cl_Subject :: string
  cl_WorkspaceID :: string
  cl_SessionID :: string
  cl_AuthorizationRevision :: string
  cl_AuthenticationTime :: int
  cl_AuthenticationMethods :: "string list"
  cl_AssuranceLevel :: string
  cl_IssuedAt :: int
  cl_ExpiresAt :: int
  cl_JTI :: string
  cl_ServiceApplicationKey :: string
  cl_ServiceCredentialID :: string
  cl_ServiceGrants :: "AuthServiceGrant list"
  cl_TokenPurpose :: string

definition zeroClaims :: AuthClaims where
  "zeroClaims = \<lparr>cl_Issuer = [], cl_Audience = [], cl_Subject = [], cl_WorkspaceID = [], cl_SessionID = [],
     cl_AuthorizationRevision = [], cl_AuthenticationTime = 0, cl_AuthenticationMethods = [],
     cl_AssuranceLevel = [], cl_IssuedAt = 0, cl_ExpiresAt = 0, cl_JTI = [], cl_ServiceApplicationKey = [],
     cl_ServiceCredentialID = [], cl_ServiceGrants = [], cl_TokenPurpose = []\<rparr>"

record AuthUser =
  au_ID :: string
  au_Name :: string
  au_Email :: string
  au_Locale :: string
  au_Version :: int
  au_Status :: IdentityStatus

record AuthRole =
  ar_ID :: string
  ar_Key :: string
  ar_Label :: string

record AuthProviderChallenge =
  ch_WorkspaceID :: string
  ch_ApplicationKey :: string
  ch_Provider :: string
  ch_Type :: string
  ch_Purpose :: string
  ch_Status :: string
  ch_UserID :: string
  ch_RedirectURL :: string
  ch_State :: string
  ch_Nonce :: string
  ch_CodeVerifier :: string
  ch_RequestID :: string
  ch_ReturnURL :: string
  ch_Phone :: string
  ch_Code :: string
  ch_MaskedDestination :: string
  ch_RetryAt :: string
  ch_DeliveryRef :: string
  ch_DeliveryError :: string
  ch_AuthenticationMethods :: "string list"
  ch_Attempts :: int
  ch_ExpiresAt :: string
  ch_CreatedAt :: string

definition zeroChallenge :: AuthProviderChallenge where
  "zeroChallenge = \<lparr>ch_WorkspaceID = [], ch_ApplicationKey = [], ch_Provider = [], ch_Type = [], ch_Purpose = [],
     ch_Status = [], ch_UserID = [], ch_RedirectURL = [], ch_State = [], ch_Nonce = [], ch_CodeVerifier = [],
     ch_RequestID = [], ch_ReturnURL = [], ch_Phone = [], ch_Code = [], ch_MaskedDestination = [], ch_RetryAt = [],
     ch_DeliveryRef = [], ch_DeliveryError = [], ch_AuthenticationMethods = [], ch_Attempts = 0, ch_ExpiresAt = [],
     ch_CreatedAt = []\<rparr>"

abbreviation AuthChallengePurposeLogin :: string where "AuthChallengePurposeLogin \<equiv> ''login''"
abbreviation AuthChallengePurposeLoginMFA :: string where "AuthChallengePurposeLoginMFA \<equiv> ''login_mfa''"
abbreviation AuthChallengePurposeAction :: string where "AuthChallengePurposeAction \<equiv> ''action_assurance''"
abbreviation AuthChallengeStatusPending :: string where "AuthChallengeStatusPending \<equiv> ''pending_delivery''"
abbreviation AuthChallengeStatusActive :: string where "AuthChallengeStatusActive \<equiv> ''active''"
abbreviation AuthChallengeStatusFailed :: string where "AuthChallengeStatusFailed \<equiv> ''failed''"
abbreviation AuthChallengeStatusConsumed :: string where "AuthChallengeStatusConsumed \<equiv> ''consumed''"
abbreviation TOTPProvider :: string where "TOTPProvider \<equiv> ''domainry_totp''"
abbreviation TOTPEnrollmentPurpose :: string where "TOTPEnrollmentPurpose \<equiv> ''totp_enrollment''"
abbreviation TOTPDisablePurpose :: string where "TOTPDisablePurpose \<equiv> ''totp_disable''"
abbreviation AuthenticationStatusAuthenticated :: string where "AuthenticationStatusAuthenticated \<equiv> ''authenticated''"
abbreviation AuthenticationStatusChallengeRequired :: string where "AuthenticationStatusChallengeRequired \<equiv> ''challenge_required''"

record AuthActionAssuranceReceipt =
  aar_Token :: string
  aar_WorkspaceID :: string
  aar_UserID :: string
  aar_Methods :: "string list"
  aar_ExpiresAt :: string

record AuthSession =
  ses_SessionID :: string
  ses_WorkspaceID :: string
  ses_AccessToken :: string
  ses_RefreshToken :: string
  ses_TokenType :: string
  ses_ExpiresAt :: string
  ses_User :: AuthUser
  ses_Roles :: "AuthRole list"
  ses_DefaultRole :: string
  ses_Permissions :: "string list"
  ses_MustChangePassword :: bool
  ses_AuthenticationTime :: int
  ses_AuthenticationMethods :: "string list"
  ses_AssuranceLevel :: string

record AuthenticationContext =
  actx_AuthenticationTime :: int
  actx_Methods :: "string list"
  actx_AssuranceLevel :: string

record AuthenticationOutcome =
  out_Status :: string
  out_Session :: "AuthSession option"
  out_Challenge :: "AuthProviderChallenge option"

record AuthAuthorizationCode =
  code_Code :: string
  code_WorkspaceID :: string
  code_ApplicationKey :: string
  code_Session :: AuthSession
  code_RedirectURL :: string
  code_ExpiresAt :: string
  code_CreatedAt :: string

record AuthExternalIdentityAssertion =
  asrt_Provider :: string
  asrt_Subject :: string
  asrt_Email :: string
  asrt_Phone :: string
  asrt_DisplayName :: string
  asrt_AvatarURL :: string
  asrt_Metadata :: string
  asrt_Claims :: "(string, string) gomap"
  asrt_ProviderSubjectVerified :: bool

definition zeroAssertion :: AuthExternalIdentityAssertion where
  "zeroAssertion = \<lparr>asrt_Provider = [], asrt_Subject = [], asrt_Email = [], asrt_Phone = [], asrt_DisplayName = [],
     asrt_AvatarURL = [], asrt_Metadata = [], asrt_Claims = [], asrt_ProviderSubjectVerified = False\<rparr>"

record AuthExternalRoleMapping =
  erm_Claim :: string
  erm_Match :: string
  erm_RoleKey :: string

record AuthExternalLoginPolicy =
  elp_AutoCreateUsers :: bool
  elp_DefaultRoleKey :: string
  elp_RoleMappings :: "AuthExternalRoleMapping list"

record IdentityMFAFactor =
  mfa_ID :: string
  mfa_UserID :: string
  mfa_Type :: string
  mfa_Label :: string
  mfa_Provider :: string
  mfa_ProviderRef :: string
  mfa_Status :: string
  mfa_VerifiedAt :: string
  mfa_LastUsedAt :: string
  mfa_CreatedAt :: string
  mfa_UpdatedAt :: string

record TOTPRequest =
  trq_Operation :: string
  trq_CurrentPassword :: string
  trq_State :: string
  trq_Code :: string

record TOTPResult =
  trs_Enabled :: bool
  trs_State :: string
  trs_SetupKey :: string
  trs_OTPAuthURL :: string
  trs_ExpiresAt :: string

record TOTPFactorState =
  tfs_Enabled :: bool
  tfs_Generation :: string

record AuthProviderStartResponse =
  psr_Provider :: string
  psr_State :: string
  psr_Type :: string
  psr_Purpose :: string
  psr_Status :: string
  psr_Nonce :: string
  psr_Code :: string
  psr_AuthURL :: string
  psr_MaskedDestination :: string
  psr_RetryAt :: string
  psr_ExpiresAt :: string

record AuthMeResponse =
  me_User :: AuthUser
  me_Roles :: "AuthRole list"
  me_DefaultRole :: string
  me_Permissions :: "string list"
  me_MustChangePassword :: bool

subsection \<open>Provider configurations\<close>

datatype any = AnyString string | AnyBool bool | AnyStrings "string list" | AnyMappings "AuthExternalRoleMapping list"
  | AnyStringMaps "(string, string) gomap list" | AnyList "any list" | AnyMap "(string \<times> any) list" | AnyOther nat

record AuthProviderConfig =
  pc_Key :: string
  pc_Label :: string
  pc_Type :: string
  pc_Adapter :: string
  pc_Enabled :: bool
  pc_Issuer :: string
  pc_AuthURL :: string
  pc_TokenURL :: string
  pc_UserInfoURL :: string
  pc_ClientID :: string
  pc_ClientSecret :: string
  pc_VerificationKey :: string
  pc_RedirectURL :: string
  pc_Scope :: string
  pc_OTPProvider :: string
  pc_ConnectionKey :: string
  pc_AllowedPurposes :: "string list option"
  pc_AutoCreateUsers :: bool
  pc_AutoCreateConfigured :: bool
  pc_DefaultRoleKey :: string
  pc_RoleMappings :: "AuthExternalRoleMapping list"
  pc_ClientSecretConfigured :: bool
  pc_VerificationKeyConfigured :: bool
  pc_ConfiguredFrom :: string
  pc_UpdatedAt :: string
  pc_Extra :: "(string, any) gomap"

definition zeroProviderConfig :: AuthProviderConfig where
  "zeroProviderConfig = \<lparr>pc_Key = [], pc_Label = [], pc_Type = [], pc_Adapter = [], pc_Enabled = False, pc_Issuer = [],
     pc_AuthURL = [], pc_TokenURL = [], pc_UserInfoURL = [], pc_ClientID = [], pc_ClientSecret = [],
     pc_VerificationKey = [], pc_RedirectURL = [], pc_Scope = [], pc_OTPProvider = [], pc_ConnectionKey = [],
     pc_AllowedPurposes = None, pc_AutoCreateUsers = False, pc_AutoCreateConfigured = False, pc_DefaultRoleKey = [],
     pc_RoleMappings = [], pc_ClientSecretConfigured = False, pc_VerificationKeyConfigured = False,
     pc_ConfiguredFrom = [], pc_UpdatedAt = [], pc_Extra = []\<rparr>"

definition anyString :: "(string, any) gomap \<Rightarrow> string \<Rightarrow> string" where
  "anyString raw k = (case map_of raw k of Some (AnyString v) \<Rightarrow> v | _ \<Rightarrow> [])"

definition anyBool :: "(string, any) gomap \<Rightarrow> string \<Rightarrow> bool" where
  "anyBool raw k = (case map_of raw k of Some (AnyBool b) \<Rightarrow> b | _ \<Rightarrow> False)"

fun stringItems :: "any list \<Rightarrow> string list" where
  "stringItems [] = []"
| "stringItems (AnyString t # xs) = t # stringItems xs"
| "stringItems (_ # xs) = stringItems xs"

text \<open>Appending nothing to a \<open>nil\<close> slice leaves it \<open>nil\<close>: a copy of an empty slice is \<open>nil\<close>.\<close>

definition copyStrings :: "string list \<Rightarrow> string list option" where
  "copyStrings xs = (if xs = [] then None else Some xs)"

definition authProviderStringSlice :: "any option \<Rightarrow> string list option" where
  "authProviderStringSlice value = (case value of
      Some (AnyStrings xs) \<Rightarrow> copyStrings xs
    | Some (AnyList xs) \<Rightarrow> Some (stringItems xs)
    | _ \<Rightarrow> None)"

fun mappingItems :: "any list \<Rightarrow> AuthExternalRoleMapping list" where
  "mappingItems [] = []"
| "mappingItems (AnyMap m # xs) =
     \<lparr>erm_Claim = TrimSpace (anyString m ''claim''), erm_Match = TrimSpace (anyString m ''match''),
      erm_RoleKey = TrimSpace (anyString m ''role_key'')\<rparr> # mappingItems xs"
| "mappingItems (_ # xs) = mappingItems xs"

definition authProviderRoleMappingsFromAny :: "any option \<Rightarrow> AuthExternalRoleMapping list" where
  "authProviderRoleMappingsFromAny value = (case value of
      Some (AnyMappings ms) \<Rightarrow> ms
    | Some (AnyStringMaps ms) \<Rightarrow> map (\<lambda>m. \<lparr>erm_Claim = mapGet [] m ''claim'', erm_Match = mapGet [] m ''match'',
        erm_RoleKey = mapGet [] m ''role_key''\<rparr>) ms
    | Some (AnyList xs) \<Rightarrow> mappingItems xs
    | _ \<Rightarrow> [])"

definition integrationKeys :: "string list" where
  "integrationKeys = [''access_token'', ''phone_number_id'', ''access_token_configured'', ''phone_number_id_configured'']"

definition AuthProviderConfigFromMap :: "(string, any) gomap \<Rightarrow> AuthProviderConfig" where
  "AuthProviderConfigFromMap raw =
     (let get = (\<lambda>k. TrimSpace (anyString raw k)) in
      \<lparr>pc_Key = get ''key'', pc_Label = get ''label'', pc_Type = get ''type'', pc_Adapter = get ''adapter'',
       pc_Enabled = anyBool raw ''enabled'', pc_Issuer = get ''issuer'', pc_AuthURL = get ''auth_url'',
       pc_TokenURL = get ''token_url'', pc_UserInfoURL = get ''userinfo_url'', pc_ClientID = get ''client_id'',
       pc_ClientSecret = get ''client_secret'', pc_VerificationKey = get ''verification_key'',
       pc_RedirectURL = get ''redirect_url'', pc_Scope = get ''scope'', pc_OTPProvider = get ''otp_provider'',
       pc_ConnectionKey = get ''connection_key'',
       pc_AllowedPurposes = authProviderStringSlice (map_of raw ''allowed_purposes''),
       pc_AutoCreateUsers = anyBool raw ''auto_create_users'', pc_AutoCreateConfigured = hasKey raw ''auto_create_users'',
       pc_DefaultRoleKey = get ''default_role_key'',
       pc_RoleMappings = authProviderRoleMappingsFromAny (map_of raw ''role_mappings''),
       pc_ClientSecretConfigured = anyBool raw ''client_secret_configured'',
       pc_VerificationKeyConfigured = anyBool raw ''verification_key_configured'',
       pc_ConfiguredFrom = get ''configured_from'', pc_UpdatedAt = get ''updated_at'',
       pc_Extra = filter (\<lambda>(k, v). k \<notin> set integrationKeys) raw\<rparr>)"

definition config_Clone :: "AuthProviderConfig \<Rightarrow> AuthProviderConfig" where
  "config_Clone c = c\<lparr>pc_AllowedPurposes := Option.bind (pc_AllowedPurposes c) copyStrings\<rparr>"

text \<open>\<open>Map\<close> writes every column over the extra entries, strings only when they are not empty.\<close>

definition configColumns :: "AuthProviderConfig \<Rightarrow> (string \<times> any) list" where
  "configColumns c =
     [(''key'', AnyString (pc_Key c)), (''label'', AnyString (pc_Label c)), (''type'', AnyString (pc_Type c)),
      (''adapter'', AnyString (pc_Adapter c)), (''enabled'', AnyBool (pc_Enabled c)), (''issuer'', AnyString (pc_Issuer c)),
      (''auth_url'', AnyString (pc_AuthURL c)), (''token_url'', AnyString (pc_TokenURL c)),
      (''userinfo_url'', AnyString (pc_UserInfoURL c)), (''client_id'', AnyString (pc_ClientID c)),
      (''client_secret'', AnyString (pc_ClientSecret c)), (''verification_key'', AnyString (pc_VerificationKey c)),
      (''redirect_url'', AnyString (pc_RedirectURL c)), (''scope'', AnyString (pc_Scope c)),
      (''otp_provider'', AnyString (pc_OTPProvider c)), (''connection_key'', AnyString (pc_ConnectionKey c)),
      (''auto_create_users'', AnyBool (pc_AutoCreateUsers c)), (''default_role_key'', AnyString (pc_DefaultRoleKey c)),
      (''role_mappings'', AnyMappings (pc_RoleMappings c)),
      (''client_secret_configured'', AnyBool (pc_ClientSecretConfigured c)),
      (''verification_key_configured'', AnyBool (pc_VerificationKeyConfigured c)),
      (''configured_from'', AnyString (pc_ConfiguredFrom c)), (''updated_at'', AnyString (pc_UpdatedAt c))]"

definition config_Map :: "AuthProviderConfig \<Rightarrow> (string, any) gomap" where
  "config_Map c =
     (let out = putAll (pc_Extra c) (filter (\<lambda>(k, v). v \<noteq> AnyString []) (configColumns c));
          out' = (case pc_AllowedPurposes c of None \<Rightarrow> out | Some ps \<Rightarrow> AList.update ''allowed_purposes'' (AnyStrings ps) out) in
      if pc_AutoCreateConfigured c then out' else AList.delete ''auto_create_users'' out')"

definition SafeMap :: "AuthProviderConfig \<Rightarrow> (string, any) gomap" where
  "SafeMap c = fold AList.delete ([''client_secret'', ''verification_key''] @ integrationKeys) (config_Map c)"

definition SupportsChallengePurpose :: "AuthProviderConfig \<Rightarrow> string \<Rightarrow> bool" where
  "SupportsChallengePurpose c purpose \<longleftrightarrow>
     EqualFold (TrimSpace (pc_Type c)) ''otp'' \<and>
     (case pc_AllowedPurposes c of None \<Rightarrow> True
      | Some ps \<Rightarrow> list_ex (\<lambda>p. TrimSpace p = TrimSpace purpose) ps)"

fun allowedPurposesLoop :: "string list \<Rightarrow> string list \<Rightarrow> string list \<Rightarrow> string list res" where
  "allowedPurposesLoop out seen [] = Inr out"
| "allowedPurposesLoop out seen (raw # rest) =
     (let v = TrimSpace raw in
      if v \<notin> {AuthChallengePurposeLogin, AuthChallengePurposeLoginMFA, AuthChallengePurposeAction}
      then Inl (Errorf ''unsupported challenge purpose %q'' [raw])
      else if v \<in> set seen then Inl (Errorf ''duplicate challenge purpose %q'' [v])
      else allowedPurposesLoop (out @ [v]) (v # seen) rest)"

definition NormalizeAuthProviderAllowedPurposes :: "string list option \<Rightarrow> string list option res" where
  "NormalizeAuthProviderAllowedPurposes values = (case values of
      None \<Rightarrow> Inr None
    | Some vs \<Rightarrow> if vs = [] then Inl (Errorf ''allowed_purposes must not be empty'' [])
        else bind (allowedPurposesLoop [] [] vs) (\<lambda>out. Inr (Some out)))"

end
