(* ===== verification/AuthPolicy.thy ===== *)
theory AuthPolicy
  imports AuthModel
begin

section \<open>Authentication policies\<close>

text \<open>
  The pure decisions of the authentication domain: passwords, time-based one-time codes,
  bearer headers, expiry, random tokens and digits, phone numbers, authentication
  contexts and the roles a login may bring along.  HMAC-SHA-1 is a parameter, as are the
  Unicode classes of code points beyond ASCII.
\<close>

subsection \<open>auth_password_policy.go\<close>

record AuthPasswordPolicy =
  pp_MinLength :: int
  pp_RequireUpper :: bool
  pp_RequireLower :: bool
  pp_RequireNumber :: bool
  pp_RequireSymbol :: bool

record unicode_tables =
  uni_Upper :: "nat \<Rightarrow> bool"
  uni_Lower :: "nat \<Rightarrow> bool"
  uni_Digit :: "nat \<Rightarrow> bool"
  uni_PunctOrSymbol :: "nat \<Rightarrow> bool"

definition isUpperRune :: "unicode_tables \<Rightarrow> nat \<Rightarrow> bool" where
  "isUpperRune u r \<longleftrightarrow> (if r < 128 then 65 \<le> r \<and> r \<le> 90 else uni_Upper u r)"

definition isLowerRune :: "unicode_tables \<Rightarrow> nat \<Rightarrow> bool" where
  "isLowerRune u r \<longleftrightarrow> (if r < 128 then 97 \<le> r \<and> r \<le> 122 else uni_Lower u r)"

definition isDigitRune :: "unicode_tables \<Rightarrow> nat \<Rightarrow> bool" where
  "isDigitRune u r \<longleftrightarrow> (if r < 128 then 48 \<le> r \<and> r \<le> 57 else uni_Digit u r)"

definition isSymbolRune :: "unicode_tables \<Rightarrow> nat \<Rightarrow> bool" where
  "isSymbolRune u r \<longleftrightarrow>
     (if r < 128 then 33 \<le> r \<and> r \<le> 47 \<or> 58 \<le> r \<and> r \<le> 64 \<or> 91 \<le> r \<and> r \<le> 96 \<or> 123 \<le> r \<and> r \<le> 126
      else uni_PunctOrSymbol u r)"

text \<open>The classes seen so far: upper, lower, number, symbol; a rune counts for the first that fits.\<close>

definition classifyRune :: "unicode_tables \<Rightarrow> nat \<Rightarrow> bool \<times> bool \<times> bool \<times> bool \<Rightarrow> bool \<times> bool \<times> bool \<times> bool" where
  "classifyRune u r = (\<lambda>(up, lo, nu, sy).
     if isUpperRune u r then (True, lo, nu, sy)
     else if isLowerRune u r then (up, True, nu, sy)
     else if isDigitRune u r then (up, lo, True, sy)
     else if isSymbolRune u r then (up, lo, nu, True)
     else (up, lo, nu, sy))"

definition authPasswordError :: "string \<Rightarrow> go_error" where
  "authPasswordError code = AppError KindBadRequest code []"

definition AuthValidatePassword :: "unicode_tables \<Rightarrow> AuthPasswordPolicy \<Rightarrow> string \<Rightarrow> unit res" where
  "AuthValidatePassword u policy password =
     (let minLength = (if pp_MinLength policy \<le> 0 then 8 else pp_MinLength policy); runes = runesOf password in
      if int (length runes) < minLength then Inl (authPasswordError ''auth.password_too_short'')
      else (case fold (classifyRune u) runes (False, False, False, False) of (hasUpper, hasLower, hasNumber, hasSymbol) \<Rightarrow>
        if pp_RequireUpper policy \<and> \<not> hasUpper then Inl (authPasswordError ''auth.password_requires_upper'')
        else if pp_RequireLower policy \<and> \<not> hasLower then Inl (authPasswordError ''auth.password_requires_lower'')
        else if pp_RequireNumber policy \<and> \<not> hasNumber then Inl (authPasswordError ''auth.password_requires_number'')
        else if pp_RequireSymbol policy \<and> \<not> hasSymbol then Inl (authPasswordError ''auth.password_requires_symbol'')
        else Inr ()))"

subsection \<open>auth_totp.go\<close>

text \<open>Go's integer division rounds towards zero.\<close>

definition truncDiv :: "int \<Rightarrow> int \<Rightarrow> int" where
  "truncDiv a b = (if a < 0 then - (- a div b) else a div b)"

definition totpStepWindow :: "int list" where
  "totpStepWindow = [0, -1, 1]"

definition bigEndian64 :: "int \<Rightarrow> string" where
  "bigEndian64 step = map (\<lambda>i. chr (nat step div 256 ^ (7 - i) mod 256)) [0..<8]"

definition bigEndianUint32 :: "string \<Rightarrow> nat" where
  "bigEndianUint32 s = foldl (\<lambda>a c. a * 256 + byte c) 0 (take 4 s)"

text \<open>The six digits RFC 6238 derives from a key and a time step.\<close>

definition totpDigits :: "(string \<Rightarrow> string \<Rightarrow> string) \<Rightarrow> string \<Rightarrow> int \<Rightarrow> string" where
  "totpDigits hmacSHA1 key step =
     (let digest = hmacSHA1 key (bigEndian64 step);
          start = byte (digest ! (length digest - 1)) mod 16;
          value = bigEndianUint32 (drop start digest) mod 2147483648
      in paddedDecimal 6 (value mod 1000000))"

fun totpLoop :: "(string \<Rightarrow> string \<Rightarrow> string) \<Rightarrow> string \<Rightarrow> string \<Rightarrow> int \<Rightarrow> int \<Rightarrow> int list \<Rightarrow> int \<times> bool" where
  "totpLoop hm key code current lastStep [] = (0, False)"
| "totpLoop hm key code current lastStep (offset # rest) =
     (let step = current + offset in
      if step < 0 \<or> step \<le> lastStep then totpLoop hm key code current lastStep rest
      else if totpDigits hm key step = code then (step, True)
      else totpLoop hm key code current lastStep rest)"

definition MatchTOTP ::
  "(string \<Rightarrow> string \<Rightarrow> string) \<Rightarrow> string \<Rightarrow> string \<Rightarrow> int \<Rightarrow> int \<Rightarrow> int \<times> bool" where
  "MatchTOTP hmacSHA1 secret code0 now lastStep =
     (let code = TrimSpace code0 in
      if length code \<noteq> 6 then (0, False)
      else if list_ex (\<lambda>c. \<not> isDigit c) code then (0, False)
      else (case base32Decode secret of
          None \<Rightarrow> (0, False)
        | Some key \<Rightarrow>
            if length key < 20 then (0, False)
            else totpLoop hmacSHA1 key code (truncDiv (now div 1000000000) 30) lastStep totpStepWindow))"

subsection \<open>auth_token_policy.go\<close>

definition AuthTokenExpired :: "string \<Rightarrow> int \<Rightarrow> bool" where
  "AuthTokenExpired value now = (case parseRFC3339 (TrimSpace value) of None \<Rightarrow> True | Some t \<Rightarrow> \<not> now < t)"

function fieldsLoop :: "string \<Rightarrow> string \<Rightarrow> string list" where
  "fieldsLoop cur [] = (if cur = [] then [] else [cur])"
| "fieldsLoop cur (c # cs) =
     (let n = leadingRune spaceRunes (c # cs) in
      if n = 0 then fieldsLoop (cur @ [c]) cs
      else if cur = [] then fieldsLoop [] (drop n (c # cs))
      else cur # fieldsLoop [] (drop n (c # cs)))"
  by pat_completeness auto
termination by (relation "measure (\<lambda>(cur, s). length s)") auto

definition Fields :: "string \<Rightarrow> string list" where
  "Fields s = fieldsLoop [] s"

definition AuthBearerToken :: "string \<Rightarrow> string" where
  "AuthBearerToken authorization = (case Fields (TrimSpace authorization) of
      [scheme, token] \<Rightarrow> if EqualFold scheme ''Bearer'' then TrimSpace token else []
    | _ \<Rightarrow> [])"

subsection \<open>auth_random_values.go\<close>

text \<open>
  The source of random bytes is a function of the number of the read and the number of
  bytes asked for: an error, or the bytes that were read, fewer than asked for in a short
  read.  An operation returns the number of the next read.
\<close>

type_synonym random_source = "nat \<Rightarrow> nat \<Rightarrow> go_error + string"

definition randomTokenFrom :: "random_source \<Rightarrow> nat \<Rightarrow> string res \<times> nat" where
  "randomTokenFrom rng i =
     ((case rng i 32 of
         Inl err \<Rightarrow> Inl (Errorf ''read secure random token: %w'' [])
       | Inr raw \<Rightarrow> if length raw \<noteq> 32 then Inl (Errorf ''read secure random token: short read: %d/%d'' [decimal (length raw), decimal 32])
           else Inr (base64Encode raw)), Suc i)"

definition acceptedDigits :: "string \<Rightarrow> string" where
  "acceptedDigits raw = map (\<lambda>v. digitChar (byte v mod 10)) (filter (\<lambda>v. byte v < 250) raw)"

fun randomDigitsLoop :: "random_source \<Rightarrow> nat \<Rightarrow> nat \<Rightarrow> string \<Rightarrow> nat \<Rightarrow> string res \<times> nat" where
  "randomDigitsLoop rng 0 i out len = (Inl (Errorf ''read secure random digits: rejection limit exceeded'' []), i)"
| "randomDigitsLoop rng (Suc attempts) i out len =
     (let rawLen = max 16 ((len - length out) * 2) in
      case rng i rawLen of
        Inl err \<Rightarrow> (Inl (Errorf ''read secure random digits: %w'' []), Suc i)
      | Inr raw \<Rightarrow>
          if length raw \<noteq> rawLen
          then (Inl (Errorf ''read secure random digits: short read: %d/%d'' [decimal (length raw), decimal rawLen]), Suc i)
          else (let out' = take len (out @ acceptedDigits raw) in
            if length out' = len then (Inr out', Suc i)
            else randomDigitsLoop rng attempts (Suc i) out' len))"

definition randomDigitsFrom :: "random_source \<Rightarrow> nat \<Rightarrow> int \<Rightarrow> string res \<times> nat" where
  "randomDigitsFrom rng i len = randomDigitsLoop rng 128 i [] (if len \<le> 0 then 6 else nat len)"

subsection \<open>Phone numbers (auth_provider_challenges.go)\<close>

text \<open>The digits of a phone number; \<open>first\<close> is true at the first byte.\<close>

fun phoneDigits :: "bool \<Rightarrow> string \<Rightarrow> string option" where
  "phoneDigits first [] = Some []"
| "phoneDigits first (c # cs) =
     (if isDigit c then map_option (\<lambda>ds. c # ds) (phoneDigits False cs)
      else if c = CHR ''+'' \<and> first then phoneDigits False cs
      else if c \<in> {CHR '' '', CHR ''-'', CHR ''('', CHR '')'', CHR ''.''} then phoneDigits False cs
      else None)"

definition normalizeE164Phone :: "string \<Rightarrow> string res" where
  "normalizeE164Phone value0 =
     (let v0 = TrimSpace value0; v = (if HasPrefix v0 ''00'' then ''+'' @ drop 2 v0 else v0) in
      case phoneDigits True v of
        None \<Rightarrow> Inl (Errorf ''phone contains unsupported characters'' [])
      | Some normalized \<Rightarrow>
          if length normalized < 8 \<or> 15 < length normalized \<or> hd normalized = CHR ''0''
          then Inl (Errorf ''phone is not E.164 compatible'' [])
          else Inr (CHR ''+'' # normalized))"

definition maskPhoneDestination :: "string \<Rightarrow> string" where
  "maskPhoneDestination value0 =
     (let v = TrimSpace value0 in
      if length v \<le> 5 then ''****''
      else take 2 v @ replicate (length v - 6) CHR ''*'' @ drop (length v - 4) v)"

text \<open>
  \<open>strings.Map\<close> drops everything but ASCII letters and digits and lower-cases letters;
  what is left contains no hyphen, so \<open>strings.Trim\<close> finds nothing to remove.
\<close>

definition isLetter :: "char \<Rightarrow> bool" where
  "isLetter c \<longleftrightarrow> 97 \<le> byte c \<and> byte c \<le> 122 \<or> 65 \<le> byte c \<and> byte c \<le> 90"

definition otpIdentityEmail :: "string \<Rightarrow> string" where
  "otpIdentityEmail phone =
     (let normalized = map lowerChar (filter (\<lambda>c. isDigit c \<or> isLetter c) (TrimSpace phone)) in
      (if normalized = [] then ''verified'' else normalized) @ ''@otp.identity.invalid'')"

definition otpAssertion :: "AuthProviderChallenge \<Rightarrow> AuthExternalIdentityAssertion" where
  "otpAssertion challenge = zeroAssertion\<lparr>
     asrt_Provider := ch_Provider challenge, asrt_Subject := ch_Phone challenge,
     asrt_Email := otpIdentityEmail (ch_Phone challenge), asrt_Phone := ch_Phone challenge,
     asrt_DisplayName := ch_Phone challenge,
     asrt_Metadata := ''{\"source\":\"otp\",\"phone_verified\":true}''\<rparr>"

definition normalizeProvider :: "string \<Rightarrow> string" where
  "normalizeProvider provider = ToLower (TrimSpace provider)"

definition otpChallengeMatchesPurposeAndUser :: "AuthProviderChallenge \<Rightarrow> string list \<Rightarrow> string \<Rightarrow> bool" where
  "otpChallengeMatchesPurposeAndUser challenge allowedPurposes expectedUserID \<longleftrightarrow>
     (allowedPurposes = [] \<or> list_ex (\<lambda>p. TrimSpace p = TrimSpace (ch_Purpose challenge)) allowedPurposes) \<and>
     (TrimSpace expectedUserID = [] \<or> TrimSpace (ch_UserID challenge) = TrimSpace expectedUserID)"

subsection \<open>Authentication contexts (auth_session_issuance.go)\<close>

definition passwordAuthenticationContext :: AuthenticationContext where
  "passwordAuthenticationContext = \<lparr>actx_AuthenticationTime = 0, actx_Methods = [''pwd''], actx_AssuranceLevel = ''urn:domainry:acr:1''\<rparr>"

fun methodsLoop :: "string list \<Rightarrow> string list \<Rightarrow> string list" where
  "methodsLoop methods [] = methods"
| "methodsLoop methods (m # ms) =
     (let v = ToLower (TrimSpace m) in
      if v = [] \<or> v \<in> set methods then methodsLoop methods ms else methodsLoop (methods @ [v]) ms)"

definition normalizeAuthenticationContext :: "AuthenticationContext \<Rightarrow> int \<Rightarrow> AuthenticationContext" where
  "normalizeAuthenticationContext value now =
     (let ms0 = methodsLoop [] (actx_Methods value);
          methods = sortStrings (if ms0 = [] then [''pwd''] else ms0) in
      \<lparr>actx_AuthenticationTime = (if actx_AuthenticationTime value \<le> 0 then now div 1000000000 else actx_AuthenticationTime value),
       actx_Methods = methods,
       actx_AssuranceLevel =
         (if TrimSpace (actx_AssuranceLevel value) \<noteq> [] then actx_AssuranceLevel value
          else if 1 < length methods then ''urn:domainry:acr:2''
          else if hd methods = ''guest'' then ''urn:domainry:acr:0''
          else ''urn:domainry:acr:1'')\<rparr>)"

definition authMethodPresent :: "string list \<Rightarrow> string \<Rightarrow> bool" where
  "authMethodPresent methods expected = list_ex (\<lambda>m. EqualFold (TrimSpace m) expected) methods"

subsection \<open>Roles a login may bring along\<close>

text \<open>\<open>identity_default_role.go\<close>: the least non-empty role key.\<close>

fun defaultRoleLoop :: "string \<Rightarrow> IdentityRole list \<Rightarrow> string" where
  "defaultRoleLoop selected [] = selected"
| "defaultRoleLoop selected (r # rs) =
     (let key = TrimSpace (role_Key r) in
      defaultRoleLoop (if key \<noteq> [] \<and> (selected = [] \<or> key < selected) then key else selected) rs)"

definition SelectDefaultRole :: "IdentityRole list \<Rightarrow> string" where
  "SelectDefaultRole roles = defaultRoleLoop [] roles"

definition authAssignmentMode :: "RoleSchema \<Rightarrow> string" where
  "authAssignmentMode r = (if rs_AssignmentMode r = [] then IdentityRoleAssignmentManual else rs_AssignmentMode r)"

definition authAudience :: "RoleSchema \<Rightarrow> string" where
  "authAudience r = (if rs_Audience r = [] then IdentityRoleAudienceAny else rs_Audience r)"

definition authRisk :: "RoleSchema \<Rightarrow> string" where
  "authRisk r = (if rs_RiskLevel r = [] then IdentityRoleRiskNormal else rs_RiskLevel r)"

definition guestRoleKey :: string where "guestRoleKey = ''customer''"

definition guestAssignableRole :: "RoleSchema \<Rightarrow> bool" where
  "guestAssignableRole r \<longleftrightarrow> rs_Key r = guestRoleKey \<and> authAssignmentMode r = IdentityRoleAssignmentManual
     \<and> (authAudience r = IdentityRoleAudienceAny \<or> authAudience r = IdentityRoleAudienceUser) \<and> authRisk r = IdentityRoleRiskNormal"

definition externalAutoAssignableRole :: "RoleSchema \<Rightarrow> bool" where
  "externalAutoAssignableRole r \<longleftrightarrow> authAssignmentMode r = IdentityRoleAssignmentManual
     \<and> authAudience r = IdentityRoleAudienceAny \<and> authRisk r = IdentityRoleRiskNormal"

definition normalizedAssertionClaim :: "AuthExternalIdentityAssertion \<Rightarrow> string \<Rightarrow> string" where
  "normalizedAssertionClaim a claim0 =
     (let claim = ToLower (TrimSpace claim0) in
      if claim = ''provider'' then normalizeProvider (asrt_Provider a)
      else if claim = ''subject'' \<or> claim = ''provider_subject'' then TrimSpace (asrt_Subject a)
      else if claim = ''email'' then TrimSpace (asrt_Email a)
      else if claim = ''phone'' \<or> claim = ''mobile'' then TrimSpace (asrt_Phone a)
      else if claim = ''display_name'' \<or> claim = ''name'' then TrimSpace (asrt_DisplayName a)
      else TrimSpace (mapGet [] (asrt_Claims a) claim))"

text \<open>What follows the last \<open>@\<close> of a string, when something does.\<close>

definition afterLastAt :: "string \<Rightarrow> string option" where
  "afterLastAt email =
     (let tail = rev (takeWhile (\<lambda>c. c \<noteq> CHR ''@'') (rev email)) in
      if CHR ''@'' \<in> set email \<and> tail \<noteq> [] then Some tail else None)"

definition externalAssertionMappingMatches :: "AuthExternalIdentityAssertion \<Rightarrow> AuthExternalRoleMapping \<Rightarrow> bool" where
  "externalAssertionMappingMatches a mapping \<longleftrightarrow>
     (let claim = ToLower (TrimSpace (erm_Claim mapping)); expected = ToLower (TrimSpace (erm_Match mapping)) in
      if claim = [] \<or> expected = [] then False
      else (let actual = ToLower (normalizedAssertionClaim a claim);
                actual' = (if claim = ''email_domain''
                  then (case afterLastAt (ToLower (TrimSpace (asrt_Email a))) of Some d \<Rightarrow> d | None \<Rightarrow> actual) else actual)
            in actual' = expected))"

definition verifiedSubjectOnlyIdentity :: "AuthExternalIdentityAssertion \<Rightarrow> bool" where
  "verifiedSubjectOnlyIdentity a \<longleftrightarrow>
     asrt_ProviderSubjectVerified a \<and>
     (normalizeProvider (asrt_Provider a) = ''wechat_mini_program'' \<or> normalizeProvider (asrt_Provider a) = ''line'') \<and>
     TrimSpace (asrt_Subject a) \<noteq> []"

end
