(* ===== verification/AuthService.thy ===== *)
theory AuthService
  imports AuthPolicy Configuration
begin

section \<open>The authentication domain service: state, ports and construction\<close>

text \<open>
  \<open>service/auth_domain_service.go\<close> with the ports it consumes.  A port is an interface
  value: a record of operations.  An optional capability (a type assertion on the store) is
  an optional field.  An operation may change the world and then returns a value or an
  error; what it changed before an error stays.  The world is what the store holds, the
  login challenges a service without a durable store keeps in its map, and the number of
  the next random read.  The clock is read once per request, in a process whose local time
  zone is UTC.
\<close>

subsection \<open>Operations\<close>

type_synonym ('w, 'a) op = "'w \<Rightarrow> 'a res \<times> 'w"

definition ret :: "'a \<Rightarrow> ('w, 'a) op" where
  "ret x = (\<lambda>w. (Inr x, w))"

definition raise :: "go_error \<Rightarrow> ('w, 'a) op" where
  "raise err = (\<lambda>w. (Inl err, w))"

definition andThen :: "('w, 'a) op \<Rightarrow> ('a \<Rightarrow> ('w, 'b) op) \<Rightarrow> ('w, 'b) op" where
  "andThen m f = (\<lambda>w. case m w of (Inl err, w') \<Rightarrow> (Inl err, w') | (Inr x, w') \<Rightarrow> f x w')"

text \<open>\<open>_ = m\<close>: the error is dropped, the effect stays.\<close>

definition dropError :: "('w, 'a) op \<Rightarrow> ('w, unit) op" where
  "dropError m = (\<lambda>w. (Inr (), snd (m w)))"

definition check :: "bool \<Rightarrow> go_error \<Rightarrow> ('w, unit) op" where
  "check ok err = (if ok then ret () else raise err)"

definition liftRes :: "'a res \<Rightarrow> ('w, 'a) op" where
  "liftRes r = (\<lambda>w. (r, w))"

fun forEach :: "('a \<Rightarrow> ('w, unit) op) \<Rightarrow> 'a list \<Rightarrow> ('w, unit) op" where
  "forEach f [] = ret ()"
| "forEach f (x # xs) = andThen (f x) (\<lambda>_. forEach f xs)"

record 's world =
  w_store :: 's
  w_challenges :: "(string, AuthProviderChallenge) gomap"
  w_random :: nat

definition onStore :: "('s, 'a) op \<Rightarrow> ('s world, 'a) op" where
  "onStore m = (\<lambda>w. case m (w_store w) of (r, s) \<Rightarrow> (r, w\<lparr>w_store := s\<rparr>))"

subsection \<open>Ports\<close>

text \<open>Of a request context the code reads the workspace and whether it was cancelled.\<close>

record request_ctx =
  ctx_Workspace :: string
  ctx_Err :: "go_error option"

definition ctxErr :: "request_ctx \<Rightarrow> ('w, unit) op" where
  "ctxErr c = (case ctx_Err c of None \<Rightarrow> ret () | Some err \<Rightarrow> raise err)"

definition WithWorkspaceID :: "request_ctx \<Rightarrow> string \<Rightarrow> request_ctx" where
  "WithWorkspaceID c workspaceID = c\<lparr>ctx_Workspace := workspaceID\<rparr>"

record 's AuthIdentityPort =
  ip_AssignUserRole :: "request_ctx \<Rightarrow> IdentityUserRoleAssignment \<Rightarrow> ('s, unit) op"
  ip_ListRoles :: "request_ctx \<Rightarrow> ('s, IdentityRole list) op"
  ip_UpsertUser :: "request_ctx \<Rightarrow> IdentityUser \<Rightarrow> ('s, unit) op"
  ip_UserByID :: "request_ctx \<Rightarrow> string \<Rightarrow> ('s, IdentityUser option) op"
  ip_UserByLogin :: "request_ctx \<Rightarrow> string \<Rightarrow> ('s, IdentityUser option) op"
  ip_ActiveRolesForUser :: "request_ctx \<Rightarrow> string \<Rightarrow> ('s, IdentityRole list) op"
  ip_PublishedRoleDefinition :: "request_ctx \<Rightarrow> string \<Rightarrow> RoleSchema option"
  ip_ResolveEffectivePermissions :: "request_ctx \<Rightarrow> string \<Rightarrow> ('s, string list) op"
  ip_ResolvePrincipal :: "request_ctx \<Rightarrow> string \<Rightarrow> ('s, Principal) op"
  ip_UpdateUserLocale :: "(request_ctx \<Rightarrow> string \<Rightarrow> string \<Rightarrow> string \<Rightarrow> int \<Rightarrow> ('s, IdentityUser) op) option"
  ip_ReconcileSystemManagedBusinessRoles :: "(request_ctx \<Rightarrow> string \<Rightarrow> ('s, unit) op) option"

record 's AuthSessionRepository =
  sr_AuthSessionState :: "string \<Rightarrow> string \<Rightarrow> string \<Rightarrow> int \<Rightarrow> ('s, string) op"
  sr_RevokeOtherAuthSessions :: "string \<Rightarrow> string \<Rightarrow> string \<Rightarrow> string \<Rightarrow> ('s, int) op"
  sr_RevokeAuthSession :: "string \<Rightarrow> string \<Rightarrow> string \<Rightarrow> string \<Rightarrow> ('s, int) op"

record 's AuthLoginTransactionRepository =
  lt_CreateAuthLoginTransaction :: "AuthProviderChallenge \<Rightarrow> ('s, unit) op"
  lt_ConsumeAuthLoginTransaction :: "string \<Rightarrow> string \<Rightarrow> string \<Rightarrow> int \<Rightarrow> ('s, AuthProviderChallenge option) op"

record 's AuthOTPTransactionRepository =
  ot_CreateAuthOTPTransaction :: "AuthProviderChallenge \<Rightarrow> string \<Rightarrow> int \<Rightarrow> int \<Rightarrow> ('s, bool) op"
  ot_UpdateAuthOTPTransactionStatus ::
    "string \<Rightarrow> string \<Rightarrow> string \<Rightarrow> string \<Rightarrow> string \<Rightarrow> string \<Rightarrow> int \<Rightarrow> ('s, unit) op"
  ot_ConsumeAuthOTPTransaction ::
    "string \<Rightarrow> string \<Rightarrow> string \<Rightarrow> string \<Rightarrow> string list \<Rightarrow> string \<Rightarrow> int \<Rightarrow> int \<Rightarrow> ('s, AuthProviderChallenge \<times> bool) op"

record 's AuthAuthorizationCodeRepository =
  ac_CreateAuthAuthorizationCode :: "AuthAuthorizationCode \<Rightarrow> ('s, unit) op"
  ac_ConsumeAuthAuthorizationCode :: "string \<Rightarrow> string \<Rightarrow> string \<Rightarrow> string \<Rightarrow> int \<Rightarrow> ('s, AuthSession option) op"

record 's AuthMFARepository =
  mr_ListIdentityMFAFactors :: "string \<Rightarrow> string \<Rightarrow> ('s, IdentityMFAFactor list) op"
  mr_UpsertIdentityMFAFactor :: "string \<Rightarrow> IdentityMFAFactor \<Rightarrow> ('s, unit) op"
  mr_RevokeIdentityMFAFactor :: "string \<Rightarrow> string \<Rightarrow> string \<Rightarrow> ('s, unit) op"

record 's AuthTOTPRepository =
  tr_TOTPFactorState :: "string \<Rightarrow> string \<Rightarrow> ('s, TOTPFactorState) op"
  tr_CreateTOTPEnrollment :: "AuthProviderChallenge \<Rightarrow> string \<Rightarrow> ('s, unit) op"

record 's AuthRepository =
  rp_GetIdentityCredential :: "string \<Rightarrow> string \<Rightarrow> ('s, IdentityCredential option) op"
  rp_UpsertIdentityCredential :: "string \<Rightarrow> IdentityCredential \<Rightarrow> ('s, unit) op"
  rp_RecordIdentityLoginSuccess :: "string \<Rightarrow> string \<Rightarrow> string \<Rightarrow> ('s, unit) op"
  rp_CreateAuthRefreshToken :: "string \<Rightarrow> AuthRefreshToken \<Rightarrow> ('s, unit) op"
  rp_GetAuthRefreshTokenByHash :: "string \<Rightarrow> string \<Rightarrow> ('s, AuthRefreshToken option) op"
  rp_RevokeAuthRefreshToken :: "string \<Rightarrow> string \<Rightarrow> string \<Rightarrow> string \<Rightarrow> ('s, unit) op"
  rp_ListAuthRefreshTokensForUser :: "string \<Rightarrow> string \<Rightarrow> ('s, AuthRefreshToken list) op"
  rp_RevokeAuthRefreshTokensForUser :: "string \<Rightarrow> string \<Rightarrow> string \<Rightarrow> ('s, int) op"
  rp_ListIdentityExternalAccounts :: "string \<Rightarrow> string \<Rightarrow> ('s, IdentityExternalAccount list) op"
  rp_UpsertIdentityExternalAccount :: "string \<Rightarrow> IdentityExternalAccount \<Rightarrow> ('s, unit) op"
  rp_RemoveIdentityExternalAccount :: "string \<Rightarrow> string \<Rightarrow> ('s, unit) op"
  rp_RecordIdentityLoginFailure :: "(string \<Rightarrow> string \<Rightarrow> int \<Rightarrow> string \<Rightarrow> string \<Rightarrow> ('s, unit) op) option"
  rp_RotateAuthRefreshToken :: "(string \<Rightarrow> string \<Rightarrow> string \<Rightarrow> AuthRefreshToken \<Rightarrow> ('s, bool) op) option"
  rp_Sessions :: "'s AuthSessionRepository option"
  rp_LoginTransactions :: "'s AuthLoginTransactionRepository option"
  rp_OTPTransactions :: "'s AuthOTPTransactionRepository option"
  rp_AuthorizationCodes :: "'s AuthAuthorizationCodeRepository option"
  rp_AuthorizationRedirectRegistered :: "(string \<Rightarrow> string \<Rightarrow> string \<Rightarrow> ('s, bool) op) option"
  rp_ClaimAuthAssertion :: "(string \<Rightarrow> string \<Rightarrow> string \<Rightarrow> string \<Rightarrow> int \<Rightarrow> ('s, bool) op) option"
  rp_MFA :: "'s AuthMFARepository option"
  rp_TOTP :: "'s AuthTOTPRepository option"
  rp_IdentityUserExistsWithinDataScope :: "(string \<Rightarrow> string \<Rightarrow> IdentityDataScopeFilter \<Rightarrow> ('s, bool) op) option"
  rp_UnlockIdentityCredentialWithinDataScope :: "(string \<Rightarrow> string \<Rightarrow> IdentityDataScopeFilter \<Rightarrow> ('s, bool \<times> bool) op) option"
  rp_ResetIdentityCredentialWithinDataScope ::
    "(string \<Rightarrow> string \<Rightarrow> string \<Rightarrow> string \<Rightarrow> bool \<Rightarrow> IdentityDataScopeFilter \<Rightarrow> ('s, bool) op) option"
  rp_RevokeAuthRefreshTokensForUserWithinDataScope ::
    "(string \<Rightarrow> string \<Rightarrow> string \<Rightarrow> IdentityDataScopeFilter \<Rightarrow> ('s, int \<times> bool) op) option"
  rp_RevokeIdentityMFAFactorWithinDataScope ::
    "(string \<Rightarrow> string \<Rightarrow> string \<Rightarrow> IdentityDataScopeFilter \<Rightarrow> ('s, bool \<times> bool) op) option"

subsection \<open>The environment of authentication\<close>

text \<open>
  What lies outside the repository or in cryptographic packages: hashing, signatures,
  password hashing (the number of the call stands for its salt), the JSON text of headers
  and claims, and URL parsing and printing.
\<close>

record url =
  url_Scheme :: string
  url_HasUser :: bool
  url_Hostname :: string
  url_Fragment :: string
  url_Query :: "(string, string list) gomap"
  url_Rest :: string

record authEnv =
  ae_Env :: env
  ae_Unicode :: unicode_tables
  ae_Random :: random_source
  ae_HmacSHA1 :: "string \<Rightarrow> string \<Rightarrow> string"
  ae_HmacSHA256 :: "string \<Rightarrow> string \<Rightarrow> string"
  ae_SHA256 :: "string \<Rightarrow> string"
  ae_BcryptGenerate :: "string \<Rightarrow> nat \<Rightarrow> string res"
  ae_BcryptMatches :: "string \<Rightarrow> string \<Rightarrow> bool"
  ae_NewKeyFromSeed :: "string \<Rightarrow> string"
  ae_PublicKey :: "string \<Rightarrow> string"
  ae_Sign :: "string \<Rightarrow> string \<Rightarrow> string"
  ae_Verify :: "string \<Rightarrow> string \<Rightarrow> string \<Rightarrow> bool"
  ae_EncodeHeader :: "(string, string) gomap \<Rightarrow> string"
  ae_DecodeHeader :: "string \<Rightarrow> (string, string) gomap option"
  ae_EncodeClaims :: "AuthClaims \<Rightarrow> string"
  ae_DecodeClaims :: "string \<Rightarrow> AuthClaims option"
  ae_ParseURL :: "string \<Rightarrow> url option"
  ae_PrintURL :: "url \<Rightarrow> string"

definition authNow :: "authEnv \<Rightarrow> int" where
  "authNow e = nowInstant (ae_Env e)"

definition unixOf :: "int \<Rightarrow> int" where
  "unixOf t = t div 1000000000"

abbreviation second :: int where "second \<equiv> 1000000000"
abbreviation minute :: int where "minute \<equiv> 60000000000"

text \<open>\<open>now.Add(d).Format(time.RFC3339)\<close>.\<close>

definition stampAfter :: "authEnv \<Rightarrow> int \<Rightarrow> string" where
  "stampAfter e d = formatInstant (authNow e + d)"

subsection \<open>Errors (auth_errors.go)\<close>

definition authDomainError :: "authEnv \<Rightarrow> ErrorKind \<Rightarrow> string \<Rightarrow> string list \<Rightarrow> go_error" where
  "authDomainError e kind code params = AppError kind code (env_SanitizeParams (ae_Env e) (putAll [] (paramPairs params)))"

definition authBadRequest :: "authEnv \<Rightarrow> string \<Rightarrow> go_error" where
  "authBadRequest e code = authDomainError e KindBadRequest code []"

definition authForbidden :: "authEnv \<Rightarrow> string \<Rightarrow> go_error" where
  "authForbidden e code = authDomainError e KindForbidden code []"

definition userNotFoundRequest :: "authEnv \<Rightarrow> string \<Rightarrow> go_error" where
  "userNotFoundRequest e userID = authDomainError e KindBadRequest ''backend.identity.user_not_found'' [''user'', userID]"

subsection \<open>The service\<close>

record 's AuthDomainService =
  as_identity :: "'s AuthIdentityPort"
  as_identityStore :: "'s AuthRepository"
  as_secret :: string
  as_issuer :: string
  as_audience :: string
  as_activeKID :: string
  as_activePrivateKey :: string
  as_verificationKeys :: "(string, string) gomap"
  as_defaultPassword :: string
  as_accessTTL :: int
  as_refreshTTL :: int
  as_maxLoginFailures :: int
  as_loginLockDuration :: int
  as_otpResendCooldown :: int
  as_otpMaxAttempts :: int
  as_passwordPolicy :: AuthPasswordPolicy
  as_defaultLocale :: string
  as_normalizeLocale :: "(string \<Rightarrow> string) option"
  as_supportedLocales :: "string list"

definition randomToken :: "authEnv \<Rightarrow> ('s world, string) op" where
  "randomToken e = (\<lambda>w. case randomTokenFrom (ae_Random e) (w_random w) of (r, i) \<Rightarrow> (r, w\<lparr>w_random := i\<rparr>))"

definition randomDigits :: "authEnv \<Rightarrow> int \<Rightarrow> ('s world, string) op" where
  "randomDigits e len = (\<lambda>w. case randomDigitsFrom (ae_Random e) (w_random w) len of (r, i) \<Rightarrow> (r, w\<lparr>w_random := i\<rparr>))"

text \<open>A random token whose failure is reported as an internal error with the operation's name.\<close>

definition randomTokenFor :: "authEnv \<Rightarrow> string \<Rightarrow> ('s world, string) op" where
  "randomTokenFor e operation = (\<lambda>w. case randomToken e w of
      (Inl _, w') \<Rightarrow> (Inl (internalError operation), w')
    | (Inr t, w') \<Rightarrow> (Inr t, w'))"

fun signingKeysLoop :: "authEnv \<Rightarrow> string \<Rightarrow> (string, string) gomap \<Rightarrow> (string \<times> string) list \<Rightarrow> (string, string) gomap res" where
  "signingKeysLoop e activeKID keys [] = Inr keys"
| "signingKeysLoop e activeKID keys ((kid0, secret0) # rest) =
     (let kid = TrimSpace kid0; secret = TrimSpace secret0 in
      if kid = [] \<or> secret = [] \<or> kid = activeKID
      then Inl (Errorf ''JWT verification keys require unique non-empty kid and secret'' [])
      else signingKeysLoop e activeKID
             (AList.update kid (ae_PublicKey e (ae_NewKeyFromSeed e (ae_SHA256 e secret))) keys) rest)"

definition ConfigureSigningKeys ::
  "authEnv \<Rightarrow> 's AuthDomainService \<Rightarrow> string \<Rightarrow> string \<Rightarrow> (string, string) gomap \<Rightarrow> 's AuthDomainService res" where
  "ConfigureSigningKeys e a activeKID0 activeSecret0 verification =
     (let activeKID = TrimSpace activeKID0; activeSecret = TrimSpace activeSecret0 in
      if activeKID = [] \<or> activeSecret = [] then Inl (Errorf ''active JWT kid and secret are required'' [])
      else (let privateKey = ae_NewKeyFromSeed e (ae_SHA256 e activeSecret) in
        bind (signingKeysLoop e activeKID [(activeKID, ae_PublicKey e privateKey)] verification) (\<lambda>keys.
          Inr (a\<lparr>as_activeKID := activeKID, as_secret := activeSecret, as_activePrivateKey := privateKey,
                 as_verificationKeys := keys\<rparr>))))"

definition NewAuthDomainService ::
  "authEnv \<Rightarrow> 's AuthIdentityPort \<Rightarrow> 's AuthRepository \<Rightarrow> string \<Rightarrow> string \<Rightarrow> int \<Rightarrow> int \<Rightarrow> int \<Rightarrow> int \<Rightarrow> int \<Rightarrow> int
   \<Rightarrow> AuthPasswordPolicy \<Rightarrow> 's AuthDomainService" where
  "NewAuthDomainService e identity store secret0 defaultPassword0 accessTTL refreshTTL maxLoginFailures
     loginLockDuration otpResendCooldown otpMaxAttempts policy =
     (let secret = (if TrimSpace secret0 = [] then ''dev-generated-auth-secret-change-me'' else TrimSpace secret0);
          a = \<lparr>as_identity = identity, as_identityStore = store, as_secret = secret,
               as_issuer = ''http://localhost:8081'', as_audience = ''domainry-runtime'', as_activeKID = [],
               as_activePrivateKey = [], as_verificationKeys = [],
               as_defaultPassword = (if TrimSpace defaultPassword0 = [] then ''Domainry@2026'' else TrimSpace defaultPassword0),
               as_accessTTL = (if accessTTL \<le> 0 then 15 * minute else accessTTL),
               as_refreshTTL = (if refreshTTL \<le> 0 then 7 * 24 * 60 * minute else refreshTTL),
               as_maxLoginFailures = (if maxLoginFailures \<le> 0 then 5 else maxLoginFailures),
               as_loginLockDuration = (if loginLockDuration \<le> 0 then 15 * minute else loginLockDuration),
               as_otpResendCooldown = (if otpResendCooldown \<le> 0 then 60 * second else otpResendCooldown),
               as_otpMaxAttempts = (if otpMaxAttempts \<le> 0 then 5 else otpMaxAttempts),
               as_passwordPolicy = (if pp_MinLength policy \<le> 0 then policy\<lparr>pp_MinLength := 8\<rparr> else policy),
               as_defaultLocale = ''en-US'', as_normalizeLocale = None, as_supportedLocales = [''en-US'']\<rparr>
      in case ConfigureSigningKeys e a ''dev-v1'' secret [] of Inl _ \<Rightarrow> a | Inr a' \<Rightarrow> a')"

definition ConfigureLocalePolicy ::
  "'s AuthDomainService \<Rightarrow> string \<Rightarrow> (string \<Rightarrow> string) option \<Rightarrow> string list \<Rightarrow> 's AuthDomainService" where
  "ConfigureLocalePolicy a defaultLocale0 normalizer supported =
     (let defaultLocale = (if TrimSpace defaultLocale0 = [] then ''en-US'' else TrimSpace defaultLocale0) in
      a\<lparr>as_defaultLocale := defaultLocale, as_normalizeLocale := normalizer,
        as_supportedLocales := defaultLocale # filter (\<lambda>l. l \<noteq> []) (map TrimSpace supported)\<rparr>)"

definition ConfigureTokenMetadata :: "'s AuthDomainService \<Rightarrow> string \<Rightarrow> string \<Rightarrow> 's AuthDomainService res" where
  "ConfigureTokenMetadata a issuer0 audience0 =
     (let issuer = TrimRightSlash (TrimSpace issuer0); audience = TrimSpace audience0 in
      if issuer = [] \<or> audience = [] then Inl (Errorf ''JWT issuer and audience are required'' [])
      else Inr (a\<lparr>as_issuer := issuer, as_audience := audience\<rparr>))"

fun publicKeysLoop :: "string \<Rightarrow> (string, string) gomap \<Rightarrow> (string \<times> string) list \<Rightarrow> (string, string) gomap res" where
  "publicKeysLoop activeKID keys [] = Inr keys"
| "publicKeysLoop activeKID keys ((kid0, encoded) # rest) =
     (let kid = TrimSpace kid0; bad = Errorf ''verification keys require unique kid and raw Ed25519 public key'' [] in
      case base64Decode (TrimSpace encoded) of
        None \<Rightarrow> Inl bad
      | Some public \<Rightarrow>
          if kid = [] \<or> kid = activeKID \<or> length public \<noteq> 32 then Inl bad
          else publicKeysLoop activeKID (AList.update kid public keys) rest)"

definition ConfigureTokenAuthority ::
  "authEnv \<Rightarrow> 's AuthDomainService \<Rightarrow> string \<Rightarrow> string \<Rightarrow> string \<Rightarrow> string \<Rightarrow> (string, string) gomap \<Rightarrow> 's AuthDomainService res" where
  "ConfigureTokenAuthority e a issuer0 audience0 activeKID0 privateKey verification =
     (let issuer = TrimSpace issuer0; audience = TrimSpace audience0; activeKID = TrimSpace activeKID0;
          bad = Errorf ''issuer, audience, kid and a raw Ed25519 private key are required'' [] in
      case base64Decode (TrimSpace privateKey) of
        None \<Rightarrow> Inl bad
      | Some decoded \<Rightarrow>
          if issuer = [] \<or> audience = [] \<or> activeKID = [] \<or> length decoded \<noteq> 64 then Inl bad
          else bind (publicKeysLoop activeKID [(activeKID, ae_PublicKey e decoded)] verification) (\<lambda>keys.
            Inr (a\<lparr>as_issuer := issuer, as_audience := audience, as_activeKID := activeKID,
                   as_activePrivateKey := decoded, as_verificationKeys := keys\<rparr>)))"

section \<open>Lemmas\<close>

lemma andThen_Inr [simp]: "andThen m f w = (Inr y, w'') \<longleftrightarrow> (\<exists>x w'. m w = (Inr x, w') \<and> f x w' = (Inr y, w''))"
  by (auto simp: andThen_def split: prod.splits sum.splits)

lemma ret_simps [simp]: "ret x w = (Inr x, w)"
  by (simp add: ret_def)

lemma raise_simps [simp]: "raise err w = (Inl err, w)"
  by (simp add: raise_def)

lemma check_Inr [simp]: "check ok err w = (Inr u, w') \<longleftrightarrow> ok \<and> w' = w"
  by (auto simp: check_def)

lemma liftRes_simps [simp]: "liftRes r w = (r, w)"
  by (simp add: liftRes_def)

lemma onStore_Inr [simp]: "onStore m w = (Inr x, w') \<longleftrightarrow> (\<exists>s. m (w_store w) = (Inr x, s) \<and> w' = w\<lparr>w_store := s\<rparr>)"
  by (auto simp: onStore_def split: prod.splits)

end
