(* ===== verification/AuthTokens.thy ===== *)
theory AuthTokens
  imports AuthService
begin

section \<open>The authentication domain service: tokens\<close>

text \<open>
  \<open>auth_token_crypto.go\<close>, \<open>auth_access_token.go\<close>,
  \<open>auth_application_service_token.go\<close>, \<open>auth_action_assurance.go\<close> and
  \<open>auth_jwks.go\<close>: compact signed tokens for users, for application services and as
  receipts of a verified action.
\<close>

subsection \<open>Signing\<close>

definition signedBody :: "authEnv \<Rightarrow> 's AuthDomainService \<Rightarrow> AuthClaims \<Rightarrow> string" where
  "signedBody e a claims =
     base64Encode (ae_EncodeHeader e [(''alg'', ''EdDSA''), (''kid'', as_activeKID a), (''typ'', ''JWT'')])
       @ ''.'' @ base64Encode (ae_EncodeClaims e claims)"

definition signedToken :: "authEnv \<Rightarrow> 's AuthDomainService \<Rightarrow> AuthClaims \<Rightarrow> string" where
  "signedToken e a claims =
     signedBody e a claims @ ''.'' @ base64Encode (ae_Sign e (as_activePrivateKey a) (signedBody e a claims))"

definition claimDefaults :: "authEnv \<Rightarrow> 's AuthDomainService \<Rightarrow> AuthClaims \<Rightarrow> AuthClaims" where
  "claimDefaults e a c0 =
     (let c1 = c0\<lparr>cl_Issuer := valueOrDefault (cl_Issuer c0) (as_issuer a),
                  cl_Audience := valueOrDefault (cl_Audience c0) (as_audience a)\<rparr>;
          c2 = (if cl_AuthorizationRevision c1 = [] \<and> cl_Subject c1 \<noteq> []
                then c1\<lparr>cl_AuthorizationRevision := base64Encode (ae_SHA256 e (cl_WorkspaceID c1 @ NUL @ cl_Subject c1))\<rparr> else c1);
          c3 = (if cl_IssuedAt c2 = 0 then c2\<lparr>cl_IssuedAt := unixOf (authNow e)\<rparr> else c2)
      in if cl_AuthenticationTime c3 = 0 then c3\<lparr>cl_AuthenticationTime := cl_IssuedAt c3\<rparr> else c3)"

definition signClaims :: "authEnv \<Rightarrow> 's AuthDomainService \<Rightarrow> AuthClaims \<Rightarrow> ('s world, string) op" where
  "signClaims e a c0 =
     (let c = claimDefaults e a c0 in
      if cl_JTI c = [] \<and> cl_Subject c \<noteq> []
      then andThen (randomTokenFor e ''generate access token identifier'') (\<lambda>jti. ret (signedToken e a (c\<lparr>cl_JTI := jti\<rparr>)))
      else ret (signedToken e a c))"

definition hashRefreshToken :: "authEnv \<Rightarrow> string \<Rightarrow> string" where
  "hashRefreshToken e token = base64Encode (ae_SHA256 e (TrimSpace token))"

definition tokenExpired :: "authEnv \<Rightarrow> string \<Rightarrow> bool" where
  "tokenExpired e value = AuthTokenExpired value (authNow e)"

subsection \<open>Verifying\<close>

text \<open>\<open>strings.Split(s, ".")\<close>.\<close>

fun splitOn :: "char \<Rightarrow> string \<Rightarrow> string list" where
  "splitOn d [] = [[]]"
| "splitOn d (c # cs) = (if c = d then [] # splitOn d cs
     else (case splitOn d cs of [] \<Rightarrow> [[c]] | p # ps \<Rightarrow> (c # p) # ps))"

text \<open>The claims of a token whose header names a known key that verifies its signature.\<close>

definition verifiedPayload :: "authEnv \<Rightarrow> 's AuthDomainService \<Rightarrow> string \<Rightarrow> AuthClaims option" where
  "verifiedPayload e a token = (case splitOn CHR ''.'' (TrimSpace token) of
      [p0, p1, p2] \<Rightarrow>
        Option.bind (base64Decode p0) (\<lambda>headerPayload.
        Option.bind (ae_DecodeHeader e headerPayload) (\<lambda>header.
        if mapGet [] header ''alg'' \<noteq> ''EdDSA'' \<or> mapGet [] header ''typ'' \<noteq> ''JWT'' then None
        else Option.bind (map_of (as_verificationKeys a) (TrimSpace (mapGet [] header ''kid''))) (\<lambda>selected.
        Option.bind (base64Decode p2) (\<lambda>signature.
        if \<not> ae_Verify e selected (p0 @ ''.'' @ p1) signature then None
        else Option.bind (base64Decode p1) (ae_DecodeClaims e)))))
    | _ \<Rightarrow> None)"

definition claimsCurrent :: "authEnv \<Rightarrow> 's AuthDomainService \<Rightarrow> AuthClaims \<Rightarrow> bool" where
  "claimsCurrent e a c \<longleftrightarrow>
     cl_Issuer c = as_issuer a \<and> TrimSpace (cl_Audience c) \<noteq> [] \<and> cl_Subject c \<noteq> [] \<and> cl_SessionID c \<noteq> []
     \<and> cl_AuthorizationRevision c \<noteq> [] \<and> cl_JTI c \<noteq> []
     \<and> cl_IssuedAt c \<le> unixOf (authNow e + minute) \<and> unixOf (authNow e) < cl_ExpiresAt c"

definition verifySigned :: "authEnv \<Rightarrow> 's AuthDomainService \<Rightarrow> string \<Rightarrow> AuthClaims res" where
  "verifySigned e a token = (case verifiedPayload e a token of
      None \<Rightarrow> Inl (authForbidden e ''auth.invalid_token'')
    | Some c \<Rightarrow>
       (case NewWorkspaceID (cl_WorkspaceID c) of
          Inl _ \<Rightarrow> Inl (authForbidden e ''auth.workspace_scope_required'')
        | Inr _ \<Rightarrow> if claimsCurrent e a c then Inr c else Inl (authForbidden e ''auth.session_expired'')))"

definition VerifySignedAccessToken ::
  "authEnv \<Rightarrow> 's AuthDomainService \<Rightarrow> request_ctx \<Rightarrow> string \<Rightarrow> ('s world, AuthClaims) op" where
  "VerifySignedAccessToken e a c token = andThen (ctxErr c) (\<lambda>_. liftRes (verifySigned e a token))"

definition VerifyAccessToken ::
  "authEnv \<Rightarrow> 's AuthDomainService \<Rightarrow> request_ctx \<Rightarrow> string \<Rightarrow> ('s world, AuthClaims) op" where
  "VerifyAccessToken e a c token =
     andThen (VerifySignedAccessToken e a c token) (\<lambda>claims.
     andThen (check (cl_ServiceApplicationKey claims = []) (authForbidden e ''auth.user_token_required'')) (\<lambda>_.
     (case rp_Sessions (as_identityStore a) of
        None \<Rightarrow> raise (authForbidden e ''auth.session_expired'')
      | Some sessions \<Rightarrow>
          andThen (onStore (sr_AuthSessionState sessions (cl_WorkspaceID claims) (cl_Subject claims) (cl_SessionID claims) (authNow e)))
            (\<lambda>state. if state = ''active'' then ret claims
                     else if state = ''revoked'' then raise (authForbidden e ''auth.session_revoked'')
                     else raise (authForbidden e ''auth.session_expired'')))))"

subsection \<open>Tokens of application services\<close>

definition grantLabel :: "AuthServiceGrant \<Rightarrow> string" where
  "grantLabel g = grantRes g @ NUL @ grantAct g"

definition sortedGrants :: "AuthServiceGrant list \<Rightarrow> AuthServiceGrant list" where
  "sortedGrants grants = sortSlice (\<lambda>l r. grantLabel l < grantLabel r) grants"

definition serviceFingerprint :: "string list \<Rightarrow> AuthServiceGrant list \<Rightarrow> string" where
  "serviceFingerprint parts grants = JoinStrings parts NUL @ concat (map (\<lambda>g. NUL @ grantLabel g) grants)"

definition IssueApplicationServiceToken ::
  "authEnv \<Rightarrow> 's AuthDomainService \<Rightarrow> request_ctx \<Rightarrow> string \<Rightarrow> string \<Rightarrow> string \<Rightarrow> string \<Rightarrow> AuthServiceGrant list
   \<Rightarrow> ('s world, string \<times> int \<times> string) op" where
  "IssueApplicationServiceToken e a c workspaceID0 applicationKey0 audience0 credentialID0 grants0 =
     andThen (ctxErr c) (\<lambda>_.
       let workspaceID = TrimSpace workspaceID0; applicationKey = TrimSpace applicationKey0;
           audience = TrimSpace audience0; credentialID = TrimSpace credentialID0; grants = sortedGrants grants0 in
       andThen (check (workspaceID \<noteq> [] \<and> applicationKey \<noteq> [] \<and> audience \<noteq> [] \<and> credentialID \<noteq> [] \<and> grants0 \<noteq> [])
                  (authForbidden e ''identity.application_service_exchange_invalid'')) (\<lambda>_.
       andThen (check (list_all (\<lambda>g. TrimSpace (grantRes g) \<noteq> [] \<and> TrimSpace (grantAct g) \<noteq> []) grants)
                  (authForbidden e ''identity.application_service_grant_invalid'')) (\<lambda>_.
       let revision = hexEncode (ae_SHA256 e (serviceFingerprint [workspaceID, applicationKey, audience, credentialID] grants));
           now = authNow e; expiresAt = now + 5 * minute in
       andThen (randomTokenFor e ''generate application service token identifier'') (\<lambda>jti.
       andThen (signClaims e a (zeroClaims\<lparr>cl_Issuer := as_issuer a, cl_Audience := audience,
                  cl_Subject := ''service:'' @ applicationKey, cl_WorkspaceID := workspaceID,
                  cl_SessionID := ''service:'' @ credentialID, cl_AuthorizationRevision := revision,
                  cl_AuthenticationTime := unixOf now, cl_AuthenticationMethods := [''application_credential''],
                  cl_AssuranceLevel := ''urn:domainry:acr:service'', cl_IssuedAt := unixOf now,
                  cl_ExpiresAt := unixOf expiresAt, cl_JTI := jti, cl_ServiceApplicationKey := applicationKey,
                  cl_ServiceCredentialID := credentialID, cl_ServiceGrants := grants\<rparr>)) (\<lambda>token.
       ret (token, expiresAt, revision))))))"

definition VerifyApplicationServiceToken ::
  "authEnv \<Rightarrow> 's AuthDomainService \<Rightarrow> request_ctx \<Rightarrow> string \<Rightarrow> string \<Rightarrow> string \<Rightarrow> string \<Rightarrow> ('s world, AuthClaims) op" where
  "VerifyApplicationServiceToken e a c token audience resource action =
     andThen (VerifySignedAccessToken e a c token) (\<lambda>claims.
     andThen (check (cl_Audience claims = TrimSpace audience \<and> cl_ServiceApplicationKey claims \<noteq> []
                \<and> cl_ServiceCredentialID claims \<noteq> [] \<and> cl_Subject claims = ''service:'' @ cl_ServiceApplicationKey claims)
                (authForbidden e ''identity.application_service_token_invalid'')) (\<lambda>_.
     if list_ex (\<lambda>g. grantRes g = TrimSpace resource \<and> grantAct g = TrimSpace action) (cl_ServiceGrants claims)
     then ret claims else raise (authForbidden e ''identity.application_service_grant_denied'')))"

subsection \<open>Action assurance receipts\<close>

definition actionAssuranceAudience :: string where
  "actionAssuranceAudience = ''domainry-action-assurance''"

definition IssueActionAssuranceReceipt ::
  "authEnv \<Rightarrow> 's AuthDomainService \<Rightarrow> request_ctx \<Rightarrow> AuthProviderChallenge \<Rightarrow> ('s world, AuthActionAssuranceReceipt) op" where
  "IssueActionAssuranceReceipt e a c challenge =
     andThen (ctxErr c) (\<lambda>_.
     andThen (check (TrimSpace (ch_WorkspaceID challenge) \<noteq> [] \<and> TrimSpace (ch_UserID challenge) \<noteq> []
                \<and> TrimSpace (ch_State challenge) \<noteq> [] \<and> ch_Purpose challenge = AuthChallengePurposeAction
                \<and> ch_Status challenge = AuthChallengeStatusConsumed)
                (authForbidden e ''auth.action_assurance_challenge_invalid'')) (\<lambda>_.
     let now = authNow e; expiresAt = now + 2 * minute in
     andThen (signClaims e a (zeroClaims\<lparr>cl_Audience := actionAssuranceAudience, cl_Subject := ch_UserID challenge,
                cl_WorkspaceID := ch_WorkspaceID challenge, cl_SessionID := ch_State challenge,
                cl_AuthenticationTime := unixOf now, cl_AuthenticationMethods := [''otp''],
                cl_AssuranceLevel := ''urn:domainry:acr:2'', cl_IssuedAt := unixOf now,
                cl_ExpiresAt := unixOf expiresAt, cl_TokenPurpose := AuthChallengePurposeAction\<rparr>)) (\<lambda>token.
     ret \<lparr>aar_Token = token, aar_WorkspaceID = ch_WorkspaceID challenge, aar_UserID = ch_UserID challenge,
          aar_Methods = [''otp''], aar_ExpiresAt = formatInstant expiresAt\<rparr>)))"

definition ValidateActionAssuranceReceipt ::
  "authEnv \<Rightarrow> 's AuthDomainService \<Rightarrow> request_ctx \<Rightarrow> string \<Rightarrow> string \<Rightarrow> string \<Rightarrow> ('s world, AuthActionAssuranceReceipt) op" where
  "ValidateActionAssuranceReceipt e a c token workspaceID userID =
     andThen (VerifySignedAccessToken e a c token) (\<lambda>claims.
     andThen (check (cl_TokenPurpose claims = AuthChallengePurposeAction \<and> cl_Audience claims = actionAssuranceAudience
                \<and> cl_WorkspaceID claims = TrimSpace workspaceID \<and> cl_Subject claims = TrimSpace userID
                \<and> cl_AssuranceLevel claims = ''urn:domainry:acr:2'' \<and> authMethodPresent (cl_AuthenticationMethods claims) ''otp'')
                (authForbidden e ''auth.action_assurance_receipt_invalid'')) (\<lambda>_.
     ret \<lparr>aar_Token = token, aar_WorkspaceID = cl_WorkspaceID claims, aar_UserID = cl_Subject claims,
          aar_Methods = cl_AuthenticationMethods claims, aar_ExpiresAt = formatInstant (cl_ExpiresAt claims * second)\<rparr>))"

subsection \<open>Published keys\<close>

record JSONWebKey =
  jwk_KeyType :: string
  jwk_Use :: string
  jwk_Algorithm :: string
  jwk_KeyID :: string
  jwk_Curve :: string
  jwk_X :: string

definition JSONWebKeySet :: "'s AuthDomainService \<Rightarrow> JSONWebKey list" where
  "JSONWebKeySet a = sortSlice (\<lambda>i j. jwk_KeyID i < jwk_KeyID j)
     (map (\<lambda>(kid, k). \<lparr>jwk_KeyType = ''OKP'', jwk_Use = ''sig'', jwk_Algorithm = ''EdDSA'', jwk_KeyID = kid,
        jwk_Curve = ''Ed25519'', jwk_X = base64Encode k\<rparr>) (as_verificationKeys a))"

record OpenIDConfiguration =
  oid_Issuer :: string
  oid_JWKSURI :: string
  oid_AuthorizationEndpoint :: string
  oid_TokenEndpoint :: string
  oid_ResponseTypesSupported :: "string list"
  oid_SubjectTypesSupported :: "string list"
  oid_IDTokenSigningAlgValuesSupported :: "string list"

definition openIDConfiguration :: "'s AuthDomainService \<Rightarrow> OpenIDConfiguration" where
  "openIDConfiguration a =
     (let issuer = TrimRightSlash (as_issuer a) in
      \<lparr>oid_Issuer = issuer, oid_JWKSURI = issuer @ ''/.well-known/jwks.json'',
       oid_AuthorizationEndpoint = issuer @ ''/oauth2/authorize'', oid_TokenEndpoint = issuer @ ''/oauth2/token'',
       oid_ResponseTypesSupported = [''code''], oid_SubjectTypesSupported = [''public''],
       oid_IDTokenSigningAlgValuesSupported = [''EdDSA'']\<rparr>)"

end
