(* ===== verification/AuthSessions.thy ===== *)
theory AuthSessions
  imports AuthTokens
begin

section \<open>The authentication domain service: sessions and passwords\<close>

text \<open>
  \<open>auth_session_issuance.go\<close>, \<open>auth_session_projection.go\<close>,
  \<open>auth_session_identity.go\<close>, \<open>auth_password.go\<close>, \<open>auth_refresh_session.go\<close>,
  \<open>auth_authorization_code.go\<close>, \<open>auth_guest_session.go\<close> and \<open>auth_locale.go\<close>.
\<close>

subsection \<open>Projections\<close>

definition authUser :: "'s AuthDomainService \<Rightarrow> IdentityUser \<Rightarrow> AuthUser" where
  "authUser a user =
     (let locale0 = TrimSpace (user_Locale user);
          locale1 = (case as_normalizeLocale a of None \<Rightarrow> locale0 | Some f \<Rightarrow> f locale0)
      in \<lparr>au_ID = user_ID user, au_Name = user_Name user, au_Email = user_Email user,
          au_Locale = (if locale1 \<in> set (as_supportedLocales a) then locale1 else as_defaultLocale a),
          au_Version = (if user_Version user < 1 then 1 else user_Version user), au_Status = user_Status user\<rparr>)"

definition authRoles :: "IdentityRole list \<Rightarrow> AuthRole list" where
  "authRoles roles = map (\<lambda>r. \<lparr>ar_ID = role_ID r, ar_Key = role_Key r, ar_Label = role_Label r\<rparr>) roles"

definition RequiresPasswordChange :: "'s AuthDomainService \<Rightarrow> string \<Rightarrow> string \<Rightarrow> ('s world, bool) op" where
  "RequiresPasswordChange a workspaceID userID =
     andThen (onStore (rp_GetIdentityCredential (as_identityStore a) workspaceID (TrimSpace userID)))
       (\<lambda>credential. ret (case credential of None \<Rightarrow> False | Some cr \<Rightarrow> cred_MustChangePassword cr))"

text \<open>The user of an identifier, which must exist and be active.\<close>

definition activeUser :: "authEnv \<Rightarrow> 's AuthDomainService \<Rightarrow> request_ctx \<Rightarrow> string \<Rightarrow> ('s world, IdentityUser) op" where
  "activeUser e a c userID =
     andThen (onStore (ip_UserByID (as_identity a) c userID)) (\<lambda>user.
       case user of
         Some u \<Rightarrow> if user_Status u = IdentityStatusActive then ret u else raise (authForbidden e ''auth.user_disabled'')
       | None \<Rightarrow> raise (authForbidden e ''auth.user_disabled''))"

subsection \<open>Issuing a session\<close>

definition prepareSession ::
  "authEnv \<Rightarrow> 's AuthDomainService \<Rightarrow> request_ctx \<Rightarrow> string \<Rightarrow> IdentityUser \<Rightarrow> string \<Rightarrow> string \<Rightarrow> AuthenticationContext
   \<Rightarrow> ('s world, AuthSession \<times> AuthRefreshToken) op" where
  "prepareSession e a c workspaceID0 user sessionID0 audience0 authentication0 =
     andThen (liftRes (NewWorkspaceID workspaceID0)) (\<lambda>workspaceID.
     andThen (case ip_ReconcileSystemManagedBusinessRoles (as_identity a) of
                None \<Rightarrow> ret () | Some reconcile \<Rightarrow> onStore (reconcile c (user_ID user))) (\<lambda>_.
     andThen (onStore (ip_ActiveRolesForUser (as_identity a) c (user_ID user))) (\<lambda>roles.
     andThen (onStore (ip_ResolveEffectivePermissions (as_identity a) c (user_ID user))) (\<lambda>permissions.
     andThen (RequiresPasswordChange a workspaceID (user_ID user)) (\<lambda>mustChange.
     let now = authNow e; authentication = normalizeAuthenticationContext authentication0 now;
         expiresAt = now + as_accessTTL a in
     andThen (if sessionID0 = [] then randomTokenFor e ''generate session identifier'' else ret sessionID0) (\<lambda>sessionID.
     andThen (onStore (ip_ResolvePrincipal (as_identity a) c (user_ID user))) (\<lambda>principal.
     let revision = (if prin_AuthorizationRevision principal = [] then ''bootstrap-'' @ user_ID user
                     else prin_AuthorizationRevision principal);
         audience = (if TrimSpace audience0 = [] then as_audience a else TrimSpace audience0) in
     andThen (randomTokenFor e ''generate access token identifier'') (\<lambda>jti.
     let claims = zeroClaims\<lparr>cl_Issuer := as_issuer a, cl_Audience := audience, cl_Subject := user_ID user,
                    cl_WorkspaceID := workspaceID, cl_SessionID := sessionID, cl_AuthorizationRevision := revision,
                    cl_AuthenticationTime := actx_AuthenticationTime authentication,
                    cl_AuthenticationMethods := actx_Methods authentication,
                    cl_AssuranceLevel := actx_AssuranceLevel authentication,
                    cl_IssuedAt := unixOf now, cl_ExpiresAt := unixOf expiresAt, cl_JTI := jti\<rparr> in
     andThen (signClaims e a claims) (\<lambda>accessToken.
     andThen (randomTokenFor e ''generate refresh token'') (\<lambda>refreshToken.
     andThen (randomTokenFor e ''generate refresh token identifier'') (\<lambda>refreshID.
     ret (\<lparr>ses_SessionID = sessionID, ses_WorkspaceID = workspaceID, ses_AccessToken = accessToken,
           ses_RefreshToken = refreshToken, ses_TokenType = ''Bearer'', ses_ExpiresAt = formatInstant expiresAt,
           ses_User = authUser a user, ses_Roles = authRoles roles, ses_DefaultRole = SelectDefaultRole roles,
           ses_Permissions = permissions, ses_MustChangePassword = mustChange,
           ses_AuthenticationTime = cl_AuthenticationTime claims,
           ses_AuthenticationMethods = cl_AuthenticationMethods claims, ses_AssuranceLevel = cl_AssuranceLevel claims\<rparr>,
          \<lparr>tok_ID = ''refresh_'' @ refreshID, tok_UserID = user_ID user, tok_SessionID = sessionID,
           tok_Audience = audience, tok_AuthenticationTime = actx_AuthenticationTime authentication,
           tok_AuthenticationMethods = actx_Methods authentication,
           tok_AssuranceLevel = actx_AssuranceLevel authentication,
           tok_TokenHash = hashRefreshToken e refreshToken,
           tok_ExpiresAt = formatInstant (now + as_refreshTTL a), tok_RevokedAt = [], tok_ReplacedByID = [],
           tok_CreatedAt = formatInstant now, tok_LastUsedAt = []\<rparr>))))))))))))"

definition issueSession ::
  "authEnv \<Rightarrow> 's AuthDomainService \<Rightarrow> request_ctx \<Rightarrow> string \<Rightarrow> IdentityUser \<Rightarrow> string \<Rightarrow> string \<Rightarrow> AuthenticationContext
   \<Rightarrow> ('s world, AuthSession) op" where
  "issueSession e a c workspaceID user sessionID audience authentication =
     andThen (prepareSession e a c workspaceID user sessionID audience authentication) (\<lambda>(session, refreshRecord).
     andThen (onStore (rp_CreateAuthRefreshToken (as_identityStore a) workspaceID refreshRecord)) (\<lambda>_.
     ret session))"

definition issueSessionForAudienceWithAuthentication ::
  "authEnv \<Rightarrow> 's AuthDomainService \<Rightarrow> request_ctx \<Rightarrow> string \<Rightarrow> IdentityUser \<Rightarrow> string \<Rightarrow> AuthenticationContext
   \<Rightarrow> ('s world, AuthSession) op" where
  "issueSessionForAudienceWithAuthentication e a c workspaceID user audience authentication =
     issueSession e a c workspaceID user [] audience authentication"

definition IssueSessionForUserAndAudience ::
  "authEnv \<Rightarrow> 's AuthDomainService \<Rightarrow> request_ctx \<Rightarrow> string \<Rightarrow> string \<Rightarrow> string \<Rightarrow> ('s world, AuthSession) op" where
  "IssueSessionForUserAndAudience e a c workspaceID userID audience =
     andThen (activeUser e a c userID) (\<lambda>user.
       issueSessionForAudienceWithAuthentication e a c workspaceID user audience passwordAuthenticationContext)"

definition IssueSessionForUser ::
  "authEnv \<Rightarrow> 's AuthDomainService \<Rightarrow> request_ctx \<Rightarrow> string \<Rightarrow> string \<Rightarrow> ('s world, AuthSession) op" where
  "IssueSessionForUser e a c workspaceID userID = IssueSessionForUserAndAudience e a c workspaceID userID (as_audience a)"

text \<open>The short forms: no session to continue, the default audience, the password context.\<close>

definition issueSessionForUserWithPassword ::
  "authEnv \<Rightarrow> 's AuthDomainService \<Rightarrow> request_ctx \<Rightarrow> string \<Rightarrow> IdentityUser \<Rightarrow> ('s world, AuthSession) op" where
  "issueSessionForUserWithPassword e a c workspaceID user =
     issueSessionForAudienceWithAuthentication e a c workspaceID user (as_audience a) passwordAuthenticationContext"

subsection \<open>Passwords\<close>

definition validatePassword :: "authEnv \<Rightarrow> 's AuthDomainService \<Rightarrow> string \<Rightarrow> unit res" where
  "validatePassword e a password = AuthValidatePassword (ae_Unicode e) (as_passwordPolicy a) password"

text \<open>Each call of bcrypt draws a fresh salt.\<close>

definition hashPassword :: "authEnv \<Rightarrow> string \<Rightarrow> ('s world, string) op" where
  "hashPassword e password = (\<lambda>w. (ae_BcryptGenerate e password (w_random w), w\<lparr>w_random := Suc (w_random w)\<rparr>))"

definition zeroedCredential :: IdentityCredential where
  "zeroedCredential = \<lparr>cred_UserID = [], cred_PasswordHash = [], cred_PasswordUpdatedAt = [],
     cred_FailedLoginCount = 0, cred_LockedUntil = [], cred_LastLoginAt = [], cred_MustChangePassword = False\<rparr>"

definition setPassword ::
  "authEnv \<Rightarrow> 's AuthDomainService \<Rightarrow> string \<Rightarrow> string \<Rightarrow> string \<Rightarrow> bool \<Rightarrow> ('s world, unit) op" where
  "setPassword e a workspaceID userID password mustChange =
     andThen (liftRes (validatePassword e a password)) (\<lambda>_.
     andThen (hashPassword e password) (\<lambda>hash.
     andThen (onStore (rp_GetIdentityCredential (as_identityStore a) workspaceID userID)) (\<lambda>existing.
     onStore (rp_UpsertIdentityCredential (as_identityStore a) workspaceID
       ((case existing of None \<Rightarrow> zeroedCredential | Some cr \<Rightarrow> cr)
          \<lparr>cred_UserID := userID, cred_PasswordHash := hash, cred_PasswordUpdatedAt := stampAfter e 0,
           cred_FailedLoginCount := 0, cred_LockedUntil := [], cred_MustChangePassword := mustChange\<rparr>)))))"

definition generateInitialPassword :: "authEnv \<Rightarrow> ('s world, string) op" where
  "generateInitialPassword e = (\<lambda>w.
     ((case ae_Random e (w_random w) 18 of
         Inl err \<Rightarrow> Inl (Errorf ''generate initial credential: %w'' [])
       | Inr raw \<Rightarrow> if length raw \<noteq> 18
           then Inl (Errorf ''generate initial credential: short secure random read: %d/%d'' [decimal (length raw), decimal 18])
           else Inr (''Vd!9'' @ base64Encode raw)), w\<lparr>w_random := Suc (w_random w)\<rparr>))"

definition IssueInitialPassword ::
  "authEnv \<Rightarrow> 's AuthDomainService \<Rightarrow> string \<Rightarrow> string \<Rightarrow> ('s world, string) op" where
  "IssueInitialPassword e a workspaceID userID0 =
     (let userID = TrimSpace userID0 in
      andThen (check (userID \<noteq> []) (authBadRequest e ''auth.user_required'')) (\<lambda>_.
      andThen (generateInitialPassword e) (\<lambda>password.
      andThen (setPassword e a workspaceID userID password True) (\<lambda>_. ret password))))"

definition ensureSeedCredential :: "authEnv \<Rightarrow> 's AuthDomainService \<Rightarrow> string \<Rightarrow> string \<Rightarrow> ('s world, unit) op" where
  "ensureSeedCredential e a workspaceID userID =
     andThen (onStore (rp_GetIdentityCredential (as_identityStore a) workspaceID userID)) (\<lambda>existing.
       case existing of
         Some _ \<Rightarrow> ret ()
       | None \<Rightarrow> setPassword e a workspaceID userID (as_defaultPassword a) True)"

definition EnsureBootstrapCredential ::
  "authEnv \<Rightarrow> 's AuthDomainService \<Rightarrow> request_ctx \<Rightarrow> string \<Rightarrow> ('s world, unit) op" where
  "EnsureBootstrapCredential e a c workspaceID =
     andThen (onStore (ip_UserByID (as_identity a) c ''admin'')) (\<lambda>user.
       case user of None \<Rightarrow> ret () | Some u \<Rightarrow> ensureSeedCredential e a workspaceID (user_ID u))"

definition EnsureCredentialsForUsers ::
  "authEnv \<Rightarrow> 's AuthDomainService \<Rightarrow> string \<Rightarrow> IdentityUser list \<Rightarrow> ('s world, unit) op" where
  "EnsureCredentialsForUsers e a workspaceID users =
     forEach (\<lambda>u. if TrimSpace (user_ID u) = [] \<or> user_Status u = IdentityStatusDisabled then ret ()
                  else ensureSeedCredential e a workspaceID (TrimSpace (user_ID u))) users"

definition credentialLocked :: "IdentityCredential \<Rightarrow> int \<Rightarrow> bool" where
  "credentialLocked cr now =
     (let until = TrimSpace (cred_LockedUntil cr) in
      if until = [] then False
      else (case parseRFC3339 until of None \<Rightarrow> False | Some t \<Rightarrow> now < t))"

definition liftExpiredLock :: "'s AuthDomainService \<Rightarrow> string \<Rightarrow> IdentityCredential \<Rightarrow> ('s world, IdentityCredential) op" where
  "liftExpiredLock a workspaceID cr =
     (if TrimSpace (cred_LockedUntil cr) = [] then ret cr
      else (let lifted = cr\<lparr>cred_FailedLoginCount := 0, cred_LockedUntil := []\<rparr> in
        andThen (onStore (rp_UpsertIdentityCredential (as_identityStore a) workspaceID lifted)) (\<lambda>_. ret lifted)))"

text \<open>
  With a store that counts failures atomically, the store decides about the lock;
  otherwise the service reads, counts and writes back.
\<close>

definition recordLoginFailure :: "authEnv \<Rightarrow> 's AuthDomainService \<Rightarrow> string \<Rightarrow> IdentityCredential \<Rightarrow> ('s world, unit) op" where
  "recordLoginFailure e a workspaceID cr =
     (let lockedUntil = stampAfter e (as_loginLockDuration a) in
      case rp_RecordIdentityLoginFailure (as_identityStore a) of
        Some record \<Rightarrow> onStore (record workspaceID (cred_UserID cr) (as_maxLoginFailures a)
            (if 0 < as_maxLoginFailures a then lockedUntil else []) (stampAfter e 0))
      | None \<Rightarrow>
         (let counted = cr\<lparr>cred_FailedLoginCount := cred_FailedLoginCount cr + 1\<rparr>;
              locked = (if 0 < as_maxLoginFailures a \<and> as_maxLoginFailures a \<le> cred_FailedLoginCount counted
                        then counted\<lparr>cred_LockedUntil := lockedUntil\<rparr> else counted)
          in onStore (rp_UpsertIdentityCredential (as_identityStore a) workspaceID locked)))"

text \<open>The password check shared by login, password change and the management of a second factor.\<close>

definition comparePassword ::
  "authEnv \<Rightarrow> 's AuthDomainService \<Rightarrow> string \<Rightarrow> IdentityCredential \<Rightarrow> string \<Rightarrow> ('s world, unit) op" where
  "comparePassword e a workspaceID cr0 password =
     andThen (check (\<not> credentialLocked cr0 (authNow e)) (authForbidden e ''auth.account_locked'')) (\<lambda>_.
     andThen (liftExpiredLock a workspaceID cr0) (\<lambda>cr.
     if ae_BcryptMatches e (cred_PasswordHash cr) password then ret ()
     else andThen (recordLoginFailure e a workspaceID cr) (\<lambda>_. raise (authForbidden e ''auth.invalid_credentials''))))"

definition credentialOf :: "authEnv \<Rightarrow> 's AuthDomainService \<Rightarrow> string \<Rightarrow> string \<Rightarrow> ('s world, IdentityCredential) op" where
  "credentialOf e a workspaceID userID =
     andThen (onStore (rp_GetIdentityCredential (as_identityStore a) workspaceID userID)) (\<lambda>credential.
       case credential of None \<Rightarrow> raise (authForbidden e ''auth.invalid_credentials'') | Some cr \<Rightarrow> ret cr)"

definition AuthenticatePassword ::
  "authEnv \<Rightarrow> 's AuthDomainService \<Rightarrow> request_ctx \<Rightarrow> string \<Rightarrow> string \<Rightarrow> string \<Rightarrow> ('s world, IdentityUser) op" where
  "AuthenticatePassword e a c workspaceID login password =
     andThen (onStore (ip_UserByLogin (as_identity a) c login)) (\<lambda>found.
     case found of
       None \<Rightarrow> raise (authForbidden e ''auth.invalid_credentials'')
     | Some user \<Rightarrow>
        andThen (check (user_Status user = IdentityStatusActive) (authForbidden e ''auth.invalid_credentials'')) (\<lambda>_.
        andThen (credentialOf e a workspaceID (user_ID user)) (\<lambda>cr.
        andThen (comparePassword e a workspaceID cr password) (\<lambda>_.
        andThen (onStore (rp_RecordIdentityLoginSuccess (as_identityStore a) workspaceID (user_ID user) (stampAfter e 0))) (\<lambda>_.
        ret user)))))"

definition LoginForApplication ::
  "authEnv \<Rightarrow> 's AuthDomainService \<Rightarrow> request_ctx \<Rightarrow> string \<Rightarrow> string \<Rightarrow> string \<Rightarrow> string \<Rightarrow> ('s world, AuthSession) op" where
  "LoginForApplication e a c workspaceID login password applicationKey =
     andThen (AuthenticatePassword e a c workspaceID login password) (\<lambda>user.
       issueSessionForAudienceWithAuthentication e a c workspaceID user applicationKey passwordAuthenticationContext)"

definition Login ::
  "authEnv \<Rightarrow> 's AuthDomainService \<Rightarrow> request_ctx \<Rightarrow> string \<Rightarrow> string \<Rightarrow> string \<Rightarrow> ('s world, AuthSession) op" where
  "Login e a c workspaceID login password = LoginForApplication e a c workspaceID login password (as_audience a)"

definition ChangePassword ::
  "authEnv \<Rightarrow> 's AuthDomainService \<Rightarrow> string \<Rightarrow> string \<Rightarrow> string \<Rightarrow> string \<Rightarrow> ('s world, unit) op" where
  "ChangePassword e a workspaceID userID0 currentPassword0 newPassword0 =
     (let userID = TrimSpace userID0; currentPassword = TrimSpace currentPassword0; newPassword = TrimSpace newPassword0 in
      andThen (check (userID \<noteq> []) (authForbidden e ''auth.token_required'')) (\<lambda>_.
      andThen (check (currentPassword \<noteq> [] \<and> newPassword \<noteq> []) (authBadRequest e ''auth.password_required'')) (\<lambda>_.
      andThen (liftRes (validatePassword e a newPassword)) (\<lambda>_.
      andThen (credentialOf e a workspaceID userID) (\<lambda>cr.
      andThen (comparePassword e a workspaceID cr currentPassword) (\<lambda>_.
      setPassword e a workspaceID userID newPassword False))))))"

definition ResetPassword ::
  "authEnv \<Rightarrow> 's AuthDomainService \<Rightarrow> request_ctx \<Rightarrow> string \<Rightarrow> string \<Rightarrow> string \<Rightarrow> bool \<Rightarrow> ('s world, unit) op" where
  "ResetPassword e a c workspaceID userID0 newPassword0 mustChange =
     (let userID = TrimSpace userID0; newPassword = TrimSpace newPassword0 in
      andThen (check (userID \<noteq> []) (authBadRequest e ''auth.user_required'')) (\<lambda>_.
      andThen (check (newPassword \<noteq> []) (authBadRequest e ''auth.password_required'')) (\<lambda>_.
      andThen (liftRes (validatePassword e a newPassword)) (\<lambda>_.
      andThen (activeUser e a c userID) (\<lambda>_.
      setPassword e a workspaceID userID newPassword mustChange)))))"

definition ResetPasswordWithinDataScope ::
  "authEnv \<Rightarrow> 's AuthDomainService \<Rightarrow> string \<Rightarrow> string \<Rightarrow> string \<Rightarrow> bool \<Rightarrow> IdentityDataScopeFilter \<Rightarrow> ('s world, unit) op" where
  "ResetPasswordWithinDataScope e a workspaceID userID0 newPassword0 mustChange scope =
     (let userID = TrimSpace userID0; newPassword = TrimSpace newPassword0 in
      andThen (check (userID \<noteq> []) (authBadRequest e ''auth.user_required'')) (\<lambda>_.
      andThen (check (newPassword \<noteq> []) (authBadRequest e ''auth.password_required'')) (\<lambda>_.
      andThen (liftRes (validatePassword e a newPassword)) (\<lambda>_.
      (case rp_ResetIdentityCredentialWithinDataScope (as_identityStore a) of
         None \<Rightarrow> raise (internalError ''scoped password reset repository unavailable'')
       | Some reset \<Rightarrow>
          andThen (hashPassword e newPassword) (\<lambda>hash.
          andThen (onStore (reset workspaceID userID hash (stampAfter e 0) mustChange scope)) (\<lambda>updated.
          check updated (authForbidden e ''auth.user_disabled''))))))))"

subsection \<open>Refreshing and ending a session\<close>

definition RefreshForApplication ::
  "authEnv \<Rightarrow> 's AuthDomainService \<Rightarrow> request_ctx \<Rightarrow> string \<Rightarrow> string \<Rightarrow> string \<Rightarrow> ('s world, AuthSession) op" where
  "RefreshForApplication e a c workspaceID refreshToken0 applicationKey0 =
     (let refreshToken = TrimSpace refreshToken0; applicationKey = TrimSpace applicationKey0;
          repo = as_identityStore a; expired = authForbidden e ''auth.session_expired'' in
      andThen (check (refreshToken \<noteq> []) expired) (\<lambda>_.
      andThen (onStore (rp_GetAuthRefreshTokenByHash repo workspaceID (hashRefreshToken e refreshToken))) (\<lambda>found.
      case found of
        None \<Rightarrow> raise expired
      | Some session \<Rightarrow>
         andThen (check (\<not> tokenExpired e (tok_ExpiresAt session)) expired) (\<lambda>_.
         andThen (check (applicationKey = [] \<or> TrimSpace (tok_Audience session) = applicationKey)
                    (authForbidden e ''identity.application_mismatch'')) (\<lambda>_.
         if TrimSpace (tok_RevokedAt session) \<noteq> [] then
           (if TrimSpace (tok_ReplacedByID session) \<noteq> [] then
              andThen (dropError (onStore (rp_RevokeAuthRefreshTokensForUser repo workspaceID (tok_UserID session) (stampAfter e 0))))
                (\<lambda>_. raise (authForbidden e ''auth.refresh_token_reused''))
            else raise expired)
         else
           andThen (activeUser e a c (tok_UserID session)) (\<lambda>user.
           andThen (prepareSession e a c workspaceID user (tok_SessionID session) (tok_Audience session)
                      \<lparr>actx_AuthenticationTime = tok_AuthenticationTime session,
                       actx_Methods = tok_AuthenticationMethods session,
                       actx_AssuranceLevel = tok_AssuranceLevel session\<rparr>) (\<lambda>(result, replacement).
           case rp_RotateAuthRefreshToken repo of
             None \<Rightarrow> raise (internalError ''atomic refresh token rotation is unavailable'')
           | Some rotateToken \<Rightarrow>
              andThen (onStore (rotateToken workspaceID (tok_ID session) (stampAfter e 0) replacement)) (\<lambda>rotated.
              if rotated then ret result else raise expired)))))))) "

definition Refresh ::
  "authEnv \<Rightarrow> 's AuthDomainService \<Rightarrow> request_ctx \<Rightarrow> string \<Rightarrow> string \<Rightarrow> ('s world, AuthSession) op" where
  "Refresh e a c workspaceID refreshToken = RefreshForApplication e a c workspaceID refreshToken []"

definition LogoutForApplication ::
  "authEnv \<Rightarrow> 's AuthDomainService \<Rightarrow> string \<Rightarrow> string \<Rightarrow> string \<Rightarrow> ('s world, unit) op" where
  "LogoutForApplication e a workspaceID refreshToken0 applicationKey0 =
     (let refreshToken = TrimSpace refreshToken0; applicationKey = TrimSpace applicationKey0; repo = as_identityStore a in
      if refreshToken = [] then ret ()
      else andThen (onStore (rp_GetAuthRefreshTokenByHash repo workspaceID (hashRefreshToken e refreshToken))) (\<lambda>found.
        case found of
          None \<Rightarrow> ret ()
        | Some session \<Rightarrow>
           andThen (check (applicationKey = [] \<or> TrimSpace (tok_Audience session) = applicationKey)
                      (authForbidden e ''identity.application_mismatch'')) (\<lambda>_.
           case rp_Sessions repo of
             Some sessions \<Rightarrow> andThen (onStore (sr_RevokeAuthSession sessions workspaceID (tok_UserID session)
                                  (tok_SessionID session) (stampAfter e 0))) (\<lambda>_. ret ())
           | None \<Rightarrow> onStore (rp_RevokeAuthRefreshToken repo workspaceID (tok_ID session) (stampAfter e 0) []))))"

definition Logout :: "authEnv \<Rightarrow> 's AuthDomainService \<Rightarrow> string \<Rightarrow> string \<Rightarrow> ('s world, unit) op" where
  "Logout e a workspaceID refreshToken = dropError (LogoutForApplication e a workspaceID refreshToken [])"

subsection \<open>Authorization codes\<close>

definition validAuthorizationRedirectURL :: "authEnv \<Rightarrow> string \<Rightarrow> bool" where
  "validAuthorizationRedirectURL e raw = (case ae_ParseURL e (TrimSpace raw) of
      None \<Rightarrow> False
    | Some u \<Rightarrow> url_Scheme u \<noteq> [] \<and> \<not> url_HasUser u \<and> url_Fragment u = [] \<and>
        (url_Scheme u = ''https'' \<or> url_Scheme u = ''http'' \<and> (url_Hostname u = ''localhost'' \<or> url_Hostname u = ''127.0.0.1'')))"

definition IssueAuthorizationCode ::
  "authEnv \<Rightarrow> 's AuthDomainService \<Rightarrow> string \<Rightarrow> string \<Rightarrow> AuthSession \<Rightarrow> ('s world, string) op" where
  "IssueAuthorizationCode e a applicationKey0 redirectURL0 session =
     (case rp_AuthorizationCodes (as_identityStore a) of
        None \<Rightarrow> raise (internalError ''authorization code store unavailable'')
      | Some repository \<Rightarrow>
         (let applicationKey = TrimSpace applicationKey0; redirectURL = TrimSpace redirectURL0 in
          andThen (check (applicationKey \<noteq> [] \<and> validAuthorizationRedirectURL e redirectURL \<and> TrimSpace (ses_WorkspaceID session) \<noteq> [])
                     (authBadRequest e ''auth.authorization_code_request_invalid'')) (\<lambda>_.
          case rp_AuthorizationRedirectRegistered (as_identityStore a) of
            None \<Rightarrow> raise (internalError ''authorization application store unavailable'')
          | Some isRegistered \<Rightarrow>
             andThen (onStore (isRegistered (ses_WorkspaceID session) applicationKey redirectURL)) (\<lambda>registered.
             andThen (check registered (authForbidden e ''identity.redirect_url_not_registered'')) (\<lambda>_.
             andThen (randomTokenFor e ''generate authorization code'') (\<lambda>first.
             andThen (randomTokenFor e ''generate authorization code'') (\<lambda>snd'.
             andThen (onStore (ac_CreateAuthAuthorizationCode repository
                \<lparr>code_Code = first @ snd', code_WorkspaceID = ses_WorkspaceID session, code_ApplicationKey = applicationKey,
                 code_Session = session, code_RedirectURL = redirectURL, code_ExpiresAt = formatInstantNano (authNow e + minute),
                 code_CreatedAt = formatInstantNano (authNow e)\<rparr>)) (\<lambda>_. ret (first @ snd')))))))))"

definition ExchangeAuthorizationCode ::
  "authEnv \<Rightarrow> 's AuthDomainService \<Rightarrow> string \<Rightarrow> string \<Rightarrow> string \<Rightarrow> string \<Rightarrow> ('s world, AuthSession) op" where
  "ExchangeAuthorizationCode e a workspaceID code applicationKey redirectURL =
     (case rp_AuthorizationCodes (as_identityStore a) of
        None \<Rightarrow> raise (internalError ''authorization code store unavailable'')
      | Some repository \<Rightarrow>
         andThen (check (TrimSpace workspaceID \<noteq> [] \<and> TrimSpace code \<noteq> [] \<and> TrimSpace applicationKey \<noteq> []
                    \<and> validAuthorizationRedirectURL e redirectURL)
                    (authBadRequest e ''auth.authorization_code_request_invalid'')) (\<lambda>_.
         andThen (onStore (ac_ConsumeAuthAuthorizationCode repository workspaceID code applicationKey redirectURL (authNow e))) (\<lambda>consumed.
         case consumed of None \<Rightarrow> raise (authForbidden e ''auth.authorization_code_invalid'') | Some session \<Rightarrow> ret session)))"

subsection \<open>Guests, the current user and the locale\<close>

definition guestUser :: IdentityUser where
  "guestUser = \<lparr>user_ID = ''guest_'' @ guestRoleKey, user_Name = ''Guest '' @ guestRoleKey, user_GivenName = [],
     user_MiddleName = [], user_FamilyName = [], user_NamePrefix = [], user_NameSuffix = [], user_NativeName = [],
     user_NameLocale = [], user_Email = ''guest-'' @ guestRoleKey @ ''@example.com'', user_Phone = [],
     user_AccountType = IdentityAccountHuman, user_Locale = [], user_Timezone = [], user_OrgID = [],
     user_SupportOrgID = [], user_ManagerUserID = [], user_ReportingPath = [], user_WorkerNo = [],
     user_WorkerType = [], user_WorkStatus = [], user_StartDate = [], user_EndDate = [],
     user_Status = IdentityStatusActive, user_Version = 0, user_CreatedAt = [], user_UpdatedAt = []\<rparr>"

definition bareAssignment :: "string \<Rightarrow> string \<Rightarrow> IdentityUserRoleAssignment" where
  "bareAssignment userID roleID = \<lparr>asg_UserID = userID, asg_RoleID = roleID, asg_BindingKey = [], asg_ProfileID = [],
     asg_Source = [], asg_Status = [], asg_ValidFrom = [], asg_ValidUntil = [], asg_GrantedBy = [], asg_GrantReason = [],
     asg_RevokedBy = [], asg_RevokedAt = [], asg_RevokeReason = [], asg_CreatedAt = [], asg_UpdatedAt = [],
     asg_ExpiresAt = None\<rparr>"

definition GuestSession :: "authEnv \<Rightarrow> 's AuthDomainService \<Rightarrow> request_ctx \<Rightarrow> string \<Rightarrow> ('s world, AuthSession) op" where
  "GuestSession e a c workspaceID =
     (let unavailable = authForbidden e ''auth.guest_role_unavailable'' in
      andThen (onStore (ip_ListRoles (as_identity a) c)) (\<lambda>roles.
      case find (\<lambda>r. role_Status r = IdentityStatusActive \<and> role_Key r = guestRoleKey) roles of
        None \<Rightarrow> raise unavailable
      | Some guestRole \<Rightarrow>
         andThen (check (role_ID guestRole \<noteq> [] \<and>
                    (case ip_PublishedRoleDefinition (as_identity a) c guestRoleKey of
                       None \<Rightarrow> False | Some definition' \<Rightarrow> guestAssignableRole definition')) unavailable) (\<lambda>_.
         andThen (onStore (ip_UpsertUser (as_identity a) c guestUser)) (\<lambda>_.
         andThen (onStore (ip_AssignUserRole (as_identity a) c (bareAssignment (user_ID guestUser) (role_ID guestRole)))) (\<lambda>_.
         issueSessionForAudienceWithAuthentication e a c workspaceID guestUser (as_audience a)
           \<lparr>actx_AuthenticationTime = 0, actx_Methods = [''guest''], actx_AssuranceLevel = ''urn:domainry:acr:0''\<rparr>)))))"

definition Me :: "authEnv \<Rightarrow> 's AuthDomainService \<Rightarrow> request_ctx \<Rightarrow> string \<Rightarrow> ('s world, AuthMeResponse) op" where
  "Me e a c accessToken =
     andThen (VerifyAccessToken e a c accessToken) (\<lambda>claims.
     andThen (activeUser e a c (cl_Subject claims)) (\<lambda>user.
     andThen (onStore (ip_ActiveRolesForUser (as_identity a) c (user_ID user))) (\<lambda>roles.
     andThen (onStore (ip_ResolveEffectivePermissions (as_identity a) c (user_ID user))) (\<lambda>permissions.
     andThen (RequiresPasswordChange a (cl_WorkspaceID claims) (user_ID user)) (\<lambda>mustChange.
     ret \<lparr>me_User = authUser a user, me_Roles = authRoles roles, me_DefaultRole = SelectDefaultRole roles,
          me_Permissions = permissions, me_MustChangePassword = mustChange\<rparr>)))))"

definition PrincipalFromBearer ::
  "authEnv \<Rightarrow> 's AuthDomainService \<Rightarrow> request_ctx \<Rightarrow> string \<Rightarrow> ('s world, Principal) op" where
  "PrincipalFromBearer e a c authorization =
     (let token = AuthBearerToken authorization in
      andThen (check (token \<noteq> []) (authForbidden e ''auth.token_required'')) (\<lambda>_.
      andThen (VerifyAccessToken e a c token) (\<lambda>claims.
      case NewWorkspaceID (cl_WorkspaceID claims) of
        Inl _ \<Rightarrow> raise (authForbidden e ''auth.workspace_scope_required'')
      | Inr workspaceID \<Rightarrow>
         andThen (onStore (ip_ResolvePrincipal (as_identity a) (WithWorkspaceID c workspaceID) (cl_Subject claims))) (\<lambda>principal.
         ret (principal\<lparr>prin_WorkspaceID := workspaceID\<rparr>)))))"

definition authUpdateUserLocale ::
  "'s AuthDomainService \<Rightarrow> request_ctx \<Rightarrow> string \<Rightarrow> string \<Rightarrow> string \<Rightarrow> int \<Rightarrow> ('s world, IdentityUser) op" where
  "authUpdateUserLocale a c workspaceID userID locale expectedVersion =
     (case ip_UpdateUserLocale (as_identity a) of
        None \<Rightarrow> raise (internalError ''update current user locale'')
      | Some update \<Rightarrow> onStore (update c workspaceID userID locale expectedVersion))"

end
