(* ===== verification/AuthChallenges.thy ===== *)
theory AuthChallenges
  imports AuthSessions
begin

section \<open>The authentication domain service: login challenges\<close>

text \<open>
  \<open>auth_provider_urls.go\<close>, \<open>auth_provider_challenges.go\<close> and
  \<open>auth_totp.go\<close>: one-time states for provider logins and one-time codes.  With a
  durable store the store keeps the challenges; without one the service keeps them in its
  map under a lock, so each operation is one step.
\<close>

subsection \<open>Provider URLs\<close>

definition setQuery :: "string \<Rightarrow> string \<Rightarrow> url \<Rightarrow> url" where
  "setQuery k v u = u\<lparr>url_Query := AList.update k [v] (url_Query u)\<rparr>"

definition delQuery :: "string \<Rightarrow> url \<Rightarrow> url" where
  "delQuery k u = u\<lparr>url_Query := AList.delete k (url_Query u)\<rparr>"

definition setQueryUnlessBlank :: "string \<Rightarrow> string \<Rightarrow> url \<Rightarrow> url" where
  "setQueryUnlessBlank k v u = (if TrimSpace v = [] then u else setQuery k (TrimSpace v) u)"

definition buildProviderAuthURL ::
  "authEnv \<Rightarrow> string \<Rightarrow> string \<Rightarrow> string \<Rightarrow> string \<Rightarrow> string \<Rightarrow> string \<Rightarrow> string \<Rightarrow> string" where
  "buildProviderAuthURL e authURL clientID redirectURL scope state nonce codeChallenge =
     (if TrimSpace authURL = [] then []
      else (case ae_ParseURL e (TrimSpace authURL) of
          None \<Rightarrow> []
        | Some u0 \<Rightarrow>
           (let u1 = setQuery ''state'' (TrimSpace state) (setQuery ''redirect_uri'' (TrimSpace redirectURL)
                       (setQuery ''client_id'' (TrimSpace clientID) (setQuery ''response_type'' ''code'' u0)));
                u2 = setQueryUnlessBlank ''nonce'' nonce (setQueryUnlessBlank ''scope'' scope u1);
                u3 = (if TrimSpace codeChallenge = [] then u2
                      else setQuery ''code_challenge_method'' ''S256'' (setQuery ''code_challenge'' (TrimSpace codeChallenge) u2))
            in ae_PrintURL e u3)))"

definition samlRequest :: "string \<Rightarrow> string \<Rightarrow> string \<Rightarrow> string" where
  "samlRequest identifier acsURL entityID =
     ''<samlp:AuthnRequest xmlns:samlp=\"urn:oasis:names:tc:SAML:2.0:protocol\" ID=\"'' @ identifier
     @ ''\" Version=\"2.0\" AssertionConsumerServiceURL=\"'' @ TrimSpace acsURL
     @ ''\"><saml:Issuer xmlns:saml=\"urn:oasis:names:tc:SAML:2.0:assertion\">'' @ TrimSpace entityID
     @ ''</saml:Issuer></samlp:AuthnRequest>''"

text \<open>\<open>base64.StdEncoding\<close>: the other alphabet, padded to a multiple of four characters.\<close>

definition base64StdEncode :: "string \<Rightarrow> string" where
  "base64StdEncode s =
     (let body = map (\<lambda>c. if c = CHR ''-'' then CHR ''+'' else if c = CHR ''_'' then CHR ''/'' else c) (base64Encode s) in
      body @ replicate ((4 - length body mod 4) mod 4) CHR ''='')"

definition buildSAMLProviderAuthURL ::
  "authEnv \<Rightarrow> string \<Rightarrow> string \<Rightarrow> string \<Rightarrow> string \<Rightarrow> string \<Rightarrow> string" where
  "buildSAMLProviderAuthURL e ssoURL entityID acsURL relayState requestID =
     (if TrimSpace ssoURL = [] then []
      else (case ae_ParseURL e (TrimSpace ssoURL) of
          None \<Rightarrow> []
        | Some u0 \<Rightarrow>
           (let identifier = (if TrimSpace requestID = [] then ''_'' @ TrimSpace relayState else TrimSpace requestID) in
            ae_PrintURL e (setQuery ''SAMLRequest'' (base64StdEncode (samlRequest identifier acsURL entityID))
                            (setQuery ''RelayState'' (TrimSpace relayState) u0)))))"

subsection \<open>The service's own challenge map\<close>

definition putChallenge :: "string \<Rightarrow> AuthProviderChallenge \<Rightarrow> ('s world, unit) op" where
  "putChallenge state ch = (\<lambda>w. (Inr (), w\<lparr>w_challenges := AList.update state ch (w_challenges w)\<rparr>))"

definition dropChallenge :: "string \<Rightarrow> ('s world, unit) op" where
  "dropChallenge state = (\<lambda>w. (Inr (), w\<lparr>w_challenges := AList.delete state (w_challenges w)\<rparr>))"

definition lookChallenge :: "string \<Rightarrow> ('s world, AuthProviderChallenge option) op" where
  "lookChallenge state = (\<lambda>w. (Inr (map_of (w_challenges w) state), w))"

definition storeChallenge :: "'s AuthDomainService \<Rightarrow> AuthProviderChallenge \<Rightarrow> ('s world, unit) op" where
  "storeChallenge a ch = (case rp_LoginTransactions (as_identityStore a) of
      Some transactions \<Rightarrow> onStore (lt_CreateAuthLoginTransaction transactions ch)
    | None \<Rightarrow> putChallenge (ch_State ch) ch)"

definition startResponse :: "AuthProviderChallenge \<Rightarrow> AuthProviderStartResponse" where
  "startResponse ch = \<lparr>psr_Provider = ch_Provider ch, psr_State = ch_State ch, psr_Type = ch_Type ch,
     psr_Purpose = ch_Purpose ch, psr_Status = ch_Status ch, psr_Nonce = [], psr_Code = [], psr_AuthURL = [],
     psr_MaskedDestination = [], psr_RetryAt = [], psr_ExpiresAt = ch_ExpiresAt ch\<rparr>"

subsection \<open>Starting a login with a provider\<close>

definition loginProvider :: "authEnv \<Rightarrow> request_ctx \<Rightarrow> string \<Rightarrow> string \<Rightarrow> ('s world, string \<times> string) op" where
  "loginProvider e c workspaceID0 provider0 =
     andThen (ctxErr c) (\<lambda>_.
     let provider = normalizeProvider provider0 in
     andThen (liftRes (NewWorkspaceID workspaceID0)) (\<lambda>workspaceID.
     andThen (check (provider \<noteq> [] \<and> provider \<noteq> ''local'') (authBadRequest e ''auth.provider_invalid'')) (\<lambda>_.
     ret (workspaceID, provider))))"

definition BeginProviderLoginForApplication ::
  "authEnv \<Rightarrow> 's AuthDomainService \<Rightarrow> request_ctx \<Rightarrow> string \<Rightarrow> string \<Rightarrow> string \<Rightarrow> string \<Rightarrow> string \<Rightarrow> string \<Rightarrow> string \<Rightarrow> string
   \<Rightarrow> ('s world, AuthProviderStartResponse) op" where
  "BeginProviderLoginForApplication e a c workspaceID0 provider0 authURL clientID redirectURL scope applicationKey returnURL =
     andThen (loginProvider e c workspaceID0 provider0) (\<lambda>(workspaceID, provider).
     andThen (randomTokenFor e ''generate provider state'') (\<lambda>state.
     andThen (randomTokenFor e ''generate provider nonce'') (\<lambda>nonce.
     andThen (randomTokenFor e ''generate PKCE verifier'') (\<lambda>verifierFirst.
     andThen (randomTokenFor e ''generate PKCE verifier'') (\<lambda>verifierSecond.
     let codeVerifier = verifierFirst @ verifierSecond;
         codeChallenge = base64Encode (ae_SHA256 e codeVerifier);
         ch = zeroChallenge\<lparr>ch_WorkspaceID := workspaceID, ch_ApplicationKey := TrimSpace applicationKey,
                ch_Provider := provider, ch_RedirectURL := TrimSpace redirectURL, ch_State := state, ch_Nonce := nonce,
                ch_CodeVerifier := codeVerifier, ch_ReturnURL := TrimSpace returnURL,
                ch_ExpiresAt := stampAfter e (10 * minute), ch_CreatedAt := stampAfter e 0\<rparr> in
     andThen (storeChallenge a ch) (\<lambda>_.
     ret ((startResponse ch)\<lparr>psr_Nonce := nonce,
            psr_AuthURL := buildProviderAuthURL e authURL clientID redirectURL scope state nonce codeChallenge\<rparr>)))))))"

definition BeginSAMLLoginForApplication ::
  "authEnv \<Rightarrow> 's AuthDomainService \<Rightarrow> request_ctx \<Rightarrow> string \<Rightarrow> string \<Rightarrow> string \<Rightarrow> string \<Rightarrow> string \<Rightarrow> string \<Rightarrow> string
   \<Rightarrow> ('s world, AuthProviderStartResponse) op" where
  "BeginSAMLLoginForApplication e a c workspaceID0 provider0 ssoURL entityID acsURL applicationKey returnURL =
     andThen (loginProvider e c workspaceID0 provider0) (\<lambda>(workspaceID, provider).
     andThen (randomTokenFor e ''generate provider state'') (\<lambda>state.
     andThen (randomTokenFor e ''generate SAML request identifier'') (\<lambda>requestID.
     let ch = zeroChallenge\<lparr>ch_WorkspaceID := workspaceID, ch_ApplicationKey := TrimSpace applicationKey,
                ch_Provider := provider, ch_RedirectURL := TrimSpace acsURL, ch_State := state,
                ch_RequestID := ''_'' @ requestID, ch_ReturnURL := TrimSpace returnURL,
                ch_ExpiresAt := stampAfter e (10 * minute), ch_CreatedAt := stampAfter e 0\<rparr> in
     andThen (storeChallenge a ch) (\<lambda>_.
     ret ((startResponse ch)\<lparr>psr_AuthURL := buildSAMLProviderAuthURL e ssoURL entityID acsURL state (ch_RequestID ch)\<rparr>)))))"

definition BeginProviderLogin ::
  "authEnv \<Rightarrow> 's AuthDomainService \<Rightarrow> request_ctx \<Rightarrow> string \<Rightarrow> string \<Rightarrow> string \<Rightarrow> string \<Rightarrow> string \<Rightarrow> string
   \<Rightarrow> ('s world, AuthProviderStartResponse) op" where
  "BeginProviderLogin e a c workspaceID provider authURL clientID redirectURL scope =
     BeginProviderLoginForApplication e a c workspaceID provider authURL clientID redirectURL scope [] []"

definition BeginSAMLLogin ::
  "authEnv \<Rightarrow> 's AuthDomainService \<Rightarrow> request_ctx \<Rightarrow> string \<Rightarrow> string \<Rightarrow> string \<Rightarrow> string \<Rightarrow> string
   \<Rightarrow> ('s world, AuthProviderStartResponse) op" where
  "BeginSAMLLogin e a c workspaceID provider ssoURL entityID acsURL =
     BeginSAMLLoginForApplication e a c workspaceID provider ssoURL entityID acsURL [] []"

subsection \<open>One-time codes\<close>

definition otpDeliveryKey :: "authEnv \<Rightarrow> 's AuthDomainService \<Rightarrow> string \<Rightarrow> string \<Rightarrow> string \<Rightarrow> string" where
  "otpDeliveryKey e a workspaceID provider phone =
     base64Encode (ae_HmacSHA256 e (as_secret a) (TrimSpace workspaceID @ NUL @ normalizeProvider provider @ NUL @ TrimSpace phone))"

text \<open>A challenge to the same phone that is still inside the resend cooldown.\<close>

definition coolingDown :: "authEnv \<Rightarrow> 's AuthDomainService \<Rightarrow> string \<Rightarrow> string \<Rightarrow> string \<Rightarrow> AuthProviderChallenge \<Rightarrow> bool" where
  "coolingDown e a workspaceID provider phone ch \<longleftrightarrow>
     ch_WorkspaceID ch = workspaceID \<and> ch_Provider ch = provider \<and> ch_Phone ch = phone \<and> \<not> tokenExpired e (ch_ExpiresAt ch)
     \<and> (case parseRFC3339 (ch_CreatedAt ch) of None \<Rightarrow> False | Some t \<Rightarrow> authNow e - t < as_otpResendCooldown a)"

definition BeginOTPChallenge ::
  "authEnv \<Rightarrow> 's AuthDomainService \<Rightarrow> request_ctx \<Rightarrow> string \<Rightarrow> string \<Rightarrow> string \<Rightarrow> string \<Rightarrow> string \<Rightarrow> string \<Rightarrow> string list
   \<Rightarrow> ('s world, AuthProviderStartResponse) op" where
  "BeginOTPChallenge e a c workspaceID0 provider0 phone0 applicationKey purpose0 userID methods =
     andThen (ctxErr c) (\<lambda>_.
     let provider = normalizeProvider provider0; repo = as_identityStore a;
         rateLimited = authForbidden e ''auth.otp_rate_limited'' in
     andThen (liftRes (NewWorkspaceID workspaceID0)) (\<lambda>workspaceID.
     andThen (liftRes (case normalizeE164Phone phone0 of
                Inl _ \<Rightarrow> Inl (authBadRequest e ''auth.otp_phone_required'')
              | Inr p \<Rightarrow> if provider = [] then Inl (authBadRequest e ''auth.otp_phone_required'') else Inr p)) (\<lambda>phone.
     let purpose = (if TrimSpace purpose0 = [] then AuthChallengePurposeLogin else TrimSpace purpose0) in
     andThen (check ((rp_LoginTransactions repo = None) = (rp_OTPTransactions repo = None))
                (internalError ''resolve durable OTP transaction capabilities'')) (\<lambda>_.
     andThen (\<lambda>w. check (rp_LoginTransactions repo \<noteq> None
                \<or> \<not> list_ex (\<lambda>(k, ch). coolingDown e a workspaceID provider phone ch) (w_challenges w)) rateLimited w) (\<lambda>_.
     andThen (randomTokenFor e ''generate OTP state'') (\<lambda>state.
     andThen (\<lambda>w. case randomDigits e 6 w of (Inl _, w') \<Rightarrow> (Inl (internalError ''generate OTP code''), w')
                  | (Inr d, w') \<Rightarrow> (Inr d, w')) (\<lambda>code.
     let ch = zeroChallenge\<lparr>ch_WorkspaceID := workspaceID, ch_ApplicationKey := TrimSpace applicationKey,
                ch_Provider := provider, ch_Type := ''otp'', ch_Purpose := purpose, ch_Status := AuthChallengeStatusPending,
                ch_UserID := TrimSpace userID, ch_State := state, ch_Phone := phone, ch_Code := code,
                ch_MaskedDestination := maskPhoneDestination phone, ch_RetryAt := stampAfter e (as_otpResendCooldown a),
                ch_AuthenticationMethods := methods, ch_ExpiresAt := stampAfter e (10 * minute),
                ch_CreatedAt := stampAfter e 0\<rparr> in
     andThen (case rp_OTPTransactions repo of
                Some transactions \<Rightarrow>
                  andThen (onStore (ot_CreateAuthOTPTransaction transactions ch (otpDeliveryKey e a workspaceID provider phone)
                             (authNow e + as_otpResendCooldown a) (authNow e))) (\<lambda>created. check created rateLimited)
              | None \<Rightarrow> putChallenge state ch) (\<lambda>_.
     ret ((startResponse ch)\<lparr>psr_Code := code, psr_MaskedDestination := ch_MaskedDestination ch,
            psr_RetryAt := ch_RetryAt ch\<rparr>)))))))))"

definition UpdateOTPChallengeDelivery ::
  "authEnv \<Rightarrow> 's AuthDomainService \<Rightarrow> string \<Rightarrow> string \<Rightarrow> string \<Rightarrow> string \<Rightarrow> string \<Rightarrow> string \<Rightarrow> ('s world, unit) op" where
  "UpdateOTPChallengeDelivery e a workspaceID provider state status0 deliveryRef deliveryError =
     (let status = TrimSpace status0; invalid = authForbidden e ''auth.provider_state_invalid'' in
      andThen (check (status = AuthChallengeStatusActive \<or> status = AuthChallengeStatusFailed)
                 (authBadRequest e ''auth.otp_delivery_status_invalid'')) (\<lambda>_.
      case rp_OTPTransactions (as_identityStore a) of
        Some transactions \<Rightarrow> onStore (ot_UpdateAuthOTPTransactionStatus transactions workspaceID provider state status deliveryRef deliveryError (authNow e))
      | None \<Rightarrow>
         andThen (lookChallenge (TrimSpace state)) (\<lambda>found.
         case found of
           None \<Rightarrow> raise invalid
         | Some ch \<Rightarrow>
            andThen (check (ch_WorkspaceID ch = TrimSpace workspaceID \<and> ch_Provider ch = normalizeProvider provider) invalid) (\<lambda>_.
            if status = AuthChallengeStatusFailed then dropChallenge (ch_State ch)
            else putChallenge (ch_State ch) (ch\<lparr>ch_Status := status, ch_DeliveryRef := TrimSpace deliveryRef,
                   ch_DeliveryError := TrimSpace deliveryError\<rparr>)))))"

definition BeginOTPLoginForApplication ::
  "authEnv \<Rightarrow> 's AuthDomainService \<Rightarrow> request_ctx \<Rightarrow> string \<Rightarrow> string \<Rightarrow> string \<Rightarrow> string \<Rightarrow> ('s world, AuthProviderStartResponse) op" where
  "BeginOTPLoginForApplication e a c workspaceID provider phone applicationKey =
     andThen (BeginOTPChallenge e a c workspaceID provider phone applicationKey AuthChallengePurposeLogin [] []) (\<lambda>result.
     andThen (UpdateOTPChallengeDelivery e a workspaceID provider (psr_State result) AuthChallengeStatusActive ''local'' []) (\<lambda>_.
     ret (result\<lparr>psr_Status := AuthChallengeStatusActive\<rparr>)))"

definition BeginOTPLogin ::
  "authEnv \<Rightarrow> 's AuthDomainService \<Rightarrow> request_ctx \<Rightarrow> string \<Rightarrow> string \<Rightarrow> string \<Rightarrow> ('s world, AuthProviderStartResponse) op" where
  "BeginOTPLogin e a c workspaceID provider phone = BeginOTPLoginForApplication e a c workspaceID provider phone []"

subsection \<open>Consuming a challenge\<close>

definition ConsumeProviderChallenge ::
  "authEnv \<Rightarrow> 's AuthDomainService \<Rightarrow> request_ctx \<Rightarrow> string \<Rightarrow> string \<Rightarrow> string \<Rightarrow> ('s world, AuthProviderChallenge) op" where
  "ConsumeProviderChallenge e a c workspaceID provider0 state0 =
     andThen (ctxErr c) (\<lambda>_.
     let provider = normalizeProvider provider0; state = TrimSpace state0; invalid = authForbidden e ''auth.provider_state_invalid'' in
     andThen (check (provider \<noteq> [] \<and> state \<noteq> []) invalid) (\<lambda>_.
     case rp_LoginTransactions (as_identityStore a) of
       Some transactions \<Rightarrow>
         andThen (onStore (lt_ConsumeAuthLoginTransaction transactions workspaceID provider state (authNow e))) (\<lambda>consumed.
         case consumed of
           None \<Rightarrow> raise invalid
         | Some ch \<Rightarrow> (case NewWorkspaceID (ch_WorkspaceID ch) of Inl _ \<Rightarrow> raise invalid | Inr _ \<Rightarrow> ret ch))
     | None \<Rightarrow>
         andThen (lookChallenge state) (\<lambda>found.
         andThen (dropChallenge state) (\<lambda>_.
         case found of
           None \<Rightarrow> raise invalid
         | Some ch \<Rightarrow>
            andThen (check (ch_Provider ch = provider \<and> \<not> tokenExpired e (ch_ExpiresAt ch)) invalid) (\<lambda>_.
            case NewWorkspaceID (ch_WorkspaceID ch) of Inl _ \<Rightarrow> raise invalid | Inr _ \<Rightarrow> ret ch)))))"

definition consumeOTPChallenge ::
  "authEnv \<Rightarrow> 's AuthDomainService \<Rightarrow> request_ctx \<Rightarrow> string \<Rightarrow> string \<Rightarrow> string \<Rightarrow> string \<Rightarrow> string list \<Rightarrow> string
   \<Rightarrow> ('s world, AuthExternalIdentityAssertion \<times> AuthProviderChallenge) op" where
  "consumeOTPChallenge e a c workspaceID0 provider0 state0 code allowedPurposes expectedUserID =
     andThen (ctxErr c) (\<lambda>_.
     let provider = normalizeProvider provider0; state = TrimSpace state0;
         invalid = authForbidden e ''auth.provider_state_invalid''; wrongCode = authForbidden e ''auth.otp_code_invalid'' in
     andThen (liftRes (NewWorkspaceID workspaceID0)) (\<lambda>workspaceID.
     andThen (check (provider \<noteq> [] \<and> state \<noteq> []) invalid) (\<lambda>_.
     case rp_OTPTransactions (as_identityStore a) of
       Some transactions \<Rightarrow>
         andThen (onStore (ot_ConsumeAuthOTPTransaction transactions workspaceID provider state code allowedPurposes
                    expectedUserID (as_otpMaxAttempts a) (authNow e))) (\<lambda>(ch, valid).
         andThen (check (ch_State ch \<noteq> []) invalid) (\<lambda>_.
         andThen (check valid wrongCode) (\<lambda>_.
         let consumed = ch\<lparr>ch_Status := AuthChallengeStatusConsumed\<rparr> in ret (otpAssertion consumed, consumed))))
     | None \<Rightarrow>
         andThen (lookChallenge state) (\<lambda>found.
         case found of
           None \<Rightarrow> raise invalid
         | Some ch \<Rightarrow>
            andThen (check (ch_WorkspaceID ch = workspaceID \<and> ch_Provider ch = provider) invalid) (\<lambda>_.
            andThen (check (otpChallengeMatchesPurposeAndUser ch allowedPurposes expectedUserID) invalid) (\<lambda>_.
            andThen (check (ch_Status ch = [] \<or> ch_Status ch = AuthChallengeStatusActive) invalid) (\<lambda>_.
            if tokenExpired e (ch_ExpiresAt ch) then andThen (dropChallenge state) (\<lambda>_. raise invalid)
            else if TrimSpace (ch_Code ch) \<noteq> TrimSpace code then
              (let ch' = ch\<lparr>ch_Attempts := ch_Attempts ch + 1\<rparr> in
               andThen (if as_otpMaxAttempts a \<le> ch_Attempts ch' then dropChallenge state else putChallenge state ch')
                 (\<lambda>_. raise wrongCode))
            else andThen (dropChallenge state) (\<lambda>_.
              let consumed = ch\<lparr>ch_Status := AuthChallengeStatusConsumed\<rparr> in ret (otpAssertion consumed, consumed)))))))))"

definition ConsumeOTPChallenge ::
  "authEnv \<Rightarrow> 's AuthDomainService \<Rightarrow> request_ctx \<Rightarrow> string \<Rightarrow> string \<Rightarrow> string \<Rightarrow> string \<Rightarrow> ('s world, AuthExternalIdentityAssertion) op" where
  "ConsumeOTPChallenge e a c workspaceID provider state code =
     andThen (consumeOTPChallenge e a c workspaceID provider state code [AuthChallengePurposeLogin] [])
       (\<lambda>(assertion, ch). ret assertion)"

subsection \<open>The authenticator application (auth_totp.go)\<close>

definition newTOTPChallenge ::
  "authEnv \<Rightarrow> string \<Rightarrow> string \<Rightarrow> string \<Rightarrow> string \<Rightarrow> string \<Rightarrow> string list \<Rightarrow> ('s world, AuthProviderChallenge) op" where
  "newTOTPChallenge e workspaceID userID applicationKey purpose generation methods =
     andThen (randomToken e) (\<lambda>state.
     ret (zeroChallenge\<lparr>ch_WorkspaceID := workspaceID, ch_UserID := userID, ch_ApplicationKey := applicationKey,
            ch_Provider := TOTPProvider, ch_Type := ''totp'', ch_Purpose := purpose, ch_Status := AuthChallengeStatusActive,
            ch_State := state, ch_RequestID := generation, ch_AuthenticationMethods := methods,
            ch_CreatedAt := stampAfter e 0, ch_ExpiresAt := stampAfter e (5 * minute)\<rparr>))"

definition beginTOTPChallenge ::
  "authEnv \<Rightarrow> 's AuthDomainService \<Rightarrow> string \<Rightarrow> string \<Rightarrow> string \<Rightarrow> string \<Rightarrow> string \<Rightarrow> string list
   \<Rightarrow> ('s world, AuthProviderStartResponse) op" where
  "beginTOTPChallenge e a workspaceID userID applicationKey purpose generation methods =
     (case rp_LoginTransactions (as_identityStore a) of
        None \<Rightarrow> raise (authBadRequest e ''auth.totp_unavailable'')
      | Some transactions \<Rightarrow>
         andThen (newTOTPChallenge e workspaceID userID applicationKey purpose generation methods) (\<lambda>ch.
         andThen (onStore (lt_CreateAuthLoginTransaction transactions ch)) (\<lambda>_. ret (startResponse ch))))"

definition totpState :: "'s AuthDomainService \<Rightarrow> string \<Rightarrow> string \<Rightarrow> ('s world, TOTPFactorState) op" where
  "totpState a workspaceID userID = (case rp_TOTP (as_identityStore a) of
      Some repository \<Rightarrow> onStore (tr_TOTPFactorState repository workspaceID userID)
    | None \<Rightarrow> ret \<lparr>tfs_Enabled = False, tfs_Generation = []\<rparr>)"

definition verifyTOTPManagementPassword ::
  "authEnv \<Rightarrow> 's AuthDomainService \<Rightarrow> string \<Rightarrow> string \<Rightarrow> string \<Rightarrow> ('s world, unit) op" where
  "verifyTOTPManagementPassword e a workspaceID userID password =
     andThen (credentialOf e a workspaceID userID) (\<lambda>cr.
     andThen (check (\<not> cred_MustChangePassword cr) (authForbidden e ''auth.password_change_required'')) (\<lambda>_.
     andThen (comparePassword e a workspaceID cr password) (\<lambda>_.
     onStore (rp_RecordIdentityLoginSuccess (as_identityStore a) workspaceID userID (stampAfter e 0)))))"

definition zeroTOTPResult :: TOTPResult where
  "zeroTOTPResult = \<lparr>trs_Enabled = False, trs_State = [], trs_SetupKey = [], trs_OTPAuthURL = [], trs_ExpiresAt = []\<rparr>"

definition totpSetupURL :: "authEnv \<Rightarrow> 's AuthDomainService \<Rightarrow> string \<Rightarrow> IdentityUser \<Rightarrow> string \<Rightarrow> string \<Rightarrow> string" where
  "totpSetupURL e a workspaceID user userID secret =
     (let issuer = (case ae_ParseURL e (as_issuer a) of
                      Some u \<Rightarrow> if url_Hostname u = [] then ''Domainry'' else url_Hostname u | None \<Rightarrow> ''Domainry'');
          account = (if TrimSpace (user_Email user) = [] then userID else user_Email user);
          label = issuer @ '':'' @ workspaceID @ ''/'' @ account
      in ae_PrintURL e \<lparr>url_Scheme = ''otpauth'', url_HasUser = False, url_Hostname = ''totp'', url_Fragment = [],
           url_Query = [(''secret'', [secret]), (''issuer'', [issuer]), (''algorithm'', [''SHA1'']), (''digits'', [''6'']),
             (''period'', [''30''])], url_Rest = ''/'' @ label\<rparr>)"

definition readTOTPKey :: "authEnv \<Rightarrow> ('s world, string) op" where
  "readTOTPKey e = (\<lambda>w.
     ((case ae_Random e (w_random w) 20 of
         Inl err \<Rightarrow> Inl (internalError ''generate TOTP key'')
       | Inr raw \<Rightarrow> Inr (take 20 (raw @ replicate 20 (chr 0)))), w\<lparr>w_random := Suc (w_random w)\<rparr>))"

definition enrollTOTP ::
  "authEnv \<Rightarrow> 's AuthDomainService \<Rightarrow> 's AuthTOTPRepository \<Rightarrow> string \<Rightarrow> IdentityUser \<Rightarrow> string \<Rightarrow> ('s world, TOTPResult) op" where
  "enrollTOTP e a repository workspaceID user userID =
     andThen (readTOTPKey e) (\<lambda>key.
     let secret = base32Encode key in
     andThen (newTOTPChallenge e workspaceID userID [] TOTPEnrollmentPurpose [] []) (\<lambda>ch0.
     let ch = ch0\<lparr>ch_RequestID := ch_State ch0\<rparr> in
     andThen (onStore (tr_CreateTOTPEnrollment repository ch secret)) (\<lambda>_.
     ret \<lparr>trs_Enabled = False, trs_State = ch_State ch, trs_SetupKey = secret,
          trs_OTPAuthURL = totpSetupURL e a workspaceID user userID secret, trs_ExpiresAt = ch_ExpiresAt ch\<rparr>)))"

definition disableTOTP ::
  "authEnv \<Rightarrow> 's AuthDomainService \<Rightarrow> request_ctx \<Rightarrow> string \<Rightarrow> string \<Rightarrow> TOTPFactorState \<Rightarrow> string \<Rightarrow> ('s world, TOTPResult) op" where
  "disableTOTP e a c workspaceID userID state code =
     (if \<not> tfs_Enabled state then ret zeroTOTPResult
      else andThen (beginTOTPChallenge e a workspaceID userID [] TOTPDisablePurpose (tfs_Generation state) []) (\<lambda>ch.
        andThen (consumeOTPChallenge e a c workspaceID TOTPProvider (psr_State ch) code [TOTPDisablePurpose] userID) (\<lambda>_.
        ret zeroTOTPResult)))"

definition ManageTOTP ::
  "authEnv \<Rightarrow> 's AuthDomainService \<Rightarrow> request_ctx \<Rightarrow> string \<Rightarrow> string \<Rightarrow> TOTPRequest \<Rightarrow> ('s world, TOTPResult) op" where
  "ManageTOTP e a c0 workspaceID userID request =
     (let c = WithWorkspaceID c0 workspaceID in
      andThen (activeUser e a c userID) (\<lambda>user.
      case rp_TOTP (as_identityStore a) of
        None \<Rightarrow> raise (authBadRequest e ''auth.totp_unavailable'')
      | Some repository \<Rightarrow>
         andThen (onStore (tr_TOTPFactorState repository workspaceID userID)) (\<lambda>state.
         if trq_Operation request = ''status'' then ret (zeroTOTPResult\<lparr>trs_Enabled := tfs_Enabled state\<rparr>)
         else if trq_Operation request = ''enroll'' \<or> trq_Operation request = ''disable'' then
           andThen (verifyTOTPManagementPassword e a workspaceID userID (trq_CurrentPassword request)) (\<lambda>_.
           if trq_Operation request = ''disable'' then disableTOTP e a c workspaceID userID state (trq_Code request)
           else andThen (check (\<not> tfs_Enabled state) (authBadRequest e ''auth.totp_already_enabled'')) (\<lambda>_.
             enrollTOTP e a repository workspaceID user userID))
         else if trq_Operation request = ''confirm'' then
           andThen (consumeOTPChallenge e a c workspaceID TOTPProvider (trq_State request) (trq_Code request) [TOTPEnrollmentPurpose] userID) (\<lambda>_.
           andThen (onStore (tr_TOTPFactorState repository workspaceID userID)) (\<lambda>confirmed.
           ret (zeroTOTPResult\<lparr>trs_Enabled := tfs_Enabled confirmed\<rparr>)))
         else raise (authBadRequest e ''auth.totp_operation_invalid''))))"

end
