(* ===== verification/AuthProviders.thy ===== *)
theory AuthProviders
  imports AuthChallenges
begin

section \<open>The authentication domain service: providers and external identities\<close>

text \<open>
  \<open>auth_provider_domain_service.go\<close>, \<open>auth_external_identity.go\<close> and
  \<open>auth_provider_flow_domain_service.go\<close>: the configured providers, logging in with an
  identity a provider vouches for, and the flows that tie challenges, second factors and
  sessions together.
\<close>

subsection \<open>Provider configurations\<close>

record AuthProviderDomainService =
  aps_configs :: "(string, AuthProviderConfig) gomap"
  aps_order :: "string list"
  aps_defaultAutoCreate :: bool

fun addConfigs :: "AuthProviderDomainService \<Rightarrow> (string, any) gomap list \<Rightarrow> AuthProviderDomainService" where
  "addConfigs p [] = p"
| "addConfigs p (raw # rest) =
     (let config = AuthProviderConfigFromMap raw; key = ToLower (pc_Key config) in
      if key = [] \<or> key = TOTPProvider then addConfigs p rest
      else addConfigs (p\<lparr>aps_configs := AList.update key config (aps_configs p), aps_order := aps_order p @ [key]\<rparr>) rest)"

definition NewAuthProviderDomainService :: "(string, any) gomap list \<Rightarrow> bool \<Rightarrow> AuthProviderDomainService" where
  "NewAuthProviderDomainService configs defaultAutoCreate =
     addConfigs \<lparr>aps_configs = [], aps_order = [], aps_defaultAutoCreate = defaultAutoCreate\<rparr> configs"

definition configAt :: "AuthProviderDomainService \<Rightarrow> string \<Rightarrow> AuthProviderConfig" where
  "configAt p key = mapGet zeroProviderConfig (aps_configs p) key"

definition ListSafe :: "AuthProviderDomainService \<Rightarrow> (string, any) gomap list" where
  "ListSafe p =
     (if aps_order p = [] then
        [[(''key'', AnyString ''local''), (''label'', AnyString ''Password''), (''enabled'', AnyBool True), (''type'', AnyString ''password'')]]
      else map SafeMap (filter (\<lambda>c. \<not> (EqualFold (pc_Type c) ''otp'' \<and> \<not> SupportsChallengePurpose c AuthChallengePurposeLogin))
             (map (configAt p) (aps_order p))))"

definition FirstByTypeAndPurpose :: "AuthProviderDomainService \<Rightarrow> string \<Rightarrow> string \<Rightarrow> AuthProviderConfig option" where
  "FirstByTypeAndPurpose p providerType purpose =
     map_option config_Clone (find (\<lambda>c. EqualFold (pc_Type c) (ToLower (TrimSpace providerType)) \<and> SupportsChallengePurpose c purpose)
       (map (configAt p) (aps_order p)))"

definition FindProvider :: "AuthProviderDomainService \<Rightarrow> string \<Rightarrow> AuthProviderConfig option" where
  "FindProvider p key = map_option config_Clone (map_of (aps_configs p) (ToLower (TrimSpace key)))"

definition EnabledProvider :: "AuthProviderDomainService \<Rightarrow> string \<Rightarrow> AuthProviderConfig option" where
  "EnabledProvider p key = (case FindProvider p key of None \<Rightarrow> None | Some c \<Rightarrow> if pc_Enabled c then Some c else None)"

definition FirstEnabledByType :: "AuthProviderDomainService \<Rightarrow> string \<Rightarrow> AuthProviderConfig option" where
  "FirstEnabledByType p providerType =
     map_option config_Clone (find (\<lambda>c. pc_Enabled c \<and> EqualFold (pc_Type c) (ToLower (TrimSpace providerType)))
       (map (configAt p) (aps_order p)))"

definition ReplaceConfig ::
  "AuthProviderDomainService \<Rightarrow> AuthProviderConfig \<Rightarrow> AuthProviderConfig option \<times> AuthProviderDomainService" where
  "ReplaceConfig p v =
     (let key = ToLower (TrimSpace (pc_Key v)) in
      if \<not> hasKey (aps_configs p) key \<or> key = TOTPProvider then (None, p)
      else (let v' = config_Clone (v\<lparr>pc_Key := key\<rparr>) in
        (Some v', p\<lparr>aps_configs := AList.update key v' (aps_configs p)\<rparr>)))"

definition AddConfig ::
  "AuthProviderDomainService \<Rightarrow> AuthProviderConfig \<Rightarrow> AuthProviderConfig option \<times> AuthProviderDomainService" where
  "AddConfig p v =
     (let key = ToLower (TrimSpace (pc_Key v)) in
      if key = [] \<or> key = TOTPProvider \<or> hasKey (aps_configs p) key then (None, p)
      else (let v' = config_Clone (v\<lparr>pc_Key := key\<rparr>) in
        (Some v', p\<lparr>aps_configs := AList.update key v' (aps_configs p), aps_order := aps_order p @ [key]\<rparr>)))"

definition externalLoginPolicy :: "AuthProviderDomainService \<Rightarrow> AuthProviderConfig \<Rightarrow> AuthExternalLoginPolicy" where
  "externalLoginPolicy p config =
     \<lparr>elp_AutoCreateUsers = (if pc_AutoCreateConfigured config then pc_AutoCreateUsers config else aps_defaultAutoCreate p),
      elp_DefaultRoleKey = pc_DefaultRoleKey config, elp_RoleMappings = pc_RoleMappings config\<rparr>"

subsection \<open>External accounts\<close>

definition externalAccountByProviderSubject ::
  "'s AuthDomainService \<Rightarrow> string \<Rightarrow> string \<Rightarrow> string \<Rightarrow> ('s world, IdentityExternalAccount option) op" where
  "externalAccountByProviderSubject a workspaceID provider subject =
     andThen (onStore (rp_ListIdentityExternalAccounts (as_identityStore a) workspaceID [])) (\<lambda>accounts.
     ret (find (\<lambda>x. normalizeProvider (acc_Provider x) = normalizeProvider provider
                   \<and> TrimSpace (acc_ProviderSubject x) = TrimSpace subject) accounts))"

definition linkAccount ::
  "authEnv \<Rightarrow> 's AuthDomainService \<Rightarrow> string \<Rightarrow> string \<Rightarrow> AuthExternalIdentityAssertion \<Rightarrow> ('s world, IdentityExternalAccount) op" where
  "linkAccount e a workspaceID userID assertion =
     andThen (randomTokenFor e ''generate external account identifier'') (\<lambda>accountID.
     let account = \<lparr>acc_ID = ''ext_'' @ accountID, acc_UserID = userID, acc_Provider = asrt_Provider assertion,
           acc_ProviderSubject = asrt_Subject assertion, acc_Email = TrimSpace (asrt_Email assertion),
           acc_Phone = TrimSpace (asrt_Phone assertion), acc_DisplayName = TrimSpace (asrt_DisplayName assertion),
           acc_AvatarURL = TrimSpace (asrt_AvatarURL assertion), acc_Metadata = TrimSpace (asrt_Metadata assertion),
           acc_LinkedAt = stampAfter e 0\<rparr> in
     andThen (onStore (rp_UpsertIdentityExternalAccount (as_identityStore a) workspaceID account)) (\<lambda>_. ret account))"

definition ListExternalAccounts ::
  "authEnv \<Rightarrow> 's AuthDomainService \<Rightarrow> string \<Rightarrow> string \<Rightarrow> ('s world, IdentityExternalAccount list) op" where
  "ListExternalAccounts e a workspaceID userID =
     andThen (check (TrimSpace userID \<noteq> []) (authForbidden e ''auth.token_required'')) (\<lambda>_.
     onStore (rp_ListIdentityExternalAccounts (as_identityStore a) workspaceID (TrimSpace userID)))"

definition trimAssertion :: "AuthExternalIdentityAssertion \<Rightarrow> AuthExternalIdentityAssertion" where
  "trimAssertion x = x\<lparr>asrt_Provider := normalizeProvider (asrt_Provider x), asrt_Subject := TrimSpace (asrt_Subject x)\<rparr>"

definition BindExternalAccount ::
  "authEnv \<Rightarrow> 's AuthDomainService \<Rightarrow> request_ctx \<Rightarrow> string \<Rightarrow> string \<Rightarrow> AuthExternalIdentityAssertion
   \<Rightarrow> ('s world, IdentityExternalAccount) op" where
  "BindExternalAccount e a c workspaceID userID0 assertion0 =
     (let userID = TrimSpace userID0; assertion = trimAssertion assertion0 in
      andThen (check (userID \<noteq> [] \<and> asrt_Provider assertion \<noteq> [] \<and> asrt_Subject assertion \<noteq> [])
                 (authBadRequest e ''auth.external_account_invalid'')) (\<lambda>_.
      andThen (onStore (ip_UserByID (as_identity a) c userID)) (\<lambda>user.
      andThen (check (user \<noteq> None) (authForbidden e ''auth.user_disabled'')) (\<lambda>_.
      andThen (externalAccountByProviderSubject a workspaceID (asrt_Provider assertion) (asrt_Subject assertion)) (\<lambda>existing.
      case existing of
        Some account \<Rightarrow> andThen (check (acc_UserID account = userID) (authForbidden e ''auth.external_account_already_bound''))
                          (\<lambda>_. ret account)
      | None \<Rightarrow> linkAccount e a workspaceID userID assertion)))))"

definition UnbindExternalAccount ::
  "authEnv \<Rightarrow> 's AuthDomainService \<Rightarrow> string \<Rightarrow> string \<Rightarrow> string \<Rightarrow> string \<Rightarrow> ('s world, unit) op" where
  "UnbindExternalAccount e a workspaceID userID0 provider0 accountID0 =
     (let userID = TrimSpace userID0; provider = normalizeProvider provider0; accountID = TrimSpace accountID0 in
      andThen (check (userID \<noteq> [] \<and> provider \<noteq> [] \<and> accountID \<noteq> []) (authBadRequest e ''auth.external_account_invalid'')) (\<lambda>_.
      andThen (onStore (rp_ListIdentityExternalAccounts (as_identityStore a) workspaceID userID)) (\<lambda>accounts.
      if list_ex (\<lambda>x. acc_ID x = accountID \<and> normalizeProvider (acc_Provider x) = provider) accounts
      then onStore (rp_RemoveIdentityExternalAccount (as_identityStore a) workspaceID accountID)
      else raise (authForbidden e ''auth.external_account_not_found''))))"

subsection \<open>The user of an external identity\<close>

definition verifiedSubjectPlaceholderEmail :: "authEnv \<Rightarrow> string \<Rightarrow> string \<Rightarrow> string" where
  "verifiedSubjectPlaceholderEmail e provider0 subject =
     (let provider = normalizeProvider provider0; digest = ae_SHA256 e (provider @ NUL @ TrimSpace subject) in
      (if provider = ''wechat_mini_program'' then ''wechat-mini'' else ''line-liff'')
        @ ''-'' @ hexEncode (take 16 digest) @ ''@external.invalid'')"

definition assertionEmail :: "authEnv \<Rightarrow> AuthExternalIdentityAssertion \<Rightarrow> string" where
  "assertionEmail e x =
     (if TrimSpace (asrt_Email x) = [] \<and> verifiedSubjectOnlyIdentity x
      then verifiedSubjectPlaceholderEmail e (asrt_Provider x) (asrt_Subject x) else TrimSpace (asrt_Email x))"

definition externalLoginUserByVerifiedEmail ::
  "authEnv \<Rightarrow> 's AuthDomainService \<Rightarrow> request_ctx \<Rightarrow> AuthExternalIdentityAssertion \<Rightarrow> ('s world, IdentityUser option) op" where
  "externalLoginUserByVerifiedEmail e a c assertion =
     (let email = assertionEmail e assertion in
      if email = [] then ret None
      else andThen (onStore (ip_UserByLogin (as_identity a) c email)) (\<lambda>user.
        case user of
          None \<Rightarrow> ret None
        | Some u \<Rightarrow> if user_Status u = IdentityStatusActive then ret (Some u) else raise (authForbidden e ''auth.user_disabled'')))"

definition identifierRune :: "nat \<Rightarrow> char" where
  "identifierRune r =
     (if 97 \<le> r \<and> r \<le> 122 \<or> 48 \<le> r \<and> r \<le> 57 then chr r
      else if 65 \<le> r \<and> r \<le> 90 then chr (r + 32) else CHR ''_'')"

definition trimUnderscores :: "string \<Rightarrow> string" where
  "trimUnderscores s = rev (dropWhile (\<lambda>c. c = CHR ''_'') (rev (dropWhile (\<lambda>c. c = CHR ''_'') s)))"

definition externalIDBase :: "AuthExternalIdentityAssertion \<Rightarrow> string" where
  "externalIDBase x =
     (let base = trimUnderscores (map identifierRune (runesOf (asrt_Provider x @ ''_'' @ asrt_Subject x))) in
      take 64 (if base = [] then ''external_user'' else base))"

definition candidateID :: "string \<Rightarrow> nat \<Rightarrow> string" where
  "candidateID base i = (if i = 0 then base else base @ ''_'' @ decimal i)"

text \<open>
  The search for an unused identifier has no bound in the source.  Here it takes fuel and
  reports running out of it as an error of its own; an identity with finitely many users
  leaves a candidate free within as many tries.
\<close>

fun freeUserID :: "'s AuthDomainService \<Rightarrow> request_ctx \<Rightarrow> string \<Rightarrow> nat \<Rightarrow> nat \<Rightarrow> ('s world, string) op" where
  "freeUserID a c base i 0 = raise (Errorf ''no free identifier within the fuel'' [])"
| "freeUserID a c base i (Suc fuel) =
     andThen (onStore (ip_UserByID (as_identity a) c (candidateID base i))) (\<lambda>user.
       if user = None then ret (candidateID base i) else freeUserID a c base (Suc i) fuel)"

definition assignableByKey ::
  "'s AuthDomainService \<Rightarrow> request_ctx \<Rightarrow> IdentityRole list \<Rightarrow> (string, IdentityRole) gomap" where
  "assignableByKey a c roles = putAll [] (concat (map (\<lambda>r.
     case ip_PublishedRoleDefinition (as_identity a) c (valueOrDefault (role_Key r) (role_ID r)) of
       None \<Rightarrow> []
     | Some d \<Rightarrow> if externalAutoAssignableRole d
         then [(ToLower (TrimSpace (role_Key r)), r), (ToLower (TrimSpace (role_ID r)), r)] else []) roles))"

definition roleForExternalAssertion ::
  "'s AuthDomainService \<Rightarrow> request_ctx \<Rightarrow> AuthExternalIdentityAssertion \<Rightarrow> AuthExternalLoginPolicy \<Rightarrow> ('s world, IdentityRole option) op" where
  "roleForExternalAssertion a c assertion policy =
     andThen (onStore (ip_ListRoles (as_identity a) c)) (\<lambda>roles.
     let byKey = assignableByKey a c roles in
     ret (case find (\<lambda>m. hasKey byKey (ToLower (TrimSpace (erm_RoleKey m))) \<and> externalAssertionMappingMatches assertion m)
                 (elp_RoleMappings policy) of
            Some m \<Rightarrow> map_of byKey (ToLower (TrimSpace (erm_RoleKey m)))
          | None \<Rightarrow> map_of byKey (ToLower (TrimSpace (elp_DefaultRoleKey policy)))))"

definition createExternalIdentityUser ::
  "authEnv \<Rightarrow> nat \<Rightarrow> 's AuthDomainService \<Rightarrow> request_ctx \<Rightarrow> AuthExternalIdentityAssertion \<Rightarrow> AuthExternalLoginPolicy
   \<Rightarrow> ('s world, IdentityUser) op" where
  "createExternalIdentityUser e fuel a c assertion policy =
     (let email = assertionEmail e assertion in
      andThen (check (TrimSpace (asrt_Email assertion) \<noteq> [] \<or> verifiedSubjectOnlyIdentity assertion)
                 (authBadRequest e ''auth.external_email_required'')) (\<lambda>_.
      andThen (freeUserID a c (externalIDBase assertion) 0 fuel) (\<lambda>userID.
      let name = (if TrimSpace (asrt_DisplayName assertion) = [] then email else TrimSpace (asrt_DisplayName assertion));
          user = guestUser\<lparr>user_ID := userID, user_Name := name, user_Email := email,
                   user_Phone := TrimSpace (asrt_Phone assertion), user_AccountType := []\<rparr> in
      andThen (onStore (ip_UpsertUser (as_identity a) c user)) (\<lambda>_.
      andThen (roleForExternalAssertion a c assertion policy) (\<lambda>role.
      andThen (case role of None \<Rightarrow> ret ()
               | Some r \<Rightarrow> onStore (ip_AssignUserRole (as_identity a) c (bareAssignment userID (role_ID r)))) (\<lambda>_.
      ret user))))))"

definition ensureExternalDefaultRole ::
  "'s AuthDomainService \<Rightarrow> request_ctx \<Rightarrow> string \<Rightarrow> string \<Rightarrow> ('s world, unit) op" where
  "ensureExternalDefaultRole a c userID defaultRoleKey =
     (if TrimSpace defaultRoleKey = [] then ret ()
      else andThen (onStore (ip_ActiveRolesForUser (as_identity a) c userID)) (\<lambda>roles.
        if roles \<noteq> [] then ret ()
        else andThen (roleForExternalAssertion a c zeroAssertion
                       \<lparr>elp_AutoCreateUsers = False, elp_DefaultRoleKey = defaultRoleKey, elp_RoleMappings = []\<rparr>) (\<lambda>role.
          case role of None \<Rightarrow> ret ()
          | Some r \<Rightarrow> onStore (ip_AssignUserRole (as_identity a) c (bareAssignment userID (role_ID r))))))"

definition externalLogin ::
  "authEnv \<Rightarrow> nat \<Rightarrow> 's AuthDomainService \<Rightarrow> request_ctx \<Rightarrow> string \<Rightarrow> AuthExternalIdentityAssertion \<Rightarrow> AuthExternalLoginPolicy
   \<Rightarrow> string \<Rightarrow> AuthenticationContext \<Rightarrow> ('s world, AuthSession) op" where
  "externalLogin e fuel a c workspaceID assertion0 policy applicationKey authentication =
     (let assertion = trimAssertion assertion0; unlinked = authForbidden e ''auth.external_account_unlinked'' in
      andThen (check (asrt_Provider assertion \<noteq> [] \<and> asrt_Subject assertion \<noteq> []) unlinked) (\<lambda>_.
      andThen (externalAccountByProviderSubject a workspaceID (asrt_Provider assertion) (asrt_Subject assertion)) (\<lambda>linked.
      case linked of
        Some account \<Rightarrow>
          andThen (activeUser e a c (acc_UserID account)) (\<lambda>user.
          andThen (ensureExternalDefaultRole a c (user_ID user) (elp_DefaultRoleKey policy)) (\<lambda>_.
          issueSessionForAudienceWithAuthentication e a c workspaceID user applicationKey authentication))
      | None \<Rightarrow>
          andThen (check (elp_AutoCreateUsers policy) unlinked) (\<lambda>_.
          andThen (externalLoginUserByVerifiedEmail e a c assertion) (\<lambda>known.
          andThen (case known of Some u \<Rightarrow> ret u | None \<Rightarrow> createExternalIdentityUser e fuel a c assertion policy) (\<lambda>user.
          andThen (linkAccount e a workspaceID (user_ID user) assertion) (\<lambda>_.
          issueSessionForAudienceWithAuthentication e a c workspaceID user applicationKey authentication)))))))"

definition federatedContext :: AuthenticationContext where
  "federatedContext = \<lparr>actx_AuthenticationTime = 0, actx_Methods = [''federated''], actx_AssuranceLevel = ''urn:domainry:acr:1''\<rparr>"

definition ExternalLoginWithPolicyForApplication ::
  "authEnv \<Rightarrow> nat \<Rightarrow> 's AuthDomainService \<Rightarrow> request_ctx \<Rightarrow> string \<Rightarrow> AuthExternalIdentityAssertion \<Rightarrow> AuthExternalLoginPolicy
   \<Rightarrow> string \<Rightarrow> ('s world, AuthSession) op" where
  "ExternalLoginWithPolicyForApplication e fuel a c workspaceID assertion policy applicationKey =
     externalLogin e fuel a c workspaceID assertion policy applicationKey federatedContext"

definition ExternalLoginWithPolicy ::
  "authEnv \<Rightarrow> nat \<Rightarrow> 's AuthDomainService \<Rightarrow> request_ctx \<Rightarrow> string \<Rightarrow> AuthExternalIdentityAssertion \<Rightarrow> AuthExternalLoginPolicy
   \<Rightarrow> ('s world, AuthSession) op" where
  "ExternalLoginWithPolicy e fuel a c workspaceID assertion policy =
     ExternalLoginWithPolicyForApplication e fuel a c workspaceID assertion policy (as_audience a)"

definition ExternalLogin ::
  "authEnv \<Rightarrow> nat \<Rightarrow> 's AuthDomainService \<Rightarrow> request_ctx \<Rightarrow> string \<Rightarrow> AuthExternalIdentityAssertion \<Rightarrow> bool
   \<Rightarrow> ('s world, AuthSession) op" where
  "ExternalLogin e fuel a c workspaceID assertion autoCreateUser =
     ExternalLoginWithPolicy e fuel a c workspaceID assertion
       \<lparr>elp_AutoCreateUsers = autoCreateUser, elp_DefaultRoleKey = [], elp_RoleMappings = []\<rparr>"

end
