(* ===== verification/AuthFlows.thy ===== *)
theory AuthFlows
  imports AuthProviders
begin

section \<open>The authentication domain service: provider flows and user administration\<close>

text \<open>
  \<open>auth_provider_flow_domain_service.go\<close> and \<open>auth_user_administration.go\<close>.
  Delivery of a code, the exchange with a provider and the write-back of an external
  identity are ports.
\<close>

subsection \<open>Flows\<close>

record AuthSecurityChallengeDeliveryRequest =
  dq_ChallengeID :: string
  dq_WorkspaceID :: string
  dq_ConnectionKey :: string
  dq_Channel :: string
  dq_Destination :: string
  dq_MaskedDestination :: string
  dq_Message :: string
  dq_ExpiresAt :: string

text \<open>A delivery reports a reference and whether it failed; its effect is on the store's world.\<close>

record 's AuthProviderFlowDomainService =
  fl_auth :: "'s AuthDomainService"
  fl_providers :: AuthProviderDomainService
  fl_writeback :: "(AuthExternalIdentityAssertion \<Rightarrow> AuthSession \<Rightarrow> ('s, unit) op) option"
  fl_delivery :: "(AuthSecurityChallengeDeliveryRequest \<Rightarrow> 's \<Rightarrow> (string \<times> bool) \<times> 's) option"

definition UseSecurityChallengeDelivery ::
  "'s AuthProviderFlowDomainService \<Rightarrow> (AuthSecurityChallengeDeliveryRequest \<Rightarrow> 's \<Rightarrow> (string \<times> bool) \<times> 's) option
   \<Rightarrow> 's AuthProviderFlowDomainService" where
  "UseSecurityChallengeDelivery f delivery = f\<lparr>fl_delivery := delivery\<rparr>"

definition NewAuthProviderFlowDomainService ::
  "'s AuthDomainService \<Rightarrow> AuthProviderDomainService \<Rightarrow> (AuthExternalIdentityAssertion \<Rightarrow> AuthSession \<Rightarrow> ('s, unit) op) option
   \<Rightarrow> 's AuthProviderFlowDomainService" where
  "NewAuthProviderFlowDomainService a providers writeback =
     \<lparr>fl_auth = a, fl_providers = providers, fl_writeback = writeback, fl_delivery = None\<rparr>"

definition authUnavailable :: "string \<Rightarrow> go_error" where
  "authUnavailable code = AppError KindUnavailable code []"

definition deliver ::
  "(AuthSecurityChallengeDeliveryRequest \<Rightarrow> 's \<Rightarrow> (string \<times> bool) \<times> 's) \<Rightarrow> AuthSecurityChallengeDeliveryRequest
   \<Rightarrow> ('s world, string \<times> bool) op" where
  "deliver d q = (\<lambda>w. case d q (w_store w) of (r, s) \<Rightarrow> (Inr r, w\<lparr>w_store := s\<rparr>))"

definition deliverOTPChallenge ::
  "authEnv \<Rightarrow> 's AuthProviderFlowDomainService \<Rightarrow> string \<Rightarrow> AuthProviderConfig \<Rightarrow> string \<Rightarrow> AuthProviderStartResponse
   \<Rightarrow> ('s world, AuthProviderStartResponse) op" where
  "deliverOTPChallenge e f workspaceID config phone result =
     (let update = UpdateOTPChallengeDelivery e (fl_auth f) workspaceID (pc_Key config) (psr_State result) in
      if EqualFold (TrimSpace (pc_OTPProvider config)) ''mock'' then
        andThen (update AuthChallengeStatusActive ''mock'' []) (\<lambda>_. ret (result\<lparr>psr_Status := AuthChallengeStatusActive\<rparr>))
      else (case fl_delivery f of
          Some d \<Rightarrow>
            if TrimSpace (pc_ConnectionKey config) = [] then
              andThen (dropError (update AuthChallengeStatusFailed [] ''delivery unavailable'')) (\<lambda>_. raise (authUnavailable ''auth.otp_delivery_unavailable''))
            else andThen (deliver d \<lparr>dq_ChallengeID = psr_State result, dq_WorkspaceID = workspaceID,
                     dq_ConnectionKey = pc_ConnectionKey config, dq_Channel = pc_OTPProvider config, dq_Destination = phone,
                     dq_MaskedDestination = psr_MaskedDestination result,
                     dq_Message = ''Your Domainry verification code is '' @ psr_Code result @ ''. It expires in 10 minutes.'',
                     dq_ExpiresAt = psr_ExpiresAt result\<rparr>) (\<lambda>(ref, failed).
              if failed then andThen (dropError (update AuthChallengeStatusFailed ref ''delivery failed'')) (\<lambda>_. raise (authUnavailable ''auth.otp_delivery_failed''))
              else andThen (update AuthChallengeStatusActive ref []) (\<lambda>_.
                ret (result\<lparr>psr_Status := AuthChallengeStatusActive, psr_Code := []\<rparr>)))
        | None \<Rightarrow> andThen (dropError (update AuthChallengeStatusFailed [] ''delivery unavailable''))
                    (\<lambda>_. raise (authUnavailable ''auth.otp_delivery_unavailable''))))"

definition adaptOAuth2ProviderAuthURL :: "authEnv \<Rightarrow> string \<Rightarrow> AuthProviderConfig \<Rightarrow> string" where
  "adaptOAuth2ProviderAuthURL e raw config =
     (let adapter = ToLower (TrimSpace (pc_Adapter config)) in
      if adapter \<noteq> ''wechat_web'' \<and> adapter \<noteq> ''wecom'' then raw
      else (case ae_ParseURL e raw of
          None \<Rightarrow> raw
        | Some u \<Rightarrow> ae_PrintURL e ((delQuery ''code_challenge_method'' (delQuery ''code_challenge'' (delQuery ''nonce''
            (delQuery ''client_id'' (setQuery ''appid'' (TrimSpace (pc_ClientID config)) u)))))\<lparr>url_Fragment := ''wechat_redirect''\<rparr>)))"

definition ToUpper :: "string \<Rightarrow> string" where
  "ToUpper s = map (\<lambda>c. if 97 \<le> byte c \<and> byte c \<le> 122 then chr (byte c - 32) else c) s"

definition StartForApplication ::
  "authEnv \<Rightarrow> 's AuthProviderFlowDomainService \<Rightarrow> request_ctx \<Rightarrow> string \<Rightarrow> string \<Rightarrow> string \<Rightarrow> string \<Rightarrow> string \<Rightarrow> string
   \<Rightarrow> ('s world, AuthProviderStartResponse) op" where
  "StartForApplication e f c workspaceID provider method phone applicationKey returnURL =
     (case EnabledProvider (fl_providers f) provider of
        None \<Rightarrow> raise (authForbidden e ''auth.provider_not_configured'')
      | Some config \<Rightarrow>
         (let t = ToLower (pc_Type config); a = fl_auth f in
          if t = ''otp'' then
            andThen (check (SupportsChallengePurpose config AuthChallengePurposeLogin)
                       (authForbidden e ''auth.provider_purpose_not_enabled'')) (\<lambda>_.
            andThen (check (ToUpper method = ''POST'') (authBadRequest e ''auth.provider_start_requires_post'')) (\<lambda>_.
            andThen (BeginOTPChallenge e a c workspaceID provider phone applicationKey AuthChallengePurposeLogin [] []) (\<lambda>result.
            deliverOTPChallenge e f workspaceID config phone result)))
          else if t = ''saml'' then
            BeginSAMLLoginForApplication e a c workspaceID provider (pc_AuthURL config) (pc_ClientID config)
              (pc_RedirectURL config) applicationKey returnURL
          else if t = ''oidc'' \<or> t = ''oauth2'' then
            andThen (BeginProviderLoginForApplication e a c workspaceID provider (pc_AuthURL config) (pc_ClientID config)
              (pc_RedirectURL config) (pc_Scope config) applicationKey returnURL) (\<lambda>result.
            ret (if t = ''oauth2'' then result\<lparr>psr_AuthURL := adaptOAuth2ProviderAuthURL e (psr_AuthURL result) config\<rparr> else result))
          else raise (authBadRequest e ''auth.provider_start_not_supported'')))"

definition Start ::
  "authEnv \<Rightarrow> 's AuthProviderFlowDomainService \<Rightarrow> request_ctx \<Rightarrow> string \<Rightarrow> string \<Rightarrow> string \<Rightarrow> string
   \<Rightarrow> ('s world, AuthProviderStartResponse) op" where
  "Start e f c workspaceID provider method phone = StartForApplication e f c workspaceID provider method phone [] []"

subsection \<open>Second factors\<close>

definition zeroOutcome :: AuthenticationOutcome where
  "zeroOutcome = \<lparr>out_Status = [], out_Session = None, out_Challenge = None\<rparr>"

definition authenticatedOutcome :: "AuthSession \<Rightarrow> AuthenticationOutcome" where
  "authenticatedOutcome session =
     (if TrimSpace (ses_AccessToken session) = [] then zeroOutcome
      else zeroOutcome\<lparr>out_Status := AuthenticationStatusAuthenticated, out_Session := Some session\<rparr>)"

definition authProviderChallengeFromProjection :: "AuthProviderStartResponse \<Rightarrow> AuthProviderChallenge" where
  "authProviderChallengeFromProjection v = zeroChallenge\<lparr>ch_Provider := psr_Provider v, ch_State := psr_State v,
     ch_Type := psr_Type v, ch_Purpose := psr_Purpose v, ch_Status := psr_Status v,
     ch_MaskedDestination := psr_MaskedDestination v, ch_RetryAt := psr_RetryAt v, ch_ExpiresAt := psr_ExpiresAt v\<rparr>"

definition challengeRequired :: "AuthProviderStartResponse \<Rightarrow> AuthenticationOutcome" where
  "challengeRequired v = zeroOutcome\<lparr>out_Status := AuthenticationStatusChallengeRequired,
     out_Challenge := Some (authProviderChallengeFromProjection v)\<rparr>"

definition activeFactor :: "IdentityMFAFactor \<Rightarrow> bool" where
  "activeFactor m \<longleftrightarrow> EqualFold (TrimSpace (mfa_Status m)) ''active'' \<and> TrimSpace (mfa_VerifiedAt m) \<noteq> []"

text \<open>
  Whether a verified factor asks for a code, from which provider, and whether it can be
  had: the provider, required, available.
\<close>

fun factorLoop ::
  "AuthProviderDomainService \<Rightarrow> string \<Rightarrow> bool \<Rightarrow> IdentityMFAFactor list \<Rightarrow> AuthProviderConfig option \<times> bool \<times> bool" where
  "factorLoop p purpose unbound [] =
     (if unbound then (case FirstByTypeAndPurpose p ''otp'' purpose of
         Some candidate \<Rightarrow> (Some candidate, True, pc_Enabled candidate) | None \<Rightarrow> (None, False, False))
      else (None, False, False))"
| "factorLoop p purpose unbound (m # ms) =
     (let t = ToLower (TrimSpace (mfa_Type m)) in
      if \<not> activeFactor m \<or> t \<noteq> ''otp'' \<and> t \<noteq> ''sms'' \<and> t \<noteq> ''external'' then factorLoop p purpose unbound ms
      else if TrimSpace (mfa_Provider m) = [] then factorLoop p purpose True ms
      else (case FindProvider p (TrimSpace (mfa_Provider m)) of
          None \<Rightarrow> factorLoop p purpose True ms
        | Some candidate \<Rightarrow>
            if \<not> EqualFold (pc_Type candidate) ''otp'' then factorLoop p purpose True ms
            else if \<not> SupportsChallengePurpose candidate purpose then factorLoop p purpose unbound ms
            else if pc_Enabled candidate then (Some candidate, True, True) else (None, True, False)))"

definition verifiedOTPProviderForPurpose ::
  "AuthProviderDomainService \<Rightarrow> IdentityMFAFactor list \<Rightarrow> string \<Rightarrow> AuthProviderConfig option \<times> bool \<times> bool" where
  "verifiedOTPProviderForPurpose p factors purpose = factorLoop p purpose False factors"

definition sessionOutcome ::
  "authEnv \<Rightarrow> 's AuthDomainService \<Rightarrow> request_ctx \<Rightarrow> string \<Rightarrow> IdentityUser \<Rightarrow> string \<Rightarrow> AuthenticationContext
   \<Rightarrow> ('s world, AuthenticationOutcome) op" where
  "sessionOutcome e a c workspaceID user applicationKey authentication =
     andThen (issueSessionForAudienceWithAuthentication e a c workspaceID user applicationKey authentication)
       (\<lambda>session. ret (authenticatedOutcome session))"

definition LoginWithPasswordOutcome ::
  "authEnv \<Rightarrow> 's AuthProviderFlowDomainService \<Rightarrow> request_ctx \<Rightarrow> string \<Rightarrow> string \<Rightarrow> string \<Rightarrow> string
   \<Rightarrow> ('s world, AuthenticationOutcome) op" where
  "LoginWithPasswordOutcome e f c workspaceID login password applicationKey =
     (let a = fl_auth f in
      andThen (AuthenticatePassword e a c workspaceID login password) (\<lambda>user.
      andThen (totpState a workspaceID (user_ID user)) (\<lambda>totp.
      let passwordOnly = sessionOutcome e a c workspaceID user applicationKey passwordAuthenticationContext in
      (case rp_MFA (as_identityStore a) of
         None \<Rightarrow> passwordOnly
       | Some repository \<Rightarrow>
          andThen (onStore (mr_ListIdentityMFAFactors repository workspaceID (user_ID user))) (\<lambda>factors.
          let active = filter activeFactor factors in
          if active = [] then passwordOnly
          else (case verifiedOTPProviderForPurpose (fl_providers f) active AuthChallengePurposeLoginMFA of (config, required, available) \<Rightarrow>
            if \<not> required then passwordOnly
            else if tfs_Enabled totp then
              andThen (beginTOTPChallenge e a workspaceID (user_ID user) applicationKey AuthChallengePurposeLoginMFA
                         (tfs_Generation totp) [''pwd'']) (\<lambda>result. ret (challengeRequired result))
            else (case config of
                Some cfg \<Rightarrow>
                  if \<not> available \<or> TrimSpace (user_Phone user) = [] then raise (authForbidden e ''auth.mfa_factor_unavailable'')
                  else andThen (BeginOTPChallenge e a c workspaceID (pc_Key cfg) (user_Phone user) applicationKey
                         AuthChallengePurposeLoginMFA (user_ID user) [''pwd'']) (\<lambda>result0.
                    andThen (deliverOTPChallenge e f workspaceID cfg (user_Phone user) result0) (\<lambda>result.
                    ret (challengeRequired result)))
              | None \<Rightarrow> raise (authForbidden e ''auth.mfa_factor_unavailable''))))))))"

definition secondFactorContext :: "string list \<Rightarrow> AuthenticationContext" where
  "secondFactorContext methods = \<lparr>actx_AuthenticationTime = 0, actx_Methods = methods, actx_AssuranceLevel = ''urn:domainry:acr:2''\<rparr>"

definition VerifyOTPOutcome ::
  "authEnv \<Rightarrow> nat \<Rightarrow> 's AuthProviderFlowDomainService \<Rightarrow> request_ctx \<Rightarrow> string \<Rightarrow> string \<Rightarrow> string \<Rightarrow> string
   \<Rightarrow> ('s world, AuthenticationOutcome) op" where
  "VerifyOTPOutcome e fuel f c workspaceID provider state code =
     (let a = fl_auth f in
      if provider = TOTPProvider then
        andThen (consumeOTPChallenge e a c workspaceID provider state code [AuthChallengePurposeLoginMFA] []) (\<lambda>(assertion, ch).
        andThen (activeUser e a (WithWorkspaceID c workspaceID) (ch_UserID ch)) (\<lambda>user.
        sessionOutcome e a c workspaceID user (ch_ApplicationKey ch) (secondFactorContext [''pwd'', ''otp'', ''totp''])))
      else (case EnabledProvider (fl_providers f) provider of
          None \<Rightarrow> raise (authForbidden e ''auth.provider_not_configured'')
        | Some config \<Rightarrow>
           andThen (check (pc_Type config = ''otp'') (authBadRequest e ''auth.provider_verify_not_supported'')) (\<lambda>_.
           andThen (consumeOTPChallenge e a c workspaceID provider state code
                      [AuthChallengePurposeLogin, AuthChallengePurposeLoginMFA] []) (\<lambda>(assertion, ch).
           if ch_Purpose ch = AuthChallengePurposeLoginMFA then
             andThen (activeUser e a c (ch_UserID ch)) (\<lambda>user.
             sessionOutcome e a c workspaceID user (ch_ApplicationKey ch) (secondFactorContext (ch_AuthenticationMethods ch @ [''otp''])))
           else if ch_Purpose ch = AuthChallengePurposeLogin then
             andThen (externalLogin e fuel a c workspaceID assertion (externalLoginPolicy (fl_providers f) config) (ch_ApplicationKey ch)
                        \<lparr>actx_AuthenticationTime = 0, actx_Methods = [''otp''], actx_AssuranceLevel = ''urn:domainry:acr:1''\<rparr>)
               (\<lambda>session. ret (authenticatedOutcome session))
           else raise (authForbidden e ''auth.provider_state_invalid'')))))"

definition VerifyOTP ::
  "authEnv \<Rightarrow> nat \<Rightarrow> 's AuthProviderFlowDomainService \<Rightarrow> request_ctx \<Rightarrow> string \<Rightarrow> string \<Rightarrow> string \<Rightarrow> string \<Rightarrow> ('s world, AuthSession) op" where
  "VerifyOTP e fuel f c workspaceID provider state code =
     andThen (VerifyOTPOutcome e fuel f c workspaceID provider state code) (\<lambda>outcome.
       case out_Session outcome of None \<Rightarrow> raise (authForbidden e ''auth.provider_state_invalid'') | Some s \<Rightarrow> ret s)"

definition BeginActionAssurance ::
  "authEnv \<Rightarrow> 's AuthProviderFlowDomainService \<Rightarrow> request_ctx \<Rightarrow> string \<Rightarrow> string \<Rightarrow> ('s world, AuthProviderStartResponse) op" where
  "BeginActionAssurance e f c workspaceID userID =
     (let a = fl_auth f; unavailable = authForbidden e ''auth.mfa_factor_unavailable'' in
      andThen (activeUser e a (WithWorkspaceID c workspaceID) (TrimSpace userID)) (\<lambda>user.
      andThen (totpState a workspaceID (user_ID user)) (\<lambda>totp.
      if tfs_Enabled totp then
        beginTOTPChallenge e a workspaceID (user_ID user) [] AuthChallengePurposeAction (tfs_Generation totp) []
      else if TrimSpace (user_Phone user) = [] then raise unavailable
      else (case rp_MFA (as_identityStore a) of
          None \<Rightarrow> raise unavailable
        | Some repository \<Rightarrow>
           andThen (onStore (mr_ListIdentityMFAFactors repository workspaceID (user_ID user))) (\<lambda>factors.
           case verifiedOTPProviderForPurpose (fl_providers f) factors AuthChallengePurposeAction of
             (Some config, True, True) \<Rightarrow>
               andThen (BeginOTPChallenge e a c workspaceID (pc_Key config) (user_Phone user) [] AuthChallengePurposeAction (user_ID user) [])
                 (\<lambda>result. deliverOTPChallenge e f workspaceID config (user_Phone user) result)
           | _ \<Rightarrow> raise unavailable)))))"

definition VerifyActionAssurance ::
  "authEnv \<Rightarrow> 's AuthProviderFlowDomainService \<Rightarrow> request_ctx \<Rightarrow> string \<Rightarrow> string \<Rightarrow> string \<Rightarrow> string \<Rightarrow> string
   \<Rightarrow> ('s world, AuthActionAssuranceReceipt) op" where
  "VerifyActionAssurance e f c workspaceID userID provider state code =
     (let a = fl_auth f;
          consume = consumeOTPChallenge e a c workspaceID provider state code [AuthChallengePurposeAction] (TrimSpace userID) in
      if provider = TOTPProvider then andThen consume (\<lambda>(assertion, ch). IssueActionAssuranceReceipt e a c ch)
      else andThen (check (case EnabledProvider (fl_providers f) provider of None \<Rightarrow> False | Some config \<Rightarrow> EqualFold (pc_Type config) ''otp'')
                     (authForbidden e ''auth.provider_not_configured'')) (\<lambda>_.
        andThen consume (\<lambda>(assertion, ch).
        andThen (check (ch_Purpose ch = AuthChallengePurposeAction \<and> ch_UserID ch = TrimSpace userID)
                   (authForbidden e ''auth.action_assurance_challenge_invalid'')) (\<lambda>_.
        IssueActionAssuranceReceipt e a c ch))))"

subsection \<open>Completing a provider login\<close>

definition CompleteCallbackForApplication ::
  "authEnv \<Rightarrow> nat \<Rightarrow> 's AuthProviderFlowDomainService \<Rightarrow> request_ctx \<Rightarrow> string \<Rightarrow> AuthProviderConfig
   \<Rightarrow> AuthExternalIdentityAssertion \<Rightarrow> string \<Rightarrow> ('s world, AuthSession) op" where
  "CompleteCallbackForApplication e fuel f c workspaceID config assertion applicationKey =
     andThen (ExternalLoginWithPolicyForApplication e fuel (fl_auth f) c workspaceID assertion
                (externalLoginPolicy (fl_providers f) config) applicationKey) (\<lambda>result.
     andThen (case fl_writeback f of None \<Rightarrow> ret () | Some w \<Rightarrow> onStore (w assertion result)) (\<lambda>_. ret result))"

definition ExchangeCode ::
  "authEnv \<Rightarrow> nat \<Rightarrow> 's AuthProviderFlowDomainService \<Rightarrow> request_ctx \<Rightarrow> string \<Rightarrow> string \<Rightarrow> string \<Rightarrow> string
   \<Rightarrow> (string \<Rightarrow> AuthProviderConfig \<Rightarrow> string \<Rightarrow> ('s, AuthExternalIdentityAssertion) op) \<Rightarrow> ('s world, AuthSession) op" where
  "ExchangeCode e fuel f c workspaceID provider code applicationKey adapter =
     (case EnabledProvider (fl_providers f) provider of
        None \<Rightarrow> raise (authForbidden e ''auth.provider_not_configured'')
      | Some config \<Rightarrow>
         andThen (check (EqualFold (pc_Type config) ''code_exchange'' \<or> EqualFold (pc_Type config) ''wechat_mini_program'')
                    (authBadRequest e ''auth.provider_exchange_not_supported'')) (\<lambda>_.
         andThen (check (TrimSpace code \<noteq> []) (authBadRequest e ''auth.provider_code_required'')) (\<lambda>_.
         andThen (\<lambda>w. case onStore (adapter provider config code) w of
                    (Inl _, w') \<Rightarrow> (Inl (authUnavailable ''auth.provider_code_exchange_failed''), w') | (Inr x, w') \<Rightarrow> (Inr x, w')) (\<lambda>assertion.
         CompleteCallbackForApplication e fuel f c workspaceID config assertion applicationKey))))"

definition ConsumeCallbackChallenge ::
  "authEnv \<Rightarrow> 's AuthProviderFlowDomainService \<Rightarrow> request_ctx \<Rightarrow> string \<Rightarrow> string \<Rightarrow> string
   \<Rightarrow> ('s world, AuthProviderConfig \<times> AuthProviderChallenge) op" where
  "ConsumeCallbackChallenge e f c workspaceID provider state =
     (case EnabledProvider (fl_providers f) provider of
        None \<Rightarrow> raise (authForbidden e ''auth.provider_not_configured'')
      | Some config \<Rightarrow>
         andThen (check (pc_Type config = ''oidc'' \<or> pc_Type config = ''oauth2'' \<or> pc_Type config = ''saml'')
                    (authBadRequest e ''auth.provider_callback_not_supported'')) (\<lambda>_.
         andThen (ConsumeProviderChallenge e (fl_auth f) c workspaceID provider state) (\<lambda>ch.
         andThen (check (TrimSpace (ch_RedirectURL ch) = TrimSpace (pc_RedirectURL config))
                    (authForbidden e ''auth.provider_state_invalid'')) (\<lambda>_. ret (config, ch)))))"

definition claimAssertion ::
  "authEnv \<Rightarrow> 's AuthDomainService \<Rightarrow> string \<Rightarrow> string \<Rightarrow> (string, string) gomap \<Rightarrow> ('s world, unit) op" where
  "claimAssertion e a workspaceID provider claims =
     (let assertionID = TrimSpace (mapGet [] claims ''assertion_id''); issuer = TrimSpace (mapGet [] claims ''issuer'');
          invalid = authForbidden e ''auth.provider_assertion_invalid'' in
      case (parseRFC3339 (TrimSpace (mapGet [] claims ''not_on_or_after'')), rp_ClaimAuthAssertion (as_identityStore a)) of
        (Some expiresAt, Some claim) \<Rightarrow>
          andThen (check (assertionID \<noteq> [] \<and> issuer \<noteq> []) invalid) (\<lambda>_.
          andThen (onStore (claim workspaceID provider issuer assertionID expiresAt)) (\<lambda>claimed.
          check claimed (authForbidden e ''auth.provider_assertion_replayed'')))
      | _ \<Rightarrow> raise invalid)"

definition ExchangeAndCompleteCallbackWithChallenge ::
  "authEnv \<Rightarrow> nat \<Rightarrow> 's AuthProviderFlowDomainService \<Rightarrow> request_ctx \<Rightarrow> string \<Rightarrow> string \<Rightarrow> string \<Rightarrow> 'input
   \<Rightarrow> (string \<Rightarrow> AuthProviderConfig \<Rightarrow> AuthProviderChallenge \<Rightarrow> 'input \<Rightarrow> ('s, AuthExternalIdentityAssertion) op)
   \<Rightarrow> ('s world, AuthSession \<times> AuthProviderChallenge) op" where
  "ExchangeAndCompleteCallbackWithChallenge e fuel f c workspaceID provider state input adapter =
     andThen (ConsumeCallbackChallenge e f c workspaceID provider state) (\<lambda>(config, ch).
     andThen (onStore (adapter provider config ch input)) (\<lambda>assertion.
     andThen (if EqualFold (pc_Type config) ''saml''
              then claimAssertion e (fl_auth f) (ch_WorkspaceID ch) provider (asrt_Claims assertion) else ret ()) (\<lambda>_.
     andThen (CompleteCallbackForApplication e fuel f c (ch_WorkspaceID ch) config assertion (ch_ApplicationKey ch)) (\<lambda>result.
     ret (result, ch)))))"

definition CompleteCallback ::
  "authEnv \<Rightarrow> nat \<Rightarrow> 's AuthProviderFlowDomainService \<Rightarrow> request_ctx \<Rightarrow> string \<Rightarrow> AuthProviderConfig
   \<Rightarrow> AuthExternalIdentityAssertion \<Rightarrow> ('s world, AuthSession) op" where
  "CompleteCallback e fuel f c workspaceID config assertion =
     CompleteCallbackForApplication e fuel f c workspaceID config assertion []"

definition ExchangeAndCompleteCallback ::
  "authEnv \<Rightarrow> nat \<Rightarrow> 's AuthProviderFlowDomainService \<Rightarrow> request_ctx \<Rightarrow> string \<Rightarrow> string \<Rightarrow> string \<Rightarrow> 'input
   \<Rightarrow> (string \<Rightarrow> AuthProviderConfig \<Rightarrow> AuthProviderChallenge \<Rightarrow> 'input \<Rightarrow> ('s, AuthExternalIdentityAssertion) op)
   \<Rightarrow> ('s world, AuthSession) op" where
  "ExchangeAndCompleteCallback e fuel f c workspaceID provider state input adapter =
     andThen (ExchangeAndCompleteCallbackWithChallenge e fuel f c workspaceID provider state input adapter) (\<lambda>(result, ch). ret result)"

subsection \<open>User administration\<close>

record UserCredentialSecuritySummary =
  cs_UserID :: string
  cs_PasswordUpdatedAt :: string
  cs_FailedLoginCount :: int
  cs_LockedUntil :: string
  cs_LastLoginAt :: string
  cs_MustChangePassword :: bool

record UserSessionSecuritySummary =
  ss_ID :: string
  ss_SessionID :: string
  ss_ExpiresAt :: string
  ss_RevokedAt :: string
  ss_CreatedAt :: string
  ss_LastUsedAt :: string

record ExternalAccountSecuritySummary =
  eas_ID :: string
  eas_Provider :: string
  eas_Email :: string
  eas_Phone :: string
  eas_DisplayName :: string
  eas_LinkedAt :: string

record MFAFactorSecuritySummary =
  mfs_ID :: string
  mfs_Type :: string
  mfs_Label :: string
  mfs_Provider :: string
  mfs_Status :: string
  mfs_VerifiedAt :: string
  mfs_LastUsedAt :: string
  mfs_CreatedAt :: string

record UserSecurityProfile =
  sp_Credential :: "UserCredentialSecuritySummary option"
  sp_Sessions :: "UserSessionSecuritySummary list"
  sp_ExternalAccounts :: "ExternalAccountSecuritySummary list"
  sp_MFAFactors :: "MFAFactorSecuritySummary list"
  sp_MFAEnabled :: bool
  sp_ActiveSessions :: int
  sp_Locked :: bool

definition tokenExpiresAfter :: "string \<Rightarrow> int \<Rightarrow> bool" where
  "tokenExpiresAfter value now = (case parseRFC3339 value of None \<Rightarrow> True | Some t \<Rightarrow> now < t)"

definition credentialSummary :: "IdentityCredential \<Rightarrow> UserCredentialSecuritySummary" where
  "credentialSummary cr = \<lparr>cs_UserID = cred_UserID cr, cs_PasswordUpdatedAt = cred_PasswordUpdatedAt cr,
     cs_FailedLoginCount = cred_FailedLoginCount cr, cs_LockedUntil = cred_LockedUntil cr,
     cs_LastLoginAt = cred_LastLoginAt cr, cs_MustChangePassword = cred_MustChangePassword cr\<rparr>"

definition sessionSummary :: "AuthRefreshToken \<Rightarrow> UserSessionSecuritySummary" where
  "sessionSummary t = \<lparr>ss_ID = tok_ID t, ss_SessionID = tok_SessionID t, ss_ExpiresAt = tok_ExpiresAt t,
     ss_RevokedAt = tok_RevokedAt t, ss_CreatedAt = tok_CreatedAt t, ss_LastUsedAt = tok_LastUsedAt t\<rparr>"

definition accountSummary :: "IdentityExternalAccount \<Rightarrow> ExternalAccountSecuritySummary" where
  "accountSummary x = \<lparr>eas_ID = acc_ID x, eas_Provider = acc_Provider x, eas_Email = acc_Email x,
     eas_Phone = acc_Phone x, eas_DisplayName = acc_DisplayName x, eas_LinkedAt = acc_LinkedAt x\<rparr>"

definition factorSummary :: "IdentityMFAFactor \<Rightarrow> MFAFactorSecuritySummary" where
  "factorSummary m = \<lparr>mfs_ID = mfa_ID m, mfs_Type = mfa_Type m, mfs_Label = mfa_Label m, mfs_Provider = mfa_Provider m,
     mfs_Status = mfa_Status m, mfs_VerifiedAt = mfa_VerifiedAt m, mfs_LastUsedAt = mfa_LastUsedAt m,
     mfs_CreatedAt = mfa_CreatedAt m\<rparr>"

definition userSecurityProfile ::
  "authEnv \<Rightarrow> 's AuthDomainService \<Rightarrow> string \<Rightarrow> string \<Rightarrow> ('s world, UserSecurityProfile) op" where
  "userSecurityProfile e a workspaceID userID =
     (let repo = as_identityStore a; now = authNow e in
      andThen (onStore (rp_GetIdentityCredential repo workspaceID userID)) (\<lambda>credential.
      andThen (onStore (rp_ListAuthRefreshTokensForUser repo workspaceID userID)) (\<lambda>sessions.
      andThen (onStore (rp_ListIdentityExternalAccounts repo workspaceID userID)) (\<lambda>accounts.
      andThen (case rp_MFA repo of None \<Rightarrow> ret [] | Some r \<Rightarrow> onStore (mr_ListIdentityMFAFactors r workspaceID userID)) (\<lambda>factors.
      ret \<lparr>sp_Credential = map_option credentialSummary credential, sp_Sessions = map sessionSummary sessions,
           sp_ExternalAccounts = map accountSummary accounts, sp_MFAFactors = map factorSummary factors,
           sp_MFAEnabled = list_ex (\<lambda>m. mfa_Status m = ''active'' \<and> mfa_VerifiedAt m \<noteq> []) factors,
           sp_ActiveSessions = int (length (filter (\<lambda>t. tok_RevokedAt t = [] \<and> tokenExpiresAfter (tok_ExpiresAt t) now) sessions)),
           sp_Locked = (case credential of None \<Rightarrow> False | Some cr \<Rightarrow> credentialLocked cr now)\<rparr>)))))"

text \<open>The user a request names: the identifier is required and must belong to a user.\<close>

definition namedUser :: "authEnv \<Rightarrow> 's AuthDomainService \<Rightarrow> request_ctx \<Rightarrow> string \<Rightarrow> ('s world, IdentityUser) op" where
  "namedUser e a c userID =
     andThen (onStore (ip_UserByID (as_identity a) c userID)) (\<lambda>user.
       case user of None \<Rightarrow> raise (userNotFoundRequest e userID) | Some u \<Rightarrow> ret u)"

definition requireUserID :: "authEnv \<Rightarrow> string \<Rightarrow> ('s world, unit) op" where
  "requireUserID e userID = check (userID \<noteq> []) (authBadRequest e ''auth.user_required'')"

definition scopedUnavailable :: go_error where
  "scopedUnavailable = internalError ''scoped user security repository unavailable''"

definition GetUserSecurityProfile ::
  "authEnv \<Rightarrow> 's AuthDomainService \<Rightarrow> request_ctx \<Rightarrow> string \<Rightarrow> string \<Rightarrow> ('s world, UserSecurityProfile) op" where
  "GetUserSecurityProfile e a c workspaceID userID0 =
     (let userID = TrimSpace userID0 in
      andThen (requireUserID e userID) (\<lambda>_.
      andThen (namedUser e a c userID) (\<lambda>_. userSecurityProfile e a workspaceID userID)))"

definition UserSecurityProfileWithinDataScope ::
  "authEnv \<Rightarrow> 's AuthDomainService \<Rightarrow> string \<Rightarrow> string \<Rightarrow> IdentityDataScopeFilter \<Rightarrow> ('s world, UserSecurityProfile) op" where
  "UserSecurityProfileWithinDataScope e a workspaceID userID0 scope =
     (let userID = TrimSpace userID0 in
      andThen (requireUserID e userID) (\<lambda>_.
      case rp_IdentityUserExistsWithinDataScope (as_identityStore a) of
        None \<Rightarrow> raise scopedUnavailable
      | Some visibleIn \<Rightarrow>
         andThen (onStore (visibleIn workspaceID userID scope)) (\<lambda>visible.
         andThen (check visible (userNotFoundRequest e userID)) (\<lambda>_. userSecurityProfile e a workspaceID userID))))"

definition RegisterVerifiedMFAFactor ::
  "authEnv \<Rightarrow> 's AuthDomainService \<Rightarrow> request_ctx \<Rightarrow> string \<Rightarrow> string \<Rightarrow> IdentityMFAFactor \<Rightarrow> ('s world, unit) op" where
  "RegisterVerifiedMFAFactor e a c workspaceID userID0 factor0 =
     (let userID = TrimSpace userID0;
          factor = factor0\<lparr>mfa_ID := TrimSpace (mfa_ID factor0), mfa_Type := TrimSpace (mfa_Type factor0),
                     mfa_VerifiedAt := TrimSpace (mfa_VerifiedAt factor0)\<rparr> in
      andThen (check (mfa_Provider factor \<noteq> TOTPProvider) (authBadRequest e ''auth.totp_enrollment_required'')) (\<lambda>_.
      andThen (requireUserID e userID) (\<lambda>_.
      andThen (check (mfa_ID factor \<noteq> []) (authBadRequest e ''auth.mfa_factor_id_required'')) (\<lambda>_.
      andThen (check (mfa_Type factor \<in> {''otp'', ''totp'', ''webauthn'', ''recovery'', ''external''})
                 (authBadRequest e ''auth.mfa_factor_type_invalid'')) (\<lambda>_.
      andThen (check (mfa_VerifiedAt factor \<noteq> []) (authBadRequest e ''auth.mfa_factor_not_verified'')) (\<lambda>_.
      andThen (namedUser e a c userID) (\<lambda>user.
      andThen (check (user_Status user = IdentityStatusActive) (authBadRequest e ''auth.user_inactive'')) (\<lambda>_.
      case rp_MFA (as_identityStore a) of
        None \<Rightarrow> raise (authBadRequest e ''auth.mfa_unavailable'')
      | Some repository \<Rightarrow> onStore (mr_UpsertIdentityMFAFactor repository workspaceID
          (factor\<lparr>mfa_UserID := userID, mfa_Status := ''active''\<rparr>))))))))))"

definition RevokeMFAFactor ::
  "authEnv \<Rightarrow> 's AuthDomainService \<Rightarrow> request_ctx \<Rightarrow> string \<Rightarrow> string \<Rightarrow> string \<Rightarrow> ('s world, unit) op" where
  "RevokeMFAFactor e a c workspaceID userID0 factorID0 =
     (let userID = TrimSpace userID0; factorID = TrimSpace factorID0 in
      andThen (requireUserID e userID) (\<lambda>_.
      andThen (check (factorID \<noteq> []) (authBadRequest e ''auth.mfa_factor_id_required'')) (\<lambda>_.
      andThen (namedUser e a c userID) (\<lambda>_.
      case rp_MFA (as_identityStore a) of
        None \<Rightarrow> raise (authBadRequest e ''auth.mfa_unavailable'')
      | Some repository \<Rightarrow> onStore (mr_RevokeIdentityMFAFactor repository workspaceID userID factorID)))))"

definition RevokeMFAFactorWithinDataScope ::
  "authEnv \<Rightarrow> 's AuthDomainService \<Rightarrow> string \<Rightarrow> string \<Rightarrow> string \<Rightarrow> IdentityDataScopeFilter \<Rightarrow> ('s world, unit) op" where
  "RevokeMFAFactorWithinDataScope e a workspaceID userID0 factorID0 scope =
     (let userID = TrimSpace userID0; factorID = TrimSpace factorID0 in
      andThen (requireUserID e userID) (\<lambda>_.
      andThen (check (factorID \<noteq> []) (authBadRequest e ''auth.mfa_factor_id_required'')) (\<lambda>_.
      case rp_RevokeIdentityMFAFactorWithinDataScope (as_identityStore a) of
        None \<Rightarrow> raise scopedUnavailable
      | Some revoke \<Rightarrow>
         andThen (onStore (revoke workspaceID userID factorID scope)) (\<lambda>(visible, found).
         andThen (check visible (userNotFoundRequest e userID)) (\<lambda>_.
         check found (authBadRequest e ''auth.mfa_factor_not_found''))))))"

definition UnlockUser :: "authEnv \<Rightarrow> 's AuthDomainService \<Rightarrow> string \<Rightarrow> string \<Rightarrow> ('s world, unit) op" where
  "UnlockUser e a workspaceID userID0 =
     (let userID = TrimSpace userID0 in
      andThen (requireUserID e userID) (\<lambda>_.
      andThen (onStore (rp_GetIdentityCredential (as_identityStore a) workspaceID userID)) (\<lambda>credential.
      case credential of
        None \<Rightarrow> raise (authBadRequest e ''auth.credential_missing'')
      | Some cr \<Rightarrow> onStore (rp_UpsertIdentityCredential (as_identityStore a) workspaceID
          (cr\<lparr>cred_FailedLoginCount := 0, cred_LockedUntil := []\<rparr>)))))"

definition UnlockUserWithinDataScope ::
  "authEnv \<Rightarrow> 's AuthDomainService \<Rightarrow> string \<Rightarrow> string \<Rightarrow> IdentityDataScopeFilter \<Rightarrow> ('s world, unit) op" where
  "UnlockUserWithinDataScope e a workspaceID userID0 scope =
     (let userID = TrimSpace userID0 in
      andThen (requireUserID e userID) (\<lambda>_.
      case rp_UnlockIdentityCredentialWithinDataScope (as_identityStore a) of
        None \<Rightarrow> raise scopedUnavailable
      | Some unlock \<Rightarrow>
         andThen (onStore (unlock workspaceID userID scope)) (\<lambda>(visible, found).
         andThen (check visible (userNotFoundRequest e userID)) (\<lambda>_.
         check found (authBadRequest e ''auth.credential_missing'')))))"

definition ForceLogoutUser ::
  "authEnv \<Rightarrow> 's AuthDomainService \<Rightarrow> request_ctx \<Rightarrow> string \<Rightarrow> string \<Rightarrow> ('s world, int) op" where
  "ForceLogoutUser e a c workspaceID userID0 =
     (let userID = TrimSpace userID0 in
      andThen (requireUserID e userID) (\<lambda>_.
      andThen (namedUser e a c userID) (\<lambda>_.
      onStore (rp_RevokeAuthRefreshTokensForUser (as_identityStore a) workspaceID userID (stampAfter e 0)))))"

definition ForceLogoutUserWithinDataScope ::
  "authEnv \<Rightarrow> 's AuthDomainService \<Rightarrow> string \<Rightarrow> string \<Rightarrow> IdentityDataScopeFilter \<Rightarrow> ('s world, int) op" where
  "ForceLogoutUserWithinDataScope e a workspaceID userID0 scope =
     (let userID = TrimSpace userID0 in
      andThen (requireUserID e userID) (\<lambda>_.
      case rp_RevokeAuthRefreshTokensForUserWithinDataScope (as_identityStore a) of
        None \<Rightarrow> raise scopedUnavailable
      | Some revoke \<Rightarrow>
         andThen (onStore (revoke workspaceID userID (stampAfter e 0) scope)) (\<lambda>(count, visible).
         andThen (check visible (userNotFoundRequest e userID)) (\<lambda>_. ret count))))"

record RevokeOtherSessionsResult =
  ros_RevokedSessions :: int
  ros_CurrentSessionID :: string

definition RevokeOtherSessions ::
  "authEnv \<Rightarrow> 's AuthDomainService \<Rightarrow> request_ctx \<Rightarrow> string \<Rightarrow> ('s world, RevokeOtherSessionsResult) op" where
  "RevokeOtherSessions e a c accessToken =
     andThen (VerifyAccessToken e a c accessToken) (\<lambda>claims.
     case rp_Sessions (as_identityStore a) of
       None \<Rightarrow> raise (authForbidden e ''auth.session_expired'')
     | Some sessions \<Rightarrow>
        andThen (onStore (sr_RevokeOtherAuthSessions sessions (cl_WorkspaceID claims) (cl_Subject claims) (cl_SessionID claims) (stampAfter e 0)))
          (\<lambda>count. ret \<lparr>ros_RevokedSessions = count, ros_CurrentSessionID = cl_SessionID claims\<rparr>))"

end
