(* ===== verification/PolicyProperties.thy ===== *)
theory PolicyProperties
  imports AuthPolicy
begin

section \<open>Properties of the authentication policies\<close>

text \<open>
  One-time codes are accepted in their window only, drawn codes have their length and no
  bias, phone numbers come out in their normal form, and the password an administrator
  hands out passes every complexity rule.
\<close>

subsection \<open>Visible ASCII\<close>

definition visible :: "char \<Rightarrow> bool" where
  "visible c \<longleftrightarrow> 33 \<le> byte c \<and> byte c < 127"

lemma spaceRunes_heads:
  "list_all (\<lambda>r. case r of [] \<Rightarrow> False | c # _ \<Rightarrow> \<not> visible c) spaceRunes"
  "list_all (\<lambda>r. case r of [] \<Rightarrow> False | c # _ \<Rightarrow> \<not> visible c) (map rev spaceRunes)"
  by code_simp+

lemma leadingRune_visible:
  assumes "list_all (\<lambda>r. case r of [] \<Rightarrow> False | c # _ \<Rightarrow> \<not> visible c) rs" "list_all visible s"
  shows "leadingRune rs s = 0"
proof -
  have "\<not> prefix r s" if "r \<in> set rs" for r
    using assms that by (cases r; cases s) (fastforce simp: list_all_iff)+
  then show ?thesis by (simp add: leadingRune_zero_iff)
qed

lemma TrimSpace_visible: "list_all visible s \<Longrightarrow> TrimSpace s = s"
  by (simp add: TrimSpace_def stripRunes_id leadingRune_visible [OF spaceRunes_heads(1)]
    leadingRune_visible [OF spaceRunes_heads(2)] list_all_rev)

lemma isDigit_visible: "isDigit c \<Longrightarrow> visible c"
  by (simp add: isDigit_def visible_def)

lemma runesOf_ascii: "list_all (\<lambda>c. byte c < 128) s \<Longrightarrow> runesOf s = map byte s"
  by (induction s) (simp_all add: decodeRune_def)

subsection \<open>One-time codes\<close>

text \<open>What makes a time step acceptable for a code.\<close>

definition totpAccepts ::
  "(string \<Rightarrow> string \<Rightarrow> string) \<Rightarrow> string \<Rightarrow> string \<Rightarrow> int \<Rightarrow> int \<Rightarrow> int \<Rightarrow> bool" where
  "totpAccepts hm secret code now lastStep step \<longleftrightarrow>
     (\<exists>key. base32Decode secret = Some key \<and> 20 \<le> length key \<and> totpDigits hm key step = TrimSpace code)
     \<and> length (TrimSpace code) = 6 \<and> list_all isDigit (TrimSpace code)
     \<and> \<bar>step - truncDiv (now div 1000000000) 30\<bar> \<le> 1 \<and> 0 \<le> step \<and> lastStep < step"

lemma totpLoop_snd:
  "snd (totpLoop hm key code current lastStep offsets) \<longleftrightarrow>
     (\<exists>d \<in> set offsets. 0 \<le> current + d \<and> lastStep < current + d \<and> totpDigits hm key (current + d) = code)"
  by (induction offsets) (auto simp: Let_def)

lemma totpLoop_fst:
  "snd (totpLoop hm key code current lastStep offsets) \<Longrightarrow>
     (let step = fst (totpLoop hm key code current lastStep offsets) in
      (\<exists>d \<in> set offsets. step = current + d) \<and> 0 \<le> step \<and> lastStep < step \<and> totpDigits hm key step = code)"
  by (induction offsets) (auto simp: Let_def split: if_splits)

lemma totpLoop_step:
  "totpLoop hm key code current lastStep (d # ds) =
     (if 0 \<le> current + d \<and> lastStep < current + d \<and> totpDigits hm key (current + d) = code then (current + d, True)
      else totpLoop hm key code current lastStep ds)"
  by (auto simp: Let_def)

lemma totpLoop_window:
  "totpLoop hm key code current lastStep totpStepWindow =
     (let accepts = \<lambda>step. 0 \<le> step \<and> lastStep < step \<and> totpDigits hm key step = code in
      if accepts current then (current, True)
      else if accepts (current - 1) then (current - 1, True)
      else if accepts (current + 1) then (current + 1, True)
      else (0, False))"
  by (simp only: totpStepWindow_def totpLoop_step totpLoop.simps(1) Let_def add_0_right diff_conv_add_uminus)

lemma window_cases: "(\<exists>d \<in> set totpStepWindow. step = current + d) \<longleftrightarrow> \<bar>step - current\<bar> \<le> (1 :: int)"
  by (auto simp: totpStepWindow_def)

definition sixDigits :: "string \<Rightarrow> bool" where
  "sixDigits code \<longleftrightarrow> length code = 6 \<and> list_all isDigit code"

lemma MatchTOTP_unfold:
  "MatchTOTP hm secret code now lastStep =
     (case base32Decode secret of
        Some key \<Rightarrow> if sixDigits (TrimSpace code) \<and> 20 \<le> length key
          then totpLoop hm key (TrimSpace code) (truncDiv (now div 1000000000) 30) lastStep totpStepWindow else (0, False)
      | None \<Rightarrow> (0, False))"
  by (auto simp: MatchTOTP_def sixDigits_def Let_def list_ex_iff list_all_iff split: option.split)

lemma totpAccepts_unfold:
  "totpAccepts hm secret code now lastStep step \<longleftrightarrow>
     (case base32Decode secret of
        Some key \<Rightarrow> sixDigits (TrimSpace code) \<and> 20 \<le> length key
          \<and> (\<exists>d \<in> set totpStepWindow. step = truncDiv (now div 1000000000) 30 + d)
          \<and> 0 \<le> step \<and> lastStep < step \<and> totpDigits hm key step = TrimSpace code
      | None \<Rightarrow> False)"
  unfolding window_cases by (auto simp: totpAccepts_def sixDigits_def split: option.split)

lemma MatchTOTP_snd:
  "snd (MatchTOTP hm secret code now lastStep) \<longleftrightarrow> (\<exists>step. totpAccepts hm secret code now lastStep step)"
  by (cases "base32Decode secret") (auto simp: MatchTOTP_unfold totpAccepts_unfold totpLoop_snd)

lemma MatchTOTP_fst:
  "snd (MatchTOTP hm secret code now lastStep) \<Longrightarrow>
     totpAccepts hm secret code now lastStep (fst (MatchTOTP hm secret code now lastStep))"
  by (cases "base32Decode secret")
    (auto simp: MatchTOTP_unfold totpAccepts_unfold Let_def split: if_splits dest!: totpLoop_fst)

text \<open>
  C22 A one-time code is accepted exactly when it has six digits that the stored key yields
  for the current 30-second step, the one before or the one after, and that step is later
  than the last one used: no code is accepted twice, and no code of the window is refused.
  The step the caller must store is the first such step in the order current, previous,
  next.
\<close>

theorem totp_window:
  "MatchTOTP hm secret code now lastStep =
     (let current = truncDiv (now div 1000000000) 30; accepts = totpAccepts hm secret code now lastStep in
      if accepts current then (current, True)
      else if accepts (current - 1) then (current - 1, True)
      else if accepts (current + 1) then (current + 1, True)
      else (0, False))
   \<and> (snd (MatchTOTP hm secret code now lastStep) \<longleftrightarrow> (\<exists>step. totpAccepts hm secret code now lastStep step))"
proof (intro conjI MatchTOTP_snd)
  show "MatchTOTP hm secret code now lastStep =
     (let current = truncDiv (now div 1000000000) 30; accepts = totpAccepts hm secret code now lastStep in
      if accepts current then (current, True)
      else if accepts (current - 1) then (current - 1, True)
      else if accepts (current + 1) then (current + 1, True)
      else (0, False))"
  proof (cases "base32Decode secret")
    case (Some key)
    define current where "current = truncDiv (now div 1000000000) 30"
    define fit where "fit \<longleftrightarrow> sixDigits (TrimSpace code) \<and> 20 \<le> length key"
    have "totpAccepts hm secret code now lastStep step \<longleftrightarrow> fit \<and> \<bar>step - current\<bar> \<le> 1
        \<and> (0 \<le> step \<and> lastStep < step \<and> totpDigits hm key step = TrimSpace code)" for step
      using Some by (auto simp: totpAccepts_def sixDigits_def fit_def current_def)
    then have "totpAccepts hm secret code now lastStep current \<longleftrightarrow> fit \<and> (0 \<le> current \<and> lastStep < current \<and> totpDigits hm key current = TrimSpace code)"
      "totpAccepts hm secret code now lastStep (current - 1) \<longleftrightarrow> fit \<and> (0 \<le> current - 1 \<and> lastStep < current - 1 \<and> totpDigits hm key (current - 1) = TrimSpace code)"
      "totpAccepts hm secret code now lastStep (current + 1) \<longleftrightarrow> fit \<and> (0 \<le> current + 1 \<and> lastStep < current + 1 \<and> totpDigits hm key (current + 1) = TrimSpace code)"
      by simp_all
    moreover have "MatchTOTP hm secret code now lastStep =
        (if fit then totpLoop hm key (TrimSpace code) current lastStep totpStepWindow else (0, False))"
      using Some by (simp add: MatchTOTP_unfold fit_def current_def)
    ultimately show ?thesis
      by (cases fit) (simp_all only: totpLoop_window Let_def current_def [symmetric] if_True if_False simp_thms)
  qed (simp add: MatchTOTP_unfold totpAccepts_def Let_def)
qed

text \<open>Two steps that yield the same code: the current one is returned, then the next.\<close>

theorem totp_window_witness:
  "let hm = \<lambda>key message. replicate 20 (chr 0); secret = base32Encode (replicate 20 CHR ''x'') in
   MatchTOTP hm secret '' 000000'' 59000000000 0 = (1, True) \<and> MatchTOTP hm secret '' 000000'' 59000000000 1 = (2, True)"
proof -
  let ?hm = "\<lambda>key message. replicate 20 (chr 0)" and ?secret = "base32Encode (replicate 20 CHR ''x'')"
  have key: "base32Decode ?secret = Some (replicate 20 CHR ''x'')" by (rule base32_round_trip)
  have code: "TrimSpace '' 000000'' = ''000000''" and zero: "paddedDecimal 6 0 = ''000000''" by code_simp+
  have digits: "totpDigits ?hm k step = ''000000''" for k step
  proof -
    have "foldl (\<lambda>a c. a * 256 + byte c) 0 (replicate n (chr 0)) = 0" for n by (induction n) simp_all
    then show ?thesis by (simp add: totpDigits_def bigEndianUint32_def zero Let_def)
  qed
  have now: "truncDiv (59000000000 div 1000000000) 30 = 1" by code_simp
  have accepts: "totpAccepts ?hm ?secret '' 000000'' 59000000000 lastStep step \<longleftrightarrow> \<bar>step - 1\<bar> \<le> 1 \<and> 0 \<le> step \<and> lastStep < step" for lastStep step
    unfolding totpAccepts_def now key code digits by (simp add: isDigit_def)
  show ?thesis
    using totp_window [of ?hm ?secret "'' 000000''" 59000000000 0] totp_window [of ?hm ?secret "'' 000000''" 59000000000 1]
    unfolding now accepts by (simp add: Let_def)
qed

subsection \<open>Drawn codes\<close>

lemma acceptedDigits_digits: "list_all isDigit (acceptedDigits raw)"
  by (simp add: acceptedDigits_def list_all_iff)

lemma randomDigitsLoop_result:
  "randomDigitsLoop rng attempts i out len = (Inr d, j) \<Longrightarrow> list_all isDigit out \<Longrightarrow>
     length d = len \<and> list_all isDigit d \<and> i < j \<and> j \<le> i + attempts"
proof (induction rng attempts i out len rule: randomDigitsLoop.induct)
  case (2 rng attempts i out len)
  let ?rawLen = "max 16 ((len - length out) * 2)"
  obtain raw where raw: "rng i ?rawLen = Inr raw" "length raw = ?rawLen"
    using "2.prems"(1) by (auto simp: Let_def split: sum.splits if_splits)
  define out' where "out' = take len (out @ acceptedDigits raw)"
  have d: "list_all isDigit out'"
    using "2.prems"(2) acceptedDigits_digits [of raw] by (auto simp: out'_def list_all_iff dest!: in_set_takeD)
  have e: "(if length out' = len then (Inr out', Suc i) else randomDigitsLoop rng attempts (Suc i) out' len) = (Inr d, j)"
    using "2.prems"(1) raw(2) by (simp only: randomDigitsLoop.simps Let_def raw(1) sum.case not_not if_False if_True simp_thms out'_def)
  show ?case
  proof (cases "length out' = len")
    case True
    with e d show ?thesis by auto
  next
    case False
    with e have "randomDigitsLoop rng attempts (Suc i) out' len = (Inr d, j)" by simp
    from "2.IH" [OF refl raw(1) _ _ False [unfolded out'_def] this [unfolded out'_def] d [unfolded out'_def]] raw(2)
    show ?thesis by simp
  qed
qed simp

lemma bytes_of_digit:
  assumes "d < 10"
  shows "card {v. v < 256 \<and> acceptedDigits [chr v] = [digitChar d]} = 25"
proof -
  have inj: "digitChar a = digitChar b \<Longrightarrow> a < 10 \<Longrightarrow> b < 10 \<Longrightarrow> a = b" for a b
    by (metis digitVal_digitChar option.inject)
  have "{v. v < 256 \<and> acceptedDigits [chr v] = [digitChar d]} = {v. v < 250 \<and> v mod 10 = d}"
    using assms by (auto simp: acceptedDigits_def dest: inj split: if_splits)
  also have "\<dots> = (\<lambda>k. 10 * k + d) ` {..<25}"
  proof (intro equalityI subsetI)
    fix v assume v: "v \<in> {v. v < 250 \<and> v mod 10 = d}"
    then have "v = 10 * (v div 10) + d" "v div 10 < 25" by auto
    then show "v \<in> (\<lambda>k. 10 * k + d) ` {..<25}" by blast
  qed (use assms in auto)
  finally show ?thesis by (simp add: card_image inj_on_def)
qed

text \<open>
  C23 A drawn code has exactly the digits asked for, six when the length is not positive,
  after at most 128 reads of the random source; and rejection leaves no bias, each digit
  being the image of exactly 25 of the 256 bytes.
\<close>

theorem drawn_digits:
  assumes "randomDigitsFrom rng i len = (Inr d, j)"
  shows "length d = (if len \<le> 0 then 6 else nat len) \<and> list_all isDigit d \<and> i < j \<and> j \<le> i + 128
    \<and> list_all (\<lambda>x. card {v. v < 256 \<and> acceptedDigits [chr v] = [digitChar x]} = 25) [0..<10]"
  using randomDigitsLoop_result [OF assms [unfolded randomDigitsFrom_def]] bytes_of_digit by (simp add: list_all_iff)

theorem drawn_digits_witness:
  "length ''777777'' = 6 \<and> list_all isDigit ''777777''"
proof -
  have "randomDigitsFrom (\<lambda>i n. Inr (replicate n (chr 7))) 0 6 = (Inr ''777777'', 1)" by code_simp
  from drawn_digits [OF this] show ?thesis by simp
qed

subsection \<open>Phone numbers\<close>

lemma phoneDigits_digits: "phoneDigits first v = Some ds \<Longrightarrow> list_all isDigit ds"
  by (induction first v arbitrary: ds rule: phoneDigits.induct) (auto split: if_splits)

lemma phoneDigits_all: "list_all isDigit ds \<Longrightarrow> phoneDigits first ds = Some ds"
  by (induction ds arbitrary: first) auto

lemma normalized_again:
  assumes "list_all isDigit ds" "8 \<le> length ds" "length ds \<le> 15" "hd ds \<noteq> CHR ''0''"
  shows "normalizeE164Phone (CHR ''+'' # ds) = Inr (CHR ''+'' # ds)"
proof -
  have "list_all visible (CHR ''+'' # ds)"
    using assms(1) isDigit_visible by (auto simp: list_all_iff visible_def)
  from TrimSpace_visible [OF this] show ?thesis
    using assms by (simp add: normalizeE164Phone_def HasPrefix_def isDigit_def phoneDigits_all)
qed

text \<open>
  A phone number that is accepted comes out as a plus sign with eight to fifteen digits
  of which the first is not zero, and normalising that again changes nothing.
\<close>

theorem phone_normal_form:
  assumes "normalizeE164Phone value = Inr p"
  shows "(\<exists>ds. p = CHR ''+'' # ds \<and> 8 \<le> length ds \<and> length ds \<le> 15 \<and> list_all isDigit ds \<and> hd ds \<noteq> CHR ''0'')
    \<and> normalizeE164Phone p = Inr p"
proof -
  obtain ds where "phoneDigits True (if HasPrefix (TrimSpace value) ''00'' then ''+'' @ drop 2 (TrimSpace value) else TrimSpace value) = Some ds"
    "p = CHR ''+'' # ds" "8 \<le> length ds" "length ds \<le> 15" "hd ds \<noteq> CHR ''0''"
    using assms unfolding normalizeE164Phone_def Let_def by (fastforce simp: not_less simp del: phoneDigits.simps split: option.splits if_split_asm)
  with phoneDigits_digits [of True _ ds] normalized_again [of ds] show ?thesis by blast
qed

theorem phone_normal_form_witness: "normalizeE164Phone ''+15551234567'' = Inr ''+15551234567''"
proof -
  have "normalizeE164Phone ''001 (555) 123-4567'' = Inr ''+15551234567''" by code_simp
  from phone_normal_form [OF this] show ?thesis by (rule conjunct2)
qed

subsection \<open>The password handed to a new user\<close>

text \<open>The classes of a character sequence: what \<open>classifyRune\<close> has seen, in any order.\<close>

lemma classify_step: "classifyRune u r (True, True, True, True) = (True, True, True, True)"
  by (simp add: classifyRune_def)

lemma classify_full: "fold (classifyRune u) rs (True, True, True, True) = (True, True, True, True)"
  by (induction rs) (simp_all add: classify_step)

lemma classify_prefix: "fold (classifyRune u) (map byte ''Vd!9'') (False, False, False, False) = (True, True, True, True)"
  by (simp add: classifyRune_def isUpperRune_def isLowerRune_def isDigitRune_def isSymbolRune_def)

lemma initial_password_passes:
  assumes "list_all (\<lambda>c. byte c < 128) s" "pp_MinLength policy \<le> 4 + int (length s)"
    "0 < pp_MinLength policy \<or> 4 \<le> length s"
  shows "AuthValidatePassword u policy (''Vd!9'' @ s) = Inr ()"
proof -
  have r: "runesOf (''Vd!9'' @ s) = map byte ''Vd!9'' @ map byte s"
    using assms(1) runesOf_ascii [of "''Vd!9'' @ s"] by simp
  have "fold (classifyRune u) (runesOf (''Vd!9'' @ s)) (False, False, False, False) = (True, True, True, True)"
    by (simp only: r fold_append o_apply classify_prefix classify_full)
  moreover have "length (runesOf (''Vd!9'' @ s)) = 4 + length s" by (simp only: r length_append length_map) simp
  ultimately show ?thesis using assms(2,3) by (auto simp: AuthValidatePassword_def Let_def)
qed

end
