(* ===== verification/AuthSamples.thy ===== *)
theory AuthSamples
  imports AuthFlows ServiceSamples "HOL-Library.Countable"
begin

section \<open>Concrete inputs for authentication\<close>

text \<open>
  Plain functions in place of the cryptographic packages.  Texts of headers and claims are
  numbered, so reading one back is exact.
\<close>

lemma map_byte_inject: "map byte s = map byte t \<Longrightarrow> s = t"
  by (metis map_chr_byte)

instance char :: countable
  by (rule countable_classI [of "byte"]) (metis char_of_char)

instance AuthServiceGrant_ext :: (countable) countable
  by (rule countable_classI [of "\<lambda>g. to_nat (grantRes g, grantAct g, AuthServiceGrant.more g)"])
    (auto intro: AuthServiceGrant.equality)

definition claimFields :: "('a::countable) AuthClaims_scheme \<Rightarrow> nat" where
  "claimFields c = to_nat
     ((cl_Issuer c, cl_Audience c, cl_Subject c, cl_WorkspaceID c, cl_SessionID c, cl_AuthorizationRevision c,
       cl_AuthenticationTime c, cl_AuthenticationMethods c),
      (cl_AssuranceLevel c, cl_IssuedAt c, cl_ExpiresAt c, cl_JTI c, cl_ServiceApplicationKey c, cl_ServiceCredentialID c,
       cl_ServiceGrants c, cl_TokenPurpose c), AuthClaims.more c)"

lemma claimFields_inject: "claimFields c = claimFields d \<Longrightarrow> c = d"
  by (rule AuthClaims.equality) (simp_all add: claimFields_def)

instance AuthClaims_ext :: (countable) countable
  by (rule countable_classI [of claimFields]) (rule claimFields_inject)

definition sampleAuthEnv :: authEnv where
  "sampleAuthEnv = \<lparr>ae_Env = sampleEnv,
     ae_Unicode = \<lparr>uni_Upper = (\<lambda>_. False), uni_Lower = (\<lambda>_. False), uni_Digit = (\<lambda>_. False), uni_PunctOrSymbol = (\<lambda>_. False)\<rparr>,
     ae_Random = (\<lambda>i n. Inr (replicate n (chr i))), ae_HmacSHA1 = (\<lambda>k m. take 20 (m @ replicate 20 (chr 0))),
     ae_HmacSHA256 = (\<lambda>k m. k @ m), ae_SHA256 = (\<lambda>m. take 32 (m @ replicate 32 (chr 0))),
     ae_BcryptGenerate = (\<lambda>p n. Inr (''$'' @ p)), ae_BcryptMatches = (\<lambda>h p. h = ''$'' @ p),
     ae_NewKeyFromSeed = (\<lambda>s. s), ae_PublicKey = (\<lambda>k. k), ae_Sign = (\<lambda>k m. k), ae_Verify = (\<lambda>k m s. s = k),
     ae_EncodeHeader = (\<lambda>h. replicate (to_nat h) CHR ''h''), ae_DecodeHeader = (\<lambda>s. Some (from_nat (length s))),
     ae_EncodeClaims = (\<lambda>c. replicate (to_nat c) CHR ''c''), ae_DecodeClaims = (\<lambda>s. Some (from_nat (length s))),
     ae_ParseURL = (\<lambda>s. None), ae_PrintURL = (\<lambda>u. [])\<rparr>"

text \<open>A store without durable capabilities, over no state, and an identity with one user.\<close>

definition bareRepository :: "'s AuthRepository" where
  "bareRepository = \<lparr>rp_GetIdentityCredential = (\<lambda>w u. ret None), rp_UpsertIdentityCredential = (\<lambda>w x. ret ()),
     rp_RecordIdentityLoginSuccess = (\<lambda>w u t. ret ()), rp_CreateAuthRefreshToken = (\<lambda>w x. ret ()),
     rp_GetAuthRefreshTokenByHash = (\<lambda>w h. ret None), rp_RevokeAuthRefreshToken = (\<lambda>w i t b. ret ()),
     rp_ListAuthRefreshTokensForUser = (\<lambda>w u. ret []), rp_RevokeAuthRefreshTokensForUser = (\<lambda>w u t. ret 0),
     rp_ListIdentityExternalAccounts = (\<lambda>w u. ret []), rp_UpsertIdentityExternalAccount = (\<lambda>w x. ret ()),
     rp_RemoveIdentityExternalAccount = (\<lambda>w i. ret ()), rp_RecordIdentityLoginFailure = None,
     rp_RotateAuthRefreshToken = None, rp_Sessions = None, rp_LoginTransactions = None, rp_OTPTransactions = None,
     rp_AuthorizationCodes = None, rp_AuthorizationRedirectRegistered = None, rp_ClaimAuthAssertion = None,
     rp_MFA = None, rp_TOTP = None, rp_IdentityUserExistsWithinDataScope = None,
     rp_UnlockIdentityCredentialWithinDataScope = None, rp_ResetIdentityCredentialWithinDataScope = None,
     rp_RevokeAuthRefreshTokensForUserWithinDataScope = None, rp_RevokeIdentityMFAFactorWithinDataScope = None\<rparr>"

definition samplePrincipal :: Principal where
  "samplePrincipal = zeroPrincipal\<lparr>prin_AuthorizationRevision := ''rev1''\<rparr>"

definition bareIdentity :: "unit AuthIdentityPort" where
  "bareIdentity = \<lparr>ip_AssignUserRole = (\<lambda>c x. ret ()), ip_ListRoles = (\<lambda>c. ret []), ip_UpsertUser = (\<lambda>c u. ret ()),
     ip_UserByID = (\<lambda>c i. ret (if i = ''u1'' then Some (sampleUser ''u1'') else None)), ip_UserByLogin = (\<lambda>c l. ret None),
     ip_ActiveRolesForUser = (\<lambda>c u. ret []), ip_PublishedRoleDefinition = (\<lambda>c k. None),
     ip_ResolveEffectivePermissions = (\<lambda>c u. ret []), ip_ResolvePrincipal = (\<lambda>c u. ret samplePrincipal),
     ip_UpdateUserLocale = None, ip_ReconcileSystemManagedBusinessRoles = None\<rparr>"

definition zeroPolicy :: AuthPasswordPolicy where
  "zeroPolicy = \<lparr>pp_MinLength = 0, pp_RequireUpper = False, pp_RequireLower = False, pp_RequireNumber = False, pp_RequireSymbol = False\<rparr>"

definition bareService :: "unit AuthDomainService" where
  "bareService = NewAuthDomainService sampleAuthEnv bareIdentity bareRepository [] [] 0 0 0 0 0 0 zeroPolicy"

definition sampleCtx :: request_ctx where
  "sampleCtx = \<lparr>ctx_Workspace = ''acme'', ctx_Err = None\<rparr>"

definition emptyWorld :: "unit world" where
  "emptyWorld = \<lparr>w_store = (), w_challenges = [], w_random = 0\<rparr>"

end
