(* ===== verification/TokenProperties.thy ===== *)
theory TokenProperties
  imports AuthSamples PolicyProperties
begin

section \<open>Properties of configured services and their tokens\<close>

text \<open>
  What construction and configuration of the service establish, and what follows for the
  tokens it signs: the tokens it issues are the ones it accepts, and a token of one kind is
  never taken for another.
\<close>

subsection \<open>Configured services\<close>

definition trimmed :: "string \<Rightarrow> bool" where
  "trimmed s \<longleftrightarrow> s \<noteq> [] \<and> TrimSpace s = s"

text \<open>
  An issuer is a trimmed text, or one without its trailing slashes: \<open>ConfigureTokenMetadata\<close>
  cuts the slashes last, so that a blank before them stays.
\<close>

definition issuerText :: "string \<Rightarrow> bool" where
  "issuerText issuer \<longleftrightarrow> issuer \<noteq> [] \<and> (\<exists>s. trimmed s \<and> (issuer = s \<or> issuer = TrimRightSlash s))"

definition wellConfigured :: "authEnv \<Rightarrow> 's AuthDomainService \<Rightarrow> bool" where
  "wellConfigured e a \<longleftrightarrow>
     trimmed (as_activeKID a) \<and> issuerText (as_issuer a) \<and> trimmed (as_audience a) \<and> trimmed (as_defaultPassword a)
     \<and> map_of (as_verificationKeys a) (as_activeKID a) = Some (ae_PublicKey e (as_activePrivateKey a))
     \<and> 0 < as_accessTTL a \<and> 0 < as_refreshTTL a \<and> 0 < as_maxLoginFailures a \<and> 0 < as_loginLockDuration a
     \<and> 0 < as_otpResendCooldown a \<and> 0 < as_otpMaxAttempts a \<and> 0 < pp_MinLength (as_passwordPolicy a)
     \<and> trimmed (as_defaultLocale a) \<and> as_defaultLocale a \<in> set (as_supportedLocales a)"

text \<open>The services a process can hold: built, then reconfigured any number of times.\<close>

inductive configured :: "authEnv \<Rightarrow> 's AuthDomainService \<Rightarrow> bool" for e :: authEnv where
  built: "configured e (NewAuthDomainService e identity store secret password accessTTL refreshTTL maxFailures lock cooldown attempts policy)"
| locales: "configured e a \<Longrightarrow> configured e (ConfigureLocalePolicy a locale normalizer supported)"
| keys: "configured e a \<Longrightarrow> ConfigureSigningKeys e a kid secret verification = Inr a' \<Longrightarrow> configured e a'"
| metadata: "configured e a \<Longrightarrow> ConfigureTokenMetadata a issuer audience = Inr a' \<Longrightarrow> configured e a'"
| authority: "configured e a \<Longrightarrow> ConfigureTokenAuthority e a issuer audience kid privateKey verification = Inr a' \<Longrightarrow> configured e a'"

lemma signingKeysLoop_active:
  "signingKeysLoop e activeKID keys rest = Inr keys' \<Longrightarrow> map_of keys' activeKID = map_of keys activeKID"
  by (induction e activeKID keys rest rule: signingKeysLoop.induct) (auto simp: Let_def update_conv' split: if_splits)

lemma publicKeysLoop_active:
  "publicKeysLoop activeKID keys rest = Inr keys' \<Longrightarrow> map_of keys' activeKID = map_of keys activeKID"
  by (induction activeKID keys rest rule: publicKeysLoop.induct)
    (auto simp: Let_def update_conv' split: if_splits option.splits)

lemma trimmed_TrimSpace: "TrimSpace s \<noteq> [] \<Longrightarrow> trimmed (TrimSpace s)"
  by (simp add: trimmed_def)

lemma issuerText_trimmed: "trimmed s \<Longrightarrow> issuerText s"
  by (auto simp: issuerText_def trimmed_def)

lemma trimmed_literals:
  "trimmed ''dev-v1''" "trimmed ''en-US''" "trimmed ''http://localhost:8081''" "trimmed ''domainry-runtime''"
  "trimmed ''Domainry@2026''" "trimmed ''dev-generated-auth-secret-change-me''"
  by (simp_all add: trimmed_def TrimSpace_visible visible_def)

lemma ConfigureSigningKeys_Inr:
  assumes "ConfigureSigningKeys e a kid secret verification = Inr a'"
  shows "\<exists>keys k. TrimSpace kid \<noteq> [] \<and> map_of keys (TrimSpace kid) = Some (ae_PublicKey e k)
    \<and> a' = a\<lparr>as_activeKID := TrimSpace kid, as_secret := TrimSpace secret, as_activePrivateKey := k,
           as_verificationKeys := keys\<rparr>"
  using assms by (auto simp: ConfigureSigningKeys_def Let_def bind_Inr_iff dest!: signingKeysLoop_active split: if_splits) blast

lemma wellConfigured_keys:
  assumes "wellConfigured e a" "ConfigureSigningKeys e a kid secret verification = Inr a'"
  shows "wellConfigured e a'"
  using assms(1) ConfigureSigningKeys_Inr [OF assms(2)] by (auto simp: wellConfigured_def trimmed_TrimSpace)

lemma ConfigureTokenAuthority_Inr:
  assumes "ConfigureTokenAuthority e a issuer audience kid privateKey verification = Inr a'"
  shows "\<exists>keys k. TrimSpace kid \<noteq> [] \<and> TrimSpace issuer \<noteq> [] \<and> TrimSpace audience \<noteq> []
    \<and> map_of keys (TrimSpace kid) = Some (ae_PublicKey e k)
    \<and> a' = a\<lparr>as_issuer := TrimSpace issuer, as_audience := TrimSpace audience, as_activeKID := TrimSpace kid,
           as_activePrivateKey := k, as_verificationKeys := keys\<rparr>"
  using assms
  by (auto simp: ConfigureTokenAuthority_def Let_def bind_Inr_iff dest!: publicKeysLoop_active split: if_splits option.splits)
    blast

lemma wellConfigured_built:
  "wellConfigured e (NewAuthDomainService e identity store secret password accessTTL refreshTTL maxFailures lock cooldown attempts policy)"
proof -
  have t: "trimmed (if TrimSpace s = [] then d else TrimSpace s)" if "trimmed d" for s d :: string
    using that by (simp add: trimmed_TrimSpace)
  define secret' where "secret' = (if TrimSpace secret = [] then ''dev-generated-auth-secret-change-me'' else TrimSpace secret)"
  then have "trimmed secret'" using t trimmed_literals by simp
  then have s: "secret' \<noteq> []" "TrimSpace secret' = secret'" by (simp_all add: trimmed_def)
  have k: "TrimSpace ''dev-v1'' = ''dev-v1''" using trimmed_literals(1) by (simp add: trimmed_def)
  show ?thesis
    by (simp add: wellConfigured_def NewAuthDomainService_def Let_def ConfigureSigningKeys_def s k t trimmed_literals
      trimmed_TrimSpace issuerText_trimmed flip: secret'_def)
qed

lemma wellConfigured_locales:
  "wellConfigured e a \<Longrightarrow> wellConfigured e (ConfigureLocalePolicy a locale normalizer supported)"
  using trimmed_literals trimmed_TrimSpace by (simp add: wellConfigured_def ConfigureLocalePolicy_def Let_def)

lemma wellConfigured_metadata:
  assumes "wellConfigured e a" "ConfigureTokenMetadata a issuer audience = Inr a'"
  shows "wellConfigured e a'"
proof -
  have "issuerText (TrimRightSlash (TrimSpace issuer))" if "TrimRightSlash (TrimSpace issuer) \<noteq> []"
  proof -
    from that have "TrimSpace issuer \<noteq> []" by (auto simp: TrimRightSlash_def)
    with that trimmed_TrimSpace show ?thesis by (auto simp: issuerText_def)
  qed
  with assms show ?thesis
    by (auto simp: wellConfigured_def ConfigureTokenMetadata_def Let_def trimmed_TrimSpace split: if_splits)
qed

lemma configured_wellConfigured:
  assumes "configured e a"
  shows "wellConfigured e a"
  using assms
proof induction
  case (authority a issuer audience kid privateKey verification a')
  with ConfigureTokenAuthority_Inr [OF authority(2)] show ?case by (auto simp: wellConfigured_def trimmed_TrimSpace issuerText_trimmed)
qed (blast intro: wellConfigured_built wellConfigured_locales wellConfigured_keys wellConfigured_metadata)+

text \<open>
  C26 Every service a process can hold is well configured: the active key is one of the keys
  that verify tokens, the key identifier, the audience and the default locale carry no
  surrounding blanks, the issuer is such a text or what remains of one without its trailing
  slashes, the durations and limits are positive, and the default locale is supported.
\<close>

theorem configured_services:
  assumes "configured e a"
  shows "wellConfigured e a"
  using assms by (rule configured_wellConfigured)

subsection \<open>The encodings tokens rely on\<close>

text \<open>Text that JSON carries unchanged: valid UTF-8 without the replacement character.\<close>

definition plain :: "string \<Rightarrow> bool" where
  "plain s \<longleftrightarrow> 65533 \<notin> set (runesOf s)"

definition plainClaims :: "AuthClaims \<Rightarrow> bool" where
  "plainClaims c \<longleftrightarrow>
     list_all plain ([cl_Issuer c, cl_Audience c, cl_Subject c, cl_WorkspaceID c, cl_SessionID c,
       cl_AuthorizationRevision c, cl_AssuranceLevel c, cl_JTI c, cl_ServiceApplicationKey c, cl_ServiceCredentialID c,
       cl_TokenPurpose c] @ cl_AuthenticationMethods c @ map grantRes (cl_ServiceGrants c) @ map grantAct (cl_ServiceGrants c))"

definition tokenHeader :: "'s AuthDomainService \<Rightarrow> (string, string) gomap" where
  "tokenHeader a = [(''alg'', ''EdDSA''), (''kid'', as_activeKID a), (''typ'', ''JWT'')]"

text \<open>
  A private key that Ed25519 derives from a seed.  Keys made from a secret are such keys;
  \<open>ConfigureTokenAuthority\<close> takes any 64 bytes and does not check that their halves match.
\<close>

definition properKey :: "authEnv \<Rightarrow> string \<Rightarrow> bool" where
  "properKey e key \<longleftrightarrow> (\<exists>seed. length seed = 32 \<and> key = ae_NewKeyFromSeed e seed)"

text \<open>
  What the packages promise: a signature of a proper key verifies under its public key, JSON
  reads back the header and plain claims, and SHA-256 has 32 bytes.
\<close>

definition tokenLaws :: "authEnv \<Rightarrow> bool" where
  "tokenLaws e \<longleftrightarrow>
     (\<forall>k m. properKey e k \<longrightarrow> ae_Verify e (ae_PublicKey e k) m (ae_Sign e k m))
     \<and> (\<forall>h. list_all (\<lambda>(k, v). plain k \<and> plain v) h \<longrightarrow> ae_DecodeHeader e (ae_EncodeHeader e h) = Some h)
     \<and> (\<forall>c. plainClaims c \<longrightarrow> ae_DecodeClaims e (ae_EncodeClaims e c) = Some c)
     \<and> (\<forall>m. length (ae_SHA256 e m) = 32)"

lemma properKey_keys:
  assumes "tokenLaws e" "ConfigureSigningKeys e a kid secret verification = Inr a'"
  shows "properKey e (as_activePrivateKey a')"
  using assms by (auto simp: properKey_def tokenLaws_def ConfigureSigningKeys_def Let_def bind_Inr_iff split: if_splits)

lemma properKey_built:
  assumes "tokenLaws e"
  shows "properKey e (as_activePrivateKey (NewAuthDomainService e identity store secret password accessTTL refreshTTL maxFailures lock cooldown attempts policy))"
proof -
  define secret' where "secret' = (if TrimSpace secret = [] then ''dev-generated-auth-secret-change-me'' else TrimSpace secret)"
  then have "trimmed secret'" using trimmed_TrimSpace [of secret] trimmed_literals by simp
  then have s: "secret' \<noteq> []" "TrimSpace secret' = secret'" by (simp_all add: trimmed_def)
  have k: "TrimSpace ''dev-v1'' = ''dev-v1''" using trimmed_literals(1) by (simp add: trimmed_def)
  have "length (ae_SHA256 e m) = 32" for m using assms by (simp add: tokenLaws_def)
  then show ?thesis
    by (auto simp: properKey_def NewAuthDomainService_def Let_def ConfigureSigningKeys_def s k simp flip: secret'_def)
qed

lemma base64_visible: "list_all visible (base64Encode s)" "CHR ''.'' \<notin> set (base64Encode s)"
proof -
  have "list_all visible base64Alphabet" "CHR ''.'' \<notin> set base64Alphabet" by code_simp+
  then show "list_all visible (base64Encode s)" "CHR ''.'' \<notin> set (base64Encode s)"
    using base64Encode_chars [of s] by (auto simp: list_all_iff)
qed

lemma visible_ascii: "list_all visible s \<Longrightarrow> list_all (\<lambda>c. byte c < 128) s"
  by (auto simp: list_all_iff visible_def)

lemma runesOf_prefix: "list_all (\<lambda>c. byte c < 128) s \<Longrightarrow> runesOf (s @ t) = map byte s @ runesOf t"
  by (induction s) (simp_all add: decodeRune_def)

lemma plain_append: "list_all visible s \<Longrightarrow> plain (s @ t) = plain t"
proof -
  assume v: "list_all visible s"
  then have "65533 \<notin> set (map byte s)" by (auto simp: list_all_iff visible_def)
  with runesOf_prefix [OF visible_ascii [OF v]] show ?thesis by (simp add: plain_def)
qed

lemma plain_visible: "list_all visible s \<Longrightarrow> plain s"
  using plain_append [of s "[]"] by (simp add: plain_def)

lemma splitOn_parts: "CHR ''.'' \<notin> set p \<Longrightarrow> splitOn CHR ''.'' (p @ CHR ''.'' # q) = p # splitOn CHR ''.'' q"
  by (induction p) auto

lemma splitOn_last: "CHR ''.'' \<notin> set p \<Longrightarrow> splitOn CHR ''.'' p = [p]"
  by (induction p) auto

lemma signedToken_split:
  "splitOn CHR ''.'' (TrimSpace (signedToken e a c)) =
     [base64Encode (ae_EncodeHeader e (tokenHeader a)), base64Encode (ae_EncodeClaims e c),
      base64Encode (ae_Sign e (as_activePrivateKey a) (signedBody e a c))]"
proof -
  have "list_all visible (signedToken e a c)"
    using base64_visible(1) by (simp add: signedToken_def signedBody_def visible_def)
  then show ?thesis
    by (simp add: TrimSpace_visible) (simp add: signedToken_def signedBody_def tokenHeader_def splitOn_parts splitOn_last base64_visible)
qed

lemma verifiedPayload_signedToken:
  assumes "wellConfigured e a" "tokenLaws e" "properKey e (as_activePrivateKey a)" "plain (as_activeKID a)" "plainClaims c"
  shows "verifiedPayload e a (signedToken e a c) = Some c"
proof -
  have "plain ''alg''" "plain ''EdDSA''" "plain ''kid''" "plain ''typ''" "plain ''JWT''"
    by (simp_all add: plain_visible visible_def)
  then have "ae_DecodeHeader e (ae_EncodeHeader e (tokenHeader a)) = Some (tokenHeader a)"
    using assms(2,4) by (simp add: tokenLaws_def tokenHeader_def)
  moreover have "base64Encode (ae_EncodeHeader e (tokenHeader a)) @ ''.'' @ base64Encode (ae_EncodeClaims e c) = signedBody e a c"
    by (simp add: signedBody_def tokenHeader_def)
  moreover have "mapGet [] (tokenHeader a) ''alg'' = ''EdDSA''" "mapGet [] (tokenHeader a) ''typ'' = ''JWT''"
    "mapGet [] (tokenHeader a) ''kid'' = as_activeKID a"
    by (simp_all add: tokenHeader_def mapGet_def)
  moreover have "TrimSpace (as_activeKID a) = as_activeKID a"
    "map_of (as_verificationKeys a) (as_activeKID a) = Some (ae_PublicKey e (as_activePrivateKey a))"
    using assms(1) by (simp_all add: wellConfigured_def trimmed_def)
  moreover have "ae_DecodeClaims e (ae_EncodeClaims e c) = Some c" "\<And>m. ae_Verify e (ae_PublicKey e (as_activePrivateKey a)) m (ae_Sign e (as_activePrivateKey a) m)"
    using assms(2,3,5) by (simp_all add: tokenLaws_def)
  ultimately show ?thesis by (simp add: verifiedPayload_def signedToken_split base64_round_trip)
qed

lemma verifySigned_signedToken:
  assumes "wellConfigured e a" "tokenLaws e" "properKey e (as_activePrivateKey a)" "plain (as_activeKID a)" "plainClaims c"
    "NewWorkspaceID (cl_WorkspaceID c) = Inr ws"
  shows "verifySigned e a (signedToken e a c) = (if claimsCurrent e a c then Inr c else Inl (authForbidden e ''auth.session_expired''))"
  using verifiedPayload_signedToken [OF assms(1-5)] assms(6) by (simp add: verifySigned_def)

subsection \<open>Sessions\<close>

text \<open>The claims \<open>prepareSession\<close> signs.\<close>

definition sessionClaims ::
  "authEnv \<Rightarrow> 's AuthDomainService \<Rightarrow> string \<Rightarrow> string \<Rightarrow> string \<Rightarrow> string \<Rightarrow> string \<Rightarrow> string \<Rightarrow> AuthenticationContext \<Rightarrow> AuthClaims" where
  "sessionClaims e a userID workspaceID sessionID audience revision jti authentication =
     zeroClaims\<lparr>cl_Issuer := as_issuer a, cl_Audience := audience, cl_Subject := userID,
       cl_WorkspaceID := workspaceID, cl_SessionID := sessionID, cl_AuthorizationRevision := revision,
       cl_AuthenticationTime := actx_AuthenticationTime authentication, cl_AuthenticationMethods := actx_Methods authentication,
       cl_AssuranceLevel := actx_AssuranceLevel authentication, cl_IssuedAt := unixOf (authNow e),
       cl_ExpiresAt := unixOf (authNow e + as_accessTTL a), cl_JTI := jti\<rparr>"

lemma randomToken_Inr:
  assumes "randomToken e w = (Inr t, w')"
  shows "t \<noteq> [] \<and> list_all visible t"
proof -
  obtain raw where t: "t = base64Encode raw" and l: "length raw = 32"
    using assms by (auto simp: randomToken_def randomTokenFrom_def split: sum.splits if_splits)
  have "raw \<noteq> []" using l by auto
  then obtain x xs where "raw = x # xs" by (cases raw) auto
  then have "t \<noteq> []" by (cases xs; cases "tl xs") (auto simp: t base64Encode_def)
  then show ?thesis by (simp add: t base64_visible(1))
qed

lemma randomTokenFor_Inr: "randomTokenFor e operation w = (Inr t, w') \<Longrightarrow> t \<noteq> [] \<and> list_all visible t"
  by (auto simp: randomTokenFor_def split: prod.splits sum.splits dest!: randomToken_Inr)

lemma andThen_elim:
  assumes "andThen m f w = (Inr y, w'')"
  obtains x w' where "m w = (Inr x, w')" "f x w' = (Inr y, w'')"
  using assms by auto

lemma claimDefaults_JTI [simp]: "cl_JTI (claimDefaults e a c) = cl_JTI c"
  by (simp add: claimDefaults_def Let_def)

lemma signClaims_identified:
  "cl_JTI c \<noteq> [] \<Longrightarrow> signClaims e a c w = (Inr (signedToken e a (claimDefaults e a c)), w)"
  by (simp add: signClaims_def Let_def)

lemma sessionIdentifier:
  "(if sessionID0 = [] then randomTokenFor e operation else ret sessionID0) w = (Inr sessionID, w') \<Longrightarrow>
     sessionID \<noteq> [] \<and> (if sessionID0 = [] then list_all visible sessionID else sessionID = sessionID0)"
  by (auto split: if_splits dest: randomTokenFor_Inr)

lemma au_ID_authUser [simp]: "au_ID (authUser a user) = user_ID user"
  by (simp add: authUser_def Let_def)

lemma prepareSession_Inr:
  fixes a :: "'s AuthDomainService"
  assumes "prepareSession e a c workspaceID0 user sessionID0 audience0 authentication0 w = (Inr (ses, tok), w')"
  shows "\<exists>jti principal (t :: 's world) t' s s'.
    randomTokenFor e ''generate access token identifier'' t = (Inr jti, t')
    \<and> ip_ResolvePrincipal (as_identity a) c (user_ID user) s = (Inr principal, s')
    \<and> NewWorkspaceID workspaceID0 = Inr (ses_WorkspaceID ses)
    \<and> ses_SessionID ses \<noteq> []
    \<and> (if sessionID0 = [] then list_all visible (ses_SessionID ses) else ses_SessionID ses = sessionID0)
    \<and> au_ID (ses_User ses) = user_ID user \<and> tok_SessionID tok = ses_SessionID ses \<and> tok_UserID tok = user_ID user
    \<and> tok_RevokedAt tok = [] \<and> tok_TokenHash tok = hashRefreshToken e (ses_RefreshToken ses)
    \<and> tok_Audience tok = (if TrimSpace audience0 = [] then as_audience a else TrimSpace audience0)
    \<and> ses_AccessToken ses = signedToken e a (claimDefaults e a (sessionClaims e a (user_ID user) (ses_WorkspaceID ses)
         (ses_SessionID ses) (tok_Audience tok)
         (if prin_AuthorizationRevision principal = [] then ''bootstrap-'' @ user_ID user else prin_AuthorizationRevision principal)
         jti (normalizeAuthenticationContext authentication0 (authNow e))))"
  using assms unfolding prepareSession_def Let_def
  apply (elim andThen_elim)
  apply (simp only: onStore_Inr liftRes_simps ret_simps prod.inject sum.inject)
  apply (elim exE conjE)
  apply hypsubst
  apply (drule sessionIdentifier)
  apply (frule randomTokenFor_Inr [where operation = "''generate access token identifier''"])
  apply (intro exI conjI)
                apply assumption
               apply assumption
  by (simp_all add: signClaims_identified sessionClaims_def)

text \<open>The issuer that the signer writes: the configured one, trimmed once more.\<close>

abbreviation signedIssuer :: "'s AuthDomainService \<Rightarrow> string" where
  "signedIssuer a \<equiv> valueOrDefault (as_issuer a) (as_issuer a)"

lemma claimDefaults_session:
  assumes "TrimSpace audience = audience" "audience \<noteq> []" "revision \<noteq> []" "0 < unixOf (authNow e)"
    "actx_AuthenticationTime authentication \<noteq> 0"
  shows "claimDefaults e a (sessionClaims e a userID workspaceID sessionID audience revision jti authentication) =
     (sessionClaims e a userID workspaceID sessionID audience revision jti authentication)\<lparr>cl_Issuer := signedIssuer a\<rparr>"
  using assms by (simp add: claimDefaults_def Let_def sessionClaims_def) (simp add: valueOrDefault_def)

lemma normalized_time: "0 < unixOf now \<Longrightarrow> actx_AuthenticationTime (normalizeAuthenticationContext v now) \<noteq> 0"
  by (simp add: normalizeAuthenticationContext_def Let_def unixOf_def)

lemma later_second: "second \<le> d \<Longrightarrow> t div second < (t + d) div second"
  using zdiv_mono1 [of "t + second" "t + d" second] by simp

text \<open>
  C27 A session's access token is accepted: whatever random values were drawn, a session that
  has been prepared carries a token whose signature and claims verify, and the claims name
  the user, workspace, session and audience that the session and its refresh record name.
  The one exception is an issuer that was configured with a blank before its trailing
  slashes: then every such token is refused.
\<close>

theorem session_token_verifies:
  fixes a :: "'s AuthDomainService"
  assumes "configured e a" "tokenLaws e" "second \<le> as_accessTTL a" "0 < unixOf (authNow e)"
    and "prepareSession e a c workspaceID user sessionID audience authentication w = (Inr (ses, tok), w')"
    and "user_ID user \<noteq> []" "\<And>s p s'. ip_ResolvePrincipal (as_identity a) c (user_ID user) s = (Inr p, s') \<Longrightarrow> plain (prin_AuthorizationRevision p)"
    and "list_all plain ([as_activeKID a, signedIssuer a, as_audience a, user_ID user, TrimSpace workspaceID, sessionID,
           TrimSpace audience, actx_AssuranceLevel (normalizeAuthenticationContext authentication (authNow e))]
         @ actx_Methods (normalizeAuthenticationContext authentication (authNow e)))"
    and "properKey e (as_activePrivateKey a)"
  shows "if signedIssuer a = as_issuer a
    then \<exists>claims. verifySigned e a (ses_AccessToken ses) = Inr claims
      \<and> cl_Subject claims = user_ID user \<and> cl_WorkspaceID claims = ses_WorkspaceID ses
      \<and> cl_SessionID claims = ses_SessionID ses \<and> cl_SessionID claims = tok_SessionID tok
      \<and> cl_Audience claims = tok_Audience tok \<and> cl_ServiceApplicationKey claims = [] \<and> cl_TokenPurpose claims = []
    else verifySigned e a (ses_AccessToken ses) = Inl (authForbidden e ''auth.session_expired'')"
proof -
  note wf = configured_wellConfigured [OF assms(1)]
  from prepareSession_Inr [OF assms(5)] obtain jti principal s s' and t t' :: "'s world" where
    t: "randomTokenFor e ''generate access token identifier'' t = (Inr jti, t')"
    and p: "ip_ResolvePrincipal (as_identity a) c (user_ID user) s = (Inr principal, s')"
    and ws: "NewWorkspaceID workspaceID = Inr (ses_WorkspaceID ses)"
    and sid: "ses_SessionID ses \<noteq> []" "if sessionID = [] then list_all visible (ses_SessionID ses) else ses_SessionID ses = sessionID"
    and tok: "tok_SessionID tok = ses_SessionID ses"
      "tok_Audience tok = (if TrimSpace audience = [] then as_audience a else TrimSpace audience)"
    and access: "ses_AccessToken ses = signedToken e a (claimDefaults e a (sessionClaims e a (user_ID user) (ses_WorkspaceID ses)
         (ses_SessionID ses) (tok_Audience tok)
         (if prin_AuthorizationRevision principal = [] then ''bootstrap-'' @ user_ID user else prin_AuthorizationRevision principal)
         jti (normalizeAuthenticationContext authentication (authNow e))))"
    by (elim exE conjE) (rule that)
  define revision where "revision = (if prin_AuthorizationRevision principal = [] then ''bootstrap-'' @ user_ID user else prin_AuthorizationRevision principal)"
  define claims where "claims = (sessionClaims e a (user_ID user) (ses_WorkspaceID ses) (ses_SessionID ses) (tok_Audience tok)
         revision jti (normalizeAuthenticationContext authentication (authNow e)))\<lparr>cl_Issuer := signedIssuer a\<rparr>"
  have aud: "TrimSpace (tok_Audience tok) = tok_Audience tok" "tok_Audience tok \<noteq> []" "plain (tok_Audience tok)"
    using wf assms(8) by (simp_all add: tok(2) wellConfigured_def trimmed_def)
  have wsid: "ses_WorkspaceID ses = TrimSpace workspaceID"
    using ws by (auto simp: NewWorkspaceID_def Let_def split: if_splits)
  have rev: "revision \<noteq> []" "plain revision"
    using assms(7) [OF p] assms(8) plain_append [of "''bootstrap-''"] by (simp_all add: revision_def visible_def)
  have token: "ses_AccessToken ses = signedToken e a claims"
    by (simp only: access claims_def claimDefaults_session [OF aud(1,2) rev(1) assms(4) normalized_time [OF assms(4)]] flip: revision_def)
  have jti: "jti \<noteq> []" "plain jti" using randomTokenFor_Inr [OF t] plain_visible by auto
  have "plain (ses_SessionID ses)" using sid(2) assms(8) plain_visible by (auto split: if_splits)
  moreover have "plain []" by (simp add: plain_def)
  ultimately have p: "plainClaims claims"
    using assms(8) aud rev jti wsid by (simp add: plainClaims_def claims_def sessionClaims_def zeroClaims_def)
  have c: "claimsCurrent e a claims \<longleftrightarrow> signedIssuer a = as_issuer a"
    using aud sid(1) rev(1) jti(1) assms(6) later_second [OF assms(3)] zdiv_mono1 [of "authNow e" "authNow e + minute" second]
    by (simp add: claimsCurrent_def claims_def sessionClaims_def zeroClaims_def unixOf_def)
  have "NewWorkspaceID (cl_WorkspaceID claims) = Inr (ses_WorkspaceID ses)"
    using ws wsid by (simp add: NewWorkspaceID_def Let_def claims_def sessionClaims_def split: if_splits)
  then have "verifySigned e a (signedToken e a claims) =
      (if signedIssuer a = as_issuer a then Inr claims else Inl (authForbidden e ''auth.session_expired''))"
    unfolding c [symmetric] using wf assms(2,8,9) p by (intro verifySigned_signedToken) simp_all
  moreover have "cl_Subject claims = user_ID user" "cl_WorkspaceID claims = ses_WorkspaceID ses" "cl_SessionID claims = ses_SessionID ses"
    "cl_Audience claims = tok_Audience tok" "cl_ServiceApplicationKey claims = []" "cl_TokenPurpose claims = []"
    by (simp_all add: claims_def sessionClaims_def zeroClaims_def)
  ultimately show ?thesis using tok(1) token by simp
qed

lemma sample_tokenLaws: "tokenLaws sampleAuthEnv"
  by (auto simp: tokenLaws_def sampleAuthEnv_def min_def)

lemma bareService_proper: "properKey sampleAuthEnv (as_activePrivateKey bareService)"
  unfolding bareService_def by (rule properKey_built [OF sample_tokenLaws])

lemma bareService_configured: "configured sampleAuthEnv bareService"
  unfolding bareService_def by (rule configured.built)

theorem configured_services_witness:
  "wellConfigured sampleAuthEnv bareService"
  by (rule configured_services [OF bareService_configured])

lemma bareService_fields:
  "as_activeKID bareService = ''dev-v1''" "as_issuer bareService = ''http://localhost:8081''"
  "as_audience bareService = ''domainry-runtime''" "as_accessTTL bareService = 15 * minute"
  "as_identity bareService = bareIdentity" "as_identityStore bareService = bareRepository"
proof -
  have "TrimSpace ''dev-v1'' = ''dev-v1''" "TrimSpace ''dev-generated-auth-secret-change-me'' = ''dev-generated-auth-secret-change-me''"
    using trimmed_literals by (simp_all add: trimmed_def)
  then show "as_activeKID bareService = ''dev-v1''" "as_issuer bareService = ''http://localhost:8081''"
    "as_audience bareService = ''domainry-runtime''" "as_accessTTL bareService = 15 * minute"
    "as_identity bareService = bareIdentity" "as_identityStore bareService = bareRepository"
    by (simp_all add: bareService_def NewAuthDomainService_def Let_def ConfigureSigningKeys_def)
qed

lemma sample_randomToken: "randomTokenFor sampleAuthEnv operation w = (Inr (base64Encode (replicate 32 (chr (w_random w)))), w\<lparr>w_random := Suc (w_random w)\<rparr>)"
  by (simp add: randomTokenFor_def randomToken_def randomTokenFrom_def sampleAuthEnv_def)

lemma sample_signClaims: "\<exists>t w'. signClaims sampleAuthEnv a c w = (Inr t, w')"
  by (simp add: signClaims_def Let_def andThen_def sample_randomToken)

lemma sample_session:
  "\<exists>ses tok w'. prepareSession sampleAuthEnv bareService sampleCtx ''acme'' (sampleUser ''u1'') [] [] passwordAuthenticationContext emptyWorld
     = (Inr (ses, tok), w')"
proof -
  have "NewWorkspaceID ''acme'' = Inr ''acme''" by code_simp
  then show ?thesis
    using sample_signClaims [of bareService]
    by (fastforce simp: prepareSession_def bareService_fields bareIdentity_def bareRepository_def RequiresPasswordChange_def
      sample_randomToken Let_def)
qed

theorem session_token_verifies_witness:
  "\<exists>ses tok w' claims. prepareSession sampleAuthEnv bareService sampleCtx ''acme'' (sampleUser ''u1'') [] [] passwordAuthenticationContext emptyWorld
     = (Inr (ses, tok), w') \<and> verifySigned sampleAuthEnv bareService (ses_AccessToken ses) = Inr claims \<and> cl_Subject claims = ''u1''"
proof -
  obtain ses tok w' where p: "prepareSession sampleAuthEnv bareService sampleCtx ''acme'' (sampleUser ''u1'') [] [] passwordAuthenticationContext emptyWorld
      = (Inr (ses, tok), w')"
    using sample_session by blast
  have "normalizeAuthenticationContext passwordAuthenticationContext (authNow sampleAuthEnv) =
      \<lparr>actx_AuthenticationTime = unixOf (authNow sampleAuthEnv), actx_Methods = [''pwd''], actx_AssuranceLevel = ''urn:domainry:acr:1''\<rparr>"
    by code_simp
  moreover have "user_ID (sampleUser ''u1'') = ''u1''" by code_simp
  moreover have "plain (prin_AuthorizationRevision q)" if "ip_ResolvePrincipal (as_identity bareService) sampleCtx (user_ID (sampleUser ''u1'')) s = (Inr q, s')" for s q s'
    using that by (auto simp: bareService_fields bareIdentity_def samplePrincipal_def plain_visible visible_def)
  moreover have "0 < unixOf (authNow sampleAuthEnv)" by code_simp
  moreover have "TrimSpace ''acme'' = ''acme''" by code_simp
  moreover have i: "signedIssuer bareService = as_issuer bareService"
    using trimmed_literals(3) by (simp add: bareService_fields valueOrDefault_def trimmed_def)
  ultimately have "\<exists>claims. verifySigned sampleAuthEnv bareService (ses_AccessToken ses) = Inr claims \<and> cl_Subject claims = ''u1''"
    using session_token_verifies [OF bareService_configured sample_tokenLaws _ _ p _ _ _ bareService_proper] unfolding i
    by (fastforce simp: bareService_fields plain_visible visible_def)
  with p show ?thesis by blast
qed

subsection \<open>Tokens of application services\<close>

lemma hexEncode_visible: "list_all visible (hexEncode s)"
proof -
  have "list_all (\<lambda>d. visible (hexDigit d)) [0..<16]" by code_simp
  then have "d < 16 \<Longrightarrow> visible (hexDigit d)" for d by (simp add: list_all_iff)
  moreover have "byte c div 16 < 16" for c :: char using byte_less [of c] by (simp add: less_mult_imp_div_less)
  ultimately show ?thesis by (auto simp: hexEncode_def list_all_iff)
qed

lemma hexEncode_Nil [simp]: "hexEncode s = [] \<longleftrightarrow> s = []"
  by (cases s) (simp_all add: hexEncode_def)

lemma service_prefix: "plain (''service:'' @ s) = plain s"
  by (rule plain_append) (simp add: visible_def)

text \<open>The claims of a service token.\<close>

definition serviceClaims ::
  "authEnv \<Rightarrow> 's AuthDomainService \<Rightarrow> string \<Rightarrow> string \<Rightarrow> string \<Rightarrow> string \<Rightarrow> AuthServiceGrant list \<Rightarrow> string \<Rightarrow> AuthClaims" where
  "serviceClaims e a workspaceID applicationKey audience credentialID grants jti =
     zeroClaims\<lparr>cl_Issuer := as_issuer a, cl_Audience := audience,
       cl_Subject := ''service:'' @ applicationKey, cl_WorkspaceID := workspaceID, cl_SessionID := ''service:'' @ credentialID,
       cl_AuthorizationRevision := hexEncode (ae_SHA256 e (serviceFingerprint [workspaceID, applicationKey, audience, credentialID] grants)),
       cl_AuthenticationTime := unixOf (authNow e), cl_AuthenticationMethods := [''application_credential''],
       cl_AssuranceLevel := ''urn:domainry:acr:service'', cl_IssuedAt := unixOf (authNow e),
       cl_ExpiresAt := unixOf (authNow e + 5 * minute), cl_JTI := jti, cl_ServiceApplicationKey := applicationKey,
       cl_ServiceCredentialID := credentialID, cl_ServiceGrants := grants\<rparr>"

lemma IssueApplicationServiceToken_Inr:
  assumes "IssueApplicationServiceToken e a c workspaceID applicationKey audience credentialID grants w = (Inr (token, expiresAt, revision), w')"
  shows "\<exists>jti. jti \<noteq> [] \<and> list_all visible jti \<and> TrimSpace applicationKey \<noteq> [] \<and> TrimSpace audience \<noteq> [] \<and> TrimSpace credentialID \<noteq> []
    \<and> token = signedToken e a (claimDefaults e a (serviceClaims e a (TrimSpace workspaceID) (TrimSpace applicationKey)
        (TrimSpace audience) (TrimSpace credentialID) (sortedGrants grants) jti))"
  using assms unfolding IssueApplicationServiceToken_def Let_def
  apply (elim andThen_elim)
  apply (simp only: check_Inr ret_simps prod.inject sum.inject)
  apply (elim exE conjE)
  apply hypsubst
  apply (frule randomTokenFor_Inr)
  apply (elim conjE)
  apply (intro exI conjI)
       prefer 2 apply assumption
  by (simp_all add: signClaims_identified serviceClaims_def)

lemma claimDefaults_service:
  assumes "TrimSpace (as_issuer a) = as_issuer a" "tokenLaws e" "TrimSpace audience = audience" "audience \<noteq> []" "0 < unixOf (authNow e)"
  shows "claimDefaults e a (serviceClaims e a workspaceID applicationKey audience credentialID grants jti) =
     serviceClaims e a workspaceID applicationKey audience credentialID grants jti"
proof -
  have "ae_SHA256 e m \<noteq> []" for m using assms(2) by (auto simp: tokenLaws_def) (metis length_0_conv zero_neq_numeral)
  then show ?thesis
    using assms by (simp add: claimDefaults_def Let_def serviceClaims_def valueOrDefault_def wellConfigured_def trimmed_def zeroClaims_def)
qed

lemma set_sortedGrants [simp]: "set (sortedGrants gs) = set gs"
  by (simp add: sortedGrants_def set_sortSlice)

lemma service_token_payload:
  assumes "configured e a" "tokenLaws e" "0 < unixOf (authNow e)"
    and "IssueApplicationServiceToken e a c workspaceID applicationKey audience credentialID grants w = (Inr (token, expiresAt, revision), w')"
    and "NewWorkspaceID workspaceID = Inr ws"
    and "list_all plain ([as_activeKID a, as_issuer a, ws, TrimSpace applicationKey, TrimSpace audience, TrimSpace credentialID]
         @ map grantRes grants @ map grantAct grants)"
    and "TrimSpace (as_issuer a) = as_issuer a" "properKey e (as_activePrivateKey a)"
  shows "\<exists>jti. verifySigned e a token = Inr (serviceClaims e a ws (TrimSpace applicationKey)
      (TrimSpace audience) (TrimSpace credentialID) (sortedGrants grants) jti)
    \<and> TrimSpace applicationKey \<noteq> [] \<and> TrimSpace credentialID \<noteq> []"
proof -
  note wf = configured_wellConfigured [OF assms(1)]
  have ws: "ws = TrimSpace workspaceID" "NewWorkspaceID ws = Inr ws"
    using assms(5) by (auto simp: NewWorkspaceID_Inr_iff)
  from IssueApplicationServiceToken_Inr [OF assms(4)] obtain jti where jti: "jti \<noteq> []" "list_all visible jti"
    and n: "TrimSpace applicationKey \<noteq> []" "TrimSpace audience \<noteq> []" "TrimSpace credentialID \<noteq> []"
    and t: "token = signedToken e a (claimDefaults e a (serviceClaims e a ws (TrimSpace applicationKey)
        (TrimSpace audience) (TrimSpace credentialID) (sortedGrants grants) jti))"
    unfolding ws(1) by blast
  define claims where "claims = serviceClaims e a ws (TrimSpace applicationKey) (TrimSpace audience) (TrimSpace credentialID) (sortedGrants grants) jti"
  have sha: "ae_SHA256 e m \<noteq> []" for m using assms(2) by (auto simp: tokenLaws_def) (metis length_0_conv zero_neq_numeral)
  have "plain []" "plain ''application_credential''" "plain ''urn:domainry:acr:service''"
    by (simp_all add: plain_visible visible_def)
  then have "plainClaims claims"
    using assms(6) plain_visible [OF jti(2)] plain_visible [OF hexEncode_visible]
    by (simp add: plainClaims_def claims_def serviceClaims_def zeroClaims_def service_prefix [simplified] list_all_iff)
  moreover have "claimsCurrent e a claims"
    using jti(1) n sha zdiv_mono1 [of "authNow e" "authNow e + minute" second] later_second [of "5 * minute" "authNow e"]
    by (simp add: claimsCurrent_def claims_def serviceClaims_def zeroClaims_def unixOf_def)
  ultimately have "verifySigned e a (signedToken e a claims) = Inr claims"
    using verifySigned_signedToken [OF wf assms(2,8)] assms(6) ws(2) by (simp add: claims_def serviceClaims_def)
  with t claimDefaults_service [OF assms(7,2) _ n(2) assms(3)] n show ?thesis
    by (intro exI [of _ jti]) (simp add: claims_def)
qed

text \<open>
  C28 Under an issuer without surrounding blanks and a proper key, which every service has
  that is configured without a blank before the issuer's slashes and without a malformed
  private key, a token issued to an application service is good for exactly its purpose: it verifies
  for its audience and the granted pairs of resource and action and for no other pair, it
  is refused where a user's token is expected, and it is no receipt of a verified action.
\<close>

theorem service_token_scope:
  assumes "configured e a" "tokenLaws e" "0 < unixOf (authNow e)"
    and "IssueApplicationServiceToken e a c workspaceID applicationKey audience credentialID grants w = (Inr (token, expiresAt, revision), w')"
    and "NewWorkspaceID workspaceID = Inr ws" "ctx_Err c' = None"
    and "list_all plain ([as_activeKID a, as_issuer a, ws, TrimSpace applicationKey, TrimSpace audience, TrimSpace credentialID]
         @ map grantRes grants @ map grantAct grants)"
    and "TrimSpace (as_issuer a) = as_issuer a" "properKey e (as_activePrivateKey a)"
  shows "fst (VerifyAccessToken e a c' token w2) = Inl (authForbidden e ''auth.user_token_required'')
    \<and> fst (ValidateActionAssuranceReceipt e a c' token workspaceID2 userID2 w2) = Inl (authForbidden e ''auth.action_assurance_receipt_invalid'')
    \<and> (\<exists>claims. cl_WorkspaceID claims = ws \<and> cl_ServiceApplicationKey claims = TrimSpace applicationKey
        \<and> fst (VerifyApplicationServiceToken e a c' token audience resource action w2) =
           (if (TrimSpace resource, TrimSpace action) \<in> (\<lambda>g. (grantRes g, grantAct g)) ` set grants then Inr claims
            else Inl (authForbidden e ''identity.application_service_grant_denied'')))"
proof -
  obtain jti where v: "verifySigned e a token = Inr (serviceClaims e a ws (TrimSpace applicationKey)
      (TrimSpace audience) (TrimSpace credentialID) (sortedGrants grants) jti)"
    and n: "TrimSpace applicationKey \<noteq> []" "TrimSpace credentialID \<noteq> []"
    using service_token_payload [OF assms(1-5,7-9)] by blast
  have "VerifySignedAccessToken e a c' token w2 = (Inr (serviceClaims e a ws (TrimSpace applicationKey)
      (TrimSpace audience) (TrimSpace credentialID) (sortedGrants grants) jti), w2)"
    using v assms(6) by (simp add: VerifySignedAccessToken_def ctxErr_def)
  moreover have "list_ex (\<lambda>g. grantRes g = r \<and> grantAct g = t) (sortedGrants grants) \<longleftrightarrow> (r, t) \<in> (\<lambda>g. (grantRes g, grantAct g)) ` set grants" for r t
    by (auto simp: list_ex_iff image_iff)
  ultimately show ?thesis
    using n
    by (intro conjI exI [of _ "serviceClaims e a ws (TrimSpace applicationKey) (TrimSpace audience) (TrimSpace credentialID) (sortedGrants grants) jti"])
      (simp_all add: VerifyAccessToken_def ValidateActionAssuranceReceipt_def VerifyApplicationServiceToken_def andThen_def check_def
        serviceClaims_def zeroClaims_def del: set_sortedGrants)
qed

definition sampleGrant :: AuthServiceGrant where
  "sampleGrant = \<lparr>grantRes = ''orders'', grantAct = ''read''\<rparr>"

lemma sample_service_token:
  "\<exists>token expiresAt revision w'. IssueApplicationServiceToken sampleAuthEnv bareService sampleCtx ''acme'' ''erp'' ''erp-api'' ''k1'' [sampleGrant] emptyWorld
     = (Inr (token, expiresAt, revision), w')"
proof -
  have "TrimSpace ''acme'' = ''acme''" "TrimSpace ''erp'' = ''erp''" "TrimSpace ''erp-api'' = ''erp-api''" "TrimSpace ''k1'' = ''k1''"
    "TrimSpace (grantRes sampleGrant) = ''orders''" "TrimSpace (grantAct sampleGrant) = ''read''"
    "sortedGrants [sampleGrant] = [sampleGrant]" by code_simp+
  then show ?thesis
    using sample_signClaims [of bareService]
    by (fastforce simp: IssueApplicationServiceToken_def Let_def ctxErr_def sampleCtx_def sample_randomToken)
qed

theorem service_token_scope_witness:
  "\<exists>token expiresAt revision w' claims.
     IssueApplicationServiceToken sampleAuthEnv bareService sampleCtx ''acme'' ''erp'' ''erp-api'' ''k1'' [sampleGrant] emptyWorld
       = (Inr (token, expiresAt, revision), w')
     \<and> fst (VerifyAccessToken sampleAuthEnv bareService sampleCtx token emptyWorld) = Inl (authForbidden sampleAuthEnv ''auth.user_token_required'')
     \<and> fst (VerifyApplicationServiceToken sampleAuthEnv bareService sampleCtx token ''erp-api'' ''orders'' ''read'' emptyWorld) = Inr claims"
proof -
  obtain token expiresAt revision w' where t: "IssueApplicationServiceToken sampleAuthEnv bareService sampleCtx ''acme'' ''erp'' ''erp-api'' ''k1'' [sampleGrant] emptyWorld
     = (Inr (token, expiresAt, revision), w')"
    using sample_service_token by blast
  have f: "0 < unixOf (authNow sampleAuthEnv)" "NewWorkspaceID ''acme'' = Inr ''acme''" "ctx_Err sampleCtx = None"
    "TrimSpace ''erp'' = ''erp''" "TrimSpace ''erp-api'' = ''erp-api''" "TrimSpace ''k1'' = ''k1''"
    "TrimSpace ''orders'' = ''orders''" "TrimSpace ''read'' = ''read''"
    "grantRes sampleGrant = ''orders''" "grantAct sampleGrant = ''read''" by code_simp+
  have p: "list_all plain ([as_activeKID bareService, as_issuer bareService, ''acme'', TrimSpace ''erp'', TrimSpace ''erp-api'', TrimSpace ''k1'']
         @ map grantRes [sampleGrant] @ map grantAct [sampleGrant])"
    by (simp add: f bareService_fields plain_visible visible_def)
  have i: "TrimSpace (as_issuer bareService) = as_issuer bareService"
    using trimmed_literals(3) by (simp add: bareService_fields trimmed_def)
  show ?thesis
    using service_token_scope [OF bareService_configured sample_tokenLaws f(1) t f(2,3) p i bareService_proper, of emptyWorld _ _ "''orders''" "''read''"] t
    by (simp add: f) blast
qed


section \<open>Properties of passwords\<close>

lemma length_sextets: "length bs = 3 * k \<Longrightarrow> length (sextets bs) = 4 * k"
proof (induction k arbitrary: bs)
  case (Suc k)
  then obtain a b c r where "bs = a # b # c # r"
    by (cases bs; cases "tl bs"; cases "tl (tl bs)") auto
  with Suc show ?case by simp
qed simp

text \<open>
  The one-time password handed to a new user satisfies every policy that does not ask
  for more than its 28 characters, whatever classes of characters the policy requires, and
  contains no blank, so trimming it later changes nothing.
\<close>

theorem initial_password_complies:
  assumes "generateInitialPassword e w = (Inr password, w')" "pp_MinLength (as_passwordPolicy a) \<le> 28"
  shows "validatePassword e a password = Inr () \<and> length password = 28 \<and> TrimSpace password = password"
proof -
  obtain raw where p: "password = ''Vd!9'' @ base64Encode raw" and l: "length raw = 18"
    using assms(1) by (auto simp: generateInitialPassword_def split: sum.splits if_splits)
  have "length (base64Encode raw) = 24"
    using l length_sextets [of "map byte raw" 6] by (simp add: base64Encode_def)
  moreover have v: "list_all visible password" by (simp add: p base64_visible visible_def)
  ultimately show ?thesis
    using assms(2) initial_password_passes [OF visible_ascii [OF base64_visible(1) [of raw]]] TrimSpace_visible [OF v]
    by (simp add: validatePassword_def p)
qed

theorem initial_password_complies_witness:
  "AuthValidatePassword (ae_Unicode sampleAuthEnv)
     \<lparr>pp_MinLength = 28, pp_RequireUpper = True, pp_RequireLower = True, pp_RequireNumber = True, pp_RequireSymbol = True\<rparr>
     ''Vd!9AAAAAAAAAAAAAAAAAAAAAAAA'' = Inr ()"
proof -
  define a where "a = bareService\<lparr>as_passwordPolicy := \<lparr>pp_MinLength = 28, pp_RequireUpper = True, pp_RequireLower = True,
    pp_RequireNumber = True, pp_RequireSymbol = True\<rparr>\<rparr>"
  have "base64Encode (replicate 18 (chr 0)) = ''AAAAAAAAAAAAAAAAAAAAAAAA''" by code_simp
  then have "generateInitialPassword sampleAuthEnv emptyWorld = (Inr ''Vd!9AAAAAAAAAAAAAAAAAAAAAAAA'', emptyWorld\<lparr>w_random := 1\<rparr>)"
    by (simp add: generateInitialPassword_def sampleAuthEnv_def emptyWorld_def)
  from initial_password_complies [OF this, of a] show ?thesis by (simp add: a_def validatePassword_def)
qed

end
