(* ===== verification/AuthLogic.thy ===== *)
theory AuthLogic
  imports AuthService
begin

section \<open>A Hoare logic for operations\<close>

text \<open>
  \<open>triple P m Q E\<close>: started in a world with \<open>P\<close>, an operation that returns
  ends with \<open>Q\<close> of its value and world, and one that fails ends with \<open>E\<close> of its
  error and world.  \<open>keeps I m\<close>: the operation keeps \<open>I\<close> either way.
\<close>

named_theorems triples "rules that take an operation apart"

definition triple :: "('w \<Rightarrow> bool) \<Rightarrow> ('w, 'a) op \<Rightarrow> ('a \<Rightarrow> 'w \<Rightarrow> bool) \<Rightarrow> (go_error \<Rightarrow> 'w \<Rightarrow> bool) \<Rightarrow> bool" where
  "triple P m Q E \<longleftrightarrow> (\<forall>w r w'. P w \<longrightarrow> m w = (r, w') \<longrightarrow> (case r of Inl err \<Rightarrow> E err w' | Inr x \<Rightarrow> Q x w'))"

definition keeps :: "('w \<Rightarrow> bool) \<Rightarrow> ('w, 'a) op \<Rightarrow> bool" where
  "keeps I m \<longleftrightarrow> (\<forall>w. I w \<longrightarrow> I (snd (m w)))"

lemma tripleD:
  "triple P m Q E \<Longrightarrow> P w \<Longrightarrow> m w = (Inr x, w') \<Longrightarrow> Q x w'"
  "triple P m Q E \<Longrightarrow> P w \<Longrightarrow> m w = (Inl err, w') \<Longrightarrow> E err w'"
  by (fastforce simp: triple_def)+

lemma triple_keeps: "keeps I m \<longleftrightarrow> triple I m (\<lambda>_. I) (\<lambda>_. I)"
proof -
  have "(case r of Inl _ \<Rightarrow> b | Inr _ \<Rightarrow> b) = b" for r :: "go_error + 'c" and b by (cases r) simp_all
  then show ?thesis unfolding keeps_def triple_def by (metis prod.collapse snd_conv)
qed

lemma triple_weaken:
  "triple P m Q E \<Longrightarrow> (\<And>w. P' w \<Longrightarrow> P w) \<Longrightarrow> (\<And>x w. Q x w \<Longrightarrow> Q' x w) \<Longrightarrow> (\<And>err w. E err w \<Longrightarrow> E' err w) \<Longrightarrow> triple P' m Q' E'"
  by (fastforce simp: triple_def split: sum.splits)

lemma triple_ret: "(\<And>w. P w \<Longrightarrow> Q x w) \<Longrightarrow> triple P (ret x) Q E"
  by (simp add: triple_def ret_def)

lemma triple_raise: "(\<And>w. P w \<Longrightarrow> E err w) \<Longrightarrow> triple P (raise err) Q E"
  by (simp add: triple_def raise_def)

lemma triple_andThen [triples]:
  "triple P m R E \<Longrightarrow> (\<And>x. triple (R x) (f x) Q E) \<Longrightarrow> triple P (andThen m f) Q E"
  unfolding triple_def andThen_def by (fastforce split: prod.splits sum.splits)

lemma triple_check [triples]: "(\<And>w. P w \<Longrightarrow> \<not> b \<Longrightarrow> E err w) \<Longrightarrow> triple P (check b err) (\<lambda>_ w. P w \<and> b) E"
  by (simp add: triple_def check_def raise_def ret_def)

lemma triple_liftRes [triples]: "(\<And>w err. P w \<Longrightarrow> r = Inl err \<Longrightarrow> E err w) \<Longrightarrow> triple P (liftRes r) (\<lambda>x w. P w \<and> r = Inr x) E"
  by (simp add: triple_def split: sum.splits)

subsection \<open>Invariants\<close>

lemma keeps_ret [triples]: "keeps I (ret x)"
  by (simp add: keeps_def)

lemma keeps_raise [triples]: "keeps I (raise err)"
  by (simp add: keeps_def)

lemma keeps_check [triples]: "keeps I (check b err)"
  by (simp add: keeps_def check_def)

lemma keeps_liftRes [triples]: "keeps I (liftRes r)"
  by (simp add: keeps_def)

lemma keeps_ctxErr [triples]: "keeps I (ctxErr c)"
  by (simp add: keeps_def ctxErr_def split: option.split)

lemma keeps_andThen [triples]: "keeps I m \<Longrightarrow> (\<And>x. keeps I (f x)) \<Longrightarrow> keeps I (andThen m f)"
  by (auto simp: keeps_def andThen_def split: prod.splits sum.splits; metis snd_conv)

lemma keeps_dropError [triples]: "keeps I m \<Longrightarrow> keeps I (dropError m)"
  by (simp add: keeps_def dropError_def)

lemma keeps_forEach [triples]: "(\<And>x. keeps I (f x)) \<Longrightarrow> keeps I (forEach f xs)"
  by (induction xs) (auto intro: triples)

lemma keeps_if [triples]: "keeps I m \<Longrightarrow> keeps I n \<Longrightarrow> keeps I (if b then m else n)"
  by simp

lemma keeps_option [triples]: "keeps I m \<Longrightarrow> (\<And>x. keeps I (f x)) \<Longrightarrow> keeps I (case v of None \<Rightarrow> m | Some x \<Rightarrow> f x)"
  by (simp split: option.split)

lemma keeps_pair [triples]: "(\<And>x y. keeps I (f x y)) \<Longrightarrow> keeps I (case v of (x, y) \<Rightarrow> f x y)"
  by (simp split: prod.split)

lemma keeps_sum [triples]: "(\<And>x. keeps I (f x)) \<Longrightarrow> (\<And>y. keeps I (g y)) \<Longrightarrow> keeps I (case v of Inl x \<Rightarrow> f x | Inr y \<Rightarrow> g y)"
  by (simp split: sum.split)

lemma keeps_Let [triples]: "(\<And>x. keeps I (f x)) \<Longrightarrow> keeps I (let x = v in f x)"
  by simp

text \<open>An invariant of the store, and one of the challenges.\<close>

lemma keeps_onStore: "keeps J m \<Longrightarrow> keeps (\<lambda>w. J (w_store w)) (onStore m)"
  by (auto simp: keeps_def onStore_def split: prod.split; metis snd_conv)

lemma keeps_challenges_onStore: "keeps (\<lambda>w. w_challenges w = x) (onStore m)"
  by (simp add: keeps_def onStore_def split: prod.split)

lemma randomToken_world [simp]:
  "w_store (snd (randomToken e w)) = w_store w" "w_challenges (snd (randomToken e w)) = w_challenges w"
  by (simp_all add: randomToken_def split: prod.split)

lemma randomDigits_world [simp]:
  "w_store (snd (randomDigits e n w)) = w_store w" "w_challenges (snd (randomDigits e n w)) = w_challenges w"
  by (simp_all add: randomDigits_def split: prod.split)

lemma randomTokenFor_world [simp]:
  "w_store (snd (randomTokenFor e operation w)) = w_store w" "w_challenges (snd (randomTokenFor e operation w)) = w_challenges w"
  using randomToken_world [of e w] by (auto simp: randomTokenFor_def simp del: randomToken_world split: prod.split sum.split)

lemma keeps_random [triples]:
  "keeps (\<lambda>w. J (w_store w)) (randomToken e)" "keeps (\<lambda>w. J (w_store w)) (randomTokenFor e operation)"
  "keeps (\<lambda>w. J (w_store w)) (randomDigits e n)"
  "keeps (\<lambda>w. K (w_challenges w)) (randomToken e)" "keeps (\<lambda>w. K (w_challenges w)) (randomTokenFor e operation)"
  "keeps (\<lambda>w. K (w_challenges w)) (randomDigits e n)"
  by (simp_all add: keeps_def)

lemmas triple_frame = triple_keeps [THEN iffD1]

lemma triple_frame_then:
  "keeps I m \<Longrightarrow> (\<And>x. triple I (f x) Q (\<lambda>_. I)) \<Longrightarrow> triple I (andThen m f) Q (\<lambda>_. I)"
  by (rule triple_andThen [OF triple_frame])

lemma keeps_map_onStore [triples]: "keeps (\<lambda>w. K (w_challenges w)) (onStore m)"
  by (simp add: keeps_def onStore_def split: prod.split)

lemma triple_keepsD: "keeps I m \<Longrightarrow> m w = (r, w') \<Longrightarrow> I w \<Longrightarrow> I w'"
  by (metis keeps_def snd_conv)

end
