(* ===== verification/ChallengeProperties.thy ===== *)
theory ChallengeProperties
  imports TokenProperties AuthLogic
begin

section \<open>Properties of one-time codes kept by the service\<close>

text \<open>
  Without a durable store the service keeps its challenges in a map.  An abstract view of
  that map is a set of tickets with a number of guesses left; the operations refine what
  that view allows, and over any run the guesses at a code are bounded.
\<close>

subsection \<open>Tickets\<close>

record ticket =
  tk_Challenge :: AuthProviderChallenge
  tk_Guesses :: int

definition ticketOf :: "'s AuthDomainService \<Rightarrow> AuthProviderChallenge \<Rightarrow> ticket" where
  "ticketOf a ch = \<lparr>tk_Challenge = ch\<lparr>ch_Attempts := 0\<rparr>, tk_Guesses = as_otpMaxAttempts a - ch_Attempts ch\<rparr>"

definition tickets :: "'s AuthDomainService \<Rightarrow> 's world \<Rightarrow> string \<Rightarrow> ticket option" where
  "tickets a w state = map_option (ticketOf a) (map_of (w_challenges w) state)"

datatype redemption = Unknown | WrongCode | Redeemed AuthProviderChallenge

text \<open>One guess at a ticket: whether it counts is up to the presenter's eligibility and the clock.\<close>

definition redeem ::
  "(AuthProviderChallenge \<Rightarrow> bool) \<Rightarrow> (AuthProviderChallenge \<Rightarrow> bool) \<Rightarrow> string \<Rightarrow> ticket option \<Rightarrow> redemption \<times> ticket option" where
  "redeem eligible expired code t = (case t of
      None \<Rightarrow> (Unknown, None)
    | Some t \<Rightarrow>
        if \<not> eligible (tk_Challenge t) then (Unknown, Some t)
        else if expired (tk_Challenge t) then (Unknown, None)
        else if TrimSpace (ch_Code (tk_Challenge t)) = TrimSpace code then (Redeemed (tk_Challenge t), None)
        else (WrongCode, if tk_Guesses t \<le> 1 then None else Some (t\<lparr>tk_Guesses := tk_Guesses t - 1\<rparr>)))"

definition eligibleFor :: "string \<Rightarrow> string \<Rightarrow> string list \<Rightarrow> string \<Rightarrow> AuthProviderChallenge \<Rightarrow> bool" where
  "eligibleFor workspaceID provider purposes userID ch \<longleftrightarrow>
     ch_WorkspaceID ch = workspaceID \<and> ch_Provider ch = normalizeProvider provider
     \<and> otpChallengeMatchesPurposeAndUser ch purposes userID \<and> (ch_Status ch = [] \<or> ch_Status ch = AuthChallengeStatusActive)"

text \<open>How the outcome of a guess shows in the service's answer.\<close>

definition answers :: "authEnv \<Rightarrow> redemption \<Rightarrow> (AuthExternalIdentityAssertion \<times> AuthProviderChallenge) res \<Rightarrow> bool" where
  "answers e outcome r = (case outcome of
      Unknown \<Rightarrow> r = Inl (authForbidden e ''auth.provider_state_invalid'')
    | WrongCode \<Rightarrow> r = Inl (authForbidden e ''auth.otp_code_invalid'')
    | Redeemed ch \<Rightarrow> (case r of Inl _ \<Rightarrow> False
        | Inr (assertion, ch') \<Rightarrow> assertion = otpAssertion ch \<and> ch'\<lparr>ch_Attempts := 0\<rparr> = ch\<lparr>ch_Status := AuthChallengeStatusConsumed\<rparr>))"

lemma eligible_attempts [simp]: "eligibleFor ws p ps u (ch\<lparr>ch_Attempts := n\<rparr>) = eligibleFor ws p ps u ch"
  by (simp add: eligibleFor_def otpChallengeMatchesPurposeAndUser_def)

lemma otpAssertion_attempts [simp]: "otpAssertion (ch\<lparr>ch_Attempts := n\<rparr>) = otpAssertion ch"
  "otpAssertion (ch\<lparr>ch_Status := v\<rparr>) = otpAssertion ch"
  by (simp_all add: otpAssertion_def)

lemma consume_in_map:
  assumes "rp_OTPTransactions (as_identityStore a) = None" "ctx_Err c = None" "NewWorkspaceID workspaceID0 = Inr workspaceID"
    "normalizeProvider provider \<noteq> []" "TrimSpace state \<noteq> []"
  shows "consumeOTPChallenge e a c workspaceID0 provider state code purposes userID w =
    (case map_of (w_challenges w) (TrimSpace state) of
       None \<Rightarrow> (Inl (authForbidden e ''auth.provider_state_invalid''), w)
     | Some ch \<Rightarrow>
        if \<not> eligibleFor workspaceID provider purposes userID ch then (Inl (authForbidden e ''auth.provider_state_invalid''), w)
        else if tokenExpired e (ch_ExpiresAt ch) then
          (Inl (authForbidden e ''auth.provider_state_invalid''), w\<lparr>w_challenges := AList.delete (TrimSpace state) (w_challenges w)\<rparr>)
        else if TrimSpace (ch_Code ch) \<noteq> TrimSpace code then
          (Inl (authForbidden e ''auth.otp_code_invalid''),
           w\<lparr>w_challenges := (if as_otpMaxAttempts a \<le> ch_Attempts ch + 1 then AList.delete (TrimSpace state) (w_challenges w)
             else AList.update (TrimSpace state) (ch\<lparr>ch_Attempts := ch_Attempts ch + 1\<rparr>) (w_challenges w))\<rparr>)
        else (Inr (otpAssertion ch, ch\<lparr>ch_Status := AuthChallengeStatusConsumed\<rparr>),
          w\<lparr>w_challenges := AList.delete (TrimSpace state) (w_challenges w)\<rparr>))"
  using assms
  by (auto simp: consumeOTPChallenge_def ctxErr_def Let_def andThen_def check_def lookChallenge_def dropChallenge_def
    putChallenge_def eligibleFor_def split: option.split)

text \<open>
  C29 The service's challenge map implements the tickets: presenting a code changes the
  ticket of its state as one guess does, leaves every other ticket and the store alone, and
  the answer tells an unknown ticket, a wrong code and a redeemed ticket apart.
\<close>

theorem consume_refines_tickets:
  assumes "rp_OTPTransactions (as_identityStore a) = None" "ctx_Err c = None" "NewWorkspaceID workspaceID0 = Inr workspaceID"
    and "normalizeProvider provider \<noteq> []" "TrimSpace state \<noteq> []"
    and "consumeOTPChallenge e a c workspaceID0 provider state code purposes userID w = (r, w')"
    and "redeem (eligibleFor workspaceID provider purposes userID) (\<lambda>ch. tokenExpired e (ch_ExpiresAt ch)) code
           (tickets a w (TrimSpace state)) = (outcome, ticket)"
  shows "tickets a w' = (tickets a w)(TrimSpace state := ticket) \<and> answers e outcome r \<and> w_store w' = w_store w"
  using assms(6,7) unfolding consume_in_map [OF assms(1-5)]
  by (cases "map_of (w_challenges w) (TrimSpace state)")
    (auto simp: redeem_def answers_def tickets_def ticketOf_def fun_eq_iff update_conv' delete_conv' split: if_splits)

definition sampleChallenge :: AuthProviderChallenge where
  "sampleChallenge = zeroChallenge\<lparr>ch_WorkspaceID := ''acme'', ch_Provider := ''sms'', ch_Purpose := AuthChallengePurposeLogin,
     ch_Status := AuthChallengeStatusActive, ch_State := ''s1'', ch_Phone := ''+15551234567'', ch_Code := ''123456'',
     ch_ExpiresAt := ''2024-02-29T12:40:05Z''\<rparr>"

definition challengeWorld :: "unit world" where
  "challengeWorld = emptyWorld\<lparr>w_challenges := [(''s1'', sampleChallenge)]\<rparr>"

lemma bareService_attempts: "as_otpMaxAttempts bareService = 5" "rp_OTPTransactions (as_identityStore bareService) = None"
  using bareService_fields(6) wellConfigured_built
  by (simp_all add: bareRepository_def)
    (simp add: bareService_def NewAuthDomainService_def Let_def ConfigureSigningKeys_def)

theorem consume_refines_tickets_witness:
  "map_option tk_Guesses (tickets bareService (snd (consumeOTPChallenge sampleAuthEnv bareService sampleCtx ''acme'' ''SMS'' ''s1''
     ''000000'' [AuthChallengePurposeLogin] [] challengeWorld)) ''s1'') = Some 4"
proof -
  obtain r w' where r: "consumeOTPChallenge sampleAuthEnv bareService sampleCtx ''acme'' ''SMS'' ''s1'' ''000000''
      [AuthChallengePurposeLogin] [] challengeWorld = (r, w')" by fastforce
  have f: "NewWorkspaceID ''acme'' = Inr ''acme''" "normalizeProvider ''SMS'' \<noteq> []" "TrimSpace ''s1'' = ''s1''" "''s1'' \<noteq> []"
    "ctx_Err sampleCtx = None" "eligibleFor ''acme'' ''SMS'' [AuthChallengePurposeLogin] [] sampleChallenge"
    "\<not> tokenExpired sampleAuthEnv (ch_ExpiresAt sampleChallenge)" "TrimSpace (ch_Code sampleChallenge) \<noteq> TrimSpace ''000000''"
    "sampleChallenge\<lparr>ch_Attempts := 0\<rparr> = sampleChallenge" "ch_Attempts sampleChallenge = 0" by code_simp+
  have "tickets bareService challengeWorld ''s1'' = Some \<lparr>tk_Challenge = sampleChallenge, tk_Guesses = 5\<rparr>"
    by (simp add: tickets_def ticketOf_def challengeWorld_def bareService_attempts f)
  then have "redeem (eligibleFor ''acme'' ''SMS'' [AuthChallengePurposeLogin] []) (\<lambda>ch. tokenExpired sampleAuthEnv (ch_ExpiresAt ch))
      ''000000'' (tickets bareService challengeWorld (TrimSpace ''s1'')) = (WrongCode, Some \<lparr>tk_Challenge = sampleChallenge, tk_Guesses = 4\<rparr>)"
    using f by (simp add: redeem_def)
  from consume_refines_tickets [OF bareService_attempts(2) f(5,1,2) _ r this] show ?thesis by (simp add: r f)
qed

subsection \<open>Runs\<close>

text \<open>What an observer can tell of a step: a code was issued, guessed wrongly or redeemed, or none of these.\<close>

datatype observation = IssuedAt string | WrongAt string | RedeemedAt string | Silent

inductive otpStep :: "'s AuthDomainService \<Rightarrow> 's world \<Rightarrow> observation \<Rightarrow> 's world \<Rightarrow> bool" for a :: "'s AuthDomainService" where
  begin_code: "BeginOTPChallenge e a c ws provider phone app purpose userID methods w = (Inr r, w') \<Longrightarrow> otpStep a w (IssuedAt (psr_State r)) w'"
| begin_code_fails: "BeginOTPChallenge e a c ws provider phone app purpose userID methods w = (Inl err, w') \<Longrightarrow> otpStep a w Silent w'"
| begin_login: "BeginProviderLoginForApplication e a c ws provider authURL client redirect scope app back w = (Inr r, w')
    \<Longrightarrow> otpStep a w (IssuedAt (psr_State r)) w'"
| begin_login_fails: "BeginProviderLoginForApplication e a c ws provider authURL client redirect scope app back w = (Inl err, w')
    \<Longrightarrow> otpStep a w Silent w'"
| begin_saml: "BeginSAMLLoginForApplication e a c ws provider sso entity acs app back w = (Inr r, w') \<Longrightarrow> otpStep a w (IssuedAt (psr_State r)) w'"
| begin_saml_fails: "BeginSAMLLoginForApplication e a c ws provider sso entity acs app back w = (Inl err, w') \<Longrightarrow> otpStep a w Silent w'"
| delivered: "UpdateOTPChallengeDelivery e a ws provider state status ref failure w = (r, w') \<Longrightarrow> otpStep a w Silent w'"
| called_back: "ConsumeProviderChallenge e a c ws provider state w = (r, w') \<Longrightarrow> otpStep a w Silent w'"
| redeemed: "consumeOTPChallenge e a c ws provider state code purposes userID w = (Inr r, w') \<Longrightarrow> otpStep a w (RedeemedAt (TrimSpace state)) w'"
| wrong: "consumeOTPChallenge e a c ws provider state code purposes userID w = (Inl (authForbidden e ''auth.otp_code_invalid''), w')
    \<Longrightarrow> ctx_Err c = None \<Longrightarrow> otpStep a w (WrongAt (TrimSpace state)) w'"
| refused: "consumeOTPChallenge e a c ws provider state code purposes userID w = (Inl err, w') \<Longrightarrow>
    err \<noteq> authForbidden e ''auth.otp_code_invalid'' \<or> ctx_Err c \<noteq> None \<Longrightarrow> otpStep a w Silent w'"
| elsewhere: "w_challenges w' = w_challenges w \<Longrightarrow> otpStep a w Silent w'"

inductive otpRun :: "'s AuthDomainService \<Rightarrow> 's world \<Rightarrow> observation list \<Rightarrow> 's world \<Rightarrow> bool" for a :: "'s AuthDomainService" where
  stop: "otpRun a w [] w"
| go: "otpStep a w x w' \<Longrightarrow> otpRun a w' xs w'' \<Longrightarrow> otpRun a w (x # xs) w''"

text \<open>The guesses a state still allows, and whether it can still be redeemed.\<close>

definition guessesLeft :: "'s AuthDomainService \<Rightarrow> 's world \<Rightarrow> string \<Rightarrow> int" where
  "guessesLeft a w state = (case map_of (w_challenges w) state of None \<Rightarrow> 0 | Some ch \<Rightarrow> as_otpMaxAttempts a - ch_Attempts ch)"

definition present :: "'s world \<Rightarrow> string \<Rightarrow> int" where
  "present w state = (if map_of (w_challenges w) state = None then 0 else 1)"

definition challengesOk :: "'s AuthDomainService \<Rightarrow> 's world \<Rightarrow> bool" where
  "challengesOk a w \<longleftrightarrow> (\<forall>state ch. map_of (w_challenges w) state = Some ch \<longrightarrow>
     ch_State ch = state \<and> 0 \<le> ch_Attempts ch \<and> ch_Attempts ch < as_otpMaxAttempts a)"

text \<open>A step that begins a login puts at most one fresh challenge into the map.\<close>

definition putsFresh :: "string \<Rightarrow> (string, AuthProviderChallenge) gomap \<Rightarrow> (string, AuthProviderChallenge) gomap \<Rightarrow> bool" where
  "putsFresh state m m' \<longleftrightarrow> m' = m \<or> (\<exists>ch. ch_State ch = state \<and> ch_Attempts ch = 0 \<and> m' = AList.update state ch m)"

abbreviation mapIs :: "(string, AuthProviderChallenge) gomap \<Rightarrow> 's world \<Rightarrow> bool" where
  "mapIs m w \<equiv> w_challenges w = m"

lemma storeChallenge_fresh:
  assumes "ch_Attempts ch = 0"
  shows "triple (mapIs m) (storeChallenge a ch) (\<lambda>_ w. putsFresh (ch_State ch) m (w_challenges w)) (\<lambda>_. mapIs m)"
proof (cases "rp_LoginTransactions (as_identityStore a)")
  case None
  then show ?thesis using assms by (auto simp: triple_def storeChallenge_def putChallenge_def putsFresh_def)
next
  case (Some repository)
  then show ?thesis
    using triple_frame [OF keeps_map_onStore [of "\<lambda>x. x = m"]]
    by (auto simp: storeChallenge_def putsFresh_def intro: triple_weaken)
qed

lemma keeps_loginProvider: "keeps I (loginProvider e c ws provider)"
  unfolding loginProvider_def by (intro triples)

lemma begin_login_fresh:
  "triple (mapIs m) (BeginProviderLoginForApplication e a c ws provider authURL client redirect scope app back)
     (\<lambda>r w. putsFresh (psr_State r) m (w_challenges w)) (\<lambda>_. mapIs m)"
  unfolding BeginProviderLoginForApplication_def Let_def split_def
  by (intro triple_frame_then keeps_loginProvider keeps_random triple_andThen [OF storeChallenge_fresh] triple_ret)
    (simp_all add: startResponse_def zeroChallenge_def)

lemma begin_saml_fresh:
  "triple (mapIs m) (BeginSAMLLoginForApplication e a c ws provider sso entity acs app back)
     (\<lambda>r w. putsFresh (psr_State r) m (w_challenges w)) (\<lambda>_. mapIs m)"
  unfolding BeginSAMLLoginForApplication_def Let_def split_def
  by (intro triple_frame_then keeps_loginProvider keeps_random triple_andThen [OF storeChallenge_fresh] triple_ret)
    (simp_all add: startResponse_def zeroChallenge_def)

lemma keeps_code_drawn:
  "keeps (mapIs m) (\<lambda>w. case randomDigits e n w of (Inl _, w') \<Rightarrow> (Inl err, w') | (Inr d, w') \<Rightarrow> (Inr d, w'))"
proof -
  have "randomDigits e n w = (r, w') \<Longrightarrow> w_challenges w' = w_challenges w" for r w w'
    by (metis randomDigits_world(2) snd_conv)
  then show ?thesis by (auto simp: keeps_def split: prod.split sum.split)
qed

lemma keeps_check_world: "keeps I (\<lambda>w. check (b w) err w)"
  by (simp add: keeps_def check_def)

lemma begin_code_fresh:
  "triple (mapIs m) (BeginOTPChallenge e a c ws provider phone app purpose userID methods)
     (\<lambda>r w. putsFresh (psr_State r) m (w_challenges w)) (\<lambda>_. mapIs m)"
proof -
  have put: "triple (mapIs m)
      (case rp_OTPTransactions (as_identityStore a) of
         Some transactions \<Rightarrow> andThen (onStore (ot_CreateAuthOTPTransaction transactions ch k t0 t1)) (\<lambda>created. check created err)
       | None \<Rightarrow> putChallenge state ch)
      (\<lambda>_ w. putsFresh state m (w_challenges w)) (\<lambda>_. mapIs m)"
    if "ch_State ch = state" "ch_Attempts ch = 0" for ch state k t0 t1 err
  proof (cases "rp_OTPTransactions (as_identityStore a)")
    case None
    then show ?thesis using that by (auto simp: triple_def putChallenge_def putsFresh_def)
  next
    case (Some transactions)
    have "keeps (mapIs m) (andThen (onStore (ot_CreateAuthOTPTransaction transactions ch k t0 t1)) (\<lambda>created. check created err))"
      by (intro triples)
    from triple_frame [OF this] Some show ?thesis by (auto simp: putsFresh_def intro: triple_weaken)
  qed
  show ?thesis
    unfolding BeginOTPChallenge_def Let_def
    by (intro triple_frame_then keeps_ctxErr keeps_liftRes keeps_check keeps_check_world keeps_random keeps_code_drawn
          triple_andThen [OF put] triple_ret)
      (simp_all add: startResponse_def zeroChallenge_def)
qed

text \<open>Any other step changes no count: it drops challenges or rewrites one with its state and attempts.\<close>

definition dropsOnly :: "(string, AuthProviderChallenge) gomap \<Rightarrow> (string, AuthProviderChallenge) gomap \<Rightarrow> bool" where
  "dropsOnly m m' \<longleftrightarrow> (\<forall>state. case map_of m' state of None \<Rightarrow> True
     | Some ch' \<Rightarrow> (case map_of m state of None \<Rightarrow> False
         | Some ch \<Rightarrow> ch_State ch' = ch_State ch \<and> ch_Attempts ch' = ch_Attempts ch))"

lemma dropsOnly_refl [simp]: "dropsOnly m m"
  by (simp add: dropsOnly_def split: option.split)

lemma dropsOnly_delete [simp]: "dropsOnly m (AList.delete k m)"
  by (simp add: dropsOnly_def delete_conv' split: option.split)

lemma delivery_drops:
  assumes "rp_OTPTransactions (as_identityStore a) = None" "challengesOk a w"
    "UpdateOTPChallengeDelivery e a ws provider state status ref failure w = (r, w')"
  shows "dropsOnly (w_challenges w) (w_challenges w')"
  using assms(2,3)
  by (auto simp: UpdateOTPChallengeDelivery_def assms(1) Let_def andThen_def check_def lookChallenge_def dropChallenge_def
      putChallenge_def challengesOk_def update_conv' split: if_splits option.splits) (auto simp: dropsOnly_def update_conv' split: option.split)

lemma callback_drops:
  assumes "ConsumeProviderChallenge e a c ws provider state w = (r, w')"
  shows "dropsOnly (w_challenges w) (w_challenges w')"
proof (cases "rp_LoginTransactions (as_identityStore a)")
  case None
  with assms show ?thesis
    by (auto simp: ConsumeProviderChallenge_def Let_def andThen_def check_def ctxErr_def lookChallenge_def dropChallenge_def
      split: if_splits option.splits sum.splits)
next
  case (Some repository)
  have "keeps (mapIs (w_challenges w)) (ConsumeProviderChallenge e a c ws provider state)"
    unfolding ConsumeProviderChallenge_def Let_def Some option.case by (intro triples)
  from triple_keepsD [OF this assms] show ?thesis by simp
qed

lemma consume_cases:
  assumes "rp_OTPTransactions (as_identityStore a) = None"
    and "consumeOTPChallenge e a c ws provider state code purposes userID w = (r, w')"
  shows "(case r of
      Inr _ \<Rightarrow> (\<exists>ch. map_of (w_challenges w) (TrimSpace state) = Some ch)
        \<and> w_challenges w' = AList.delete (TrimSpace state) (w_challenges w)
    | Inl err \<Rightarrow> dropsOnly (w_challenges w) (w_challenges w') \<and> (err \<noteq> authForbidden e ''auth.otp_code_invalid'' \<or> ctx_Err c \<noteq> None)
        \<or> err = authForbidden e ''auth.otp_code_invalid'' \<and> ctx_Err c = None
          \<and> (case map_of (w_challenges w) (TrimSpace state) of None \<Rightarrow> False | Some ch \<Rightarrow> w_challenges w' =
             (if as_otpMaxAttempts a \<le> ch_Attempts ch + 1 then AList.delete (TrimSpace state) (w_challenges w)
              else AList.update (TrimSpace state) (ch\<lparr>ch_Attempts := ch_Attempts ch + 1\<rparr>) (w_challenges w))))"
proof (cases "ctx_Err c = None \<and> (\<exists>v. NewWorkspaceID ws = Inr v) \<and> normalizeProvider provider \<noteq> [] \<and> TrimSpace state \<noteq> []")
  case True
  then obtain v where "ctx_Err c = None" "NewWorkspaceID ws = Inr v" "normalizeProvider provider \<noteq> []" "TrimSpace state \<noteq> []" by blast
  from assms(2) [unfolded consume_in_map [OF assms(1) this]] \<open>ctx_Err c = None\<close> show ?thesis
    by (auto simp: authForbidden_def authDomainError_def split: option.splits if_splits)
next
  case False
  have d: "authForbidden e ''auth.provider_state_invalid'' \<noteq> authForbidden e ''auth.otp_code_invalid''"
    "NewWorkspaceID ws = Inl err \<Longrightarrow> err \<noteq> authForbidden e ''auth.otp_code_invalid''" for err
    by (auto simp: authForbidden_def authDomainError_def NewWorkspaceID_def Let_def ErrWorkspaceIDRequired_def ErrWorkspaceIDReserved_def
      split: if_splits)
  from False assms(2) d show ?thesis
    by (auto simp: consumeOTPChallenge_def Let_def andThen_def check_def ctxErr_def split: option.splits sum.splits if_splits)
qed

subsection \<open>Counting guesses\<close>

definition guess :: "string \<Rightarrow> observation \<Rightarrow> int" where
  "guess state x = (if x = WrongAt state \<or> x = RedeemedAt state then 1 else 0)"

definition redemptions :: "string \<Rightarrow> observation \<Rightarrow> int" where
  "redemptions state x = (if x = RedeemedAt state then 1 else 0)"

definition issued :: "string \<Rightarrow> observation \<Rightarrow> int" where
  "issued state x = (if x = IssuedAt state then 1 else 0)"

text \<open>The account of one step: what it takes from a state's guesses, and what an issue adds.\<close>

definition accounted :: "'s AuthDomainService \<Rightarrow> 's world \<Rightarrow> observation \<Rightarrow> 's world \<Rightarrow> bool" where
  "accounted a w x w' \<longleftrightarrow> challengesOk a w'
     \<and> (\<forall>state. guess state x + guessesLeft a w' state \<le> guessesLeft a w state + as_otpMaxAttempts a * issued state x
          \<and> redemptions state x + present w' state \<le> present w state + issued state x)"

lemma left_nonneg:
  assumes "challengesOk a w"
  shows "0 \<le> guessesLeft a w state"
proof (cases "map_of (w_challenges w) state")
  case (Some ch)
  with assms have "ch_Attempts ch < as_otpMaxAttempts a" by (auto simp: challengesOk_def)
  with Some show ?thesis by (simp add: guessesLeft_def)
qed (simp add: guessesLeft_def)

lemma accounted_fresh:
  assumes "challengesOk a w" "putsFresh s (w_challenges w) (w_challenges w')" "0 < as_otpMaxAttempts a"
  shows "accounted a w (IssuedAt s) w'"
proof (cases "w_challenges w' = w_challenges w")
  case True
  with assms(1,3) show ?thesis
    by (auto simp: accounted_def challengesOk_def guessesLeft_def present_def guess_def redemptions_def issued_def)
next
  case False
  with assms(2) obtain ch where ch: "ch_State ch = s" "ch_Attempts ch = 0" "w_challenges w' = AList.update s ch (w_challenges w)"
    by (auto simp: putsFresh_def)
  have ok: "challengesOk a w'" using assms(1,3) ch by (auto simp: challengesOk_def update_conv')
  have "guess state (IssuedAt s) + guessesLeft a w' state \<le> guessesLeft a w state + as_otpMaxAttempts a * issued state (IssuedAt s)"
    for state using left_nonneg [OF assms(1), of s] ch
    by (cases "state = s") (simp_all add: guess_def issued_def guessesLeft_def update_conv')
  moreover have "redemptions state (IssuedAt s) + present w' state \<le> present w state + issued state (IssuedAt s)" for state
    using ch by (cases "state = s") (simp_all add: redemptions_def issued_def present_def update_conv')
  ultimately show ?thesis using ok by (simp add: accounted_def)
qed

lemma accounted_silent:
  assumes "challengesOk a w" "dropsOnly (w_challenges w) (w_challenges w')"
  shows "accounted a w Silent w'"
proof -
  have d: "case map_of (w_challenges w') s of None \<Rightarrow> True
     | Some ch' \<Rightarrow> (case map_of (w_challenges w) s of None \<Rightarrow> False
         | Some ch \<Rightarrow> ch_State ch' = ch_State ch \<and> ch_Attempts ch' = ch_Attempts ch)" for s
    using assms(2) by (simp add: dropsOnly_def)
  have "challengesOk a w'"
    unfolding challengesOk_def
  proof (intro allI impI)
    fix s ch assume "map_of (w_challenges w') s = Some ch"
    with d [of s] assms(1) show "ch_State ch = s \<and> 0 \<le> ch_Attempts ch \<and> ch_Attempts ch < as_otpMaxAttempts a"
      by (auto simp: challengesOk_def split: option.splits)
  qed
  moreover have "guessesLeft a w' s \<le> guessesLeft a w s \<and> present w' s \<le> present w s" for s
    using d [of s] left_nonneg [OF assms(1), of s] by (auto simp: guessesLeft_def present_def split: option.splits)
  ultimately show ?thesis by (simp add: accounted_def guess_def redemptions_def issued_def)
qed

lemma otpStep_accounted:
  assumes "otpStep a w x w'" "challengesOk a w" "0 < as_otpMaxAttempts a" "rp_OTPTransactions (as_identityStore a) = None"
  shows "accounted a w x w'"
  using assms(1)
proof cases
  case (redeemed e c ws provider state code purposes userID r)
  from consume_cases [OF assms(4) redeemed(2)]
  obtain ch where ch: "map_of (w_challenges w) (TrimSpace state) = Some ch"
    "w_challenges w' = AList.delete (TrimSpace state) (w_challenges w)" by auto
  with assms(2) have "1 \<le> as_otpMaxAttempts a - ch_Attempts ch" by (force simp: challengesOk_def)
  with ch assms(2) show ?thesis
    by (auto simp: redeemed(1) accounted_def challengesOk_def guessesLeft_def present_def guess_def redemptions_def issued_def
      delete_conv' split: option.split if_splits)
next
  case (wrong e c ws provider state code purposes userID)
  from consume_cases [OF assms(4) wrong(2)] wrong(3)
  obtain ch where ch: "map_of (w_challenges w) (TrimSpace state) = Some ch" "w_challenges w' =
             (if as_otpMaxAttempts a \<le> ch_Attempts ch + 1 then AList.delete (TrimSpace state) (w_challenges w)
              else AList.update (TrimSpace state) (ch\<lparr>ch_Attempts := ch_Attempts ch + 1\<rparr>) (w_challenges w))"
    by (auto split: option.splits)
  with assms(2) have "1 \<le> as_otpMaxAttempts a - ch_Attempts ch" "0 \<le> ch_Attempts ch" by (force simp: challengesOk_def)+
  with ch assms(2) show ?thesis
    by (auto simp: wrong(1) accounted_def challengesOk_def guessesLeft_def present_def guess_def redemptions_def issued_def
      delete_conv' update_conv' split: option.split if_splits)
next
  case (refused e c ws provider state code purposes userID err)
  from consume_cases [OF assms(4) refused(2)] refused(3) have "dropsOnly (w_challenges w) (w_challenges w')" by auto
  from accounted_silent [OF assms(2) this] show ?thesis by (simp add: refused(1))
next
  case begin_code
  with tripleD(1) [OF begin_code_fresh refl begin_code(2)] show ?thesis by (auto intro!: accounted_fresh assms)
next
  case begin_code_fails
  with tripleD(2) [OF begin_code_fresh refl begin_code_fails(2)] show ?thesis by (auto intro!: accounted_silent assms)
next
  case begin_login
  with tripleD(1) [OF begin_login_fresh refl begin_login(2)] show ?thesis by (auto intro!: accounted_fresh assms)
next
  case begin_login_fails
  with tripleD(2) [OF begin_login_fresh refl begin_login_fails(2)] show ?thesis by (auto intro!: accounted_silent assms)
next
  case begin_saml
  with tripleD(1) [OF begin_saml_fresh refl begin_saml(2)] show ?thesis by (auto intro!: accounted_fresh assms)
next
  case begin_saml_fails
  with tripleD(2) [OF begin_saml_fresh refl begin_saml_fails(2)] show ?thesis by (auto intro!: accounted_silent assms)
next
  case delivered
  with delivery_drops [OF assms(4,2) delivered(2)] show ?thesis by (auto intro!: accounted_silent assms)
next
  case called_back
  with callback_drops [OF called_back(2)] show ?thesis by (auto intro!: accounted_silent assms)
next
  case elsewhere
  then show ?thesis by (auto intro!: accounted_silent assms)
qed

lemma otpRun_accounted:
  assumes "otpRun a w xs w'" "challengesOk a w" "0 < as_otpMaxAttempts a" "rp_OTPTransactions (as_identityStore a) = None"
  shows "(\<Sum>x\<leftarrow>xs. guess state x) \<le> guessesLeft a w state + as_otpMaxAttempts a * (\<Sum>x\<leftarrow>xs. issued state x)
    \<and> (\<Sum>x\<leftarrow>xs. redemptions state x) \<le> present w state + (\<Sum>x\<leftarrow>xs. issued state x)"
  using assms
proof (induction rule: otpRun.induct)
  case (stop w)
  then show ?case using left_nonneg [of a w state] by (simp add: present_def)
next
  case (go w x w' xs w'')
  from otpStep_accounted [OF go(1,4,5,6)] have s: "challengesOk a w'"
    "guess state x + guessesLeft a w' state \<le> guessesLeft a w state + as_otpMaxAttempts a * issued state x"
    "redemptions state x + present w' state \<le> present w state + issued state x" by (auto simp: accounted_def)
  with go(3) [OF s(1) go(5,6)] show ?case by (simp add: distrib_left)
qed

text \<open>
  C30 However the operations on challenges interleave, a state is redeemed at most as often
  as it was issued, and guesses at its code, right or wrong, are at most the configured
  maximum for each time it was issued.
\<close>

theorem guesses_bounded:
  assumes "otpRun a w xs w'" "w_challenges w = []" "0 < as_otpMaxAttempts a" "rp_OTPTransactions (as_identityStore a) = None"
  shows "(\<Sum>x\<leftarrow>xs. guess state x) \<le> as_otpMaxAttempts a * (\<Sum>x\<leftarrow>xs. issued state x)
    \<and> (\<Sum>x\<leftarrow>xs. redemptions state x) \<le> (\<Sum>x\<leftarrow>xs. issued state x)"
proof -
  from assms(2) have "challengesOk a w" "guessesLeft a w state = 0" "present w state = 0"
    by (simp_all add: challengesOk_def guessesLeft_def present_def)
  with otpRun_accounted [OF assms(1) _ assms(3,4), of state] show ?thesis by simp
qed

lemma begun_code:
  "\<exists>r w. BeginOTPChallenge sampleAuthEnv bareService sampleCtx ''acme'' ''sms'' ''+15551234567'' [] [] [] [] emptyWorld = (Inr r, w)"
proof -
  have f: "NewWorkspaceID ''acme'' = Inr ''acme''" "normalizeE164Phone ''+15551234567'' = Inr ''+15551234567''"
    "normalizeProvider ''sms'' \<noteq> []" "ctx_Err sampleCtx = None"
    "randomDigitsFrom (ae_Random sampleAuthEnv) (Suc 0) 6 = (Inr ''111111'', 2)" by code_simp+
  have "randomTokenFor sampleAuthEnv ''generate OTP state'' emptyWorld
      = (Inr (base64Encode (replicate 32 (chr 0))), emptyWorld\<lparr>w_random := Suc 0\<rparr>)"
    by (simp add: sample_randomToken emptyWorld_def)
  with f show ?thesis
    by (simp add: BeginOTPChallenge_def ctxErr_def bareService_attempts bareService_fields bareRepository_def randomDigits_def
      emptyWorld_def putChallenge_def Let_def)
qed

theorem guesses_bounded_witness:
  "\<exists>s w. otpRun bareService emptyWorld [IssuedAt s] w
     \<and> (\<Sum>x\<leftarrow>[IssuedAt s]. redemptions s x) \<le> (\<Sum>x\<leftarrow>[IssuedAt s]. issued s x)"
proof -
  from begun_code obtain r w where
    "BeginOTPChallenge sampleAuthEnv bareService sampleCtx ''acme'' ''sms'' ''+15551234567'' [] [] [] [] emptyWorld = (Inr r, w)" by blast
  then have run: "otpRun bareService emptyWorld [IssuedAt (psr_State r)] w" by (blast intro: otpStep.begin_code otpRun.intros)
  from guesses_bounded [OF run] run show ?thesis by (auto simp: emptyWorld_def bareService_attempts)
qed

end
