(* ===== verification/SqlTables.thy ===== *)
theory SqlTables
  imports AuthService
begin

section \<open>Statements and transactions\<close>

text \<open>
  What the SQL stores share: a database is its tables and the number of statements it has
  been sent; an operation of a store is the sequence of statements it sends.  A statement may
  fail in the driver before it has an effect: \<open>se_Fails\<close> says so of the n-th statement.
  A transaction runs alone; unless it is committed its effects are discarded, and a failed
  commit commits nothing.
\<close>

record sqlEnv =
  se_Fails :: "nat \<Rightarrow> go_error option"

record 't database =
  db_Tables :: 't
  db_Statements :: nat

subsection \<open>Statements\<close>

definition decodeError :: go_error where
  "decodeError = Errorf ''invalid JSON'' []"

definition uniqueViolation :: go_error where
  "uniqueViolation = Errorf ''unique constraint violated'' []"

definition ErrNoRows :: go_error where
  "ErrNoRows = Errorf ''sql: no rows in result set'' []"

text \<open>One round trip to the database, which the driver may fail.\<close>

definition statement :: "'e sqlEnv_scheme \<Rightarrow> ('t \<Rightarrow> 'a res \<times> 't) \<Rightarrow> ('t database, 'a) op" where
  "statement e f = (\<lambda>db. let n = db_Statements db; db' = db\<lparr>db_Statements := Suc n\<rparr> in
     case se_Fails e n of
       Some err \<Rightarrow> (Inl err, db')
     | None \<Rightarrow> (case f (db_Tables db) of (r, t) \<Rightarrow> (r, db'\<lparr>db_Tables := t\<rparr>)))"

definition queryRows :: "'e sqlEnv_scheme \<Rightarrow> ('t \<Rightarrow> 'r list) \<Rightarrow> ('t database, 'r list) op" where
  "queryRows e f = statement e (\<lambda>t. (Inr (f t), t))"

text \<open>\<open>QueryRow\<close>: the first row, if there is one.\<close>

definition queryRow :: "'e sqlEnv_scheme \<Rightarrow> ('t \<Rightarrow> 'r list) \<Rightarrow> ('t database, 'r option) op" where
  "queryRow e f = statement e (\<lambda>t. (Inr (case f t of [] \<Rightarrow> None | r # _ \<Rightarrow> Some r), t))"

text \<open>\<open>UPDATE\<close> and \<open>DELETE\<close> with the number of rows they concern.\<close>

definition updateRows :: "('r \<Rightarrow> bool) \<Rightarrow> ('r \<Rightarrow> 'r) \<Rightarrow> 'r list \<Rightarrow> 'r list" where
  "updateRows p f rows = map (\<lambda>r. if p r then f r else r) rows"

definition execUpdate ::
  "'e sqlEnv_scheme \<Rightarrow> ('t \<Rightarrow> 'r list) \<Rightarrow> (('r list \<Rightarrow> 'r list) \<Rightarrow> 't \<Rightarrow> 't) \<Rightarrow> ('r \<Rightarrow> bool) \<Rightarrow> ('r \<Rightarrow> 'r) \<Rightarrow> ('t database, nat) op" where
  "execUpdate e get upd p f = statement e (\<lambda>t. (Inr (length (filter p (get t))), upd (updateRows p f) t))"

definition execDelete ::
  "'e sqlEnv_scheme \<Rightarrow> ('t \<Rightarrow> 'r list) \<Rightarrow> (('r list \<Rightarrow> 'r list) \<Rightarrow> 't \<Rightarrow> 't) \<Rightarrow> ('r \<Rightarrow> bool) \<Rightarrow> ('t database, nat) op" where
  "execDelete e get upd p = statement e (\<lambda>t. (Inr (length (filter p (get t))), upd (filter (\<lambda>r. \<not> p r)) t))"

text \<open>\<open>INSERT\<close>: refused when a row has the same unique key.\<close>

definition execInsert ::
  "'e sqlEnv_scheme \<Rightarrow> ('t \<Rightarrow> 'r list) \<Rightarrow> (('r list \<Rightarrow> 'r list) \<Rightarrow> 't \<Rightarrow> 't) \<Rightarrow> ('r \<Rightarrow> 'k) \<Rightarrow> 'r \<Rightarrow> ('t database, unit) op" where
  "execInsert e get upd key row = statement e (\<lambda>t.
     if list_ex (\<lambda>r. key r = key row) (get t) then (Inl uniqueViolation, t) else (Inr (), upd (\<lambda>rows. rows @ [row]) t))"

text \<open>\<open>INSERT ... ON CONFLICT DO NOTHING\<close> and \<open>DO UPDATE\<close>.\<close>

definition execInsertNew ::
  "'e sqlEnv_scheme \<Rightarrow> ('t \<Rightarrow> 'r list) \<Rightarrow> (('r list \<Rightarrow> 'r list) \<Rightarrow> 't \<Rightarrow> 't) \<Rightarrow> ('r \<Rightarrow> 'k) \<Rightarrow> 'r \<Rightarrow> ('t database, nat) op" where
  "execInsertNew e get upd key row = statement e (\<lambda>t.
     if list_ex (\<lambda>r. key r = key row) (get t) then (Inr 0, t) else (Inr 1, upd (\<lambda>rows. rows @ [row]) t))"

definition upsertRow :: "('r \<Rightarrow> 'k) \<Rightarrow> ('r \<Rightarrow> 'r) \<Rightarrow> 'r \<Rightarrow> 'r list \<Rightarrow> 'r list" where
  "upsertRow key f row rows =
     (if list_ex (\<lambda>r. key r = key row) rows then updateRows (\<lambda>r. key r = key row) f rows else rows @ [row])"

definition execUpsert ::
  "'e sqlEnv_scheme \<Rightarrow> (('r list \<Rightarrow> 'r list) \<Rightarrow> 't \<Rightarrow> 't) \<Rightarrow> ('r \<Rightarrow> 'k) \<Rightarrow> ('r \<Rightarrow> 'r) \<Rightarrow> 'r \<Rightarrow> ('t database, unit) op" where
  "execUpsert e upd key f row = statement e (\<lambda>t. (Inr (), upd (upsertRow key f row) t))"

text \<open>
  A write that the unique indexes of its table judge: \<open>f\<close> gives the number of rows it
  concerns and the table it would leave; \<open>violation\<close> names the index that table breaks.
\<close>

definition execWrite ::
  "'e sqlEnv_scheme \<Rightarrow> ('t \<Rightarrow> 'r list) \<Rightarrow> (('r list \<Rightarrow> 'r list) \<Rightarrow> 't \<Rightarrow> 't) \<Rightarrow> ('r list \<Rightarrow> go_error option)
     \<Rightarrow> ('t \<Rightarrow> 'r list \<Rightarrow> nat \<times> 'r list) \<Rightarrow> ('t database, nat) op" where
  "execWrite e get upd violation f = statement e (\<lambda>t. case f t (get t) of (n, rows) \<Rightarrow>
     (case violation rows of Some err \<Rightarrow> (Inl err, t) | None \<Rightarrow> (Inr n, upd (\<lambda>_. rows) t)))"

text \<open>A unique index; a row whose indexed column is NULL is not in it.\<close>

definition uniqueOn :: "('r \<Rightarrow> 'k option) \<Rightarrow> 'r list \<Rightarrow> bool" where
  "uniqueOn key rows \<longleftrightarrow> distinct (List.map_filter key rows)"

text \<open>
  The ranges of a batched statement (the parameter limit of the driver) are computed by the
  query library: \<open>ranges n\<close> splits \<open>n\<close> items into start and end positions.
\<close>

type_synonym batch_ranges = "nat \<Rightarrow> (nat \<times> nat) list res"

definition batchOf :: "'a list \<Rightarrow> nat \<times> nat \<Rightarrow> 'a list" where
  "batchOf xs r = take (snd r - fst r) (drop (fst r) xs)"

text \<open>A transaction: its body says whether to commit.\<close>

definition rollbackTo :: "'t \<Rightarrow> 't database \<Rightarrow> 't database" where
  "rollbackTo t db = db\<lparr>db_Tables := t\<rparr>"

definition transaction :: "'e sqlEnv_scheme \<Rightarrow> ('t database, 'a \<times> bool) op \<Rightarrow> ('t database, 'a) op" where
  "transaction e body = andThen (statement e (\<lambda>t. (Inr (), t))) (\<lambda>_ db.
     case body db of
       (Inl err, db') \<Rightarrow> (Inl err, rollbackTo (db_Tables db) db')
     | (Inr (x, False), db') \<Rightarrow> (Inr x, rollbackTo (db_Tables db) db')
     | (Inr (x, True), db') \<Rightarrow>
         (case statement e (\<lambda>t. (Inr (), t)) db' of
            (Inl err, db'') \<Rightarrow> (Inl err, rollbackTo (db_Tables db) db'')
          | (Inr _, db'') \<Rightarrow> (Inr x, db'')))"

subsection \<open>Values\<close>

definition NullableText :: "string \<Rightarrow> string option" where
  "NullableText v = (if TrimSpace v = [] then None else Some v)"

definition valueFromNull :: "string option \<Rightarrow> string" where
  "valueFromNull v = (case v of None \<Rightarrow> [] | Some s \<Rightarrow> s)"

section \<open>Lemmas\<close>

lemma statement_tables:
  "statement e f db = (r, db') \<Longrightarrow>
     (\<exists>err. r = Inl err \<and> db_Tables db' = db_Tables db) \<or> f (db_Tables db) = (r, db_Tables db')"
  by (auto simp: statement_def Let_def split: option.splits prod.splits)

lemma statement_runs:
  "se_Fails e = (\<lambda>_. None) \<Longrightarrow> statement e f db =
     (fst (f (db_Tables db)), \<lparr>db_Tables = snd (f (db_Tables db)), db_Statements = Suc (db_Statements db)\<rparr>)"
  by (cases db) (simp add: statement_def Let_def split: prod.split)

text \<open>A transaction that fails leaves the tables as they were.\<close>

lemma transaction_error:
  "transaction e body db = (Inl err, db') \<Longrightarrow> db_Tables db' = db_Tables db"
  by (auto simp: transaction_def andThen_def rollbackTo_def dest!: statement_tables split: prod.splits sum.splits bool.splits)

lemma transaction_cases:
  assumes "transaction e body db = (r, db')"
  obtains (unchanged) "db_Tables db' = db_Tables db"
  | (committed) x db1 db2 where "r = Inr x" "body db1 = (Inr (x, True), db2)" "db_Tables db1 = db_Tables db"
      "db_Tables db' = db_Tables db2"
  using assms
  by (fastforce simp: transaction_def andThen_def rollbackTo_def dest!: statement_tables split: prod.splits sum.splits bool.splits)

lemma length_updateRows [simp]: "length (updateRows p f rows) = length rows"
  by (simp add: updateRows_def)

lemma updateRows_none: "\<forall>r \<in> set rows. \<not> p r \<Longrightarrow> updateRows p f rows = rows"
  by (simp add: updateRows_def map_idI)

end
