(* ===== verification/AuthTables.thy ===== *)
theory AuthTables
  imports SqlTables
begin

section \<open>The tables of the authentication store\<close>

text \<open>
  The tables that \<open>infrastructure/persistence/database/auth\<close> reads and writes, as
  \<open>schema/identity.go\<close> declares them: a row is a record of its columns, a nullable
  column is an option, and the list of rows stands for one order in which a query without
  \<open>ORDER BY\<close> may return them.  Every table has a unique key of the workspace and
  one column.

  Encryption and JSON are parameters.
\<close>

subsection \<open>Rows\<close>

record credentialRow =
  crow_WorkspaceID :: string
  crow_UserID :: string
  crow_PasswordHash :: string
  crow_PasswordUpdatedAt :: string
  crow_FailedLoginCount :: int
  crow_LockedUntil :: "string option"
  crow_LastLoginAt :: "string option"
  crow_MustChangePassword :: bool
  crow_CreatedAt :: string
  crow_UpdatedAt :: string

record tokenRow =
  trow_WorkspaceID :: string
  trow_ID :: string
  trow_UserID :: string
  trow_SessionID :: string
  trow_Audience :: string
  trow_AuthenticationTime :: int
  trow_AuthenticationMethods :: string
  trow_AssuranceLevel :: string
  trow_TokenHash :: string
  trow_ExpiresAt :: string
  trow_RevokedAt :: "string option"
  trow_ReplacedByID :: "string option"
  trow_LastUsedAt :: "string option"
  trow_CreatedAt :: string
  trow_UpdatedAt :: string

record loginRow =
  lrow_WorkspaceID :: string
  lrow_StateHash :: string
  lrow_ProviderKey :: string
  lrow_SubjectKeyHash :: "string option"
  lrow_Status :: string
  lrow_Purpose :: string
  lrow_DeliveryRef :: "string option"
  lrow_DeliveryError :: "string option"
  lrow_Payload :: string
  lrow_Attempts :: int
  lrow_ExpiresAt :: string
  lrow_ConsumedAt :: "string option"
  lrow_CreatedAt :: string
  lrow_UpdatedAt :: string

record deliveryLimitRow =
  drow_WorkspaceID :: string
  drow_SubjectKeyHash :: string
  drow_ProviderKey :: string
  drow_NextAllowedAt :: string
  drow_CreatedAt :: string
  drow_UpdatedAt :: string

record replayRow =
  rrow_WorkspaceID :: string
  rrow_ReplayHash :: string
  rrow_ProviderKey :: string
  rrow_ExpiresAt :: string
  rrow_CreatedAt :: string

record codeRow =
  orow_WorkspaceID :: string
  orow_CodeHash :: string
  orow_ApplicationKey :: string
  orow_Session :: string
  orow_RedirectURL :: string
  orow_ExpiresAt :: string
  orow_ConsumedAt :: "string option"
  orow_CreatedAt :: string

record factorRow =
  frow_WorkspaceID :: string
  frow_ID :: string
  frow_UserID :: string
  frow_Type :: string
  frow_Label :: "string option"
  frow_Provider :: "string option"
  frow_ProviderRef :: "string option"
  frow_Status :: string
  frow_VerifiedAt :: "string option"
  frow_LastUsedAt :: "string option"
  frow_Secret :: "string option"
  frow_Step :: int
  frow_Failures :: int
  frow_LockedUntil :: "string option"
  frow_CreatedAt :: string
  frow_UpdatedAt :: string

record accountRow =
  arow_WorkspaceID :: string
  arow_ID :: string
  arow_UserID :: string
  arow_Provider :: string
  arow_ProviderSubject :: string
  arow_Email :: "string option"
  arow_Phone :: "string option"
  arow_DisplayName :: "string option"
  arow_AvatarURL :: "string option"
  arow_Metadata :: "string option"
  arow_LinkedAt :: string
  arow_CreatedAt :: string
  arow_UpdatedAt :: string

record applicationRow =
  prow_WorkspaceID :: string
  prow_ID :: string
  prow_ApplicationKey :: string
  prow_RedirectURLs :: string
  prow_Status :: string
  prow_CreatedAt :: string
  prow_UpdatedAt :: string

record receiptRow =
  mrow_WorkspaceID :: string
  mrow_ID :: string
  mrow_UseCase :: string
  mrow_TargetID :: string
  mrow_IdempotencyKey :: string
  mrow_RequestFingerprint :: string
  mrow_Status :: string
  mrow_Result :: string
  mrow_LeaseOwner :: string
  mrow_LeaseExpiresAt :: string
  mrow_FencingToken :: int
  mrow_ErrorCode :: string
  mrow_ExpiresAt :: string
  mrow_ActorID :: string
  mrow_CreatedAt :: string
  mrow_UpdatedAt :: string

text \<open>Of a user the authentication store reads identity, status and organization.\<close>

record userRow =
  urow_WorkspaceID :: string
  urow_ID :: string
  urow_Status :: string
  urow_OrgID :: string

record authTables =
  tb_Users :: "userRow list"
  tb_Credentials :: "credentialRow list"
  tb_Tokens :: "tokenRow list"
  tb_Logins :: "loginRow list"
  tb_DeliveryLimits :: "deliveryLimitRow list"
  tb_Replays :: "replayRow list"
  tb_Codes :: "codeRow list"
  tb_Factors :: "factorRow list"
  tb_Accounts :: "accountRow list"
  tb_Applications :: "applicationRow list"
  tb_Receipts :: "receiptRow list"

type_synonym authDb = "authTables database"

record storeEnv = sqlEnv +
  se_Auth :: authEnv
  se_Encrypt :: "string \<Rightarrow> string \<Rightarrow> string \<Rightarrow> string \<Rightarrow> string res"
  se_Decrypt :: "string \<Rightarrow> string \<Rightarrow> string \<Rightarrow> string \<Rightarrow> string res"
  se_EncodeStrings :: "string list \<Rightarrow> string"
  se_DecodeStrings :: "string \<Rightarrow> string list option"
  se_EncodeChallenge :: "AuthProviderChallenge \<Rightarrow> string"
  se_DecodeChallenge :: "string \<Rightarrow> AuthProviderChallenge option"
  se_EncodeSession :: "AuthSession \<Rightarrow> string"
  se_DecodeSession :: "string \<Rightarrow> AuthSession option"
  se_EncodeSecret :: "string \<Rightarrow> string"
  se_DecodeSecret :: "string \<Rightarrow> string option"

subsection \<open>Values\<close>

definition nullableAuthText :: "string \<Rightarrow> string option" where
  "nullableAuthText v = (if TrimSpace v = [] then None else Some (TrimSpace v))"

definition valueOrNow :: "string \<Rightarrow> string \<Rightarrow> string" where
  "valueOrNow v fallback = (if TrimSpace v = [] then fallback else TrimSpace v)"

text \<open>The zero \<open>time.Time\<close>: the first instant of year 1.\<close>

definition zeroTime :: int where
  "zeroTime = -62135596800000000000"

abbreviation storeNow :: "storeEnv \<Rightarrow> int" where "storeNow e \<equiv> authNow (se_Auth e)"

definition nowUnlessZero :: "storeEnv \<Rightarrow> int \<Rightarrow> int" where
  "nowUnlessZero e now = (if now = zeroTime then storeNow e else now)"

definition NowString :: "storeEnv \<Rightarrow> string" where
  "NowString e = formatInstant (storeNow e)"

text \<open>A timestamp the caller may leave out.\<close>

definition orNow :: "storeEnv \<Rightarrow> string \<Rightarrow> string" where
  "orNow e at = (if at = [] then NowString e else at)"

definition authWorkspaceID :: "string \<Rightarrow> string res" where
  "authWorkspaceID v = NewWorkspaceID v"

definition lowerKey :: "string \<Rightarrow> string" where
  "lowerKey provider = ToLower (TrimSpace provider)"

end
