(* ===== verification/AuthStoreSessions.thy ===== *)
theory AuthStoreSessions
  imports AuthTables
begin

section \<open>The SQL store: credentials, refresh tokens, sessions, accounts and factors\<close>

text \<open>
  \<open>auth_store.go\<close>.  Each operation is the statements it sends, with the predicates the
  query builder renders; every builder for a workspace adds the workspace to the predicate
  or to the inserted row.
\<close>

abbreviation inWorkspace :: "string \<Rightarrow> (string \<Rightarrow> (authDb, 'a) op) \<Rightarrow> (authDb, 'a) op" where
  "inWorkspace workspaceID f \<equiv> andThen (liftRes (authWorkspaceID workspaceID)) f"

abbreviation onCredentials :: "(credentialRow list \<Rightarrow> credentialRow list) \<Rightarrow> authTables \<Rightarrow> authTables" where
  "onCredentials f t \<equiv> t\<lparr>tb_Credentials := f (tb_Credentials t)\<rparr>"

abbreviation onTokens :: "(tokenRow list \<Rightarrow> tokenRow list) \<Rightarrow> authTables \<Rightarrow> authTables" where
  "onTokens f t \<equiv> t\<lparr>tb_Tokens := f (tb_Tokens t)\<rparr>"

abbreviation onAccounts :: "(accountRow list \<Rightarrow> accountRow list) \<Rightarrow> authTables \<Rightarrow> authTables" where
  "onAccounts f t \<equiv> t\<lparr>tb_Accounts := f (tb_Accounts t)\<rparr>"

abbreviation onFactors :: "(factorRow list \<Rightarrow> factorRow list) \<Rightarrow> authTables \<Rightarrow> authTables" where
  "onFactors f t \<equiv> t\<lparr>tb_Factors := f (tb_Factors t)\<rparr>"

subsection \<open>Credentials\<close>

definition credentialKey :: "credentialRow \<Rightarrow> string \<times> string" where
  "credentialKey r = (crow_WorkspaceID r, crow_UserID r)"

definition scanCredential :: "credentialRow \<Rightarrow> IdentityCredential" where
  "scanCredential r = \<lparr>cred_UserID = crow_UserID r, cred_PasswordHash = crow_PasswordHash r,
     cred_PasswordUpdatedAt = crow_PasswordUpdatedAt r, cred_FailedLoginCount = crow_FailedLoginCount r,
     cred_LockedUntil = valueFromNull (crow_LockedUntil r), cred_LastLoginAt = valueFromNull (crow_LastLoginAt r),
     cred_MustChangePassword = crow_MustChangePassword r\<rparr>"

definition AuthStore_GetIdentityCredential :: "storeEnv \<Rightarrow> string \<Rightarrow> string \<Rightarrow> (authDb, IdentityCredential option) op" where
  "AuthStore_GetIdentityCredential e workspaceID0 userID =
     inWorkspace workspaceID0 (\<lambda>workspaceID.
     andThen (queryRow e (\<lambda>t. filter (\<lambda>r. credentialKey r = (workspaceID, userID)) (tb_Credentials t))) (\<lambda>row.
     ret (map_option scanCredential row)))"

definition credentialInsert :: "string \<Rightarrow> string \<Rightarrow> IdentityCredential \<Rightarrow> credentialRow" where
  "credentialInsert workspaceID now c = \<lparr>crow_WorkspaceID = workspaceID, crow_UserID = cred_UserID c,
     crow_PasswordHash = cred_PasswordHash c, crow_PasswordUpdatedAt = cred_PasswordUpdatedAt c,
     crow_FailedLoginCount = cred_FailedLoginCount c, crow_LockedUntil = NullableText (cred_LockedUntil c),
     crow_LastLoginAt = NullableText (cred_LastLoginAt c), crow_MustChangePassword = cred_MustChangePassword c,
     crow_CreatedAt = now, crow_UpdatedAt = now\<rparr>"

definition AuthStore_UpsertIdentityCredential :: "storeEnv \<Rightarrow> string \<Rightarrow> IdentityCredential \<Rightarrow> (authDb, unit) op" where
  "AuthStore_UpsertIdentityCredential e workspaceID0 credential =
     inWorkspace workspaceID0 (\<lambda>workspaceID.
     andThen (check (cred_UserID credential \<noteq> [] \<and> cred_PasswordHash credential \<noteq> [])
                (Errorf ''credential user id and password hash are required'' [])) (\<lambda>_.
     let now = NowString e;
         row = credentialInsert workspaceID now (credential\<lparr>cred_PasswordUpdatedAt := orNow e (cred_PasswordUpdatedAt credential)\<rparr>) in
     execUpsert e onCredentials credentialKey (\<lambda>r. row\<lparr>crow_CreatedAt := crow_CreatedAt r\<rparr>) row))"

definition AuthStore_RecordIdentityLoginSuccess :: "storeEnv \<Rightarrow> string \<Rightarrow> string \<Rightarrow> string \<Rightarrow> (authDb, unit) op" where
  "AuthStore_RecordIdentityLoginSuccess e workspaceID0 userID at0 =
     inWorkspace workspaceID0 (\<lambda>workspaceID.
     let at = orNow e at0 in
     andThen (execUpdate e tb_Credentials onCredentials (\<lambda>r. credentialKey r = (workspaceID, userID))
        (\<lambda>r. r\<lparr>crow_FailedLoginCount := 0, crow_LockedUntil := None, crow_LastLoginAt := Some at, crow_UpdatedAt := at\<rparr>)) (\<lambda>_.
     ret ()))"

definition AuthStore_RecordIdentityLoginFailure ::
  "storeEnv \<Rightarrow> string \<Rightarrow> string \<Rightarrow> int \<Rightarrow> string \<Rightarrow> string \<Rightarrow> (authDb, unit) op" where
  "AuthStore_RecordIdentityLoginFailure e workspaceID0 userID0 maxFailures lockedUntil at0 =
     inWorkspace workspaceID0 (\<lambda>workspaceID.
     let userID = TrimSpace userID0; at = orNow e at0 in
     andThen (check (userID \<noteq> []) (Errorf ''credential user id is required'' [])) (\<lambda>_.
     andThen (check (maxFailures \<le> 0 \<or> TrimSpace lockedUntil \<noteq> []) (Errorf ''credential lock timestamp is required'' [])) (\<lambda>_.
     andThen (execUpdate e tb_Credentials onCredentials (\<lambda>r. credentialKey r = (workspaceID, userID))
        (\<lambda>r. r\<lparr>crow_FailedLoginCount := crow_FailedLoginCount r + 1,
               crow_LockedUntil := (if 0 < maxFailures \<and> maxFailures \<le> crow_FailedLoginCount r + 1 then Some lockedUntil
                                    else crow_LockedUntil r),
               crow_UpdatedAt := at\<rparr>)) (\<lambda>changed.
     check (changed = 1) (Errorf ''credential login failure update affected %d rows'' [])))))"

subsection \<open>Refresh tokens\<close>

definition tokenKey :: "tokenRow \<Rightarrow> string \<times> string" where
  "tokenKey r = (trow_WorkspaceID r, trow_ID r)"

definition authRefreshTokenInsert :: "storeEnv \<Rightarrow> string \<Rightarrow> AuthRefreshToken \<Rightarrow> string \<Rightarrow> tokenRow" where
  "authRefreshTokenInsert e workspaceID t updatedAt = \<lparr>trow_WorkspaceID = workspaceID, trow_ID = tok_ID t,
     trow_UserID = tok_UserID t, trow_SessionID = tok_SessionID t, trow_Audience = tok_Audience t,
     trow_AuthenticationTime = tok_AuthenticationTime t,
     trow_AuthenticationMethods = se_EncodeStrings e (tok_AuthenticationMethods t),
     trow_AssuranceLevel = tok_AssuranceLevel t, trow_TokenHash = tok_TokenHash t, trow_ExpiresAt = tok_ExpiresAt t,
     trow_RevokedAt = NullableText (tok_RevokedAt t), trow_ReplacedByID = NullableText (tok_ReplacedByID t),
     trow_LastUsedAt = NullableText (tok_LastUsedAt t), trow_CreatedAt = tok_CreatedAt t, trow_UpdatedAt = updatedAt\<rparr>"

definition ScanAuthRefreshToken :: "storeEnv \<Rightarrow> tokenRow \<Rightarrow> AuthRefreshToken res" where
  "ScanAuthRefreshToken e r = (case se_DecodeStrings e (trow_AuthenticationMethods r) of
      None \<Rightarrow> Inl (Errorf ''decode refresh token authentication methods'' [])
    | Some methods \<Rightarrow> Inr \<lparr>tok_ID = trow_ID r, tok_UserID = trow_UserID r, tok_SessionID = trow_SessionID r,
        tok_Audience = trow_Audience r, tok_AuthenticationTime = trow_AuthenticationTime r, tok_AuthenticationMethods = methods,
        tok_AssuranceLevel = trow_AssuranceLevel r, tok_TokenHash = trow_TokenHash r, tok_ExpiresAt = trow_ExpiresAt r,
        tok_RevokedAt = valueFromNull (trow_RevokedAt r), tok_ReplacedByID = valueFromNull (trow_ReplacedByID r),
        tok_CreatedAt = trow_CreatedAt r, tok_LastUsedAt = valueFromNull (trow_LastUsedAt r)\<rparr>)"

definition AuthStore_CreateAuthRefreshToken :: "storeEnv \<Rightarrow> string \<Rightarrow> AuthRefreshToken \<Rightarrow> (authDb, unit) op" where
  "AuthStore_CreateAuthRefreshToken e workspaceID0 token =
     inWorkspace workspaceID0 (\<lambda>workspaceID.
     andThen (check (tok_ID token \<noteq> [] \<and> tok_UserID token \<noteq> [] \<and> tok_SessionID token \<noteq> [] \<and> tok_TokenHash token \<noteq> []
                     \<and> tok_ExpiresAt token \<noteq> [])
                (Errorf ''refresh token id, user id, session id, hash, and expiry are required'' [])) (\<lambda>_.
     execInsert e tb_Tokens onTokens tokenKey
       (authRefreshTokenInsert e workspaceID (token\<lparr>tok_CreatedAt := orNow e (tok_CreatedAt token)\<rparr>) (NowString e))))"

definition AuthStore_GetAuthRefreshTokenByHash :: "storeEnv \<Rightarrow> string \<Rightarrow> string \<Rightarrow> (authDb, AuthRefreshToken option) op" where
  "AuthStore_GetAuthRefreshTokenByHash e workspaceID0 tokenHash =
     inWorkspace workspaceID0 (\<lambda>workspaceID.
     andThen (queryRow e (\<lambda>t. filter (\<lambda>r. trow_WorkspaceID r = workspaceID \<and> trow_TokenHash r = tokenHash) (tb_Tokens t))) (\<lambda>row.
     case row of None \<Rightarrow> ret None | Some r \<Rightarrow> andThen (liftRes (ScanAuthRefreshToken e r)) (\<lambda>token. ret (Some token))))"

text \<open>\<open>GlobalRefreshTokenWorkspace\<close>: the one workspace that owns a token, if there is only one.\<close>

fun uniqueWorkspace :: "string \<Rightarrow> string list \<Rightarrow> string option" where
  "uniqueWorkspace workspaceID [] = (if workspaceID = [] then None else Some workspaceID)"
| "uniqueWorkspace workspaceID (candidate # rest) =
     (if workspaceID \<noteq> [] \<and> workspaceID \<noteq> TrimSpace candidate then None else uniqueWorkspace (TrimSpace candidate) rest)"

definition AuthStore_GlobalRefreshTokenWorkspace :: "storeEnv \<Rightarrow> string \<Rightarrow> (authDb, string option) op" where
  "AuthStore_GlobalRefreshTokenWorkspace e tokenHash0 =
     (let tokenHash = TrimSpace tokenHash0 in
      if tokenHash = [] then ret None
      else andThen (queryRows e (\<lambda>t. sortStrings (map trow_WorkspaceID (filter (\<lambda>r. trow_TokenHash r = tokenHash) (tb_Tokens t))))) (\<lambda>rows.
      case uniqueWorkspace [] rows of
        None \<Rightarrow> ret None
      | Some workspaceID \<Rightarrow> inWorkspace workspaceID (\<lambda>_. ret (Some workspaceID))))"

definition AuthStore_RevokeAuthRefreshToken :: "storeEnv \<Rightarrow> string \<Rightarrow> string \<Rightarrow> string \<Rightarrow> string \<Rightarrow> (authDb, unit) op" where
  "AuthStore_RevokeAuthRefreshToken e workspaceID0 tokenID revokedAt0 replacedByID =
     inWorkspace workspaceID0 (\<lambda>workspaceID.
     let revokedAt = orNow e revokedAt0 in
     andThen (execUpdate e tb_Tokens onTokens (\<lambda>r. tokenKey r = (workspaceID, tokenID))
        (\<lambda>r. r\<lparr>trow_RevokedAt := Some revokedAt, trow_ReplacedByID := NullableText replacedByID,
               trow_LastUsedAt := Some revokedAt, trow_UpdatedAt := revokedAt\<rparr>)) (\<lambda>_.
     ret ()))"

text \<open>The predicate of the rotation's claim, and what it writes.\<close>

definition rotatable :: "string \<Rightarrow> string \<Rightarrow> tokenRow \<Rightarrow> bool" where
  "rotatable workspaceID tokenID r \<longleftrightarrow> tokenKey r = (workspaceID, tokenID) \<and> trow_RevokedAt r = None"

definition rotatedRow :: "string \<Rightarrow> string \<Rightarrow> tokenRow \<Rightarrow> tokenRow" where
  "rotatedRow revokedAt replacementID r = r\<lparr>trow_RevokedAt := Some revokedAt, trow_ReplacedByID := Some replacementID,
     trow_LastUsedAt := Some revokedAt, trow_UpdatedAt := revokedAt\<rparr>"

definition AuthStore_RotateAuthRefreshToken :: "storeEnv \<Rightarrow> string \<Rightarrow> string \<Rightarrow> string \<Rightarrow> AuthRefreshToken \<Rightarrow> (authDb, bool) op" where
  "AuthStore_RotateAuthRefreshToken e workspaceID0 tokenID revokedAt0 replacement0 =
     inWorkspace workspaceID0 (\<lambda>workspaceID.
     andThen (check (tokenID \<noteq> [] \<and> tok_ID replacement0 \<noteq> [] \<and> tok_UserID replacement0 \<noteq> [] \<and> tok_SessionID replacement0 \<noteq> []
                     \<and> tok_TokenHash replacement0 \<noteq> [] \<and> tok_ExpiresAt replacement0 \<noteq> [])
                (Errorf ''old and replacement refresh token identities are required'' [])) (\<lambda>_.
     let revokedAt = orNow e revokedAt0;
         replacement = replacement0\<lparr>tok_CreatedAt := (if tok_CreatedAt replacement0 = [] then revokedAt else tok_CreatedAt replacement0)\<rparr> in
     transaction e (
       andThen (execUpdate e tb_Tokens onTokens (rotatable workspaceID tokenID) (rotatedRow revokedAt (tok_ID replacement))) (\<lambda>changed.
       if changed \<noteq> 1 then ret (False, False)
       else andThen (execInsert e tb_Tokens onTokens tokenKey (authRefreshTokenInsert e workspaceID replacement revokedAt)) (\<lambda>_.
            ret (True, True))))))"

definition AuthStore_ListAuthRefreshTokensForUser :: "storeEnv \<Rightarrow> string \<Rightarrow> string \<Rightarrow> (authDb, AuthRefreshToken list) op" where
  "AuthStore_ListAuthRefreshTokensForUser e workspaceID0 userID =
     inWorkspace workspaceID0 (\<lambda>workspaceID.
     andThen (queryRows e (\<lambda>t. sortSlice (\<lambda>a b. trow_CreatedAt b < trow_CreatedAt a)
        (filter (\<lambda>r. trow_WorkspaceID r = workspaceID \<and> trow_UserID r = userID) (tb_Tokens t)))) (\<lambda>rows.
     liftRes (mapRes (ScanAuthRefreshToken e) rows)))"

subsection \<open>Sessions\<close>

text \<open>The sessions whose token has not expired, of the rows with their sessions and expiries.\<close>

fun activeSessions :: "int \<Rightarrow> (string \<times> string) list \<Rightarrow> string list res" where
  "activeSessions now [] = Inr []"
| "activeSessions now ((sessionID, expiresAt) # rest) =
     (case parseRFC3339 expiresAt of
        None \<Rightarrow> Inl (Errorf ''parse auth session expiry: %w'' [])
      | Some expires \<Rightarrow> bind (activeSessions now rest) (\<lambda>ids. Inr (if now < expires then List.insert sessionID ids else ids)))"

text \<open>The body the three revocations share: count the active sessions and revoke the rows.\<close>

definition revokeRows :: "storeEnv \<Rightarrow> (tokenRow \<Rightarrow> bool) \<Rightarrow> (tokenRow \<Rightarrow> bool) \<Rightarrow> string \<Rightarrow> (authDb, int \<times> bool) op" where
  "revokeRows e readable writable revokedAt =
     andThen (queryRows e (\<lambda>t. map (\<lambda>r. (trow_SessionID r, trow_ExpiresAt r)) (filter readable (tb_Tokens t)))) (\<lambda>rows.
     case parseRFC3339 revokedAt of
       None \<Rightarrow> raise (Errorf ''parse auth session revocation time: %w'' [])
     | Some now \<Rightarrow>
         andThen (liftRes (activeSessions now rows)) (\<lambda>active.
         andThen (execUpdate e tb_Tokens onTokens writable
            (\<lambda>r. r\<lparr>trow_RevokedAt := Some revokedAt, trow_LastUsedAt := Some revokedAt, trow_UpdatedAt := revokedAt\<rparr>)) (\<lambda>_.
         ret (int (length active), True))))"

definition liveOfUser :: "string \<Rightarrow> string \<Rightarrow> tokenRow \<Rightarrow> bool" where
  "liveOfUser workspaceID userID r \<longleftrightarrow> trow_WorkspaceID r = workspaceID \<and> trow_UserID r = userID \<and> trow_RevokedAt r = None"

definition AuthStore_RevokeAuthRefreshTokensForUser :: "storeEnv \<Rightarrow> string \<Rightarrow> string \<Rightarrow> string \<Rightarrow> (authDb, int) op" where
  "AuthStore_RevokeAuthRefreshTokensForUser e workspaceID0 userID revokedAt =
     inWorkspace workspaceID0 (\<lambda>workspaceID.
     let live = liveOfUser workspaceID userID in
     transaction e (revokeRows e live live (orNow e revokedAt)))"

fun sessionState :: "int \<Rightarrow> bool \<Rightarrow> bool \<Rightarrow> (string \<times> string option) list \<Rightarrow> string res" where
  "sessionState now found revoked [] =
     Inr (if revoked then ''revoked'' else if found then ''expired'' else ''missing'')"
| "sessionState now found revoked ((expiresAt, revokedAt) # rest) =
     (if revokedAt \<noteq> None \<and> TrimSpace (valueFromNull revokedAt) \<noteq> [] then sessionState now True True rest
      else case parseRFC3339 expiresAt of
        None \<Rightarrow> Inl (Errorf ''parse auth session expiry: %w'' [])
      | Some expires \<Rightarrow> if now < expires then Inr ''active'' else sessionState now True revoked rest)"

definition AuthStore_AuthSessionState :: "storeEnv \<Rightarrow> string \<Rightarrow> string \<Rightarrow> string \<Rightarrow> int \<Rightarrow> (authDb, string) op" where
  "AuthStore_AuthSessionState e workspaceID0 userID sessionID now =
     inWorkspace workspaceID0 (\<lambda>workspaceID.
     andThen (queryRows e (\<lambda>t. map (\<lambda>r. (trow_ExpiresAt r, trow_RevokedAt r))
        (filter (\<lambda>r. trow_WorkspaceID r = workspaceID \<and> trow_UserID r = userID \<and> trow_SessionID r = sessionID) (tb_Tokens t)))) (\<lambda>rows.
     liftRes (sessionState now False False rows)))"

definition revokeLogicalSessions :: "storeEnv \<Rightarrow> string \<Rightarrow> string \<Rightarrow> string \<Rightarrow> bool \<Rightarrow> string \<Rightarrow> (authDb, int) op" where
  "revokeLogicalSessions e workspaceID0 userID sessionID exclude revokedAt =
     inWorkspace workspaceID0 (\<lambda>workspaceID.
     andThen (check (TrimSpace userID \<noteq> [] \<and> TrimSpace sessionID \<noteq> []) (Errorf ''auth session user and session id are required'' [])) (\<lambda>_.
     let chosen = (\<lambda>r. liveOfUser workspaceID userID r \<and> (if exclude then trow_SessionID r \<noteq> sessionID else trow_SessionID r = sessionID)) in
     transaction e (
       andThen (execUpdate e tb_Tokens onTokens chosen id) (\<lambda>_. revokeRows e chosen chosen (orNow e revokedAt)))))"

definition AuthStore_RevokeOtherAuthSessions :: "storeEnv \<Rightarrow> string \<Rightarrow> string \<Rightarrow> string \<Rightarrow> string \<Rightarrow> (authDb, int) op" where
  "AuthStore_RevokeOtherAuthSessions e workspaceID userID currentSessionID revokedAt =
     revokeLogicalSessions e workspaceID userID currentSessionID True revokedAt"

definition AuthStore_RevokeAuthSession :: "storeEnv \<Rightarrow> string \<Rightarrow> string \<Rightarrow> string \<Rightarrow> string \<Rightarrow> (authDb, int) op" where
  "AuthStore_RevokeAuthSession e workspaceID userID sessionID revokedAt =
     revokeLogicalSessions e workspaceID userID sessionID False revokedAt"

end
