(* ===== verification/AuthStoreAdministration.thy ===== *)
theory AuthStoreAdministration
  imports AuthStoreSessions
begin

section \<open>The SQL store: accounts, factors, scoped administration and applications\<close>

text \<open>
  The rest of \<open>auth_store.go\<close>, \<open>auth_user_administration_scope_store.go\<close> and
  \<open>auth_application_store.go\<close>.  A scoped operation looks the user up within the actor's
  data scope in the transaction that writes, and repeats the scope in the write.
\<close>

subsection \<open>External accounts\<close>

definition accountKey :: "accountRow \<Rightarrow> string \<times> string" where
  "accountKey r = (arow_WorkspaceID r, arow_ID r)"

definition scanAccount :: "accountRow \<Rightarrow> IdentityExternalAccount" where
  "scanAccount r = \<lparr>acc_ID = arow_ID r, acc_UserID = arow_UserID r, acc_Provider = arow_Provider r,
     acc_ProviderSubject = arow_ProviderSubject r, acc_Email = valueFromNull (arow_Email r), acc_Phone = valueFromNull (arow_Phone r),
     acc_DisplayName = valueFromNull (arow_DisplayName r), acc_AvatarURL = valueFromNull (arow_AvatarURL r),
     acc_Metadata = valueFromNull (arow_Metadata r), acc_LinkedAt = arow_LinkedAt r\<rparr>"

definition AuthStore_ListIdentityExternalAccounts ::
  "storeEnv \<Rightarrow> string \<Rightarrow> string \<Rightarrow> (authDb, IdentityExternalAccount list) op" where
  "AuthStore_ListIdentityExternalAccounts e workspaceID0 userID =
     inWorkspace workspaceID0 (\<lambda>workspaceID.
     andThen (queryRows e (\<lambda>t. sortSlice (\<lambda>a b. (arow_Provider a, arow_ProviderSubject a) < (arow_Provider b, arow_ProviderSubject b))
        (filter (\<lambda>r. arow_WorkspaceID r = workspaceID \<and> (TrimSpace userID = [] \<or> arow_UserID r = userID)) (tb_Accounts t)))) (\<lambda>rows.
     ret (map scanAccount rows)))"

definition accountInsert :: "string \<Rightarrow> string \<Rightarrow> IdentityExternalAccount \<Rightarrow> accountRow" where
  "accountInsert workspaceID now a = \<lparr>arow_WorkspaceID = workspaceID, arow_ID = acc_ID a, arow_UserID = acc_UserID a,
     arow_Provider = acc_Provider a, arow_ProviderSubject = acc_ProviderSubject a, arow_Email = NullableText (acc_Email a),
     arow_Phone = NullableText (acc_Phone a), arow_DisplayName = NullableText (acc_DisplayName a),
     arow_AvatarURL = NullableText (acc_AvatarURL a), arow_Metadata = NullableText (acc_Metadata a),
     arow_LinkedAt = acc_LinkedAt a, arow_CreatedAt = now, arow_UpdatedAt = now\<rparr>"

definition AuthStore_UpsertIdentityExternalAccount :: "storeEnv \<Rightarrow> string \<Rightarrow> IdentityExternalAccount \<Rightarrow> (authDb, unit) op" where
  "AuthStore_UpsertIdentityExternalAccount e workspaceID0 account =
     inWorkspace workspaceID0 (\<lambda>workspaceID.
     andThen (check (acc_ID account \<noteq> [] \<and> acc_UserID account \<noteq> [] \<and> acc_Provider account \<noteq> [] \<and> acc_ProviderSubject account \<noteq> [])
                (Errorf ''external account id, user id, provider, and subject are required'' [])) (\<lambda>_.
     let row = accountInsert workspaceID (NowString e) (account\<lparr>acc_LinkedAt := orNow e (acc_LinkedAt account)\<rparr>) in
     execUpsert e onAccounts accountKey (\<lambda>r. row\<lparr>arow_CreatedAt := arow_CreatedAt r\<rparr>) row))"

definition AuthStore_RemoveIdentityExternalAccount :: "storeEnv \<Rightarrow> string \<Rightarrow> string \<Rightarrow> (authDb, unit) op" where
  "AuthStore_RemoveIdentityExternalAccount e workspaceID0 accountID =
     inWorkspace workspaceID0 (\<lambda>workspaceID.
     andThen (execDelete e tb_Accounts onAccounts (\<lambda>r. accountKey r = (workspaceID, accountID))) (\<lambda>_. ret ()))"

subsection \<open>Second factors\<close>

definition factorKey :: "factorRow \<Rightarrow> string \<times> string" where
  "factorKey r = (frow_WorkspaceID r, frow_ID r)"

definition scanFactor :: "factorRow \<Rightarrow> IdentityMFAFactor" where
  "scanFactor r = \<lparr>mfa_ID = frow_ID r, mfa_UserID = frow_UserID r, mfa_Type = frow_Type r, mfa_Label = valueFromNull (frow_Label r),
     mfa_Provider = valueFromNull (frow_Provider r), mfa_ProviderRef = valueFromNull (frow_ProviderRef r),
     mfa_Status = frow_Status r, mfa_VerifiedAt = valueFromNull (frow_VerifiedAt r),
     mfa_LastUsedAt = valueFromNull (frow_LastUsedAt r), mfa_CreatedAt = frow_CreatedAt r, mfa_UpdatedAt = frow_UpdatedAt r\<rparr>"

definition AuthStore_ListIdentityMFAFactors :: "storeEnv \<Rightarrow> string \<Rightarrow> string \<Rightarrow> (authDb, IdentityMFAFactor list) op" where
  "AuthStore_ListIdentityMFAFactors e workspaceID0 userID0 =
     inWorkspace workspaceID0 (\<lambda>workspaceID.
     let userID = TrimSpace userID0 in
     andThen (check (userID \<noteq> []) (Errorf ''MFA factor user id is required'' [])) (\<lambda>_.
     andThen (queryRows e (\<lambda>t. sortSlice (\<lambda>a b. (frow_CreatedAt a, frow_ID a) < (frow_CreatedAt b, frow_ID b))
        (filter (\<lambda>r. frow_WorkspaceID r = workspaceID \<and> frow_UserID r = userID) (tb_Factors t)))) (\<lambda>rows.
     ret (map scanFactor rows))))"

text \<open>Columns an insert leaves out take the defaults of the schema.\<close>

definition factorInsert :: "string \<Rightarrow> IdentityMFAFactor \<Rightarrow> factorRow" where
  "factorInsert workspaceID f = \<lparr>frow_WorkspaceID = workspaceID, frow_ID = mfa_ID f, frow_UserID = mfa_UserID f,
     frow_Type = mfa_Type f, frow_Label = NullableText (mfa_Label f), frow_Provider = NullableText (mfa_Provider f),
     frow_ProviderRef = NullableText (mfa_ProviderRef f), frow_Status = mfa_Status f,
     frow_VerifiedAt = NullableText (mfa_VerifiedAt f), frow_LastUsedAt = NullableText (mfa_LastUsedAt f),
     frow_Secret = None, frow_Step = -1, frow_Failures = 0, frow_LockedUntil = None,
     frow_CreatedAt = mfa_CreatedAt f, frow_UpdatedAt = mfa_UpdatedAt f\<rparr>"

definition AuthStore_UpsertIdentityMFAFactor :: "storeEnv \<Rightarrow> string \<Rightarrow> IdentityMFAFactor \<Rightarrow> (authDb, unit) op" where
  "AuthStore_UpsertIdentityMFAFactor e workspaceID0 factor0 =
     inWorkspace workspaceID0 (\<lambda>workspaceID.
     let factor = factor0\<lparr>mfa_ID := TrimSpace (mfa_ID factor0), mfa_UserID := TrimSpace (mfa_UserID factor0),
                          mfa_Type := TrimSpace (mfa_Type factor0), mfa_Status := TrimSpace (mfa_Status factor0)\<rparr> in
     andThen (check (mfa_ID factor \<noteq> [] \<and> mfa_UserID factor \<noteq> [] \<and> mfa_Type factor \<noteq> [] \<and> mfa_Status factor \<noteq> [])
                (Errorf ''MFA factor id, user id, type, and status are required'' [])) (\<lambda>_.
     let row = factorInsert workspaceID (factor\<lparr>mfa_CreatedAt := orNow e (mfa_CreatedAt factor), mfa_UpdatedAt := NowString e\<rparr>) in
     execUpsert e onFactors factorKey
       (\<lambda>r. row\<lparr>frow_CreatedAt := frow_CreatedAt r, frow_Secret := frow_Secret r, frow_Step := frow_Step r,
                frow_Failures := frow_Failures r, frow_LockedUntil := frow_LockedUntil r\<rparr>) row))"

definition AuthStore_RevokeIdentityMFAFactor :: "storeEnv \<Rightarrow> string \<Rightarrow> string \<Rightarrow> string \<Rightarrow> (authDb, unit) op" where
  "AuthStore_RevokeIdentityMFAFactor e workspaceID0 userID0 factorID0 =
     inWorkspace workspaceID0 (\<lambda>workspaceID.
     let userID = TrimSpace userID0; factorID = TrimSpace factorID0 in
     andThen (check (userID \<noteq> [] \<and> factorID \<noteq> []) (Errorf ''MFA factor user id and factor id are required'' [])) (\<lambda>_.
     andThen (execUpdate e tb_Factors onFactors (\<lambda>r. factorKey r = (workspaceID, factorID) \<and> frow_UserID r = userID)
        (\<lambda>r. r\<lparr>frow_Status := ''disabled'', frow_UpdatedAt := NowString e\<rparr>)) (\<lambda>changed.
     check (changed = 1) (Errorf ''MFA factor not found'' []))))"

subsection \<open>Data scopes in SQL (identity/datascope)\<close>

definition UserPredicate :: "IdentityDataScopeFilter \<Rightarrow> userRow \<Rightarrow> bool" where
  "UserPredicate scope0 u =
     (let scope = Filter_Normalized scope0 in
      flt_Unrestricted scope \<or> urow_ID u \<in> set (flt_OwnerUserIDs scope) \<or> urow_OrgID u \<in> set (flt_OwnerOrgIDs scope))"

definition UserExists :: "authTables \<Rightarrow> string \<Rightarrow> string \<Rightarrow> IdentityDataScopeFilter \<Rightarrow> bool" where
  "UserExists t workspaceID userID scope =
     list_ex (\<lambda>u. urow_WorkspaceID u = TrimSpace workspaceID \<and> urow_ID u = userID \<and> UserPredicate scope u) (tb_Users t)"

definition identityUserExistsWithinDataScope ::
  "storeEnv \<Rightarrow> string \<Rightarrow> string \<Rightarrow> IdentityDataScopeFilter \<Rightarrow> (authDb, bool) op" where
  "identityUserExistsWithinDataScope e workspaceID userID scope =
     andThen (queryRow e (\<lambda>t. filter (\<lambda>u. urow_WorkspaceID u = workspaceID \<and> urow_ID u = userID
        \<and> (flt_Unrestricted scope \<or> UserPredicate scope u)) (tb_Users t))) (\<lambda>row.
     ret (row \<noteq> None))"

definition AuthStore_IdentityUserExistsWithinDataScope ::
  "storeEnv \<Rightarrow> string \<Rightarrow> string \<Rightarrow> IdentityDataScopeFilter \<Rightarrow> (authDb, bool) op" where
  "AuthStore_IdentityUserExistsWithinDataScope e workspaceID0 userID scope =
     inWorkspace workspaceID0 (\<lambda>workspaceID. identityUserExistsWithinDataScope e workspaceID (TrimSpace userID) scope)"

text \<open>
  An update whose predicate may ask for a user in scope: \<open>EXISTS\<close> in the \<open>WHERE\<close>
  clause is left out for an unrestricted actor.
\<close>

definition execScopedUpdate ::
  "storeEnv \<Rightarrow> (authTables \<Rightarrow> 'r list) \<Rightarrow> (('r list \<Rightarrow> 'r list) \<Rightarrow> authTables \<Rightarrow> authTables) \<Rightarrow> string \<Rightarrow> ('r \<Rightarrow> string) \<Rightarrow> IdentityDataScopeFilter
     \<Rightarrow> ('r \<Rightarrow> bool) \<Rightarrow> ('r \<Rightarrow> 'r) \<Rightarrow> (authDb, nat) op" where
  "execScopedUpdate e get upd workspaceID userOf scope p f = statement e (\<lambda>t.
     let q = (\<lambda>r. p r \<and> (flt_Unrestricted scope \<or> UserExists t workspaceID (userOf r) scope)) in
     (Inr (length (filter q (get t))), upd (updateRows q f) t))"

definition AuthStore_UnlockIdentityCredentialWithinDataScope ::
  "storeEnv \<Rightarrow> string \<Rightarrow> string \<Rightarrow> IdentityDataScopeFilter \<Rightarrow> (authDb, bool \<times> bool) op" where
  "AuthStore_UnlockIdentityCredentialWithinDataScope e workspaceID0 userID0 scope =
     inWorkspace workspaceID0 (\<lambda>workspaceID.
     let userID = TrimSpace userID0; mine = (\<lambda>r. credentialKey r = (workspaceID, userID)) in
     transaction e (
       andThen (identityUserExistsWithinDataScope e workspaceID userID scope) (\<lambda>visible.
       if \<not> visible then ret ((False, False), False)
       else andThen (queryRow e (\<lambda>t. filter mine (tb_Credentials t))) (\<lambda>row.
       if row = None then ret ((True, False), False)
       else andThen (execScopedUpdate e tb_Credentials onCredentials workspaceID crow_UserID scope mine
              (\<lambda>r. r\<lparr>crow_FailedLoginCount := 0, crow_LockedUntil := None, crow_UpdatedAt := NowString e\<rparr>)) (\<lambda>changed.
       if changed \<noteq> 1 then ret ((True, False), False) else ret ((True, True), True))))))"

definition AuthStore_ResetIdentityCredentialWithinDataScope ::
  "storeEnv \<Rightarrow> string \<Rightarrow> string \<Rightarrow> string \<Rightarrow> string \<Rightarrow> bool \<Rightarrow> IdentityDataScopeFilter \<Rightarrow> (authDb, bool) op" where
  "AuthStore_ResetIdentityCredentialWithinDataScope e workspaceID0 userID0 passwordHash0 passwordUpdatedAt0 mustChange scope =
     inWorkspace workspaceID0 (\<lambda>workspaceID.
     let userID = TrimSpace userID0; passwordHash = TrimSpace passwordHash0;
         passwordUpdatedAt = (if TrimSpace passwordUpdatedAt0 = [] then NowString e else passwordUpdatedAt0);
         eligible = (\<lambda>u. urow_WorkspaceID u = workspaceID \<and> urow_ID u = userID \<and> urow_Status u = ''active''
                         \<and> (flt_Unrestricted scope \<or> UserPredicate scope u));
         now = NowString e;
         row = \<lparr>crow_WorkspaceID = workspaceID, crow_UserID = userID, crow_PasswordHash = passwordHash,
                crow_PasswordUpdatedAt = passwordUpdatedAt, crow_FailedLoginCount = 0, crow_LockedUntil = None,
                crow_LastLoginAt = None, crow_MustChangePassword = mustChange, crow_CreatedAt = now, crow_UpdatedAt = now\<rparr> in
     andThen (check (userID \<noteq> [] \<and> passwordHash \<noteq> []) (Errorf ''credential user id and password hash are required'' [])) (\<lambda>_.
     transaction e (
       andThen (queryRow e (\<lambda>t. filter eligible (tb_Users t))) (\<lambda>user.
       if user = None then ret (False, False)
       else andThen (statement e (\<lambda>t. if list_ex eligible (tb_Users t)
              then (Inr (1::nat), onCredentials (upsertRow credentialKey
                     (\<lambda>r. row\<lparr>crow_CreatedAt := crow_CreatedAt r, crow_LastLoginAt := crow_LastLoginAt r\<rparr>) row) t)
              else (Inr 0, t))) (\<lambda>changed.
       if changed \<noteq> 1 then ret (False, False) else ret (True, True))))))"

definition AuthStore_RevokeIdentityMFAFactorWithinDataScope ::
  "storeEnv \<Rightarrow> string \<Rightarrow> string \<Rightarrow> string \<Rightarrow> IdentityDataScopeFilter \<Rightarrow> (authDb, bool \<times> bool) op" where
  "AuthStore_RevokeIdentityMFAFactorWithinDataScope e workspaceID0 userID0 factorID0 scope =
     inWorkspace workspaceID0 (\<lambda>workspaceID.
     let userID = TrimSpace userID0; factorID = TrimSpace factorID0 in
     transaction e (
       andThen (identityUserExistsWithinDataScope e workspaceID userID scope) (\<lambda>visible.
       if \<not> visible then ret ((False, False), False)
       else andThen (execScopedUpdate e tb_Factors onFactors workspaceID frow_UserID scope
              (\<lambda>r. factorKey r = (workspaceID, factorID) \<and> frow_UserID r = userID)
              (\<lambda>r. r\<lparr>frow_Status := ''disabled'', frow_UpdatedAt := NowString e\<rparr>)) (\<lambda>changed.
       if changed \<noteq> 1 then ret ((True, False), False) else ret ((True, True), True)))))"

definition AuthStore_RevokeAuthRefreshTokensForUserWithinDataScope ::
  "storeEnv \<Rightarrow> string \<Rightarrow> string \<Rightarrow> string \<Rightarrow> IdentityDataScopeFilter \<Rightarrow> (authDb, int \<times> bool) op" where
  "AuthStore_RevokeAuthRefreshTokensForUserWithinDataScope e workspaceID0 userID0 revokedAt0 scope =
     inWorkspace workspaceID0 (\<lambda>workspaceID.
     let userID = TrimSpace userID0; revokedAt = orNow e revokedAt0; live = liveOfUser workspaceID userID in
     transaction e (
       andThen (identityUserExistsWithinDataScope e workspaceID userID scope) (\<lambda>visible.
       if \<not> visible then ret ((0, False), False)
       else andThen (queryRows e (\<lambda>t. map (\<lambda>r. (trow_SessionID r, trow_ExpiresAt r)) (filter live (tb_Tokens t)))) (\<lambda>rows.
       case parseRFC3339 revokedAt of
         None \<Rightarrow> raise (Errorf ''parse auth session revocation time: %w'' [])
       | Some now \<Rightarrow>
           andThen (liftRes (activeSessions now rows)) (\<lambda>active.
           andThen (execScopedUpdate e tb_Tokens onTokens workspaceID trow_UserID scope live
              (\<lambda>r. r\<lparr>trow_RevokedAt := Some revokedAt, trow_LastUsedAt := Some revokedAt, trow_UpdatedAt := revokedAt\<rparr>)) (\<lambda>_.
           ret ((int (length active), True), True)))))))"

subsection \<open>Applications\<close>

record AuthApplicationRegistration =
  reg_ID :: string
  reg_WorkspaceID :: string
  reg_ApplicationKey :: string
  reg_RedirectURLs :: "string list"
  reg_Status :: string
  reg_CreatedAt :: string
  reg_UpdatedAt :: string

abbreviation onApplications :: "(applicationRow list \<Rightarrow> applicationRow list) \<Rightarrow> authTables \<Rightarrow> authTables" where
  "onApplications f t \<equiv> t\<lparr>tb_Applications := f (tb_Applications t)\<rparr>"

definition applicationKey :: "applicationRow \<Rightarrow> string \<times> string" where
  "applicationKey r = (prow_WorkspaceID r, prow_ApplicationKey r)"

definition authApplicationRowID :: "storeEnv \<Rightarrow> string \<Rightarrow> string \<Rightarrow> string" where
  "authApplicationRowID e workspaceID application =
     ''application-'' @ hexEncode (take 16 (ae_SHA256 (se_Auth e) (workspaceID @ [CHR 0x00] @ application)))"

definition AuthStore_GetAuthApplication :: "storeEnv \<Rightarrow> string \<Rightarrow> string \<Rightarrow> (authDb, AuthApplicationRegistration option) op" where
  "AuthStore_GetAuthApplication e workspaceID0 application0 =
     inWorkspace workspaceID0 (\<lambda>workspaceID.
     let application = TrimSpace application0 in
     andThen (check (application \<noteq> []) (Errorf ''authentication application key is required'' [])) (\<lambda>_.
     andThen (queryRow e (\<lambda>t. filter (\<lambda>r. applicationKey r = (workspaceID, application)) (tb_Applications t))) (\<lambda>row.
     case row of
       None \<Rightarrow> ret None
     | Some r \<Rightarrow> (case se_DecodeStrings e (prow_RedirectURLs r) of
         None \<Rightarrow> raise (Errorf ''decode authentication application redirects: %w'' [])
       | Some redirects \<Rightarrow> ret (Some \<lparr>reg_ID = prow_ID r, reg_WorkspaceID = prow_WorkspaceID r,
           reg_ApplicationKey = prow_ApplicationKey r, reg_RedirectURLs = redirects, reg_Status = prow_Status r,
           reg_CreatedAt = prow_CreatedAt r, reg_UpdatedAt = prow_UpdatedAt r\<rparr>)))))"

definition AuthStore_AuthorizationRedirectRegistered :: "storeEnv \<Rightarrow> string \<Rightarrow> string \<Rightarrow> string \<Rightarrow> (authDb, bool) op" where
  "AuthStore_AuthorizationRedirectRegistered e workspaceID application redirectURL =
     andThen (AuthStore_GetAuthApplication e workspaceID application) (\<lambda>found.
     ret (case found of None \<Rightarrow> False
          | Some r \<Rightarrow> reg_Status r = ''active'' \<and> TrimSpace redirectURL \<in> set (reg_RedirectURLs r)))"

definition applicationRows :: "storeEnv \<Rightarrow> string \<Rightarrow> AuthApplicationRegistration list \<Rightarrow> applicationRow list res" where
  "applicationRows e workspaceID registrations =
     mapRes (\<lambda>r. let application = TrimSpace (reg_ApplicationKey r) in
       guardErr (application \<noteq> [] \<and> TrimSpace (reg_WorkspaceID r) = workspaceID)
         (Errorf ''authentication application registration does not match workspace scope'' [])
         (Inr \<lparr>prow_WorkspaceID = workspaceID, prow_ID = authApplicationRowID e workspaceID application,
               prow_ApplicationKey = application, prow_RedirectURLs = se_EncodeStrings e (reg_RedirectURLs r),
               prow_Status = ''active'', prow_CreatedAt = NowString e, prow_UpdatedAt = NowString e\<rparr>)) registrations"

definition upsertApplications :: "applicationRow list \<Rightarrow> applicationRow list \<Rightarrow> applicationRow list" where
  "upsertApplications batch rows = fold (\<lambda>row. upsertRow applicationKey
     (\<lambda>r. r\<lparr>prow_RedirectURLs := prow_RedirectURLs row, prow_UpdatedAt := prow_UpdatedAt row\<rparr>) row) batch rows"

definition AuthStore_UpsertAuthApplications ::
  "storeEnv \<Rightarrow> batch_ranges \<Rightarrow> string \<Rightarrow> AuthApplicationRegistration list \<Rightarrow> (authDb, unit) op" where
  "AuthStore_UpsertAuthApplications e ranges workspaceID0 registrations =
     inWorkspace workspaceID0 (\<lambda>workspaceID.
     if registrations = [] then ret ()
     else
       andThen (liftRes (applicationRows e workspaceID registrations)) (\<lambda>rows.
       andThen (case ranges (length rows) of
           Inl _ \<Rightarrow> raise (Errorf ''plan authentication application upsert batches: %w'' []) | Inr rs \<Rightarrow> ret rs) (\<lambda>rs.
       forEach (\<lambda>r. statement e (\<lambda>t. (Inr (), onApplications (upsertApplications (batchOf rows r)) t))) rs)))"

subsection \<open>Security facts of the user projection\<close>

record UserProjectionSecurityFact =
  fact_UserID :: string
  fact_LockedUntil :: string
  fact_LastLoginAt :: string
  fact_ActiveSessions :: nat
  fact_MFAEnabled :: bool

fun normalizedAuthUserIDs :: "string list \<Rightarrow> string list \<Rightarrow> string list" where
  "normalizedAuthUserIDs seen [] = []"
| "normalizedAuthUserIDs seen (v # vs) =
     (let value = TrimSpace v in
      if value = [] \<or> value \<in> set seen then normalizedAuthUserIDs seen vs
      else value # normalizedAuthUserIDs (value # seen) vs)"

definition securityFact :: "storeEnv \<Rightarrow> string \<Rightarrow> authTables \<Rightarrow> userRow \<Rightarrow> UserProjectionSecurityFact" where
  "securityFact e workspaceID t u =
     (let credential = find (\<lambda>r. credentialKey r = (workspaceID, urow_ID u)) (tb_Credentials t);
          text = (\<lambda>f. case credential of None \<Rightarrow> [] | Some r \<Rightarrow> valueFromNull (f r)) in
      \<lparr>fact_UserID = urow_ID u, fact_LockedUntil = text crow_LockedUntil, fact_LastLoginAt = text crow_LastLoginAt,
       fact_ActiveSessions = length (filter (\<lambda>r. liveOfUser workspaceID (urow_ID u) r \<and> NowString e < trow_ExpiresAt r) (tb_Tokens t)),
       fact_MFAEnabled = list_ex (\<lambda>r. frow_WorkspaceID r = workspaceID \<and> frow_UserID r = urow_ID u \<and> frow_Status r = ''active''
          \<and> valueFromNull (frow_VerifiedAt r) \<noteq> []) (tb_Factors t)\<rparr>)"

definition queryUserProjectionSecurityFacts ::
  "storeEnv \<Rightarrow> string \<Rightarrow> string list \<Rightarrow> (authDb, UserProjectionSecurityFact list) op" where
  "queryUserProjectionSecurityFacts e workspaceID userIDs =
     queryRows e (\<lambda>t. map (securityFact e workspaceID t)
       (filter (\<lambda>u. urow_WorkspaceID u = workspaceID \<and> urow_ID u \<in> set userIDs) (tb_Users t)))"

fun securityFactsLoop ::
  "storeEnv \<Rightarrow> string \<Rightarrow> string list \<Rightarrow> (nat \<times> nat) list \<Rightarrow> (authDb, UserProjectionSecurityFact list) op" where
  "securityFactsLoop e workspaceID userIDs [] = ret []"
| "securityFactsLoop e workspaceID userIDs (r # rs) =
     andThen (queryUserProjectionSecurityFacts e workspaceID (batchOf userIDs r)) (\<lambda>facts.
     andThen (securityFactsLoop e workspaceID userIDs rs) (\<lambda>more. ret (facts @ more)))"

definition AuthStore_ListUserProjectionSecurityFacts ::
  "storeEnv \<Rightarrow> batch_ranges \<Rightarrow> string \<Rightarrow> string list \<Rightarrow> (authDb, UserProjectionSecurityFact list) op" where
  "AuthStore_ListUserProjectionSecurityFacts e ranges workspaceID0 userIDs0 =
     inWorkspace workspaceID0 (\<lambda>workspaceID.
     if userIDs0 = [] then ret []
     else let userIDs = normalizedAuthUserIDs [] userIDs0 in
       case ranges (length userIDs) of
         Inl _ \<Rightarrow> raise (Errorf ''build auth projection security batches: %w'' [])
       | Inr rs \<Rightarrow> securityFactsLoop e workspaceID userIDs rs)"

end
