(* ===== verification/AuthStoreChallenges.thy ===== *)
theory AuthStoreChallenges
  imports AuthStoreAdministration AuthPolicy
begin

section \<open>The SQL store: login transactions, one-time codes and authenticators\<close>

text \<open>
  \<open>auth_login_transaction_store.go\<close>, \<open>auth_totp_store.go\<close>,
  \<open>auth_assertion_replay_store.go\<close>, \<open>auth_authorization_code_store.go\<close> and
  \<open>auth_subject_erasure.go\<close>.  A state, a code or an assertion is kept as its hash, the
  challenge itself encrypted.  Expiry is compared as text, in the database.
\<close>

abbreviation onLogins :: "(loginRow list \<Rightarrow> loginRow list) \<Rightarrow> authTables \<Rightarrow> authTables" where
  "onLogins f t \<equiv> t\<lparr>tb_Logins := f (tb_Logins t)\<rparr>"

abbreviation onDeliveryLimits :: "(deliveryLimitRow list \<Rightarrow> deliveryLimitRow list) \<Rightarrow> authTables \<Rightarrow> authTables" where
  "onDeliveryLimits f t \<equiv> t\<lparr>tb_DeliveryLimits := f (tb_DeliveryLimits t)\<rparr>"

abbreviation onReplays :: "(replayRow list \<Rightarrow> replayRow list) \<Rightarrow> authTables \<Rightarrow> authTables" where
  "onReplays f t \<equiv> t\<lparr>tb_Replays := f (tb_Replays t)\<rparr>"

abbreviation onCodes :: "(codeRow list \<Rightarrow> codeRow list) \<Rightarrow> authTables \<Rightarrow> authTables" where
  "onCodes f t \<equiv> t\<lparr>tb_Codes := f (tb_Codes t)\<rparr>"

abbreviation AuthChallengeStatusSuperseded :: string where "AuthChallengeStatusSuperseded \<equiv> ''superseded''"

abbreviation loginSecrets :: string where "loginSecrets \<equiv> ''identity.auth-login-transaction''"
abbreviation codeSecrets :: string where "codeSecrets \<equiv> ''identity.auth-authorization-code''"
abbreviation totpSecrets :: string where "totpSecrets \<equiv> ''identity.auth-totp-factor''"

definition loginKey :: "loginRow \<Rightarrow> string \<times> string" where
  "loginKey r = (lrow_WorkspaceID r, lrow_StateHash r)"

definition limitKey :: "deliveryLimitRow \<Rightarrow> string \<times> string" where
  "limitKey r = (drow_WorkspaceID r, drow_SubjectKeyHash r)"

definition replayKey :: "replayRow \<Rightarrow> string \<times> string" where
  "replayKey r = (rrow_WorkspaceID r, rrow_ReplayHash r)"

definition codeKey :: "codeRow \<Rightarrow> string \<times> string" where
  "codeKey r = (orow_WorkspaceID r, orow_CodeHash r)"

definition authLoginStateHash :: "storeEnv \<Rightarrow> string \<Rightarrow> string" where
  "authLoginStateHash e state = base64Encode (ae_SHA256 (se_Auth e) (TrimSpace state))"

text \<open>The error of an empty workspace.\<close>

definition authWorkspaceRequiredError :: go_error where
  "authWorkspaceRequiredError = ErrWorkspaceIDRequired"

subsection \<open>Creating\<close>

definition prepareAuthLoginTransaction ::
  "storeEnv \<Rightarrow> AuthProviderChallenge \<Rightarrow> int \<Rightarrow> (string \<times> string \<times> string \<times> string \<times> string) res" where
  "prepareAuthLoginTransaction e challenge now =
     bind (authWorkspaceID (ch_WorkspaceID challenge)) (\<lambda>workspaceID.
     let provider = lowerKey (ch_Provider challenge); state = TrimSpace (ch_State challenge) in
     guardErr (provider \<noteq> [] \<and> state \<noteq> []) authWorkspaceRequiredError (
     let stateHash = authLoginStateHash e state in
     bind (se_Encrypt e loginSecrets workspaceID stateHash (se_EncodeChallenge e (challenge\<lparr>ch_State := []\<rparr>))) (\<lambda>envelope.
     Inr (workspaceID, provider, stateHash, envelope, formatInstantNano (nowUnlessZero e now)))))"

definition loginInsert :: "string \<Rightarrow> string \<Rightarrow> string \<Rightarrow> string \<Rightarrow> string \<Rightarrow> AuthProviderChallenge \<Rightarrow> string \<Rightarrow> loginRow" where
  "loginInsert workspaceID provider stateHash subjectKeyHash envelope challenge now = \<lparr>lrow_WorkspaceID = workspaceID,
     lrow_StateHash = stateHash, lrow_ProviderKey = provider, lrow_SubjectKeyHash = nullableAuthText subjectKeyHash,
     lrow_Status = (if TrimSpace (ch_Status challenge) = [] then AuthChallengeStatusActive else TrimSpace (ch_Status challenge)),
     lrow_Purpose = (if TrimSpace (ch_Purpose challenge) = [] then AuthChallengePurposeLogin else TrimSpace (ch_Purpose challenge)),
     lrow_DeliveryRef = nullableAuthText (ch_DeliveryRef challenge), lrow_DeliveryError = nullableAuthText (ch_DeliveryError challenge),
     lrow_Payload = envelope, lrow_Attempts = ch_Attempts challenge, lrow_ExpiresAt = ch_ExpiresAt challenge,
     lrow_ConsumedAt = None, lrow_CreatedAt = valueOrNow (ch_CreatedAt challenge) now, lrow_UpdatedAt = now\<rparr>"

definition insertAuthLoginTransaction ::
  "storeEnv \<Rightarrow> string \<Rightarrow> string \<Rightarrow> string \<Rightarrow> string \<Rightarrow> string \<Rightarrow> AuthProviderChallenge \<Rightarrow> string \<Rightarrow> (authDb, unit) op" where
  "insertAuthLoginTransaction e workspaceID provider stateHash subjectKeyHash envelope challenge now =
     execInsert e tb_Logins onLogins loginKey (loginInsert workspaceID provider stateHash subjectKeyHash envelope challenge now)"

definition AuthStore_CreateAuthLoginTransaction :: "storeEnv \<Rightarrow> AuthProviderChallenge \<Rightarrow> (authDb, unit) op" where
  "AuthStore_CreateAuthLoginTransaction e challenge0 =
     (let challenge = challenge0\<lparr>
            ch_Status := (if TrimSpace (ch_Status challenge0) = [] then AuthChallengeStatusActive else ch_Status challenge0),
            ch_Purpose := (if TrimSpace (ch_Purpose challenge0) = [] then AuthChallengePurposeLogin else ch_Purpose challenge0)\<rparr> in
      andThen (liftRes (prepareAuthLoginTransaction e challenge zeroTime)) (\<lambda>(workspaceID, provider, stateHash, envelope, now).
      insertAuthLoginTransaction e workspaceID provider stateHash [] envelope challenge now))"

text \<open>The next delivery to a subject is claimed by moving its limit, or by the first row of the subject.\<close>

definition claimAuthOTPDelivery :: "storeEnv \<Rightarrow> string \<Rightarrow> string \<Rightarrow> string \<Rightarrow> int \<Rightarrow> int \<Rightarrow> (authDb, bool) op" where
  "claimAuthOTPDelivery e workspaceID provider subjectKeyHash now nextAllowedAt =
     (let nowText = formatInstantNano now; nextText = formatInstantNano nextAllowedAt in
      andThen (execUpdate e tb_DeliveryLimits onDeliveryLimits
         (\<lambda>r. limitKey r = (workspaceID, subjectKeyHash) \<and> drow_NextAllowedAt r \<le> nowText)
         (\<lambda>r. r\<lparr>drow_ProviderKey := provider, drow_NextAllowedAt := nextText, drow_UpdatedAt := nowText\<rparr>)) (\<lambda>changed.
      if changed = 1 then ret True
      else andThen (execInsertNew e tb_DeliveryLimits onDeliveryLimits limitKey
             \<lparr>drow_WorkspaceID = workspaceID, drow_SubjectKeyHash = subjectKeyHash, drow_ProviderKey = provider,
              drow_NextAllowedAt = nextText, drow_CreatedAt = nowText, drow_UpdatedAt = nowText\<rparr>) (\<lambda>inserted.
           ret (inserted = 1))))"

definition AuthStore_CreateAuthOTPTransaction ::
  "storeEnv \<Rightarrow> AuthProviderChallenge \<Rightarrow> string \<Rightarrow> int \<Rightarrow> int \<Rightarrow> (authDb, bool) op" where
  "AuthStore_CreateAuthOTPTransaction e challenge subjectKeyHash0 nextAllowedAt now =
     (let subjectKeyHash = TrimSpace subjectKeyHash0 in
      andThen (check (subjectKeyHash \<noteq> []) authWorkspaceRequiredError) (\<lambda>_.
      andThen (liftRes (prepareAuthLoginTransaction e challenge now)) (\<lambda>(workspaceID, provider, stateHash, envelope, nowText).
      andThen (check (nextAllowedAt \<noteq> zeroTime \<and> now < nextAllowedAt) authWorkspaceRequiredError) (\<lambda>_.
      transaction e (
        andThen (claimAuthOTPDelivery e workspaceID provider subjectKeyHash now nextAllowedAt) (\<lambda>claimed.
        if \<not> claimed then ret (False, False)
        else andThen (execUpdate e tb_Logins onLogins
               (\<lambda>r. lrow_WorkspaceID r = workspaceID \<and> lrow_ProviderKey r = provider
                    \<and> lrow_SubjectKeyHash r = Some subjectKeyHash \<and> lrow_ConsumedAt r = None)
               (\<lambda>r. r\<lparr>lrow_Status := AuthChallengeStatusSuperseded, lrow_ConsumedAt := Some nowText, lrow_UpdatedAt := nowText\<rparr>)) (\<lambda>_.
             andThen (insertAuthLoginTransaction e workspaceID provider stateHash subjectKeyHash envelope challenge nowText) (\<lambda>_.
             ret (True, True)))))))))"

definition AuthStore_UpdateAuthOTPTransactionStatus ::
  "storeEnv \<Rightarrow> string \<Rightarrow> string \<Rightarrow> string \<Rightarrow> string \<Rightarrow> string \<Rightarrow> string \<Rightarrow> int \<Rightarrow> (authDb, unit) op" where
  "AuthStore_UpdateAuthOTPTransactionStatus e workspaceID0 provider0 state0 status0 deliveryRef deliveryError now0 =
     inWorkspace workspaceID0 (\<lambda>workspaceID.
     let provider = lowerKey provider0; state = TrimSpace state0; status = TrimSpace status0;
         nowText = formatInstantNano (nowUnlessZero e now0);
         over = (status = AuthChallengeStatusFailed \<or> status = AuthChallengeStatusSuperseded) in
     andThen (check (provider \<noteq> [] \<and> state \<noteq> [] \<and> status \<noteq> []) authWorkspaceRequiredError) (\<lambda>_.
     andThen (execUpdate e tb_Logins onLogins
        (\<lambda>r. loginKey r = (workspaceID, authLoginStateHash e state) \<and> lrow_ProviderKey r = provider \<and> lrow_ConsumedAt r = None)
        (\<lambda>r. r\<lparr>lrow_Status := status, lrow_DeliveryRef := nullableAuthText deliveryRef,
               lrow_DeliveryError := nullableAuthText deliveryError, lrow_UpdatedAt := nowText,
               lrow_ConsumedAt := (if over then Some nowText else lrow_ConsumedAt r)\<rparr>)) (\<lambda>changed.
     check (changed = 1) ErrNoRows)))"

subsection \<open>Consuming a login transaction\<close>

text \<open>A row that can be consumed: active, not consumed, and not expired as text.\<close>

definition consumable :: "string \<Rightarrow> string \<Rightarrow> string \<Rightarrow> string \<Rightarrow> loginRow \<Rightarrow> bool" where
  "consumable workspaceID stateHash provider nowText r \<longleftrightarrow>
     loginKey r = (workspaceID, stateHash) \<and> lrow_ProviderKey r = provider \<and> lrow_Status r = AuthChallengeStatusActive
     \<and> lrow_ConsumedAt r = None \<and> nowText < lrow_ExpiresAt r"

definition openChallenge :: "storeEnv \<Rightarrow> string \<Rightarrow> string \<Rightarrow> string \<Rightarrow> AuthProviderChallenge res" where
  "openChallenge e workspaceID stateHash envelope =
     bind (se_Decrypt e loginSecrets workspaceID stateHash envelope) (\<lambda>plain.
     case se_DecodeChallenge e plain of None \<Rightarrow> Inl decodeError | Some ch \<Rightarrow> Inr ch)"

definition AuthStore_ConsumeAuthLoginTransaction ::
  "storeEnv \<Rightarrow> string \<Rightarrow> string \<Rightarrow> string \<Rightarrow> int \<Rightarrow> (authDb, AuthProviderChallenge option) op" where
  "AuthStore_ConsumeAuthLoginTransaction e workspaceID0 provider0 state0 now0 =
     inWorkspace workspaceID0 (\<lambda>workspaceID.
     let provider = lowerKey provider0; state = TrimSpace state0; stateHash = authLoginStateHash e state;
         nowText = formatInstantNano (nowUnlessZero e now0) in
     if provider = [] \<or> state = [] then ret None
     else transaction e (
       andThen (execUpdate e tb_Logins onLogins (consumable workspaceID stateHash provider nowText)
          (\<lambda>r. r\<lparr>lrow_ConsumedAt := Some nowText, lrow_Status := AuthChallengeStatusConsumed, lrow_UpdatedAt := nowText\<rparr>)) (\<lambda>count.
       if count \<noteq> 1 then ret (None, False)
       else andThen (queryRow e (\<lambda>t. filter (\<lambda>r. loginKey r = (workspaceID, stateHash) \<and> lrow_ProviderKey r = provider) (tb_Logins t))) (\<lambda>row.
       case row of
         None \<Rightarrow> raise ErrNoRows
       | Some r \<Rightarrow>
           andThen (liftRes (openChallenge e workspaceID stateHash (lrow_Payload r))) (\<lambda>ch.
           ret (Some (ch\<lparr>ch_State := state, ch_Status := AuthChallengeStatusConsumed, ch_Purpose := lrow_Purpose r,
                         ch_DeliveryRef := valueFromNull (lrow_DeliveryRef r), ch_DeliveryError := valueFromNull (lrow_DeliveryError r)\<rparr>), True))))))"

definition AuthStore_FederatedLoginWorkspace :: "storeEnv \<Rightarrow> string \<Rightarrow> string \<Rightarrow> int \<Rightarrow> (authDb, string option) op" where
  "AuthStore_FederatedLoginWorkspace e provider0 state0 now0 =
     (let provider = lowerKey provider0; state = TrimSpace state0; nowText = formatInstantNano (nowUnlessZero e now0) in
      if provider = [] \<or> state = [] then ret None
      else andThen (queryRow e (\<lambda>t. filter (\<lambda>r. lrow_StateHash r = authLoginStateHash e state \<and> lrow_ProviderKey r = provider
               \<and> lrow_ConsumedAt r = None \<and> nowText < lrow_ExpiresAt r) (tb_Logins t))) (\<lambda>row.
      ret (map_option (\<lambda>r. TrimSpace (lrow_WorkspaceID r)) row)))"

subsection \<open>Authenticators\<close>

definition totpFactorID :: "storeEnv \<Rightarrow> string \<Rightarrow> string \<Rightarrow> string" where
  "totpFactorID e workspaceID userID = ''totp_'' @ hexEncode (take 20 (ae_SHA256 (se_Auth e) (workspaceID @ [CHR 0x00] @ userID)))"

definition openSecret :: "storeEnv \<Rightarrow> string \<Rightarrow> string \<Rightarrow> string option \<Rightarrow> string res" where
  "openSecret e workspaceID factorID envelope = (case envelope of
      None \<Rightarrow> Inl (Errorf ''converting NULL to string is unsupported'' [])
    | Some v \<Rightarrow>
        bind (se_Decrypt e totpSecrets workspaceID factorID v) (\<lambda>plain.
        case se_DecodeSecret e plain of None \<Rightarrow> Inl decodeError | Some secret \<Rightarrow> Inr secret))"

definition AuthStore_TOTPFactorState :: "storeEnv \<Rightarrow> string \<Rightarrow> string \<Rightarrow> (authDb, TOTPFactorState) op" where
  "AuthStore_TOTPFactorState e workspaceID0 userID =
     inWorkspace workspaceID0 (\<lambda>workspaceID.
     let factorID = totpFactorID e workspaceID userID in
     andThen (queryRow e (\<lambda>t. filter (\<lambda>r. factorKey r = (workspaceID, factorID) \<and> frow_UserID r = userID
        \<and> frow_Provider r = Some TOTPProvider \<and> frow_Status r = ''active'' \<and> frow_VerifiedAt r \<noteq> None) (tb_Factors t))) (\<lambda>row.
     case row of
       None \<Rightarrow> ret \<lparr>tfs_Enabled = False, tfs_Generation = []\<rparr>
     | Some r \<Rightarrow> (case frow_ProviderRef r of
         None \<Rightarrow> raise (Errorf ''converting NULL to string is unsupported'' [])
       | Some generation \<Rightarrow>
           andThen (liftRes (openSecret e workspaceID factorID (frow_Secret r))) (\<lambda>_.
           ret \<lparr>tfs_Enabled = True, tfs_Generation = generation\<rparr>))))"

definition AuthStore_CreateTOTPEnrollment :: "storeEnv \<Rightarrow> AuthProviderChallenge \<Rightarrow> string \<Rightarrow> (authDb, unit) op" where
  "AuthStore_CreateTOTPEnrollment e challenge secret =
     andThen (liftRes (prepareAuthLoginTransaction e challenge zeroTime)) (\<lambda>(workspaceID, provider, stateHash, payload, now).
     let factorID = totpFactorID e workspaceID (ch_UserID challenge) in
     andThen (liftRes (se_Encrypt e totpSecrets workspaceID factorID (se_EncodeSecret e secret))) (\<lambda>envelope.
     transaction e (
       andThen (execInsertNew e tb_Factors onFactors factorKey
          \<lparr>frow_WorkspaceID = workspaceID, frow_ID = factorID, frow_UserID = ch_UserID challenge, frow_Type = ''totp'',
           frow_Label = Some (map char_of [233::nat, 170, 140, 232, 175, 129, 231, 160, 129, 229, 186, 148, 231, 148, 168]),
           frow_Provider = Some TOTPProvider, frow_ProviderRef = None, frow_Status = ''pending'', frow_VerifiedAt = None,
           frow_LastUsedAt = None, frow_Secret = None, frow_Step = -1, frow_Failures = 0, frow_LockedUntil = None,
           frow_CreatedAt = now, frow_UpdatedAt = now\<rparr>) (\<lambda>_.
       andThen (execUpdate e tb_Factors onFactors
          (\<lambda>r. factorKey r = (workspaceID, factorID) \<and> frow_UserID r = ch_UserID challenge \<and> frow_Status r \<noteq> ''active'')
          (\<lambda>r. r\<lparr>frow_Secret := Some envelope, frow_ProviderRef := Some (ch_RequestID challenge), frow_Status := ''pending'',
                 frow_VerifiedAt := None, frow_Step := -1, frow_UpdatedAt := now\<rparr>)) (\<lambda>count.
       andThen (check (count = 1) (AppError KindConflict ''auth.totp_already_enabled'' [])) (\<lambda>_.
       andThen (insertAuthLoginTransaction e workspaceID provider stateHash [] payload challenge now) (\<lambda>_.
       ret ((), True))))))))"

text \<open>
  \<open>verifyTOTPFactor\<close>: what a code does to the factor's row.  The first component says
  whether the code is valid.
\<close>

definition totpVerified :: "storeEnv \<Rightarrow> AuthProviderChallenge \<Rightarrow> int \<Rightarrow> int \<Rightarrow> factorRow \<Rightarrow> factorRow" where
  "totpVerified e challenge now step r =
     (let stamp = formatInstant now;
          r' = r\<lparr>frow_UpdatedAt := stamp, frow_Step := step, frow_Failures := 0, frow_LockedUntil := None, frow_LastUsedAt := Some stamp\<rparr>;
          r'' = (if ch_Purpose challenge = TOTPEnrollmentPurpose then r'\<lparr>frow_Status := ''active'', frow_VerifiedAt := Some stamp\<rparr> else r') in
      if ch_Purpose challenge = TOTPDisablePurpose then r''\<lparr>frow_Status := ''disabled'', frow_Secret := None\<rparr> else r'')"

definition totpRefused :: "int \<Rightarrow> int \<Rightarrow> int \<Rightarrow> factorRow \<Rightarrow> factorRow" where
  "totpRefused now maxAttempts nextFailures r =
     r\<lparr>frow_UpdatedAt := formatInstant now, frow_Failures := nextFailures,
       frow_LockedUntil := (if maxAttempts \<le> nextFailures then Some (formatInstant (now + 5 * minute)) else None)\<rparr>"

definition totpChosen :: "storeEnv \<Rightarrow> AuthProviderChallenge \<Rightarrow> factorRow \<Rightarrow> bool" where
  "totpChosen e challenge r \<longleftrightarrow>
     factorKey r = (ch_WorkspaceID challenge, totpFactorID e (ch_WorkspaceID challenge) (ch_UserID challenge))
     \<and> frow_UserID r = ch_UserID challenge \<and> frow_Provider r = Some TOTPProvider
     \<and> frow_Status r = (if ch_Purpose challenge = TOTPEnrollmentPurpose then ''pending'' else ''active'')
     \<and> frow_ProviderRef r = Some (ch_RequestID challenge)"

definition verifyTOTPFactor :: "storeEnv \<Rightarrow> AuthProviderChallenge \<Rightarrow> string \<Rightarrow> int \<Rightarrow> int \<Rightarrow> (authDb, bool) op" where
  "verifyTOTPFactor e challenge code now maxAttempts =
     (let workspaceID = ch_WorkspaceID challenge; factorID = totpFactorID e workspaceID (ch_UserID challenge) in
      if ch_UserID challenge = [] \<or> ch_RequestID challenge = [] then ret False
      else andThen (queryRow e (\<lambda>t. filter (totpChosen e challenge) (tb_Factors t))) (\<lambda>row.
      case row of
        None \<Rightarrow> ret False
      | Some r \<Rightarrow>
          andThen (check (frow_Secret r \<noteq> None) (Errorf ''converting NULL to string is unsupported'' [])) (\<lambda>_.
          andThen (case frow_LockedUntil r of
              None \<Rightarrow> ret False
            | Some v \<Rightarrow> (case parseRFC3339 v of
                None \<Rightarrow> raise (Errorf ''parsing time'' [v]) | Some until \<Rightarrow> ret (now < until))) (\<lambda>locked.
          if locked then ret False
          else
            andThen (liftRes (openSecret e workspaceID factorID (frow_Secret r))) (\<lambda>secret.
            case MatchTOTP (ae_HmacSHA1 (se_Auth e)) secret code now (frow_Step r) of (step, valid) \<Rightarrow>
            let nextFailures = (if frow_LockedUntil r = None then frow_Failures r + 1 else 1);
                expectedLock = (case frow_LockedUntil r of None \<Rightarrow> None | Some v \<Rightarrow> Some (TrimSpace v)) in
            andThen (execUpdate e tb_Factors onFactors
               (\<lambda>q. totpChosen e challenge q \<and> frow_Step q = frow_Step r \<and> frow_Failures q = frow_Failures r \<and> frow_LockedUntil q = expectedLock)
               (if valid then totpVerified e challenge now step else totpRefused now maxAttempts nextFailures)) (\<lambda>changed.
            andThen (check (changed = 1) (AppError KindConflict ''auth.totp_verification_conflict'' [])) (\<lambda>_.
            ret valid)))))))"

subsection \<open>Consuming a one-time code\<close>

definition authOTPChallengeMatchesPurposeAndUser :: "AuthProviderChallenge \<Rightarrow> string list \<Rightarrow> string \<Rightarrow> bool" where
  "authOTPChallengeMatchesPurposeAndUser ch allowedPurposes expectedUserID \<longleftrightarrow>
     (allowedPurposes = [] \<or> list_ex (\<lambda>p. TrimSpace p = TrimSpace (ch_Purpose ch)) allowedPurposes)
     \<and> (TrimSpace expectedUserID = [] \<or> TrimSpace (ch_UserID ch) = TrimSpace expectedUserID)"

text \<open>The row after a guess: spent when it was right or the last one.\<close>

definition guessedRow :: "string \<Rightarrow> int \<Rightarrow> int \<Rightarrow> bool \<Rightarrow> loginRow \<Rightarrow> loginRow" where
  "guessedRow nowText maxAttempts attempts valid r =
     (let r' = r\<lparr>lrow_Attempts := (if valid then attempts else attempts + 1), lrow_UpdatedAt := nowText\<rparr> in
      if valid then r'\<lparr>lrow_ConsumedAt := Some nowText, lrow_Status := AuthChallengeStatusConsumed\<rparr>
      else if maxAttempts \<le> attempts + 1 then r'\<lparr>lrow_ConsumedAt := Some nowText, lrow_Status := AuthChallengeStatusFailed\<rparr>
      else r')"

definition AuthStore_ConsumeAuthOTPTransaction ::
  "storeEnv \<Rightarrow> string \<Rightarrow> string \<Rightarrow> string \<Rightarrow> string \<Rightarrow> string list \<Rightarrow> string \<Rightarrow> int \<Rightarrow> int \<Rightarrow> (authDb, AuthProviderChallenge \<times> bool) op" where
  "AuthStore_ConsumeAuthOTPTransaction e workspaceID0 provider0 state0 code allowedPurposes expectedUserID maxAttempts0 now0 =
     inWorkspace workspaceID0 (\<lambda>workspaceID.
     let provider = lowerKey provider0; state = TrimSpace state0; maxAttempts = (if maxAttempts0 \<le> 0 then 1 else maxAttempts0);
         now = nowUnlessZero e now0; nowText = formatInstantNano now; stateHash = authLoginStateHash e state in
     if provider = [] \<or> state = [] then ret (zeroChallenge, False)
     else transaction e (
       andThen (queryRow e (\<lambda>t. filter (consumable workspaceID stateHash provider nowText) (tb_Logins t))) (\<lambda>row.
       case row of
         None \<Rightarrow> ret ((zeroChallenge, False), False)
       | Some r \<Rightarrow>
           andThen (liftRes (openChallenge e workspaceID stateHash (lrow_Payload r))) (\<lambda>stored.
           let attempts = lrow_Attempts r;
               ch = stored\<lparr>ch_State := state, ch_Attempts := attempts, ch_Purpose := lrow_Purpose r,
                      ch_Status := AuthChallengeStatusActive, ch_DeliveryRef := valueFromNull (lrow_DeliveryRef r),
                      ch_DeliveryError := valueFromNull (lrow_DeliveryError r)\<rparr> in
           if \<not> authOTPChallengeMatchesPurposeAndUser ch allowedPurposes expectedUserID then ret ((zeroChallenge, False), False)
           else
             andThen (if ch_Type ch = ''totp'' \<and> ch_Provider ch = TOTPProvider
                      then verifyTOTPFactor e ch code now maxAttempts
                      else ret (ch_Code ch \<noteq> [] \<and> TrimSpace (ch_Code ch) = TrimSpace code)) (\<lambda>valid.
             andThen (execUpdate e tb_Logins onLogins
                (\<lambda>q. loginKey q = (workspaceID, stateHash) \<and> lrow_ProviderKey q = provider \<and> lrow_Attempts q = attempts
                     \<and> lrow_ConsumedAt q = None)
                (guessedRow nowText maxAttempts attempts valid)) (\<lambda>changed.
             if changed \<noteq> 1 then ret ((zeroChallenge, False), False)
             else ret ((if valid then ch else ch\<lparr>ch_Attempts := attempts + 1\<rparr>, valid), True)))))))"

subsection \<open>Assertions and authorization codes\<close>

definition authAssertionReplayHash :: "storeEnv \<Rightarrow> string \<Rightarrow> string \<Rightarrow> string \<Rightarrow> string \<Rightarrow> string" where
  "authAssertionReplayHash e workspaceID provider issuer assertionID =
     base64Encode (ae_SHA256 (se_Auth e)
       (JoinStrings [TrimSpace workspaceID, lowerKey provider, TrimSpace issuer, TrimSpace assertionID] [CHR 0x00]))"

text \<open>An insert that fails is looked into: a row of this hash means a replay.\<close>

definition AuthStore_ClaimAuthAssertion :: "storeEnv \<Rightarrow> string \<Rightarrow> string \<Rightarrow> string \<Rightarrow> string \<Rightarrow> int \<Rightarrow> (authDb, bool) op" where
  "AuthStore_ClaimAuthAssertion e workspaceID0 provider0 issuer0 assertionID0 expiresAt =
     inWorkspace workspaceID0 (\<lambda>workspaceID.
     let provider = lowerKey provider0; issuer = TrimSpace issuer0; assertionID = TrimSpace assertionID0;
         now = storeNow e; nowText = formatInstantNano now;
         replayHash = authAssertionReplayHash e workspaceID provider issuer assertionID;
         row = \<lparr>rrow_WorkspaceID = workspaceID, rrow_ReplayHash = replayHash, rrow_ProviderKey = provider,
                rrow_ExpiresAt = formatInstantNano expiresAt, rrow_CreatedAt = nowText\<rparr> in
     if provider = [] \<or> issuer = [] \<or> assertionID = [] \<or> expiresAt = zeroTime then ret False
     else if expiresAt \<le> now then ret False
     else
       andThen (dropError (execDelete e tb_Replays onReplays (\<lambda>r. rrow_WorkspaceID r = workspaceID \<and> rrow_ExpiresAt r \<le> nowText))) (\<lambda>_ db.
       case execInsert e tb_Replays onReplays replayKey row db of
         (Inr _, db') \<Rightarrow> (Inr True, db')
       | (Inl err, db') \<Rightarrow>
           (case queryRows e (\<lambda>t. filter (\<lambda>r. replayKey r = (workspaceID, replayHash)) (tb_Replays t)) db' of
              (Inr (r # rs), db'') \<Rightarrow> (Inr False, db'')
            | (_, db'') \<Rightarrow> (Inl err, db''))))"

definition authAuthorizationCodeHash :: "storeEnv \<Rightarrow> string \<Rightarrow> string" where
  "authAuthorizationCodeHash e code = base64Encode (ae_SHA256 (se_Auth e) (TrimSpace code))"

definition AuthStore_CreateAuthAuthorizationCode :: "storeEnv \<Rightarrow> AuthAuthorizationCode \<Rightarrow> (authDb, unit) op" where
  "AuthStore_CreateAuthAuthorizationCode e v =
     inWorkspace (code_WorkspaceID v) (\<lambda>workspaceID.
     let codeHash = authAuthorizationCodeHash e (code_Code v) in
     andThen (liftRes (se_Encrypt e codeSecrets workspaceID codeHash (se_EncodeSession e (code_Session v)))) (\<lambda>envelope.
     execInsert e tb_Codes onCodes codeKey
       \<lparr>orow_WorkspaceID = workspaceID, orow_CodeHash = codeHash, orow_ApplicationKey = TrimSpace (code_ApplicationKey v),
        orow_Session = envelope, orow_RedirectURL = TrimSpace (code_RedirectURL v), orow_ExpiresAt = code_ExpiresAt v,
        orow_ConsumedAt = None, orow_CreatedAt = valueOrNow (code_CreatedAt v) (formatInstantNano (storeNow e))\<rparr>))"

definition redeemable :: "string \<Rightarrow> string \<Rightarrow> string \<Rightarrow> string \<Rightarrow> string \<Rightarrow> codeRow \<Rightarrow> bool" where
  "redeemable workspaceID codeHash application redirectURL nowText r \<longleftrightarrow>
     codeKey r = (workspaceID, codeHash) \<and> orow_ApplicationKey r = application \<and> orow_RedirectURL r = redirectURL
     \<and> orow_ConsumedAt r = None \<and> nowText < orow_ExpiresAt r"

definition AuthStore_ConsumeAuthAuthorizationCode ::
  "storeEnv \<Rightarrow> string \<Rightarrow> string \<Rightarrow> string \<Rightarrow> string \<Rightarrow> int \<Rightarrow> (authDb, AuthSession option) op" where
  "AuthStore_ConsumeAuthAuthorizationCode e workspaceID0 code0 application0 redirectURL0 now0 =
     inWorkspace workspaceID0 (\<lambda>workspaceID.
     let code = TrimSpace code0; codeHash = authAuthorizationCodeHash e code; application = TrimSpace application0;
         redirectURL = TrimSpace redirectURL0; nowText = formatInstantNano (nowUnlessZero e now0) in
     if code = [] \<or> application = [] \<or> redirectURL = [] then ret None
     else transaction e (
       andThen (execUpdate e tb_Codes onCodes (redeemable workspaceID codeHash application redirectURL nowText)
          (\<lambda>r. r\<lparr>orow_ConsumedAt := Some nowText\<rparr>)) (\<lambda>count.
       if count \<noteq> 1 then ret (None, False)
       else andThen (queryRow e (\<lambda>t. filter (\<lambda>r. codeKey r = (workspaceID, codeHash)) (tb_Codes t))) (\<lambda>row.
       case row of
         None \<Rightarrow> raise ErrNoRows
       | Some r \<Rightarrow>
           andThen (liftRes (se_Decrypt e codeSecrets workspaceID codeHash (orow_Session r))) (\<lambda>plain.
           case se_DecodeSession e plain of
             None \<Rightarrow> raise decodeError
           | Some session \<Rightarrow> ret (Some session, True))))))"

subsection \<open>Erasing a subject\<close>

text \<open>It runs in the transaction of the caller.\<close>

definition subjectChallenges :: "storeEnv \<Rightarrow> string \<Rightarrow> string \<Rightarrow> string \<Rightarrow> loginRow list \<Rightarrow> loginRow list res" where
  "subjectChallenges e workspaceID userID phone rows =
     bind (mapRes (\<lambda>r. bind (openChallenge e workspaceID (lrow_StateHash r) (lrow_Payload r)) (\<lambda>ch.
       Inr (r, ch_UserID ch = userID \<or> TrimSpace phone \<noteq> [] \<and> TrimSpace (ch_Phone ch) = TrimSpace phone))) rows) (\<lambda>marked.
     Inr (map fst (filter snd marked)))"

definition subjectCodes :: "storeEnv \<Rightarrow> string \<Rightarrow> string \<Rightarrow> codeRow list \<Rightarrow> codeRow list res" where
  "subjectCodes e workspaceID userID rows =
     bind (mapRes (\<lambda>r. bind (se_Decrypt e codeSecrets workspaceID (orow_CodeHash r) (orow_Session r)) (\<lambda>plain.
       case se_DecodeSession e plain of None \<Rightarrow> Inl decodeError
       | Some session \<Rightarrow> Inr (r, au_ID (ses_User session) = userID))) rows) (\<lambda>marked.
     Inr (map fst (filter snd marked)))"

definition AuthStore_EraseSubjectLoginArtifacts :: "storeEnv \<Rightarrow> string \<Rightarrow> string \<Rightarrow> string \<Rightarrow> (authDb, unit) op" where
  "AuthStore_EraseSubjectLoginArtifacts e workspaceID userID phone =
     andThen (check (TrimSpace userID \<noteq> []) (Errorf ''subject authentication erasure transaction is required'' [])) (\<lambda>_.
     inWorkspace workspaceID (\<lambda>_.
     andThen (queryRows e (\<lambda>t. filter (\<lambda>r. lrow_WorkspaceID r = workspaceID) (tb_Logins t))) (\<lambda>logins.
     andThen (liftRes (subjectChallenges e workspaceID userID phone logins)) (\<lambda>challenges.
     andThen (forEach (\<lambda>r.
        andThen (execDelete e tb_Logins onLogins (\<lambda>q. loginKey q = (workspaceID, lrow_StateHash r))) (\<lambda>_.
        if valueFromNull (lrow_SubjectKeyHash r) = [] then ret ()
        else andThen (execDelete e tb_DeliveryLimits onDeliveryLimits
               (\<lambda>q. limitKey q = (workspaceID, valueFromNull (lrow_SubjectKeyHash r)))) (\<lambda>_. ret ()))) challenges) (\<lambda>_.
     andThen (queryRows e (\<lambda>t. filter (\<lambda>r. orow_WorkspaceID r = workspaceID) (tb_Codes t))) (\<lambda>rows.
     andThen (liftRes (subjectCodes e workspaceID userID rows)) (\<lambda>codes.
     forEach (\<lambda>r. andThen (execDelete e tb_Codes onCodes (\<lambda>q. codeKey q = (workspaceID, orow_CodeHash r))) (\<lambda>_. ret ())) codes)))))))"


section \<open>The SQL store as the repository of the authentication service\<close>

text \<open>
  \<open>AuthStore\<close> implements every interface the service asks its repository for: the
  assertions at the top of \<open>auth_store.go\<close>.
\<close>

definition AuthStore :: "storeEnv \<Rightarrow> authDb AuthRepository" where
  "AuthStore e = \<lparr>rp_GetIdentityCredential = AuthStore_GetIdentityCredential e,
     rp_UpsertIdentityCredential = AuthStore_UpsertIdentityCredential e,
     rp_RecordIdentityLoginSuccess = AuthStore_RecordIdentityLoginSuccess e,
     rp_CreateAuthRefreshToken = AuthStore_CreateAuthRefreshToken e,
     rp_GetAuthRefreshTokenByHash = AuthStore_GetAuthRefreshTokenByHash e,
     rp_RevokeAuthRefreshToken = AuthStore_RevokeAuthRefreshToken e,
     rp_ListAuthRefreshTokensForUser = AuthStore_ListAuthRefreshTokensForUser e,
     rp_RevokeAuthRefreshTokensForUser = AuthStore_RevokeAuthRefreshTokensForUser e,
     rp_ListIdentityExternalAccounts = AuthStore_ListIdentityExternalAccounts e,
     rp_UpsertIdentityExternalAccount = AuthStore_UpsertIdentityExternalAccount e,
     rp_RemoveIdentityExternalAccount = AuthStore_RemoveIdentityExternalAccount e,
     rp_RecordIdentityLoginFailure = Some (AuthStore_RecordIdentityLoginFailure e),
     rp_RotateAuthRefreshToken = Some (AuthStore_RotateAuthRefreshToken e),
     rp_Sessions = Some \<lparr>sr_AuthSessionState = AuthStore_AuthSessionState e,
        sr_RevokeOtherAuthSessions = AuthStore_RevokeOtherAuthSessions e, sr_RevokeAuthSession = AuthStore_RevokeAuthSession e\<rparr>,
     rp_LoginTransactions = Some \<lparr>lt_CreateAuthLoginTransaction = AuthStore_CreateAuthLoginTransaction e,
        lt_ConsumeAuthLoginTransaction = AuthStore_ConsumeAuthLoginTransaction e\<rparr>,
     rp_OTPTransactions = Some \<lparr>ot_CreateAuthOTPTransaction = AuthStore_CreateAuthOTPTransaction e,
        ot_UpdateAuthOTPTransactionStatus = AuthStore_UpdateAuthOTPTransactionStatus e,
        ot_ConsumeAuthOTPTransaction = AuthStore_ConsumeAuthOTPTransaction e\<rparr>,
     rp_AuthorizationCodes = Some \<lparr>ac_CreateAuthAuthorizationCode = AuthStore_CreateAuthAuthorizationCode e,
        ac_ConsumeAuthAuthorizationCode = AuthStore_ConsumeAuthAuthorizationCode e\<rparr>,
     rp_AuthorizationRedirectRegistered = Some (AuthStore_AuthorizationRedirectRegistered e),
     rp_ClaimAuthAssertion = Some (AuthStore_ClaimAuthAssertion e),
     rp_MFA = Some \<lparr>mr_ListIdentityMFAFactors = AuthStore_ListIdentityMFAFactors e,
        mr_UpsertIdentityMFAFactor = AuthStore_UpsertIdentityMFAFactor e, mr_RevokeIdentityMFAFactor = AuthStore_RevokeIdentityMFAFactor e\<rparr>,
     rp_TOTP = Some \<lparr>tr_TOTPFactorState = AuthStore_TOTPFactorState e, tr_CreateTOTPEnrollment = AuthStore_CreateTOTPEnrollment e\<rparr>,
     rp_IdentityUserExistsWithinDataScope = Some (AuthStore_IdentityUserExistsWithinDataScope e),
     rp_UnlockIdentityCredentialWithinDataScope = Some (AuthStore_UnlockIdentityCredentialWithinDataScope e),
     rp_ResetIdentityCredentialWithinDataScope = Some (AuthStore_ResetIdentityCredentialWithinDataScope e),
     rp_RevokeAuthRefreshTokensForUserWithinDataScope = Some (AuthStore_RevokeAuthRefreshTokensForUserWithinDataScope e),
     rp_RevokeIdentityMFAFactorWithinDataScope = Some (AuthStore_RevokeIdentityMFAFactorWithinDataScope e)\<rparr>"

end
