(* ===== verification/SqlLogic.thy ===== *)
theory SqlLogic
  imports SqlTables AuthLogic
begin

section \<open>Reasoning about statements\<close>

text \<open>
  Rules that take the operations of a SQL store apart down to statements: an invariant of the
  tables is kept by a transaction when its body keeps it, and by a statement when its
  effect on the tables does.
\<close>

abbreviation tables :: "('t \<Rightarrow> bool) \<Rightarrow> 't database \<Rightarrow> bool" where
  "tables P db \<equiv> P (db_Tables db)"

lemma triple_statement:
  assumes "\<And>t r t'. P t \<Longrightarrow> f t = (r, t') \<Longrightarrow> (case r of Inl err \<Rightarrow> E err t' | Inr x \<Rightarrow> Q x t')"
    and "\<And>err t. P t \<Longrightarrow> E err t"
  shows "triple (tables P) (statement e f) (\<lambda>x. tables (Q x)) (\<lambda>err. tables (E err))"
proof -
  have "case r of Inl err \<Rightarrow> E err (db_Tables db') | Inr x \<Rightarrow> Q x (db_Tables db')"
    if "P (db_Tables db)" "statement e f db = (r, db')" for db r db'
    using that assms(1) [of "db_Tables db" r "db_Tables db'"] assms(2)
    by (auto simp: statement_def Let_def split: option.splits prod.splits sum.splits)
  then show ?thesis by (simp add: triple_def)
qed

text \<open>
  A transaction that does not commit ends where it began; its value satisfies what the body
  promises of values it does not commit.
\<close>

lemma transaction_returns:
  assumes "transaction e body db = (Inr x, db')"
  shows "\<exists>db1 db2 commit. body db1 = (Inr (x, commit), db2) \<and> db_Tables db1 = db_Tables db
    \<and> db_Tables db' = (if commit then db_Tables db2 else db_Tables db)"
  using assms
  by (fastforce simp: transaction_def andThen_def rollbackTo_def dest!: statement_tables split: prod.splits sum.splits bool.splits)

lemma triple_transaction:
  assumes "triple (tables P) body (\<lambda>(x, commit). tables (\<lambda>t. if commit then Q x t else N x)) (\<lambda>_ _. True)"
    and "\<And>x t. P t \<Longrightarrow> N x \<Longrightarrow> Q x t" and "\<And>t. P t \<Longrightarrow> E t"
  shows "triple (tables P) (transaction e body) (\<lambda>x. tables (Q x)) (\<lambda>_. tables E)"
  unfolding triple_def
proof (intro allI impI)
  fix db r db'
  assume p: "P (db_Tables db)" and t: "transaction e body db = (r, db')"
  show "case r of Inl err \<Rightarrow> E (db_Tables db') | Inr x \<Rightarrow> Q x (db_Tables db')"
  proof (cases r)
    case (Inl err)
    with t transaction_error [of e body db err db'] assms(3) p show ?thesis by simp
  next
    case (Inr x)
    with t transaction_returns [of e body db x db'] obtain db1 db2 commit where
      b: "body db1 = (Inr (x, commit), db2)" "db_Tables db1 = db_Tables db" "db_Tables db' = (if commit then db_Tables db2 else db_Tables db)"
      by blast
    from tripleD(1) [OF assms(1) _ b(1)] p b(2) have "if commit then Q x (db_Tables db2) else N x" by simp
    with b p assms(2) Inr show ?thesis by (simp split: if_splits)
  qed
qed

lemma keeps_statement [triples]: "(\<And>t. P t \<Longrightarrow> P (snd (f t))) \<Longrightarrow> keeps (tables P) (statement e f)"
  by (auto simp: keeps_def statement_def Let_def split: option.split prod.split; metis snd_conv)

lemma keeps_transaction [triples]:
  assumes "keeps (tables P) body"
  shows "keeps (tables P) (transaction e body)"
proof -
  have k: "P (db_Tables db')" if "P (db_Tables db)" "body db = (r, db')" for db r db'
    using assms that unfolding keeps_def by (metis snd_conv)
  have "P (db_Tables db')" if p: "P (db_Tables db)" and t: "transaction e body db = (r, db')" for db r db'
    using t
  proof (rule transaction_cases)
    fix x db1 db2
    assume "body db1 = (Inr (x, True), db2)" "db_Tables db1 = db_Tables db" "db_Tables db' = db_Tables db2"
    with k [of db1 _ db2] p show ?thesis by simp
  qed (simp add: p)
  then show ?thesis unfolding keeps_def by (metis prod.collapse)
qed

lemma keeps_queries [triples]: "keeps (tables P) (queryRows e f)" "keeps (tables P) (queryRow e g)"
  by (auto simp: queryRows_def queryRow_def intro: triples)

lemma keeps_execUpdate [triples]:
  "(\<And>t. P t \<Longrightarrow> P (upd (updateRows p f) t)) \<Longrightarrow> keeps (tables P) (execUpdate e get upd p f)"
  by (auto simp: execUpdate_def intro: triples)

lemma keeps_execDelete [triples]:
  "(\<And>t. P t \<Longrightarrow> P (upd (filter (\<lambda>r. \<not> p r)) t)) \<Longrightarrow> keeps (tables P) (execDelete e get upd p)"
  by (auto simp: execDelete_def intro: triples)

lemma keeps_execInsert [triples]:
  "(\<And>t. P t \<Longrightarrow> list_all (\<lambda>r. key r \<noteq> key row) (get t) \<Longrightarrow> P (upd (\<lambda>rows. rows @ [row]) t)) \<Longrightarrow> keeps (tables P) (execInsert e get upd key row)"
  by (auto simp: execInsert_def list_ex_iff list_all_iff intro!: keeps_statement)

lemma keeps_execInsertNew [triples]:
  "(\<And>t. P t \<Longrightarrow> list_all (\<lambda>r. key r \<noteq> key row) (get t) \<Longrightarrow> P (upd (\<lambda>rows. rows @ [row]) t)) \<Longrightarrow> keeps (tables P) (execInsertNew e get upd key row)"
  by (auto simp: execInsertNew_def list_ex_iff list_all_iff intro!: keeps_statement)

lemma keeps_execUpsert [triples]:
  "(\<And>t. P t \<Longrightarrow> P (upd (upsertRow key f row) t)) \<Longrightarrow> keeps (tables P) (execUpsert e upd key f row)"
  by (auto simp: execUpsert_def intro: triples)

text \<open>How the parts of an operation run.\<close>

lemma pure_run:
  "andThen (check b err) f w = (if b then f () w else (Inl err, w))"
  "andThen (ret x) g w = g x w" "andThen (raise err) g w = (Inl err, w)"
  "andThen (liftRes r) g w = (case r of Inl err \<Rightarrow> (Inl err, w) | Inr x \<Rightarrow> g x w)"
  by (simp_all add: andThen_def check_def split: sum.split)


subsection \<open>Running statements one after the other\<close>

text \<open>
  Rules for operations whose errors promise nothing, as inside a transaction: checks, queries
  with what their answer says of the tables, and statements for every element of a list.
\<close>

lemma keeps_returned [simp]: "keeps I (Pair r)"
  by (simp add: keeps_def)

lemma keeps_execWrite [triples]:
  "(\<And>t n rows. P t \<Longrightarrow> f t (get t) = (n, rows) \<Longrightarrow> violation rows = None \<Longrightarrow> P (upd (\<lambda>_. rows) t))
     \<Longrightarrow> keeps (tables P) (execWrite e get upd violation f)"
  unfolding execWrite_def by (rule keeps_statement) (auto split: prod.split option.split)

lemma triple_after:
  "keeps I m \<Longrightarrow> (\<And>x. triple I (f x) Q (\<lambda>_ _. True)) \<Longrightarrow> triple I (andThen m f) Q (\<lambda>_ _. True)"
  by (rule triple_andThen [where R = "\<lambda>_. I"]) (auto intro: triple_weaken [OF triple_frame])

lemma triple_pure:
  "(b \<Longrightarrow> triple P (f ()) Q (\<lambda>_ _. True)) \<Longrightarrow> triple P (andThen (check b err) f) Q (\<lambda>_ _. True)"
  by (simp add: triple_def andThen_def check_def)

lemma triple_lifted:
  "(\<And>x. r = Inr x \<Longrightarrow> triple P (f x) Q (\<lambda>_ _. True)) \<Longrightarrow> triple P (andThen (liftRes r) f) Q (\<lambda>_ _. True)"
  by (cases r) (simp_all add: triple_def andThen_def)

lemma triple_checked:
  "(b \<Longrightarrow> triple P (f ()) Q E) \<Longrightarrow> (\<And>w. P w \<Longrightarrow> E err w) \<Longrightarrow> triple P (andThen (check b err) f) Q E"
  by (simp add: triple_def andThen_def check_def)

lemma andThen_lifted: "andThen (liftRes (Inr x)) f = f x" "andThen (liftRes (Inl err)) f = raise err"
  by (simp_all add: andThen_def fun_eq_iff)

lemma triple_queried:
  assumes "\<And>x. triple (\<lambda>db. P db \<and> (x = None \<longrightarrow> g (db_Tables db) = []) \<and> (\<forall>r. x = Some r \<longrightarrow> r \<in> set (g (db_Tables db)))) (f x) Q (\<lambda>_ _. True)"
    and "\<And>db n. P db \<Longrightarrow> P (db\<lparr>db_Statements := n\<rparr>)"
  shows "triple P (andThen (queryRow e g) f) Q (\<lambda>_ _. True)"
proof (rule triple_andThen [OF _ assms(1)])
  show "triple P (queryRow e g)
    (\<lambda>x db. P db \<and> (x = None \<longrightarrow> g (db_Tables db) = []) \<and> (\<forall>r. x = Some r \<longrightarrow> r \<in> set (g (db_Tables db)))) (\<lambda>_ _. True)"
    using assms(2) by (auto simp: triple_def queryRow_def statement_def Let_def split: option.splits list.splits)
qed

lemma triple_queriedRows:
  assumes "\<And>x. triple (\<lambda>db. P db \<and> x = g (db_Tables db)) (f x) Q (\<lambda>_ _. True)"
    and "\<And>db n. P db \<Longrightarrow> P (db\<lparr>db_Statements := n\<rparr>)"
  shows "triple P (andThen (queryRows e g) f) Q (\<lambda>_ _. True)"
proof (rule triple_andThen [OF _ assms(1)])
  show "triple P (queryRows e g) (\<lambda>x db. P db \<and> x = g (db_Tables db)) (\<lambda>_ _. True)"
    using assms(2) by (auto simp: triple_def queryRows_def statement_def Let_def split: option.splits)
qed

text \<open>A fold over a list, one statement per batch.\<close>

lemma triple_batches:
  assumes "\<And>t F. get (upd F t) = F (get t)"
  shows "triple (tables (\<lambda>t. get t = rows)) (forEach (\<lambda>r. statement e (\<lambda>t. (Inr (), upd (fold f (batch r)) t))) rs)
    (\<lambda>_. tables (\<lambda>t. get t = fold f (concat (map batch rs)) rows)) (\<lambda>_ _. True)"
proof (induction rs arbitrary: rows)
  case (Cons r rs)
  have "triple (tables (\<lambda>t. get t = rows)) (statement e (\<lambda>t. (Inr (), upd (fold f (batch r)) t)))
    (\<lambda>_. tables (\<lambda>t. get t = fold f (batch r) rows)) (\<lambda>_ _. True)"
    by (rule triple_statement) (auto simp: assms)
  from triple_andThen [OF this, of "\<lambda>_. forEach (\<lambda>r. statement e (\<lambda>t. (Inr (), upd (fold f (batch r)) t))) rs"] Cons.IH
  show ?case by simp
qed (simp add: triple_def)

lemma updatedE:
  assumes "v \<in> set (updateRows p f rows)"
  obtains w where "w \<in> set rows" "v = (if p w then f w else w)"
  using assms unfolding updateRows_def set_map by blast

lemma map_updated: "(\<And>r. f (g r) = f r) \<Longrightarrow> map f (updateRows p g rows) = map f rows"
  by (simp add: updateRows_def)

end
