(* ===== verification/AuthStoreHistory.thy ===== *)
theory AuthStoreHistory
  imports AuthStoreChallenges SqlLogic
begin

section \<open>Reasoning about the statements of the authentication store\<close>

text \<open>
  The update whose rows are those of users within a data scope keeps an invariant that every
  narrower update keeps.
\<close>

lemma keeps_execScopedUpdate [triples]:
  assumes "\<And>t q. P t \<Longrightarrow> (\<And>r. q r \<Longrightarrow> p r) \<Longrightarrow> P (upd (updateRows q f) t)"
  shows "keeps (tables P) (execScopedUpdate e get upd ws u scope p f)"
  unfolding execScopedUpdate_def Let_def
proof (rule keeps_statement)
  fix t assume "P t"
  then have "P (upd (updateRows (\<lambda>r. p r \<and> (flt_Unrestricted scope \<or> UserExists t ws (u r) scope)) f) t)" by (rule assms) blast
  then show "P (snd (Inr (length (filter (\<lambda>r. p r \<and> (flt_Unrestricted scope \<or> UserExists t ws (u r) scope)) (get t))),
      upd (updateRows (\<lambda>r. p r \<and> (flt_Unrestricted scope \<or> UserExists t ws (u r) scope)) f) t))" by simp
qed

section \<open>Histories of the SQL store\<close>

text \<open>
  A history is a sequence of calls of the store, in any order, with any of their statements
  failing.  What an observer learns of it: a token, code or challenge came into being, was
  spent, or was guessed at.  An account of what the rows are worth shows that nothing is
  spent more often than it came into being, and that guesses are bounded.
\<close>

datatype storeEvent = TokenIssued "string \<times> string" | TokenSpent "string \<times> string"
  | CodeIssued "string \<times> string" | CodeSpent "string \<times> string"
  | LoginIssued "string \<times> string" | LoginSpent "string \<times> string" | GuessedWrong "string \<times> string"

text \<open>The other operations that write.\<close>

datatype maintenance =
    UpsertCredential string IdentityCredential
  | LoginSucceeded string string string
  | LoginFailed string string int string string
  | RevokeToken string string string string
  | RevokeUserTokens string string string
  | RevokeOtherSessions string string string string
  | RevokeSession string string string string
  | UpsertAccount string IdentityExternalAccount
  | RemoveAccount string string
  | UpsertFactor string IdentityMFAFactor
  | RevokeFactor string string string
  | UnlockScoped string string IdentityDataScopeFilter
  | ResetScoped string string string string bool IdentityDataScopeFilter
  | RevokeFactorScoped string string string IdentityDataScopeFilter
  | RevokeTokensScoped string string string IdentityDataScopeFilter
  | OTPStatus string string string string string string int
  | ClaimAssertion string string string string int
  | RegisterApplications batch_ranges string "AuthApplicationRegistration list"
  | EraseSubject string string string

fun maintain :: "storeEnv \<Rightarrow> maintenance \<Rightarrow> (authDb, unit) op" where
  "maintain e (UpsertCredential ws c) = AuthStore_UpsertIdentityCredential e ws c"
| "maintain e (LoginSucceeded ws u at) = AuthStore_RecordIdentityLoginSuccess e ws u at"
| "maintain e (LoginFailed ws u n locked at) = AuthStore_RecordIdentityLoginFailure e ws u n locked at"
| "maintain e (RevokeToken ws i at other) = AuthStore_RevokeAuthRefreshToken e ws i at other"
| "maintain e (RevokeUserTokens ws u at) = andThen (AuthStore_RevokeAuthRefreshTokensForUser e ws u at) (\<lambda>_. ret ())"
| "maintain e (RevokeOtherSessions ws u s at) = andThen (AuthStore_RevokeOtherAuthSessions e ws u s at) (\<lambda>_. ret ())"
| "maintain e (RevokeSession ws u s at) = andThen (AuthStore_RevokeAuthSession e ws u s at) (\<lambda>_. ret ())"
| "maintain e (UpsertAccount ws a) = AuthStore_UpsertIdentityExternalAccount e ws a"
| "maintain e (RemoveAccount ws i) = AuthStore_RemoveIdentityExternalAccount e ws i"
| "maintain e (UpsertFactor ws f) = AuthStore_UpsertIdentityMFAFactor e ws f"
| "maintain e (RevokeFactor ws u i) = AuthStore_RevokeIdentityMFAFactor e ws u i"
| "maintain e (UnlockScoped ws u s) = andThen (AuthStore_UnlockIdentityCredentialWithinDataScope e ws u s) (\<lambda>_. ret ())"
| "maintain e (ResetScoped ws u h at m s) = andThen (AuthStore_ResetIdentityCredentialWithinDataScope e ws u h at m s) (\<lambda>_. ret ())"
| "maintain e (RevokeFactorScoped ws u i s) = andThen (AuthStore_RevokeIdentityMFAFactorWithinDataScope e ws u i s) (\<lambda>_. ret ())"
| "maintain e (RevokeTokensScoped ws u at s) = andThen (AuthStore_RevokeAuthRefreshTokensForUserWithinDataScope e ws u at s) (\<lambda>_. ret ())"
| "maintain e (OTPStatus ws p s st r f now) = AuthStore_UpdateAuthOTPTransactionStatus e ws p s st r f now"
| "maintain e (ClaimAssertion ws p i a ex) = andThen (AuthStore_ClaimAuthAssertion e ws p i a ex) (\<lambda>_. ret ())"
| "maintain e (RegisterApplications ranges ws rs) = AuthStore_UpsertAuthApplications e ranges ws rs"
| "maintain e (EraseSubject ws u phone) = AuthStore_EraseSubjectLoginArtifacts e ws u phone"

text \<open>The workspace an operation concerns.\<close>

definition owner :: "string \<Rightarrow> string" where
  "owner ws = (case authWorkspaceID ws of Inl _ \<Rightarrow> [] | Inr v \<Rightarrow> v)"

text \<open>
  One call.  A challenge begins without attempts, and the store is asked for at most
  \<open>M\<close> attempts.
\<close>

inductive storeStep :: "storeEnv \<Rightarrow> int \<Rightarrow> authDb \<Rightarrow> storeEvent list \<Rightarrow> authDb \<Rightarrow> bool" for e :: storeEnv and M :: int where
  token_created: "AuthStore_CreateAuthRefreshToken e ws token db = (Inr (), db')
    \<Longrightarrow> storeStep e M db [TokenIssued (owner ws, tok_ID token)] db'"
| token_not_created: "AuthStore_CreateAuthRefreshToken e ws token db = (Inl err, db') \<Longrightarrow> storeStep e M db [] db'"
| token_rotated: "AuthStore_RotateAuthRefreshToken e ws i at token db = (Inr True, db')
    \<Longrightarrow> storeStep e M db [TokenSpent (owner ws, i), TokenIssued (owner ws, tok_ID token)] db'"
| token_not_rotated: "AuthStore_RotateAuthRefreshToken e ws i at token db = (r, db') \<Longrightarrow> r \<noteq> Inr True \<Longrightarrow> storeStep e M db [] db'"
| code_created: "AuthStore_CreateAuthAuthorizationCode e code db = (Inr (), db')
    \<Longrightarrow> storeStep e M db [CodeIssued (owner (code_WorkspaceID code), authAuthorizationCodeHash e (code_Code code))] db'"
| code_not_created: "AuthStore_CreateAuthAuthorizationCode e code db = (Inl err, db') \<Longrightarrow> storeStep e M db [] db'"
| code_redeemed: "AuthStore_ConsumeAuthAuthorizationCode e ws code app url now db = (Inr (Some session), db')
    \<Longrightarrow> storeStep e M db [CodeSpent (owner ws, authAuthorizationCodeHash e (TrimSpace code))] db'"
| code_refused: "AuthStore_ConsumeAuthAuthorizationCode e ws code app url now db = (r, db') \<Longrightarrow> (\<nexists>session. r = Inr (Some session))
    \<Longrightarrow> storeStep e M db [] db'"
| login_created: "AuthStore_CreateAuthLoginTransaction e ch db = (Inr (), db') \<Longrightarrow> ch_Attempts ch = 0
    \<Longrightarrow> storeStep e M db [LoginIssued (owner (ch_WorkspaceID ch), authLoginStateHash e (TrimSpace (ch_State ch)))] db'"
| login_not_created: "AuthStore_CreateAuthLoginTransaction e ch db = (Inl err, db') \<Longrightarrow> ch_Attempts ch = 0
    \<Longrightarrow> storeStep e M db [] db'"
| otp_created: "AuthStore_CreateAuthOTPTransaction e ch subject next now db = (Inr True, db') \<Longrightarrow> ch_Attempts ch = 0
    \<Longrightarrow> storeStep e M db [LoginIssued (owner (ch_WorkspaceID ch), authLoginStateHash e (TrimSpace (ch_State ch)))] db'"
| otp_not_created: "AuthStore_CreateAuthOTPTransaction e ch subject next now db = (r, db') \<Longrightarrow> r \<noteq> Inr True \<Longrightarrow> ch_Attempts ch = 0
    \<Longrightarrow> storeStep e M db [] db'"
| totp_created: "AuthStore_CreateTOTPEnrollment e ch secret db = (Inr (), db') \<Longrightarrow> ch_Attempts ch = 0
    \<Longrightarrow> storeStep e M db [LoginIssued (owner (ch_WorkspaceID ch), authLoginStateHash e (TrimSpace (ch_State ch)))] db'"
| totp_not_created: "AuthStore_CreateTOTPEnrollment e ch secret db = (Inl err, db') \<Longrightarrow> ch_Attempts ch = 0
    \<Longrightarrow> storeStep e M db [] db'"
| login_consumed: "AuthStore_ConsumeAuthLoginTransaction e ws p s now db = (Inr (Some ch), db')
    \<Longrightarrow> storeStep e M db [LoginSpent (owner ws, authLoginStateHash e (TrimSpace s))] db'"
| login_refused: "AuthStore_ConsumeAuthLoginTransaction e ws p s now db = (r, db') \<Longrightarrow> (\<nexists>ch. r = Inr (Some ch))
    \<Longrightarrow> storeStep e M db [] db'"
| otp_right: "AuthStore_ConsumeAuthOTPTransaction e ws p s code ps u m now db = (Inr (ch, True), db')
    \<Longrightarrow> m \<le> M \<Longrightarrow> storeStep e M db [LoginSpent (owner ws, authLoginStateHash e (TrimSpace s))] db'"
| otp_wrong: "AuthStore_ConsumeAuthOTPTransaction e ws p s code ps u m now db = (Inr (ch, False), db')
    \<Longrightarrow> m \<le> M \<Longrightarrow> ch_State ch \<noteq> [] \<Longrightarrow> storeStep e M db [GuessedWrong (owner ws, authLoginStateHash e (TrimSpace s))] db'"
| otp_refused: "AuthStore_ConsumeAuthOTPTransaction e ws p s code ps u m now db = (r, db') \<Longrightarrow> m \<le> M
    \<Longrightarrow> (case r of Inl _ \<Rightarrow> True | Inr (ch, valid) \<Rightarrow> \<not> valid \<and> ch_State ch = []) \<Longrightarrow> storeStep e M db [] db'"
| maintained: "maintain e x db = (r, db') \<Longrightarrow> storeStep e M db [] db'"
| read: "db_Tables db' = db_Tables db \<Longrightarrow> storeStep e M db [] db'"

inductive storeRun :: "storeEnv \<Rightarrow> int \<Rightarrow> authDb \<Rightarrow> storeEvent list \<Rightarrow> authDb \<Rightarrow> bool" for e :: storeEnv and M :: int where
  stop: "storeRun e M db [] db"
| go: "storeStep e M db evs db' \<Longrightarrow> storeRun e M db' evs' db'' \<Longrightarrow> storeRun e M db (evs @ evs') db''"

subsection \<open>Stakes\<close>

definition weigh :: "('r \<Rightarrow> nat) \<Rightarrow> 'r list \<Rightarrow> nat" where
  "weigh w rows = (\<Sum>r\<leftarrow>rows. w r)"

lemma weigh_simps [simp]: "weigh w [] = 0" "weigh w (r # rows) = w r + weigh w rows" "weigh w (xs @ ys) = weigh w xs + weigh w ys"
  by (simp_all add: weigh_def)

lemma weigh_update: "(\<And>r. p r \<Longrightarrow> w (f r) + d \<le> w r) \<Longrightarrow> weigh w (updateRows p f rows) + d * length (filter p rows) \<le> weigh w rows"
proof (induction rows)
  case (Cons r rows)
  then have "weigh w (updateRows p f rows) + d * length (filter p rows) \<le> weigh w rows" "p r \<Longrightarrow> w (f r) + d \<le> w r" by auto
  then show ?case by (cases "p r") (simp_all add: updateRows_def)
qed (simp add: updateRows_def)

lemma weigh_update_le: "(\<And>r. p r \<Longrightarrow> w (f r) \<le> w r) \<Longrightarrow> weigh w (updateRows p f rows) \<le> weigh w rows"
  using weigh_update [of p w f 0 rows] by simp

lemma weigh_filter: "weigh w (filter p rows) \<le> weigh w rows"
  by (induction rows) simp_all

text \<open>Adding up over the events of a history.\<close>

abbreviation tally :: "(storeEvent \<Rightarrow> nat) \<Rightarrow> storeEvent list \<Rightarrow> nat" where
  "tally f evs \<equiv> sum_list (map f evs)"

text \<open>
  A staking: what a live token, a pending challenge with its attempts and a pending code
  are worth, with the least a challenge is worth and what a wrong guess costs.
\<close>

locale staking =
  fixes st :: "string \<times> string \<Rightarrow> nat"
    and sl :: "string \<times> string \<Rightarrow> int \<Rightarrow> nat"
    and sc :: "string \<times> string \<Rightarrow> nat"
    and least guess :: "string \<times> string \<Rightarrow> nat"
    and M :: int
  assumes least: "least k \<le> sl k a"
    and guess_least: "guess k \<le> least k"
    and M: "1 \<le> M"
    and guessed: "a + 1 < M \<Longrightarrow> sl k (a + 1) + guess k \<le> sl k a"
begin

definition tokenWorth :: "tokenRow \<Rightarrow> nat" where
  "tokenWorth r = (if trow_RevokedAt r = None then st (tokenKey r) else 0)"

definition loginWorth :: "loginRow \<Rightarrow> nat" where
  "loginWorth r = (if lrow_ConsumedAt r = None then sl (loginKey r) (lrow_Attempts r) else 0)"

definition codeWorth :: "codeRow \<Rightarrow> nat" where
  "codeWorth r = (if orow_ConsumedAt r = None then sc (codeKey r) else 0)"

definition worth :: "authTables \<Rightarrow> nat" where
  "worth t = weigh tokenWorth (tb_Tokens t) + weigh loginWorth (tb_Logins t) + weigh codeWorth (tb_Codes t)"

fun gain :: "storeEvent \<Rightarrow> nat" where
  "gain (TokenIssued k) = st k"
| "gain (CodeIssued k) = sc k"
| "gain (LoginIssued k) = sl k 0"
| "gain _ = 0"

fun loss :: "storeEvent \<Rightarrow> nat" where
  "loss (TokenSpent k) = st k"
| "loss (CodeSpent k) = sc k"
| "loss (LoginSpent k) = least k"
| "loss (GuessedWrong k) = guess k"
| "loss _ = 0"

lemmas worths = worth_def tokenWorth_def loginWorth_def codeWorth_def

lemma worth_update:
  "(\<And>r. p r \<Longrightarrow> tokenWorth (f r) + d \<le> tokenWorth r) \<Longrightarrow> worth (onTokens (updateRows p f) t) + d * length (filter p (tb_Tokens t)) \<le> worth t"
  "(\<And>r. q r \<Longrightarrow> loginWorth (g r) + d \<le> loginWorth r) \<Longrightarrow> worth (onLogins (updateRows q g) t) + d * length (filter q (tb_Logins t)) \<le> worth t"
  "(\<And>r. o' r \<Longrightarrow> codeWorth (h r) + d \<le> codeWorth r) \<Longrightarrow> worth (onCodes (updateRows o' h) t) + d * length (filter o' (tb_Codes t)) \<le> worth t"
  using weigh_update [of p tokenWorth f d] weigh_update [of q loginWorth g d] weigh_update [of o' codeWorth h d]
  by (auto simp: worth_def)

lemma worth_update_le:
  "(\<And>r. p r \<Longrightarrow> tokenWorth (f r) \<le> tokenWorth r) \<Longrightarrow> worth t \<le> n \<Longrightarrow> worth (onTokens (updateRows p f) t) \<le> n"
  "(\<And>r. q r \<Longrightarrow> loginWorth (g r) \<le> loginWorth r) \<Longrightarrow> worth t \<le> n \<Longrightarrow> worth (onLogins (updateRows q g) t) \<le> n"
  using worth_update(1) [of p f 0 t] worth_update(2) [of q g 0 t] by auto

lemma worth_filter: "worth t \<le> n \<Longrightarrow> worth (onLogins (filter p) t) \<le> n" "worth t \<le> n \<Longrightarrow> worth (onCodes (filter q) t) \<le> n"
  using weigh_filter [of loginWorth p "tb_Logins t"] weigh_filter [of codeWorth q "tb_Codes t"] by (auto simp: worth_def)

lemma worth_insert:
  "worth (onTokens (\<lambda>rows. rows @ [r]) t) = worth t + tokenWorth r"
  "worth (onLogins (\<lambda>rows. rows @ [l]) t) = worth t + loginWorth l"
  "worth (onCodes (\<lambda>rows. rows @ [c]) t) = worth t + codeWorth c"
  by (simp_all add: worth_def)

lemma worth_elsewhere [simp]:
  "worth (t\<lparr>tb_Credentials := x1\<rparr>) = worth t" "worth (t\<lparr>tb_Accounts := x2\<rparr>) = worth t" "worth (t\<lparr>tb_Factors := x3\<rparr>) = worth t"
  "worth (t\<lparr>tb_Applications := x4\<rparr>) = worth t" "worth (t\<lparr>tb_Replays := x5\<rparr>) = worth t" "worth (t\<lparr>tb_DeliveryLimits := x6\<rparr>) = worth t"
  by (simp_all add: worth_def)

subsection \<open>Operations that spend nothing\<close>

abbreviation atMost :: "nat \<Rightarrow> authDb \<Rightarrow> bool" where
  "atMost n \<equiv> tables (\<lambda>t. worth t \<le> n)"

lemma keeps_revokeRows: "keeps (atMost n) (revokeRows e p q at)"
  unfolding revokeRows_def by (intro triples worth_update_le) (simp_all add: tokenWorth_def)

lemma keeps_revokeLogicalSessions: "keeps (atMost n) (revokeLogicalSessions e ws u s b at)"
  unfolding revokeLogicalSessions_def Let_def by (intro triples keeps_revokeRows worth_update_le) simp_all

lemma keeps_userExists: "keeps (atMost n) (identityUserExistsWithinDataScope e ws u s)"
  unfolding identityUserExistsWithinDataScope_def by (intro triples)

lemma keeps_claim: "keeps (atMost n) (AuthStore_ClaimAuthAssertion e ws p i a ex)"
proof -
  have "keeps (atMost n) (\<lambda>db. case execInsert e tb_Replays onReplays replayKey row db of
         (Inr _, db') \<Rightarrow> (Inr True, db')
       | (Inl err, db') \<Rightarrow>
           (case queryRows e q db' of (Inr (r # rs), db'') \<Rightarrow> (Inr False, db'') | (_, db'') \<Rightarrow> (Inl err, db'')))" for row and q :: "authTables \<Rightarrow> replayRow list"
  proof -
    have i: "keeps (atMost n) (execInsert e tb_Replays onReplays replayKey row)" by (intro triples) simp
    have r: "keeps (atMost n) (queryRows e q)" by (intro triples)
    show ?thesis
      unfolding keeps_def
      using triple_keepsD [OF i] triple_keepsD [OF r]
      by (auto split: prod.split sum.split list.split)
  qed
  note claim = this
  show ?thesis
    unfolding AuthStore_ClaimAuthAssertion_def Let_def by (intro triples claim) simp_all
qed

lemma keeps_maintain: "keeps (atMost n) (maintain e x)"
proof (cases x)
  case (RevokeUserTokens ws u at)
  then show ?thesis by (simp add: AuthStore_RevokeAuthRefreshTokensForUser_def Let_def) (intro triples keeps_revokeRows)
next
  case (RevokeOtherSessions ws u s at)
  then show ?thesis by (simp add: AuthStore_RevokeOtherAuthSessions_def) (intro triples keeps_revokeLogicalSessions)
next
  case (RevokeSession ws u s at)
  then show ?thesis by (simp add: AuthStore_RevokeAuthSession_def) (intro triples keeps_revokeLogicalSessions)
next
  case (RevokeToken ws i at other)
  then show ?thesis by (simp add: AuthStore_RevokeAuthRefreshToken_def Let_def) (intro triples worth_update_le; simp add: tokenWorth_def)
next
  case (RevokeTokensScoped ws u at s)
  then show ?thesis
    by (simp add: AuthStore_RevokeAuthRefreshTokensForUserWithinDataScope_def Let_def)
      (intro triples keeps_userExists worth_update_le; simp add: tokenWorth_def)
next
  case (OTPStatus ws p s st r f now)
  then show ?thesis
    by (simp add: AuthStore_UpdateAuthOTPTransactionStatus_def Let_def) (intro triples worth_update_le; simp add: loginWorth_def loginKey_def)
next
  case (EraseSubject ws u phone)
  then show ?thesis
    by (simp add: AuthStore_EraseSubjectLoginArtifacts_def) (intro triples worth_filter; simp)
next
  case (ClaimAssertion ws p i a ex)
  then show ?thesis by simp (intro triples keeps_claim)
next
  case (ResetScoped ws u h at m s)
  show ?thesis unfolding ResetScoped maintain.simps AuthStore_ResetIdentityCredentialWithinDataScope_def Let_def
    by (intro triples) auto
qed (simp_all only: maintain.simps AuthStore_UpsertIdentityCredential_def AuthStore_RecordIdentityLoginSuccess_def AuthStore_RecordIdentityLoginFailure_def
    AuthStore_UpsertIdentityExternalAccount_def AuthStore_RemoveIdentityExternalAccount_def AuthStore_UpsertIdentityMFAFactor_def
    AuthStore_RevokeIdentityMFAFactor_def AuthStore_UnlockIdentityCredentialWithinDataScope_def
    AuthStore_RevokeIdentityMFAFactorWithinDataScope_def AuthStore_UpsertAuthApplications_def Let_def, (intro triples keeps_userExists; simp)+)

subsection \<open>Operations that issue and spend\<close>

text \<open>What an operation leaves, when its value \<open>x\<close> is worth \<open>g x\<close> more and \<open>l x\<close> less.\<close>

abbreviation settles :: "(authDb, 'a) op \<Rightarrow> ('a \<Rightarrow> nat) \<Rightarrow> ('a \<Rightarrow> nat) \<Rightarrow> nat \<Rightarrow> bool" where
  "settles m g l n \<equiv> triple (atMost n) m (\<lambda>x. tables (\<lambda>t. worth t + l x \<le> n + g x)) (\<lambda>_. atMost n)"

lemma settles_insert:
  "settles (execInsert e tb_Tokens onTokens tokenKey r) (\<lambda>_. tokenWorth r) (\<lambda>_. 0) n"
  "settles (execInsert e tb_Logins onLogins loginKey l) (\<lambda>_. loginWorth l) (\<lambda>_. 0) n"
  "settles (execInsert e tb_Codes onCodes codeKey c) (\<lambda>_. codeWorth c) (\<lambda>_. 0) n"
  unfolding execInsert_def by (rule triple_statement; auto simp: worth_insert split: if_splits)+

lemma settles_then: "settles m (\<lambda>_. g) (\<lambda>_. l) n \<Longrightarrow> keeps (atMost n) r \<Longrightarrow> settles (andThen r (\<lambda>_. m)) (\<lambda>_. g) (\<lambda>_. l) n"
  by (rule triple_frame_then)

lemma settles_le: "settles m (\<lambda>_. g) l n \<Longrightarrow> g \<le> g' \<Longrightarrow> settles m (\<lambda>_. g') l n"
  by (erule triple_weaken) auto

lemma inWorkspace_Inr: "authWorkspaceID ws = Inr v \<Longrightarrow> inWorkspace ws f = f v"
  by (simp add: fun_eq_iff andThen_def)

lemma settles_token:
  assumes "authWorkspaceID ws = Inr v"
  shows "settles (AuthStore_CreateAuthRefreshToken e ws token) (\<lambda>_. st (v, tok_ID token)) (\<lambda>_. 0) n"
  unfolding AuthStore_CreateAuthRefreshToken_def inWorkspace_Inr [OF assms]
  by (intro settles_then settles_le [OF settles_insert(1)] triples)
    (simp add: tokenWorth_def tokenKey_def authRefreshTokenInsert_def)

lemma settles_code:
  assumes "authWorkspaceID (code_WorkspaceID c) = Inr v"
  shows "settles (AuthStore_CreateAuthAuthorizationCode e c) (\<lambda>_. sc (v, authAuthorizationCodeHash e (code_Code c))) (\<lambda>_. 0) n"
  unfolding AuthStore_CreateAuthAuthorizationCode_def inWorkspace_Inr [OF assms] Let_def
  by (intro triple_frame_then settles_le [OF settles_insert(3)] triples) (simp add: codeWorth_def codeKey_def)

text \<open>An update that takes \<open>d\<close> from every row it concerns.\<close>

lemma settles_tokens:
  assumes "\<And>r. p r \<Longrightarrow> tokenWorth (f r) + d \<le> tokenWorth r"
  shows "settles (execUpdate e tb_Tokens onTokens p f) (\<lambda>_. 0) (\<lambda>c. d * c) n"
proof -
  have le: "worth (onTokens (updateRows p f) t) + d * length (filter p (tb_Tokens t)) \<le> worth t" for t
    using worth_update(1) assms by blast
  show ?thesis unfolding execUpdate_def by (intro triple_statement) (auto intro: order_trans [OF le])
qed

lemma settles_logins:
  assumes "\<And>r. p r \<Longrightarrow> loginWorth (f r) + d \<le> loginWorth r"
  shows "settles (execUpdate e tb_Logins onLogins p f) (\<lambda>_. 0) (\<lambda>c. d * c) n"
proof -
  have le: "worth (onLogins (updateRows p f) t) + d * length (filter p (tb_Logins t)) \<le> worth t" for t
    using worth_update(2) assms by blast
  show ?thesis unfolding execUpdate_def by (intro triple_statement) (auto intro: order_trans [OF le])
qed

lemma settles_codes:
  assumes "\<And>r. p r \<Longrightarrow> codeWorth (f r) + d \<le> codeWorth r"
  shows "settles (execUpdate e tb_Codes onCodes p f) (\<lambda>_. 0) (\<lambda>c. d * c) n"
proof -
  have le: "worth (onCodes (updateRows p f) t) + d * length (filter p (tb_Codes t)) \<le> worth t" for t
    using worth_update(3) assms by blast
  show ?thesis unfolding execUpdate_def by (intro triple_statement) (auto intro: order_trans [OF le])
qed

text \<open>What a transaction does not commit must be worth nothing.\<close>

lemma settles_transaction:
  assumes "triple (atMost n) body (\<lambda>(x, commit). tables (\<lambda>t. if commit then worth t + l x \<le> n + g x else l x = 0)) (\<lambda>_ _. True)"
  shows "settles (transaction e body) g l n"
  by (rule triple_transaction [where Q = "\<lambda>x t. worth t + l x \<le> n + g x" and N = "\<lambda>x. l x = 0"]) (use assms in auto)

text \<open>A body that goes on only when one row was concerned.\<close>

lemma settles_once:
  assumes "triple (atMost n) u (\<lambda>c. tables (\<lambda>t. worth t + d * c \<le> n + 0)) (\<lambda>_. atMost n)"
    and "triple (tables (\<lambda>t. worth t + d \<le> n)) rest (\<lambda>(x, commit). tables (\<lambda>t. if commit then worth t + l x \<le> n + g x else l x = 0)) (\<lambda>_ _. True)"
    and "l none = 0"
  shows "settles (transaction e (andThen u (\<lambda>c. if c \<noteq> 1 then ret (none, False) else rest))) g l n"
proof (intro settles_transaction triple_andThen)
  show "triple (atMost n) u (\<lambda>c. tables (\<lambda>t. worth t + d * c \<le> n)) (\<lambda>_ _. True)"
    by (rule triple_weaken [OF assms(1)]) auto
  show "triple (tables (\<lambda>t. worth t + d * c \<le> n)) (if c \<noteq> 1 then ret (none, False) else rest)
      (\<lambda>(x, commit). tables (\<lambda>t. if commit then worth t + l x \<le> n + g x else l x = 0)) (\<lambda>_ _. True)" for c
    using assms(2, 3) by (auto intro: triple_ret)
qed

lemma insert_token:
  "tokenWorth r \<le> g \<Longrightarrow> triple (tables (\<lambda>t. worth t + d \<le> n)) (execInsert e tb_Tokens onTokens tokenKey r)
     (\<lambda>_. tables (\<lambda>t. worth t + d \<le> n + g)) (\<lambda>_ _. True)"
  unfolding execInsert_def
  by (rule triple_statement [where P = "\<lambda>t. worth t + d \<le> n" and E = "\<lambda>_ _. True" and Q = "\<lambda>_ t. worth t + d \<le> n + g"])
    (auto simp: worth_insert split: if_splits)

lemma settles_rotate:
  assumes "authWorkspaceID ws = Inr v"
  shows "settles (AuthStore_RotateAuthRefreshToken e ws i at token)
    (\<lambda>b. if b then st (v, tok_ID token) else 0) (\<lambda>b. if b then st (v, i) else 0) n"
  unfolding AuthStore_RotateAuthRefreshToken_def inWorkspace_Inr [OF assms] Let_def
proof (intro triple_frame_then settles_once keeps_check)
  fix at' j
  show "settles (execUpdate e tb_Tokens onTokens (rotatable v i) (rotatedRow at' j)) (\<lambda>_. 0) (\<lambda>c. st (v, i) * c) n"
    by (rule settles_tokens) (auto simp: rotatable_def rotatedRow_def tokenWorth_def)
  fix c
  show "triple (tables (\<lambda>t. worth t + st (v, i) \<le> n))
      (andThen (execInsert e tb_Tokens onTokens tokenKey (authRefreshTokenInsert e v (token\<lparr>tok_CreatedAt := c\<rparr>) at')) (\<lambda>_. ret (True, True)))
      (\<lambda>(x, commit). tables (\<lambda>t. if commit then worth t + (if x then st (v, i) else 0) \<le> n + (if x then st (v, tok_ID token) else 0)
         else (if x then st (v, i) else 0) = 0)) (\<lambda>_ _. True)"
    by (rule triple_andThen [OF insert_token [where g = "st (v, tok_ID token)"]])
      (auto simp: tokenWorth_def tokenKey_def authRefreshTokenInsert_def intro!: triple_ret)
qed auto

text \<open>Redeeming a code, and consuming a login transaction.\<close>

lemma triple_then:
  assumes "keeps I m" "\<And>x. triple I (f x) Q (\<lambda>_ _. True)"
  shows "triple I (andThen m f) Q (\<lambda>_ _. True)"
proof (rule triple_andThen)
  show "triple I m (\<lambda>_. I) (\<lambda>_ _. True)" using triple_frame [OF assms(1)] by (rule triple_weaken) simp_all
qed (rule assms(2))

lemma triple_read_then:
  "(\<And>row. triple (tables P) (f row) Q (\<lambda>_ _. True)) \<Longrightarrow> triple (tables P) (andThen (queryRow e g) f) Q (\<lambda>_ _. True)"
  by (intro triple_then keeps_queries)

lemma triple_option: "triple P m Q E \<Longrightarrow> (\<And>x. triple P (f x) Q E) \<Longrightarrow> triple P (case v of None \<Rightarrow> m | Some x \<Rightarrow> f x) Q E"
  by (cases v) auto

lemma settles_redeem:
  assumes "authWorkspaceID ws = Inr v"
  shows "settles (AuthStore_ConsumeAuthAuthorizationCode e ws code app url now)
    (\<lambda>_. 0) (\<lambda>x. if x \<noteq> None then sc (v, authAuthorizationCodeHash e (TrimSpace code)) else 0) n"
proof -
  have u: "settles (execUpdate e tb_Codes onCodes (redeemable v h a b nowText) (\<lambda>r. r\<lparr>orow_ConsumedAt := Some nowText\<rparr>))
      (\<lambda>_. 0) (\<lambda>c. sc (v, h) * c) n" for h a b nowText
    by (rule settles_codes) (auto simp: redeemable_def codeWorth_def)
  show ?thesis
    unfolding AuthStore_ConsumeAuthAuthorizationCode_def inWorkspace_Inr [OF assms] Let_def
    by (split if_split, intro conjI impI settles_once [OF u] triple_read_then triple_option triple_andThen [OF triple_liftRes] triple_ret triple_raise) auto
qed

lemma settles_consume:
  assumes "authWorkspaceID ws = Inr v"
  shows "settles (AuthStore_ConsumeAuthLoginTransaction e ws p s now)
    (\<lambda>_. 0) (\<lambda>x. if x \<noteq> None then least (v, authLoginStateHash e (TrimSpace s)) else 0) n"
proof -
  have u: "settles (execUpdate e tb_Logins onLogins (consumable v h a nowText)
        (\<lambda>r. r\<lparr>lrow_ConsumedAt := Some nowText, lrow_Status := AuthChallengeStatusConsumed, lrow_UpdatedAt := nowText\<rparr>))
      (\<lambda>_. 0) (\<lambda>c. least (v, h) * c) n" for h a nowText
    by (rule settles_logins) (auto simp: consumable_def loginWorth_def least)
  show ?thesis
    unfolding AuthStore_ConsumeAuthLoginTransaction_def inWorkspace_Inr [OF assms] Let_def
    by (split if_split, intro conjI impI settles_once [OF u] triple_read_then triple_option triple_andThen [OF triple_liftRes] triple_ret triple_raise) auto
qed

text \<open>Beginning a challenge.\<close>

lemma prepared:
  assumes "prepareAuthLoginTransaction e ch now = Inr (v', p, h, env, t)" "authWorkspaceID (ch_WorkspaceID ch) = Inr v"
  shows "v' = v" "h = authLoginStateHash e (TrimSpace (ch_State ch))"
  using assms by (auto simp: prepareAuthLoginTransaction_def Let_def split: if_splits)

lemma insertAuth_settles:
  assumes "prepareAuthLoginTransaction e ch now = Inr (v', p, h, env, t)" "authWorkspaceID (ch_WorkspaceID ch) = Inr v" "ch_Attempts ch = 0"
  shows "settles (insertAuthLoginTransaction e v' p h sk env ch t) (\<lambda>_. sl (v, authLoginStateHash e (TrimSpace (ch_State ch))) 0) (\<lambda>_. 0) n"
  using prepared [OF assms(1, 2)] assms(3)
  unfolding insertAuthLoginTransaction_def
  by (intro settles_le [OF settles_insert(2)]) (simp add: loginWorth_def loginKey_def loginInsert_def)

lemma prepared_then:
  assumes "\<And>v' p h env t. prepareAuthLoginTransaction e ch now = Inr (v', p, h, env, t) \<Longrightarrow> settles (f v' p h env t) g l n"
  shows "settles (andThen (liftRes (prepareAuthLoginTransaction e ch now)) (\<lambda>(v', p, h, env, t). f v' p h env t)) g l n"
  using assms by (auto simp: triple_def andThen_def split: sum.splits prod.splits)

lemma settles_login:
  assumes "authWorkspaceID (ch_WorkspaceID ch) = Inr v" "ch_Attempts ch = 0"
  shows "settles (AuthStore_CreateAuthLoginTransaction e ch) (\<lambda>_. sl (v, authLoginStateHash e (TrimSpace (ch_State ch))) 0) (\<lambda>_. 0) n"
  unfolding AuthStore_CreateAuthLoginTransaction_def Let_def
  by (intro prepared_then) (use insertAuth_settles assms in fastforce)

lemma settles_committed:
  assumes "settles m (\<lambda>_. g) (\<lambda>_. 0) n"
  shows "triple (atMost n) (andThen m (\<lambda>_. ret (x, True)))
    (\<lambda>(x, commit). tables (\<lambda>t. if commit then worth t + 0 \<le> n + g else (0::nat) = 0)) (\<lambda>_ _. True)"
proof (rule triple_andThen)
  show "triple (atMost n) m (\<lambda>_. tables (\<lambda>t. worth t + 0 \<le> n + g)) (\<lambda>_ _. True)" using assms by (rule triple_weaken) auto
qed (auto intro: triple_ret)

lemma settles_totp:
  assumes "authWorkspaceID (ch_WorkspaceID ch) = Inr v" "ch_Attempts ch = 0"
  shows "settles (AuthStore_CreateTOTPEnrollment e ch secret) (\<lambda>_. sl (v, authLoginStateHash e (TrimSpace (ch_State ch))) 0) (\<lambda>_. 0) n"
  unfolding AuthStore_CreateTOTPEnrollment_def Let_def
proof (intro prepared_then triple_frame_then [OF keeps_liftRes] settles_transaction)
  fix v' p h env t envelope
  assume prep: "prepareAuthLoginTransaction e ch zeroTime = Inr (v', p, h, env, t)"
  have k: "keeps (atMost n) (execInsertNew e tb_Factors onFactors factorKey row)" "keeps (atMost n) (execUpdate e tb_Factors onFactors q f)" for row q f
    by (intro triples; simp)+
  show "triple (atMost n) (andThen (execInsertNew e tb_Factors onFactors factorKey row) (\<lambda>_. andThen (execUpdate e tb_Factors onFactors q f) (\<lambda>count.
         andThen (check (count = 1) err) (\<lambda>_. andThen (insertAuthLoginTransaction e v' p h [] env ch t) (\<lambda>_. ret ((), True))))))
      (\<lambda>(x, commit). tables (\<lambda>t. if commit then worth t + 0 \<le> n + sl (v, authLoginStateHash e (TrimSpace (ch_State ch))) 0 else (0::nat) = 0)) (\<lambda>_ _. True)" for row q f err
    by (intro triple_then k keeps_check settles_committed [OF insertAuth_settles [OF prep assms]])
qed

lemma triple_if: "(b \<Longrightarrow> triple P m Q E) \<Longrightarrow> (\<not> b \<Longrightarrow> triple P m' Q E) \<Longrightarrow> triple P (if b then m else m') Q E"
  by simp

lemma settles_otp:
  assumes "authWorkspaceID (ch_WorkspaceID ch) = Inr v" "ch_Attempts ch = 0"
  shows "settles (AuthStore_CreateAuthOTPTransaction e ch subject next now)
    (\<lambda>b. if b then sl (v, authLoginStateHash e (TrimSpace (ch_State ch))) 0 else 0) (\<lambda>_. 0) n"
proof -
  define s0 where "s0 = sl (v, authLoginStateHash e (TrimSpace (ch_State ch))) 0"
  have insert: "triple (atMost n) (andThen (insertAuthLoginTransaction e v' p h sk env ch t) (\<lambda>_. ret (True, True)))
      (\<lambda>(x, commit). tables (\<lambda>t. if commit then worth t + 0 \<le> n + (if x then s0 else 0) else (0::nat) = 0)) (\<lambda>_ _. True)"
    if "prepareAuthLoginTransaction e ch now = Inr (v', p, h, env, t)" for v' p h env t sk
  proof (rule triple_andThen)
    show "triple (atMost n) (insertAuthLoginTransaction e v' p h sk env ch t) (\<lambda>_. tables (\<lambda>t. worth t \<le> n + s0)) (\<lambda>_ _. True)"
      using insertAuth_settles [OF that assms] unfolding s0_def by (rule triple_weaken) auto
  qed (auto intro: triple_ret)
  have none: "triple (atMost n) (ret (False, False))
      (\<lambda>(x, commit). tables (\<lambda>t. if commit then worth t + 0 \<le> n + (if x then s0 else 0) else (0::nat) = 0)) (\<lambda>_ _. True)"
    by (auto intro: triple_ret)
  have claim: "keeps (atMost n) (claimAuthOTPDelivery e v' p sk now next)" for v' p sk
    unfolding claimAuthOTPDelivery_def Let_def by (intro triples; simp)
  have supersede: "keeps (atMost n) (execUpdate e tb_Logins onLogins q
      (\<lambda>r. r\<lparr>lrow_Status := AuthChallengeStatusSuperseded, lrow_ConsumedAt := Some t, lrow_UpdatedAt := t\<rparr>))" for q t
    by (intro triples worth_update_le) (simp_all add: loginWorth_def)
  show ?thesis
    unfolding AuthStore_CreateAuthOTPTransaction_def Let_def s0_def [symmetric]
    by (intro insert none claim supersede triple_frame_then [OF keeps_check] prepared_then settles_transaction triple_then triple_if) auto
qed

text \<open>A guess.\<close>

lemma guessed_worth:
  assumes "loginKey r = k" "lrow_Attempts r = a" "lrow_ConsumedAt r = None" "m \<le> M"
  shows "loginWorth (guessedRow t (if m \<le> 0 then 1 else m) a valid r) + (if valid then least k else guess k) \<le> loginWorth r"
proof -
  have "sl k (a + 1) + guess k \<le> sl k a" if "\<not> (if m \<le> 0 then 1 else m) \<le> a + 1"
    using that assms(4) M by (intro guessed) (auto split: if_splits)
  with assms least [of k a] guess_least [of k] show ?thesis
    by (auto simp: guessedRow_def loginWorth_def loginKey_def Let_def)
qed

abbreviation guessLoss :: "string \<times> string \<Rightarrow> AuthProviderChallenge \<times> bool \<Rightarrow> nat" where
  "guessLoss k x \<equiv> (if snd x then least k else if ch_State (fst x) \<noteq> [] then guess k else 0)"

lemma keeps_verify: "keeps (atMost n) (verifyTOTPFactor e ch code now m)"
  unfolding verifyTOTPFactor_def Let_def by (intro triples) simp_all

lemma settles_guess:
  assumes "authWorkspaceID ws = Inr v" "m \<le> M"
  shows "settles (AuthStore_ConsumeAuthOTPTransaction e ws p s code ps u m now) (\<lambda>_. 0) (guessLoss (v, authLoginStateHash e (TrimSpace s))) n"
proof -
  define k where "k = (v, authLoginStateHash e (TrimSpace s))"
  let ?Q = "\<lambda>(x, commit). tables (\<lambda>t. if commit then worth t + guessLoss k x \<le> n + 0 else guessLoss k x = 0)"
  have none: "triple P (ret ((zeroChallenge, False), False)) ?Q (\<lambda>_ _. True)" for P :: "authDb \<Rightarrow> bool"
    by (rule triple_ret) (simp add: zeroChallenge_def)
  have guess: "triple (atMost n)
      (andThen (execUpdate e tb_Logins onLogins
          (\<lambda>q. loginKey q = k \<and> lrow_ProviderKey q = p' \<and> lrow_Attempts q = a \<and> lrow_ConsumedAt q = None)
          (guessedRow t (if m \<le> 0 then 1 else m) a valid)) (\<lambda>changed.
        if changed \<noteq> 1 then ret ((zeroChallenge, False), False) else ret ((ch, valid), True))) ?Q (\<lambda>_ _. True)" for p' a t valid ch
  proof (rule triple_andThen)
    show "triple (atMost n) (execUpdate e tb_Logins onLogins
          (\<lambda>q. loginKey q = k \<and> lrow_ProviderKey q = p' \<and> lrow_Attempts q = a \<and> lrow_ConsumedAt q = None)
          (guessedRow t (if m \<le> 0 then 1 else m) a valid)) (\<lambda>c. tables (\<lambda>t. worth t + (if valid then least k else guess k) * c \<le> n + 0)) (\<lambda>_ _. True)"
      by (rule triple_weaken [OF settles_logins]) (use guessed_worth assms(2) in auto)
    show "triple (tables (\<lambda>t. worth t + (if valid then least k else guess k) * c \<le> n + 0))
        (if c \<noteq> 1 then ret ((zeroChallenge, False), False) else ret ((ch, valid), True)) ?Q (\<lambda>_ _. True)" for c
      by (intro triple_if none triple_ret) auto
  qed
  show ?thesis
    unfolding AuthStore_ConsumeAuthOTPTransaction_def inWorkspace_Inr [OF assms(1)] Let_def
    by (rule triple_if, rule triple_ret, simp add: zeroChallenge_def)
      (unfold k_def [symmetric], intro settles_transaction triple_read_then triple_option none triple_then [OF keeps_liftRes] triple_if
        triple_then [OF keeps_if [OF keeps_verify keeps_ret]] guess)
qed

subsection \<open>Accounts\<close>

text \<open>Without a workspace nothing happens.\<close>

lemma settles_owned:
  assumes "\<And>v. authWorkspaceID ws = Inr v \<Longrightarrow> settles m (g v) (l v) n"
    and "\<And>err. authWorkspaceID ws = Inl err \<Longrightarrow> \<exists>err'. \<forall>db. m db = (Inl err', db)"
  shows "settles m (g (owner ws)) (l (owner ws)) n"
  using assms by (cases "authWorkspaceID ws") (fastforce simp: owner_def triple_def)+

lemma settlesD:
  assumes "\<And>n. settles m g l n" "m db = (r, db')"
  shows "worth (db_Tables db') + (case r of Inl _ \<Rightarrow> 0 | Inr x \<Rightarrow> l x) \<le> worth (db_Tables db) + (case r of Inl _ \<Rightarrow> 0 | Inr x \<Rightarrow> g x)"
  using tripleD [OF assms(1)] assms(2) by (cases r) fastforce+

lemma andThen_failed: "andThen (liftRes (Inl err)) f db = (Inl err, db)"
  by (simp add: andThen_def)

lemma owned_token:
  shows "settles (AuthStore_CreateAuthRefreshToken e ws token) (\<lambda>_. st (owner ws, tok_ID token)) (\<lambda>_. 0) n"
  by (rule settles_owned [where ws = "ws" and g = "\<lambda>v _. st (v, tok_ID token)" and l = "\<lambda>v _. 0"])
    (rule settles_token, assumption, simp add: andThen_failed AuthStore_CreateAuthRefreshToken_def)

lemma owned_rotate:
  shows "settles (AuthStore_RotateAuthRefreshToken e ws i at token) (\<lambda>b. if b then st (owner ws, tok_ID token) else 0) (\<lambda>b. if b then st (owner ws, i) else 0) n"
  by (rule settles_owned [where ws = "ws" and g = "\<lambda>v b. if b then st (v, tok_ID token) else 0" and l = "\<lambda>v b. if b then st (v, i) else 0"])
    (rule settles_rotate, assumption, simp add: andThen_failed AuthStore_RotateAuthRefreshToken_def)

lemma owned_code:
  shows "settles (AuthStore_CreateAuthAuthorizationCode e c) (\<lambda>_. sc (owner (code_WorkspaceID c), authAuthorizationCodeHash e (code_Code c))) (\<lambda>_. 0) n"
  by (rule settles_owned [where ws = "code_WorkspaceID c" and g = "\<lambda>v _. sc (v, authAuthorizationCodeHash e (code_Code c))" and l = "\<lambda>v _. 0"])
    (rule settles_code, assumption, simp add: andThen_failed AuthStore_CreateAuthAuthorizationCode_def)

lemma owned_redeem:
  shows "settles (AuthStore_ConsumeAuthAuthorizationCode e ws code app url now) (\<lambda>_. 0) (\<lambda>x. if x \<noteq> None then sc (owner ws, authAuthorizationCodeHash e (TrimSpace code)) else 0) n"
  by (rule settles_owned [where ws = "ws" and g = "\<lambda>v _. 0" and l = "\<lambda>v x. if x \<noteq> None then sc (v, authAuthorizationCodeHash e (TrimSpace code)) else 0"])
    (rule settles_redeem, assumption, simp add: andThen_failed AuthStore_ConsumeAuthAuthorizationCode_def)

lemma owned_login:
  assumes "ch_Attempts ch = 0"
  shows "settles (AuthStore_CreateAuthLoginTransaction e ch) (\<lambda>_. sl (owner (ch_WorkspaceID ch), authLoginStateHash e (TrimSpace (ch_State ch))) 0) (\<lambda>_. 0) n"
  by (rule settles_owned [where ws = "ch_WorkspaceID ch" and g = "\<lambda>v _. sl (v, authLoginStateHash e (TrimSpace (ch_State ch))) 0" and l = "\<lambda>v _. 0"])
    (rule settles_login, assumption, rule assms, simp add: andThen_failed AuthStore_CreateAuthLoginTransaction_def prepareAuthLoginTransaction_def)

lemma owned_otp:
  assumes "ch_Attempts ch = 0"
  shows "settles (AuthStore_CreateAuthOTPTransaction e ch subject next now) (\<lambda>b. if b then sl (owner (ch_WorkspaceID ch), authLoginStateHash e (TrimSpace (ch_State ch))) 0 else 0) (\<lambda>_. 0) n"
  by (rule settles_owned [where ws = "ch_WorkspaceID ch" and g = "\<lambda>v b. if b then sl (v, authLoginStateHash e (TrimSpace (ch_State ch))) 0 else 0" and l = "\<lambda>v _. 0"])
    (rule settles_otp, assumption, rule assms,
     (cases "TrimSpace subject = []"; simp add: andThen_failed AuthStore_CreateAuthOTPTransaction_def prepareAuthLoginTransaction_def Let_def check_def raise_def andThen_def))

lemma owned_totp:
  assumes "ch_Attempts ch = 0"
  shows "settles (AuthStore_CreateTOTPEnrollment e ch secret) (\<lambda>_. sl (owner (ch_WorkspaceID ch), authLoginStateHash e (TrimSpace (ch_State ch))) 0) (\<lambda>_. 0) n"
  by (rule settles_owned [where ws = "ch_WorkspaceID ch" and g = "\<lambda>v _. sl (v, authLoginStateHash e (TrimSpace (ch_State ch))) 0" and l = "\<lambda>v _. 0"])
    (rule settles_totp, assumption, rule assms, simp add: andThen_failed AuthStore_CreateTOTPEnrollment_def prepareAuthLoginTransaction_def)

lemma owned_consume:
  shows "settles (AuthStore_ConsumeAuthLoginTransaction e ws p s now) (\<lambda>_. 0) (\<lambda>x. if x \<noteq> None then least (owner ws, authLoginStateHash e (TrimSpace s)) else 0) n"
  by (rule settles_owned [where ws = "ws" and g = "\<lambda>v _. 0" and l = "\<lambda>v x. if x \<noteq> None then least (v, authLoginStateHash e (TrimSpace s)) else 0"])
    (rule settles_consume, assumption, simp add: andThen_failed AuthStore_ConsumeAuthLoginTransaction_def)

lemma owned_guess:
  assumes "m \<le> M"
  shows "settles (AuthStore_ConsumeAuthOTPTransaction e ws p s code ps u m now) (\<lambda>_. 0) (\<lambda>x. guessLoss (owner ws, authLoginStateHash e (TrimSpace s)) x) n"
  by (rule settles_owned [where ws = "ws" and g = "\<lambda>v _. 0" and l = "\<lambda>v x. guessLoss (v, authLoginStateHash e (TrimSpace s)) x"])
    (rule settles_guess, assumption, rule assms, simp add: andThen_failed AuthStore_ConsumeAuthOTPTransaction_def)

lemma account_maintain: "maintain e x db = (r, db') \<Longrightarrow> worth (db_Tables db') \<le> worth (db_Tables db)"
  using triple_keepsD [OF keeps_maintain] by blast

lemma account_step:
  assumes "storeStep e M db evs db'"
  shows "worth (db_Tables db') + tally loss evs \<le> worth (db_Tables db) + tally gain evs"
  using assms
proof cases
  case token_created
  then show ?thesis using settlesD [OF owned_token token_created(2)] by (auto split: sum.splits if_splits option.splits)
next
  case token_not_created
  then show ?thesis using settlesD [OF owned_token token_not_created(2)] by (auto split: sum.splits if_splits option.splits)
next
  case token_rotated
  then show ?thesis using settlesD [OF owned_rotate token_rotated(2)] by (auto split: sum.splits if_splits option.splits)
next
  case token_not_rotated
  then show ?thesis using settlesD [OF owned_rotate token_not_rotated(2)] by (auto split: sum.splits if_splits option.splits)
next
  case code_created
  then show ?thesis using settlesD [OF owned_code code_created(2)] by (auto split: sum.splits if_splits option.splits)
next
  case code_not_created
  then show ?thesis using settlesD [OF owned_code code_not_created(2)] by (auto split: sum.splits if_splits option.splits)
next
  case code_redeemed
  then show ?thesis using settlesD [OF owned_redeem code_redeemed(2)] by (auto split: sum.splits if_splits option.splits)
next
  case code_refused
  then show ?thesis using settlesD [OF owned_redeem code_refused(2)] by (auto split: sum.splits if_splits option.splits)
next
  case login_created
  then show ?thesis using settlesD [OF owned_login [OF login_created(3)] login_created(2)] by (auto split: sum.splits if_splits option.splits)
next
  case login_not_created
  then show ?thesis using settlesD [OF owned_login [OF login_not_created(3)] login_not_created(2)] by (auto split: sum.splits if_splits option.splits)
next
  case otp_created
  then show ?thesis using settlesD [OF owned_otp [OF otp_created(3)] otp_created(2)] by (auto split: sum.splits if_splits option.splits)
next
  case otp_not_created
  then show ?thesis using settlesD [OF owned_otp [OF otp_not_created(4)] otp_not_created(2)] by (auto split: sum.splits if_splits option.splits)
next
  case totp_created
  then show ?thesis using settlesD [OF owned_totp [OF totp_created(3)] totp_created(2)] by (auto split: sum.splits if_splits option.splits)
next
  case totp_not_created
  then show ?thesis using settlesD [OF owned_totp [OF totp_not_created(3)] totp_not_created(2)] by (auto split: sum.splits if_splits option.splits)
next
  case login_consumed
  then show ?thesis using settlesD [OF owned_consume login_consumed(2)] by (auto split: sum.splits if_splits option.splits)
next
  case login_refused
  then show ?thesis using settlesD [OF owned_consume login_refused(2)] by (auto split: sum.splits if_splits option.splits)
next
  case otp_right
  then show ?thesis using settlesD [OF owned_guess [OF otp_right(3)] otp_right(2)] by (auto split: sum.splits if_splits option.splits)
next
  case otp_wrong
  then show ?thesis using settlesD [OF owned_guess [OF otp_wrong(3)] otp_wrong(2)] by (auto split: sum.splits if_splits option.splits)
next
  case otp_refused
  then show ?thesis using settlesD [OF owned_guess [OF otp_refused(3)] otp_refused(2)] by (auto split: sum.splits if_splits option.splits)
next
  case (maintained x r)
  then show ?thesis using account_maintain by simp
qed simp

lemma account_run:
  "storeRun e M db evs db' \<Longrightarrow> worth (db_Tables db') + tally loss evs \<le> worth (db_Tables db) + tally gain evs"
proof (induction rule: storeRun.induct)
  case (go db evs db' evs' db'')
  from account_step [OF go.hyps(1)] go.IH show ?case by simp
qed simp

text \<open>Nothing was ever spent that had not come into being.\<close>

lemma spent_issued:
  assumes "storeRun e M db evs db'" "tb_Tokens (db_Tables db) = []" "tb_Logins (db_Tables db) = []" "tb_Codes (db_Tables db) = []"
  shows "tally loss evs \<le> tally gain evs"
  using account_run [OF assms(1)] assms(2-) by (simp add: worth_def)

end

subsection \<open>Instances\<close>

text \<open>One token, one code or one challenge is followed through its life.\<close>

interpretation tokens: staking "\<lambda>k. of_bool (k = k0)" "\<lambda>_ _. 0" "\<lambda>_. 0" "\<lambda>_. 0" "\<lambda>_. 0" "max 1 M" for k0 M
  by unfold_locales simp_all

interpretation codes: staking "\<lambda>_. 0" "\<lambda>_ _. 0" "\<lambda>k. of_bool (k = k0)" "\<lambda>_. 0" "\<lambda>_. 0" "max 1 M" for k0 M
  by unfold_locales simp_all

interpretation logins: staking "\<lambda>_. 0" "\<lambda>k _. of_bool (k = k0)" "\<lambda>_. 0" "\<lambda>k. of_bool (k = k0)" "\<lambda>_. 0" "max 1 M" for k0 M
  by unfold_locales simp_all

text \<open>A challenge is worth the attempts it has left, and at least one.\<close>

interpretation guesses: staking "\<lambda>_. 0" "\<lambda>k a. if k = k0 then max 1 (nat (max 1 M - a)) else 0" "\<lambda>_. 0"
  "\<lambda>k. of_bool (k = k0)" "\<lambda>k. of_bool (k = k0)" "max 1 M" for k0 M
  by unfold_locales auto

end
