(* ===== verification/InstantOrder.thy ===== *)
theory InstantOrder
  imports Encodings
begin

section \<open>The order of printed instants\<close>

text \<open>
  The database compares time stamps as text.  On whole seconds the text order is the order
  of time; a fraction sorts before the \<open>Z\<close> that ends a stamp without one.
\<close>

lemma digitChar_less [simp]: "a < 10 \<Longrightarrow> b < 10 \<Longrightarrow> digitChar a < digitChar b \<longleftrightarrow> a < b"
  by (simp add: digitChar_def less_char_def)

lemma digitChar_eq [simp]: "a < 10 \<Longrightarrow> b < 10 \<Longrightarrow> digitChar a = digitChar b \<longleftrightarrow> a = b"
  by (metis digitVal_digitChar option.inject)

lemma two_digit_order:
  assumes "a < 100" "b < (100::nat)"
  shows "a < b \<longleftrightarrow> a div 10 < b div 10 \<or> a div 10 = b div 10 \<and> a mod 10 < b mod 10"
    "a = b \<longleftrightarrow> a div 10 = b div 10 \<and> a mod 10 = b mod 10"
proof -
  have "a = a div 10 * 10 + a mod 10" "b = b div 10 * 10 + b mod 10" "a mod 10 < 10" "b mod 10 < 10" by simp_all
  then show "a < b \<longleftrightarrow> a div 10 < b div 10 \<or> a div 10 = b div 10 \<and> a mod 10 < b mod 10" by linarith
  show "a = b \<longleftrightarrow> a div 10 = b div 10 \<and> a mod 10 = b mod 10" by (metis div_mult_mod_eq)
qed

lemma twoDigits_less:
  assumes "a < 100" "b < 100"
  shows "twoDigits a @ x < twoDigits b @ y \<longleftrightarrow> a < b \<or> a = b \<and> x < y"
  using assms two_digit_order [OF assms] by (auto simp: twoDigits_def less_mult_imp_div_less)

lemma year_order:
  fixes y z :: nat
  shows "y div 100 < z div 100 \<or> y div 100 = z div 100 \<and> (y mod 100 < z mod 100 \<or> y mod 100 = z mod 100 \<and> P) \<longleftrightarrow> y < z \<or> y = z \<and> P"
proof -
  have "y = y div 100 * 100 + y mod 100" "z = z div 100 * 100 + z mod 100" "y mod 100 < 100" "z mod 100 < 100" by simp_all
  then have "y < z \<longleftrightarrow> y div 100 < z div 100 \<or> y div 100 = z div 100 \<and> y mod 100 < z mod 100" by linarith
  moreover have "y = z \<longleftrightarrow> y div 100 = z div 100 \<and> y mod 100 = z mod 100" by (metis div_mult_mod_eq)
  ultimately show ?thesis by blast
qed

text \<open>The position of a second: its parts, the most significant first.\<close>

definition civilKey :: "civil \<Rightarrow> nat \<times> nat \<times> nat \<times> nat \<times> nat \<times> nat" where
  "civilKey c = (civ_year c, civ_month c, civ_day c, civ_hour c, civ_min c, civ_sec c)"

lemma valid_parts:
  assumes "validCivil c"
  shows "civ_year c div 100 < 100" "civ_year c mod 100 < 100" "civ_month c < 100" "civ_day c < 100" "civ_hour c < 100"
    "civ_min c < 100" "civ_sec c < 100"
  using assms daysIn_le [of "civ_month c" "civ_year c"] by (auto simp: validCivil_def)

lemma format_less:
  assumes "validCivil c" "validCivil d"
  shows "formatRFC3339 c < formatRFC3339 d \<longleftrightarrow> civilKey c < civilKey d"
proof -
  note p = valid_parts [OF assms(1)] valid_parts [OF assms(2)]
  show ?thesis
    unfolding formatRFC3339_def
    by (simp add: twoDigits_less p civilKey_def year_order) auto
qed

lemma civil_day_less:
  assumes "validCivil c" "validCivil d" "(civ_year c, civ_month c, civ_day c) < (civ_year d, civ_month d, civ_day d)"
  shows "daysBeforeYear (civ_year c) + daysBeforeMonth (civ_month c) (civ_year c) + int (civ_day c)
    < daysBeforeYear (civ_year d) + daysBeforeMonth (civ_month d) (civ_year d) + int (civ_day d)"
proof -
  have mono: "daysBeforeMonth m y \<le> daysBeforeMonth (m + k) y" if "1 \<le> m" for m y k
    by (induction k) (use that in \<open>simp_all add: daysBeforeMonth_Suc\<close>)
  have end_month: "daysBeforeMonth (civ_month c) (civ_year c) + int (civ_day c) \<le> daysBeforeMonth (Suc (civ_month c)) (civ_year c)"
    using assms(1) by (simp add: validCivil_def daysBeforeMonth_Suc)
  have year: "daysBeforeMonth (Suc (civ_month c)) (civ_year c) \<le> daysBeforeMonth 13 (civ_year c)"
    using mono [of "Suc (civ_month c)" "civ_year c" "12 - civ_month c"] assms(1) by (simp add: validCivil_def)
  have pos: "0 \<le> daysBeforeMonth (civ_month d) (civ_year d)" "1 \<le> int (civ_day d)"
    using assms(2) by (auto simp: validCivil_def daysBeforeMonth_def intro!: sum_list_nonneg)
  consider "civ_year c < civ_year d" | "civ_year c = civ_year d" "civ_month c < civ_month d"
    | "civ_year c = civ_year d" "civ_month c = civ_month d" "civ_day c < civ_day d" using assms(3) by (auto simp: le_less)
  then show ?thesis
  proof cases
    case 1
    then have "daysBeforeYear (Suc (civ_year c)) \<le> daysBeforeYear (civ_year d)" by (intro daysBeforeYear_monotone) simp
    with end_month year pos show ?thesis by (simp add: daysBeforeYear_Suc daysBeforeMonth_13)
  next
    case 2
    then have "daysBeforeMonth (Suc (civ_month c)) (civ_year c) \<le> daysBeforeMonth (civ_month d) (civ_year c)"
      using mono [of "Suc (civ_month c)" "civ_year c" "civ_month d - Suc (civ_month c)"] by simp
    with end_month pos 2 show ?thesis by simp
  qed simp
qed

lemma civil_less:
  assumes "validCivil c" "validCivil d" "civilKey c < civilKey d"
  shows "civilInstant (c\<lparr>civ_nsec := 0\<rparr>) < civilInstant (d\<lparr>civ_nsec := 0\<rparr>)"
proof -
  define day :: "civil \<Rightarrow> int" where "day = (\<lambda>c. daysBeforeYear (civ_year c) + daysBeforeMonth (civ_month c) (civ_year c) + int (civ_day c))"
  have i: "civilInstant (c\<lparr>civ_nsec := 0\<rparr>) =
      (((day c - daysBeforeYear 1970 - 1) * 24 + int (civ_hour c)) * 60 + int (civ_min c)) * 60000000000 + int (civ_sec c) * 1000000000" for c :: civil
    by (simp add: civilInstant_def day_def algebra_simps)
  have b: "int (civ_hour c) < 24" "int (civ_min c) < 60" "int (civ_sec c) < 60" if "validCivil c" for c :: civil
    using that by (simp_all add: validCivil_def)
  show ?thesis
  proof (cases "(civ_year c, civ_month c, civ_day c) = (civ_year d, civ_month d, civ_day d)")
    case True
    then have "day c = day d" by (simp add: day_def)
    moreover have "civ_hour c < civ_hour d \<or> civ_hour c = civ_hour d \<and> (civ_min c < civ_min d \<or> civ_min c = civ_min d \<and> civ_sec c < civ_sec d)"
      using assms(3) True by (auto simp: civilKey_def)
    ultimately show ?thesis unfolding i using b [OF assms(1)] by auto
  next
    case False
    with assms(3) have "(civ_year c, civ_month c, civ_day c) < (civ_year d, civ_month d, civ_day d)" by (auto simp: civilKey_def)
    from civil_day_less [OF assms(1,2) this] have "day c + 1 \<le> day d" by (simp add: day_def)
    then show ?thesis unfolding i using b [OF assms(1)] by (simp add: algebra_simps)
  qed
qed

lemma civilInstant_seconds:
  "printable t \<Longrightarrow> civilInstant ((civilOf t)\<lparr>civ_nsec := 0\<rparr>) = t div 1000000000 * 1000000000"
proof -
  assume t: "printable t"
  have "civilInstant (civilOf t\<lparr>civ_nsec := 0\<rparr>) = civilInstant (civilOf t) - int (civ_nsec (civilOf t))"
    by (simp add: civilInstant_def)
  with civilOf_printable(2) [OF t] show ?thesis by (simp add: civ_nsec_civilOf minus_mod_eq_div_mult)
qed

lemma formatInstant_less:
  assumes "printable s" "printable t"
  shows "formatInstant s < formatInstant t \<longleftrightarrow> s div 1000000000 < t div 1000000000"
proof -
  note v = civilOf_printable(1) [OF assms(1)] civilOf_printable(1) [OF assms(2)]
  have lt: "civilKey (civilOf s) < civilKey (civilOf t) \<Longrightarrow> s div 1000000000 < t div 1000000000"
    if "printable s" "printable t" for s t
    using civil_less [OF civilOf_printable(1) [OF that(1)] civilOf_printable(1) [OF that(2)]]
    by (simp add: civilInstant_seconds that)
  have eq: "civilKey (civilOf s) = civilKey (civilOf t) \<Longrightarrow> s div 1000000000 = t div 1000000000"
  proof -
    assume "civilKey (civilOf s) = civilKey (civilOf t)"
    then have "(civilOf s)\<lparr>civ_nsec := 0\<rparr> = (civilOf t)\<lparr>civ_nsec := 0\<rparr>"
      by (intro civil.equality) (simp_all add: civilKey_def)
    with civilInstant_seconds [OF assms(1)] civilInstant_seconds [OF assms(2)] show ?thesis by simp
  qed
  show ?thesis
    unfolding formatInstant_def format_less [OF v]
    by (rule linorder_cases [of "civilKey (civilOf s)" "civilKey (civilOf t)"])
      (use lt [OF assms] lt [OF assms(2,1)] eq in \<open>auto dest: less_asym\<close>)
qed

lemma formatInstant_eq:
  assumes "printable s" "printable t"
  shows "formatInstant s = formatInstant t \<longleftrightarrow> s div 1000000000 = t div 1000000000"
  using formatInstant_less [OF assms] formatInstant_less [OF assms(2,1)] by (metis less_irrefl neqE)

text \<open>A stamp is nineteen characters and what ends it.\<close>

lemma formatInstant_parts: "formatInstant t = butlast (formatInstant t) @ ''Z'' \<and> length (butlast (formatInstant t)) = 19"
  by (simp add: formatInstant_def formatRFC3339_def twoDigits_def butlast_append)

lemma append_less: "length p = length q \<Longrightarrow> p @ x < q @ y \<longleftrightarrow> p < q \<or> p = q \<and> x < (y :: string)"
  by (induction p q rule: list_induct2) auto

definition nanoEnd :: "int \<Rightarrow> string" where
  "nanoEnd t = drop 19 (formatInstantNano t)"

lemma nano_parts: "formatInstantNano t = butlast (formatInstant t) @ nanoEnd t"
  using formatInstant_parts [of t] by (simp add: nanoEnd_def formatInstantNano_def Let_def)

lemma digit_zero: "CHR ''0'' = digitChar 0"
  by code_simp

lemma decimal_zero: "decimal 0 = [CHR ''0'']"
  by (simp add: decimal.simps digit_zero)

lemma decimal_all_zero: "list_all (\<lambda>c. c = CHR ''0'') (decimal n) \<Longrightarrow> n = 0"
proof (induction n rule: decimal.induct)
  case (1 n)
  show ?case
  proof (cases "n < 10")
    case True
    with 1(2) have "digitChar n = digitChar 0" by (subst (asm) decimal.simps) (simp add: digit_zero)
    with True show ?thesis by simp
  next
    case False
    with 1(2) have "list_all (\<lambda>c. c = CHR ''0'') (decimal (n div 10))" by (subst (asm) decimal.simps) simp
    with 1(1) False have "n div 10 = 0" by blast
    with False show ?thesis by simp
  qed
qed

lemma nanoEnd_less: "nanoEnd t < ''Z'' \<longleftrightarrow> t mod 1000000000 \<noteq> 0"
proof -
  let ?d = "paddedDecimal 9 (nat (t mod 1000000000))"
  have "dropWhile (\<lambda>c. c = CHR ''0'') (rev ?d) = [] \<longleftrightarrow> t mod 1000000000 = 0"
  proof
    assume "dropWhile (\<lambda>c. c = CHR ''0'') (rev ?d) = []"
    then have "list_all (\<lambda>c. c = CHR ''0'') (decimal (nat (t mod 1000000000)))"
      by (auto simp: dropWhile_eq_Nil_conv paddedDecimal_def list_all_iff)
    then have "nat (t mod 1000000000) = 0" by (rule decimal_all_zero)
    then show "t mod 1000000000 = 0" using pos_mod_sign [of 1000000000 t] by simp
  next
    assume "t mod 1000000000 = 0"
    then have "decimal (nat (t mod 1000000000)) = [CHR ''0'']" by (simp add: decimal_zero)
    then show "dropWhile (\<lambda>c. c = CHR ''0'') (rev ?d) = []" by (simp add: paddedDecimal_def)
  qed
  moreover have "nanoEnd t = (let digits = rev (dropWhile (\<lambda>c. c = CHR ''0'') (rev ?d)) in (if digits = [] then [] else ''.'' @ digits) @ ''Z'')"
    using formatInstant_parts [of t] by (simp add: nanoEnd_def formatInstantNano_def Let_def)
  ultimately show ?thesis by (simp add: Let_def)
qed

text \<open>The comparison of the clock, with its fraction, against a stored stamp.\<close>

lemma nano_less_stamp:
  assumes "printable now" "printable expiry"
  shows "formatInstantNano now < formatInstant expiry \<longleftrightarrow>
    now div 1000000000 < expiry div 1000000000 \<or> now div 1000000000 = expiry div 1000000000 \<and> now mod 1000000000 \<noteq> 0"
proof -
  have l: "length (butlast (formatInstant now)) = length (butlast (formatInstant expiry))"
    using formatInstant_parts by metis
  have "butlast (formatInstant now) < butlast (formatInstant expiry) \<longleftrightarrow> formatInstant now < formatInstant expiry"
    using append_less [OF l, of "''Z''" "''Z''"] formatInstant_parts [of now] formatInstant_parts [of expiry] by simp
  moreover have "butlast (formatInstant now) = butlast (formatInstant expiry) \<longleftrightarrow> formatInstant now = formatInstant expiry"
    using formatInstant_parts [of now] formatInstant_parts [of expiry] by metis
  moreover have "formatInstantNano now < formatInstant expiry \<longleftrightarrow>
      butlast (formatInstant now) < butlast (formatInstant expiry) \<or> butlast (formatInstant now) = butlast (formatInstant expiry) \<and> nanoEnd now < ''Z''"
    using append_less [OF l, of "nanoEnd now" "''Z''"] nano_parts [of now] formatInstant_parts [of expiry] by simp
  ultimately show ?thesis using formatInstant_less [OF assms] formatInstant_eq [OF assms] nanoEnd_less by simp
qed

end
