(* ===== verification/AuthStoreSamples.thy ===== *)
theory AuthStoreSamples
  imports AuthStoreHistory InstantOrder AuthSamples
begin

section \<open>A concrete database\<close>

text \<open>
  A database whose driver fails as told, with plain functions in place of encryption and
  JSON: of a challenge the code is kept, of a session nothing.
\<close>

definition sampleStoreEnv :: "(nat \<Rightarrow> go_error option) \<Rightarrow> storeEnv" where
  "sampleStoreEnv faults = \<lparr>se_Fails = faults, se_Auth = sampleAuthEnv, se_Encrypt = (\<lambda>_ _ _ plain. Inr plain), se_Decrypt = (\<lambda>_ _ _ v. Inr v),
     se_EncodeStrings = (\<lambda>vs. concat vs), se_DecodeStrings = (\<lambda>v. Some [v]),
     se_EncodeChallenge = ch_Code, se_DecodeChallenge = (\<lambda>v. Some (zeroChallenge\<lparr>ch_Code := v\<rparr>)),
     se_EncodeSession = (\<lambda>_. []), se_DecodeSession = (\<lambda>_. None), se_EncodeSecret = (\<lambda>s. s), se_DecodeSecret = Some\<rparr>"

definition emptyDb :: authDb where
  "emptyDb = \<lparr>db_Tables = \<lparr>tb_Users = [], tb_Credentials = [], tb_Tokens = [], tb_Logins = [], tb_DeliveryLimits = [], tb_Replays = [],
     tb_Codes = [], tb_Factors = [], tb_Accounts = [], tb_Applications = [], tb_Receipts = []\<rparr>, db_Statements = 0\<rparr>"

definition sampleToken :: "string \<Rightarrow> AuthRefreshToken" where
  "sampleToken i = \<lparr>tok_ID = i, tok_UserID = ''u1'', tok_SessionID = ''s1'', tok_Audience = ''crm'', tok_AuthenticationTime = 0,
     tok_AuthenticationMethods = [''pwd''], tok_AssuranceLevel = ''aal1'', tok_TokenHash = i, tok_ExpiresAt = ''2030-01-01T00:00:00Z'',
     tok_RevokedAt = [], tok_ReplacedByID = [], tok_CreatedAt = [], tok_LastUsedAt = []\<rparr>"

text \<open>A token is issued, rotated, and then presented again.\<close>

abbreviation soundEnv :: storeEnv where "soundEnv \<equiv> sampleStoreEnv (\<lambda>_. None)"

definition afterIssue :: authDb where
  "afterIssue = snd (AuthStore_CreateAuthRefreshToken soundEnv ''acme'' (sampleToken ''t1'') emptyDb)"

definition afterRotation :: authDb where
  "afterRotation = snd (AuthStore_RotateAuthRefreshToken soundEnv ''acme'' ''t1'' [] (sampleToken ''t2'') afterIssue)"

text \<open>A challenge is issued, guessed at once, and redeemed.\<close>

definition sampleChallenge :: AuthProviderChallenge where
  "sampleChallenge = zeroChallenge\<lparr>ch_WorkspaceID := ''acme'', ch_Provider := ''sms'', ch_State := ''s'', ch_Code := ''1234'',
     ch_ExpiresAt := formatInstant 60000000000\<rparr>"

definition afterChallenge :: authDb where
  "afterChallenge = snd (AuthStore_CreateAuthLoginTransaction soundEnv sampleChallenge emptyDb)"

definition afterGuess :: authDb where
  "afterGuess = snd (AuthStore_ConsumeAuthOTPTransaction soundEnv ''acme'' ''sms'' ''s'' ''0000'' [] [] 3 1000000000 afterChallenge)"

definition afterRedemption :: authDb where
  "afterRedemption = snd (AuthStore_ConsumeAuthOTPTransaction soundEnv ''acme'' ''sms'' ''s'' ''1234'' [] [] 3 1000000000 afterGuess)"

lemma sample_workspace: "authWorkspaceID ''acme'' = Inr ''acme''"
  by code_simp

lemma sample_texts: "NullableText [] = None" "TrimSpace [] = []" "TrimSpace ''active'' = ''active''" "TrimSpace ''login'' = ''login''"
  "TrimSpace ''s'' = ''s''" "lowerKey ''sms'' = ''sms''" "TrimSpace ''1234'' = ''1234''" "TrimSpace ''0000'' = ''0000''"
  by code_simp+

lemmas run_simps = sample_texts sample_workspace queryRow_def andThen_def statement_def execInsert_def execUpdate_def transaction_def updateRows_def Let_def
  check_def sampleStoreEnv_def rollbackTo_def

lemma issue:
  "AuthStore_CreateAuthRefreshToken soundEnv ''acme'' (sampleToken ''t1'') emptyDb = (Inr (), afterIssue)"
  by (simp add: prod_eq_iff afterIssue_def AuthStore_CreateAuthRefreshToken_def run_simps sampleToken_def emptyDb_def)

lemma rotation:
  "AuthStore_RotateAuthRefreshToken soundEnv ''acme'' ''t1'' [] (sampleToken ''t2'') afterIssue = (Inr True, afterRotation)"
  by (simp add: prod_eq_iff afterRotation_def afterIssue_def AuthStore_CreateAuthRefreshToken_def AuthStore_RotateAuthRefreshToken_def run_simps
     sampleToken_def emptyDb_def authRefreshTokenInsert_def tokenKey_def rotatable_def rotatedRow_def)

lemma challenge:
  "AuthStore_CreateAuthLoginTransaction soundEnv sampleChallenge emptyDb = (Inr (), afterChallenge)"
  by (simp add: prod_eq_iff afterChallenge_def AuthStore_CreateAuthLoginTransaction_def prepareAuthLoginTransaction_def insertAuthLoginTransaction_def
     sampleChallenge_def run_simps zeroChallenge_def emptyDb_def guardErr_def)

lemma before_expiry: "formatInstantNano 1000000000 < formatInstant 60000000000"
  by (subst nano_less_stamp) (simp_all add: printable_def daysBeforeYear_def)

lemmas consume_simps = afterChallenge_def AuthStore_CreateAuthLoginTransaction_def prepareAuthLoginTransaction_def insertAuthLoginTransaction_def
     sampleChallenge_def run_simps zeroChallenge_def emptyDb_def guardErr_def AuthStore_ConsumeAuthOTPTransaction_def
     consumable_def loginInsert_def loginKey_def nowUnlessZero_def zeroTime_def before_expiry openChallenge_def
     authOTPChallengeMatchesPurposeAndUser_def guessedRow_def

lemma guess: "\<exists>ch. AuthStore_ConsumeAuthOTPTransaction soundEnv ''acme'' ''sms'' ''s'' ''0000'' [] [] 3 1000000000 afterChallenge
   = (Inr (ch, False), afterGuess) \<and> ch_State ch = ''s''"
  by (simp add: prod_eq_iff afterGuess_def consume_simps)

lemma redemption: "\<exists>ch. AuthStore_ConsumeAuthOTPTransaction soundEnv ''acme'' ''sms'' ''s'' ''1234'' [] [] 3 1000000000 afterGuess
   = (Inr (ch, True), afterRedemption)"
  by (simp add: prod_eq_iff afterRedemption_def afterGuess_def consume_simps)

text \<open>The histories of the two.\<close>

definition challengeKey :: "string \<times> string" where
  "challengeKey = (''acme'', authLoginStateHash soundEnv ''s'')"

lemma owner_sample: "owner ''acme'' = ''acme''"
  by (simp add: owner_def sample_workspace)

lemma token_history:
  "storeRun soundEnv 3 emptyDb [TokenIssued (''acme'', ''t1''), TokenSpent (''acme'', ''t1''), TokenIssued (''acme'', ''t2'')] afterRotation"
  using storeRun.go [OF storeStep.token_created [OF issue] storeRun.go [OF storeStep.token_rotated [OF rotation] storeRun.stop]]
  by (simp add: owner_sample sampleToken_def)

lemma challenge_history:
  "storeRun soundEnv 3 emptyDb [LoginIssued challengeKey, GuessedWrong challengeKey, LoginSpent challengeKey] afterRedemption"
proof -
  obtain ch ch' where g: "AuthStore_ConsumeAuthOTPTransaction soundEnv ''acme'' ''sms'' ''s'' ''0000'' [] [] 3 1000000000 afterChallenge
      = (Inr (ch, False), afterGuess)" "ch_State ch \<noteq> []"
    and r: "AuthStore_ConsumeAuthOTPTransaction soundEnv ''acme'' ''sms'' ''s'' ''1234'' [] [] 3 1000000000 afterGuess = (Inr (ch', True), afterRedemption)"
    using guess redemption by auto
  have "ch_Attempts sampleChallenge = 0" by (simp add: sampleChallenge_def zeroChallenge_def)
  from storeRun.go [OF storeStep.login_created [OF challenge this] storeRun.go [OF storeStep.otp_wrong [OF g(1) _ g(2)]
      storeRun.go [OF storeStep.otp_right [OF r] storeRun.stop]]]
  show ?thesis by (simp add: owner_sample challengeKey_def sampleChallenge_def sample_texts zeroChallenge_def)
qed

text \<open>A rotation whose insertion fails: the third of its four statements.\<close>

definition brokenEnv :: storeEnv where
  "brokenEnv = sampleStoreEnv (\<lambda>n. if n = 3 then Some (Errorf ''connection reset'' []) else None)"

lemma broken_rotation:
  "\<exists>err db'. AuthStore_RotateAuthRefreshToken brokenEnv ''acme'' ''t1'' [] (sampleToken ''t2'') afterIssue = (Inl err, db')"
  by (simp add: brokenEnv_def afterIssue_def AuthStore_CreateAuthRefreshToken_def AuthStore_RotateAuthRefreshToken_def run_simps
     sampleToken_def emptyDb_def authRefreshTokenInsert_def tokenKey_def rotatable_def rotatedRow_def)

end
