(* ===== verification/AuthStoreProperties.thy ===== *)
theory AuthStoreProperties
  imports AuthStoreSamples
begin

section \<open>Properties of the SQL store\<close>

text \<open>
  How exactly a stored expiry is enforced when it is compared as text, that a failing
  operation leaves the tables as they were, and that over any history every token, code and
  challenge is spent once and guessed at only so often.
\<close>

subsection \<open>Expiry\<close>

text \<open>
  C31: the expiry of a stored challenge or authorization code is compared as text, the
  clock with its fraction against whole seconds.  A row that is otherwise consumable is
  consumed exactly when the clock is before the second of its expiry, or within that second
  but not at its start.
\<close>

theorem stored_expiry:
  assumes "printable now" "printable expiry" "lrow_ExpiresAt r = formatInstant expiry" "orow_ExpiresAt c = formatInstant expiry"
  shows "(consumable ws h p (formatInstantNano now) r \<longleftrightarrow>
      loginKey r = (ws, h) \<and> lrow_ProviderKey r = p \<and> lrow_Status r = AuthChallengeStatusActive \<and> lrow_ConsumedAt r = None
      \<and> (now div 1000000000 < expiry div 1000000000 \<or> now div 1000000000 = expiry div 1000000000 \<and> now mod 1000000000 \<noteq> 0))
    \<and> (redeemable ws h a u (formatInstantNano now) c \<longleftrightarrow>
      codeKey c = (ws, h) \<and> orow_ApplicationKey c = a \<and> orow_RedirectURL c = u \<and> orow_ConsumedAt c = None
      \<and> (now div 1000000000 < expiry div 1000000000 \<or> now div 1000000000 = expiry div 1000000000 \<and> now mod 1000000000 \<noteq> 0))"
  using nano_less_stamp [OF assms(1, 2)] assms(3, 4) by (simp add: consumable_def redeemable_def)

definition sampleLogin :: loginRow where
  "sampleLogin = \<lparr>lrow_WorkspaceID = ''acme'', lrow_StateHash = ''hash'', lrow_ProviderKey = ''sms'', lrow_SubjectKeyHash = None,
     lrow_Status = AuthChallengeStatusActive, lrow_Purpose = AuthChallengePurposeLogin, lrow_DeliveryRef = None, lrow_DeliveryError = None,
     lrow_Payload = ''sealed'', lrow_Attempts = 0, lrow_ExpiresAt = formatInstant 1000000000, lrow_ConsumedAt = None,
     lrow_CreatedAt = formatInstant 0, lrow_UpdatedAt = formatInstant 0\<rparr>"

definition sampleCode :: codeRow where
  "sampleCode = \<lparr>orow_WorkspaceID = ''acme'', orow_CodeHash = ''hash'', orow_ApplicationKey = ''crm'', orow_Session = ''sealed'',
     orow_RedirectURL = ''https://crm'', orow_ExpiresAt = formatInstant 1000000000, orow_ConsumedAt = None, orow_CreatedAt = formatInstant 0\<rparr>"

lemma stored_expiry_witness:
  "consumable ''acme'' ''hash'' ''sms'' (formatInstantNano 1999999999) sampleLogin
   \<and> \<not> consumable ''acme'' ''hash'' ''sms'' (formatInstantNano 1000000000) sampleLogin
   \<and> redeemable ''acme'' ''hash'' ''crm'' ''https://crm'' (formatInstantNano 999999999) sampleCode"
  using stored_expiry [of 1999999999 1000000000 sampleLogin sampleCode "''acme''" "''hash''" "''sms''" "''crm''" "''https://crm''"]
    stored_expiry [of 1000000000 1000000000 sampleLogin sampleCode "''acme''" "''hash''" "''sms''" "''crm''" "''https://crm''"]
    stored_expiry [of 999999999 1000000000 sampleLogin sampleCode "''acme''" "''hash''" "''sms''" "''crm''" "''https://crm''"]
  by (simp add: printable_def daysBeforeYear_def sampleLogin_def sampleCode_def loginKey_def codeKey_def)

subsection \<open>Failures\<close>

definition restores :: "(authDb, 'a) op \<Rightarrow> bool" where
  "restores m \<longleftrightarrow> (\<forall>db err db'. m db = (Inl err, db') \<longrightarrow> db_Tables db' = db_Tables db)"

definition untouched :: "(authDb, 'a) op \<Rightarrow> bool" where
  "untouched m \<longleftrightarrow> (\<forall>db. db_Tables (snd (m db)) = db_Tables db)"

lemma restores_transaction: "restores (transaction e body)"
  unfolding restores_def using transaction_error by blast

lemma restores_insert: "restores (execInsert e get upd key row)"
  by (auto simp: restores_def execInsert_def statement_def Let_def split: option.splits if_splits)

lemma restores_ret: "restores (ret x)"
  by (simp add: restores_def)

lemma restores_if: "restores m \<Longrightarrow> restores m' \<Longrightarrow> restores (if b then m else m')"
  by simp

lemma restores_then:
  assumes "untouched m" "\<And>x. restores (f x)"
  shows "restores (andThen m f)"
proof -
  have "db_Tables db' = db_Tables db" if "andThen m f db = (Inl err, db')" for db err db'
    using that assms by (cases "m db") (auto simp: andThen_def restores_def untouched_def split: sum.splits; metis snd_conv)
  then show ?thesis by (simp add: restores_def)
qed

lemma restores_discard: "restores m \<Longrightarrow> restores (andThen m (\<lambda>_. ret ()))"
  by (fastforce simp: restores_def andThen_def split: prod.splits sum.splits)

lemma restores_pair: "(\<And>x y. restores (f x y)) \<Longrightarrow> restores (case v of (x, y) \<Rightarrow> f x y)"
  by (cases v) simp

lemma untouched_pure: "untouched (liftRes r)" "untouched (check b err)"
  by (simp_all add: untouched_def check_def)

lemmas restoring = restores_transaction restores_insert restores_ret restores_if restores_then restores_pair untouched_pure

text \<open>The operations that issue or consume.\<close>

datatype exchange =
    CreateToken string AuthRefreshToken
  | RotateToken string string string AuthRefreshToken
  | CreateLogin AuthProviderChallenge
  | CreateOTP AuthProviderChallenge string int int
  | CreateEnrollment AuthProviderChallenge string
  | CreateCode AuthAuthorizationCode
  | ConsumeLogin string string string int
  | ConsumeOTP string string string string "string list" string int int
  | ConsumeCode string string string string int
  | ResetCredential string string string string bool IdentityDataScopeFilter

fun perform :: "storeEnv \<Rightarrow> exchange \<Rightarrow> (authDb, unit) op" where
  "perform e (CreateToken ws t) = AuthStore_CreateAuthRefreshToken e ws t"
| "perform e (RotateToken ws i r t) = andThen (AuthStore_RotateAuthRefreshToken e ws i r t) (\<lambda>_. ret ())"
| "perform e (CreateLogin ch) = AuthStore_CreateAuthLoginTransaction e ch"
| "perform e (CreateOTP ch subject allowed t) = andThen (AuthStore_CreateAuthOTPTransaction e ch subject allowed t) (\<lambda>_. ret ())"
| "perform e (CreateEnrollment ch secret) = AuthStore_CreateTOTPEnrollment e ch secret"
| "perform e (CreateCode c) = AuthStore_CreateAuthAuthorizationCode e c"
| "perform e (ConsumeLogin ws p s t) = andThen (AuthStore_ConsumeAuthLoginTransaction e ws p s t) (\<lambda>_. ret ())"
| "perform e (ConsumeOTP ws p s code ps u m t) = andThen (AuthStore_ConsumeAuthOTPTransaction e ws p s code ps u m t) (\<lambda>_. ret ())"
| "perform e (ConsumeCode ws code app url t) = andThen (AuthStore_ConsumeAuthAuthorizationCode e ws code app url t) (\<lambda>_. ret ())"
| "perform e (ResetCredential ws u h r b scope) = andThen (AuthStore_ResetIdentityCredentialWithinDataScope e ws u h r b scope) (\<lambda>_. ret ())"

lemmas exchanges = AuthStore_RotateAuthRefreshToken_def AuthStore_CreateAuthOTPTransaction_def AuthStore_CreateTOTPEnrollment_def
  AuthStore_ConsumeAuthLoginTransaction_def AuthStore_ConsumeAuthOTPTransaction_def AuthStore_ConsumeAuthAuthorizationCode_def
  AuthStore_CreateAuthRefreshToken_def AuthStore_CreateAuthLoginTransaction_def AuthStore_CreateAuthAuthorizationCode_def
  AuthStore_ResetIdentityCredentialWithinDataScope_def insertAuthLoginTransaction_def Let_def

text \<open>
  C32: an operation that issues or consumes runs in one transaction or is one statement: when
  any of its statements fails, or the commit does, every table is as it was.
\<close>

theorem failures_restore:
  assumes "perform e x db = (Inl err, db')"
  shows "db_Tables db' = db_Tables db"
proof -
  have "restores (perform e x)"
    by (cases x; simp only: perform.simps exchanges; intro restores_discard restoring)
  with assms show ?thesis by (simp add: restores_def)
qed

lemma failures_restore_witness:
  "\<exists>err db'. AuthStore_RotateAuthRefreshToken brokenEnv ''acme'' ''t1'' [] (sampleToken ''t2'') afterIssue = (Inl err, db')
     \<and> db_Tables db' = db_Tables afterIssue"
proof -
  obtain err db' where b: "AuthStore_RotateAuthRefreshToken brokenEnv ''acme'' ''t1'' [] (sampleToken ''t2'') afterIssue = (Inl err, db')"
    using broken_rotation by blast
  then have "perform brokenEnv (RotateToken ''acme'' ''t1'' [] (sampleToken ''t2'')) afterIssue = (Inl err, db')"
    by (simp add: andThen_def)
  from failures_restore [OF this] b show ?thesis by blast
qed

subsection \<open>Single use\<close>

lemma stakes:
  "tokens.loss k ev = of_bool (ev = TokenSpent k)" "tokens.gain k ev = of_bool (ev = TokenIssued k)"
  "codes.loss k ev = of_bool (ev = CodeSpent k)" "codes.gain k ev = of_bool (ev = CodeIssued k)"
  "logins.loss k ev = of_bool (ev = LoginSpent k)" "logins.gain k ev = of_bool (ev = LoginIssued k)"
  "guesses.loss k ev = of_bool (ev = LoginSpent k) + of_bool (ev = GuessedWrong k)"
  "guesses.gain k M ev = nat (max 1 M) * of_bool (ev = LoginIssued k)"
  by (cases ev; simp)+

lemma tallies:
  "tally (\<lambda>ev. of_bool (ev = x)) evs = count_list evs x"
  "tally (\<lambda>ev. of_bool (ev = x) + of_bool (ev = y)) evs = count_list evs x + count_list evs y"
  "tally (\<lambda>ev. n * of_bool (ev = x)) evs = n * count_list evs x"
  by (induction evs) (simp_all add: algebra_simps)

lemma empty_tables_history:
  assumes "storeRun e M db evs db'" "1 \<le> M" "tb_Tokens (db_Tables db) = []" "tb_Logins (db_Tables db) = []" "tb_Codes (db_Tables db) = []"
  shows "count_list evs (TokenSpent k) \<le> count_list evs (TokenIssued k)"
    and "count_list evs (CodeSpent k) \<le> count_list evs (CodeIssued k)"
    and "count_list evs (LoginSpent k) \<le> count_list evs (LoginIssued k)"
    and "count_list evs (LoginSpent k) + count_list evs (GuessedWrong k) \<le> nat M * count_list evs (LoginIssued k)"
proof -
  from assms(1, 2) have "storeRun e (max 1 M) db evs db'" by (simp add: max_def)
  note spent = tokens.spent_issued [OF this assms(3-5), of k] codes.spent_issued [OF this assms(3-5), of k]
    logins.spent_issued [OF this assms(3-5), of k] guesses.spent_issued [OF this assms(3-5), of k]
  note tallied = spent [unfolded stakes [abs_def] tallies]
  from tallied(1) show "count_list evs (TokenSpent k) \<le> count_list evs (TokenIssued k)" .
  from tallied(2) show "count_list evs (CodeSpent k) \<le> count_list evs (CodeIssued k)" .
  from tallied(3) show "count_list evs (LoginSpent k) \<le> count_list evs (LoginIssued k)" .
  from tallied(4) assms(2) show "count_list evs (LoginSpent k) + count_list evs (GuessedWrong k) \<le> nat M * count_list evs (LoginIssued k)"
    by (simp add: max_def split: if_splits)
qed

text \<open>
  C33: over any history of the store that begins with no tokens, codes or challenges, with
  its calls in any order and any of their statements failing, a refresh token is rotated, an
  authorization code redeemed and a challenge consumed at most as often as it was issued.
\<close>

theorem single_use:
  assumes "storeRun e M db evs db'" "1 \<le> M" "tb_Tokens (db_Tables db) = []" "tb_Logins (db_Tables db) = []" "tb_Codes (db_Tables db) = []"
  shows "count_list evs (TokenSpent k) \<le> count_list evs (TokenIssued k)
    \<and> count_list evs (CodeSpent k) \<le> count_list evs (CodeIssued k)
    \<and> count_list evs (LoginSpent k) \<le> count_list evs (LoginIssued k)"
  using empty_tables_history [OF assms] by blast

lemma single_use_witness:
  "let evs = [TokenIssued (''acme'', ''t1''), TokenSpent (''acme'', ''t1''), TokenIssued (''acme'', ''t2'')] in
     storeRun soundEnv 3 emptyDb evs afterRotation
     \<and> count_list evs (TokenSpent (''acme'', ''t1'')) \<le> count_list evs (TokenIssued (''acme'', ''t1''))"
  unfolding Let_def using token_history single_use [OF token_history] by (simp add: emptyDb_def)

text \<open>
  C34: over any such history in which at most \<open>M\<close> attempts are allowed, the wrong guesses
  at a stored challenge and its redemption are together at most \<open>M\<close> for every time it
  was issued.
\<close>

theorem stored_guesses_bounded:
  assumes "storeRun e M db evs db'" "1 \<le> M" "tb_Tokens (db_Tables db) = []" "tb_Logins (db_Tables db) = []" "tb_Codes (db_Tables db) = []"
  shows "count_list evs (LoginSpent k) + count_list evs (GuessedWrong k) \<le> nat M * count_list evs (LoginIssued k)"
  using empty_tables_history [OF assms] by blast

lemma stored_guesses_bounded_witness:
  "let evs = [LoginIssued challengeKey, GuessedWrong challengeKey, LoginSpent challengeKey] in
     storeRun soundEnv 3 emptyDb evs afterRedemption
     \<and> count_list evs (LoginSpent challengeKey) + count_list evs (GuessedWrong challengeKey) \<le> 3 * count_list evs (LoginIssued challengeKey)"
  unfolding Let_def using challenge_history stored_guesses_bounded [OF challenge_history] by (simp add: emptyDb_def)

end
