(* ===== verification/FactorProperties.thy ===== *)
theory FactorProperties
  imports AuthStoreSamples PolicyProperties
begin

section \<open>Authenticators in the SQL store\<close>

text \<open>
  Presenting a code of an authenticator moves the step of its row forward, and any number of
  presentations never moves it back, so that no time step is accepted twice.
\<close>

text \<open>What a presentation may do to a row.\<close>

definition advanced :: "factorRow \<Rightarrow> factorRow \<Rightarrow> bool" where
  "advanced q q' \<longleftrightarrow> factorKey q' = factorKey q \<and> frow_Step q \<le> frow_Step q' \<and> (frow_Secret q' = frow_Secret q \<or> frow_Secret q' = None)"

abbreviation factors :: "authDb \<Rightarrow> factorRow list" where
  "factors db \<equiv> tb_Factors (db_Tables db)"

lemma advanced_refl: "advanced q q"
  by (simp add: advanced_def)

lemma advanced_trans: "advanced a b \<Longrightarrow> advanced b c \<Longrightarrow> advanced a c"
  by (auto simp: advanced_def)

lemma advances_trans: "list_all2 advanced as bs \<Longrightarrow> list_all2 advanced bs cs \<Longrightarrow> list_all2 advanced as cs"
  by (rule list_all2_trans [OF advanced_trans])

lemma advances_refl: "list_all2 advanced rows rows"
  by (simp add: list.rel_refl advanced_refl)

lemma advances_updateRows: "(\<And>q. q \<in> set rows \<Longrightarrow> p q \<Longrightarrow> advanced q (f q)) \<Longrightarrow> list_all2 advanced rows (updateRows p f rows)"
  by (auto simp: updateRows_def list_all2_map2 intro!: list.rel_refl_strong advanced_refl)

text \<open>A presentation: what it read, what it decided, and what it wrote.\<close>

lemma statement_ok: "statement e f db = (Inr x, db') \<longleftrightarrow>
   (\<exists>t. se_Fails e (db_Statements db) = None \<and> f (db_Tables db) = (Inr x, t) \<and> db' = db\<lparr>db_Statements := Suc (db_Statements db), db_Tables := t\<rparr>)"
  by (auto simp: statement_def Let_def split: option.split prod.split)

definition presented :: "storeEnv \<Rightarrow> AuthProviderChallenge \<Rightarrow> factorRow \<Rightarrow> factorRow \<Rightarrow> bool" where
  "presented e ch r q \<longleftrightarrow> totpChosen e ch q \<and> frow_Step q = frow_Step r \<and> frow_Failures q = frow_Failures r
     \<and> frow_LockedUntil q = map_option TrimSpace (frow_LockedUntil r)"

lemma queryRow_run: "queryRow e f db = (case se_Fails e (db_Statements db) of
     Some err \<Rightarrow> (Inl err, db\<lparr>db_Statements := Suc (db_Statements db)\<rparr>)
   | None \<Rightarrow> (Inr (case f (db_Tables db) of [] \<Rightarrow> None | r # _ \<Rightarrow> Some r), db\<lparr>db_Statements := Suc (db_Statements db)\<rparr>))"
  by (simp add: queryRow_def statement_def Let_def split: option.split)

lemma verify_cases:
  assumes "verifyTOTPFactor e ch code now m db = (x, db')"
  obtains (unchanged) "factors db' = factors db" "x \<noteq> Inr True"
  | (decided) r env secret step valid fails where "r \<in> set (factors db)" "totpChosen e ch r" "frow_Secret r = Some env"
      "openSecret e (ch_WorkspaceID ch) (totpFactorID e (ch_WorkspaceID ch) (ch_UserID ch)) (Some env) = Inr secret"
      "MatchTOTP (ae_HmacSHA1 (se_Auth e)) secret code now (frow_Step r) = (step, valid)"
      "factors db' = updateRows (presented e ch r) (if valid then totpVerified e ch now step else totpRefused now m fails) (factors db)"
      "x = Inr True \<Longrightarrow> valid \<and> length (filter (presented e ch r) (factors db)) = 1"
proof -
  let ?w = "ch_WorkspaceID ch"
  let ?i = "totpFactorID e ?w (ch_UserID ch)"
  show thesis
  proof (cases "ch_UserID ch = [] \<or> ch_RequestID ch = [] \<or> se_Fails e (db_Statements db) \<noteq> None \<or> filter (totpChosen e ch) (factors db) = []")
    case True
    with assms have "factors db' = factors db \<and> x \<noteq> Inr True"
      by (cases "se_Fails e (db_Statements db)")
        (auto simp: verifyTOTPFactor_def Let_def andThen_def [of "queryRow _ _"] queryRow_run split: if_splits)
    then show ?thesis using unchanged by blast
  next
    case False
    then obtain r rs where f: "filter (totpChosen e ch) (factors db) = r # rs" by (meson neq_Nil_conv)
    define db1 where "db1 = db\<lparr>db_Statements := Suc (db_Statements db)\<rparr>"
    have d1: "factors db1 = factors db" by (simp add: db1_def)
    have r: "r \<in> set (factors db)" "totpChosen e ch r"
      using f filter_eq_ConsD [of "totpChosen e ch" "factors db" r rs] by auto
    from False f have q: "queryRow e (\<lambda>t. filter (totpChosen e ch) (tb_Factors t)) db = (Inr (Some r), db1)"
      by (auto simp: queryRow_run db1_def)
    let ?cond = "\<lambda>q. totpChosen e ch q \<and> frow_Step q = frow_Step r \<and> frow_Failures q = frow_Failures r
        \<and> frow_LockedUntil q = (case frow_LockedUntil r of None \<Rightarrow> None | Some v \<Rightarrow> Some (TrimSpace v))"
    have c: "?cond = presented e ch r"
      by (auto simp: presented_def fun_eq_iff split: option.split)
    show ?thesis
    proof (cases "\<exists>env secret. frow_Secret r = Some env \<and> openSecret e ?w ?i (Some env) = Inr secret
        \<and> (case frow_LockedUntil r of None \<Rightarrow> True | Some v \<Rightarrow> \<exists>until. parseRFC3339 v = Some until \<and> until \<le> now)")
      case True
      then obtain env secret where s: "frow_Secret r = Some env" "openSecret e ?w ?i (Some env) = Inr secret"
        and l: "case frow_LockedUntil r of None \<Rightarrow> True | Some v \<Rightarrow> \<exists>until. parseRFC3339 v = Some until \<and> until \<le> now" by blast
      obtain step valid where mt: "MatchTOTP (ae_HmacSHA1 (se_Auth e)) secret code now (frow_Step r) = (step, valid)" by fastforce
      define f where "f = (if frow_LockedUntil r = None then frow_Failures r + 1 else 1)"
      have "verifyTOTPFactor e ch code now m db =
          andThen (execUpdate e tb_Factors onFactors (presented e ch r) (if valid then totpVerified e ch now step else totpRefused now m f)) (\<lambda>changed.
          andThen (check (changed = 1) (AppError KindConflict ''auth.totp_verification_conflict'' [])) (\<lambda>_. ret valid)) db1"
        using False l unfolding verifyTOTPFactor_def Let_def
        by (auto simp: andThen_def [of "queryRow _ _"] pure_run q s mt f_def c [symmetric] cong: if_cong split: option.splits)
      with assms have v: "andThen (execUpdate e tb_Factors onFactors (presented e ch r) (if valid then totpVerified e ch now step else totpRefused now m f)) (\<lambda>changed.
          andThen (check (changed = 1) (AppError KindConflict ''auth.totp_verification_conflict'' [])) (\<lambda>_. ret valid)) db1 = (x, db')" by simp
      show ?thesis
      proof (cases "se_Fails e (db_Statements db1)")
        case None
        with v have "factors db' = updateRows (presented e ch r) (if valid then totpVerified e ch now step else totpRefused now m f) (factors db)"
          "x = Inr True \<Longrightarrow> valid \<and> length (filter (presented e ch r) (factors db)) = 1"
          by (auto simp: andThen_def execUpdate_def statement_def check_def d1 split: if_splits)
        then show ?thesis using decided [OF r s mt] by blast
      next
        case (Some err)
        with v have "factors db' = factors db \<and> x \<noteq> Inr True"
          by (auto simp: andThen_def execUpdate_def statement_def d1)
        then show ?thesis using unchanged by blast
      qed
    next
      case undecided: False
      have "factors db' = factors db \<and> x \<noteq> Inr True"
        using assms False undecided d1 unfolding verifyTOTPFactor_def Let_def
        by (auto simp: andThen_def [of "queryRow _ _"] pure_run q split: option.splits if_splits sum.splits)
      then show ?thesis using unchanged by blast
    qed
  qed
qed

lemma verify_advances:
  assumes "verifyTOTPFactor e ch code now m db = (x, db')"
  shows "list_all2 advanced (factors db) (factors db')"
  using assms
proof (cases rule: verify_cases)
  case unchanged
  then show ?thesis by (simp add: advances_refl)
next
  case (decided r env secret step valid fails)
  have "advanced q ((if valid then totpVerified e ch now step else totpRefused now m fails) q)" if "presented e ch r q" for q
  proof (cases valid)
    case True
    with MatchTOTP_fst [of "ae_HmacSHA1 (se_Auth e)" secret code now "frow_Step r"] decided(5)
    have "frow_Step r < step" by (simp add: totpAccepts_def)
    with True that show ?thesis by (auto simp: advanced_def presented_def totpVerified_def factorKey_def Let_def)
  qed (simp add: advanced_def totpRefused_def factorKey_def)
  then show ?thesis unfolding decided(6) by (intro advances_updateRows) auto
qed

text \<open>Any number of presentations, of any codes to any factors.\<close>

inductive presentations :: "storeEnv \<Rightarrow> authDb \<Rightarrow> authDb \<Rightarrow> bool" for e :: storeEnv where
  none: "presentations e db db"
| more: "presentations e db db' \<Longrightarrow> verifyTOTPFactor e ch code now m db' = (x, db'') \<Longrightarrow> presentations e db db''"

lemma presentations_advance: "presentations e db db' \<Longrightarrow> list_all2 advanced (factors db) (factors db')"
  by (induction rule: presentations.induct) (use verify_advances advances_trans advances_refl in blast)+

text \<open>
  C35: an authenticator code is not accepted twice.  Between two acceptances for the same
  factor, with any number of presentations in between, the code of the second is that of a
  later time step of the same secret than the code of the first.
\<close>

theorem totp_not_replayed:
  assumes "verifyTOTPFactor e ch code now m db = (Inr True, db1)"
    and "presentations e db1 db2"
    and "verifyTOTPFactor e ch' code' now' m' db2 = (Inr True, db3)"
    and "ch_WorkspaceID ch' = ch_WorkspaceID ch" "ch_UserID ch' = ch_UserID ch"
    and "distinct (map factorKey (factors db))"
  shows "\<exists>secret last step last' step'. totpAccepts (ae_HmacSHA1 (se_Auth e)) secret code now last step
    \<and> totpAccepts (ae_HmacSHA1 (se_Auth e)) secret code' now' last' step' \<and> last < step \<and> step \<le> last' \<and> last' < step'"
proof -
  define k where "k = (ch_WorkspaceID ch, totpFactorID e (ch_WorkspaceID ch) (ch_UserID ch))"
  from assms(1) obtain r env secret step where r: "r \<in> set (factors db)" "totpChosen e ch r" "frow_Secret r = Some env"
      "openSecret e (fst k) (snd k) (Some env) = Inr secret" "MatchTOTP (ae_HmacSHA1 (se_Auth e)) secret code now (frow_Step r) = (step, True)"
      "factors db1 = updateRows (presented e ch r) (totpVerified e ch now step) (factors db)"
      "length (filter (presented e ch r) (factors db)) = 1"
    by (cases rule: verify_cases) (auto simp: k_def)
  from assms(3) obtain r' env' secret' step' where r': "r' \<in> set (factors db2)" "totpChosen e ch' r'" "frow_Secret r' = Some env'"
      "openSecret e (fst k) (snd k) (Some env') = Inr secret'" "MatchTOTP (ae_HmacSHA1 (se_Auth e)) secret' code' now' (frow_Step r') = (step', True)"
    by (cases rule: verify_cases) (auto simp: k_def assms(4, 5))
  have keys: "factorKey r = k" "factorKey r' = k"
    using r(2) r'(2) assms(4, 5) by (auto simp: totpChosen_def k_def)
  from r'(1) presentations_advance [OF assms(2)] obtain q1 where q1: "q1 \<in> set (factors db1)" "advanced q1 r'"
    by (metis list_all2_conv_all_nth in_set_conv_nth)
  from q1(1) r(6) obtain q where q: "q \<in> set (factors db)" "q1 = (if presented e ch r q then totpVerified e ch now step q else q)"
    by (auto simp: updateRows_def)
  have "factorKey q = k" using q1(2) q(2) keys(2) by (auto simp: advanced_def totpVerified_def factorKey_def Let_def split: if_splits)
  with keys(1) q(1) r(1) assms(6) have "q = r" by (metis distinct_map inj_onD)
  moreover from r(7) obtain p where p: "p \<in> set (factors db)" "presented e ch r p"
    by (metis One_nat_def filter_False list.size(3) n_not_Suc_n)
  with keys(1) assms(6) r(1) have "p = r"
    by (metis (no_types, lifting) distinct_map inj_onD k_def presented_def totpChosen_def)
  ultimately have q1': "q1 = totpVerified e ch now step r" using q(2) p(2) by simp
  have "frow_Step q1 = step" "frow_Secret q1 = Some env \<or> frow_Secret q1 = None"
    using q1' r(3) by (auto simp: totpVerified_def Let_def)
  with q1(2) r'(3) have "step \<le> frow_Step r'" "env' = env" by (auto simp: advanced_def)
  with r(4) r'(4) have "secret' = secret" by simp
  with r'(5) r(5) MatchTOTP_fst [of "ae_HmacSHA1 (se_Auth e)" secret code now "frow_Step r"]
    MatchTOTP_fst [of "ae_HmacSHA1 (se_Auth e)" secret code' now' "frow_Step r'"]
  have "totpAccepts (ae_HmacSHA1 (se_Auth e)) secret code now (frow_Step r) step"
    "totpAccepts (ae_HmacSHA1 (se_Auth e)) secret code' now' (frow_Step r') step'" by simp_all
  then show ?thesis using \<open>step \<le> frow_Step r'\<close> unfolding totpAccepts_def by blast
qed

definition enrolledKey :: string where
  "enrolledKey = replicate 32 CHR ''A''"

definition enrolledFactor :: factorRow where
  "enrolledFactor = \<lparr>frow_WorkspaceID = ''acme'', frow_ID = totpFactorID soundEnv ''acme'' ''u1'', frow_UserID = ''u1'', frow_Type = ''totp'',
     frow_Label = None, frow_Provider = Some TOTPProvider, frow_ProviderRef = Some ''g1'', frow_Status = ''active'', frow_VerifiedAt = Some [],
     frow_LastUsedAt = None, frow_Secret = Some enrolledKey, frow_Step = -1, frow_Failures = 0, frow_LockedUntil = None,
     frow_CreatedAt = [], frow_UpdatedAt = []\<rparr>"

definition enrolledDb :: authDb where
  "enrolledDb = emptyDb\<lparr>db_Tables := (db_Tables emptyDb)\<lparr>tb_Factors := [enrolledFactor]\<rparr>\<rparr>"

definition totpPrompt :: AuthProviderChallenge where
  "totpPrompt = zeroChallenge\<lparr>ch_WorkspaceID := ''acme'', ch_UserID := ''u1'', ch_RequestID := ''g1''\<rparr>"

lemma sample_code_parts: "sixDigits ''000000''" "TrimSpace ''000000'' = ''000000''"
  "map_option length (base32Decode enrolledKey) = Some 20" "paddedDecimal 6 0 = ''000000''"
  by code_simp+

lemma sample_digits:
  "totpDigits (ae_HmacSHA1 sampleAuthEnv) key 100 = ''000000''" "totpDigits (ae_HmacSHA1 sampleAuthEnv) key 103 = ''000000''"
  by (simp_all add: totpDigits_def sampleAuthEnv_def bigEndian64_def upt_rec bigEndianUint32_def sample_code_parts(4))

lemma sample_codes:
  "MatchTOTP (ae_HmacSHA1 sampleAuthEnv) enrolledKey ''000000'' 3000000000000 (-1) = (100, True)"
  "MatchTOTP (ae_HmacSHA1 sampleAuthEnv) enrolledKey ''000000'' 3090000000000 100 = (103, True)"
  using sample_code_parts sample_digits
  by (auto simp: MatchTOTP_unfold truncDiv_def totpStepWindow_def)

lemma sample_presentations:
  "\<exists>db1 db2. verifyTOTPFactor soundEnv totpPrompt ''000000'' 3000000000000 5 enrolledDb = (Inr True, db1)
     \<and> verifyTOTPFactor soundEnv totpPrompt ''000000'' 3090000000000 5 db1 = (Inr True, db2)"
  using sample_codes
  by (simp add: verifyTOTPFactor_def Let_def pure_run andThen_def [of "queryRow _ _"] andThen_def [of "execUpdate _ _ _ _ _"]
    queryRow_run execUpdate_def statement_def totpPrompt_def zeroChallenge_def
    enrolledDb_def emptyDb_def enrolledFactor_def totpChosen_def factorKey_def openSecret_def sampleStoreEnv_def totpVerified_def updateRows_def)

lemma totp_not_replayed_witness:
  "\<exists>secret last step last' step'. totpAccepts (ae_HmacSHA1 (se_Auth soundEnv)) secret ''000000'' 3000000000000 last step
    \<and> totpAccepts (ae_HmacSHA1 (se_Auth soundEnv)) secret ''000000'' 3090000000000 last' step' \<and> last < step \<and> step \<le> last' \<and> last' < step'"
proof -
  from sample_presentations obtain db1 db2 where
    v: "verifyTOTPFactor soundEnv totpPrompt ''000000'' 3000000000000 5 enrolledDb = (Inr True, db1)"
    "verifyTOTPFactor soundEnv totpPrompt ''000000'' 3090000000000 5 db1 = (Inr True, db2)" by blast
  show ?thesis
    by (rule totp_not_replayed [OF v(1) presentations.none v(2)]) (simp_all add: enrolledDb_def emptyDb_def)
qed

end
