(* ===== verification/LockoutProperties.thy ===== *)
theory LockoutProperties
  imports AuthStoreSamples PolicyProperties
begin

section \<open>Lockout\<close>

text \<open>
  The password check of the service over the SQL store: wrong passwords are counted in one
  statement each, and as many as the limit lock the account.
\<close>

lemma formatInstant_trimmed:
  assumes "printable t"
  shows "TrimSpace (formatInstant t) = formatInstant t"
proof -
  have d: "visible (digitChar n)" if "n < 10" for n
    using that by (simp add: visible_def digitChar_def)
  have "list_all visible (twoDigits n)" if "n < 100" for n
    using that by (simp add: twoDigits_def d less_mult_imp_div_less)
  with valid_parts [OF civilOf_printable(1) [OF assms]] have "list_all visible (formatInstant t)"
    by (simp add: formatInstant_def formatRFC3339_def visible_def)
  then show ?thesis by (rule TrimSpace_visible)
qed

text \<open>A guess at the password of the one user behind a login.\<close>

abbreviation guessed :: "request_ctx \<Rightarrow> string \<Rightarrow> string \<Rightarrow> authDb AuthDomainService \<Rightarrow> authDb world \<Rightarrow> authEnv \<times> string \<Rightarrow> authDb world" where
  "guessed c ws login a w g \<equiv> snd (AuthenticatePassword (fst g) a c ws login (snd g) w)"

definition accounts :: "string \<Rightarrow> string \<Rightarrow> authDb world \<Rightarrow> credentialRow list" where
  "accounts v u w = filter (\<lambda>r. credentialKey r = (v, u)) (tb_Credentials (db_Tables (w_store w)))"

text \<open>A login that finds a user over a database without faults.\<close>

definition findsUser :: "storeEnv \<Rightarrow> authDb AuthDomainService \<Rightarrow> request_ctx \<Rightarrow> string \<Rightarrow> string \<Rightarrow> string \<Rightarrow> IdentityUser \<Rightarrow> bool" where
  "findsUser se a c login ws v user \<longleftrightarrow> as_identityStore a = AuthStore se \<and> se_Fails se = (\<lambda>_. None)
     \<and> ip_UserByLogin (as_identity a) c login = ret (Some user) \<and> user_Status user = IdentityStatusActive
     \<and> authWorkspaceID ws = Inr v \<and> TrimSpace (user_ID user) = user_ID user \<and> user_ID user \<noteq> []"

lemma andThen_onStore: "andThen (onStore m) f w = (case m (w_store w) of (Inl err, s) \<Rightarrow> (Inl err, w\<lparr>w_store := s\<rparr>) | (Inr x, s) \<Rightarrow> f x (w\<lparr>w_store := s\<rparr>))"
  by (simp add: andThen_def onStore_def split: prod.split sum.split)

lemma repository: "rp_GetIdentityCredential (AuthStore se) = AuthStore_GetIdentityCredential se"
  "rp_RecordIdentityLoginFailure (AuthStore se) = Some (AuthStore_RecordIdentityLoginFailure se)"
  by (simp_all add: AuthStore_def)

lemma credential_read:
  assumes "findsUser se a c login ws v user" "accounts v (user_ID user) w = [r]"
  obtains w1 where "credentialOf e a ws (user_ID user) w = (Inr (scanCredential r), w1)" "db_Tables (w_store w1) = db_Tables (w_store w)"
proof -
  have "AuthStore_GetIdentityCredential se ws (user_ID user) (w_store w) =
      (Inr (Some (scanCredential r)), (w_store w)\<lparr>db_Statements := Suc (db_Statements (w_store w))\<rparr>)"
    using assms by (simp add: findsUser_def accounts_def AuthStore_GetIdentityCredential_def pure_run queryRow_def statement_def Let_def andThen_def)
  with assms(1) that show thesis
    by (simp add: findsUser_def credentialOf_def repository andThen_onStore)
qed

lemma authenticate:
  assumes "findsUser se a c login ws v user" "accounts v (user_ID user) w = [r]"
  obtains w1 where "db_Tables (w_store w1) = db_Tables (w_store w)"
    "AuthenticatePassword e a c ws login password w =
       andThen (comparePassword e a ws (scanCredential r) password) (\<lambda>_.
       andThen (onStore (rp_RecordIdentityLoginSuccess (as_identityStore a) ws (user_ID user) (stampAfter e 0))) (\<lambda>_. ret user)) w1"
proof -
  obtain w1 where "credentialOf e a ws (user_ID user) w = (Inr (scanCredential r), w1)" "db_Tables (w_store w1) = db_Tables (w_store w)"
    by (rule credential_read [OF assms])
  moreover have "w\<lparr>w_store := w_store w\<rparr> = w" by simp
  ultimately show thesis
    using assms(1) that [of w1] by (simp add: AuthenticatePassword_def findsUser_def andThen_onStore pure_run andThen_def [of "credentialOf _ _ _ _"])
qed

lemma filter_updateRows:
  "(\<And>r. p r \<Longrightarrow> p (f r)) \<Longrightarrow> filter p (updateRows p f rows) = map f (filter p rows)"
  by (induction rows) (auto simp: updateRows_def)

text \<open>A wrong password on an account that is not locked.\<close>

definition failedRow :: "authEnv \<Rightarrow> authDb AuthDomainService \<Rightarrow> storeEnv \<Rightarrow> credentialRow \<Rightarrow> credentialRow" where
  "failedRow e a se r = r\<lparr>crow_FailedLoginCount := crow_FailedLoginCount r + 1,
     crow_LockedUntil := (if as_maxLoginFailures a \<le> crow_FailedLoginCount r + 1 then Some (stampAfter e (as_loginLockDuration a)) else None),
     crow_UpdatedAt := orNow se (stampAfter e 0)\<rparr>"

lemma wrong_password:
  assumes "findsUser se a c login ws v user" "accounts v (user_ID user) w = [r]"
    and "crow_LockedUntil r = None" "0 < as_maxLoginFailures a" "\<not> ae_BcryptMatches e (crow_PasswordHash r) password"
    and "TrimSpace (stampAfter e (as_loginLockDuration a)) \<noteq> []"
  shows "accounts v (user_ID user) (guessed c ws login a w (e, password)) = [failedRow e a se r]"
proof -
  obtain w1 where w1: "db_Tables (w_store w1) = db_Tables (w_store w)"
    "AuthenticatePassword e a c ws login password w =
       andThen (comparePassword e a ws (scanCredential r) password) (\<lambda>_.
       andThen (onStore (rp_RecordIdentityLoginSuccess (as_identityStore a) ws (user_ID user) (stampAfter e 0))) (\<lambda>_. ret user)) w1"
    by (rule authenticate [OF assms(1, 2)])
  have trimmed: "TrimSpace [] = []" by code_simp
  have unlocked: "\<not> credentialLocked (scanCredential r) now" "liftExpiredLock a ws (scanCredential r) = ret (scanCredential r)" for now
    using assms(3) trimmed by (simp_all add: credentialLocked_def liftExpiredLock_def scanCredential_def valueFromNull_def)
  have recorded: "\<exists>db'. AuthStore_RecordIdentityLoginFailure se ws (user_ID user) (as_maxLoginFailures a) (stampAfter e (as_loginLockDuration a)) (stampAfter e 0) db = (Inr (), db')
      \<and> filter (\<lambda>q. credentialKey q = (v, user_ID user)) (tb_Credentials (db_Tables db')) = [failedRow e a se r]"
    if "filter (\<lambda>q. credentialKey q = (v, user_ID user)) (tb_Credentials (db_Tables db)) = [r]" for db
    using assms(1, 3, 4, 6) that
    by (simp add: findsUser_def AuthStore_RecordIdentityLoginFailure_def check_def execUpdate_def statement_def andThen_def Let_def
        filter_updateRows failedRow_def credentialKey_def)
  from assms(2) w1(1) recorded [of "w_store w1"] obtain db' where db': "AuthStore_RecordIdentityLoginFailure se ws (user_ID user) (as_maxLoginFailures a)
      (stampAfter e (as_loginLockDuration a)) (stampAfter e 0) (w_store w1) = (Inr (), db')"
    "filter (\<lambda>q. credentialKey q = (v, user_ID user)) (tb_Credentials (db_Tables db')) = [failedRow e a se r]"
    by (auto simp: accounts_def)
  have "credentialKey r = (v, user_ID user)"
    using assms(2) filter_eq_ConsD [of _ "tb_Credentials (db_Tables (w_store w))" r "[]"] by (auto simp: accounts_def)
  then have "cred_UserID (scanCredential r) = user_ID user" "cred_PasswordHash (scanCredential r) = crow_PasswordHash r"
    by (simp_all add: scanCredential_def credentialKey_def)
  with assms(1, 4, 5) db'(1) have "comparePassword e a ws (scanCredential r) password w1 = (Inl (authForbidden e ''auth.invalid_credentials''), w1\<lparr>w_store := db'\<rparr>)"
    by (simp add: comparePassword_def pure_run unlocked recordLoginFailure_def findsUser_def repository andThen_onStore raise_def)
  then have "AuthenticatePassword e a c ws login password w = (Inl (authForbidden e ''auth.invalid_credentials''), w1\<lparr>w_store := db'\<rparr>)"
    by (simp add: w1(2) andThen_def [of "comparePassword _ _ _ _ _"])
  with db'(2) show ?thesis by (simp add: accounts_def)
qed

text \<open>An account that is locked refuses every password, and is left as it is.\<close>

lemma locked_refuses:
  assumes "findsUser se a c login ws v user" "accounts v (user_ID user) w = [r]"
    and "crow_LockedUntil r = Some (formatInstant t)" "printable t" "authNow e < t - t mod 1000000000"
  shows "fst (AuthenticatePassword e a c ws login password w) = Inl (authForbidden e ''auth.account_locked'')
    \<and> accounts v (user_ID user) (guessed c ws login a w (e, password)) = [r]"
proof -
  obtain w1 where w1: "db_Tables (w_store w1) = db_Tables (w_store w)"
    "AuthenticatePassword e a c ws login password w =
       andThen (comparePassword e a ws (scanCredential r) password) (\<lambda>_.
       andThen (onStore (rp_RecordIdentityLoginSuccess (as_identityStore a) ws (user_ID user) (stampAfter e 0))) (\<lambda>_. ret user)) w1"
    by (rule authenticate [OF assms(1, 2)])
  have "formatInstant t \<noteq> []" by (simp add: formatInstant_def formatRFC3339_def twoDigits_def)
  with assms(3, 5) have "credentialLocked (scanCredential r) (authNow e)"
    by (simp add: credentialLocked_def scanCredential_def valueFromNull_def formatInstant_trimmed [OF assms(4)] parse_formatInstant [OF assms(4)])
  then have "comparePassword e a ws (scanCredential r) password w1 = (Inl (authForbidden e ''auth.account_locked''), w1)"
    by (simp add: comparePassword_def pure_run)
  with assms(2) w1(1) show ?thesis by (simp add: w1(2) andThen_def [of "comparePassword _ _ _ _ _"] accounts_def)
qed

text \<open>Guesses that are all wrong.\<close>

abbreviation guessRun :: "request_ctx \<Rightarrow> string \<Rightarrow> string \<Rightarrow> authDb AuthDomainService \<Rightarrow> authDb world \<Rightarrow> (authEnv \<times> string) list \<Rightarrow> authDb world" where
  "guessRun c ws login a \<equiv> foldl (guessed c ws login a)"

lemma wrong_passwords:
  assumes "findsUser se a c login ws v user" "accounts v (user_ID user) w = [r]"
    and "crow_LockedUntil r = None" "crow_FailedLoginCount r = 0"
    and "\<And>e p. (e, p) \<in> set gs \<Longrightarrow> \<not> ae_BcryptMatches e (crow_PasswordHash r) p \<and> printable (authNow e + as_loginLockDuration a)"
    and "int (length gs) < as_maxLoginFailures a"
  shows "\<exists>r'. accounts v (user_ID user) (guessRun c ws login a w gs) = [r'] \<and> crow_LockedUntil r' = None
    \<and> crow_FailedLoginCount r' = int (length gs) \<and> crow_PasswordHash r' = crow_PasswordHash r"
  using assms(5, 6)
proof (induction gs rule: rev_induct)
  case (snoc g gs)
  then obtain r' where r': "accounts v (user_ID user) (guessRun c ws login a w gs) = [r']" "crow_LockedUntil r' = None"
    "crow_FailedLoginCount r' = int (length gs)" "crow_PasswordHash r' = crow_PasswordHash r" by auto
  obtain e p where g: "g = (e, p)" by (cases g)
  with snoc.prems(1) [of e p] have "printable (authNow e + as_loginLockDuration a)" "\<not> ae_BcryptMatches e (crow_PasswordHash r') p"
    using r'(4) by auto
  moreover from this(1) have "TrimSpace (stampAfter e (as_loginLockDuration a)) \<noteq> []"
    by (simp add: stampAfter_def formatInstant_trimmed) (simp add: formatInstant_def formatRFC3339_def twoDigits_def)
  ultimately have "accounts v (user_ID user) (guessRun c ws login a w (gs @ [g])) = [failedRow e a se r']"
    using wrong_password [OF assms(1) r'(1, 2)] snoc.prems(2) g by simp
  with r' snoc.prems(2) show ?case by (auto simp: failedRow_def)
qed (use assms(2-4) in auto)

lemma stays_locked:
  assumes "findsUser se a c login ws v user" "accounts v (user_ID user) w = [r]"
    and "crow_LockedUntil r = Some (formatInstant t)" "printable t"
    and "\<And>e p. (e, p) \<in> set hs \<Longrightarrow> authNow e < t - t mod 1000000000"
  shows "accounts v (user_ID user) (guessRun c ws login a w hs) = [r]"
  using assms(5)
proof (induction hs rule: rev_induct)
  case (snoc h hs)
  obtain e p where h: "h = (e, p)" by (cases h)
  with snoc have "accounts v (user_ID user) (guessRun c ws login a w hs) = [r]" "authNow e < t - t mod 1000000000" by auto
  from locked_refuses [OF assms(1) this(1) assms(3, 4) this(2), of p] h show ?case by simp
qed (use assms(2) in simp)

text \<open>
  C36: the limit of failed logins locks an account.  After as many wrong passwords in a row
  as the limit allows, every later attempt, with the right password too and whatever was
  tried since, is refused as locked until the second in which the lock of the last failure
  ends, and leaves the account as it is.
\<close>

theorem lockout:
  assumes "findsUser se a c login ws v user" "accounts v (user_ID user) w = [r]"
    and "crow_LockedUntil r = None" "crow_FailedLoginCount r = 0"
    and "\<And>e p. (e, p) \<in> set (gs @ [(e1, p1)]) \<Longrightarrow> \<not> ae_BcryptMatches e (crow_PasswordHash r) p \<and> printable (authNow e + as_loginLockDuration a)"
    and "int (length (gs @ [(e1, p1)])) = as_maxLoginFailures a"
    and "\<And>e p. (e, p) \<in> set (hs @ [(e2, p2)]) \<Longrightarrow> authNow e < (authNow e1 + as_loginLockDuration a) div 1000000000 * 1000000000"
  shows "fst (AuthenticatePassword e2 a c ws login p2 (guessRun c ws login a w (gs @ [(e1, p1)] @ hs))) = Inl (authForbidden e2 ''auth.account_locked'')
    \<and> accounts v (user_ID user) (guessRun c ws login a w (gs @ [(e1, p1)] @ hs @ [(e2, p2)])) = accounts v (user_ID user) (guessRun c ws login a w (gs @ [(e1, p1)]))"
proof -
  from wrong_passwords [OF assms(1-4), of gs] assms(5, 6) obtain r' where
    r': "accounts v (user_ID user) (guessRun c ws login a w gs) = [r']" "crow_LockedUntil r' = None"
      "crow_FailedLoginCount r' = int (length gs)" "crow_PasswordHash r' = crow_PasswordHash r" by auto
  have p: "printable (authNow e1 + as_loginLockDuration a)" and b: "\<not> ae_BcryptMatches e1 (crow_PasswordHash r') p1" using assms(5) r'(4) by auto
  have t: "TrimSpace (stampAfter e1 (as_loginLockDuration a)) \<noteq> []"
    using p by (simp add: stampAfter_def formatInstant_trimmed) (simp add: formatInstant_def formatRFC3339_def twoDigits_def)
  let ?w = "guessRun c ws login a w (gs @ [(e1, p1)])" and ?r = "failedRow e1 a se r'"
  have l: "accounts v (user_ID user) ?w = [?r]"
    using wrong_password [OF assms(1) r'(1, 2) _ b t] assms(6) by simp
  have u: "crow_LockedUntil ?r = Some (formatInstant (authNow e1 + as_loginLockDuration a))"
    using assms(6) r'(3) by (simp add: failedRow_def stampAfter_def)
  have late: "authNow e < (authNow e1 + as_loginLockDuration a) - (authNow e1 + as_loginLockDuration a) mod 1000000000"
    if "(e, p) \<in> set (hs @ [(e2, p2)])" for e p
    using assms(7) [OF that] by (simp add: minus_mod_eq_div_mult)
  have "accounts v (user_ID user) (guessRun c ws login a ?w hs) = [?r]"
    by (rule stays_locked [OF assms(1) l u p]) (use late in auto)
  from locked_refuses [OF assms(1) this u p, of e2 p2] late l show ?thesis by auto
qed

text \<open>A service over the sample database, with two attempts, and an account that is tried.\<close>

definition adaUser :: IdentityUser where
  "adaUser = (sampleUser ''u1'')\<lparr>user_Status := IdentityStatusActive\<rparr>"

definition databaseIdentity :: "authDb AuthIdentityPort" where
  "databaseIdentity = \<lparr>ip_AssignUserRole = (\<lambda>c x. ret ()), ip_ListRoles = (\<lambda>c. ret []), ip_UpsertUser = (\<lambda>c u. ret ()),
     ip_UserByID = (\<lambda>c i. ret None), ip_UserByLogin = (\<lambda>c l. ret (Some adaUser)),
     ip_ActiveRolesForUser = (\<lambda>c u. ret []), ip_PublishedRoleDefinition = (\<lambda>c k. None),
     ip_ResolveEffectivePermissions = (\<lambda>c u. ret []), ip_ResolvePrincipal = (\<lambda>c u. ret samplePrincipal),
     ip_UpdateUserLocale = None, ip_ReconcileSystemManagedBusinessRoles = None\<rparr>"

definition databaseService :: "authDb AuthDomainService" where
  "databaseService = (NewAuthDomainService sampleAuthEnv databaseIdentity (AuthStore soundEnv) [] [] 0 0 0 0 0 0 zeroPolicy)
     \<lparr>as_identity := databaseIdentity, as_identityStore := AuthStore soundEnv, as_maxLoginFailures := 2, as_loginLockDuration := minute\<rparr>"

definition adaAccount :: credentialRow where
  "adaAccount = \<lparr>crow_WorkspaceID = ''acme'', crow_UserID = ''u1'', crow_PasswordHash = ''$secret'', crow_PasswordUpdatedAt = [],
     crow_FailedLoginCount = 0, crow_LockedUntil = None, crow_LastLoginAt = None, crow_MustChangePassword = False,
     crow_CreatedAt = [], crow_UpdatedAt = []\<rparr>"

definition adaWorld :: "authDb world" where
  "adaWorld = \<lparr>w_store = emptyDb\<lparr>db_Tables := (db_Tables emptyDb)\<lparr>tb_Credentials := [adaAccount]\<rparr>\<rparr>, w_challenges = [], w_random = 0\<rparr>"

lemma lockout_witness:
  "fst (AuthenticatePassword sampleAuthEnv databaseService sampleCtx ''acme'' ''ada'' ''secret''
     (guessRun sampleCtx ''acme'' ''ada'' databaseService adaWorld
       ([(sampleAuthEnv, ''one'')] @ [(sampleAuthEnv, ''two'')] @ [(sampleAuthEnv, ''three''), (sampleAuthEnv, ''secret'')])))
   = Inl (authForbidden sampleAuthEnv ''auth.account_locked'')"
proof (rule lockout [THEN conjunct1])
  have t: "TrimSpace ''u1'' = ''u1''" "user_Status adaUser = IdentityStatusActive" "user_ID adaUser = ''u1''"
    by code_simp (simp_all add: adaUser_def sampleUser_def)
  then show "findsUser soundEnv databaseService sampleCtx ''ada'' ''acme'' ''acme'' adaUser"
    by (simp add: findsUser_def databaseService_def databaseIdentity_def sampleStoreEnv_def sample_workspace)
  show "accounts ''acme'' (user_ID adaUser) adaWorld = [adaAccount]"
    by (simp add: accounts_def adaWorld_def emptyDb_def adaAccount_def credentialKey_def t(3))
  have "printable (authNow sampleAuthEnv + minute)" by code_simp
  then show "\<not> ae_BcryptMatches e (crow_PasswordHash adaAccount) p \<and> printable (authNow e + as_loginLockDuration databaseService)"
    if "(e, p) \<in> set ([(sampleAuthEnv, ''one'')] @ [(sampleAuthEnv, ''two'')])" for e p
    using that by (auto simp: databaseService_def adaAccount_def sampleAuthEnv_def)
  show "authNow e < (authNow sampleAuthEnv + as_loginLockDuration databaseService) div 1000000000 * 1000000000"
    if "(e, p) \<in> set ([(sampleAuthEnv, ''three''), (sampleAuthEnv, ''secret'')] @ [(sampleAuthEnv, ''secret'')])" for e p
    using that by (auto simp: databaseService_def)
qed (simp_all add: adaAccount_def databaseService_def)

end
