(* ===== verification/Searches.thy ===== *)
theory Searches
  imports Principals AuthModel
begin

section \<open>The identity domain service: reads and searches\<close>

text \<open>
  \<open>service/identity_projection_search.go\<close>, the search of roles, the lookups of
  \<open>identity_authorization.go\<close> and the display names: paged, filtered and sorted lists of
  users, role assignments and roles over a store without search operations of its own.
  The pagination package is not part of the repository: the page size it settles on and
  the page it cuts are arguments.  \<open>sprint\<close> is \<open>fmt.Sprint\<close>.
\<close>

datatype 'a cut = Page "'a list" bool string | CursorNotFound string | CutFailed go_error

type_synonym 'a slicer = "string \<Rightarrow> int \<Rightarrow> 'a list \<Rightarrow> ('a \<Rightarrow> string) \<Rightarrow> 'a cut"

record IdentitySortRule =
  rule_Field :: string
  rule_Direction :: string

record IdentityListQuery =
  lq_AfterID :: string
  lq_PageSize :: int
  lq_Search :: string
  lq_SearchFields :: "string list"
  lq_Filters :: "(string, any) gomap"
  lq_Sort :: "IdentitySortRule list"

text \<open>A page of items; the pages of users, of assignments and of roles have the same fields.\<close>

record 'a IdentityPage =
  pg_Items :: "'a list"
  pg_PageSize :: int
  pg_Total :: nat
  pg_HasNext :: bool
  pg_NextID :: string

subsection \<open>The query\<close>

definition identityProjectionPage :: "env \<Rightarrow> 'a cut \<Rightarrow> ('a list \<times> bool \<times> string) res" where
  "identityProjectionPage e page =
     (case page of
        Page items hasNext nextID \<Rightarrow> Inr (items, hasNext, nextID)
      | CursorNotFound afterID \<Rightarrow> Inl (badRequest e ''backend.identity.projection_cursor_invalid'' [''after_id'', afterID])
      | CutFailed err \<Rightarrow> Inl err)"

definition identityProjectionFields :: "env \<Rightarrow> string list \<Rightarrow> string list \<Rightarrow> string list \<Rightarrow> string \<Rightarrow> string list res" where
  "identityProjectionFields e requested defaults allowed errorCode =
     (let fs = (if requested = [] then defaults else requested) in
      case find (\<lambda>f. f \<notin> set allowed) fs of
        Some f \<Rightarrow> Inl (badRequest e errorCode [''field'', f])
      | None \<Rightarrow> Inr fs)"

definition identityProjectionFilters ::
  "env \<Rightarrow> (any \<Rightarrow> string) \<Rightarrow> (string, any) gomap \<Rightarrow> string list \<Rightarrow> string \<Rightarrow> (string, string) gomap res" where
  "identityProjectionFilters e sprint filters allowed errorCode =
     mapRes (\<lambda>(f, x). if f \<in> set allowed then Inr (f, TrimSpace (sprint x)) else Inl (badRequest e errorCode [''field'', f]))
       (rangeMap e filters)"

definition normalizedRule :: "env \<Rightarrow> string list \<Rightarrow> string \<Rightarrow> IdentitySortRule \<Rightarrow> IdentitySortRule res" where
  "normalizedRule e allowed errorCode rule =
     (let field = TrimSpace (rule_Field rule); direction = ToLower (TrimSpace (rule_Direction rule)) in
      if field \<notin> set allowed then Inl (badRequest e errorCode [''field'', field])
      else if direction \<notin> {''asc'', ''desc''} then Inl (badRequest e errorCode [''direction'', direction])
      else Inr \<lparr>rule_Field = field, rule_Direction = direction\<rparr>)"

definition identityProjectionSort ::
  "env \<Rightarrow> IdentitySortRule list \<Rightarrow> IdentitySortRule list \<Rightarrow> string list \<Rightarrow> string \<Rightarrow> IdentitySortRule list res" where
  "identityProjectionSort e requested defaultSort allowed errorCode =
     mapRes (normalizedRule e allowed errorCode) (if requested = [] then defaultSort else requested)"

definition identityProjectionMatchesSearch :: "string \<Rightarrow> string list \<Rightarrow> (string \<Rightarrow> string) \<Rightarrow> bool" where
  "identityProjectionMatchesSearch needle fs val \<longleftrightarrow>
     needle = [] \<or> list_ex (\<lambda>f. ContainsString (ToLower (val f)) needle) fs"

definition identityProjectionMatchesFilters :: "(string, string) gomap \<Rightarrow> (string \<Rightarrow> string) \<Rightarrow> bool" where
  "identityProjectionMatchesFilters filters val \<longleftrightarrow>
     list_all (\<lambda>(f, expected). EqualFold (TrimSpace (val f)) expected) filters"

fun identityProjectionLess :: "IdentitySortRule list \<Rightarrow> (string \<Rightarrow> string) \<Rightarrow> (string \<Rightarrow> string) \<Rightarrow> bool" where
  "identityProjectionLess [] left right = False"
| "identityProjectionLess (rule # rules) left right =
     (let l = ToLower (left (rule_Field rule)); r = ToLower (right (rule_Field rule)) in
      if l = r then identityProjectionLess rules left right
      else if rule_Direction rule = ''desc'' then r < l else l < r)"

text \<open>The common part of the searches: filter, sort, cut a page and count.\<close>

definition searchedPage ::
  "env \<Rightarrow> (int \<Rightarrow> int) \<Rightarrow> 'a slicer \<Rightarrow> ('a \<Rightarrow> string \<Rightarrow> string) \<Rightarrow> ('a \<Rightarrow> string) \<Rightarrow> IdentityListQuery
   \<Rightarrow> string list \<Rightarrow> (string, string) gomap \<Rightarrow> IdentitySortRule list \<Rightarrow> 'a list \<Rightarrow> 'a IdentityPage res" where
  "searchedPage e pageSize slice val itemID query fs filters rules items =
     (let needle = ToLower (TrimSpace (lq_Search query));
          filtered = sortSlice (\<lambda>a b. identityProjectionLess rules (val a) (val b))
            (filter (\<lambda>x. identityProjectionMatchesSearch needle fs (val x)
               \<and> identityProjectionMatchesFilters filters (val x)) items) in
      bind (identityProjectionPage e (slice (lq_AfterID query) (pageSize (lq_PageSize query)) filtered itemID))
        (\<lambda>(page, hasNext, nextID). Inr \<lparr>pg_Items = page, pg_PageSize = pageSize (lq_PageSize query),
           pg_Total = length filtered, pg_HasNext = hasNext, pg_NextID = nextID\<rparr>))"

subsection \<open>Users\<close>

definition identityUserValue :: "IdentityUser \<Rightarrow> string \<Rightarrow> string" where
  "identityUserValue user field =
     (if field = ''id'' then user_ID user
      else if field = ''name'' then user_Name user
      else if field = ''given_name'' then user_GivenName user
      else if field = ''middle_name'' then user_MiddleName user
      else if field = ''family_name'' then user_FamilyName user
      else if field = ''name_prefix'' then user_NamePrefix user
      else if field = ''name_suffix'' then user_NameSuffix user
      else if field = ''native_name'' then user_NativeName user
      else if field = ''name_locale'' then user_NameLocale user
      else if field = ''account_type'' then user_AccountType user
      else if field = ''locale'' then user_Locale user
      else if field = ''timezone'' then user_Timezone user
      else if field = ''org_id'' then user_OrgID user
      else if field = ''worker_no'' then user_WorkerNo user
      else if field = ''worker_type'' then user_WorkerType user
      else if field = ''work_status'' then user_WorkStatus user
      else if field = ''start_date'' then user_StartDate user
      else if field = ''end_date'' then user_EndDate user
      else if field = ''email'' then user_Email user
      else if field = ''phone'' then user_Phone user
      else if field = ''status'' then user_Status user
      else [])"

definition userSearchFields :: "string list" where
  "userSearchFields = [''id'', ''name'', ''given_name'', ''middle_name'', ''family_name'', ''name_prefix'', ''name_suffix'',
     ''native_name'', ''name_locale'', ''account_type'', ''locale'', ''timezone'', ''org_id'', ''worker_no'', ''worker_type'',
     ''work_status'', ''start_date'', ''end_date'', ''email'', ''phone'', ''status'']"

definition searchUsers ::
  "env \<Rightarrow> (any \<Rightarrow> string) \<Rightarrow> (int \<Rightarrow> int) \<Rightarrow> IdentityUser slicer \<Rightarrow> svc \<Rightarrow> store \<Rightarrow> IdentityListQuery
   \<Rightarrow> IdentityDataScopeFilter \<Rightarrow> IdentityUser IdentityPage res" where
  "searchUsers e sprint pageSize slice v s query scope =
     bind (identityProjectionFields e (lq_SearchFields query)
             [''name'', ''given_name'', ''middle_name'', ''family_name'', ''native_name'', ''email'', ''phone'', ''worker_no'']
             userSearchFields ''backend.identity.user_search_field_invalid'') (\<lambda>fs.
     bind (identityProjectionFilters e sprint (lq_Filters query) userSearchFields
             ''backend.identity.user_filter_field_invalid'') (\<lambda>filters.
     bind (identityProjectionSort e (lq_Sort query)
             [\<lparr>rule_Field = ''name'', rule_Direction = ''asc''\<rparr>, \<lparr>rule_Field = ''id'', rule_Direction = ''asc''\<rparr>]
             userSearchFields ''backend.identity.user_sort_invalid'') (\<lambda>rules.
     bind (if flt_Unrestricted scope then ListIdentityUsers s (svc_workspace v)
           else ListIdentityUsersWithinDataScope s (svc_workspace v) scope) (\<lambda>users.
       searchedPage e pageSize slice identityUserValue user_ID query fs filters rules users))))"

definition SearchUsers ::
  "env \<Rightarrow> (any \<Rightarrow> string) \<Rightarrow> (int \<Rightarrow> int) \<Rightarrow> IdentityUser slicer \<Rightarrow> svc \<Rightarrow> store \<Rightarrow> IdentityListQuery
   \<Rightarrow> IdentityUser IdentityPage res" where
  "SearchUsers e sprint pageSize slice v s query = searchUsers e sprint pageSize slice v s query unrestrictedFilter"

definition SearchUsersWithinDataScope ::
  "env \<Rightarrow> (any \<Rightarrow> string) \<Rightarrow> (int \<Rightarrow> int) \<Rightarrow> IdentityUser slicer \<Rightarrow> svc \<Rightarrow> store \<Rightarrow> IdentityListQuery
   \<Rightarrow> Principal \<Rightarrow> string \<Rightarrow> IdentityUser IdentityPage res" where
  "SearchUsersWithinDataScope e sprint pageSize slice v s query actor permissionKey =
     searchUsers e sprint pageSize slice v s query (IdentityPermissionDataScopeFilter e actor permissionKey)"

subsection \<open>Role assignments\<close>

definition identityRoleAssignmentValue :: "IdentityUserRoleAssignment \<Rightarrow> string \<Rightarrow> string" where
  "identityRoleAssignmentValue a field =
     (if field = ''user_id'' then asg_UserID a
      else if field = ''role_id'' then asg_RoleID a
      else if field = ''binding_key'' then asg_BindingKey a
      else if field = ''profile_id'' then asg_ProfileID a
      else if field = ''source'' then asg_Source a
      else if field = ''status'' then asg_Status a
      else if field = ''valid_from'' then asg_ValidFrom a
      else if field = ''valid_until'' then asg_ValidUntil a
      else if field = ''granted_by'' then asg_GrantedBy a
      else if field = ''created_at'' then asg_CreatedAt a
      else [])"

definition assignmentSearchFields :: "string list" where
  "assignmentSearchFields = [''user_id'', ''role_id'', ''binding_key'', ''profile_id'', ''source'', ''status'',
     ''valid_from'', ''valid_until'', ''granted_by'', ''created_at'']"

text \<open>Here the list is read before the query is checked.\<close>

definition searchUserRoleAssignments ::
  "env \<Rightarrow> (any \<Rightarrow> string) \<Rightarrow> (int \<Rightarrow> int) \<Rightarrow> IdentityUserRoleAssignment slicer \<Rightarrow> svc \<Rightarrow> store \<Rightarrow> string
   \<Rightarrow> IdentityListQuery \<Rightarrow> IdentityDataScopeFilter \<Rightarrow> IdentityUserRoleAssignment IdentityPage res" where
  "searchUserRoleAssignments e sprint pageSize slice v s userID query scope =
     bind (if flt_Unrestricted scope then ListIdentityUserRoleAssignments s (svc_workspace v) (TrimSpace userID)
           else ListIdentityUserRoleAssignmentsWithinDataScope s (svc_workspace v) (TrimSpace userID) scope) (\<lambda>assignments.
     bind (identityProjectionFields e (lq_SearchFields query) [''role_id'', ''source'', ''granted_by'']
             assignmentSearchFields ''backend.identity.role_assignment_search_field_invalid'') (\<lambda>fs.
     bind (identityProjectionFilters e sprint (lq_Filters query) assignmentSearchFields
             ''backend.identity.role_assignment_filter_field_invalid'') (\<lambda>filters.
     bind (identityProjectionSort e (lq_Sort query)
             [\<lparr>rule_Field = ''created_at'', rule_Direction = ''desc''\<rparr>, \<lparr>rule_Field = ''role_id'', rule_Direction = ''asc''\<rparr>]
             assignmentSearchFields ''backend.identity.role_assignment_sort_invalid'') (\<lambda>rules.
       searchedPage e pageSize slice identityRoleAssignmentValue asg_RoleID query fs filters rules assignments))))"

definition SearchUserRoleAssignments ::
  "env \<Rightarrow> (any \<Rightarrow> string) \<Rightarrow> (int \<Rightarrow> int) \<Rightarrow> IdentityUserRoleAssignment slicer \<Rightarrow> svc \<Rightarrow> store \<Rightarrow> string
   \<Rightarrow> IdentityListQuery \<Rightarrow> IdentityUserRoleAssignment IdentityPage res" where
  "SearchUserRoleAssignments e sprint pageSize slice v s userID query =
     searchUserRoleAssignments e sprint pageSize slice v s userID query unrestrictedFilter"

definition SearchUserRoleAssignmentsWithinDataScope ::
  "env \<Rightarrow> (any \<Rightarrow> string) \<Rightarrow> (int \<Rightarrow> int) \<Rightarrow> IdentityUserRoleAssignment slicer \<Rightarrow> svc \<Rightarrow> store \<Rightarrow> string
   \<Rightarrow> IdentityListQuery \<Rightarrow> Principal \<Rightarrow> string \<Rightarrow> IdentityUserRoleAssignment IdentityPage res" where
  "SearchUserRoleAssignmentsWithinDataScope e sprint pageSize slice v s userID query actor permissionKey =
     searchUserRoleAssignments e sprint pageSize slice v s userID query
       (IdentityPermissionDataScopeFilter e actor permissionKey)"

subsection \<open>Roles\<close>

definition roleValue :: "IdentityRole \<Rightarrow> string \<Rightarrow> string" where
  "roleValue role field =
     (if field = ''label'' then role_Label role else if field = ''key'' then role_Key role else role_Description role)"

definition ListRoles :: "svc \<Rightarrow> store \<Rightarrow> IdentityRole list res" where
  "ListRoles v s = ListIdentityRoles s (svc_workspace v)"

text \<open>The listed order is kept; an empty needle is contained in every text.\<close>

definition SearchRoles ::
  "env \<Rightarrow> (int \<Rightarrow> int) \<Rightarrow> IdentityRole slicer \<Rightarrow> svc \<Rightarrow> store \<Rightarrow> IdentityListQuery \<Rightarrow> IdentityRole IdentityPage res" where
  "SearchRoles e pageSize slice v s query =
     bind (ListIdentityRoles s (svc_workspace v)) (\<lambda>roles.
     bind (identityProjectionFields e (lq_SearchFields query) [''label'', ''key''] [''label'', ''key'', ''description'']
             ''backend.identity.role_search_field_invalid'') (\<lambda>fs.
       (let needle = ToLower (TrimSpace (lq_Search query));
            filtered = filter (\<lambda>r. needle = [] \<or> list_ex (\<lambda>f. ContainsString (ToLower (roleValue r f)) needle) fs) roles in
        bind (identityProjectionPage e (slice (lq_AfterID query) (pageSize (lq_PageSize query)) filtered role_ID))
          (\<lambda>(page, hasNext, nextID). Inr \<lparr>pg_Items = page, pg_PageSize = pageSize (lq_PageSize query),
             pg_Total = length filtered, pg_HasNext = hasNext, pg_NextID = nextID\<rparr>))))"

subsection \<open>Lookups\<close>

text \<open>The lookups first report the error of a context that has ended.\<close>

definition alive :: "go_error option \<Rightarrow> 'a res \<Rightarrow> 'a res" where
  "alive ctxErr r = (case ctxErr of Some err \<Rightarrow> Inl err | None \<Rightarrow> r)"

definition ResolvePrincipal :: "env \<Rightarrow> svc \<Rightarrow> store \<Rightarrow> go_error option \<Rightarrow> string \<Rightarrow> Principal res" where
  "ResolvePrincipal e v s ctxErr userID = alive ctxErr (BuildPrincipal e v s userID)"

definition ResolvePrincipalForRole :: "env \<Rightarrow> svc \<Rightarrow> store \<Rightarrow> go_error option \<Rightarrow> string \<Rightarrow> string \<Rightarrow> Principal res" where
  "ResolvePrincipalForRole e v s ctxErr userID roleKey = alive ctxErr (BuildPrincipalForRole e v s userID roleKey)"

definition ResolveEffectivePermissions :: "env \<Rightarrow> svc \<Rightarrow> store \<Rightarrow> go_error option \<Rightarrow> string \<Rightarrow> string list res" where
  "ResolveEffectivePermissions e v s ctxErr userID = alive ctxErr (EffectivePermissionKeys e v s userID)"

definition FindUser :: "svc \<Rightarrow> store \<Rightarrow> go_error option \<Rightarrow> string \<Rightarrow> IdentityUser option res" where
  "FindUser v s ctxErr userID = alive ctxErr (GetIdentityUser s (svc_workspace v) userID)"

definition FindOrganizationUnit :: "svc \<Rightarrow> store \<Rightarrow> go_error option \<Rightarrow> string \<Rightarrow> IdentityOrganizationUnit option res" where
  "FindOrganizationUnit v s ctxErr organizationUnitID =
     alive ctxErr (bind (ListIdentityOrganizationUnits s (svc_workspace v)) (\<lambda>units.
       Inr (find (\<lambda>u. TrimSpace (unit_ID u) = TrimSpace organizationUnitID) units)))"

definition ListProjectionUsers :: "svc \<Rightarrow> store \<Rightarrow> go_error option \<Rightarrow> IdentityUser list res" where
  "ListProjectionUsers v s ctxErr = alive ctxErr (ListIdentityUsers s (svc_workspace v))"

definition ListProjectionRoles :: "svc \<Rightarrow> store \<Rightarrow> go_error option \<Rightarrow> IdentityRole list res" where
  "ListProjectionRoles v s ctxErr = alive ctxErr (ListIdentityRoles s (svc_workspace v))"

definition ListProjectionUserRoleAssignments ::
  "svc \<Rightarrow> store \<Rightarrow> go_error option \<Rightarrow> string \<Rightarrow> IdentityUserRoleAssignment list res" where
  "ListProjectionUserRoleAssignments v s ctxErr userID =
     alive ctxErr (ListIdentityUserRoleAssignments s (svc_workspace v) userID)"

text \<open>The display names read only the named rows.\<close>

definition ResolveProjectionDisplayNames ::
  "svc \<Rightarrow> store \<Rightarrow> go_error option \<Rightarrow> string list \<Rightarrow> string list
   \<Rightarrow> (IdentityUser list \<times> IdentityOrganizationUnit list) res" where
  "ResolveProjectionDisplayNames v s ctxErr userIDs organizationUnitIDs =
     alive ctxErr
       (bind (if userIDs = [] then Inr []
              else ListIdentityUsersWithinDataScope s (svc_workspace v) (zeroFilter\<lparr>flt_OwnerUserIDs := userIDs\<rparr>)) (\<lambda>users.
        bind (if organizationUnitIDs = [] then Inr []
              else ListIdentityOrganizationUnitsWithinDataScope s (svc_workspace v)
                     (zeroFilter\<lparr>flt_OwnerOrgIDs := organizationUnitIDs\<rparr>)) (\<lambda>units.
          Inr (users, units))))"

end
