(* ===== verification/Workloads.thy ===== *)
theory Workloads
  imports Searches
begin

section \<open>The identity domain service: workflow workloads\<close>

text \<open>
  \<open>service/identity_workload.go\<close>: releases of an application bind its workflows to roles
  of the workspace, and a bound workflow acts as a principal of its own.  \<open>revision\<close> is the
  hash of the JSON text of the binding, the role and the permission states.
\<close>

definition workloadError :: "ErrorKind \<Rightarrow> string \<Rightarrow> go_error" where
  "workloadError kind code = AppError kind code []"

definition normalizedRelease :: "IdentityWorkflowWorkloadRelease \<Rightarrow> IdentityWorkflowWorkloadRelease" where
  "normalizedRelease release = release\<lparr>rel_WorkspaceID := TrimSpace (rel_WorkspaceID release),
     rel_ApplicationKey := TrimSpace (rel_ApplicationKey release),
     rel_ReleaseID := TrimSpace (rel_ReleaseID release), rel_ReleaseDigest := TrimSpace (rel_ReleaseDigest release)\<rparr>"

definition normalizedBinding ::
  "IdentityWorkflowWorkloadRelease \<Rightarrow> IdentityWorkflowWorkloadBinding \<Rightarrow> IdentityWorkflowWorkloadBinding" where
  "normalizedBinding release b = b\<lparr>wl_WorkspaceID := rel_WorkspaceID release,
     wl_ApplicationKey := rel_ApplicationKey release, wl_ReleaseID := rel_ReleaseID release,
     wl_ReleaseDigest := rel_ReleaseDigest release, wl_SourceKind := ''deployment_control_plane'',
     wl_SourceID := rel_ApplicationKey release, wl_WorkflowKey := TrimSpace (wl_WorkflowKey b),
     wl_SubjectID := ''workflow:'' @ TrimSpace (wl_WorkflowKey b),
     wl_DefinitionVersionID := TrimSpace (wl_DefinitionVersionID b), wl_RoleKey := TrimSpace (wl_RoleKey b)\<rparr>"

definition roleByKey :: "IdentityRole list \<Rightarrow> (string, IdentityRole) gomap" where
  "roleByKey roles = putAll [] (map (\<lambda>r. (TrimSpace (role_Key r), r)) roles)"

text \<open>The checks of one binding whose fields are normalized; \<open>seen\<close> are the workflows before it.\<close>

definition checkBinding ::
  "svc \<Rightarrow> (string, IdentityRole) gomap \<Rightarrow> string set \<Rightarrow> IdentityWorkflowWorkloadBinding \<Rightarrow> unit res" where
  "checkBinding v roles seen b =
     (if wl_WorkflowKey b = [] \<or> wl_DefinitionVersionID b = [] \<or> wl_DefinitionVersion b \<le> 0
         \<or> wl_RoleKey b = [] \<or> wl_ActionKeys b = []
      then Inl (workloadError KindBadRequest ''identity.workflow_workload_binding_invalid'')
      else if wl_WorkflowKey b \<in> seen
      then Inl (workloadError KindBadRequest ''identity.workflow_workload_binding_duplicate'')
      else (case map_of roles (wl_RoleKey b) of
          None \<Rightarrow> Inl (workloadError KindNotFound ''identity.workflow_workload_role_not_found'')
        | Some role \<Rightarrow>
            if \<not> activeStatus (role_Status role)
            then Inl (workloadError KindForbidden ''identity.workflow_workload_role_disabled'')
            else (case publishedRoleDefinition v role of
                None \<Rightarrow> Inl (workloadError KindConflict ''identity.workflow_workload_role_unpublished'')
              | Some definition \<Rightarrow>
                  if rs_Audience definition \<noteq> IdentityRoleAudienceService
                  then Inl (workloadError KindForbidden ''identity.workflow_workload_role_audience_invalid'')
                  else if rs_AssignmentMode definition \<noteq> IdentityRoleAssignmentSystemManaged
                  then Inl (workloadError KindForbidden ''identity.workflow_workload_role_assignment_mode_invalid'')
                  else if list_all (\<lambda>k. TrimSpace k \<in> (\<lambda>p. TrimSpace (grant_PermissionKey p)) ` set (rs_Permissions definition))
                         (wl_ActionKeys b)
                  then Inr ()
                  else Inl (workloadError KindForbidden ''identity.workflow_workload_action_denied''))))"

fun checkBindings ::
  "svc \<Rightarrow> IdentityWorkflowWorkloadRelease \<Rightarrow> (string, IdentityRole) gomap \<Rightarrow> string set
   \<Rightarrow> IdentityWorkflowWorkloadBinding list \<Rightarrow> IdentityWorkflowWorkloadBinding list res" where
  "checkBindings v release roles seen [] = Inr []"
| "checkBindings v release roles seen (b0 # bs) =
     (let b = normalizedBinding release b0 in
      bind (checkBinding v roles seen b) (\<lambda>_.
      bind (checkBindings v release roles (insert (wl_WorkflowKey b) seen) bs) (\<lambda>out. Inr (b # out))))"

definition ApplyWorkflowWorkloadRelease ::
  "env \<Rightarrow> svc \<Rightarrow> store \<Rightarrow> IdentityWorkflowWorkloadRelease \<Rightarrow> IdentityWorkflowWorkloadBinding list res \<times> store" where
  "ApplyWorkflowWorkloadRelease e v s release0 =
     (let release = normalizedRelease release0 in
      case (if rel_WorkspaceID release = [] \<or> rel_WorkspaceID release \<noteq> svc_workspace v
               \<or> rel_ApplicationKey release = [] \<or> rel_ReleaseID release = [] \<or> rel_ReleaseDigest release = []
            then Inl (workloadError KindBadRequest ''identity.workflow_workload_release_invalid'')
            else bind (ListIdentityRoles s (svc_workspace v)) (\<lambda>roles.
              checkBindings v release (roleByKey roles) {} (rel_Bindings release))) of
        Inl err \<Rightarrow> (Inl err, s)
      | Inr bindings \<Rightarrow> ApplyIdentityWorkflowWorkloadRelease e s (release\<lparr>rel_Bindings := bindings\<rparr>))"

definition WorkflowWorkloadBinding ::
  "svc \<Rightarrow> store \<Rightarrow> string \<Rightarrow> string \<Rightarrow> IdentityWorkflowWorkloadBinding option res" where
  "WorkflowWorkloadBinding v s applicationKey workflowKey =
     GetIdentityWorkflowWorkloadBinding s (svc_workspace v) (TrimSpace applicationKey) (TrimSpace workflowKey)"

definition serviceDefinition :: "RoleSchema \<Rightarrow> bool" where
  "serviceDefinition definition \<longleftrightarrow> rs_Audience definition = IdentityRoleAudienceService
     \<and> rs_AssignmentMode definition = IdentityRoleAssignmentSystemManaged"

definition BuildWorkflowWorkloadPrincipal ::
  "env \<Rightarrow> (IdentityWorkflowWorkloadBinding \<times> RoleSchema \<times> string \<Rightarrow> string) \<Rightarrow> svc \<Rightarrow> store
   \<Rightarrow> IdentityWorkflowWorkloadBinding \<Rightarrow> Principal res" where
  "BuildWorkflowWorkloadPrincipal e revision v0 s b =
     bind (withWorkspacePermissions v0) (\<lambda>v.
       if wl_WorkspaceID b \<noteq> svc_workspace v \<or> wl_Status b \<noteq> ''active''
          \<or> wl_SubjectID b \<noteq> ''workflow:'' @ wl_WorkflowKey b
       then Inr (unknownPrincipal (wl_SubjectID b))
       else bind (ListIdentityRoles s (svc_workspace v)) (\<lambda>roles.
         Inr (case find (\<lambda>r. role_Key r = wl_RoleKey b \<and> activeStatus (role_Status r)) roles of
            None \<Rightarrow> unknownPrincipal (wl_SubjectID b)
          | Some role \<Rightarrow>
             (case publishedRoleDefinition v role of
                None \<Rightarrow> unknownPrincipal (wl_SubjectID b)
              | Some definition0 \<Rightarrow>
                  if \<not> serviceDefinition definition0 then unknownPrincipal (wl_SubjectID b)
                  else (let definition = compileRole e v (definition0\<lparr>rs_Key := wl_RoleKey b\<rparr>) in
                    (unknownPrincipal (wl_SubjectID b))\<lparr>prin_WorkspaceID := svc_workspace v, prin_Role := definition,
                       prin_Known := True, prin_AuthorizationRevision :=
                         revision (b, definition, identityPermissionStateFingerprint e (svc_permissions v))\<rparr>)))))"

end
