(* ===== verification/Menus.thy ===== *)
theory Menus
  imports Principals ReportingLines
begin

section \<open>The identity domain service: menus\<close>

text \<open>
  \<open>service/identity_permissions_menus.go\<close> and the menu part of
  \<open>service/identity_domain_service.go\<close>: what a published role grants, writing and
  removing menus, the menus of roles, and the menus a user sees.  The parent loop of
  \<open>UpsertMenu\<close> is guarded by the menus it has met; the recursion of \<open>RemoveMenu\<close> is
  not, so it is a partial function whose \<open>None\<close> is a call that never returns.
\<close>

subsection \<open>Grants of a published role\<close>

definition publishedRoleForIdentifier :: "svc \<Rightarrow> store \<Rightarrow> string \<Rightarrow> RoleSchema option res" where
  "publishedRoleForIdentifier v s roleID =
     bind (RoleByID s (svc_workspace v) roleID) (\<lambda>found.
       Inr (case found of None \<Rightarrow> None | Some role \<Rightarrow> publishedRoleDefinition v role))"

record IdentityRolePermissionAssignment =
  rpa_RoleID :: string
  rpa_PermissionKey :: string
  rpa_DataScope :: IdentityDataScope
  rpa_DataPolicy :: "ProjectDataPolicy option"
  rpa_AuditDenial :: bool

record IdentityFieldPermission =
  ifp_Resource :: string
  ifp_Field :: string
  ifp_Visible :: bool
  ifp_Editable :: bool
  ifp_Masked :: bool
  ifp_Policies :: "ContextualFieldPolicyRule list"

definition ListRolePermissionAssignments ::
  "env \<Rightarrow> svc \<Rightarrow> store \<Rightarrow> string \<Rightarrow> IdentityRolePermissionAssignment list res" where
  "ListRolePermissionAssignments e v s roleID =
     bind (publishedRoleForIdentifier v s roleID) (\<lambda>published.
       Inr (case published of
          None \<Rightarrow> []
        | Some role \<Rightarrow> map (\<lambda>p. \<lparr>rpa_RoleID = roleID, rpa_PermissionKey = TrimSpace (grant_PermissionKey p),
                rpa_DataScope = grant_DataScope p, rpa_DataPolicy = grant_DataPolicy p, rpa_AuditDenial = grant_AuditDenial p\<rparr>)
              (filter (\<lambda>p. TrimSpace (grant_PermissionKey p) \<noteq> [] \<and> env_GrantValid e p) (rs_Permissions role))))"

definition ListRoleFieldPermissions :: "svc \<Rightarrow> store \<Rightarrow> string \<Rightarrow> IdentityFieldPermission list res" where
  "ListRoleFieldPermissions v s roleID =
     bind (publishedRoleForIdentifier v s roleID) (\<lambda>published.
       Inr (case published of
          None \<Rightarrow> []
        | Some role \<Rightarrow> map (\<lambda>p. \<lparr>ifp_Resource = TrimSpace (fp_ObjectKey p), ifp_Field = TrimSpace (fp_FieldKey p),
                ifp_Visible = fp_Read p, ifp_Editable = fp_Write p, ifp_Masked = fp_Masked p, ifp_Policies = fp_Policies p\<rparr>)
              (filter (\<lambda>p. TrimSpace (fp_ObjectKey p) \<noteq> [] \<and> TrimSpace (fp_FieldKey p) \<noteq> []) (rs_FieldPermissions role))))"

subsection \<open>Writing a menu\<close>

definition menuIndex :: "IdentityMenu list \<Rightarrow> (string, IdentityMenu) gomap" where
  "menuIndex menus = putAll [] (map (\<lambda>m. (menu_ID m, m)) menus)"

text \<open>The identifiers, each the default of the other, then the other defaults.\<close>

definition identifiedMenu :: "IdentityMenu \<Rightarrow> IdentityMenu" where
  "identifiedMenu menu =
     (let i = TrimSpace (menu_ID menu); k = TrimSpace (menu_Key menu);
          i' = (if i = [] then k else i) in
      menu\<lparr>menu_ID := i', menu_Key := (if k = [] then i' else k), menu_ParentID := TrimSpace (menu_ParentID menu)\<rparr>)"

definition menuDefaults :: "IdentityMenu \<Rightarrow> IdentityMenu" where
  "menuDefaults menu =
     menu\<lparr>menu_Label := (if menu_Label menu = [] then menu_Key menu else menu_Label menu),
       menu_Status := (if menu_Status menu = [] then IdentityStatusActive else menu_Status menu)\<rparr>"

function menuParentLoop :: "env \<Rightarrow> (string, IdentityMenu) gomap \<Rightarrow> string \<Rightarrow> string list \<Rightarrow> string \<Rightarrow> unit res" where
  "menuParentLoop e byID i seen cursor =
     (if cursor = [] then Inr ()
      else if cursor \<in> set seen then Inl (badRequest e ''backend.identity.menu_parent_cycle'' [''menu'', i])
      else (case map_of byID cursor of
          None \<Rightarrow> Inl (badRequest e ''backend.identity.menu_parent_not_found'' [''parent_id'', cursor])
        | Some parent \<Rightarrow> menuParentLoop e byID i (cursor # seen) (TrimSpace (menu_ParentID parent))))"
  by pat_completeness auto

termination menuParentLoop
  by (relation "measure (\<lambda>(e, byID, i, seen, cursor). unvisited seen byID)") (auto simp: unvisited_Cons)

declare menuParentLoop.simps [simp del]

definition checkMenuParent :: "env \<Rightarrow> IdentityMenu list \<Rightarrow> IdentityMenu \<Rightarrow> unit res" where
  "checkMenuParent e menus menu =
     (let byID = AList.update (menu_ID menu) menu (menuIndex menus) in
      if menu_ParentID menu = [] then Inr ()
      else if menu_ParentID menu = menu_ID menu
        then Inl (badRequest e ''backend.identity.menu_parent_self'' [''menu'', menu_ID menu])
      else if \<not> hasKey byID (menu_ParentID menu)
        then Inl (badRequest e ''backend.identity.menu_parent_not_found'' [''parent_id'', menu_ParentID menu])
      else menuParentLoop e byID (menu_ID menu) [menu_ID menu] (menu_ParentID menu))"

definition menuKeyTaken :: "IdentityMenu \<Rightarrow> IdentityMenu \<Rightarrow> bool" where
  "menuKeyTaken menu existing \<longleftrightarrow>
     menu_ID existing \<noteq> menu_ID menu \<and> EqualFold (TrimSpace (menu_Key existing)) (menu_Key menu)"

definition UpsertMenu :: "env \<Rightarrow> svc \<Rightarrow> store \<Rightarrow> IdentityMenu \<Rightarrow> unit res \<times> store" where
  "UpsertMenu e v s menu0 =
     (let menu1 = identifiedMenu menu0; menu = menuDefaults menu1 in
      case (if menu_ID menu1 = [] then Inl (badRequest e ''backend.identity.menu_id_key_required'' [])
            else bind (ListIdentityMenus s (svc_workspace v)) (\<lambda>menus.
              if list_ex (menuKeyTaken menu) menus
              then Inl (badRequest e ''backend.identity.menu_key_exists'' [''menu'', menu_Key menu])
              else checkMenuParent e menus menu)) of
        Inl err \<Rightarrow> (Inl err, s)
      | Inr _ \<Rightarrow> UpsertIdentityMenu s (svc_workspace v) menu)"

subsection \<open>Removing a menu\<close>

fun mapOpt :: "('a \<Rightarrow> 'b option) \<Rightarrow> 'a list \<Rightarrow> 'b list option" where
  "mapOpt f [] = Some []"
| "mapOpt f (x # xs) = Option.bind (f x) (\<lambda>y. Option.bind (mapOpt f xs) (\<lambda>ys. Some (y # ys)))"

lemma mapOpt_mono [partial_function_mono]:
  assumes "\<And>x. mono_option (\<lambda>f. B x f)"
  shows "mono_option (\<lambda>f. mapOpt (\<lambda>x. B x f) xs)"
proof (induction xs)
  case Nil
  show ?case by (simp add: option.const_mono)
next
  case (Cons x xs)
  show ?case by (simp, intro bind_mono assms Cons.IH option.const_mono)
qed

text \<open>The identifiers below a menu, children before their parent, the menu last.\<close>

partial_function (option) collectChildrenFirst :: "IdentityMenu list \<Rightarrow> string \<Rightarrow> string list option" where
  "collectChildrenFirst menus parentID =
     Option.bind (mapOpt (collectChildrenFirst menus)
       (map menu_ID (filter (\<lambda>m. TrimSpace (menu_ParentID m) = parentID) menus)))
     (\<lambda>below. Some (concat below @ [parentID]))"

declare collectChildrenFirst.simps [code]

definition zeroMenu :: IdentityMenu where
  "zeroMenu = \<lparr>menu_ID = [], menu_Key = [], menu_Label = [], menu_Description = [], menu_Route = [],
     menu_Icon = [], menu_ParentID = [], menu_SortOrder = 0, menu_Status = []\<rparr>"

text \<open>The collected menus, read from the index and dropped from it one by one.\<close>

fun takeMenus :: "(string, IdentityMenu) gomap \<Rightarrow> string list \<Rightarrow> IdentityMenu list" where
  "takeMenus byID [] = []"
| "takeMenus byID (i # is) = mapGet zeroMenu byID i # takeMenus (AList.delete i byID) is"

text \<open>The last menu with the identifier, by ID or by key.\<close>

definition menuTarget :: "IdentityMenu list \<Rightarrow> string \<Rightarrow> IdentityMenu option" where
  "menuTarget menus menuID = find (\<lambda>m. menu_ID m = menuID \<or> menu_Key m = menuID) (rev menus)"

definition RemoveMenu :: "env \<Rightarrow> svc \<Rightarrow> store \<Rightarrow> string \<Rightarrow> (string list res \<times> store) option" where
  "RemoveMenu e v s menuID0 =
     (let menuID = TrimSpace menuID0 in
      case ListIdentityMenus s (svc_workspace v) of
        Inl err \<Rightarrow> Some (Inl err, s)
      | Inr menus \<Rightarrow>
         (let target = (case menuTarget menus menuID of None \<Rightarrow> [] | Some m \<Rightarrow> menu_ID m) in
          if target = [] then Some (Inl (notFound e ''backend.identity.menu_not_found'' [''menu'', menuID]), s)
          else Option.bind (collectChildrenFirst menus target) (\<lambda>deleted.
            Some (case RemoveIdentityMenusAtomically s (svc_workspace v) (takeMenus (menuIndex menus) deleted) of
                (Inl err, s') \<Rightarrow> (Inl err, s')
              | (Inr _, s') \<Rightarrow> (Inr deleted, s')))))"

subsection \<open>The menus of roles\<close>

definition SetRoleMenus :: "env \<Rightarrow> svc \<Rightarrow> store \<Rightarrow> string \<Rightarrow> string list \<Rightarrow> unit res \<times> store" where
  "SetRoleMenus e v s roleID menuIDs =
     (case bind (RoleByID s (svc_workspace v) roleID) (\<lambda>found.
        (case found of
           None \<Rightarrow> Inl (badRequest e ''backend.identity.role_not_found'' [''role'', roleID])
         | Some _ \<Rightarrow> bind (ListIdentityMenus s (svc_workspace v)) (\<lambda>menus.
             (let known = set (map menu_ID menus @ map menu_Key menus) in
              case find (\<lambda>m. m \<noteq> [] \<and> m \<notin> known) (map TrimSpace menuIDs) of
                Some m \<Rightarrow> Inl (badRequest e ''backend.identity.menu_not_found'' [''menu'', m])
              | None \<Rightarrow> Inr ())))) of
        Inl err \<Rightarrow> (Inl err, s)
      | Inr _ \<Rightarrow> SetIdentityRoleMenus s (svc_workspace v) roleID menuIDs)"

definition ListRoleMenuAssignments :: "svc \<Rightarrow> store \<Rightarrow> string \<Rightarrow> IdentityRoleMenuAssignment list res" where
  "ListRoleMenuAssignments v s roleID = ListIdentityRoleMenuAssignments s (svc_workspace v) roleID"

definition ListMenus :: "svc \<Rightarrow> store \<Rightarrow> IdentityMenu list res" where
  "ListMenus v s = ListIdentityMenus s (svc_workspace v)"

subsection \<open>The menus a user sees\<close>

text \<open>The active menus by identifier and by key; later entries win.\<close>

definition activeMenuIndex :: "IdentityMenu list \<Rightarrow> (string, IdentityMenu) gomap" where
  "activeMenuIndex menus =
     putAll [] (concat (map (\<lambda>m. (menu_ID m, m) # (if TrimSpace (menu_Key m) = [] then [] else [(menu_Key m, m)]))
       (filter (\<lambda>m. activeStatus (menu_Status m)) menus)))"

text \<open>Selecting a menu and its parents, until one that is selected already or has no parent.\<close>

function addMenuAndParents ::
  "(string, IdentityMenu) gomap \<Rightarrow> (string, IdentityMenu) gomap \<Rightarrow> IdentityMenu \<Rightarrow> (string, IdentityMenu) gomap" where
  "addMenuAndParents menuByID selected menu =
     (if hasKey selected (menu_ID menu) then selected
      else (let selected' = AList.update (menu_ID menu) menu selected; parentID = TrimSpace (menu_ParentID menu) in
        if parentID = [] then selected'
        else (case map_of menuByID parentID of
            None \<Rightarrow> selected'
          | Some parent \<Rightarrow> if menu_ID parent = menu_ID menu then selected'
              else addMenuAndParents menuByID selected' parent)))"
  by pat_completeness auto

termination addMenuAndParents
proof (relation "measure (\<lambda>(byID, selected, menu).
    card (menu_ID ` (insert menu (snd ` set byID)) - fst ` set selected))", goal_cases)
  case (2 byID selected menu selected' parentID parent)
  let ?V = "menu_ID ` (insert menu (snd ` set byID))"
  have "parent \<in> snd ` set byID" using 2 by (force dest: map_of_SomeD)
  moreover have "menu_ID menu \<notin> fst ` set selected"
    using 2 by (auto simp: hasKey_def dom_map_of_conv_image_fst [symmetric])
  moreover have "fst ` set selected' = insert (menu_ID menu) (fst ` set selected)"
    using 2 by (metis dom_map_of_conv_image_fst dom_fun_upd map_of_update option.distinct(1))
  ultimately have "menu_ID ` (insert parent (snd ` set byID)) - fst ` set selected' \<subset> ?V - fst ` set selected"
    by auto
  then have "card (menu_ID ` (insert parent (snd ` set byID)) - fst ` set selected') < card (?V - fst ` set selected)"
    by (intro psubset_card_mono) simp_all
  then show ?case by simp
qed simp

declare addMenuAndParents.simps [simp del]

definition selectMenu ::
  "(string, IdentityMenu) gomap \<Rightarrow> (string, IdentityMenu) gomap \<Rightarrow> string \<Rightarrow> (string, IdentityMenu) gomap" where
  "selectMenu menuByID selected menuID =
     (case map_of menuByID (TrimSpace menuID) of
        None \<Rightarrow> selected
      | Some menu \<Rightarrow> if menu_ID menu = [] then selected else addMenuAndParents menuByID selected menu)"

text \<open>A selected menu stands below its parent when the parent is selected and another menu.\<close>

definition childOf :: "(string, IdentityMenu) gomap \<Rightarrow> IdentityMenu \<Rightarrow> string option" where
  "childOf selected menu =
     (let parentID = TrimSpace (menu_ParentID menu) in
      if parentID = [] \<or> \<not> hasKey selected parentID \<or> parentID = menu_ID menu then None else Some parentID)"

definition menuRoots :: "(string, IdentityMenu) gomap \<Rightarrow> IdentityMenu list" where
  "menuRoots selected = sortSlice menuLess (filter (\<lambda>m. childOf selected m = None) (map snd selected))"

definition menuChildren :: "(string, IdentityMenu) gomap \<Rightarrow> string \<Rightarrow> IdentityMenu list" where
  "menuChildren selected i = sortSlice menuLess (filter (\<lambda>m. childOf selected m = Some i) (map snd selected))"

text \<open>
  The recursion of \<open>appendTree\<close> with the calls still to make as a list: a menu visited
  before is skipped, another is appended and its children are called before the rest.
\<close>

function appendTree ::
  "(string, IdentityMenu) gomap \<Rightarrow> IdentityMenu list \<Rightarrow> string list \<Rightarrow> IdentityMenu list \<Rightarrow> IdentityMenu list \<times> string list" where
  "appendTree selected out visited [] = (out, visited)"
| "appendTree selected out visited (menu # calls) =
     (if menu_ID menu \<in> set visited then appendTree selected out visited calls
      else appendTree selected (out @ [menu]) (menu_ID menu # visited) (menuChildren selected (menu_ID menu) @ calls))"
  by pat_completeness auto

lemma menuChildren_selected: "set (menuChildren selected i) \<subseteq> snd ` set selected"
  by (auto simp: menuChildren_def)

termination appendTree
proof (relation "measures [\<lambda>(selected, out, visited, calls).
      card (menu_ID ` (set calls \<union> snd ` set selected) - set visited),
    \<lambda>(selected, out, visited, calls). length calls]", goal_cases)
  case (2 selected out visited menu calls)
  have "card (menu_ID ` (set calls \<union> snd ` set selected) - set visited) \<le>
      card (menu_ID ` (set (menu # calls) \<union> snd ` set selected) - set visited)"
    by (rule card_mono) auto
  then show ?case by auto
next
  case (3 selected out visited menu calls)
  have "menu_ID ` (set (menuChildren selected (menu_ID menu) @ calls) \<union> snd ` set selected) - set (menu_ID menu # visited)
      \<subset> menu_ID ` (set (menu # calls) \<union> snd ` set selected) - set visited"
    using 3 menuChildren_selected [of selected "menu_ID menu"] by auto
  then have "card (menu_ID ` (set (menuChildren selected (menu_ID menu) @ calls) \<union> snd ` set selected) - set (menu_ID menu # visited))
      < card (menu_ID ` (set (menu # calls) \<union> snd ` set selected) - set visited)"
    by (intro psubset_card_mono) auto
  then show ?case by simp
qed simp

declare appendTree.simps [simp del]

definition orderedMenus :: "(string, IdentityMenu) gomap \<Rightarrow> IdentityMenu list" where
  "orderedMenus selected =
     (let (out, visited) = appendTree selected [] [] (menuRoots selected);
          leftovers = sortSlice menuLess (filter (\<lambda>m. menu_ID m \<notin> set visited) (map snd selected)) in
      fst (appendTree selected out visited leftovers))"

definition EffectiveMenus :: "env \<Rightarrow> svc \<Rightarrow> store \<Rightarrow> string \<Rightarrow> IdentityMenu list res" where
  "EffectiveMenus e v s userID0 =
     (let userID = TrimSpace userID0 in
      if userID = [] then Inr []
      else bind (ActiveRolesForUser e v s userID) (\<lambda>roles.
        (let roleIDs = rangeOrder (env_RangeOrder e) (remdups (map role_ID roles)) in
         if roleIDs = [] then Inr []
         else bind (ListIdentityMenus s (svc_workspace v)) (\<lambda>menus.
           (let menuByID = activeMenuIndex menus in
            bind (mapRes (ListIdentityRoleMenuAssignments s (svc_workspace v)) roleIDs) (\<lambda>assignments.
              Inr (orderedMenus (foldl (\<lambda>selected a. selectMenu menuByID selected (rma_MenuID a)) [] (concat assignments)))))))))"

definition ResolveEffectiveMenus :: "env \<Rightarrow> svc \<Rightarrow> store \<Rightarrow> go_error option \<Rightarrow> string \<Rightarrow> IdentityMenu list res" where
  "ResolveEffectiveMenus e v s ctxErr userID =
     (case ctxErr of Some err \<Rightarrow> Inl err | None \<Rightarrow> EffectiveMenus e v s userID)"

end
