(* ===== verification/ApplicationService.thy ===== *)
theory ApplicationService
  imports Workloads Menus
begin

section \<open>The application service of the identity domain\<close>

text \<open>
  \<open>application/identity\<close>, the type \<open>IdentityApplicationService\<close>: every operation resolves the
  workspace of the request, scopes the domain service to it and calls the operation of that
  name; the names here have the prefix \<open>app\<close>.  Deletions add the findings of an inspector of
  other modules, disabling an account ends its sessions, assignments and menus of a role are
  governed.  \<open>v\<close> is the domain service, \<open>cw\<close> the workspace of the request's context.  The
  inspector, the revoker of sessions, the catalog of pages and the fingerprint are parameters.
\<close>

subsection \<open>The workspace of the request\<close>

definition applicationError :: "env \<Rightarrow> ErrorKind \<Rightarrow> string \<Rightarrow> (string \<times> string) list \<Rightarrow> go_error" where
  "applicationError e kind code params = AppError kind code (if params = [] then [] else env_SanitizeParams e params)"

definition domainForContext :: "svc \<Rightarrow> string \<Rightarrow> svc res" where
  "domainForContext v cw =
     (case NewWorkspaceID cw of
        Inl _ \<Rightarrow> Inl (AppError KindForbidden ''backend.workspace_scope_required'' [])
      | Inr _ \<Rightarrow> ForWorkspace v cw)"

definition scopedRead :: "svc \<Rightarrow> string \<Rightarrow> (svc \<Rightarrow> 'a res) \<Rightarrow> 'a res" where
  "scopedRead v cw f = bind (domainForContext v cw) f"

definition scopedDo :: "svc \<Rightarrow> string \<Rightarrow> store \<Rightarrow> (svc \<Rightarrow> 'a res \<times> store) \<Rightarrow> 'a res \<times> store" where
  "scopedDo v cw s f = (case domainForContext v cw of Inl err \<Rightarrow> (Inl err, s) | Inr scoped \<Rightarrow> f scoped)"

definition scopedMaybe :: "svc \<Rightarrow> string \<Rightarrow> store \<Rightarrow> (svc \<Rightarrow> ('a res \<times> store) option) \<Rightarrow> ('a res \<times> store) option" where
  "scopedMaybe v cw s f = (case domainForContext v cw of Inl err \<Rightarrow> Some (Inl err, s) | Inr scoped \<Rightarrow> f scoped)"

subsection \<open>Reads and lookups\<close>

definition appListMenus :: "svc \<Rightarrow> string \<Rightarrow> store \<Rightarrow> IdentityMenu list res" where
  "appListMenus v cw s = scopedRead v cw (\<lambda>scoped. ListMenus scoped s)"

definition appEffectiveMenus ::
  "svc \<Rightarrow> string \<Rightarrow> env \<Rightarrow> store \<Rightarrow> string \<Rightarrow> IdentityMenu list res" where
  "appEffectiveMenus v cw e s userID = scopedRead v cw (\<lambda>scoped. EffectiveMenus e scoped s userID)"

definition appResolvePrincipal ::
  "svc \<Rightarrow> string \<Rightarrow> env \<Rightarrow> store \<Rightarrow> go_error option \<Rightarrow> string \<Rightarrow> Principal res" where
  "appResolvePrincipal v cw e s ctxErr userID =
     scopedRead v cw (\<lambda>scoped. ResolvePrincipal e scoped s ctxErr userID)"

definition appResolvePrincipalForRole ::
  "svc \<Rightarrow> string \<Rightarrow> env \<Rightarrow> store \<Rightarrow> go_error option \<Rightarrow> string \<Rightarrow> string \<Rightarrow> Principal res" where
  "appResolvePrincipalForRole v cw e s ctxErr userID roleKey =
     scopedRead v cw (\<lambda>scoped. ResolvePrincipalForRole e scoped s ctxErr userID roleKey)"

definition appResolveEffectivePermissions ::
  "svc \<Rightarrow> string \<Rightarrow> env \<Rightarrow> store \<Rightarrow> go_error option \<Rightarrow> string \<Rightarrow> string list res" where
  "appResolveEffectivePermissions v cw e s ctxErr userID =
     scopedRead v cw (\<lambda>scoped. ResolveEffectivePermissions e scoped s ctxErr userID)"

definition appResolveEffectiveMenus ::
  "svc \<Rightarrow> string \<Rightarrow> env \<Rightarrow> store \<Rightarrow> go_error option \<Rightarrow> string \<Rightarrow> IdentityMenu list res" where
  "appResolveEffectiveMenus v cw e s ctxErr userID =
     scopedRead v cw (\<lambda>scoped. ResolveEffectiveMenus e scoped s ctxErr userID)"

definition appFindUser ::
  "svc \<Rightarrow> string \<Rightarrow> store \<Rightarrow> go_error option \<Rightarrow> string \<Rightarrow> IdentityUser option res" where
  "appFindUser v cw s ctxErr userID = scopedRead v cw (\<lambda>scoped. FindUser scoped s ctxErr userID)"

definition appFindOrganizationUnit ::
  "svc \<Rightarrow> string \<Rightarrow> store \<Rightarrow> go_error option \<Rightarrow> string \<Rightarrow> IdentityOrganizationUnit option res" where
  "appFindOrganizationUnit v cw s ctxErr unitID =
     scopedRead v cw (\<lambda>scoped. FindOrganizationUnit scoped s ctxErr unitID)"

definition appListProjectionUsers ::
  "svc \<Rightarrow> string \<Rightarrow> store \<Rightarrow> go_error option \<Rightarrow> IdentityUser list res" where
  "appListProjectionUsers v cw s ctxErr = scopedRead v cw (\<lambda>scoped. ListProjectionUsers scoped s ctxErr)"

definition appListProjectionRoles ::
  "svc \<Rightarrow> string \<Rightarrow> store \<Rightarrow> go_error option \<Rightarrow> IdentityRole list res" where
  "appListProjectionRoles v cw s ctxErr = scopedRead v cw (\<lambda>scoped. ListProjectionRoles scoped s ctxErr)"

definition appListProjectionUserRoleAssignments ::
  "svc \<Rightarrow> string \<Rightarrow> store \<Rightarrow> go_error option \<Rightarrow> string \<Rightarrow> IdentityUserRoleAssignment list res" where
  "appListProjectionUserRoleAssignments v cw s ctxErr userID =
     scopedRead v cw (\<lambda>scoped. ListProjectionUserRoleAssignments scoped s ctxErr userID)"

definition appResolveProjectionDisplayNames ::
  "svc \<Rightarrow> string \<Rightarrow> store \<Rightarrow> go_error option \<Rightarrow> string list \<Rightarrow> string list \<Rightarrow> (IdentityUser list \<times> IdentityOrganizationUnit list) res" where
  "appResolveProjectionDisplayNames v cw s ctxErr userIDs unitIDs =
     scopedRead v cw (\<lambda>scoped. ResolveProjectionDisplayNames scoped s ctxErr userIDs unitIDs)"

subsection \<open>Organization units\<close>

definition appListOrganizationUnits ::
  "svc \<Rightarrow> string \<Rightarrow> store \<Rightarrow> IdentityOrganizationUnit list res" where
  "appListOrganizationUnits v cw s = scopedRead v cw (\<lambda>scoped. ListOrganizationUnits s (svc_workspace scoped))"

definition appListOrganizationUnitsWithinDataScope ::
  "svc \<Rightarrow> string \<Rightarrow> env \<Rightarrow> store \<Rightarrow> Principal \<Rightarrow> string \<Rightarrow> IdentityOrganizationUnit list res" where
  "appListOrganizationUnitsWithinDataScope v cw e s actor permissionKey =
     scopedRead v cw (\<lambda>scoped. ListOrganizationUnitsWithinDataScope e s (svc_workspace scoped) actor permissionKey)"

definition appOrganizationUnitByIDWithinDataScope ::
  "svc \<Rightarrow> string \<Rightarrow> env \<Rightarrow> store \<Rightarrow> string \<Rightarrow> Principal \<Rightarrow> string \<Rightarrow> IdentityOrganizationUnit option res" where
  "appOrganizationUnitByIDWithinDataScope v cw e s unitID actor permissionKey =
     scopedRead v cw (\<lambda>scoped. OrganizationUnitByIDWithinDataScope e s (svc_workspace scoped) unitID actor permissionKey)"

definition appUpsertOrganizationUnit ::
  "svc \<Rightarrow> string \<Rightarrow> env \<Rightarrow> store \<Rightarrow> IdentityOrganizationUnit \<Rightarrow> (unit res \<times> store) option" where
  "appUpsertOrganizationUnit v cw e s unit =
     scopedMaybe v cw s (\<lambda>scoped. UpsertOrganizationUnit e s (svc_workspace scoped) unit)"

definition appUpsertOrganizationUnitWithinDataScope ::
  "svc \<Rightarrow> string \<Rightarrow> env \<Rightarrow> store \<Rightarrow> IdentityOrganizationUnit \<Rightarrow> Principal \<Rightarrow> string \<Rightarrow> (unit res \<times> store) option" where
  "appUpsertOrganizationUnitWithinDataScope v cw e s unit actor permissionKey =
     scopedMaybe v cw s (\<lambda>scoped. UpsertOrganizationUnitWithinDataScope e s (svc_workspace scoped) unit actor permissionKey)"

definition appPrepareOrganizationUnitForAtomicDelivery ::
  "svc \<Rightarrow> string \<Rightarrow> env \<Rightarrow> store \<Rightarrow> IdentityOrganizationUnit \<Rightarrow> (IdentityOrganizationUnit \<times> IdentityOrganizationUnit list) res option" where
  "appPrepareOrganizationUnitForAtomicDelivery v cw e s unit =
     (case domainForContext v cw of
        Inl err \<Rightarrow> Some (Inl err)
      | Inr scoped \<Rightarrow> PrepareOrganizationUnitForAtomicDelivery e s (svc_workspace scoped) unit)"

subsection \<open>Users\<close>

definition appListUsers :: "svc \<Rightarrow> string \<Rightarrow> store \<Rightarrow> IdentityUser list res" where
  "appListUsers v cw s = scopedRead v cw (\<lambda>scoped. ListUsers s (svc_workspace scoped))"

definition appListUsersWithinDataScope ::
  "svc \<Rightarrow> string \<Rightarrow> env \<Rightarrow> store \<Rightarrow> Principal \<Rightarrow> string \<Rightarrow> IdentityUser list res" where
  "appListUsersWithinDataScope v cw e s actor permissionKey =
     scopedRead v cw (\<lambda>scoped. ListUsersWithinDataScope e s (svc_workspace scoped) actor permissionKey)"

definition appSearchUsers ::
  "svc \<Rightarrow> string \<Rightarrow> env \<Rightarrow> (any \<Rightarrow> string) \<Rightarrow> (int \<Rightarrow> int) \<Rightarrow> IdentityUser slicer \<Rightarrow> store \<Rightarrow> IdentityListQuery \<Rightarrow> IdentityUser IdentityPage res" where
  "appSearchUsers v cw e sprint pageSize slice s query =
     scopedRead v cw (\<lambda>scoped. SearchUsers e sprint pageSize slice scoped s query)"

definition appSearchUsersWithinDataScope ::
  "svc \<Rightarrow> string \<Rightarrow> env \<Rightarrow> (any \<Rightarrow> string) \<Rightarrow> (int \<Rightarrow> int) \<Rightarrow> IdentityUser slicer \<Rightarrow> store \<Rightarrow> IdentityListQuery \<Rightarrow> Principal \<Rightarrow> string \<Rightarrow> IdentityUser IdentityPage res" where
  "appSearchUsersWithinDataScope v cw e sprint pageSize slice s query actor permissionKey =
     scopedRead v cw (\<lambda>scoped. SearchUsersWithinDataScope e sprint pageSize slice scoped s query actor permissionKey)"

definition appUserByID ::
  "svc \<Rightarrow> string \<Rightarrow> store \<Rightarrow> string \<Rightarrow> IdentityUser option res" where
  "appUserByID v cw s userID = scopedRead v cw (\<lambda>scoped. UserByID s (svc_workspace scoped) userID)"

definition appUserByIDWithinDataScope ::
  "svc \<Rightarrow> string \<Rightarrow> env \<Rightarrow> store \<Rightarrow> string \<Rightarrow> Principal \<Rightarrow> string \<Rightarrow> IdentityUser option res" where
  "appUserByIDWithinDataScope v cw e s userID actor permissionKey =
     scopedRead v cw (\<lambda>scoped. UserByIDWithinDataScope e s (svc_workspace scoped) userID actor permissionKey)"

definition appUserByLogin ::
  "svc \<Rightarrow> string \<Rightarrow> store \<Rightarrow> string \<Rightarrow> IdentityUser option res" where
  "appUserByLogin v cw s login = scopedRead v cw (\<lambda>scoped. UserByLogin s (svc_workspace scoped) login)"

definition appUpsertUser ::
  "svc \<Rightarrow> string \<Rightarrow> env \<Rightarrow> store \<Rightarrow> IdentityUser \<Rightarrow> unit res \<times> store" where
  "appUpsertUser v cw e s user = scopedDo v cw s (\<lambda>scoped. UpsertUser e s (svc_workspace scoped) user)"

definition appCreateUserWithinDataScope ::
  "svc \<Rightarrow> string \<Rightarrow> env \<Rightarrow> store \<Rightarrow> IdentityUser \<Rightarrow> Principal \<Rightarrow> string \<Rightarrow> unit res \<times> store" where
  "appCreateUserWithinDataScope v cw e s user actor permissionKey =
     scopedDo v cw s (\<lambda>scoped. CreateUserWithinDataScope e s (svc_workspace scoped) user actor permissionKey)"

definition appUpdateUserWithinDataScope ::
  "svc \<Rightarrow> string \<Rightarrow> env \<Rightarrow> store \<Rightarrow> IdentityUser \<Rightarrow> Principal \<Rightarrow> string \<Rightarrow> unit res \<times> store" where
  "appUpdateUserWithinDataScope v cw e s user actor permissionKey =
     scopedDo v cw s (\<lambda>scoped. UpdateUserWithinDataScope e s (svc_workspace scoped) user actor permissionKey)"

definition appSetUserStatus ::
  "svc \<Rightarrow> string \<Rightarrow> env \<Rightarrow> store \<Rightarrow> string \<Rightarrow> IdentityStatus \<Rightarrow> unit res \<times> store" where
  "appSetUserStatus v cw e s userID st =
     scopedDo v cw s (\<lambda>scoped. SetUserStatus e s (svc_workspace scoped) userID st)"

definition appSetUserStatusWithinDataScope ::
  "svc \<Rightarrow> string \<Rightarrow> env \<Rightarrow> store \<Rightarrow> string \<Rightarrow> IdentityStatus \<Rightarrow> Principal \<Rightarrow> string \<Rightarrow> unit res \<times> store" where
  "appSetUserStatusWithinDataScope v cw e s userID st actor permissionKey =
     scopedDo v cw s (\<lambda>scoped. SetUserStatusWithinDataScope e s (svc_workspace scoped) userID st actor permissionKey)"

definition appPrepareUserForAtomicDelivery ::
  "svc \<Rightarrow> string \<Rightarrow> env \<Rightarrow> store \<Rightarrow> IdentityUser \<Rightarrow> (IdentityUser \<times> IdentityUser list) res" where
  "appPrepareUserForAtomicDelivery v cw e s user =
     scopedRead v cw (\<lambda>scoped. PrepareUserForAtomicDelivery e s (svc_workspace scoped) user)"

definition appPrepareUserWithExactRoles ::
  "svc \<Rightarrow> string \<Rightarrow> env \<Rightarrow> store \<Rightarrow> IdentityUser \<Rightarrow> IdentityUserRoleAssignment list \<Rightarrow> Principal \<Rightarrow> (IdentityUser \<times> IdentityUserRoleAssignment list) res" where
  "appPrepareUserWithExactRoles v cw e s user assignments actor =
     scopedRead v cw (\<lambda>scoped. PrepareUserWithExactRoles e scoped s user assignments actor)"

subsection \<open>Removing and disabling users\<close>

record IdentityUserRecordReference =
  ref_ObjectKey :: string
  ref_FieldKey :: string
  ref_Count :: int

record IdentityUserDeletionInspection =
  insp_BusinessProfileReferences :: "IdentityUserRecordReference list"
  insp_OwnedRecordReferences :: "IdentityUserRecordReference list"
  insp_PendingApprovalTaskIDs :: "string list"
  insp_RetainedAuditEventIDs :: "string list"
  insp_ActiveLegalHoldIDs :: "string list"

type_synonym deletionInspector = "string \<Rightarrow> string \<Rightarrow> IdentityUserDeletionInspection res"
type_synonym sessionRevoker = "string \<Rightarrow> string \<Rightarrow> store \<Rightarrow> int res \<times> store"

definition identityLocalDeletionInspector :: deletionInspector where
  "identityLocalDeletionInspector workspaceID userID =
     Inr \<lparr>insp_BusinessProfileReferences = [], insp_OwnedRecordReferences = [], insp_PendingApprovalTaskIDs = [],
          insp_RetainedAuditEventIDs = [], insp_ActiveLegalHoldIDs = []\<rparr>"

text \<open>The impact of the domain service with the references found by the inspector.\<close>

record inspectedImpact = IdentityUserDeletionImpact +
  impact_Inspection :: IdentityUserDeletionInspection
  impact_Blockers :: "string list"

definition identityUserDeletionBlockers :: "IdentityProfileBinding list \<Rightarrow> IdentityUserDeletionInspection \<Rightarrow> string list" where
  "identityUserDeletionBlockers bindings i = sortStrings (map fst (filter snd
     [(''business_profile'', bindings \<noteq> [] \<or> insp_BusinessProfileReferences i \<noteq> []),
      (''record_ownership'', insp_OwnedRecordReferences i \<noteq> []),
      (''approval_task'', insp_PendingApprovalTaskIDs i \<noteq> []),
      (''audit_retention'', insp_RetainedAuditEventIDs i \<noteq> []),
      (''legal_hold'', insp_ActiveLegalHoldIDs i \<noteq> [])]))"

definition inspectDeletion ::
  "deletionInspector option \<Rightarrow> svc \<Rightarrow> string \<Rightarrow> IdentityUserDeletionImpact \<Rightarrow> inspectedImpact res" where
  "inspectDeletion inspector scoped userID impact =
     (case inspector of
        None \<Rightarrow> Inl (AppError KindUnavailable ''backend.identity.user_deletion_inspector_unavailable'' [])
      | Some inspect \<Rightarrow> bind (inspect (svc_workspace scoped) (TrimSpace userID)) (\<lambda>i.
          (let blockers = identityUserDeletionBlockers (impact_ProfileBindings impact) i in
           Inr (IdentityUserDeletionImpact.extend (impact\<lparr>impact_CanDelete := (blockers = [])\<rparr>)
             \<lparr>impact_Inspection = i, impact_Blockers = blockers\<rparr>))))"

definition appUserDeletionImpact ::
  "svc \<Rightarrow> string \<Rightarrow> env \<Rightarrow> deletionInspector option \<Rightarrow> store \<Rightarrow> string \<Rightarrow> inspectedImpact res" where
  "appUserDeletionImpact v cw e inspector s userID =
     scopedRead v cw (\<lambda>scoped. bind (userDeletionImpact e s (svc_workspace scoped) userID unrestrictedFilter)
       (inspectDeletion inspector scoped userID))"

definition appUserDeletionImpactWithinDataScope ::
  "svc \<Rightarrow> string \<Rightarrow> env \<Rightarrow> deletionInspector option \<Rightarrow> store \<Rightarrow> string \<Rightarrow> Principal \<Rightarrow> string \<Rightarrow> inspectedImpact res" where
  "appUserDeletionImpactWithinDataScope v cw e inspector s userID actor permissionKey =
     scopedRead v cw (\<lambda>scoped.
       bind (userDeletionImpact e s (svc_workspace scoped) userID (IdentityPermissionDataScopeFilter e actor permissionKey))
         (inspectDeletion inspector scoped userID))"

definition deletionBlocked :: "env \<Rightarrow> string \<Rightarrow> inspectedImpact \<Rightarrow> go_error" where
  "deletionBlocked e userID impact = applicationError e KindConflict ''backend.identity.user_deletion_blocked''
     [(''user'', TrimSpace userID), (''blockers'', JoinStrings (impact_Blockers impact) '','')]"

definition removeUnblocked ::
  "env \<Rightarrow> store \<Rightarrow> string \<Rightarrow> inspectedImpact res \<Rightarrow> unit res \<times> store \<Rightarrow> unit res \<times> store" where
  "removeUnblocked e s userID impact removed =
     (case impact of
        Inl err \<Rightarrow> (Inl err, s)
      | Inr i \<Rightarrow> if \<not> impact_CanDelete i then (Inl (deletionBlocked e userID i), s) else removed)"

definition appRemoveUser ::
  "svc \<Rightarrow> string \<Rightarrow> env \<Rightarrow> deletionInspector option \<Rightarrow> store \<Rightarrow> string \<Rightarrow> unit res \<times> store" where
  "appRemoveUser v cw e inspector s userID =
     scopedDo v cw s (\<lambda>scoped. removeUnblocked e s userID (appUserDeletionImpact v cw e inspector s userID)
       (RemoveUser e s (svc_workspace scoped) userID))"

definition appRemoveUserWithinDataScope ::
  "svc \<Rightarrow> string \<Rightarrow> env \<Rightarrow> deletionInspector option \<Rightarrow> store \<Rightarrow> string \<Rightarrow> Principal \<Rightarrow> string \<Rightarrow> unit res \<times> store" where
  "appRemoveUserWithinDataScope v cw e inspector s userID actor permissionKey =
     scopedDo v cw s (\<lambda>scoped.
       removeUnblocked e s userID (appUserDeletionImpactWithinDataScope v cw e inspector s userID actor permissionKey)
         (RemoveUserWithinDataScope e s (svc_workspace scoped) userID actor permissionKey))"

record IdentityUserDisableImpact =
  dis_UserID :: string
  dis_ProfileBindings :: "IdentityProfileBinding list"
  dis_ActiveEntitlementRoleIDs :: "string list"
  dis_SessionsWillBeRevoked :: bool
  dis_BusinessFactsPreserved :: bool

definition disableImpact :: "'a IdentityUserDeletionImpact_scheme \<Rightarrow> IdentityUserDisableImpact" where
  "disableImpact impact = \<lparr>dis_UserID = impact_UserID impact, dis_ProfileBindings = impact_ProfileBindings impact,
     dis_ActiveEntitlementRoleIDs = impact_ActiveRoleIDs impact, dis_SessionsWillBeRevoked = True,
     dis_BusinessFactsPreserved = True\<rparr>"

definition appUserDisableImpact :: "svc \<Rightarrow> string \<Rightarrow> env \<Rightarrow> store \<Rightarrow> string \<Rightarrow> IdentityUserDisableImpact res" where
  "appUserDisableImpact v cw e s userID =
     scopedRead v cw (\<lambda>scoped. bind (userDeletionImpact e s (svc_workspace scoped) userID unrestrictedFilter)
       (\<lambda>impact. Inr (disableImpact impact)))"

definition appUserDisableImpactWithinDataScope ::
  "svc \<Rightarrow> string \<Rightarrow> env \<Rightarrow> deletionInspector option \<Rightarrow> store \<Rightarrow> string \<Rightarrow> Principal \<Rightarrow> string \<Rightarrow> IdentityUserDisableImpact res" where
  "appUserDisableImpactWithinDataScope v cw e inspector s userID actor permissionKey =
     bind (appUserDeletionImpactWithinDataScope v cw e inspector s userID actor permissionKey)
       (\<lambda>impact. Inr (disableImpact impact))"

definition appEnableUser :: "svc \<Rightarrow> string \<Rightarrow> env \<Rightarrow> store \<Rightarrow> string \<Rightarrow> unit res \<times> store" where
  "appEnableUser v cw e s userID = appSetUserStatus v cw e s (TrimSpace userID) IdentityStatusActive"

definition appEnableUserWithinDataScope ::
  "svc \<Rightarrow> string \<Rightarrow> env \<Rightarrow> store \<Rightarrow> string \<Rightarrow> Principal \<Rightarrow> string \<Rightarrow> unit res \<times> store" where
  "appEnableUserWithinDataScope v cw e s userID actor permissionKey =
     appSetUserStatusWithinDataScope v cw e s (TrimSpace userID) IdentityStatusActive actor permissionKey"

text \<open>
  The in-memory store has no operation of its own that disables an account, so the status is
  set and then the sessions are ended.  The scoped variant looks for the revoker only after
  the status has been set.
\<close>

abbreviation securityUnavailable :: go_error where
  "securityUnavailable \<equiv> AppError KindUnavailable ''backend.identity.user_security_unavailable'' []"

definition appDisableUser ::
  "svc \<Rightarrow> string \<Rightarrow> env \<Rightarrow> sessionRevoker option \<Rightarrow> store \<Rightarrow> string \<Rightarrow> int res \<times> store" where
  "appDisableUser v cw e sessions s userID0 =
     scopedDo v cw s (\<lambda>scoped. (let userID = TrimSpace userID0; w = svc_workspace scoped in
       case sessions of
         None \<Rightarrow> (Inl securityUnavailable, s)
       | Some revoke \<Rightarrow> (case SetUserStatus e s w userID IdentityStatusDisabled of
           (Inl err, s') \<Rightarrow> (Inl err, s')
         | (Inr _, s') \<Rightarrow> revoke w userID s')))"

definition appDisableUserWithinDataScope ::
  "svc \<Rightarrow> string \<Rightarrow> env \<Rightarrow> sessionRevoker option \<Rightarrow> store \<Rightarrow> string \<Rightarrow> Principal \<Rightarrow> string \<Rightarrow> int res \<times> store" where
  "appDisableUserWithinDataScope v cw e sessions s userID0 actor permissionKey =
     scopedDo v cw s (\<lambda>scoped. (let userID = TrimSpace userID0; w = svc_workspace scoped in
       case SetUserStatusWithinDataScope e s w userID IdentityStatusDisabled actor permissionKey of
         (Inl err, s') \<Rightarrow> (Inl err, s')
       | (Inr _, s') \<Rightarrow> (case sessions of None \<Rightarrow> (Inl securityUnavailable, s') | Some revoke \<Rightarrow> revoke w userID s')))"

subsection \<open>Roles and assignments\<close>

definition appListRoles :: "svc \<Rightarrow> string \<Rightarrow> store \<Rightarrow> IdentityRole list res" where
  "appListRoles v cw s = scopedRead v cw (\<lambda>scoped. ListRoles scoped s)"

definition appSearchRoles ::
  "svc \<Rightarrow> string \<Rightarrow> env \<Rightarrow> (int \<Rightarrow> int) \<Rightarrow> IdentityRole slicer \<Rightarrow> store \<Rightarrow> IdentityListQuery \<Rightarrow> IdentityRole IdentityPage res" where
  "appSearchRoles v cw e pageSize slice s query =
     scopedRead v cw (\<lambda>scoped. SearchRoles e pageSize slice scoped s query)"

definition appActiveRolesForUser ::
  "svc \<Rightarrow> string \<Rightarrow> env \<Rightarrow> store \<Rightarrow> string \<Rightarrow> IdentityRole list res" where
  "appActiveRolesForUser v cw e s userID = scopedRead v cw (\<lambda>scoped. ActiveRolesForUser e scoped s userID)"

definition appAssignUserRole ::
  "svc \<Rightarrow> string \<Rightarrow> env \<Rightarrow> store \<Rightarrow> IdentityUserRoleAssignment \<Rightarrow> unit res \<times> store" where
  "appAssignUserRole v cw e s assignment = scopedDo v cw s (\<lambda>scoped. AssignUserRole e scoped s assignment)"

definition appUpsertUserWithRoles ::
  "svc \<Rightarrow> string \<Rightarrow> env \<Rightarrow> store \<Rightarrow> IdentityUser \<Rightarrow> IdentityUserRoleAssignment list \<Rightarrow> Principal \<Rightarrow> unit res \<times> store" where
  "appUpsertUserWithRoles v cw e s user assignments actor =
     scopedDo v cw s (\<lambda>scoped. UpsertUserWithRoles e scoped s user assignments actor)"

definition appRemoveUserRole ::
  "svc \<Rightarrow> string \<Rightarrow> env \<Rightarrow> store \<Rightarrow> string \<Rightarrow> string \<Rightarrow> unit res \<times> store" where
  "appRemoveUserRole v cw e s userID roleID = scopedDo v cw s (\<lambda>scoped. RemoveUserRole e scoped s userID roleID)"

definition appRemoveUserRoleGoverned ::
  "svc \<Rightarrow> string \<Rightarrow> env \<Rightarrow> store \<Rightarrow> string \<Rightarrow> string \<Rightarrow> string \<Rightarrow> Principal \<Rightarrow> unit res \<times> store" where
  "appRemoveUserRoleGoverned v cw e s userID roleID reason actor =
     scopedDo v cw s (\<lambda>scoped. RemoveUserRoleGoverned e scoped s userID roleID reason actor)"

definition appListUserRoleAssignments ::
  "svc \<Rightarrow> string \<Rightarrow> store \<Rightarrow> string \<Rightarrow> IdentityUserRoleAssignment list res" where
  "appListUserRoleAssignments v cw s userID =
     scopedRead v cw (\<lambda>scoped. ListIdentityUserRoleAssignments s (svc_workspace scoped) userID)"

definition appListUserRoleAssignmentsWithinDataScope ::
  "svc \<Rightarrow> string \<Rightarrow> env \<Rightarrow> store \<Rightarrow> string \<Rightarrow> Principal \<Rightarrow> string \<Rightarrow> IdentityUserRoleAssignment list res" where
  "appListUserRoleAssignmentsWithinDataScope v cw e s userID actor permissionKey =
     scopedRead v cw (\<lambda>scoped. ListUserRoleAssignmentsWithinDataScope e scoped s userID actor permissionKey)"

definition appSearchUserRoleAssignments ::
  "svc \<Rightarrow> string \<Rightarrow> env \<Rightarrow> (any \<Rightarrow> string) \<Rightarrow> (int \<Rightarrow> int) \<Rightarrow> IdentityUserRoleAssignment slicer \<Rightarrow> store \<Rightarrow> string \<Rightarrow> IdentityListQuery \<Rightarrow> IdentityUserRoleAssignment IdentityPage res" where
  "appSearchUserRoleAssignments v cw e sprint pageSize slice s userID query =
     scopedRead v cw (\<lambda>scoped. SearchUserRoleAssignments e sprint pageSize slice scoped s userID query)"

definition appSearchUserRoleAssignmentsWithinDataScope ::
  "svc \<Rightarrow> string \<Rightarrow> env \<Rightarrow> (any \<Rightarrow> string) \<Rightarrow> (int \<Rightarrow> int) \<Rightarrow> IdentityUserRoleAssignment slicer \<Rightarrow> store \<Rightarrow> string \<Rightarrow> IdentityListQuery \<Rightarrow> Principal \<Rightarrow> string \<Rightarrow> IdentityUserRoleAssignment IdentityPage res" where
  "appSearchUserRoleAssignmentsWithinDataScope v cw e sprint pageSize slice s userID query actor permissionKey =
     scopedRead v cw (\<lambda>scoped. SearchUserRoleAssignmentsWithinDataScope e sprint pageSize slice scoped s userID query actor permissionKey)"

definition appListAssignableRoles ::
  "svc \<Rightarrow> string \<Rightarrow> env \<Rightarrow> store \<Rightarrow> string \<Rightarrow> Principal \<Rightarrow> IdentityRole list res" where
  "appListAssignableRoles v cw e s userID actor =
     scopedRead v cw (\<lambda>scoped. ListAssignableRoles e scoped s userID actor)"

definition appRoleByID ::
  "svc \<Rightarrow> string \<Rightarrow> store \<Rightarrow> string \<Rightarrow> IdentityRole option res" where
  "appRoleByID v cw s roleID = scopedRead v cw (\<lambda>scoped. RoleByID s (svc_workspace scoped) roleID)"

definition appListRolePermissionAssignments ::
  "svc \<Rightarrow> string \<Rightarrow> env \<Rightarrow> store \<Rightarrow> string \<Rightarrow> IdentityRolePermissionAssignment list res" where
  "appListRolePermissionAssignments v cw e s roleID =
     scopedRead v cw (\<lambda>scoped. ListRolePermissionAssignments e scoped s roleID)"

definition appListRoleFieldPermissions ::
  "svc \<Rightarrow> string \<Rightarrow> store \<Rightarrow> string \<Rightarrow> IdentityFieldPermission list res" where
  "appListRoleFieldPermissions v cw s roleID =
     scopedRead v cw (\<lambda>scoped. ListRoleFieldPermissions scoped s roleID)"

subsection \<open>Role requests\<close>

definition appListRequestableRoles ::
  "svc \<Rightarrow> string \<Rightarrow> store \<Rightarrow> IdentityRole list res" where
  "appListRequestableRoles v cw s = scopedRead v cw (\<lambda>scoped. ListRequestableRoles scoped s)"

definition appCreateRoleRequest ::
  "svc \<Rightarrow> string \<Rightarrow> env \<Rightarrow> store \<Rightarrow> IdentityRoleRequest \<Rightarrow> IdentityRoleRequest res \<times> store" where
  "appCreateRoleRequest v cw e s request = scopedDo v cw s (\<lambda>scoped. CreateRoleRequest e scoped s request)"

definition appListRoleRequests ::
  "svc \<Rightarrow> string \<Rightarrow> store \<Rightarrow> string \<Rightarrow> string \<Rightarrow> IdentityRoleRequest list res" where
  "appListRoleRequests v cw s st userID = scopedRead v cw (\<lambda>scoped. ListRoleRequests scoped s st userID)"

definition appListRoleRequestsWithinDataScope ::
  "svc \<Rightarrow> string \<Rightarrow> env \<Rightarrow> store \<Rightarrow> string \<Rightarrow> string \<Rightarrow> Principal \<Rightarrow> string \<Rightarrow> IdentityRoleRequest list res" where
  "appListRoleRequestsWithinDataScope v cw e s st userID actor permissionKey =
     scopedRead v cw (\<lambda>scoped. ListRoleRequestsWithinDataScope e scoped s st userID actor permissionKey)"

definition appApproveRoleRequest ::
  "svc \<Rightarrow> string \<Rightarrow> env \<Rightarrow> store \<Rightarrow> string \<Rightarrow> string \<Rightarrow> string \<Rightarrow> Principal option \<Rightarrow> IdentityRoleRequest res \<times> store" where
  "appApproveRoleRequest v cw e s requestID reviewerID note reviewer =
     scopedDo v cw s (\<lambda>scoped. ApproveRoleRequest e scoped s requestID reviewerID note reviewer)"

definition appRejectRoleRequest ::
  "svc \<Rightarrow> string \<Rightarrow> env \<Rightarrow> store \<Rightarrow> string \<Rightarrow> string \<Rightarrow> string \<Rightarrow> IdentityRoleRequest res \<times> store" where
  "appRejectRoleRequest v cw e s requestID reviewerID note =
     scopedDo v cw s (\<lambda>scoped. rejectRoleRequest e scoped s requestID reviewerID note None)"

definition appRejectRoleRequestGoverned ::
  "svc \<Rightarrow> string \<Rightarrow> env \<Rightarrow> store \<Rightarrow> string \<Rightarrow> string \<Rightarrow> string \<Rightarrow> Principal \<Rightarrow> IdentityRoleRequest res \<times> store" where
  "appRejectRoleRequestGoverned v cw e s requestID reviewerID note reviewer =
     scopedDo v cw s (\<lambda>scoped. rejectRoleRequest e scoped s requestID reviewerID note (Some reviewer))"

subsection \<open>Menus\<close>

definition appUpsertMenu ::
  "svc \<Rightarrow> string \<Rightarrow> env \<Rightarrow> store \<Rightarrow> IdentityMenu \<Rightarrow> unit res \<times> store" where
  "appUpsertMenu v cw e s menu = scopedDo v cw s (\<lambda>scoped. UpsertMenu e scoped s menu)"

definition appRemoveMenu ::
  "svc \<Rightarrow> string \<Rightarrow> env \<Rightarrow> store \<Rightarrow> string \<Rightarrow> (string list res \<times> store) option" where
  "appRemoveMenu v cw e s menuID = scopedMaybe v cw s (\<lambda>scoped. RemoveMenu e scoped s menuID)"

definition appListRoleMenuAssignments ::
  "svc \<Rightarrow> string \<Rightarrow> store \<Rightarrow> string \<Rightarrow> IdentityRoleMenuAssignment list res" where
  "appListRoleMenuAssignments v cw s roleID = scopedRead v cw (\<lambda>scoped. ListRoleMenuAssignments scoped s roleID)"

text \<open>The menus of a role must lead to pages the role may open; a business route is not checked.\<close>

fun routeSegments :: "bool \<Rightarrow> string \<Rightarrow> bool" where
  "routeSegments prev [] = prev"
| "routeSegments prev (c # cs) =
     (if c \<in> set ''abcdefghijklmnopqrstuvwxyz0123456789'' then routeSegments True cs
      else prev \<and> c \<in> set ''._-'' \<and> routeSegments False cs)"

definition businessRouteKeyPattern :: "string \<Rightarrow> bool" where
  "businessRouteKeyPattern route \<longleftrightarrow> HasPrefix route ''business.'' \<and> routeSegments False (TrimPrefix route ''business.'')"

definition menuIdentifiers :: "IdentityMenu list \<Rightarrow> (string, IdentityMenu) gomap" where
  "menuIdentifiers menus = putAll [] (concat (map (\<lambda>m. [(menu_ID m, m), (menu_Key m, m)]) menus))"

definition checkMenuRoute ::
  "env \<Rightarrow> (string \<Rightarrow> string list option) \<Rightarrow> RoleSchema \<Rightarrow> IdentityMenu \<Rightarrow> unit res" where
  "checkMenuRoute e pages definition menu =
     (let route = TrimSpace (menu_Route menu); named = [(''menu'', menu_ID menu), (''route'', menu_Route menu)] in
      if menu_Route menu = [] \<or> businessRouteKeyPattern route then Inr ()
      else (case pages route of
          None \<Rightarrow> Inl (applicationError e KindBadRequest ''backend.identity.menu_route_not_registered'' named)
        | Some required \<Rightarrow>
            (case find (\<lambda>p. RolePermissionForKey e (rs_Permissions definition) p = None) required of
               None \<Rightarrow> Inr ()
             | Some p \<Rightarrow> Inl (applicationError e KindBadRequest ''backend.identity.menu_route_permission_missing''
                 (named @ [(''permission'', p)])))))"

fun checkRoleMenus ::
  "env \<Rightarrow> (string \<Rightarrow> string list option) \<Rightarrow> RoleSchema \<Rightarrow> (string, IdentityMenu) gomap \<Rightarrow> string set \<Rightarrow> string list \<Rightarrow> unit res" where
  "checkRoleMenus e pages definition menus seen [] = Inr ()"
| "checkRoleMenus e pages definition menus seen (menuID0 # ids) =
     (let menuID = TrimSpace menuID0; named = [(''menu'', menuID)] in
      if menuID = [] then checkRoleMenus e pages definition menus seen ids
      else if menuID \<in> seen
      then Inl (applicationError e KindBadRequest ''backend.identity.menu_assignment_duplicate'' named)
      else (case map_of menus menuID of
          None \<Rightarrow> Inl (applicationError e KindBadRequest ''backend.identity.menu_not_active'' named)
        | Some menu \<Rightarrow>
            if menu_Status menu = IdentityStatusDisabled \<or> menu_Status menu = ''deleted''
            then Inl (applicationError e KindBadRequest ''backend.identity.menu_not_active'' named)
            else bind (checkMenuRoute e pages definition menu) (\<lambda>_.
              checkRoleMenus e pages definition menus (insert menuID seen) ids)))"

definition appValidateRoleMenus ::
  "svc \<Rightarrow> string \<Rightarrow> env \<Rightarrow> (string \<Rightarrow> string list option) \<Rightarrow> store \<Rightarrow> string \<Rightarrow> string list \<Rightarrow> unit res" where
  "appValidateRoleMenus v cw e pages s roleID menuIDs =
     scopedRead v cw (\<lambda>scoped. bind (RoleByID s (svc_workspace scoped) roleID) (\<lambda>role.
       case role of
         None \<Rightarrow> Inl (applicationError e KindBadRequest ''backend.identity.role_not_found'' [(''role'', roleID)])
       | Some r \<Rightarrow> (case publishedRoleByKey scoped (role_Key r) of
           None \<Rightarrow> Inl (applicationError e KindBadRequest ''backend.identity.role_definition_not_published''
             [(''role'', role_Key r)])
         | Some definition \<Rightarrow> bind (ListMenus scoped s) (\<lambda>menus.
             checkRoleMenus e pages definition (menuIdentifiers menus) {} menuIDs))))"

definition appSetRoleMenus ::
  "svc \<Rightarrow> string \<Rightarrow> env \<Rightarrow> (string \<Rightarrow> string list option) \<Rightarrow> store \<Rightarrow> string \<Rightarrow> string list \<Rightarrow> unit res \<times> store" where
  "appSetRoleMenus v cw e pages s roleID menuIDs =
     (case appValidateRoleMenus v cw e pages s roleID menuIDs of
        Inl err \<Rightarrow> (Inl err, s)
      | Inr _ \<Rightarrow> scopedDo v cw s (\<lambda>scoped. SetRoleMenus e scoped s roleID menuIDs))"

subsection \<open>Governed assignments\<close>

abbreviation IdentityUserRoleAssignmentsAssignPermission :: string where
  "IdentityUserRoleAssignmentsAssignPermission \<equiv> ''identity.user_role_assignments.assign''"

definition identityStringListContains :: "string list \<Rightarrow> string \<Rightarrow> bool" where
  "identityStringListContains values expected = list_ex (\<lambda>v. TrimSpace v = TrimSpace expected) values"

text \<open>The definition is looked up by the key of the role only.\<close>

definition governedGrant ::
  "env \<Rightarrow> svc \<Rightarrow> store \<Rightarrow> IdentityUserRoleAssignment \<Rightarrow> Principal \<Rightarrow> unit res" where
  "governedGrant e scoped s assignment actor =
     (let w = svc_workspace scoped; err = (\<lambda>kind code params. Inl (applicationError e kind code params)) in
      if \<not> prin_Known actor \<or> TrimSpace (prin_UserID actor) = []
      then err KindForbidden ''backend.identity.entitlement_actor_required'' []
      else bind (UserByIDWithinDataScope e s w (asg_UserID assignment) actor IdentityUserRoleAssignmentsAssignPermission) (\<lambda>target.
        if target = None then err KindBadRequest ''backend.identity.user_not_found'' [(''user'', asg_UserID assignment)]
        else bind (RoleByID s w (asg_RoleID assignment)) (\<lambda>role.
          case role of
            None \<Rightarrow> err KindBadRequest ''backend.identity.role_not_found'' [(''role'', asg_RoleID assignment)]
          | Some r \<Rightarrow> (case publishedRoleByKey scoped (role_Key r) of
              None \<Rightarrow> Inr ()
            | Some definition \<Rightarrow>
                (let risk = (if rs_RiskLevel definition = [] then IdentityRoleRiskNormal else rs_RiskLevel definition) in
                 if risk = IdentityRoleRiskPrivileged \<and> TrimSpace (prin_UserID actor) = TrimSpace (asg_UserID assignment)
                 then err KindForbidden ''backend.identity.privileged_self_grant_denied'' []
                 else if risk \<noteq> IdentityRoleRiskNormal
                   \<and> \<not> identityStringListContains (rs_GrantableRoleKeys (prin_Role actor)) ''*''
                   \<and> \<not> identityStringListContains (rs_GrantableRoleKeys (prin_Role actor)) (rs_Key definition)
                 then err KindForbidden ''backend.identity.role_grant_ceiling_exceeded'' []
                 else Inr ())))))"

definition appAssignUserRoleGoverned ::
  "svc \<Rightarrow> string \<Rightarrow> env \<Rightarrow> store \<Rightarrow> IdentityUserRoleAssignment \<Rightarrow> Principal \<Rightarrow> unit res \<times> store" where
  "appAssignUserRoleGoverned v cw e s assignment actor =
     scopedDo v cw s (\<lambda>scoped.
       case governedGrant e scoped s assignment actor of
         Inl err \<Rightarrow> (Inl err, s)
       | Inr _ \<Rightarrow> AssignUserRoleWithinDataScope e scoped s
           (assignment\<lparr>asg_GrantedBy := prin_UserID actor, asg_Source := ''manual''\<rparr>)
           (IdentityPermissionDataScopeFilter e actor IdentityUserRoleAssignmentsAssignPermission))"

subsection \<open>Entitlement batches\<close>

record IdentityEntitlementBatchRequest =
  ebr_IdempotencyKey :: string
  ebr_Items :: "IdentityEntitlementBatchItem list"

definition trimmedItem :: "IdentityEntitlementBatchItem \<Rightarrow> IdentityEntitlementBatchItem" where
  "trimmedItem i = \<lparr>item_Operation = TrimSpace (item_Operation i), item_UserID = TrimSpace (item_UserID i),
     item_RoleID = TrimSpace (item_RoleID i), item_BindingKey = TrimSpace (item_BindingKey i),
     item_ProfileID = TrimSpace (item_ProfileID i), item_ValidFrom = TrimSpace (item_ValidFrom i),
     item_ValidUntil = TrimSpace (item_ValidUntil i), item_Reason = TrimSpace (item_Reason i)\<rparr>"

text \<open>\<open>encodeItem\<close> is the JSON text of an item, \<open>digest\<close> the hash of the JSON text of actor and items.\<close>

definition identityEntitlementBatchFingerprint ::
  "(IdentityEntitlementBatchItem \<Rightarrow> string) \<Rightarrow> (string \<times> IdentityEntitlementBatchItem list \<Rightarrow> string)
   \<Rightarrow> string \<Rightarrow> IdentityEntitlementBatchItem list \<Rightarrow> string" where
  "identityEntitlementBatchFingerprint encodeItem digest actorID items =
     digest (TrimSpace actorID, sortByCode encodeItem (map trimmedItem items))"

definition requireApplied :: "'a option res \<times> store \<Rightarrow> 'a res \<times> store" where
  "requireApplied r =
     (case r of
        (Inl err, s) \<Rightarrow> (Inl err, s)
      | (Inr None, s) \<Rightarrow> (Inl (AppError KindForbidden ''backend.identity.data_scope_denied'' []), s)
      | (Inr (Some x), s) \<Rightarrow> (Inr x, s))"

definition appApplyEntitlementBatch ::
  "svc \<Rightarrow> string \<Rightarrow> env \<Rightarrow> (string \<Rightarrow> IdentityEntitlementBatchItem list \<Rightarrow> string) \<Rightarrow> go_error option \<Rightarrow> store
   \<Rightarrow> IdentityEntitlementBatchRequest \<Rightarrow> Principal \<Rightarrow> IdentityEntitlementBatchReceipt res \<times> store" where
  "appApplyEntitlementBatch v cw e fingerprintOf ctxErr s request actor =
     (let key = TrimSpace (ebr_IdempotencyKey request); items0 = ebr_Items request in
      case ctxErr of Some err \<Rightarrow> (Inl err, s) | None \<Rightarrow>
      if \<not> prin_Known actor \<or> TrimSpace (prin_UserID actor) = []
      then (Inl (AppError KindForbidden ''backend.identity.entitlement_actor_required'' []), s)
      else if key = [] \<or> items0 = []
      then (Inl (AppError KindBadRequest ''backend.identity.entitlement_batch_invalid'' []), s)
      else scopedDo v cw s (\<lambda>scoped.
        (let w = svc_workspace scoped; fingerprint = fingerprintOf (prin_UserID actor) items0;
             scope = IdentityPermissionDataScopeFilter e actor IdentityEntitlementsBatchPermission in
         case GetIdentityEntitlementBatchReceiptWithinDataScope s w key scope of
           Inl err \<Rightarrow> (Inl err, s)
         | Inr (Some receipt) \<Rightarrow>
             if rcpt_RequestFingerprint receipt \<noteq> fingerprint
             then (Inl (AppError KindConflict ''backend.idempotency_key_reused'' []), s)
             else (Inr (receipt\<lparr>rcpt_Replayed := True\<rparr>), s)
         | Inr None \<Rightarrow>
             (case PrepareIdentityEntitlementBatch e scoped s items0 actor of
                Inl err \<Rightarrow> (Inl err, s)
              | Inr (items, assignments) \<Rightarrow>
                  requireApplied (ApplyIdentityEntitlementBatchWithinDataScope e s
                      \<lparr>mut_WorkspaceID = w, mut_ActorID = TrimSpace (prin_UserID actor), mut_IdempotencyKey = key,
                       mut_RequestFingerprint = fingerprint, mut_Items = items, mut_Assignments = assignments\<rparr> scope)))))"

subsection \<open>The governance of a role\<close>

record IdentityRoleGovernanceDetail =
  rgd_Role :: IdentityRole
  rgd_Definition :: RoleSchema
  rgd_PermissionSets :: "IdentityPermissionSet list"
  rgd_PermissionSetGroups :: "IdentityPermissionSetGroup list"
  rgd_Guardrails :: "IdentityGuardrailPolicy list"
  rgd_Permissions :: "IdentityRolePermissionAssignment list"
  rgd_FieldPermissions :: "IdentityFieldPermission list"
  rgd_ExportRules :: "ExportRule list"
  rgd_Menus :: "IdentityMenu list"
  rgd_Members :: "IdentityUserRoleAssignment list"

definition stringSet :: "string list \<Rightarrow> string set" where
  "stringSet values = {k \<in> TrimSpace ` set values. k \<noteq> []}"

definition filterPermissionSets :: "IdentityPermissionSet list \<Rightarrow> string set \<Rightarrow> IdentityPermissionSet list" where
  "filterPermissionSets values keys = filter (\<lambda>x. pset_Key x \<in> keys) values"

definition filterPermissionSetGroups :: "IdentityPermissionSetGroup list \<Rightarrow> string set \<Rightarrow> IdentityPermissionSetGroup list" where
  "filterPermissionSetGroups values keys = filter (\<lambda>x. pgrp_Key x \<in> keys) values"

definition filterGuardrails :: "IdentityGuardrailPolicy list \<Rightarrow> string set \<Rightarrow> IdentityGuardrailPolicy list" where
  "filterGuardrails values keys = filter (\<lambda>x. gr_Key x \<in> keys) values"

definition roleGovernanceDetail ::
  "svc \<Rightarrow> IdentityRole \<Rightarrow> IdentityRolePermissionAssignment list \<Rightarrow> IdentityFieldPermission list
   \<Rightarrow> IdentityRoleMenuAssignment list \<Rightarrow> IdentityMenu list \<Rightarrow> IdentityUserRoleAssignment list \<Rightarrow> IdentityRoleGovernanceDetail" where
  "roleGovernanceDetail scoped role permissions fieldPermissions menuAssignments allMenus allAssignments =
     (let definition = (case publishedRoleByKey scoped (role_Key role) of None \<Rightarrow> zeroRoleSchema | Some d \<Rightarrow> d);
          menuIDs = set (map rma_MenuID menuAssignments);
          groups = filterPermissionSetGroups (PublishedPermissionSetGroups scoped) (stringSet (rs_PermissionSetGroups definition));
          setKeys = stringSet (rs_PermissionSetKeys definition) \<union> set (concat (map pgrp_PermissionSetKeys groups)) in
      \<lparr>rgd_Role = role, rgd_Definition = definition,
       rgd_PermissionSets = filterPermissionSets (PublishedPermissionSets scoped) setKeys, rgd_PermissionSetGroups = groups,
       rgd_Guardrails = filterGuardrails (PublishedGuardrails scoped) (stringSet (rs_GuardrailKeys definition)) @ rs_Guardrails definition,
       rgd_Permissions = permissions, rgd_FieldPermissions = fieldPermissions, rgd_ExportRules = rs_ExportRules definition,
       rgd_Menus = filter (\<lambda>m. menu_ID m \<in> menuIDs \<or> menu_Key m \<in> menuIDs) allMenus,
       rgd_Members = filter (\<lambda>a. asg_RoleID a = role_ID role \<or> asg_RoleID a = role_Key role) allAssignments\<rparr>)"

definition appRoleGovernanceDetail :: "svc \<Rightarrow> string \<Rightarrow> env \<Rightarrow> store \<Rightarrow> string \<Rightarrow> IdentityRoleGovernanceDetail res" where
  "appRoleGovernanceDetail v cw e s roleID0 =
     scopedRead v cw (\<lambda>scoped. (let roleID = TrimSpace roleID0; w = svc_workspace scoped in
       bind (RoleByID s w roleID) (\<lambda>found. case found of
         None \<Rightarrow> Inl (applicationError e KindNotFound ''backend.identity.role_not_found'' [(''role'', roleID)])
       | Some role \<Rightarrow>
           bind (ListRolePermissionAssignments e scoped s (role_ID role)) (\<lambda>permissions.
           bind (ListRoleFieldPermissions scoped s (role_ID role)) (\<lambda>fieldPermissions.
           bind (ListRoleMenuAssignments scoped s (role_ID role)) (\<lambda>menuAssignments.
           bind (ListMenus scoped s) (\<lambda>allMenus.
           bind (ListIdentityUserRoleAssignments s w []) (\<lambda>allAssignments.
             Inr (roleGovernanceDetail scoped role permissions fieldPermissions menuAssignments allMenus allAssignments)))))))))"

end
