(* ===== verification/FlowProperties.thy ===== *)
theory FlowProperties
  imports AuthLogic AuthSamples PolicyProperties ApplicationService
begin

section \<open>Properties of the login flows\<close>

text \<open>
  The port through which the authentication service reaches the identity service; the search
  for an identifier of a new external user ends, and a password alone does not open a session
  when a second factor is required.
\<close>

subsection \<open>assembly/auth_identity.go\<close>

text \<open>
  \<open>workspaceAuthIdentity\<close>: every operation of the port scopes the application service to the
  workspace of the request, here over the memory store.  Operations that the application
  service does not override are those of the domain service it embeds.
\<close>

definition scopedIdentity :: "svc \<Rightarrow> request_ctx \<Rightarrow> svc res" where
  "scopedIdentity v c = ForWorkspace v (ctx_Workspace c)"

definition identityRead :: "svc \<Rightarrow> request_ctx \<Rightarrow> (svc \<Rightarrow> store \<Rightarrow> 'a res) \<Rightarrow> (store, 'a) op" where
  "identityRead v c f s = (bind (scopedIdentity v c) (\<lambda>scoped. f scoped s), s)"

definition identityDo :: "svc res \<Rightarrow> (svc \<Rightarrow> store \<Rightarrow> 'a res \<times> store) \<Rightarrow> (store, 'a) op" where
  "identityDo v f s = (case v of Inl err \<Rightarrow> (Inl err, s) | Inr scoped \<Rightarrow> f scoped s)"

definition workspaceAuthIdentity :: "env \<Rightarrow> svc \<Rightarrow> store AuthIdentityPort" where
  "workspaceAuthIdentity e v =
     \<lparr>ip_AssignUserRole = (\<lambda>c assignment. identityDo (scopedIdentity v c) (\<lambda>scoped s. appAssignUserRole scoped (ctx_Workspace c) e s assignment)),
      ip_ListRoles = (\<lambda>c. identityRead v c (\<lambda>scoped s. appListRoles scoped (ctx_Workspace c) s)),
      ip_UpsertUser = (\<lambda>c user. identityDo (scopedIdentity v c) (\<lambda>scoped s. appUpsertUser scoped (ctx_Workspace c) e s user)),
      ip_UserByID = (\<lambda>c userID. identityRead v c (\<lambda>scoped s. appUserByID scoped (ctx_Workspace c) s userID)),
      ip_UserByLogin = (\<lambda>c login. identityRead v c (\<lambda>scoped s. appUserByLogin scoped (ctx_Workspace c) s login)),
      ip_ActiveRolesForUser = (\<lambda>c userID. identityRead v c (\<lambda>scoped s. appActiveRolesForUser scoped (ctx_Workspace c) e s userID)),
      ip_PublishedRoleDefinition = (\<lambda>c key. case scopedIdentity v c of Inl _ \<Rightarrow> None | Inr scoped \<Rightarrow> publishedRoleByKey scoped key),
      ip_ResolveEffectivePermissions = (\<lambda>c userID. identityRead v c (\<lambda>scoped s.
        appResolveEffectivePermissions scoped (ctx_Workspace c) e s (ctx_Err c) userID)),
      ip_ResolvePrincipal = (\<lambda>c userID. identityRead v c (\<lambda>scoped s.
        appResolvePrincipal scoped (ctx_Workspace c) e s (ctx_Err c) userID)),
      ip_UpdateUserLocale = Some (\<lambda>c workspaceID userID locale expectedVersion. identityDo (ForWorkspace v workspaceID) (\<lambda>scoped s.
        UpdateUserLocale e s workspaceID userID locale expectedVersion)),
      ip_ReconcileSystemManagedBusinessRoles = Some (\<lambda>c userID. identityDo (scopedIdentity v c) (\<lambda>scoped s.
        ReconcileSystemManagedBusinessRoles e scoped s userID))\<rparr>"

subsection \<open>Identifiers of external users\<close>

definition decimalValue :: "string \<Rightarrow> nat" where
  "decimalValue s = foldl (\<lambda>n d. n * 10 + (byte d - 48)) 0 s"

lemma decimalValue_decimal: "decimalValue (decimal n) = n"
proof (induction n rule: decimal.induct)
  case (1 n)
  then show ?case
    by (subst decimal.simps) (auto simp: decimalValue_def digitChar_def)
qed

lemma candidateID_inject: "candidateID base i = candidateID base j \<Longrightarrow> i = j"
  using decimalValue_decimal by (auto simp: candidateID_def split: if_splits) metis

text \<open>
  An identity port that answers trimmed identifiers from a fixed population, in every state
  of a set it does not leave: it may count what it is asked.
\<close>

definition population :: "'s AuthDomainService \<Rightarrow> request_ctx \<Rightarrow> ('s \<Rightarrow> bool) \<Rightarrow> (string \<Rightarrow> IdentityUser option) \<Rightarrow> bool" where
  "population a c steady users \<longleftrightarrow> (\<forall>s i. steady s \<and> TrimSpace i = i \<longrightarrow>
     (\<exists>s'. ip_UserByID (as_identity a) c i s = (Inr (users i), s') \<and> steady s'))"

lemma freeUserID_step:
  assumes "population a c steady users" "steady (w_store w)" "TrimSpace (candidateID base i) = candidateID base i"
  obtains w' where "steady (w_store w')" "\<And>fuel. freeUserID a c base i (Suc fuel) w =
     (if users (candidateID base i) = None then (Inr (candidateID base i), w') else freeUserID a c base (Suc i) fuel w')"
proof -
  from assms obtain s' where "ip_UserByID (as_identity a) c (candidateID base i) (w_store w) = (Inr (users (candidateID base i)), s')" "steady s'"
    unfolding population_def by blast
  with that [of "w\<lparr>w_store := s'\<rparr>"] show thesis by (simp add: andThen_def onStore_def ret_def)
qed

lemma freeUserID_found:
  assumes "population a c steady users" "\<And>k. TrimSpace (candidateID base k) = candidateID base k"
  shows "\<lbrakk>steady (w_store w); \<forall>k < m. users (candidateID base (i + k)) \<noteq> None; users (candidateID base (i + m)) = None; m < fuel\<rbrakk>
    \<Longrightarrow> \<exists>w'. freeUserID a c base i fuel w = (Inr (candidateID base (i + m)), w') \<and> steady (w_store w')"
proof (induction fuel arbitrary: i m w)
  case (Suc fuel)
  obtain w' where w': "steady (w_store w')" "freeUserID a c base i (Suc fuel) w =
     (if users (candidateID base i) = None then (Inr (candidateID base i), w') else freeUserID a c base (Suc i) fuel w')"
    using freeUserID_step [OF assms(1) Suc.prems(1) assms(2)] by metis
  show ?case
  proof (cases m)
    case 0
    with Suc.prems w' show ?thesis by (simp del: freeUserID.simps)
  next
    case m: (Suc m')
    have "users (candidateID base i) \<noteq> None" using Suc.prems(2) m by (metis add_0_right zero_less_Suc)
    moreover have "\<exists>w''. freeUserID a c base (Suc i) fuel w' = (Inr (candidateID base (Suc i + m')), w'') \<and> steady (w_store w'')"
      using Suc.prems w'(1) unfolding m by (intro Suc.IH) (auto simp: less_Suc_eq_0_disj all_conj_distrib)
    ultimately show ?thesis unfolding w'(2) m by (metis add_Suc_shift)
  qed
qed simp

text \<open>The candidates are words of lower-case letters, digits and underscores.\<close>

lemma identifierRune_visible: "visible (identifierRune r)"
  by (auto simp: identifierRune_def visible_def)

lemma externalIDBase_visible: "list_all visible (externalIDBase x)"
proof -
  have "list_all visible (trimUnderscores (map identifierRune rs))" for rs
    by (auto simp: trimUnderscores_def list_all_iff identifierRune_visible dest!: set_dropWhileD)
  then have "list_all visible (if trimUnderscores (map identifierRune rs) = [] then ''external_user'' else trimUnderscores (map identifierRune rs))" for rs
    by (simp add: visible_def)
  moreover have "list_all visible (take n s)" if "list_all visible s" for n s
    using that by (auto simp: list_all_iff dest: in_set_takeD)
  ultimately show ?thesis unfolding externalIDBase_def Let_def by blast
qed

lemma decimal_visible: "list_all visible (decimal n)"
proof (induction n rule: decimal.induct)
  case (1 n)
  have "visible (digitChar d)" if "d < 10" for d
    using that by (simp add: visible_def digitChar_def)
  with 1 show ?case by (subst decimal.simps) simp
qed

lemma candidate_trimmed: "TrimSpace (candidateID (externalIDBase x) k) = candidateID (externalIDBase x) k"
  using externalIDBase_visible [of x] decimal_visible [of k] by (intro TrimSpace_visible) (simp add: candidateID_def visible_def)

text \<open>
  C37: the unbounded search for an identifier of a new external user ends.  When the identity
  service knows finitely many users, whatever it makes of untrimmed identifiers and whatever
  it counts, the search returns after at most one try more than there are users, with the
  first candidate that is free.
\<close>

theorem free_identifier:
  assumes "population a c steady users" "steady (w_store w)" "finite (dom users)" "card (dom users) \<le> n"
  shows "\<exists>j \<le> n. \<exists>w'. freeUserID a c (externalIDBase x) 0 (Suc n) w = (Inr (candidateID (externalIDBase x) j), w') \<and> steady (w_store w')
    \<and> users (candidateID (externalIDBase x) j) = None \<and> (\<forall>k < j. users (candidateID (externalIDBase x) k) \<noteq> None)"
proof -
  let ?base = "externalIDBase x"
  have taken: "m \<le> n" if "\<forall>k < m. users (candidateID ?base k) \<noteq> None" for m
  proof -
    have "inj_on (candidateID ?base) {..<m}" by (intro inj_onI candidateID_inject)
    then have "m = card (candidateID ?base ` {..<m})" by (simp add: card_image)
    also have "\<dots> \<le> card (dom users)" using that assms(3) by (intro card_mono) auto
    finally show ?thesis using assms(4) by simp
  qed
  then have "\<exists>m. users (candidateID ?base m) = None" using taken [of "Suc n"] by (metis Suc_n_not_le_n)
  then obtain m where m: "users (candidateID ?base m) = None" "\<forall>k < m. users (candidateID ?base k) \<noteq> None"
    using exists_least_iff [of "\<lambda>m. users (candidateID ?base m) = None"] by blast
  with taken [OF m(2)] freeUserID_found [OF assms(1) candidate_trimmed assms(2), of m x 0 "Suc n"] show ?thesis
    by (auto simp del: freeUserID.simps intro: exI [of _ m])
qed

text \<open>
  The port over the memory store is such a population: it trims the identifier, and leaves
  the store as it is.
\<close>

lemma memory_population:
  assumes "as_identity a = workspaceAuthIdentity e v" "NewWorkspaceID (ctx_Workspace c) = Inr workspace"
    and "ListIdentityUsers s workspace = Inr stored"
  shows "population a c (\<lambda>t. t = s) (\<lambda>i. find (\<lambda>u. user_ID u = i) stored)"
proof -
  have "domainForContext (v\<lparr>svc_workspace := workspace\<rparr>) (ctx_Workspace c) = Inr (v\<lparr>svc_workspace := workspace\<rparr>)"
    "scopedIdentity v c = Inr (v\<lparr>svc_workspace := workspace\<rparr>)"
    using assms(2) by (simp_all add: domainForContext_def scopedIdentity_def ForWorkspace_def bind_def)
  with assms(1, 3) show ?thesis
    by (simp add: population_def workspaceAuthIdentity_def identityRead_def appUserByID_def scopedRead_def UserByID_def userByID_def bind_def)
qed

lemma find_population:
  "finite (dom (\<lambda>i. find (\<lambda>u. user_ID u = i) us))"
  "card (dom (\<lambda>i. find (\<lambda>u. user_ID u = i) us)) \<le> length us"
proof -
  have d: "dom (\<lambda>i. find (\<lambda>u. user_ID u = i) us) \<subseteq> user_ID ` set us"
    by (fastforce simp: dom_def find_Some_iff)
  then show "finite (dom (\<lambda>i. find (\<lambda>u. user_ID u = i) us))" by (rule finite_subset) simp
  have "card (dom (\<lambda>i. find (\<lambda>u. user_ID u = i) us)) \<le> card (user_ID ` set us)" by (rule card_mono [OF _ d]) simp
  also have "\<dots> \<le> length us" using card_image_le [of "set us" user_ID] card_length [of us] by simp
  finally show "card (dom (\<lambda>i. find (\<lambda>u. user_ID u = i) us)) \<le> length us" .
qed

text \<open>A service over the memory store with one user, whose identifier the new user would take.\<close>

definition memoryService :: "store AuthDomainService" where
  "memoryService = NewAuthDomainService sampleAuthEnv (workspaceAuthIdentity sampleEnv bareSvc) bareRepository [] [] 0 0 0 0 0 0 zeroPolicy"

definition memoryWorld :: "store world" where
  "memoryWorld = \<lparr>w_store = sampleStore, w_challenges = [], w_random = 0\<rparr>"

lemma sample_base: "externalIDBase (zeroAssertion\<lparr>asrt_Provider := ''U1''\<rparr>) = ''u1''"
proof -
  have "runesOf ''U1_'' = [85, 49, 95]" by (subst runesOf_ascii) simp_all
  moreover have "chr 117 = CHR ''u''" "chr 49 = CHR ''1''"
    using char_of_char [of "CHR ''u''", where ?'a = nat] char_of_char [of "CHR ''1''", where ?'a = nat] by (simp_all del: char_of_char)
  then have "map identifierRune [85, 49, 95] = ''u1_''" by (simp add: identifierRune_def)
  ultimately show ?thesis by (simp add: externalIDBase_def Let_def zeroAssertion_def trimUnderscores_def del: runesOf.simps)
qed

lemma free_identifier_witness:
  "\<exists>j \<le> 1. \<exists>w'. freeUserID memoryService sampleCtx (externalIDBase (zeroAssertion\<lparr>asrt_Provider := ''U1''\<rparr>)) 0 (Suc 1) memoryWorld
     = (Inr (candidateID ''u1'' j), w') \<and> w_store w' = sampleStore \<and> j \<noteq> 0"
proof -
  let ?stored = "[(sampleUser ''u1'')\<lparr>user_Status := ''active'', user_Version := 1\<rparr>]"
  let ?users = "\<lambda>i. find (\<lambda>u. user_ID u = i) ?stored"
  have "as_identity memoryService = workspaceAuthIdentity sampleEnv bareSvc"
    by (simp add: memoryService_def NewAuthDomainService_def Let_def ConfigureSigningKeys_def split: sum.split)
  moreover have "NewWorkspaceID (ctx_Workspace sampleCtx) = Inr ''acme''" "ListIdentityUsers sampleStore ''acme'' = Inr ?stored"
    by code_simp+
  ultimately have p: "population memoryService sampleCtx (\<lambda>t. t = sampleStore) ?users"
    by (rule memory_population)
  have w: "w_store memoryWorld = sampleStore" by (simp add: memoryWorld_def)
  have n: "card (dom ?users) \<le> 1" using find_population(2) [of ?stored] by (simp only: list.size One_nat_def add_0)
  obtain j w' where "j \<le> 1" "freeUserID memoryService sampleCtx ''u1'' 0 (Suc 1) memoryWorld = (Inr (candidateID ''u1'' j), w')"
    "w_store w' = sampleStore" "?users (candidateID ''u1'' j) = None"
    using free_identifier [OF p w find_population(1) n, of "zeroAssertion\<lparr>asrt_Provider := ''U1''\<rparr>"] unfolding sample_base by blast
  moreover have "?users (candidateID ''u1'' 0) \<noteq> None" by (simp add: candidateID_def sampleUser_def)
  ultimately have "j \<noteq> 0" by metis
  with \<open>j \<le> 1\<close> \<open>freeUserID memoryService _ _ _ _ _ = _\<close> \<open>w_store w' = sampleStore\<close> show ?thesis unfolding sample_base by blast
qed

subsection \<open>A required second factor\<close>

text \<open>
  The one-time-code provider a verified factor is bound to, and whether the verified factors
  of a user demand more than a password.
\<close>

definition boundProvider :: "AuthProviderDomainService \<Rightarrow> IdentityMFAFactor \<Rightarrow> AuthProviderConfig option" where
  "boundProvider p m =
     (if TrimSpace (mfa_Provider m) = [] then None
      else (case FindProvider p (TrimSpace (mfa_Provider m)) of
          None \<Rightarrow> None | Some candidate \<Rightarrow> if EqualFold (pc_Type candidate) ''otp'' then Some candidate else None))"

definition codeFactor :: "IdentityMFAFactor \<Rightarrow> bool" where
  "codeFactor m \<longleftrightarrow> activeFactor m \<and> ToLower (TrimSpace (mfa_Type m)) \<in> {''otp'', ''sms'', ''external''}"

definition demands :: "AuthProviderDomainService \<Rightarrow> string \<Rightarrow> IdentityMFAFactor list \<Rightarrow> bool" where
  "demands p purpose factors \<longleftrightarrow> (\<exists>m \<in> set factors. codeFactor m \<and> (case boundProvider p m of
       Some candidate \<Rightarrow> SupportsChallengePurpose candidate purpose
     | None \<Rightarrow> FirstByTypeAndPurpose p ''otp'' purpose \<noteq> None))"

lemma factorLoop_required:
  "fst (snd (factorLoop p purpose unbound ms)) \<longleftrightarrow> demands p purpose ms \<or> unbound \<and> FirstByTypeAndPurpose p ''otp'' purpose \<noteq> None"
proof (induction ms arbitrary: unbound)
  case Nil
  then show ?case by (simp add: demands_def split: option.split)
next
  case (Cons m ms)
  show ?case
  proof (cases "codeFactor m")
    case True
    then have "activeFactor m \<and> \<not> (ToLower (TrimSpace (mfa_Type m)) \<noteq> ''otp'' \<and> ToLower (TrimSpace (mfa_Type m)) \<noteq> ''sms''
        \<and> ToLower (TrimSpace (mfa_Type m)) \<noteq> ''external'')" by (auto simp: codeFactor_def)
    with True show ?thesis
      by (auto simp: demands_def boundProvider_def Let_def Cons.IH split: option.splits if_splits)
  next
    case False
    then have "\<not> activeFactor m \<or> ToLower (TrimSpace (mfa_Type m)) \<noteq> ''otp'' \<and> ToLower (TrimSpace (mfa_Type m)) \<noteq> ''sms''
        \<and> ToLower (TrimSpace (mfa_Type m)) \<noteq> ''external''" by (auto simp: codeFactor_def)
    with False show ?thesis by (auto simp: demands_def Let_def Cons.IH)
  qed
qed

lemma demands_active: "demands p purpose (filter activeFactor factors) \<longleftrightarrow> demands p purpose factors"
  by (auto simp: demands_def codeFactor_def)

lemma challengeRequired_fields:
  "out_Session (challengeRequired v) = None" "out_Status (challengeRequired v) = AuthenticationStatusChallengeRequired"
  "out_Challenge (challengeRequired v) = Some (authProviderChallengeFromProjection v)"
  by (simp_all add: challengeRequired_def zeroOutcome_def)

lemma sessionOutcome_fields:
  "sessionOutcome e a c ws user app context w = (Inr out, w') \<Longrightarrow> out_Challenge out = None"
  by (auto simp: sessionOutcome_def authenticatedOutcome_def zeroOutcome_def andThen_def split: prod.splits sum.splits if_splits)

lemma andThen_InrE:
  assumes "andThen m f w = (Inr y, w'')"
  obtains x w' where "m w = (Inr x, w')" "f x w' = (Inr y, w'')"
  using assms by (auto simp: andThen_def split: prod.splits sum.splits)

text \<open>
  C38: after a correct password the verified factors of the user decide.  A login with a
  password gives an outcome only when the factors could be listed.  When one of those listed
  demands a code, because its provider serves logins or because it is bound to none and some
  provider does, the outcome is a challenge and no session; otherwise it is the outcome of the
  password alone, without a challenge.
\<close>

theorem second_factor_decides:
  assumes "LoginWithPasswordOutcome e f c ws login password app w = (Inr out, w')"
    and "rp_MFA (as_identityStore (fl_auth f)) = Some repository"
  shows "\<exists>user w1 totp w2 factors w3. AuthenticatePassword e (fl_auth f) c ws login password w = (Inr user, w1)
    \<and> totpState (fl_auth f) ws (user_ID user) w1 = (Inr totp, w2)
    \<and> onStore (mr_ListIdentityMFAFactors repository ws (user_ID user)) w2 = (Inr factors, w3)
    \<and> (if demands (fl_providers f) AuthChallengePurposeLoginMFA factors
       then out_Session out = None \<and> out_Status out = AuthenticationStatusChallengeRequired \<and> out_Challenge out \<noteq> None
       else out_Challenge out = None \<and> sessionOutcome e (fl_auth f) c ws user app passwordAuthenticationContext w3 = (Inr out, w'))"
proof -
  let ?a = "fl_auth f"
  from assms(1) obtain user w1 totp w2 where u: "AuthenticatePassword e ?a c ws login password w = (Inr user, w1)"
    and t: "totpState ?a ws (user_ID user) w1 = (Inr totp, w2)"
    and rest: "(let passwordOnly = sessionOutcome e ?a c ws user app passwordAuthenticationContext in
      (case rp_MFA (as_identityStore ?a) of
         None \<Rightarrow> passwordOnly
       | Some repository \<Rightarrow>
          andThen (onStore (mr_ListIdentityMFAFactors repository ws (user_ID user))) (\<lambda>factors.
          let active = filter activeFactor factors in
          if active = [] then passwordOnly
          else (case verifiedOTPProviderForPurpose (fl_providers f) active AuthChallengePurposeLoginMFA of (config, required, available) \<Rightarrow>
            if \<not> required then passwordOnly
            else if tfs_Enabled totp then
              andThen (beginTOTPChallenge e ?a ws (user_ID user) app AuthChallengePurposeLoginMFA
                         (tfs_Generation totp) [''pwd'']) (\<lambda>result. ret (challengeRequired result))
            else (case config of
                Some cfg \<Rightarrow>
                  if \<not> available \<or> TrimSpace (user_Phone user) = [] then raise (authForbidden e ''auth.mfa_factor_unavailable'')
                  else andThen (BeginOTPChallenge e ?a c ws (pc_Key cfg) (user_Phone user) app
                         AuthChallengePurposeLoginMFA (user_ID user) [''pwd'']) (\<lambda>result0.
                    andThen (deliverOTPChallenge e f ws cfg (user_Phone user) result0) (\<lambda>result.
                    ret (challengeRequired result)))
              | None \<Rightarrow> raise (authForbidden e ''auth.mfa_factor_unavailable''))))))
       w2 = (Inr out, w')"
    unfolding LoginWithPasswordOutcome_def Let_def by (elim andThen_InrE)
  from rest obtain factors w3 where l: "onStore (mr_ListIdentityMFAFactors repository ws (user_ID user)) w2 = (Inr factors, w3)"
    and rest: "(let active = filter activeFactor factors; passwordOnly = sessionOutcome e ?a c ws user app passwordAuthenticationContext in
          if active = [] then passwordOnly
          else (case verifiedOTPProviderForPurpose (fl_providers f) active AuthChallengePurposeLoginMFA of (config, required, available) \<Rightarrow>
            if \<not> required then passwordOnly
            else if tfs_Enabled totp then
              andThen (beginTOTPChallenge e ?a ws (user_ID user) app AuthChallengePurposeLoginMFA
                         (tfs_Generation totp) [''pwd'']) (\<lambda>result. ret (challengeRequired result))
            else (case config of
                Some cfg \<Rightarrow>
                  if \<not> available \<or> TrimSpace (user_Phone user) = [] then raise (authForbidden e ''auth.mfa_factor_unavailable'')
                  else andThen (BeginOTPChallenge e ?a c ws (pc_Key cfg) (user_Phone user) app
                         AuthChallengePurposeLoginMFA (user_ID user) [''pwd'']) (\<lambda>result0.
                    andThen (deliverOTPChallenge e f ws cfg (user_Phone user) result0) (\<lambda>result.
                    ret (challengeRequired result)))
              | None \<Rightarrow> raise (authForbidden e ''auth.mfa_factor_unavailable'')))) w3 = (Inr out, w')"
    unfolding assms(2) Let_def option.case by (elim andThen_InrE)
  let ?active = "filter activeFactor factors"
  obtain config required available where v: "verifiedOTPProviderForPurpose (fl_providers f) ?active AuthChallengePurposeLoginMFA = (config, required, available)"
    by (metis prod_cases3)
  then have required: "required \<longleftrightarrow> demands (fl_providers f) AuthChallengePurposeLoginMFA factors"
    using factorLoop_required [of "fl_providers f" AuthChallengePurposeLoginMFA False ?active]
    by (simp add: verifiedOTPProviderForPurpose_def demands_active)
  have none: "\<not> demands (fl_providers f) AuthChallengePurposeLoginMFA factors" if "?active = []"
    using that demands_active [of "fl_providers f" AuthChallengePurposeLoginMFA factors] by (simp add: demands_def)
  have "if demands (fl_providers f) AuthChallengePurposeLoginMFA factors
       then out_Session out = None \<and> out_Status out = AuthenticationStatusChallengeRequired \<and> out_Challenge out \<noteq> None
       else out_Challenge out = None \<and> sessionOutcome e ?a c ws user app passwordAuthenticationContext w3 = (Inr out, w')"
  proof (cases "?active = [] \<or> \<not> required")
    case True
    with rest none required v have "sessionOutcome e ?a c ws user app passwordAuthenticationContext w3 = (Inr out, w')"
      "\<not> demands (fl_providers f) AuthChallengePurposeLoginMFA factors" by (auto simp: Let_def split: if_split_asm)
    then show ?thesis using sessionOutcome_fields by auto
  next
    case False
    with rest required show ?thesis
      by (auto simp: Let_def v raise_def ret_def challengeRequired_fields elim!: andThen_InrE split: if_splits option.splits)
  qed
  with u t l show ?thesis by blast
qed

text \<open>A user with a text-message factor and an authenticator.\<close>

definition messageFactor :: IdentityMFAFactor where
  "messageFactor = \<lparr>mfa_ID = ''f1'', mfa_UserID = ''u1'', mfa_Type = ''sms'', mfa_Label = [], mfa_Provider = ''sms'', mfa_ProviderRef = [],
     mfa_Status = ''active'', mfa_VerifiedAt = ''2026-01-01T00:00:00Z'', mfa_LastUsedAt = [],
     mfa_CreatedAt = [], mfa_UpdatedAt = []\<rparr>"

definition factorRepository :: "unit AuthRepository" where
  "factorRepository = bareRepository\<lparr>
     rp_GetIdentityCredential := (\<lambda>w u. ret (Some \<lparr>cred_UserID = ''u1'', cred_PasswordHash = ''$secret'', cred_PasswordUpdatedAt = [],
        cred_FailedLoginCount = 0, cred_LockedUntil = [], cred_LastLoginAt = [], cred_MustChangePassword = False\<rparr>)),
     rp_MFA := Some \<lparr>mr_ListIdentityMFAFactors = (\<lambda>w u. ret [messageFactor]), mr_UpsertIdentityMFAFactor = (\<lambda>w x. ret ()),
        mr_RevokeIdentityMFAFactor = (\<lambda>w u i. ret ())\<rparr>,
     rp_TOTP := Some \<lparr>tr_TOTPFactorState = (\<lambda>w u. ret \<lparr>tfs_Enabled = True, tfs_Generation = ''g1''\<rparr>), tr_CreateTOTPEnrollment = (\<lambda>ch s. ret ())\<rparr>,
     rp_LoginTransactions := Some \<lparr>lt_CreateAuthLoginTransaction = (\<lambda>ch. ret ()), lt_ConsumeAuthLoginTransaction = (\<lambda>w p s t. ret None)\<rparr>\<rparr>"

definition factorFlow :: "unit AuthProviderFlowDomainService" where
  "factorFlow = \<lparr>fl_auth = bareService\<lparr>as_identityStore := factorRepository,
       as_identity := bareIdentity\<lparr>ip_UserByLogin := (\<lambda>c l. ret (Some ((sampleUser ''u1'')\<lparr>user_Status := IdentityStatusActive\<rparr>)))\<rparr>\<rparr>,
     fl_providers = \<lparr>aps_configs = [(''sms'', zeroProviderConfig\<lparr>pc_Type := ''otp''\<rparr>)], aps_order = [''sms''], aps_defaultAutoCreate = False\<rparr>,
     fl_writeback = None, fl_delivery = None\<rparr>"

lemma factorFlow_demands: "demands (fl_providers factorFlow) AuthChallengePurposeLoginMFA [messageFactor]" "activeFactor messageFactor"
  "TrimSpace [] = []"
  by code_simp+

lemma factorFlow_login:
  "\<exists>out w'. LoginWithPasswordOutcome sampleAuthEnv factorFlow sampleCtx ''acme'' ''ada'' ''secret'' ''crm'' emptyWorld = (Inr out, w')"
proof -
  obtain config available where v: "verifiedOTPProviderForPurpose (fl_providers factorFlow) [messageFactor] AuthChallengePurposeLoginMFA = (config, True, available)"
    using factorLoop_required [of "fl_providers factorFlow" AuthChallengePurposeLoginMFA False "[messageFactor]"] factorFlow_demands(1)
    by (metis (full_types) prod.collapse verifiedOTPProviderForPurpose_def)
  have bcrypt: "ae_BcryptMatches sampleAuthEnv h p \<longleftrightarrow> h = ''$'' @ p" for h p by (simp add: sampleAuthEnv_def)
  have a: "fl_auth factorFlow = bareService\<lparr>as_identityStore := factorRepository,
       as_identity := bareIdentity\<lparr>ip_UserByLogin := (\<lambda>c l. ret (Some ((sampleUser ''u1'')\<lparr>user_Status := IdentityStatusActive\<rparr>)))\<rparr>\<rparr>"
    by (simp add: factorFlow_def)
  have p: "\<exists>user. AuthenticatePassword sampleAuthEnv (fl_auth factorFlow) sampleCtx ''acme'' ''ada'' ''secret'' emptyWorld = (Inr user, emptyWorld)"
    by (simp add: a AuthenticatePassword_def credentialOf_def comparePassword_def credentialLocked_def liftExpiredLock_def factorRepository_def bareRepository_def
       bcrypt factorFlow_demands(3) andThen_def onStore_def ret_def check_def Let_def emptyWorld_def)
  then obtain user where u: "AuthenticatePassword sampleAuthEnv (fl_auth factorFlow) sampleCtx ''acme'' ''ada'' ''secret'' emptyWorld = (Inr user, emptyWorld)"
    by blast
  have t: "totpState (fl_auth factorFlow) ''acme'' i emptyWorld = (Inr \<lparr>tfs_Enabled = True, tfs_Generation = ''g1''\<rparr>, emptyWorld)" for i
    by (simp add: a totpState_def factorRepository_def onStore_def ret_def emptyWorld_def)
  have r: "rp_MFA (as_identityStore (fl_auth factorFlow)) = Some \<lparr>mr_ListIdentityMFAFactors = (\<lambda>w u. ret [messageFactor]),
      mr_UpsertIdentityMFAFactor = (\<lambda>w x. ret ()), mr_RevokeIdentityMFAFactor = (\<lambda>w u i. ret ())\<rparr>"
    by (simp add: a factorRepository_def)
  have b: "\<exists>result w'. beginTOTPChallenge sampleAuthEnv (fl_auth factorFlow) ''acme'' i ''crm'' purpose g ms w = (Inr result, w')" for i purpose g ms w
    by (simp add: a beginTOTPChallenge_def factorRepository_def newTOTPChallenge_def randomToken_def randomTokenFrom_def sampleAuthEnv_def andThen_def onStore_def ret_def)
  then obtain result w' where b': "beginTOTPChallenge sampleAuthEnv (fl_auth factorFlow) ''acme'' (user_ID user) ''crm'' AuthChallengePurposeLoginMFA ''g1'' [''pwd''] emptyWorld = (Inr result, w')"
    by blast
  then show ?thesis
    using u t r v factorFlow_demands(2) b'
    by (simp add: LoginWithPasswordOutcome_def Let_def andThen_def onStore_def ret_def emptyWorld_def)
qed

lemma second_factor_decides_witness:
  "\<exists>out w'. LoginWithPasswordOutcome sampleAuthEnv factorFlow sampleCtx ''acme'' ''ada'' ''secret'' ''crm'' emptyWorld = (Inr out, w')
     \<and> out_Session out = None \<and> out_Status out = AuthenticationStatusChallengeRequired"
proof -
  obtain out w' where l: "LoginWithPasswordOutcome sampleAuthEnv factorFlow sampleCtx ''acme'' ''ada'' ''secret'' ''crm'' emptyWorld = (Inr out, w')"
    using factorFlow_login by blast
  have r: "rp_MFA (as_identityStore (fl_auth factorFlow)) = Some \<lparr>mr_ListIdentityMFAFactors = (\<lambda>w u. ret [messageFactor]),
      mr_UpsertIdentityMFAFactor = (\<lambda>w x. ret ()), mr_RevokeIdentityMFAFactor = (\<lambda>w u i. ret ())\<rparr>"
    by (simp add: factorFlow_def factorRepository_def)
  from second_factor_decides [OF l r] factorFlow_demands(1) l show ?thesis
    by (auto simp: onStore_def ret_def)
qed

end
