(* ===== verification/MenuProperties.thy ===== *)
theory MenuProperties
  imports Menus
begin

section \<open>The menu tree\<close>

text \<open>
  The parent of each stored menu as a function of the store.  Writing a menu keeps every
  chain of parents ending at a root; on such a tree the unguarded recursion of
  \<open>RemoveMenu\<close> returns, and it collects the subtree of its target, each menu once.
\<close>

definition menuTable :: "store \<Rightarrow> string \<Rightarrow> string \<Rightarrow> IdentityMenu option" where
  "menuTable s w i = map_of (st_menus s) (TrimSpace w @ NUL @ i)"

definition menuParent :: "store \<Rightarrow> string \<Rightarrow> string \<Rightarrow> string option" where
  "menuParent s w i = map_option (\<lambda>m. TrimSpace (menu_ParentID m)) (menuTable s w i)"

definition indexParent :: "(string, IdentityMenu) gomap \<Rightarrow> string \<Rightarrow> string option" where
  "indexParent byID i = map_option (\<lambda>m. TrimSpace (menu_ParentID m)) (map_of byID i)"

text \<open>Every menu has an identifier and a chain of parents that ends at a root.\<close>

definition menuForest :: "store \<Rightarrow> string \<Rightarrow> bool" where
  "menuForest s w \<longleftrightarrow> (\<forall>i m. menuTable s w i = Some m \<longrightarrow> i \<noteq> [] \<and> (\<exists>parents. ancestorChain (menuParent s w) i parents))"

definition menuSubtree :: "store \<Rightarrow> string \<Rightarrow> string \<Rightarrow> string set" where
  "menuSubtree s w target =
     insert target {i. \<exists>parents. ancestorChain (menuParent s w) i parents \<and> target \<in> set parents}"

subsection \<open>Listings\<close>

lemma menuTable_ID: "storeWf s \<Longrightarrow> nulFree w \<Longrightarrow> menuTable s w i = Some m \<Longrightarrow> menu_ID m = i"
  using tableKeyed_lookup [of menu_ID "st_menus s" "TrimSpace w" i m] by (simp add: storeWf_def menuTable_def)

lemma menus_listed:
  assumes "ListIdentityMenus s w = Inr menus" "storeWf s" "nulFree w"
  shows "m \<in> set menus \<longleftrightarrow> menuTable s w (menu_ID m) = Some m" and "distinct (map menu_ID menus)"
proof -
  let ?rows = "rowsWithPrefix (TrimSpace w @ NUL) (st_menus s)"
  have keyed: "tableKeyed menu_ID (st_menus s)" using assms(2) by (simp add: storeWf_def)
  have menus: "menus = sortSlice menuLess ?rows" using assms(1) by (auto simp: ListIdentityMenus_def key_iffs)
  have w: "nulFree (TrimSpace w)" using assms(3) by simp
  show "m \<in> set menus \<longleftrightarrow> menuTable s w (menu_ID m) = Some m"
    unfolding menus menuTable_def using rows_lookup [OF keyed w] by simp
  show "distinct (map menu_ID menus)" using tableKeyed_rows_distinct [OF keyed w]
    unfolding menus by (metis distinct_map distinct_sortSlice set_sortSlice)
qed

lemma menuIndex_table:
  assumes "ListIdentityMenus s w = Inr menus" "storeWf s" "nulFree w"
  shows "map_of (menuIndex menus) i = menuTable s w i"
proof -
  have "map_of (menuIndex menus) i = Some m \<longleftrightarrow> m \<in> set menus \<and> menu_ID m = i" for m
    unfolding menuIndex_def by (rule index_lookup) (rule menus_listed(2) [OF assms])
  moreover have "m \<in> set menus \<and> menu_ID m = i \<longleftrightarrow> menuTable s w i = Some m" for m
    using menus_listed(1) [OF assms] menuTable_ID [OF assms(2,3)] by blast
  ultimately show ?thesis by (metis option.exhaust)
qed

subsection \<open>Writing a menu\<close>

lemma menuParentLoop_Inr:
  "menuParentLoop e byID i seen cursor = Inr () \<Longrightarrow> cursor \<noteq> [] \<Longrightarrow>
   \<exists>anc. ancestorChain (indexParent byID) cursor anc \<and> set (anc @ [cursor]) \<inter> set seen = {}"
proof (induction e byID i seen cursor rule: menuParentLoop.induct)
  case (1 e byID i seen cursor)
  from "1.prems" have fresh: "cursor \<notin> set seen"
    by (subst (asm) menuParentLoop.simps) (auto split: if_splits)
  with "1.prems" obtain m where m: "map_of byID cursor = Some m"
      "menuParentLoop e byID i (cursor # seen) (TrimSpace (menu_ParentID m)) = Inr ()"
    by (subst (asm) menuParentLoop.simps) (auto split: option.splits)
  let ?p = "TrimSpace (menu_ParentID m)"
  have par: "indexParent byID cursor = Some ?p" using m(1) by (simp add: indexParent_def)
  show ?case
  proof (cases "?p = []")
    case True
    with par fresh show ?thesis by (intro exI [of _ "[]"]) (auto intro: ancestorChain.Top)
  next
    case False
    from "1.IH" [OF "1.prems"(2) fresh m(1) m(2) False] obtain anc where
      anc: "ancestorChain (indexParent byID) ?p anc" "set (anc @ [?p]) \<inter> set (cursor # seen) = {}" by blast
    from ancestorChain.Below [OF par False anc(1)] anc(2) fresh show ?thesis
      by (intro exI [of _ "anc @ [?p]"]) auto
  qed
qed

definition storedMenu :: "IdentityMenu \<Rightarrow> IdentityMenu" where
  "storedMenu menu = menu\<lparr>menu_Key := (if menu_Key menu = [] then menu_ID menu else menu_Key menu),
     menu_Status := (if menu_Status menu = [] then IdentityStatusActive else menu_Status menu)\<rparr>"

lemma storedMenu_ParentID [simp]: "menu_ParentID (storedMenu menu) = menu_ParentID menu"
  by (simp add: storedMenu_def)

lemma UpsertIdentityMenu_row:
  assumes "UpsertIdentityMenu s w menu = (r, s')"
  shows "s' = s \<or> menu_ID menu \<noteq> [] \<and>
    s' = s\<lparr>st_menus := AList.update (TrimSpace w @ NUL @ menu_ID menu) (storedMenu menu) (st_menus s)\<rparr>"
proof -
  have "(let m1 = (if menu_Key menu = [] then menu\<lparr>menu_Key := menu_ID menu\<rparr> else menu) in
      if menu_Status m1 = [] then m1\<lparr>menu_Status := IdentityStatusActive\<rparr> else m1) = storedMenu menu"
    by (cases menu) (simp add: storedMenu_def Let_def)
  with assms show ?thesis
    by (auto simp: UpsertIdentityMenu_def Let_def key_iffs split: sum.splits if_splits)
qed

lemma UpsertMenu_cases:
  assumes "UpsertMenu e v s menu0 = (r, s')"
  obtains "s' = s" | menus menu where "ListIdentityMenus s (svc_workspace v) = Inr menus"
    "checkMenuParent e menus menu = Inr ()" "menu_ID menu \<noteq> []" "TrimSpace (menu_ParentID menu) = menu_ParentID menu"
    "s' = s\<lparr>st_menus := AList.update (TrimSpace (svc_workspace v) @ NUL @ menu_ID menu) (storedMenu menu) (st_menus s)\<rparr>"
proof (cases "s' = s")
  case False
  let ?menu = "menuDefaults (identifiedMenu menu0)"
  from assms False obtain menus where "ListIdentityMenus s (svc_workspace v) = Inr menus"
      "checkMenuParent e menus ?menu = Inr ()" "menu_ID ?menu \<noteq> []"
      and up: "UpsertIdentityMenu s (svc_workspace v) ?menu = (r, s')"
    by (auto simp: UpsertMenu_def Let_def menuDefaults_def bind_def split: sum.splits if_splits)
  moreover have "TrimSpace (menu_ParentID ?menu) = menu_ParentID ?menu"
    by (simp add: menuDefaults_def identifiedMenu_def Let_def)
  moreover note UpsertIdentityMenu_row [OF up]
  ultimately show ?thesis using that(2) False by blast
qed (use that(1) in blast)

lemma upsert_keeps_forest:
  assumes "storeWf s" "nulFree (svc_workspace v)" "menuForest s (svc_workspace v)"
  shows "menuForest (snd (UpsertMenu e v s menu0)) (svc_workspace v)"
proof (rule UpsertMenu_cases [OF surjective_pairing [of "UpsertMenu e v s menu0"]], goal_cases)
  case 1
  then show ?thesis using assms(3) by simp
next
  case (2 menus menu)
  let ?w = "svc_workspace v" and ?s = "snd (UpsertMenu e v s menu0)"
  let ?byID = "AList.update (menu_ID menu) menu (menuIndex menus)"
  have tab: "menuTable ?s ?w i = (if i = menu_ID menu then Some (storedMenu menu) else menuTable s ?w i)" for i
    by (simp add: 2(5) menuTable_def)
  have par: "menuParent ?s ?w i = (if i = menu_ID menu then Some (menu_ParentID menu) else menuParent s ?w i)" for i
    by (simp add: menuParent_def tab 2(4))
  have index: "indexParent ?byID = menuParent ?s ?w"
    by (rule ext) (simp add: indexParent_def par menuParent_def [of s] 2(4) menuIndex_table [OF 2(1) assms(1,2)])
  have "\<exists>anc. ancestorChain (menuParent ?s ?w) (menu_ID menu) anc"
  proof (cases "menu_ParentID menu = []")
    case True
    then show ?thesis by (intro exI [of _ "[]"] ancestorChain.Top) (simp add: par)
  next
    case False
    with 2(2) have "menuParentLoop e ?byID (menu_ID menu) [menu_ID menu] (menu_ParentID menu) = Inr ()"
      by (auto simp: checkMenuParent_def Let_def split: if_splits)
    from menuParentLoop_Inr [OF this False] obtain anc where "ancestorChain (menuParent ?s ?w) (menu_ParentID menu) anc"
      unfolding index by blast
    then have "ancestorChain (menuParent ?s ?w) (menu_ID menu) (anc @ [menu_ParentID menu])"
      using False by (intro ancestorChain.Below) (simp_all add: par)
    then show ?thesis by blast
  qed
  then obtain ranc where ranc: "ancestorChain (menuParent ?s ?w) (menu_ID menu) ranc" by blast
  have "\<exists>anc. ancestorChain (menuParent ?s ?w) i anc" if "menuTable s ?w i = Some m" for i m
    using assms(3) that chain_repoint [of "menuParent s ?w" i _ "menu_ID menu" "menuParent ?s ?w" ranc] ranc par
    unfolding menuForest_def by fastforce
  with ranc 2(3) assms(3) show ?thesis by (auto simp: menuForest_def tab)
qed

subsection \<open>Chains\<close>

lemma ancestorChain_above:
  "ancestorChain par i anc \<Longrightarrow> c \<in> set (anc @ [i]) \<Longrightarrow> par c = Some p \<Longrightarrow> p \<noteq> [] \<Longrightarrow> p \<in> set anc"
  by (induction rule: ancestorChain.induct) auto

text \<open>At most one member of a chain has a given parent.\<close>

lemma ancestorChain_sibling:
  "ancestorChain par i anc \<Longrightarrow> c \<in> set (anc @ [i]) \<Longrightarrow> d \<in> set (anc @ [i]) \<Longrightarrow>
   par c = Some p \<Longrightarrow> par d = Some p \<Longrightarrow> p \<noteq> [] \<Longrightarrow> c = d"
proof (induction rule: ancestorChain.induct)
  case (Below i q anc)
  have "q \<notin> set anc" using Below.hyps(3) by (rule ancestorChain_acyclic)
  then have no: "x \<in> set (anc @ [q]) \<Longrightarrow> par x \<noteq> Some q" for x
    using ancestorChain_above [OF Below.hyps(3) _ _ Below.hyps(2)] by blast
  show ?case
  proof (cases "p = q")
    case True
    then show ?thesis using Below.prems no by (metis Un_iff empty_iff empty_set insert_iff list.simps(15) set_append)
  next
    case False
    then have "c \<noteq> i" "d \<noteq> i" using Below.prems Below.hyps(1) by auto
    then show ?thesis using Below by auto
  qed
qed simp

lemma ancestorChain_child:
  "ancestorChain par i anc \<Longrightarrow> p \<in> set anc \<Longrightarrow> \<exists>c \<in> set (anc @ [i]). par c = Some p"
  by (induction rule: ancestorChain.induct) auto

subsection \<open>Collecting a subtree\<close>

definition descendants :: "(string \<Rightarrow> string option) \<Rightarrow> string \<Rightarrow> string set" where
  "descendants par p = {i. \<exists>anc. ancestorChain par i anc \<and> p \<in> set anc}"

lemma descendants_self: "ancestorChain par p anc \<Longrightarrow> p \<notin> descendants par p"
  by (auto simp: descendants_def dest: ancestorChain_acyclic)

lemma descendants_children:
  assumes "p \<noteq> []" "\<And>c. par c \<noteq> None \<Longrightarrow> \<exists>anc. ancestorChain par c anc"
  shows "descendants par p = (\<Union>c \<in> {c. par c = Some p}. insert c (descendants par c))"
proof (intro set_eqI iffI)
  fix i assume "i \<in> descendants par p"
  then obtain anc where anc: "ancestorChain par i anc" "p \<in> set anc" by (auto simp: descendants_def)
  then obtain c where "c \<in> set (anc @ [i])" "par c = Some p" using ancestorChain_child by blast
  with anc show "i \<in> (\<Union>c \<in> {c. par c = Some p}. insert c (descendants par c))"
    by (auto simp: descendants_def)
next
  fix i assume "i \<in> (\<Union>c \<in> {c. par c = Some p}. insert c (descendants par c))"
  then obtain c where c: "par c = Some p" "i = c \<or> i \<in> descendants par c" by auto
  then obtain anc where anc: "ancestorChain par i anc" "c \<in> set (anc @ [i])"
    using assms(2) [of c] by (auto simp: descendants_def)
  with ancestorChain_above [OF anc c(1) assms(1)] show "i \<in> descendants par p" by (auto simp: descendants_def)
qed

lemma descendants_disjoint:
  assumes "p \<noteq> []" "par c = Some p" "par d = Some p" "i \<in> insert c (descendants par c)" "i \<in> insert d (descendants par d)"
    "\<And>c. par c \<noteq> None \<Longrightarrow> \<exists>anc. ancestorChain par c anc"
  shows "c = d"
proof -
  obtain anc where "ancestorChain par i anc" "c \<in> set (anc @ [i])"
    using assms(2,4) assms(6) [of c] by (auto simp: descendants_def)
  moreover then have "d \<in> set (anc @ [i])"
    using assms(5) by (auto simp: descendants_def dest: ancestorChain_unique)
  ultimately show ?thesis using ancestorChain_sibling assms(1,2,3) by blast
qed

lemma mapOpt_Some:
  "(\<And>x. x \<in> set xs \<Longrightarrow> \<exists>y. f x = Some y \<and> P x y) \<Longrightarrow> \<exists>ys. mapOpt f xs = Some ys \<and> list_all2 P xs ys"
proof (induction xs)
  case (Cons x xs)
  then obtain y ys where "f x = Some y" "P x y" "mapOpt f xs = Some ys" "list_all2 P xs ys" by fastforce
  then show ?case by simp
qed simp

lemma concat_disjoint:
  assumes "list_all2 (\<lambda>x y. set y = A x \<and> distinct y) xs ys" "distinct xs"
    "\<And>x x' z. x \<in> set xs \<Longrightarrow> x' \<in> set xs \<Longrightarrow> z \<in> A x \<Longrightarrow> z \<in> A x' \<Longrightarrow> x = x'"
  shows "set (concat ys) = (\<Union>x \<in> set xs. A x) \<and> distinct (concat ys)"
  using assms
proof (induction rule: list_all2_induct)
  case (Cons x xs y ys)
  have "set (concat ys) = (\<Union>x \<in> set xs. A x) \<and> distinct (concat ys)"
    by (rule Cons.IH) (use Cons.prems in auto)
  moreover have "A x \<inter> (\<Union>x \<in> set xs. A x) = {}" using Cons.prems by fastforce
  ultimately show ?case using Cons.hyps by auto
qed simp

lemma collect_subtree:
  assumes "distinct (map menu_ID menus)" "finite (dom par)"
    "\<And>c p. p \<noteq> [] \<Longrightarrow> par c = Some p \<longleftrightarrow> (\<exists>m \<in> set menus. menu_ID m = c \<and> TrimSpace (menu_ParentID m) = p)"
    "\<And>c. par c \<noteq> None \<Longrightarrow> c \<noteq> [] \<and> (\<exists>anc. ancestorChain par c anc)"
    "par p \<noteq> None"
  shows "\<exists>ids. collectChildrenFirst menus p = Some ids \<and> last ids = p \<and> set ids = insert p (descendants par p) \<and> distinct ids"
  using assms(5)
proof (induction "card (descendants par p)" arbitrary: p rule: less_induct)
  case less
  let ?kids = "map menu_ID (filter (\<lambda>m. TrimSpace (menu_ParentID m) = p) menus)"
  have p: "p \<noteq> []" "p \<notin> descendants par p" using assms(4) [OF less.prems] descendants_self by auto
  have kids: "set ?kids = {c. par c = Some p}" using assms(3) [OF p(1)] by auto
  have all: "descendants par p = (\<Union>c \<in> set ?kids. insert c (descendants par c))"
    unfolding kids by (rule descendants_children [OF p(1)]) (use assms(4) in blast)
  have fin: "finite (descendants par q)" for q
    by (rule finite_subset [OF _ assms(2)]) (auto simp: descendants_def elim: ancestorChain.cases)
  have "\<exists>ids. collectChildrenFirst menus c = Some ids \<and> (set ids = insert c (descendants par c) \<and> distinct ids)"
    if "c \<in> set ?kids" for c
  proof -
    have c: "par c \<noteq> None" using that kids by auto
    have "c \<notin> descendants par c" using assms(4) [OF c] descendants_self by blast
    then have "descendants par c \<subset> descendants par p" using that all by blast
    then have "card (descendants par c) < card (descendants par p)" by (rule psubset_card_mono [OF fin])
    from less.hyps [OF this c] show ?thesis by blast
  qed
  from mapOpt_Some [of ?kids "collectChildrenFirst menus", OF this] obtain below where
    below: "mapOpt (collectChildrenFirst menus) ?kids = Some below"
      "list_all2 (\<lambda>c ids. set ids = insert c (descendants par c) \<and> distinct ids) ?kids below" by blast
  have "set (concat below) = (\<Union>c \<in> set ?kids. insert c (descendants par c)) \<and> distinct (concat below)"
  proof (rule concat_disjoint [OF below(2)])
    show "distinct ?kids" using assms(1) by (simp add: distinct_map_filter)
    fix c d i assume "c \<in> set ?kids" "d \<in> set ?kids" "i \<in> insert c (descendants par c)" "i \<in> insert d (descendants par d)"
    then show "c = d" using descendants_disjoint [OF p(1)] assms(4) unfolding kids by blast
  qed
  then have "set (concat below @ [p]) = insert p (descendants par p)" "distinct (concat below @ [p])"
    using all p(2) by auto
  moreover have "collectChildrenFirst menus p = Some (concat below @ [p])"
    by (subst collectChildrenFirst.simps) (simp only: below(1) Option.bind.simps)
  ultimately show ?case by (metis last_snoc)
qed

subsection \<open>Removing a menu\<close>

lemma takeMenus_index:
  "distinct is \<Longrightarrow> (\<And>i. i \<in> set is \<Longrightarrow> \<exists>m. map_of byID i = Some m) \<Longrightarrow>
   takeMenus byID is = map (\<lambda>i. the (map_of byID i)) is"
proof (induction byID "is" rule: takeMenus.induct)
  case (2 byID i "is")
  then have "takeMenus (AList.delete i byID) is = map (\<lambda>j. the (map_of (AList.delete i byID) j)) is"
    by (intro "2.IH") auto
  moreover have "mapGet zeroMenu byID i = the (map_of byID i)" using "2.prems" by (fastforce simp: mapGet_def)
  ultimately show ?case using "2.prems"(1) by (auto intro!: map_cong)
qed simp

lemma foldl_delete: "map_of (foldl (\<lambda>t m. AList.delete (f m) t) t ms) k = (if k \<in> f ` set ms then None else map_of t k)"
  by (induction ms arbitrary: t) auto

lemma removeMenus_table:
  assumes "NewWorkspaceID w = Inr (TrimSpace w)" "\<And>m. m \<in> set ms \<Longrightarrow> menuTable s w (menu_ID m) \<noteq> None"
  shows "\<exists>s'. RemoveIdentityMenusAtomically s w ms = (Inr (), s') \<and>
    (\<forall>k. menuTable s' w k = (if k \<in> menu_ID ` set ms then None else menuTable s w k))"
proof -
  have pre: "identityWorkspacePrefix w = Inr (TrimSpace w @ NUL)" using assms(1) by (simp add: key_iffs)
  have "find (\<lambda>m. \<not> hasKey (st_menus s) ((TrimSpace w @ NUL) @ menu_ID m)) ms = None"
    using assms(2) by (auto simp: find_None_iff hasKey_def menuTable_def)
  then show ?thesis using pre
    by (auto simp: RemoveIdentityMenusAtomically_def menuTable_def foldl_delete)
qed

lemma ancestorChain_pruned:
  "ancestorChain par i anc \<Longrightarrow> i \<notin> insert t (descendants par t) \<Longrightarrow>
   (\<And>k. k \<notin> insert t (descendants par t) \<Longrightarrow> par' k = par k) \<Longrightarrow> ancestorChain par' i anc"
proof (induction rule: ancestorChain.induct)
  case (Below i p anc)
  have "ancestorChain par i (anc @ [p])" using Below.hyps by (rule ancestorChain.Below)
  then have "t \<notin> set (anc @ [p])" using Below.prems(1) by (auto simp: descendants_def)
  then have "p \<notin> insert t (descendants par t)"
    using Below.hyps(3) by (auto simp: descendants_def dest: ancestorChain_unique)
  from Below.IH [OF this Below.prems(2)] have "ancestorChain par' p anc" .
  moreover have "par' i = Some p" using Below.prems(2) [OF Below.prems(1)] Below.hyps(1) by simp
  ultimately show ?case using Below.hyps(2) by (blast intro: ancestorChain.Below)
next
  case (Top i)
  then have "par' i = Some []" by simp
  then show ?case by (rule ancestorChain.Top)
qed

lemma ancestorChain_dom: "ancestorChain par i anc \<Longrightarrow> par i \<noteq> None"
  by (auto elim: ancestorChain.cases)

lemma menuSubtree_descendants: "menuSubtree s w t = insert t (descendants (menuParent s w) t)"
  by (simp add: menuSubtree_def descendants_def)

lemma menuParent_listed:
  assumes "ListIdentityMenus s w = Inr menus" "storeWf s" "nulFree w"
  shows "menuParent s w c = Some p \<longleftrightarrow> (\<exists>m \<in> set menus. menu_ID m = c \<and> TrimSpace (menu_ParentID m) = p)"
proof -
  have "(\<exists>m. menuTable s w c = Some m \<and> TrimSpace (menu_ParentID m) = p) \<longleftrightarrow>
      (\<exists>m. (m \<in> set menus \<and> menu_ID m = c) \<and> TrimSpace (menu_ParentID m) = p)"
    using menus_listed(1) [OF assms] menuTable_ID [OF assms(2,3)] by blast
  then show ?thesis unfolding menuParent_def map_option_eq_Some by blast
qed

lemma menuParent_finite: "finite (dom (menuParent s w))"
proof -
  have "dom (menuParent s w) \<subseteq> (\<lambda>k. drop (length (TrimSpace w @ NUL)) k) ` dom (map_of (st_menus s))"
  proof
    fix i assume "i \<in> dom (menuParent s w)"
    then have "TrimSpace w @ NUL @ i \<in> dom (map_of (st_menus s))" by (auto simp: menuParent_def menuTable_def)
    moreover have "i = drop (length (TrimSpace w @ NUL)) (TrimSpace w @ NUL @ i)" by simp
    ultimately show "i \<in> (\<lambda>k. drop (length (TrimSpace w @ NUL)) k) ` dom (map_of (st_menus s))" by (rule rev_image_eqI)
  qed
  then show ?thesis by (rule finite_subset) (simp add: finite_dom_map_of)
qed

lemma menuTarget_Some:
  assumes "menuTarget menus i = Some m"
  shows "m \<in> set menus \<and> (menu_ID m = i \<or> menu_Key m = i)"
proof -
  have "find P xs = Some x \<Longrightarrow> x \<in> set xs \<and> P x" for P x and xs :: "IdentityMenu list"
    by (induction xs) (auto split: if_splits)
  from this [of "\<lambda>m. menu_ID m = i \<or> menu_Key m = i" "rev menus" m] assms show ?thesis
    by (simp add: menuTarget_def)
qed

lemma remove_subtree:
  assumes "storeWf s" "nulFree (svc_workspace v)" "menuForest s (svc_workspace v)"
    "ListIdentityMenus s (svc_workspace v) = Inr menus" "menuTarget menus (TrimSpace i) = Some m"
  shows "\<exists>deleted s'. RemoveMenu e v s i = Some (Inr deleted, s') \<and> distinct deleted
    \<and> last deleted = menu_ID m \<and> set deleted = menuSubtree s (svc_workspace v) (menu_ID m)
    \<and> (\<forall>k. menuTable s' (svc_workspace v) k = (if k \<in> set deleted then None else menuTable s (svc_workspace v) k))"
proof -
  let ?w = "svc_workspace v" and ?par = "menuParent s (svc_workspace v)"
  note listed = menus_listed [OF assms(4,1,2)] menuTable_ID [OF assms(1,2)]
  have m: "menuTable s ?w (menu_ID m) = Some m" "menu_ID m \<noteq> []"
    using menuTarget_Some [OF assms(5)] listed(1) assms(3) by (auto simp: menuForest_def)
  have forest: "?par c \<noteq> None \<Longrightarrow> c \<noteq> [] \<and> (\<exists>anc. ancestorChain ?par c anc)" for c
    using assms(3) by (auto simp: menuForest_def menuParent_def)
  have "?par (menu_ID m) \<noteq> None" by (simp add: menuParent_def m)
  then obtain ids where ids: "collectChildrenFirst menus (menu_ID m) = Some ids"
      "set ids = insert (menu_ID m) (descendants ?par (menu_ID m))" "distinct ids" "last ids = menu_ID m"
    using collect_subtree [OF listed(2) menuParent_finite menuParent_listed [OF assms(4,1,2)] forest] by blast
  have table: "menuTable s ?w k \<noteq> None" if "k \<in> set ids" for k
  proof -
    have "?par k \<noteq> None"
      using that \<open>?par (menu_ID m) \<noteq> None\<close> ancestorChain_dom [of ?par k] by (auto simp: ids(2) descendants_def)
    then show ?thesis by (simp add: menuParent_def)
  qed
  define rows where "rows = map (\<lambda>k. the (menuTable s ?w k)) ids"
  have take: "takeMenus (menuIndex menus) ids = rows"
    unfolding rows_def menuIndex_table [OF assms(4,1,2), symmetric]
    by (rule takeMenus_index [OF ids(3)]) (use table in \<open>auto simp: menuIndex_table [OF assms(4,1,2)]\<close>)
  have rows: "menu_ID ` set rows = set ids" using table listed(3) by (force simp: rows_def)
  have "NewWorkspaceID ?w = Inr (TrimSpace ?w)" using assms(4) by (auto simp: ListIdentityMenus_def key_iffs)
  then obtain s' where s': "RemoveIdentityMenusAtomically s ?w rows = (Inr (), s')"
      "\<forall>k. menuTable s' ?w k = (if k \<in> set ids then None else menuTable s ?w k)"
    using removeMenus_table [of ?w rows s] rows table by fastforce
  have "RemoveMenu e v s i = Some (Inr ids, s')"
    using assms(4,5) m(2) ids(1) take s'(1) by (simp add: RemoveMenu_def Let_def)
  with s'(2) ids show ?thesis by (auto simp: menuSubtree_descendants)
qed

lemma RemoveMenu_absent:
  "ListIdentityMenus s (svc_workspace v) = Inr menus \<Longrightarrow> menuTarget menus (TrimSpace i) = None \<Longrightarrow>
   RemoveMenu e v s i = Some (Inl (notFound e ''backend.identity.menu_not_found'' [''menu'', TrimSpace i]), s)"
  by (simp add: RemoveMenu_def Let_def)

lemma pruned_forest:
  assumes "menuForest s w" "\<forall>k. menuTable s' w k = (if k \<in> menuSubtree s w t then None else menuTable s w k)"
  shows "menuForest s' w"
  unfolding menuForest_def
proof (intro allI impI)
  fix i m assume "menuTable s' w i = Some m"
  with assms have i: "i \<notin> menuSubtree s w t" "menuTable s w i = Some m" by (auto split: if_splits)
  then obtain anc where anc: "i \<noteq> []" "ancestorChain (menuParent s w) i anc"
    using assms(1) by (auto simp: menuForest_def)
  have "ancestorChain (menuParent s' w) i anc"
    by (rule ancestorChain_pruned [OF anc(2)])
      (use i(1) assms(2) in \<open>auto simp: menuParent_def [of s'] menuParent_def [of s] simp flip: menuSubtree_descendants\<close>)
  with anc(1) show "i \<noteq> [] \<and> (\<exists>parents. ancestorChain (menuParent s' w) i parents)" by blast
qed

subsection \<open>Concrete menus\<close>

definition sampleMenu :: "string \<Rightarrow> string \<Rightarrow> IdentityMenu" where
  "sampleMenu i parent = zeroMenu\<lparr>menu_ID := i, menu_Key := i, menu_Label := i, menu_ParentID := parent,
     menu_Status := ''active''\<rparr>"

definition menuStore :: store where
  "menuStore = NewMemoryIdentityStore\<lparr>st_menus := [(''acme'' @ NUL @ ''home'', sampleMenu ''home'' []),
     (''acme'' @ NUL @ ''reports'', sampleMenu ''reports'' ''home'')]\<rparr>"

lemmas menu_defs = sampleMenu_def zeroMenu_def menuStore_def NewMemoryIdentityStore_def

lemma menuStore_table: "menuTable menuStore ''acme'' i =
    (if i = ''home'' then Some (sampleMenu ''home'' []) else if i = ''reports'' then Some (sampleMenu ''reports'' ''home'') else None)"
  by (simp add: menuTable_def menuStore_def)

lemma menuStore_wf: "storeWf menuStore"
proof -
  have "tableKeyed menu_ID [(''acme'' @ NUL @ menu_ID (sampleMenu ''home'' []), sampleMenu ''home'' []),
      (''acme'' @ NUL @ menu_ID (sampleMenu ''reports'' ''home''), sampleMenu ''reports'' ''home'')]"
    unfolding tableKeyed_def by (auto simp: sampleMenu_def)
  then show ?thesis by (simp add: storeWf_def menu_defs)
qed

lemma menuStore_forest: "menuForest menuStore ''acme''"
proof -
  have home: "ancestorChain (menuParent menuStore ''acme'') ''home'' []"
    by (rule ancestorChain.Top) (simp add: menuParent_def menuStore_table sampleMenu_def zeroMenu_def)
  have "ancestorChain (menuParent menuStore ''acme'') ''reports'' ([] @ [''home''])"
    by (rule ancestorChain.Below [OF _ _ home]) (simp_all add: menuParent_def menuStore_table sampleMenu_def zeroMenu_def, code_simp)
  with home show ?thesis by (auto simp: menuForest_def menuStore_table)
qed

text \<open>
  C39 (the menu tree).  Suppose every menu of the workspace has a chain of parents that
  ends at a root.  Writing any menu keeps it so, whether or not the write is refused.
  Removing a menu always returns; it either fails and changes nothing, or reports the whole
  subtree of the menu it found by identifier or by key, each menu once and the menu itself
  last, and exactly these menus are gone: no menu is left below a removed parent.
\<close>

theorem menu_tree:
  assumes "storeWf s" "nulFree (svc_workspace v)" "menuForest s (svc_workspace v)"
  shows "menuForest (snd (UpsertMenu e v s menu)) (svc_workspace v)
    \<and> (\<exists>r s'. RemoveMenu e v s i = Some (r, s') \<and> menuForest s' (svc_workspace v)
      \<and> (case r of
           Inl err \<Rightarrow> s' = s
         | Inr deleted \<Rightarrow> distinct deleted
             \<and> (\<exists>target. menuTable s (svc_workspace v) (menu_ID target) = Some target
                 \<and> TrimSpace i \<in> {menu_ID target, menu_Key target}
                 \<and> last deleted = menu_ID target \<and> set deleted = menuSubtree s (svc_workspace v) (menu_ID target))
             \<and> (\<forall>k. menuTable s' (svc_workspace v) k =
                 (if k \<in> set deleted then None else menuTable s (svc_workspace v) k))))" (is "_ \<and> ?removed")
proof (rule conjI [OF upsert_keeps_forest [OF assms]])
  show "?removed"
  proof (cases "ListIdentityMenus s (svc_workspace v)")
    case (Inr menus)
    show ?thesis
    proof (cases "menuTarget menus (TrimSpace i)")
      case (Some m)
      then obtain deleted s' where r: "RemoveMenu e v s i = Some (Inr deleted, s')" "distinct deleted"
          "last deleted = menu_ID m" "set deleted = menuSubtree s (svc_workspace v) (menu_ID m)"
          "\<forall>k. menuTable s' (svc_workspace v) k = (if k \<in> set deleted then None else menuTable s (svc_workspace v) k)"
        using remove_subtree [OF assms Inr] by blast
      moreover have "menuForest s' (svc_workspace v)"
        using pruned_forest [OF assms(3), of s' "menu_ID m"] r(4,5) by simp
      moreover have "menuTable s (svc_workspace v) (menu_ID m) = Some m" "TrimSpace i \<in> {menu_ID m, menu_Key m}"
        using menuTarget_Some [OF Some] menus_listed(1) [OF Inr assms(1,2)] by auto
      ultimately show ?thesis
        by (intro exI [of _ "Inr deleted"] exI [of _ s'] conjI) (simp_all only: sum.case, blast)
    qed (use RemoveMenu_absent [OF Inr] assms(3) in auto)
  qed (use assms(3) in \<open>simp add: RemoveMenu_def Let_def\<close>)
qed

lemma menu_tree_witness:
  "menuForest (snd (UpsertMenu sampleEnv sampleSvc menuStore (sampleMenu ''home'' ''reports''))) ''acme''
   \<and> fst (UpsertMenu sampleEnv sampleSvc menuStore (sampleMenu ''home'' ''reports'')) =
       Inl (badRequest sampleEnv ''backend.identity.menu_parent_cycle'' [''menu'', ''home''])
   \<and> (\<exists>s'. RemoveMenu sampleEnv sampleSvc menuStore ''home'' = Some (Inr [''reports'', ''home''], s') \<and> menuForest s' ''acme'')"
proof -
  have "nulFree (svc_workspace sampleSvc)" by (simp add: nulFree_def NUL_def)
  note tree = menu_tree [OF menuStore_wf this, of sampleEnv "sampleMenu ''home'' ''reports''" "''home''"]
  have refused: "fst (UpsertMenu sampleEnv sampleSvc menuStore (sampleMenu ''home'' ''reports'')) =
      Inl (badRequest sampleEnv ''backend.identity.menu_parent_cycle'' [''menu'', ''home''])" by code_simp
  have "map_option fst (RemoveMenu sampleEnv sampleSvc menuStore ''home'') = Some (Inr [''reports'', ''home''])" by code_simp
  then obtain s' where "RemoveMenu sampleEnv sampleSvc menuStore ''home'' = Some (Inr [''reports'', ''home''], s')" by auto
  with tree menuStore_forest refused show ?thesis by auto
qed

end
