(* ===== verification/FieldAccess.thy ===== *)
theory FieldAccess
  imports Menus AuthTokens
begin

section \<open>Access to fields, actions and expanded roles\<close>

text \<open>
  \<open>contract/identity_object_access.go\<close> and \<open>identity_action_policy.go\<close>: which fields of
  an object a role may read, write and export, which are masked, and how risky an action
  is; \<open>model/identity_role_authorization_projection.go\<close>: permission sets and guardrails
  expanded into roles; and the keys derived by hashing.  The configuration of objects and
  fields is untyped JSON; \<open>sprint\<close> is \<open>fmt.Sprint\<close>, applied to a value or to nil.
\<close>

subsection \<open>Objects, fields and actions\<close>

record FieldSchema =
  fs_Key :: string
  fs_Name :: string
  fs_Description :: string
  fs_Type :: string
  fs_Config :: "(string, any) gomap"
  fs_Required :: bool
  fs_Unique :: bool
  fs_DisabledAt :: string

record ActionAssurancePolicy =
  aap_RequiredMethods :: "string list"
  aap_RecentReauthMaxAgeSeconds :: int
  aap_ApprovalVersionField :: string
  aap_ApprovalHashField :: string
  aap_MakerField :: string

record ObjectSchema =
  os_Key :: string
  os_Name :: string
  os_Description :: string
  os_Fields :: "FieldSchema list"
  os_ExportAssurancePolicy :: "ActionAssurancePolicy option"
  os_Config :: "(string, any) gomap"

record ActionSchema =
  act_Key :: string
  act_ObjectKey :: string
  act_Label :: string
  act_Kind :: string
  act_RiskLevel :: string
  act_AssurancePolicy :: "ActionAssurancePolicy option"

definition splitPermission :: "string \<Rightarrow> string \<times> string" where
  "splitPermission value0 =
     (let parts = splitOn CHR ''.'' (TrimSpace value0) in
      if length parts < 2 then ([], TrimSpace value0)
      else (TrimSpace (parts ! (length parts - 2)), TrimSpace (parts ! (length parts - 1))))"

text \<open>The permission an action is subject to, as the object and the operation on it.\<close>

definition ActionPermissionSubject :: "ActionSchema \<Rightarrow> string \<times> string" where
  "ActionPermissionSubject action =
     (let permission = TrimSpace (act_Key action); objectKey = TrimSpace (act_ObjectKey action) in
      if objectKey \<noteq> [] \<and> HasPrefix permission (objectKey @ ''.'')
      then (objectKey, TrimSpace (TrimPrefix permission (objectKey @ ''.'')))
      else splitPermission permission)"

subsection \<open>Access to a field\<close>

definition coversField :: "string \<Rightarrow> string \<Rightarrow> FieldPermission \<Rightarrow> bool" where
  "coversField objectKey fieldKey p \<longleftrightarrow> fp_ObjectKey p = objectKey \<and> (fp_FieldKey p = fieldKey \<or> fp_FieldKey p = ''*'')"

text \<open>Without a covering permission the field is open; the action is \<open>read\<close> or \<open>update\<close>.\<close>

definition identityFieldAccess :: "RoleSchema \<Rightarrow> string \<Rightarrow> string \<Rightarrow> string \<Rightarrow> bool" where
  "identityFieldAccess role objectKey fieldKey action =
     (let covering = filter (coversField objectKey fieldKey) (rs_FieldPermissions role) in
      if IdentityRoleGuardrailDeniesField role objectKey fieldKey action then False
      else covering = [] \<or> list_ex (\<lambda>p. action = ''update'' \<and> fp_Write p \<or> action = ''read'' \<and> fp_Read p) covering)"

definition IdentityCanReadField :: "RoleSchema \<Rightarrow> string \<Rightarrow> string \<Rightarrow> bool" where
  "IdentityCanReadField role objectKey fieldKey = identityFieldAccess role objectKey fieldKey ''read''"

definition IdentityCanWriteField :: "RoleSchema \<Rightarrow> string \<Rightarrow> string \<Rightarrow> bool" where
  "IdentityCanWriteField role objectKey fieldKey = identityFieldAccess role objectKey fieldKey ''update''"

definition IdentityCanExportField :: "RoleSchema \<Rightarrow> string \<Rightarrow> string \<Rightarrow> bool" where
  "IdentityCanExportField role objectKey fieldKey =
     (let covering = filter (coversField objectKey fieldKey) (rs_FieldPermissions role) in
      if IdentityRoleGuardrailDeniesField role objectKey fieldKey ''export'' then False
      else if rs_ExportRules role \<noteq> []
              \<and> \<not> list_ex (\<lambda>r. er_ObjectKey r = objectKey \<and> (er_Fields r = [] \<or> fieldKey \<in> set (er_Fields r))) (rs_ExportRules role)
      then False
      else covering = [] \<or> list_ex fp_Export covering)"

text \<open>Masked when some covering permission allows it and every allowing one masks.\<close>

fun maskLoop :: "(FieldPermission \<Rightarrow> bool) \<Rightarrow> bool \<Rightarrow> FieldPermission list \<Rightarrow> bool" where
  "maskLoop allows foundAllowed [] = foundAllowed"
| "maskLoop allows foundAllowed (p # ps) =
     (if \<not> allows p then maskLoop allows foundAllowed ps
      else if \<not> fp_Masked p then False
      else maskLoop allows True ps)"

definition identityFieldMasked :: "RoleSchema \<Rightarrow> string \<Rightarrow> string \<Rightarrow> bool \<Rightarrow> bool" where
  "identityFieldMasked role objectKey fieldKey export =
     maskLoop (\<lambda>p. if export then fp_Export p else fp_Read p) False
       (filter (coversField objectKey fieldKey) (rs_FieldPermissions role))"

definition IdentityFieldReadMasked :: "RoleSchema \<Rightarrow> string \<Rightarrow> string \<Rightarrow> bool" where
  "IdentityFieldReadMasked role objectKey fieldKey = identityFieldMasked role objectKey fieldKey False"

definition IdentityFieldExportMasked :: "RoleSchema \<Rightarrow> string \<Rightarrow> string \<Rightarrow> bool" where
  "IdentityFieldExportMasked role objectKey fieldKey = identityFieldMasked role objectKey fieldKey True"

definition sensitivityLevels :: "string list" where
  "sensitivityLevels = [''sensitive'', ''secret'', ''credential'', ''security_raw'', ''key_material'']"

definition identityFieldRequiresExplicitAccess :: "(any option \<Rightarrow> string) \<Rightarrow> ObjectSchema \<Rightarrow> FieldSchema \<Rightarrow> bool" where
  "identityFieldRequiresExplicitAccess sprint object field =
     (TrimSpace (sprint (map_of (os_Config object) ''field_access_mode'')) = ''default_deny''
      \<or> map_of (fs_Config field) ''sensitive'' = Some (AnyBool True)
      \<or> TrimSpace (sprint (map_of (fs_Config field) ''sensitivity'')) \<in> set sensitivityLevels)"

definition identityCanAccessObjectField ::
  "(any option \<Rightarrow> string) \<Rightarrow> RoleSchema \<Rightarrow> ObjectSchema \<Rightarrow> FieldSchema \<Rightarrow> string \<Rightarrow> bool" where
  "identityCanAccessObjectField sprint role object field action =
     (let covering = filter (coversField (os_Key object) (fs_Key field)) (rs_FieldPermissions role) in
      if IdentityRoleGuardrailDeniesField role (os_Key object) (fs_Key field) action then False
      else if covering \<noteq> []
      then list_ex (\<lambda>p. if action = ''update'' then fp_Write p else if action = ''export'' then fp_Export p else fp_Read p) covering
      else if identityFieldRequiresExplicitAccess sprint object field then False
      else if action = ''update'' then IdentityCanWriteField role (os_Key object) (fs_Key field)
      else if action = ''export'' then IdentityCanExportField role (os_Key object) (fs_Key field)
      else IdentityCanReadField role (os_Key object) (fs_Key field))"

definition IdentityCanReadObjectField :: "(any option \<Rightarrow> string) \<Rightarrow> RoleSchema \<Rightarrow> ObjectSchema \<Rightarrow> FieldSchema \<Rightarrow> bool" where
  "IdentityCanReadObjectField sprint role object field = identityCanAccessObjectField sprint role object field ''read''"

definition IdentityCanWriteObjectField :: "(any option \<Rightarrow> string) \<Rightarrow> RoleSchema \<Rightarrow> ObjectSchema \<Rightarrow> FieldSchema \<Rightarrow> bool" where
  "IdentityCanWriteObjectField sprint role object field = identityCanAccessObjectField sprint role object field ''update''"

definition IdentityCanExportObjectField :: "(any option \<Rightarrow> string) \<Rightarrow> RoleSchema \<Rightarrow> ObjectSchema \<Rightarrow> FieldSchema \<Rightarrow> bool" where
  "IdentityCanExportObjectField sprint role object field = identityCanAccessObjectField sprint role object field ''export''"

subsection \<open>The risk of an action\<close>

abbreviation ActionAssuranceRecentReauth :: string where "ActionAssuranceRecentReauth \<equiv> ''recent_reauth''"
abbreviation ActionAssuranceOTP :: string where "ActionAssuranceOTP \<equiv> ''otp''"
abbreviation ActionAssuranceMakerChecker :: string where "ActionAssuranceMakerChecker \<equiv> ''maker_checker''"
abbreviation ActionAssuranceWorkflowApproval :: string where "ActionAssuranceWorkflowApproval \<equiv> ''workflow_approval''"

definition IdentityActionAssuranceMethods :: "ActionSchema \<Rightarrow> string list" where
  "IdentityActionAssuranceMethods action =
     (case act_AssurancePolicy action of None \<Rightarrow> [] | Some p \<Rightarrow> aap_RequiredMethods p)"

definition IdentityActionApprovalRequired :: "ActionSchema \<Rightarrow> bool" where
  "IdentityActionApprovalRequired action =
     list_ex (\<lambda>m. m = ActionAssuranceMakerChecker \<or> m = ActionAssuranceWorkflowApproval) (IdentityActionAssuranceMethods action)"

definition IdentityActionRiskLevels :: "string list" where
  "IdentityActionRiskLevels = [''low'', ''medium'', ''high'', ''critical'']"

definition IdentityActionRiskLevelRank :: "string \<Rightarrow> int" where
  "IdentityActionRiskLevelRank v =
     (if TrimSpace v = ''low'' then 1 else if TrimSpace v = ''medium'' then 2
      else if TrimSpace v = ''high'' then 3 else if TrimSpace v = ''critical'' then 4 else 0)"

definition identityActionInferredRiskLevel :: "ActionSchema \<Rightarrow> string" where
  "identityActionInferredRiskLevel action =
     (if IdentityActionApprovalRequired action then ''critical''
      else if list_ex (\<lambda>m. m = ActionAssuranceOTP \<or> m = ActionAssuranceRecentReauth) (IdentityActionAssuranceMethods action)
      then ''high''
      else if act_Kind action = ''record_delete'' then ''high''
      else if act_Kind action \<in> {''record_update'', ''record_operation'', ''bulk_operation''} then ''medium''
      else ''low'')"

definition IdentityActionRiskLevel :: "ActionSchema \<Rightarrow> string" where
  "IdentityActionRiskLevel action =
     (let inferred = identityActionInferredRiskLevel action; declared = TrimSpace (act_RiskLevel action) in
      if IdentityActionRiskLevelRank declared > IdentityActionRiskLevelRank inferred then declared else inferred)"

definition IdentityActionHasEnhancedAssurance :: "ActionSchema \<Rightarrow> bool" where
  "IdentityActionHasEnhancedAssurance action =
     (IdentityActionApprovalRequired action
      \<or> list_ex (\<lambda>m. m = ActionAssuranceRecentReauth \<or> m = ActionAssuranceOTP) (IdentityActionAssuranceMethods action))"

subsection \<open>Expanding permission sets and guardrails\<close>

text \<open>The encoding of a grant is an argument; the other encodings are those of the environment.\<close>

definition identityCanonicalizeRoleAuthorization :: "env \<Rightarrow> (RolePermission \<Rightarrow> string) \<Rightarrow> RoleSchema \<Rightarrow> RoleSchema" where
  "identityCanonicalizeRoleAuthorization e encodeGrant role = (let c = env_Codec e in
     role\<lparr>rs_Permissions := sortByCode encodeGrant (rs_Permissions role),
          rs_FieldPermissions := sortByCode (cod_FieldPermission c) (rs_FieldPermissions role),
          rs_ReferencePermissions := sortByCode (cod_ReferencePermission c) (rs_ReferencePermissions role),
          rs_ExportRules := sortByCode (cod_ExportRule c) (rs_ExportRules role),
          rs_Guardrails := sortByCode (cod_Guardrail c) (rs_Guardrails role)\<rparr>)"

text \<open>The permission sets a role names, directly and through its groups, in order of their keys.\<close>

definition roleSetKeys :: "(string, IdentityPermissionSetGroup) gomap \<Rightarrow> RoleSchema \<Rightarrow> string list" where
  "roleSetKeys groupByKey role =
     identityUniqueSortedStrings (rs_PermissionSetKeys role @ concat (map (\<lambda>groupKey.
       case map_of groupByKey (TrimSpace groupKey) of None \<Rightarrow> [] | Some grp \<Rightarrow> pgrp_PermissionSetKeys grp)
       (rs_PermissionSetGroups role)))"

definition addPermissionSet :: "RoleSchema \<Rightarrow> IdentityPermissionSet \<Rightarrow> RoleSchema" where
  "addPermissionSet role pset = role\<lparr>rs_FieldPermissions := rs_FieldPermissions role @ pset_FieldPermissions pset,
     rs_ReferencePermissions := rs_ReferencePermissions role @ pset_ReferencePermissions pset,
     rs_ExportRules := rs_ExportRules role @ pset_ExportRules pset\<rparr>"

definition found :: "(string, 'v) gomap \<Rightarrow> string list \<Rightarrow> 'v list" where
  "found m keys = concat (map (\<lambda>k. case map_of m k of None \<Rightarrow> [] | Some x \<Rightarrow> [x]) keys)"

definition IdentityExpandRoleAuthorization ::
  "env \<Rightarrow> (RolePermission \<Rightarrow> string) \<Rightarrow> RoleSchema list \<Rightarrow> IdentityPermissionSet list \<Rightarrow> IdentityPermissionSetGroup list
   \<Rightarrow> IdentityGuardrailPolicy list \<Rightarrow> RoleSchema list" where
  "IdentityExpandRoleAuthorization e encodeGrant roles sets groups guardrails =
     (let setByKey = catalog pset_Key (\<lambda>k x. x\<lparr>pset_Key := k\<rparr>) sets;
          groupByKey = catalog pgrp_Key (\<lambda>k x. x\<lparr>pgrp_Key := k\<rparr>) groups;
          guardrailByKey = catalog gr_Key (\<lambda>k x. x\<lparr>gr_Key := k\<rparr>) guardrails in
      map (\<lambda>role0.
        (let role1 = foldl addPermissionSet role0 (found setByKey (roleSetKeys groupByKey role0));
             role2 = role1\<lparr>rs_Guardrails := rs_Guardrails role1
               @ found guardrailByKey (identityUniqueSortedStrings (rs_GuardrailKeys role1))\<rparr>;
             role3 = role2\<lparr>rs_Permissions :=
               sortSlice (\<lambda>a b. grant_PermissionKey a < grant_PermissionKey b) (rs_Permissions role2)\<rparr> in
         identityCanonicalizeRoleAuthorization e encodeGrant role3)) roles)"

definition ExpandRolePermissionSets ::
  "env \<Rightarrow> (RolePermission \<Rightarrow> string) \<Rightarrow> RoleSchema list \<Rightarrow> IdentityPermissionSet list \<Rightarrow> IdentityPermissionSetGroup list
   \<Rightarrow> RoleSchema list" where
  "ExpandRolePermissionSets e encodeGrant roles sets groups = IdentityExpandRoleAuthorization e encodeGrant roles sets groups []"

definition ExpandRoleAuthorization ::
  "env \<Rightarrow> (RolePermission \<Rightarrow> string) \<Rightarrow> RoleSchema list \<Rightarrow> IdentityPermissionSet list \<Rightarrow> IdentityPermissionSetGroup list
   \<Rightarrow> IdentityGuardrailPolicy list \<Rightarrow> RoleSchema list" where
  "ExpandRoleAuthorization e encodeGrant roles sets groups guardrails =
     IdentityExpandRoleAuthorization e encodeGrant roles sets groups guardrails"

subsection \<open>Derived keys\<close>

record IdentitySubjectErasure =
  ers_Token :: string
  ers_Name :: string
  ers_Email :: string

text \<open>\<open>hash\<close> is SHA-256; an erased subject keeps its first twelve bytes.\<close>

definition IdentityAnonymizedSubject :: "(string \<Rightarrow> string) \<Rightarrow> string \<Rightarrow> string \<Rightarrow> IdentitySubjectErasure" where
  "IdentityAnonymizedSubject hash workspaceID userID =
     (let token = hexEncode (take 12 (hash (workspaceID @ NUL @ userID))) in
      \<lparr>ers_Token = token, ers_Name = ''Erased subject '' @ token, ers_Email = ''erased+'' @ token @ ''@invalid.local''\<rparr>)"

definition IdentityLoginNameKey :: "(string \<Rightarrow> string) \<Rightarrow> string \<Rightarrow> string option" where
  "IdentityLoginNameKey hash login0 =
     (let login = ToLower (TrimSpace login0) in
      if login = [] then None else Some (hexEncode (hash login)))"

text \<open>\<open>foldKey\<close> chooses the least rune of each case-folding cycle.\<close>

definition IdentityOrganizationUnitSiblingKey ::
  "(string \<Rightarrow> string) \<Rightarrow> (string \<Rightarrow> string) \<Rightarrow> string option \<Rightarrow> string \<Rightarrow> string" where
  "IdentityOrganizationUnitSiblingKey hash foldKey parentID name =
     (let parent = (case parentID of None \<Rightarrow> [] | Some p \<Rightarrow> TrimSpace p) in
      hexEncode (hash (parent @ NUL @ foldKey (TrimSpace name))))"

datatype IdentityPlatformFieldOwner = OwnerAccount | OwnerUser

definition identityAccountOwnedProfileFields :: "string list" where
  "identityAccountOwnedProfileFields = [''account_status'', ''password'']"

definition identityUserOwnedProfileFields :: "string list" where
  "identityUserOwnedProfileFields = [''org_id'', ''support_org_id'', ''organization_path'', ''manager_user_id'',
     ''reporting_path'', ''worker_no'', ''worker_type'', ''work_status'', ''start_date'', ''end_date'']"

definition IdentityPlatformOwnerForProfileField :: "string \<Rightarrow> IdentityPlatformFieldOwner option" where
  "IdentityPlatformOwnerForProfileField fieldKey =
     (if fieldKey \<in> set identityAccountOwnedProfileFields then Some OwnerAccount
      else if fieldKey \<in> set identityUserOwnedProfileFields then Some OwnerUser else None)"

end
