(* ===== verification/AccessProjections.thy ===== *)
theory AccessProjections
  imports FieldAccess
begin

section \<open>Projections of a principal's access\<close>

text \<open>
  \<open>projection/*.go\<close> of the identity domain: the snapshot of what a principal may do and
  where each grant comes from, the explanation of one decision, the feature permissions of
  objects and actions, the reports and previews of governance, and the request contexts of
  a principal.  Business profiles are not part of the principal of the model; they are
  arguments where a projection reads them.
\<close>

subsection \<open>Helpers\<close>

definition identityProjectionPermissionParts :: "string \<Rightarrow> string \<times> string" where
  "identityProjectionPermissionParts key =
     (let parts = splitOn CHR ''.'' (TrimSpace key) in
      if length parts < 2 then ([], TrimSpace key) else (JoinStrings (butlast parts) ''.'', last parts))"

definition identityProjectionUniqueStrings :: "string list \<Rightarrow> string list" where
  "identityProjectionUniqueStrings values = sortStrings (remdups (filter (\<lambda>v. v \<noteq> []) (map TrimSpace values)))"

definition identityProjectionAssignmentKey :: "IdentityUserRoleAssignment \<Rightarrow> string" where
  "identityProjectionAssignmentKey a =
     asg_UserID a @ NUL @ asg_RoleID a @ NUL @ asg_BindingKey a @ NUL @ asg_ProfileID a"

definition identityProjectionRoleKey :: "IdentityRole \<Rightarrow> string" where
  "identityProjectionRoleKey role = (if TrimSpace (role_Key role) \<noteq> [] then TrimSpace (role_Key role) else TrimSpace (role_ID role))"

definition appendAt :: "string \<Rightarrow> 'v list \<Rightarrow> (string, 'v list) gomap \<Rightarrow> (string, 'v list) gomap" where
  "appendAt k vs m = AList.update k (mapGet [] m k @ vs) m"

text \<open>The first of the values with each key, in their order.\<close>

fun firstPerKey :: "('a \<Rightarrow> string) \<Rightarrow> string set \<Rightarrow> 'a list \<Rightarrow> 'a list" where
  "firstPerKey key seen [] = []"
| "firstPerKey key seen (x # xs) =
     (if key x \<in> seen then firstPerKey key seen xs else x # firstPerKey key (insert (key x) seen) xs)"

text \<open>A configuration value as a string, and nothing when it is of another type.\<close>

definition identityProjectionString :: "any option \<Rightarrow> string" where
  "identityProjectionString v = (case v of Some (AnyString s) \<Rightarrow> s | _ \<Rightarrow> [])"

definition identityProjectionSensitiveField :: "ObjectSchema \<Rightarrow> FieldSchema \<Rightarrow> bool" where
  "identityProjectionSensitiveField object field = identityFieldRequiresExplicitAccess identityProjectionString object field"

subsection \<open>The effective access of a principal\<close>

record IdentityGrantSource =
  gs_Type :: string
  gs_Key :: string
  gs_RoleID :: string
  gs_RoleKey :: string
  gs_PermissionSetKey :: string
  gs_PermissionSetGroup :: string
  gs_AssignmentSource :: string
  gs_BindingKey :: string
  gs_ProfileID :: string
  gs_ValidFrom :: string
  gs_ValidUntil :: string
  gs_ExpiresAt :: string

definition zeroSource :: IdentityGrantSource where
  "zeroSource = \<lparr>gs_Type = [], gs_Key = [], gs_RoleID = [], gs_RoleKey = [], gs_PermissionSetKey = [],
     gs_PermissionSetGroup = [], gs_AssignmentSource = [], gs_BindingKey = [], gs_ProfileID = [], gs_ValidFrom = [],
     gs_ValidUntil = [], gs_ExpiresAt = []\<rparr>"

record IdentityEffectivePermissionGrant =
  epg_Key :: string
  epg_ObjectKey :: string
  epg_Action :: string
  epg_DataScope :: IdentityDataScope
  epg_DataPolicy :: "ProjectDataPolicy option"
  epg_AuditDenial :: bool
  epg_Sources :: "IdentityGrantSource list"

record IdentityEffectiveDataAccess =
  eda_PermissionKey :: string
  eda_Resource :: string
  eda_Action :: string
  eda_Allowed :: bool
  eda_Scopes :: "IdentityDataScope list"
  eda_DataPolicy :: "ProjectDataPolicy option"
  eda_AuditDenial :: bool
  eda_Sources :: "IdentityGrantSource list"

record IdentityEffectiveFieldAccess =
  efa_ObjectKey :: string
  efa_FieldKey :: string
  efa_Read :: bool
  efa_Write :: bool
  efa_Export :: bool
  efa_Masked :: bool
  efa_Reason :: string
  efa_AuditDenial :: bool
  efa_Policies :: "ContextualFieldPolicyRule list"
  efa_Sensitive :: bool
  efa_Sources :: "IdentityGrantSource list"

record IdentityEffectiveAccessSnapshot =
  eas_UserID :: string
  eas_Known :: bool
  eas_AuthorizationRevision :: string
  eas_OrgID :: string
  eas_SupportOrgID :: string
  eas_SupportOrgScopeIDs :: "string list"
  eas_OrganizationPath :: string
  eas_RoleAssignments :: "IdentityUserRoleAssignment list"
  eas_RoleKeys :: "string list"
  eas_PermissionSetKeys :: "string list"
  eas_PermissionSetGroups :: "string list"
  eas_GuardrailKeys :: "string list"
  eas_Permissions :: "IdentityEffectivePermissionGrant list"
  eas_DataAccess :: "IdentityEffectiveDataAccess list"
  eas_FieldAccess :: "IdentityEffectiveFieldAccess list"
  eas_ReferencePermissions :: "ReferencePermission list"
  eas_ExportRules :: "ExportRule list"
  eas_Menus :: "IdentityMenu list"

type_synonym fieldDecision = "RoleSchema \<Rightarrow> ObjectSchema \<Rightarrow> FieldSchema \<Rightarrow> bool \<times> bool \<times> bool \<times> bool"

record IdentityEffectiveAccessProjectionInput =
  inp_Principal :: Principal
  inp_Assignments :: "IdentityUserRoleAssignment list"
  inp_ProjectionRoles :: "IdentityRole list"
  inp_RoleDefinitions :: "RoleSchema list"
  inp_PermissionSets :: "IdentityPermissionSet list"
  inp_PermissionSetGroups :: "IdentityPermissionSetGroup list"
  inp_Menus :: "IdentityMenu list"
  inp_RoleMenus :: "IdentityRoleMenuAssignment list"
  inp_Objects :: "ObjectSchema list"
  inp_FieldDecision :: "fieldDecision option"

definition sourceKey :: "IdentityGrantSource \<Rightarrow> string" where
  "sourceKey g = gs_Type g @ NUL @ gs_Key g @ NUL @ gs_RoleID g @ NUL @ gs_PermissionSetKey g @ NUL @ gs_PermissionSetGroup g"

definition sourceLess :: "IdentityGrantSource \<Rightarrow> IdentityGrantSource \<Rightarrow> bool" where
  "sourceLess a b \<longleftrightarrow> gs_Type a @ NUL @ gs_Key a @ NUL @ gs_RoleID a < gs_Type b @ NUL @ gs_Key b @ NUL @ gs_RoleID b"

definition identityProjectionUniqueSources :: "IdentityGrantSource list \<Rightarrow> IdentityGrantSource list" where
  "identityProjectionUniqueSources values = sortSlice sourceLess (firstPerKey sourceKey {} values)"

type_synonym roleSources = "(string, IdentityGrantSource list) gomap"

definition assignmentSource :: "IdentityUserRoleAssignment \<Rightarrow> string \<Rightarrow> IdentityGrantSource" where
  "assignmentSource a roleKey = \<lparr>gs_Type = ''role_assignment'', gs_Key = asg_RoleID a, gs_RoleID = asg_RoleID a,
     gs_RoleKey = roleKey, gs_PermissionSetKey = [], gs_PermissionSetGroup = [], gs_AssignmentSource = asg_Source a,
     gs_BindingKey = asg_BindingKey a, gs_ProfileID = asg_ProfileID a, gs_ValidFrom = asg_ValidFrom a,
     gs_ValidUntil = asg_ValidUntil a, gs_ExpiresAt = (case asg_ExpiresAt a of None \<Rightarrow> [] | Some x \<Rightarrow> x)\<rparr>"

text \<open>The keys and sources of one assignment; an unknown role is the zero role.\<close>

record assignmentFacts =
  af_RoleKey :: string
  af_SetKeys :: "string list"
  af_SetGroups :: "string list"
  af_GuardrailKeys :: "string list"
  af_Sources :: "IdentityGrantSource list"

definition assignmentFactsOf ::
  "(string, IdentityRole) gomap \<Rightarrow> (string, RoleSchema) gomap \<Rightarrow> (string, IdentityPermissionSetGroup) gomap
   \<Rightarrow> IdentityUserRoleAssignment \<Rightarrow> assignmentFacts" where
  "assignmentFactsOf roleByID definitionByKey groupByKey a =
     (let role = map_of roleByID (asg_RoleID a);
          roleID = (case role of None \<Rightarrow> [] | Some r \<Rightarrow> role_ID r);
          roleKey = (case role of None \<Rightarrow> [] | Some r \<Rightarrow> identityProjectionRoleKey r);
          definition = mapGet zeroRoleSchema definitionByKey roleKey;
          sets = map TrimSpace (rs_PermissionSetKeys definition);
          groups = map TrimSpace (rs_PermissionSetGroups definition);
          grouped = concat (map (\<lambda>g. map (\<lambda>k. (g, TrimSpace k))
            (case map_of groupByKey g of None \<Rightarrow> [] | Some grp \<Rightarrow> pgrp_PermissionSetKeys grp)) groups) in
      \<lparr>af_RoleKey = roleKey, af_SetKeys = sets @ map snd grouped, af_SetGroups = groups,
       af_GuardrailKeys = rs_GuardrailKeys definition,
       af_Sources = assignmentSource a roleKey
         # map (\<lambda>k. zeroSource\<lparr>gs_Type := ''permission_set'', gs_Key := k, gs_RoleID := roleID, gs_RoleKey := roleKey,
               gs_PermissionSetKey := k\<rparr>) sets
         @ map (\<lambda>(g, k). zeroSource\<lparr>gs_Type := ''permission_set_group'', gs_Key := g, gs_RoleID := roleID,
               gs_RoleKey := roleKey, gs_PermissionSetKey := k, gs_PermissionSetGroup := g\<rparr>) grouped\<rparr>)"

definition identityProjectionSourcesForGrant ::
  "env \<Rightarrow> string \<Rightarrow> roleSources \<Rightarrow> (string, RoleSchema) gomap \<Rightarrow> IdentityGrantSource list" where
  "identityProjectionSourcesForGrant e key sources roles =
     identityProjectionUniqueSources (concat (map (\<lambda>(roleKey, values).
       case RolePermissionForKey e (rs_Permissions (mapGet zeroRoleSchema roles roleKey)) key of
         None \<Rightarrow> []
       | Some _ \<Rightarrow> filter (\<lambda>g. gs_Type g = ''role_assignment'') values) (rangeMap e sources)))"

definition allSources :: "env \<Rightarrow> roleSources \<Rightarrow> IdentityGrantSource list" where
  "allSources e sources = identityProjectionUniqueSources (concat (map snd (rangeMap e sources)))"

definition identityProjectionDataAccess :: "env \<Rightarrow> RoleSchema \<Rightarrow> roleSources \<Rightarrow> IdentityEffectiveDataAccess list" where
  "identityProjectionDataAccess e role sources =
     sortSlice (\<lambda>a b. eda_PermissionKey a < eda_PermissionKey b)
       (map (\<lambda>p. (let key = TrimSpace (grant_PermissionKey p) in
          \<lparr>eda_PermissionKey = key, eda_Resource = fst (identityProjectionPermissionParts key),
           eda_Action = snd (identityProjectionPermissionParts key), eda_Allowed = True,
           eda_Scopes = (case grant_DataPolicy p of None \<Rightarrow> [grant_DataScope p] | Some _ \<Rightarrow> []),
           eda_DataPolicy = grant_DataPolicy p, eda_AuditDenial = grant_AuditDenial p, eda_Sources = allSources e sources\<rparr>))
        (filter (\<lambda>p. (let (resource, action) = identityProjectionPermissionParts (TrimSpace (grant_PermissionKey p)) in
             TrimSpace (grant_PermissionKey p) \<noteq> [] \<and> resource \<noteq> [] \<and> action \<noteq> [] \<and> env_GrantValid e p))
           (rs_Permissions role)))"

definition identityProjectionContextualFieldRules ::
  "RoleSchema \<Rightarrow> string \<Rightarrow> string \<Rightarrow> string \<times> bool \<times> ContextualFieldPolicyRule list" where
  "identityProjectionContextualFieldRules role objectKey fieldKey =
     (let covering = filter (coversField objectKey fieldKey) (rs_FieldPermissions role) in
      ((case find (\<lambda>r. r \<noteq> []) (map fp_Reason covering) of None \<Rightarrow> [] | Some r \<Rightarrow> r),
       list_ex fp_AuditDenial covering, concat (map fp_Policies covering)))"

definition fieldAccessOf ::
  "env \<Rightarrow> RoleSchema \<Rightarrow> roleSources \<Rightarrow> fieldDecision \<Rightarrow> ObjectSchema \<Rightarrow> FieldSchema \<Rightarrow> IdentityEffectiveFieldAccess" where
  "fieldAccessOf e role sources decision object field =
     (let (r, w, x, masked) = decision role object field;
          (reason, auditDenial, rules) = identityProjectionContextualFieldRules role (os_Key object) (fs_Key field) in
      \<lparr>efa_ObjectKey = os_Key object, efa_FieldKey = fs_Key field, efa_Read = r, efa_Write = w, efa_Export = x,
       efa_Masked = masked, efa_Reason = reason, efa_AuditDenial = auditDenial, efa_Policies = rules,
       efa_Sensitive = identityProjectionSensitiveField object field, efa_Sources = allSources e sources\<rparr>)"

definition identityProjectionFieldAccess ::
  "env \<Rightarrow> RoleSchema \<Rightarrow> ObjectSchema list \<Rightarrow> roleSources \<Rightarrow> fieldDecision option \<Rightarrow> IdentityEffectiveFieldAccess list" where
  "identityProjectionFieldAccess e role objects sources decision =
     (case decision of
        None \<Rightarrow> []
      | Some d \<Rightarrow> sortSlice (\<lambda>a b. efa_ObjectKey a @ NUL @ efa_FieldKey a < efa_ObjectKey b @ NUL @ efa_FieldKey b)
          (concat (map (\<lambda>object. map (fieldAccessOf e role sources d object)
             (filter (\<lambda>f. fs_DisabledAt f = []) (os_Fields object))) objects)))"

definition IdentityBuildEffectiveAccessSnapshot ::
  "env \<Rightarrow> IdentityEffectiveAccessProjectionInput \<Rightarrow> IdentityEffectiveAccessSnapshot" where
  "IdentityBuildEffectiveAccessSnapshot e input =
     (let p = inp_Principal input; role = prin_Role p;
          roleByID = putAll [] (map (\<lambda>r. (role_ID r, r)) (inp_ProjectionRoles input));
          definitionByKey = putAll [] (map (\<lambda>r. (TrimSpace (rs_Key r), r)) (inp_RoleDefinitions input));
          groupByKey = putAll [] (map (\<lambda>g. (TrimSpace (pgrp_Key g), g)) (inp_PermissionSetGroups input));
          facts = map (assignmentFactsOf roleByID definitionByKey groupByKey) (inp_Assignments input);
          sources = foldl (\<lambda>m f. appendAt (af_RoleKey f) (af_Sources f) m) [] facts;
          assigned = set (map asg_RoleID (inp_Assignments input));
          menuIDs = set (map rma_MenuID (filter (\<lambda>m. rma_RoleID m \<in> assigned) (inp_RoleMenus input))) in
      \<lparr>eas_UserID = prin_UserID p, eas_Known = prin_Known p, eas_AuthorizationRevision = prin_AuthorizationRevision p,
       eas_OrgID = prin_OrgID p, eas_SupportOrgID = prin_SupportOrgID p, eas_SupportOrgScopeIDs = prin_SupportOrgScopeIDs p,
       eas_OrganizationPath = prin_OrganizationPath p,
       eas_RoleAssignments = sortSlice (\<lambda>a b. identityProjectionAssignmentKey a < identityProjectionAssignmentKey b)
         (inp_Assignments input),
       eas_RoleKeys = identityProjectionUniqueStrings (map af_RoleKey facts),
       eas_PermissionSetKeys = identityProjectionUniqueStrings (concat (map af_SetKeys facts)),
       eas_PermissionSetGroups = identityProjectionUniqueStrings (concat (map af_SetGroups facts)),
       eas_GuardrailKeys = identityProjectionUniqueStrings (concat (map af_GuardrailKeys facts)),
       eas_Permissions = map (\<lambda>g. (let key = TrimSpace (grant_PermissionKey g) in
         \<lparr>epg_Key = key, epg_ObjectKey = fst (identityProjectionPermissionParts key),
          epg_Action = snd (identityProjectionPermissionParts key), epg_DataScope = grant_DataScope g,
          epg_DataPolicy = grant_DataPolicy g, epg_AuditDenial = grant_AuditDenial g,
          epg_Sources = identityProjectionSourcesForGrant e key sources definitionByKey\<rparr>)) (rs_Permissions role),
       eas_DataAccess = identityProjectionDataAccess e role sources,
       eas_FieldAccess = identityProjectionFieldAccess e role (inp_Objects input) sources (inp_FieldDecision input),
       eas_ReferencePermissions = rs_ReferencePermissions role, eas_ExportRules = rs_ExportRules role,
       eas_Menus = sortSlice (\<lambda>a b. menu_Key a < menu_Key b)
         (filter (\<lambda>m. menu_ID m \<in> menuIDs \<and> activeStatus (menu_Status m)) (inp_Menus input))\<rparr>)"

subsection \<open>Explaining one decision\<close>

record IdentityAccessExplainRequest =
  aer_UserID :: string
  aer_ObjectKey :: string
  aer_Action :: string
  aer_FieldKey :: string

datatype IdentityAccessReason =
  AccessReason (ar_Code: string) (ar_Effect: string) (ar_Layer: string) (ar_Subject: string)
    (ar_Details: "(string \<times> string) list") (ar_Sources: "IdentityGrantSource list") (ar_Children: "IdentityAccessReason list")

record IdentityAccessExplainResult =
  axr_UserID :: string
  axr_ObjectKey :: string
  axr_Action :: string
  axr_FieldKey :: string
  axr_Allowed :: bool
  axr_AuthorizationRevision :: string
  axr_Reason :: IdentityAccessReason

definition identityProjectionPermission ::
  "IdentityEffectivePermissionGrant list \<Rightarrow> string \<Rightarrow> IdentityEffectivePermissionGrant option" where
  "identityProjectionPermission values key = find (\<lambda>v. epg_Key v = key) values"

definition identityProjectionPermissionForAction ::
  "IdentityEffectivePermissionGrant list \<Rightarrow> string \<Rightarrow> string \<Rightarrow> IdentityEffectivePermissionGrant option" where
  "identityProjectionPermissionForAction values objectKey action =
     (case find (\<lambda>v. epg_ObjectKey v = objectKey \<and> epg_Action v = action) values of
        Some v \<Rightarrow> Some v
      | None \<Rightarrow> identityProjectionPermission values (objectKey @ ''.'' @ action))"

definition identityProjectionData ::
  "IdentityEffectiveDataAccess list \<Rightarrow> string \<Rightarrow> string \<Rightarrow> IdentityEffectiveDataAccess option" where
  "identityProjectionData values objectKey action =
     find (\<lambda>v. eda_Resource v = objectKey \<and> eda_Action v = action \<and> eda_Allowed v) values"

text \<open>The first entry of the field decides.\<close>

definition identityProjectionField ::
  "IdentityEffectiveFieldAccess list \<Rightarrow> string \<Rightarrow> string \<Rightarrow> string \<Rightarrow> IdentityEffectiveFieldAccess option \<times> bool" where
  "identityProjectionField values objectKey fieldKey action =
     (case find (\<lambda>v. efa_ObjectKey v = objectKey \<and> efa_FieldKey v = fieldKey) values of
        None \<Rightarrow> (None, False)
      | Some v \<Rightarrow> (Some v, if action = ''export'' then efa_Export v
          else if action \<in> {''update'', ''write'', ''create''} then efa_Write v else efa_Read v))"

definition identityProjectionDataScopesText :: "IdentityDataScope list \<Rightarrow> string" where
  "identityProjectionDataScopesText values = JoinStrings values '',''"

definition denyReason :: "string \<Rightarrow> string \<Rightarrow> string \<Rightarrow> IdentityAccessReason list \<Rightarrow> bool \<times> IdentityAccessReason" where
  "denyReason code layer subject children = (False, AccessReason code ''deny'' layer subject [] [] children)"

definition explainField ::
  "IdentityEffectiveAccessSnapshot \<Rightarrow> RoleSchema \<Rightarrow> string \<Rightarrow> string \<Rightarrow> string \<Rightarrow> IdentityAccessReason list
   \<Rightarrow> bool \<times> IdentityAccessReason" where
  "explainField snapshot role objectKey action fieldKey children =
     (let subject = objectKey @ ''.'' @ fieldKey;
          granted = (\<lambda>cs. (True, AccessReason ''effective_access_allowed'' ''allow'' ''effective'' (objectKey @ ''.'' @ action) [] [] cs)) in
      if fieldKey = [] then granted children
      else if IdentityRoleGuardrailDeniesField role objectKey fieldKey action
      then denyReason ''guardrail_field_denied'' ''guardrail'' subject children
      else (let (field, allowed) = identityProjectionField (eas_FieldAccess snapshot) objectKey fieldKey action in
        if \<not> allowed then denyReason ''field_permission_denied'' ''field'' subject children
        else granted (children @ [AccessReason ''field_permission_allowed'' ''allow'' ''field'' subject []
               (case field of None \<Rightarrow> [] | Some f \<Rightarrow> efa_Sources f) []])))"

definition explainDecision ::
  "env \<Rightarrow> IdentityEffectiveAccessSnapshot \<Rightarrow> RoleSchema \<Rightarrow> string \<Rightarrow> string \<Rightarrow> string \<Rightarrow> bool \<times> IdentityAccessReason" where
  "explainDecision e snapshot role objectKey action fieldKey =
     (let permissionKey = objectKey @ ''.'' @ action;
          permission = identityProjectionPermissionForAction (eas_Permissions snapshot) objectKey action;
          children = [AccessReason ''functional_permission_allowed'' ''allow'' ''functional'' permissionKey []
            (case permission of None \<Rightarrow> [] | Some g \<Rightarrow> epg_Sources g) []] in
      if \<not> eas_Known snapshot then denyReason ''identity_unknown'' ''identity'' [] []
      else if objectKey = [] \<or> action = [] then denyReason ''object_and_action_required'' ''request'' [] []
      else if IdentityRoleGuardrailDeniesPermission role permissionKey
          \<or> (case permission of None \<Rightarrow> False | Some g \<Rightarrow> IdentityRoleGuardrailDeniesPermission role (epg_Key g))
      then denyReason ''guardrail_permission_denied'' ''guardrail'' permissionKey []
      else if permission = None \<and> \<not> IdentityRoleAllows e role objectKey action
      then denyReason ''functional_permission_missing'' ''functional'' permissionKey []
      else if IdentityRoleGuardrailDeniesData role objectKey action
      then denyReason ''guardrail_data_denied'' ''guardrail'' objectKey children
      else (case identityProjectionData (eas_DataAccess snapshot) objectKey action of
          None \<Rightarrow> denyReason ''data_scope_missing'' ''data'' objectKey children
        | Some d \<Rightarrow> explainField snapshot role objectKey action fieldKey
            (children @ [AccessReason ''data_scope_allowed'' ''allow'' ''data'' objectKey
               [(''scopes'', identityProjectionDataScopesText (eda_Scopes d))] (eda_Sources d) []])))"

definition IdentityExplainEffectiveAccess ::
  "env \<Rightarrow> IdentityEffectiveAccessSnapshot \<Rightarrow> RoleSchema \<Rightarrow> IdentityAccessExplainRequest \<Rightarrow> IdentityAccessExplainResult" where
  "IdentityExplainEffectiveAccess e snapshot role request =
     (let objectKey = TrimSpace (aer_ObjectKey request); action = TrimSpace (aer_Action request);
          fieldKey = TrimSpace (aer_FieldKey request);
          (allowed, reason) = explainDecision e snapshot role objectKey action fieldKey in
      \<lparr>axr_UserID = aer_UserID request, axr_ObjectKey = objectKey, axr_Action = action, axr_FieldKey = fieldKey,
       axr_Allowed = allowed, axr_AuthorizationRevision = eas_AuthorizationRevision snapshot, axr_Reason = reason\<rparr>)"

end
