(* ===== verification/AccessReports.thy ===== *)
theory AccessReports
  imports AccessProjections
begin

section \<open>Feature permissions, governance and request contexts\<close>

text \<open>
  \<open>identity_feature_permission_projection.go\<close>, \<open>identity_access_governance_projection.go\<close> and
  \<open>identity_principal_context_projection.go\<close>: what the interface may offer a principal, the
  reverse index, reports and change previews of role governance, and the contexts under
  which a principal can make requests.
\<close>

subsection \<open>Feature permissions\<close>

record IdentityFeaturePermissionDecision =
  fpd_Key :: string
  fpd_ObjectKey :: string
  fpd_Action :: string
  fpd_PermissionKey :: string
  fpd_DataScopes :: "IdentityDataScope list"
  fpd_Allowed :: bool
  fpd_Reason :: string

record IdentityFieldAccessDecision =
  fad_Allowed :: bool
  fad_Reason :: string

record IdentityFieldPermissionSnapshot =
  fps_ObjectKey :: string
  fps_FieldKey :: string
  fps_FieldType :: string
  fps_Read :: IdentityFieldAccessDecision
  fps_Write :: IdentityFieldAccessDecision
  fps_Export :: IdentityFieldAccessDecision
  fps_Masked :: bool
  fps_Source :: string

record IdentityExportFieldPermission =
  efp_FieldKey :: string
  efp_FieldType :: string
  efp_Export :: IdentityFieldAccessDecision
  efp_Masked :: bool

record IdentityExportPermissionSnapshot =
  eps_ObjectKey :: string
  eps_Allowed :: bool
  eps_Reason :: string
  eps_DataScopes :: "IdentityDataScope list"
  eps_Fields :: "IdentityExportFieldPermission list"

record IdentityFeatureActionPermission =
  fap_Key :: string
  fap_ObjectKey :: string
  fap_Label :: string
  fap_Kind :: string
  fap_PermissionKey :: string
  fap_DataScopes :: "IdentityDataScope list"
  fap_Allowed :: bool
  fap_Reason :: string
  fap_AssuranceRequired :: "string list"

record IdentityFeaturePermissionSnapshot =
  feat_RoleKey :: string
  feat_UserID :: string
  feat_Objects :: "(string \<times> IdentityFeaturePermissionDecision list) list"
  feat_Actions :: "IdentityFeatureActionPermission list"
  feat_Functions :: "(string \<times> IdentityFeaturePermissionDecision) list"
  feat_Fields :: "IdentityFieldPermissionSnapshot list"
  feat_Exports :: "IdentityExportPermissionSnapshot list"

definition objectFeatureDecision :: "env \<Rightarrow> Principal \<Rightarrow> string \<Rightarrow> string \<Rightarrow> IdentityFeaturePermissionDecision" where
  "objectFeatureDecision e p objectKey action =
     (let permissionKey = TrimSpace objectKey @ ''.'' @ TrimSpace action;
          (allowed, reason) =
            (if \<not> prin_Known p then (False, ''role_unknown'')
             else if \<not> IdentityRoleAllows e (prin_Role p) objectKey action then (False, ''missing_permission'')
             else if \<not> IdentityRoleAllowsData e (prin_Role p) objectKey action then (False, ''missing_data_scope'')
             else (True, ''allowed'')) in
      \<lparr>fpd_Key = permissionKey, fpd_ObjectKey = TrimSpace objectKey, fpd_Action = TrimSpace action,
       fpd_PermissionKey = permissionKey, fpd_DataScopes = IdentityDataScopesForAction e (prin_Role p) objectKey action,
       fpd_Allowed = allowed, fpd_Reason = reason\<rparr>)"

text \<open>Every non-blank grant once, in order of the keys.\<close>

definition functionPermissionSnapshots :: "Principal \<Rightarrow> (string \<times> IdentityFeaturePermissionDecision) list" where
  "functionPermissionSnapshots p =
     sortSlice (\<lambda>a b. fst a < fst b) (map (\<lambda>k. (k,
         \<lparr>fpd_Key = k, fpd_ObjectKey = [], fpd_Action = [], fpd_PermissionKey = k, fpd_DataScopes = [],
          fpd_Allowed = True, fpd_Reason = ''allowed''\<rparr>))
       (firstPerKey id {} (filter (\<lambda>k. k \<noteq> []) (map (\<lambda>g. TrimSpace (grant_PermissionKey g)) (rs_Permissions (prin_Role p))))))"

definition fieldAccessDecision :: "bool \<Rightarrow> string \<Rightarrow> IdentityFieldAccessDecision" where
  "fieldAccessDecision allowed reason =
     (if allowed then \<lparr>fad_Allowed = True, fad_Reason = ''allowed''\<rparr>
      else \<lparr>fad_Allowed = False, fad_Reason = (if TrimSpace reason = [] then ''field_permission_denied'' else TrimSpace reason)\<rparr>)"

text \<open>
  The permissions that name the field exactly, merged.  Only the reason of the merged
  permission is used: the first that is not empty.
\<close>

definition explicitFieldPermission :: "RoleSchema \<Rightarrow> string \<Rightarrow> string \<Rightarrow> FieldPermission option" where
  "explicitFieldPermission role objectKey fieldKey =
     (case filter (\<lambda>p. fp_ObjectKey p = objectKey \<and> fp_FieldKey p = fieldKey) (rs_FieldPermissions role) of
        [] \<Rightarrow> None
      | p # ps \<Rightarrow> Some (p\<lparr>fp_Read := list_ex fp_Read (p # ps), fp_Write := list_ex fp_Write (p # ps),
          fp_Export := list_ex fp_Export (p # ps),
          fp_Masked := \<not> list_ex (\<lambda>x. (fp_Read x \<or> fp_Export x) \<and> \<not> fp_Masked x) (p # ps),
          fp_Policies := concat (map fp_Policies (p # ps)),
          fp_Reason := (case find (\<lambda>r. r \<noteq> []) (map fp_Reason (p # ps)) of None \<Rightarrow> [] | Some r \<Rightarrow> r)\<rparr>))"

definition explicitReason :: "RoleSchema \<Rightarrow> string \<Rightarrow> string \<Rightarrow> string" where
  "explicitReason role objectKey fieldKey =
     (case explicitFieldPermission role objectKey fieldKey of None \<Rightarrow> [] | Some p \<Rightarrow> fp_Reason p)"

definition fieldPermissionSnapshot ::
  "(any option \<Rightarrow> string) \<Rightarrow> RoleSchema \<Rightarrow> ObjectSchema \<Rightarrow> FieldSchema \<Rightarrow> IdentityFieldPermissionSnapshot" where
  "fieldPermissionSnapshot sprint role object field =
     (let reason = explicitReason role (os_Key object) (fs_Key field) in
      \<lparr>fps_ObjectKey = os_Key object, fps_FieldKey = fs_Key field, fps_FieldType = fs_Type field,
       fps_Read = fieldAccessDecision (IdentityCanReadObjectField sprint role object field) reason,
       fps_Write = fieldAccessDecision (IdentityCanWriteObjectField sprint role object field) reason,
       fps_Export = fieldAccessDecision (IdentityCanExportObjectField sprint role object field) reason,
       fps_Masked = IdentityFieldReadMasked role (os_Key object) (fs_Key field),
       fps_Source = (if explicitFieldPermission role (os_Key object) (fs_Key field) = None then ''default'' else ''explicit'')\<rparr>)"

definition enabledFields :: "ObjectSchema \<Rightarrow> FieldSchema list" where
  "enabledFields object = filter (\<lambda>f. fs_DisabledAt f = []) (os_Fields object)"

definition fieldPermissionSnapshots ::
  "(any option \<Rightarrow> string) \<Rightarrow> Principal \<Rightarrow> ObjectSchema \<Rightarrow> IdentityFieldPermissionSnapshot list" where
  "fieldPermissionSnapshots sprint p object = map (fieldPermissionSnapshot sprint (prin_Role p) object) (enabledFields object)"

definition exportPermissionSnapshot :: "env \<Rightarrow> Principal \<Rightarrow> ObjectSchema \<Rightarrow> IdentityExportPermissionSnapshot" where
  "exportPermissionSnapshot e p object =
     (let decision = objectFeatureDecision e p (os_Key object) ''export''; role = prin_Role p in
      \<lparr>eps_ObjectKey = os_Key object, eps_Allowed = fpd_Allowed decision, eps_Reason = fpd_Reason decision,
       eps_DataScopes = fpd_DataScopes decision,
       eps_Fields = map (\<lambda>field. \<lparr>efp_FieldKey = fs_Key field, efp_FieldType = fs_Type field,
           efp_Export = fieldAccessDecision (IdentityCanExportField role (os_Key object) (fs_Key field))
             (explicitReason role (os_Key object) (fs_Key field)),
           efp_Masked = IdentityFieldExportMasked role (os_Key object) (fs_Key field)\<rparr>) (enabledFields object)\<rparr>)"

definition actionAssuranceRequired :: "ActionSchema \<Rightarrow> string list" where
  "actionAssuranceRequired action =
     (case act_AssurancePolicy action of
        None \<Rightarrow> []
      | Some policy \<Rightarrow> sortStrings (remdups (filter (\<lambda>m. m \<noteq> []) (map TrimSpace (aap_RequiredMethods policy)))))"

definition actionName :: "ActionSchema \<Rightarrow> string" where
  "actionName action = snd (splitPermission (act_Key action))"

definition actionFeature :: "env \<Rightarrow> Principal \<Rightarrow> ActionSchema \<Rightarrow> IdentityFeatureActionPermission" where
  "actionFeature e p action =
     (let permissionKey = TrimSpace (act_Key action);
          (object0, operation0) = splitPermission permissionKey;
          objectKey = (if object0 = [] then act_ObjectKey action else object0);
          operation = (if operation0 = [] then actionName action else operation0);
          decision = objectFeatureDecision e p objectKey operation in
      \<lparr>fap_Key = act_Key action, fap_ObjectKey = act_ObjectKey action, fap_Label = act_Label action,
       fap_Kind = act_Kind action, fap_PermissionKey = permissionKey, fap_DataScopes = fpd_DataScopes decision,
       fap_Allowed = fpd_Allowed decision, fap_Reason = fpd_Reason decision,
       fap_AssuranceRequired = actionAssuranceRequired action\<rparr>)"

definition objectOperations :: "string list" where
  "objectOperations = [''read'', ''create'', ''update'', ''delete'', ''import'', ''export'']"

definition IdentityBuildFeaturePermissions ::
  "env \<Rightarrow> (any option \<Rightarrow> string) \<Rightarrow> ObjectSchema list \<Rightarrow> ActionSchema list \<Rightarrow> Principal \<Rightarrow> IdentityFeaturePermissionSnapshot res" where
  "IdentityBuildFeaturePermissions e sprint objects actions p =
     (if \<not> prin_Known p then Inl (AppError KindForbidden ''backend.role.unknown'' [])
      else Inr \<lparr>feat_RoleKey = rs_Key (prin_Role p), feat_UserID = prin_UserID p,
        feat_Objects = map (\<lambda>o'. (os_Key o', map (objectFeatureDecision e p (os_Key o')) objectOperations)) objects,
        feat_Actions = sortSlice (\<lambda>a b. fap_Key a < fap_Key b) (map (actionFeature e p) actions),
        feat_Functions = functionPermissionSnapshots p,
        feat_Fields = concat (map (fieldPermissionSnapshots sprint p) objects),
        feat_Exports = map (exportPermissionSnapshot e p) objects\<rparr>)"

subsection \<open>The reverse index\<close>

record IdentityAccessReverseIndex =
  rix_UserRoles :: "(string, string list) gomap"
  rix_RolePermissions :: "(string, string list) gomap"
  rix_PermissionRoles :: "(string, string list) gomap"
  rix_ObjectActionRoles :: "(string, string list) gomap"

definition identityProjectionNormalizeStringMap :: "(string, string list) gomap \<Rightarrow> (string, string list) gomap" where
  "identityProjectionNormalizeStringMap m = map (\<lambda>(k, vs). (k, identityProjectionUniqueStrings vs)) m"

definition collected :: "(string \<times> string) list \<Rightarrow> (string, string list) gomap" where
  "collected kvs = identityProjectionNormalizeStringMap (foldl (\<lambda>m (k, x). appendAt k [x] m) [] kvs)"

definition IdentityBuildAccessReverseIndex ::
  "env \<Rightarrow> IdentityRole list \<Rightarrow> RoleSchema list \<Rightarrow> IdentityUserRoleAssignment list \<Rightarrow> IdentityAccessReverseIndex" where
  "IdentityBuildAccessReverseIndex e roles definitions assignments =
     (let roleKeyByID = putAll [] (map (\<lambda>r. (role_ID r, identityProjectionRoleKey r)) roles);
          grants = concat (map (\<lambda>d. map (\<lambda>g. (TrimSpace (rs_Key d), TrimSpace (grant_PermissionKey g)))
            (filter (\<lambda>g. TrimSpace (grant_PermissionKey g) \<noteq> [] \<and> env_GrantValid e g) (rs_Permissions d))) definitions) in
      \<lparr>rix_UserRoles = collected (map (\<lambda>a. (asg_UserID a, mapGet [] roleKeyByID (asg_RoleID a)))
         (filter (\<lambda>a. activeStatus (asg_Status a) \<and> mapGet [] roleKeyByID (asg_RoleID a) \<noteq> []) assignments)),
       rix_RolePermissions = collected grants,
       rix_PermissionRoles = collected (map (\<lambda>(r, p). (p, r)) grants),
       rix_ObjectActionRoles = collected (map (\<lambda>(r, p). (let (objectKey, action) = identityProjectionPermissionParts p in
            (objectKey @ ''.'' @ action, r)))
         (filter (\<lambda>(r, p). (let (objectKey, action) = identityProjectionPermissionParts p in objectKey \<noteq> [] \<and> action \<noteq> [])) grants))\<rparr>)"

subsection \<open>Reports\<close>

record IdentityGovernanceReports =
  gov_OrphanPermissions :: "string list"
  gov_RolesWithoutMembers :: "string list"
  gov_ExpiredEntitlements :: "IdentityUserRoleAssignment list"
  gov_UnboundAssignments :: "IdentityUserRoleAssignment list"
  gov_AuthorizationDrift :: "string list"

definition identityProjectionAssignmentExpired :: "IdentityUserRoleAssignment \<Rightarrow> int \<Rightarrow> bool" where
  "identityProjectionAssignmentExpired a now =
     list_ex (\<lambda>v. TrimSpace v \<noteq> [] \<and> (case parseRFC3339 (TrimSpace v) of None \<Rightarrow> True | Some t \<Rightarrow> \<not> now < t))
       [asg_ValidUntil a, case asg_ExpiresAt a of None \<Rightarrow> [] | Some x \<Rightarrow> x]"

definition grantDrift :: "(string, IdentityPermissionDefinition) gomap \<Rightarrow> string \<Rightarrow> string \<Rightarrow> string list" where
  "grantDrift permissionByKey roleKey permissionKey =
     (let drift = (\<lambda>kind. [''role:'' @ roleKey @ '':permission:'' @ permissionKey @ kind]) in
      case map_of permissionByKey permissionKey of
        None \<Rightarrow> drift '':unknown''
      | Some p \<Rightarrow> if perm_DefinitionStatus p \<noteq> ''active'' then drift '':retired''
          else if \<not> perm_Enabled p then drift '':disabled'' else [])"

definition assignmentDrift ::
  "(string, IdentityRole) gomap \<Rightarrow> (string, RoleSchema) gomap \<Rightarrow> IdentityUserRoleAssignment \<Rightarrow> string list" where
  "assignmentDrift roleByID definitionByKey a =
     (let drift = (\<lambda>kind. [''assignment:'' @ asg_UserID a @ '':'' @ asg_RoleID a @ kind]) in
      case map_of roleByID (asg_RoleID a) of
        None \<Rightarrow> drift '':unknown_role''
      | Some role \<Rightarrow> if hasKey definitionByKey (identityProjectionRoleKey role) then [] else drift '':unpublished_role'')"

definition assignmentLess :: "IdentityUserRoleAssignment \<Rightarrow> IdentityUserRoleAssignment \<Rightarrow> bool" where
  "assignmentLess a b \<longleftrightarrow> identityProjectionAssignmentKey a < identityProjectionAssignmentKey b"

definition IdentityBuildGovernanceReports ::
  "int \<Rightarrow> IdentityPermissionDefinition list \<Rightarrow> IdentityRole list \<Rightarrow> RoleSchema list \<Rightarrow> IdentityUserRoleAssignment list
   \<Rightarrow> IdentityGovernanceReports" where
  "IdentityBuildGovernanceReports now permissions roles definitions assignments =
     (let roleByID = putAll [] (map (\<lambda>r. (role_ID r, r)) roles);
          permissionByKey = putAll [] (map (\<lambda>p. (TrimSpace (perm_Key p), p))
            (filter (\<lambda>p. TrimSpace (perm_Key p) \<noteq> []) permissions));
          definitionByKey = putAll [] (map (\<lambda>d. (TrimSpace (rs_Key d), d)) definitions);
          grants = concat (map (\<lambda>d. map (\<lambda>g. (TrimSpace (rs_Key d), TrimSpace (grant_PermissionKey g)))
            (filter (\<lambda>g. TrimSpace (grant_PermissionKey g) \<noteq> []) (rs_Permissions d))) definitions);
          current = filter (\<lambda>a. \<not> identityProjectionAssignmentExpired a now) assignments;
          members = set (map asg_RoleID (filter (\<lambda>a. activeStatus (asg_Status a)) current)) in
      \<lparr>gov_OrphanPermissions = identityProjectionUniqueStrings (filter (\<lambda>k. k \<noteq> [] \<and> k \<notin> snd ` set grants)
         (map (\<lambda>p. TrimSpace (perm_Key p)) permissions)),
       gov_RolesWithoutMembers = identityProjectionUniqueStrings (map identityProjectionRoleKey
         (filter (\<lambda>r. role_ID r \<notin> members) roles)),
       gov_ExpiredEntitlements = sortSlice assignmentLess (filter (\<lambda>a. identityProjectionAssignmentExpired a now) assignments),
       gov_UnboundAssignments = firstPerKey identityProjectionAssignmentKey {} (sortSlice assignmentLess
         (filter (\<lambda>a. (TrimSpace (asg_BindingKey a) = []) \<noteq> (TrimSpace (asg_ProfileID a) = [])) current)),
       gov_AuthorizationDrift = identityProjectionUniqueStrings
         (concat (map (\<lambda>(r, p). grantDrift permissionByKey r p) grants)
          @ concat (map (assignmentDrift roleByID definitionByKey) assignments))\<rparr>)"

subsection \<open>The impact of a role change\<close>

record IdentityRoleChangeImpact =
  rci_RoleKey :: string
  rci_AffectedUserCount :: nat
  rci_ProfileTypes :: "string list"
  rci_AddedPermissions :: "string list"
  rci_RemovedPermissions :: "string list"
  rci_AffectedObjects :: "string list"
  rci_AffectedActions :: "string list"
  rci_SensitiveFields :: "string list"
  rci_HighRiskCapabilities :: "string list"

definition identityProjectionStringDifference :: "string list \<Rightarrow> string list \<Rightarrow> string list" where
  "identityProjectionStringDifference left right =
     identityProjectionUniqueStrings (filter (\<lambda>v. v \<noteq> [] \<and> v \<notin> TrimSpace ` set right) (map TrimSpace left))"

definition highRiskAction :: "ActionSchema \<Rightarrow> bool" where
  "highRiskAction action \<longleftrightarrow> TrimSpace (act_RiskLevel action) = ''high'' \<or> TrimSpace (act_RiskLevel action) = ''critical''
     \<or> IdentityActionApprovalRequired action \<or> IdentityActionAssuranceMethods action \<noteq> []"

definition sensitiveFieldsOf :: "ObjectSchema list \<Rightarrow> string \<Rightarrow> string list" where
  "sensitiveFieldsOf objects permission =
     (let (objectKey, action) = identityProjectionPermissionParts permission in
      if action = [] then []
      else concat (map (\<lambda>o'. map (\<lambda>f. os_Key o' @ ''.'' @ fs_Key f) (filter (identityProjectionSensitiveField o') (os_Fields o')))
             (filter (\<lambda>o'. os_Key o' = objectKey) objects)))"

definition IdentityPreviewRoleChange ::
  "string \<Rightarrow> RoleSchema \<Rightarrow> RoleSchema \<Rightarrow> IdentityRole \<Rightarrow> IdentityUserRoleAssignment list \<Rightarrow> ObjectSchema list
   \<Rightarrow> ActionSchema list \<Rightarrow> IdentityRoleChangeImpact" where
  "IdentityPreviewRoleChange requestKey requested current projectionRole assignments objects actions =
     (let affected = filter (\<lambda>a. asg_RoleID a = role_ID projectionRole \<and> activeStatus (asg_Status a)) assignments;
          requestedKeys = RolePermissionKeys (rs_Permissions requested); currentKeys = RolePermissionKeys (rs_Permissions current);
          added = identityProjectionStringDifference requestedKeys currentKeys;
          removed = identityProjectionStringDifference currentKeys requestedKeys in
      \<lparr>rci_RoleKey = (if TrimSpace requestKey = [] then TrimSpace (rs_Key requested) else TrimSpace requestKey),
       rci_AffectedUserCount = length (remdups (map asg_UserID affected)),
       rci_ProfileTypes = identityProjectionUniqueStrings (map (\<lambda>a.
         if asg_BindingKey a = [] then ''account'' else ''business_profile:'' @ asg_BindingKey a) affected),
       rci_AddedPermissions = added, rci_RemovedPermissions = removed,
       rci_AffectedObjects = identityProjectionUniqueStrings (map (\<lambda>p. fst (identityProjectionPermissionParts p)) (added @ removed)),
       rci_AffectedActions = identityProjectionUniqueStrings (added @ removed),
       rci_SensitiveFields = identityProjectionUniqueStrings (concat (map (sensitiveFieldsOf objects) (added @ removed))),
       rci_HighRiskCapabilities = identityProjectionUniqueStrings (concat (map (\<lambda>p.
         map act_Key (filter (\<lambda>a. TrimSpace (act_Key a) = p \<and> highRiskAction a) actions)) (added @ removed)))\<rparr>)"

subsection \<open>Request contexts\<close>

record BusinessProfileReference =
  bpr_BindingKey :: string
  bpr_ObjectKey :: string
  bpr_RecordID :: string

record IdentityPrincipalBusinessProfileContext =
  bpc_BindingKey :: string
  bpc_ObjectKey :: string
  bpc_RecordID :: string
  bpc_Active :: bool

record IdentityPrincipalRequestContext =
  prc_Key :: string
  prc_SubjectKind :: string
  prc_BusinessProfileKey :: string
  prc_BusinessProfileID :: string
  prc_CanonicalRequestHeader :: "(string, string) gomap"

record IdentityPrincipalContextView =
  ipc_ContractVersion :: string
  ipc_Known :: bool
  ipc_WorkspaceID :: string
  ipc_UserID :: string
  ipc_RoleKey :: string
  ipc_AuthorizationRevision :: string
  ipc_OrgID :: string
  ipc_OrganizationPath :: string
  ipc_BusinessProfiles :: "IdentityPrincipalBusinessProfileContext list"
  ipc_RequestContexts :: "IdentityPrincipalRequestContext list"

definition identityPrincipalWorkspaceHeaders :: "string \<Rightarrow> (string, string) gomap" where
  "identityPrincipalWorkspaceHeaders workspaceID = (if workspaceID = [] then [] else [(''X-Workspace-ID'', workspaceID)])"

definition identityPrincipalBusinessProfileKey :: "BusinessProfileReference \<Rightarrow> string" where
  "identityPrincipalBusinessProfileKey p =
     JoinStrings [TrimSpace (bpr_BindingKey p), TrimSpace (bpr_RecordID p), TrimSpace (bpr_ObjectKey p)] NUL"

definition sameProfile :: "BusinessProfileReference \<Rightarrow> BusinessProfileReference \<Rightarrow> bool" where
  "sameProfile p q \<longleftrightarrow> TrimSpace (bpr_BindingKey p) = TrimSpace (bpr_BindingKey q) \<and> TrimSpace (bpr_RecordID p) = TrimSpace (bpr_RecordID q)"

definition profileRequestContext :: "string \<Rightarrow> BusinessProfileReference \<Rightarrow> IdentityPrincipalRequestContext" where
  "profileRequestContext workspaceID p =
     (let bindingKey = TrimSpace (bpr_BindingKey p); recordID = TrimSpace (bpr_RecordID p) in
      \<lparr>prc_Key = JoinStrings [''business_profile'', bindingKey, recordID] ''/'', prc_SubjectKind = ''business_profile'',
       prc_BusinessProfileKey = bindingKey, prc_BusinessProfileID = recordID,
       prc_CanonicalRequestHeader = AList.update ''X-Business-Profile-ID'' recordID
         (AList.update ''X-Business-Profile-Key'' bindingKey (identityPrincipalWorkspaceHeaders workspaceID))\<rparr>)"

definition IdentityBuildPrincipalContext ::
  "Principal \<Rightarrow> BusinessProfileReference list \<Rightarrow> BusinessProfileReference option \<Rightarrow> IdentityPrincipalContextView" where
  "IdentityBuildPrincipalContext p profiles active =
     (let workspaceID = TrimSpace (prin_WorkspaceID p);
          ordered = (if prin_Known p then sortSlice (\<lambda>a b. identityPrincipalBusinessProfileKey a < identityPrincipalBusinessProfileKey b) profiles else []) in
      \<lparr>ipc_ContractVersion = ''domainry-principal-context-v1'', ipc_Known = prin_Known p, ipc_WorkspaceID = workspaceID,
       ipc_UserID = TrimSpace (prin_UserID p), ipc_RoleKey = TrimSpace (rs_Key (prin_Role p)),
       ipc_AuthorizationRevision = TrimSpace (prin_AuthorizationRevision p), ipc_OrgID = TrimSpace (prin_OrgID p),
       ipc_OrganizationPath = TrimSpace (prin_OrganizationPath p),
       ipc_BusinessProfiles = map (\<lambda>q. \<lparr>bpc_BindingKey = TrimSpace (bpr_BindingKey q), bpc_ObjectKey = TrimSpace (bpr_ObjectKey q),
          bpc_RecordID = TrimSpace (bpr_RecordID q),
          bpc_Active = (case active of None \<Rightarrow> False | Some a \<Rightarrow> sameProfile a q)\<rparr>) ordered,
       ipc_RequestContexts =
         (if \<not> prin_Known p then []
          else \<lparr>prc_Key = ''identity'', prc_SubjectKind = ''identity'', prc_BusinessProfileKey = [], prc_BusinessProfileID = [],
                 prc_CanonicalRequestHeader = identityPrincipalWorkspaceHeaders workspaceID\<rparr>
               # map (profileRequestContext workspaceID) ordered)\<rparr>)"

subsection \<open>The field decision the application passes\<close>

definition applicationFieldDecision :: "(any option \<Rightarrow> string) \<Rightarrow> fieldDecision" where
  "applicationFieldDecision sprint role object field =
     (IdentityCanReadObjectField sprint role object field, IdentityCanWriteObjectField sprint role object field,
      IdentityCanExportObjectField sprint role object field, IdentityFieldExportMasked role (os_Key object) (fs_Key field))"

end
