(* ===== verification/AccessProperties.thy ===== *)
theory AccessProperties
  imports AccessReports TokenProperties
begin

section \<open>The decisions about access agree\<close>

text \<open>
  The explanation of a decision reads the effective-access snapshot, the feature
  permissions read the role directly; both decide whether a principal may apply an
  operation to an object.
\<close>

subsection \<open>Keys and their parts\<close>

lemma JoinStrings_Cons: "xs \<noteq> [] \<Longrightarrow> JoinStrings (x # xs) d = x @ d @ JoinStrings xs d"
  by (cases xs) simp_all

lemma JoinStrings_snoc: "xs \<noteq> [] \<Longrightarrow> JoinStrings (xs @ [x]) d = JoinStrings xs d @ d @ x"
proof (induction xs)
  case (Cons a xs)
  then show ?case by (cases "xs = []") (simp_all add: JoinStrings_Cons)
qed simp

lemma splitOn_ne: "splitOn d s \<noteq> []"
  by (induction s) (auto split: list.splits)

lemma splitOn_join: "JoinStrings (splitOn d s) [d] = s"
proof (induction s)
  case (Cons c cs)
  obtain p ps where p: "splitOn d cs = p # ps" using splitOn_ne [of d cs] by (cases "splitOn d cs") auto
  with Cons show ?case by (cases ps) auto
qed simp

lemma splitOn_append: "splitOn d (a @ d # b) = splitOn d a @ splitOn d b"
proof (induction a)
  case (Cons c a)
  then show ?case using splitOn_ne [of d a] by (cases "splitOn d a") auto
qed simp

lemma parts_exact:
  assumes "CHR ''.'' \<notin> set action"
  shows "identityProjectionPermissionParts k = (resource, action) \<and> resource \<noteq> [] \<longleftrightarrow>
    TrimSpace k = resource @ ''.'' @ action \<and> resource \<noteq> []"
proof
  assume l: "identityProjectionPermissionParts k = (resource, action) \<and> resource \<noteq> []"
  let ?parts = "splitOn CHR ''.'' (TrimSpace k)"
  from l have p: "\<not> length ?parts < 2" "resource = JoinStrings (butlast ?parts) ''.''" "action = last ?parts"
    by (auto simp: identityProjectionPermissionParts_def Let_def split: if_splits)
  have "?parts = butlast ?parts @ [last ?parts]" "butlast ?parts \<noteq> []"
    using p(1) splitOn_ne by (simp_all, cases ?parts) (auto split: if_splits)
  then have "JoinStrings ?parts ''.'' = JoinStrings (butlast ?parts) ''.'' @ ''.'' @ last ?parts"
    using JoinStrings_snoc by metis
  with l p show "TrimSpace k = resource @ ''.'' @ action \<and> resource \<noteq> []" by (simp add: splitOn_join)
next
  assume r: "TrimSpace k = resource @ ''.'' @ action \<and> resource \<noteq> []"
  then have "splitOn CHR ''.'' (TrimSpace k) = splitOn CHR ''.'' resource @ [action]"
    using splitOn_append [of "CHR ''.''" resource action] splitOn_last [OF assms] by simp
  moreover obtain p ps where "splitOn CHR ''.'' resource = p # ps"
    using splitOn_ne [of "CHR ''.''" resource] by (cases "splitOn CHR ''.'' resource") auto
  moreover have "JoinStrings (splitOn CHR ''.'' resource) ''.'' = resource" by (rule splitOn_join)
  ultimately show "identityProjectionPermissionParts k = (resource, action) \<and> resource \<noteq> []"
    using r by (simp add: identityProjectionPermissionParts_def Let_def)
qed

lemma splitOn_free: "x \<in> set (splitOn d s) \<Longrightarrow> d \<notin> set x"
  by (induction s arbitrary: x) (auto split: list.splits if_splits)

lemma parts_dot:
  assumes "CHR ''.'' \<in> set (snd (identityProjectionPermissionParts k))"
  shows "fst (identityProjectionPermissionParts k) = []"
proof (rule ccontr)
  assume "fst (identityProjectionPermissionParts k) \<noteq> []"
  then have "snd (identityProjectionPermissionParts k) = last (splitOn CHR ''.'' (TrimSpace k))"
    by (simp add: identityProjectionPermissionParts_def Let_def split: if_splits)
  with assms splitOn_free [OF last_in_set [OF splitOn_ne]] show False by metis
qed

subsection \<open>What decides access to an object\<close>

text \<open>The role has a valid grant of the operation on the object, and no guardrail denies it.\<close>

definition grantsOperation :: "env \<Rightarrow> RoleSchema \<Rightarrow> string \<Rightarrow> string \<Rightarrow> bool" where
  "grantsOperation e role objectKey action \<longleftrightarrow>
     (\<exists>g \<in> set (rs_Permissions role). TrimSpace (grant_PermissionKey g) = objectKey @ ''.'' @ action \<and> env_GrantValid e g)
     \<and> \<not> IdentityRoleGuardrailDeniesPermission role (objectKey @ ''.'' @ action)
     \<and> \<not> IdentityRoleGuardrailDeniesData role objectKey action"

text \<open>Two trimmed texts with a dot between them are trimmed: no space rune contains a dot.\<close>

lemma leadingRune_dot:
  assumes "\<forall>r \<in> set rs. d \<notin> set r" "leadingRune rs s = 0"
  shows "leadingRune rs (s @ d # t) = 0"
  unfolding leadingRune_zero_iff
proof (intro ballI impI)
  fix r assume r: "r \<in> set rs" "r \<noteq> []"
  with assms have "\<not> prefix r s" "d \<notin> set r" by (auto simp: leadingRune_zero_iff)
  then show "\<not> prefix r (s @ d # t)" by (auto simp: prefix_append prefix_Cons)
qed

lemma spaceRunes_dot: "\<forall>r \<in> set spaceRunes. CHR ''.'' \<notin> set r"
  by (simp add: spaceRunes_def)

lemma TrimSpace_trimmed:
  assumes "leadingRune spaceRunes s = 0" "leadingRune (map rev spaceRunes) (rev s) = 0"
  shows "TrimSpace s = s"
  using assms by (simp add: TrimSpace_def stripRunes_id)

lemma TrimSpace_key: "TrimSpace (TrimSpace x @ ''.'' @ TrimSpace y) = TrimSpace x @ ''.'' @ TrimSpace y"
proof -
  let ?R = "map rev spaceRunes"
  have "suffix (stripRunes ?R (rev (stripRunes spaceRunes x))) (rev (stripRunes spaceRunes x))" by (rule stripRunes_suffix)
  then have "prefix (TrimSpace x) (stripRunes spaceRunes x)" by (simp add: TrimSpace_def suffix_to_prefix)
  from leadingRune_prefix [OF stripRunes_fix this] have "leadingRune spaceRunes (TrimSpace x) = 0" .
  from leadingRune_dot [OF spaceRunes_dot this] have front: "leadingRune spaceRunes (TrimSpace x @ ''.'' @ TrimSpace y) = 0"
    by simp
  have "leadingRune ?R (rev (TrimSpace y)) = 0" by (simp add: TrimSpace_def stripRunes_fix)
  from leadingRune_dot [OF _ this, of "CHR ''.''" "rev (TrimSpace x)"] spaceRunes_dot
  have "leadingRune ?R (rev (TrimSpace x @ ''.'' @ TrimSpace y)) = 0" by simp
  with front show ?thesis by (rule TrimSpace_trimmed)
qed

subsection \<open>Both decisions\<close>

lemma feature_decides:
  "fpd_Allowed (objectFeatureDecision e p objectKey action) \<longleftrightarrow>
     prin_Known p \<and> grantsOperation e (prin_Role p) (TrimSpace objectKey) (TrimSpace action)"
proof -
  have key: "TrimSpace (TrimSpace objectKey @ CHR ''.'' # TrimSpace action) = TrimSpace objectKey @ CHR ''.'' # TrimSpace action"
    using TrimSpace_key [of objectKey action] by simp
  show ?thesis
    by (auto simp: objectFeatureDecision_def Let_def IdentityRoleAllows_def IdentityRoleAllowsData_def
        IdentityRoleHasPermissionKey_def RolePermissionsForKey_def identityNormalizePermissionAction_def
        IdentityRoleGuardrailDeniesData_def key grantsOperation_def list_ex_iff filter_empty_conv)
qed

lemma snapshot_data:
  assumes "CHR ''.'' \<notin> set action" "objectKey \<noteq> []" "action \<noteq> []"
  shows "identityProjectionData (identityProjectionDataAccess e role sources) objectKey action \<noteq> None \<longleftrightarrow>
    (\<exists>g \<in> set (rs_Permissions role). TrimSpace (grant_PermissionKey g) = objectKey @ ''.'' @ action \<and> env_GrantValid e g)"
proof -
  have parts: "identityProjectionPermissionParts (TrimSpace k) = (objectKey, action) \<longleftrightarrow> TrimSpace k = objectKey @ ''.'' @ action" for k
    using parts_exact [OF assms(1), of "TrimSpace k" objectKey] assms(2) by simp
  have "identityProjectionData (identityProjectionDataAccess e role sources) objectKey action \<noteq> None \<longleftrightarrow>
    (\<exists>g \<in> set (rs_Permissions role). env_GrantValid e g \<and> TrimSpace (grant_PermissionKey g) \<noteq> []
      \<and> identityProjectionPermissionParts (TrimSpace (grant_PermissionKey g)) = (objectKey, action))"
    using assms(2,3) by (auto simp: identityProjectionData_def identityProjectionDataAccess_def find_None_iff Let_def
        case_prod_beta prod_eq_iff)
  then show ?thesis unfolding parts by auto
qed

subsection \<open>The explanation of a decision\<close>

lemma permission_of_data:
  assumes "CHR ''.'' \<notin> set action" "objectKey \<noteq> []"
    "epg_ObjectKey g = objectKey \<and> epg_Action g = action \<or> epg_Key g = objectKey @ ''.'' @ action"
    "g \<in> set (eas_Permissions (IdentityBuildEffectiveAccessSnapshot e input))"
    "TrimSpace (objectKey @ ''.'' @ action) = objectKey @ ''.'' @ action"
  shows "epg_Key g = objectKey @ ''.'' @ action"
  using assms parts_exact [OF assms(1), of "epg_Key g" objectKey] assms(2)
  by (auto simp: IdentityBuildEffectiveAccessSnapshot_def Let_def prod_eq_iff)

definition fieldOpen :: "IdentityEffectiveAccessSnapshot \<Rightarrow> RoleSchema \<Rightarrow> string \<Rightarrow> string \<Rightarrow> string \<Rightarrow> bool" where
  "fieldOpen snapshot role objectKey action fieldKey \<longleftrightarrow> fieldKey = [] \<or>
     \<not> IdentityRoleGuardrailDeniesField role objectKey fieldKey action
     \<and> snd (identityProjectionField (eas_FieldAccess snapshot) objectKey fieldKey action)"

lemma explainField_allowed:
  "fst (explainField snapshot role objectKey action fieldKey cs) \<longleftrightarrow> fieldOpen snapshot role objectKey action fieldKey"
  by (auto simp: explainField_def fieldOpen_def denyReason_def Let_def case_prod_beta)

lemma explain_decides:
  fixes e :: env and input :: IdentityEffectiveAccessProjectionInput
  defines "p \<equiv> inp_Principal input"
  defines "snapshot \<equiv> IdentityBuildEffectiveAccessSnapshot e input"
  assumes dot: "CHR ''.'' \<notin> set action" and ne: "objectKey \<noteq> []" "action \<noteq> []"
    and trimmed: "TrimSpace (objectKey @ ''.'' @ action) = objectKey @ ''.'' @ action"
  shows "fst (explainDecision e snapshot (prin_Role p) objectKey action fieldKey) \<longleftrightarrow>
    prin_Known p \<and> grantsOperation e (prin_Role p) objectKey action \<and> fieldOpen snapshot (prin_Role p) objectKey action fieldKey"
proof -
  let ?perm = "identityProjectionPermissionForAction (eas_Permissions snapshot) objectKey action"
  let ?data = "identityProjectionData (eas_DataAccess snapshot) objectKey action"
  let ?granted = "\<exists>g \<in> set (rs_Permissions (prin_Role p)).
    TrimSpace (grant_PermissionKey g) = objectKey @ ''.'' @ action \<and> env_GrantValid e g"
  have known: "eas_Known snapshot = prin_Known p"
    by (simp add: snapshot_def p_def IdentityBuildEffectiveAccessSnapshot_def Let_def)
  obtain sources where "eas_DataAccess snapshot = identityProjectionDataAccess e (prin_Role p) sources"
    by (simp add: snapshot_def p_def IdentityBuildEffectiveAccessSnapshot_def Let_def)
  with snapshot_data [OF dot ne] have data: "?data \<noteq> None \<longleftrightarrow> ?granted" by simp
  have key: "epg_Key g = objectKey @ ''.'' @ action" if "?perm = Some g" for g
    using that permission_of_data [OF dot ne(1), of g e input] trimmed
    by (auto simp: snapshot_def identityProjectionPermissionForAction_def identityProjectionPermission_def
        find_Some_iff split: option.splits)
  have some: "?perm \<noteq> None" if ?granted
  proof
    assume "?perm = None"
    then have none: "\<forall>g \<in> set (eas_Permissions snapshot). epg_Key g \<noteq> objectKey @ ''.'' @ action"
      by (auto simp: identityProjectionPermissionForAction_def identityProjectionPermission_def find_None_iff split: option.splits)
    from that obtain g where "g \<in> set (rs_Permissions (prin_Role p))" "TrimSpace (grant_PermissionKey g) = objectKey @ ''.'' @ action"
      by auto
    with none show False by (auto simp: snapshot_def p_def IdentityBuildEffectiveAccessSnapshot_def Let_def)
  qed
  show ?thesis
    using known data key some ne
    by (cases ?perm; cases ?data)
      (auto simp: explainDecision_def denyReason_def Let_def explainField_allowed grantsOperation_def)
qed

text \<open>The entry of a permission never has a dot in its action, so a dotted action finds none.\<close>

lemma explain_dotted:
  assumes "CHR ''.'' \<in> set action"
  shows "\<not> fst (explainDecision e (IdentityBuildEffectiveAccessSnapshot e input) role objectKey action fieldKey)"
proof -
  have "eda_Action d \<noteq> action" if "d \<in> set (identityProjectionDataAccess e r sources)" for d r sources
    using that assms parts_dot by (auto simp: identityProjectionDataAccess_def Let_def case_prod_beta)
  then have "identityProjectionData (eas_DataAccess (IdentityBuildEffectiveAccessSnapshot e input)) objectKey action = None"
    by (auto simp: identityProjectionData_def find_None_iff IdentityBuildEffectiveAccessSnapshot_def Let_def)
  then show ?thesis by (simp add: explainDecision_def denyReason_def Let_def)
qed

lemma explain_incomplete:
  "objectKey = [] \<or> action = [] \<Longrightarrow> \<not> fst (explainDecision e snapshot role objectKey action fieldKey)"
  by (auto simp: explainDecision_def denyReason_def Let_def)

lemma find_unique:
  assumes "x \<in> set xs" "P x" "\<And>y. y \<in> set xs \<Longrightarrow> P y \<Longrightarrow> y = x"
  shows "find P xs = Some x"
proof -
  from assms(1,2) have "find P xs \<noteq> None" by (auto simp: find_None_iff)
  then obtain y where y: "find P xs = Some y" by blast
  then have "y \<in> set xs" "P y" by (auto simp: find_Some_iff)
  with assms(3) y show ?thesis by simp
qed

lemma distinct_key: "distinct (map f xs) \<Longrightarrow> x \<in> set xs \<Longrightarrow> y \<in> set xs \<Longrightarrow> f x = f y \<Longrightarrow> x = y"
  unfolding distinct_map by (elim conjE) (rule inj_onD)

text \<open>With unique keys, the entry of an enabled field is the decision about that field.\<close>

lemma fieldAccess_find:
  assumes "distinct (map os_Key objects)" "\<And>o'. o' \<in> set objects \<Longrightarrow> distinct (map fs_Key (os_Fields o'))"
    and "object \<in> set objects" "field \<in> set (enabledFields object)"
  shows "find (\<lambda>v. efa_ObjectKey v = os_Key object \<and> efa_FieldKey v = fs_Key field)
      (identityProjectionFieldAccess e role objects sources (Some d)) = Some (fieldAccessOf e role sources d object field)"
proof (rule find_unique)
  show "fieldAccessOf e role sources d object field \<in> set (identityProjectionFieldAccess e role objects sources (Some d))"
    using assms(3,4) by (auto simp: identityProjectionFieldAccess_def enabledFields_def)
  show "efa_ObjectKey (fieldAccessOf e role sources d object field) = os_Key object
      \<and> efa_FieldKey (fieldAccessOf e role sources d object field) = fs_Key field"
    by (simp add: fieldAccessOf_def case_prod_beta)
next
  fix v
  assume v: "v \<in> set (identityProjectionFieldAccess e role objects sources (Some d))"
    "efa_ObjectKey v = os_Key object \<and> efa_FieldKey v = fs_Key field"
  then obtain o' f where o': "o' \<in> set objects" "f \<in> set (os_Fields o')" "v = fieldAccessOf e role sources d o' f"
    by (auto simp: identityProjectionFieldAccess_def)
  with v(2) have k: "os_Key o' = os_Key object" "fs_Key f = fs_Key field" by (simp_all add: fieldAccessOf_def case_prod_beta)
  from distinct_key [OF assms(1) o'(1) assms(3) k(1)] have "o' = object" .
  with distinct_key [OF assms(2) [OF assms(3)], of f field] o'(2) k(2) assms(4) have "f = field" by (auto simp: enabledFields_def)
  with o'(3) \<open>o' = object\<close> show "v = fieldAccessOf e role sources d object field" by simp
qed

text \<open>
  The feature permission of a field that an action falls under: its export permission for an
  export, its write permission for an update, a write or a creation, its read permission for
  any other action.
\<close>

definition fieldFeature :: "IdentityFieldPermissionSnapshot \<Rightarrow> string \<Rightarrow> bool" where
  "fieldFeature f action = fad_Allowed
     (if action = ''export'' then fps_Export f
      else if action \<in> {''update'', ''write'', ''create''} then fps_Write f
      else fps_Read f)"

text \<open>Some enabled field with the key, of an object with the key, has that feature permission.\<close>

definition fieldGranted :: "(any option \<Rightarrow> string) \<Rightarrow> RoleSchema \<Rightarrow> ObjectSchema list \<Rightarrow> string \<Rightarrow> string \<Rightarrow> string \<Rightarrow> bool" where
  "fieldGranted sprint role objects objectKey fieldKey action \<longleftrightarrow>
     (\<exists>object \<in> set objects. \<exists>field \<in> set (enabledFields object). os_Key object = objectKey \<and> fs_Key field = fieldKey
        \<and> fieldFeature (fieldPermissionSnapshot sprint role object field) action)"

definition uniqueKeys :: "ObjectSchema list \<Rightarrow> bool" where
  "uniqueKeys objects \<longleftrightarrow> distinct (map os_Key objects) \<and> (\<forall>object \<in> set objects. distinct (map fs_Key (os_Fields object)))"

lemma field_entry_feature:
  "(if action = ''export'' then efa_Export v else if action \<in> {''update'', ''write'', ''create''} then efa_Write v else efa_Read v)
     \<longleftrightarrow> fieldFeature (fieldPermissionSnapshot sprint role object field) action"
  if "v = fieldAccessOf e role sources (applicationFieldDecision sprint) object field"
  using that by (auto simp: fieldFeature_def fieldPermissionSnapshot_def fieldAccessDecision_def fieldAccessOf_def
      applicationFieldDecision_def case_prod_beta Let_def)

lemma projectionField_granted:
  assumes "uniqueKeys objects"
  shows "snd (identityProjectionField (identityProjectionFieldAccess e role objects sources (Some (applicationFieldDecision sprint))) objectKey fieldKey action)
    \<longleftrightarrow> fieldGranted sprint role objects objectKey fieldKey action"
proof (cases "\<exists>object \<in> set objects. \<exists>field \<in> set (enabledFields object). os_Key object = objectKey \<and> fs_Key field = fieldKey")
  case True
  then obtain object field where f: "object \<in> set objects" "field \<in> set (enabledFields object)" "os_Key object = objectKey" "fs_Key field = fieldKey"
    by blast
  have d: "distinct (map os_Key objects)" "\<And>o'. o' \<in> set objects \<Longrightarrow> distinct (map fs_Key (os_Fields o'))"
    using assms by (auto simp: uniqueKeys_def)
  have "fieldGranted sprint role objects objectKey fieldKey action \<longleftrightarrow> fieldFeature (fieldPermissionSnapshot sprint role object field) action"
  proof
    assume "fieldGranted sprint role objects objectKey fieldKey action"
    then obtain o' f' where g: "o' \<in> set objects" "f' \<in> set (enabledFields o')" "os_Key o' = objectKey" "fs_Key f' = fieldKey"
      "fieldFeature (fieldPermissionSnapshot sprint role o' f') action" unfolding fieldGranted_def by blast
    have "o' = object" using distinct_key [OF d(1) g(1) f(1)] g(3) f(3) by simp
    moreover have "f' = field" if "o' = object"
      using distinct_key [OF d(2) [OF f(1)], of f' field] g(2,4) f(2,4) that by (auto simp: enabledFields_def)
    ultimately show "fieldFeature (fieldPermissionSnapshot sprint role object field) action" using g(5) by simp
  qed (use f in \<open>auto simp: fieldGranted_def\<close>)
  with fieldAccess_find [OF d f(1,2), of e role sources "applicationFieldDecision sprint"] f(3,4) field_entry_feature [OF refl] show ?thesis
    by (simp add: identityProjectionField_def)
next
  case False
  then have "find (\<lambda>v. efa_ObjectKey v = objectKey \<and> efa_FieldKey v = fieldKey)
      (identityProjectionFieldAccess e role objects sources (Some (applicationFieldDecision sprint))) = None"
    by (fastforce simp: find_None_iff identityProjectionFieldAccess_def fieldAccessOf_def case_prod_beta enabledFields_def)
  with False show ?thesis by (auto simp: identityProjectionField_def fieldGranted_def)
qed

text \<open>
  C40.  The explanation of a decision agrees with the feature permissions.  Explaining the
  access of a principal from its snapshot answers yes exactly when the request names an
  object and an action, the action has no dot, the feature permission of the object and
  action is allowed, and, when the request names a field, no guardrail of the role denies
  the action on the field and an enabled field of that name has the feature permission the
  action falls under: export, write (updating, writing or creating) or read (any other
  action).  A dotted action is always denied, even where the feature permission is allowed.
  For the field, the keys of objects and of the fields of each are unique, and the decision
  about fields is the application's.
\<close>

theorem explain_agrees_with_features:
  fixes e :: env and input :: IdentityEffectiveAccessProjectionInput and request :: IdentityAccessExplainRequest
  assumes "TrimSpace (aer_FieldKey request) \<noteq> [] \<Longrightarrow>
    inp_FieldDecision input = Some (applicationFieldDecision sprint) \<and> uniqueKeys (inp_Objects input)"
  defines "role \<equiv> prin_Role (inp_Principal input)"
  defines "objectKey \<equiv> TrimSpace (aer_ObjectKey request)" and "action \<equiv> TrimSpace (aer_Action request)"
    and "fieldKey \<equiv> TrimSpace (aer_FieldKey request)"
  shows "axr_Allowed (IdentityExplainEffectiveAccess e (IdentityBuildEffectiveAccessSnapshot e input) role request) \<longleftrightarrow>
    objectKey \<noteq> [] \<and> action \<noteq> [] \<and> CHR ''.'' \<notin> set action
    \<and> fpd_Allowed (objectFeatureDecision e (inp_Principal input) (aer_ObjectKey request) (aer_Action request))
    \<and> (fieldKey = [] \<or> \<not> IdentityRoleGuardrailDeniesField role objectKey fieldKey action
          \<and> fieldGranted sprint role (inp_Objects input) objectKey fieldKey action)"
proof -
  let ?snapshot = "IdentityBuildEffectiveAccessSnapshot e input"
  have answer: "axr_Allowed (IdentityExplainEffectiveAccess e ?snapshot role request) \<longleftrightarrow> fst (explainDecision e ?snapshot role objectKey action fieldKey)"
    by (simp add: IdentityExplainEffectiveAccess_def objectKey_def action_def fieldKey_def Let_def case_prod_beta)
  show ?thesis
  proof (cases "objectKey = [] \<or> action = [] \<or> CHR ''.'' \<in> set action")
    case True
    with explain_dotted [of action e input role objectKey fieldKey] explain_incomplete [of objectKey action e ?snapshot role fieldKey] answer
    show ?thesis by auto
  next
    case False
    obtain sources where "eas_FieldAccess ?snapshot = identityProjectionFieldAccess e role (inp_Objects input) sources (inp_FieldDecision input)"
      by (simp add: IdentityBuildEffectiveAccessSnapshot_def Let_def role_def)
    with assms(1) have "fieldOpen ?snapshot role objectKey action fieldKey \<longleftrightarrow> fieldKey = []
        \<or> \<not> IdentityRoleGuardrailDeniesField role objectKey fieldKey action \<and> fieldGranted sprint role (inp_Objects input) objectKey fieldKey action"
      by (cases "fieldKey = []") (simp_all add: fieldOpen_def fieldKey_def projectionField_granted)
    moreover have "fst (explainDecision e ?snapshot role objectKey action fieldKey) \<longleftrightarrow>
        fpd_Allowed (objectFeatureDecision e (inp_Principal input) (aer_ObjectKey request) (aer_Action request))
        \<and> fieldOpen ?snapshot role objectKey action fieldKey"
      using False explain_decides [of action objectKey e input fieldKey, folded role_def]
        feature_decides [of e "inp_Principal input" "aer_ObjectKey request" "aer_Action request", folded role_def objectKey_def action_def]
        TrimSpace_key [of "aer_ObjectKey request" "aer_Action request", folded objectKey_def action_def]
      by simp
    ultimately show ?thesis using answer False by simp
  qed
qed

text \<open>A principal that may read orders but not their secret field.\<close>

definition orderField :: "string \<Rightarrow> FieldSchema" where
  "orderField key = \<lparr>fs_Key = key, fs_Name = key, fs_Description = [], fs_Type = ''text'', fs_Config = [],
     fs_Required = False, fs_Unique = False, fs_DisabledAt = []\<rparr>"

definition orderObject :: ObjectSchema where
  "orderObject = \<lparr>os_Key = ''orders'', os_Name = ''Orders'', os_Description = [], os_Fields = [orderField ''amount'', orderField ''secret''],
     os_ExportAssurancePolicy = None, os_Config = []\<rparr>"

definition orderReader :: Principal where
  "orderReader = zeroPrincipal\<lparr>prin_UserID := ''u1'', prin_WorkspaceID := ''acme'', prin_Known := True,
     prin_Role := zeroRoleSchema\<lparr>rs_Key := ''reader'',
       rs_Permissions := [\<lparr>grant_PermissionKey = ''orders.read'', grant_DataScope = ''org'', grant_DataPolicy = None, grant_AuditDenial = False\<rparr>],
       rs_FieldPermissions := [\<lparr>fp_ObjectKey = ''orders'', fp_FieldKey = ''secret'', fp_Read = False, fp_Write = False, fp_Export = False,
         fp_Masked = False, fp_Reason = [], fp_AuditDenial = False, fp_Policies = []\<rparr>]\<rparr>\<rparr>"

definition noText :: "any option \<Rightarrow> string" where
  "noText v = []"

definition orderInput :: IdentityEffectiveAccessProjectionInput where
  "orderInput = \<lparr>inp_Principal = orderReader, inp_Assignments = [], inp_ProjectionRoles = [], inp_RoleDefinitions = [],
     inp_PermissionSets = [], inp_PermissionSetGroups = [], inp_Menus = [], inp_RoleMenus = [], inp_Objects = [orderObject],
     inp_FieldDecision = Some (applicationFieldDecision noText)\<rparr>"

definition readRequest :: "string \<Rightarrow> IdentityAccessExplainRequest" where
  "readRequest fieldKey = \<lparr>aer_UserID = ''u1'', aer_ObjectKey = ''orders'', aer_Action = ''read'', aer_FieldKey = fieldKey\<rparr>"

definition readAnswer :: "string \<Rightarrow> bool" where
  "readAnswer fieldKey = axr_Allowed (IdentityExplainEffectiveAccess sampleEnv (IdentityBuildEffectiveAccessSnapshot sampleEnv orderInput)
     (prin_Role (inp_Principal orderInput)) (readRequest fieldKey))"

lemma explain_agrees_with_features_witness:
  "readAnswer [] \<and> readAnswer ''amount'' \<and> \<not> readAnswer ''secret'' \<and> \<not> readAnswer ''unknown''"
proof -
  have o': "TrimSpace (aer_ObjectKey (readRequest f)) = ''orders''" "TrimSpace (aer_Action (readRequest f)) = ''read''"
    "aer_FieldKey (readRequest f) = f" for f by (simp add: readRequest_def, code_simp) (simp add: readRequest_def, code_simp, simp add: readRequest_def)
  have trim: "TrimSpace [] = []" "TrimSpace ''amount'' = ''amount''" "TrimSpace ''secret'' = ''secret''" "TrimSpace ''unknown'' = ''unknown''" by code_simp+
  have input: "inp_Principal orderInput = orderReader" "inp_FieldDecision orderInput = Some (applicationFieldDecision noText)"
    "inp_Objects orderInput = [orderObject]" "os_Key orderObject = ''orders''" "fs_Key (orderField k) = k"
    "os_Fields orderObject = [orderField ''amount'', orderField ''secret'']"
    "set (enabledFields orderObject) = {orderField ''amount'', orderField ''secret''}" for k
    by (auto simp: orderInput_def orderObject_def orderField_def enabledFields_def)
  then have "inp_FieldDecision orderInput = Some (applicationFieldDecision noText) \<and> uniqueKeys (inp_Objects orderInput)"
    by (simp add: uniqueKeys_def)
  note agree = explain_agrees_with_features [of _ orderInput noText sampleEnv, OF this]
  have "fpd_Allowed (objectFeatureDecision sampleEnv orderReader (aer_ObjectKey (readRequest [])) (aer_Action (readRequest [])))"
    by code_simp
  then have features: "fpd_Allowed (objectFeatureDecision sampleEnv orderReader (aer_ObjectKey (readRequest f)) (aer_Action (readRequest f)))" for f
    by (simp add: readRequest_def)
  have fields: "fieldFeature (fieldPermissionSnapshot noText (prin_Role orderReader) orderObject (orderField ''amount'')) ''read''"
    "\<not> fieldFeature (fieldPermissionSnapshot noText (prin_Role orderReader) orderObject (orderField ''secret'')) ''read''"
    "\<not> IdentityRoleGuardrailDeniesField (prin_Role orderReader) ''orders'' ''amount'' ''read''"
    by code_simp+
  show ?thesis
    using agree [of "readRequest []"] agree [of "readRequest ''amount''"] agree [of "readRequest ''secret''"] agree [of "readRequest ''unknown''"]
      features fields
    by (simp add: readAnswer_def o' trim input fieldGranted_def)
qed

end
