(* ===== verification/AccessReviewModel.thy ===== *)
theory AccessReviewModel
  imports AccessContract
begin

section \<open>Access reviews: data\<close>

text \<open>
  The structs of \<open>model/identity_access_review.go\<close>.  A review lists the role assignments to
  be confirmed in a period; every item is decided once, and a decision leaves a receipt.
\<close>

abbreviation IdentityAccessReviewDraft :: string where "IdentityAccessReviewDraft \<equiv> ''draft''"
abbreviation IdentityAccessReviewOpen :: string where "IdentityAccessReviewOpen \<equiv> ''open''"
abbreviation IdentityAccessReviewCompleted :: string where "IdentityAccessReviewCompleted \<equiv> ''completed''"
abbreviation IdentityAccessReviewKeep :: string where "IdentityAccessReviewKeep \<equiv> ''keep''"
abbreviation IdentityAccessReviewRevoke :: string where "IdentityAccessReviewRevoke \<equiv> ''revoke''"
abbreviation IdentityAccessReviewReduceScope :: string where "IdentityAccessReviewReduceScope \<equiv> ''reduce_scope''"
abbreviation IdentityAccessReviewSetExpiry :: string where "IdentityAccessReviewSetExpiry \<equiv> ''set_expiry''"

record IdentityAccessReviewPermissionState =
  aps_PermissionKey :: string
  aps_State :: string
  aps_DefinitionStatus :: string
  aps_Enabled :: bool
  aps_SourceOwner :: string

record IdentityAccessReviewItem =
  ari_ID :: string
  ari_ReviewID :: string
  ari_UserID :: string
  ari_RoleID :: string
  ari_RoleKey :: string
  ari_BindingKey :: string
  ari_ProfileID :: string
  ari_RiskLevel :: string
  ari_Priority :: string
  ari_PriorityReasons :: "string list"
  ari_PermissionStates :: "IdentityAccessReviewPermissionState list"
  ari_LastUsedAt :: string
  ari_Status :: string
  ari_Decision :: string
  ari_ReplacementRoleID :: string
  ari_ExpiresAt :: string
  ari_ReviewerID :: string
  ari_Reason :: string
  ari_DecidedAt :: string
  ari_Version :: int
  ari_CreatedAt :: string
  ari_UpdatedAt :: string

record IdentityAccessReview =
  arv_ID :: string
  arv_WorkspaceID :: string
  arv_PeriodStart :: string
  arv_PeriodEnd :: string
  arv_DueAt :: string
  arv_Status :: string
  arv_CreatedBy :: string
  arv_CreatedAt :: string
  arv_UpdatedAt :: string
  arv_Items :: "IdentityAccessReviewItem list"

record IdentityAccessReviewCreateRequest =
  acr_ID :: string
  acr_PeriodStart :: string
  acr_PeriodEnd :: string
  acr_DueAt :: string

record IdentityAccessReviewDecisionRequest =
  adr_Decision :: string
  adr_ReplacementRoleID :: string
  adr_ExpiresAt :: string
  adr_Reason :: string
  adr_ExpectedVersion :: int
  adr_IdempotencyKey :: string

record IdentityAccessReviewDecisionMutation =
  adm_WorkspaceID :: string
  adm_ItemID :: string
  adm_ReviewerID :: string
  adm_Request :: IdentityAccessReviewDecisionRequest
  adm_RequestFingerprint :: string

record IdentityAccessReviewDecisionReceipt =
  adx_ID :: string
  adx_WorkspaceID :: string
  adx_ItemID :: string
  adx_IdempotencyKey :: string
  adx_RequestFingerprint :: string
  adx_Item :: IdentityAccessReviewItem
  adx_Replayed :: bool
  adx_CreatedAt :: string

text \<open>An item that nobody has reviewed, as the zero value of the struct.\<close>

definition zeroReviewItem :: IdentityAccessReviewItem where
  "zeroReviewItem = \<lparr>ari_ID = [], ari_ReviewID = [], ari_UserID = [], ari_RoleID = [], ari_RoleKey = [], ari_BindingKey = [],
     ari_ProfileID = [], ari_RiskLevel = [], ari_Priority = [], ari_PriorityReasons = [], ari_PermissionStates = [], ari_LastUsedAt = [],
     ari_Status = [], ari_Decision = [], ari_ReplacementRoleID = [], ari_ExpiresAt = [], ari_ReviewerID = [], ari_Reason = [],
     ari_DecidedAt = [], ari_Version = 0, ari_CreatedAt = [], ari_UpdatedAt = []\<rparr>"

definition zeroReviewReceipt :: IdentityAccessReviewDecisionReceipt where
  "zeroReviewReceipt = \<lparr>adx_ID = [], adx_WorkspaceID = [], adx_ItemID = [], adx_IdempotencyKey = [], adx_RequestFingerprint = [],
     adx_Item = zeroReviewItem, adx_Replayed = False, adx_CreatedAt = []\<rparr>"

end
