(* ===== verification/IdentityTables.thy ===== *)
theory IdentityTables
  imports AuthTables AccessReviewModel FieldAccess
begin

section \<open>The tables of the identity stores\<close>

text \<open>
  The tables that the stores under \<open>infrastructure/persistence/database/identity\<close> read and
  write, as \<open>schema/identity.go\<close> declares them.  An identifier is unique in its workspace;
  further unique indexes are named with their tables.  A nullable column is an option.  The
  conflict clause of an upsert names the columns it resolves, as in PostgreSQL and SQLite;
  another index that is broken fails the statement.
\<close>

subsection \<open>Rows\<close>

record identityUserRow =
  iu_WorkspaceID :: string
  iu_ID :: string
  iu_Name :: string
  iu_GivenName :: string
  iu_MiddleName :: string
  iu_FamilyName :: string
  iu_NamePrefix :: string
  iu_NameSuffix :: string
  iu_NativeName :: string
  iu_NameLocale :: string
  iu_Email :: string
  iu_LoginNameKey :: "string option"
  iu_Phone :: string
  iu_AccountType :: string
  iu_Locale :: string
  iu_Timezone :: string
  iu_OrgID :: "string option"
  iu_SupportOrgID :: "string option"
  iu_ManagerUserID :: "string option"
  iu_ReportingPath :: string
  iu_WorkerNo :: string
  iu_WorkerType :: string
  iu_WorkStatus :: string
  iu_StartDate :: "string option"
  iu_EndDate :: "string option"
  iu_Status :: string
  iu_Version :: int
  iu_CreatedAt :: string
  iu_UpdatedAt :: string

record identityRoleRow =
  ir_WorkspaceID :: string
  ir_ID :: string
  ir_Key :: string
  ir_Label :: string
  ir_Description :: "string option"
  ir_Status :: string
  ir_CreatedAt :: string
  ir_UpdatedAt :: string

record assignmentRow =
  ia_ID :: string
  ia_WorkspaceID :: string
  ia_UserID :: string
  ia_RoleID :: string
  ia_BindingKey :: "string option"
  ia_ProfileID :: "string option"
  ia_Source :: string
  ia_Status :: string
  ia_ValidFrom :: "string option"
  ia_ValidUntil :: "string option"
  ia_GrantedBy :: "string option"
  ia_GrantReason :: "string option"
  ia_RevokedBy :: "string option"
  ia_RevokedAt :: "string option"
  ia_RevokeReason :: "string option"
  ia_ExpiresAt :: "string option"
  ia_CreatedAt :: string
  ia_UpdatedAt :: string

record menuRow =
  im_WorkspaceID :: string
  im_ID :: string
  im_Key :: string
  im_Label :: string
  im_Description :: "string option"
  im_Route :: "string option"
  im_Icon :: "string option"
  im_ParentID :: "string option"
  im_SortOrder :: int
  im_Status :: string
  im_CreatedAt :: string
  im_UpdatedAt :: string

record roleMenuRow =
  ix_WorkspaceID :: string
  ix_ID :: string
  ix_RoleID :: string
  ix_MenuID :: string
  ix_CreatedAt :: string
  ix_UpdatedAt :: string

record roleRequestRow =
  iq_WorkspaceID :: string
  iq_ID :: string
  iq_UserID :: string
  iq_RequestedBy :: "string option"
  iq_Provider :: "string option"
  iq_ProviderSubject :: "string option"
  iq_RoleIDs :: string
  iq_Status :: string
  iq_Reason :: "string option"
  iq_CreatedAt :: string
  iq_UpdatedAt :: string
  iq_ReviewedBy :: "string option"
  iq_ReviewedAt :: "string option"
  iq_ReviewNote :: "string option"

record batchReceiptRow =
  ib_WorkspaceID :: string
  ib_ID :: string
  ib_ActorID :: string
  ib_IdempotencyKey :: string
  ib_RequestFingerprint :: string
  ib_Result :: string
  ib_CreatedAt :: string

record unitRow =
  io_WorkspaceID :: string
  io_ID :: string
  io_Code :: string
  io_Name :: string
  io_SiblingKey :: string
  io_NodeType :: string
  io_ParentID :: "string option"
  io_Path :: string
  io_AncestorIDs :: string
  io_Depth :: int
  io_SortOrder :: int
  io_Status :: string
  io_CreatedAt :: string
  io_UpdatedAt :: string

record workloadRow =
  iw_WorkspaceID :: string
  iw_ID :: string
  iw_ApplicationKey :: string
  iw_SubjectID :: string
  iw_WorkflowKey :: string
  iw_DefinitionVersionID :: string
  iw_DefinitionVersion :: int
  iw_RoleKey :: string
  iw_ActionKeys :: string
  iw_ReleaseID :: string
  iw_ReleaseDigest :: string
  iw_SourceKind :: string
  iw_SourceID :: string
  iw_Status :: string
  iw_CreatedAt :: string
  iw_UpdatedAt :: string
  iw_DeactivatedAt :: "string option"

record permissionRow =
  pd_WorkspaceID :: string
  pd_ID :: string
  pd_PermissionKey :: string
  pd_ResourceKey :: string
  pd_OperationKey :: string
  pd_Label :: string
  pd_Description :: string
  pd_Category :: string
  pd_SourceKind :: string
  pd_SourceOwner :: string
  pd_DefinitionStatus :: string
  pd_Enabled :: bool
  pd_DefinitionHash :: string
  pd_SourceSnapshotHash :: string
  pd_CreatedAt :: string
  pd_UpdatedAt :: string

record reviewRow =
  iv_WorkspaceID :: string
  iv_ID :: string
  iv_PeriodStart :: string
  iv_PeriodEnd :: string
  iv_DueAt :: string
  iv_Status :: string
  iv_CreatedBy :: string
  iv_CreatedAt :: string
  iv_UpdatedAt :: string

record reviewItemRow =
  ii_WorkspaceID :: string
  ii_ID :: string
  ii_ReviewID :: string
  ii_UserID :: string
  ii_RoleID :: string
  ii_RoleKey :: string
  ii_BindingKey :: "string option"
  ii_ProfileID :: "string option"
  ii_RiskLevel :: string
  ii_Priority :: string
  ii_PriorityReasons :: string
  ii_LastUsedAt :: "string option"
  ii_Status :: string
  ii_Decision :: "string option"
  ii_ReplacementRoleID :: "string option"
  ii_ExpiresAt :: "string option"
  ii_ReviewerID :: "string option"
  ii_Reason :: "string option"
  ii_DecidedAt :: "string option"
  ii_Version :: int
  ii_CreatedAt :: string
  ii_UpdatedAt :: string

record reviewReceiptRow =
  iz_WorkspaceID :: string
  iz_ID :: string
  iz_ItemID :: string
  iz_IdempotencyKey :: string
  iz_RequestFingerprint :: string
  iz_Result :: string
  iz_CreatedAt :: string

record identityTables =
  it_Users :: "identityUserRow list"
  it_Roles :: "identityRoleRow list"
  it_Assignments :: "assignmentRow list"
  it_Menus :: "menuRow list"
  it_RoleMenus :: "roleMenuRow list"
  it_RoleRequests :: "roleRequestRow list"
  it_BatchReceipts :: "batchReceiptRow list"
  it_Units :: "unitRow list"
  it_Workloads :: "workloadRow list"
  it_Permissions :: "permissionRow list"
  it_Reviews :: "reviewRow list"
  it_ReviewItems :: "reviewItemRow list"
  it_ReviewReceipts :: "reviewReceiptRow list"
  it_Credentials :: "credentialRow list"
  it_Accounts :: "accountRow list"
  it_Factors :: "factorRow list"
  it_Tokens :: "tokenRow list"

type_synonym identityDb = "identityTables database"

text \<open>
  The environment of a store: the clock, SHA-256, the folding of case, JSON and the split of
  batched statements by the number of parameters of an item.
\<close>

record identityStoreEnv = sqlEnv +
  is_Env :: env
  is_Hash :: "string \<Rightarrow> string"
  is_FoldKey :: "string \<Rightarrow> string"
  is_Ranges :: "nat \<Rightarrow> batch_ranges"
  is_EncodeStrings :: "string list \<Rightarrow> string"
  is_DecodeStrings :: "string \<Rightarrow> string list option"
  is_EncodeBatch :: "IdentityEntitlementBatchReceipt \<Rightarrow> string"
  is_DecodeBatch :: "string \<Rightarrow> IdentityEntitlementBatchReceipt option"
  is_EncodeDecision :: "IdentityAccessReviewDecisionReceipt \<Rightarrow> string"
  is_DecodeDecision :: "string \<Rightarrow> IdentityAccessReviewDecisionReceipt option"

abbreviation sqlNow :: "identityStoreEnv \<Rightarrow> string" where "sqlNow e \<equiv> nowString (is_Env e)"

abbreviation withWorkspace :: "string \<Rightarrow> (string \<Rightarrow> ('w, 'a) op) \<Rightarrow> ('w, 'a) op" where
  "withWorkspace workspaceID f \<equiv> andThen (liftRes (NewWorkspaceID workspaceID)) f"

subsection \<open>Unique indexes\<close>

definition loginNameViolation :: go_error where
  "loginNameViolation = Errorf ''UNIQUE constraint failed: _identity_users.login_name_key'' []"

definition userViolation :: "identityUserRow list \<Rightarrow> go_error option" where
  "userViolation rows =
     (if \<not> distinct (map (\<lambda>r. (iu_WorkspaceID r, iu_ID r)) rows) then Some uniqueViolation
      else if \<not> uniqueOn iu_LoginNameKey rows then Some loginNameViolation else None)"

definition keyViolation :: "('r \<Rightarrow> 'k) \<Rightarrow> 'r list \<Rightarrow> go_error option" where
  "keyViolation key rows = (if distinct (map key rows) then None else Some uniqueViolation)"

definition keysViolation :: "('r \<Rightarrow> 'k) \<Rightarrow> ('r \<Rightarrow> 'l) \<Rightarrow> 'r list \<Rightarrow> go_error option" where
  "keysViolation key key' rows =
     (if distinct (map key rows) \<and> distinct (map key' rows) then None else Some uniqueViolation)"

definition unitViolation :: "unitRow list \<Rightarrow> go_error option" where
  "unitViolation rows =
     (if distinct (map (\<lambda>r. (io_WorkspaceID r, io_ID r)) rows)
        \<and> distinct (map (\<lambda>r. (io_WorkspaceID r, io_Code r)) rows)
        \<and> distinct (map (\<lambda>r. (io_WorkspaceID r, io_SiblingKey r)) rows) then None else Some uniqueViolation)"

subsection \<open>Data scopes in SQL (identity/datascope)\<close>

text \<open>A comparison with NULL is not true.\<close>

definition inColumn :: "string option \<Rightarrow> string list \<Rightarrow> bool" where
  "inColumn column values = (case column of None \<Rightarrow> False | Some v \<Rightarrow> v \<in> set values)"

definition userRowInScope :: "IdentityDataScopeFilter \<Rightarrow> identityUserRow \<Rightarrow> bool" where
  "userRowInScope scope0 u =
     (let scope = Filter_Normalized scope0 in
      flt_Unrestricted scope \<or> iu_ID u \<in> set (flt_OwnerUserIDs scope) \<or> inColumn (iu_OrgID u) (flt_OwnerOrgIDs scope))"

definition userRowExists :: "identityTables \<Rightarrow> string \<Rightarrow> string \<Rightarrow> IdentityDataScopeFilter \<Rightarrow> bool" where
  "userRowExists t workspaceID userID scope =
     list_ex (\<lambda>u. iu_WorkspaceID u = TrimSpace workspaceID \<and> iu_ID u = userID \<and> userRowInScope scope u) (it_Users t)"

text \<open>The predicates of a statement for an actor: an unrestricted one adds none.\<close>

definition userScope :: "IdentityDataScopeFilter \<Rightarrow> identityUserRow \<Rightarrow> bool" where
  "userScope scope u \<longleftrightarrow> flt_Unrestricted scope \<or> userRowInScope scope u"

definition relationScope :: "identityTables \<Rightarrow> string \<Rightarrow> IdentityDataScopeFilter \<Rightarrow> string \<Rightarrow> bool" where
  "relationScope t workspaceID scope userID \<longleftrightarrow> flt_Unrestricted scope \<or> userRowExists t workspaceID userID scope"

text \<open>The lookup of a user within a scope that scoped writes make first.\<close>

definition scopedUserCandidate :: "identityStoreEnv \<Rightarrow> string \<Rightarrow> string \<Rightarrow> IdentityDataScopeFilter \<Rightarrow> (identityDb, bool) op" where
  "scopedUserCandidate e workspaceID userID scope =
     andThen (queryRow e (\<lambda>t. filter (\<lambda>u. iu_WorkspaceID u = workspaceID \<and> iu_ID u = userID \<and> userScope scope u) (it_Users t)))
       (\<lambda>row. ret (row \<noteq> None))"

subsection \<open>Identifiers\<close>

text \<open>Parts are joined with underscores, and three more characters become underscores.\<close>

definition rowIdentifier :: "string list \<Rightarrow> string" where
  "rowIdentifier parts = map (\<lambda>c. if c = CHR ''.'' \<or> c = CHR '':'' \<or> c = CHR ''/'' then CHR ''_'' else c) (JoinStrings parts ''_'')"

definition scanText :: "string option \<Rightarrow> string res" where
  "scanText column = (case column of None \<Rightarrow> Inl (Errorf ''converting NULL to string is unsupported'' []) | Some v \<Rightarrow> Inr v)"

text \<open>\<open>nullableString\<close>: a pointer to a blank text is NULL.\<close>

definition nullablePointer :: "string option \<Rightarrow> string option" where
  "nullablePointer v = (case v of None \<Rightarrow> None | Some s \<Rightarrow> NullableText s)"

end
