(* ===== verification/RoleAssignmentStore.thy ===== *)
theory RoleAssignmentStore
  imports IdentityTables MemoryTables
begin

section \<open>The SQL store of roles and role assignments\<close>

text \<open>
  \<open>identity/roleassignment/store.go\<close>, \<open>identity/authorization/role/store.go\<close> and the methods of
  \<open>identity_store_sql_roles.go\<close> that call them.  The identifier of an assignment is
  made of workspace, user and role; an upsert replaces the row with the same identifier.
  The rows of a statement are written one after the other.
\<close>

subsection \<open>Assignments\<close>

definition normalizeAssignment :: "IdentityUserRoleAssignment \<Rightarrow> IdentityUserRoleAssignment res" where
  "normalizeAssignment a =
     (if asg_UserID a = [] \<or> asg_RoleID a = [] then Inl userRoleIDsRequired
      else let source = TrimSpace (asg_Source a); status = TrimSpace (asg_Status a) in
       Inr (a\<lparr>asg_Source := (if source = [] then ''manual'' else source),
              asg_Status := (if status = [] then ''active'' else status),
              asg_ValidUntil := (case asg_ExpiresAt a of
                  None \<Rightarrow> asg_ValidUntil a
                | Some at \<Rightarrow> if asg_ValidUntil a = [] then TrimSpace at else asg_ValidUntil a)\<rparr>))"

definition assignmentIdentifier :: "string \<Rightarrow> string \<Rightarrow> string \<Rightarrow> string" where
  "assignmentIdentifier workspaceID userID roleID = rowIdentifier [''identity_user_role'', workspaceID, userID, roleID]"

definition assignmentValues :: "string \<Rightarrow> string \<Rightarrow> IdentityUserRoleAssignment \<Rightarrow> assignmentRow" where
  "assignmentValues workspaceID now a =
     (let createdAt = TrimSpace (asg_CreatedAt a) in
      \<lparr>ia_ID = assignmentIdentifier workspaceID (asg_UserID a) (asg_RoleID a), ia_WorkspaceID = workspaceID,
       ia_UserID = asg_UserID a, ia_RoleID = asg_RoleID a,
       ia_BindingKey = NullableText (asg_BindingKey a), ia_ProfileID = NullableText (asg_ProfileID a),
       ia_Source = asg_Source a, ia_Status = asg_Status a,
       ia_ValidFrom = NullableText (asg_ValidFrom a), ia_ValidUntil = NullableText (asg_ValidUntil a),
       ia_GrantedBy = NullableText (asg_GrantedBy a), ia_GrantReason = NullableText (asg_GrantReason a),
       ia_RevokedBy = NullableText (asg_RevokedBy a), ia_RevokedAt = NullableText (asg_RevokedAt a),
       ia_RevokeReason = NullableText (asg_RevokeReason a), ia_ExpiresAt = nullablePointer (asg_ExpiresAt a),
       ia_CreatedAt = (if createdAt = [] then now else createdAt), ia_UpdatedAt = now\<rparr>)"

definition assignmentKey :: "assignmentRow \<Rightarrow> string \<times> string" where
  "assignmentKey r = (ia_WorkspaceID r, ia_ID r)"

definition putAssignment :: "assignmentRow \<Rightarrow> assignmentRow list \<Rightarrow> assignmentRow list" where
  "putAssignment row = upsertRow assignmentKey (\<lambda>_. row) row"

definition writeAssignments :: "identityStoreEnv \<Rightarrow> string \<Rightarrow> IdentityUserRoleAssignment list \<Rightarrow> (identityDb, unit) op" where
  "writeAssignments e workspaceID as = statement e (\<lambda>t.
     (Inr (), it_Assignments_update (fold (\<lambda>a. putAssignment (assignmentValues workspaceID (sqlNow e) a)) as) t))"

definition AssignmentStore_Upsert :: "identityStoreEnv \<Rightarrow> string \<Rightarrow> IdentityUserRoleAssignment \<Rightarrow> (identityDb, unit) op" where
  "AssignmentStore_Upsert e workspaceID0 assignment0 =
     withWorkspace workspaceID0 (\<lambda>workspaceID.
     andThen (liftRes (normalizeAssignment assignment0)) (\<lambda>assignment.
     writeAssignments e workspaceID [assignment]))"

text \<open>\<open>INSERT ... SELECT\<close> from the users: nothing is written when the user is not in scope.\<close>

definition AssignmentStore_UpsertWithExecutorWithinDataScope ::
  "identityStoreEnv \<Rightarrow> string \<Rightarrow> IdentityUserRoleAssignment \<Rightarrow> IdentityDataScopeFilter \<Rightarrow> (identityDb, bool) op" where
  "AssignmentStore_UpsertWithExecutorWithinDataScope e workspaceID0 assignment0 scope =
     withWorkspace workspaceID0 (\<lambda>workspaceID.
     andThen (liftRes (normalizeAssignment assignment0)) (\<lambda>assignment.
     andThen (scopedUserCandidate e workspaceID (asg_UserID assignment) scope) (\<lambda>found.
     if \<not> found then ret False
     else andThen (statement e (\<lambda>t.
        if list_ex (\<lambda>u. iu_WorkspaceID u = workspaceID \<and> iu_ID u = asg_UserID assignment \<and> userScope scope u) (it_Users t)
        then (Inr (1::nat), it_Assignments_update (putAssignment (assignmentValues workspaceID (sqlNow e) assignment)) t)
        else (Inr 0, t))) (\<lambda>changed. ret (changed \<noteq> 0)))))"

definition AssignmentStore_UpsertWithinDataScope ::
  "identityStoreEnv \<Rightarrow> string \<Rightarrow> IdentityUserRoleAssignment \<Rightarrow> IdentityDataScopeFilter \<Rightarrow> (identityDb, bool) op" where
  "AssignmentStore_UpsertWithinDataScope e workspaceID0 assignment0 scope =
     withWorkspace workspaceID0 (\<lambda>workspaceID.
     andThen (liftRes (normalizeAssignment assignment0)) (\<lambda>assignment.
     transaction e (andThen (AssignmentStore_UpsertWithExecutorWithinDataScope e workspaceID assignment scope)
       (\<lambda>allowed. ret (allowed, allowed)))))"

text \<open>A later value of the same user and role takes the place of the earlier one.\<close>

definition keepLast :: "('a \<Rightarrow> string) \<Rightarrow> 'a list \<Rightarrow> 'a list" where
  "keepLast key xs = map snd (fold (\<lambda>x. AList.update (key x) x) xs [])"

definition InsertBatchSize :: nat where
  "InsertBatchSize = 40"

function (sequential) writeChunks :: "identityStoreEnv \<Rightarrow> string \<Rightarrow> IdentityUserRoleAssignment list \<Rightarrow> (identityDb, unit) op" where
  "writeChunks e workspaceID [] = ret ()"
| "writeChunks e workspaceID as = andThen (writeAssignments e workspaceID (take InsertBatchSize as)) (\<lambda>_.
     writeChunks e workspaceID (drop InsertBatchSize as))"
  by pat_completeness auto
termination by (relation "measure (\<lambda>(_, _, as). length as)") (auto simp: InsertBatchSize_def)

definition AssignmentStore_UpsertBatch :: "identityStoreEnv \<Rightarrow> string \<Rightarrow> IdentityUserRoleAssignment list \<Rightarrow> (identityDb, unit) op" where
  "AssignmentStore_UpsertBatch e workspaceID0 assignments =
     withWorkspace workspaceID0 (\<lambda>workspaceID.
     andThen (liftRes (mapRes normalizeAssignment assignments)) (\<lambda>values.
     writeChunks e workspaceID (keepLast (\<lambda>a. asg_UserID a @ NUL @ asg_RoleID a) values)))"

definition scanAssignment :: "assignmentRow \<Rightarrow> IdentityUserRoleAssignment" where
  "scanAssignment r = \<lparr>asg_UserID = ia_UserID r, asg_RoleID = ia_RoleID r, asg_BindingKey = valueFromNull (ia_BindingKey r),
     asg_ProfileID = valueFromNull (ia_ProfileID r), asg_Source = ia_Source r, asg_Status = ia_Status r,
     asg_ValidFrom = valueFromNull (ia_ValidFrom r), asg_ValidUntil = valueFromNull (ia_ValidUntil r),
     asg_GrantedBy = valueFromNull (ia_GrantedBy r), asg_GrantReason = valueFromNull (ia_GrantReason r),
     asg_RevokedBy = valueFromNull (ia_RevokedBy r), asg_RevokedAt = valueFromNull (ia_RevokedAt r),
     asg_RevokeReason = valueFromNull (ia_RevokeReason r), asg_CreatedAt = ia_CreatedAt r, asg_UpdatedAt = ia_UpdatedAt r,
     asg_ExpiresAt = ia_ExpiresAt r\<rparr>"

subsection \<open>Roles\<close>

definition scanRole :: "identityRoleRow \<Rightarrow> IdentityRole res" where
  "scanRole r = bind (scanText (ir_Description r)) (\<lambda>description.
     Inr \<lparr>role_ID = ir_ID r, role_Key = ir_Key r, role_Label = ir_Label r, role_Description = description, role_Status = ir_Status r\<rparr>)"

definition RoleStore_List :: "identityStoreEnv \<Rightarrow> string \<Rightarrow> (identityDb, IdentityRole list) op" where
  "RoleStore_List e workspaceID0 =
     withWorkspace workspaceID0 (\<lambda>workspaceID.
     andThen (queryRows e (\<lambda>t. sortSlice (\<lambda>a b. ir_ID a < ir_ID b) (filter (\<lambda>r. ir_WorkspaceID r = workspaceID) (it_Roles t))))
       (\<lambda>rows. liftRes (mapRes scanRole rows)))"

definition normalizeRole :: "IdentityRole \<Rightarrow> IdentityRole res" where
  "normalizeRole item =
     (let i = TrimSpace (role_ID item); key = TrimSpace (role_Key item) in
      if i = [] then Inl (Errorf ''role id is required'' [])
      else Inr (item\<lparr>role_ID := i, role_Key := (if key = [] then i else key),
                     role_Status := (if role_Status item = [] then IdentityStatusActive else role_Status item)\<rparr>))"

definition roleRow :: "string \<Rightarrow> string \<Rightarrow> IdentityRole \<Rightarrow> identityRoleRow" where
  "roleRow workspaceID now item = \<lparr>ir_WorkspaceID = workspaceID, ir_ID = role_ID item, ir_Key = role_Key item,
     ir_Label = role_Label item, ir_Description = Some (role_Description item), ir_Status = role_Status item,
     ir_CreatedAt = now, ir_UpdatedAt = now\<rparr>"

definition putRole :: "identityRoleRow \<Rightarrow> identityRoleRow list \<Rightarrow> identityRoleRow list" where
  "putRole row = upsertRow (\<lambda>r. (ir_WorkspaceID r, ir_ID r)) (\<lambda>r. row\<lparr>ir_CreatedAt := ir_CreatedAt r\<rparr>) row"

definition RoleStore_UpsertBatchWithExecutor :: "identityStoreEnv \<Rightarrow> string \<Rightarrow> IdentityRole list \<Rightarrow> (identityDb, unit) op" where
  "RoleStore_UpsertBatchWithExecutor e workspaceID0 items =
     withWorkspace workspaceID0 (\<lambda>workspaceID.
     andThen (liftRes (mapRes normalizeRole items)) (\<lambda>normalized0.
     let normalized = keepLast role_ID normalized0 in
     andThen (case is_Ranges e 8 (length normalized) of
         Inl _ \<Rightarrow> raise (Errorf ''plan identity role upsert batches: %w'' []) | Inr rs \<Rightarrow> ret rs) (\<lambda>rs.
     forEach (\<lambda>r. statement e (\<lambda>t. (Inr (), it_Roles_update (fold (\<lambda>item. putRole (roleRow workspaceID (sqlNow e) item))
        (batchOf normalized r)) t))) rs)))"

definition RoleStore_Upsert :: "identityStoreEnv \<Rightarrow> string \<Rightarrow> IdentityRole \<Rightarrow> (identityDb, unit) op" where
  "RoleStore_Upsert e workspaceID item = RoleStore_UpsertBatchWithExecutor e workspaceID [item]"

text \<open>Three statements, each on its own: a failure of a later one leaves what the earlier did.\<close>

definition RoleStore_Remove :: "identityStoreEnv \<Rightarrow> string \<Rightarrow> string \<Rightarrow> (identityDb, unit) op" where
  "RoleStore_Remove e workspaceID0 roleID =
     withWorkspace workspaceID0 (\<lambda>workspaceID.
     andThen (execDelete e it_Assignments it_Assignments_update (\<lambda>r. ia_WorkspaceID r = workspaceID \<and> ia_RoleID r = roleID)) (\<lambda>_.
     andThen (execDelete e it_RoleMenus it_RoleMenus_update (\<lambda>r. ix_WorkspaceID r = workspaceID \<and> ix_RoleID r = roleID)) (\<lambda>_.
     andThen (execDelete e it_Roles it_Roles_update (\<lambda>r. ir_WorkspaceID r = workspaceID \<and> ir_ID r = roleID)) (\<lambda>_. ret ()))))"

definition RoleStore_RemoveUserAssignment :: "identityStoreEnv \<Rightarrow> string \<Rightarrow> string \<Rightarrow> string \<Rightarrow> (identityDb, unit) op" where
  "RoleStore_RemoveUserAssignment e workspaceID0 userID roleID =
     withWorkspace workspaceID0 (\<lambda>workspaceID.
     andThen (execDelete e it_Assignments it_Assignments_update
        (\<lambda>r. ia_WorkspaceID r = workspaceID \<and> ia_UserID r = userID \<and> ia_RoleID r = roleID)) (\<lambda>_. ret ()))"

text \<open>The deletion of a user's assignments of one role, repeated within the scope.\<close>

definition deleteScopedAssignment ::
  "identityStoreEnv \<Rightarrow> string \<Rightarrow> string \<Rightarrow> string \<Rightarrow> IdentityDataScopeFilter \<Rightarrow> (identityDb, unit) op" where
  "deleteScopedAssignment e workspaceID userID roleID scope = statement e (\<lambda>t.
     (Inr (), it_Assignments_update (filter (\<lambda>r. \<not> (ia_WorkspaceID r = workspaceID \<and> ia_UserID r = userID \<and> ia_RoleID r = roleID
        \<and> relationScope t workspaceID scope (ia_UserID r)))) t))"

definition RoleStore_RemoveUserAssignmentWithinDataScope ::
  "identityStoreEnv \<Rightarrow> string \<Rightarrow> string \<Rightarrow> string \<Rightarrow> IdentityDataScopeFilter \<Rightarrow> (identityDb, bool) op" where
  "RoleStore_RemoveUserAssignmentWithinDataScope e workspaceID0 userID0 roleID0 scope =
     withWorkspace workspaceID0 (\<lambda>workspaceID.
     let userID = TrimSpace userID0; roleID = TrimSpace roleID0 in
     transaction e
       (andThen (scopedUserCandidate e workspaceID userID scope) (\<lambda>found.
        if \<not> found then ret (False, False)
        else andThen (deleteScopedAssignment e workspaceID userID roleID scope) (\<lambda>_. ret (True, True)))))"

definition RoleStore_ListUserAssignmentsWithinDataScope ::
  "identityStoreEnv \<Rightarrow> string \<Rightarrow> string \<Rightarrow> IdentityDataScopeFilter \<Rightarrow> (identityDb, IdentityUserRoleAssignment list) op" where
  "RoleStore_ListUserAssignmentsWithinDataScope e workspaceID0 userID scope =
     withWorkspace workspaceID0 (\<lambda>workspaceID.
     andThen (queryRows e (\<lambda>t. sortSlice (\<lambda>a b. (ia_UserID a, ia_RoleID a) < (ia_UserID b, ia_RoleID b))
        (filter (\<lambda>r. ia_WorkspaceID r = workspaceID \<and> (TrimSpace userID = [] \<or> ia_UserID r = userID)
           \<and> relationScope t workspaceID scope (ia_UserID r)) (it_Assignments t))))
       (\<lambda>rows. ret (map scanAssignment rows)))"

definition RoleStore_ListUserAssignments ::
  "identityStoreEnv \<Rightarrow> string \<Rightarrow> string \<Rightarrow> (identityDb, IdentityUserRoleAssignment list) op" where
  "RoleStore_ListUserAssignments e workspaceID userID =
     RoleStore_ListUserAssignmentsWithinDataScope e workspaceID userID unrestrictedFilter"

end
