(* ===== verification/EntitlementStore.thy ===== *)
theory EntitlementStore
  imports RoleAssignmentStore MemoryDirectory
begin

section \<open>The SQL store of role requests and entitlement batches\<close>

text \<open>
  \<open>identity/authorization/rolerequest/store.go\<close> and \<open>identity/entitlement/store.go\<close>, as
  \<open>identity_store_sql_roles.go\<close> and \<open>identity_entitlement_batch_store.go\<close> construct them:
  both write assignments through the assignment store in the transaction of the decision.
\<close>

subsection \<open>Role requests\<close>

definition requestUnique :: "string list \<Rightarrow> string list" where
  "requestUnique values = sortStrings (remdups (filter (\<lambda>v. v \<noteq> []) (map TrimSpace values)))"

definition requestRow :: "identityStoreEnv \<Rightarrow> string \<Rightarrow> IdentityRoleRequest \<Rightarrow> roleRequestRow" where
  "requestRow e workspaceID q = \<lparr>iq_WorkspaceID = workspaceID, iq_ID = req_ID q, iq_UserID = req_UserID q,
     iq_RequestedBy = NullableText (req_RequestedBy q), iq_Provider = NullableText (req_Provider q),
     iq_ProviderSubject = NullableText (req_ProviderSubject q), iq_RoleIDs = is_EncodeStrings e (requestUnique (req_RoleIDs q)),
     iq_Status = req_Status q, iq_Reason = NullableText (req_Reason q), iq_CreatedAt = req_CreatedAt q, iq_UpdatedAt = req_UpdatedAt q,
     iq_ReviewedBy = NullableText (req_ReviewedBy q), iq_ReviewedAt = NullableText (req_ReviewedAt q),
     iq_ReviewNote = NullableText (req_ReviewNote q)\<rparr>"

definition requestKey :: "roleRequestRow \<Rightarrow> string \<times> string" where
  "requestKey r = (iq_WorkspaceID r, iq_ID r)"

definition RequestStore_Create :: "identityStoreEnv \<Rightarrow> string \<Rightarrow> IdentityRoleRequest \<Rightarrow> (identityDb, IdentityRoleRequest) op" where
  "RequestStore_Create e workspaceID0 request0 =
     withWorkspace workspaceID0 (\<lambda>workspaceID.
     andThen (check (req_ID request0 \<noteq> [] \<and> req_UserID request0 \<noteq> [] \<and> req_RoleIDs request0 \<noteq> [])
        (Errorf ''role request id, user id, and roles are required'' [])) (\<lambda>_.
     let request = request0\<lparr>req_CreatedAt := (if req_CreatedAt request0 = [] then sqlNow e else req_CreatedAt request0),
                           req_UpdatedAt := sqlNow e,
                           req_Status := (if req_Status request0 = [] then ''pending'' else req_Status request0)\<rparr> in
     andThen (execInsert e it_RoleRequests it_RoleRequests_update requestKey (requestRow e workspaceID request)) (\<lambda>_.
     ret request)))"

text \<open>A list of roles that does not decode reads as no roles.\<close>

definition scanRequest :: "identityStoreEnv \<Rightarrow> roleRequestRow \<Rightarrow> IdentityRoleRequest" where
  "scanRequest e r = \<lparr>req_ID = iq_ID r, req_UserID = iq_UserID r, req_RequestedBy = valueFromNull (iq_RequestedBy r),
     req_Provider = valueFromNull (iq_Provider r), req_ProviderSubject = valueFromNull (iq_ProviderSubject r),
     req_RoleIDs = (case is_DecodeStrings e (iq_RoleIDs r) of None \<Rightarrow> [] | Some xs \<Rightarrow> xs),
     req_Status = iq_Status r, req_Reason = valueFromNull (iq_Reason r), req_CreatedAt = iq_CreatedAt r, req_UpdatedAt = iq_UpdatedAt r,
     req_ReviewedBy = valueFromNull (iq_ReviewedBy r), req_ReviewedAt = valueFromNull (iq_ReviewedAt r),
     req_ReviewNote = valueFromNull (iq_ReviewNote r)\<rparr>"

definition RequestStore_ListWithinDataScope ::
  "identityStoreEnv \<Rightarrow> string \<Rightarrow> string \<Rightarrow> string \<Rightarrow> IdentityDataScopeFilter \<Rightarrow> (identityDb, IdentityRoleRequest list) op" where
  "RequestStore_ListWithinDataScope e workspaceID0 status userID scope =
     withWorkspace workspaceID0 (\<lambda>workspaceID.
     andThen (queryRows e (\<lambda>t. sortSlice (\<lambda>a b. iq_CreatedAt b < iq_CreatedAt a \<or> iq_CreatedAt a = iq_CreatedAt b \<and> iq_ID a < iq_ID b)
        (filter (\<lambda>r. iq_WorkspaceID r = workspaceID \<and> (TrimSpace status = [] \<or> iq_Status r = status)
           \<and> (TrimSpace userID = [] \<or> iq_UserID r = userID) \<and> relationScope t workspaceID scope (iq_UserID r)) (it_RoleRequests t))))
       (\<lambda>rows. ret (map (scanRequest e) rows)))"

definition RequestStore_List :: "identityStoreEnv \<Rightarrow> string \<Rightarrow> string \<Rightarrow> string \<Rightarrow> (identityDb, IdentityRoleRequest list) op" where
  "RequestStore_List e workspaceID status userID = RequestStore_ListWithinDataScope e workspaceID status userID unrestrictedFilter"

text \<open>The columns an update sets; user, provider and creation stay.\<close>

definition requestUpdate :: "identityStoreEnv \<Rightarrow> IdentityRoleRequest \<Rightarrow> roleRequestRow \<Rightarrow> roleRequestRow" where
  "requestUpdate e q r = r\<lparr>iq_RoleIDs := is_EncodeStrings e (requestUnique (req_RoleIDs q)), iq_Status := req_Status q,
     iq_Reason := NullableText (req_Reason q), iq_UpdatedAt := req_UpdatedAt q, iq_ReviewedBy := NullableText (req_ReviewedBy q),
     iq_ReviewedAt := NullableText (req_ReviewedAt q), iq_ReviewNote := NullableText (req_ReviewNote q)\<rparr>"

definition RequestStore_Update :: "identityStoreEnv \<Rightarrow> string \<Rightarrow> IdentityRoleRequest \<Rightarrow> (identityDb, unit) op" where
  "RequestStore_Update e workspaceID0 request0 =
     withWorkspace workspaceID0 (\<lambda>workspaceID.
     andThen (check (req_ID request0 \<noteq> []) (Errorf ''role request id is required'' [])) (\<lambda>_.
     let request = request0\<lparr>req_UpdatedAt := (if req_UpdatedAt request0 = [] then sqlNow e else req_UpdatedAt request0)\<rparr> in
     andThen (execUpdate e it_RoleRequests it_RoleRequests_update (\<lambda>r. requestKey r = (workspaceID, req_ID request))
        (requestUpdate e request)) (\<lambda>_. ret ())))"

definition concurrentDecision :: go_error where
  "concurrentDecision = AppError KindConflict ''backend.identity.role_request_concurrent_decision'' []"

text \<open>The assignments of an approved request; the first that is out of scope ends it.\<close>

fun writeDecided ::
  "identityStoreEnv \<Rightarrow> bool \<Rightarrow> string \<Rightarrow> IdentityDataScopeFilter \<Rightarrow> IdentityUserRoleAssignment list \<Rightarrow> (identityDb, bool) op" where
  "writeDecided e enforceScope workspaceID scope [] = ret True"
| "writeDecided e enforceScope workspaceID scope (a # as) =
     (if enforceScope then
        andThen (AssignmentStore_UpsertWithExecutorWithinDataScope e workspaceID a scope) (\<lambda>allowed.
        if \<not> allowed then ret False else writeDecided e enforceScope workspaceID scope as)
      else andThen (AssignmentStore_Upsert e workspaceID a) (\<lambda>_. writeDecided e enforceScope workspaceID scope as))"

definition updateDecided ::
  "identityStoreEnv \<Rightarrow> string \<Rightarrow> IdentityDataScopeFilter \<Rightarrow> string \<Rightarrow> IdentityRoleRequest \<Rightarrow> (identityDb, nat) op" where
  "updateDecided e workspaceID scope expectedStatus request = statement e (\<lambda>t.
     let p = (\<lambda>r. requestKey r = (workspaceID, req_ID request) \<and> iq_Status r = expectedStatus
        \<and> relationScope t workspaceID scope (iq_UserID r)) in
     (Inr (length (filter p (it_RoleRequests t))), it_RoleRequests_update (updateRows p (requestUpdate e request)) t))"

definition applyRequestDecision ::
  "identityStoreEnv \<Rightarrow> string \<Rightarrow> IdentityRoleRequest \<Rightarrow> IdentityUserRoleAssignment list \<Rightarrow> string \<Rightarrow> IdentityDataScopeFilter \<Rightarrow> bool
     \<Rightarrow> (identityDb, bool) op" where
  "applyRequestDecision e workspaceID0 request assignments expectedStatus scope enforceScope =
     withWorkspace workspaceID0 (\<lambda>workspaceID.
     transaction e
       (andThen (queryRow e (\<lambda>t. filter (\<lambda>r. requestKey r = (workspaceID, req_ID request)
          \<and> relationScope t workspaceID scope (iq_UserID r)) (it_RoleRequests t))) (\<lambda>candidate.
        case candidate of None \<Rightarrow> ret (False, False) | Some row \<Rightarrow>
        andThen (check (iq_Status row = expectedStatus) concurrentDecision) (\<lambda>_.
        andThen (writeDecided e enforceScope workspaceID scope assignments) (\<lambda>allowed.
        if \<not> allowed then ret (False, False)
        else andThen (updateDecided e workspaceID scope expectedStatus request) (\<lambda>affected.
        andThen (check (affected = 1) concurrentDecision) (\<lambda>_. ret (True, True))))))))"

definition RequestStore_ApplyDecision ::
  "identityStoreEnv \<Rightarrow> string \<Rightarrow> IdentityRoleRequest \<Rightarrow> IdentityUserRoleAssignment list \<Rightarrow> string \<Rightarrow> (identityDb, unit) op" where
  "RequestStore_ApplyDecision e workspaceID request assignments expectedStatus =
     andThen (applyRequestDecision e workspaceID request assignments expectedStatus unrestrictedFilter False) (\<lambda>updated.
     check updated concurrentDecision)"

definition RequestStore_ApplyDecisionWithinDataScope ::
  "identityStoreEnv \<Rightarrow> string \<Rightarrow> IdentityRoleRequest \<Rightarrow> IdentityUserRoleAssignment list \<Rightarrow> string \<Rightarrow> IdentityDataScopeFilter
     \<Rightarrow> (identityDb, bool) op" where
  "RequestStore_ApplyDecisionWithinDataScope e workspaceID request assignments expectedStatus scope =
     applyRequestDecision e workspaceID request assignments expectedStatus scope True"

subsection \<open>Entitlement batches\<close>

definition loadBatchReceipt :: "identityStoreEnv \<Rightarrow> string \<Rightarrow> string \<Rightarrow> (identityDb, IdentityEntitlementBatchReceipt option) op" where
  "loadBatchReceipt e workspaceID idempotencyKey =
     andThen (queryRow e (\<lambda>t. filter (\<lambda>r. ib_WorkspaceID r = workspaceID \<and> ib_IdempotencyKey r = idempotencyKey) (it_BatchReceipts t)))
       (\<lambda>row. case row of None \<Rightarrow> ret None | Some r \<Rightarrow>
        (case is_DecodeBatch e (ib_Result r) of
           None \<Rightarrow> raise decodeError
         | Some receipt \<Rightarrow> ret (Some (receipt\<lparr>rcpt_RequestFingerprint := ib_RequestFingerprint r\<rparr>))))"

text \<open>Every user of a receipt must be in scope; a user is looked up once.\<close>

fun receiptTargets ::
  "identityStoreEnv \<Rightarrow> string \<Rightarrow> IdentityDataScopeFilter \<Rightarrow> string list \<Rightarrow> IdentityEntitlementBatchItem list \<Rightarrow> (identityDb, bool) op" where
  "receiptTargets e workspaceID scope seen [] = ret True"
| "receiptTargets e workspaceID scope seen (item # items) =
     (let userID = TrimSpace (item_UserID item) in
      if userID = [] then ret False
      else if userID \<in> set seen then receiptTargets e workspaceID scope seen items
      else andThen (scopedUserCandidate e workspaceID userID scope) (\<lambda>found.
        if found then receiptTargets e workspaceID scope (userID # seen) items else ret False))"

definition receiptTargetsWithinDataScope ::
  "identityStoreEnv \<Rightarrow> string \<Rightarrow> IdentityEntitlementBatchReceipt \<Rightarrow> IdentityDataScopeFilter \<Rightarrow> (identityDb, bool) op" where
  "receiptTargetsWithinDataScope e workspaceID receipt scope = receiptTargets e workspaceID scope [] (rcpt_Items receipt)"

definition BatchStore_GetReceipt ::
  "identityStoreEnv \<Rightarrow> string \<Rightarrow> string \<Rightarrow> (identityDb, IdentityEntitlementBatchReceipt option) op" where
  "BatchStore_GetReceipt e workspaceID0 idempotencyKey =
     withWorkspace workspaceID0 (\<lambda>workspaceID. loadBatchReceipt e workspaceID (TrimSpace idempotencyKey))"

definition BatchStore_GetReceiptWithinDataScope ::
  "identityStoreEnv \<Rightarrow> string \<Rightarrow> string \<Rightarrow> IdentityDataScopeFilter \<Rightarrow> (identityDb, IdentityEntitlementBatchReceipt option) op" where
  "BatchStore_GetReceiptWithinDataScope e workspaceID0 idempotencyKey scope =
     withWorkspace workspaceID0 (\<lambda>workspaceID.
     andThen (loadBatchReceipt e workspaceID (TrimSpace idempotencyKey)) (\<lambda>found.
     case found of None \<Rightarrow> ret None | Some receipt \<Rightarrow>
     andThen (receiptTargetsWithinDataScope e workspaceID receipt scope) (\<lambda>allowed.
     ret (if allowed then Some receipt else None))))"

definition newBatchReceipt :: "identityStoreEnv \<Rightarrow> IdentityEntitlementBatchMutation \<Rightarrow> IdentityEntitlementBatchReceipt" where
  "newBatchReceipt e m = \<lparr>rcpt_ID = rowIdentifier [''identity_entitlement_batch'', mut_WorkspaceID m, mut_IdempotencyKey m],
     rcpt_WorkspaceID = mut_WorkspaceID m, rcpt_ActorID = mut_ActorID m, rcpt_IdempotencyKey = mut_IdempotencyKey m,
     rcpt_RequestFingerprint = mut_RequestFingerprint m, rcpt_Items = mut_Items m, rcpt_Replayed = False, rcpt_CreatedAt = sqlNow e\<rparr>"

definition batchReceiptRowOf :: "identityStoreEnv \<Rightarrow> IdentityEntitlementBatchReceipt \<Rightarrow> batchReceiptRow" where
  "batchReceiptRowOf e r = \<lparr>ib_WorkspaceID = rcpt_WorkspaceID r, ib_ID = rcpt_ID r, ib_ActorID = rcpt_ActorID r,
     ib_IdempotencyKey = rcpt_IdempotencyKey r, ib_RequestFingerprint = rcpt_RequestFingerprint r, ib_Result = is_EncodeBatch e r,
     ib_CreatedAt = rcpt_CreatedAt r\<rparr>"

definition insertBatchReceipt :: "identityStoreEnv \<Rightarrow> IdentityEntitlementBatchReceipt \<Rightarrow> (identityDb, nat) op" where
  "insertBatchReceipt e receipt = execWrite e it_BatchReceipts it_BatchReceipts_update
     (keysViolation (\<lambda>r. (ib_WorkspaceID r, ib_ID r)) (\<lambda>r. (ib_WorkspaceID r, ib_IdempotencyKey r)))
     (\<lambda>t rows. (1, rows @ [batchReceiptRowOf e receipt]))"

definition trimMutation :: "string \<Rightarrow> IdentityEntitlementBatchMutation \<Rightarrow> IdentityEntitlementBatchMutation" where
  "trimMutation workspaceID m = m\<lparr>mut_WorkspaceID := workspaceID, mut_ActorID := TrimSpace (mut_ActorID m),
     mut_IdempotencyKey := TrimSpace (mut_IdempotencyKey m), mut_RequestFingerprint := TrimSpace (mut_RequestFingerprint m)\<rparr>"

definition batchInvalidMutation :: "IdentityEntitlementBatchMutation \<Rightarrow> bool" where
  "batchInvalidMutation m \<longleftrightarrow> mut_ActorID m = [] \<or> mut_IdempotencyKey m = [] \<or> mut_RequestFingerprint m = [] \<or> mut_Items m = []
     \<or> length (mut_Items m) \<noteq> length (mut_Assignments m)"

fun writeScopedBatch ::
  "identityStoreEnv \<Rightarrow> string \<Rightarrow> IdentityDataScopeFilter \<Rightarrow> IdentityUserRoleAssignment list \<Rightarrow> (identityDb, bool) op" where
  "writeScopedBatch e workspaceID scope [] = ret True"
| "writeScopedBatch e workspaceID scope (a # as) =
     andThen (AssignmentStore_UpsertWithExecutorWithinDataScope e workspaceID a scope) (\<lambda>allowed.
     if allowed then writeScopedBatch e workspaceID scope as else ret False)"

text \<open>The result is \<open>None\<close> where the code returns false without an error.\<close>

definition replayBatch ::
  "identityStoreEnv \<Rightarrow> string \<Rightarrow> IdentityDataScopeFilter \<Rightarrow> bool \<Rightarrow> string \<Rightarrow> IdentityEntitlementBatchReceipt
     \<Rightarrow> (identityDb, IdentityEntitlementBatchReceipt option \<times> bool) op" where
  "replayBatch e workspaceID scope enforceScope fingerprint receipt =
     andThen (check (rcpt_RequestFingerprint receipt = fingerprint) keyReused) (\<lambda>_.
     andThen (if enforceScope then receiptTargetsWithinDataScope e workspaceID receipt scope else ret True) (\<lambda>allowed.
     ret (if allowed then Some (receipt\<lparr>rcpt_Replayed := True\<rparr>) else None, False)))"

definition applyBatch ::
  "identityStoreEnv \<Rightarrow> IdentityEntitlementBatchMutation \<Rightarrow> IdentityDataScopeFilter \<Rightarrow> bool
     \<Rightarrow> (identityDb, IdentityEntitlementBatchReceipt option) op" where
  "applyBatch e mutation0 scope enforceScope =
     withWorkspace (mut_WorkspaceID mutation0) (\<lambda>workspaceID.
     let mutation = trimMutation workspaceID mutation0 in
     andThen (check (\<not> batchInvalidMutation mutation) (Errorf ''identity entitlement batch mutation is invalid'' [])) (\<lambda>_.
     transaction e
       (andThen (loadBatchReceipt e workspaceID (mut_IdempotencyKey mutation)) (\<lambda>found.
        case found of
          Some receipt \<Rightarrow> replayBatch e workspaceID scope enforceScope (mut_RequestFingerprint mutation) receipt
        | None \<Rightarrow>
            andThen (if enforceScope then writeScopedBatch e workspaceID scope (mut_Assignments mutation)
                     else andThen (AssignmentStore_UpsertBatch e workspaceID (mut_Assignments mutation)) (\<lambda>_. ret True)) (\<lambda>allowed.
            if \<not> allowed then ret (None, False)
            else let receipt = newBatchReceipt e mutation in
              andThen (insertBatchReceipt e receipt) (\<lambda>_. ret (Some receipt, True)))))))"

definition BatchStore_Apply ::
  "identityStoreEnv \<Rightarrow> IdentityEntitlementBatchMutation \<Rightarrow> (identityDb, IdentityEntitlementBatchReceipt option) op" where
  "BatchStore_Apply e mutation = applyBatch e mutation unrestrictedFilter False"

definition BatchStore_ApplyWithinDataScope ::
  "identityStoreEnv \<Rightarrow> IdentityEntitlementBatchMutation \<Rightarrow> IdentityDataScopeFilter
     \<Rightarrow> (identityDb, IdentityEntitlementBatchReceipt option) op" where
  "BatchStore_ApplyWithinDataScope e mutation scope = applyBatch e mutation scope True"

end
