(* ===== verification/MenuStore.thy ===== *)
theory MenuStore
  imports IdentityTables
begin

section \<open>The SQL store of menus and workflow workloads\<close>

text \<open>
  \<open>identity/authorization/menu/store.go\<close> and \<open>identity_workload_sql.go\<close>.  A removed menu keeps
  its row with the status \<open>deleted\<close>, and is written never again.
\<close>

subsection \<open>Menus\<close>

definition menuRowKey :: "menuRow \<Rightarrow> string \<times> string" where
  "menuRowKey r = (im_WorkspaceID r, im_ID r)"

definition scanMenu :: "menuRow \<Rightarrow> IdentityMenu res" where
  "scanMenu r = bind (scanText (im_Description r)) (\<lambda>description. bind (scanText (im_Route r)) (\<lambda>route.
     bind (scanText (im_Icon r)) (\<lambda>icon.
     Inr \<lparr>menu_ID = im_ID r, menu_Key = im_Key r, menu_Label = im_Label r, menu_Description = description, menu_Route = route,
          menu_Icon = icon, menu_ParentID = valueFromNull (im_ParentID r), menu_SortOrder = im_SortOrder r, menu_Status = im_Status r\<rparr>)))"

definition MenuStore_LoadMenus :: "identityStoreEnv \<Rightarrow> string \<Rightarrow> (identityDb, IdentityMenu list) op" where
  "MenuStore_LoadMenus e workspaceID0 =
     withWorkspace workspaceID0 (\<lambda>workspaceID.
     andThen (queryRows e (\<lambda>t. sortSlice (\<lambda>a b. im_SortOrder a < im_SortOrder b \<or> im_SortOrder a = im_SortOrder b \<and> im_Key a < im_Key b)
        (filter (\<lambda>r. im_WorkspaceID r = workspaceID \<and> im_Status r \<noteq> ''deleted'') (it_Menus t))))
       (\<lambda>rows. liftRes (mapRes scanMenu rows)))"

text \<open>The status query and the upsert are two statements without a transaction.\<close>

definition menuRowOf :: "string \<Rightarrow> string \<Rightarrow> IdentityMenu \<Rightarrow> menuRow" where
  "menuRowOf workspaceID now m = \<lparr>im_WorkspaceID = workspaceID, im_ID = menu_ID m, im_Key = menu_Key m, im_Label = menu_Label m,
     im_Description = Some (menu_Description m), im_Route = Some (menu_Route m), im_Icon = Some (menu_Icon m),
     im_ParentID = NullableText (menu_ParentID m), im_SortOrder = menu_SortOrder m, im_Status = menu_Status m,
     im_CreatedAt = now, im_UpdatedAt = now\<rparr>"

definition MenuStore_UpsertIdentityMenu :: "identityStoreEnv \<Rightarrow> string \<Rightarrow> IdentityMenu \<Rightarrow> (identityDb, unit) op" where
  "MenuStore_UpsertIdentityMenu e workspaceID0 menu0 =
     withWorkspace workspaceID0 (\<lambda>workspaceID.
     andThen (check (menu_ID menu0 \<noteq> []) (Errorf ''menu id is required'' [])) (\<lambda>_.
     let menu = menu0\<lparr>menu_Key := (if menu_Key menu0 = [] then menu_ID menu0 else menu_Key menu0),
                     menu_Status := (if menu_Status menu0 = [] then IdentityStatusActive else menu_Status menu0)\<rparr>;
         row = menuRowOf workspaceID (sqlNow e) menu in
     andThen (queryRow e (\<lambda>t. filter (\<lambda>r. menuRowKey r = (workspaceID, menu_ID menu)) (it_Menus t))) (\<lambda>persisted.
     if (case persisted of None \<Rightarrow> [] | Some r \<Rightarrow> im_Status r) = ''deleted'' then ret ()
     else execUpsert e it_Menus_update menuRowKey (\<lambda>r. row\<lparr>im_CreatedAt := im_CreatedAt r\<rparr>) row)))"

definition menuNotFoundError :: "string \<Rightarrow> go_error" where
  "menuNotFoundError i = Errorf ''menu not found: %s'' [i]"

definition removeMenuStatements :: "identityStoreEnv \<Rightarrow> string \<Rightarrow> bool \<Rightarrow> IdentityMenu \<Rightarrow> (identityDb, unit) op" where
  "removeMenuStatements e workspaceID requireAffected menu =
     andThen (execDelete e it_RoleMenus it_RoleMenus_update
        (\<lambda>r. ix_WorkspaceID r = workspaceID \<and> (ix_MenuID r = menu_ID menu \<or> ix_MenuID r = menu_Key menu))) (\<lambda>_.
     andThen (execUpdate e it_Menus it_Menus_update (\<lambda>r. menuRowKey r = (workspaceID, menu_ID menu))
        (\<lambda>r. r\<lparr>im_Status := ''deleted'', im_UpdatedAt := sqlNow e\<rparr>)) (\<lambda>count.
     check (requireAffected \<longrightarrow> count = 1) (menuNotFoundError (menu_ID menu))))"

definition MenuStore_RemoveIdentityMenusAtomically :: "identityStoreEnv \<Rightarrow> string \<Rightarrow> IdentityMenu list \<Rightarrow> (identityDb, unit) op" where
  "MenuStore_RemoveIdentityMenusAtomically e workspaceID0 menus =
     withWorkspace workspaceID0 (\<lambda>workspaceID.
     transaction e (andThen (forEach (removeMenuStatements e workspaceID True) menus) (\<lambda>_. ret ((), True))))"

definition MenuStore_RemoveIdentityMenu :: "identityStoreEnv \<Rightarrow> string \<Rightarrow> string \<Rightarrow> (identityDb, unit) op" where
  "MenuStore_RemoveIdentityMenu e workspaceID0 menuID =
     withWorkspace workspaceID0 (\<lambda>workspaceID.
     andThen (MenuStore_LoadMenus e workspaceID) (\<lambda>menus.
     case find (\<lambda>m. menu_ID m = menuID) menus of
       None \<Rightarrow> raise (menuNotFoundError menuID)
     | Some menu \<Rightarrow> transaction e (andThen (removeMenuStatements e workspaceID False menu) (\<lambda>_. ret ((), True)))))"

definition trimmedUnique :: "string list \<Rightarrow> string list" where
  "trimmedUnique values = sortStrings (remdups (filter (\<lambda>v. v \<noteq> []) (map TrimSpace values)))"

definition roleMenuRows :: "string \<Rightarrow> string \<Rightarrow> string \<Rightarrow> string list \<Rightarrow> roleMenuRow list" where
  "roleMenuRows workspaceID now roleID menuIDs = map (\<lambda>menuID. \<lparr>ix_WorkspaceID = workspaceID,
     ix_ID = rowIdentifier [''rolemenu'', workspaceID, roleID, menuID], ix_RoleID = roleID, ix_MenuID = menuID,
     ix_CreatedAt = now, ix_UpdatedAt = now\<rparr>) menuIDs"

text \<open>The reset commits on its own: when the insert fails the role keeps no menus.\<close>

definition MenuStore_SetIdentityRoleMenus :: "identityStoreEnv \<Rightarrow> string \<Rightarrow> string \<Rightarrow> string list \<Rightarrow> (identityDb, unit) op" where
  "MenuStore_SetIdentityRoleMenus e workspaceID0 roleID menuIDs0 =
     withWorkspace workspaceID0 (\<lambda>workspaceID.
     andThen (execDelete e it_RoleMenus it_RoleMenus_update (\<lambda>r. ix_WorkspaceID r = workspaceID \<and> ix_RoleID r = roleID)) (\<lambda>_.
     let menuIDs = trimmedUnique menuIDs0 in
     if menuIDs = [] then ret ()
     else andThen (execWrite e it_RoleMenus it_RoleMenus_update (keyViolation (\<lambda>r. (ix_WorkspaceID r, ix_ID r)))
        (\<lambda>t rows. (length menuIDs, rows @ roleMenuRows workspaceID (sqlNow e) roleID menuIDs))) (\<lambda>_. ret ())))"

definition MenuStore_LoadRoleMenuAssignments ::
  "identityStoreEnv \<Rightarrow> string \<Rightarrow> string \<Rightarrow> (identityDb, IdentityRoleMenuAssignment list) op" where
  "MenuStore_LoadRoleMenuAssignments e workspaceID0 roleID =
     withWorkspace workspaceID0 (\<lambda>workspaceID.
     andThen (queryRows e (\<lambda>t. sortSlice (\<lambda>a b. (ix_RoleID a, ix_MenuID a) < (ix_RoleID b, ix_MenuID b))
        (filter (\<lambda>r. ix_WorkspaceID r = workspaceID \<and> (TrimSpace roleID = [] \<or> ix_RoleID r = roleID)) (it_RoleMenus t))))
       (\<lambda>rows. ret (map (\<lambda>r. \<lparr>rma_RoleID = ix_RoleID r, rma_MenuID = ix_MenuID r\<rparr>) rows)))"

definition MenuStore_ListIdentityMenus :: "identityStoreEnv \<Rightarrow> string \<Rightarrow> (identityDb, IdentityMenu list) op" where
  "MenuStore_ListIdentityMenus e workspaceID = MenuStore_LoadMenus e workspaceID"

definition MenuStore_ListIdentityRoleMenuAssignments ::
  "identityStoreEnv \<Rightarrow> string \<Rightarrow> string \<Rightarrow> (identityDb, IdentityRoleMenuAssignment list) op" where
  "MenuStore_ListIdentityRoleMenuAssignments e workspaceID roleID = MenuStore_LoadRoleMenuAssignments e workspaceID roleID"

subsection \<open>Workloads\<close>

text \<open>
  A release deactivates what the application has and upserts its bindings by workflow, in one
  transaction of its own.  The creation time that it reports is the time of the release,
  while a row that exists keeps its own.
\<close>

definition workloadKey :: "workloadRow \<Rightarrow> string \<times> string \<times> string" where
  "workloadKey r = (iw_WorkspaceID r, iw_ApplicationKey r, iw_WorkflowKey r)"

definition workloadRowOf ::
  "identityStoreEnv \<Rightarrow> string \<Rightarrow> IdentityWorkflowWorkloadRelease \<Rightarrow> IdentityWorkflowWorkloadBinding \<Rightarrow> workloadRow" where
  "workloadRowOf e workspaceID release b = \<lparr>iw_WorkspaceID = workspaceID,
     iw_ID = rowIdentifier [''workflow_workload'', workspaceID, rel_ApplicationKey release, wl_WorkflowKey b],
     iw_ApplicationKey = rel_ApplicationKey release, iw_SubjectID = wl_SubjectID b, iw_WorkflowKey = wl_WorkflowKey b,
     iw_DefinitionVersionID = wl_DefinitionVersionID b, iw_DefinitionVersion = wl_DefinitionVersion b, iw_RoleKey = wl_RoleKey b,
     iw_ActionKeys = is_EncodeStrings e (wl_ActionKeys b), iw_ReleaseID = rel_ReleaseID release,
     iw_ReleaseDigest = rel_ReleaseDigest release, iw_SourceKind = wl_SourceKind b, iw_SourceID = wl_SourceID b,
     iw_Status = ''active'', iw_CreatedAt = sqlNow e, iw_UpdatedAt = sqlNow e, iw_DeactivatedAt = None\<rparr>"

definition upsertWorkload :: "identityStoreEnv \<Rightarrow> workloadRow \<Rightarrow> (identityDb, nat) op" where
  "upsertWorkload e row = execWrite e it_Workloads it_Workloads_update
     (keysViolation (\<lambda>r. (iw_WorkspaceID r, iw_ID r)) workloadKey)
     (\<lambda>t rows. (1, upsertRow workloadKey (\<lambda>r. row\<lparr>iw_ID := iw_ID r, iw_CreatedAt := iw_CreatedAt r\<rparr>) row rows))"

definition SQL_ApplyIdentityWorkflowWorkloadRelease ::
  "identityStoreEnv \<Rightarrow> IdentityWorkflowWorkloadRelease \<Rightarrow> (identityDb, IdentityWorkflowWorkloadBinding list) op" where
  "SQL_ApplyIdentityWorkflowWorkloadRelease e release =
     withWorkspace (rel_WorkspaceID release) (\<lambda>workspaceID.
     transaction e
       (andThen (execUpdate e it_Workloads it_Workloads_update
          (\<lambda>r. iw_WorkspaceID r = workspaceID \<and> iw_ApplicationKey r = rel_ApplicationKey release \<and> iw_Status r = ''active'')
          (\<lambda>r. r\<lparr>iw_Status := ''inactive'', iw_DeactivatedAt := Some (sqlNow e), iw_UpdatedAt := sqlNow e\<rparr>)) (\<lambda>_.
        andThen (forEach (\<lambda>b. andThen (upsertWorkload e (workloadRowOf e workspaceID release b)) (\<lambda>_. ret ())) (rel_Bindings release)) (\<lambda>_.
        ret (map (\<lambda>b. b\<lparr>wl_Status := ''active'', wl_CreatedAt := sqlNow e, wl_UpdatedAt := sqlNow e, wl_DeactivatedAt := []\<rparr>)
               (rel_Bindings release), True)))))"

definition scanWorkload :: "identityStoreEnv \<Rightarrow> string \<Rightarrow> string \<Rightarrow> workloadRow \<Rightarrow> IdentityWorkflowWorkloadBinding res" where
  "scanWorkload e workspaceID applicationKey r =
     (case is_DecodeStrings e (iw_ActionKeys r) of
        None \<Rightarrow> Inl decodeError
      | Some actions \<Rightarrow> Inr \<lparr>wl_WorkspaceID = workspaceID, wl_ApplicationKey = applicationKey, wl_SubjectID = iw_SubjectID r,
          wl_WorkflowKey = iw_WorkflowKey r, wl_DefinitionVersionID = iw_DefinitionVersionID r, wl_DefinitionVersion = iw_DefinitionVersion r,
          wl_RoleKey = iw_RoleKey r, wl_ActionKeys = actions, wl_ReleaseID = iw_ReleaseID r, wl_ReleaseDigest = iw_ReleaseDigest r,
          wl_SourceKind = iw_SourceKind r, wl_SourceID = iw_SourceID r, wl_Status = iw_Status r, wl_CreatedAt = iw_CreatedAt r,
          wl_UpdatedAt = iw_UpdatedAt r, wl_DeactivatedAt = valueFromNull (iw_DeactivatedAt r)\<rparr>)"

definition SQL_GetIdentityWorkflowWorkloadBinding ::
  "identityStoreEnv \<Rightarrow> string \<Rightarrow> string \<Rightarrow> string \<Rightarrow> (identityDb, IdentityWorkflowWorkloadBinding option) op" where
  "SQL_GetIdentityWorkflowWorkloadBinding e workspaceID0 applicationKey workflowKey =
     withWorkspace workspaceID0 (\<lambda>workspaceID.
     andThen (queryRow e (\<lambda>t. filter (\<lambda>r. workloadKey r = (workspaceID, applicationKey, workflowKey)) (it_Workloads t))) (\<lambda>row.
     case row of None \<Rightarrow> ret None
     | Some r \<Rightarrow> liftRes (bind (scanWorkload e workspaceID applicationKey r) (\<lambda>b. Inr (Some b)))))"

end
