(* ===== verification/UnitStore.thy ===== *)
theory UnitStore
  imports IdentityTables
begin

section \<open>The SQL store of organization units\<close>

text \<open>
  \<open>identity/projection/organizationunit/store.go\<close> with the writers of
  \<open>identity_store_sql_users.go\<close>.  Codes and names among siblings are unique by index.
\<close>

definition unitKey :: "unitRow \<Rightarrow> string \<times> string" where
  "unitKey r = (io_WorkspaceID r, io_ID r)"

definition siblingKey :: "identityStoreEnv \<Rightarrow> IdentityOrganizationUnit \<Rightarrow> string" where
  "siblingKey e item = IdentityOrganizationUnitSiblingKey (is_Hash e) (is_FoldKey e) (unit_ParentID item) (unit_Name item)"

definition unitRowOf :: "identityStoreEnv \<Rightarrow> string \<Rightarrow> IdentityOrganizationUnit \<Rightarrow> unitRow" where
  "unitRowOf e workspaceID item = \<lparr>io_WorkspaceID = workspaceID, io_ID = unit_ID item, io_Code = unit_Code item,
     io_Name = unit_Name item, io_SiblingKey = siblingKey e item, io_NodeType = unit_NodeType item,
     io_ParentID = nullablePointer (unit_ParentID item), io_Path = unit_Path item,
     io_AncestorIDs = is_EncodeStrings e (unit_AncestorIDs item), io_Depth = unit_Depth item, io_SortOrder = unit_SortOrder item,
     io_Status = unit_Status item, io_CreatedAt = sqlNow e, io_UpdatedAt = sqlNow e\<rparr>"

definition unitColumns :: "identityStoreEnv \<Rightarrow> string \<Rightarrow> IdentityOrganizationUnit \<Rightarrow> unitRow \<Rightarrow> unitRow" where
  "unitColumns e workspaceID item r = (unitRowOf e workspaceID item)\<lparr>io_CreatedAt := io_CreatedAt r\<rparr>"

definition UnitStore_Upsert :: "identityStoreEnv \<Rightarrow> string \<Rightarrow> IdentityOrganizationUnit \<Rightarrow> (identityDb, unit) op" where
  "UnitStore_Upsert e workspaceID0 item0 =
     withWorkspace workspaceID0 (\<lambda>workspaceID.
     andThen (check (unit_ID item0 \<noteq> []) (Errorf ''organization unit id is required'' [])) (\<lambda>_.
     let item = item0\<lparr>unit_Status := (if unit_Status item0 = [] then IdentityStatusActive else unit_Status item0)\<rparr> in
     andThen (execWrite e it_Units it_Units_update unitViolation
        (\<lambda>t rows. (1, upsertRow unitKey (unitColumns e workspaceID item) (unitRowOf e workspaceID item) rows))) (\<lambda>_. ret ())))"

definition UnitStore_UpsertAtomically :: "identityStoreEnv \<Rightarrow> string \<Rightarrow> IdentityOrganizationUnit list \<Rightarrow> (identityDb, unit) op" where
  "UnitStore_UpsertAtomically e workspaceID items =
     withWorkspace workspaceID (\<lambda>_.
     transaction e (andThen (forEach (UnitStore_Upsert e workspaceID) items) (\<lambda>_. ret ((), True))))"

definition organizationUnitIDInScope :: "IdentityDataScopeFilter \<Rightarrow> string \<Rightarrow> bool" where
  "organizationUnitIDInScope scope i = (TrimSpace i \<in> set (flt_OwnerOrgIDs (Filter_Normalized scope)))"

definition organizationUnitDataScopePredicate :: "IdentityDataScopeFilter \<Rightarrow> unitRow \<Rightarrow> bool" where
  "organizationUnitDataScopePredicate scope0 r =
     (let scope = Filter_Normalized scope0 in flt_Unrestricted scope \<or> io_ID r \<in> set (flt_OwnerOrgIDs scope))"

text \<open>The stored parent of a unit, and whether the actor may change the unit.\<close>

definition unitMutationCandidate ::
  "identityStoreEnv \<Rightarrow> string \<Rightarrow> string \<Rightarrow> IdentityDataScopeFilter \<Rightarrow> (identityDb, bool \<times> bool \<times> string) op" where
  "unitMutationCandidate e workspaceID unitID scope =
     andThen (queryRow e (\<lambda>t. filter (\<lambda>r. unitKey r = (workspaceID, unitID)) (it_Units t))) (\<lambda>row.
     case row of
       None \<Rightarrow> ret (False, True, [])
     | Some r \<Rightarrow> ret (True, flt_Unrestricted scope \<or> organizationUnitIDInScope scope unitID, valueFromNull (io_ParentID r)))"

definition updateUnitWithinDataScope ::
  "identityStoreEnv \<Rightarrow> string \<Rightarrow> IdentityOrganizationUnit \<Rightarrow> IdentityDataScopeFilter \<Rightarrow> (identityDb, unit) op" where
  "updateUnitWithinDataScope e workspaceID item scope =
     (let p = (\<lambda>r. unitKey r = (workspaceID, unit_ID item) \<and> (flt_Unrestricted scope \<or> organizationUnitDataScopePredicate scope r)) in
      andThen (execWrite e it_Units it_Units_update unitViolation
         (\<lambda>t rows. (length (filter p rows), updateRows p (unitColumns e workspaceID item) rows))) (\<lambda>changed.
      check (changed = 1) (Errorf ''identity organization unit scope changed during update'' [])))"

definition insertUnit :: "identityStoreEnv \<Rightarrow> string \<Rightarrow> IdentityOrganizationUnit \<Rightarrow> (identityDb, unit) op" where
  "insertUnit e workspaceID item =
     andThen (execWrite e it_Units it_Units_update unitViolation (\<lambda>t rows. (1, rows @ [unitRowOf e workspaceID item]))) (\<lambda>_. ret ())"

definition unitParentDenied :: "IdentityDataScopeFilter \<Rightarrow> IdentityOrganizationUnit \<Rightarrow> bool \<Rightarrow> string \<Rightarrow> bool" where
  "unitParentDenied scope item exist persistedParentID =
     (let parentID = (case unit_ParentID item of None \<Rightarrow> [] | Some p \<Rightarrow> TrimSpace p) in
      \<not> flt_Unrestricted scope \<and> (\<not> exist \<or> parentID \<noteq> persistedParentID)
        \<and> (parentID = [] \<or> \<not> organizationUnitIDInScope scope parentID))"

fun upsertUnitsScoped ::
  "identityStoreEnv \<Rightarrow> string \<Rightarrow> IdentityDataScopeFilter \<Rightarrow> IdentityOrganizationUnit list \<Rightarrow> (identityDb, bool) op" where
  "upsertUnitsScoped e workspaceID scope [] = ret True"
| "upsertUnitsScoped e workspaceID scope (item0 # items) =
     (let item = item0\<lparr>unit_ID := TrimSpace (unit_ID item0)\<rparr> in
      andThen (check (unit_ID item \<noteq> []) (Errorf ''organization unit id is required'' [])) (\<lambda>_.
      andThen (unitMutationCandidate e workspaceID (unit_ID item) scope) (\<lambda>(exist, allowed, persistedParentID).
      if \<not> allowed \<or> unitParentDenied scope item exist persistedParentID then ret False
      else andThen (if exist then updateUnitWithinDataScope e workspaceID item scope else insertUnit e workspaceID item) (\<lambda>_.
        upsertUnitsScoped e workspaceID scope items))))"

definition UnitStore_UpsertManyWithinDataScope ::
  "identityStoreEnv \<Rightarrow> string \<Rightarrow> IdentityOrganizationUnit list \<Rightarrow> IdentityDataScopeFilter \<Rightarrow> (identityDb, bool) op" where
  "UnitStore_UpsertManyWithinDataScope e workspaceID0 items scope =
     withWorkspace workspaceID0 (\<lambda>workspaceID.
     transaction e (andThen (upsertUnitsScoped e workspaceID scope items) (\<lambda>allowed. ret (allowed, allowed))))"

text \<open>Ancestors that do not decode read as none.\<close>

definition scanUnit :: "identityStoreEnv \<Rightarrow> unitRow \<Rightarrow> IdentityOrganizationUnit" where
  "scanUnit e r = \<lparr>unit_ID = io_ID r, unit_Code = io_Code r, unit_Name = io_Name r, unit_NodeType = io_NodeType r,
     unit_ParentID = io_ParentID r, unit_Path = io_Path r,
     unit_AncestorIDs = (case is_DecodeStrings e (io_AncestorIDs r) of None \<Rightarrow> [] | Some xs \<Rightarrow> xs),
     unit_Depth = io_Depth r, unit_SortOrder = io_SortOrder r, unit_Status = io_Status r\<rparr>"

text \<open>
  \<open>ORDER BY depth, parent_id, sort_order, id\<close>; a unit without parent sorts before the others
  of its depth.
\<close>

definition unitRowLess :: "unitRow \<Rightarrow> unitRow \<Rightarrow> bool" where
  "unitRowLess a b \<longleftrightarrow>
     (io_Depth a, valueFromNull (io_ParentID a), io_SortOrder a, io_ID a) < (io_Depth b, valueFromNull (io_ParentID b), io_SortOrder b, io_ID b)"

definition UnitStore_ListWithinDataScope ::
  "identityStoreEnv \<Rightarrow> string \<Rightarrow> IdentityDataScopeFilter \<Rightarrow> (identityDb, IdentityOrganizationUnit list) op" where
  "UnitStore_ListWithinDataScope e workspaceID0 scope =
     withWorkspace workspaceID0 (\<lambda>workspaceID.
     andThen (queryRows e (\<lambda>t. sortSlice unitRowLess (filter (\<lambda>r. io_WorkspaceID r = workspaceID
        \<and> (flt_Unrestricted scope \<or> organizationUnitDataScopePredicate scope r)) (it_Units t))))
       (\<lambda>rows. ret (map (scanUnit e) rows)))"

definition UnitStore_List :: "identityStoreEnv \<Rightarrow> string \<Rightarrow> (identityDb, IdentityOrganizationUnit list) op" where
  "UnitStore_List e workspaceID = UnitStore_ListWithinDataScope e workspaceID unrestrictedFilter"

definition UnitStore_GetWithinDataScope ::
  "identityStoreEnv \<Rightarrow> string \<Rightarrow> string \<Rightarrow> IdentityDataScopeFilter \<Rightarrow> (identityDb, IdentityOrganizationUnit option) op" where
  "UnitStore_GetWithinDataScope e workspaceID0 unitID scope =
     withWorkspace workspaceID0 (\<lambda>workspaceID.
     andThen (queryRow e (\<lambda>t. filter (\<lambda>r. unitKey r = (workspaceID, TrimSpace unitID)
        \<and> (flt_Unrestricted scope \<or> organizationUnitDataScopePredicate scope r)) (it_Units t)))
       (\<lambda>row. ret (map_option (scanUnit e) row)))"

end
