(* ===== verification/UserStore.thy ===== *)
theory UserStore
  imports RoleAssignmentStore
begin

section \<open>The SQL store of users\<close>

text \<open>
  \<open>identity/projection/user/store.go\<close>, \<open>identity/account/store.go\<close> and the composed writes of
  \<open>identity_store_sql_users.go\<close>.  Every write of a user raises its version, and none
  concerns an erased user.  Login names are unique across the installation.
\<close>

subsection \<open>Rows\<close>

abbreviation userKey :: "identityUserRow \<Rightarrow> string \<times> string" where
  "userKey r \<equiv> (iu_WorkspaceID r, iu_ID r)"

definition scanUser :: "identityUserRow \<Rightarrow> IdentityUser" where
  "scanUser r = \<lparr>user_ID = iu_ID r, user_Name = iu_Name r, user_GivenName = iu_GivenName r, user_MiddleName = iu_MiddleName r,
     user_FamilyName = iu_FamilyName r, user_NamePrefix = iu_NamePrefix r, user_NameSuffix = iu_NameSuffix r,
     user_NativeName = iu_NativeName r, user_NameLocale = iu_NameLocale r, user_Email = iu_Email r, user_Phone = iu_Phone r,
     user_AccountType = iu_AccountType r, user_Locale = iu_Locale r, user_Timezone = iu_Timezone r,
     user_OrgID = valueFromNull (iu_OrgID r), user_SupportOrgID = valueFromNull (iu_SupportOrgID r),
     user_ManagerUserID = valueFromNull (iu_ManagerUserID r), user_ReportingPath = iu_ReportingPath r, user_WorkerNo = iu_WorkerNo r,
     user_WorkerType = iu_WorkerType r, user_WorkStatus = iu_WorkStatus r, user_StartDate = valueFromNull (iu_StartDate r),
     user_EndDate = valueFromNull (iu_EndDate r), user_Status = iu_Status r, user_Version = iu_Version r,
     user_CreatedAt = iu_CreatedAt r, user_UpdatedAt = iu_UpdatedAt r\<rparr>"

definition loginKey :: "identityStoreEnv \<Rightarrow> string \<Rightarrow> string option" where
  "loginKey e login = IdentityLoginNameKey (is_Hash e) login"

definition userRowOf :: "identityStoreEnv \<Rightarrow> string \<Rightarrow> IdentityUser \<Rightarrow> identityUserRow" where
  "userRowOf e workspaceID u = \<lparr>iu_WorkspaceID = workspaceID, iu_ID = user_ID u, iu_Name = user_Name u, iu_GivenName = user_GivenName u,
     iu_MiddleName = user_MiddleName u, iu_FamilyName = user_FamilyName u, iu_NamePrefix = user_NamePrefix u,
     iu_NameSuffix = user_NameSuffix u, iu_NativeName = user_NativeName u, iu_NameLocale = user_NameLocale u,
     iu_Email = user_Email u, iu_LoginNameKey = loginKey e (user_Email u), iu_Phone = user_Phone u,
     iu_AccountType = user_AccountType u, iu_Locale = user_Locale u, iu_Timezone = user_Timezone u,
     iu_OrgID = NullableText (user_OrgID u), iu_SupportOrgID = NullableText (user_SupportOrgID u),
     iu_ManagerUserID = NullableText (user_ManagerUserID u), iu_ReportingPath = user_ReportingPath u, iu_WorkerNo = user_WorkerNo u,
     iu_WorkerType = user_WorkerType u, iu_WorkStatus = user_WorkStatus u, iu_StartDate = NullableText (user_StartDate u),
     iu_EndDate = NullableText (user_EndDate u), iu_Status = user_Status u, iu_Version = user_Version u,
     iu_CreatedAt = user_CreatedAt u, iu_UpdatedAt = user_UpdatedAt u\<rparr>"

text \<open>The columns that an update sets: all but identifier and creation; the version it raises.\<close>

definition userColumns :: "identityStoreEnv \<Rightarrow> IdentityUser \<Rightarrow> identityUserRow \<Rightarrow> identityUserRow" where
  "userColumns e u r = (userRowOf e (iu_WorkspaceID r) u)\<lparr>iu_ID := iu_ID r, iu_CreatedAt := iu_CreatedAt r,
     iu_Version := iu_Version r + 1, iu_UpdatedAt := sqlNow e\<rparr>"

definition userDefaults :: "IdentityUser \<Rightarrow> IdentityUser" where
  "userDefaults u = u\<lparr>user_Status := (if user_Status u = [] then IdentityStatusActive else user_Status u),
     user_AccountType := (if user_AccountType u = [] then IdentityAccountHuman else user_AccountType u)\<rparr>"

definition userIDRequired :: go_error where
  "userIDRequired = Errorf ''user id is required'' []"

text \<open>The text of a driver error decides whether a login name was taken.\<close>

definition loginNameConflict :: go_error where
  "loginNameConflict = AppError KindConflict ''identity.login_name_conflict'' []"

fun errorText :: "go_error \<Rightarrow> string" where
  "errorText (Errorf f as) = f"
| "errorText (AppError k c ps) = c"

definition loginNameWriteError :: "go_error \<Rightarrow> go_error" where
  "loginNameWriteError err = (let text = ToLower (errorText err) in
     if ContainsString text ''uniq_identity_users_login_name'' \<or> ContainsString text ''_identity_users.login_name_key''
     then loginNameConflict else err)"

definition mapError :: "(go_error \<Rightarrow> go_error) \<Rightarrow> ('w, 'a) op \<Rightarrow> ('w, 'a) op" where
  "mapError f m = (\<lambda>w. case m w of (Inl err, w') \<Rightarrow> (Inl (f err), w') | (Inr x, w') \<Rightarrow> (Inr x, w'))"

subsection \<open>Reading\<close>

text \<open>\<open>userDataScopePredicate\<close> is \<open>datascope.UserPredicate\<close> over the columns of the table.\<close>

definition userDataScopePredicate :: "IdentityDataScopeFilter \<Rightarrow> identityUserRow \<Rightarrow> bool" where
  "userDataScopePredicate scope0 r =
     (let scope = Filter_Normalized scope0 in
      flt_Unrestricted scope \<or> iu_ID r \<in> set (flt_OwnerUserIDs scope) \<or> inColumn (iu_OrgID r) (flt_OwnerOrgIDs scope))"

definition inUserScope :: "IdentityDataScopeFilter \<Rightarrow> identityUserRow \<Rightarrow> bool" where
  "inUserScope scope r \<longleftrightarrow> flt_Unrestricted scope \<or> userDataScopePredicate scope r"

definition UserStore_ListWithinDataScope ::
  "identityStoreEnv \<Rightarrow> string \<Rightarrow> IdentityDataScopeFilter \<Rightarrow> (identityDb, IdentityUser list) op" where
  "UserStore_ListWithinDataScope e workspaceID0 scope =
     withWorkspace workspaceID0 (\<lambda>workspaceID.
     andThen (queryRows e (\<lambda>t. sortSlice (\<lambda>a b. iu_ID a < iu_ID b)
        (filter (\<lambda>r. iu_WorkspaceID r = workspaceID \<and> inUserScope scope r) (it_Users t))))
       (\<lambda>rows. ret (map scanUser rows)))"

definition UserStore_List :: "identityStoreEnv \<Rightarrow> string \<Rightarrow> (identityDb, IdentityUser list) op" where
  "UserStore_List e workspaceID = UserStore_ListWithinDataScope e workspaceID unrestrictedFilter"

definition UserStore_GetWithinDataScope ::
  "identityStoreEnv \<Rightarrow> string \<Rightarrow> string \<Rightarrow> IdentityDataScopeFilter \<Rightarrow> (identityDb, IdentityUser option) op" where
  "UserStore_GetWithinDataScope e workspaceID0 userID scope =
     withWorkspace workspaceID0 (\<lambda>workspaceID.
     andThen (queryRow e (\<lambda>t. filter (\<lambda>r. userKey r = (workspaceID, TrimSpace userID) \<and> inUserScope scope r) (it_Users t)))
       (\<lambda>row. ret (map_option scanUser row)))"

definition UserStore_Get :: "identityStoreEnv \<Rightarrow> string \<Rightarrow> string \<Rightarrow> (identityDb, IdentityUser option) op" where
  "UserStore_Get e workspaceID userID = UserStore_GetWithinDataScope e workspaceID userID unrestrictedFilter"

subsection \<open>Writing\<close>

definition writeUsers ::
  "identityStoreEnv \<Rightarrow> (identityUserRow list \<Rightarrow> nat \<times> identityUserRow list) \<Rightarrow> (identityDb, nat) op" where
  "writeUsers e f = execWrite e it_Users it_Users_update userViolation (\<lambda>t. f)"

definition updateUsers ::
  "identityStoreEnv \<Rightarrow> (identityUserRow \<Rightarrow> bool) \<Rightarrow> (identityUserRow \<Rightarrow> identityUserRow) \<Rightarrow> (identityDb, nat) op" where
  "updateUsers e p f = writeUsers e (\<lambda>rows. (length (filter p rows), updateRows p f rows))"

definition insertUser :: "identityStoreEnv \<Rightarrow> string \<Rightarrow> IdentityUser \<Rightarrow> (identityDb, unit) op" where
  "insertUser e workspaceID u =
     andThen (mapError loginNameWriteError (writeUsers e (\<lambda>rows. (1, rows @ [userRowOf e workspaceID u])))) (\<lambda>_. ret ())"

text \<open>
  The version is read first; a new user is inserted, another updated only at the version that
  was read and when it is not erased.
\<close>

definition UserStore_Upsert :: "identityStoreEnv \<Rightarrow> string \<Rightarrow> IdentityUser \<Rightarrow> (identityDb, unit) op" where
  "UserStore_Upsert e workspaceID0 item0 =
     withWorkspace workspaceID0 (\<lambda>workspaceID.
     andThen (check (user_ID item0 \<noteq> []) userIDRequired) (\<lambda>_.
     let item = userDefaults item0 in
     andThen (queryRow e (\<lambda>t. filter (\<lambda>r. userKey r = (workspaceID, user_ID item)) (it_Users t))) (\<lambda>existing.
     case existing of
       None \<Rightarrow> insertUser e workspaceID (item\<lparr>user_Version := 1, user_CreatedAt := sqlNow e, user_UpdatedAt := sqlNow e\<rparr>)
     | Some r0 \<Rightarrow>
         if iu_Version r0 + 1 \<le> 1 then
           insertUser e workspaceID (item\<lparr>user_Version := iu_Version r0 + 1, user_CreatedAt := iu_CreatedAt r0, user_UpdatedAt := sqlNow e\<rparr>)
         else andThen (mapError loginNameWriteError (updateUsers e
              (\<lambda>r. userKey r = (workspaceID, user_ID item) \<and> iu_Version r = iu_Version r0 \<and> iu_Status r \<noteq> ''erased'')
              (userColumns e item))) (\<lambda>count.
           check (count = 1) (Errorf ''identity user changed or was erased'' [])))))"

definition UserStore_Create :: "identityStoreEnv \<Rightarrow> string \<Rightarrow> IdentityUser \<Rightarrow> (identityDb, unit) op" where
  "UserStore_Create e workspaceID0 item =
     withWorkspace workspaceID0 (\<lambda>workspaceID.
     andThen (check (TrimSpace (user_ID item) \<noteq> []) userIDRequired) (\<lambda>_.
     insertUser e workspaceID ((userDefaults item)\<lparr>user_Version := 1, user_CreatedAt := sqlNow e, user_UpdatedAt := sqlNow e\<rparr>)))"

fun UserStore_UpdateManyWithExecutorCAS ::
  "identityStoreEnv \<Rightarrow> string \<Rightarrow> IdentityUser list \<Rightarrow> IdentityDataScopeFilter \<Rightarrow> (identityDb, bool) op" where
  "UserStore_UpdateManyWithExecutorCAS e workspaceID0 [] scope = withWorkspace workspaceID0 (\<lambda>_. ret True)"
| "UserStore_UpdateManyWithExecutorCAS e workspaceID0 (item # items) scope =
     withWorkspace workspaceID0 (\<lambda>workspaceID.
     andThen (check (TrimSpace (user_ID item) \<noteq> [] \<and> 1 \<le> user_Version item) (Errorf ''user id and current version are required'' [])) (\<lambda>_.
     andThen (mapError loginNameWriteError (updateUsers e
        (\<lambda>r. userKey r = (workspaceID, user_ID item) \<and> iu_Version r = user_Version item \<and> iu_Status r \<noteq> ''erased'' \<and> inUserScope scope r)
        (userColumns e (userDefaults item)))) (\<lambda>changed.
     if changed \<noteq> 1 then ret False else UserStore_UpdateManyWithExecutorCAS e workspaceID0 items scope)))"

definition UserStore_UpdateLocale ::
  "identityStoreEnv \<Rightarrow> string \<Rightarrow> string \<Rightarrow> string \<Rightarrow> int \<Rightarrow> (identityDb, IdentityUser option) op" where
  "UserStore_UpdateLocale e workspaceID0 userID locale expectedVersion =
     withWorkspace workspaceID0 (\<lambda>workspaceID.
     andThen (updateUsers e (\<lambda>r. userKey r = (workspaceID, userID) \<and> iu_Version r = expectedVersion \<and> iu_Status r \<noteq> ''erased'')
        (\<lambda>r. r\<lparr>iu_Locale := locale, iu_Version := iu_Version r + 1, iu_UpdatedAt := sqlNow e\<rparr>)) (\<lambda>count.
     if count \<noteq> 1 then ret None else UserStore_Get e workspaceID userID))"

definition UserStore_UpsertMany :: "identityStoreEnv \<Rightarrow> string \<Rightarrow> IdentityUser list \<Rightarrow> (identityDb, unit) op" where
  "UserStore_UpsertMany e workspaceID0 items =
     withWorkspace workspaceID0 (\<lambda>workspaceID.
     transaction e (andThen (forEach (UserStore_Upsert e workspaceID) items) (\<lambda>_. ret ((), True))))"

text \<open>Blank and repeated identifiers are refused; all users must be there, in scope and not erased.\<close>

fun candidateIDs :: "string list \<Rightarrow> string list \<Rightarrow> string list res" where
  "candidateIDs seen [] = Inr (rev seen)"
| "candidateIDs seen (i0 # is) = (let i = TrimSpace i0 in
     if i = [] then Inl userIDRequired
     else if i \<in> set seen then Inl (Errorf ''duplicate user id %q'' [i])
     else candidateIDs (i # seen) is)"

definition scopedUserMutationCandidatesExist ::
  "identityStoreEnv \<Rightarrow> string \<Rightarrow> string list \<Rightarrow> IdentityDataScopeFilter \<Rightarrow> (identityDb, bool) op" where
  "scopedUserMutationCandidatesExist e workspaceID userIDs scope =
     (if userIDs = [] then ret True
      else andThen (liftRes (candidateIDs [] userIDs)) (\<lambda>ids.
        andThen (queryRows e (\<lambda>t. filter (\<lambda>r. iu_WorkspaceID r = workspaceID \<and> iu_ID r \<in> set ids \<and> iu_Status r \<noteq> ''erased''
           \<and> inUserScope scope r) (it_Users t))) (\<lambda>rows.
        ret (length rows = length userIDs))))"

fun updateUsersScoped ::
  "identityStoreEnv \<Rightarrow> string \<Rightarrow> IdentityDataScopeFilter \<Rightarrow> IdentityUser list \<Rightarrow> (identityDb, bool) op" where
  "updateUsersScoped e workspaceID scope [] = ret True"
| "updateUsersScoped e workspaceID scope (item # items) =
     andThen (mapError loginNameWriteError (updateUsers e
        (\<lambda>r. userKey r = (workspaceID, user_ID item) \<and> iu_Status r \<noteq> ''erased'' \<and> inUserScope scope r)
        (userColumns e (userDefaults item)))) (\<lambda>count.
     if count \<noteq> 1 then ret False else updateUsersScoped e workspaceID scope items)"

definition UserStore_UpdateManyWithExecutorWithinDataScope ::
  "identityStoreEnv \<Rightarrow> string \<Rightarrow> IdentityUser list \<Rightarrow> IdentityDataScopeFilter \<Rightarrow> (identityDb, bool) op" where
  "UserStore_UpdateManyWithExecutorWithinDataScope e workspaceID0 items scope =
     withWorkspace workspaceID0 (\<lambda>workspaceID.
     andThen (check (list_all (\<lambda>u. TrimSpace (user_ID u) \<noteq> []) items) userIDRequired) (\<lambda>_.
     andThen (scopedUserMutationCandidatesExist e workspaceID (map user_ID items) scope) (\<lambda>allowed.
     if \<not> allowed then ret False else updateUsersScoped e workspaceID scope items)))"

definition UserStore_UpdateManyWithinDataScope ::
  "identityStoreEnv \<Rightarrow> string \<Rightarrow> IdentityUser list \<Rightarrow> IdentityDataScopeFilter \<Rightarrow> (identityDb, bool) op" where
  "UserStore_UpdateManyWithinDataScope e workspaceID0 items scope =
     withWorkspace workspaceID0 (\<lambda>workspaceID.
     andThen (check (list_all (\<lambda>u. TrimSpace (user_ID u) \<noteq> []) items) userIDRequired) (\<lambda>_.
     transaction e (andThen (UserStore_UpdateManyWithExecutorWithinDataScope e workspaceID items scope)
       (\<lambda>allowed. ret (allowed, allowed)))))"

subsection \<open>Removal and status\<close>

text \<open>What belongs to a user: assignments, credential, accounts, factors and refresh tokens.\<close>

definition deleteUserRelations :: "identityStoreEnv \<Rightarrow> string \<Rightarrow> string \<Rightarrow> (identityDb, unit) op" where
  "deleteUserRelations e workspaceID userID =
     andThen (execDelete e it_Assignments it_Assignments_update (\<lambda>r. ia_WorkspaceID r = workspaceID \<and> ia_UserID r = userID)) (\<lambda>_.
     andThen (execDelete e it_Credentials it_Credentials_update (\<lambda>r. crow_WorkspaceID r = workspaceID \<and> crow_UserID r = userID)) (\<lambda>_.
     andThen (execDelete e it_Accounts it_Accounts_update (\<lambda>r. arow_WorkspaceID r = workspaceID \<and> arow_UserID r = userID)) (\<lambda>_.
     andThen (execDelete e it_Factors it_Factors_update (\<lambda>r. frow_WorkspaceID r = workspaceID \<and> frow_UserID r = userID)) (\<lambda>_.
     andThen (execDelete e it_Tokens it_Tokens_update (\<lambda>r. trow_WorkspaceID r = workspaceID \<and> trow_UserID r = userID)) (\<lambda>_.
     ret ())))))"

definition UserStore_Remove :: "identityStoreEnv \<Rightarrow> string \<Rightarrow> string \<Rightarrow> (identityDb, unit) op" where
  "UserStore_Remove e workspaceID0 userID =
     withWorkspace workspaceID0 (\<lambda>workspaceID.
     transaction e
       (andThen (deleteUserRelations e workspaceID userID) (\<lambda>_.
        andThen (execDelete e it_Users it_Users_update (\<lambda>r. userKey r = (workspaceID, userID) \<and> iu_Status r \<noteq> ''erased'')) (\<lambda>_.
        ret ((), True)))))"

definition UserStore_RemoveWithinDataScope ::
  "identityStoreEnv \<Rightarrow> string \<Rightarrow> string \<Rightarrow> IdentityDataScopeFilter \<Rightarrow> (identityDb, bool) op" where
  "UserStore_RemoveWithinDataScope e workspaceID0 userID scope =
     withWorkspace workspaceID0 (\<lambda>workspaceID.
     let p = (\<lambda>r. userKey r = (workspaceID, userID) \<and> iu_Status r \<noteq> ''erased'' \<and> inUserScope scope r) in
     transaction e
       (andThen (queryRow e (\<lambda>t. filter p (it_Users t))) (\<lambda>candidate.
        case candidate of None \<Rightarrow> ret (False, False) | Some _ \<Rightarrow>
        andThen (deleteUserRelations e workspaceID userID) (\<lambda>_.
        andThen (execDelete e it_Users it_Users_update p) (\<lambda>count.
        ret (count = 1, count = 1))))))"

definition statusColumns :: "identityStoreEnv \<Rightarrow> string \<Rightarrow> identityUserRow \<Rightarrow> identityUserRow" where
  "statusColumns e status r = r\<lparr>iu_Status := status, iu_Version := iu_Version r + 1, iu_UpdatedAt := sqlNow e\<rparr>"

definition UserStore_SetStatus :: "identityStoreEnv \<Rightarrow> string \<Rightarrow> string \<Rightarrow> string \<Rightarrow> (identityDb, unit) op" where
  "UserStore_SetStatus e workspaceID0 userID status =
     withWorkspace workspaceID0 (\<lambda>workspaceID.
     andThen (updateUsers e (\<lambda>r. userKey r = (workspaceID, userID) \<and> iu_Status r \<noteq> ''erased'') (statusColumns e status)) (\<lambda>_. ret ()))"

definition UserStore_SetStatusWithinDataScope ::
  "identityStoreEnv \<Rightarrow> string \<Rightarrow> string \<Rightarrow> string \<Rightarrow> IdentityDataScopeFilter \<Rightarrow> (identityDb, bool) op" where
  "UserStore_SetStatusWithinDataScope e workspaceID0 userID status scope =
     withWorkspace workspaceID0 (\<lambda>workspaceID.
     transaction e
       (andThen (scopedUserMutationCandidatesExist e workspaceID [userID] scope) (\<lambda>allowed.
        if \<not> allowed then ret (False, False)
        else andThen (updateUsers e (\<lambda>r. userKey r = (workspaceID, userID) \<and> iu_Status r \<noteq> ''erased'' \<and> inUserScope scope r)
            (statusColumns e status)) (\<lambda>count. ret (count = 1, count = 1)))))"

definition revokeTokens :: "identityStoreEnv \<Rightarrow> string \<Rightarrow> string \<Rightarrow> (identityDb, nat) op" where
  "revokeTokens e workspaceID userID = execUpdate e it_Tokens it_Tokens_update
     (\<lambda>r. trow_WorkspaceID r = workspaceID \<and> trow_UserID r = userID \<and> trow_RevokedAt r = None)
     (\<lambda>r. r\<lparr>trow_RevokedAt := Some (sqlNow e), trow_UpdatedAt := sqlNow e\<rparr>)"

text \<open>The number of tokens it revoked, or \<open>None\<close> for a user out of scope.\<close>

definition UserStore_DisableWithinDataScope ::
  "identityStoreEnv \<Rightarrow> string \<Rightarrow> string \<Rightarrow> IdentityDataScopeFilter \<Rightarrow> (identityDb, nat option) op" where
  "UserStore_DisableWithinDataScope e workspaceID0 userID scope =
     withWorkspace workspaceID0 (\<lambda>workspaceID.
     transaction e
       (andThen (scopedUserMutationCandidatesExist e workspaceID [userID] scope) (\<lambda>allowed.
        if \<not> allowed then ret (None, False)
        else andThen (updateUsers e (\<lambda>r. userKey r = (workspaceID, userID) \<and> iu_Status r \<noteq> ''erased'' \<and> inUserScope scope r)
            (statusColumns e IdentityStatusDisabled)) (\<lambda>changed.
          if changed \<noteq> 1 then ret (None, False)
          else andThen (revokeTokens e workspaceID userID) (\<lambda>revoked. ret (Some revoked, True))))))"

definition AccountStore_Disable :: "identityStoreEnv \<Rightarrow> string \<Rightarrow> string \<Rightarrow> (identityDb, nat) op" where
  "AccountStore_Disable e workspaceID userID =
     transaction e
       (andThen (updateUsers e (\<lambda>r. userKey r = (workspaceID, userID) \<and> iu_Status r \<noteq> ''erased'') (statusColumns e ''disabled'')) (\<lambda>changed.
        andThen (check (changed = 1) (Errorf ''identity user %q not found'' [userID])) (\<lambda>_.
        andThen (revokeTokens e workspaceID userID) (\<lambda>revoked. ret (revoked, True)))))"

definition SQL_DisableIdentityAccount :: "identityStoreEnv \<Rightarrow> string \<Rightarrow> string \<Rightarrow> (identityDb, nat) op" where
  "SQL_DisableIdentityAccount e workspaceID0 userID =
     withWorkspace workspaceID0 (\<lambda>workspaceID. AccountStore_Disable e workspaceID userID)"

subsection \<open>Users with their assignments\<close>

definition SQL_UpsertIdentityUserWithRoleAssignmentsAtomically ::
  "identityStoreEnv \<Rightarrow> string \<Rightarrow> IdentityUser \<Rightarrow> IdentityUserRoleAssignment list \<Rightarrow> (identityDb, unit) op" where
  "SQL_UpsertIdentityUserWithRoleAssignmentsAtomically e workspaceID0 user assignments =
     withWorkspace workspaceID0 (\<lambda>workspaceID.
     transaction e
       (andThen (UserStore_Upsert e workspaceID user) (\<lambda>_.
        andThen (execDelete e it_Assignments it_Assignments_update (\<lambda>r. ia_WorkspaceID r = workspaceID \<and> ia_UserID r = user_ID user)) (\<lambda>_.
        andThen (forEach (AssignmentStore_Upsert e workspaceID) assignments) (\<lambda>_. ret ((), True))))))"

fun assignScoped ::
  "identityStoreEnv \<Rightarrow> string \<Rightarrow> IdentityDataScopeFilter \<Rightarrow> IdentityUserRoleAssignment list \<Rightarrow> (identityDb, bool) op" where
  "assignScoped e workspaceID scope [] = ret True"
| "assignScoped e workspaceID scope (a # as) =
     andThen (AssignmentStore_UpsertWithExecutorWithinDataScope e workspaceID a scope) (\<lambda>allowed.
     if allowed then assignScoped e workspaceID scope as else ret False)"

definition SQL_UpsertIdentityUserWithRoleAssignmentsWithinDataScopeAtomically ::
  "identityStoreEnv \<Rightarrow> string \<Rightarrow> IdentityUser \<Rightarrow> IdentityUserRoleAssignment list \<Rightarrow> IdentityDataScopeFilter \<Rightarrow> (identityDb, bool) op" where
  "SQL_UpsertIdentityUserWithRoleAssignmentsWithinDataScopeAtomically e workspaceID0 user assignments scope =
     withWorkspace workspaceID0 (\<lambda>workspaceID.
     transaction e
       (andThen (statement e (\<lambda>t. (Inr (), it_Assignments_update (filter (\<lambda>r. \<not> (ia_WorkspaceID r = workspaceID \<and> ia_UserID r = user_ID user
           \<and> relationScope t workspaceID scope (ia_UserID r)))) t))) (\<lambda>_.
        andThen (assignScoped e workspaceID scope assignments) (\<lambda>assigned.
        if \<not> assigned then ret (False, False)
        else andThen (UserStore_UpdateManyWithExecutorWithinDataScope e workspaceID [user] scope) (\<lambda>allowed. ret (allowed, allowed))))))"

subsection \<open>Login names of the installation\<close>

definition UserStore_GlobalLoginNameAvailable ::
  "identityStoreEnv \<Rightarrow> string \<Rightarrow> string \<Rightarrow> string \<Rightarrow> (identityDb, bool) op" where
  "UserStore_GlobalLoginNameAvailable e workspaceID userID login =
     (case loginKey e login of
        None \<Rightarrow> ret True
      | Some key \<Rightarrow> andThen (queryRow e (\<lambda>t. filter (\<lambda>r. iu_LoginNameKey r = Some key) (it_Users t))) (\<lambda>row.
          ret (case row of None \<Rightarrow> True | Some r \<Rightarrow> iu_WorkspaceID r = workspaceID \<and> iu_ID r = userID)))"

fun soleWorkspace :: "string \<Rightarrow> string list \<Rightarrow> string option" where
  "soleWorkspace workspaceID [] = (if workspaceID = [] then None else Some workspaceID)"
| "soleWorkspace workspaceID (c # cs) = (let candidate = TrimSpace c in
     if workspaceID \<noteq> [] \<and> workspaceID \<noteq> candidate then None else soleWorkspace candidate cs)"

definition UserStore_GlobalLoginWorkspace :: "identityStoreEnv \<Rightarrow> string \<Rightarrow> (identityDb, string option) op" where
  "UserStore_GlobalLoginWorkspace e login =
     (case loginKey e login of
        None \<Rightarrow> ret None
      | Some key \<Rightarrow> andThen (queryRows e (\<lambda>t. take 2 (sortSlice (\<lambda>a b. iu_WorkspaceID a < iu_WorkspaceID b)
          (filter (\<lambda>r. iu_LoginNameKey r = Some key \<or> iu_ID r = TrimSpace login) (it_Users t))))) (\<lambda>rows.
          ret (soleWorkspace [] (map iu_WorkspaceID rows))))"

end
