(* ===== verification/AccessReviewStore.thy ===== *)
theory AccessReviewStore
  imports RoleAssignmentStore MemoryDirectory
begin

section \<open>The SQL store of access reviews\<close>

text \<open>
  \<open>identity/accessreview/store.go\<close>, with the writers of assignments that
  \<open>identity_access_review_store.go\<close> gives it.  A decision locks nothing: it reads receipt, item and
  assignment in a transaction and updates the item only where it is still pending at the
  version that the request expects.  The scope of a decision travels in the context; here it
  is an optional argument.
\<close>

subsection \<open>Rows\<close>

text \<open>This store writes NULL for an empty text only.\<close>

definition emptyIsNull :: "string \<Rightarrow> string option" where
  "emptyIsNull v = (if v = [] then None else Some v)"

definition reviewRowOf :: "string \<Rightarrow> IdentityAccessReview \<Rightarrow> reviewRow" where
  "reviewRowOf workspaceID v = \<lparr>iv_WorkspaceID = workspaceID, iv_ID = arv_ID v, iv_PeriodStart = arv_PeriodStart v,
     iv_PeriodEnd = arv_PeriodEnd v, iv_DueAt = arv_DueAt v, iv_Status = arv_Status v, iv_CreatedBy = arv_CreatedBy v,
     iv_CreatedAt = arv_CreatedAt v, iv_UpdatedAt = arv_UpdatedAt v\<rparr>"

definition itemRowOf :: "identityStoreEnv \<Rightarrow> string \<Rightarrow> string \<Rightarrow> IdentityAccessReviewItem \<Rightarrow> reviewItemRow" where
  "itemRowOf e workspaceID reviewID item = \<lparr>ii_WorkspaceID = workspaceID, ii_ID = ari_ID item, ii_ReviewID = reviewID,
     ii_UserID = ari_UserID item, ii_RoleID = ari_RoleID item, ii_RoleKey = ari_RoleKey item,
     ii_BindingKey = emptyIsNull (ari_BindingKey item), ii_ProfileID = emptyIsNull (ari_ProfileID item),
     ii_RiskLevel = ari_RiskLevel item, ii_Priority = ari_Priority item,
     ii_PriorityReasons = is_EncodeStrings e (ari_PriorityReasons item), ii_LastUsedAt = emptyIsNull (ari_LastUsedAt item),
     ii_Status = ari_Status item, ii_Decision = emptyIsNull (ari_Decision item),
     ii_ReplacementRoleID = emptyIsNull (ari_ReplacementRoleID item), ii_ExpiresAt = emptyIsNull (ari_ExpiresAt item),
     ii_ReviewerID = emptyIsNull (ari_ReviewerID item), ii_Reason = emptyIsNull (ari_Reason item),
     ii_DecidedAt = emptyIsNull (ari_DecidedAt item), ii_Version = ari_Version item, ii_CreatedAt = ari_CreatedAt item,
     ii_UpdatedAt = ari_UpdatedAt item\<rparr>"

definition scanItem :: "identityStoreEnv \<Rightarrow> reviewItemRow \<Rightarrow> IdentityAccessReviewItem res" where
  "scanItem e r = (case is_DecodeStrings e (ii_PriorityReasons r) of
     None \<Rightarrow> Inl decodeError
   | Some reasons \<Rightarrow> Inr \<lparr>ari_ID = ii_ID r, ari_ReviewID = ii_ReviewID r, ari_UserID = ii_UserID r, ari_RoleID = ii_RoleID r,
       ari_RoleKey = ii_RoleKey r, ari_BindingKey = valueFromNull (ii_BindingKey r), ari_ProfileID = valueFromNull (ii_ProfileID r),
       ari_RiskLevel = ii_RiskLevel r, ari_Priority = ii_Priority r, ari_PriorityReasons = reasons, ari_PermissionStates = [],
       ari_LastUsedAt = valueFromNull (ii_LastUsedAt r), ari_Status = ii_Status r, ari_Decision = valueFromNull (ii_Decision r),
       ari_ReplacementRoleID = valueFromNull (ii_ReplacementRoleID r), ari_ExpiresAt = valueFromNull (ii_ExpiresAt r),
       ari_ReviewerID = valueFromNull (ii_ReviewerID r), ari_Reason = valueFromNull (ii_Reason r),
       ari_DecidedAt = valueFromNull (ii_DecidedAt r), ari_Version = ii_Version r, ari_CreatedAt = ii_CreatedAt r,
       ari_UpdatedAt = ii_UpdatedAt r\<rparr>)"

definition itemKey :: "reviewItemRow \<Rightarrow> string \<times> string" where
  "itemKey r = (ii_WorkspaceID r, ii_ID r)"

definition itemViolation :: "reviewItemRow list \<Rightarrow> go_error option" where
  "itemViolation = keysViolation itemKey (\<lambda>r. (ii_WorkspaceID r, ii_ReviewID r, ii_UserID r, ii_RoleID r))"

subsection \<open>Creation\<close>

definition reviewInvalid :: "IdentityAccessReview \<Rightarrow> bool" where
  "reviewInvalid v \<longleftrightarrow> TrimSpace (arv_ID v) = [] \<or> TrimSpace (arv_CreatedBy v) = [] \<or> arv_Items v = []"

definition reviewInvalidError :: go_error where
  "reviewInvalidError = Errorf ''identity access review is invalid'' []"

definition normalizeAccessReviewCreateError :: "go_error \<Rightarrow> go_error" where
  "normalizeAccessReviewCreateError err =
     (let message = ToLower (case err of Errorf f as \<Rightarrow> f | AppError k c ps \<Rightarrow> c) in
      if ContainsString message ''unique'' \<or> ContainsString message ''duplicate''
      then AppError KindConflict ''backend.identity.access_review_exists'' [] else err)"

definition insertReview :: "identityStoreEnv \<Rightarrow> string \<Rightarrow> IdentityAccessReview \<Rightarrow> (identityDb, unit) op" where
  "insertReview e workspaceID review = (\<lambda>db.
     case execInsert e it_Reviews it_Reviews_update (\<lambda>r. (iv_WorkspaceID r, iv_ID r)) (reviewRowOf workspaceID review) db of
       (Inl err, db') \<Rightarrow> (Inl (normalizeAccessReviewCreateError err), db')
     | (Inr x, db') \<Rightarrow> (Inr x, db'))"

definition ReviewStore_Create :: "identityStoreEnv \<Rightarrow> IdentityAccessReview \<Rightarrow> (identityDb, unit) op" where
  "ReviewStore_Create e review =
     withWorkspace (arv_WorkspaceID review) (\<lambda>workspaceID.
     andThen (check (\<not> reviewInvalid review) reviewInvalidError) (\<lambda>_.
     transaction e
       (andThen (insertReview e workspaceID review) (\<lambda>_.
        andThen (execWrite e it_ReviewItems it_ReviewItems_update itemViolation
           (\<lambda>t rows. (length (arv_Items review), rows @ map (itemRowOf e workspaceID (arv_ID review)) (arv_Items review)))) (\<lambda>_.
        ret ((), True))))))"

text \<open>\<open>INSERT ... SELECT\<close>: an item is inserted when its user is in scope.\<close>

definition insertScopedItem ::
  "identityStoreEnv \<Rightarrow> string \<Rightarrow> IdentityDataScopeFilter \<Rightarrow> string \<Rightarrow> IdentityAccessReviewItem \<Rightarrow> (identityDb, nat) op" where
  "insertScopedItem e workspaceID scope reviewID item = execWrite e it_ReviewItems it_ReviewItems_update itemViolation
     (\<lambda>t rows. if list_ex (\<lambda>u. iu_WorkspaceID u = workspaceID \<and> iu_ID u = ari_UserID item \<and> userScope scope u) (it_Users t)
       then (1, rows @ [itemRowOf e workspaceID reviewID item]) else (0, rows))"

fun insertScopedItems ::
  "identityStoreEnv \<Rightarrow> string \<Rightarrow> IdentityDataScopeFilter \<Rightarrow> string \<Rightarrow> IdentityAccessReviewItem list \<Rightarrow> (identityDb, bool) op" where
  "insertScopedItems e workspaceID scope reviewID [] = ret True"
| "insertScopedItems e workspaceID scope reviewID (item # items) =
     andThen (insertScopedItem e workspaceID scope reviewID item) (\<lambda>changed.
     if changed \<noteq> 1 then ret False else insertScopedItems e workspaceID scope reviewID items)"

definition ReviewStore_CreateWithinDataScope ::
  "identityStoreEnv \<Rightarrow> IdentityAccessReview \<Rightarrow> IdentityDataScopeFilter \<Rightarrow> (identityDb, bool) op" where
  "ReviewStore_CreateWithinDataScope e review scope =
     withWorkspace (arv_WorkspaceID review) (\<lambda>workspaceID.
     andThen (check (\<not> reviewInvalid review) reviewInvalidError) (\<lambda>_.
     transaction e
       (andThen (insertReview e workspaceID review) (\<lambda>_.
        andThen (insertScopedItems e workspaceID scope (arv_ID review) (arv_Items review)) (\<lambda>allowed. ret (allowed, allowed))))))"

subsection \<open>Reading\<close>

definition loadItem ::
  "identityStoreEnv \<Rightarrow> string \<Rightarrow> string \<Rightarrow> IdentityDataScopeFilter \<Rightarrow> (identityDb, IdentityAccessReviewItem option) op" where
  "loadItem e workspaceID itemID scope =
     andThen (queryRow e (\<lambda>t. filter (\<lambda>r. itemKey r = (workspaceID, itemID) \<and> relationScope t workspaceID scope (ii_UserID r))
        (it_ReviewItems t))) (\<lambda>row.
     case row of None \<Rightarrow> ret None | Some r \<Rightarrow> liftRes (bind (scanItem e r) (\<lambda>item. Inr (Some item))))"

text \<open>The identifiers are read first, then every item on its own.\<close>

fun loadItems ::
  "identityStoreEnv \<Rightarrow> string \<Rightarrow> IdentityDataScopeFilter \<Rightarrow> string list \<Rightarrow> (identityDb, IdentityAccessReviewItem list) op" where
  "loadItems e workspaceID scope [] = ret []"
| "loadItems e workspaceID scope (i # is) =
     andThen (loadItem e workspaceID i scope) (\<lambda>item.
     andThen (loadItems e workspaceID scope is) (\<lambda>items.
     ret (case item of None \<Rightarrow> items | Some x \<Rightarrow> x # items)))"

definition ListItemsWithinDataScope ::
  "identityStoreEnv \<Rightarrow> string \<Rightarrow> string \<Rightarrow> IdentityDataScopeFilter \<Rightarrow> (identityDb, IdentityAccessReviewItem list) op" where
  "ListItemsWithinDataScope e workspaceID reviewID scope =
     andThen (queryRows e (\<lambda>t. sortStrings (map ii_ID (filter (\<lambda>r. ii_WorkspaceID r = workspaceID \<and> ii_ReviewID r = reviewID
        \<and> relationScope t workspaceID scope (ii_UserID r)) (it_ReviewItems t))))) (\<lambda>ids.
     loadItems e workspaceID scope ids)"

definition scanReview :: "string \<Rightarrow> reviewRow \<Rightarrow> IdentityAccessReview" where
  "scanReview workspaceID r = \<lparr>arv_ID = iv_ID r, arv_WorkspaceID = workspaceID, arv_PeriodStart = iv_PeriodStart r,
     arv_PeriodEnd = iv_PeriodEnd r, arv_DueAt = iv_DueAt r, arv_Status = iv_Status r, arv_CreatedBy = iv_CreatedBy r,
     arv_CreatedAt = iv_CreatedAt r, arv_UpdatedAt = iv_UpdatedAt r, arv_Items = []\<rparr>"

fun withItems ::
  "identityStoreEnv \<Rightarrow> string \<Rightarrow> IdentityDataScopeFilter \<Rightarrow> IdentityAccessReview list \<Rightarrow> (identityDb, IdentityAccessReview list) op" where
  "withItems e workspaceID scope [] = ret []"
| "withItems e workspaceID scope (v # vs) =
     andThen (ListItemsWithinDataScope e workspaceID (arv_ID v) scope) (\<lambda>items.
     andThen (withItems e workspaceID scope vs) (\<lambda>rest. ret (v\<lparr>arv_Items := items\<rparr> # rest)))"

definition reviewVisible :: "identityTables \<Rightarrow> string \<Rightarrow> IdentityDataScopeFilter \<Rightarrow> reviewRow \<Rightarrow> bool" where
  "reviewVisible t workspaceID scope r \<longleftrightarrow> flt_Unrestricted scope
     \<or> list_ex (\<lambda>i. ii_WorkspaceID i = workspaceID \<and> ii_ReviewID i = iv_ID r \<and> userRowExists t workspaceID (ii_UserID i) scope) (it_ReviewItems t)"

definition ReviewStore_ListWithinDataScope ::
  "identityStoreEnv \<Rightarrow> string \<Rightarrow> string \<Rightarrow> IdentityDataScopeFilter \<Rightarrow> (identityDb, IdentityAccessReview list) op" where
  "ReviewStore_ListWithinDataScope e workspaceID0 status0 scope =
     withWorkspace workspaceID0 (\<lambda>workspaceID.
     let status = TrimSpace status0 in
     andThen (queryRows e (\<lambda>t. sortSlice (\<lambda>a b. iv_CreatedAt b < iv_CreatedAt a \<or> iv_CreatedAt a = iv_CreatedAt b \<and> iv_ID a < iv_ID b)
        (filter (\<lambda>r. iv_WorkspaceID r = workspaceID \<and> (status = [] \<or> iv_Status r = status) \<and> reviewVisible t workspaceID scope r)
           (it_Reviews t)))) (\<lambda>rows.
     withItems e workspaceID scope (map (scanReview workspaceID) rows)))"

definition ReviewStore_List :: "identityStoreEnv \<Rightarrow> string \<Rightarrow> string \<Rightarrow> (identityDb, IdentityAccessReview list) op" where
  "ReviewStore_List e workspaceID status = ReviewStore_ListWithinDataScope e workspaceID status unrestrictedFilter"

definition ReviewStore_GetItemWithinDataScope ::
  "identityStoreEnv \<Rightarrow> string \<Rightarrow> string \<Rightarrow> IdentityDataScopeFilter \<Rightarrow> (identityDb, IdentityAccessReviewItem option) op" where
  "ReviewStore_GetItemWithinDataScope e workspaceID0 itemID scope =
     withWorkspace workspaceID0 (\<lambda>workspaceID. loadItem e workspaceID (TrimSpace itemID) scope)"

definition ReviewStore_GetItem :: "identityStoreEnv \<Rightarrow> string \<Rightarrow> string \<Rightarrow> (identityDb, IdentityAccessReviewItem option) op" where
  "ReviewStore_GetItem e workspaceID itemID = ReviewStore_GetItemWithinDataScope e workspaceID itemID unrestrictedFilter"

definition loadReceipt ::
  "identityStoreEnv \<Rightarrow> string \<Rightarrow> string \<Rightarrow> string \<Rightarrow> IdentityDataScopeFilter \<Rightarrow> (identityDb, IdentityAccessReviewDecisionReceipt option) op" where
  "loadReceipt e workspaceID itemID idempotencyKey scope =
     andThen (queryRow e (\<lambda>t. filter (\<lambda>r. iz_WorkspaceID r = workspaceID \<and> iz_ItemID r = itemID \<and> iz_IdempotencyKey r = idempotencyKey
        \<and> (flt_Unrestricted scope \<or> list_ex (\<lambda>i. itemKey i = (workspaceID, itemID) \<and> userRowExists t workspaceID (ii_UserID i) scope)
             (it_ReviewItems t))) (it_ReviewReceipts t))) (\<lambda>row.
     case row of None \<Rightarrow> ret None | Some r \<Rightarrow>
       (case is_DecodeDecision e (iz_Result r) of
          None \<Rightarrow> raise decodeError
        | Some receipt \<Rightarrow> ret (Some (receipt\<lparr>adx_RequestFingerprint := iz_RequestFingerprint r\<rparr>))))"

definition ReviewStore_GetReceiptWithinDataScope ::
  "identityStoreEnv \<Rightarrow> string \<Rightarrow> string \<Rightarrow> string \<Rightarrow> IdentityDataScopeFilter \<Rightarrow> (identityDb, IdentityAccessReviewDecisionReceipt option) op" where
  "ReviewStore_GetReceiptWithinDataScope e workspaceID0 itemID idempotencyKey scope =
     withWorkspace workspaceID0 (\<lambda>workspaceID. loadReceipt e workspaceID (TrimSpace itemID) (TrimSpace idempotencyKey) scope)"

definition ReviewStore_GetReceipt ::
  "identityStoreEnv \<Rightarrow> string \<Rightarrow> string \<Rightarrow> string \<Rightarrow> (identityDb, IdentityAccessReviewDecisionReceipt option) op" where
  "ReviewStore_GetReceipt e workspaceID itemID idempotencyKey =
     ReviewStore_GetReceiptWithinDataScope e workspaceID itemID idempotencyKey unrestrictedFilter"

definition loadAssignment ::
  "identityStoreEnv \<Rightarrow> string \<Rightarrow> string \<Rightarrow> string \<Rightarrow> (identityDb, IdentityUserRoleAssignment option) op" where
  "loadAssignment e workspaceID userID roleID =
     andThen (queryRow e (\<lambda>t. filter (\<lambda>r. ia_WorkspaceID r = workspaceID \<and> ia_UserID r = userID \<and> ia_RoleID r = roleID) (it_Assignments t)))
       (\<lambda>row. ret (map_option scanAssignment row))"

definition loadRole :: "identityStoreEnv \<Rightarrow> string \<Rightarrow> string \<Rightarrow> (identityDb, IdentityRole option) op" where
  "loadRole e workspaceID roleID =
     andThen (queryRow e (\<lambda>t. filter (\<lambda>r. ir_WorkspaceID r = workspaceID \<and> ir_ID r = roleID) (it_Roles t))) (\<lambda>row.
     case row of None \<Rightarrow> ret None | Some r \<Rightarrow> liftRes (bind (scanRole r) (\<lambda>role. Inr (Some role))))"

subsection \<open>Decisions\<close>

definition reviewDataScopeDenied :: go_error where
  "reviewDataScopeDenied = AppError KindForbidden ''backend.identity.data_scope_denied'' []"

definition writeReviewAssignment ::
  "identityStoreEnv \<Rightarrow> string \<Rightarrow> IdentityUserRoleAssignment \<Rightarrow> IdentityDataScopeFilter option \<Rightarrow> (identityDb, unit) op" where
  "writeReviewAssignment e workspaceID assignment scope = (case scope of
     None \<Rightarrow> AssignmentStore_Upsert e workspaceID assignment
   | Some f \<Rightarrow> andThen (AssignmentStore_UpsertWithExecutorWithinDataScope e workspaceID assignment f) (\<lambda>allowed.
       check allowed reviewDataScopeDenied))"

definition deleteReviewAssignment ::
  "identityStoreEnv \<Rightarrow> string \<Rightarrow> string \<Rightarrow> string \<Rightarrow> IdentityDataScopeFilter option \<Rightarrow> (identityDb, unit) op" where
  "deleteReviewAssignment e workspaceID userID roleID scope =
     deleteScopedAssignment e workspaceID userID roleID (case scope of None \<Rightarrow> unrestrictedFilter | Some f \<Rightarrow> f)"

definition assignmentMissing :: go_error where
  "assignmentMissing = AppError KindConflict ''backend.identity.access_review_assignment_missing'' []"

definition replacementRequired :: go_error where
  "replacementRequired = AppError KindBadRequest ''backend.identity.access_review_replacement_role_required'' []"

definition reduceAssignment ::
  "identityStoreEnv \<Rightarrow> string \<Rightarrow> IdentityAccessReviewDecisionMutation \<Rightarrow> IdentityDataScopeFilter option \<Rightarrow> IdentityAccessReviewItem
     \<Rightarrow> IdentityUserRoleAssignment \<Rightarrow> (identityDb, unit) op" where
  "reduceAssignment e workspaceID m scope item a =
     (let replacement = TrimSpace (adr_ReplacementRoleID (adm_Request m)) in
      andThen (check (replacement \<noteq> [] \<and> replacement \<noteq> ari_RoleID item) replacementRequired) (\<lambda>_.
      andThen (loadRole e workspaceID replacement) (\<lambda>role.
      andThen (check (role \<noteq> None) (AppError KindBadRequest ''backend.identity.role_not_found'' [])) (\<lambda>_.
      andThen (deleteReviewAssignment e workspaceID (ari_UserID item) (ari_RoleID item) scope) (\<lambda>_.
      writeReviewAssignment e workspaceID (a\<lparr>asg_RoleID := replacement, asg_Source := ''access_review'', asg_GrantedBy := adm_ReviewerID m,
         asg_GrantReason := adr_Reason (adm_Request m), asg_CreatedAt := sqlNow e, asg_UpdatedAt := sqlNow e\<rparr>) scope)))))"

definition expireAssignment ::
  "identityStoreEnv \<Rightarrow> string \<Rightarrow> IdentityAccessReviewDecisionMutation \<Rightarrow> IdentityDataScopeFilter option
     \<Rightarrow> IdentityUserRoleAssignment \<Rightarrow> (identityDb, unit) op" where
  "expireAssignment e workspaceID m scope a =
     (let expiresAt = TrimSpace (adr_ExpiresAt (adm_Request m)) in
      writeReviewAssignment e workspaceID (a\<lparr>asg_ExpiresAt := Some expiresAt, asg_ValidUntil := expiresAt, asg_Source := ''access_review'',
        asg_GrantedBy := adm_ReviewerID m, asg_GrantReason := adr_Reason (adm_Request m)\<rparr>) scope)"

text \<open>What a decision does to the assignment under review.\<close>

definition applyDecisionEffect ::
  "identityStoreEnv \<Rightarrow> string \<Rightarrow> IdentityAccessReviewDecisionMutation \<Rightarrow> IdentityDataScopeFilter option \<Rightarrow> IdentityAccessReviewItem
     \<Rightarrow> IdentityUserRoleAssignment option \<Rightarrow> (identityDb, unit) op" where
  "applyDecisionEffect e workspaceID m scope item assignment =
     (let decision = adr_Decision (adm_Request m) in
      if decision = IdentityAccessReviewKeep then ret ()
      else if decision = IdentityAccessReviewRevoke then
        (case assignment of None \<Rightarrow> ret () | Some _ \<Rightarrow> deleteReviewAssignment e workspaceID (ari_UserID item) (ari_RoleID item) scope)
      else if decision = IdentityAccessReviewReduceScope then
        (case assignment of None \<Rightarrow> raise assignmentMissing | Some a \<Rightarrow> reduceAssignment e workspaceID m scope item a)
      else if decision = IdentityAccessReviewSetExpiry then
        (case assignment of None \<Rightarrow> raise assignmentMissing | Some a \<Rightarrow> expireAssignment e workspaceID m scope a)
      else raise (AppError KindBadRequest ''backend.identity.access_review_decision_invalid'' []))"

definition decidedItem :: "identityStoreEnv \<Rightarrow> IdentityAccessReviewDecisionMutation \<Rightarrow> IdentityAccessReviewItem \<Rightarrow> IdentityAccessReviewItem" where
  "decidedItem e m item = (let q = adm_Request m in item\<lparr>ari_Status := ''decided'', ari_Decision := adr_Decision q,
     ari_ReplacementRoleID := TrimSpace (adr_ReplacementRoleID q), ari_ExpiresAt := TrimSpace (adr_ExpiresAt q),
     ari_ReviewerID := adm_ReviewerID m, ari_Reason := TrimSpace (adr_Reason q), ari_DecidedAt := sqlNow e, ari_UpdatedAt := sqlNow e,
     ari_Version := ari_Version item + 1\<rparr>)"

definition itemColumns :: "IdentityAccessReviewItem \<Rightarrow> reviewItemRow \<Rightarrow> reviewItemRow" where
  "itemColumns item r = r\<lparr>ii_Status := ari_Status item, ii_Decision := Some (ari_Decision item),
     ii_ReplacementRoleID := emptyIsNull (ari_ReplacementRoleID item), ii_ExpiresAt := emptyIsNull (ari_ExpiresAt item),
     ii_ReviewerID := Some (ari_ReviewerID item), ii_Reason := Some (ari_Reason item), ii_DecidedAt := Some (ari_DecidedAt item),
     ii_UpdatedAt := ari_UpdatedAt item, ii_Version := ari_Version item\<rparr>"

definition updateItem ::
  "identityStoreEnv \<Rightarrow> string \<Rightarrow> int \<Rightarrow> IdentityDataScopeFilter option \<Rightarrow> IdentityAccessReviewItem \<Rightarrow> (identityDb, nat) op" where
  "updateItem e workspaceID expectedVersion scope item = statement e (\<lambda>t.
     let p = (\<lambda>r. itemKey r = (workspaceID, ari_ID item) \<and> ii_Status r = ''pending'' \<and> ii_Version r = expectedVersion
        \<and> (case scope of None \<Rightarrow> True | Some f \<Rightarrow> relationScope t workspaceID f (ii_UserID r))) in
     (Inr (length (filter p (it_ReviewItems t))), it_ReviewItems_update (updateRows p (itemColumns item)) t))"

definition reviewConcurrentDecision :: go_error where
  "reviewConcurrentDecision = AppError KindConflict ''backend.identity.access_review_concurrent_decision'' []"

text \<open>The review is completed when none of its items is pending.\<close>

definition closeReview :: "identityStoreEnv \<Rightarrow> string \<Rightarrow> string \<Rightarrow> (identityDb, unit) op" where
  "closeReview e workspaceID reviewID =
     andThen (queryRows e (\<lambda>t. filter (\<lambda>r. ii_WorkspaceID r = workspaceID \<and> ii_ReviewID r = reviewID \<and> ii_Status r = ''pending'') (it_ReviewItems t)))
       (\<lambda>pending.
     andThen (execUpdate e it_Reviews it_Reviews_update (\<lambda>r. iv_WorkspaceID r = workspaceID \<and> iv_ID r = reviewID)
        (\<lambda>r. r\<lparr>iv_Status := (if pending = [] then IdentityAccessReviewCompleted else IdentityAccessReviewOpen), iv_UpdatedAt := sqlNow e\<rparr>))
       (\<lambda>_. ret ()))"

definition decisionReceipt ::
  "identityStoreEnv \<Rightarrow> string \<Rightarrow> IdentityAccessReviewDecisionMutation \<Rightarrow> IdentityAccessReviewItem \<Rightarrow> IdentityAccessReviewDecisionReceipt" where
  "decisionReceipt e workspaceID m item = (let key = adr_IdempotencyKey (adm_Request m) in
     \<lparr>adx_ID = rowIdentifier [''identity_access_review_receipt'', workspaceID, ari_ID item, key], adx_WorkspaceID = workspaceID,
      adx_ItemID = ari_ID item, adx_IdempotencyKey = key, adx_RequestFingerprint = adm_RequestFingerprint m, adx_Item = item,
      adx_Replayed = False, adx_CreatedAt = sqlNow e\<rparr>)"

definition receiptRowOf :: "identityStoreEnv \<Rightarrow> IdentityAccessReviewDecisionReceipt \<Rightarrow> reviewReceiptRow" where
  "receiptRowOf e x = \<lparr>iz_WorkspaceID = adx_WorkspaceID x, iz_ID = adx_ID x, iz_ItemID = adx_ItemID x,
     iz_IdempotencyKey = adx_IdempotencyKey x, iz_RequestFingerprint = adx_RequestFingerprint x, iz_Result = is_EncodeDecision e x,
     iz_CreatedAt = adx_CreatedAt x\<rparr>"

definition insertReceipt :: "identityStoreEnv \<Rightarrow> IdentityAccessReviewDecisionReceipt \<Rightarrow> (identityDb, nat) op" where
  "insertReceipt e receipt = execWrite e it_ReviewReceipts it_ReviewReceipts_update
     (keysViolation (\<lambda>r. (iz_WorkspaceID r, iz_ID r)) (\<lambda>r. (iz_WorkspaceID r, iz_ItemID r, iz_IdempotencyKey r)))
     (\<lambda>t rows. (1, rows @ [receiptRowOf e receipt]))"

definition trimDecision :: "string \<Rightarrow> IdentityAccessReviewDecisionMutation \<Rightarrow> IdentityAccessReviewDecisionMutation" where
  "trimDecision workspaceID m = m\<lparr>adm_WorkspaceID := workspaceID, adm_ItemID := TrimSpace (adm_ItemID m),
     adm_ReviewerID := TrimSpace (adm_ReviewerID m),
     adm_Request := (adm_Request m)\<lparr>adr_IdempotencyKey := TrimSpace (adr_IdempotencyKey (adm_Request m))\<rparr>,
     adm_RequestFingerprint := TrimSpace (adm_RequestFingerprint m)\<rparr>"

definition decisionInvalid :: "IdentityAccessReviewDecisionMutation \<Rightarrow> bool" where
  "decisionInvalid m \<longleftrightarrow> adm_ItemID m = [] \<or> adm_ReviewerID m = [] \<or> adr_IdempotencyKey (adm_Request m) = [] \<or> adm_RequestFingerprint m = []"

text \<open>The first decision of an item: effect, item, review, receipt.\<close>

definition decideItem ::
  "identityStoreEnv \<Rightarrow> string \<Rightarrow> IdentityAccessReviewDecisionMutation \<Rightarrow> IdentityDataScopeFilter option \<Rightarrow> IdentityAccessReviewItem
     \<Rightarrow> (identityDb, IdentityAccessReviewDecisionReceipt) op" where
  "decideItem e workspaceID m scope item =
     (let expectedVersion = adr_ExpectedVersion (adm_Request m) in
      andThen (check (ari_Status item = ''pending'' \<and> ari_Version item = expectedVersion) reviewConcurrentDecision) (\<lambda>_.
      andThen (loadAssignment e workspaceID (ari_UserID item) (ari_RoleID item)) (\<lambda>assignment.
      andThen (applyDecisionEffect e workspaceID m scope item assignment) (\<lambda>_.
      let decided = decidedItem e m item in
      andThen (updateItem e workspaceID expectedVersion scope decided) (\<lambda>affected.
      andThen (check (affected = 1) reviewConcurrentDecision) (\<lambda>_.
      andThen (closeReview e workspaceID (ari_ReviewID item)) (\<lambda>_.
      let receipt = decisionReceipt e workspaceID m decided in
      andThen (insertReceipt e receipt) (\<lambda>_. ret receipt))))))))"

definition ReviewStore_Apply ::
  "identityStoreEnv \<Rightarrow> IdentityAccessReviewDecisionMutation \<Rightarrow> IdentityDataScopeFilter option
     \<Rightarrow> (identityDb, IdentityAccessReviewDecisionReceipt) op" where
  "ReviewStore_Apply e mutation0 scope =
     withWorkspace (adm_WorkspaceID mutation0) (\<lambda>workspaceID.
     let m = trimDecision workspaceID mutation0; readScope = (case scope of None \<Rightarrow> unrestrictedFilter | Some f \<Rightarrow> f) in
     andThen (check (\<not> decisionInvalid m) (Errorf ''identity access review decision is invalid'' [])) (\<lambda>_.
     transaction e
       (andThen (loadReceipt e workspaceID (adm_ItemID m) (adr_IdempotencyKey (adm_Request m)) readScope) (\<lambda>found.
        case found of
          Some receipt \<Rightarrow> andThen (check (adx_RequestFingerprint receipt = adm_RequestFingerprint m) keyReused) (\<lambda>_.
            ret (receipt\<lparr>adx_Replayed := True\<rparr>, False))
        | None \<Rightarrow>
            andThen (loadItem e workspaceID (adm_ItemID m) readScope) (\<lambda>item.
            case item of
              None \<Rightarrow> raise (AppError KindNotFound ''backend.identity.access_review_item_not_found'' [])
            | Some i \<Rightarrow> andThen (decideItem e workspaceID m scope i) (\<lambda>receipt. ret (receipt, True)))))))"

text \<open>
  The scoped decision also says whether it came as far as a receipt or an item in scope; an
  error carries no such answer to the caller, who reads it only beside a receipt.
\<close>

definition ReviewStore_ApplyWithinDataScope ::
  "identityStoreEnv \<Rightarrow> IdentityAccessReviewDecisionMutation \<Rightarrow> IdentityDataScopeFilter
     \<Rightarrow> (identityDb, IdentityAccessReviewDecisionReceipt \<times> bool) op" where
  "ReviewStore_ApplyWithinDataScope e mutation scope =
     andThen (ReviewStore_Apply e mutation (Some scope)) (\<lambda>receipt. ret (receipt, True))"

end
