(* ===== verification/PermissionStore.thy ===== *)
theory PermissionStore
  imports IdentityTables
begin

section \<open>The SQL store of permission definitions\<close>

text \<open>
  \<open>identity/authorization/permission/store.go\<close>.  An owner publishes its permissions as a
  snapshot with a hash; publishing retires what the owner had and activates what it submits,
  and an administrator's switch of a permission survives.  A call inside a transaction of the
  host does the same without one of its own; the model gives it one.
\<close>

type_synonym IdentityPermissionDefinitionRecord = permissionRow

record IdentityPermissionReconcileRequest =
  prq_WorkspaceID :: string
  prq_SourceOwner :: string
  prq_PreviousSnapshotHash :: string
  prq_SnapshotHash :: string
  prq_Definitions :: "IdentityPermissionDefinitionRecord list"

record IdentityPermissionReconcileReceipt =
  prc_WorkspaceID :: string
  prc_SourceOwner :: string
  prc_PreviousSnapshotHash :: string
  prc_SnapshotHash :: string
  prc_DefinitionCount :: nat
  prc_Inserted :: nat
  prc_Updated :: nat
  prc_Retired :: nat
  prc_Unchanged :: nat

abbreviation permissionActive :: string where "permissionActive \<equiv> ''active''"
abbreviation permissionRetired :: string where "permissionRetired \<equiv> ''retired''"

definition permissionKey :: "permissionRow \<Rightarrow> string \<times> string" where
  "permissionKey r = (pd_WorkspaceID r, pd_PermissionKey r)"

definition permissionRows :: "string \<Rightarrow> identityTables \<Rightarrow> permissionRow list" where
  "permissionRows workspaceID t = sortSlice (\<lambda>a b. pd_PermissionKey a < pd_PermissionKey b)
     (filter (\<lambda>r. pd_WorkspaceID r = workspaceID) (it_Permissions t))"

definition PermissionStore_List :: "identityStoreEnv \<Rightarrow> string \<Rightarrow> (identityDb, IdentityPermissionDefinitionRecord list) op" where
  "PermissionStore_List e workspaceID0 =
     withWorkspace workspaceID0 (\<lambda>workspaceID. queryRows e (permissionRows workspaceID))"

definition permissionKeyRequired :: go_error where
  "permissionKeyRequired = Errorf ''Identity permission key is required'' []"

definition PermissionStore_Get ::
  "identityStoreEnv \<Rightarrow> string \<Rightarrow> string \<Rightarrow> (identityDb, IdentityPermissionDefinitionRecord option) op" where
  "PermissionStore_Get e workspaceID0 key0 =
     withWorkspace workspaceID0 (\<lambda>workspaceID. let key = TrimSpace key0 in
     andThen (check (key \<noteq> []) permissionKeyRequired) (\<lambda>_.
     queryRow e (\<lambda>t. filter (\<lambda>r. permissionKey r = (workspaceID, key)) (it_Permissions t))))"

definition PermissionStore_SetEnabled :: "identityStoreEnv \<Rightarrow> string \<Rightarrow> string \<Rightarrow> bool \<Rightarrow> (identityDb, bool) op" where
  "PermissionStore_SetEnabled e workspaceID0 key0 enabled =
     withWorkspace workspaceID0 (\<lambda>workspaceID. let key = TrimSpace key0 in
     andThen (check (key \<noteq> []) permissionKeyRequired) (\<lambda>_.
     andThen (execUpdate e it_Permissions it_Permissions_update
        (\<lambda>r. permissionKey r = (workspaceID, key) \<and> pd_DefinitionStatus r = permissionActive \<and> pd_Enabled r \<noteq> enabled)
        (\<lambda>r. r\<lparr>pd_Enabled := enabled, pd_UpdatedAt := sqlNow e\<rparr>)) (\<lambda>n.
     ret (0 < n))))"

subsection \<open>Reconciling a snapshot\<close>

definition trimReconcile :: "string \<Rightarrow> IdentityPermissionReconcileRequest \<Rightarrow> IdentityPermissionReconcileRequest" where
  "trimReconcile workspaceID q = q\<lparr>prq_WorkspaceID := workspaceID, prq_SourceOwner := TrimSpace (prq_SourceOwner q),
     prq_PreviousSnapshotHash := TrimSpace (prq_PreviousSnapshotHash q), prq_SnapshotHash := TrimSpace (prq_SnapshotHash q)\<rparr>"

definition trimDefinition :: "permissionRow \<Rightarrow> permissionRow" where
  "trimDefinition d = d\<lparr>pd_WorkspaceID := TrimSpace (pd_WorkspaceID d), pd_PermissionKey := TrimSpace (pd_PermissionKey d),
     pd_SourceOwner := TrimSpace (pd_SourceOwner d), pd_SourceSnapshotHash := TrimSpace (pd_SourceSnapshotHash d)\<rparr>"

text \<open>The submitted definitions by key, which must all belong to the snapshot.\<close>

fun incomingDefinitions ::
  "IdentityPermissionReconcileRequest \<Rightarrow> (string, permissionRow) gomap \<Rightarrow> permissionRow list \<Rightarrow> (string, permissionRow) gomap res" where
  "incomingDefinitions q m [] = Inr m"
| "incomingDefinitions q m (d0 # ds) =
     (let d = trimDefinition d0 in
      if pd_WorkspaceID d \<noteq> prq_WorkspaceID q \<or> pd_SourceOwner d \<noteq> prq_SourceOwner q \<or> pd_SourceSnapshotHash d \<noteq> prq_SnapshotHash q
         \<or> pd_PermissionKey d = [] \<or> TrimSpace (pd_DefinitionHash d) = []
      then Inl (Errorf ''Identity permission definition %q does not match its reconcile scope'' [pd_PermissionKey d])
      else if hasKey m (pd_PermissionKey d)
      then Inl (Errorf ''Identity permission definition %q is duplicated'' [pd_PermissionKey d])
      else incomingDefinitions q (AList.update (pd_PermissionKey d) d m) ds)"

text \<open>The hash that the owner's stored definitions carry; they must agree.\<close>

fun currentSnapshot :: "string \<Rightarrow> string \<Rightarrow> permissionRow list \<Rightarrow> string res" where
  "currentSnapshot owner h [] = Inr h"
| "currentSnapshot owner h (d # ds) =
     (if pd_SourceOwner d \<noteq> owner then currentSnapshot owner h ds
      else if h = [] then currentSnapshot owner (pd_SourceSnapshotHash d) ds
      else if h \<noteq> pd_SourceSnapshotHash d
      then Inl (AppError KindInternal ''identity.permission_snapshot_inconsistent'' [(''source_owner'', owner)])
      else currentSnapshot owner h ds)"

definition snapshotStale :: "IdentityPermissionReconcileRequest \<Rightarrow> string \<Rightarrow> go_error" where
  "snapshotStale q current = AppError KindConflict ''identity.permission_snapshot_stale''
     [(''source_owner'', prq_SourceOwner q), (''previous_snapshot_hash'', prq_PreviousSnapshotHash q), (''current_snapshot_hash'', current)]"

definition ownerConflict :: "IdentityPermissionReconcileRequest \<Rightarrow> permissionRow \<Rightarrow> go_error" where
  "ownerConflict q d = AppError KindConflict ''identity.permission_owner_conflict''
     [(''permission_key'', pd_PermissionKey d), (''current_owner'', pd_SourceOwner d), (''source_owner'', prq_SourceOwner q)]"

text \<open>The first key, in order, that another owner holds.\<close>

definition foreignDefinition :: "IdentityPermissionReconcileRequest \<Rightarrow> permissionRow list \<Rightarrow> string list \<Rightarrow> permissionRow option" where
  "foreignDefinition q current keys = (case List.map_filter (\<lambda>k.
       case find (\<lambda>d. pd_PermissionKey d = k) current of
         None \<Rightarrow> None | Some d \<Rightarrow> if pd_SourceOwner d \<noteq> prq_SourceOwner q then Some d else None) keys of
     [] \<Rightarrow> None | d # _ \<Rightarrow> Some d)"

definition reconcileReceipt ::
  "IdentityPermissionReconcileRequest \<Rightarrow> string \<Rightarrow> permissionRow list \<Rightarrow> string list \<Rightarrow> IdentityPermissionReconcileReceipt" where
  "reconcileReceipt q current rows keys =
     (let dropped = filter (\<lambda>d. pd_SourceOwner d = prq_SourceOwner q \<and> pd_PermissionKey d \<notin> set keys) rows;
          known = filter (\<lambda>k. list_ex (\<lambda>d. pd_PermissionKey d = k) rows) keys in
      \<lparr>prc_WorkspaceID = prq_WorkspaceID q, prc_SourceOwner = prq_SourceOwner q, prc_PreviousSnapshotHash = current,
       prc_SnapshotHash = prq_SnapshotHash q, prc_DefinitionCount = length keys, prc_Inserted = length keys - length known,
       prc_Updated = length known + length (filter (\<lambda>d. pd_DefinitionStatus d = permissionRetired) dropped),
       prc_Retired = length (filter (\<lambda>d. pd_DefinitionStatus d \<noteq> permissionRetired) dropped), prc_Unchanged = 0\<rparr>)"

definition retireOwnerDefinitions :: "identityStoreEnv \<Rightarrow> IdentityPermissionReconcileRequest \<Rightarrow> (identityDb, nat) op" where
  "retireOwnerDefinitions e q = execUpdate e it_Permissions it_Permissions_update
     (\<lambda>r. pd_WorkspaceID r = prq_WorkspaceID q \<and> pd_SourceOwner r = prq_SourceOwner q)
     (\<lambda>r. r\<lparr>pd_DefinitionStatus := permissionRetired, pd_SourceSnapshotHash := prq_SnapshotHash q, pd_UpdatedAt := sqlNow e\<rparr>)"

definition permissionRowID :: "identityStoreEnv \<Rightarrow> string \<Rightarrow> string \<Rightarrow> string" where
  "permissionRowID e workspaceID key = ''permission-'' @ hexEncode (take 16 (is_Hash e (workspaceID @ NUL @ key)))"

text \<open>A new row starts enabled; one that exists keeps its identifier, its switch and its creation.\<close>

definition permissionInsert :: "identityStoreEnv \<Rightarrow> string \<Rightarrow> permissionRow \<Rightarrow> permissionRow" where
  "permissionInsert e workspaceID d = d\<lparr>pd_WorkspaceID := workspaceID, pd_ID := permissionRowID e workspaceID (pd_PermissionKey d),
     pd_DefinitionStatus := permissionActive, pd_Enabled := True, pd_CreatedAt := sqlNow e, pd_UpdatedAt := sqlNow e\<rparr>"

definition putPermission :: "identityStoreEnv \<Rightarrow> string \<Rightarrow> permissionRow \<Rightarrow> permissionRow list \<Rightarrow> permissionRow list" where
  "putPermission e workspaceID d = (let row = permissionInsert e workspaceID d in
     upsertRow permissionKey (\<lambda>r. row\<lparr>pd_ID := pd_ID r, pd_Enabled := pd_Enabled r, pd_CreatedAt := pd_CreatedAt r\<rparr>) row)"

definition upsertDefinitions :: "identityStoreEnv \<Rightarrow> string \<Rightarrow> permissionRow list \<Rightarrow> (identityDb, unit) op" where
  "upsertDefinitions e workspaceID ds =
     andThen (case is_Ranges e 16 (length ds) of
         Inl _ \<Rightarrow> raise (Errorf ''plan Identity permission upsert batches: %w'' []) | Inr rs \<Rightarrow> ret rs) (\<lambda>rs.
     forEach (\<lambda>r. statement e (\<lambda>t. (Inr (), it_Permissions_update (fold (putPermission e workspaceID) (batchOf ds r)) t))) rs)"

definition reconcileWithExecutor ::
  "identityStoreEnv \<Rightarrow> IdentityPermissionReconcileRequest \<Rightarrow> (string, permissionRow) gomap
     \<Rightarrow> (identityDb, IdentityPermissionReconcileReceipt) op" where
  "reconcileWithExecutor e q incoming =
     andThen (queryRows e (permissionRows (prq_WorkspaceID q))) (\<lambda>current.
     andThen (liftRes (currentSnapshot (prq_SourceOwner q) [] current)) (\<lambda>h.
     let keys = sortStrings (map fst incoming); receipt = reconcileReceipt q h current keys in
     if prq_SnapshotHash q = h then
       ret (receipt\<lparr>prc_Inserted := 0, prc_Updated := 0, prc_Retired := 0, prc_Unchanged := length incoming\<rparr>)
     else andThen (check (prq_PreviousSnapshotHash q = h) (snapshotStale q h)) (\<lambda>_.
       case foreignDefinition q current keys of
         Some d \<Rightarrow> raise (ownerConflict q d)
       | None \<Rightarrow>
           andThen (retireOwnerDefinitions e q) (\<lambda>_.
           andThen (upsertDefinitions e (prq_WorkspaceID q) (map (\<lambda>k. the (map_of incoming k)) keys)) (\<lambda>_.
           ret receipt)))))"

definition PermissionStore_Reconcile ::
  "identityStoreEnv \<Rightarrow> IdentityPermissionReconcileRequest \<Rightarrow> (identityDb, IdentityPermissionReconcileReceipt) op" where
  "PermissionStore_Reconcile e request0 =
     withWorkspace (prq_WorkspaceID request0) (\<lambda>workspaceID. let q = trimReconcile workspaceID request0 in
     andThen (check (prq_SourceOwner q \<noteq> [] \<and> prq_SnapshotHash q \<noteq> [])
        (AppError KindBadRequest ''identity.permission_reconcile_scope_invalid'' [])) (\<lambda>_.
     andThen (liftRes (incomingDefinitions q [] (prq_Definitions request0))) (\<lambda>incoming.
     transaction e (andThen (reconcileWithExecutor e q incoming) (\<lambda>receipt. ret (receipt, True))))))"

end
