(* ===== verification/AccessService.thy ===== *)
theory AccessService
  imports AccessReports ApplicationService
begin

section \<open>The application service of effective access\<close>

text \<open>
  \<open>identity_effective_access_application_service.go\<close> and
  \<open>identity_principal_access_resolution.go\<close> of \<open>application/identity\<close>: who may ask for the
  access of a user, the snapshots, explanations, reports and previews, and the resolution of
  a principal for a request, which reads the authorization a second time before it answers.
  \<open>sprint\<close> prints a configuration value, as in the decisions about fields.
\<close>

record IdentityEffectiveAccessDependencies =
  ead_Identity :: "svc option"
  ead_Objects :: "ObjectSchema list option"
  ead_Actions :: "ActionSchema list option"

definition applicationInternalError :: "string \<Rightarrow> go_error" where
  "applicationInternalError operation = AppError KindInternal ''backend.internal'' [(''operation'', operation)]"

definition identityAuthorizeQuery :: "Principal \<Rightarrow> unit res" where
  "identityAuthorizeQuery p =
     (if \<not> prin_Known p \<or> (case NewWorkspaceID (prin_WorkspaceID p) of Inl _ \<Rightarrow> True | Inr _ \<Rightarrow> False)
      then Inl (AppError KindForbidden ''backend.workspace_scope_required'' []) else Inr ())"

abbreviation permissionDenied :: go_error where
  "permissionDenied \<equiv> AppError KindForbidden ''backend.permission.denied'' []"

definition identityAuthorizeEffectiveAccess :: "env \<Rightarrow> Principal \<Rightarrow> string \<Rightarrow> string \<Rightarrow> unit res" where
  "identityAuthorizeEffectiveAccess e actor userID permission =
     bind (identityAuthorizeQuery actor) (\<lambda>_.
       if TrimSpace userID = prin_UserID actor \<or> IdentityRoleHasPermissionKey e (prin_Role actor) permission
       then Inr () else Inl permissionDenied)"

text \<open>The dependencies of an operation; a missing one is an internal error named after it.\<close>

definition withDependencies ::
  "IdentityEffectiveAccessDependencies \<Rightarrow> string \<Rightarrow> (svc \<Rightarrow> ObjectSchema list \<Rightarrow> 'a res) \<Rightarrow> 'a res" where
  "withDependencies d operation f =
     (case (ead_Identity d, ead_Objects d) of
        (Some v, Some objects) \<Rightarrow> f v objects
      | _ \<Rightarrow> Inl (applicationInternalError operation))"

subsection \<open>Snapshots\<close>

definition assignmentsOfRole ::
  "Principal \<Rightarrow> IdentityRole list \<Rightarrow> IdentityUserRoleAssignment list \<Rightarrow> IdentityUserRoleAssignment list" where
  "assignmentsOfRole p roles assignments =
     filter (\<lambda>a. asg_RoleID a \<in> role_ID ` {r \<in> set roles. role_Key r = rs_Key (prin_Role p)}) assignments"

definition snapshotInput ::
  "(any option \<Rightarrow> string) \<Rightarrow> svc \<Rightarrow> ObjectSchema list \<Rightarrow> Principal \<Rightarrow> IdentityUserRoleAssignment list \<Rightarrow> IdentityRole list
   \<Rightarrow> IdentityMenu list \<Rightarrow> IdentityRoleMenuAssignment list \<Rightarrow> IdentityEffectiveAccessProjectionInput" where
  "snapshotInput sprint scoped objects p assignments roles menus roleMenus =
     \<lparr>inp_Principal = p, inp_Assignments = assignments, inp_ProjectionRoles = roles,
      inp_RoleDefinitions = PublishedRoleDefinitions scoped, inp_PermissionSets = PublishedPermissionSets scoped,
      inp_PermissionSetGroups = PublishedPermissionSetGroups scoped, inp_Menus = menus, inp_RoleMenus = roleMenus,
      inp_Objects = objects, inp_FieldDecision = Some (applicationFieldDecision sprint)\<rparr>"

definition snapshotFromPrincipalContext ::
  "env \<Rightarrow> (any option \<Rightarrow> string) \<Rightarrow> svc \<Rightarrow> string \<Rightarrow> ObjectSchema list \<Rightarrow> store \<Rightarrow> Principal \<Rightarrow> IdentityUserRoleAssignment list
   \<Rightarrow> IdentityRole list \<Rightarrow> string \<Rightarrow> IdentityEffectiveAccessSnapshot res" where
  "snapshotFromPrincipalContext e sprint scoped cw objects s p assignments0 roles roleKey =
     (let assignments = (if roleKey \<noteq> [] then assignmentsOfRole p roles assignments0 else assignments0) in
      bind (appListMenus scoped cw s) (\<lambda>menus.
      bind (appListRoleMenuAssignments scoped cw s []) (\<lambda>roleMenus.
        Inr (IdentityBuildEffectiveAccessSnapshot e
          (snapshotInput sprint scoped objects p assignments roles menus roleMenus)))))"

text \<open>The principal of a user, restricted to one role when the role is given.\<close>

definition principalFor :: "env \<Rightarrow> svc \<Rightarrow> string \<Rightarrow> store \<Rightarrow> go_error option \<Rightarrow> string \<Rightarrow> string \<Rightarrow> Principal res" where
  "principalFor e scoped cw s cancelled userID roleKey =
     (if roleKey \<noteq> [] then appResolvePrincipalForRole scoped cw e s cancelled userID roleKey
      else appResolvePrincipal scoped cw e s cancelled userID)"

definition userInActorScope :: "env \<Rightarrow> svc \<Rightarrow> string \<Rightarrow> store \<Rightarrow> string \<Rightarrow> Principal \<Rightarrow> string \<Rightarrow> unit res" where
  "userInActorScope e scoped cw s userID actor permission =
     (if userID = TrimSpace (prin_UserID actor) then Inr ()
      else bind (appUserByIDWithinDataScope scoped cw e s userID actor permission) (\<lambda>found.
        if found = None then Inl (AppError KindNotFound ''backend.identity.user_not_found'' []) else Inr ()))"

definition effectiveSnapshot ::
  "env \<Rightarrow> (any option \<Rightarrow> string) \<Rightarrow> IdentityEffectiveAccessDependencies \<Rightarrow> store \<Rightarrow> go_error option \<Rightarrow> string \<Rightarrow> Principal
   \<Rightarrow> string \<Rightarrow> string \<Rightarrow> IdentityEffectiveAccessSnapshot res" where
  "effectiveSnapshot e sprint d s cancelled userID0 actor permission roleKey =
     bind (identityAuthorizeEffectiveAccess e actor userID0 permission) (\<lambda>_.
     withDependencies d ''build effective access snapshot'' (\<lambda>v objects.
     bind (ForWorkspace v (prin_WorkspaceID actor)) (\<lambda>scoped.
       (let cw = prin_WorkspaceID actor; userID = TrimSpace userID0 in
        bind (userInActorScope e scoped cw s userID actor permission) (\<lambda>_.
        bind (principalFor e scoped cw s cancelled userID roleKey) (\<lambda>p.
        bind (ResolveEffectiveRoleAssignments e scoped s (prin_UserID p)) (\<lambda>assignments.
        bind (appListRoles scoped cw s) (\<lambda>roles.
          snapshotFromPrincipalContext e sprint scoped cw objects s p assignments roles roleKey))))))))"

definition Snapshot ::
  "env \<Rightarrow> (any option \<Rightarrow> string) \<Rightarrow> IdentityEffectiveAccessDependencies \<Rightarrow> store \<Rightarrow> go_error option \<Rightarrow> string \<Rightarrow> Principal
   \<Rightarrow> IdentityEffectiveAccessSnapshot res" where
  "Snapshot e sprint d s cancelled userID actor =
     effectiveSnapshot e sprint d s cancelled userID actor ''identity.users.effective_access'' []"

definition SnapshotForRole ::
  "env \<Rightarrow> (any option \<Rightarrow> string) \<Rightarrow> IdentityEffectiveAccessDependencies \<Rightarrow> store \<Rightarrow> go_error option \<Rightarrow> string \<Rightarrow> string
   \<Rightarrow> Principal \<Rightarrow> IdentityEffectiveAccessSnapshot res" where
  "SnapshotForRole e sprint d s cancelled userID roleKey actor =
     (if TrimSpace roleKey = [] then Inl (AppError KindBadRequest ''identity.role_required'' [])
      else effectiveSnapshot e sprint d s cancelled userID actor ''identity.users.effective_access'' (TrimSpace roleKey))"

text \<open>The snapshot of a workload comes from its own role and reads no repository.\<close>

definition workloadRole :: "Principal \<Rightarrow> IdentityRole" where
  "workloadRole p = (let r = prin_Role p in
     \<lparr>role_ID = rs_Key r, role_Key = rs_Key r, role_Label = rs_Name r, role_Description = [], role_Status = IdentityStatusActive\<rparr>)"

definition workloadAssignment :: "Principal \<Rightarrow> IdentityUserRoleAssignment" where
  "workloadAssignment p = (profileAssignment (prin_UserID p) (rs_Key (prin_Role p)) [] [])
     \<lparr>asg_Source := ''workflow_release'', asg_Status := ''active''\<rparr>"

definition SnapshotWorkflowWorkload ::
  "env \<Rightarrow> (any option \<Rightarrow> string) \<Rightarrow> IdentityEffectiveAccessDependencies \<Rightarrow> Principal \<Rightarrow> IdentityEffectiveAccessSnapshot res" where
  "SnapshotWorkflowWorkload e sprint d p =
     (let failed = Inl (applicationInternalError ''build workflow workload access snapshot'') in
      case ead_Objects d of
        None \<Rightarrow> failed
      | Some objects \<Rightarrow>
          if \<not> prin_Known p \<or> prin_UserID p = [] \<or> prin_WorkspaceID p = []
             \<or> rs_Audience (prin_Role p) \<noteq> IdentityRoleAudienceService
             \<or> rs_AssignmentMode (prin_Role p) \<noteq> IdentityRoleAssignmentSystemManaged
          then failed
          else Inr (IdentityBuildEffectiveAccessSnapshot e
            \<lparr>inp_Principal = p, inp_Assignments = [workloadAssignment p], inp_ProjectionRoles = [workloadRole p],
             inp_RoleDefinitions = [prin_Role p], inp_PermissionSets = [], inp_PermissionSetGroups = [], inp_Menus = [],
             inp_RoleMenus = [], inp_Objects = objects, inp_FieldDecision = Some (applicationFieldDecision sprint)\<rparr>))"

text \<open>The explanation reads the principal a second time and takes its role.\<close>

definition Explain ::
  "env \<Rightarrow> (any option \<Rightarrow> string) \<Rightarrow> IdentityEffectiveAccessDependencies \<Rightarrow> store \<Rightarrow> go_error option
   \<Rightarrow> IdentityAccessExplainRequest \<Rightarrow> Principal \<Rightarrow> IdentityAccessExplainResult res" where
  "Explain e sprint d s cancelled request actor =
     bind (effectiveSnapshot e sprint d s cancelled (aer_UserID request) actor ''identity.access.explain'' []) (\<lambda>snapshot.
     withDependencies d ''build effective access snapshot'' (\<lambda>v objects.
     bind (ForWorkspace v (prin_WorkspaceID actor)) (\<lambda>scoped.
     bind (appResolvePrincipal scoped (prin_WorkspaceID actor) e s cancelled (aer_UserID request)) (\<lambda>p.
       Inr (IdentityExplainEffectiveAccess e snapshot (prin_Role p) request)))))"

subsection \<open>Governance\<close>

definition governanceScope ::
  "env \<Rightarrow> IdentityEffectiveAccessDependencies \<Rightarrow> Principal \<Rightarrow> string \<Rightarrow> (svc \<Rightarrow> string \<Rightarrow> ObjectSchema list \<Rightarrow> 'a res) \<Rightarrow> 'a res" where
  "governanceScope e d actor actionKey f =
     bind (identityAuthorizeQuery actor) (\<lambda>_.
       if \<not> IdentityRoleHasPermissionKey e (prin_Role actor) actionKey then Inl permissionDenied
       else withDependencies d ''read identity access governance'' (\<lambda>v objects.
         bind (ForWorkspace v (prin_WorkspaceID actor)) (\<lambda>scoped. f scoped (prin_WorkspaceID actor) objects)))"

definition ReverseIndex :: "env \<Rightarrow> IdentityEffectiveAccessDependencies \<Rightarrow> store \<Rightarrow> Principal \<Rightarrow> IdentityAccessReverseIndex res" where
  "ReverseIndex e d s actor =
     governanceScope e d actor ''identity.access.reverse_index'' (\<lambda>scoped cw _.
       bind (appListRoles scoped cw s) (\<lambda>roles.
       bind (appListUserRoleAssignmentsWithinDataScope scoped cw e s [] actor ''identity.access.reverse_index'') (\<lambda>assignments.
         Inr (IdentityBuildAccessReverseIndex e roles (PublishedRoleDefinitions scoped) assignments))))"

definition GovernanceReports :: "env \<Rightarrow> IdentityEffectiveAccessDependencies \<Rightarrow> store \<Rightarrow> Principal \<Rightarrow> IdentityGovernanceReports res" where
  "GovernanceReports e d s actor =
     governanceScope e d actor ''identity.access.reports'' (\<lambda>scoped cw _.
       bind (appListRoles scoped cw s) (\<lambda>roles.
       bind (appListUserRoleAssignmentsWithinDataScope scoped cw e s [] actor ''identity.access.reports'') (\<lambda>assignments.
         Inr (IdentityBuildGovernanceReports (nowInstant e) (map snd (rangeMap e (svc_permissions scoped))) roles
           (PublishedRoleDefinitions scoped) assignments))))"

record IdentityRoleChangeImpactRequest =
  rcr_RoleKey :: string
  rcr_Role :: RoleSchema

definition PreviewRoleChange ::
  "env \<Rightarrow> IdentityEffectiveAccessDependencies \<Rightarrow> store \<Rightarrow> IdentityRoleChangeImpactRequest \<Rightarrow> Principal \<Rightarrow> IdentityRoleChangeImpact res" where
  "PreviewRoleChange e d s request actor =
     governanceScope e d actor ''identity.roles.impact_preview'' (\<lambda>scoped cw objects.
       case ead_Actions d of
         None \<Rightarrow> Inl (applicationInternalError ''preview identity role change'')
       | Some actions \<Rightarrow>
           bind (appListRoles scoped cw s) (\<lambda>roles.
           bind (appListUserRoleAssignmentsWithinDataScope scoped cw e s [] actor ''identity.roles.impact_preview'') (\<lambda>assignments.
             (let roleKey = (if TrimSpace (rcr_RoleKey request) = [] then TrimSpace (rs_Key (rcr_Role request))
                             else TrimSpace (rcr_RoleKey request));
                  missing = Inl (AppError KindNotFound ''backend.identity.role_not_found'' []) in
              case find (\<lambda>r. role_Key r = roleKey \<or> role_ID r = roleKey) roles of
                None \<Rightarrow> missing
              | Some role \<Rightarrow> if role_ID role = [] then missing
                  else Inr (IdentityPreviewRoleChange roleKey (rcr_Role request)
                    (case publishedRoleByKey scoped roleKey of None \<Rightarrow> zeroRoleSchema | Some c \<Rightarrow> c)
                    role assignments objects actions)))))"

subsection \<open>Resolving the principal of a request\<close>

text \<open>
  The principal, its assignments and roles are read in one state of the store, the menus in
  a later one, and the authorization again in a third, at a later time of the clock.
\<close>

record IdentityPrincipalAccessResolution =
  par_Principal :: Principal
  par_User :: "IdentityUser option"
  par_Roles :: "IdentityRole list"
  par_Snapshot :: IdentityEffectiveAccessSnapshot

definition ResolvePrincipalAccess ::
  "(any option \<Rightarrow> string) \<Rightarrow> IdentityEffectiveAccessDependencies \<Rightarrow> go_error option \<Rightarrow> env \<times> store \<Rightarrow> env \<times> store \<Rightarrow> env \<times> store
   \<Rightarrow> string \<Rightarrow> string \<Rightarrow> string \<Rightarrow> IdentityPrincipalAccessResolution res" where
  "ResolvePrincipalAccess sprint d cancelled first menus again workspaceID userID roleKey0 =
     withDependencies d ''resolve principal access'' (\<lambda>v objects.
     bind (ForWorkspace v workspaceID) (\<lambda>scoped. (let roleKey = TrimSpace roleKey0 in
     bind (case cancelled of Some err \<Rightarrow> Inl err | None \<Rightarrow> ResolvePrincipalContext (fst first) scoped (snd first) userID roleKey) (\<lambda>facts.
       (let p = ctx_Principal facts in
        if \<not> prin_Known p then Inl (AppError KindForbidden ''identity.principal_unavailable'' [])
        else bind (snapshotFromPrincipalContext (fst menus) sprint scoped workspaceID objects (snd menus) p
               (ctx_Assignments facts) (ctx_ProjectionRoles facts) roleKey) (\<lambda>snapshot.
             bind (principalFor (fst again) scoped workspaceID (snd again) cancelled (prin_UserID p) roleKey) (\<lambda>current.
               if \<not> prin_Known current \<or> prin_AuthorizationRevision current \<noteq> prin_AuthorizationRevision p
               then Inl (AppError KindConflict ''identity.authorization_revision_stale'' [])
               else Inr \<lparr>par_Principal = p, par_User = ctx_User facts, par_Roles = ctx_EffectiveRoles facts,
                         par_Snapshot = snapshot\<rparr>)))))))"

end
