(* ===== verification/AccessReviews.thy ===== *)
theory AccessReviews
  imports AccessReviewModel AccessService
begin

section \<open>The application service of access reviews\<close>

text \<open>
  \<open>identity_access_review_application_service.go\<close>: a review collects the active assignments
  within the creator's scope, ordered by priority; a decision is checked against the role
  catalog before the repository applies it.  The repository of reviews is a port, a record of
  operations; the rest of the identity store \<open>s\<close> is only read.  What the service reports to
  the audit log is part of the world.  \<open>hash\<close> is SHA-256 and \<open>fingerprint\<close> the hash of
  the JSON text of actor, item and request.
\<close>

subsection \<open>Ports\<close>

record 'w AccessReviewPort =
  arp_Create :: "IdentityAccessReview \<Rightarrow> IdentityDataScopeFilter \<Rightarrow> ('w, bool) op"
  arp_List :: "string \<Rightarrow> string \<Rightarrow> IdentityDataScopeFilter \<Rightarrow> ('w, IdentityAccessReview list) op"
  arp_GetItem :: "string \<Rightarrow> string \<Rightarrow> IdentityDataScopeFilter \<Rightarrow> ('w, IdentityAccessReviewItem option) op"
  arp_GetReceipt :: "string \<Rightarrow> string \<Rightarrow> string \<Rightarrow> IdentityDataScopeFilter \<Rightarrow> ('w, IdentityAccessReviewDecisionReceipt option) op"
  arp_Apply :: "IdentityAccessReviewDecisionMutation \<Rightarrow> IdentityDataScopeFilter \<Rightarrow> ('w, IdentityAccessReviewDecisionReceipt \<times> bool) op"

datatype auditValue = AuditText string | AuditCount nat

record auditEntry =
  au_Event :: string
  au_RecordID :: string
  au_Actor :: Principal
  au_Metadata :: "(string \<times> auditValue) list"

record 'w reviewWorld =
  rw_Repository :: 'w
  rw_Audit :: "auditEntry list"

text \<open>The dependencies; a service without a port has a repository without reviews.\<close>

record 'w reviewDependencies =
  rvd_Identity :: "svc option"
  rvd_Port :: "'w AccessReviewPort option"
  rvd_Audited :: bool
  rvd_LastUsed :: "(Principal \<Rightarrow> string \<Rightarrow> string \<Rightarrow> (string \<times> bool) res) option"
  rvd_Hash :: "string \<Rightarrow> string"
  rvd_Fingerprint :: "string \<Rightarrow> string \<Rightarrow> IdentityAccessReviewDecisionRequest \<Rightarrow> string"

definition onRepository :: "('w, 'a) op \<Rightarrow> ('w reviewWorld, 'a) op" where
  "onRepository m = (\<lambda>w. case m (rw_Repository w) of (r, s) \<Rightarrow> (r, w\<lparr>rw_Repository := s\<rparr>))"

definition reviewAudit :: "'w reviewDependencies \<Rightarrow> string \<Rightarrow> string \<Rightarrow> Principal \<Rightarrow> (string \<times> auditValue) list \<Rightarrow> ('w reviewWorld, unit) op" where
  "reviewAudit d event recordID actor metadata = (\<lambda>w. (Inr (), if rvd_Audited d
     then w\<lparr>rw_Audit := rw_Audit w @ [\<lparr>au_Event = event, au_RecordID = recordID, au_Actor = actor, au_Metadata = metadata\<rparr>]\<rparr> else w))"

definition reviewScope ::
  "env \<Rightarrow> 'w reviewDependencies \<Rightarrow> Principal \<Rightarrow> string \<Rightarrow> (svc \<times> 'w AccessReviewPort) res" where
  "reviewScope e d actor actionKey =
     bind (identityAuthorizeQuery actor) (\<lambda>_.
     if \<not> IdentityRoleHasPermissionKey e (prin_Role actor) actionKey then Inl permissionDenied
     else case rvd_Identity d of None \<Rightarrow> Inl (applicationInternalError ''access review'') | Some v \<Rightarrow>
       bind (ForWorkspace v (prin_WorkspaceID actor)) (\<lambda>scoped.
       case rvd_Port d of None \<Rightarrow> Inl (AppError KindInternal ''backend.identity.access_review_unavailable'' [])
       | Some port \<Rightarrow> Inr (scoped, port)))"

subsection \<open>Priorities, states and keys\<close>

definition identityAccessReviewStableID :: "(string \<Rightarrow> string) \<Rightarrow> string list \<Rightarrow> string" where
  "identityAccessReviewStableID hash parts = hexEncode (take 16 (hash (JoinStrings parts NUL)))"

definition ninetyDays :: int where
  "ninetyDays = 90 * 24 * 3600 * 1000000000"

definition parsedBefore :: "string \<Rightarrow> int \<Rightarrow> bool" where
  "parsedBefore at limit = (case parseRFC3339 at of None \<Rightarrow> False | Some t \<Rightarrow> t < limit)"

definition identityAccessReviewPriority ::
  "IdentityUserRoleAssignment \<Rightarrow> string \<Rightarrow> string \<Rightarrow> bool \<Rightarrow> int \<Rightarrow> string \<times> string list" where
  "identityAccessReviewPriority a risk lastUsedAt lastUsedFound now =
     (let staleBefore = now - ninetyDays;
          reasons = sortStrings ((if risk = IdentityRoleRiskPrivileged then [''privileged''] else [])
            @ (if risk = IdentityRoleRiskElevated then [''elevated''] else [])
            @ (if lastUsedFound then (if parsedBefore lastUsedAt staleBefore then [''long_unused''] else [])
               else if parsedBefore (asg_CreatedAt a) staleBefore then [''never_used''] else [])) in
      (if risk = IdentityRoleRiskPrivileged then ''critical'' else if reasons \<noteq> [] then ''high'' else ''normal'', reasons))"

definition identityAccessReviewPriorityRank :: "string \<Rightarrow> nat" where
  "identityAccessReviewPriorityRank priority = (if priority = ''critical'' then 0 else if priority = ''high'' then 1 else 2)"

definition identityAccessReviewAssignmentActive :: "IdentityUserRoleAssignment \<Rightarrow> int \<Rightarrow> bool" where
  "identityAccessReviewAssignmentActive a now =
     (let until = (case asg_ExpiresAt a of None \<Rightarrow> asg_ValidUntil a
                   | Some x \<Rightarrow> if TrimSpace x \<noteq> [] then x else asg_ValidUntil a) in
      asg_Status a \<noteq> ''revoked''
      \<and> (asg_ValidFrom a = [] \<or> (case parseRFC3339 (asg_ValidFrom a) of None \<Rightarrow> True | Some from \<Rightarrow> from \<le> now))
      \<and> (until = [] \<or> (case parseRFC3339 until of None \<Rightarrow> True | Some t \<Rightarrow> now < t)))"

definition permissionState :: "(string, IdentityPermissionDefinition) gomap \<Rightarrow> string \<Rightarrow> IdentityAccessReviewPermissionState" where
  "permissionState definitions key = (case map_of definitions key of
     None \<Rightarrow> \<lparr>aps_PermissionKey = key, aps_State = ''unknown'', aps_DefinitionStatus = [], aps_Enabled = False, aps_SourceOwner = []\<rparr>
   | Some d \<Rightarrow> \<lparr>aps_PermissionKey = key,
       aps_State = (if perm_DefinitionStatus d \<noteq> ''active'' then ''retired'' else if \<not> perm_Enabled d then ''disabled'' else ''active''),
       aps_DefinitionStatus = perm_DefinitionStatus d, aps_Enabled = perm_Enabled d, aps_SourceOwner = perm_SourceOwner d\<rparr>)"

text \<open>A key that repeats the one before it is left out.\<close>

definition addState ::
  "(string, IdentityPermissionDefinition) gomap \<Rightarrow> string \<Rightarrow> IdentityAccessReviewPermissionState list \<Rightarrow> IdentityAccessReviewPermissionState list" where
  "addState definitions key0 states = (let key = TrimSpace key0 in
     if key = [] \<or> states \<noteq> [] \<and> aps_PermissionKey (last states) = key then states
     else states @ [permissionState definitions key])"

definition identityAccessReviewPermissionStates ::
  "RoleSchema \<Rightarrow> (string, IdentityPermissionDefinition) gomap \<Rightarrow> IdentityAccessReviewPermissionState list" where
  "identityAccessReviewPermissionStates role definitions =
     fold (addState definitions) (sortStrings (RolePermissionKeys (rs_Permissions role))) []"

definition roleOf :: "svc \<Rightarrow> string \<Rightarrow> RoleSchema" where
  "roleOf scoped key = (case publishedRoleByKey scoped key of None \<Rightarrow> zeroRoleSchema | Some role \<Rightarrow> role)"

text \<open>The definition of the last role with the identifier that has a published one.\<close>

definition definitionByID :: "svc \<Rightarrow> IdentityRole list \<Rightarrow> string \<Rightarrow> RoleSchema" where
  "definitionByID scoped roles roleID =
     (case List.map_filter (\<lambda>r. if role_ID r = roleID then publishedRoleByKey scoped (role_Key r) else None) (rev roles) of
        [] \<Rightarrow> zeroRoleSchema | definition' # _ \<Rightarrow> definition')"

definition itemStates :: "svc \<Rightarrow> IdentityAccessReviewItem \<Rightarrow> IdentityAccessReviewItem" where
  "itemStates scoped item = item\<lparr>ari_PermissionStates :=
     identityAccessReviewPermissionStates (roleOf scoped (ari_RoleKey item)) (svc_permissions scoped)\<rparr>"

subsection \<open>Creation\<close>

definition periodInvalid :: go_error where
  "periodInvalid = AppError KindBadRequest ''backend.identity.access_review_period_invalid'' []"

text \<open>The period of a review: it ends after it starts, and is due no earlier than it ends.\<close>

definition reviewPeriod :: "IdentityAccessReviewCreateRequest \<Rightarrow> (int \<times> int \<times> int) res" where
  "reviewPeriod q = (case (parseRFC3339 (TrimSpace (acr_PeriodStart q)), parseRFC3339 (TrimSpace (acr_PeriodEnd q)), parseRFC3339 (TrimSpace (acr_DueAt q))) of
     (Some start, Some end', Some due) \<Rightarrow>
       if TrimSpace (acr_ID q) = [] \<or> \<not> start < end' \<or> due < end' then Inl periodInvalid else Inr (start, end', due)
   | _ \<Rightarrow> Inl periodInvalid)"

definition lastUsed :: "'w reviewDependencies \<Rightarrow> Principal \<Rightarrow> string \<Rightarrow> string \<Rightarrow> (string \<times> bool) res" where
  "lastUsed d actor userID roleKey = (case rvd_LastUsed d of None \<Rightarrow> Inr ([], False) | Some f \<Rightarrow> f actor userID roleKey)"

definition reviewItem ::
  "env \<Rightarrow> 'w reviewDependencies \<Rightarrow> svc \<Rightarrow> string \<Rightarrow> IdentityUserRoleAssignment \<Rightarrow> IdentityRole \<Rightarrow> RoleSchema \<Rightarrow> string \<times> bool
     \<Rightarrow> IdentityAccessReviewItem" where
  "reviewItem e d scoped reviewID a role definition' used =
     (let risk = (if rs_RiskLevel definition' = [] then IdentityRoleRiskNormal else rs_RiskLevel definition');
          pr = identityAccessReviewPriority a risk (fst used) (snd used) (nowInstant e) in
      zeroReviewItem\<lparr>ari_ID := identityAccessReviewStableID (rvd_Hash d) [''access-review-item'', reviewID, asg_UserID a, asg_RoleID a],
        ari_ReviewID := reviewID, ari_UserID := asg_UserID a, ari_RoleID := asg_RoleID a, ari_RoleKey := role_Key role,
        ari_BindingKey := asg_BindingKey a, ari_ProfileID := asg_ProfileID a, ari_RiskLevel := risk, ari_Priority := fst pr,
        ari_PriorityReasons := snd pr, ari_LastUsedAt := fst used,
        ari_PermissionStates := identityAccessReviewPermissionStates definition' (svc_permissions scoped),
        ari_Status := ''pending'', ari_Version := 1, ari_CreatedAt := nowString e, ari_UpdatedAt := nowString e\<rparr>)"

text \<open>Inactive assignments and those of unknown or inactive roles are left out.\<close>

fun reviewItems ::
  "env \<Rightarrow> 'w reviewDependencies \<Rightarrow> svc \<Rightarrow> Principal \<Rightarrow> string \<Rightarrow> IdentityRole list \<Rightarrow> IdentityUserRoleAssignment list
     \<Rightarrow> IdentityAccessReviewItem list res" where
  "reviewItems e d scoped actor reviewID roles [] = Inr []"
| "reviewItems e d scoped actor reviewID roles (a # as) =
     (case (if identityAccessReviewAssignmentActive a (nowInstant e)
            then find (\<lambda>r. role_ID r = asg_RoleID a) (rev roles) else None) of
        None \<Rightarrow> reviewItems e d scoped actor reviewID roles as
      | Some role \<Rightarrow>
          if role_Status role \<noteq> IdentityStatusActive then reviewItems e d scoped actor reviewID roles as
          else bind (lastUsed d actor (asg_UserID a) (role_Key role)) (\<lambda>used.
            bind (reviewItems e d scoped actor reviewID roles as) (\<lambda>items.
            Inr (reviewItem e d scoped reviewID a role (definitionByID scoped roles (asg_RoleID a)) used # items))))"

definition reviewItemLess :: "IdentityAccessReviewItem \<Rightarrow> IdentityAccessReviewItem \<Rightarrow> bool" where
  "reviewItemLess a b \<longleftrightarrow>
     (identityAccessReviewPriorityRank (ari_Priority a), ari_ID a) < (identityAccessReviewPriorityRank (ari_Priority b), ari_ID b)"

definition prepareReview ::
  "env \<Rightarrow> 'w reviewDependencies \<Rightarrow> store \<Rightarrow> svc \<Rightarrow> IdentityAccessReviewCreateRequest \<Rightarrow> Principal \<Rightarrow> IdentityAccessReview res" where
  "prepareReview e d s scoped q actor =
     bind (reviewPeriod q) (\<lambda>(start, end', due).
     bind (appListRoles scoped (prin_WorkspaceID actor) s) (\<lambda>roles.
     bind (appListUserRoleAssignmentsWithinDataScope scoped (prin_WorkspaceID actor) e s [] actor ''identity.access_reviews.create'') (\<lambda>assignments.
     bind (reviewItems e d scoped actor (TrimSpace (acr_ID q)) roles assignments) (\<lambda>items.
     if items = [] then Inl (AppError KindBadRequest ''backend.identity.access_review_empty'' [])
     else Inr \<lparr>arv_ID = TrimSpace (acr_ID q), arv_WorkspaceID = prin_WorkspaceID actor, arv_PeriodStart = formatInstant start,
       arv_PeriodEnd = formatInstant end', arv_DueAt = formatInstant due, arv_Status = IdentityAccessReviewOpen,
       arv_CreatedBy = prin_UserID actor, arv_CreatedAt = nowString e, arv_UpdatedAt = nowString e,
       arv_Items = sortSlice reviewItemLess items\<rparr>))))"

definition CreateReview ::
  "env \<Rightarrow> 'w reviewDependencies \<Rightarrow> store \<Rightarrow> IdentityAccessReviewCreateRequest \<Rightarrow> Principal \<Rightarrow> ('w reviewWorld, IdentityAccessReview) op" where
  "CreateReview e d s q actor =
     andThen (liftRes (reviewScope e d actor ''identity.access_reviews.create'')) (\<lambda>(scoped, port).
     andThen (liftRes (prepareReview e d s scoped q actor)) (\<lambda>review.
     andThen (onRepository (arp_Create port review (IdentityPermissionDataScopeFilter e actor ''identity.access_reviews.create''))) (\<lambda>created.
     andThen (check created (AppError KindForbidden ''backend.identity.data_scope_denied'' [])) (\<lambda>_.
     andThen (reviewAudit d ''identity_access_review_created'' (arv_ID review) actor
        [(''item_count'', AuditCount (length (arv_Items review))), (''period_start'', AuditText (arv_PeriodStart review)),
         (''period_end'', AuditText (arv_PeriodEnd review)), (''due_at'', AuditText (arv_DueAt review))]) (\<lambda>_.
     ret review)))))"

subsection \<open>Listing\<close>

definition ListReviews ::
  "env \<Rightarrow> 'w reviewDependencies \<Rightarrow> string \<Rightarrow> Principal \<Rightarrow> ('w reviewWorld, IdentityAccessReview list) op" where
  "ListReviews e d status0 actor =
     andThen (liftRes (reviewScope e d actor ''identity.access_reviews.list'')) (\<lambda>(scoped, port).
     let status = TrimSpace status0 in
     andThen (check (status = [] \<or> status = IdentityAccessReviewOpen \<or> status = IdentityAccessReviewCompleted)
        (AppError KindBadRequest ''backend.identity.access_review_status_invalid'' [])) (\<lambda>_.
     andThen (onRepository (arp_List port (prin_WorkspaceID actor) status (IdentityPermissionDataScopeFilter e actor ''identity.access_reviews.list''))) (\<lambda>reviews.
     ret (map (\<lambda>v. v\<lparr>arv_Items := map (itemStates scoped) (arv_Items v)\<rparr>) reviews))))"

subsection \<open>Deciding\<close>

definition trimRequest :: "IdentityAccessReviewDecisionRequest \<Rightarrow> IdentityAccessReviewDecisionRequest" where
  "trimRequest q = q\<lparr>adr_Reason := TrimSpace (adr_Reason q), adr_IdempotencyKey := TrimSpace (adr_IdempotencyKey q),
     adr_ReplacementRoleID := TrimSpace (adr_ReplacementRoleID q), adr_ExpiresAt := TrimSpace (adr_ExpiresAt q)\<rparr>"

definition reviewDecisionInvalid :: go_error where
  "reviewDecisionInvalid = AppError KindBadRequest ''backend.identity.access_review_decision_invalid'' []"

definition riskRank :: "string \<Rightarrow> int" where
  "riskRank risk = (if risk = IdentityRoleRiskElevated then 1 else if risk = IdentityRoleRiskPrivileged then 2 else 0)"

definition grantedPairs :: "RoleSchema \<Rightarrow> string list" where
  "grantedPairs role = map (\<lambda>p. TrimSpace (grant_PermissionKey p) @ NUL @ grant_DataScope p) (rs_Permissions role)"

definition identityAccessReviewRoleIsReduction :: "RoleSchema \<Rightarrow> RoleSchema \<Rightarrow> bool" where
  "identityAccessReviewRoleIsReduction current replacement \<longleftrightarrow>
     rs_Key current \<noteq> [] \<and> rs_Key replacement \<noteq> []
     \<and> list_all (\<lambda>g. g \<in> set (grantedPairs current)) (grantedPairs replacement)
     \<and> riskRank (rs_RiskLevel replacement) \<le> riskRank (rs_RiskLevel current)
     \<and> (length (rs_Permissions replacement) < length (rs_Permissions current)
        \<or> riskRank (rs_RiskLevel replacement) < riskRank (rs_RiskLevel current))"

definition entitlementItem :: "string \<Rightarrow> IdentityAccessReviewItem \<Rightarrow> string \<Rightarrow> string \<Rightarrow> string \<Rightarrow> string \<Rightarrow> IdentityEntitlementBatchItem" where
  "entitlementItem operation item roleID bindingKey profileID reason = \<lparr>item_Operation = operation, item_UserID = ari_UserID item,
     item_RoleID = roleID, item_BindingKey = bindingKey, item_ProfileID = profileID, item_ValidFrom = [], item_ValidUntil = [], item_Reason = reason\<rparr>"

definition validateReducedRole ::
  "env \<Rightarrow> store \<Rightarrow> svc \<Rightarrow> IdentityAccessReviewItem \<Rightarrow> IdentityAccessReviewDecisionRequest \<Rightarrow> Principal \<Rightarrow> unit res" where
  "validateReducedRole e s scoped item q actor =
     bind (appListRoles scoped (prin_WorkspaceID actor) s) (\<lambda>roles.
     let current = definitionByID scoped roles (ari_RoleID item); replacement = definitionByID scoped roles (adr_ReplacementRoleID q) in
     if rs_Key replacement = [] then Inl (AppError KindBadRequest ''backend.identity.role_not_found'' [])
     else if \<not> identityAccessReviewRoleIsReduction current replacement
     then Inl (AppError KindForbidden ''backend.identity.access_review_not_a_reduction'' [])
     else bind (PrepareIdentityEntitlementBatchForPermission e scoped s
        [entitlementItem ''revoke'' item (ari_RoleID item) [] [] (adr_Reason q),
         entitlementItem ''grant'' item (adr_ReplacementRoleID q) (ari_BindingKey item) (ari_ProfileID item) (adr_Reason q)]
        actor ''identity.access_review_items.decide'') (\<lambda>_. Inr ()))"

text \<open>An error that is not one of the application's is reported as an invalid expiry.\<close>

definition asAppError :: "go_error \<Rightarrow> go_error" where
  "asAppError err = (case err of AppError _ _ _ \<Rightarrow> err
     | Errorf _ _ \<Rightarrow> AppError KindBadRequest ''backend.identity.access_review_expiry_invalid'' [])"

definition validateDecision ::
  "env \<Rightarrow> store \<Rightarrow> svc \<Rightarrow> IdentityAccessReviewItem \<Rightarrow> IdentityAccessReviewDecisionRequest \<Rightarrow> Principal \<Rightarrow> unit res" where
  "validateDecision e s scoped item q actor =
     (let decision = adr_Decision q; replacement = adr_ReplacementRoleID q; expiresAt = adr_ExpiresAt q in
      if decision = IdentityAccessReviewKeep then
        (if replacement \<noteq> [] \<or> expiresAt \<noteq> [] then Inl reviewDecisionInvalid else Inr ())
      else if decision = IdentityAccessReviewRevoke then
        (if replacement \<noteq> [] \<or> expiresAt \<noteq> [] then Inl reviewDecisionInvalid
         else bind (PrepareIdentityEntitlementBatchForPermission e scoped s
           [entitlementItem ''revoke'' item (ari_RoleID item) [] [] (adr_Reason q)] actor ''identity.access_review_items.decide'') (\<lambda>_. Inr ()))
      else if decision = IdentityAccessReviewReduceScope then
        (if replacement = [] \<or> replacement = ari_RoleID item \<or> expiresAt \<noteq> []
         then Inl (AppError KindBadRequest ''backend.identity.access_review_replacement_role_required'' [])
         else validateReducedRole e s scoped item q actor)
      else if decision = IdentityAccessReviewSetExpiry then
        (if replacement \<noteq> [] then Inl reviewDecisionInvalid
         else case parseRFC3339 expiresAt of None \<Rightarrow> Inl (AppError KindBadRequest ''backend.identity.access_review_expiry_invalid'' [])
           | Some at \<Rightarrow> if nowInstant e < at then Inr () else Inl (AppError KindBadRequest ''backend.identity.access_review_expiry_invalid'' []))
      else Inl reviewDecisionInvalid)"

definition decisionAudit ::
  "IdentityAccessReviewItem \<Rightarrow> IdentityAccessReviewDecisionRequest \<Rightarrow> (string \<times> auditValue) list" where
  "decisionAudit item q = [(''decision'', AuditText (adr_Decision q)), (''review_id'', AuditText (ari_ReviewID item)),
     (''user_id'', AuditText (ari_UserID item)), (''role_id'', AuditText (ari_RoleID item)),
     (''replacement_role_id'', AuditText (adr_ReplacementRoleID q)), (''expires_at'', AuditText (adr_ExpiresAt q)),
     (''reason'', AuditText (adr_Reason q))]"

definition receiptStates :: "svc \<Rightarrow> IdentityAccessReviewDecisionReceipt \<Rightarrow> IdentityAccessReviewDecisionReceipt" where
  "receiptStates scoped receipt = receipt\<lparr>adx_Item := itemStates scoped (adx_Item receipt)\<rparr>"

definition decideFirst ::
  "env \<Rightarrow> 'w reviewDependencies \<Rightarrow> store \<Rightarrow> svc \<Rightarrow> 'w AccessReviewPort \<Rightarrow> string \<Rightarrow> IdentityAccessReviewDecisionRequest \<Rightarrow> string
     \<Rightarrow> Principal \<Rightarrow> ('w reviewWorld, IdentityAccessReviewDecisionReceipt) op" where
  "decideFirst e d s scoped port itemID q fingerprint actor =
     (let scope = IdentityPermissionDataScopeFilter e actor ''identity.access_review_items.decide'';
          notFound' = AppError KindNotFound ''backend.identity.access_review_item_not_found'' [] in
      andThen (onRepository (arp_GetItem port (prin_WorkspaceID actor) itemID scope)) (\<lambda>found.
      case found of None \<Rightarrow> raise notFound' | Some item \<Rightarrow>
      andThen (liftRes (case validateDecision e s scoped item q actor of Inl err \<Rightarrow> Inl (asAppError err) | Inr x \<Rightarrow> Inr x)) (\<lambda>_.
      andThen (onRepository (arp_Apply port \<lparr>adm_WorkspaceID = prin_WorkspaceID actor, adm_ItemID = itemID, adm_ReviewerID = prin_UserID actor,
         adm_Request = q, adm_RequestFingerprint = fingerprint\<rparr> scope)) (\<lambda>(receipt, allowed).
      andThen (check allowed notFound') (\<lambda>_.
      andThen (if adx_Replayed receipt then ret ()
               else reviewAudit d ''identity_access_review_decided'' itemID actor (decisionAudit item q)) (\<lambda>_.
      ret (receiptStates scoped receipt)))))))"

definition Decide ::
  "env \<Rightarrow> 'w reviewDependencies \<Rightarrow> store \<Rightarrow> string \<Rightarrow> IdentityAccessReviewDecisionRequest \<Rightarrow> Principal
     \<Rightarrow> ('w reviewWorld, IdentityAccessReviewDecisionReceipt) op" where
  "Decide e d s itemID0 q0 actor =
     andThen (liftRes (reviewScope e d actor ''identity.access_review_items.decide'')) (\<lambda>(scoped, port).
     let itemID = TrimSpace itemID0; q = trimRequest q0; fingerprint = rvd_Fingerprint d (TrimSpace (prin_UserID actor)) itemID q;
         scope = IdentityPermissionDataScopeFilter e actor ''identity.access_review_items.decide'' in
     andThen (check (itemID \<noteq> [] \<and> adr_Reason q \<noteq> [] \<and> adr_IdempotencyKey q \<noteq> [] \<and> 1 \<le> adr_ExpectedVersion q) reviewDecisionInvalid) (\<lambda>_.
     andThen (onRepository (arp_GetReceipt port (prin_WorkspaceID actor) itemID (adr_IdempotencyKey q) scope)) (\<lambda>found.
     case found of
       Some receipt \<Rightarrow> andThen (check (adx_RequestFingerprint receipt = fingerprint) keyReused) (\<lambda>_.
         ret (receiptStates scoped (receipt\<lparr>adx_Replayed := True\<rparr>)))
     | None \<Rightarrow> decideFirst e d s scoped port itemID q fingerprint actor)))"

end
