(* ===== verification/UserHistory.thy ===== *)
theory UserHistory
  imports UserStore SqlLogic
begin

section \<open>Histories of the SQL store of users\<close>

text \<open>
  Every operation of the store of users, in any order and with any of its statements
  failing, keeps erased accounts as they are, raises the version of what it changes and keeps
  identifiers and login names unique.
\<close>

datatype userOperation =
    UpsertUser string IdentityUser
  | CreateUser string IdentityUser
  | UpdateLocale string string string int
  | UpsertUsers string "IdentityUser list"
  | UpdateUsers string "IdentityUser list" IdentityDataScopeFilter
  | UpdateUsersAtVersion string "IdentityUser list" IdentityDataScopeFilter
  | SetStatus string string string
  | SetStatusScoped string string string IdentityDataScopeFilter
  | DisableUser string string
  | DisableUserScoped string string IdentityDataScopeFilter
  | UpsertUserWithRoles string IdentityUser "IdentityUserRoleAssignment list"
  | UpdateUserWithRoles string IdentityUser "IdentityUserRoleAssignment list" IdentityDataScopeFilter
  | RemoveUserRow string string
  | RemoveUserScoped string string IdentityDataScopeFilter

fun runUser :: "identityStoreEnv \<Rightarrow> userOperation \<Rightarrow> (identityDb, unit) op" where
  "runUser e (UpsertUser ws u) = UserStore_Upsert e ws u"
| "runUser e (CreateUser ws u) = UserStore_Create e ws u"
| "runUser e (UpdateLocale ws i l v) = andThen (UserStore_UpdateLocale e ws i l v) (\<lambda>_. ret ())"
| "runUser e (UpsertUsers ws us) = UserStore_UpsertMany e ws us"
| "runUser e (UpdateUsers ws us f) = andThen (UserStore_UpdateManyWithinDataScope e ws us f) (\<lambda>_. ret ())"
| "runUser e (UpdateUsersAtVersion ws us f) =
     transaction e (andThen (UserStore_UpdateManyWithExecutorCAS e ws us f) (\<lambda>done. ret ((), done)))"
| "runUser e (SetStatus ws i s) = UserStore_SetStatus e ws i s"
| "runUser e (SetStatusScoped ws i s f) = andThen (UserStore_SetStatusWithinDataScope e ws i s f) (\<lambda>_. ret ())"
| "runUser e (DisableUser ws i) = andThen (SQL_DisableIdentityAccount e ws i) (\<lambda>_. ret ())"
| "runUser e (DisableUserScoped ws i f) = andThen (UserStore_DisableWithinDataScope e ws i f) (\<lambda>_. ret ())"
| "runUser e (UpsertUserWithRoles ws u as) = SQL_UpsertIdentityUserWithRoleAssignmentsAtomically e ws u as"
| "runUser e (UpdateUserWithRoles ws u as f) =
     andThen (SQL_UpsertIdentityUserWithRoleAssignmentsWithinDataScopeAtomically e ws u as f) (\<lambda>_. ret ())"
| "runUser e (RemoveUserRow ws i) = UserStore_Remove e ws i"
| "runUser e (RemoveUserScoped ws i f) = andThen (UserStore_RemoveWithinDataScope e ws i f) (\<lambda>_. ret ())"

text \<open>The one account that an operation may remove: that of the workspace and identifier it names.\<close>

fun removedUser :: "userOperation \<Rightarrow> (string \<times> string) option" where
  "removedUser (RemoveUserRow ws i) = (case NewWorkspaceID ws of Inl _ \<Rightarrow> None | Inr w \<Rightarrow> Some (w, i))"
| "removedUser (RemoveUserScoped ws i f) = (case NewWorkspaceID ws of Inl _ \<Rightarrow> None | Inr w \<Rightarrow> Some (w, i))"
| "removedUser _ = None"

text \<open>Every operation may meet a driver of its own.\<close>

inductive userHistory :: "identityDb \<Rightarrow> userOperation list \<Rightarrow> identityDb \<Rightarrow> bool" where
  start: "userHistory db [] db"
| call: "userHistory db ops db' \<Longrightarrow> userHistory db (ops @ [x]) (snd (runUser e x db'))"

subsection \<open>What happens to a row\<close>

text \<open>A row that remains: as it was, or, when it was not erased, at a later version.\<close>

definition continues :: "identityUserRow \<Rightarrow> identityUserRow \<Rightarrow> bool" where
  "continues r r' \<longleftrightarrow> userKey r' = userKey r
     \<and> (r' = r \<or> iu_Status r \<noteq> ''erased'' \<and> iu_Version r < iu_Version r' \<and> iu_CreatedAt r' = iu_CreatedAt r)"

lemma continues_refl [simp, intro]: "continues r r"
  by (simp add: continues_def)

lemma continues_trans: "continues r r' \<Longrightarrow> continues r' r'' \<Longrightarrow> continues r r''"
  by (auto simp: continues_def)

lemma continues_erased: "continues r r' \<Longrightarrow> iu_Status r = ''erased'' \<Longrightarrow> r' = r"
  by (simp add: continues_def)

definition succeeds :: "(string \<times> string \<Rightarrow> bool) \<Rightarrow> identityUserRow list \<Rightarrow> identityUserRow list \<Rightarrow> bool" where
  "succeeds removal rows rows' \<longleftrightarrow>
     (\<forall>r\<in>set rows. removal (userKey r) \<and> iu_Status r \<noteq> ''erased'' \<or> (\<exists>r'\<in>set rows'. continues r r'))
     \<and> (userViolation rows = None \<longrightarrow> userViolation rows' = None)"

lemma succeeds_refl [simp, intro]: "succeeds removal rows rows"
  by (auto simp: succeeds_def)

lemma succeeds_trans: "succeeds removal rows rows' \<Longrightarrow> succeeds removal rows' rows'' \<Longrightarrow> succeeds removal rows rows''"
  unfolding succeeds_def
proof (intro conjI ballI)
  fix r
  assume a: "(\<forall>r\<in>set rows. removal (userKey r) \<and> iu_Status r \<noteq> ''erased'' \<or> (\<exists>r'\<in>set rows'. continues r r')) \<and> (userViolation rows = None \<longrightarrow> userViolation rows' = None)"
    "(\<forall>r\<in>set rows'. removal (userKey r) \<and> iu_Status r \<noteq> ''erased'' \<or> (\<exists>r'\<in>set rows''. continues r r')) \<and> (userViolation rows' = None \<longrightarrow> userViolation rows'' = None)"
    "r \<in> set rows"
  show "removal (userKey r) \<and> iu_Status r \<noteq> ''erased'' \<or> (\<exists>r'\<in>set rows''. continues r r')"
  proof (cases "removal (userKey r) \<and> iu_Status r \<noteq> ''erased''")
    case False
    with a obtain r' where r': "r' \<in> set rows'" "continues r r'" by blast
    with False have "\<not> (removal (userKey r') \<and> iu_Status r' \<noteq> ''erased'')" using continues_erased by (fastforce simp: continues_def)
    with a(2) r'(1) obtain r'' where "r'' \<in> set rows''" "continues r' r''" by blast
    with r'(2) show ?thesis using continues_trans by blast
  qed simp
qed simp

lemma succeeds_update:
  assumes "\<And>r. p r \<Longrightarrow> continues r (f r)" and "userViolation (updateRows p f rows) = None"
  shows "succeeds removal rows (updateRows p f rows)"
proof -
  have "\<exists>r'\<in>set (updateRows p f rows). continues r r'" if "r \<in> set rows" for r
    using that assms(1) [of r] by (intro bexI [of _ "if p r then f r else r"]) (auto simp: updateRows_def)
  with assms(2) show ?thesis by (simp add: succeeds_def)
qed

lemma succeeds_insert: "userViolation (rows @ [r]) = None \<Longrightarrow> succeeds removal rows (rows @ [r])"
  unfolding succeeds_def by auto

lemma userViolation_filter: "userViolation rows = None \<Longrightarrow> userViolation (filter p rows) = None"
proof -
  have "uniqueOn key (filter p rows)" if "uniqueOn key rows" for key :: "identityUserRow \<Rightarrow> string option"
    using that distinct_map_filter [of "the \<circ> key" "filter (\<lambda>r. key r \<noteq> None) rows" p]
    by (simp add: uniqueOn_def List.map_filter_def conj_commute)
  then show "userViolation rows = None \<Longrightarrow> userViolation (filter p rows) = None"
    by (simp add: userViolation_def distinct_map_filter split: if_splits)
qed

lemma succeeds_delete: "(\<And>r. p r \<Longrightarrow> removal (userKey r) \<and> iu_Status r \<noteq> ''erased'') \<Longrightarrow> succeeds removal rows (filter (\<lambda>r. \<not> p r) rows)"
  unfolding succeeds_def using userViolation_filter by auto

subsection \<open>The operations\<close>

text \<open>
  What an invariant of the tables must survive to survive every operation on users: an update
  that continues rows, an insertion, a deletion where removals are allowed, and writes to the
  tables that hang on users.
\<close>

lemma keeps_workspace: "(\<And>w. NewWorkspaceID ws = Inr w \<Longrightarrow> keeps I (f w)) \<Longrightarrow> keeps I (withWorkspace ws f)"
  by (auto simp: keeps_def andThen_def liftRes_def split: sum.split)

lemma keeps_mapError [triples]: "keeps I m \<Longrightarrow> keeps I (mapError f m)"
  by (auto simp: keeps_def mapError_def split: prod.split sum.split; metis snd_conv)

text \<open>Writing assignments keeps what does not speak of them.\<close>

lemma keeps_assignments:
  assumes "\<And>t f. P t \<Longrightarrow> P (it_Assignments_update f t)"
  shows "keeps (tables P) (writeAssignments e ws as)"
    and "keeps (tables P) (AssignmentStore_Upsert e ws a)"
    and "keeps (tables P) (AssignmentStore_UpsertWithExecutorWithinDataScope e ws a f)"
proof -
  show w: "keeps (tables P) (writeAssignments e ws as)" for ws as
    by (auto simp: writeAssignments_def intro!: triples assms)
  show "keeps (tables P) (AssignmentStore_Upsert e ws a)"
    unfolding AssignmentStore_Upsert_def by (intro triples w)
  show "keeps (tables P) (AssignmentStore_UpsertWithExecutorWithinDataScope e ws a f)"
    unfolding AssignmentStore_UpsertWithExecutorWithinDataScope_def scopedUserCandidate_def
    by (intro triples) (auto intro: assms)
qed

lemma continues_columns:
  "iu_Status r \<noteq> ''erased'' \<Longrightarrow> continues r (userColumns e u r)"
  "iu_Status r \<noteq> ''erased'' \<Longrightarrow> continues r (statusColumns e s r)"
  "iu_Status r \<noteq> ''erased'' \<Longrightarrow> continues r (r\<lparr>iu_Locale := l, iu_Version := iu_Version r + 1, iu_UpdatedAt := now\<rparr>)"
  by (simp_all add: continues_def userColumns_def userRowOf_def statusColumns_def)

locale user_frame =
  fixes P :: "identityTables \<Rightarrow> bool" and removal :: "string \<times> string \<Rightarrow> bool"
  assumes updated: "P t \<Longrightarrow> (\<And>r. p r \<Longrightarrow> continues r (f r)) \<Longrightarrow> userViolation (updateRows p f (it_Users t)) = None
      \<Longrightarrow> P (it_Users_update (\<lambda>_. updateRows p f (it_Users t)) t)"
    and inserted: "P t \<Longrightarrow> userViolation (it_Users t @ [r]) = None \<Longrightarrow> P (it_Users_update (\<lambda>_. it_Users t @ [r]) t)"
    and deleted: "P t \<Longrightarrow> (\<And>r. p r \<Longrightarrow> removal (userKey r) \<and> iu_Status r \<noteq> ''erased'') \<Longrightarrow> P (it_Users_update (filter (\<lambda>r. \<not> p r)) t)"
    and dependent: "P t \<Longrightarrow> P (it_Assignments_update f1 t)" "P t \<Longrightarrow> P (it_Credentials_update f2 t)" "P t \<Longrightarrow> P (it_Accounts_update f3 t)"
      "P t \<Longrightarrow> P (it_Factors_update f4 t)" "P t \<Longrightarrow> P (it_Tokens_update f5 t)"
begin

lemma updateUsers: "(\<And>r. p r \<Longrightarrow> continues r (f r)) \<Longrightarrow> keeps (tables P) (updateUsers e p f)"
  unfolding updateUsers_def writeUsers_def by (rule keeps_execWrite) (auto intro: updated)

lemma insertUser: "keeps (tables P) (insertUser e ws u)"
  unfolding insertUser_def writeUsers_def by (intro triples) (auto intro: inserted)

lemma deleteUsers: "(\<And>r. p r \<Longrightarrow> removal (userKey r) \<and> iu_Status r \<noteq> ''erased'') \<Longrightarrow> keeps (tables P) (execDelete e it_Users it_Users_update p)"
  by (rule keeps_execDelete) (rule deleted)

lemma dependents:
  "keeps (tables P) (deleteUserRelations e ws i)" "keeps (tables P) (revokeTokens e ws i)"
  "keeps (tables P) (execDelete e it_Assignments it_Assignments_update q)"
  unfolding deleteUserRelations_def revokeTokens_def by (intro triples dependent; assumption)+

lemmas assignments = keeps_assignments [where P = P, OF dependent(1)]

lemma upsert: "keeps (tables P) (UserStore_Upsert e ws u)"
  unfolding UserStore_Upsert_def Let_def by (intro triples insertUser updateUsers) (auto intro: continues_columns)

lemma cas: "keeps (tables P) (UserStore_UpdateManyWithExecutorCAS e ws us f)"
proof (induction us arbitrary: ws)
  case (Cons u us)
  then show ?case
    unfolding UserStore_UpdateManyWithExecutorCAS.simps by (intro triples updateUsers) (auto intro: continues_columns)
qed (auto intro!: triples)

lemma candidates: "keeps (tables P) (scopedUserMutationCandidatesExist e ws is f)"
  unfolding scopedUserMutationCandidatesExist_def by (intro triples)

lemma scoped: "keeps (tables P) (updateUsersScoped e ws f us)"
proof (induction us)
  case (Cons u us)
  then show ?case unfolding updateUsersScoped.simps by (intro triples updateUsers) (auto intro: continues_columns)
qed (auto intro!: triples)

lemma scopedMany: "keeps (tables P) (UserStore_UpdateManyWithExecutorWithinDataScope e ws us f)"
  unfolding UserStore_UpdateManyWithExecutorWithinDataScope_def by (intro triples candidates scoped)

lemma assigned: "keeps (tables P) (assignScoped e ws f as)"
  by (induction as) (auto intro!: triples assignments)

lemma reading: "keeps (tables P) (UserStore_Get e ws i)"
  unfolding UserStore_Get_def UserStore_GetWithinDataScope_def by (intro triples)

lemma runUser:
  assumes "\<And>k. removedUser x = Some k \<Longrightarrow> removal k"
  shows "keeps (tables P) (runUser e x)"
proof (cases x)
  case (UpsertUser ws u)
  then show ?thesis by (simp add: upsert)
next
  case (CreateUser ws u)
  then show ?thesis unfolding CreateUser runUser.simps UserStore_Create_def by (intro triples insertUser)
next
  case (UpdateLocale ws i l v)
  then show ?thesis unfolding UpdateLocale runUser.simps UserStore_UpdateLocale_def
    by (intro triples updateUsers reading) (auto intro: continues_columns)
next
  case (UpsertUsers ws us)
  then show ?thesis unfolding UpsertUsers runUser.simps UserStore_UpsertMany_def by (intro triples upsert)
next
  case (UpdateUsers ws us f)
  then show ?thesis unfolding UpdateUsers runUser.simps UserStore_UpdateManyWithinDataScope_def by (intro triples scopedMany)
next
  case (UpdateUsersAtVersion ws us f)
  then show ?thesis unfolding UpdateUsersAtVersion runUser.simps by (intro triples cas)
next
  case (SetStatus ws i s)
  then show ?thesis unfolding SetStatus runUser.simps UserStore_SetStatus_def
    by (intro triples updateUsers) (auto intro: continues_columns)
next
  case (SetStatusScoped ws i s f)
  then show ?thesis unfolding SetStatusScoped runUser.simps UserStore_SetStatusWithinDataScope_def
    by (intro triples updateUsers candidates) (auto intro: continues_columns)
next
  case (DisableUser ws i)
  then show ?thesis unfolding DisableUser runUser.simps SQL_DisableIdentityAccount_def AccountStore_Disable_def
    by (intro triples updateUsers dependents) (auto intro: continues_columns)
next
  case (DisableUserScoped ws i f)
  then show ?thesis unfolding DisableUserScoped runUser.simps UserStore_DisableWithinDataScope_def
    by (intro triples updateUsers candidates dependents) (auto intro: continues_columns)
next
  case (UpsertUserWithRoles ws u as)
  then show ?thesis unfolding UpsertUserWithRoles runUser.simps SQL_UpsertIdentityUserWithRoleAssignmentsAtomically_def
    by (intro triples upsert dependents assignments)
next
  case (UpdateUserWithRoles ws u as f)
  then show ?thesis unfolding UpdateUserWithRoles runUser.simps SQL_UpsertIdentityUserWithRoleAssignmentsWithinDataScopeAtomically_def
    by (intro triples scopedMany assigned) (auto intro: dependent)
next
  case (RemoveUserRow ws i)
  with assms have "removal (w, i)" if "NewWorkspaceID ws = Inr w" for w using that by simp
  then show ?thesis unfolding RemoveUserRow runUser.simps UserStore_Remove_def
    by (intro keeps_workspace keeps_transaction triples deleteUsers dependents) auto
next
  case (RemoveUserScoped ws i f)
  with assms have "removal (w, i)" if "NewWorkspaceID ws = Inr w" for w using that by simp
  then show ?thesis unfolding RemoveUserScoped runUser.simps UserStore_RemoveWithinDataScope_def Let_def
    by (intro triples keeps_workspace deleteUsers dependents) auto
qed

end

text \<open>The rows of users continue.\<close>

interpretation continuing: user_frame "\<lambda>t. succeeds removal rows (it_Users t)" removal for removal rows
  by unfold_locales
    (auto intro: succeeds_trans [OF _ succeeds_update] succeeds_trans [OF _ succeeds_insert] succeeds_trans [OF _ succeeds_delete])

lemma userHistory_succeeds:
  assumes "userHistory db ops db'"
  shows "succeeds (\<lambda>k. Some k \<in> removedUser ` set ops) (it_Users (db_Tables db)) (it_Users (db_Tables db'))"
  using assms
proof induction
  case (call db ops db' x e)
  let ?removal = "\<lambda>k. Some k \<in> removedUser ` set (ops @ [x])"
  have "succeeds ?removal (it_Users (db_Tables db)) (it_Users (db_Tables db'))"
    using call.IH unfolding succeeds_def by auto
  moreover have "keeps (tables (\<lambda>t. succeeds ?removal (it_Users (db_Tables db)) (it_Users t))) (runUser e x)"
    by (rule continuing.runUser) (metis image_eqI in_set_conv_decomp)
  ultimately show ?case unfolding keeps_def by blast
qed simp

text \<open>A table that no operation on users writes stays.\<close>

interpretation reviewing: user_frame "\<lambda>t. R (it_ReviewItems t)" "\<lambda>_. True" for R
  by unfold_locales simp_all

end
