(* ===== verification/ReviewHistory.thy ===== *)
theory ReviewHistory
  imports AccessReviewStore UserHistory
begin

section \<open>Decisions of access reviews\<close>

text \<open>
  What a decision does to the tables, taken apart statement by statement, and histories of
  decisions in any order with any of their statements failing.
\<close>

subsection \<open>One decision\<close>

text \<open>What the tables hold when a decision begins.\<close>

record before =
  be_Items :: "reviewItemRow list"
  be_Assignments :: "assignmentRow list"
  be_Users :: "identityUserRow list"

definition holds :: "before \<Rightarrow> identityTables \<Rightarrow> bool" where
  "holds b t \<longleftrightarrow> it_ReviewItems t = be_Items b \<and> it_Assignments t = be_Assignments b \<and> it_Users t = be_Users b"

definition ofPair :: "string \<Rightarrow> string \<Rightarrow> string \<Rightarrow> assignmentRow \<Rightarrow> bool" where
  "ofPair ws userID roleID r \<longleftrightarrow> ia_WorkspaceID r = ws \<and> ia_UserID r = userID \<and> ia_RoleID r = roleID"

text \<open>The assignments after a decision that keeps or revokes.\<close>

definition decidedAssignments :: "string \<Rightarrow> string \<Rightarrow> IdentityAccessReviewItem \<Rightarrow> assignmentRow list \<Rightarrow> assignmentRow list \<Rightarrow> bool" where
  "decidedAssignments ws decision item rows rows' \<longleftrightarrow>
     (decision = IdentityAccessReviewKeep \<longrightarrow> rows' = rows)
     \<and> (decision = IdentityAccessReviewRevoke \<longrightarrow> rows' = filter (\<lambda>r. \<not> ofPair ws (ari_UserID item) (ari_RoleID item) r) rows)"

definition decidedRow :: "reviewItemRow \<Rightarrow> reviewItemRow \<Rightarrow> bool" where
  "decidedRow r r' \<longleftrightarrow> itemKey r' = itemKey r \<and> ii_Status r' = ''decided'' \<and> ii_ReviewID r' = ii_ReviewID r"

definition reviewSettled :: "string \<Rightarrow> string \<Rightarrow> identityTables \<Rightarrow> bool" where
  "reviewSettled ws reviewID t \<longleftrightarrow> (\<forall>v \<in> set (it_Reviews t). iv_WorkspaceID v = ws \<and> iv_ID v = reviewID \<longrightarrow>
     (iv_Status v = IdentityAccessReviewCompleted \<longleftrightarrow> (\<forall>r \<in> set (it_ReviewItems t).
        ii_WorkspaceID r = ws \<and> ii_ReviewID r = reviewID \<longrightarrow> ii_Status r \<noteq> ''pending'')))"


lemma keeps_review_assignments:
  assumes "\<And>t f. P t \<Longrightarrow> P (it_Assignments_update f t)"
  shows "keeps (tables P) (deleteReviewAssignment e ws u r scope)" "keeps (tables P) (writeReviewAssignment e ws a scope)"
    "keeps (tables P) (reduceAssignment e ws m scope item a)" "keeps (tables P) (expireAssignment e ws m scope a)"
proof -
  show d: "keeps (tables P) (deleteReviewAssignment e ws u r scope)" for u r
    unfolding deleteReviewAssignment_def deleteScopedAssignment_def by (intro triples) (auto intro: assms)
  show w: "keeps (tables P) (writeReviewAssignment e ws a scope)" for a
    unfolding writeReviewAssignment_def by (intro triples keeps_assignments assms)
  show "keeps (tables P) (reduceAssignment e ws m scope item a)"
    unfolding reduceAssignment_def loadRole_def Let_def by (intro triples d w)
  show "keeps (tables P) (expireAssignment e ws m scope a)"
    unfolding expireAssignment_def Let_def by (rule w)
qed

lemma keeps_effect:
  assumes "\<And>t f. P t \<Longrightarrow> P (it_Assignments_update f t)"
  shows "keeps (tables P) (applyDecisionEffect e ws m scope item a)"
  unfolding applyDecisionEffect_def Let_def by (intro triples keeps_review_assignments assms)

lemma effect_holds:
  assumes scoped: "\<And>f t. scope = Some f \<Longrightarrow> holds b t \<Longrightarrow> relationScope t ws f (ari_UserID item)"
    and found: "a = None \<Longrightarrow> \<forall>r \<in> set (be_Assignments b). \<not> ofPair ws (ari_UserID item) (ari_RoleID item) r"
  shows "triple (tables (holds b)) (applyDecisionEffect e ws m scope item a)
    (\<lambda>_. tables (\<lambda>t. it_ReviewItems t = be_Items b
       \<and> decidedAssignments ws (adr_Decision (adm_Request m)) item (be_Assignments b) (it_Assignments t))) (\<lambda>_ _. True)"
proof (cases "adr_Decision (adm_Request m) = IdentityAccessReviewKeep \<or> adr_Decision (adm_Request m) = IdentityAccessReviewRevoke \<and> a = None")
  case True
  with found show ?thesis
    by (auto simp: applyDecisionEffect_def holds_def decidedAssignments_def
       filter_id_conv intro!: triple_ret)
next
  case False
  show ?thesis
  proof (cases "adr_Decision (adm_Request m) = IdentityAccessReviewRevoke")
    case True
    with False obtain x where a: "a = Some x" by auto
    have "relationScope t ws (case scope of None \<Rightarrow> unrestrictedFilter | Some f \<Rightarrow> f) (ari_UserID item)" if "holds b t" for t
      using scoped that by (cases scope) (auto simp: relationScope_def unrestrictedFilter_def)
    then have "triple (tables (holds b)) (deleteReviewAssignment e ws (ari_UserID item) (ari_RoleID item) scope)
      (\<lambda>_. tables (\<lambda>t. it_ReviewItems t = be_Items b \<and> it_Assignments t = filter (\<lambda>r. \<not> ofPair ws (ari_UserID item) (ari_RoleID item) r) (be_Assignments b)))
      (\<lambda>_ _. True)"
      unfolding deleteReviewAssignment_def deleteScopedAssignment_def
      by (intro triple_statement) (auto simp: holds_def ofPair_def intro!: filter_cong)
    with True a show ?thesis
      by (simp add: applyDecisionEffect_def decidedAssignments_def)
  next
    case False': False
    with False have n: "decidedAssignments ws (adr_Decision (adm_Request m)) item rows rows'" for rows rows'
      by (simp add: decidedAssignments_def)
    have "keeps (tables (\<lambda>t. it_ReviewItems t = be_Items b)) (applyDecisionEffect e ws m scope item a)"
      by (rule keeps_effect) simp
    then show ?thesis by (rule triple_weaken [OF triple_frame]) (simp_all add: n holds_def)
  qed
qed


lemma updatedReviews:
  "it_Reviews (it_Reviews_update f t) = f (it_Reviews t)" "it_ReviewItems (it_Reviews_update f t) = it_ReviewItems t"
  "it_Assignments (it_Reviews_update f t) = it_Assignments t"
  by simp_all

lemma close_settles:
  "triple (tables (\<lambda>t. it_ReviewItems t = items \<and> D (it_Assignments t))) (closeReview e ws reviewID)
     (\<lambda>_. tables (\<lambda>t. it_ReviewItems t = items \<and> D (it_Assignments t) \<and> reviewSettled ws reviewID t)) (\<lambda>_ _. True)"
  unfolding closeReview_def
proof (rule triple_queriedRows)
  fix pending :: "reviewItemRow list"
  let ?I = "\<lambda>t. it_ReviewItems t = items \<and> D (it_Assignments t)"
  let ?F = "\<lambda>t. filter (\<lambda>r. ii_WorkspaceID r = ws \<and> ii_ReviewID r = reviewID \<and> ii_Status r = ''pending'') (it_ReviewItems t)"
  let ?p = "\<lambda>r. iv_WorkspaceID r = ws \<and> iv_ID r = reviewID"
  let ?f = "\<lambda>r. r\<lparr>iv_Status := (if pending = [] then IdentityAccessReviewCompleted else IdentityAccessReviewOpen), iv_UpdatedAt := sqlNow e\<rparr>"
  have s: "reviewSettled ws reviewID (it_Reviews_update (updateRows ?p ?f) t)" if "pending = [] \<longleftrightarrow> ?F t = []" for t
    unfolding reviewSettled_def
  proof (intro ballI impI)
    fix v
    assume "v \<in> set (it_Reviews (it_Reviews_update (updateRows ?p ?f) t))" and k: "?p v"
    then obtain w where w: "v = (if ?p w then ?f w else w)" using updatedE [of v ?p ?f "it_Reviews t"] unfolding updatedReviews by blast
    with k have "?p w" by (simp split: if_splits)
    with w have "iv_Status v = IdentityAccessReviewCompleted \<longleftrightarrow> pending = []" by simp
    with that show "iv_Status v = IdentityAccessReviewCompleted \<longleftrightarrow> (\<forall>r \<in> set (it_ReviewItems (it_Reviews_update (updateRows ?p ?f) t)).
        ii_WorkspaceID r = ws \<and> ii_ReviewID r = reviewID \<longrightarrow> ii_Status r \<noteq> ''pending'')"
      by (simp add: filter_empty_conv) blast
  qed
  have "triple (tables (\<lambda>t. ?I t \<and> (pending = [] \<longleftrightarrow> ?F t = []))) (execUpdate e it_Reviews it_Reviews_update ?p ?f)
      (\<lambda>_. tables (\<lambda>t. ?I t \<and> reviewSettled ws reviewID t)) (\<lambda>_ _. True)"
    unfolding execUpdate_def
  proof (rule triple_statement)
    fix t :: identityTables and r and t' :: identityTables
    assume t: "?I t \<and> (pending = [] \<longleftrightarrow> ?F t = [])"
      and r: "(Inr (length (filter ?p (it_Reviews t))), it_Reviews_update (updateRows ?p ?f) t) = (r, t')"
    from t have "?I (it_Reviews_update (updateRows ?p ?f) t) \<and> reviewSettled ws reviewID (it_Reviews_update (updateRows ?p ?f) t)"
      using s [of t] by (simp only: conj_assoc updatedReviews)
    with r show "case r of Inl err \<Rightarrow> True | Inr x \<Rightarrow> ?I t' \<and> reviewSettled ws reviewID t'" by (elim Pair_inject) (hypsubst, simp only: sum.case)
  qed simp
  then have "triple (tables (\<lambda>t. ?I t \<and> (pending = [] \<longleftrightarrow> ?F t = []))) (andThen (execUpdate e it_Reviews it_Reviews_update ?p ?f) (\<lambda>_. ret ()))
      (\<lambda>_. tables (\<lambda>t. ?I t \<and> reviewSettled ws reviewID t)) (\<lambda>_ _. True)"
    by (rule triple_andThen) (rule triple_ret)
  then show "triple (\<lambda>db. tables ?I db \<and> pending = ?F (db_Tables db)) (andThen (execUpdate e it_Reviews it_Reviews_update ?p ?f) (\<lambda>_. ret ()))
      (\<lambda>_. tables (\<lambda>t. it_ReviewItems t = items \<and> D (it_Assignments t) \<and> reviewSettled ws reviewID t)) (\<lambda>_ _. True)"
    by (rule triple_weaken) auto
qed simp

text \<open>The first decision of an item, in all it writes.\<close>

definition firstDecision ::
  "before \<Rightarrow> string \<Rightarrow> IdentityAccessReviewDecisionMutation \<Rightarrow> IdentityAccessReviewDecisionReceipt \<Rightarrow> identityTables \<Rightarrow> bool" where
  "firstDecision b ws m x t \<longleftrightarrow> (\<exists>p. let item = adx_Item x in
     it_ReviewItems t = updateRows p (itemColumns item) (be_Items b) \<and> length (filter p (be_Items b)) = 1
     \<and> (\<forall>r. p r \<longrightarrow> itemKey r = (ws, adm_ItemID m) \<and> ii_Status r = ''pending'' \<and> ii_Version r = adr_ExpectedVersion (adm_Request m))
     \<and> decidedAssignments ws (adr_Decision (adm_Request m)) item (be_Assignments b) (it_Assignments t)
     \<and> reviewSettled ws (ari_ReviewID item) t
     \<and> ari_Status item = ''decided'' \<and> ari_Version item = adr_ExpectedVersion (adm_Request m) + 1
     \<and> ari_Decision item = adr_Decision (adm_Request m) \<and> ari_ReviewerID item = adm_ReviewerID m
     \<and> adx_WorkspaceID x = ws \<and> adx_ItemID x = adm_ItemID m \<and> \<not> adx_Replayed x)"

lemma decided_item [simp]:
  "ari_ID (decidedItem e m item) = ari_ID item" "ari_UserID (decidedItem e m item) = ari_UserID item"
  "ari_RoleID (decidedItem e m item) = ari_RoleID item" "ari_ReviewID (decidedItem e m item) = ari_ReviewID item"
  "ari_Status (decidedItem e m item) = ''decided''" "ari_Version (decidedItem e m item) = ari_Version item + 1"
  "ari_Decision (decidedItem e m item) = adr_Decision (adm_Request m)" "ari_ReviewerID (decidedItem e m item) = adm_ReviewerID m"
  by (simp_all add: decidedItem_def Let_def)

text \<open>The rows that the update of an item concerns, and the tables after it.\<close>

definition claimed ::
  "string \<Rightarrow> IdentityAccessReviewDecisionMutation \<Rightarrow> IdentityDataScopeFilter option \<Rightarrow> string \<Rightarrow> identityTables \<Rightarrow> reviewItemRow \<Rightarrow> bool" where
  "claimed ws m scope itemID t r \<longleftrightarrow> itemKey r = (ws, itemID) \<and> ii_Status r = ''pending''
     \<and> ii_Version r = adr_ExpectedVersion (adm_Request m) \<and> (case scope of None \<Rightarrow> True | Some f \<Rightarrow> relationScope t ws f (ii_UserID r))"

definition updatedItems ::
  "before \<Rightarrow> identityStoreEnv \<Rightarrow> string \<Rightarrow> IdentityAccessReviewDecisionMutation \<Rightarrow> IdentityDataScopeFilter option
     \<Rightarrow> IdentityAccessReviewItem \<Rightarrow> nat \<Rightarrow> reviewItemRow list \<Rightarrow> assignmentRow list \<Rightarrow> bool" where
  "updatedItems b e ws m scope item n rows as \<longleftrightarrow>
     (\<exists>t. rows = updateRows (claimed ws m scope (ari_ID item) t) (itemColumns (decidedItem e m item)) (be_Items b)
        \<and> n = length (filter (claimed ws m scope (ari_ID item) t) (be_Items b)))
     \<and> decidedAssignments ws (adr_Decision (adm_Request m)) item (be_Assignments b) as"

lemma update_updates:
  "triple (tables (\<lambda>t. it_ReviewItems t = be_Items b \<and> decidedAssignments ws (adr_Decision (adm_Request m)) item (be_Assignments b) (it_Assignments t)))
     (updateItem e ws (adr_ExpectedVersion (adm_Request m)) scope (decidedItem e m item))
     (\<lambda>n. tables (\<lambda>t. updatedItems b e ws m scope item n (it_ReviewItems t) (it_Assignments t))) (\<lambda>_ _. True)"
  unfolding updateItem_def
  by (intro triple_statement) (auto simp: updatedItems_def claimed_def [abs_def] Let_def)

lemma updated_first:
  assumes "updatedItems b e ws m scope item 1 (it_ReviewItems t) (it_Assignments t)" and "reviewSettled ws (ari_ReviewID item) t"
    and "ari_ID item = adm_ItemID m" and "ari_Version item = adr_ExpectedVersion (adm_Request m)"
  shows "firstDecision b ws m (decisionReceipt e ws m (decidedItem e m item)) t"
proof -
  from assms(1) obtain t0 where
    "it_ReviewItems t = updateRows (claimed ws m scope (ari_ID item) t0) (itemColumns (decidedItem e m item)) (be_Items b)"
    "length (filter (claimed ws m scope (ari_ID item) t0) (be_Items b)) = 1"
    "decidedAssignments ws (adr_Decision (adm_Request m)) item (be_Assignments b) (it_Assignments t)"
    by (auto simp: updatedItems_def)
  with assms(2-4) show ?thesis
    unfolding firstDecision_def Let_def
    by (intro exI [of _ "claimed ws m scope (ari_ID item) t0"]) (simp add: decisionReceipt_def Let_def claimed_def decidedAssignments_def)
qed

lemma close_first:
  assumes "ari_ID item = adm_ItemID m" and "ari_Version item = adr_ExpectedVersion (adm_Request m)"
  shows "triple (tables (\<lambda>t. updatedItems b e ws m scope item n (it_ReviewItems t) (it_Assignments t)))
    (andThen (check (n = 1) reviewConcurrentDecision) (\<lambda>_. andThen (closeReview e ws (ari_ReviewID item)) (\<lambda>_.
      let receipt = decisionReceipt e ws m (decidedItem e m item) in andThen (insertReceipt e receipt) (\<lambda>_. ret receipt))))
    (\<lambda>x. tables (firstDecision b ws m x)) (\<lambda>_ _. True)"
proof (rule triple_pure, rule triple_andThen)
  assume n: "n = 1"
  let ?U = "\<lambda>t. updatedItems b e ws m scope item 1 (it_ReviewItems t) (it_Assignments t) \<and> reviewSettled ws (ari_ReviewID item) t"
  show "triple (tables (\<lambda>t. updatedItems b e ws m scope item n (it_ReviewItems t) (it_Assignments t)))
    (closeReview e ws (ari_ReviewID item)) (\<lambda>_. tables ?U) (\<lambda>_ _. True)"
    unfolding triple_def
  proof (intro allI impI)
    fix db r db'
    assume u: "updatedItems b e ws m scope item n (it_ReviewItems (db_Tables db)) (it_Assignments (db_Tables db))"
      and r: "closeReview e ws (ari_ReviewID item) db = (r, db')"
    from tripleD(1) [OF close_settles [of "it_ReviewItems (db_Tables db)" "\<lambda>as. updatedItems b e ws m scope item n (it_ReviewItems (db_Tables db)) as"],
        of db e ws "ari_ReviewID item" "()" db'] u r n
    show "case r of Inl err \<Rightarrow> True | Inr x \<Rightarrow> ?U (db_Tables db')" by (auto split: sum.split)
  qed
  show "triple (tables ?U) (let receipt = decisionReceipt e ws m (decidedItem e m item) in
    andThen (insertReceipt e receipt) (\<lambda>_. ret receipt)) (\<lambda>x. tables (firstDecision b ws m x)) (\<lambda>_ _. True)" for u :: unit
    unfolding Let_def insertReceipt_def
    by (rule triple_after, rule keeps_execWrite) (auto simp: reviewSettled_def intro!: triple_ret updated_first assms)
qed

lemma decide_first:
  assumes "\<And>f t. scope = Some f \<Longrightarrow> holds b t \<Longrightarrow> relationScope t ws f (ari_UserID item)" and "ari_ID item = adm_ItemID m"
  shows "triple (tables (holds b)) (decideItem e ws m scope item) (\<lambda>x. tables (firstDecision b ws m x)) (\<lambda>_ _. True)"
  unfolding decideItem_def Let_def [of "adr_ExpectedVersion (adm_Request m)"]
proof (rule triple_pure)
  assume v: "ari_Status item = ''pending'' \<and> ari_Version item = adr_ExpectedVersion (adm_Request m)"
  show "triple (tables (holds b)) (andThen (loadAssignment e ws (ari_UserID item) (ari_RoleID item)) (\<lambda>assignment.
      andThen (applyDecisionEffect e ws m scope item assignment) (\<lambda>_.
      let decided = decidedItem e m item in
      andThen (updateItem e ws (adr_ExpectedVersion (adm_Request m)) scope decided) (\<lambda>affected.
      andThen (check (affected = 1) reviewConcurrentDecision) (\<lambda>_.
      andThen (closeReview e ws (ari_ReviewID item)) (\<lambda>_.
      let receipt = decisionReceipt e ws m decided in
      andThen (insertReceipt e receipt) (\<lambda>_. ret receipt)))))))
    (\<lambda>x. tables (firstDecision b ws m x)) (\<lambda>_ _. True)" (is "triple _ (andThen _ ?rest) _ _")
  proof (rule triple_andThen)
    let ?L = "\<lambda>a t. holds b t \<and> (a = None \<longrightarrow> (\<forall>r \<in> set (be_Assignments b). \<not> ofPair ws (ari_UserID item) (ari_RoleID item) r))"
    show "triple (tables (holds b)) (loadAssignment e ws (ari_UserID item) (ari_RoleID item)) (\<lambda>a. tables (?L a)) (\<lambda>_ _. True)"
      unfolding loadAssignment_def
      by (rule triple_queried) (auto simp: holds_def ofPair_def filter_empty_conv intro!: triple_ret)
    show "triple (tables (?L a)) (?rest a) (\<lambda>x. tables (firstDecision b ws m x)) (\<lambda>_ _. True)" for a
    proof (cases "a = None \<longrightarrow> (\<forall>r \<in> set (be_Assignments b). \<not> ofPair ws (ari_UserID item) (ari_RoleID item) r)")
      case True
      then have "a = None \<Longrightarrow> \<forall>r \<in> set (be_Assignments b). \<not> ofPair ws (ari_UserID item) (ari_RoleID item) r" by blast
      note effect = effect_holds [OF assms(1) this]
      show ?thesis
        unfolding Let_def [of "decidedItem e m item"] using assms(2) v
        by (intro triple_andThen [OF triple_weaken [OF effect] triple_andThen [OF update_updates close_first]]) auto
    qed (auto simp: triple_def)
  qed
qed


subsection \<open>Calls and histories\<close>

lemma relationScope_holds: "holds b t \<Longrightarrow> holds b t' \<Longrightarrow> relationScope t ws f u = relationScope t' ws f u"
  by (simp add: holds_def relationScope_def userRowExists_def)

lemma scan_item: "scanItem e r = Inr i \<Longrightarrow> ari_ID i = ii_ID r \<and> ari_UserID i = ii_UserID r"
  by (auto simp: scanItem_def split: option.splits)

lemma load_item:
  "triple (tables (holds b)) (loadItem e ws itemID f)
     (\<lambda>item db. tables (holds b) db \<and> (\<forall>i. item = Some i \<longrightarrow> ari_ID i = itemID \<and> (\<forall>t. holds b t \<longrightarrow> relationScope t ws f (ari_UserID i))))
     (\<lambda>_ _. True)"
  unfolding loadItem_def
proof (rule triple_queried)
  fix row
  show "triple (\<lambda>db. tables (holds b) db
      \<and> (row = None \<longrightarrow> filter (\<lambda>r. itemKey r = (ws, itemID) \<and> relationScope (db_Tables db) ws f (ii_UserID r)) (it_ReviewItems (db_Tables db)) = [])
      \<and> (\<forall>r. row = Some r \<longrightarrow> r \<in> set (filter (\<lambda>r. itemKey r = (ws, itemID) \<and> relationScope (db_Tables db) ws f (ii_UserID r)) (it_ReviewItems (db_Tables db)))))
    (case row of None \<Rightarrow> ret None | Some r \<Rightarrow> liftRes (bind (scanItem e r) (\<lambda>item. Inr (Some item))))
    (\<lambda>item db. tables (holds b) db \<and> (\<forall>i. item = Some i \<longrightarrow> ari_ID i = itemID \<and> (\<forall>t. holds b t \<longrightarrow> relationScope t ws f (ari_UserID i))))
    (\<lambda>_ _. True)"
  proof (cases row)
    case (Some r)
    show ?thesis
    proof (cases "scanItem e r")
      case (Inr i)
      with Some show ?thesis
        by (simp add: triple_def itemKey_def scan_item [OF Inr]) (use relationScope_holds in blast)
    qed (simp add: Some triple_def)
  qed (simp add: triple_def)
qed simp

lemma keeps_loadReceipt: "keeps (tables P) (loadReceipt e ws itemID key f)"
  unfolding loadReceipt_def by (intro triples)

text \<open>A call decides an item for the first time, or changes nothing and returns an earlier receipt.\<close>

definition decisionOutcome ::
  "before \<Rightarrow> IdentityAccessReviewDecisionMutation \<Rightarrow> IdentityAccessReviewDecisionReceipt \<Rightarrow> identityTables \<Rightarrow> bool" where
  "decisionOutcome b m x t \<longleftrightarrow>
     (if adx_Replayed x then holds b t
      else \<exists>ws. NewWorkspaceID (adm_WorkspaceID m) = Inr ws \<and> firstDecision b ws (trimDecision ws m) x t)"

lemma apply_body:
  assumes "NewWorkspaceID (adm_WorkspaceID m0) = Inr ws" and "m = trimDecision ws m0" and "readScope = (case scope of None \<Rightarrow> unrestrictedFilter | Some f \<Rightarrow> f)"
  shows "triple (tables (holds b))
    (andThen (loadReceipt e ws (adm_ItemID m) (adr_IdempotencyKey (adm_Request m)) readScope) (\<lambda>found.
        case found of
          Some receipt \<Rightarrow> andThen (check (adx_RequestFingerprint receipt = adm_RequestFingerprint m) keyReused) (\<lambda>_.
            ret (receipt\<lparr>adx_Replayed := True\<rparr>, False))
        | None \<Rightarrow>
            andThen (loadItem e ws (adm_ItemID m) readScope) (\<lambda>item.
            case item of
              None \<Rightarrow> raise (AppError KindNotFound ''backend.identity.access_review_item_not_found'' [])
            | Some i \<Rightarrow> andThen (decideItem e ws m scope i) (\<lambda>receipt. ret (receipt, True)))))
    (\<lambda>(x, commit). tables (\<lambda>t. if commit then decisionOutcome b m0 x t else adx_Replayed x)) (\<lambda>_ _. True)"
proof (rule triple_after [OF keeps_loadReceipt])
  fix found
  let ?Q = "\<lambda>(x, commit). tables (\<lambda>t. if commit then decisionOutcome b m0 x t else adx_Replayed x)"
  have decide: "triple (\<lambda>db. tables (holds b) db \<and> (\<forall>i. item = Some i \<longrightarrow> ari_ID i = adm_ItemID m \<and> (\<forall>t. holds b t \<longrightarrow> relationScope t ws readScope (ari_UserID i))))
      (case item of None \<Rightarrow> raise err | Some i \<Rightarrow> andThen (decideItem e ws m scope i) (\<lambda>receipt. ret (receipt, True))) ?Q (\<lambda>_ _. True)"
    for item err
  proof (cases item)
    case (Some i)
    show ?thesis
    proof (cases "ari_ID i = adm_ItemID m \<and> (\<forall>t. holds b t \<longrightarrow> relationScope t ws readScope (ari_UserID i))")
      case True
      with assms(3) have "triple (tables (holds b)) (decideItem e ws m scope i) (\<lambda>x. tables (firstDecision b ws m x)) (\<lambda>_ _. True)"
        by (intro decide_first) auto
      moreover have "decisionOutcome b m0 x t" if "firstDecision b ws m x t" for x t
        using that assms(1, 2) by (auto simp: decisionOutcome_def firstDecision_def Let_def)
      ultimately have "triple (\<lambda>db. tables (holds b) db \<and> (\<forall>i. item = Some i \<longrightarrow> ari_ID i = adm_ItemID m \<and> (\<forall>t. holds b t \<longrightarrow> relationScope t ws readScope (ari_UserID i))))
          (decideItem e ws m scope i) (\<lambda>x. tables (decisionOutcome b m0 x)) (\<lambda>_ _. True)"
        by (elim triple_weaken) auto
      then show ?thesis unfolding Some option.case by (rule triple_andThen) (auto intro: triple_ret)
    qed (auto simp: triple_def Some)
  qed (simp add: triple_def)
  show "triple (tables (holds b)) (case found of
      Some receipt \<Rightarrow> andThen (check (adx_RequestFingerprint receipt = adm_RequestFingerprint m) keyReused) (\<lambda>_. ret (receipt\<lparr>adx_Replayed := True\<rparr>, False))
    | None \<Rightarrow> andThen (loadItem e ws (adm_ItemID m) readScope) (\<lambda>item.
        case item of None \<Rightarrow> raise (AppError KindNotFound ''backend.identity.access_review_item_not_found'' [])
        | Some i \<Rightarrow> andThen (decideItem e ws m scope i) (\<lambda>receipt. ret (receipt, True)))) ?Q (\<lambda>_ _. True)"
  proof (cases found)
    case None
    then show ?thesis using triple_andThen [OF load_item decide] by simp
  next
    case (Some receipt)
    then show ?thesis by (simp add: triple_def andThen_def check_def split: sum.split)
  qed
qed

lemma apply_outcome:
  "triple (tables (holds b)) (ReviewStore_Apply e m scope) (\<lambda>x. tables (decisionOutcome b m x)) (\<lambda>_. tables (holds b))"
proof (cases "NewWorkspaceID (adm_WorkspaceID m)")
  case (Inr ws)
  have "triple (tables (holds b)) (transaction e body) (\<lambda>x. tables (decisionOutcome b m x)) (\<lambda>_. tables (holds b))"
    if "triple (tables (holds b)) body (\<lambda>(x, commit). tables (\<lambda>t. if commit then decisionOutcome b m x t else adx_Replayed x)) (\<lambda>_ _. True)" for body
    by (rule triple_transaction [OF that]) (auto simp: decisionOutcome_def)
  note t = this [OF apply_body [OF Inr refl refl]]
  show ?thesis
    unfolding ReviewStore_Apply_def Inr andThen_lifted Let_def
    by (rule triple_checked) (simp_all only: t)
qed (simp add: ReviewStore_Apply_def andThen_lifted triple_def)


text \<open>
  A history of decisions with the items it decides; between them reviews are created, with a
  data scope or without, users change and rows are read, and every call may meet a driver of
  its own.
\<close>

inductive reviewHistory :: "identityDb \<Rightarrow> (string \<times> string) list \<Rightarrow> identityDb \<Rightarrow> bool" where
  opens: "reviewHistory db [] db"
| decides: "reviewHistory db ks db' \<Longrightarrow> ReviewStore_Apply e m scope db' = (Inr x, db'') \<Longrightarrow> \<not> adx_Replayed x
    \<Longrightarrow> reviewHistory db (ks @ [(adx_WorkspaceID x, adx_ItemID x)]) db''"
| refuses: "reviewHistory db ks db' \<Longrightarrow> ReviewStore_Apply e m scope db' = (r, db'')
    \<Longrightarrow> (case r of Inl err \<Rightarrow> True | Inr x \<Rightarrow> adx_Replayed x) \<Longrightarrow> reviewHistory db ks db''"
| creates: "reviewHistory db ks db' \<Longrightarrow> reviewHistory db ks (snd (ReviewStore_Create e review db'))"
| createsScoped: "reviewHistory db ks db' \<Longrightarrow> reviewHistory db ks (snd (ReviewStore_CreateWithinDataScope e review scope db'))"
| reads: "reviewHistory db ks db' \<Longrightarrow> db_Tables db'' = db_Tables db' \<Longrightarrow> reviewHistory db ks db''"
| changesUser: "reviewHistory db ks db' \<Longrightarrow> reviewHistory db ks (snd (runUser e op db'))"

definition decidedOnce :: "reviewItemRow set \<Rightarrow> (string \<times> string) list \<Rightarrow> reviewItemRow list \<Rightarrow> bool" where
  "decidedOnce D ks rows \<longleftrightarrow> itemViolation rows = None \<and> distinct ks
     \<and> (\<forall>k \<in> set ks. \<exists>r \<in> set rows. itemKey r = k \<and> ii_Status r \<noteq> ''pending'')
     \<and> (\<forall>r \<in> D. r \<in> set rows \<and> ii_Status r \<noteq> ''pending'' \<and> itemKey r \<notin> set ks)"

lemma itemViolation_unique:
  "itemViolation rows = None \<Longrightarrow> r \<in> set rows \<Longrightarrow> r' \<in> set rows \<Longrightarrow> itemKey r = itemKey r' \<Longrightarrow> r = r'"
  by (auto simp: itemViolation_def keysViolation_def distinct_map inj_on_def split: if_splits)

lemma decidedOnce_append: "decidedOnce D ks rows \<Longrightarrow> itemViolation (rows @ rows') = None \<Longrightarrow> decidedOnce D ks (rows @ rows')"
  by (fastforce simp: decidedOnce_def)

lemma itemColumns_keys [simp]:
  "itemKey (itemColumns item r) = itemKey r" "ii_WorkspaceID (itemColumns item r) = ii_WorkspaceID r"
  "ii_ReviewID (itemColumns item r) = ii_ReviewID r" "ii_UserID (itemColumns item r) = ii_UserID r"
  "ii_RoleID (itemColumns item r) = ii_RoleID r" "ii_Status (itemColumns item r) = ari_Status item" "ii_Version (itemColumns item r) = ari_Version item"
  by (simp_all add: itemColumns_def itemKey_def)

lemma itemViolation_columns: "itemViolation (updateRows p (itemColumns item) rows) = itemViolation rows"
  by (simp add: itemViolation_def keysViolation_def map_updated)

lemma decidedOnce_decide:
  assumes d: "decidedOnce D ks rows" and r0: "r0 \<in> set rows" "p r0" and item: "ari_Status item \<noteq> ''pending''"
    and p: "\<And>r. p r \<Longrightarrow> itemKey r = k \<and> ii_Status r = ''pending''"
  shows "decidedOnce D (ks @ [k]) (updateRows p (itemColumns item) rows)"
proof -
  note u = itemViolation_unique [of rows]
  have v: "itemViolation rows = None" using d by (simp add: decidedOnce_def)
  have stays: "r \<in> set (updateRows p (itemColumns item) rows)" if "r \<in> set rows" "ii_Status r \<noteq> ''pending''" for r
    using that p by (force simp: updateRows_def)
  have new: "k \<notin> set ks" using d r0 p u [OF v] unfolding decidedOnce_def by metis
  have "itemColumns item r0 \<in> set (updateRows p (itemColumns item) rows)" using r0 by (force simp: updateRows_def)
  moreover have "itemKey (itemColumns item r0) = k" "ii_Status (itemColumns item r0) \<noteq> ''pending''" using p [OF r0(2)] item by simp_all
  moreover have "itemKey r \<noteq> k" if "r \<in> D" for r using d that r0 p u [OF v] unfolding decidedOnce_def by metis
  ultimately have now: "\<exists>r \<in> set (updateRows p (itemColumns item) rows). itemKey r = k \<and> ii_Status r \<noteq> ''pending''"
    and apart: "\<forall>r \<in> D. itemKey r \<noteq> k" by blast+
  have earlier: "\<exists>r \<in> set (updateRows p (itemColumns item) rows). itemKey r = k' \<and> ii_Status r \<noteq> ''pending''" if "k' \<in> set ks" for k'
    using that d stays unfolding decidedOnce_def by metis
  have "r \<in> set (updateRows p (itemColumns item) rows) \<and> ii_Status r \<noteq> ''pending'' \<and> itemKey r \<notin> set (ks @ [k])" if "r \<in> D" for r
    using that d stays [of r] apart unfolding decidedOnce_def by simp
  then show ?thesis
    using d new now earlier by (simp add: decidedOnce_def itemViolation_columns)
qed

lemma keeps_create:
  fixes D ks
  defines "P \<equiv> tables (\<lambda>t. decidedOnce D ks (it_ReviewItems t))"
  shows "keeps P (ReviewStore_Create e review)" "keeps P (ReviewStore_CreateWithinDataScope e review scope)"
proof -
  have i: "keeps P (insertScopedItems e ws scope reviewID items)" for ws reviewID items
    unfolding P_def by (induction items) (auto simp: insertScopedItem_def intro!: triples decidedOnce_append split: if_splits)
  have n: "keeps P (execWrite e it_ReviewItems it_ReviewItems_update itemViolation (\<lambda>t rows. (n, rows @ new)))" for n new
    unfolding P_def by (auto intro!: triples decidedOnce_append)
  have "insertReview e ws review = mapError normalizeAccessReviewCreateError
      (execInsert e it_Reviews it_Reviews_update (\<lambda>r. (iv_WorkspaceID r, iv_ID r)) (reviewRowOf ws review))" for ws
    by (simp add: insertReview_def mapError_def fun_eq_iff)
  then have r: "keeps P (insertReview e ws review)" for ws
    unfolding P_def by (auto intro!: triples)
  show "keeps P (ReviewStore_Create e review)" "keeps P (ReviewStore_CreateWithinDataScope e review scope)"
    unfolding ReviewStore_Create_def ReviewStore_CreateWithinDataScope_def P_def
    by (intro triples i [unfolded P_def] r [unfolded P_def] n [unfolded P_def])+
qed


lemma apply_cases:
  assumes "ReviewStore_Apply e m scope db = (r, db')"
  shows "case r of Inl err \<Rightarrow> it_ReviewItems (db_Tables db') = it_ReviewItems (db_Tables db)
    | Inr x \<Rightarrow> decisionOutcome \<lparr>be_Items = it_ReviewItems (db_Tables db), be_Assignments = it_Assignments (db_Tables db),
        be_Users = it_Users (db_Tables db)\<rparr> m x (db_Tables db')"
proof -
  let ?b = "\<lparr>be_Items = it_ReviewItems (db_Tables db), be_Assignments = it_Assignments (db_Tables db), be_Users = it_Users (db_Tables db)\<rparr>"
  have "holds ?b (db_Tables db)" by (simp add: holds_def)
  with apply_outcome [of ?b e m scope] assms show ?thesis
    by (cases r) (fastforce simp: triple_def holds_def)+
qed

lemma reviewHistory_once:
  assumes "reviewHistory db ks db'" and "itemViolation (it_ReviewItems (db_Tables db)) = None"
  shows "decidedOnce {r \<in> set (it_ReviewItems (db_Tables db)). ii_Status r \<noteq> ''pending''} ks (it_ReviewItems (db_Tables db'))"
  using assms
proof induction
  case (opens db)
  then show ?case by (simp add: decidedOnce_def)
next
  case (decides db ks db' e m scope x db'')
  from apply_cases [OF decides.hyps(2)] decides.hyps(3) obtain ws p where
    i: "it_ReviewItems (db_Tables db'') = updateRows p (itemColumns (adx_Item x)) (it_ReviewItems (db_Tables db'))"
      "length (filter p (it_ReviewItems (db_Tables db'))) = 1"
    and p: "\<And>r. p r \<Longrightarrow> itemKey r = (adx_WorkspaceID x, adx_ItemID x) \<and> ii_Status r = ''pending''"
    and item: "ari_Status (adx_Item x) = ''decided''"
    by (auto simp: decisionOutcome_def firstDecision_def Let_def)
  from i(2) obtain r0 where "r0 \<in> set (filter p (it_ReviewItems (db_Tables db')))"
    by (cases "filter p (it_ReviewItems (db_Tables db'))") auto
  with decidedOnce_decide [OF decides.IH [OF decides.prems], of r0 p "adx_Item x", OF _ _ _ p] item show ?case unfolding i(1) by simp
next
  case (refuses db ks db' e m scope r db'')
  from apply_cases [OF refuses.hyps(2)] refuses.hyps(3) have "it_ReviewItems (db_Tables db'') = it_ReviewItems (db_Tables db')"
    by (auto simp: decisionOutcome_def holds_def split: sum.splits)
  with refuses.IH [OF refuses.prems] show ?case by simp
next
  case (creates db ks db' e review)
  from keeps_create(1) creates.IH [OF creates.prems] show ?case unfolding keeps_def by blast
next
  case (createsScoped db ks db' e review scope)
  from keeps_create(2) createsScoped.IH [OF createsScoped.prems] show ?case unfolding keeps_def by blast
next
  case (reads db ks db' db'')
  then show ?case by simp
next
  case (changesUser db ks db' e op)
  from reviewing.runUser [of op "decidedOnce {r \<in> set (it_ReviewItems (db_Tables db)). ii_Status r \<noteq> ''pending''} ks" e]
    changesUser.IH [OF changesUser.prems]
  show ?case unfolding keeps_def by blast
qed

end
