(* ===== verification/Reconciliation.thy ===== *)
theory Reconciliation
  imports PermissionStore SqlLogic
begin

section \<open>Reconciling the permissions of an owner\<close>

text \<open>
  What a reconciliation leaves in the table: the submitted definitions of the owner active and
  its others retired, all with the hash of the snapshot, and every other row as it was.
\<close>

subsection \<open>Upserting definitions\<close>

definition ownedBy :: "string \<Rightarrow> string \<Rightarrow> permissionRow \<Rightarrow> bool" where
  "ownedBy ws owner r \<longleftrightarrow> pd_WorkspaceID r = ws \<and> pd_SourceOwner r = owner"

text \<open>A definition of the snapshot, for its key.\<close>

definition submitted :: "string \<Rightarrow> string \<Rightarrow> permissionRow \<Rightarrow> bool" where
  "submitted owner hash d \<longleftrightarrow> pd_SourceOwner d = owner \<and> pd_SourceSnapshotHash d = hash"

text \<open>What a row keeps of the row with its key.\<close>

definition retains :: "permissionRow \<Rightarrow> permissionRow \<Rightarrow> bool" where
  "retains r r' \<longleftrightarrow> permissionKey r' = permissionKey r \<and> pd_ID r' = pd_ID r \<and> pd_Enabled r' = pd_Enabled r \<and> pd_CreatedAt r' = pd_CreatedAt r"

lemma retains_refl [simp]: "retains r r"
  by (simp add: retains_def)

lemma retains_trans: "retains r r' \<Longrightarrow> retains r' r'' \<Longrightarrow> retains r r''"
  by (simp add: retains_def)

lemma permissionInsert_simps [simp]:
  "permissionKey (permissionInsert e ws d) = (ws, pd_PermissionKey d)" "pd_WorkspaceID (permissionInsert e ws d) = ws"
  "pd_PermissionKey (permissionInsert e ws d) = pd_PermissionKey d"
  "pd_SourceOwner (permissionInsert e ws d) = pd_SourceOwner d" "pd_DefinitionStatus (permissionInsert e ws d) = permissionActive"
  "pd_SourceSnapshotHash (permissionInsert e ws d) = pd_SourceSnapshotHash d"
  by (simp_all add: permissionInsert_def permissionKey_def)

definition overwritten :: "identityStoreEnv \<Rightarrow> string \<Rightarrow> permissionRow \<Rightarrow> permissionRow \<Rightarrow> permissionRow" where
  "overwritten e ws d r = (permissionInsert e ws d)\<lparr>pd_ID := pd_ID r, pd_Enabled := pd_Enabled r, pd_CreatedAt := pd_CreatedAt r\<rparr>"

lemma putPermission_rows:
  "putPermission e ws d rows =
     (if \<exists>r \<in> set rows. permissionKey r = (ws, pd_PermissionKey d)
      then map (\<lambda>r. if permissionKey r = (ws, pd_PermissionKey d) then overwritten e ws d r else r) rows
      else rows @ [permissionInsert e ws d])"
  by (auto simp: putPermission_def Let_def upsertRow_def updateRows_def overwritten_def list_ex_iff)

lemma overwritten_simps [simp]:
  "permissionKey (overwritten e ws d r) = (ws, pd_PermissionKey d)" "pd_WorkspaceID (overwritten e ws d r) = ws"
  "pd_PermissionKey (overwritten e ws d r) = pd_PermissionKey d"
  "pd_SourceOwner (overwritten e ws d r) = pd_SourceOwner d" "pd_DefinitionStatus (overwritten e ws d r) = permissionActive"
  "pd_SourceSnapshotHash (overwritten e ws d r) = pd_SourceSnapshotHash d"
  "permissionKey r = (ws, pd_PermissionKey d) \<Longrightarrow> retains r (overwritten e ws d r)"
  by (simp_all add: overwritten_def permissionInsert_def permissionKey_def retains_def)

text \<open>
  The table \<open>rows'\<close> against the table \<open>rows\<close> after the definitions with keys \<open>K\<close> have been
  put: rows of others are as before, a row with a key of \<open>K\<close> is active and of the
  snapshot, an owned row with another key is one from before.
\<close>

definition putInto :: "string \<Rightarrow> string \<Rightarrow> string \<Rightarrow> string set \<Rightarrow> permissionRow list \<Rightarrow> permissionRow list \<Rightarrow> bool" where
  "putInto ws owner hash K rows rows' \<longleftrightarrow>
     filter (\<lambda>r. \<not> ownedBy ws owner r) rows' = filter (\<lambda>r. \<not> ownedBy ws owner r) rows
     \<and> (\<forall>r \<in> set rows'. pd_WorkspaceID r = ws \<and> pd_PermissionKey r \<in> K \<longrightarrow>
           ownedBy ws owner r \<and> pd_DefinitionStatus r = permissionActive \<and> pd_SourceSnapshotHash r = hash)
     \<and> (\<forall>r \<in> set rows'. pd_WorkspaceID r = ws \<and> pd_PermissionKey r \<in> K \<or> r \<in> set rows)
     \<and> (\<forall>k \<in> K. \<exists>r \<in> set rows'. permissionKey r = (ws, k))
     \<and> (\<forall>r \<in> set rows. \<exists>r' \<in> set rows'. retains r r')"

lemma putInto_empty: "putInto ws owner hash {} rows rows"
  unfolding putInto_def by (simp, blast intro: retains_refl)

lemma filter_map_same: "(\<And>r. r \<in> set rows \<Longrightarrow> p (f r) \<longleftrightarrow> p r) \<Longrightarrow> (\<And>r. r \<in> set rows \<Longrightarrow> p r \<Longrightarrow> f r = r) \<Longrightarrow> filter p (map f rows) = filter p rows"
  by (induction rows) auto

lemma permissionKey_eq: "permissionKey r = (ws, k) \<longleftrightarrow> pd_WorkspaceID r = ws \<and> pd_PermissionKey r = k"
  by (simp add: permissionKey_def)

lemma putIntoD:
  assumes "putInto ws owner hash K rows rows'"
  shows "filter (\<lambda>r. \<not> ownedBy ws owner r) rows' = filter (\<lambda>r. \<not> ownedBy ws owner r) rows"
    and "\<And>r. r \<in> set rows' \<Longrightarrow> pd_WorkspaceID r = ws \<Longrightarrow> pd_PermissionKey r \<in> K
      \<Longrightarrow> ownedBy ws owner r \<and> pd_DefinitionStatus r = permissionActive \<and> pd_SourceSnapshotHash r = hash"
    and "\<And>r. r \<in> set rows' \<Longrightarrow> pd_WorkspaceID r = ws \<and> pd_PermissionKey r \<in> K \<or> r \<in> set rows"
    and "\<And>k. k \<in> K \<Longrightarrow> \<exists>r \<in> set rows'. permissionKey r = (ws, k)"
    and "\<And>r. r \<in> set rows \<Longrightarrow> \<exists>r' \<in> set rows'. retains r r'"
  using assms unfolding putInto_def by blast+

lemma putInto_update:
  fixes e ws d
  defines "f \<equiv> \<lambda>r. if permissionKey r = (ws, pd_PermissionKey d) then overwritten e ws d r else r"
  assumes put: "putInto ws owner hash K rows rows'"
    and own: "\<And>r. permissionKey r = (ws, pd_PermissionKey d) \<Longrightarrow> r \<in> set rows' \<Longrightarrow> ownedBy ws owner r"
    and d: "submitted owner hash d"
    and r0: "r0 \<in> set rows'" "permissionKey r0 = (ws, pd_PermissionKey d)"
  shows "putInto ws owner hash (insert (pd_PermissionKey d) K) rows (map f rows')"
proof -
  note P = putIntoD [OF put]
  have f: "permissionKey (f r) = permissionKey r" "retains r (f r)" for r by (simp_all add: f_def)
  have hit: "ownedBy ws owner (f r) \<and> pd_DefinitionStatus (f r) = permissionActive \<and> pd_SourceSnapshotHash (f r) = hash"
    if "permissionKey r = (ws, pd_PermissionKey d)" for r
    using that d by (simp add: f_def submitted_def ownedBy_def)
  have miss: "f r = r" if "permissionKey r \<noteq> (ws, pd_PermissionKey d)" for r using that by (simp add: f_def)
  have "filter (\<lambda>r. \<not> ownedBy ws owner r) (map f rows') = filter (\<lambda>r. \<not> ownedBy ws owner r) rows'"
    by (rule filter_map_same) (metis own hit miss)+
  with P(1) have others: "filter (\<lambda>r. \<not> ownedBy ws owner r) (map f rows') = filter (\<lambda>r. \<not> ownedBy ws owner r) rows" by simp
  have live: "ownedBy ws owner (f r) \<and> pd_DefinitionStatus (f r) = permissionActive \<and> pd_SourceSnapshotHash (f r) = hash"
    if "r \<in> set rows'" "pd_WorkspaceID (f r) = ws" "pd_PermissionKey (f r) \<in> insert (pd_PermissionKey d) K" for r
  proof (cases "permissionKey r = (ws, pd_PermissionKey d)")
    case False
    with that miss have "pd_WorkspaceID r = ws" "pd_PermissionKey r \<in> K" by (auto simp: permissionKey_eq)
    with P(2) [OF that(1)] miss [OF False] show ?thesis by simp
  qed (rule hit)
  have old: "pd_WorkspaceID (f r) = ws \<and> pd_PermissionKey (f r) \<in> insert (pd_PermissionKey d) K \<or> f r \<in> set rows" if "r \<in> set rows'" for r
    using P(3) [OF that] by (cases "permissionKey r = (ws, pd_PermissionKey d)") (auto simp: f_def)
  have there: "\<exists>r \<in> set rows'. permissionKey (f r) = (ws, k')" if "k' \<in> insert (pd_PermissionKey d) K" for k'
    using that r0 P(4) by (auto simp: f)
  have kept: "\<exists>r' \<in> set rows'. retains r (f r')" if "r \<in> set rows" for r
    using P(5) [OF that] f(2) retains_trans by blast
  show ?thesis unfolding putInto_def using others live old there kept by simp
qed

lemma putInto_insert:
  assumes put: "putInto ws owner hash K rows rows'" and d: "submitted owner hash d"
    and fresh: "\<not> (\<exists>r \<in> set rows'. permissionKey r = (ws, pd_PermissionKey d))"
  shows "putInto ws owner hash (insert (pd_PermissionKey d) K) rows (rows' @ [permissionInsert e ws d])"
proof -
  note P = putIntoD [OF put]
  define n where "n = permissionInsert e ws d"
  have n: "ownedBy ws owner n" "pd_SourceSnapshotHash n = hash" "pd_DefinitionStatus n = permissionActive"
    "pd_WorkspaceID n = ws" "pd_PermissionKey n = pd_PermissionKey d" "permissionKey n = (ws, pd_PermissionKey d)"
    using d by (simp_all add: n_def ownedBy_def submitted_def)
  have apart: "pd_PermissionKey r \<in> K" if "r \<in> set rows'" "pd_WorkspaceID r = ws" "pd_PermissionKey r \<in> insert (pd_PermissionKey d) K" for r
    using that fresh by (auto simp: permissionKey_eq)
  have "filter (\<lambda>r. \<not> ownedBy ws owner r) (rows' @ [n]) = filter (\<lambda>r. \<not> ownedBy ws owner r) rows"
    using n P(1) by simp
  moreover have "ownedBy ws owner r \<and> pd_DefinitionStatus r = permissionActive \<and> pd_SourceSnapshotHash r = hash"
    if "r \<in> set (rows' @ [n])" "pd_WorkspaceID r = ws" "pd_PermissionKey r \<in> insert (pd_PermissionKey d) K" for r
    using that n P(2) apart by auto
  moreover have "pd_WorkspaceID r = ws \<and> pd_PermissionKey r \<in> insert (pd_PermissionKey d) K \<or> r \<in> set rows"
    if "r \<in> set (rows' @ [n])" for r
    using that n P(3) by auto
  moreover have "\<exists>r \<in> set (rows' @ [n]). permissionKey r = (ws, k)" if "k \<in> insert (pd_PermissionKey d) K" for k
    using that n P(4) by (auto simp: bex_Un)
  moreover have "\<exists>r' \<in> set (rows' @ [n]). retains r r'" if "r \<in> set rows" for r
    using P(5) [OF that] by auto
  ultimately show ?thesis unfolding putInto_def n_def [symmetric] by blast
qed

lemma putInto_put:
  assumes d: "submitted owner hash d" and put: "putInto ws owner hash K rows rows'"
    and own: "\<And>r. r \<in> set rows \<Longrightarrow> permissionKey r = (ws, pd_PermissionKey d) \<Longrightarrow> ownedBy ws owner r"
  shows "putInto ws owner hash (insert (pd_PermissionKey d) K) rows (putPermission e ws d rows')"
proof (cases "\<exists>r \<in> set rows'. permissionKey r = (ws, pd_PermissionKey d)")
  case True
  then obtain r0 where r0: "r0 \<in> set rows'" "permissionKey r0 = (ws, pd_PermissionKey d)" by blast
  have "ownedBy ws owner r" if "permissionKey r = (ws, pd_PermissionKey d)" "r \<in> set rows'" for r
    using putIntoD(2, 3) [OF put] that own unfolding permissionKey_eq by blast
  from putInto_update [OF put this d r0] True show ?thesis by (simp add: putPermission_rows)
next
  case False
  with putInto_insert [OF put d False] show ?thesis by (simp add: putPermission_rows)
qed

lemma putInto_fold:
  assumes "\<And>d. d \<in> set ds \<Longrightarrow> submitted owner hash d"
    and "\<And>r d. r \<in> set rows \<Longrightarrow> d \<in> set ds \<Longrightarrow> permissionKey r = (ws, pd_PermissionKey d) \<Longrightarrow> ownedBy ws owner r"
    and "putInto ws owner hash K rows rows'"
  shows "putInto ws owner hash (K \<union> pd_PermissionKey ` set ds) rows (fold (putPermission e ws) ds rows')"
  using assms
proof (induction ds arbitrary: K rows')
  case (Cons d ds)
  have "putInto ws owner hash (insert (pd_PermissionKey d) K) rows (putPermission e ws d rows')"
    using Cons.prems by (intro putInto_put) auto
  then have "putInto ws owner hash (insert (pd_PermissionKey d) K \<union> pd_PermissionKey ` set ds) rows
      (fold (putPermission e ws) ds (putPermission e ws d rows'))"
    by (rule Cons.IH [rotated 2]) (use Cons.prems in auto)
  then show ?case by simp
qed simp

lemma distinct_put:
  assumes "distinct (map permissionKey rows)"
  shows "distinct (map permissionKey (putPermission e ws d rows))"
proof (cases "\<exists>r \<in> set rows. permissionKey r = (ws, pd_PermissionKey d)")
  case True
  then have "map permissionKey (putPermission e ws d rows) = map permissionKey rows" by (simp add: putPermission_rows)
  with assms show ?thesis by simp
next
  case False
  with assms show ?thesis by (auto simp: putPermission_rows)
qed

lemma distinct_puts: "distinct (map permissionKey rows) \<Longrightarrow> distinct (map permissionKey (fold (putPermission e ws) ds rows))"
  by (induction ds arbitrary: rows) (simp_all add: distinct_put)

subsection \<open>Publishing\<close>

text \<open>
  The table after a snapshot with keys \<open>K\<close> has been published over the table \<open>rows\<close>.
\<close>

definition published :: "string \<Rightarrow> string \<Rightarrow> string \<Rightarrow> string set \<Rightarrow> permissionRow list \<Rightarrow> permissionRow list \<Rightarrow> bool" where
  "published ws owner hash K rows rows' \<longleftrightarrow>
     distinct (map permissionKey rows')
     \<and> filter (\<lambda>r. \<not> ownedBy ws owner r) rows' = filter (\<lambda>r. \<not> ownedBy ws owner r) rows
     \<and> (\<forall>r \<in> set rows'. ownedBy ws owner r \<longrightarrow> pd_SourceSnapshotHash r = hash \<and> (pd_DefinitionStatus r = permissionActive \<longleftrightarrow> pd_PermissionKey r \<in> K))
     \<and> (\<forall>k \<in> K. \<exists>r \<in> set rows'. permissionKey r = (ws, k) \<and> ownedBy ws owner r)
     \<and> (\<forall>r \<in> set rows. \<exists>r' \<in> set rows'. retains r r')"

lemma published_keys:
  assumes "published ws owner hash K rows rows'"
  shows "pd_PermissionKey ` {r \<in> set rows'. ownedBy ws owner r \<and> pd_DefinitionStatus r = permissionActive} = K"
proof -
  from assms have a: "pd_DefinitionStatus r = permissionActive \<longleftrightarrow> pd_PermissionKey r \<in> K" if "r \<in> set rows'" "ownedBy ws owner r" for r
    using that by (simp add: published_def)
  from assms have e: "\<exists>r \<in> set rows'. pd_PermissionKey r = k \<and> ownedBy ws owner r" if "k \<in> K" for k
    using that unfolding published_def permissionKey_eq by blast
  show ?thesis
  proof (rule set_eqI, rule iffI)
    fix k assume "k \<in> K"
    with e obtain r where "r \<in> set rows'" "pd_PermissionKey r = k" "ownedBy ws owner r" by blast
    with a \<open>k \<in> K\<close> show "k \<in> pd_PermissionKey ` {r \<in> set rows'. ownedBy ws owner r \<and> pd_DefinitionStatus r = permissionActive}" by blast
  qed (use a in blast)
qed

definition retireRow :: "identityStoreEnv \<Rightarrow> string \<Rightarrow> permissionRow \<Rightarrow> permissionRow" where
  "retireRow e hash r = r\<lparr>pd_DefinitionStatus := permissionRetired, pd_SourceSnapshotHash := hash, pd_UpdatedAt := sqlNow e\<rparr>"

lemma retireRow_simps [simp]:
  "permissionKey (retireRow e hash r) = permissionKey r" "pd_PermissionKey (retireRow e hash r) = pd_PermissionKey r"
  "ownedBy ws owner (retireRow e hash r) = ownedBy ws owner r"
  "pd_DefinitionStatus (retireRow e hash r) = permissionRetired" "pd_SourceSnapshotHash (retireRow e hash r) = hash" "retains r (retireRow e hash r)"
  by (simp_all add: retireRow_def permissionKey_def ownedBy_def retains_def)

lemma publish:
  assumes keys: "distinct (map permissionKey rows)"
    and d: "\<And>d. d \<in> set ds \<Longrightarrow> submitted owner hash d"
    and own: "\<And>r d. r \<in> set rows \<Longrightarrow> d \<in> set ds \<Longrightarrow> permissionKey r = (ws, pd_PermissionKey d) \<Longrightarrow> ownedBy ws owner r"
  shows "published ws owner hash (pd_PermissionKey ` set ds) rows
    (fold (putPermission e ws) ds (updateRows (ownedBy ws owner) (retireRow e hash) rows))" (is "published _ _ _ ?K rows ?rows2")
proof -
  let ?f = "\<lambda>r. if ownedBy ws owner r then retireRow e hash r else r"
  define rows1 where "rows1 = updateRows (ownedBy ws owner) (retireRow e hash) rows"
  have m: "rows1 = map ?f rows" by (simp add: rows1_def updateRows_def)
  have k: "permissionKey (?f r) = permissionKey r" "ownedBy ws owner (?f r) = ownedBy ws owner r" "retains r (?f r)" for r by simp_all
  have old: "\<exists>r0 \<in> set rows. r = ?f r0" if "r \<in> set rows1" for r using that unfolding m by auto
  have idle: "pd_SourceSnapshotHash r = hash \<and> pd_DefinitionStatus r = permissionRetired" if "r \<in> set rows1" "ownedBy ws owner r" for r
    using old [OF that(1)] that(2) k(2) by auto
  have others: "filter (\<lambda>r. \<not> ownedBy ws owner r) rows1 = filter (\<lambda>r. \<not> ownedBy ws owner r) rows"
    unfolding m by (rule filter_map_same) auto
  have kept: "\<exists>r' \<in> set rows1. retains r r'" if "r \<in> set rows" for r using that k(3) [of r] unfolding m set_map by blast
  have "ownedBy ws owner r" if "r \<in> set rows1" "d \<in> set ds" "permissionKey r = (ws, pd_PermissionKey d)" for r d
    using old [OF that(1)] own [OF _ that(2)] that(3) k by metis
  then have "putInto ws owner hash ({} \<union> ?K) rows1 (fold (putPermission e ws) ds rows1)"
    by (intro putInto_fold putInto_empty d) auto
  then have put: "putInto ws owner hash ?K rows1 (fold (putPermission e ws) ds rows1)" by simp
  note P = putIntoD [OF put]
  have "map permissionKey rows1 = map permissionKey rows" unfolding m by simp
  with keys have one: "distinct (map permissionKey (fold (putPermission e ws) ds rows1))" by (simp add: distinct_puts)
  have owned: "pd_SourceSnapshotHash r = hash \<and> (pd_DefinitionStatus r = permissionActive \<longleftrightarrow> pd_PermissionKey r \<in> ?K)"
    if "r \<in> set (fold (putPermission e ws) ds rows1)" "ownedBy ws owner r" for r
  proof (cases "pd_PermissionKey r \<in> ?K")
    case True
    with P(2) [OF that(1)] that(2) show ?thesis by (simp add: ownedBy_def)
  next
    case False
    with P(3) [OF that(1)] idle that(2) have "pd_SourceSnapshotHash r = hash \<and> pd_DefinitionStatus r = permissionRetired" by blast
    with False show ?thesis by simp
  qed
  have there: "\<exists>r \<in> set (fold (putPermission e ws) ds rows1). permissionKey r = (ws, k) \<and> ownedBy ws owner r" if "k \<in> ?K" for k
    using P(4) [OF that] P(2) that unfolding permissionKey_eq by blast
  have retained: "\<exists>r' \<in> set (fold (putPermission e ws) ds rows1). retains r r'" if "r \<in> set rows" for r
    using kept [OF that] P(5) retains_trans by blast
  show ?thesis unfolding published_def rows1_def [symmetric] using one owned there retained P(1) others by simp
qed

subsection \<open>The call\<close>

lemma incomingDefinitions_sound:
  assumes "incomingDefinitions q m ds = Inr m'"
    and "\<And>k d. map_of m k = Some d \<Longrightarrow> pd_PermissionKey d = k \<and> submitted (prq_SourceOwner q) (prq_SnapshotHash q) d"
  shows "(\<forall>k d. map_of m' k = Some d \<longrightarrow> pd_PermissionKey d = k \<and> submitted (prq_SourceOwner q) (prq_SnapshotHash q) d)
    \<and> fst ` set m' = fst ` set m \<union> (\<lambda>d. TrimSpace (pd_PermissionKey d)) ` set ds"
  using assms
proof (induction ds arbitrary: m)
  case (Cons d0 ds)
  let ?d = "trimDefinition d0"
  from Cons.prems(1) have ok: "submitted (prq_SourceOwner q) (prq_SnapshotHash q) ?d"
    and rest: "incomingDefinitions q (AList.update (pd_PermissionKey ?d) ?d m) ds = Inr m'"
    by (auto simp: Let_def submitted_def split: if_splits)
  have "pd_PermissionKey d = k \<and> submitted (prq_SourceOwner q) (prq_SnapshotHash q) d"
    if "map_of (AList.update (pd_PermissionKey ?d) ?d m) k = Some d" for k d
    using that Cons.prems(2) [of k d] ok by (auto simp: update_conv split: if_splits)
  from Cons.IH [OF rest this] show ?case by (simp add: dom_update) (simp add: trimDefinition_def)
qed simp

lemma foreignDefinition_none:
  assumes "foreignDefinition q current keys = None" and "distinct (map pd_PermissionKey current)"
    and "d \<in> set current" and "pd_PermissionKey d \<in> set keys"
  shows "pd_SourceOwner d = prq_SourceOwner q"
proof (rule ccontr)
  assume f: "pd_SourceOwner d \<noteq> prq_SourceOwner q"
  let ?g = "\<lambda>k. case find (\<lambda>d. pd_PermissionKey d = k) current of None \<Rightarrow> None
    | Some d \<Rightarrow> if pd_SourceOwner d \<noteq> prq_SourceOwner q then Some d else None"
  have "find (\<lambda>d'. pd_PermissionKey d' = pd_PermissionKey d) current = Some d" using assms(2, 3)
    by (induction current) (auto simp: rev_image_eqI)
  with f have "?g (pd_PermissionKey d) = Some d" by simp
  with assms(4) have "d \<in> set (List.map_filter ?g keys)" by (force simp: map_filter_def)
  with assms(1) show False by (simp add: foreignDefinition_def split: list.splits)
qed

text \<open>The ranges of a batched statement split its items.\<close>

definition rangesSplit :: "identityStoreEnv \<Rightarrow> bool" where
  "rangesSplit e \<longleftrightarrow> (\<forall>(ds :: permissionRow list) rs. is_Ranges e 16 (length ds) = Inr rs \<longrightarrow> concat (map (batchOf ds) rs) = ds)"

lemma upsert_puts:
  assumes "rangesSplit e"
  shows "triple (tables (\<lambda>t. it_Permissions t = rows)) (upsertDefinitions e ws ds)
    (\<lambda>_. tables (\<lambda>t. it_Permissions t = fold (putPermission e ws) ds rows)) (\<lambda>_ _. True)"
proof (cases "is_Ranges e 16 (length ds)")
  case (Inl err)
  then show ?thesis by (simp add: upsertDefinitions_def triple_def andThen_def)
next
  case (Inr rs)
  with assms have "concat (map (batchOf ds) rs) = ds" by (simp add: rangesSplit_def)
  with triple_batches [of it_Permissions it_Permissions_update rows e "putPermission e ws" "batchOf ds" rs] show ?thesis
    by (simp add: upsertDefinitions_def Inr pure_run fun_eq_iff andThen_def)
qed

text \<open>What a call that returns has done: unless the owner had this snapshot already, it published it.\<close>

definition reconciled ::
  "IdentityPermissionReconcileRequest \<Rightarrow> string set \<Rightarrow> permissionRow list \<Rightarrow> IdentityPermissionReconcileReceipt \<Rightarrow> permissionRow list \<Rightarrow> bool" where
  "reconciled q K rows x rows' \<longleftrightarrow>
     prc_WorkspaceID x = prq_WorkspaceID q \<and> prc_SourceOwner x = prq_SourceOwner q \<and> prc_SnapshotHash x = prq_SnapshotHash q
     \<and> (if prc_SnapshotHash x = prc_PreviousSnapshotHash x then rows' = rows
        else published (prq_WorkspaceID q) (prq_SourceOwner q) (prq_SnapshotHash q) K rows rows')"

lemma retire_rows:
  "triple (tables (\<lambda>t. it_Permissions t = rows)) (retireOwnerDefinitions e q)
    (\<lambda>_. tables (\<lambda>t. it_Permissions t = updateRows (ownedBy (prq_WorkspaceID q) (prq_SourceOwner q)) (retireRow e (prq_SnapshotHash q)) rows))
    (\<lambda>_ _. True)"
  unfolding retireOwnerDefinitions_def execUpdate_def
  by (rule triple_statement) (auto simp: ownedBy_def [abs_def] retireRow_def [abs_def])

lemma receipt_fields [simp]:
  "prc_WorkspaceID (reconcileReceipt q h rows keys) = prq_WorkspaceID q" "prc_SourceOwner (reconcileReceipt q h rows keys) = prq_SourceOwner q"
  "prc_SnapshotHash (reconcileReceipt q h rows keys) = prq_SnapshotHash q" "prc_PreviousSnapshotHash (reconcileReceipt q h rows keys) = h"
  by (simp_all add: reconcileReceipt_def Let_def)

lemma reconcile_publishes_rows:
  assumes ranges: "rangesSplit e" and keys: "distinct (map permissionKey rows)"
    and ds: "\<And>k d. map_of incoming k = Some d \<Longrightarrow> pd_PermissionKey d = k \<and> submitted (prq_SourceOwner q) (prq_SnapshotHash q) d"
    and current: "set current = {r \<in> set rows. pd_WorkspaceID r = prq_WorkspaceID q}" "distinct (map pd_PermissionKey current)"
    and foreign: "foreignDefinition q current ks = None" and ks: "set ks = fst ` set incoming"
  shows "triple (tables (\<lambda>t. it_Permissions t = rows))
    (andThen (retireOwnerDefinitions e q) (\<lambda>_. upsertDefinitions e (prq_WorkspaceID q) (map (\<lambda>k. the (map_of incoming k)) ks)))
    (\<lambda>_. tables (\<lambda>t. published (prq_WorkspaceID q) (prq_SourceOwner q) (prq_SnapshotHash q) (fst ` set incoming) rows (it_Permissions t)))
    (\<lambda>_ _. True)"
proof -
  let ?ds = "map (\<lambda>k. the (map_of incoming k)) ks"
  have d: "pd_PermissionKey (the (map_of incoming k)) = k" "submitted (prq_SourceOwner q) (prq_SnapshotHash q) (the (map_of incoming k))"
    if "k \<in> set ks" for k
  proof -
    from that have "k \<in> dom (map_of incoming)" by (simp add: ks dom_map_of_conv_image_fst)
    then obtain x where "map_of incoming k = Some x" by blast
    with ds [OF this] show "pd_PermissionKey (the (map_of incoming k)) = k"
      "submitted (prq_SourceOwner q) (prq_SnapshotHash q) (the (map_of incoming k))" by simp_all
  qed
  have K: "pd_PermissionKey ` set ?ds = fst ` set incoming"
  proof -
    have "pd_PermissionKey ` set ?ds = (\<lambda>k. pd_PermissionKey (the (map_of incoming k))) ` set ks" by (simp add: image_image)
    also have "\<dots> = set ks" using d(1) by simp
    finally show ?thesis using ks by simp
  qed
  have own: "ownedBy (prq_WorkspaceID q) (prq_SourceOwner q) r"
    if "r \<in> set rows" "x \<in> set ?ds" "permissionKey r = (prq_WorkspaceID q, pd_PermissionKey x)" for r x
    using foreignDefinition_none [OF foreign current(2), of r] that d(1) current(1) by (auto simp: ownedBy_def permissionKey_eq)
  have sub: "submitted (prq_SourceOwner q) (prq_SnapshotHash q) x" if "x \<in> set ?ds" for x using that d(2) by auto
  have p: "published (prq_WorkspaceID q) (prq_SourceOwner q) (prq_SnapshotHash q) (pd_PermissionKey ` set ?ds) rows
      (fold (putPermission e (prq_WorkspaceID q)) ?ds (updateRows (ownedBy (prq_WorkspaceID q) (prq_SourceOwner q)) (retireRow e (prq_SnapshotHash q)) rows))"
    by (rule publish [OF keys]) (erule sub, rule own)
  then have "tables (\<lambda>t. published (prq_WorkspaceID q) (prq_SourceOwner q) (prq_SnapshotHash q) (fst ` set incoming) rows (it_Permissions t)) w"
    if "tables (\<lambda>t. it_Permissions t = fold (putPermission e (prq_WorkspaceID q)) ?ds
        (updateRows (ownedBy (prq_WorkspaceID q) (prq_SourceOwner q)) (retireRow e (prq_SnapshotHash q)) rows)) w" for w
    unfolding K that .
  then show ?thesis
    by (intro triple_andThen [OF retire_rows] triple_weaken [OF upsert_puts [OF ranges]])
qed

lemma andThen_assoc: "andThen (andThen m f) g = andThen m (\<lambda>x. andThen (f x) g)"
  by (auto simp: andThen_def fun_eq_iff split: prod.split sum.split)

lemma current_rows:
  assumes "distinct (map permissionKey (it_Permissions t))"
  shows "set (permissionRows ws t) = {r \<in> set (it_Permissions t). pd_WorkspaceID r = ws}" "distinct (map pd_PermissionKey (permissionRows ws t))"
proof -
  show s: "set (permissionRows ws t) = {r \<in> set (it_Permissions t). pd_WorkspaceID r = ws}" by (simp add: permissionRows_def)
  from assms have "distinct (permissionRows ws t)" by (simp add: permissionRows_def distinct_map)
  moreover have "inj_on pd_PermissionKey (set (permissionRows ws t))"
    using assms unfolding s by (auto simp: distinct_map inj_on_def permissionKey_def)
  ultimately show "distinct (map pd_PermissionKey (permissionRows ws t))" by (simp add: distinct_map)
qed

lemma reconcile_executor:
  assumes ranges: "rangesSplit e" and keys: "distinct (map permissionKey rows)"
    and ds: "\<And>k d. map_of incoming k = Some d \<Longrightarrow> pd_PermissionKey d = k \<and> submitted (prq_SourceOwner q) (prq_SnapshotHash q) d"
  shows "triple (tables (\<lambda>t. it_Permissions t = rows)) (reconcileWithExecutor e q incoming)
    (\<lambda>x. tables (\<lambda>t. reconciled q (fst ` set incoming) rows x (it_Permissions t))) (\<lambda>_ _. True)"
  unfolding reconcileWithExecutor_def
proof (rule triple_queriedRows)
  fix current
  let ?ks = "sortStrings (map fst incoming)"
  let ?rest = "andThen (liftRes (currentSnapshot (prq_SourceOwner q) [] current)) (\<lambda>h.
     let keys = ?ks; receipt = reconcileReceipt q h current keys in
     if prq_SnapshotHash q = h then
       ret (receipt\<lparr>prc_Inserted := 0, prc_Updated := 0, prc_Retired := 0, prc_Unchanged := length incoming\<rparr>)
     else andThen (check (prq_PreviousSnapshotHash q = h) (snapshotStale q h)) (\<lambda>_.
       case foreignDefinition q current keys of
         Some d \<Rightarrow> raise (ownerConflict q d)
       | None \<Rightarrow>
           andThen (retireOwnerDefinitions e q) (\<lambda>_.
           andThen (upsertDefinitions e (prq_WorkspaceID q) (map (\<lambda>k. the (map_of incoming k)) keys)) (\<lambda>_.
           ret receipt))))"
  have "triple (tables (\<lambda>t. it_Permissions t = rows)) ?rest
      (\<lambda>x. tables (\<lambda>t. reconciled q (fst ` set incoming) rows x (it_Permissions t))) (\<lambda>_ _. True)"
    if c: "set current = {r \<in> set rows. pd_WorkspaceID r = prq_WorkspaceID q}" "distinct (map pd_PermissionKey current)"
  proof (rule triple_lifted)
    fix h
    show "triple (tables (\<lambda>t. it_Permissions t = rows)) (let keys = ?ks; receipt = reconcileReceipt q h current keys in
       if prq_SnapshotHash q = h then
         ret (receipt\<lparr>prc_Inserted := 0, prc_Updated := 0, prc_Retired := 0, prc_Unchanged := length incoming\<rparr>)
       else andThen (check (prq_PreviousSnapshotHash q = h) (snapshotStale q h)) (\<lambda>_.
         case foreignDefinition q current keys of
           Some d \<Rightarrow> raise (ownerConflict q d)
         | None \<Rightarrow>
             andThen (retireOwnerDefinitions e q) (\<lambda>_.
             andThen (upsertDefinitions e (prq_WorkspaceID q) (map (\<lambda>k. the (map_of incoming k)) keys)) (\<lambda>_.
             ret receipt))))
      (\<lambda>x. tables (\<lambda>t. reconciled q (fst ` set incoming) rows x (it_Permissions t))) (\<lambda>_ _. True)"
    proof (cases "prq_SnapshotHash q = h")
      case True
      then show ?thesis by (auto simp: Let_def reconciled_def intro!: triple_ret)
    next
      case False
      show ?thesis
      proof (cases "foreignDefinition q current ?ks")
        case None
        note p = reconcile_publishes_rows [OF ranges keys ds c None]
        show ?thesis unfolding Let_def if_not_P [OF False] None option.case
          by (rule triple_pure, unfold andThen_assoc [symmetric], rule triple_andThen [OF p])
            (use False in \<open>auto simp: reconciled_def intro!: triple_ret\<close>)
      next
        case (Some d)
        show ?thesis unfolding Let_def if_not_P [OF False] Some option.case
          by (rule triple_pure) (simp add: triple_raise)
      qed
    qed
  qed
  then show "triple (\<lambda>db. tables (\<lambda>t. it_Permissions t = rows) db \<and> current = permissionRows (prq_WorkspaceID q) (db_Tables db)) ?rest
      (\<lambda>x. tables (\<lambda>t. reconciled q (fst ` set incoming) rows x (it_Permissions t))) (\<lambda>_ _. True)"
    using keys current_rows by (fastforce simp: triple_def)
qed simp

lemma reconcile_call:
  assumes call: "PermissionStore_Reconcile e q0 db = (Inr x, db')"
    and "distinct (map permissionKey (it_Permissions (db_Tables db)))" and "rangesSplit e"
  shows "\<exists>ws. reconciled (trimReconcile ws q0) ((\<lambda>d. TrimSpace (pd_PermissionKey d)) ` set (prq_Definitions q0))
    (it_Permissions (db_Tables db)) x (it_Permissions (db_Tables db'))"
proof -
  let ?rows = "it_Permissions (db_Tables db)" and ?K = "(\<lambda>d. TrimSpace (pd_PermissionKey d)) ` set (prq_Definitions q0)"
  from call obtain ws where ws: "NewWorkspaceID (prq_WorkspaceID q0) = Inr ws"
    by (cases "NewWorkspaceID (prq_WorkspaceID q0)") (simp_all add: PermissionStore_Reconcile_def andThen_lifted)
  let ?q = "trimReconcile ws q0"
  have "triple (tables (\<lambda>t. it_Permissions t = ?rows)) (PermissionStore_Reconcile e q0)
      (\<lambda>x. tables (\<lambda>t. reconciled ?q ?K ?rows x (it_Permissions t))) (\<lambda>_ _. True)"
    unfolding PermissionStore_Reconcile_def ws andThen_lifted Let_def
  proof (rule triple_pure, rule triple_lifted)
    fix incoming
    assume "incomingDefinitions ?q [] (prq_Definitions q0) = Inr incoming"
    from incomingDefinitions_sound [OF this] have
      ds: "\<And>k d. map_of incoming k = Some d \<Longrightarrow> pd_PermissionKey d = k \<and> submitted (prq_SourceOwner ?q) (prq_SnapshotHash ?q) d"
      and K: "fst ` set incoming = ?K" by simp_all
    have body: "triple (tables (\<lambda>t. it_Permissions t = ?rows)) (andThen (reconcileWithExecutor e ?q incoming) (\<lambda>receipt. ret (receipt, True)))
        (\<lambda>(x, commit). tables (\<lambda>t. if commit then reconciled ?q ?K ?rows x (it_Permissions t) else False)) (\<lambda>_ _. True)"
      by (rule triple_andThen [OF reconcile_executor [OF assms(3, 2) ds]]) (auto simp: K intro!: triple_ret)
    show "triple (tables (\<lambda>t. it_Permissions t = ?rows)) (transaction e (andThen (reconcileWithExecutor e ?q incoming) (\<lambda>receipt. ret (receipt, True))))
        (\<lambda>x. tables (\<lambda>t. reconciled ?q ?K ?rows x (it_Permissions t))) (\<lambda>_ _. True)"
      by (rule triple_transaction [OF body]) simp_all
  qed
  from tripleD(1) [OF this _ call] show ?thesis by blast
qed

end
