(* ===== verification/IdentityStoreProperties.thy ===== *)
theory IdentityStoreProperties
  imports ReviewHistory Reconciliation Samples
begin

section \<open>A concrete database of identities\<close>

text \<open>
  A driver that fails as told, with plain functions in place of SHA-256 and JSON, and a
  database with an active and an erased account, a role, an assignment under review and the
  permissions of two owners.
\<close>

definition sampleIdentityEnv :: "(nat \<Rightarrow> go_error option) \<Rightarrow> identityStoreEnv" where
  "sampleIdentityEnv faults = \<lparr>se_Fails = faults, is_Env = sampleEnv, is_Hash = (\<lambda>v. v), is_FoldKey = (\<lambda>v. v),
     is_Ranges = (\<lambda>_ n. Inr [(0, n)]), is_EncodeStrings = (\<lambda>vs. concat vs), is_DecodeStrings = (\<lambda>v. Some (if v = [] then [] else [v])),
     is_EncodeBatch = rcpt_ID, is_DecodeBatch = (\<lambda>_. None),
     is_EncodeDecision = adx_ItemID, is_DecodeDecision = (\<lambda>v. Some (zeroReviewReceipt\<lparr>adx_ItemID := v\<rparr>))\<rparr>"

abbreviation soundIdentityEnv :: identityStoreEnv where "soundIdentityEnv \<equiv> sampleIdentityEnv (\<lambda>_. None)"

definition sampleUserRow :: "string \<Rightarrow> string \<Rightarrow> identityUserRow" where
  "sampleUserRow i status = (userRowOf soundIdentityEnv ''acme'' (sampleUser i))\<lparr>iu_Status := status, iu_Version := 1\<rparr>"

definition sampleReviewItem :: IdentityAccessReviewItem where
  "sampleReviewItem = zeroReviewItem\<lparr>ari_ID := ''i1'', ari_ReviewID := ''v1'', ari_UserID := ''u1'', ari_RoleID := ''r1'',
     ari_RoleKey := ''r1'', ari_Status := ''pending'', ari_Version := 1\<rparr>"

definition sampleReviewRow :: reviewRow where
  "sampleReviewRow = \<lparr>iv_WorkspaceID = ''acme'', iv_ID = ''v1'', iv_PeriodStart = [], iv_PeriodEnd = [], iv_DueAt = [],
     iv_Status = IdentityAccessReviewOpen, iv_CreatedBy = ''admin'', iv_CreatedAt = [], iv_UpdatedAt = []\<rparr>"

definition samplePermission :: "string \<Rightarrow> string \<Rightarrow> string \<Rightarrow> permissionRow" where
  "samplePermission key owner hash = \<lparr>pd_WorkspaceID = ''acme'', pd_ID = key, pd_PermissionKey = key, pd_ResourceKey = [],
     pd_OperationKey = [], pd_Label = [], pd_Description = [], pd_Category = [], pd_SourceKind = [], pd_SourceOwner = owner,
     pd_DefinitionStatus = ''active'', pd_Enabled = False, pd_DefinitionHash = ''d'', pd_SourceSnapshotHash = hash,
     pd_CreatedAt = [], pd_UpdatedAt = []\<rparr>"

definition sampleIdentityTables :: identityTables where
  "sampleIdentityTables = \<lparr>it_Users = [sampleUserRow ''u1'' ''active'', sampleUserRow ''u9'' ''erased''],
     it_Roles = [roleRow ''acme'' [] (sampleRole ''r1'')],
     it_Assignments = [assignmentValues ''acme'' [] (sampleAssignment ''u1'' ''r1'')],
     it_Menus = [], it_RoleMenus = [], it_RoleRequests = [], it_BatchReceipts = [], it_Units = [], it_Workloads = [],
     it_Permissions = [samplePermission ''a.read'' ''crm'' ''h1'', samplePermission ''a.write'' ''crm'' ''h1'', samplePermission ''b.read'' ''erp'' ''g1''],
     it_Reviews = [sampleReviewRow], it_ReviewItems = [itemRowOf soundIdentityEnv ''acme'' ''v1'' sampleReviewItem],
     it_ReviewReceipts = [], it_Credentials = [], it_Accounts = [], it_Factors = [], it_Tokens = []\<rparr>"

definition sampleIdentityDb :: identityDb where
  "sampleIdentityDb = \<lparr>db_Tables = sampleIdentityTables, db_Statements = 0\<rparr>"


text \<open>The item is revoked; the same request comes again, and another with a key of its own.\<close>

definition sampleDecision :: "string \<Rightarrow> IdentityAccessReviewDecisionMutation" where
  "sampleDecision key = \<lparr>adm_WorkspaceID = ''acme'', adm_ItemID = ''i1'', adm_ReviewerID = ''admin'',
     adm_Request = \<lparr>adr_Decision = IdentityAccessReviewRevoke, adr_ReplacementRoleID = [], adr_ExpiresAt = [], adr_Reason = ''left'',
       adr_ExpectedVersion = 1, adr_IdempotencyKey = key\<rparr>,
     adm_RequestFingerprint = ''f''\<rparr>"

definition afterDecision :: identityDb where
  "afterDecision = snd (ReviewStore_Apply soundIdentityEnv (sampleDecision ''k1'') None sampleIdentityDb)"

definition sampleReceipt :: IdentityAccessReviewDecisionReceipt where
  "sampleReceipt = decisionReceipt soundIdentityEnv ''acme'' (sampleDecision ''k1'')
     (decidedItem soundIdentityEnv (sampleDecision ''k1'') sampleReviewItem)"

lemma first_decision: "ReviewStore_Apply soundIdentityEnv (sampleDecision ''k1'') None sampleIdentityDb = (Inr sampleReceipt, afterDecision)"
proof -
  have "fst (ReviewStore_Apply soundIdentityEnv (sampleDecision ''k1'') None sampleIdentityDb) = Inr sampleReceipt" by code_simp
  then show ?thesis by (simp add: afterDecision_def prod_eq_iff)
qed

lemma second_decision:
  "fst (ReviewStore_Apply soundIdentityEnv (sampleDecision ''k2'') None afterDecision) = Inl reviewConcurrentDecision"
  "map_sum id adx_Replayed (fst (ReviewStore_Apply soundIdentityEnv (sampleDecision ''k1'') None afterDecision)) = Inr True"
  by code_simp+

section \<open>Properties of the SQL identity stores\<close>

subsection \<open>Users\<close>

lemma userViolation_unique:
  "userViolation rows = None \<Longrightarrow> r \<in> set rows \<Longrightarrow> r' \<in> set rows \<Longrightarrow> userKey r = userKey r' \<Longrightarrow> r = r'"
  by (auto simp: userViolation_def distinct_map inj_on_def split: if_splits)

text \<open>
  C18: over any history of the SQL store of users, its calls in any order and any of their
  statements failing, identifiers stay unique in a workspace and login names in the
  installation; an account that is erased stays exactly as it is, and any other account that
  no operation of the history removes by its own workspace and identifier keeps one row,
  unchanged or at a later version with its time of creation, whatever else is removed.
\<close>

theorem user_rows_continue:
  assumes "userHistory db ops db'" and "userViolation (it_Users (db_Tables db)) = None"
    and "r \<in> set (it_Users (db_Tables db))" and "iu_Status r = ''erased'' \<or> Some (userKey r) \<notin> removedUser ` set ops"
  shows "userViolation (it_Users (db_Tables db')) = None
    \<and> (\<exists>!r'. r' \<in> set (it_Users (db_Tables db')) \<and> userKey r' = userKey r)
    \<and> (\<exists>r' \<in> set (it_Users (db_Tables db')). userKey r' = userKey r
         \<and> (r' = r \<or> iu_Status r \<noteq> ''erased'' \<and> iu_Version r < iu_Version r' \<and> iu_CreatedAt r' = iu_CreatedAt r))"
proof -
  note s = userHistory_succeeds [OF assms(1)]
  with assms(2) have v: "userViolation (it_Users (db_Tables db')) = None" by (simp add: succeeds_def)
  from s assms(3, 4) obtain r' where r': "r' \<in> set (it_Users (db_Tables db'))" "continues r r'"
    unfolding succeeds_def by blast
  with userViolation_unique [OF v] have "\<exists>!r'. r' \<in> set (it_Users (db_Tables db')) \<and> userKey r' = userKey r"
    unfolding continues_def by metis
  with v r' show ?thesis unfolding continues_def by blast
qed

text \<open>A change of one user, and a removal of the other, who is erased.\<close>

definition sampleUserRun :: identityDb where
  "sampleUserRun = snd (runUser soundIdentityEnv (RemoveUserRow ''acme'' ''u9'')
     (snd (runUser soundIdentityEnv (UpsertUser ''acme'' (sampleUser ''u1'')) sampleIdentityDb)))"

lemma sample_user_history:
  "userHistory sampleIdentityDb [UpsertUser ''acme'' (sampleUser ''u1''), RemoveUserRow ''acme'' ''u9''] sampleUserRun"
proof -
  note one = call [OF start [of sampleIdentityDb], where x = "UpsertUser ''acme'' (sampleUser ''u1'')" and e = soundIdentityEnv]
  show ?thesis
    using call [OF one, where x = "RemoveUserRow ''acme'' ''u9''" and e = soundIdentityEnv] by (simp add: sampleUserRun_def)
qed

lemma user_rows_continue_witness:
  "map iu_Version (it_Users (db_Tables sampleUserRun)) = [2, 1]
   \<and> sampleUserRow ''u9'' ''erased'' \<in> set (it_Users (db_Tables sampleUserRun))
   \<and> (\<exists>!r. r \<in> set (it_Users (db_Tables sampleUserRun)) \<and> userKey r = (''acme'', ''u1''))"
proof (intro conjI)
  show "map iu_Version (it_Users (db_Tables sampleUserRun)) = [2, 1]" by code_simp
  have v: "userViolation (it_Users (db_Tables sampleIdentityDb)) = None"
    and u9: "sampleUserRow ''u9'' ''erased'' \<in> set (it_Users (db_Tables sampleIdentityDb))"
    "iu_Status (sampleUserRow ''u9'' ''erased'') = ''erased''" and w: "NewWorkspaceID ''acme'' = Inr ''acme''"
    by code_simp+
  have rows: "sampleUserRow ''u1'' ''active'' \<in> set (it_Users (db_Tables sampleIdentityDb))" "userKey (sampleUserRow i status) = (''acme'', i)" for i status
    by (simp_all add: sampleIdentityDb_def sampleIdentityTables_def sampleUserRow_def userRowOf_def sampleUser_def)
  from user_rows_continue [OF sample_user_history v u9(1)] u9(2)
  show "sampleUserRow ''u9'' ''erased'' \<in> set (it_Users (db_Tables sampleUserRun))" by metis
  have "Some (userKey (sampleUserRow ''u1'' ''active'')) \<notin> removedUser ` set [UpsertUser ''acme'' (sampleUser ''u1''), RemoveUserRow ''acme'' ''u9'']"
    by (simp add: rows(2) w)
  with user_rows_continue [OF sample_user_history v rows(1)]
  show "\<exists>!r. r \<in> set (it_Users (db_Tables sampleUserRun)) \<and> userKey r = (''acme'', ''u1'')" by (simp add: rows(2))
qed


subsection \<open>Access reviews\<close>

text \<open>
  C25: over any history in which items of access reviews are decided, reviews are created with a
  data scope or without, and users change, in any order and with any statements failing, no item is decided twice; an item that
  was decided before is not decided again, and its row never changes.
\<close>

theorem review_items_decided_once:
  assumes "reviewHistory db ks db'" and "itemViolation (it_ReviewItems (db_Tables db)) = None"
    and "r \<in> set (it_ReviewItems (db_Tables db))" and "ii_Status r \<noteq> ''pending''"
  shows "distinct ks \<and> itemKey r \<notin> set ks \<and> r \<in> set (it_ReviewItems (db_Tables db'))"
  using reviewHistory_once [OF assms(1, 2)] assms(3, 4) by (auto simp: decidedOnce_def)

lemma second_request: "reviewHistory afterDecision [] (snd (ReviewStore_Apply soundIdentityEnv (sampleDecision ''k2'') None afterDecision))"
  using refuses [OF opens, of soundIdentityEnv "sampleDecision ''k2''" None afterDecision] second_decision(1)
  by (metis old.sum.simps(5) prod.collapse)

lemma review_items_decided_once_witness:
  "let r = itemColumns (adx_Item sampleReceipt) (itemRowOf soundIdentityEnv ''acme'' ''v1'' sampleReviewItem) in
     ii_Status r = ''decided'' \<and> r \<in> set (it_ReviewItems (db_Tables
       (snd (ReviewStore_Apply soundIdentityEnv (sampleDecision ''k2'') None afterDecision))))"
proof -
  let ?r = "itemColumns (adx_Item sampleReceipt) (itemRowOf soundIdentityEnv ''acme'' ''v1'' sampleReviewItem)"
  have "it_ReviewItems (db_Tables afterDecision) = [?r]" "itemViolation [?r] = None" "ii_Status ?r = ''decided''"
    by code_simp+
  with review_items_decided_once [OF second_request, of ?r] show ?thesis by (simp add: Let_def)
qed

text \<open>
  C13: a decision that is not a replay finds its item pending at the version that the request
  names, and stores the decision with the next version; keeping leaves every assignment, and
  revoking removes exactly the assignments of that user and role; the review is completed when no
  item of it is pending, and open otherwise.
\<close>

theorem review_decision_takes_effect:
  assumes "ReviewStore_Apply e m scope db = (Inr x, db')" and "\<not> adx_Replayed x"
  shows "(\<exists>r. r \<in> set (it_ReviewItems (db_Tables db)) \<and> itemKey r = (adx_WorkspaceID x, adx_ItemID x)
       \<and> ii_Status r = ''pending'' \<and> ii_Version r = adr_ExpectedVersion (adm_Request m)
       \<and> itemColumns (adx_Item x) r \<in> set (it_ReviewItems (db_Tables db')))
     \<and> ari_Status (adx_Item x) = ''decided'' \<and> ari_Version (adx_Item x) = adr_ExpectedVersion (adm_Request m) + 1
     \<and> ari_Decision (adx_Item x) = adr_Decision (adm_Request m)
     \<and> (adr_Decision (adm_Request m) = IdentityAccessReviewKeep \<longrightarrow> it_Assignments (db_Tables db') = it_Assignments (db_Tables db))
     \<and> (adr_Decision (adm_Request m) = IdentityAccessReviewRevoke \<longrightarrow> it_Assignments (db_Tables db') =
          filter (\<lambda>a. \<not> (ia_WorkspaceID a = adx_WorkspaceID x \<and> ia_UserID a = ari_UserID (adx_Item x) \<and> ia_RoleID a = ari_RoleID (adx_Item x)))
            (it_Assignments (db_Tables db)))
     \<and> reviewSettled (adx_WorkspaceID x) (ari_ReviewID (adx_Item x)) (db_Tables db')"
proof -
  from apply_cases [OF assms(1)] assms(2) obtain ws p where
    i: "it_ReviewItems (db_Tables db') = updateRows p (itemColumns (adx_Item x)) (it_ReviewItems (db_Tables db))"
      "length (filter p (it_ReviewItems (db_Tables db))) = 1"
    and p: "\<And>r. p r \<Longrightarrow> itemKey r = (adx_WorkspaceID x, adx_ItemID x) \<and> ii_Status r = ''pending''
        \<and> ii_Version r = adr_ExpectedVersion (adm_Request m)"
    and rest: "ari_Status (adx_Item x) = ''decided''" "ari_Version (adx_Item x) = adr_ExpectedVersion (adm_Request m) + 1"
      "ari_Decision (adx_Item x) = adr_Decision (adm_Request m)" "reviewSettled (adx_WorkspaceID x) (ari_ReviewID (adx_Item x)) (db_Tables db')"
      "decidedAssignments (adx_WorkspaceID x) (adr_Decision (adm_Request m)) (adx_Item x) (it_Assignments (db_Tables db)) (it_Assignments (db_Tables db'))"
    by (auto simp: decisionOutcome_def firstDecision_def trimDecision_def Let_def)
  from i(2) obtain r where "r \<in> set (filter p (it_ReviewItems (db_Tables db)))"
    by (cases "filter p (it_ReviewItems (db_Tables db))") auto
  then have r: "r \<in> set (it_ReviewItems (db_Tables db))" "p r" by auto
  then have "itemColumns (adx_Item x) r \<in> set (it_ReviewItems (db_Tables db'))" unfolding i(1) by (force simp: updateRows_def)
  with r p rest show ?thesis by (auto simp: decidedAssignments_def ofPair_def)
qed

lemma review_decision_takes_effect_witness:
  "\<not> adx_Replayed sampleReceipt \<and> ari_Version (adx_Item sampleReceipt) = 2 \<and> it_Assignments (db_Tables afterDecision) = []
   \<and> reviewSettled ''acme'' ''v1'' (db_Tables afterDecision)"
proof -
  have f: "\<not> adx_Replayed sampleReceipt" "adx_WorkspaceID sampleReceipt = ''acme''" "ari_ReviewID (adx_Item sampleReceipt) = ''v1''"
    "it_Assignments (db_Tables afterDecision) = []" "adr_ExpectedVersion (adm_Request (sampleDecision ''k1'')) = 1"
    by code_simp+
  from review_decision_takes_effect [OF first_decision f(1)] show ?thesis unfolding f(2-) by (simp add: f)
qed


subsection \<open>Permissions\<close>

text \<open>
  C24: after an owner has published a new snapshot of its permissions, its active permissions are
  exactly those submitted, its others are retired and all carry the hash of the snapshot; the
  permissions of other owners and workspaces are as before; every permission that was stored
  keeps its row, with its identifier, its administrator's switch and its time of creation, and
  keys stay unique.
\<close>

theorem reconcile_publishes:
  assumes "PermissionStore_Reconcile e q db = (Inr x, db')" and "prc_SnapshotHash x \<noteq> prc_PreviousSnapshotHash x"
    and "distinct (map permissionKey (it_Permissions (db_Tables db)))" and "rangesSplit e"
  shows "let rows = it_Permissions (db_Tables db); rows' = it_Permissions (db_Tables db');
      owned = (\<lambda>r. pd_WorkspaceID r = prc_WorkspaceID x \<and> pd_SourceOwner r = prc_SourceOwner x) in
    pd_PermissionKey ` {r \<in> set rows'. owned r \<and> pd_DefinitionStatus r = permissionActive}
      = (\<lambda>d. TrimSpace (pd_PermissionKey d)) ` set (prq_Definitions q)
    \<and> (\<forall>r \<in> set rows'. owned r \<longrightarrow> pd_SourceSnapshotHash r = prc_SnapshotHash x)
    \<and> filter (\<lambda>r. \<not> owned r) rows' = filter (\<lambda>r. \<not> owned r) rows
    \<and> (\<forall>r \<in> set rows. \<exists>r' \<in> set rows'. permissionKey r' = permissionKey r \<and> pd_ID r' = pd_ID r
         \<and> pd_Enabled r' = pd_Enabled r \<and> pd_CreatedAt r' = pd_CreatedAt r)
    \<and> distinct (map permissionKey rows')"
proof -
  let ?K = "(\<lambda>d. TrimSpace (pd_PermissionKey d)) ` set (prq_Definitions q)"
  from reconcile_call [OF assms(1, 3, 4)] assms(2) have
    p: "published (prc_WorkspaceID x) (prc_SourceOwner x) (prc_SnapshotHash x) ?K (it_Permissions (db_Tables db)) (it_Permissions (db_Tables db'))"
    by (auto simp: reconciled_def)
  note published_keys [OF p]
  with p show ?thesis unfolding published_def retains_def Let_def ownedBy_def by blast
qed

definition sampleReconcile :: IdentityPermissionReconcileRequest where
  "sampleReconcile = \<lparr>prq_WorkspaceID = ''acme'', prq_SourceOwner = ''crm'', prq_PreviousSnapshotHash = ''h1'', prq_SnapshotHash = ''h2'',
     prq_Definitions = [samplePermission ''a.read'' ''crm'' ''h2'', samplePermission ''a.new'' ''crm'' ''h2'']\<rparr>"

lemma reconcile_publishes_witness:
  "let rows = it_Permissions (db_Tables (snd (PermissionStore_Reconcile soundIdentityEnv sampleReconcile sampleIdentityDb))) in
     map pd_DefinitionStatus rows = [''active'', ''retired'', ''active'', ''active'']
     \<and> pd_PermissionKey ` {r \<in> set rows. (pd_WorkspaceID r = ''acme'' \<and> pd_SourceOwner r = ''crm'') \<and> pd_DefinitionStatus r = permissionActive}
       = {''a.read'', ''a.new''}"
proof -
  let ?run = "PermissionStore_Reconcile soundIdentityEnv sampleReconcile sampleIdentityDb"
  have "map_sum id (\<lambda>x. (prc_WorkspaceID x, prc_SourceOwner x, prc_SnapshotHash x, prc_PreviousSnapshotHash x)) (fst ?run)
      = Inr (''acme'', ''crm'', ''h2'', ''h1'')"
    and s: "map pd_DefinitionStatus (it_Permissions (db_Tables (snd ?run))) = [''active'', ''retired'', ''active'', ''active'']"
    and d: "distinct (map permissionKey (it_Permissions (db_Tables sampleIdentityDb)))"
    and k: "map (\<lambda>d. TrimSpace (pd_PermissionKey d)) (prq_Definitions sampleReconcile) = [''a.read'', ''a.new'']"
    by code_simp+
  then obtain x where x: "?run = (Inr x, snd ?run)" "prc_WorkspaceID x = ''acme''" "prc_SourceOwner x = ''crm''"
    "prc_SnapshotHash x = ''h2''" "prc_PreviousSnapshotHash x = ''h1''"
    by (cases "fst ?run") (auto simp: prod_eq_iff)
  have r: "rangesSplit soundIdentityEnv" by (simp add: rangesSplit_def sampleIdentityEnv_def batchOf_def)
  from arg_cong [OF k, of set] have k': "(\<lambda>d. TrimSpace (pd_PermissionKey d)) ` set (prq_Definitions sampleReconcile) = {''a.read'', ''a.new''}" by simp
  have "prc_SnapshotHash x \<noteq> prc_PreviousSnapshotHash x" by (simp add: x)
  from reconcile_publishes [OF x(1) this d r] s show ?thesis unfolding Let_def x(2, 3) k' by blast
qed

end
