(* ===== verification/Spec2Isabelle.thy ===== *)
theory Spec2Isabelle
  imports StoreProperties OrganizationProperties UserProperties RoleProperties Principals AuthFlows
    PolicyProperties TokenProperties ChallengeProperties AuthStoreProperties FactorProperties LockoutProperties FlowProperties
    MenuProperties Workloads AccessProperties EntitlementStore MenuStore UnitStore UserStore AccessReviewStore
    PermissionStore AccessReviews IdentityStoreProperties
begin

text \<open>
  This library models the core of the identity service and proves what makes it correct.
  Paths below are under \<open>src/internal\<close>, file names under \<open>domain/identity\<close>
  and \<open>domain/auth\<close> unless a longer path is given.

  \<^bold>\<open>The program.\<close>  The identity domain keeps users, organization units, roles and their
  assignments, menus, requests for roles and entitlement batches, all by workspace, in a
  store behind a repository interface.  Every operation runs for a principal whose roles
  carry permissions with a data scope; operations ``within a data scope'' see and change
  only what the scope covers.  The authentication domain keeps credentials, refresh tokens,
  pending challenges, factors, external accounts and authorization codes in a second
  repository, signs and verifies access tokens, and runs the login flows; it reaches the
  identity domain through a port.  The repository of the first domain is implemented twice, in
  memory and in SQL; that of the second in SQL.  Application services guard the operations
  of the identity domain by the permissions of the actor and run access reviews.

  \<^bold>\<open>Theories and source.\<close>
  \<^item> \<open>Prelude\<close>: strings as byte lists, \<open>TrimSpace\<close> and its kin over the UTF-8 encoding,
    Go maps as association lists, results \<open>go_error + 'a\<close>, sorting, and the collections of
    simplification rules.  \<open>GoTime\<close>: \<open>time.Parse\<close> and \<open>Format\<close> of RFC 3339 over civil dates.
    \<open>Encodings\<close>: base64, base32, hexadecimal, UTF-8, RFC 3339 with nanoseconds.
  \<^item> \<open>IdentityModel\<close>: the structs of \<open>model\<close>.  \<open>AccessContract\<close>: workspaces, scopes,
    permissions and authorization (\<open>model/identity_workspace_scope.go\<close>,
    \<open>identity_data_scope_contract.go\<close>, \<open>contract/identity_access_contract.go\<close>,
    \<open>identity_authorization_contract.go\<close>).
  \<^item> \<open>MemoryStore\<close>, \<open>MemoryTables\<close>, \<open>MemoryDirectory\<close>, \<open>MemorySessions\<close>: the in-memory store
    (\<open>infrastructure/persistence/database/identity\<close>, \<open>memory_identity_store.go\<close> and
    \<open>identity_store_memory_*.go\<close>), one record of maps, one function per method.
  \<^item> \<open>Configuration\<close>, \<open>DomainService\<close>, \<open>OrganizationUnits\<close>, \<open>Users\<close>, \<open>Roles\<close>, \<open>Entitlements\<close>,
    \<open>Principals\<close>, \<open>Menus\<close>, \<open>Searches\<close>, \<open>Workloads\<close>: the service of the identity domain
    (\<open>service/identity_*.go\<close>), written against the store's operations.
  \<^item> \<open>FieldAccess\<close>: access to the fields of an object, risk and assurance of actions, expansion of
    permission sets (\<open>contract/identity_object_access.go\<close>, \<open>identity_action_policy.go\<close>, the
    structs of \<open>domain/definition/model\<close> they read, \<open>policy\<close>).  \<open>AccessProjections\<close>,
    \<open>AccessReports\<close>: what a principal may do and why, feature permissions, governance
    reports and request contexts (\<open>projection\<close>).
  \<^item> \<open>AuthModel\<close>, \<open>AuthPolicy\<close>: structs and pure policies of the authentication domain.
    \<open>AuthService\<close>: its state, the ports as records of functions, keys and construction.
    \<open>AuthTokens\<close>, \<open>AuthSessions\<close>, \<open>AuthChallenges\<close>, \<open>AuthProviders\<close>, \<open>AuthFlows\<close>: its
    operations (\<open>service/auth_*.go\<close>), generic in the state of the repository.
  \<^item> \<open>ApplicationService\<close>, \<open>AccessService\<close>: the application service of the identity domain and of
    effective access (\<open>application/identity\<close>, \<open>identity_scoped_application_service.go\<close>,
    \<open>identity_scoped_role_application_service.go\<close>, \<open>identity_entitlement_batch_application_service.go\<close>,
    \<open>identity_effective_access_application_service.go\<close> and others).  \<open>AccessReviewModel\<close>,
    \<open>AccessReviews\<close>: periodic reviews of assignments
    (\<open>identity_access_review_application_service.go\<close>), generic in the repository of reviews.
  \<^item> \<open>SqlTables\<close>: statements, unique indexes and transactions.  \<open>AuthTables\<close>, \<open>AuthStoreSessions\<close>,
    \<open>AuthStoreAdministration\<close>, \<open>AuthStoreChallenges\<close>: the SQL store of the second
    domain (\<open>infrastructure/persistence/database/auth\<close>): every operation is the sequence of
    statements it sends, over tables with the schema's unique keys; \<open>AuthStore\<close> assembles them to
    the repository record that the service takes.
  \<^item> \<open>IdentityTables\<close> and the stores on it, in the same manner for the first domain
    (\<open>infrastructure/persistence/database/identity\<close>): \<open>RoleAssignmentStore\<close> (\<open>roleassignment\<close>,
    \<open>authorization/role\<close>), \<open>EntitlementStore\<close> (\<open>authorization/rolerequest\<close>, \<open>entitlement\<close>),
    \<open>MenuStore\<close> (\<open>authorization/menu\<close>, workloads), \<open>UnitStore\<close> and \<open>UserStore\<close> (\<open>projection\<close>),
    \<open>AccessReviewStore\<close> (\<open>accessreview\<close>), \<open>PermissionStore\<close> (\<open>authorization/permission\<close>).

  A Go method on a value is a function of the value; a method that mutates returns the new
  state.  An error is \<open>Inl\<close> with its kind, code and parameters.  An operation of the
  authentication domain is a state transformer over a world: the repository's state, the
  challenges the service itself keeps, and the position in the random source.

  \<^bold>\<open>Lemmas and properties.\<close>  Every property is marked by its number in the text before it.
  \<^item> \<open>MemoryLaws\<close>, \<open>MemoryInvariants\<close>, \<open>MemoryHistory\<close>, \<open>MemoryIsolation\<close> give the laws of the
    store's operations, the reachable stores by rule induction and a frame for other
    workspaces; \<open>StoreProperties\<close> (C1 to C10) concludes isolation, one row per key in every
    table (those kept by workspace, under workspaces without a NUL byte, and those of
    credentials, tokens and accounts, kept under bare keys), finality of
    erasure, growing versions, read-back, independence of map order, atomicity of scoped
    updates, cascades, replay and compare-and-set.
  \<^item> \<open>Hierarchy\<close> specifies ancestors, depth and path; \<open>OrganizationProperties\<close> (C11, C12)
    shows that upserts return, keep the tree and its derived facts, and that the prepared
    delivery agrees.  \<open>ReportingLines\<close>, \<open>UserLaws\<close> and \<open>UserProperties\<close> (C14 to C17, C19) treat
    managers, removal, emails, locales and data scopes, \<open>RoleProperties\<close> (C20, C21)
    assignments.
    \<open>MenuProperties\<close> (C39) keeps the menus of a workspace a forest and
    \<open>AccessProperties\<close> (C40) says when the explanation of a decision and the feature
    permissions, which read different data, agree: for actions without a dot, with or
    without a field; a dotted action is always denied by the explanation.
  \<^item> \<open>PolicyProperties\<close> (C22, C23): codes, digits, phone numbers.  \<open>TokenProperties\<close>
    (C26 to C28): configuration, tokens of users and of services, and initial passwords.  A
    token of a user verifies unless the issuer was configured with a blank before its
    trailing slashes, which the configuration admits.
    \<open>AuthLogic\<close> is a Hoare logic for operations; \<open>ChallengeProperties\<close> (C29, C30) refines the
    challenges in memory to tickets and bounds guesses over any run.
  \<^item> \<open>InstantOrder\<close> relates the text order of time stamps to time.  \<open>SqlLogic\<close> carries the
    Hoare logic to statements, their sequences and transactions; \<open>AuthStoreHistory\<close> defines
    histories of the SQL store and, in the locale \<open>staking\<close>, an account of what its rows are worth, which is
    interpreted for tokens, codes, challenges and guesses; \<open>AuthStoreProperties\<close> (C31 to C34)
    concludes.  \<open>FactorProperties\<close> (C35), \<open>LockoutProperties\<close> (C36) and \<open>FlowProperties\<close>
    (C37, C38) treat authenticators, lockout, the search for identifiers and second factors;
    \<open>FlowProperties\<close> also models the port by which the process connects the two
    domains (\<open>src/internal/assembly/auth_identity.go\<close>) and runs C37 on it.
  \<^item> \<open>UserHistory\<close> and \<open>ReviewHistory\<close> define
    histories of the SQL stores of users and of access reviews, \<open>Reconciliation\<close> says what publishing
    a snapshot of permissions leaves in their table; the locale \<open>user_frame\<close> says what
    any operation on users leaves of a property of the tables, and is interpreted for the rows of
    users and for the items under review.  \<open>IdentityStoreProperties\<close> concludes: accounts
    continue unless a removal names them (C18), items are decided once, however reviews
    are created (C25), a decision takes effect (C13), a snapshot is
    published (C24).
  \<^item> \<open>Samples\<close>, \<open>ServiceSamples\<close>, \<open>AuthSamples\<close>, \<open>AuthStoreSamples\<close> hold the concrete inputs
    the theorems are applied to.

  \<^bold>\<open>Assumptions and parameters.\<close>
  \<^item> Code outside the repository is a parameter: \<open>env\<close> holds the clock and the sanitizing of
    error parameters, \<open>authEnv\<close> adds randomness, HMAC, SHA-256, bcrypt, Ed25519, JSON of
    tokens, URLs and Unicode classes (a signature is assumed to verify only for a private key
    that is proper, its second half the public key of its first), \<open>storeEnv\<close> adds encryption, JSON of payloads and, by
    the number of a statement, whether the driver fails it.
  \<^item> A request reads the clock once; the zone is UTC; \<open>ToLower\<close> and \<open>EqualFold\<close> fold ASCII
    only.  Map iteration is over the association list; where the code's result depends on it,
    a theorem says that it does not, or the list is universally quantified.
  \<^item> The in-memory store and the identity service run one operation at a time, as their lock
    provides.  SQL transactions run alone; a transaction that is not committed, or whose
    commit fails, changes nothing; a cancelled context is a failing statement; text compares
    bytewise; the rows an update reports are the rows it matches; a user without
    organization has the empty organization.  An upsert resolves a conflict on the columns it
    names, as PostgreSQL and SQLite do, and writes its rows one after the other; the host has
    no transaction of its own open.

  \<^bold>\<open>Loops.\<close>  Loops over lists are structural recursions.  The walk up the parents of a unit has no
  guard in the source and is a partial function: C11 shows that it returns on every store.
  The removal of a menu collects the subtree of stored rows by an unguarded recursion, again a
  partial function; C39 shows that it returns when the menus are a forest, which upserts keep.
  Walks along managers and through subtrees take the number of rows as fuel, which the
  invariants show to be enough.  The search for an unused identifier (\<open>freeUserID\<close>) takes
  fuel and reports running out of it as an error of its own; C37 shows that one more try
  than there are users suffices over any port that answers trimmed identifiers from finitely
  many users, as the port over the store does.  The retries of the random source are bounded in the source.

  \<^bold>\<open>Not modelled.\<close>  The pagination library (a parameter of the searches); business profiles,
  except in the request contexts; request receipts and stored provider credentials; the metadata, authoring,
  manifest and portability domains, which validate uploaded documents; the application
  services of authentication, publication, seeds, profile bindings and delivery, which map
  requests; the SQL stores of profile bindings, delivery, provisioning, bootstrap, authoring and
  the searched pages, and migrations; providers of external identities, HTTP, and assembly
  but for the port named above.
\<close>

end
